(* ===== verification/Prelude.thy ===== *)
theory Prelude
  imports Main "HOL-Library.Word"
begin

text \<open>
  What every component of the development shares: the C integer types the emulator uses, the
  macros of \<^verbatim>\<open>src/nemu/include/macro.h\<close> (\<open>BITS\<close>, \<open>SEXT\<close>), the collections of rewrite rules
  the component proofs draw on, and generic facts on words, masks and shifts.
\<close>

unbundle bit_operations_syntax

section \<open>C integer types of an RV64 build\<close>

type_synonym uint8_t = "8 word"
type_synonym uint16_t = "16 word"
type_synonym uint32_t = "32 word"
type_synonym word_t = "64 word"
type_synonym vaddr_t = "64 word"
type_synonym paddr_t = "64 word"

section \<open>Rule collections\<close>

named_theorems field_defs \<open>instruction field extractors and encoders\<close>
named_theorems pmp_defs \<open>accessors of the PMP registers\<close>
named_theorems state_defs \<open>state update helpers\<close>
named_theorems bit_lits \<open>the bits of the mask constants\<close>

section \<open>Macros of macro.h\<close>

text \<open>\<open>BITMASK\<close>, \<open>BITS\<close> and \<open>SEXT\<close> on the 64-bit host type they are evaluated in.\<close>

definition BITMASK :: "nat \<Rightarrow> 64 word" where
  "BITMASK bits = push_bit bits 1 - 1"

definition BITS :: "64 word \<Rightarrow> nat \<Rightarrow> nat \<Rightarrow> 64 word" where
  "BITS x hi lo = drop_bit lo x AND BITMASK (hi - lo + 1)"

definition SEXT :: "64 word \<Rightarrow> nat \<Rightarrow> 64 word" where
  "SEXT x len = signed_take_bit (len - 1) x"

lemma BITMASK_mask: "BITMASK n = mask n"
  by (simp add: BITMASK_def mask_eq_exp_minus_1 push_bit_eq_mult)

lemma BITS_take_bit: "BITS x hi lo = take_bit (hi - lo + 1) (drop_bit lo x)"
  by (simp add: BITS_def BITMASK_mask take_bit_eq_mask)

lemma bit_BITS [bit_simps]:
  "bit (BITS x hi lo) n \<longleftrightarrow> n < hi - lo + 1 \<and> bit x (lo + n)"
  by (auto simp: BITS_take_bit bit_simps)

lemma bit_SEXT:
  "bit (SEXT x len) n \<longleftrightarrow> n < 64 \<and> bit x (min n (len - 1))"
  by (auto simp: SEXT_def bit_signed_take_bit_iff bit_imp_le_length min_def)

section \<open>Facts on words\<close>

text \<open>Shifts by one stay shifts, so that \<open>bit_simps\<close> applies to them.\<close>

declare push_bit_Suc [simp del]

lemma word_bit_eqI:
  fixes a b :: "'a::len word"
  assumes "\<And>n. n < LENGTH('a) \<Longrightarrow> bit a n = bit b n"
  shows "a = b"
  using assms by (rule bit_word_eqI)

lemma bit_out64: "\<not> n < 64 \<Longrightarrow> \<not> bit v n" for v :: "64 word"
  by (auto dest: bit_imp_le_length)

text \<open>The C idiom \<open>w & (1 << n)\<close>.\<close>

lemma and_power_eq_0 [simp]:
  "w AND 2 ^ n = 0 \<longleftrightarrow> \<not> bit w n" "2 ^ n AND w = 0 \<longleftrightarrow> \<not> bit w n"
  for w :: "'a::len word"
  by (simp_all add: and_exp_eq_0_iff_not_bit and.commute)

lemma word_succ_less:
  fixes x :: "'a::len word"
  assumes "x + 1 \<noteq> 0"
  shows "x < x + 1"
proof -
  have "x \<le> x + 1"
    using assms by (metis add_neg_numeral_special(8) inc_less_eq_self_iff_eq nle_le)
  then show ?thesis by (simp add: order.strict_iff_order)
qed

lemma unat_drop_bit_div: "unat (drop_bit n w) = unat w div 2 ^ n"
  for w :: "'a::len word"
  by (simp add: unat_drop_bit_eq) (simp add: drop_bit_eq_div)

lemma unat_take_bit_mod: "unat (take_bit n w) = unat w mod 2 ^ n"
  for w :: "'a::len word"
  by (simp add: unsigned_take_bit_eq) (simp add: take_bit_eq_mod)

lemma less_eq_drop_bit:
  fixes a b :: "'a::len word"
  assumes "a \<le> b"
  shows "drop_bit n a \<le> drop_bit n b"
  using assms by (simp add: word_le_nat_alt unat_drop_bit_div div_le_mono)

text \<open>A bound that is a multiple of \<open>2 ^ g\<close> is compared through the quotients.\<close>

lemma aligned_le_iff:
  fixes a w :: "'a::len word"
  assumes "take_bit g a = 0"
  shows "a \<le> w \<longleftrightarrow> drop_bit g a \<le> drop_bit g w"
proof
  assume "a \<le> w"
  then show "drop_bit g a \<le> drop_bit g w" by (rule less_eq_drop_bit)
next
  assume le: "drop_bit g a \<le> drop_bit g w"
  have "unat a mod 2 ^ g = 0"
    using assms by (metis unat_0 unat_take_bit_mod)
  then have "unat a = unat a div 2 ^ g * 2 ^ g" by auto
  also have "\<dots> \<le> unat w div 2 ^ g * 2 ^ g"
    using le by (simp add: word_le_nat_alt unat_drop_bit_div)
  also have "\<dots> \<le> unat w" by simp
  finally show "a \<le> w" by (simp add: word_le_nat_alt)
qed

lemma unat_and_not_mask:
  "unat (w AND NOT (mask n)) = unat w div 2 ^ n * 2 ^ n" for w :: "'a::len word"
proof -
  have "w AND NOT (mask n) = w - take_bit n w"
  proof -
    have "w AND NOT (mask n) = push_bit n (drop_bit n w)"
      by (rule bit_word_eqI) (auto simp: bit_simps)
    then show ?thesis using bits_ident [of n w] by (simp add: eq_diff_eq)
  qed
  moreover have "take_bit n w \<le> w"
    by (simp add: word_le_nat_alt unat_take_bit_mod)
  ultimately have "unat (w AND NOT (mask n)) = unat w - unat w mod 2 ^ n"
    by (simp add: unat_sub unat_take_bit_mod)
  then show ?thesis by (simp add: minus_mod_eq_div_mult)
qed

lemma and_not_mask_eq_iff:
  "v AND NOT (mask n) = w AND NOT (mask n) \<longleftrightarrow> unat v div 2 ^ n = unat w div 2 ^ n"
  for v w :: "'a::len word"
  by (simp add: word_unat_eq_iff unat_and_not_mask)

lemma le_length_takeWhile_upt:
  "n \<le> m \<Longrightarrow> n \<le> length (takeWhile P [0..<m]) \<longleftrightarrow> (\<forall>k<n. P k)"
proof
  assume n: "n \<le> m" "n \<le> length (takeWhile P [0..<m])"
  show "\<forall>k<n. P k"
  proof (intro allI impI)
    fix k assume "k < n"
    with n have k: "k < length (takeWhile P [0..<m])" by simp
    then have "takeWhile P [0..<m] ! k = k" using \<open>k < n\<close> n by (simp add: takeWhile_nth)
    with k show "P k" by (metis nth_mem set_takeWhileD)
  qed
next
  assume "n \<le> m" "\<forall>k<n. P k"
  then show "n \<le> length (takeWhile P [0..<m])"
    by (intro length_takeWhile_less_P_nth) auto
qed

text \<open>
  The bits of a constant, from the list of its set positions: the library reduces a bit of a word
  constant to one of the integer constant.
\<close>

lemma bit_literal:
  fixes w :: int
  assumes "fold (\<lambda>k w. w OR push_bit k 1) ks 0 = w"
  shows "bit w n \<longleftrightarrow> n \<in> set ks"
proof -
  have "bit (fold (\<lambda>k w. w OR push_bit k 1) ks v) n \<longleftrightarrow> bit v n \<or> n \<in> set ks" for v :: int
    by (induction ks arbitrary: v) (auto simp: bit_simps)
  from this [of 0] assms show ?thesis by simp
qed

lemma bit_literal_not:
  fixes w :: int
  assumes "NOT (fold (\<lambda>k w. w OR push_bit k 1) ks 0) = w"
  shows "bit w n \<longleftrightarrow> n \<notin> set ks"
  using bit_literal [OF refl, of ks n] assms by (auto simp: bit_not_iff)

lemma bit_3 [bit_lits]: "bit (0x3 :: int) n \<longleftrightarrow> n \<in> {0, 1}"
  by (subst bit_literal [of "[0, 1]"]) auto

lemma bit_22 [bit_lits]: "bit (0x22 :: int) n \<longleftrightarrow> n \<in> {1, 5}"
  by (subst bit_literal [of "[1, 5]"]) auto

lemma bit_122 [bit_lits]: "bit (0x122 :: int) n \<longleftrightarrow> n \<in> {1, 5, 8}"
  by (subst bit_literal [of "[1, 5, 8]"]) auto

lemma bit_c000000000 [bit_lits]: "bit (0xc000000000 :: int) n \<longleftrightarrow> n \<in> {38, 39}"
  by (subst bit_literal [of "[38, 39]"]) auto

lemma bit_4000000000 [bit_lits]: "bit (0x4000000000 :: int) n \<longleftrightarrow> n \<in> {38}"
  by (subst bit_literal [of "[38]"]) auto

lemma bit_8000000000 [bit_lits]: "bit (0x8000000000 :: int) n \<longleftrightarrow> n \<in> {39}"
  by (subst bit_literal [of "[39]"]) auto

lemma bit_7e79aa [bit_lits]: "bit (0x7e79aa :: int) n \<longleftrightarrow> n \<in> {1, 3, 5, 7, 8, 11, 12, 13, 14, 17, 18, 19, 20, 21, 22}"
  by (subst bit_literal [of "[1, 3, 5, 7, 8, 11, 12, 13, 14, 17, 18, 19, 20, 21, 22]"]) auto

lemma bit_80000003000c6122 [bit_lits]: "bit (0x80000003000c6122 :: int) n \<longleftrightarrow> n \<in> {1, 5, 8, 13, 14, 18, 19, 32, 33, 63}"
  by (subst bit_literal [of "[1, 5, 8, 13, 14, 18, 19, 32, 33, 63]"]) auto

lemma bit_f00000000 [bit_lits]: "bit (0xf00000000 :: int) n \<longleftrightarrow> n \<in> {32, 33, 34, 35}"
  by (subst bit_literal [of "[32, 33, 34, 35]"]) auto

lemma bit_a00000000 [bit_lits]: "bit (0xa00000000 :: int) n \<longleftrightarrow> n \<in> {33, 35}"
  by (subst bit_literal [of "[33, 35]"]) auto
lemma bit_not_1 [bit_lits]: "bit (- 0x2 :: int) n \<longleftrightarrow> n \<notin> {0}"
  by (subst bit_literal_not [of "[0]"]) auto

lemma bit_not_3 [bit_lits]: "bit (- 0x4 :: int) n \<longleftrightarrow> n \<notin> {0, 1}"
  by (subst bit_literal_not [of "[0, 1]"]) auto

lemma bit_not_c000000000 [bit_lits]: "bit (- 0xc000000001 :: int) n \<longleftrightarrow> n \<notin> {38, 39}"
  by (subst bit_literal_not [of "[38, 39]"]) auto

lemma bit_20 [bit_lits]: "bit (0x20 :: int) n \<longleftrightarrow> n \<in> {5}"
  by (subst bit_literal [of "[5]"]) auto

lemma bit_80 [bit_lits]: "bit (0x80 :: int) n \<longleftrightarrow> n \<in> {7}"
  by (subst bit_literal [of "[7]"]) auto

lemma bit_8 [bit_lits]: "bit (0x8 :: int) n \<longleftrightarrow> n \<in> {3}"
  by (subst bit_literal [of "[3]"]) auto

lemma bit_4 [bit_lits]: "bit (0x4 :: int) n \<longleftrightarrow> n \<in> {2}"
  by (subst bit_literal [of "[2]"]) auto

lemma bit_2 [bit_lits]: "bit (0x2 :: int) n \<longleftrightarrow> n \<in> {1}"
  by (subst bit_literal [of "[1]"]) auto

lemma bit_200 [bit_lits]: "bit (0x200 :: int) n \<longleftrightarrow> n \<in> {9}"
  by (subst bit_literal [of "[9]"]) auto

lemma bit_40 [bit_lits]: "bit (0x40 :: int) n \<longleftrightarrow> n \<in> {6}"
  by (subst bit_literal [of "[6]"]) auto

lemma bit_100 [bit_lits]: "bit (0x100 :: int) n \<longleftrightarrow> n \<in> {8}"
  by (subst bit_literal [of "[8]"]) auto

lemma bit_600 [bit_lits]: "bit (0x600 :: int) n \<longleftrightarrow> n \<in> {9, 10}"
  by (subst bit_literal [of "[9, 10]"]) auto

lemma bit_6000 [bit_lits]: "bit (0x6000 :: int) n \<longleftrightarrow> n \<in> {13, 14}"
  by (subst bit_literal [of "[13, 14]"]) auto

lemma bit_222 [bit_lits]: "bit (0x222 :: int) n \<longleftrightarrow> n \<in> {1, 5, 9}"
  by (subst bit_literal [of "[1, 5, 9]"]) auto

lemma bit_444 [bit_lits]: "bit (0x444 :: int) n \<longleftrightarrow> n \<in> {2, 6, 10}"
  by (subst bit_literal [of "[2, 6, 10]"]) auto

lemma bit_2000 [bit_lits]: "bit (0x2000 :: int) n \<longleftrightarrow> n \<in> {13}"
  by (subst bit_literal [of "[13]"]) auto

lemma bit_aaa [bit_lits]: "bit (0xaaa :: int) n \<longleftrightarrow> n \<in> {1, 3, 5, 7, 9, 11}"
  by (subst bit_literal [of "[1, 3, 5, 7, 9, 11]"]) auto

lemma bit_10aaa [bit_lits]: "bit (0x10aaa :: int) n \<longleftrightarrow> n \<in> {1, 3, 5, 7, 9, 11, 16}"
  by (subst bit_literal [of "[1, 3, 5, 7, 9, 11, 16]"]) auto

lemma bit_10000 [bit_lits]: "bit (0x10000 :: int) n \<longleftrightarrow> n \<in> {16}"
  by (subst bit_literal [of "[16]"]) auto

lemma bit_8000000000000000 [bit_lits]: "bit (0x8000000000000000 :: int) n \<longleftrightarrow> n \<in> {63}"
  by (subst bit_literal [of "[63]"]) auto

lemma bit_1800 [bit_lits]: "bit (0x1800 :: int) n \<longleftrightarrow> n \<in> {11, 12}"
  by (subst bit_literal [of "[11, 12]"]) auto

lemma bit_not_20 [bit_lits]: "bit (- 0x21 :: int) n \<longleftrightarrow> n \<notin> {5}"
  by (subst bit_literal_not [of "[5]"]) auto

lemma bit_not_200 [bit_lits]: "bit (- 0x201 :: int) n \<longleftrightarrow> n \<notin> {9}"
  by (subst bit_literal_not [of "[9]"]) auto

lemma bit_not_8 [bit_lits]: "bit (- 0x9 :: int) n \<longleftrightarrow> n \<notin> {3}"
  by (subst bit_literal_not [of "[3]"]) auto

lemma bit_not_80 [bit_lits]: "bit (- 0x81 :: int) n \<longleftrightarrow> n \<notin> {7}"
  by (subst bit_literal_not [of "[7]"]) auto

lemma bit_not_122 [bit_lits]: "bit (- 0x123 :: int) n \<longleftrightarrow> n \<notin> {1, 5, 8}"
  by (subst bit_literal_not [of "[1, 5, 8]"]) auto

lemma bit_not_4 [bit_lits]: "bit (- 0x5 :: int) n \<longleftrightarrow> n \<notin> {2}"
  by (subst bit_literal_not [of "[2]"]) auto

lemma bit_not_10000 [bit_lits]: "bit (- 0x10001 :: int) n \<longleftrightarrow> n \<notin> {16}"
  by (subst bit_literal_not [of "[16]"]) auto

lemma bit_not_f00000000 [bit_lits]: "bit (- 0xf00000001 :: int) n \<longleftrightarrow> n \<notin> {32, 33, 34, 35}"
  by (subst bit_literal_not [of "[32, 33, 34, 35]"]) auto

lemma bit_not_6000 [bit_lits]: "bit (- 0x6001 :: int) n \<longleftrightarrow> n \<notin> {13, 14}"
  by (subst bit_literal_not [of "[13, 14]"]) auto

lemma bit_not_1800 [bit_lits]: "bit (- 0x1801 :: int) n \<longleftrightarrow> n \<notin> {11, 12}"
  by (subst bit_literal_not [of "[11, 12]"]) auto

lemma bit_not_80000003000c6122 [bit_lits]: "bit (- 0x80000003000c6123 :: int) n \<longleftrightarrow> n \<notin> {1, 5, 8, 13, 14, 18, 19, 32, 33, 63}"
  by (subst bit_literal_not [of "[1, 5, 8, 13, 14, 18, 19, 32, 33, 63]"]) auto

section \<open>The first index with a property\<close>

text \<open>The search loops of the emulator stop at the first index that matches.\<close>

definition first_index :: "(nat \<Rightarrow> bool) \<Rightarrow> nat \<Rightarrow> nat option" where
  "first_index P n = find P [0..<n]"

lemma first_index_Some:
  "first_index P n = Some i \<longleftrightarrow> i < n \<and> P i \<and> (\<forall>j<i. \<not> P j)"
  by (auto simp: first_index_def find_Some_iff)

lemma first_index_None: "first_index P n = None \<longleftrightarrow> (\<forall>j<n. \<not> P j)"
  by (auto simp: first_index_def find_None_iff)

lemma first_index_cong: "(\<And>i. i < n \<Longrightarrow> P i = Q i) \<Longrightarrow> first_index P n = first_index Q n"
  by (auto simp: first_index_def intro: find_cong)

text \<open>
  If every element of a set has the same first match, that is the first index matched by any
  element, and it matches them all; if not, the first index matched by any element misses one.
\<close>

lemma first_index_uniform:
  assumes "\<And>b. b \<in> B \<Longrightarrow> first_index (\<lambda>i. P i b) n = e" and "B \<noteq> {}"
  shows "first_index (\<lambda>i. \<exists>b\<in>B. P i b) n = e" and "e = Some i \<Longrightarrow> b \<in> B \<Longrightarrow> P i b"
proof -
  show "first_index (\<lambda>i. \<exists>b\<in>B. P i b) n = e"
  proof (cases e)
    case None
    with assms show ?thesis by (auto simp: first_index_None)
  next
    case (Some i)
    with assms show ?thesis by (force simp: first_index_Some)
  qed
  show "e = Some i \<Longrightarrow> b \<in> B \<Longrightarrow> P i b"
    using assms(1) by (auto simp: first_index_Some)
qed

lemma first_index_mixed:
  assumes "first_index (\<lambda>i. P i a) n \<noteq> first_index (\<lambda>i. P i b) n" and "a \<in> B" and "b \<in> B"
  obtains i d where "first_index (\<lambda>i. \<exists>b\<in>B. P i b) n = Some i" and "d \<in> B" and "\<not> P i d"
proof (cases "first_index (\<lambda>i. \<exists>b\<in>B. P i b) n")
  case None
  with assms have "first_index (\<lambda>i. P i a) n = None" "first_index (\<lambda>i. P i b) n = None"
    by (auto simp: first_index_None)
  with assms show ?thesis by simp
next
  case (Some i)
  have "\<not> (P i a \<and> P i b)"
  proof
    assume "P i a \<and> P i b"
    with Some assms(2,3) have "first_index (\<lambda>i. P i a) n = Some i" "first_index (\<lambda>i. P i b) n = Some i"
      by (auto simp: first_index_Some)
    with assms show False by simp
  qed
  with Some assms(2,3) that show ?thesis by blast
qed

lemma low_byte_mask: "(0xff :: word_t) = mask 8"
  by (simp add: mask_eq_exp_minus_1)

lemma ucast_low_byte: "(ucast (x AND 0xff :: word_t) :: uint8_t) = ucast x"
  unfolding low_byte_mask by (rule bit_word_eqI) (auto simp: bit_simps bit_mask_iff)

end
