(* ===== verification/State.thy ===== *)
theory State
  imports Prelude
begin

text \<open>
  The state of one hart of the emulator: the architectural state \<^verbatim>\<open>riscv_CPU_state\<close>
  (\<^verbatim>\<open>riscv-state.h\<close>), the thread-local side structures (decoded PMP entries and their match
  cache, the three software TLBs, the decoded-instruction cache), the globals of the trap path and
  the bytes of physical memory; the build and run-time configuration; the CSR numbers and causes of
  \<^verbatim>\<open>isa-def.h\<close>; and the inline accessors of \<^verbatim>\<open>isa-def.h\<close> and
  \<^verbatim>\<open>isa-extensions.h\<close>. The model is the RV64 build (\<open>CONFIG_RV64\<close>, \<open>CONFIG_ISA64\<close>).
\<close>

unbundle bit_operations_syntax

section \<open>Constants of isa-def.h\<close>

subsection \<open>CSR numbers (enum CSR)\<close>

abbreviation (input) CSR_FFLAGS :: nat where "CSR_FFLAGS \<equiv> 1"

abbreviation (input) CSR_FRM :: nat where "CSR_FRM \<equiv> 0x002"

abbreviation (input) CSR_FCSR :: nat where "CSR_FCSR \<equiv> 0x003"

abbreviation (input) CSR_VSTART :: nat where "CSR_VSTART \<equiv> 0x008"

abbreviation (input) CSR_VXSAT :: nat where "CSR_VXSAT \<equiv> 0x009"

abbreviation (input) CSR_VXRM :: nat where "CSR_VXRM \<equiv> 0x00a"

abbreviation (input) CSR_VCSR :: nat where "CSR_VCSR \<equiv> 0x00f"

abbreviation (input) CSR_SSTATUS :: nat where "CSR_SSTATUS \<equiv> 0x100"

abbreviation (input) CSR_SIE :: nat where "CSR_SIE \<equiv> 0x104"

abbreviation (input) CSR_STVEC :: nat where "CSR_STVEC \<equiv> 0x105"

abbreviation (input) CSR_SCOUNTEREN :: nat where "CSR_SCOUNTEREN \<equiv> 0x106"

abbreviation (input) CSR_SENVCFG :: nat where "CSR_SENVCFG \<equiv> 0x10a"

abbreviation (input) CSR_SSTATEEN0 :: nat where "CSR_SSTATEEN0 \<equiv> 0x10c"

abbreviation (input) CSR_SSTATEEN3 :: nat where "CSR_SSTATEEN3 \<equiv> 0x10f"

abbreviation (input) CSR_SSCRATCH :: nat where "CSR_SSCRATCH \<equiv> 0x140"

abbreviation (input) CSR_SEPC :: nat where "CSR_SEPC \<equiv> 0x141"

abbreviation (input) CSR_SCAUSE :: nat where "CSR_SCAUSE \<equiv> 0x142"

abbreviation (input) CSR_STVAL :: nat where "CSR_STVAL \<equiv> 0x143"

abbreviation (input) CSR_SIP :: nat where "CSR_SIP \<equiv> 0x144"

abbreviation (input) CSR_SATP :: nat where "CSR_SATP \<equiv> 0x180"

abbreviation (input) CSR_SCOUNTOVF :: nat where "CSR_SCOUNTOVF \<equiv> 0xda0"

abbreviation (input) CSR_VSSTATUS :: nat where "CSR_VSSTATUS \<equiv> 0x200"

abbreviation (input) CSR_VSIE :: nat where "CSR_VSIE \<equiv> 0x204"

abbreviation (input) CSR_VSTVEC :: nat where "CSR_VSTVEC \<equiv> 0x205"

abbreviation (input) CSR_VSSCRATCH :: nat where "CSR_VSSCRATCH \<equiv> 0x240"

abbreviation (input) CSR_VSEPC :: nat where "CSR_VSEPC \<equiv> 0x241"

abbreviation (input) CSR_VSCAUSE :: nat where "CSR_VSCAUSE \<equiv> 0x242"

abbreviation (input) CSR_VSTVAL :: nat where "CSR_VSTVAL \<equiv> 0x243"

abbreviation (input) CSR_VSIP :: nat where "CSR_VSIP \<equiv> 0x244"

abbreviation (input) CSR_VSTIMECMP :: nat where "CSR_VSTIMECMP \<equiv> 0x24d"

abbreviation (input) CSR_VSATP :: nat where "CSR_VSATP \<equiv> 0x280"

abbreviation (input) CSR_HSTATUS :: nat where "CSR_HSTATUS \<equiv> 0x600"

abbreviation (input) CSR_HEDELEG :: nat where "CSR_HEDELEG \<equiv> 0x602"

abbreviation (input) CSR_HIDELEG :: nat where "CSR_HIDELEG \<equiv> 0x603"

abbreviation (input) CSR_HIE :: nat where "CSR_HIE \<equiv> 0x604"

abbreviation (input) CSR_HTIMEDELTA :: nat where "CSR_HTIMEDELTA \<equiv> 0x605"

abbreviation (input) CSR_HCOUNTEREN :: nat where "CSR_HCOUNTEREN \<equiv> 0x606"

abbreviation (input) CSR_HGEIE :: nat where "CSR_HGEIE \<equiv> 0x607"

abbreviation (input) CSR_HENVCFG :: nat where "CSR_HENVCFG \<equiv> 0x60a"

abbreviation (input) CSR_HSTATEEN0 :: nat where "CSR_HSTATEEN0 \<equiv> 0x60c"

abbreviation (input) CSR_HSTATEEN3 :: nat where "CSR_HSTATEEN3 \<equiv> 0x60f"

abbreviation (input) CSR_HTVAL :: nat where "CSR_HTVAL \<equiv> 0x643"

abbreviation (input) CSR_HTINST :: nat where "CSR_HTINST \<equiv> 0x64a"

abbreviation (input) CSR_HIP :: nat where "CSR_HIP \<equiv> 0x644"

abbreviation (input) CSR_HVIP :: nat where "CSR_HVIP \<equiv> 0x645"

abbreviation (input) CSR_HGATP :: nat where "CSR_HGATP \<equiv> 0x680"

abbreviation (input) CSR_HGEIP :: nat where "CSR_HGEIP \<equiv> 0xe12"

abbreviation (input) CSR_MSTATUS :: nat where "CSR_MSTATUS \<equiv> 0x300"

abbreviation (input) CSR_MISA :: nat where "CSR_MISA \<equiv> 0x301"

abbreviation (input) CSR_MEDELEG :: nat where "CSR_MEDELEG \<equiv> 0x302"

abbreviation (input) CSR_MIDELEG :: nat where "CSR_MIDELEG \<equiv> 0x303"

abbreviation (input) CSR_MIE :: nat where "CSR_MIE \<equiv> 0x304"

abbreviation (input) CSR_MTVEC :: nat where "CSR_MTVEC \<equiv> 0x305"

abbreviation (input) CSR_MCOUNTEREN :: nat where "CSR_MCOUNTEREN \<equiv> 0x306"

abbreviation (input) CSR_MCOUNTINHIBIT :: nat where "CSR_MCOUNTINHIBIT \<equiv> 0x320"

abbreviation (input) CSR_MENVCFG :: nat where "CSR_MENVCFG \<equiv> 0x30a"

abbreviation (input) CSR_MSTATEEN0 :: nat where "CSR_MSTATEEN0 \<equiv> 0x30c"

abbreviation (input) CSR_MSTATEEN3 :: nat where "CSR_MSTATEEN3 \<equiv> 0x30f"

abbreviation (input) CSR_MENVCFGH :: nat where "CSR_MENVCFGH \<equiv> 0x31a"

abbreviation (input) CSR_MSTATEEN0H :: nat where "CSR_MSTATEEN0H \<equiv> 0x31c"

abbreviation (input) CSR_MSTATEEN3H :: nat where "CSR_MSTATEEN3H \<equiv> 0x31f"

abbreviation (input) CSR_MSTATUSH :: nat where "CSR_MSTATUSH \<equiv> 0x310"

abbreviation (input) CSR_MSCRATCH :: nat where "CSR_MSCRATCH \<equiv> 0x340"

abbreviation (input) CSR_MEPC :: nat where "CSR_MEPC \<equiv> 0x341"

abbreviation (input) CSR_MCAUSE :: nat where "CSR_MCAUSE \<equiv> 0x342"

abbreviation (input) CSR_MTVAL :: nat where "CSR_MTVAL \<equiv> 0x343"

abbreviation (input) CSR_MTINST :: nat where "CSR_MTINST \<equiv> 0x34a"

abbreviation (input) CSR_MTVAL2 :: nat where "CSR_MTVAL2 \<equiv> 0x34b"

abbreviation (input) CSR_MIP :: nat where "CSR_MIP \<equiv> 0x344"

abbreviation (input) CSR_MBERR_STATUS :: nat where "CSR_MBERR_STATUS \<equiv> 0x7c0"

abbreviation (input) CSR_MBERR_ADDR :: nat where "CSR_MBERR_ADDR \<equiv> 0xfc0"

abbreviation (input) CSR_PMPCFG0 :: nat where "CSR_PMPCFG0 \<equiv> 0x3a0"

abbreviation (input) CSR_PMPCFG1 :: nat where "CSR_PMPCFG1 \<equiv> 0x3a1"

abbreviation (input) CSR_PMPCFG2 :: nat where "CSR_PMPCFG2 \<equiv> 0x3a2"

abbreviation (input) CSR_PMPCFG3 :: nat where "CSR_PMPCFG3 \<equiv> 0x3a3"

abbreviation (input) CSR_PMPADDR0 :: nat where "CSR_PMPADDR0 \<equiv> 0x3b0"

abbreviation (input) CSR_PMPADDR15 :: nat where "CSR_PMPADDR15 \<equiv> 0x3bf"

abbreviation (input) CSR_MCYCLE :: nat where "CSR_MCYCLE \<equiv> 0xb00"

abbreviation (input) CSR_MINSTRET :: nat where "CSR_MINSTRET \<equiv> 0xb02"

abbreviation (input) CSR_MCYCLEH :: nat where "CSR_MCYCLEH \<equiv> 0xb80"

abbreviation (input) CSR_MINSTRETH :: nat where "CSR_MINSTRETH \<equiv> 0xb82"

abbreviation (input) CSR_CYCLE :: nat where "CSR_CYCLE \<equiv> 0xc00"

abbreviation (input) CSR_VL :: nat where "CSR_VL \<equiv> 0xc20"

abbreviation (input) CSR_VTYPE :: nat where "CSR_VTYPE \<equiv> 0xc21"

abbreviation (input) CSR_VLENB :: nat where "CSR_VLENB \<equiv> 0xc22"

abbreviation (input) CSR_TIME :: nat where "CSR_TIME \<equiv> 0xc01"

abbreviation (input) CSR_INSTRET :: nat where "CSR_INSTRET \<equiv> 0xc02"

abbreviation (input) CSR_CYCLEH :: nat where "CSR_CYCLEH \<equiv> 0xc80"

abbreviation (input) CSR_TIMEH :: nat where "CSR_TIMEH \<equiv> 0xc81"

abbreviation (input) CSR_INSTRETH :: nat where "CSR_INSTRETH \<equiv> 0xc82"

abbreviation (input) CSR_MVENDORID :: nat where "CSR_MVENDORID \<equiv> 0xf11"

abbreviation (input) CSR_MARCHID :: nat where "CSR_MARCHID \<equiv> 0xf12"

abbreviation (input) CSR_IMPID :: nat where "CSR_IMPID \<equiv> 0xf13"

abbreviation (input) CSR_MHARTID :: nat where "CSR_MHARTID \<equiv> 0xf14"

subsection \<open>Exception causes (enum MCAUSE) and interrupt causes\<close>

abbreviation (input) XLEN :: nat where "XLEN \<equiv> 64"

abbreviation (input) MCA_INTR_BIT :: word_t where "MCA_INTR_BIT \<equiv> 0x8000000000000000"

abbreviation (input) MCA_INS_ADD_MIS :: word_t where "MCA_INS_ADD_MIS \<equiv> 0"

abbreviation (input) MCA_INS_ACC_FAU :: word_t where "MCA_INS_ACC_FAU \<equiv> 1"

abbreviation (input) MCA_ILLEGAL_INS :: word_t where "MCA_ILLEGAL_INS \<equiv> 0x2"

abbreviation (input) MCA_BREAK_POINT :: word_t where "MCA_BREAK_POINT \<equiv> 0x3"

abbreviation (input) MCA_LOA_ADD_MIS :: word_t where "MCA_LOA_ADD_MIS \<equiv> 0x4"

abbreviation (input) MCA_LOA_ACC_FAU :: word_t where "MCA_LOA_ACC_FAU \<equiv> 0x5"

abbreviation (input) MCA_STO_ADD_MIS :: word_t where "MCA_STO_ADD_MIS \<equiv> 0x6"

abbreviation (input) MCA_STO_ACC_FAU :: word_t where "MCA_STO_ACC_FAU \<equiv> 0x7"

abbreviation (input) MCA_ENV_CAL_UMO :: word_t where "MCA_ENV_CAL_UMO \<equiv> 0x8"

abbreviation (input) MCA_ENV_CAL_SMO :: word_t where "MCA_ENV_CAL_SMO \<equiv> 0x9"

abbreviation (input) MCA_ENV_CAL_VSMO :: word_t where "MCA_ENV_CAL_VSMO \<equiv> 0xa"

abbreviation (input) MCA_ENV_CAL_MMO :: word_t where "MCA_ENV_CAL_MMO \<equiv> 0xb"

abbreviation (input) MCA_INS_PAG_FAU :: word_t where "MCA_INS_PAG_FAU \<equiv> 0xc"

abbreviation (input) MCA_LOA_PAG_FAU :: word_t where "MCA_LOA_PAG_FAU \<equiv> 0xd"

abbreviation (input) MCA_STO_PAG_FAU :: word_t where "MCA_STO_PAG_FAU \<equiv> 0xf"

abbreviation (input) MCA_INS_GUEST_PAG_FAU :: word_t where "MCA_INS_GUEST_PAG_FAU \<equiv> 0x14"

abbreviation (input) MCA_LOA_GUEST_PAG_FAU :: word_t where "MCA_LOA_GUEST_PAG_FAU \<equiv> 0x15"

abbreviation (input) MCA_VIRT_INS :: word_t where "MCA_VIRT_INS \<equiv> 0x16"

abbreviation (input) MCA_STO_GUEST_PAG_FAU :: word_t where "MCA_STO_GUEST_PAG_FAU \<equiv> 0x17"

abbreviation (input) MCA_SOF_CHE :: word_t where "MCA_SOF_CHE \<equiv> 0x12"

abbreviation (input) MCA_HAR_ERR :: word_t where "MCA_HAR_ERR \<equiv> 0x13"

abbreviation (input) MCA_SUP_SOF_INT :: word_t where "MCA_SUP_SOF_INT \<equiv> 0x8000000000000001"

abbreviation (input) MCA_VSUP_SOF_INT :: word_t where "MCA_VSUP_SOF_INT \<equiv> 0x8000000000000002"

abbreviation (input) MCA_MAC_SOF_INT :: word_t where "MCA_MAC_SOF_INT \<equiv> 0x8000000000000003"

abbreviation (input) MCA_SUP_TIM_INT :: word_t where "MCA_SUP_TIM_INT \<equiv> 0x8000000000000005"

abbreviation (input) MCA_VSUP_TIM_INT :: word_t where "MCA_VSUP_TIM_INT \<equiv> 0x8000000000000006"

abbreviation (input) MCA_MAC_TIM_INT :: word_t where "MCA_MAC_TIM_INT \<equiv> 0x8000000000000007"

abbreviation (input) MCA_SUP_EXT_INT :: word_t where "MCA_SUP_EXT_INT \<equiv> 0x8000000000000009"

abbreviation (input) MCA_VSUP_EXT_INT :: word_t where "MCA_VSUP_EXT_INT \<equiv> 0x800000000000000a"

abbreviation (input) MCA_MAC_EXT_INT :: word_t where "MCA_MAC_EXT_INT \<equiv> 0x800000000000000b"

abbreviation (input) MCA_COU_OVE_INT :: word_t where "MCA_COU_OVE_INT \<equiv> 0x800000000000000d"

subsection \<open>Privilege levels (enum PRV)\<close>

abbreviation (input) PRV_U :: nat where "PRV_U \<equiv> 0"

abbreviation (input) PRV_S :: nat where "PRV_S \<equiv> 1"

abbreviation (input) PRV_M :: nat where "PRV_M \<equiv> 3"

section \<open>Configuration\<close>

text \<open>
  The Kconfig options the modelled code tests, and \<open>riscv_isa_extensions\<close>, which is fixed before
  the first instruction (\<open>riscv_isa_lock\<close>).
\<close>

record config =
  rv_asid_bits :: nat
  rv_pmpaddr_bits :: nat
  rv_pc_bits :: nat
  rv_pmp_granularity_log2 :: nat
  rv_f :: bool
  rv_d :: bool
  rv_svade :: bool
  rv_mcountinhibit :: bool
  raptor_memory_map :: bool
  target_share :: bool
  has_device :: bool
  mbase :: word_t
  msize :: word_t
  pmem_2g :: bool
  riscv_isa_extensions :: word_t

text \<open>The ranges Kconfig declares for the numeric options.\<close>

definition kconfig_ok :: "config \<Rightarrow> bool" where
  "kconfig_ok c \<longleftrightarrow> rv_asid_bits c \<le> 16 \<and> 1 \<le> rv_pmpaddr_bits c \<and> rv_pmpaddr_bits c \<le> 54 \<and>
     40 \<le> rv_pc_bits c \<and> rv_pc_bits c \<le> 64 \<and>
     2 \<le> rv_pmp_granularity_log2 c \<and> rv_pmp_granularity_log2 c \<le> 12"

text \<open>\<^verbatim>\<open>configs/riscv64_ref_defconfig\<close> with the default extension mask.\<close>

definition riscv64_ref_config :: config where
  "riscv64_ref_config = \<lparr>rv_asid_bits = 9, rv_pmpaddr_bits = 30, rv_pc_bits = 40,
     rv_pmp_granularity_log2 = 12, rv_f = True, rv_d = True, rv_svade = True,
     rv_mcountinhibit = False, raptor_memory_map = True, target_share = True, has_device = False,
     mbase = 0x80000000, msize = 0x10000000, pmem_2g = False, riscv_isa_extensions = 0\<rparr>"

subsection \<open>Runtime extensions (difftest-isa.h, isa-extensions.h)\<close>

abbreviation (input) NEMU_ISA_EXT_SVNAPOT :: word_t where "NEMU_ISA_EXT_SVNAPOT \<equiv> 0x1"

abbreviation (input) NEMU_ISA_EXT_ZAWRS :: word_t where "NEMU_ISA_EXT_ZAWRS \<equiv> 0x2"

abbreviation (input) NEMU_ISA_EXT_ZFA :: word_t where "NEMU_ISA_EXT_ZFA \<equiv> 0x4"

abbreviation (input) NEMU_ISA_EXT_SSNPM :: word_t where "NEMU_ISA_EXT_SSNPM \<equiv> 0x8"

abbreviation (input) NEMU_ISA_EXT_SMNPM :: word_t where "NEMU_ISA_EXT_SMNPM \<equiv> 0x10"

abbreviation (input) NEMU_ISA_EXT_SSCOFPMF :: word_t where "NEMU_ISA_EXT_SSCOFPMF \<equiv> 0x20"

abbreviation (input) NEMU_ISA_EXT_V128_PREVIEW :: word_t where "NEMU_ISA_EXT_V128_PREVIEW \<equiv> 0x40"

abbreviation (input) NEMU_ISA_EXT_ZVBB :: word_t where "NEMU_ISA_EXT_ZVBB \<equiv> 0x80"

abbreviation (input) NEMU_ISA_EXT_ZVFHMIN :: word_t where "NEMU_ISA_EXT_ZVFHMIN \<equiv> 0x100"

abbreviation (input) NEMU_ISA_EXT_SMSTATEEN_PREVIEW :: word_t where
  "NEMU_ISA_EXT_SMSTATEEN_PREVIEW \<equiv> 0x200"

abbreviation (input) NEMU_ISA_EXT_H_GSTAGE_PREVIEW :: word_t where
  "NEMU_ISA_EXT_H_GSTAGE_PREVIEW \<equiv> 0x400"

definition riscv_sscofpmf_enabled :: "config \<Rightarrow> bool" where
  "riscv_sscofpmf_enabled c \<longleftrightarrow> riscv_isa_extensions c AND NEMU_ISA_EXT_SSCOFPMF \<noteq> 0"

definition riscv_v128_preview_enabled :: "config \<Rightarrow> bool" where
  "riscv_v128_preview_enabled c \<longleftrightarrow> riscv_isa_extensions c AND NEMU_ISA_EXT_V128_PREVIEW \<noteq> 0"

definition riscv_smstateen_preview_enabled :: "config \<Rightarrow> bool" where
  "riscv_smstateen_preview_enabled c \<longleftrightarrow>
     riscv_isa_extensions c AND NEMU_ISA_EXT_SMSTATEEN_PREVIEW \<noteq> 0"

definition riscv_h_gstage_preview_enabled :: "config \<Rightarrow> bool" where
  "riscv_h_gstage_preview_enabled c \<longleftrightarrow>
     riscv_isa_extensions c AND NEMU_ISA_EXT_H_GSTAGE_PREVIEW \<noteq> 0"

definition riscv_supervisor_irq_mask :: "config \<Rightarrow> word_t" where
  "riscv_supervisor_irq_mask c = 0x222 OR (if riscv_sscofpmf_enabled c then 0x2000 else 0)"

definition riscv_virtual_irq_mask :: "config \<Rightarrow> word_t" where
  "riscv_virtual_irq_mask c = (if riscv_h_gstage_preview_enabled c then 0x444 else 0)"

definition riscv_envcfg_pmm :: "config \<Rightarrow> word_t \<Rightarrow> word_t \<Rightarrow> word_t" where
  "riscv_envcfg_pmm c v extension =
     (if riscv_isa_extensions c AND extension = 0 \<or> drop_bit 32 v AND 3 = 1 then 0
      else v AND 0x300000000)"

section \<open>State of a hart\<close>

subsection \<open>Architectural state (riscv-state.h)\<close>

text \<open>
  The fields after \<open>reservation_bytes\<close> in the C struct (\<open>vwaddr\<close> to \<open>skip\<close>) only record the
  last access for DiffTest reports; no modelled code reads them.
\<close>

record cpu_state =
  cpu_sr :: "nat \<Rightarrow> word_t"
  cpu_gpr :: "nat \<Rightarrow> word_t"
  cpu_fpr :: "nat \<Rightarrow> word_t"
  cpu_vreg :: "nat \<Rightarrow> nat \<Rightarrow> uint8_t"
  cpu_pc :: vaddr_t
  cpu_cpc :: vaddr_t
  cpu_inst :: uint32_t
  cpu_priv :: nat
  cpu_virt :: bool
  cpu_intr :: bool
  cpu_raise_intr :: word_t
  cpu_last_inst_priv :: nat
  cpu_last_csr_wr :: nat
  cpu_csr_dirty :: bool
  cpu_instruction_trapped :: bool
  cpu_mtimecmp :: word_t
  cpu_stip :: bool
  cpu_seip :: bool
  cpu_reservation :: vaddr_t
  cpu_reservation_bytes :: nat

subsection \<open>PMP side state (pmp.c)\<close>

record pmp_decoded =
  d_cfg :: uint8_t
  d_a :: nat
  d_lo_w :: word_t
  d_hi_w :: word_t
  d_base_w :: word_t
  d_mask_w :: word_t

text \<open>A match-cache entry; \<open>w_entry = None\<close> is the C value \<open>-1\<close>.\<close>

record pmp_wcache_entry =
  w_word :: paddr_t
  w_entry :: "nat option"
  w_cfg :: uint8_t
  w_gen :: uint32_t

record pmp_state =
  pmp_any_active :: bool
  pmp_dec :: "nat \<Rightarrow> pmp_decoded"
  pmp_wcache :: "nat \<Rightarrow> pmp_wcache_entry"
  pmp_gen :: uint32_t
  pmp_last_fault_addr :: word_t

subsection \<open>Software TLBs (tlb.h) and decoded-instruction cache (icache.h)\<close>

record soft_tlb_entry_t =
  te_vpn :: vaddr_t
  te_ppn :: paddr_t
  te_pbmt :: uint8_t
  te_epoch :: uint32_t

record soft_tlb_state =
  soft_tlb_ifetch :: "nat \<Rightarrow> soft_tlb_entry_t"
  soft_tlb_load :: "nat \<Rightarrow> soft_tlb_entry_t"
  soft_tlb_store :: "nat \<Rightarrow> soft_tlb_entry_t"
  soft_tlb_epoch :: uint32_t

record icache_entry_t =
  ie_pc :: vaddr_t
  ie_inst :: uint32_t
  ie_ilen :: uint16_t
  ie_epoch :: uint32_t

record icache_state =
  icache :: "nat \<Rightarrow> icache_entry_t"
  icache_epoch :: uint32_t

subsection \<open>The whole state\<close>

record nemu =
  cpu :: cpu_state
  pmpu :: pmp_state
  tlbs :: soft_tlb_state
  icaches :: icache_state
  g_vaddr :: word_t
  riscv_h_fault_gpa :: paddr_t
  riscv_h_fault_ptw :: bool
  riscv_h_fault_write :: bool
  riscv_h_explicit_trap :: bool
  g_nr_guest_inst :: word_t
  clint_msip :: uint32_t
  phys :: "paddr_t \<Rightarrow> uint8_t"

text \<open>Reading and writing the register arrays (macros \<open>sr\<close> and \<open>gpr\<close> of \<^verbatim>\<open>reg.h\<close>).\<close>

definition sr :: "nemu \<Rightarrow> nat \<Rightarrow> word_t" where
  "sr s i = cpu_sr (cpu s) i"

definition set_sr :: "nat \<Rightarrow> word_t \<Rightarrow> nemu \<Rightarrow> nemu" where
  "set_sr i v s = s\<lparr>cpu := (cpu s)\<lparr>cpu_sr := (cpu_sr (cpu s))(i := v)\<rparr>\<rparr>"

definition gpr :: "nemu \<Rightarrow> nat \<Rightarrow> word_t" where
  "gpr s i = cpu_gpr (cpu s) i"

definition set_gpr :: "nat \<Rightarrow> word_t \<Rightarrow> nemu \<Rightarrow> nemu" where
  "set_gpr i v s = s\<lparr>cpu := (cpu s)\<lparr>cpu_gpr := (cpu_gpr (cpu s))(i := v)\<rparr>\<rparr>"

abbreviation priv :: "nemu \<Rightarrow> nat" where "priv s \<equiv> cpu_priv (cpu s)"

abbreviation virt :: "nemu \<Rightarrow> bool" where "virt s \<equiv> cpu_virt (cpu s)"

lemma sr_set_sr [simp]: "sr (set_sr i v s) j = (if j = i then v else sr s j)"
  by (simp add: sr_def set_sr_def)

lemma gpr_set_gpr [simp]: "gpr (set_gpr i v s) j = (if j = i then v else gpr s j)"
  by (simp add: gpr_def set_gpr_def)

lemma sr_set_gpr [simp]: "sr (set_gpr i v s) j = sr s j"
  by (simp add: sr_def set_gpr_def)

lemma gpr_set_sr [simp]: "gpr (set_sr i v s) j = gpr s j"
  by (simp add: gpr_def set_sr_def)

lemma set_sr_frame [simp]:
  "cpu_gpr (cpu (set_sr i v s)) = cpu_gpr (cpu s)"
  "cpu_fpr (cpu (set_sr i v s)) = cpu_fpr (cpu s)"
  "cpu_vreg (cpu (set_sr i v s)) = cpu_vreg (cpu s)"
  "cpu_inst (cpu (set_sr i v s)) = cpu_inst (cpu s)"
  "cpu_priv (cpu (set_sr i v s)) = cpu_priv (cpu s)"
  "cpu_virt (cpu (set_sr i v s)) = cpu_virt (cpu s)"
  "cpu_raise_intr (cpu (set_sr i v s)) = cpu_raise_intr (cpu s)"
  "cpu_last_inst_priv (cpu (set_sr i v s)) = cpu_last_inst_priv (cpu s)"
  "cpu_last_csr_wr (cpu (set_sr i v s)) = cpu_last_csr_wr (cpu s)"
  "cpu_csr_dirty (cpu (set_sr i v s)) = cpu_csr_dirty (cpu s)"
  "cpu_instruction_trapped (cpu (set_sr i v s)) = cpu_instruction_trapped (cpu s)"
  "cpu_stip (cpu (set_sr i v s)) = cpu_stip (cpu s)"
  "cpu_seip (cpu (set_sr i v s)) = cpu_seip (cpu s)"
  "cpu_mtimecmp (cpu (set_sr i v s)) = cpu_mtimecmp (cpu s)"
  "cpu_reservation (cpu (set_sr i v s)) = cpu_reservation (cpu s)"
  "cpu_reservation_bytes (cpu (set_sr i v s)) = cpu_reservation_bytes (cpu s)"
  "cpu_pc (cpu (set_sr i v s)) = cpu_pc (cpu s)"
  "pmpu (set_sr i v s) = pmpu s"
  "tlbs (set_sr i v s) = tlbs s"
  "icaches (set_sr i v s) = icaches s"
  "g_vaddr (set_sr i v s) = g_vaddr s"
  "phys (set_sr i v s) = phys s"
  "riscv_h_fault_gpa (set_sr i v s) = riscv_h_fault_gpa s"
  "riscv_h_fault_ptw (set_sr i v s) = riscv_h_fault_ptw s"
  "riscv_h_fault_write (set_sr i v s) = riscv_h_fault_write s"
  "riscv_h_explicit_trap (set_sr i v s) = riscv_h_explicit_trap s"
  "g_nr_guest_inst (set_sr i v s) = g_nr_guest_inst s"
  "clint_msip (set_sr i v s) = clint_msip s"
  by (simp_all add: set_sr_def)

lemma set_gpr_frame [simp]:
  "cpu_sr (cpu (set_gpr i v s)) = cpu_sr (cpu s)"
  "cpu_fpr (cpu (set_gpr i v s)) = cpu_fpr (cpu s)"
  "cpu_vreg (cpu (set_gpr i v s)) = cpu_vreg (cpu s)"
  "cpu_inst (cpu (set_gpr i v s)) = cpu_inst (cpu s)"
  "cpu_priv (cpu (set_gpr i v s)) = cpu_priv (cpu s)"
  "cpu_virt (cpu (set_gpr i v s)) = cpu_virt (cpu s)"
  "cpu_raise_intr (cpu (set_gpr i v s)) = cpu_raise_intr (cpu s)"
  "cpu_last_inst_priv (cpu (set_gpr i v s)) = cpu_last_inst_priv (cpu s)"
  "cpu_last_csr_wr (cpu (set_gpr i v s)) = cpu_last_csr_wr (cpu s)"
  "cpu_csr_dirty (cpu (set_gpr i v s)) = cpu_csr_dirty (cpu s)"
  "cpu_instruction_trapped (cpu (set_gpr i v s)) = cpu_instruction_trapped (cpu s)"
  "cpu_stip (cpu (set_gpr i v s)) = cpu_stip (cpu s)"
  "cpu_seip (cpu (set_gpr i v s)) = cpu_seip (cpu s)"
  "cpu_mtimecmp (cpu (set_gpr i v s)) = cpu_mtimecmp (cpu s)"
  "cpu_reservation (cpu (set_gpr i v s)) = cpu_reservation (cpu s)"
  "cpu_reservation_bytes (cpu (set_gpr i v s)) = cpu_reservation_bytes (cpu s)"
  "cpu_pc (cpu (set_gpr i v s)) = cpu_pc (cpu s)"
  "pmpu (set_gpr i v s) = pmpu s"
  "tlbs (set_gpr i v s) = tlbs s"
  "icaches (set_gpr i v s) = icaches s"
  "g_vaddr (set_gpr i v s) = g_vaddr s"
  "phys (set_gpr i v s) = phys s"
  "riscv_h_fault_gpa (set_gpr i v s) = riscv_h_fault_gpa s"
  "riscv_h_fault_ptw (set_gpr i v s) = riscv_h_fault_ptw s"
  "riscv_h_fault_write (set_gpr i v s) = riscv_h_fault_write s"
  "riscv_h_explicit_trap (set_gpr i v s) = riscv_h_explicit_trap s"
  "g_nr_guest_inst (set_gpr i v s) = g_nr_guest_inst s"
  "clint_msip (set_gpr i v s) = clint_msip s"
  by (simp_all add: set_gpr_def)

subsection \<open>The bit-field view of a status register (union csr_t)\<close>

text \<open>Reading and assigning the field of \<open>len\<close> bits at position \<open>lo\<close>.\<close>

definition get_field :: "nat \<Rightarrow> nat \<Rightarrow> word_t \<Rightarrow> word_t" where
  "get_field lo len v = take_bit len (drop_bit lo v)"

definition set_field :: "nat \<Rightarrow> nat \<Rightarrow> word_t \<Rightarrow> word_t \<Rightarrow> word_t" where
  "set_field lo len x v = (v AND NOT (push_bit lo (mask len))) OR push_bit lo (take_bit len x)"

lemma bit_get_field [bit_simps]: "bit (get_field lo len v) n \<longleftrightarrow> n < len \<and> bit v (lo + n)"
  by (auto simp: get_field_def bit_simps)

lemma bit_set_field [bit_simps]:
  "bit (set_field lo len x v) n \<longleftrightarrow>
     (if lo \<le> n \<and> n < lo + len then n < 64 \<and> bit x (n - lo) else bit v n)"
  by (auto simp: set_field_def bit_simps dest: bit_imp_le_length)

lemma field1_eq_0: "get_field n (Suc 0) v = 0 \<longleftrightarrow> \<not> bit v n"
proof -
  have "get_field n 1 v = of_bool (bit v n)"
    by (rule word_bit_eqI) (auto simp: bit_get_field bit_1_iff)
  then show ?thesis by simp
qed

section \<open>Inline accessors of isa-def.h\<close>

text \<open>Bit \<open>n\<close> of a CSR value as the C expression \<open>(v >> n) & 1\<close> tests it.\<close>

definition riscv_virtual_timer_pending :: "config \<Rightarrow> nemu \<Rightarrow> bool" where
  "riscv_virtual_timer_pending c s \<longleftrightarrow>
     riscv_h_gstage_preview_enabled c \<and>
     sr s CSR_MENVCFG AND 0x8000000000000000 \<noteq> 0 \<and>
     sr s CSR_HENVCFG AND 0x8000000000000000 \<noteq> 0 \<and>
     sr s CSR_VSTIMECMP \<le> sr s CSR_TIME + sr s CSR_HTIMEDELTA"

text \<open>Effective privilege of loads and stores: MPRV and MPP override in M-mode.\<close>

definition pmp_effective_priv_ls :: "nemu \<Rightarrow> nat" where
  "pmp_effective_priv_ls s =
     (let ms = sr s CSR_MSTATUS in
      if ms AND 0x20000 \<noteq> 0 \<and> priv s = PRV_M then unat (drop_bit 11 (ms AND 0x1800)) else priv s)"

definition riscv_data_virtual_mode :: "config \<Rightarrow> nemu \<Rightarrow> bool" where
  "riscv_data_virtual_mode c s \<longleftrightarrow>
     riscv_h_gstage_preview_enabled c \<and>
     (virt s \<or> (priv s = PRV_M \<and> sr s CSR_MSTATUS AND 0x20000 \<noteq> 0 \<and>
        unat (drop_bit 11 (sr s CSR_MSTATUS AND 0x1800)) \<noteq> PRV_M \<and>
        sr s CSR_MSTATUS AND 0x8000000000 \<noteq> 0))"

definition riscv_pointer_mask_value :: "word_t \<Rightarrow> nat \<Rightarrow> bool \<Rightarrow> word_t" where
  "riscv_pointer_mask_value address pmm translated =
     (let len = (if pmm = 2 then 7 else if pmm = 3 then 16 else 0) in
      if len = 0 then address
      else let m = drop_bit len (NOT 0); a = address AND m in
        if translated \<and> a AND push_bit (63 - len) 1 \<noteq> 0 then a OR NOT m else a)"

definition riscv_pointer_mask :: "config \<Rightarrow> nemu \<Rightarrow> word_t \<Rightarrow> word_t" where
  "riscv_pointer_mask c s address =
     (if riscv_isa_extensions c AND (NEMU_ISA_EXT_SSNPM OR NEMU_ISA_EXT_SMNPM) = 0 then address
      else
        let privilege = pmp_effective_priv_ls s;
            guest = riscv_data_virtual_mode c s;
            mxr = sr s CSR_MSTATUS OR (if guest then sr s CSR_VSSTATUS else 0)
        in if privilege = PRV_M \<or> mxr AND 0x80000 \<noteq> 0 then address
        else
          let extension = (if guest \<or> privilege = PRV_U then NEMU_ISA_EXT_SSNPM
                           else NEMU_ISA_EXT_SMNPM)
          in if riscv_isa_extensions c AND extension = 0 then address
          else
            let envcfg = (if guest \<and> privilege = PRV_S then CSR_HENVCFG
                          else if privilege = PRV_U then CSR_SENVCFG else CSR_MENVCFG);
                pmm = unat (drop_bit 32 (sr s envcfg) AND 3);
                satp = (if guest then CSR_VSATP else CSR_SATP)
            in riscv_pointer_mask_value address pmm (drop_bit 60 (sr s satp) \<noteq> 0))"

text \<open>PC representation of the reference target; \<open>(int64_t)pc >> (bits - 1)\<close> is an arithmetic shift.\<close>

definition riscv_legalize_pc :: "config \<Rightarrow> word_t \<Rightarrow> word_t" where
  "riscv_legalize_pc c pc =
     (if rv_pc_bits c < 64 then
        let bits = rv_pc_bits c;
            upper = signed_drop_bit (bits - 1) pc
        in if upper = 0 \<or> upper = - 1 then pc
        else
          let sign = drop_bit 63 pc;
              low = pc AND (push_bit (bits - 2) 1 - 1)
          in (if sign \<noteq> 0 then NOT (push_bit (bits - 1) 1 - 1) else 0) OR
             push_bit (bits - 2) (sign XOR 1) OR low
      else pc)"

end
