(* ===== verification/Fp.thy ===== *)
theory Fp
  imports State
begin

text \<open>
  The floating-point operations of \<^verbatim>\<open>src/nemu/src/isa/riscv/fp.c\<close>. Berkeley SoftFloat is not part of
  the repository: its functions are the fields of the record \<open>softfloat\<close>, with the rounding mode
  (\<open>softfloat_roundingMode\<close>) as an argument where the operation depends on it and the exception flags
  it raises (\<open>softfloat_exceptionFlags\<close>, cleared before every call) as a result. A function of the code
  with a \<open>flags\<close> pointer returns the flags as a second component. Values are bit patterns.
\<close>

unbundle bit_operations_syntax

section \<open>SoftFloat\<close>

text \<open>SoftFloat's encodings of rounding modes and flags (\<^verbatim>\<open>softfloat.h\<close>).\<close>

datatype softfloat_round = round_near_even | round_minMag | round_min | round_max | round_near_maxMag

record softfloat_flags =
  flag_invalid :: bool
  flag_infinite :: bool
  flag_overflow :: bool
  flag_underflow :: bool
  flag_inexact :: bool

record softfloat =
  f32_add :: "softfloat_round \<Rightarrow> uint32_t \<Rightarrow> uint32_t \<Rightarrow> uint32_t \<times> softfloat_flags"
  f32_sub :: "softfloat_round \<Rightarrow> uint32_t \<Rightarrow> uint32_t \<Rightarrow> uint32_t \<times> softfloat_flags"
  f32_mul :: "softfloat_round \<Rightarrow> uint32_t \<Rightarrow> uint32_t \<Rightarrow> uint32_t \<times> softfloat_flags"
  f32_div :: "softfloat_round \<Rightarrow> uint32_t \<Rightarrow> uint32_t \<Rightarrow> uint32_t \<times> softfloat_flags"
  f32_sqrt :: "softfloat_round \<Rightarrow> uint32_t \<Rightarrow> uint32_t \<times> softfloat_flags"
  f32_mulAdd :: "softfloat_round \<Rightarrow> uint32_t \<Rightarrow> uint32_t \<Rightarrow> uint32_t \<Rightarrow> uint32_t \<times> softfloat_flags"
  f32_le :: "uint32_t \<Rightarrow> uint32_t \<Rightarrow> bool \<times> softfloat_flags"
  f32_lt :: "uint32_t \<Rightarrow> uint32_t \<Rightarrow> bool \<times> softfloat_flags"
  f32_eq :: "uint32_t \<Rightarrow> uint32_t \<Rightarrow> bool \<times> softfloat_flags"
  f32_le_quiet :: "uint32_t \<Rightarrow> uint32_t \<Rightarrow> bool \<times> softfloat_flags"
  f32_lt_quiet :: "uint32_t \<Rightarrow> uint32_t \<Rightarrow> bool \<times> softfloat_flags"
  f32_roundToInt :: "softfloat_round \<Rightarrow> bool \<Rightarrow> uint32_t \<Rightarrow> uint32_t \<times> softfloat_flags"
  f32_to_ui64 :: "softfloat_round \<Rightarrow> bool \<Rightarrow> uint32_t \<Rightarrow> word_t \<times> softfloat_flags"
  ui64_to_f32 :: "softfloat_round \<Rightarrow> word_t \<Rightarrow> uint32_t \<times> softfloat_flags"
  f32_to_i64 :: "softfloat_round \<Rightarrow> bool \<Rightarrow> uint32_t \<Rightarrow> word_t \<times> softfloat_flags"
  i64_to_f32 :: "softfloat_round \<Rightarrow> word_t \<Rightarrow> uint32_t \<times> softfloat_flags"
  f32_to_ui32 :: "softfloat_round \<Rightarrow> bool \<Rightarrow> uint32_t \<Rightarrow> uint32_t \<times> softfloat_flags"
  ui32_to_f32 :: "softfloat_round \<Rightarrow> uint32_t \<Rightarrow> uint32_t \<times> softfloat_flags"
  f32_to_i32 :: "softfloat_round \<Rightarrow> bool \<Rightarrow> uint32_t \<Rightarrow> uint32_t \<times> softfloat_flags"
  i32_to_f32 :: "softfloat_round \<Rightarrow> uint32_t \<Rightarrow> uint32_t \<times> softfloat_flags"
  f64_add :: "softfloat_round \<Rightarrow> word_t \<Rightarrow> word_t \<Rightarrow> word_t \<times> softfloat_flags"
  f64_sub :: "softfloat_round \<Rightarrow> word_t \<Rightarrow> word_t \<Rightarrow> word_t \<times> softfloat_flags"
  f64_mul :: "softfloat_round \<Rightarrow> word_t \<Rightarrow> word_t \<Rightarrow> word_t \<times> softfloat_flags"
  f64_div :: "softfloat_round \<Rightarrow> word_t \<Rightarrow> word_t \<Rightarrow> word_t \<times> softfloat_flags"
  f64_sqrt :: "softfloat_round \<Rightarrow> word_t \<Rightarrow> word_t \<times> softfloat_flags"
  f64_mulAdd :: "softfloat_round \<Rightarrow> word_t \<Rightarrow> word_t \<Rightarrow> word_t \<Rightarrow> word_t \<times> softfloat_flags"
  f64_le :: "word_t \<Rightarrow> word_t \<Rightarrow> bool \<times> softfloat_flags"
  f64_lt :: "word_t \<Rightarrow> word_t \<Rightarrow> bool \<times> softfloat_flags"
  f64_eq :: "word_t \<Rightarrow> word_t \<Rightarrow> bool \<times> softfloat_flags"
  f64_le_quiet :: "word_t \<Rightarrow> word_t \<Rightarrow> bool \<times> softfloat_flags"
  f64_lt_quiet :: "word_t \<Rightarrow> word_t \<Rightarrow> bool \<times> softfloat_flags"
  f64_roundToInt :: "softfloat_round \<Rightarrow> bool \<Rightarrow> word_t \<Rightarrow> word_t \<times> softfloat_flags"
  f64_to_ui64 :: "softfloat_round \<Rightarrow> bool \<Rightarrow> word_t \<Rightarrow> word_t \<times> softfloat_flags"
  ui64_to_f64 :: "softfloat_round \<Rightarrow> word_t \<Rightarrow> word_t \<times> softfloat_flags"
  f64_to_i64 :: "softfloat_round \<Rightarrow> bool \<Rightarrow> word_t \<Rightarrow> word_t \<times> softfloat_flags"
  i64_to_f64 :: "softfloat_round \<Rightarrow> word_t \<Rightarrow> word_t \<times> softfloat_flags"
  f64_to_ui32 :: "softfloat_round \<Rightarrow> bool \<Rightarrow> word_t \<Rightarrow> uint32_t \<times> softfloat_flags"
  ui32_to_f64 :: "softfloat_round \<Rightarrow> uint32_t \<Rightarrow> word_t \<times> softfloat_flags"
  f64_to_i32 :: "softfloat_round \<Rightarrow> bool \<Rightarrow> word_t \<Rightarrow> uint32_t \<times> softfloat_flags"
  i32_to_f64 :: "softfloat_round \<Rightarrow> uint32_t \<Rightarrow> word_t \<times> softfloat_flags"
  f64_to_f32 :: "softfloat_round \<Rightarrow> word_t \<Rightarrow> uint32_t \<times> softfloat_flags"
  f32_to_f64 :: "softfloat_round \<Rightarrow> uint32_t \<Rightarrow> word_t \<times> softfloat_flags"
  f16_to_f32 :: "uint16_t \<Rightarrow> uint32_t \<times> softfloat_flags"
  f16_to_f64 :: "uint16_t \<Rightarrow> word_t \<times> softfloat_flags"
  f32_to_f16 :: "softfloat_round \<Rightarrow> uint32_t \<Rightarrow> uint16_t \<times> softfloat_flags"
  f64_to_f16 :: "softfloat_round \<Rightarrow> word_t \<Rightarrow> uint16_t \<times> softfloat_flags"

definition riscv_fp_rounding_mode :: "nat \<Rightarrow> softfloat_round" where
  "riscv_fp_rounding_mode rm0 =
     (let rm = rm0 mod 8 in
      if rm = 0 then round_near_even
      else if rm = 1 then round_minMag
      else if rm = 2 then round_min
      else if rm = 3 then round_max
      else if rm = 4 then round_near_maxMag
      else round_near_even)"

definition riscv_fp_flags :: "softfloat_flags \<Rightarrow> uint32_t" where
  "riscv_fp_flags sf =
     (if flag_invalid sf then push_bit 4 1 else 0) OR (if flag_infinite sf then push_bit 3 1 else 0) OR
     (if flag_overflow sf then push_bit 2 1 else 0) OR (if flag_underflow sf then push_bit 1 1 else 0) OR
     (if flag_inexact sf then 1 else 0)"

text \<open>The result of a SoftFloat call with its flags in the encoding of \<open>fflags\<close>.\<close>

definition fp_result :: "'a \<times> softfloat_flags \<Rightarrow> 'a \<times> uint32_t" where
  "fp_result r = (fst r, riscv_fp_flags (snd r))"

section \<open>Constants (fli)\<close>

definition fli_constants :: "uint32_t list" where
  "fli_constants =
    [0xbf800000, 0x00800000, 0x37800000, 0x38000000,
     0x3b800000, 0x3c000000, 0x3d800000, 0x3e000000,
     0x3e800000, 0x3ea00000, 0x3ec00000, 0x3ee00000,
     0x3f000000, 0x3f200000, 0x3f400000, 0x3f600000,
     0x3f800000, 0x3fa00000, 0x3fc00000, 0x3fe00000,
     0x40000000, 0x40200000, 0x40400000, 0x40800000,
     0x41000000, 0x41800000, 0x43000000, 0x43800000,
     0x47000000, 0x47800000, 0x7f800000, 0x7fc00000]"

definition riscv_fp_fli :: "nat \<Rightarrow> bool \<Rightarrow> word_t" where
  "riscv_fp_fli immediate double_precision =
     (let bits = fli_constants ! (immediate mod 32) in
      if \<not> double_precision then ucast bits
      else
        let e0 = unat (drop_bit 23 bits AND 255);
            exponent = (if immediate = 1 then 1 else if e0 = 255 then 2047 else e0 + 896)
        in push_bit 63 (ucast (drop_bit 31 bits)) OR push_bit 52 (of_nat exponent) OR
           push_bit 29 (ucast (bits AND 0x7fffff)))"

section \<open>Arithmetic\<close>

definition riscv_fp_add_s :: "softfloat \<Rightarrow> uint32_t \<Rightarrow> uint32_t \<Rightarrow> nat \<Rightarrow> uint32_t \<times> uint32_t" where
  "riscv_fp_add_s sf lhs rhs rm =
     fp_result (f32_add sf (riscv_fp_rounding_mode rm) lhs rhs)"

definition riscv_fp_sub_s :: "softfloat \<Rightarrow> uint32_t \<Rightarrow> uint32_t \<Rightarrow> nat \<Rightarrow> uint32_t \<times> uint32_t" where
  "riscv_fp_sub_s sf lhs rhs rm =
     fp_result (f32_sub sf (riscv_fp_rounding_mode rm) lhs rhs)"

definition riscv_fp_mul_s :: "softfloat \<Rightarrow> uint32_t \<Rightarrow> uint32_t \<Rightarrow> nat \<Rightarrow> uint32_t \<times> uint32_t" where
  "riscv_fp_mul_s sf lhs rhs rm =
     fp_result (f32_mul sf (riscv_fp_rounding_mode rm) lhs rhs)"

definition riscv_fp_div_s :: "softfloat \<Rightarrow> uint32_t \<Rightarrow> uint32_t \<Rightarrow> nat \<Rightarrow> uint32_t \<times> uint32_t" where
  "riscv_fp_div_s sf lhs rhs rm =
     fp_result (f32_div sf (riscv_fp_rounding_mode rm) lhs rhs)"

definition riscv_fp_sqrt_s :: "softfloat \<Rightarrow> uint32_t \<Rightarrow> nat \<Rightarrow> uint32_t \<times> uint32_t" where
  "riscv_fp_sqrt_s sf operand rm =
     fp_result (f32_sqrt sf (riscv_fp_rounding_mode rm) operand)"

definition riscv_fp_fma_s :: "softfloat \<Rightarrow> uint32_t \<Rightarrow> uint32_t \<Rightarrow> uint32_t \<Rightarrow> nat \<Rightarrow> bool \<Rightarrow> bool \<Rightarrow> uint32_t \<times> uint32_t" where
  "riscv_fp_fma_s sf lhs0 rhs addend0 rm negate_product negate_addend =
     (let lhs = (if negate_product then lhs0 XOR 0x80000000 else lhs0);
          addend = (if negate_addend then addend0 XOR 0x80000000 else addend0)
      in fp_result (f32_mulAdd sf (riscv_fp_rounding_mode rm) lhs rhs addend))"

definition riscv_fp_add_d :: "softfloat \<Rightarrow> word_t \<Rightarrow> word_t \<Rightarrow> nat \<Rightarrow> word_t \<times> uint32_t" where
  "riscv_fp_add_d sf lhs rhs rm =
     fp_result (f64_add sf (riscv_fp_rounding_mode rm) lhs rhs)"

definition riscv_fp_sub_d :: "softfloat \<Rightarrow> word_t \<Rightarrow> word_t \<Rightarrow> nat \<Rightarrow> word_t \<times> uint32_t" where
  "riscv_fp_sub_d sf lhs rhs rm =
     fp_result (f64_sub sf (riscv_fp_rounding_mode rm) lhs rhs)"

definition riscv_fp_mul_d :: "softfloat \<Rightarrow> word_t \<Rightarrow> word_t \<Rightarrow> nat \<Rightarrow> word_t \<times> uint32_t" where
  "riscv_fp_mul_d sf lhs rhs rm =
     fp_result (f64_mul sf (riscv_fp_rounding_mode rm) lhs rhs)"

definition riscv_fp_div_d :: "softfloat \<Rightarrow> word_t \<Rightarrow> word_t \<Rightarrow> nat \<Rightarrow> word_t \<times> uint32_t" where
  "riscv_fp_div_d sf lhs rhs rm =
     fp_result (f64_div sf (riscv_fp_rounding_mode rm) lhs rhs)"

definition riscv_fp_sqrt_d :: "softfloat \<Rightarrow> word_t \<Rightarrow> nat \<Rightarrow> word_t \<times> uint32_t" where
  "riscv_fp_sqrt_d sf operand rm =
     fp_result (f64_sqrt sf (riscv_fp_rounding_mode rm) operand)"

definition riscv_fp_fma_d :: "softfloat \<Rightarrow> word_t \<Rightarrow> word_t \<Rightarrow> word_t \<Rightarrow> nat \<Rightarrow> bool \<Rightarrow> bool \<Rightarrow> word_t \<times> uint32_t" where
  "riscv_fp_fma_d sf lhs0 rhs addend0 rm negate_product negate_addend =
     (let lhs = (if negate_product then lhs0 XOR 0x8000000000000000 else lhs0);
          addend = (if negate_addend then addend0 XOR 0x8000000000000000 else addend0)
      in fp_result (f64_mulAdd sf (riscv_fp_rounding_mode rm) lhs rhs addend))"

section \<open>Minimum, maximum and comparisons\<close>

definition riscv_fp_is_nan_s :: "uint32_t \<Rightarrow> bool" where
  "riscv_fp_is_nan_s bits =
     (bits AND 0x7f800000 = 0x7f800000 \<and> bits AND 0x007fffff \<noteq> 0)"

definition riscv_fp_is_snan_s :: "uint32_t \<Rightarrow> bool" where
  "riscv_fp_is_snan_s bits =
     (riscv_fp_is_nan_s bits \<and> bits AND 0x00400000 = 0)"

definition riscv_fp_less_s :: "uint32_t \<Rightarrow> uint32_t \<Rightarrow> bool" where
  "riscv_fp_less_s lhs rhs =
     (let lhs_sign = (drop_bit 31 lhs \<noteq> 0); rhs_sign = (drop_bit 31 rhs \<noteq> 0) in
      if lhs_sign \<noteq> rhs_sign then lhs_sign else if lhs_sign then lhs > rhs else lhs < rhs)"

definition riscv_fp_minmax_s :: "uint32_t \<Rightarrow> uint32_t \<Rightarrow> bool \<Rightarrow> uint32_t \<times> uint32_t" where
  "riscv_fp_minmax_s lhs rhs maximum =
     (let lhs_nan = riscv_fp_is_nan_s lhs; rhs_nan = riscv_fp_is_nan_s rhs;
          flags = (if riscv_fp_is_snan_s lhs \<or> riscv_fp_is_snan_s rhs then push_bit 4 1 else 0) in
      if lhs_nan \<and> rhs_nan then (0x7fc00000, flags)
      else if lhs_nan then (rhs, flags)
      else if rhs_nan then (lhs, flags)
      else if push_bit 1 (lhs OR rhs) = 0 then (if maximum then lhs AND rhs else lhs OR rhs, flags)
      else
        let lhs_less = riscv_fp_less_s lhs rhs
        in (if maximum then (if lhs_less then rhs else lhs) else (if lhs_less then lhs else rhs), flags))"

definition riscv_fp_min_s :: "uint32_t \<Rightarrow> uint32_t \<Rightarrow> uint32_t \<times> uint32_t" where
  "riscv_fp_min_s lhs rhs =
     riscv_fp_minmax_s lhs rhs False"

definition riscv_fp_max_s :: "uint32_t \<Rightarrow> uint32_t \<Rightarrow> uint32_t \<times> uint32_t" where
  "riscv_fp_max_s lhs rhs =
     riscv_fp_minmax_s lhs rhs True"

definition riscv_fp_minmaxm_s :: "uint32_t \<Rightarrow> uint32_t \<Rightarrow> bool \<Rightarrow> uint32_t \<times> uint32_t" where
  "riscv_fp_minmaxm_s lhs rhs maximum =
     (case riscv_fp_minmax_s lhs rhs maximum of (result, flags) \<Rightarrow>
        (if riscv_fp_is_nan_s lhs \<or> riscv_fp_is_nan_s rhs then 0x7fc00000 else result, flags))"

definition riscv_fp_compare_s :: "softfloat \<Rightarrow> uint32_t \<Rightarrow> uint32_t \<Rightarrow> nat \<Rightarrow> uint32_t \<times> uint32_t" where
  "riscv_fp_compare_s sf lhs rhs mode =
     (case fp_result (if mode = 0 then f32_le sf lhs rhs else if mode = 1 then f32_lt sf lhs rhs
                       else f32_eq sf lhs rhs) of (result, flags) \<Rightarrow> (of_bool result, flags))"

definition riscv_fp_le_s :: "softfloat \<Rightarrow> uint32_t \<Rightarrow> uint32_t \<Rightarrow> uint32_t \<times> uint32_t" where
  "riscv_fp_le_s sf lhs rhs =
     riscv_fp_compare_s sf lhs rhs 0"

definition riscv_fp_lt_s :: "softfloat \<Rightarrow> uint32_t \<Rightarrow> uint32_t \<Rightarrow> uint32_t \<times> uint32_t" where
  "riscv_fp_lt_s sf lhs rhs =
     riscv_fp_compare_s sf lhs rhs 1"

definition riscv_fp_eq_s :: "softfloat \<Rightarrow> uint32_t \<Rightarrow> uint32_t \<Rightarrow> uint32_t \<times> uint32_t" where
  "riscv_fp_eq_s sf lhs rhs =
     riscv_fp_compare_s sf lhs rhs 2"

definition riscv_fp_quiet_s :: "softfloat \<Rightarrow> uint32_t \<Rightarrow> uint32_t \<Rightarrow> bool \<Rightarrow> uint32_t \<times> uint32_t" where
  "riscv_fp_quiet_s sf lhs rhs lt_mode =
     (case fp_result (if lt_mode then f32_lt_quiet sf lhs rhs else f32_le_quiet sf lhs rhs) of
        (result, flags) \<Rightarrow> (of_bool result, flags))"

definition riscv_fp_round_s :: "softfloat \<Rightarrow> uint32_t \<Rightarrow> nat \<Rightarrow> bool \<Rightarrow> uint32_t \<times> uint32_t" where
  "riscv_fp_round_s sf bits rm exact =
     fp_result (f32_roundToInt sf (riscv_fp_rounding_mode rm) exact bits)"

definition riscv_fp_class_s :: "uint32_t \<Rightarrow> uint32_t" where
  "riscv_fp_class_s bits =
     (let exponent = bits AND 0x7f800000; fraction = bits AND 0x007fffff; negative = (drop_bit 31 bits \<noteq> 0) in
      if exponent = 0x7f800000 then
        if fraction = 0 then push_bit (if negative then 0 else 7) 1
        else push_bit (if fraction AND 0x00400000 \<noteq> 0 then 9 else 8) 1
      else if exponent = 0 then
        if fraction = 0 then push_bit (if negative then 3 else 4) 1
        else push_bit (if negative then 2 else 5) 1
      else push_bit (if negative then 1 else 6) 1)"

definition riscv_fp_is_nan_d :: "word_t \<Rightarrow> bool" where
  "riscv_fp_is_nan_d bits =
     (bits AND 0x7ff0000000000000 = 0x7ff0000000000000 \<and> bits AND 0x000fffffffffffff \<noteq> 0)"

definition riscv_fp_is_snan_d :: "word_t \<Rightarrow> bool" where
  "riscv_fp_is_snan_d bits =
     (riscv_fp_is_nan_d bits \<and> bits AND 0x0008000000000000 = 0)"

definition riscv_fp_less_d :: "word_t \<Rightarrow> word_t \<Rightarrow> bool" where
  "riscv_fp_less_d lhs rhs =
     (let lhs_sign = (drop_bit 63 lhs \<noteq> 0); rhs_sign = (drop_bit 63 rhs \<noteq> 0) in
      if lhs_sign \<noteq> rhs_sign then lhs_sign else if lhs_sign then lhs > rhs else lhs < rhs)"

definition riscv_fp_minmax_d :: "word_t \<Rightarrow> word_t \<Rightarrow> bool \<Rightarrow> word_t \<times> uint32_t" where
  "riscv_fp_minmax_d lhs rhs maximum =
     (let lhs_nan = riscv_fp_is_nan_d lhs; rhs_nan = riscv_fp_is_nan_d rhs;
          flags = (if riscv_fp_is_snan_d lhs \<or> riscv_fp_is_snan_d rhs then push_bit 4 1 else 0) in
      if lhs_nan \<and> rhs_nan then (0x7ff8000000000000, flags)
      else if lhs_nan then (rhs, flags)
      else if rhs_nan then (lhs, flags)
      else if push_bit 1 (lhs OR rhs) = 0 then (if maximum then lhs AND rhs else lhs OR rhs, flags)
      else
        let lhs_less = riscv_fp_less_d lhs rhs
        in (if maximum then (if lhs_less then rhs else lhs) else (if lhs_less then lhs else rhs), flags))"

definition riscv_fp_min_d :: "word_t \<Rightarrow> word_t \<Rightarrow> word_t \<times> uint32_t" where
  "riscv_fp_min_d lhs rhs =
     riscv_fp_minmax_d lhs rhs False"

definition riscv_fp_max_d :: "word_t \<Rightarrow> word_t \<Rightarrow> word_t \<times> uint32_t" where
  "riscv_fp_max_d lhs rhs =
     riscv_fp_minmax_d lhs rhs True"

definition riscv_fp_minmaxm_d :: "word_t \<Rightarrow> word_t \<Rightarrow> bool \<Rightarrow> word_t \<times> uint32_t" where
  "riscv_fp_minmaxm_d lhs rhs maximum =
     (case riscv_fp_minmax_d lhs rhs maximum of (result, flags) \<Rightarrow>
        (if riscv_fp_is_nan_d lhs \<or> riscv_fp_is_nan_d rhs then 0x7ff8000000000000 else result, flags))"

definition riscv_fp_compare_d :: "softfloat \<Rightarrow> word_t \<Rightarrow> word_t \<Rightarrow> nat \<Rightarrow> uint32_t \<times> uint32_t" where
  "riscv_fp_compare_d sf lhs rhs mode =
     (case fp_result (if mode = 0 then f64_le sf lhs rhs else if mode = 1 then f64_lt sf lhs rhs
                       else f64_eq sf lhs rhs) of (result, flags) \<Rightarrow> (of_bool result, flags))"

definition riscv_fp_le_d :: "softfloat \<Rightarrow> word_t \<Rightarrow> word_t \<Rightarrow> uint32_t \<times> uint32_t" where
  "riscv_fp_le_d sf lhs rhs =
     riscv_fp_compare_d sf lhs rhs 0"

definition riscv_fp_lt_d :: "softfloat \<Rightarrow> word_t \<Rightarrow> word_t \<Rightarrow> uint32_t \<times> uint32_t" where
  "riscv_fp_lt_d sf lhs rhs =
     riscv_fp_compare_d sf lhs rhs 1"

definition riscv_fp_eq_d :: "softfloat \<Rightarrow> word_t \<Rightarrow> word_t \<Rightarrow> uint32_t \<times> uint32_t" where
  "riscv_fp_eq_d sf lhs rhs =
     riscv_fp_compare_d sf lhs rhs 2"

definition riscv_fp_quiet_d :: "softfloat \<Rightarrow> word_t \<Rightarrow> word_t \<Rightarrow> bool \<Rightarrow> uint32_t \<times> uint32_t" where
  "riscv_fp_quiet_d sf lhs rhs lt_mode =
     (case fp_result (if lt_mode then f64_lt_quiet sf lhs rhs else f64_le_quiet sf lhs rhs) of
        (result, flags) \<Rightarrow> (of_bool result, flags))"

definition riscv_fp_round_d :: "softfloat \<Rightarrow> word_t \<Rightarrow> nat \<Rightarrow> bool \<Rightarrow> word_t \<times> uint32_t" where
  "riscv_fp_round_d sf bits rm exact =
     fp_result (f64_roundToInt sf (riscv_fp_rounding_mode rm) exact bits)"

definition riscv_fp_class_d :: "word_t \<Rightarrow> uint32_t" where
  "riscv_fp_class_d bits =
     (let exponent = bits AND 0x7ff0000000000000; fraction = bits AND 0x000fffffffffffff; negative = (drop_bit 63 bits \<noteq> 0) in
      if exponent = 0x7ff0000000000000 then
        if fraction = 0 then push_bit (if negative then 0 else 7) 1
        else push_bit (if fraction AND 0x0008000000000000 \<noteq> 0 then 9 else 8) 1
      else if exponent = 0 then
        if fraction = 0 then push_bit (if negative then 3 else 4) 1
        else push_bit (if negative then 2 else 5) 1
      else push_bit (if negative then 1 else 6) 1)"

section \<open>Conversions\<close>

definition riscv_fp_to_int_s :: "softfloat \<Rightarrow> uint32_t \<Rightarrow> nat \<Rightarrow> bool \<Rightarrow> bool \<Rightarrow> word_t \<times> uint32_t" where
  "riscv_fp_to_int_s sf bits rm unsigned_result int64 =
     (let mode = riscv_fp_rounding_mode rm in
      if int64 then fp_result (if unsigned_result then f32_to_ui64 sf mode True bits else f32_to_i64 sf mode True bits)
      else map_prod ucast id
             (fp_result (if unsigned_result then f32_to_ui32 sf mode True bits else f32_to_i32 sf mode True bits)))"

definition riscv_int_to_fp_s :: "softfloat \<Rightarrow> word_t \<Rightarrow> nat \<Rightarrow> bool \<Rightarrow> bool \<Rightarrow> uint32_t \<times> uint32_t" where
  "riscv_int_to_fp_s sf v rm unsigned_input int64 =
     (let mode = riscv_fp_rounding_mode rm in
      fp_result
        (if int64 then (if unsigned_input then ui64_to_f32 sf mode v else i64_to_f32 sf mode v)
         else (if unsigned_input then ui32_to_f32 sf mode (ucast v) else i32_to_f32 sf mode (ucast v))))"

definition riscv_fp_to_int_d :: "softfloat \<Rightarrow> word_t \<Rightarrow> nat \<Rightarrow> bool \<Rightarrow> bool \<Rightarrow> word_t \<times> uint32_t" where
  "riscv_fp_to_int_d sf bits rm unsigned_result int64 =
     (let mode = riscv_fp_rounding_mode rm in
      if int64 then fp_result (if unsigned_result then f64_to_ui64 sf mode True bits else f64_to_i64 sf mode True bits)
      else map_prod ucast id
             (fp_result (if unsigned_result then f64_to_ui32 sf mode True bits else f64_to_i32 sf mode True bits)))"

definition riscv_int_to_fp_d :: "softfloat \<Rightarrow> word_t \<Rightarrow> nat \<Rightarrow> bool \<Rightarrow> bool \<Rightarrow> word_t \<times> uint32_t" where
  "riscv_int_to_fp_d sf v rm unsigned_input int64 =
     (let mode = riscv_fp_rounding_mode rm in
      fp_result
        (if int64 then (if unsigned_input then ui64_to_f64 sf mode v else i64_to_f64 sf mode v)
         else (if unsigned_input then ui32_to_f64 sf mode (ucast v) else i32_to_f64 sf mode (ucast v))))"

definition riscv_fp_mod_w_d :: "softfloat \<Rightarrow> word_t \<Rightarrow> uint32_t \<times> uint32_t" where
  "riscv_fp_mod_w_d sf bits =
     (let flags = snd (riscv_fp_to_int_d sf bits 1 False False);
          exponent = int (unat (drop_bit 52 bits AND 2047)) - 1023 in
      if exponent < 0 \<or> exponent \<ge> 84 then (0, flags)
      else
        let significand = (bits AND 0xfffffffffffff) OR push_bit 52 1;
            result = (ucast (if exponent > 52 then push_bit (nat (exponent - 52)) significand
                             else drop_bit (nat (52 - exponent)) significand) :: uint32_t)
        in (if drop_bit 63 bits \<noteq> 0 then 0 - result else result, flags))"

definition riscv_fp_convert_d_to_s :: "softfloat \<Rightarrow> word_t \<Rightarrow> nat \<Rightarrow> uint32_t \<times> uint32_t" where
  "riscv_fp_convert_d_to_s sf bits rm =
     fp_result (f64_to_f32 sf (riscv_fp_rounding_mode rm) bits)"

definition riscv_fp_convert_s_to_d :: "softfloat \<Rightarrow> uint32_t \<Rightarrow> nat \<Rightarrow> word_t \<times> uint32_t" where
  "riscv_fp_convert_s_to_d sf bits rm =
     fp_result (f32_to_f64 sf (riscv_fp_rounding_mode rm) bits)"

definition riscv_fp_box_s :: "uint32_t \<Rightarrow> word_t" where
  "riscv_fp_box_s bits =
     0xffffffff00000000 OR ucast bits"

definition riscv_fp_box_h :: "uint16_t \<Rightarrow> word_t" where
  "riscv_fp_box_h bits =
     0xffffffffffff0000 OR ucast bits"

definition riscv_fp_s_bits :: "word_t \<Rightarrow> uint32_t" where
  "riscv_fp_s_bits bits =
     ucast bits"

definition riscv_fp_h_bits :: "word_t \<Rightarrow> uint16_t" where
  "riscv_fp_h_bits bits =
     ucast bits"

definition riscv_fp_read_s :: "word_t \<Rightarrow> uint32_t" where
  "riscv_fp_read_s bits =
     (if drop_bit 32 bits = 0xffffffff then ucast bits else 0x7fc00000)"

definition riscv_fp_read_h :: "word_t \<Rightarrow> uint16_t" where
  "riscv_fp_read_h bits =
     (if drop_bit 16 bits = 0x0000ffffffffffff then ucast bits else 0x7e00)"

definition riscv_fp_is_nan_h :: "uint16_t \<Rightarrow> bool" where
  "riscv_fp_is_nan_h bits =
     (bits AND 0x7c00 = 0x7c00 \<and> bits AND 0x03ff \<noteq> 0)"

definition riscv_fp_convert_h_to_s :: "softfloat \<Rightarrow> uint16_t \<Rightarrow> uint32_t \<times> uint32_t" where
  "riscv_fp_convert_h_to_s sf bits =
     (if riscv_fp_is_nan_h bits then (0x7fc00000, if bits AND 0x0200 \<noteq> 0 then 0 else push_bit 4 1)
      else fp_result (f16_to_f32 sf bits))"

definition riscv_fp_convert_h_to_d :: "softfloat \<Rightarrow> uint16_t \<Rightarrow> word_t \<times> uint32_t" where
  "riscv_fp_convert_h_to_d sf bits =
     (if riscv_fp_is_nan_h bits then (0x7ff8000000000000, if bits AND 0x0200 \<noteq> 0 then 0 else push_bit 4 1)
      else fp_result (f16_to_f64 sf bits))"

definition riscv_fp_convert_s_to_h :: "softfloat \<Rightarrow> uint32_t \<Rightarrow> nat \<Rightarrow> uint16_t \<times> uint32_t" where
  "riscv_fp_convert_s_to_h sf bits rm =
     (if bits AND 0x7f800000 = 0x7f800000 \<and> bits AND 0x007fffff \<noteq> 0
      then (0x7e00, if bits AND 0x00400000 \<noteq> 0 then 0 else push_bit 4 1)
      else fp_result (f32_to_f16 sf (riscv_fp_rounding_mode rm) bits))"

definition riscv_fp_convert_d_to_h :: "softfloat \<Rightarrow> word_t \<Rightarrow> nat \<Rightarrow> uint16_t \<times> uint32_t" where
  "riscv_fp_convert_d_to_h sf bits rm =
     (if bits AND 0x7ff0000000000000 = 0x7ff0000000000000 \<and> bits AND 0x000fffffffffffff \<noteq> 0
      then (0x7e00, if bits AND 0x0008000000000000 \<noteq> 0 then 0 else push_bit 4 1)
      else fp_result (f64_to_f16 sf (riscv_fp_rounding_mode rm) bits))"

definition riscv_fp_sgnj :: "word_t \<Rightarrow> word_t \<Rightarrow> nat \<Rightarrow> word_t" where
  "riscv_fp_sgnj lhs rhs mode =
     (let lhs_bits = riscv_fp_read_s lhs; rhs_bits = riscv_fp_read_s rhs;
          sign = (if mode = 1 then NOT rhs_bits AND 0x80000000
                  else if mode = 2 then (lhs_bits XOR rhs_bits) AND 0x80000000
                  else rhs_bits AND 0x80000000)
      in riscv_fp_box_s ((lhs_bits AND 0x7fffffff) OR sign))"

end
