(* ===== verification/Epoch_Cache.thy ===== *)
theory Epoch_Cache
  imports Prelude
begin

text \<open>
  The interface three caches of the emulator share: a table of slots stamped with a 32-bit epoch,
  valid only while the stamp equals the current epoch, and a flush that increments the epoch and
  clears the table when the counter wraps. The software TLBs, the decoded-instruction cache and the
  PMP match cache interpret it.
\<close>

text \<open>
  \<open>keyed c i\<close> says that the tag of slot \<open>i\<close> can equal the tag of some lookup; a lookup hits slot
  \<open>i\<close> only if the slot is keyed and its stamp is the current epoch.
\<close>

locale epoch_cache =
  fixes epoch :: "'c \<Rightarrow> uint32_t"
    and stamp :: "'c \<Rightarrow> nat \<Rightarrow> uint32_t"
    and keyed :: "'c \<Rightarrow> nat \<Rightarrow> bool"
    and flush :: "'c \<Rightarrow> 'c"
  assumes flush_epoch: "epoch c + 1 \<noteq> 0 \<Longrightarrow> epoch (flush c) = epoch c + 1"
    and flush_stamp: "epoch c + 1 \<noteq> 0 \<Longrightarrow> stamp (flush c) i = stamp c i"
    and flush_keyed: "epoch c + 1 \<noteq> 0 \<Longrightarrow> keyed (flush c) i = keyed c i"
    and wrap_epoch: "epoch c + 1 = 0 \<Longrightarrow> epoch (flush c) = 1"
    and wrap_dead: "epoch c + 1 = 0 \<Longrightarrow> keyed (flush c) i \<Longrightarrow> stamp (flush c) i = 0"
begin

definition valid :: "'c \<Rightarrow> nat \<Rightarrow> bool" where
  "valid c i \<longleftrightarrow> keyed c i \<and> stamp c i = epoch c"

definition epoch_inv :: "'c \<Rightarrow> bool" where
  "epoch_inv c \<longleftrightarrow> epoch c \<noteq> 0 \<and> (\<forall>i. keyed c i \<longrightarrow> stamp c i \<le> epoch c)"

lemma flush_epoch_inv:
  assumes "epoch_inv c"
  shows "epoch_inv (flush c)"
proof (cases "epoch c + 1 = 0")
  case True
  then show ?thesis by (auto simp: epoch_inv_def wrap_epoch wrap_dead)
next
  case False
  then have "epoch c \<le> epoch c + 1"
    using word_succ_less by (metis order.strict_implies_order)
  with False assms show ?thesis
    by (auto simp: epoch_inv_def flush_epoch flush_stamp flush_keyed intro: order_trans)
qed

text \<open>After a flush no slot answers a lookup, across the wrap of the counter too.\<close>

lemma flush_not_valid:
  assumes "epoch_inv c"
  shows "\<not> valid (flush c) i"
proof (cases "epoch c + 1 = 0")
  case True
  then show ?thesis by (auto simp: valid_def wrap_epoch dest: wrap_dead)
next
  case False
  have "keyed c i \<Longrightarrow> stamp c i \<noteq> epoch c + 1"
    using assms word_succ_less [OF False] by (auto simp: epoch_inv_def)
  with False show ?thesis by (auto simp: valid_def flush_epoch flush_stamp flush_keyed)
qed

text \<open>A fill stamps its slot with the current epoch and leaves the others alone.\<close>

lemma fill_epoch_inv:
  assumes "epoch_inv c" and "epoch c' = epoch c"
    and "\<And>i. stamp c' i = (if i = j then epoch c else stamp c i)"
    and "\<And>i. i \<noteq> j \<Longrightarrow> keyed c' i = keyed c i"
  shows "epoch_inv c'"
  using assms by (auto simp: epoch_inv_def)

end

end
