(* ===== verification/Soft_Cache.thy ===== *)
theory Soft_Cache
  imports State Epoch_Cache
begin

text \<open>
  The software TLBs (\<^verbatim>\<open>include/memory/tlb.h\<close>, \<^verbatim>\<open>src/memory/vaddr.c\<close>) and the decoded-instruction
  cache (\<^verbatim>\<open>include/cpu/icache.h\<close>, \<^verbatim>\<open>src/cpu/icache.c\<close>). Both interpret the epoch-cache interface;
  the lemmas say that a hit returns what was filled for that page or that PC, and that nothing
  filled before a flush is ever returned after it.
\<close>

unbundle bit_operations_syntax

section \<open>Decoded-instruction cache\<close>

definition icache_zero :: icache_entry_t where
  "icache_zero = \<lparr>ie_pc = 0, ie_inst = 0, ie_ilen = 0, ie_epoch = 0\<rparr>"

definition icache_init :: icache_state where
  "icache_init = \<lparr>icache = (\<lambda>_. icache_zero), icache_epoch = 1\<rparr>"

definition icache_flush :: "icache_state \<Rightarrow> icache_state" where
  "icache_flush ic =
     (let e = icache_epoch ic + 1 in
      if e = 0 then \<lparr>icache = (\<lambda>_. icache_zero), icache_epoch = 1\<rparr>
      else ic\<lparr>icache_epoch := e\<rparr>)"

definition icache_slot :: "vaddr_t \<Rightarrow> nat" where
  "icache_slot pc = unat (drop_bit 1 pc AND 0xfff)"

definition icache_hit :: "icache_state \<Rightarrow> vaddr_t \<Rightarrow> bool" where
  "icache_hit ic pc \<longleftrightarrow>
     (let e = icache ic (icache_slot pc) in ie_pc e = pc \<and> ie_epoch e = icache_epoch ic)"

definition icache_fill :: "icache_state \<Rightarrow> vaddr_t \<Rightarrow> uint32_t \<Rightarrow> uint16_t \<Rightarrow> icache_state" where
  "icache_fill ic pc inst ilen =
     ic\<lparr>icache := (icache ic)(icache_slot pc :=
       \<lparr>ie_pc = pc, ie_inst = inst, ie_ilen = ilen, ie_epoch = icache_epoch ic\<rparr>)\<rparr>"

interpretation icp: epoch_cache icache_epoch "\<lambda>ic i. ie_epoch (icache ic i)" "\<lambda>ic i. True" icache_flush
  by unfold_locales (auto simp: icache_flush_def icache_zero_def Let_def)

lemma icache_init_inv: "icp.epoch_inv icache_init"
  by (simp add: icp.epoch_inv_def icache_init_def icache_zero_def)

lemma icache_fill_inv: "icp.epoch_inv ic \<Longrightarrow> icp.epoch_inv (icache_fill ic pc inst ilen)"
  by (erule icp.fill_epoch_inv [where j = "icache_slot pc"]) (auto simp: icache_fill_def)

lemma icache_hit_flush: "icp.epoch_inv ic \<Longrightarrow> \<not> icache_hit (icache_flush ic) pc"
  using icp.flush_not_valid [of ic "icache_slot pc"]
  by (auto simp: icache_hit_def icp.valid_def Let_def)

lemma icache_hit_fill:
  "icache_hit (icache_fill ic pc inst ilen) pc' \<longleftrightarrow>
     pc' = pc \<or> (icache_slot pc' \<noteq> icache_slot pc \<and> icache_hit ic pc')"
  by (auto simp: icache_hit_def icache_fill_def Let_def)

section \<open>Software TLBs\<close>

text \<open>The tag of a lookup is \<open>vaddr >> PAGE_SHIFT\<close>; \<open>SOFT_TLB_INVALID_TAG\<close> is \<open>-1\<close>.\<close>

abbreviation (input) PAGE_SHIFT :: nat where "PAGE_SHIFT \<equiv> 12"

abbreviation (input) PAGE_MASK :: word_t where "PAGE_MASK \<equiv> 0xfff"

abbreviation (input) SOFT_TLB_INVALID_TAG :: vaddr_t where "SOFT_TLB_INVALID_TAG \<equiv> - 1"

definition soft_tlb_idx :: "vaddr_t \<Rightarrow> nat" where
  "soft_tlb_idx vaddr = unat (drop_bit PAGE_SHIFT vaddr AND 0xff)"

definition tlb_zero :: soft_tlb_entry_t where
  "tlb_zero = \<lparr>te_vpn = 0, te_ppn = 0, te_pbmt = 0, te_epoch = 0\<rparr>"

definition soft_tlb_init :: soft_tlb_state where
  "soft_tlb_init = \<lparr>soft_tlb_ifetch = (\<lambda>_. tlb_zero), soft_tlb_load = (\<lambda>_. tlb_zero),
     soft_tlb_store = (\<lambda>_. tlb_zero), soft_tlb_epoch = 1\<rparr>"

text \<open>The loop of \<open>soft_tlb_flush\<close> over the 256 slots of one table.\<close>

definition tlb_invalidate_tags :: "(nat \<Rightarrow> soft_tlb_entry_t) \<Rightarrow> nat \<Rightarrow> soft_tlb_entry_t" where
  "tlb_invalidate_tags t i = (if i < 256 then (t i)\<lparr>te_vpn := SOFT_TLB_INVALID_TAG\<rparr> else t i)"

text \<open>The TLB part of \<open>soft_tlb_flush\<close>.\<close>

definition tlb_flush :: "soft_tlb_state \<Rightarrow> soft_tlb_state" where
  "tlb_flush t =
     (let e = soft_tlb_epoch t + 1 in
      if e = 0
      then t\<lparr>soft_tlb_ifetch := tlb_invalidate_tags (soft_tlb_ifetch t),
             soft_tlb_load := tlb_invalidate_tags (soft_tlb_load t),
             soft_tlb_store := tlb_invalidate_tags (soft_tlb_store t), soft_tlb_epoch := 1\<rparr>
      else t\<lparr>soft_tlb_epoch := e\<rparr>)"

text \<open>\<open>soft_tlb_flush\<close>: the instruction cache is flushed together with the TLBs.\<close>

definition soft_tlb_flush :: "nemu \<Rightarrow> nemu" where
  "soft_tlb_flush s = s\<lparr>icaches := icache_flush (icaches s), tlbs := tlb_flush (tlbs s)\<rparr>"

lemma soft_tlb_flush_frame [simp]:
  "sr (soft_tlb_flush s) = sr s" "pmpu (soft_tlb_flush s) = pmpu s" "cpu (soft_tlb_flush s) = cpu s"
  "phys (soft_tlb_flush s) = phys s" "g_vaddr (soft_tlb_flush s) = g_vaddr s"
  "g_nr_guest_inst (soft_tlb_flush s) = g_nr_guest_inst s"
  by (simp_all add: fun_eq_iff sr_def soft_tlb_flush_def)

definition soft_tlb_lookup_attrs ::
    "(nat \<Rightarrow> soft_tlb_entry_t) \<Rightarrow> uint32_t \<Rightarrow> vaddr_t \<Rightarrow> (paddr_t \<times> uint8_t) option" where
  "soft_tlb_lookup_attrs tlb ep vaddr =
     (let vpn = drop_bit PAGE_SHIFT vaddr; e = tlb (soft_tlb_idx vaddr) in
      if te_vpn e = vpn \<and> te_epoch e = ep
      then Some (te_ppn e OR (vaddr AND PAGE_MASK), te_pbmt e) else None)"

definition soft_tlb_refill_attrs ::
    "(nat \<Rightarrow> soft_tlb_entry_t) \<Rightarrow> uint32_t \<Rightarrow> vaddr_t \<Rightarrow> paddr_t \<Rightarrow> uint8_t \<Rightarrow> nat \<Rightarrow> soft_tlb_entry_t" where
  "soft_tlb_refill_attrs tlb ep vaddr paddr pbmt =
     tlb(soft_tlb_idx vaddr :=
       \<lparr>te_vpn = drop_bit PAGE_SHIFT vaddr, te_ppn = paddr AND NOT PAGE_MASK, te_pbmt = pbmt,
        te_epoch = ep\<rparr>)"

lemma soft_tlb_idx_less: "soft_tlb_idx v < 256"
proof -
  have "unat (drop_bit PAGE_SHIFT v AND 0xff) = unat (take_bit 8 (drop_bit PAGE_SHIFT v))"
    by (simp add: take_bit_eq_mask mask_numeral)
  also have "\<dots> < 2 ^ 8" by (simp only: unat_take_bit_mod) simp
  finally show ?thesis by (simp add: soft_tlb_idx_def)
qed

lemma vpn_not_invalid: "drop_bit PAGE_SHIFT (v :: vaddr_t) \<noteq> SOFT_TLB_INVALID_TAG"
proof
  assume "drop_bit PAGE_SHIFT v = SOFT_TLB_INVALID_TAG"
  then have "bit (drop_bit PAGE_SHIFT v) 63" by simp
  then show False by (auto simp: bit_simps dest: bit_imp_le_length)
qed

text \<open>Each of the three tables with the shared epoch is an epoch cache.\<close>

interpretation tif: epoch_cache soft_tlb_epoch "\<lambda>t i. te_epoch (soft_tlb_ifetch t i)"
    "\<lambda>t i. i < 256 \<and> te_vpn (soft_tlb_ifetch t i) \<noteq> SOFT_TLB_INVALID_TAG" tlb_flush
  by unfold_locales (auto simp: tlb_flush_def tlb_invalidate_tags_def Let_def)

interpretation tld: epoch_cache soft_tlb_epoch "\<lambda>t i. te_epoch (soft_tlb_load t i)"
    "\<lambda>t i. i < 256 \<and> te_vpn (soft_tlb_load t i) \<noteq> SOFT_TLB_INVALID_TAG" tlb_flush
  by unfold_locales (auto simp: tlb_flush_def tlb_invalidate_tags_def Let_def)

interpretation tst: epoch_cache soft_tlb_epoch "\<lambda>t i. te_epoch (soft_tlb_store t i)"
    "\<lambda>t i. i < 256 \<and> te_vpn (soft_tlb_store t i) \<noteq> SOFT_TLB_INVALID_TAG" tlb_flush
  by unfold_locales (auto simp: tlb_flush_def tlb_invalidate_tags_def Let_def)

definition tlb_inv :: "soft_tlb_state \<Rightarrow> bool" where
  "tlb_inv t \<longleftrightarrow> tif.epoch_inv t \<and> tld.epoch_inv t \<and> tst.epoch_inv t"

lemma tlb_inv_init: "tlb_inv soft_tlb_init"
  by (simp add: tlb_inv_def tif.epoch_inv_def tld.epoch_inv_def tst.epoch_inv_def
      soft_tlb_init_def tlb_zero_def)

lemma tlb_inv_flush: "tlb_inv t \<Longrightarrow> tlb_inv (tlb_flush t)"
  by (simp add: tlb_inv_def tif.flush_epoch_inv tld.flush_epoch_inv tst.flush_epoch_inv)

section \<open>Operations on the TLBs and what a hit means\<close>

text \<open>Which of the three tables an access uses, and the two operations the access paths perform on it.\<close>

datatype tlb_table = Tlb_ifetch | Tlb_load | Tlb_store

fun tlb_table_of :: "soft_tlb_state \<Rightarrow> tlb_table \<Rightarrow> nat \<Rightarrow> soft_tlb_entry_t" where
  "tlb_table_of t Tlb_ifetch = soft_tlb_ifetch t"
| "tlb_table_of t Tlb_load = soft_tlb_load t"
| "tlb_table_of t Tlb_store = soft_tlb_store t"

definition tlb_lookup :: "tlb_table \<Rightarrow> soft_tlb_state \<Rightarrow> vaddr_t \<Rightarrow> (paddr_t \<times> uint8_t) option" where
  "tlb_lookup k t v = soft_tlb_lookup_attrs (tlb_table_of t k) (soft_tlb_epoch t) v"

fun tlb_refill :: "tlb_table \<Rightarrow> vaddr_t \<Rightarrow> paddr_t \<Rightarrow> uint8_t \<Rightarrow> soft_tlb_state \<Rightarrow> soft_tlb_state" where
  "tlb_refill Tlb_ifetch v pa pb t = t\<lparr>soft_tlb_ifetch :=
     soft_tlb_refill_attrs (soft_tlb_ifetch t) (soft_tlb_epoch t) v pa pb\<rparr>"
| "tlb_refill Tlb_load v pa pb t = t\<lparr>soft_tlb_load :=
     soft_tlb_refill_attrs (soft_tlb_load t) (soft_tlb_epoch t) v pa pb\<rparr>"
| "tlb_refill Tlb_store v pa pb t = t\<lparr>soft_tlb_store :=
     soft_tlb_refill_attrs (soft_tlb_store t) (soft_tlb_epoch t) v pa pb\<rparr>"

datatype tlb_op = Tlb_flush | Tlb_fill tlb_table vaddr_t paddr_t uint8_t

fun tlb_step :: "soft_tlb_state \<Rightarrow> tlb_op \<Rightarrow> soft_tlb_state" where
  "tlb_step t Tlb_flush = tlb_flush t"
| "tlb_step t (Tlb_fill k v pa pb) = tlb_refill k v pa pb t"

text \<open>
  What the TLBs promise: per table, a map from virtual page numbers to page base and memory type
  that holds the refills since the last flush.
\<close>

type_synonym tlb_spec = "tlb_table \<Rightarrow> vaddr_t \<Rightarrow> (paddr_t \<times> uint8_t) option"

fun tlb_spec_step :: "tlb_spec \<Rightarrow> tlb_op \<Rightarrow> tlb_spec" where
  "tlb_spec_step m Tlb_flush = (\<lambda>_ _. None)"
| "tlb_spec_step m (Tlb_fill k v pa pb) =
     m(k := (m k)(drop_bit PAGE_SHIFT v \<mapsto> (pa AND NOT PAGE_MASK, pb)))"

definition tlb_sim :: "soft_tlb_state \<Rightarrow> tlb_spec \<Rightarrow> bool" where
  "tlb_sim t m \<longleftrightarrow> tlb_inv t \<and>
     (\<forall>k i. i < 256 \<and> te_vpn (tlb_table_of t k i) \<noteq> SOFT_TLB_INVALID_TAG \<and>
        te_epoch (tlb_table_of t k i) = soft_tlb_epoch t \<longrightarrow>
        unat (te_vpn (tlb_table_of t k i) AND 0xff) = i \<and>
        m k (te_vpn (tlb_table_of t k i)) =
          Some (te_ppn (tlb_table_of t k i), te_pbmt (tlb_table_of t k i)))"

lemma tlb_simD:
  assumes "tlb_sim t m" and "i < 256" and "te_vpn (tlb_table_of t k i) \<noteq> SOFT_TLB_INVALID_TAG"
    and "te_epoch (tlb_table_of t k i) = soft_tlb_epoch t"
  shows "i = unat (te_vpn (tlb_table_of t k i) AND 0xff)"
    and "m k (te_vpn (tlb_table_of t k i)) =
      Some (te_ppn (tlb_table_of t k i), te_pbmt (tlb_table_of t k i))"
  using assms by (auto simp: tlb_sim_def)

lemma tlb_sim_init: "tlb_sim soft_tlb_init (\<lambda>_ _. None)"
proof -
  have "te_epoch (tlb_table_of soft_tlb_init k i) = 0" for k i
    by (cases k) (simp_all add: soft_tlb_init_def tlb_zero_def)
  moreover have "soft_tlb_epoch soft_tlb_init = 1" by (simp add: soft_tlb_init_def)
  ultimately show ?thesis by (simp add: tlb_sim_def tlb_inv_init)
qed

lemma tlb_flush_dead:
  assumes "tlb_inv t" and "i < 256"
    and "te_vpn (tlb_table_of (tlb_flush t) k i) \<noteq> SOFT_TLB_INVALID_TAG"
  shows "te_epoch (tlb_table_of (tlb_flush t) k i) \<noteq> soft_tlb_epoch (tlb_flush t)"
  using assms tif.flush_not_valid [of t i] tld.flush_not_valid [of t i] tst.flush_not_valid [of t i]
  by (cases k) (simp_all add: tlb_inv_def tif.valid_def tld.valid_def tst.valid_def)

lemma tlb_refill_table:
  "tlb_table_of (tlb_refill k v pa pb t) k' =
     (if k' = k then soft_tlb_refill_attrs (tlb_table_of t k) (soft_tlb_epoch t) v pa pb
      else tlb_table_of t k')"
  by (cases k; cases k') simp_all

lemma tlb_refill_epoch [simp]: "soft_tlb_epoch (tlb_refill k v pa pb t) = soft_tlb_epoch t"
  by (cases k) simp_all

lemma tlb_inv_alt:
  "tlb_inv t \<longleftrightarrow> soft_tlb_epoch t \<noteq> 0 \<and>
     (\<forall>k i. i < 256 \<and> te_vpn (tlb_table_of t k i) \<noteq> SOFT_TLB_INVALID_TAG \<longrightarrow>
        te_epoch (tlb_table_of t k i) \<le> soft_tlb_epoch t)"
proof -
  have "(\<forall>k. P k) \<longleftrightarrow> P Tlb_ifetch \<and> P Tlb_load \<and> P Tlb_store" for P
    by (metis tlb_table.exhaust)
  then show ?thesis
    by (auto simp: tlb_inv_def tif.epoch_inv_def tld.epoch_inv_def tst.epoch_inv_def)
qed

lemma tlb_sim_step: "tlb_sim t m \<Longrightarrow> tlb_sim (tlb_step t x) (tlb_spec_step m x)"
proof (cases x)
  case Tlb_flush
  assume "tlb_sim t m"
  with Tlb_flush show ?thesis
    using tlb_flush_dead [of t] by (auto simp: tlb_sim_def tlb_inv_flush)
next
  case (Tlb_fill k v pa pb)
  assume sim: "tlb_sim t m"
  have other: False
    if "i < 256" "i \<noteq> soft_tlb_idx v" "te_vpn (tlb_table_of t k i) = drop_bit PAGE_SHIFT v"
      "te_epoch (tlb_table_of t k i) = soft_tlb_epoch t" for i
    using tlb_simD(1) [OF sim, of i k] that vpn_not_invalid [of v] by (simp add: soft_tlb_idx_def)
  from sim show ?thesis
    using Tlb_fill other
    by (auto simp: tlb_sim_def tlb_inv_alt tlb_refill_table soft_tlb_refill_attrs_def
        simp flip: soft_tlb_idx_def)
qed

lemma tlb_sim_run: "tlb_sim t m \<Longrightarrow> tlb_sim (foldl tlb_step t xs) (foldl tlb_spec_step m xs)"
  by (induction xs arbitrary: t m) (auto intro: tlb_sim_step)

lemma tlb_sim_lookup:
  assumes "tlb_sim t m" and "tlb_lookup k t v = Some (pa, pb)"
  shows "\<exists>base. m k (drop_bit PAGE_SHIFT v) = Some (base, pb) \<and> pa = base OR (v AND PAGE_MASK)"
  using assms tlb_simD(2) [OF assms(1) soft_tlb_idx_less [of v], of k] vpn_not_invalid [of v]
  by (auto simp: tlb_lookup_def soft_tlb_lookup_attrs_def Let_def split: if_splits)

text \<open>
  C1 (software TLB hits). Along any sequence of refills and flushes from the initial TLBs, a hit in
  a table returns the page base and the memory type of a refill of that very table and page made
  after the last flush, with the page offset of the looked-up address; no stale translation is ever
  returned, across the wrap of the 32-bit epoch too.
\<close>

theorem soft_tlb_hit_sound:
  assumes "tlb_lookup k (foldl tlb_step soft_tlb_init ops) v = Some (pa, pb)"
  shows "\<exists>base. foldl tlb_spec_step (\<lambda>_ _. None) ops k (drop_bit PAGE_SHIFT v) = Some (base, pb) \<and>
           pa = base OR (v AND PAGE_MASK)"
  using tlb_sim_lookup [OF tlb_sim_run [OF tlb_sim_init] assms] .

definition tlb_demo_ops :: "tlb_op list" where
  "tlb_demo_ops = [Tlb_fill Tlb_load 0x1000 0x80001000 0, Tlb_flush,
     Tlb_fill Tlb_load 0x1000 0x80002000 1]"

theorem soft_tlb_hit_sound_witness:
  "tlb_lookup Tlb_load (foldl tlb_step soft_tlb_init tlb_demo_ops) 0x1004 = Some (0x80002004, 1) \<and>
   (\<exists>base. foldl tlb_spec_step (\<lambda>_ _. None) tlb_demo_ops Tlb_load (drop_bit PAGE_SHIFT 0x1004) =
      Some (base, 1) \<and> 0x80002004 = base OR (0x1004 AND PAGE_MASK))"
proof -
  have h: "tlb_lookup Tlb_load (foldl tlb_step soft_tlb_init tlb_demo_ops) 0x1004 =
      Some (0x80002004, 1)"
    by (simp add: tlb_demo_ops_def tlb_lookup_def soft_tlb_lookup_attrs_def soft_tlb_init_def
        soft_tlb_refill_attrs_def tlb_flush_def soft_tlb_idx_def Let_def)
  show ?thesis using h soft_tlb_hit_sound [OF h] by blast
qed

section \<open>The TLBs as direct-mapped tables without epochs\<close>

text \<open>
  The reference for the epochs: per table and slot, the page, the page base and the memory type of
  the last refill of that slot since the last flush.
\<close>

type_synonym tlb_slots = "tlb_table \<Rightarrow> nat \<Rightarrow> (vaddr_t \<times> paddr_t \<times> uint8_t) option"

fun tlb_slots_step :: "tlb_slots \<Rightarrow> tlb_op \<Rightarrow> tlb_slots" where
  "tlb_slots_step m Tlb_flush = (\<lambda>_ _. None)"
| "tlb_slots_step m (Tlb_fill k v pa pb) =
     m(k := (m k)(soft_tlb_idx v \<mapsto> (drop_bit PAGE_SHIFT v, pa AND NOT PAGE_MASK, pb)))"

definition tlb_slots_lookup :: "tlb_slots \<Rightarrow> tlb_table \<Rightarrow> vaddr_t \<Rightarrow> (paddr_t \<times> uint8_t) option" where
  "tlb_slots_lookup m k v =
     (case m k (soft_tlb_idx v) of
        None \<Rightarrow> None
      | Some (vpn, base, pb) \<Rightarrow>
          if vpn = drop_bit PAGE_SHIFT v then Some (base OR (v AND PAGE_MASK), pb) else None)"

definition slot_holds :: "uint32_t \<Rightarrow> soft_tlb_entry_t \<Rightarrow> (vaddr_t \<times> paddr_t \<times> uint8_t) option \<Rightarrow> bool" where
  "slot_holds ep e x \<longleftrightarrow>
     (case x of
        None \<Rightarrow> te_vpn e = SOFT_TLB_INVALID_TAG \<or> te_epoch e \<noteq> ep
      | Some (vpn, base, pb) \<Rightarrow> e = \<lparr>te_vpn = vpn, te_ppn = base, te_pbmt = pb, te_epoch = ep\<rparr>)"

lemma slot_holds_simps [simp]:
  "slot_holds ep e None \<longleftrightarrow> te_vpn e = SOFT_TLB_INVALID_TAG \<or> te_epoch e \<noteq> ep"
  "slot_holds ep e (Some (vpn, base, pb)) \<longleftrightarrow>
     e = \<lparr>te_vpn = vpn, te_ppn = base, te_pbmt = pb, te_epoch = ep\<rparr>"
  by (simp_all add: slot_holds_def)

definition tlb_slot_sim :: "soft_tlb_state \<Rightarrow> tlb_slots \<Rightarrow> bool" where
  "tlb_slot_sim t m \<longleftrightarrow> tlb_inv t \<and>
     (\<forall>k. \<forall>i<256. slot_holds (soft_tlb_epoch t) (tlb_table_of t k i) (m k i))"

lemma tlb_slot_sim_init: "tlb_slot_sim soft_tlb_init (\<lambda>_ _. None)"
proof -
  have "te_epoch (tlb_table_of soft_tlb_init k i) = 0" for k i
    by (cases k) (simp_all add: soft_tlb_init_def tlb_zero_def)
  moreover have "soft_tlb_epoch soft_tlb_init = 1" by (simp add: soft_tlb_init_def)
  ultimately show ?thesis by (simp add: tlb_slot_sim_def tlb_inv_init)
qed

lemma tlb_inv_refill: "tlb_inv t \<Longrightarrow> tlb_inv (tlb_refill k v pa pb t)"
  by (auto simp: tlb_inv_alt tlb_refill_table soft_tlb_refill_attrs_def)

lemma tlb_slot_sim_step:
  assumes "tlb_slot_sim t m"
  shows "tlb_slot_sim (tlb_step t x) (tlb_slots_step m x)"
proof (cases x)
  case Tlb_flush
  with assms show ?thesis
    using tlb_flush_dead [of t] by (auto simp: tlb_slot_sim_def tlb_inv_flush)
next
  case (Tlb_fill k v pa pb)
  with assms show ?thesis
    by (simp add: tlb_slot_sim_def tlb_inv_refill tlb_refill_table soft_tlb_refill_attrs_def)
qed

lemma tlb_slot_sim_run:
  "tlb_slot_sim t m \<Longrightarrow> tlb_slot_sim (foldl tlb_step t xs) (foldl tlb_slots_step m xs)"
  by (induction xs arbitrary: t m) (auto intro: tlb_slot_sim_step)

lemma tlb_slot_sim_lookup:
  assumes "tlb_slot_sim t m"
  shows "tlb_lookup k t v = tlb_slots_lookup m k v"
proof -
  have "slot_holds (soft_tlb_epoch t) (tlb_table_of t k (soft_tlb_idx v)) (m k (soft_tlb_idx v))"
    using assms soft_tlb_idx_less [of v] by (simp add: tlb_slot_sim_def)
  then show ?thesis
    using vpn_not_invalid [of v]
    by (auto simp: tlb_lookup_def tlb_slots_lookup_def soft_tlb_lookup_attrs_def Let_def
        split: option.splits)
qed

text \<open>
  C2 (software TLBs, exactly). Along any sequence of refills and flushes from the initial TLBs, the
  lookup of any address in any table answers as a direct-mapped table with no epochs: it hits exactly
  if the last refill of its slot in that table since the last flush was one of its own page, and then
  returns what that refill gave. So a refill is found by the lookups of its page and of no other page
  of the slot until a flush or a refill of the slot with another page, refills of the other tables or
  of other slots do not disturb it, and after a flush everything misses.
\<close>

theorem soft_tlb_exact:
  "tlb_lookup k (foldl tlb_step soft_tlb_init ops) v =
     tlb_slots_lookup (foldl tlb_slots_step (\<lambda>_ _. None) ops) k v"
  by (rule tlb_slot_sim_lookup [OF tlb_slot_sim_run [OF tlb_slot_sim_init]])

end
