(* ===== verification/Pmp.thy ===== *)
theory Pmp
  imports Soft_Cache
begin

text \<open>
  Physical memory protection: \<^verbatim>\<open>src/nemu/src/isa/riscv/system/pmp.c\<close>. The registers live in
  \<open>cpu.sr\<close>; \<open>pmp_dec\<close> is the decoded copy rebuilt at every PMP CSR write and \<open>pmp_wcache\<close> a match
  cache per 4-byte word, invalidated by a generation counter.
\<close>

unbundle bit_operations_syntax

section \<open>Registers\<close>

abbreviation (input) PMP_N :: nat where "PMP_N \<equiv> 8"

abbreviation (input) PMP_CSR_N :: nat where "PMP_CSR_N \<equiv> 16"

abbreviation (input) PMP_A_OFF :: nat where "PMP_A_OFF \<equiv> 0"

abbreviation (input) PMP_A_TOR :: nat where "PMP_A_TOR \<equiv> 1"

abbreviation (input) PMP_A_NA4 :: nat where "PMP_A_NA4 \<equiv> 2"

abbreviation (input) PMP_A_NAPOT :: nat where "PMP_A_NAPOT \<equiv> 3"

definition PMP_G :: "config \<Rightarrow> nat" where
  "PMP_G c = rv_pmp_granularity_log2 c - 2"

definition PMP_TOR_MASK :: "config \<Rightarrow> word_t" where
  "PMP_TOR_MASK c = push_bit (PMP_G c) 1 - 1"

text \<open>RV64: \<open>pmpcfg0\<close> holds entries 0 to 7 and \<open>pmpcfg2\<close> entries 8 to 15.\<close>

definition pmp_cfg :: "nemu \<Rightarrow> nat \<Rightarrow> uint8_t" where
  "pmp_cfg s i = ucast (drop_bit (i mod 8 * 8) (sr s (CSR_PMPCFG0 + i div 8 * 2)))"

definition pmp_cfg_set :: "nat \<Rightarrow> uint8_t \<Rightarrow> nemu \<Rightarrow> nemu" where
  "pmp_cfg_set i byte s =
     (let off = i mod 8 * 8; m = push_bit off 0xff; p = CSR_PMPCFG0 + i div 8 * 2
      in set_sr p ((sr s p AND NOT m) OR (push_bit off (ucast byte) AND m)) s)"

definition pmp_addr :: "nemu \<Rightarrow> nat \<Rightarrow> word_t" where
  "pmp_addr s i = sr s (CSR_PMPADDR0 + i)"

definition pmp_addr_set :: "config \<Rightarrow> nat \<Rightarrow> word_t \<Rightarrow> nemu \<Rightarrow> nemu" where
  "pmp_addr_set c i v s = set_sr (CSR_PMPADDR0 + i) (v AND (push_bit (rv_pmpaddr_bits c) 1 - 1)) s"

text \<open>The address-matching field \<open>A\<close> and the lock bit of a configuration byte.\<close>

definition cfg_a :: "uint8_t \<Rightarrow> nat" where
  "cfg_a b = unat (drop_bit 3 b AND 3)"

definition cfg_locked :: "uint8_t \<Rightarrow> bool" where
  "cfg_locked b \<longleftrightarrow> bit b 7"

definition pmp_csr_read :: "config \<Rightarrow> nemu \<Rightarrow> nat \<Rightarrow> word_t" where
  "pmp_csr_read c s csr0 =
     (let csr = csr0 mod 4096 in
      if csr < CSR_PMPADDR0 \<or> CSR_PMPADDR0 + PMP_CSR_N \<le> csr then sr s csr
      else let i = csr - CSR_PMPADDR0 in
        if PMP_N \<le> i then 0
        else let addr = pmp_addr s i in
          if 0 < PMP_G c then
            if cfg_a (pmp_cfg s i) \<noteq> PMP_A_NAPOT then addr AND NOT (PMP_TOR_MASK c)
            else if 1 < PMP_G c then addr OR (push_bit (PMP_G c - 1) 1 - 1) else addr
          else addr)"

section \<open>Decoded entries\<close>

text \<open>The loop of \<open>pmp_napot_mask\<close>: trailing ones of \<open>pmpaddr\<close> give the region size.\<close>

function pmp_napot_loop :: "word_t \<Rightarrow> nat \<Rightarrow> word_t \<Rightarrow> word_t" where
  "pmp_napot_loop pa j m =
     (if j < 64 then
        if pa AND push_bit (j - 1) 1 \<noteq> 0 then pmp_napot_loop pa (j + 1) (m OR push_bit j 1) else m
      else m)"
  by pat_completeness auto
termination
  by (relation "measure (\<lambda>(pa, j, m). 64 - j)") auto

declare pmp_napot_loop.simps [simp del]

definition pmp_napot_mask :: "word_t \<Rightarrow> word_t" where
  "pmp_napot_mask pa = pmp_napot_loop pa 1 1"

text \<open>One iteration of the loop of \<open>pmp_rebuild_decoded\<close>: the entry written over \<open>d\<close>.\<close>

definition pmp_decoded_of :: "config \<Rightarrow> nemu \<Rightarrow> nat \<Rightarrow> pmp_decoded \<Rightarrow> pmp_decoded" where
  "pmp_decoded_of c s i d =
     (let cfg = pmp_cfg s i; a = cfg_a cfg; d0 = d\<lparr>d_cfg := cfg, d_a := a\<rparr>;
          pa = pmp_csr_read c s (CSR_PMPADDR0 + i)
      in if a = PMP_A_TOR then
           d0\<lparr>d_lo_w := (if i = 0 then 0 else pmp_addr s (i - 1) AND NOT (PMP_TOR_MASK c)),
              d_hi_w := pa, d_base_w := 0, d_mask_w := 0\<rparr>
         else if a = PMP_A_NA4 then d0\<lparr>d_base_w := pa, d_mask_w := 0\<rparr>
         else if a = PMP_A_NAPOT then
           d0\<lparr>d_mask_w := pmp_napot_mask pa, d_base_w := pa AND NOT (pmp_napot_mask pa)\<rparr>
         else d0\<lparr>d_base_w := 0, d_mask_w := 0\<rparr>)"

definition pmp_decode_entry :: "config \<Rightarrow> nemu \<Rightarrow> nat \<Rightarrow> pmp_state \<Rightarrow> pmp_state" where
  "pmp_decode_entry c s i p =
     p\<lparr>pmp_any_active := pmp_any_active p \<or> cfg_a (pmp_cfg s i) \<noteq> PMP_A_OFF,
       pmp_dec := (pmp_dec p)(i := pmp_decoded_of c s i (pmp_dec p i))\<rparr>"

definition wcache_zero :: pmp_wcache_entry where
  "wcache_zero = \<lparr>w_word = 0, w_entry = Some 0, w_cfg = 0, w_gen = 0\<rparr>"

text \<open>The tail of \<open>pmp_rebuild_decoded\<close>: a new generation, with a cleared cache at the wrap.\<close>

definition pmp_new_gen :: "pmp_state \<Rightarrow> pmp_state" where
  "pmp_new_gen p =
     (let g = pmp_gen p + 1 in
      if g = 0 then p\<lparr>pmp_wcache := (\<lambda>_. wcache_zero), pmp_gen := 1\<rparr> else p\<lparr>pmp_gen := g\<rparr>)"

definition pmp_rebuild_decoded :: "config \<Rightarrow> nemu \<Rightarrow> nemu" where
  "pmp_rebuild_decoded c s =
     s\<lparr>pmpu := pmp_new_gen
        (fold (pmp_decode_entry c s) [0..<PMP_N] ((pmpu s)\<lparr>pmp_any_active := False\<rparr>))\<rparr>"

definition pmp_hart_switch :: "config \<Rightarrow> nemu \<Rightarrow> nemu" where
  "pmp_hart_switch c s = pmp_rebuild_decoded c s"

text \<open>The static initialisers of the unit.\<close>

definition pmp_dec_zero :: pmp_decoded where
  "pmp_dec_zero = \<lparr>d_cfg = 0, d_a = 0, d_lo_w = 0, d_hi_w = 0, d_base_w = 0, d_mask_w = 0\<rparr>"

definition pmp_static :: pmp_state where
  "pmp_static = \<lparr>pmp_any_active = False, pmp_dec = (\<lambda>_. pmp_dec_zero),
     pmp_wcache = (\<lambda>_. wcache_zero), pmp_gen = 1, pmp_last_fault_addr = 0\<rparr>"

text \<open>The whole state before \<open>init_isa\<close>: zeroed globals, the static initialisers of the caches.\<close>

definition cpu_static :: cpu_state where
  "cpu_static = \<lparr>cpu_sr = (\<lambda>_. 0), cpu_gpr = (\<lambda>_. 0), cpu_fpr = (\<lambda>_. 0), cpu_vreg = (\<lambda>_ _. 0),
     cpu_pc = 0, cpu_cpc = 0, cpu_inst = 0, cpu_priv = 0, cpu_virt = False, cpu_intr = False,
     cpu_raise_intr = 0, cpu_last_inst_priv = 0, cpu_last_csr_wr = 0, cpu_csr_dirty = False,
     cpu_instruction_trapped = False, cpu_mtimecmp = 0, cpu_stip = False, cpu_seip = False,
     cpu_reservation = 0, cpu_reservation_bytes = 0\<rparr>"

definition nemu_static :: nemu where
  "nemu_static = \<lparr>cpu = cpu_static, pmpu = pmp_static, tlbs = soft_tlb_init, icaches = icache_init,
     g_vaddr = 0, riscv_h_fault_gpa = 0, riscv_h_fault_ptw = False, riscv_h_fault_write = False,
     riscv_h_explicit_trap = False, g_nr_guest_inst = 0, clint_msip = 0, phys = (\<lambda>_. 0)\<rparr>"

section \<open>CSR writes\<close>

text \<open>One configuration byte of a \<open>pmpcfg\<close> write: locked bytes stay, WARL fields are coerced.\<close>

definition pmp_cfg_warl :: "config \<Rightarrow> uint8_t \<Rightarrow> uint8_t" where
  "pmp_cfg_warl c b =
     (let nb = b AND 0x9f;
          nb1 = (if nb AND 3 = 2 then nb AND NOT 7 else nb)
      in if 0 < PMP_G c \<and> cfg_a nb1 = PMP_A_NA4 then nb1 AND NOT 0x18 else nb1)"

definition pmp_cfg_write_byte :: "config \<Rightarrow> nat \<Rightarrow> word_t \<Rightarrow> nat \<Rightarrow> nemu \<Rightarrow> nemu" where
  "pmp_cfg_write_byte c base val pi s =
     (if PMP_N \<le> base + pi then s
      else if cfg_locked (pmp_cfg s (base + pi)) then s
      else pmp_cfg_set (base + pi) (pmp_cfg_warl c (ucast (drop_bit (pi * 8) val))) s)"

text \<open>\<open>None\<close> is the C result 0: not a PMP CSR, the caller performs the normal write.\<close>

definition pmp_csr_write :: "config \<Rightarrow> nat \<Rightarrow> word_t \<Rightarrow> nemu \<Rightarrow> nemu option" where
  "pmp_csr_write c csr0 val s =
     (let csr = csr0 mod 4096 in
      if CSR_PMPCFG0 \<le> csr \<and> csr \<le> CSR_PMPCFG3 then
        if odd csr then Some s
        else let base = (csr - CSR_PMPCFG0) div 2 * 8;
                 s1 = fold (pmp_cfg_write_byte c base val) [0..<8] s
             in Some (soft_tlb_flush (pmp_rebuild_decoded c s1))
      else if CSR_PMPADDR0 \<le> csr \<and> csr \<le> CSR_PMPADDR0 + PMP_CSR_N - 1 then
        let i = csr - CSR_PMPADDR0 in
        if PMP_N \<le> i then Some s
        else if cfg_locked (pmp_cfg s i) then Some s
        else if i < PMP_N - 1 \<and> cfg_locked (pmp_cfg s (i + 1)) \<and>
                cfg_a (pmp_cfg s (i + 1)) = PMP_A_TOR then Some s
        else Some (soft_tlb_flush (pmp_rebuild_decoded c (pmp_addr_set c i val s)))
      else None)"

text \<open>\<open>pmp_restore_checkpoint\<close>: the sixteen slots from the saved bytes and addresses.\<close>

definition pmp_restore_slot :: "config \<Rightarrow> (nat \<Rightarrow> uint8_t) \<Rightarrow> (nat \<Rightarrow> word_t) \<Rightarrow> nat \<Rightarrow> nemu \<Rightarrow> nemu" where
  "pmp_restore_slot c cfg addr i s =
     pmp_addr_set c i (if i < PMP_N then addr i else 0)
       (pmp_cfg_set i (if i < PMP_N then cfg i else 0) s)"

definition pmp_restore_checkpoint ::
    "config \<Rightarrow> (nat \<Rightarrow> uint8_t) \<Rightarrow> (nat \<Rightarrow> word_t) \<Rightarrow> nemu \<Rightarrow> nemu" where
  "pmp_restore_checkpoint c cfg addr s =
     soft_tlb_flush (pmp_rebuild_decoded c (fold (pmp_restore_slot c cfg addr) [0..<PMP_CSR_N] s))"

section \<open>The check\<close>

text \<open>The scan of \<open>pmp_byte_lookup\<close> over the decoded entries, from entry \<open>i\<close> on.\<close>

definition dec_match :: "pmp_decoded \<Rightarrow> paddr_t \<Rightarrow> bool" where
  "dec_match d addr_w \<longleftrightarrow>
     (if d_a d = PMP_A_OFF then False
      else if d_a d = PMP_A_TOR then d_lo_w d \<le> addr_w \<and> addr_w < d_hi_w d
      else addr_w AND NOT (d_mask_w d) = d_base_w d)"

function pmp_scan :: "pmp_state \<Rightarrow> paddr_t \<Rightarrow> nat \<Rightarrow> nat option" where
  "pmp_scan p addr_w i =
     (if i < PMP_N then if dec_match (pmp_dec p i) addr_w then Some i else pmp_scan p addr_w (i + 1)
      else None)"
  by pat_completeness auto
termination
  by (relation "measure (\<lambda>(p, w, i). 8 - i)") auto

declare pmp_scan.simps [simp del]

text \<open>A match: the entry (\<open>None\<close> is \<open>any_match = false\<close>) and its configuration byte.\<close>

type_synonym pmp_match = "nat option \<times> uint8_t"

definition pmp_wcache_index :: "paddr_t \<Rightarrow> nat" where
  "pmp_wcache_index addr_w = unat ((addr_w XOR drop_bit 13 addr_w) AND 0x1fff)"

definition pmp_byte_lookup :: "paddr_t \<Rightarrow> nemu \<Rightarrow> pmp_match \<times> nemu" where
  "pmp_byte_lookup addr_bytes s =
     (let addr_w = drop_bit 2 addr_bytes; p = pmpu s; k = pmp_wcache_index addr_w;
          e = pmp_wcache p k
      in if w_gen e = pmp_gen p \<and> w_word e = addr_w then ((w_entry e, w_cfg e), s)
      else
        let found = pmp_scan p addr_w 0;
            found_cfg = (case found of None \<Rightarrow> 0 | Some i \<Rightarrow> d_cfg (pmp_dec p i));
            e' = \<lparr>w_word = addr_w, w_entry = found, w_cfg = found_cfg, w_gen = pmp_gen p\<rparr>
        in ((found, found_cfg), s\<lparr>pmpu := p\<lparr>pmp_wcache := (pmp_wcache p)(k := e')\<rparr>\<rparr>))"

definition pmp_set_fault :: "word_t \<Rightarrow> nemu \<Rightarrow> nemu" where
  "pmp_set_fault a s = s\<lparr>pmpu := (pmpu s)\<lparr>pmp_last_fault_addr := a\<rparr>\<rparr>"

definition perm_ok :: "uint8_t \<Rightarrow> bool \<Rightarrow> bool \<Rightarrow> bool \<Rightarrow> bool" where
  "perm_ok cfg op_r op_w op_x \<longleftrightarrow>
     (\<not> op_r \<or> bit cfg 0) \<and> (\<not> op_w \<or> bit cfg 1) \<and> (\<not> op_x \<or> bit cfg 2)"

text \<open>The loop over the grains a straddling access touches; \<open>covered\<close> is the result.\<close>

function pmp_cover_loop ::
    "nat \<Rightarrow> paddr_t \<Rightarrow> paddr_t \<Rightarrow> nat \<Rightarrow> nat option \<Rightarrow> nat \<Rightarrow> nemu \<Rightarrow> bool \<times> nemu" where
  "pmp_cover_loop gl addr addr_hi sz e0 offset s =
     (if offset < sz then
        let g = addr + of_nat offset in
        if drop_bit 2 g = drop_bit 2 addr_hi
        then pmp_cover_loop gl addr addr_hi sz e0 (offset + 2 ^ gl) s
        else let (m, s') = pmp_byte_lookup g s in
          if fst m \<noteq> e0 then (False, s')
          else pmp_cover_loop gl addr addr_hi sz e0 (offset + 2 ^ gl) s'
      else (True, s))"
  by pat_completeness auto
termination
  by (relation "measure (\<lambda>(gl, a, h, sz, e, offset, s). sz - offset)")
    (auto intro!: diff_less_mono2)

declare pmp_cover_loop.simps [simp del]

text \<open>One pass of the final loop over the two ends: \<open>Some f\<close> faults with fault address \<open>f\<close>.\<close>

definition pmp_pass :: "pmp_match \<Rightarrow> nat \<Rightarrow> bool \<Rightarrow> bool \<Rightarrow> bool \<Rightarrow> bool" where
  "pmp_pass m prv op_r op_w op_x \<longleftrightarrow>
     (if fst m = None then prv \<noteq> PRV_M
      else if prv = PRV_M \<and> \<not> cfg_locked (snd m) then False
      else \<not> perm_ok (snd m) op_r op_w op_x)"

definition pmp_check ::
    "config \<Rightarrow> paddr_t \<Rightarrow> nat \<Rightarrow> nat \<Rightarrow> bool \<Rightarrow> bool \<Rightarrow> bool \<Rightarrow> nemu \<Rightarrow> bool \<times> nemu" where
  "pmp_check c addr len prv op_r op_w op_x s =
     (if \<not> pmp_any_active (pmpu s) then
        if prv = PRV_M then (False, s) else (True, pmp_set_fault addr s)
      else
        let gl = rv_pmp_granularity_log2 c;
            sz = (if len = 0 then 1 else len);
            addr_hi = addr + of_nat (sz - 1)
        in if drop_bit gl addr_hi = drop_bit gl addr then
          let (m, s1) = pmp_byte_lookup addr s
          in if pmp_pass m prv op_r op_w op_x then (True, pmp_set_fault addr s1) else (False, s1)
        else
          let (lo, s1) = pmp_byte_lookup addr s;
              (hi, s2) = pmp_byte_lookup addr_hi s1;
              (covered, s3) =
                (if op_x then (True, s2)
                 else if fst hi \<noteq> fst lo then (False, s2)
                 else pmp_cover_loop gl addr addr_hi sz (fst lo)
                        (2 ^ gl - unat (addr AND (push_bit gl 1 - 1))) s2)
          in if \<not> covered then (True, pmp_set_fault addr s3)
          else if pmp_pass lo prv op_r op_w op_x then (True, pmp_set_fault addr s3)
          else if pmp_pass hi prv op_r op_w op_x
            then (True, pmp_set_fault (addr_hi AND NOT (of_nat (sz - 1))) s3)
          else (False, s3))"

end
