(* ===== verification/Csr.thy ===== *)
theory Csr
  imports Pmp
begin

text \<open>
  The CSR file: \<^verbatim>\<open>local-include/reg.h\<close> (which CSRs exist) and the first part of \<^verbatim>\<open>inst.c\<close>
  (read views, the WARL coercion of written values and the write itself, macro \<open>CSRW\<close>). CSR indices
  are naturals; where the code masks a \<open>uint16_t\<close> with \<open>0xfff\<close> the model takes the remainder.
  The replay hook \<open>nemu_md_timer_update\<close> is a weak symbol that only the lockstep library defines;
  the model is the build without it.
\<close>

unbundle bit_operations_syntax

section \<open>CSR classes (reg.h)\<close>

abbreviation (input) CSR_STIMECMP :: nat where "CSR_STIMECMP \<equiv> 0x14d"

definition is_pmp_csr :: "nat \<Rightarrow> bool" where
  "is_pmp_csr csr0 \<longleftrightarrow>
     (let csr = csr0 mod 4096 in (0x3a0 \<le> csr \<and> csr \<le> 0x3a3) \<or> (0x3b0 \<le> csr \<and> csr \<le> 0x3bf))"

definition is_fp_csr :: "nat \<Rightarrow> bool" where
  "is_fp_csr csr0 \<longleftrightarrow>
     (let csr = csr0 mod 4096 in csr = CSR_FFLAGS \<or> csr = CSR_FRM \<or> csr = CSR_FCSR)"

definition is_vector_csr :: "nat \<Rightarrow> bool" where
  "is_vector_csr csr0 \<longleftrightarrow>
     (let csr = csr0 mod 4096 in
      csr = CSR_VSTART \<or> csr = CSR_VXSAT \<or> csr = CSR_VXRM \<or> csr = CSR_VCSR \<or> csr = CSR_VL \<or>
      csr = CSR_VTYPE \<or> csr = CSR_VLENB)"

definition is_stateen_csr :: "config \<Rightarrow> nat \<Rightarrow> bool" where
  "is_stateen_csr c csr \<longleftrightarrow>
     (CSR_SSTATEEN0 \<le> csr \<and> csr \<le> CSR_SSTATEEN3) \<or> (CSR_MSTATEEN0 \<le> csr \<and> csr \<le> CSR_MSTATEEN3) \<or>
     (CSR_HSTATEEN0 \<le> csr \<and> csr \<le> CSR_HSTATEEN3 \<and> riscv_h_gstage_preview_enabled c)"

definition is_hpm_zero_csr :: "nat \<Rightarrow> bool" where
  "is_hpm_zero_csr csr0 \<longleftrightarrow>
     (let csr = csr0 mod 4096 in
      (0xb03 \<le> csr \<and> csr \<le> 0xb1f) \<or> (0x323 \<le> csr \<and> csr \<le> 0x33f) \<or> (0xc03 \<le> csr \<and> csr \<le> 0xc1f))"

definition counteren_bit :: "nat \<Rightarrow> word_t" where
  "counteren_bit csr0 =
     (let csr = csr0 mod 4096 in
      if csr = CSR_CYCLE \<or> csr = CSR_CYCLEH then 1
      else if csr = CSR_TIME \<or> csr = CSR_TIMEH then 2
      else if csr = CSR_INSTRET \<or> csr = CSR_INSTRETH then 4
      else 0)"

datatype CSR_status = CSR_EXIST | CSR_EXIST_DIFF_SKIP | CSR_NOT_EXIST

text \<open>The H-extension CSRs listed inside \<open>check_csr_exist\<close>.\<close>

definition is_h_csr :: "nat \<Rightarrow> bool" where
  "is_h_csr csr \<longleftrightarrow>
     csr = CSR_VSSTATUS \<or> csr = CSR_VSIE \<or> csr = CSR_VSTVEC \<or> csr = CSR_VSSCRATCH \<or>
     csr = CSR_VSEPC \<or> csr = CSR_VSCAUSE \<or> csr = CSR_VSTVAL \<or> csr = CSR_VSIP \<or>
     csr = CSR_VSTIMECMP \<or> csr = CSR_VSATP \<or> csr = CSR_HSTATUS \<or> csr = CSR_HEDELEG \<or>
     csr = CSR_HIDELEG \<or> csr = CSR_HIE \<or> csr = CSR_HIP \<or> csr = CSR_HVIP \<or>
     csr = CSR_HTIMEDELTA \<or> csr = CSR_HCOUNTEREN \<or> csr = CSR_HGEIE \<or> csr = CSR_HGEIP \<or>
     csr = CSR_HENVCFG \<or> csr = CSR_HGATP \<or> csr = CSR_HTVAL \<or> csr = CSR_HTINST \<or>
     csr = CSR_MTVAL2 \<or> csr = CSR_MTINST"

text \<open>The long disjunction of \<open>check_csr_exist\<close>.\<close>

definition csr_listed :: "config \<Rightarrow> nat \<Rightarrow> bool" where
  "csr_listed c csr \<longleftrightarrow>
     csr = CSR_SSTATUS \<or> csr = CSR_FFLAGS \<or> csr = CSR_FRM \<or> csr = CSR_FCSR \<or>
     (riscv_v128_preview_enabled c \<and> is_vector_csr csr) \<or>
     (riscv_smstateen_preview_enabled c \<and> is_stateen_csr c csr) \<or>
     csr = CSR_SIE \<or> csr = CSR_STVEC \<or> csr = CSR_SCOUNTEREN \<or>
     (csr = CSR_SCOUNTOVF \<and> riscv_sscofpmf_enabled c) \<or> csr = CSR_SENVCFG \<or>
     csr = CSR_SSCRATCH \<or> csr = CSR_SEPC \<or> csr = CSR_SCAUSE \<or> csr = CSR_STVAL \<or>
     csr = CSR_SIP \<or> csr = CSR_SATP \<or> (riscv_h_gstage_preview_enabled c \<and> is_h_csr csr) \<or>
     csr = CSR_MSTATUS \<or> csr = CSR_MISA \<or> csr = CSR_MEDELEG \<or> csr = CSR_MIDELEG \<or>
     csr = CSR_MIE \<or> csr = CSR_MTVEC \<or> csr = CSR_MSTATUSH \<or> csr = CSR_MENVCFGH \<or>
     csr = CSR_MSCRATCH \<or> csr = CSR_MEPC \<or> csr = CSR_MCAUSE \<or> csr = CSR_MTVAL \<or>
     csr = CSR_MIP \<or> csr = CSR_MCYCLE \<or> csr = CSR_MINSTRET \<or> csr = CSR_CYCLE \<or>
     csr = CSR_TIME \<or> csr = CSR_INSTRET \<or> csr = CSR_MVENDORID \<or> csr = CSR_MARCHID \<or>
     csr = CSR_IMPID \<or> csr = CSR_MHARTID \<or> csr = 0x14d \<or> csr = 0x15d \<or>
     csr = CSR_MCOUNTEREN \<or> csr = CSR_MENVCFG \<or> is_hpm_zero_csr csr \<or>
     (0x3a0 \<le> csr \<and> csr \<le> 0x3a3) \<or> (0x3b0 \<le> csr \<and> csr \<le> 0x3bf)"

definition check_csr_exist :: "config \<Rightarrow> nat \<Rightarrow> CSR_status" where
  "check_csr_exist c csr0 =
     (let csr = csr0 mod 4096 in
      if rv_mcountinhibit c \<and> csr = CSR_MCOUNTINHIBIT then CSR_EXIST
      else if raptor_memory_map c \<and> (csr = CSR_MBERR_STATUS \<or> csr = CSR_MBERR_ADDR) then CSR_EXIST
      else if csr = CSR_MSTATUSH \<or> csr = CSR_MENVCFGH \<or> csr = 0x15d \<or> csr = 0x3a1 \<or> csr = 0x3a3
      then CSR_NOT_EXIST
      else if csr_listed c csr then
        if csr = CSR_MISA \<or> csr = CSR_MCYCLE \<or> csr = CSR_MINSTRET \<or> csr = CSR_CYCLE \<or>
           csr = CSR_TIME \<or> csr = CSR_INSTRET \<or> csr = CSR_MVENDORID \<or> csr = CSR_MARCHID \<or>
           csr = CSR_IMPID \<or> csr = CSR_MHARTID
        then CSR_EXIST_DIFF_SKIP else CSR_EXIST
      else CSR_NOT_EXIST)"

section \<open>Read views\<close>

definition sstc_enabled :: "nemu \<Rightarrow> bool" where
  "sstc_enabled s \<longleftrightarrow> drop_bit 63 (sr s CSR_MENVCFG) \<noteq> 0"

text \<open>\<open>mip\<close> as software reads it: stored bits, external and timer levels, virtual bits of \<open>hvip\<close>.\<close>

definition riscv_hart_mip_value :: "config \<Rightarrow> nemu \<Rightarrow> word_t" where
  "riscv_hart_mip_value c s =
     (let v0 = (sr s CSR_MIP AND NOT (riscv_virtual_irq_mask c)) OR
               (if cpu_seip (cpu s) then 0x200 else 0);
          v1 = v0 OR (sr s CSR_HVIP AND riscv_virtual_irq_mask c);
          v2 = (if raptor_memory_map c
                then (v1 AND NOT (push_bit 16 1)) OR push_bit 16 (sr s CSR_MBERR_STATUS AND 1)
                else v1);
          v3 = (if sstc_enabled s
                then (v2 AND NOT 0x20) OR (if cpu_stip (cpu s) then 0x20 else 0) else v2)
      in if riscv_virtual_timer_pending c s then v3 OR 0x40 else v3)"

definition guest_csr_alias :: "nemu \<Rightarrow> nat \<Rightarrow> nat" where
  "guest_csr_alias s csr =
     (if virt s then
        if csr = CSR_SSTATUS then CSR_VSSTATUS
        else if csr = CSR_SIE then CSR_VSIE
        else if csr = CSR_STVEC then CSR_VSTVEC
        else if csr = CSR_SSCRATCH then CSR_VSSCRATCH
        else if csr = CSR_SEPC then CSR_VSEPC
        else if csr = CSR_SCAUSE then CSR_VSCAUSE
        else if csr = CSR_STVAL then CSR_VSTVAL
        else if csr = CSR_SIP then CSR_VSIP
        else if csr = CSR_STIMECMP then CSR_VSTIMECMP
        else if csr = CSR_SATP then CSR_VSATP
        else csr
      else csr)"

definition guest_shared_supervisor_csr :: "nat \<Rightarrow> bool" where
  "guest_shared_supervisor_csr csr \<longleftrightarrow>
     csr = CSR_SCOUNTEREN \<or> csr = CSR_SENVCFG \<or> (CSR_SSTATEEN0 \<le> csr \<and> csr \<le> CSR_SSTATEEN3)"

text \<open>The hypervisor views; \<open>None\<close> when the CSR has none and the read goes on.\<close>

definition h_csr_view :: "config \<Rightarrow> nemu \<Rightarrow> nat \<Rightarrow> word_t option" where
  "h_csr_view c s csr =
     (if \<not> riscv_h_gstage_preview_enabled c then None
      else if csr = CSR_VSSTATUS then
        Some (let value = (sr s CSR_VSSTATUS AND NOT (push_bit 63 1)) OR push_bit 32 2 in
              if drop_bit 13 value AND 3 = 3 \<or> drop_bit 9 value AND 3 = 3
              then value OR push_bit 63 1 else value)
      else if csr = CSR_HSTATUS then Some (sr s CSR_HSTATUS OR push_bit 32 2)
      else if csr = CSR_HGEIE \<or> csr = CSR_HGEIP then Some 0
      else if csr = CSR_HENVCFG then
        Some (sr s CSR_HENVCFG AND (sr s CSR_MENVCFG OR NOT (push_bit 62 3)))
      else None)"

text \<open>\<open>hip\<close>, \<open>hie\<close>, \<open>vsip\<close> and \<open>vsie\<close>: the virtual bits of \<open>mip\<close> and \<open>mie\<close>.\<close>

definition h_irq_view :: "config \<Rightarrow> nemu \<Rightarrow> nat \<Rightarrow> word_t option" where
  "h_irq_view c s csr =
     (let m = riscv_virtual_irq_mask c in
      if \<not> riscv_h_gstage_preview_enabled c then None
      else if csr = CSR_HIP then Some (riscv_hart_mip_value c s AND m)
      else if csr = CSR_HIE then Some (sr s CSR_MIE AND m)
      else if csr = CSR_VSIP then Some (drop_bit 1 (riscv_hart_mip_value c s AND sr s CSR_HIDELEG AND m))
      else if csr = CSR_VSIE then Some (drop_bit 1 (sr s CSR_MIE AND sr s CSR_HIDELEG AND m))
      else None)"

definition csr_read_value :: "config \<Rightarrow> nemu \<Rightarrow> nat \<Rightarrow> word_t" where
  "csr_read_value c s csr0 =
     (let csr = guest_csr_alias s (csr0 mod 4096) in
      if is_pmp_csr csr then pmp_csr_read c s csr
      else case h_csr_view c s csr of Some v \<Rightarrow> v | None \<Rightarrow>
      if csr = CSR_TIME \<and> virt s \<and> riscv_h_gstage_preview_enabled c
      then sr s CSR_TIME + sr s CSR_HTIMEDELTA
      else if csr = CSR_MIP then riscv_hart_mip_value c s
      else if csr = CSR_SIP
      then riscv_hart_mip_value c s AND sr s CSR_MIDELEG AND riscv_supervisor_irq_mask c
      else if csr = CSR_SIE then sr s CSR_MIE AND sr s CSR_MIDELEG AND riscv_supervisor_irq_mask c
      else case h_irq_view c s csr of Some v \<Rightarrow> v | None \<Rightarrow>
      if csr = CSR_SCOUNTOVF then 0
      else if CSR_HSTATEEN0 \<le> csr \<and> csr \<le> CSR_HSTATEEN3 \<and>
              riscv_h_gstage_preview_enabled c \<and> riscv_smstateen_preview_enabled c
      then sr s csr AND sr s (CSR_MSTATEEN0 + csr - CSR_HSTATEEN0)
      else if is_hpm_zero_csr csr then 0
      else if csr = CSR_FFLAGS then sr s CSR_FCSR AND 0x1f
      else if csr = CSR_FRM then drop_bit 5 (sr s CSR_FCSR) AND 7
      else if csr = CSR_FCSR then sr s CSR_FCSR AND 0xff
      else if csr = CSR_CYCLE then sr s CSR_MCYCLE
      else if csr = CSR_INSTRET then sr s CSR_MINSTRET
      else sr s csr)"

text \<open>The value \<open>csrrs\<close> and \<open>csrrc\<close> modify: \<open>mip.SEIP\<close> without the external level.\<close>

definition csr_rmw_value :: "config \<Rightarrow> nemu \<Rightarrow> nat \<Rightarrow> word_t" where
  "csr_rmw_value c s csr =
     (if csr = CSR_MIP
      then (riscv_hart_mip_value c s AND NOT 0x200) OR (sr s CSR_MIP AND 0x200)
      else csr_read_value c s csr)"

section \<open>State-enable CSRs\<close>

definition stateen_machine_mask :: "nat \<Rightarrow> word_t" where
  "stateen_machine_mask csr =
     push_bit 63 1 OR (if csr = CSR_MSTATEEN0 then push_bit 62 1 else 0)"

definition stateen_write :: "config \<Rightarrow> nat \<Rightarrow> word_t \<Rightarrow> nemu \<Rightarrow> nemu" where
  "stateen_write c csr v s =
     (if CSR_SSTATEEN0 \<le> csr \<and> csr \<le> CSR_SSTATEEN3 then s
      else if CSR_HSTATEEN0 \<le> csr \<and> csr \<le> CSR_HSTATEEN3 \<and>
              riscv_h_gstage_preview_enabled c \<and> riscv_smstateen_preview_enabled c
      then let index = csr - CSR_HSTATEEN0 in
           set_sr csr (v AND stateen_machine_mask (CSR_MSTATEEN0 + index) AND
             sr s (CSR_MSTATEEN0 + index)) s
      else if CSR_MSTATEEN0 \<le> csr \<and> csr \<le> CSR_MSTATEEN3
      then let s1 = set_sr csr (v AND stateen_machine_mask csr) s;
               h = CSR_HSTATEEN0 + csr - CSR_MSTATEEN0
           in if riscv_h_gstage_preview_enabled c then set_sr h (sr s1 h AND sr s1 csr) s1 else s1
      else s)"

definition stateen_machine_allows_supervisor :: "config \<Rightarrow> nemu \<Rightarrow> nat \<Rightarrow> bool" where
  "stateen_machine_allows_supervisor c s csr =
     (if \<not> riscv_smstateen_preview_enabled c then True
      else if CSR_SSTATEEN0 \<le> csr \<and> csr \<le> CSR_SSTATEEN3
      then bit (sr s (CSR_MSTATEEN0 + (csr - CSR_SSTATEEN0))) 63
      else if CSR_HSTATEEN0 \<le> csr \<and> csr \<le> CSR_HSTATEEN3 \<and> riscv_h_gstage_preview_enabled c
      then bit (sr s (CSR_MSTATEEN0 + (csr - CSR_HSTATEEN0))) 63
      else if csr = CSR_HENVCFG \<and> riscv_h_gstage_preview_enabled c
      then bit (sr s CSR_MSTATEEN0) 62
      else if csr = CSR_SENVCFG then bit (sr s CSR_MSTATEEN0) 62
      else True)"

definition stateen_guest_access :: "config \<Rightarrow> nemu \<Rightarrow> nat \<Rightarrow> bool" where
  "stateen_guest_access c s csr =
     (if \<not> virt s \<or> priv s \<noteq> PRV_S \<or> \<not> riscv_h_gstage_preview_enabled c \<or>
         \<not> riscv_smstateen_preview_enabled c then True
      else if csr = CSR_SENVCFG then bit (sr s CSR_HSTATEEN0) 62
      else if CSR_SSTATEEN0 \<le> csr \<and> csr \<le> CSR_SSTATEEN3
      then bit (sr s (CSR_HSTATEEN0 + (csr - CSR_SSTATEEN0))) 63
      else True)"

section \<open>Vector CSRs (vector-control.c)\<close>

definition riscv_vector_context_enabled :: "config \<Rightarrow> nemu \<Rightarrow> bool" where
  "riscv_vector_context_enabled c s \<longleftrightarrow>
     riscv_v128_preview_enabled c \<and> sr s CSR_MSTATUS AND 0x600 \<noteq> 0 \<and>
     (\<not> virt s \<or> sr s CSR_VSSTATUS AND 0x600 \<noteq> 0)"

definition vector_mark_dirty :: "bool \<Rightarrow> nemu \<Rightarrow> nemu" where
  "vector_mark_dirty floating s =
     (let m = 0x600 OR (if floating then 0x6000 else 0);
          s1 = set_sr CSR_MSTATUS (sr s CSR_MSTATUS OR m) s
      in if virt s1 then set_sr CSR_VSSTATUS (sr s1 CSR_VSSTATUS OR m) s1 else s1)"

definition riscv_vector_csr_write :: "nat \<Rightarrow> word_t \<Rightarrow> nemu \<Rightarrow> nemu" where
  "riscv_vector_csr_write csr v s =
     (let fin = (\<lambda>t. vector_mark_dirty False
            (set_sr CSR_VCSR (push_bit 1 (sr t CSR_VXRM) OR sr t CSR_VXSAT) t)) in
      if csr = CSR_VSTART then fin (set_sr CSR_VSTART (v AND 0x7f) s)
      else if csr = CSR_VXSAT then fin (set_sr CSR_VXSAT (v AND 1) s)
      else if csr = CSR_VXRM then fin (set_sr CSR_VXRM (v AND 3) s)
      else if csr = CSR_VCSR
      then fin (set_sr CSR_VXRM (drop_bit 1 v AND 3) (set_sr CSR_VXSAT (v AND 1) s))
      else s)"

section \<open>CSR writes\<close>

definition csrw_satp_accept :: "word_t \<Rightarrow> bool" where
  "csrw_satp_accept v = (let mode = drop_bit 60 v AND 0xf in mode = 0 \<or> mode = 8)"

text \<open>\<open>xenvcfg.CBIE\<close>: the reserved encoding 2 becomes 3.\<close>

definition envcfg_cbie :: "word_t \<Rightarrow> word_t" where
  "envcfg_cbie result = (if result AND 0x30 = 0x20 then result OR 0x10 else result)"

definition csrw_warl :: "config \<Rightarrow> nemu \<Rightarrow> nat \<Rightarrow> word_t \<Rightarrow> word_t" where
  "csrw_warl c s csr v =
     (let i = csr mod 4096 in
      if rv_mcountinhibit c \<and> i = CSR_MCOUNTINHIBIT then 0
      else if i = CSR_MTVEC \<or> i = CSR_STVEC \<or> i = CSR_VSTVEC
      then (v AND NOT 3) OR (if v AND 2 \<noteq> 0 then 0 else v AND 3)
      else if i = CSR_MEPC \<or> i = CSR_SEPC \<or> i = CSR_VSEPC then v AND NOT 1
      else if i = CSR_SATP \<or> i = CSR_VSATP
      then v AND (NOT (push_bit 44 0xffff) OR push_bit 44 (push_bit (rv_asid_bits c) 1 - 1))
      else if i = CSR_HEDELEG then v AND 0xcb1fe
      else if i = CSR_HCOUNTEREN then v AND 7
      else if i = CSR_HGEIE then 0
      else if i = CSR_HIDELEG \<or> i = CSR_HVIP then v AND riscv_virtual_irq_mask c
      else if i = CSR_HSTATUS then
        (let h = drop_bit 48 v AND 3;
             hupmm = (if riscv_isa_extensions c AND NEMU_ISA_EXT_SSNPM = 0 \<or> h = 1 then 0 else h)
         in (v AND (push_bit 6 15 OR 0x100000 OR 0x200000 OR 0x400000)) OR push_bit 32 2 OR
            push_bit 48 hupmm)
      else if i = CSR_HENVCFG then
        envcfg_cbie ((v AND 0xf0) OR riscv_envcfg_pmm c v NEMU_ISA_EXT_SSNPM OR
          (v AND sr s CSR_MENVCFG AND push_bit 62 3))
      else if i = CSR_VSSTATUS then
        (v AND (push_bit 18 3 OR push_bit 13 3 OR push_bit 8 1 OR push_bit 5 1 OR push_bit 1 1 OR
           (if riscv_v128_preview_enabled c then 0x600 else 0))) OR push_bit 32 2
      else if i = CSR_HGATP then
        (if drop_bit 60 v = 8 then push_bit 60 8 OR (v AND (push_bit 44 1 - 4)) else 0)
      else if i = CSR_MCOUNTEREN \<or> i = CSR_SCOUNTEREN then v AND 7
      else if i = CSR_MIE then
        v AND ((if raptor_memory_map c then 0x10aaa else 0xaaa) OR
          (if riscv_sscofpmf_enabled c then 0x2000 else 0) OR riscv_virtual_irq_mask c)
      else if raptor_memory_map c \<and> i = CSR_MBERR_STATUS
      then sr s CSR_MBERR_STATUS AND NOT (v AND 3)
      else if i = CSR_MENVCFGH then v AND 0x80000000
      else if i = CSR_MSTATUSH then 0
      else if i = CSR_SENVCFG
      then envcfg_cbie ((v AND 0xf0) OR riscv_envcfg_pmm c v NEMU_ISA_EXT_SSNPM)
      else if i = CSR_MENVCFG
      then envcfg_cbie ((v AND (0xc000000000000000 OR 0xf0)) OR riscv_envcfg_pmm c v NEMU_ISA_EXT_SMNPM)
      else v)"

definition set_last_csr_wr :: "nat \<Rightarrow> nemu \<Rightarrow> nemu" where
  "set_last_csr_wr i s = s\<lparr>cpu := (cpu s)\<lparr>cpu_last_csr_wr := i\<rparr>\<rparr>"

definition csrw_fp :: "nat \<Rightarrow> word_t \<Rightarrow> nemu \<Rightarrow> nemu" where
  "csrw_fp i v s =
     (let f = sr s CSR_FCSR;
          s1 = set_sr CSR_FCSR
            (if i = CSR_FFLAGS then (f AND NOT 0x1f) OR (v AND 0x1f)
             else if i = CSR_FRM then (f AND NOT 0xe0) OR push_bit 5 (v AND 7)
             else v AND 0xff) s;
          s2 = set_sr CSR_MSTATUS ((sr s1 CSR_MSTATUS AND NOT 0x6000) OR push_bit 13 3) s1
      in if virt s2 then set_sr CSR_VSSTATUS (sr s2 CSR_VSSTATUS OR 0x6000) s2 else s2)"

text \<open>The last \<open>else\<close> of \<open>CSRW\<close>: the interrupt views, then the plain store.\<close>

definition csrw_store :: "config \<Rightarrow> nat \<Rightarrow> word_t \<Rightarrow> nemu \<Rightarrow> nemu" where
  "csrw_store c i v s =
     (if i = CSR_MIP then
        let m = riscv_supervisor_irq_mask c AND NOT (if sstc_enabled s then 0x20 else 0);
            s1 = set_sr i ((sr s i AND NOT m) OR (v AND m)) s
        in if riscv_h_gstage_preview_enabled c
           then set_sr CSR_HVIP ((sr s1 CSR_HVIP AND NOT 4) OR (v AND 4)) s1 else s1
      else if i = CSR_HIE \<or> i = CSR_VSIE then
        let m = (if i = CSR_VSIE then riscv_virtual_irq_mask c AND sr s CSR_HIDELEG
                 else riscv_virtual_irq_mask c);
            b = (if i = CSR_VSIE then push_bit 1 v else v)
        in set_sr CSR_MIE ((sr s CSR_MIE AND NOT m) OR (b AND m)) s
      else if i = CSR_HIP \<or> i = CSR_VSIP then
        let m = (if i = CSR_VSIP then 4 AND sr s CSR_HIDELEG else 4);
            b = (if i = CSR_VSIP then push_bit 1 v else v)
        in set_sr CSR_HVIP ((sr s CSR_HVIP AND NOT m) OR (b AND m)) s
      else set_sr i v s)"

definition csrw_dispatch :: "config \<Rightarrow> nat \<Rightarrow> word_t \<Rightarrow> nemu \<Rightarrow> nemu" where
  "csrw_dispatch c i v s =
     (if is_fp_csr i then csrw_fp i v s
      else if is_vector_csr i then riscv_vector_csr_write i v s
      else if is_stateen_csr c i then stateen_write c i v s
      else if is_hpm_zero_csr i then s
      else case pmp_csr_write c i v s of Some s' \<Rightarrow> s' | None \<Rightarrow> csrw_store c i v s)"

definition csrw_flushes :: "nat \<Rightarrow> bool \<Rightarrow> bool" where
  "csrw_flushes i pmm_changed \<longleftrightarrow>
     i = CSR_SATP \<or> i = CSR_VSATP \<or> i = CSR_HGATP \<or> i = CSR_HSTATUS \<or> i = CSR_VSSTATUS \<or>
     i = CSR_MSTATUS \<or> i = CSR_SSTATUS \<or> i = CSR_MSTATUSH \<or> pmm_changed"

definition CSRW :: "config \<Rightarrow> nat \<Rightarrow> word_t \<Rightarrow> nemu \<Rightarrow> nemu" where
  "CSRW c csr value s =
     (let i = guest_csr_alias s (csr mod 4096);
          v = csrw_warl c s i value;
          pmm_changed = ((i = CSR_SENVCFG \<or> i = CSR_MENVCFG \<or> i = CSR_HENVCFG) \<and>
            (sr s i XOR v) AND 0x300000000 \<noteq> 0)
      in if (i = CSR_SATP \<or> i = CSR_VSATP) \<and> \<not> csrw_satp_accept v then set_last_csr_wr i s
      else
        let s1 = csrw_dispatch c i v s;
            s2 = (if i = CSR_MENVCFG \<and> riscv_h_gstage_preview_enabled c
                  then set_sr CSR_HENVCFG (sr s1 CSR_HENVCFG AND (v OR NOT (push_bit 62 3))) s1 else s1);
            s3 = set_last_csr_wr i s2
        in if csrw_flushes i pmm_changed then soft_tlb_flush s3 else s3)"

end
