(* ===== verification/Trap.thy ===== *)
theory Trap
  imports Csr
begin

text \<open>
  Traps and interrupts, \<^verbatim>\<open>system/intr.c\<close>: \<open>isa_raise_intr\<close> enters VS-, HS- or M-mode, and
  \<open>isa_query_intr\<close> picks the interrupt to take, behind the filter \<open>riscv_intr_may_pending\<close>. The
  trap returns \<open>mret\<close> and \<open>sret\<close> of \<^verbatim>\<open>inst.c\<close> are here too. The model is the build without
  \<open>NEMU_HAS_REPLAY\<close>: with \<open>CONFIG_TARGET_SHARE\<close> the host decides about interrupts.
\<close>

unbundle bit_operations_syntax

section \<open>Fields of mstatus (union csr_t)\<close>

abbreviation (input) sie_of :: "word_t \<Rightarrow> word_t" where "sie_of \<equiv> get_field 1 1"

abbreviation (input) spie_of :: "word_t \<Rightarrow> word_t" where "spie_of \<equiv> get_field 5 1"

abbreviation (input) spp_of :: "word_t \<Rightarrow> word_t" where "spp_of \<equiv> get_field 8 1"

abbreviation (input) mie_of :: "word_t \<Rightarrow> word_t" where "mie_of \<equiv> get_field 3 1"

abbreviation (input) mpie_of :: "word_t \<Rightarrow> word_t" where "mpie_of \<equiv> get_field 7 1"

abbreviation (input) mpp_of :: "word_t \<Rightarrow> word_t" where "mpp_of \<equiv> get_field 11 2"

abbreviation (input) tvm_of :: "word_t \<Rightarrow> word_t" where "tvm_of \<equiv> get_field 20 1"

abbreviation (input) tw_of :: "word_t \<Rightarrow> word_t" where "tw_of \<equiv> get_field 21 1"

abbreviation (input) tsr_of :: "word_t \<Rightarrow> word_t" where "tsr_of \<equiv> get_field 22 1"

abbreviation (input) MCA_INTR_BIT :: word_t where "MCA_INTR_BIT \<equiv> 0x8000000000000000"

section \<open>Updates of scalar hart fields\<close>

definition set_priv :: "nat \<Rightarrow> nemu \<Rightarrow> nemu" where
  "set_priv p s = s\<lparr>cpu := (cpu s)\<lparr>cpu_priv := p\<rparr>\<rparr>"

definition set_virt :: "bool \<Rightarrow> nemu \<Rightarrow> nemu" where
  "set_virt b s = s\<lparr>cpu := (cpu s)\<lparr>cpu_virt := b\<rparr>\<rparr>"

definition set_last_inst_priv :: "nat \<Rightarrow> nemu \<Rightarrow> nemu" where
  "set_last_inst_priv p s = s\<lparr>cpu := (cpu s)\<lparr>cpu_last_inst_priv := p\<rparr>\<rparr>"

definition set_csr_dirty :: "bool \<Rightarrow> nemu \<Rightarrow> nemu" where
  "set_csr_dirty b s = s\<lparr>cpu := (cpu s)\<lparr>cpu_csr_dirty := b\<rparr>\<rparr>"

definition set_instruction_trapped :: "bool \<Rightarrow> nemu \<Rightarrow> nemu" where
  "set_instruction_trapped b s = s\<lparr>cpu := (cpu s)\<lparr>cpu_instruction_trapped := b\<rparr>\<rparr>"

definition set_raise_intr :: "word_t \<Rightarrow> nemu \<Rightarrow> nemu" where
  "set_raise_intr v s = s\<lparr>cpu := (cpu s)\<lparr>cpu_raise_intr := v\<rparr>\<rparr>"

text \<open>What these updates leave alone.\<close>

lemma set_priv_frame [simp]:
  "sr (set_priv p s) = sr s" "cpu_priv (cpu (set_priv p s)) = p"
  "cpu_gpr (cpu (set_priv p s)) = cpu_gpr (cpu s)"
  "cpu_fpr (cpu (set_priv p s)) = cpu_fpr (cpu s)"
  "cpu_vreg (cpu (set_priv p s)) = cpu_vreg (cpu s)"
  "cpu_inst (cpu (set_priv p s)) = cpu_inst (cpu s)"
  "cpu_virt (cpu (set_priv p s)) = cpu_virt (cpu s)"
  "cpu_raise_intr (cpu (set_priv p s)) = cpu_raise_intr (cpu s)"
  "cpu_last_inst_priv (cpu (set_priv p s)) = cpu_last_inst_priv (cpu s)"
  "cpu_last_csr_wr (cpu (set_priv p s)) = cpu_last_csr_wr (cpu s)"
  "cpu_csr_dirty (cpu (set_priv p s)) = cpu_csr_dirty (cpu s)"
  "cpu_instruction_trapped (cpu (set_priv p s)) = cpu_instruction_trapped (cpu s)"
  "cpu_stip (cpu (set_priv p s)) = cpu_stip (cpu s)"
  "cpu_seip (cpu (set_priv p s)) = cpu_seip (cpu s)"
  "cpu_mtimecmp (cpu (set_priv p s)) = cpu_mtimecmp (cpu s)"
  "cpu_reservation (cpu (set_priv p s)) = cpu_reservation (cpu s)"
  "cpu_reservation_bytes (cpu (set_priv p s)) = cpu_reservation_bytes (cpu s)"
  "pmpu (set_priv p s) = pmpu s" "tlbs (set_priv p s) = tlbs s" "icaches (set_priv p s) = icaches s"
  "g_vaddr (set_priv p s) = g_vaddr s" "phys (set_priv p s) = phys s"
  "riscv_h_fault_gpa (set_priv p s) = riscv_h_fault_gpa s" "riscv_h_fault_ptw (set_priv p s) = riscv_h_fault_ptw s"
  "riscv_h_fault_write (set_priv p s) = riscv_h_fault_write s"
  "riscv_h_explicit_trap (set_priv p s) = riscv_h_explicit_trap s"
  "g_nr_guest_inst (set_priv p s) = g_nr_guest_inst s" "clint_msip (set_priv p s) = clint_msip s"
  by (simp_all add: fun_eq_iff sr_def set_priv_def)

lemma set_virt_frame [simp]:
  "sr (set_virt b s) = sr s" "cpu_virt (cpu (set_virt b s)) = b"
  "cpu_gpr (cpu (set_virt b s)) = cpu_gpr (cpu s)"
  "cpu_fpr (cpu (set_virt b s)) = cpu_fpr (cpu s)"
  "cpu_vreg (cpu (set_virt b s)) = cpu_vreg (cpu s)"
  "cpu_inst (cpu (set_virt b s)) = cpu_inst (cpu s)"
  "cpu_priv (cpu (set_virt b s)) = cpu_priv (cpu s)"
  "cpu_raise_intr (cpu (set_virt b s)) = cpu_raise_intr (cpu s)"
  "cpu_last_inst_priv (cpu (set_virt b s)) = cpu_last_inst_priv (cpu s)"
  "cpu_last_csr_wr (cpu (set_virt b s)) = cpu_last_csr_wr (cpu s)"
  "cpu_csr_dirty (cpu (set_virt b s)) = cpu_csr_dirty (cpu s)"
  "cpu_instruction_trapped (cpu (set_virt b s)) = cpu_instruction_trapped (cpu s)"
  "cpu_stip (cpu (set_virt b s)) = cpu_stip (cpu s)"
  "cpu_seip (cpu (set_virt b s)) = cpu_seip (cpu s)"
  "cpu_mtimecmp (cpu (set_virt b s)) = cpu_mtimecmp (cpu s)"
  "cpu_reservation (cpu (set_virt b s)) = cpu_reservation (cpu s)"
  "cpu_reservation_bytes (cpu (set_virt b s)) = cpu_reservation_bytes (cpu s)"
  "pmpu (set_virt b s) = pmpu s" "tlbs (set_virt b s) = tlbs s" "icaches (set_virt b s) = icaches s"
  "g_vaddr (set_virt b s) = g_vaddr s" "phys (set_virt b s) = phys s"
  "riscv_h_fault_gpa (set_virt b s) = riscv_h_fault_gpa s" "riscv_h_fault_ptw (set_virt b s) = riscv_h_fault_ptw s"
  "riscv_h_fault_write (set_virt b s) = riscv_h_fault_write s"
  "riscv_h_explicit_trap (set_virt b s) = riscv_h_explicit_trap s"
  "g_nr_guest_inst (set_virt b s) = g_nr_guest_inst s" "clint_msip (set_virt b s) = clint_msip s"
  by (simp_all add: fun_eq_iff sr_def set_virt_def)

lemma set_last_inst_priv_frame [simp]:
  "sr (set_last_inst_priv p s) = sr s" "cpu_last_inst_priv (cpu (set_last_inst_priv p s)) = p"
  "cpu_gpr (cpu (set_last_inst_priv p s)) = cpu_gpr (cpu s)"
  "cpu_fpr (cpu (set_last_inst_priv p s)) = cpu_fpr (cpu s)"
  "cpu_vreg (cpu (set_last_inst_priv p s)) = cpu_vreg (cpu s)"
  "cpu_inst (cpu (set_last_inst_priv p s)) = cpu_inst (cpu s)"
  "cpu_priv (cpu (set_last_inst_priv p s)) = cpu_priv (cpu s)"
  "cpu_virt (cpu (set_last_inst_priv p s)) = cpu_virt (cpu s)"
  "cpu_raise_intr (cpu (set_last_inst_priv p s)) = cpu_raise_intr (cpu s)"
  "cpu_last_csr_wr (cpu (set_last_inst_priv p s)) = cpu_last_csr_wr (cpu s)"
  "cpu_csr_dirty (cpu (set_last_inst_priv p s)) = cpu_csr_dirty (cpu s)"
  "cpu_instruction_trapped (cpu (set_last_inst_priv p s)) = cpu_instruction_trapped (cpu s)"
  "cpu_stip (cpu (set_last_inst_priv p s)) = cpu_stip (cpu s)"
  "cpu_seip (cpu (set_last_inst_priv p s)) = cpu_seip (cpu s)"
  "cpu_mtimecmp (cpu (set_last_inst_priv p s)) = cpu_mtimecmp (cpu s)"
  "cpu_reservation (cpu (set_last_inst_priv p s)) = cpu_reservation (cpu s)"
  "cpu_reservation_bytes (cpu (set_last_inst_priv p s)) = cpu_reservation_bytes (cpu s)"
  "pmpu (set_last_inst_priv p s) = pmpu s" "tlbs (set_last_inst_priv p s) = tlbs s" "icaches (set_last_inst_priv p s) = icaches s"
  "g_vaddr (set_last_inst_priv p s) = g_vaddr s" "phys (set_last_inst_priv p s) = phys s"
  "riscv_h_fault_gpa (set_last_inst_priv p s) = riscv_h_fault_gpa s" "riscv_h_fault_ptw (set_last_inst_priv p s) = riscv_h_fault_ptw s"
  "riscv_h_fault_write (set_last_inst_priv p s) = riscv_h_fault_write s"
  "riscv_h_explicit_trap (set_last_inst_priv p s) = riscv_h_explicit_trap s"
  "g_nr_guest_inst (set_last_inst_priv p s) = g_nr_guest_inst s" "clint_msip (set_last_inst_priv p s) = clint_msip s"
  by (simp_all add: fun_eq_iff sr_def set_last_inst_priv_def)

lemma set_csr_dirty_frame [simp]:
  "sr (set_csr_dirty b s) = sr s" "cpu_csr_dirty (cpu (set_csr_dirty b s)) = b"
  "cpu_gpr (cpu (set_csr_dirty b s)) = cpu_gpr (cpu s)"
  "cpu_fpr (cpu (set_csr_dirty b s)) = cpu_fpr (cpu s)"
  "cpu_vreg (cpu (set_csr_dirty b s)) = cpu_vreg (cpu s)"
  "cpu_inst (cpu (set_csr_dirty b s)) = cpu_inst (cpu s)"
  "cpu_priv (cpu (set_csr_dirty b s)) = cpu_priv (cpu s)"
  "cpu_virt (cpu (set_csr_dirty b s)) = cpu_virt (cpu s)"
  "cpu_raise_intr (cpu (set_csr_dirty b s)) = cpu_raise_intr (cpu s)"
  "cpu_last_inst_priv (cpu (set_csr_dirty b s)) = cpu_last_inst_priv (cpu s)"
  "cpu_last_csr_wr (cpu (set_csr_dirty b s)) = cpu_last_csr_wr (cpu s)"
  "cpu_instruction_trapped (cpu (set_csr_dirty b s)) = cpu_instruction_trapped (cpu s)"
  "cpu_stip (cpu (set_csr_dirty b s)) = cpu_stip (cpu s)"
  "cpu_seip (cpu (set_csr_dirty b s)) = cpu_seip (cpu s)"
  "cpu_mtimecmp (cpu (set_csr_dirty b s)) = cpu_mtimecmp (cpu s)"
  "cpu_reservation (cpu (set_csr_dirty b s)) = cpu_reservation (cpu s)"
  "cpu_reservation_bytes (cpu (set_csr_dirty b s)) = cpu_reservation_bytes (cpu s)"
  "pmpu (set_csr_dirty b s) = pmpu s" "tlbs (set_csr_dirty b s) = tlbs s" "icaches (set_csr_dirty b s) = icaches s"
  "g_vaddr (set_csr_dirty b s) = g_vaddr s" "phys (set_csr_dirty b s) = phys s"
  "riscv_h_fault_gpa (set_csr_dirty b s) = riscv_h_fault_gpa s" "riscv_h_fault_ptw (set_csr_dirty b s) = riscv_h_fault_ptw s"
  "riscv_h_fault_write (set_csr_dirty b s) = riscv_h_fault_write s"
  "riscv_h_explicit_trap (set_csr_dirty b s) = riscv_h_explicit_trap s"
  "g_nr_guest_inst (set_csr_dirty b s) = g_nr_guest_inst s" "clint_msip (set_csr_dirty b s) = clint_msip s"
  by (simp_all add: fun_eq_iff sr_def set_csr_dirty_def)

lemma set_instruction_trapped_frame [simp]:
  "sr (set_instruction_trapped b s) = sr s" "cpu_instruction_trapped (cpu (set_instruction_trapped b s)) = b"
  "cpu_gpr (cpu (set_instruction_trapped b s)) = cpu_gpr (cpu s)"
  "cpu_fpr (cpu (set_instruction_trapped b s)) = cpu_fpr (cpu s)"
  "cpu_vreg (cpu (set_instruction_trapped b s)) = cpu_vreg (cpu s)"
  "cpu_inst (cpu (set_instruction_trapped b s)) = cpu_inst (cpu s)"
  "cpu_priv (cpu (set_instruction_trapped b s)) = cpu_priv (cpu s)"
  "cpu_virt (cpu (set_instruction_trapped b s)) = cpu_virt (cpu s)"
  "cpu_raise_intr (cpu (set_instruction_trapped b s)) = cpu_raise_intr (cpu s)"
  "cpu_last_inst_priv (cpu (set_instruction_trapped b s)) = cpu_last_inst_priv (cpu s)"
  "cpu_last_csr_wr (cpu (set_instruction_trapped b s)) = cpu_last_csr_wr (cpu s)"
  "cpu_csr_dirty (cpu (set_instruction_trapped b s)) = cpu_csr_dirty (cpu s)"
  "cpu_stip (cpu (set_instruction_trapped b s)) = cpu_stip (cpu s)"
  "cpu_seip (cpu (set_instruction_trapped b s)) = cpu_seip (cpu s)"
  "cpu_mtimecmp (cpu (set_instruction_trapped b s)) = cpu_mtimecmp (cpu s)"
  "cpu_reservation (cpu (set_instruction_trapped b s)) = cpu_reservation (cpu s)"
  "cpu_reservation_bytes (cpu (set_instruction_trapped b s)) = cpu_reservation_bytes (cpu s)"
  "pmpu (set_instruction_trapped b s) = pmpu s" "tlbs (set_instruction_trapped b s) = tlbs s" "icaches (set_instruction_trapped b s) = icaches s"
  "g_vaddr (set_instruction_trapped b s) = g_vaddr s" "phys (set_instruction_trapped b s) = phys s"
  "riscv_h_fault_gpa (set_instruction_trapped b s) = riscv_h_fault_gpa s" "riscv_h_fault_ptw (set_instruction_trapped b s) = riscv_h_fault_ptw s"
  "riscv_h_fault_write (set_instruction_trapped b s) = riscv_h_fault_write s"
  "riscv_h_explicit_trap (set_instruction_trapped b s) = riscv_h_explicit_trap s"
  "g_nr_guest_inst (set_instruction_trapped b s) = g_nr_guest_inst s" "clint_msip (set_instruction_trapped b s) = clint_msip s"
  by (simp_all add: fun_eq_iff sr_def set_instruction_trapped_def)

lemma set_raise_intr_frame [simp]:
  "sr (set_raise_intr v s) = sr s" "cpu_raise_intr (cpu (set_raise_intr v s)) = v"
  "cpu_gpr (cpu (set_raise_intr v s)) = cpu_gpr (cpu s)"
  "cpu_fpr (cpu (set_raise_intr v s)) = cpu_fpr (cpu s)"
  "cpu_vreg (cpu (set_raise_intr v s)) = cpu_vreg (cpu s)"
  "cpu_inst (cpu (set_raise_intr v s)) = cpu_inst (cpu s)"
  "cpu_priv (cpu (set_raise_intr v s)) = cpu_priv (cpu s)"
  "cpu_virt (cpu (set_raise_intr v s)) = cpu_virt (cpu s)"
  "cpu_last_inst_priv (cpu (set_raise_intr v s)) = cpu_last_inst_priv (cpu s)"
  "cpu_last_csr_wr (cpu (set_raise_intr v s)) = cpu_last_csr_wr (cpu s)"
  "cpu_csr_dirty (cpu (set_raise_intr v s)) = cpu_csr_dirty (cpu s)"
  "cpu_instruction_trapped (cpu (set_raise_intr v s)) = cpu_instruction_trapped (cpu s)"
  "cpu_stip (cpu (set_raise_intr v s)) = cpu_stip (cpu s)"
  "cpu_seip (cpu (set_raise_intr v s)) = cpu_seip (cpu s)"
  "cpu_mtimecmp (cpu (set_raise_intr v s)) = cpu_mtimecmp (cpu s)"
  "cpu_reservation (cpu (set_raise_intr v s)) = cpu_reservation (cpu s)"
  "cpu_reservation_bytes (cpu (set_raise_intr v s)) = cpu_reservation_bytes (cpu s)"
  "pmpu (set_raise_intr v s) = pmpu s" "tlbs (set_raise_intr v s) = tlbs s" "icaches (set_raise_intr v s) = icaches s"
  "g_vaddr (set_raise_intr v s) = g_vaddr s" "phys (set_raise_intr v s) = phys s"
  "riscv_h_fault_gpa (set_raise_intr v s) = riscv_h_fault_gpa s" "riscv_h_fault_ptw (set_raise_intr v s) = riscv_h_fault_ptw s"
  "riscv_h_fault_write (set_raise_intr v s) = riscv_h_fault_write s"
  "riscv_h_explicit_trap (set_raise_intr v s) = riscv_h_explicit_trap s"
  "g_nr_guest_inst (set_raise_intr v s) = g_nr_guest_inst s" "clint_msip (set_raise_intr v s) = clint_msip s"
  by (simp_all add: fun_eq_iff sr_def set_raise_intr_def)

lemma set_last_csr_wr_frame [simp]:
  "sr (set_last_csr_wr i s) = sr s" "cpu_last_csr_wr (cpu (set_last_csr_wr i s)) = i"
  "cpu_gpr (cpu (set_last_csr_wr i s)) = cpu_gpr (cpu s)"
  "cpu_fpr (cpu (set_last_csr_wr i s)) = cpu_fpr (cpu s)"
  "cpu_vreg (cpu (set_last_csr_wr i s)) = cpu_vreg (cpu s)"
  "cpu_inst (cpu (set_last_csr_wr i s)) = cpu_inst (cpu s)"
  "cpu_priv (cpu (set_last_csr_wr i s)) = cpu_priv (cpu s)"
  "cpu_virt (cpu (set_last_csr_wr i s)) = cpu_virt (cpu s)"
  "cpu_raise_intr (cpu (set_last_csr_wr i s)) = cpu_raise_intr (cpu s)"
  "cpu_last_inst_priv (cpu (set_last_csr_wr i s)) = cpu_last_inst_priv (cpu s)"
  "cpu_csr_dirty (cpu (set_last_csr_wr i s)) = cpu_csr_dirty (cpu s)"
  "cpu_instruction_trapped (cpu (set_last_csr_wr i s)) = cpu_instruction_trapped (cpu s)"
  "cpu_stip (cpu (set_last_csr_wr i s)) = cpu_stip (cpu s)"
  "cpu_seip (cpu (set_last_csr_wr i s)) = cpu_seip (cpu s)"
  "cpu_mtimecmp (cpu (set_last_csr_wr i s)) = cpu_mtimecmp (cpu s)"
  "cpu_reservation (cpu (set_last_csr_wr i s)) = cpu_reservation (cpu s)"
  "cpu_reservation_bytes (cpu (set_last_csr_wr i s)) = cpu_reservation_bytes (cpu s)"
  "pmpu (set_last_csr_wr i s) = pmpu s" "tlbs (set_last_csr_wr i s) = tlbs s" "icaches (set_last_csr_wr i s) = icaches s"
  "g_vaddr (set_last_csr_wr i s) = g_vaddr s" "phys (set_last_csr_wr i s) = phys s"
  "riscv_h_fault_gpa (set_last_csr_wr i s) = riscv_h_fault_gpa s" "riscv_h_fault_ptw (set_last_csr_wr i s) = riscv_h_fault_ptw s"
  "riscv_h_fault_write (set_last_csr_wr i s) = riscv_h_fault_write s"
  "riscv_h_explicit_trap (set_last_csr_wr i s) = riscv_h_explicit_trap s"
  "g_nr_guest_inst (set_last_csr_wr i s) = g_nr_guest_inst s" "clint_msip (set_last_csr_wr i s) = clint_msip s"
  by (simp_all add: fun_eq_iff sr_def set_last_csr_wr_def)

section \<open>Trap entry\<close>

definition is_intr :: "word_t \<Rightarrow> bool" where
  "is_intr NO \<longleftrightarrow> NO AND MCA_INTR_BIT \<noteq> 0"

text \<open>The value for \<open>xtval\<close>.\<close>

definition trap_tval :: "nemu \<Rightarrow> word_t \<Rightarrow> vaddr_t \<Rightarrow> word_t" where
  "trap_tval s NO epc =
     (if is_intr NO then 0
      else if NO = MCA_ILLEGAL_INS \<or> NO = MCA_VIRT_INS then
        (let i = cpu_inst (cpu s) in if i AND 3 = 3 then ucast i else ucast (i AND 0xffff))
      else if NO = MCA_INS_ADD_MIS \<or> NO = MCA_INS_ACC_FAU then
        (if g_vaddr s \<noteq> 0 then g_vaddr s else epc)
      else if NO = MCA_BREAK_POINT then epc
      else if NO = MCA_LOA_ADD_MIS \<or> NO = MCA_LOA_ACC_FAU \<or> NO = MCA_STO_ADD_MIS \<or>
              NO = MCA_STO_ACC_FAU then g_vaddr s
      else if NO = MCA_ENV_CAL_UMO \<or> NO = MCA_ENV_CAL_SMO \<or> NO = MCA_ENV_CAL_VSMO \<or>
              NO = MCA_ENV_CAL_MMO then 0
      else if NO = MCA_INS_PAG_FAU \<or> NO = MCA_INS_GUEST_PAG_FAU then g_vaddr s
      else if NO = MCA_LOA_PAG_FAU \<or> NO = MCA_STO_PAG_FAU \<or> NO = MCA_LOA_GUEST_PAG_FAU \<or>
              NO = MCA_STO_GUEST_PAG_FAU then g_vaddr s
      else 0)"

definition is_guest_fault :: "word_t \<Rightarrow> bool" where
  "is_guest_fault NO \<longleftrightarrow>
     NO = MCA_INS_GUEST_PAG_FAU \<or> NO = MCA_LOA_GUEST_PAG_FAU \<or> NO = MCA_STO_GUEST_PAG_FAU"

text \<open>The exceptions whose \<open>xtval\<close> is a guest virtual address when they come from a guest.\<close>

definition is_address_trap :: "word_t \<Rightarrow> bool" where
  "is_address_trap NO \<longleftrightarrow>
     NO = MCA_BREAK_POINT \<or> NO = MCA_INS_PAG_FAU \<or> NO = MCA_LOA_PAG_FAU \<or>
     NO = MCA_STO_PAG_FAU \<or> is_guest_fault NO \<or> NO = MCA_INS_ACC_FAU \<or>
     NO = MCA_LOA_ACC_FAU \<or> NO = MCA_STO_ACC_FAU \<or> NO = MCA_INS_ADD_MIS \<or>
     NO = MCA_LOA_ADD_MIS \<or> NO = MCA_STO_ADD_MIS"

definition is_data_trap :: "word_t \<Rightarrow> bool" where
  "is_data_trap NO \<longleftrightarrow>
     NO = MCA_LOA_PAG_FAU \<or> NO = MCA_STO_PAG_FAU \<or> NO = MCA_LOA_GUEST_PAG_FAU \<or>
     NO = MCA_STO_GUEST_PAG_FAU \<or> NO = MCA_LOA_ACC_FAU \<or> NO = MCA_STO_ACC_FAU \<or>
     NO = MCA_LOA_ADD_MIS \<or> NO = MCA_STO_ADD_MIS"

definition trap_tinst :: "nemu \<Rightarrow> word_t \<Rightarrow> word_t" where
  "trap_tinst s NO =
     (if is_guest_fault NO \<and> riscv_h_fault_ptw s
      then if riscv_h_fault_write s then 0x3020 else 0x3000 else 0)"

definition trap_guest_pa :: "nemu \<Rightarrow> word_t \<Rightarrow> word_t" where
  "trap_guest_pa s NO = (if is_guest_fault NO then drop_bit 2 (riscv_h_fault_gpa s) else 0)"

text \<open>\<open>spp\<close>, \<open>spie\<close> and \<open>sie\<close> of a status register at a trap into (V)S-mode.\<close>

definition s_push :: "nat \<Rightarrow> word_t \<Rightarrow> word_t" where
  "s_push prv v =
     (let v1 = set_field 8 1 (of_nat prv) v; v2 = set_field 5 1 (sie_of v1) v1
      in set_field 1 1 0 v2)"

definition m_push :: "nat \<Rightarrow> word_t \<Rightarrow> word_t" where
  "m_push prv v =
     (let v1 = set_field 11 2 (of_nat prv) v; v2 = set_field 7 1 (mie_of v1) v1
      in set_field 3 1 0 v2)"

definition trap_target :: "word_t \<Rightarrow> word_t \<Rightarrow> vaddr_t" where
  "trap_target tvec NO =
     (let base = tvec AND NOT 3 in
      if tvec AND 3 = 1 \<and> is_intr NO then base + (NO AND NOT MCA_INTR_BIT) * 4 else base)"

definition trap_to_vs :: "config \<Rightarrow> word_t \<Rightarrow> vaddr_t \<Rightarrow> word_t \<Rightarrow> nemu \<Rightarrow> vaddr_t \<times> nemu" where
  "trap_to_vs c NO epc tval s =
     (let code = NO AND NOT MCA_INTR_BIT;
          vs_cause = (if is_intr NO \<and> push_bit (unat code) 1 AND riscv_virtual_irq_mask c \<noteq> 0
                      then MCA_INTR_BIT OR (code - 1) else NO);
          s1 = set_sr CSR_VSCAUSE vs_cause (set_sr CSR_VSEPC epc (set_sr CSR_VSTVAL tval s));
          s2 = set_sr CSR_VSSTATUS (s_push (priv s) (sr s1 CSR_VSSTATUS)) s1;
          s3 = soft_tlb_flush (set_priv PRV_S (set_last_inst_priv (priv s2) s2));
          vstvec = sr s3 CSR_VSTVEC; base = vstvec AND NOT 3
      in (if is_intr NO \<and> vstvec AND 3 = 1
          then base + (vs_cause AND NOT MCA_INTR_BIT) * 4 else base, s3))"

text \<open>\<open>htval\<close>, \<open>htinst\<close> and the GVA, SPV and SPVP bits of \<open>hstatus\<close>.\<close>

definition trap_hstatus :: "word_t \<Rightarrow> nemu \<Rightarrow> nemu" where
  "trap_hstatus NO s =
     (let s1 = set_sr CSR_HTINST (trap_tinst s NO) (set_sr CSR_HTVAL (trap_guest_pa s NO) s);
          h0 = sr s1 CSR_HSTATUS AND NOT (push_bit 6 3);
          guest_address = virt s \<and> is_address_trap NO;
          h1 = (if guest_address \<or> riscv_h_explicit_trap s then h0 OR push_bit 6 1 else h0);
          h2 = (if virt s then h1 OR push_bit 7 1 else h1);
          h3 = (if virt s then
                  let h = h2 AND NOT (push_bit 8 1)
                  in if priv s = PRV_S then h OR push_bit 8 1 else h
                else h2)
      in set_sr CSR_HSTATUS h3 s1)"

definition trap_to_s :: "config \<Rightarrow> word_t \<Rightarrow> vaddr_t \<Rightarrow> word_t \<Rightarrow> nemu \<Rightarrow> vaddr_t \<times> nemu" where
  "trap_to_s c NO epc tval s =
     (let s1 = set_sr CSR_STVAL tval s;
          s2 = (if riscv_h_gstage_preview_enabled c then trap_hstatus NO s1 else s1);
          s3 = set_sr CSR_SCAUSE NO (set_sr CSR_SEPC epc s2);
          s4 = set_sr CSR_SSTATUS (s_push (priv s) (sr s3 CSR_SSTATUS)) s3;
          s5 = set_sr CSR_MSTATUS (s_push (priv s) (sr s4 CSR_MSTATUS)) s4;
          s6 = soft_tlb_flush (set_virt False (set_priv PRV_S (set_last_inst_priv (priv s5) s5)))
      in (riscv_legalize_pc c (trap_target (sr s6 CSR_STVEC) NO), s6))"

definition trap_mstatus_h :: "config \<Rightarrow> word_t \<Rightarrow> nemu \<Rightarrow> word_t \<Rightarrow> word_t" where
  "trap_mstatus_h c NO s v =
     (let v1 = v AND NOT (push_bit 38 3);
          v2 = (if virt s then v1 OR push_bit 39 1 else v1);
          guest_address = ((virt s \<and> is_address_trap NO) \<or>
            (riscv_data_virtual_mode c s \<and> is_data_trap NO))
      in if guest_address \<or> riscv_h_explicit_trap s then v2 OR push_bit 38 1 else v2)"

definition trap_to_m :: "config \<Rightarrow> word_t \<Rightarrow> vaddr_t \<Rightarrow> word_t \<Rightarrow> nemu \<Rightarrow> vaddr_t \<times> nemu" where
  "trap_to_m c NO epc tval s =
     (let s1 = set_sr CSR_MTVAL tval s;
          s2 = (if riscv_h_gstage_preview_enabled c
                then set_sr CSR_MTINST (trap_tinst s NO) (set_sr CSR_MTVAL2 (trap_guest_pa s NO) s1)
                else s1);
          s3 = set_sr CSR_MCAUSE NO (set_sr CSR_MEPC epc s2);
          v = m_push (priv s) (sr s3 CSR_MSTATUS);
          v' = (if riscv_h_gstage_preview_enabled c then trap_mstatus_h c NO s3 v else v);
          s4 = set_sr CSR_MSTATUS v' s3;
          s5 = set_raise_intr NO (set_last_inst_priv (priv s4) s4);
          s6 = soft_tlb_flush (set_virt False (set_priv PRV_M s5))
      in (riscv_legalize_pc c (trap_target (sr s6 CSR_MTVEC) NO), s6))"

text \<open>The delegation test \<open>cause < XLEN && ((delegation >> cause) & 1)\<close>.\<close>

definition trap_delegated :: "config \<Rightarrow> nemu \<Rightarrow> word_t \<Rightarrow> bool" where
  "trap_delegated c s NO \<longleftrightarrow>
     (let code = NO AND NOT MCA_INTR_BIT;
          delegation = sr s (if is_intr NO then CSR_MIDELEG else CSR_MEDELEG) OR
            (if is_intr NO then riscv_virtual_irq_mask c else 0)
      in priv s \<le> PRV_S \<and> unat code < XLEN \<and> bit delegation (unat code))"

definition trap_delegated_vs :: "config \<Rightarrow> nemu \<Rightarrow> word_t \<Rightarrow> bool" where
  "trap_delegated_vs c s NO \<longleftrightarrow>
     virt s \<and> riscv_h_gstage_preview_enabled c \<and>
     bit (sr s (if is_intr NO then CSR_HIDELEG else CSR_HEDELEG)) (unat (NO AND NOT MCA_INTR_BIT))"

definition isa_raise_intr :: "config \<Rightarrow> word_t \<Rightarrow> vaddr_t \<Rightarrow> nemu \<Rightarrow> vaddr_t \<times> nemu" where
  "isa_raise_intr c NO epc s0 =
     (let s1 = set_csr_dirty True s0;
          s = (if is_intr NO then s1 else set_instruction_trapped True s1);
          tval = trap_tval s NO epc
      in if trap_delegated c s NO then
           if trap_delegated_vs c s NO then trap_to_vs c NO epc tval s else trap_to_s c NO epc tval s
         else trap_to_m c NO epc tval s)"

section \<open>Trap return\<close>

text \<open>The body of \<open>mret\<close>; the illegal-instruction branch returns \<open>None\<close>.\<close>

definition mret_body :: "config \<Rightarrow> nemu \<Rightarrow> (vaddr_t \<times> nemu) option" where
  "mret_body c s =
     (if priv s \<noteq> PRV_M then None
      else
        let reg = sr s CSR_MSTATUS;
            p = unat (mpp_of reg);
            s1 = set_priv p (set_last_inst_priv (priv s) s);
            s2 = set_virt (riscv_h_gstage_preview_enabled c \<and> p \<noteq> PRV_M \<and> bit reg 39) s1;
            r1 = reg AND NOT (push_bit 39 1);
            r2 = (if p \<noteq> PRV_M then set_field 17 1 0 r1 else r1);
            r3 = set_field 3 1 (mpie_of r2) r2;
            r4 = set_field 7 1 1 r3;
            r5 = set_field 11 2 (of_nat PRV_U) r4
        in Some (sr s CSR_MEPC, soft_tlb_flush (set_csr_dirty True (set_sr CSR_MSTATUS r5 s2))))"

text \<open>The body of \<open>sret\<close>; \<open>Inl\<close> is the exception it raises instead.\<close>

definition sret_body :: "config \<Rightarrow> nemu \<Rightarrow> word_t + (vaddr_t \<times> nemu)" where
  "sret_body c s =
     (let reg = sr s CSR_MSTATUS in
      if virt s \<and> riscv_h_gstage_preview_enabled c \<and>
         (priv s = PRV_U \<or> sr s CSR_HSTATUS AND 0x400000 \<noteq> 0) then Inl MCA_VIRT_INS
      else if priv s = PRV_U \<or> (priv s = PRV_S \<and> \<not> virt s \<and> tsr_of reg \<noteq> 0) then Inl MCA_ILLEGAL_INS
      else if virt s then
        let v = sr s CSR_VSSTATUS;
            s1 = set_priv (unat (drop_bit 8 v AND 1)) (set_last_inst_priv (priv s) s);
            v' = (v AND NOT 0x122) OR push_bit 1 (drop_bit 5 v AND 1) OR push_bit 5 1
        in Inr (sr s CSR_VSEPC, soft_tlb_flush (set_csr_dirty True (set_sr CSR_VSSTATUS v' s1)))
      else
        let h = sr s CSR_HSTATUS;
            s1 = set_virt (riscv_h_gstage_preview_enabled c \<and> bit h 7)
                   (set_last_inst_priv (priv s) s);
            p = unat (spp_of reg);
            s2 = set_priv p s1;
            s3 = (if riscv_h_gstage_preview_enabled c
                  then set_sr CSR_HSTATUS (h AND NOT (push_bit 7 1)) s2 else s2);
            r1 = set_field 1 1 (spie_of reg) reg;
            r2 = set_field 5 1 1 r1;
            r3 = set_field 8 1 0 r2;
            r4 = (if p \<noteq> PRV_M then set_field 17 1 0 r3 else r3)
        in Inr (sr s CSR_SEPC, soft_tlb_flush (set_csr_dirty True (set_sr CSR_MSTATUS r4 s3))))"

section \<open>Interrupt selection\<close>

abbreviation (input) INTR_EMPTY :: word_t where "INTR_EMPTY \<equiv> 0xffffffffffffffff"

definition can_take_interrupt :: "config \<Rightarrow> nemu \<Rightarrow> nat \<Rightarrow> bool" where
  "can_take_interrupt c s n =
     (let sie = (sie_of (sr s CSR_MSTATUS) \<noteq> 0) in
      if bit (riscv_virtual_irq_mask c) n then
        if bit (sr s CSR_HIDELEG) n
        then virt s \<and> (priv s < PRV_S \<or> (priv s = PRV_S \<and> sr s CSR_VSSTATUS AND 2 \<noteq> 0))
        else virt s \<or> priv s < PRV_S \<or> (priv s = PRV_S \<and> sie)
      else if bit (sr s CSR_MIDELEG) n
      then virt s \<or> priv s < PRV_S \<or> (priv s = PRV_S \<and> sie)
      else priv s < PRV_M \<or> (priv s = PRV_M \<and> mie_of (sr s CSR_MSTATUS) \<noteq> 0))"

text \<open>The chain of tests of \<open>isa_query_intr\<close>, in its order: bit and cause.\<close>

definition intr_order :: "config \<Rightarrow> (nat \<times> word_t) list" where
  "intr_order c =
     [(11, MCA_MAC_EXT_INT), (3, MCA_MAC_SOF_INT), (7, MCA_MAC_TIM_INT), (9, MCA_SUP_EXT_INT),
      (1, MCA_SUP_SOF_INT), (5, MCA_SUP_TIM_INT), (10, MCA_VSUP_EXT_INT), (2, MCA_VSUP_SOF_INT),
      (6, MCA_VSUP_TIM_INT)] @ (if riscv_sscofpmf_enabled c then [(13, MCA_COU_OVE_INT)] else [])"

definition isa_query_intr :: "config \<Rightarrow> nemu \<Rightarrow> word_t" where
  "isa_query_intr c s =
     (if target_share c then INTR_EMPTY
      else
        let pending = riscv_hart_mip_value c s AND sr s CSR_MIE in
        if pending = 0 then INTR_EMPTY
        else case find (\<lambda>(n, _). bit pending n \<and> can_take_interrupt c s n) (intr_order c) of
               Some (_, cause) \<Rightarrow> cause
             | None \<Rightarrow> INTR_EMPTY)"

definition riscv_intr_may_pending :: "config \<Rightarrow> nemu \<Rightarrow> bool" where
  "riscv_intr_may_pending c s =
     (if sr s CSR_MIE = 0 then False
      else
        let w0 = sr s CSR_MIP OR (sr s CSR_HVIP AND riscv_virtual_irq_mask c) OR
                 (if cpu_seip (cpu s) then 0x200 else 0) OR (if cpu_stip (cpu s) then 0x20 else 0);
            w1 = (if riscv_virtual_timer_pending c s then w0 OR 0x40 else w0);
            w2 = (if raptor_memory_map c then w1 OR push_bit 16 (sr s CSR_MBERR_STATUS AND 1) else w1)
        in w2 \<noteq> 0)"

end
