(* ===== verification/Vec_Alu.thy ===== *)
theory Vec_Alu
  imports Trap "HOL-Library.Signed_Division"
begin

text \<open>
  The arithmetic of the vector unit (\<^verbatim>\<open>src/nemu/src/isa/riscv/vector-control.c\<close>, lines 10-442): the
  maximum vector length, configuration, and the functions that compute one element. Elements are
  64-bit words, register numbers, element indices and widths are \<open>nat\<close>, and \<open>__int128\<close> values are
  \<open>int\<close>: every such value of the code fits into 128 bits. A function that sets \<open>*saturated\<close> returns it
  as a second component.
\<close>

unbundle bit_operations_syntax

section \<open>Vector type and configuration\<close>

text \<open>The exponent of LMUL, from -3 to 3 (-4 is the reserved encoding).\<close>

definition vlmul_exp :: "word_t \<Rightarrow> int" where
  "vlmul_exp vtype = (let e = unat (vtype AND 7) in if e < 4 then int e else int e - 8)"

definition vector_vlmax :: "word_t \<Rightarrow> nat" where
  "vector_vlmax vtype =
     (if vtype AND NOT 0xff \<noteq> 0 then 0
      else
        let sew = unat (drop_bit 3 vtype AND 7); lmul = vlmul_exp vtype in
        if sew > 3 \<or> vtype AND 7 = 4 then 0
        else if (8 * 2 ^ sew :: nat) > (if lmul \<ge> 0 then 64 * 2 ^ nat lmul else 64 div 2 ^ nat (- lmul)) then 0
        else
          let elements = 128 div (8 * 2 ^ sew)
          in if lmul \<ge> 0 then elements * 2 ^ nat lmul else elements div 2 ^ nat (- lmul))"

text \<open>A five-bit register field at bit \<open>lo\<close>.\<close>

definition vreg_field :: "nat \<Rightarrow> uint32_t \<Rightarrow> nat" where
  "vreg_field lo i = unat (drop_bit lo i AND 31)"

text \<open>The requested type and whether the AVL is an immediate; \<open>None\<close> is the reserved encoding.\<close>

definition vset_request :: "uint32_t \<Rightarrow> nemu \<Rightarrow> (word_t \<times> bool) option" where
  "vset_request i s =
     (if i AND 0x80000000 = 0 then Some (ucast (drop_bit 20 i AND 0x7ff), False)
      else if drop_bit 30 i = 3 then Some (ucast (drop_bit 20 i AND 0x3ff), True)
      else if drop_bit 25 i = 0x40 then Some (gpr s (vreg_field 20 i), False)
      else None)"

definition riscv_vector_configure :: "config \<Rightarrow> uint32_t \<Rightarrow> nemu \<Rightarrow> bool \<times> nemu" where
  "riscv_vector_configure c i s =
     (if \<not> riscv_vector_context_enabled c s then (False, s)
      else
        let rd = vreg_field 7 i; rs1 = vreg_field 15 i in
        case vset_request i s of
          None \<Rightarrow> (False, s)
        | Some (requested, immediate_avl) \<Rightarrow>
            let keep = (\<not> immediate_avl \<and> rs1 = 0 \<and> rd = 0);
                old_maximum = vector_vlmax (sr s CSR_VTYPE);
                maximum = (if keep \<and> (old_maximum \<noteq> vector_vlmax requested \<or> old_maximum = 0 \<or>
                                      unat (sr s CSR_VL) > vector_vlmax requested)
                           then 0 else vector_vlmax requested);
                avl = (if immediate_avl then of_nat rs1
                       else if rs1 \<noteq> 0 then gpr s rs1
                       else if rd \<noteq> 0 then - 1 else sr s CSR_VL);
                s1 = (if maximum = 0 then set_sr CSR_VL 0 (set_sr CSR_VTYPE (push_bit 63 1) s)
                      else set_sr CSR_VL (if avl < of_nat maximum then avl else of_nat maximum)
                             (set_sr CSR_VTYPE requested s));
                s2 = set_csr_dirty True (vector_mark_dirty False (set_sr CSR_VSTART 0 s1))
            in (True, if rd \<noteq> 0 then set_gpr rd (sr s2 CSR_VL) s2 else s2))"

section \<open>Integer elements\<close>

text \<open>The mask of an element of \<open>bits\<close> bits, written out for 64 in the code.\<close>

definition elem_mask :: "nat \<Rightarrow> word_t" where
  "elem_mask bits = (if bits = 64 then - 1 else push_bit bits 1 - 1)"

definition vector_integer_result :: "nat \<Rightarrow> word_t \<Rightarrow> word_t \<Rightarrow> nat \<Rightarrow> bool \<Rightarrow> word_t" where
  "vector_integer_result func left0 right0 bits carry_in =
     (let left = left0 AND elem_mask bits; right = right0 AND elem_mask bits;
          sign = push_bit (bits - 1) 1; carry = (of_bool carry_in :: int);
          shift = unat (right AND of_nat (bits - 1)) in
      if func = 0x00 then left + right
      else if func = 0x02 then left - right
      else if func = 0x03 then right - left
      else if func = 0x04 then (if left < right then left else right)
      else if func = 0x05 then (if left XOR sign < right XOR sign then left else right)
      else if func = 0x06 then (if left > right then left else right)
      else if func = 0x07 then (if left XOR sign > right XOR sign then left else right)
      else if func = 0x09 then left AND right
      else if func = 0x0a then left OR right
      else if func = 0x0b then left XOR right
      else if func = 0x10 then left + right + of_bool carry_in
      else if func = 0x11 then word_of_int (drop_bit bits (uint left + uint right + carry))
      else if func = 0x12 then left - right - of_bool carry_in
      else if func = 0x13 then of_bool (uint left < uint right + carry)
      else if func = 0x25 then push_bit shift left
      else if func = 0x28 then drop_bit shift left
      else if func = 0x29 then signed_drop_bit shift ((left XOR sign) - sign)
      else if func = 0x18 then of_bool (left = right)
      else if func = 0x19 then of_bool (left \<noteq> right)
      else if func = 0x1a then of_bool (left < right)
      else if func = 0x1b then of_bool (left XOR sign < right XOR sign)
      else if func = 0x1c then of_bool (left \<le> right)
      else if func = 0x1d then of_bool (left XOR sign \<le> right XOR sign)
      else if func = 0x1e then of_bool (left > right)
      else if func = 0x1f then of_bool (left XOR sign > right XOR sign)
      else 0)"

definition vector_mask_logic_result :: "nat \<Rightarrow> bool \<Rightarrow> bool \<Rightarrow> bool" where
  "vector_mask_logic_result func left right =
     (let f = func mod 8 in
      if f = 0 then left \<and> \<not> right
      else if f = 1 then left \<and> right
      else if f = 2 then left \<or> right
      else if f = 3 then left \<noteq> right
      else if f = 4 then left \<or> \<not> right
      else if f = 5 then \<not> (left \<and> right)
      else if f = 6 then \<not> (left \<or> right)
      else left = right)"

section \<open>Fixed-point elements\<close>

definition vector_signed_value :: "word_t \<Rightarrow> nat \<Rightarrow> int" where
  "vector_signed_value value0 bits =
     (let value = (if bits < 64 then value0 AND (push_bit bits 1 - 1) else value0)
      in uint value - (if value AND push_bit (bits - 1) 1 \<noteq> 0 then 2 ^ bits else 0))"

text \<open>The clamp that several functions repeat, with the saturation flag.\<close>

definition vector_clamp :: "int \<Rightarrow> int \<Rightarrow> int \<Rightarrow> int \<times> bool" where
  "vector_clamp minimum maximum v =
     (if v < minimum then (minimum, True) else if v > maximum then (maximum, True) else (v, False))"

definition vector_saturating_result :: "nat \<Rightarrow> word_t \<Rightarrow> word_t \<Rightarrow> nat \<Rightarrow> word_t \<times> bool" where
  "vector_saturating_result func left0 right0 bits =
     (let left = left0 AND elem_mask bits; right = right0 AND elem_mask bits;
          signed_operation = bit func 0;
          left_value = (if signed_operation then vector_signed_value left bits else uint left);
          right_value = (if signed_operation then vector_signed_value right bits else uint right);
          result = (if bit func 1 then left_value - right_value else left_value + right_value);
          minimum = (if signed_operation then - (2 ^ (bits - 1)) else 0);
          maximum = (if signed_operation then 2 ^ (bits - 1) - 1 else uint (elem_mask bits))
      in case vector_clamp minimum maximum result of
           (v, saturated) \<Rightarrow> (word_of_int v AND elem_mask bits, saturated))"

definition vector_round_result :: "int \<Rightarrow> nat \<Rightarrow> nat \<Rightarrow> int" where
  "vector_round_result v shift mode =
     (let scale = 2 ^ shift;
          q0 = v sdiv scale; r0 = v smod scale;
          quotient = (if r0 < 0 then q0 - 1 else q0);
          remainder = (if r0 < 0 then r0 + scale else r0);
          odd = (quotient AND 1 \<noteq> 0)
      in if (mode = 0 \<and> 2 * remainder \<ge> scale) \<or>
            (mode = 1 \<and> (2 * remainder > scale \<or> (2 * remainder = scale \<and> odd))) \<or>
            (mode = 3 \<and> remainder \<noteq> 0 \<and> \<not> odd)
         then quotient + 1 else quotient)"

definition vector_rounded_fixed_result ::
    "nat \<Rightarrow> word_t \<Rightarrow> word_t \<Rightarrow> nat \<Rightarrow> nat \<Rightarrow> word_t \<times> bool" where
  "vector_rounded_fixed_result func left0 right0 bits mode =
     (let left = left0 AND elem_mask bits; right = right0 AND elem_mask bits;
          signed_operation = bit func 0;
          left_value = (if signed_operation then vector_signed_value left bits else uint left);
          right_value = (if signed_operation then vector_signed_value right bits else uint right);
          (v, shift) =
            (if func \<le> 0x0b
             then (if bit func 1 then left_value - right_value else left_value + right_value, 1)
             else if func = 0x27
             then (vector_signed_value left bits * vector_signed_value right bits, bits - 1)
             else (left_value, unat (right AND of_nat (bits - 1))));
          rounded = vector_round_result v shift mode;
          (r, saturated) =
            (if func = 0x27 then vector_clamp (- (2 ^ (bits - 1))) (2 ^ (bits - 1) - 1) rounded
             else (rounded, False))
      in (word_of_int r AND elem_mask bits, saturated))"

definition vector_clip_result ::
    "bool \<Rightarrow> word_t \<Rightarrow> word_t \<Rightarrow> nat \<Rightarrow> nat \<Rightarrow> word_t \<times> bool" where
  "vector_clip_result signed_operation source shift_operand bits mode =
     (let source_bits = bits * 2;
          shift = unat (shift_operand AND of_nat (source_bits - 1));
          v = (if signed_operation then vector_signed_value source source_bits else uint source);
          minimum = (if signed_operation then - (2 ^ (bits - 1)) else 0);
          maximum = (if signed_operation then 2 ^ (bits - 1) - 1 else 2 ^ bits - 1)
      in case vector_clamp minimum maximum (vector_round_result v shift mode) of
           (r, saturated) \<Rightarrow> (word_of_int r AND elem_mask bits, saturated))"

definition vector_muldiv_result :: "nat \<Rightarrow> word_t \<Rightarrow> word_t \<Rightarrow> nat \<Rightarrow> word_t" where
  "vector_muldiv_result func left0 right0 bits =
     (let left = left0 AND elem_mask bits; right = right0 AND elem_mask bits;
          operation = func mod 8 in
      if operation < 4 then
        if right = 0 then if bit operation 1 then left else elem_mask bits
        else if bit operation 0 then
          let dividend = vector_signed_value left bits; divisor = vector_signed_value right bits
          in word_of_int (if bit operation 1 then dividend smod divisor else dividend sdiv divisor)
               AND elem_mask bits
        else if bit operation 1 then left mod right else left div right
      else if operation = 5 then left * right AND elem_mask bits
      else
        let product =
          (if operation = 4 then uint left * uint right
           else vector_signed_value left bits *
             (if operation = 6 then uint right else vector_signed_value right bits))
        in word_of_int (drop_bit bits (take_bit 128 product)) AND elem_mask bits)"

section \<open>Bit permutations of Zvbb\<close>

definition vector_reverse_bits_in_bytes :: "word_t \<Rightarrow> word_t" where
  "vector_reverse_bits_in_bytes v0 =
     (let v1 = push_bit 1 (v0 AND 0x5555555555555555) OR drop_bit 1 (v0 AND 0xaaaaaaaaaaaaaaaa);
          v2 = push_bit 2 (v1 AND 0x3333333333333333) OR drop_bit 2 (v1 AND 0xcccccccccccccccc)
      in push_bit 4 (v2 AND 0x0f0f0f0f0f0f0f0f) OR drop_bit 4 (v2 AND 0xf0f0f0f0f0f0f0f0))"

definition vector_reverse_bytes :: "word_t \<Rightarrow> nat \<Rightarrow> word_t" where
  "vector_reverse_bytes v bytes =
     fold (\<lambda>b r. r OR push_bit (8 * (bytes - b - 1)) (drop_bit (8 * b) v AND 255)) [0..<bytes] 0"

section \<open>Floating-point estimates\<close>

text \<open>The bisection for the reciprocal square root.\<close>

function sqrt_bisect :: "nat \<Rightarrow> nat \<Rightarrow> nat \<Rightarrow> nat \<Rightarrow> nat" where
  "sqrt_bisect denominator numerator low high =
     (if low + 1 < high
      then let middle = (low + high) div 2
           in if middle * middle * denominator \<le> numerator
              then sqrt_bisect denominator numerator middle high
              else sqrt_bisect denominator numerator low middle
      else low)"
  by pat_completeness auto
termination
  by (relation "measure (\<lambda>(d, n, low, high). high - low)") auto

declare sqrt_bisect.simps [simp del]

definition vector_fp_estimate_bits :: "bool \<Rightarrow> nat \<Rightarrow> nat" where
  "vector_fp_estimate_bits reciprocal_sqrt table_index =
     (if reciprocal_sqrt then
        let denominator = 129 + 2 * (table_index mod 64);
            numerator = (if bit table_index 6 then 8388608 else 4194304);
            low = sqrt_bisect denominator numerator 128 256
        in low + of_bool ((2 * low + 1) * (2 * low + 1) * denominator \<le> 4 * numerator) - 128
      else
        let denominator = 257 + 2 * table_index
        in (131072 + denominator) div (2 * denominator) - 128)"

definition vector_fp_estimate :: "word_t \<Rightarrow> nat \<Rightarrow> bool \<Rightarrow> nat \<Rightarrow> word_t \<times> uint32_t" where
  "vector_fp_estimate operand bytes reciprocal_sqrt rm =
     (let fraction_bits = (if bytes = 4 then 23 else 52);
          exponent_bits = (if bytes = 4 then 8 else 11);
          bias = 2 ^ (exponent_bits - 1) - 1 :: int;
          max_exponent = 2 ^ exponent_bits - 1 :: nat;
          fraction_mask = push_bit fraction_bits 1 - 1 :: word_t;
          sign = drop_bit (fraction_bits + exponent_bits) operand AND 1;
          exponent = unat (drop_bit fraction_bits operand AND of_nat max_exponent);
          fraction = operand AND fraction_mask;
          canonical_nan = push_bit fraction_bits (of_nat max_exponent) OR push_bit (fraction_bits - 1) 1;
          signed_zero = push_bit (fraction_bits + exponent_bits) sign;
          infinity = signed_zero OR push_bit fraction_bits (of_nat max_exponent) in
      if exponent = max_exponent \<and> fraction \<noteq> 0
      then (canonical_nan, if fraction AND push_bit (fraction_bits - 1) 1 = 0 then 0x10 else 0)
      else if exponent = 0 \<and> fraction = 0 then (infinity, 8)
      else if reciprocal_sqrt \<and> sign \<noteq> 0 then (canonical_nan, 0x10)
      else if exponent = max_exponent then (signed_zero, 0)
      else
        let leading = fold (\<lambda>b l. if fraction AND push_bit b 1 \<noteq> 0 then b else l) [0..<fraction_bits] 0;
            normalized_exponent =
              (if exponent = 0 then int leading - int fraction_bits + 1 else int exponent);
            normalized_fraction =
              (if exponent = 0
               then unat (drop_bit (fraction_bits - 7) (push_bit (fraction_bits - leading) fraction) AND 127)
               else unat (drop_bit (fraction_bits - 7) fraction));
            table_index =
              (if reciprocal_sqrt then nat (normalized_exponent mod 2) * 64 + normalized_fraction div 2
               else normalized_fraction);
            estimate = vector_fp_estimate_bits reciprocal_sqrt table_index;
            output0 =
              (if reciprocal_sqrt then (3 * bias - 1 - normalized_exponent) sdiv 2
               else 2 * bias - 1 - normalized_exponent);
            significand0 = push_bit fraction_bits 1 OR push_bit (fraction_bits - 7) (of_nat estimate);
            tiny = (\<not> reciprocal_sqrt \<and> output0 \<le> 0);
            significand = (if tiny then drop_bit (nat (1 - output0)) significand0 else significand0);
            output_exponent = (if tiny then 0 else output0) in
        if \<not> reciprocal_sqrt \<and> output_exponent \<ge> int max_exponent
        then (if rm = 1 \<or> (rm = 2 \<and> sign = 0) \<or> (rm = 3 \<and> sign \<noteq> 0)
              then signed_zero OR push_bit fraction_bits (of_nat (max_exponent - 1)) OR fraction_mask
              else infinity, 5)
        else (signed_zero OR push_bit fraction_bits (word_of_int output_exponent) OR
                (significand AND fraction_mask), 0))"

end
