(* ===== verification/Mem_Monad.thy ===== *)
theory Mem_Monad
  imports Pmp
begin

text \<open>
  Memory accesses as state transformers that may leave the instruction: a fault is the C
  \<open>nemu_memory_longjmp\<close> with the value of the global \<open>cause\<close>, a panic the C \<open>panic\<close> or a failed
  \<open>assert\<close>. The state reached at the exit is kept, as \<open>longjmp\<close> keeps it. The logic at the end
  carries invariants and frame conditions through such computations.
\<close>

section \<open>Computations\<close>

datatype mem_exit = Mem_fault word_t | Mem_panic

type_synonym 'a mem = "nemu \<Rightarrow> (mem_exit + 'a) \<times> nemu"

definition mret :: "'a \<Rightarrow> 'a mem" where
  "mret a = (\<lambda>s. (Inr a, s))"

definition mthrow :: "mem_exit \<Rightarrow> 'a mem" where
  "mthrow e = (\<lambda>s. (Inl e, s))"

definition mbind :: "'a mem \<Rightarrow> ('a \<Rightarrow> 'b mem) \<Rightarrow> 'b mem" where
  "mbind m f = (\<lambda>s. case m s of (Inl e, s') \<Rightarrow> (Inl e, s') | (Inr a, s') \<Rightarrow> f a s')"

definition mseq :: "unit mem \<Rightarrow> 'b mem \<Rightarrow> 'b mem" where
  "mseq m f = mbind m (\<lambda>_. f)"

definition mgets :: "(nemu \<Rightarrow> 'a) \<Rightarrow> 'a mem" where
  "mgets f = (\<lambda>s. (Inr (f s), s))"

definition mmodify :: "(nemu \<Rightarrow> nemu) \<Rightarrow> unit mem" where
  "mmodify f = (\<lambda>s. (Inr (), f s))"

definition mlift :: "(nemu \<Rightarrow> 'a \<times> nemu) \<Rightarrow> 'a mem" where
  "mlift f = (\<lambda>s. (Inr (fst (f s)), snd (f s)))"

definition mwhen :: "bool \<Rightarrow> unit mem \<Rightarrow> unit mem" where
  "mwhen b m = (if b then m else mret ())"

lemmas mem_defs = mret_def mthrow_def mbind_def mseq_def mgets_def mmodify_def mlift_def mwhen_def

lemma mret_app [simp]: "mret a s = (Inr a, s)"
  by (simp add: mret_def)

lemma mthrow_app [simp]: "mthrow e s = (Inl e, s)"
  by (simp add: mthrow_def)

lemma mgets_app [simp]: "mgets f s = (Inr (f s), s)"
  by (simp add: mgets_def)

lemma mmodify_app [simp]: "mmodify f s = (Inr (), f s)"
  by (simp add: mmodify_def)

lemma mlift_app [simp]: "mlift f s = (Inr (fst (f s)), snd (f s))"
  by (simp add: mlift_def)

lemma mwhen_app [simp]: "mwhen b m s = (if b then m s else (Inr (), s))"
  by (simp add: mwhen_def)

lemma mbind_app:
  "mbind m f s = (case m s of (Inl e, s') \<Rightarrow> (Inl e, s') | (Inr a, s') \<Rightarrow> f a s')"
  by (simp add: mbind_def)

lemma mbind_Inr [simp]: "m s = (Inr a, s') \<Longrightarrow> mbind m f s = f a s'"
  by (simp add: mbind_def)

lemma mbind_Inl [simp]: "m s = (Inl e, s') \<Longrightarrow> mbind m f s = (Inl e, s')"
  by (simp add: mbind_def)

lemma mbind_eq_Inr:
  "mbind m f s = (Inr b, t) \<longleftrightarrow> (\<exists>a s'. m s = (Inr a, s') \<and> f a s' = (Inr b, t))"
  by (auto simp: mbind_def split: prod.splits sum.splits)

lemma mbind_eq_Inl:
  "mbind m f s = (Inl e, t) \<longleftrightarrow>
     m s = (Inl e, t) \<or> (\<exists>a s'. m s = (Inr a, s') \<and> f a s' = (Inl e, t))"
  by (auto simp: mbind_def split: prod.splits sum.splits)

lemma mseq_app:
  "mseq m f s = (case m s of (Inl e, s') \<Rightarrow> (Inl e, s') | (Inr a, s') \<Rightarrow> f s')"
  by (simp add: mseq_def mbind_def)

lemma mseq_eq_Inr:
  "mseq m f s = (Inr b, t) \<longleftrightarrow> (\<exists>s'. m s = (Inr (), s') \<and> f s' = (Inr b, t))"
  by (simp add: mseq_def mbind_eq_Inr)

lemma mret_mbind [simp]: "mbind (mret a) f = f a"
  by (simp add: fun_eq_iff mbind_def)

lemma mbind_mret [simp]: "mbind m mret = m"
  by (auto simp: fun_eq_iff mbind_def split: prod.splits sum.splits)

lemma mbind_assoc: "mbind (mbind m f) g = mbind m (\<lambda>a. mbind (f a) g)"
  by (auto simp: fun_eq_iff mbind_def split: prod.splits sum.splits)

section \<open>Invariants\<close>

text \<open>
  \<open>mhoare P m Q E\<close>: from a state in \<open>P\<close>, a normal return satisfies \<open>Q\<close> and an exit satisfies
  \<open>E\<close>.
\<close>

definition mhoare ::
    "(nemu \<Rightarrow> bool) \<Rightarrow> 'a mem \<Rightarrow> ('a \<Rightarrow> nemu \<Rightarrow> bool) \<Rightarrow> (mem_exit \<Rightarrow> nemu \<Rightarrow> bool) \<Rightarrow> bool" where
  "mhoare P m Q E \<longleftrightarrow>
     (\<forall>s. P s \<longrightarrow> (case m s of (Inl e, t) \<Rightarrow> E e t | (Inr a, t) \<Rightarrow> Q a t))"

named_theorems mwp \<open>rules that decompose a computation\<close>

lemma mhoareI:
  assumes "\<And>s e t. P s \<Longrightarrow> m s = (Inl e, t) \<Longrightarrow> E e t"
    and "\<And>s a t. P s \<Longrightarrow> m s = (Inr a, t) \<Longrightarrow> Q a t"
  shows "mhoare P m Q E"
  using assms by (fastforce simp: mhoare_def split: prod.split sum.split)

lemma mhoare_Inr: "mhoare P m Q E \<Longrightarrow> P s \<Longrightarrow> m s = (Inr a, t) \<Longrightarrow> Q a t"
  by (force simp: mhoare_def)

lemma mhoare_Inl: "mhoare P m Q E \<Longrightarrow> P s \<Longrightarrow> m s = (Inl e, t) \<Longrightarrow> E e t"
  by (force simp: mhoare_def)

lemma mhoare_mret [mwp]: "(\<And>s. P s \<Longrightarrow> Q a s) \<Longrightarrow> mhoare P (mret a) Q E"
  by (simp add: mhoare_def)

lemma mhoare_mthrow [mwp]: "(\<And>s. P s \<Longrightarrow> E e s) \<Longrightarrow> mhoare P (mthrow e) Q E"
  by (simp add: mhoare_def)

lemma mhoare_mgets [mwp]: "(\<And>s. P s \<Longrightarrow> Q (f s) s) \<Longrightarrow> mhoare P (mgets f) Q E"
  by (simp add: mhoare_def)

lemma mhoare_mmodify [mwp]: "(\<And>s. P s \<Longrightarrow> Q () (f s)) \<Longrightarrow> mhoare P (mmodify f) Q E"
  by (simp add: mhoare_def)

lemma mhoare_mbind:
  assumes "mhoare P m R E" and "\<And>a. mhoare (R a) (f a) Q E"
  shows "mhoare P (mbind m f) Q E"
proof (rule mhoareI)
  fix s e t assume "P s" and m: "mbind m f s = (Inl e, t)"
  then show "E e t"
    unfolding mbind_eq_Inl
    by (metis mhoare_Inl [OF assms(1)] mhoare_Inr [OF assms(1)] mhoare_Inl [OF assms(2)])
next
  fix s b t assume "P s" and m: "mbind m f s = (Inr b, t)"
  then show "Q b t"
    unfolding mbind_eq_Inr by (metis mhoare_Inr [OF assms(1)] mhoare_Inr [OF assms(2)])
qed

lemma mhoare_mseq:
  assumes "mhoare P m (\<lambda>_. R) E" and "mhoare R f Q E"
  shows "mhoare P (mseq m f) Q E"
  unfolding mseq_def using assms by (rule mhoare_mbind)

lemma mhoare_pre: "mhoare P' m Q E \<Longrightarrow> (\<And>s. P s \<Longrightarrow> P' s) \<Longrightarrow> mhoare P m Q E"
  by (simp add: mhoare_def)

lemma mhoare_weaken:
  assumes "mhoare P m Q' E'" and "\<And>a s. Q' a s \<Longrightarrow> Q a s" and "\<And>e s. E' e s \<Longrightarrow> E e s"
  shows "mhoare P m Q E"
  using assms by (force simp: mhoare_def split: prod.splits sum.splits)

text \<open>What is returned, whatever the states in between.\<close>

lemma mhoare_ret_bind:
  "(\<And>a. mhoare (\<lambda>_. True) (f a) Q (\<lambda>_ _. True)) \<Longrightarrow> mhoare (\<lambda>_. True) (mbind m f) Q (\<lambda>_ _. True)"
  by (rule mhoare_mbind [where R = "\<lambda>_ _. True"]) (simp_all add: mhoare_def split: prod.split sum.split)

lemma mhoare_ret_seq:
  "mhoare (\<lambda>_. True) f Q (\<lambda>_ _. True) \<Longrightarrow> mhoare (\<lambda>_. True) (mseq m f) Q (\<lambda>_ _. True)"
  unfolding mseq_def by (rule mhoare_ret_bind)

lemma mhoare_sum [mwp]:
  "(\<And>a. x = Inl a \<Longrightarrow> mhoare P (f a) Q E) \<Longrightarrow> (\<And>b. x = Inr b \<Longrightarrow> mhoare P (g b) Q E) \<Longrightarrow>
     mhoare P (case x of Inl a \<Rightarrow> f a | Inr b \<Rightarrow> g b) Q E"
  by (cases x) simp_all

lemma mhoare_prod [mwp]:
  "(\<And>a b. x = (a, b) \<Longrightarrow> mhoare P (f a b) Q E) \<Longrightarrow> mhoare P (case x of (a, b) \<Rightarrow> f a b) Q E"
  by (cases x) simp

lemma mhoare_option [mwp]:
  "(x = None \<Longrightarrow> mhoare P m Q E) \<Longrightarrow> (\<And>y. x = Some y \<Longrightarrow> mhoare P (f y) Q E) \<Longrightarrow>
     mhoare P (case x of None \<Rightarrow> m | Some y \<Rightarrow> f y) Q E"
  by (cases x) simp_all

text \<open>A property of the state that a computation keeps on every way out.\<close>

definition minv :: "(nemu \<Rightarrow> bool) \<Rightarrow> 'a mem \<Rightarrow> bool" where
  "minv I m \<longleftrightarrow> (\<forall>s. I s \<longrightarrow> I (snd (m s)))"

lemma minvD: "minv I m \<Longrightarrow> I s \<Longrightarrow> m s = (r, t) \<Longrightarrow> I t"
  by (force simp: minv_def)

lemma minv_mret [mwp]: "minv I (mret a)"
  by (simp add: minv_def)

lemma minv_mthrow [mwp]: "minv I (mthrow e)"
  by (simp add: minv_def)

lemma minv_mgets [mwp]: "minv I (mgets f)"
  by (simp add: minv_def)

lemma minv_mmodify [mwp]: "(\<And>s. I s \<Longrightarrow> I (f s)) \<Longrightarrow> minv I (mmodify f)"
  by (simp add: minv_def)

lemma minv_mlift [mwp]: "(\<And>s. I s \<Longrightarrow> I (snd (f s))) \<Longrightarrow> minv I (mlift f)"
  by (simp add: minv_def)

lemma minv_mbind [mwp]: "minv I m \<Longrightarrow> (\<And>a. minv I (f a)) \<Longrightarrow> minv I (mbind m f)"
  by (auto simp: minv_def mbind_app split: prod.splits sum.splits)

lemma minv_mseq [mwp]: "minv I m \<Longrightarrow> minv I f \<Longrightarrow> minv I (mseq m f)"
  by (simp add: mseq_def minv_mbind)

lemma minv_mwhen [mwp]: "(b \<Longrightarrow> minv I m) \<Longrightarrow> minv I (mwhen b m)"
  by (simp add: minv_def)

lemma minv_if [mwp]: "(b \<Longrightarrow> minv I m) \<Longrightarrow> (\<not> b \<Longrightarrow> minv I n) \<Longrightarrow> minv I (if b then m else n)"
  by simp

lemma minv_option [mwp]:
  "(x = None \<Longrightarrow> minv I m) \<Longrightarrow> (\<And>y. x = Some y \<Longrightarrow> minv I (f y)) \<Longrightarrow>
     minv I (case x of None \<Rightarrow> m | Some y \<Rightarrow> f y)"
  by (cases x) simp_all

lemma minv_sum [mwp]:
  "(\<And>a. x = Inl a \<Longrightarrow> minv I (f a)) \<Longrightarrow> (\<And>b. x = Inr b \<Longrightarrow> minv I (g b)) \<Longrightarrow>
     minv I (case x of Inl a \<Rightarrow> f a | Inr b \<Rightarrow> g b)"
  by (cases x) simp_all

lemma minv_prod [mwp]: "(\<And>a b. x = (a, b) \<Longrightarrow> minv I (f a b)) \<Longrightarrow> minv I (case x of (a, b) \<Rightarrow> f a b)"
  by (cases x) simp

lemma minv_Let [mwp]: "(\<And>x. x = e \<Longrightarrow> minv I (f x)) \<Longrightarrow> minv I (Let e f)"
  by (simp add: Let_def)

end
