(* ===== verification/Vec_Regs.thy ===== *)
theory Vec_Regs
  imports Vec_Alu Mem_Monad
begin

text \<open>
  The vector register file of \<^verbatim>\<open>vector-control.c\<close>: reading and writing elements and mask bits, and the
  loops over elements. The C array is \<open>cpu.vreg[32][16]\<close>; an access that leaves it is undefined
  behaviour in C and \<open>Mem_panic\<close> here.
\<close>

unbundle bit_operations_syntax

type_synonym vregs = "nat \<Rightarrow> nat \<Rightarrow> uint8_t"

section \<open>Elements\<close>

text \<open>An element lies in one register of the array and has at most 8 bytes.\<close>

definition vspan_ok :: "nat \<Rightarrow> nat \<Rightarrow> nat \<Rightarrow> bool" where
  "vspan_ok reg index bytes \<longleftrightarrow>
     reg + index * bytes div 16 < 32 \<and> index * bytes mod 16 + bytes \<le> 16 \<and> bytes \<le> 8"

definition vector_snapshot_read :: "vregs \<Rightarrow> nat \<Rightarrow> nat \<Rightarrow> nat \<Rightarrow> word_t" where
  "vector_snapshot_read registers reg index bytes =
     (let offset = index * bytes; source = registers (reg + offset div 16)
      in fold (\<lambda>b v. v OR push_bit (8 * b) (ucast (source (offset mod 16 + b)))) [0..<bytes] 0)"

definition vregs_write :: "nat \<Rightarrow> nat \<Rightarrow> nat \<Rightarrow> word_t \<Rightarrow> vregs \<Rightarrow> vregs" where
  "vregs_write reg index bytes v registers =
     (let offset = index * bytes; row = reg + offset div 16
      in registers(row := fold (\<lambda>b d. d(offset mod 16 + b := ucast (drop_bit (8 * b) v)))
           [0..<bytes] (registers row)))"

definition set_vregs :: "vregs \<Rightarrow> nemu \<Rightarrow> nemu" where
  "set_vregs r s = s\<lparr>cpu := (cpu s)\<lparr>cpu_vreg := r\<rparr>\<rparr>"

definition vregs_of :: "nemu \<Rightarrow> vregs" where
  "vregs_of s = cpu_vreg (cpu s)"

text \<open>A read of a saved copy of the registers, and of the registers themselves.\<close>

definition vsnap :: "vregs \<Rightarrow> nat \<Rightarrow> nat \<Rightarrow> nat \<Rightarrow> word_t mem" where
  "vsnap registers reg index bytes =
     (if vspan_ok reg index bytes then mret (vector_snapshot_read registers reg index bytes)
      else mthrow Mem_panic)"

definition vector_element_read :: "nat \<Rightarrow> nat \<Rightarrow> nat \<Rightarrow> word_t mem" where
  "vector_element_read reg index bytes = mbind (mgets vregs_of) (\<lambda>r. vsnap r reg index bytes)"

definition vector_element_write :: "nat \<Rightarrow> nat \<Rightarrow> nat \<Rightarrow> word_t \<Rightarrow> unit mem" where
  "vector_element_write reg index bytes v =
     (if vspan_ok reg index bytes
      then mmodify (\<lambda>s. set_vregs (vregs_write reg index bytes v (vregs_of s)) s)
      else mthrow Mem_panic)"

section \<open>Mask bits\<close>

definition vmask_ok :: "nat \<Rightarrow> nat \<Rightarrow> bool" where
  "vmask_ok reg index \<longleftrightarrow> reg < 32 \<and> index div 8 < 16"

definition vmask_get :: "vregs \<Rightarrow> nat \<Rightarrow> nat \<Rightarrow> bool" where
  "vmask_get registers reg index \<longleftrightarrow> drop_bit (index mod 8) (registers reg (index div 8)) AND 1 \<noteq> 0"

definition vmask_put :: "nat \<Rightarrow> nat \<Rightarrow> bool \<Rightarrow> vregs \<Rightarrow> vregs" where
  "vmask_put reg index b registers =
     (let old = registers reg (index div 8); m = push_bit (index mod 8) 1
      in registers(reg := (registers reg)(index div 8 := (old AND NOT m) OR (if b then m else 0))))"

definition vector_mask_bit :: "nat \<Rightarrow> nat \<Rightarrow> bool mem" where
  "vector_mask_bit reg index =
     (if vmask_ok reg index then mgets (\<lambda>s. vmask_get (vregs_of s) reg index) else mthrow Mem_panic)"

definition vector_mask_write :: "nat \<Rightarrow> nat \<Rightarrow> bool \<Rightarrow> unit mem" where
  "vector_mask_write reg index b =
     (if vmask_ok reg index then mmodify (\<lambda>s. set_vregs (vmask_put reg index b (vregs_of s)) s)
      else mthrow Mem_panic)"

section \<open>Loops\<close>

text \<open>A loop over element indices that carries the local variables of the C function.\<close>

primrec mfold :: "nat list \<Rightarrow> (nat \<Rightarrow> 'a \<Rightarrow> 'a mem) \<Rightarrow> 'a \<Rightarrow> 'a mem" where
  "mfold [] f a = mret a"
| "mfold (i # is) f a = mbind (f i a) (mfold is f)"

primrec mfor :: "nat list \<Rightarrow> (nat \<Rightarrow> unit mem) \<Rightarrow> unit mem" where
  "mfor [] f = mret ()"
| "mfor (i # is) f = mseq (f i) (mfor is f)"

text \<open>\<open>if (!unmasked && !vector_mask_bit(0, index)) continue;\<close>\<close>

definition vactive :: "bool \<Rightarrow> nat \<Rightarrow> unit mem \<Rightarrow> unit mem" where
  "vactive unmasked index m =
     (if unmasked then m else mbind (vector_mask_bit 0 index) (\<lambda>b. mwhen b m))"

definition vactive_acc :: "bool \<Rightarrow> nat \<Rightarrow> 'a \<Rightarrow> 'a mem \<Rightarrow> 'a mem" where
  "vactive_acc unmasked index a m =
     (if unmasked then m else mbind (vector_mask_bit 0 index) (\<lambda>b. if b then m else mret a))"

text \<open>The body range: \<open>index\<close> is a 32-bit variable that starts at \<open>vstart\<close>.\<close>

definition vstart_of :: "nemu \<Rightarrow> nat" where
  "vstart_of s = unat (ucast (sr s CSR_VSTART) :: uint32_t)"

definition vl_of :: "nemu \<Rightarrow> nat" where
  "vl_of s = unat (sr s CSR_VL)"

definition vbody :: "nemu \<Rightarrow> nat list" where
  "vbody s = [vstart_of s..<vl_of s]"

section \<open>Optional extensions (isa-extensions.h)\<close>

definition riscv_zvbb_enabled :: "config \<Rightarrow> bool" where
  "riscv_zvbb_enabled c \<longleftrightarrow> riscv_isa_extensions c AND NEMU_ISA_EXT_ZVBB \<noteq> 0"

definition riscv_zvfhmin_enabled :: "config \<Rightarrow> bool" where
  "riscv_zvfhmin_enabled c \<longleftrightarrow> riscv_isa_extensions c AND NEMU_ISA_EXT_ZVFHMIN \<noteq> 0"

section \<open>Fields of the instruction and of \<open>vtype\<close>\<close>

abbreviation v_dest :: "uint32_t \<Rightarrow> nat" where "v_dest \<equiv> vreg_field 7"
abbreviation v_src1 :: "uint32_t \<Rightarrow> nat" where "v_src1 \<equiv> vreg_field 15"
abbreviation v_src2 :: "uint32_t \<Rightarrow> nat" where "v_src2 \<equiv> vreg_field 20"

definition v_form :: "uint32_t \<Rightarrow> nat" where
  "v_form i = unat (drop_bit 12 i AND 7)"

definition v_func :: "uint32_t \<Rightarrow> nat" where
  "v_func i = unat (drop_bit 26 i)"

definition v_unmasked :: "uint32_t \<Rightarrow> bool" where
  "v_unmasked i \<longleftrightarrow> i AND push_bit 25 1 \<noteq> 0"

definition v_bytes :: "nemu \<Rightarrow> nat" where
  "v_bytes s = 2 ^ unat (drop_bit 3 (sr s CSR_VTYPE) AND 7)"

text \<open>The registers of a group with LMUL \<open>2 ^ e\<close>.\<close>

definition vgroup_regs :: "int \<Rightarrow> nat" where
  "vgroup_regs e = (if e > 0 then 2 ^ nat e else 1)"

definition v_lmul :: "nemu \<Rightarrow> int" where
  "v_lmul s = vlmul_exp (sr s CSR_VTYPE)"

definition v_group :: "nemu \<Rightarrow> nat" where
  "v_group s = (let e = unat (sr s CSR_VTYPE AND 7) in if e < 4 then 2 ^ e else 1)"

definition vector_group_valid :: "nat \<Rightarrow> nat \<Rightarrow> bool" where
  "vector_group_valid reg regs \<longleftrightarrow> reg mod regs = 0 \<and> reg + regs \<le> 32"

definition voverlap :: "nat \<Rightarrow> nat \<Rightarrow> nat \<Rightarrow> nat \<Rightarrow> bool" where
  "voverlap reg1 group1 reg2 group2 \<longleftrightarrow> reg1 < reg2 + group2 \<and> reg2 < reg1 + group1"

definition vector_fp_context_enabled :: "nemu \<Rightarrow> bool" where
  "vector_fp_context_enabled s \<longleftrightarrow>
     sr s CSR_MSTATUS AND 0x6000 \<noteq> 0 \<and> (\<not> virt s \<or> sr s CSR_VSSTATUS AND 0x6000 \<noteq> 0)"

text \<open>The end of every vector instruction.\<close>

definition vector_finish :: "bool \<Rightarrow> bool mem" where
  "vector_finish floating =
     mseq (mmodify (\<lambda>s. set_csr_dirty True (vector_mark_dirty floating (set_sr CSR_VSTART 0 s))))
       (mret True)"

definition vector_set_vxsat :: "bool \<Rightarrow> unit mem" where
  "vector_set_vxsat saturated =
     mwhen saturated
       (mmodify (\<lambda>s. set_sr CSR_VCSR (push_bit 1 (sr s CSR_VXRM) OR 1) (set_sr CSR_VXSAT 1 s)))"

text \<open>The rounding mode of the dynamic FP instructions and accrued exception flags.\<close>

definition v_frm :: "nemu \<Rightarrow> nat" where
  "v_frm s = unat (drop_bit 5 (sr s CSR_FCSR) AND 7)"

definition vector_accrue :: "uint32_t \<Rightarrow> unit mem" where
  "vector_accrue fp_flags = mmodify (\<lambda>s. set_sr CSR_FCSR (sr s CSR_FCSR OR ucast fp_flags) s)"

text \<open>The extensions an FP instruction needs, and its context.\<close>

definition vector_fp_ready :: "bool \<Rightarrow> bool \<Rightarrow> nemu \<Rightarrow> bool" where
  "vector_fp_ready f d s \<longleftrightarrow>
     (let required = (if f then 0x20 else 0) OR (if d then 0x8 else 0)
      in sr s CSR_MISA AND required = required \<and> vector_fp_context_enabled s \<and> v_frm s \<le> 4)"

end
