(* ===== verification/Decode.thy ===== *)
theory Decode
  imports Prelude
begin

text \<open>
  The pattern matcher of \<^verbatim>\<open>include/cpu/decode.h\<close>. The lemma \<open>INSTPAT_hit_bits\<close> turns a match into a conjunction of instruction
  bits, on which all decoder proofs work.
\<close>

unbundle bit_operations_syntax

section \<open>pattern_decode\<close>

text \<open>One \<open>macro(i)\<close> step; \<open>None\<close> is the failing \<open>Assert\<close> on an invalid character.\<close>

fun pattern_step :: "char \<Rightarrow> word_t \<times> word_t \<times> nat \<Rightarrow> (word_t \<times> word_t \<times> nat) option" where
  "pattern_step ch (key, msk, shift) =
     (if ch = CHR '' '' then Some (key, msk, shift)
      else if ch = CHR ''0'' \<or> ch = CHR ''1'' \<or> ch = CHR ''?'' then
        Some (push_bit 1 key OR (if ch = CHR ''1'' then 1 else 0),
              push_bit 1 msk OR (if ch = CHR ''?'' then 0 else 1),
              (if ch = CHR ''?'' then shift + 1 else 0))
      else None)"

primrec pattern_scan :: "string \<Rightarrow> word_t \<times> word_t \<times> nat \<Rightarrow> (word_t \<times> word_t \<times> nat) option" where
  "pattern_scan [] st = Some st"
| "pattern_scan (ch # cs) st = Option.bind (pattern_step ch st) (pattern_scan cs)"

text \<open>A pattern of 64 or more characters is the \<open>panic\<close>.\<close>

definition pattern_decode :: "string \<Rightarrow> (word_t \<times> word_t \<times> nat) option" where
  "pattern_decode str =
     (if 64 \<le> length str then None
      else map_option (\<lambda>(key, msk, shift). (drop_bit shift key, drop_bit shift msk, shift))
             (pattern_scan str (0, 0, 0)))"

definition INSTPAT_hit :: "string \<Rightarrow> uint32_t \<Rightarrow> bool" where
  "INSTPAT_hit str s =
     (case pattern_decode str of None \<Rightarrow> False
      | Some (key, msk, shift) \<Rightarrow> drop_bit shift (ucast s) AND msk = key)"

section \<open>A match, bit by bit\<close>

primrec pat_bits :: "string \<Rightarrow> 'a::len word \<Rightarrow> bool" where
  "pat_bits [] s = True"
| "pat_bits (ch # cs) s =
     ((ch = CHR ''1'' \<longrightarrow> bit s (length cs)) \<and> (ch = CHR ''0'' \<longrightarrow> \<not> bit s (length cs)) \<and>
      pat_bits cs s)"

definition pat_strip :: "string \<Rightarrow> string" where
  "pat_strip str = filter (\<lambda>ch. ch \<noteq> CHR '' '') str"

definition pat_valid :: "string \<Rightarrow> bool" where
  "pat_valid cs \<longleftrightarrow> list_all (\<lambda>ch. ch = CHR ''0'' \<or> ch = CHR ''1'' \<or> ch = CHR ''?'') cs"

lemma pat_bits_snoc:
  "pat_bits (cs @ [ch]) s \<longleftrightarrow>
     pat_bits cs (drop_bit 1 s) \<and> (ch = CHR ''1'' \<longrightarrow> bit s 0) \<and> (ch = CHR ''0'' \<longrightarrow> \<not> bit s 0)"
  for s :: "'a::len word"
  by (induction cs) (auto simp: bit_drop_bit_eq)

lemma pattern_scan_snoc:
  "pattern_scan (cs @ [ch]) st = Option.bind (pattern_scan cs st) (pattern_step ch)"
  by (induction cs arbitrary: st) (auto intro: bind_eq_Some_conv [THEN iffD2] simp: Option.bind_assoc)

lemma pattern_scan_strip: "pattern_scan str st = pattern_scan (pat_strip str) st"
proof (induction str arbitrary: st)
  case (Cons ch str)
  then show ?case by (cases st) (auto simp: pat_strip_def)
qed (simp add: pat_strip_def)

lemma and_eq_push_bit:
  fixes x m k :: "'a::len word"
  assumes "\<not> bit m (LENGTH('a) - 1)" and "\<not> bit k (LENGTH('a) - 1)"
  shows "x AND (push_bit 1 m OR of_bool b) = (push_bit 1 k OR of_bool d) \<longleftrightarrow>
    drop_bit 1 x AND m = k \<and> (b \<and> bit x 0 \<longleftrightarrow> d)"
proof -
  have "(x AND (push_bit 1 m OR of_bool b) = (push_bit 1 k OR of_bool d)) =
    (\<forall>n<LENGTH('a). bit (x AND (push_bit 1 m OR of_bool b)) n = bit (push_bit 1 k OR of_bool d) n)"
    by (metis word_bit_eqI)
  also have "\<dots> = ((b \<and> bit x 0 \<longleftrightarrow> d) \<and>
      (\<forall>n<LENGTH('a) - 1. bit (drop_bit 1 x AND m) n = bit k n))" (is "?l = ?r")
  proof
    assume l: ?l
    have "b \<and> bit x 0 \<longleftrightarrow> d" using l [rule_format, of 0] by (auto simp: bit_simps simp del: push_bit_Suc)
    moreover have "bit (drop_bit 1 x AND m) n = bit k n" if "n < LENGTH('a) - 1" for n
      using l [rule_format, of "Suc n"] that by (auto simp: bit_simps simp del: push_bit_Suc)
    ultimately show ?r by blast
  next
    assume r: ?r
    show ?l
    proof (intro allI impI)
      fix n assume n: "n < LENGTH('a)"
      show "bit (x AND (push_bit 1 m OR of_bool b)) n = bit (push_bit 1 k OR of_bool d) n"
      proof (cases n)
        case 0
        with r show ?thesis by (auto simp: bit_simps simp del: push_bit_Suc)
      next
        case (Suc m')
        with r n show ?thesis by (auto simp: bit_simps simp del: push_bit_Suc)
      qed
    qed
  qed
  also have "(\<forall>n<LENGTH('a) - 1. bit (drop_bit 1 x AND m) n = bit k n) \<longleftrightarrow> drop_bit 1 x AND m = k"
  proof
    assume *: "\<forall>n<LENGTH('a) - 1. bit (drop_bit 1 x AND m) n = bit k n"
    show "drop_bit 1 x AND m = k"
    proof (rule word_bit_eqI)
      fix n assume "n < LENGTH('a)"
      then consider "n < LENGTH('a) - 1" | "n = LENGTH('a) - 1" by linarith
      then show "bit (drop_bit 1 x AND m) n = bit k n"
        using * assms by cases (auto simp: bit_and_iff)
    qed
  qed simp
  finally show ?thesis by blast
qed

lemma pattern_scan_spec:
  assumes "pat_valid cs" and "length cs < 64"
  shows "\<exists>k m sh. pattern_scan cs (0, 0, 0) = Some (k, m, sh) \<and>
    (\<forall>x :: word_t. x AND m = k \<longleftrightarrow> pat_bits cs x) \<and>
    (\<forall>n. length cs \<le> n \<longrightarrow> \<not> bit k n \<and> \<not> bit m n) \<and>
    (\<forall>n < sh. \<not> bit k n \<and> \<not> bit m n)"
  using assms
proof (induction cs rule: rev_induct)
  case (snoc ch cs)
  then obtain k m sh where ih: "pattern_scan cs (0, 0, 0) = Some (k, m, sh)"
    "\<And>x :: word_t. x AND m = k \<longleftrightarrow> pat_bits cs x"
    "\<And>n. length cs \<le> n \<Longrightarrow> \<not> bit k n \<and> \<not> bit m n" "\<And>n. n < sh \<Longrightarrow> \<not> bit k n \<and> \<not> bit m n"
    by (auto simp: pat_valid_def)
  let ?d = "ch = CHR ''1''" and ?b = "ch \<noteq> CHR ''?''"
  have ch: "ch = CHR ''0'' \<or> ch = CHR ''1'' \<or> ch = CHR ''?''"
    using snoc.prems by (simp add: pat_valid_def)
  have "pattern_scan (cs @ [ch]) (0, 0, 0) =
      Some (push_bit 1 k OR of_bool ?d, push_bit 1 m OR of_bool ?b, if ?b then 0 else sh + 1)"
    using ch ih(1) by (auto simp: pattern_scan_snoc)
  moreover have "x AND (push_bit 1 m OR of_bool ?b) = (push_bit 1 k OR of_bool ?d) \<longleftrightarrow>
      pat_bits (cs @ [ch]) x" for x
    using ih(2) ih(3) [of 63] snoc.prems ch
    by (subst and_eq_push_bit) (auto simp: pat_bits_snoc)
  moreover have "\<not> bit (push_bit 1 k OR of_bool ?d) n \<and> \<not> bit (push_bit 1 m OR of_bool ?b) n"
    if "length (cs @ [ch]) \<le> n" for n
    using ih(3) [of "n - 1"] that by (auto simp: bit_simps simp del: push_bit_Suc)
  moreover have "\<not> bit (push_bit 1 k OR of_bool ?d) n \<and> \<not> bit (push_bit 1 m OR of_bool ?b) n"
    if "n < (if ?b then 0 else sh + 1)" for n
    using ih(4) [of "n - 1"] that by (cases n) (auto simp: bit_simps simp del: push_bit_Suc split: if_splits)
  ultimately show ?case by blast
qed auto

text \<open>Every valid pattern matches exactly the words that agree with its fixed bits.\<close>

lemma INSTPAT_hit_bits:
  assumes "pat_valid (pat_strip str)" and "length str < 64"
  shows "INSTPAT_hit str s \<longleftrightarrow> pat_bits (pat_strip str) (ucast s :: word_t)"
proof -
  have "length (pat_strip str) < 64"
    using assms(2) unfolding pat_strip_def by (rule le_less_trans [OF length_filter_le])
  from pattern_scan_spec [OF assms(1) this] obtain k m sh where
    sc: "pattern_scan str (0, 0, 0) = Some (k, m, sh)"
    and eq: "\<And>x :: word_t. x AND m = k \<longleftrightarrow> pat_bits (pat_strip str) x"
    and low: "\<And>n. n < sh \<Longrightarrow> \<not> bit k n \<and> \<not> bit m n"
    unfolding pattern_scan_strip [of str] by blast
  have "drop_bit sh x AND drop_bit sh m = drop_bit sh k \<longleftrightarrow> x AND m = k" for x :: word_t
  proof
    assume *: "drop_bit sh x AND drop_bit sh m = drop_bit sh k"
    show "x AND m = k"
    proof (rule word_bit_eqI)
      fix n assume "n < LENGTH(64)"
      show "bit (x AND m) n = bit k n"
      proof (cases "n < sh")
        case True
        with low show ?thesis by (auto simp: bit_simps)
      next
        case False
        with * have "bit (drop_bit sh x AND drop_bit sh m) (n - sh) = bit (drop_bit sh k) (n - sh)"
          by simp
        with False show ?thesis by (simp add: bit_simps)
      qed
    qed
  next
    assume "x AND m = k"
    then show "drop_bit sh x AND drop_bit sh m = drop_bit sh k"
      by (metis drop_bit_and)
  qed
  with sc eq assms(2) show ?thesis
    by (simp add: INSTPAT_hit_def pattern_decode_def)
qed

text \<open>The same with the bit positions counted down from the length of the pattern.\<close>

primrec pat_dn :: "string \<Rightarrow> nat \<Rightarrow> uint32_t \<Rightarrow> bool" where
  "pat_dn [] n s = True"
| "pat_dn (ch # cs) n s =
     (if ch = CHR ''1'' then bit s (n - 1) \<and> pat_dn cs (n - 1) s
      else if ch = CHR ''0'' then \<not> bit s (n - 1) \<and> pat_dn cs (n - 1) s
      else pat_dn cs (n - 1) s)"

lemma pat_dn_bits: "length cs \<le> 32 \<Longrightarrow> pat_bits cs (ucast s :: word_t) \<longleftrightarrow> pat_dn cs (length cs) s"
  by (induction cs) (auto simp: bit_simps)

lemma INSTPAT_hit_dn:
  assumes "pat_valid (pat_strip str)" and "length str < 64" and "length (pat_strip str) = n" and "n \<le> 32"
  shows "INSTPAT_hit str s \<longleftrightarrow> pat_dn (pat_strip str) n s"
  using assms by (simp add: INSTPAT_hit_bits pat_dn_bits)

lemmas INSTPAT_hit16 = INSTPAT_hit_dn [where n = 16]
lemmas INSTPAT_hit32 = INSTPAT_hit_dn [where n = 32]

end
