(* ===== verification/Alu.thy ===== *)
theory Alu
  imports Decode "HOL-Library.Signed_Division"
begin

text \<open>
  The integer instructions of \<^verbatim>\<open>inst.c\<close> that only compute a register: OP-IMM, OP, OP-IMM-32 and
  OP-32 with the M, Zba, Zbb, Zbs, Zbc and Zicond extensions, in the listing's order. An entry is a
  pattern, the operand format and the value of \<open>R(rd)\<close> from \<open>src1\<close>, \<open>src2\<close> and \<open>imm\<close>.
\<close>

unbundle bit_operations_syntax

section \<open>Multiplication and division\<close>

text \<open>The high halves of the products in the 128-bit types \<open>dword_t\<close> and \<open>udword_t\<close>.\<close>

definition rv_mulh :: "word_t \<Rightarrow> word_t \<Rightarrow> word_t" where
  "rv_mulh a b = ucast (drop_bit 64 (scast a * scast b :: 128 word))"

definition rv_mulhsu :: "word_t \<Rightarrow> word_t \<Rightarrow> word_t" where
  "rv_mulhsu a b = ucast (drop_bit 64 (scast a * ucast b :: 128 word))"

definition rv_mulhu :: "word_t \<Rightarrow> word_t \<Rightarrow> word_t" where
  "rv_mulhu a b = ucast (drop_bit 64 (ucast a * ucast b :: 128 word))"

text \<open>C's signed \<open>/\<close> and \<open>%\<close> truncate towards zero.\<close>

definition c_sdiv :: "'a::len word \<Rightarrow> 'a word \<Rightarrow> 'a word" where
  "c_sdiv a b = word_of_int (sint a sdiv sint b)"

definition c_smod :: "'a::len word \<Rightarrow> 'a word \<Rightarrow> 'a word" where
  "c_smod a b = word_of_int (sint a smod sint b)"

definition rv_div :: "word_t \<Rightarrow> word_t \<Rightarrow> word_t" where
  "rv_div src1 src2 =
     (if src2 = 0 then NOT 0
      else if src1 = push_bit 63 1 \<and> src2 = - 1 then src1 else c_sdiv src1 src2)"

definition rv_divu :: "word_t \<Rightarrow> word_t \<Rightarrow> word_t" where
  "rv_divu src1 src2 = (if src2 = 0 then NOT 0 else src1 div src2)"

definition rv_rem :: "word_t \<Rightarrow> word_t \<Rightarrow> word_t" where
  "rv_rem src1 src2 =
     (if src2 = 0 then src1
      else if src1 = push_bit 63 1 \<and> src2 = - 1 then 0 else c_smod src1 src2)"

definition rv_remu :: "word_t \<Rightarrow> word_t \<Rightarrow> word_t" where
  "rv_remu src1 src2 = (if src2 = 0 then src1 else src1 mod src2)"

text \<open>\<open>SEXT(x, 32)\<close> of a 32-bit value, and the 32-bit truncation \<open>(uint32_t)x\<close>.\<close>

abbreviation (input) sext32 :: "uint32_t \<Rightarrow> word_t" where "sext32 \<equiv> scast"

abbreviation (input) lo32 :: "word_t \<Rightarrow> uint32_t" where "lo32 \<equiv> ucast"

abbreviation (input) INT32_MIN :: uint32_t where "INT32_MIN \<equiv> 0x80000000"

definition rv_divw :: "word_t \<Rightarrow> word_t \<Rightarrow> word_t" where
  "rv_divw src1 src2 =
     (if lo32 src2 = 0 then SEXT 0xffffffff 32
      else if lo32 src1 = INT32_MIN \<and> lo32 src2 = - 1 then SEXT (ucast INT32_MIN) 32
      else sext32 (c_sdiv (lo32 src1) (lo32 src2)))"

definition rv_divuw :: "word_t \<Rightarrow> word_t \<Rightarrow> word_t" where
  "rv_divuw src1 src2 =
     (if lo32 src2 = 0 then SEXT 0xffffffff 32 else SEXT (ucast (lo32 src1 div lo32 src2)) 32)"

definition rv_remw :: "word_t \<Rightarrow> word_t \<Rightarrow> word_t" where
  "rv_remw src1 src2 =
     (if lo32 src2 = 0 then SEXT (ucast (lo32 src1)) 32
      else if lo32 src1 = INT32_MIN \<and> lo32 src2 = - 1 then 0
      else sext32 (c_smod (lo32 src1) (lo32 src2)))"

definition rv_remuw :: "word_t \<Rightarrow> word_t \<Rightarrow> word_t" where
  "rv_remuw src1 src2 =
     (if lo32 src2 = 0 then SEXT (ucast (lo32 src1)) 32 else SEXT (ucast (lo32 src1 mod lo32 src2)) 32)"

section \<open>Bit counting and byte permutation (Zbb)\<close>

text \<open>The loops with a \<open>break\<close> are searches, the others folds over the loop index.\<close>

definition rv_clz :: "word_t \<Rightarrow> word_t" where
  "rv_clz x = (case find (bit x) (rev [0..<64]) of None \<Rightarrow> 64 | Some i \<Rightarrow> of_nat (63 - i))"

definition rv_ctz :: "word_t \<Rightarrow> word_t" where
  "rv_ctz x = (case find (bit x) [0..<64] of None \<Rightarrow> 64 | Some i \<Rightarrow> of_nat i)"

definition rv_cpop :: "word_t \<Rightarrow> word_t" where
  "rv_cpop x = fold (\<lambda>i count. if bit x i then count + 1 else count) [0..<64] 0"

definition rv_clzw :: "word_t \<Rightarrow> word_t" where
  "rv_clzw x = (case find (bit (lo32 x)) (rev [0..<32]) of None \<Rightarrow> 32 | Some i \<Rightarrow> of_nat (31 - i))"

definition rv_ctzw :: "word_t \<Rightarrow> word_t" where
  "rv_ctzw x = (case find (bit (lo32 x)) [0..<32] of None \<Rightarrow> 32 | Some i \<Rightarrow> of_nat i)"

definition rv_cpopw :: "word_t \<Rightarrow> word_t" where
  "rv_cpopw x = fold (\<lambda>i count. if bit (lo32 x) i then count + 1 else count) [0..<32] 0"

definition rv_rev8 :: "word_t \<Rightarrow> word_t" where
  "rv_rev8 x =
     fold (\<lambda>i result. result OR push_bit ((7 - i) * 8) (drop_bit (i * 8) x AND 0xff)) [0..<8] 0"

definition rv_orc_b :: "word_t \<Rightarrow> word_t" where
  "rv_orc_b x =
     fold (\<lambda>i result. if drop_bit (i * 8) x AND 0xff \<noteq> 0 then result OR push_bit (i * 8) 0xff
                      else result) [0..<8] 0"

text \<open>Rotations; the shift amount in the other direction is masked as in the code.\<close>

definition rv_ror :: "word_t \<Rightarrow> nat \<Rightarrow> word_t" where
  "rv_ror x shamt = drop_bit shamt x OR push_bit ((64 - shamt) mod 64) x"

definition rv_rol :: "word_t \<Rightarrow> nat \<Rightarrow> word_t" where
  "rv_rol x shamt = push_bit shamt x OR drop_bit ((64 - shamt) mod 64) x"

definition rv_rorw :: "uint32_t \<Rightarrow> nat \<Rightarrow> word_t" where
  "rv_rorw x shamt = sext32 (drop_bit shamt x OR push_bit ((32 - shamt) mod 32) x)"

definition rv_rolw :: "uint32_t \<Rightarrow> nat \<Rightarrow> word_t" where
  "rv_rolw x shamt = sext32 (push_bit shamt x OR drop_bit ((32 - shamt) mod 32) x)"

section \<open>Carry-less multiplication (Zbc)\<close>

definition rv_clmul :: "word_t \<Rightarrow> word_t \<Rightarrow> word_t" where
  "rv_clmul a b = fold (\<lambda>i result. if bit b i then result XOR push_bit i a else result) [0..<64] 0"

definition rv_clmulh :: "word_t \<Rightarrow> word_t \<Rightarrow> word_t" where
  "rv_clmulh a b =
     fold (\<lambda>i result. if bit b i then result XOR drop_bit (64 - i) a else result) [1..<64] 0"

definition rv_clmulr :: "word_t \<Rightarrow> word_t \<Rightarrow> word_t" where
  "rv_clmulr a b =
     fold (\<lambda>i result. if bit b i then result XOR drop_bit (63 - i) a else result) [0..<64] 0"

section \<open>The listing\<close>

datatype inst_type = TYPE_R | TYPE_I | TYPE_I_I | TYPE_S | TYPE_B | TYPE_U | TYPE_J | TYPE_N

type_synonym alu_entry = "string \<times> inst_type \<times> (word_t \<Rightarrow> word_t \<Rightarrow> word_t \<Rightarrow> word_t)"

text \<open>Shift amounts \<open>v & 0x3f\<close> and \<open>v & 0x1f\<close>.\<close>

definition sh6 :: "word_t \<Rightarrow> nat" where
  "sh6 v = unat (v AND 0x3f)"

definition sh5 :: "word_t \<Rightarrow> nat" where
  "sh5 v = unat (v AND 0x1f)"

definition grp_opimm :: "alu_entry list" where
  "grp_opimm =
    [\<comment> \<open>addi\<close> (''??????? ????? ????? 000 ????? 00100 11'', TYPE_I, \<lambda>src1 _ imm. src1 + imm),
     \<comment> \<open>slti\<close> (''??????? ????? ????? 010 ????? 00100 11'', TYPE_I, \<lambda>src1 _ imm.
       if sint src1 < sint imm then 1 else 0),
     \<comment> \<open>sltiu\<close> (''??????? ????? ????? 011 ????? 00100 11'', TYPE_I, \<lambda>src1 _ imm.
       if src1 < imm then 1 else 0),
     \<comment> \<open>xori\<close> (''??????? ????? ????? 100 ????? 00100 11'', TYPE_I, \<lambda>src1 _ imm. src1 XOR imm),
     \<comment> \<open>ori\<close> (''??????? ????? ????? 110 ????? 00100 11'', TYPE_I, \<lambda>src1 _ imm. src1 OR imm),
     \<comment> \<open>andi\<close> (''??????? ????? ????? 111 ????? 00100 11'', TYPE_I, \<lambda>src1 _ imm. src1 AND imm),
     \<comment> \<open>slli\<close> (''000000? ????? ????? 001 ????? 00100 11'', TYPE_I, \<lambda>src1 _ imm.
       push_bit (sh6 imm) src1),
     \<comment> \<open>srli\<close> (''000000? ????? ????? 101 ????? 00100 11'', TYPE_I, \<lambda>src1 _ imm.
       drop_bit (sh6 imm) src1),
     \<comment> \<open>srai\<close> (''010000? ????? ????? 101 ????? 00100 11'', TYPE_I, \<lambda>src1 _ imm.
       signed_drop_bit (sh6 imm) src1),
     \<comment> \<open>clz\<close> (''0110000 00000 ????? 001 ????? 00100 11'', TYPE_I, \<lambda>src1 _ _. rv_clz src1),
     \<comment> \<open>ctz\<close> (''0110000 00001 ????? 001 ????? 00100 11'', TYPE_I, \<lambda>src1 _ _. rv_ctz src1),
     \<comment> \<open>cpop\<close> (''0110000 00010 ????? 001 ????? 00100 11'', TYPE_I, \<lambda>src1 _ _. rv_cpop src1),
     \<comment> \<open>sext.b\<close> (''0110000 00100 ????? 001 ????? 00100 11'', TYPE_I, \<lambda>src1 _ _.
       SEXT (src1 AND 0xff) 8),
     \<comment> \<open>sext.h\<close> (''0110000 00101 ????? 001 ????? 00100 11'', TYPE_I, \<lambda>src1 _ _.
       SEXT (src1 AND 0xffff) 16),
     \<comment> \<open>rev8\<close> (''0110101 11000 ????? 101 ????? 00100 11'', TYPE_I, \<lambda>src1 _ _. rv_rev8 src1),
     \<comment> \<open>rori\<close> (''011000? ????? ????? 101 ????? 00100 11'', TYPE_I, \<lambda>src1 _ imm.
       rv_ror src1 (sh6 imm)),
     \<comment> \<open>bclri\<close> (''010010? ????? ????? 001 ????? 00100 11'', TYPE_I, \<lambda>src1 _ imm.
       src1 AND NOT (push_bit (sh6 imm) 1)),
     \<comment> \<open>bexti\<close> (''010010? ????? ????? 101 ????? 00100 11'', TYPE_I, \<lambda>src1 _ imm.
       drop_bit (sh6 imm) src1 AND 1),
     \<comment> \<open>binvi\<close> (''011010? ????? ????? 001 ????? 00100 11'', TYPE_I, \<lambda>src1 _ imm.
       src1 XOR push_bit (sh6 imm) 1),
     \<comment> \<open>bseti\<close> (''001010? ????? ????? 001 ????? 00100 11'', TYPE_I, \<lambda>src1 _ imm.
       src1 OR push_bit (sh6 imm) 1),
     \<comment> \<open>orc.b\<close> (''0010100 00111 ????? 101 ????? 00100 11'', TYPE_I, \<lambda>src1 _ _. rv_orc_b src1)]"

definition grp_op_base :: "alu_entry list" where
  "grp_op_base =
    [\<comment> \<open>add\<close> (''0000000 ????? ????? 000 ????? 01100 11'', TYPE_R, \<lambda>src1 src2 _. src1 + src2),
     \<comment> \<open>sub\<close> (''0100000 ????? ????? 000 ????? 01100 11'', TYPE_R, \<lambda>src1 src2 _. src1 - src2),
     \<comment> \<open>sll\<close> (''0000000 ????? ????? 001 ????? 01100 11'', TYPE_R, \<lambda>src1 src2 _.
       push_bit (sh6 src2) src1),
     \<comment> \<open>slt\<close> (''0000000 ????? ????? 010 ????? 01100 11'', TYPE_R, \<lambda>src1 src2 _.
       if sint src1 < sint src2 then 1 else 0),
     \<comment> \<open>sltu\<close> (''0000000 ????? ????? 011 ????? 01100 11'', TYPE_R, \<lambda>src1 src2 _.
       if src1 < src2 then 1 else 0),
     \<comment> \<open>xor\<close> (''0000000 ????? ????? 100 ????? 01100 11'', TYPE_R, \<lambda>src1 src2 _. src1 XOR src2),
     \<comment> \<open>srl\<close> (''0000000 ????? ????? 101 ????? 01100 11'', TYPE_R, \<lambda>src1 src2 _.
       drop_bit (sh6 src2) src1),
     \<comment> \<open>sra\<close> (''0100000 ????? ????? 101 ????? 01100 11'', TYPE_R, \<lambda>src1 src2 _.
       signed_drop_bit (sh6 src2) src1),
     \<comment> \<open>or\<close> (''0000000 ????? ????? 110 ????? 01100 11'', TYPE_R, \<lambda>src1 src2 _. src1 OR src2),
     \<comment> \<open>and\<close> (''0000000 ????? ????? 111 ????? 01100 11'', TYPE_R, \<lambda>src1 src2 _. src1 AND src2)]"

definition grp_op_m :: "alu_entry list" where
  "grp_op_m =
    [\<comment> \<open>mul\<close> (''0000001 ????? ????? 000 ????? 01100 11'', TYPE_R, \<lambda>src1 src2 _. src1 * src2),
     \<comment> \<open>mulh\<close> (''0000001 ????? ????? 001 ????? 01100 11'', TYPE_R, \<lambda>src1 src2 _. rv_mulh src1 src2),
     \<comment> \<open>mulhsu\<close> (''0000001 ????? ????? 010 ????? 01100 11'', TYPE_R, \<lambda>src1 src2 _.
       rv_mulhsu src1 src2),
     \<comment> \<open>mulhu\<close> (''0000001 ????? ????? 011 ????? 01100 11'', TYPE_R, \<lambda>src1 src2 _.
       rv_mulhu src1 src2),
     \<comment> \<open>div\<close> (''0000001 ????? ????? 100 ????? 01100 11'', TYPE_R, \<lambda>src1 src2 _. rv_div src1 src2),
     \<comment> \<open>divu\<close> (''0000001 ????? ????? 101 ????? 01100 11'', TYPE_R, \<lambda>src1 src2 _. rv_divu src1 src2),
     \<comment> \<open>rem\<close> (''0000001 ????? ????? 110 ????? 01100 11'', TYPE_R, \<lambda>src1 src2 _. rv_rem src1 src2),
     \<comment> \<open>remu\<close> (''0000001 ????? ????? 111 ????? 01100 11'', TYPE_R, \<lambda>src1 src2 _. rv_remu src1 src2)]"

definition grp_op_zb :: "alu_entry list" where
  "grp_op_zb =
    [\<comment> \<open>sh1add\<close> (''0010000 ????? ????? 010 ????? 01100 11'', TYPE_R, \<lambda>src1 src2 _.
       push_bit 1 src1 + src2),
     \<comment> \<open>sh2add\<close> (''0010000 ????? ????? 100 ????? 01100 11'', TYPE_R, \<lambda>src1 src2 _.
       push_bit 2 src1 + src2),
     \<comment> \<open>sh3add\<close> (''0010000 ????? ????? 110 ????? 01100 11'', TYPE_R, \<lambda>src1 src2 _.
       push_bit 3 src1 + src2),
     \<comment> \<open>andn\<close> (''0100000 ????? ????? 111 ????? 01100 11'', TYPE_R, \<lambda>src1 src2 _. src1 AND NOT src2),
     \<comment> \<open>orn\<close> (''0100000 ????? ????? 110 ????? 01100 11'', TYPE_R, \<lambda>src1 src2 _. src1 OR NOT src2),
     \<comment> \<open>xnor\<close> (''0100000 ????? ????? 100 ????? 01100 11'', TYPE_R, \<lambda>src1 src2 _. src1 XOR NOT src2),
     \<comment> \<open>max\<close> (''0000101 ????? ????? 110 ????? 01100 11'', TYPE_R, \<lambda>src1 src2 _.
       if sint src2 < sint src1 then src1 else src2),
     \<comment> \<open>maxu\<close> (''0000101 ????? ????? 111 ????? 01100 11'', TYPE_R, \<lambda>src1 src2 _.
       if src2 < src1 then src1 else src2),
     \<comment> \<open>min\<close> (''0000101 ????? ????? 100 ????? 01100 11'', TYPE_R, \<lambda>src1 src2 _.
       if sint src1 < sint src2 then src1 else src2),
     \<comment> \<open>minu\<close> (''0000101 ????? ????? 101 ????? 01100 11'', TYPE_R, \<lambda>src1 src2 _.
       if src1 < src2 then src1 else src2),
     \<comment> \<open>rol\<close> (''0110000 ????? ????? 001 ????? 01100 11'', TYPE_R, \<lambda>src1 src2 _.
       rv_rol src1 (sh6 src2)),
     \<comment> \<open>ror\<close> (''0110000 ????? ????? 101 ????? 01100 11'', TYPE_R, \<lambda>src1 src2 _.
       rv_ror src1 (sh6 src2)),
     \<comment> \<open>bclr\<close> (''0100100 ????? ????? 001 ????? 01100 11'', TYPE_R, \<lambda>src1 src2 _.
       src1 AND NOT (push_bit (sh6 src2) 1)),
     \<comment> \<open>bext\<close> (''0100100 ????? ????? 101 ????? 01100 11'', TYPE_R, \<lambda>src1 src2 _.
       drop_bit (sh6 src2) src1 AND 1),
     \<comment> \<open>binv\<close> (''0110100 ????? ????? 001 ????? 01100 11'', TYPE_R, \<lambda>src1 src2 _.
       src1 XOR push_bit (sh6 src2) 1),
     \<comment> \<open>bset\<close> (''0010100 ????? ????? 001 ????? 01100 11'', TYPE_R, \<lambda>src1 src2 _.
       src1 OR push_bit (sh6 src2) 1),
     \<comment> \<open>clmul\<close> (''0000101 ????? ????? 001 ????? 01100 11'', TYPE_R, \<lambda>src1 src2 _. rv_clmul src1 src2),
     \<comment> \<open>clmulh\<close> (''0000101 ????? ????? 011 ????? 01100 11'', TYPE_R, \<lambda>src1 src2 _.
       rv_clmulh src1 src2),
     \<comment> \<open>clmulr\<close> (''0000101 ????? ????? 010 ????? 01100 11'', TYPE_R, \<lambda>src1 src2 _.
       rv_clmulr src1 src2),
     \<comment> \<open>czero.eqz\<close> (''0000111 ????? ????? 101 ????? 01100 11'', TYPE_R, \<lambda>src1 src2 _.
       if src2 = 0 then 0 else src1),
     \<comment> \<open>czero.nez\<close> (''0000111 ????? ????? 111 ????? 01100 11'', TYPE_R, \<lambda>src1 src2 _.
       if src2 \<noteq> 0 then 0 else src1)]"

definition grp_op :: "alu_entry list" where
  "grp_op = grp_op_base @ grp_op_m @ grp_op_zb"

definition grp_opimm32 :: "alu_entry list" where
  "grp_opimm32 =
    [\<comment> \<open>addiw\<close> (''??????? ????? ????? 000 ????? 00110 11'', TYPE_I, \<lambda>src1 _ imm.
       SEXT (ucast (lo32 src1) + imm) 32),
     \<comment> \<open>slliw\<close> (''0000000 ????? ????? 001 ????? 00110 11'', TYPE_I, \<lambda>src1 _ imm.
       sext32 (push_bit (sh5 imm) (lo32 src1))),
     \<comment> \<open>srliw\<close> (''0000000 ????? ????? 101 ????? 00110 11'', TYPE_I, \<lambda>src1 _ imm.
       sext32 (drop_bit (sh5 imm) (lo32 src1))),
     \<comment> \<open>sraiw\<close> (''0100000 ????? ????? 101 ????? 00110 11'', TYPE_I, \<lambda>src1 _ imm.
       sext32 (signed_drop_bit (sh5 imm) (lo32 src1))),
     \<comment> \<open>slli.uw\<close> (''000010? ????? ????? 001 ????? 00110 11'', TYPE_I, \<lambda>src1 _ imm.
       push_bit (sh6 imm) (ucast (lo32 src1))),
     \<comment> \<open>clzw\<close> (''0110000 00000 ????? 001 ????? 00110 11'', TYPE_I, \<lambda>src1 _ _. rv_clzw src1),
     \<comment> \<open>ctzw\<close> (''0110000 00001 ????? 001 ????? 00110 11'', TYPE_I, \<lambda>src1 _ _. rv_ctzw src1),
     \<comment> \<open>cpopw\<close> (''0110000 00010 ????? 001 ????? 00110 11'', TYPE_I, \<lambda>src1 _ _. rv_cpopw src1),
     \<comment> \<open>roriw\<close> (''0110000 ????? ????? 101 ????? 00110 11'', TYPE_I, \<lambda>src1 _ imm.
       rv_rorw (lo32 src1) (sh5 imm))]"

definition grp_op32 :: "alu_entry list" where
  "grp_op32 =
    [\<comment> \<open>addw\<close> (''0000000 ????? ????? 000 ????? 01110 11'', TYPE_R, \<lambda>src1 src2 _.
       sext32 (lo32 src1 + lo32 src2)),
     \<comment> \<open>subw\<close> (''0100000 ????? ????? 000 ????? 01110 11'', TYPE_R, \<lambda>src1 src2 _.
       sext32 (lo32 src1 - lo32 src2)),
     \<comment> \<open>sllw\<close> (''0000000 ????? ????? 001 ????? 01110 11'', TYPE_R, \<lambda>src1 src2 _.
       sext32 (push_bit (sh5 src2) (lo32 src1))),
     \<comment> \<open>srlw\<close> (''0000000 ????? ????? 101 ????? 01110 11'', TYPE_R, \<lambda>src1 src2 _.
       sext32 (drop_bit (sh5 src2) (lo32 src1))),
     \<comment> \<open>sraw\<close> (''0100000 ????? ????? 101 ????? 01110 11'', TYPE_R, \<lambda>src1 src2 _.
       sext32 (signed_drop_bit (sh5 src2) (lo32 src1))),
     \<comment> \<open>mulw\<close> (''0000001 ????? ????? 000 ????? 01110 11'', TYPE_R, \<lambda>src1 src2 _.
       sext32 (lo32 src1 * lo32 src2)),
     \<comment> \<open>divw\<close> (''0000001 ????? ????? 100 ????? 01110 11'', TYPE_R, \<lambda>src1 src2 _. rv_divw src1 src2),
     \<comment> \<open>divuw\<close> (''0000001 ????? ????? 101 ????? 01110 11'', TYPE_R, \<lambda>src1 src2 _.
       rv_divuw src1 src2),
     \<comment> \<open>remw\<close> (''0000001 ????? ????? 110 ????? 01110 11'', TYPE_R, \<lambda>src1 src2 _. rv_remw src1 src2),
     \<comment> \<open>remuw\<close> (''0000001 ????? ????? 111 ????? 01110 11'', TYPE_R, \<lambda>src1 src2 _.
       rv_remuw src1 src2),
     \<comment> \<open>sh1add.uw\<close> (''0010000 ????? ????? 010 ????? 01110 11'', TYPE_R, \<lambda>src1 src2 _.
       push_bit 1 (ucast (lo32 src1)) + src2),
     \<comment> \<open>sh2add.uw\<close> (''0010000 ????? ????? 100 ????? 01110 11'', TYPE_R, \<lambda>src1 src2 _.
       push_bit 2 (ucast (lo32 src1)) + src2),
     \<comment> \<open>sh3add.uw\<close> (''0010000 ????? ????? 110 ????? 01110 11'', TYPE_R, \<lambda>src1 src2 _.
       push_bit 3 (ucast (lo32 src1)) + src2),
     \<comment> \<open>add.uw\<close> (''0000100 ????? ????? 000 ????? 01110 11'', TYPE_R, \<lambda>src1 src2 _.
       ucast (lo32 src1) + src2),
     \<comment> \<open>zext.h\<close> (''0000100 00000 ????? 100 ????? 01110 11'', TYPE_R, \<lambda>src1 _ _.
       ucast (ucast src1 :: uint16_t)),
     \<comment> \<open>rolw\<close> (''0110000 ????? ????? 001 ????? 01110 11'', TYPE_R, \<lambda>src1 src2 _.
       rv_rolw (lo32 src1) (sh5 src2)),
     \<comment> \<open>rorw\<close> (''0110000 ????? ????? 101 ????? 01110 11'', TYPE_R, \<lambda>src1 src2 _.
       rv_rorw (lo32 src1) (sh5 src2))]"

end
