(* ===== verification/Vec_Int.thy ===== *)
theory Vec_Int
  imports Vec_Regs Alu
begin

text \<open>
  The integer, fixed-point, mask and permutation instructions of \<open>riscv_vector_execute\<close>
  (\<^verbatim>\<open>vector-control.c\<close>), one definition per class, from the entry state \<open>s\<close>. The result \<open>False\<close> is an
  encoding the code rejects.
\<close>

unbundle bit_operations_syntax

section \<open>Moves\<close>

text \<open>Whole-register moves.\<close>

definition vx_whole_move :: "uint32_t \<Rightarrow> nemu \<Rightarrow> bool mem" where
  "vx_whole_move i s =
     (let move_group = v_src1 i + 1; bytes = v_bytes s in
      if \<not> v_unmasked i \<or> vector_vlmax (sr s CSR_VTYPE) = 0 \<or> move_group \<notin> {1, 2, 4, 8} \<or>
         unat (sr s CSR_VSTART) \<ge> move_group * 16 div bytes \<or>
         \<not> vector_group_valid (v_dest i) move_group \<or> \<not> vector_group_valid (v_src2 i) move_group
      then mret False
      else mseq (mfor [vstart_of s..<move_group * 16 div bytes] (\<lambda>k.
               mbind (vector_element_read (v_src2 i) k bytes) (vector_element_write (v_dest i) k bytes)))
             (vector_finish False))"

text \<open>\<open>vmv.s.x\<close>.\<close>

definition vx_scalar_insert :: "uint32_t \<Rightarrow> nemu \<Rightarrow> bool mem" where
  "vx_scalar_insert i s =
     (if \<not> v_unmasked i \<or> v_src2 i \<noteq> 0 then mret False
      else mseq (mwhen (sr s CSR_VSTART < sr s CSR_VL)
                  (vector_element_write (v_dest i) 0 (v_bytes s) (gpr s (v_src1 i))))
             (vector_finish False))"

section \<open>Zvbb\<close>

definition zvbb_unary :: "uint32_t \<Rightarrow> bool" where
  "zvbb_unary i \<longleftrightarrow> v_func i = 0x12 \<and> v_form i = 2 \<and> v_src1 i \<in> {8, 9, 10, 12, 13, 14}"

definition zvbb_binary :: "uint32_t \<Rightarrow> bool" where
  "zvbb_binary i \<longleftrightarrow>
     (v_func i = 0x01 \<and> (v_form i = 0 \<or> v_form i = 4)) \<or>
     ((v_func i = 0x14 \<or> v_func i = 0x15) \<and> (v_form i = 0 \<or> v_form i = 4 \<or> v_form i = 3)) \<or>
     (v_func i = 0x35 \<and> (v_form i = 0 \<or> v_form i = 3 \<or> v_form i = 4))"

definition zvbb_unary_result :: "nat \<Rightarrow> word_t \<Rightarrow> nat \<Rightarrow> word_t" where
  "zvbb_unary_result source1 value0 bytes =
     (let bits = bytes * 8;
          value1 = (if source1 = 8 \<or> source1 = 10 then vector_reverse_bits_in_bytes value0 else value0);
          v = (if source1 = 9 \<or> source1 = 10 then vector_reverse_bytes value1 bytes else value1) in
      if source1 = 12 then (if v \<noteq> 0 then rv_clz v - of_nat (64 - bits) else of_nat bits)
      else if source1 = 13 then (if v \<noteq> 0 then rv_ctz v else of_nat bits)
      else if source1 = 14 then rv_cpop v
      else v)"

definition zvbb_shift_result :: "nat \<Rightarrow> nat \<Rightarrow> word_t \<Rightarrow> word_t \<Rightarrow> nat \<Rightarrow> word_t" where
  "zvbb_shift_result func form v operand bits =
     (if func = 0x01 then v AND NOT operand
      else
        let shift = unat (operand AND of_nat (bits - 1)) in
        if shift = 0 then v
        else if func = 0x15 \<and> form \<noteq> 3 then push_bit shift v OR drop_bit (bits - shift) v
        else drop_bit shift v OR push_bit (bits - shift) v)"

definition vx_zvbb :: "config \<Rightarrow> uint32_t \<Rightarrow> nemu \<Rightarrow> bool mem" where
  "vx_zvbb c i s =
     (let func = v_func i; form = v_form i; destination = v_dest i; source1 = v_src1 i;
          source2 = v_src2 i; bytes = v_bytes s; bits = bytes * 8; group = v_group s; lmul = v_lmul s;
          widening = (func = 0x35);
          destination_exponent = lmul + of_bool widening;
          destination_group = vgroup_regs destination_exponent;
          source2_overlap = voverlap destination destination_group source2 group;
          source1_overlap = voverlap destination destination_group source1 group in
      if \<not> riscv_zvbb_enabled c \<or>
         (widening \<and> (bytes = 8 \<or> destination_exponent > 3)) \<or>
         \<not> vector_group_valid destination destination_group \<or>
         \<not> vector_group_valid source2 group \<or>
         (form = 0 \<and> \<not> vector_group_valid source1 group) \<or>
         (\<not> v_unmasked i \<and> destination = 0) \<or>
         (widening \<and> source2_overlap \<and>
          (lmul < 0 \<or> destination + destination_group \<noteq> source2 + group)) \<or>
         (widening \<and> form = 0 \<and> source1_overlap \<and>
          (lmul < 0 \<or> destination + destination_group \<noteq> source1 + group))
      then mret False
      else
        let registers = vregs_of s; scalar = gpr s source1
        in mseq (mfor (vbody s) (\<lambda>index. vactive (v_unmasked i) index
             (mbind (vsnap registers source2 index bytes) (\<lambda>v.
               mbind (if form = 0 then vsnap registers source1 index bytes
                      else mret (if form = 4 then scalar
                                 else of_nat source1 OR
                                   push_bit 5 (of_bool (\<not> widening \<and> bit func 0)))) (\<lambda>operand.
                 if zvbb_unary i
                 then vector_element_write destination index bytes
                        (zvbb_unary_result source1 v bytes AND elem_mask bits)
                 else if func \<noteq> 0x01 \<and> widening
                 then vector_element_write destination index (bytes * 2)
                        (push_bit (unat (operand AND of_nat (2 * bits - 1))) v)
                 else vector_element_write destination index bytes
                        (zvbb_shift_result func form v operand bits AND elem_mask bits))))))
             (vector_finish False))"

section \<open>Mask scans\<close>

text \<open>\<open>vcpop.m\<close> and \<open>vfirst.m\<close>; after the \<open>break\<close> the remaining indices do nothing.\<close>

definition vx_mask_scan :: "uint32_t \<Rightarrow> nemu \<Rightarrow> bool mem" where
  "vx_mask_scan i s =
     (let first = (v_src1 i = 17); destination = v_dest i in
      if sr s CSR_VSTART \<noteq> 0 then mret False
      else mbind
        (mfold [0..<vl_of s] (\<lambda>index (result, broken).
           if broken then mret (result, True)
           else mbind (vector_mask_bit (v_src2 i) index) (\<lambda>b.
             if \<not> b then mret (result, False)
             else mbind (if v_unmasked i then mret True else vector_mask_bit 0 index) (\<lambda>a.
               mret (if \<not> a then (result, False)
                     else if first then (of_nat index, True) else (result + 1, False)))))
           (if first then - 1 else 0, False))
        (\<lambda>(result, _).
          mseq (mwhen (destination \<noteq> 0) (mmodify (set_gpr destination result))) (vector_finish False)))"

section \<open>Slides, gathers and compression\<close>

definition vx_slide :: "uint32_t \<Rightarrow> nemu \<Rightarrow> bool mem" where
  "vx_slide i s =
     (let upward = (v_func i = 0x0e); form = v_form i; single = (form = 6); group = v_group s;
          destination = v_dest i; source1 = v_src1 i; source2 = v_src2 i; bytes = v_bytes s;
          maximum = vector_vlmax (sr s CSR_VTYPE) in
      if \<not> vector_group_valid destination group \<or> \<not> vector_group_valid source2 group \<or>
         (\<not> v_unmasked i \<and> destination = 0) \<or>
         (upward \<and> voverlap destination group source2 group)
      then mret False
      else
        let offset = unat (if single then 1 else if form = 3 then of_nat source1 else gpr s source1);
            scalar = gpr s source1
        in mseq (mfor (vbody s) (\<lambda>index. vactive (v_unmasked i) index
             (if single \<and> ((upward \<and> index = 0) \<or> (\<not> upward \<and> index + 1 = vl_of s))
              then vector_element_write destination index bytes scalar
              else if upward
              then mwhen (offset \<le> index)
                (mbind (vector_element_read source2 (index - offset) bytes)
                  (vector_element_write destination index bytes))
              else mbind (if offset < maximum - index
                          then vector_element_read source2 (index + offset) bytes else mret 0)
                     (vector_element_write destination index bytes))))
             (vector_finish False))"

definition vx_gather :: "uint32_t \<Rightarrow> nemu \<Rightarrow> bool mem" where
  "vx_gather i s =
     (let form = v_form i; gather16 = (v_func i = 0x0e \<and> form = 0); group = v_group s;
          destination = v_dest i; source1 = v_src1 i; source2 = v_src2 i; bytes = v_bytes s;
          maximum = vector_vlmax (sr s CSR_VTYPE);
          index_bytes = (if gather16 then 2 else bytes);
          index_lmul = v_lmul s + 1 - int (unat (drop_bit 3 (sr s CSR_VTYPE) AND 7));
          index_group = (if gather16 then vgroup_regs index_lmul else group) in
      if gather16 \<and> (index_lmul < - 3 \<or> index_lmul > 3) then mret False
      else if \<not> vector_group_valid destination group \<or> \<not> vector_group_valid source2 group \<or>
         (form = 0 \<and> \<not> vector_group_valid source1 index_group) \<or>
         (\<not> v_unmasked i \<and> destination = 0) \<or>
         voverlap destination group source2 group \<or>
         (gather16 \<and> bytes \<noteq> 2 \<and> voverlap source1 index_group source2 group) \<or>
         (form = 0 \<and> voverlap destination group source1 index_group)
      then mret False
      else mseq (mfor (vbody s) (\<lambda>index. vactive (v_unmasked i) index
             (mbind (if form = 0 then vector_element_read source1 index index_bytes
                     else mret (if form = 3 then of_nat source1 else gpr s source1)) (\<lambda>selected.
               mbind (if unat selected < maximum
                      then vector_element_read source2 (unat selected) bytes else mret 0)
                 (vector_element_write destination index bytes)))))
             (vector_finish False))"

text \<open>\<open>vmsbf.m\<close>, \<open>vmsof.m\<close>, \<open>vmsif.m\<close> (\<open>mask_prefix\<close>), \<open>viota.m\<close> and \<open>vid.v\<close>.\<close>

definition vx_mask_prefix :: "uint32_t \<Rightarrow> nemu \<Rightarrow> bool mem" where
  "vx_mask_prefix i s =
     (let source1 = v_src1 i; source2 = v_src2 i; destination = v_dest i; bytes = v_bytes s;
          mask_prefix = (source1 \<ge> 1 \<and> source1 \<le> 3); iota = (source1 = 16);
          element_index = (source1 = 17 \<and> source2 = 0);
          destination_group = (if mask_prefix then 1 else v_group s) in
      if \<not> vector_group_valid destination destination_group \<or>
         (\<not> mask_prefix \<and> \<not> v_unmasked i \<and> destination = 0) \<or>
         ((mask_prefix \<or> iota) \<and> sr s CSR_VSTART \<noteq> 0) \<or>
         (mask_prefix \<and> (destination = source2 \<or> (\<not> v_unmasked i \<and> destination = 0))) \<or>
         (iota \<and> source2 \<ge> destination \<and> source2 < destination + destination_group)
      then mret False
      else mbind
        (mfold (vbody s) (\<lambda>index (count, seen). vactive_acc (v_unmasked i) index (count, seen)
           (if mask_prefix
            then mbind (vector_mask_bit source2 index) (\<lambda>source_bit.
              mseq (vector_mask_write destination index
                     (\<not> seen \<and> (source1 = 3 \<or> (if source1 = 2 then source_bit else \<not> source_bit))))
                (mret (count, seen \<or> source_bit)))
            else mseq (vector_element_write destination index bytes
                        (of_nat (if element_index then index else count)))
              (if iota then mbind (vector_mask_bit source2 index) (\<lambda>b. mret (count + of_bool b, seen))
               else mret (count, seen))))
          (0::nat, False))
        (\<lambda>_. vector_finish False))"

definition vx_compress :: "uint32_t \<Rightarrow> nemu \<Rightarrow> bool mem" where
  "vx_compress i s =
     (let group = v_group s; destination = v_dest i; source1 = v_src1 i; source2 = v_src2 i;
          bytes = v_bytes s in
      if \<not> v_unmasked i \<or> sr s CSR_VSTART \<noteq> 0 \<or>
         \<not> vector_group_valid destination group \<or> \<not> vector_group_valid source2 group \<or>
         voverlap destination group source2 group \<or>
         (source1 \<ge> destination \<and> source1 < destination + group) \<or>
         (source1 \<ge> source2 \<and> source1 < source2 + group)
      then mret False
      else mbind
        (mfold [0..<vl_of s] (\<lambda>index output_index. mbind (vector_mask_bit source1 index) (\<lambda>b.
           if \<not> b then mret output_index
           else mbind (vector_element_read source2 index bytes) (\<lambda>v.
             mseq (vector_element_write destination output_index bytes v) (mret (output_index + 1)))))
          0)
        (\<lambda>_. vector_finish False))"

section \<open>Reductions\<close>

definition vx_reduction :: "uint32_t \<Rightarrow> nemu \<Rightarrow> bool mem" where
  "vx_reduction i s =
     (let func = v_func i; wide = (v_form i = 0); bytes = v_bytes s;
          result_bytes = (if wide then bytes * 2 else bytes); group = v_group s;
          source1 = v_src1 i; source2 = v_src2 i in
      if sr s CSR_VSTART \<noteq> 0 \<or> result_bytes > 8 \<or> \<not> vector_group_valid source2 group \<or>
         (wide \<and> source1 \<ge> source2 \<and> source1 < source2 + group)
      then mret False
      else
        let operation = (if wide then 0 else if func = 0 then 0 else if func < 4 then func + 8 else func)
        in mseq (mwhen (vl_of s \<noteq> 0)
             (mbind (vector_element_read source1 0 result_bytes) (\<lambda>initial.
               mbind (mfold [0..<vl_of s] (\<lambda>index accumulator.
                   vactive_acc (v_unmasked i) index accumulator
                     (mbind (vector_element_read source2 index bytes) (\<lambda>v.
                       let shift = 64 - bytes * 8;
                           e = (if wide \<and> bit func 0 then signed_drop_bit shift (push_bit shift v) else v)
                       in mret (vector_integer_result operation accumulator e (result_bytes * 8) False))))
                   initial)
                 (vector_element_write (v_dest i) 0 result_bytes))))
             (vector_finish False))"

section \<open>Widening and narrowing\<close>

text \<open>\<open>vzext\<close> and \<open>vsext\<close>.\<close>

definition vx_extend :: "uint32_t \<Rightarrow> nemu \<Rightarrow> bool mem" where
  "vx_extend i s =
     (let source1 = v_src1 i; source2 = v_src2 i; destination = v_dest i; bytes = v_bytes s;
          group = v_group s; shift = 4 - source1 div 2; factor = 2 ^ shift;
          source_exponent = v_lmul s - int shift in
      if bytes < factor \<or> source_exponent < - 3 then mret False
      else
        let source_bytes = bytes div factor; source_group = vgroup_regs source_exponent;
            overlap = voverlap destination group source2 source_group in
        if \<not> vector_group_valid destination group \<or> \<not> vector_group_valid source2 source_group \<or>
           (\<not> v_unmasked i \<and> destination = 0) \<or>
           (overlap \<and> (source_exponent < 0 \<or> destination + group \<noteq> source2 + source_group))
        then mret False
        else
          let registers = vregs_of s
          in mseq (mfor (vbody s) (\<lambda>index. vactive (v_unmasked i) index
               (mbind (vsnap registers source2 index source_bytes) (\<lambda>source.
                 vector_element_write destination index bytes
                   (if bit source1 0 then word_of_int (vector_signed_value source (source_bytes * 8))
                    else source)))))
               (vector_finish False))"

text \<open>Narrowing shifts and clips.\<close>

definition vx_narrow :: "uint32_t \<Rightarrow> nemu \<Rightarrow> bool mem" where
  "vx_narrow i s =
     (let func = v_func i; form = v_form i; destination = v_dest i; source1 = v_src1 i;
          source2 = v_src2 i; bytes = v_bytes s; group = v_group s; source_bytes = bytes * 2;
          source_exponent = v_lmul s + 1 in
      if source_bytes > 8 \<or> source_exponent > 3 then mret False
      else
        let source_group = vgroup_regs source_exponent;
            overlap = voverlap destination group source2 source_group in
        if \<not> vector_group_valid destination group \<or> \<not> vector_group_valid source2 source_group \<or>
           (form = 0 \<and> \<not> vector_group_valid source1 group) \<or>
           (form = 0 \<and> voverlap source1 group source2 source_group) \<or>
           (\<not> v_unmasked i \<and> destination = 0) \<or>
           (overlap \<and> destination \<noteq> source2)
        then mret False
        else
          let scalar = (if form = 3 then of_nat source1 else gpr s source1)
          in mseq (mfor (vbody s) (\<lambda>index. vactive (v_unmasked i) index
               (mbind (vector_element_read source2 index source_bytes) (\<lambda>source.
                 mbind (if form = 0 then vector_element_read source1 index bytes else mret scalar) (\<lambda>shift.
                   let amount = unat (shift AND of_nat (source_bytes * 8 - 1));
                       (result, saturated) =
                         (if func < 0x2e
                          then (if bit func 0
                                then word_of_int (drop_bit amount (vector_signed_value source (source_bytes * 8)))
                                else drop_bit amount source, False)
                          else vector_clip_result (bit func 0) source shift (bytes * 8)
                                 (unat (sr s CSR_VXRM AND 3)))
                   in mseq (vector_element_write destination index bytes result)
                        (vector_set_vxsat saturated))))))
               (vector_finish False))"

text \<open>Widening addition, subtraction, multiplication and multiply-accumulate.\<close>

definition vx_widen :: "uint32_t \<Rightarrow> nemu \<Rightarrow> bool mem" where
  "vx_widen i s =
     (let func = v_func i; form = v_form i; destination = v_dest i; source1 = v_src1 i;
          source2 = v_src2 i; bytes = v_bytes s; group = v_group s; lmul = v_lmul s;
          multiply = (func \<ge> 0x38); accumulate = (func \<ge> 0x3c);
          wide_source = (\<not> multiply \<and> bit func 2);
          left_signed = (if multiply then func \<in> {0x3a, 0x3b, 0x3d, 0x3e} else bit func 0);
          right_signed = (if multiply then func \<in> {0x3b, 0x3d, 0x3f} else bit func 0);
          result_bytes = bytes * 2;
          source_bytes = (if wide_source then result_bytes else bytes);
          destination_exponent = lmul + 1; source_exponent = lmul + of_bool wide_source in
      if func = 0x39 \<or> (func = 0x3e \<and> form = 2) \<or> result_bytes > 8 \<or> destination_exponent > 3 \<or>
         source_exponent > 3
      then mret False
      else
        let destination_group = vgroup_regs destination_exponent;
            source_group = vgroup_regs source_exponent;
            source2_overlap = voverlap destination destination_group source2 source_group;
            source1_overlap = voverlap destination destination_group source1 group in
        if \<not> vector_group_valid destination destination_group \<or>
           \<not> vector_group_valid source2 source_group \<or>
           (form = 2 \<and> \<not> vector_group_valid source1 group) \<or>
           (wide_source \<and> form = 2 \<and> voverlap source2 source_group source1 group) \<or>
           (\<not> v_unmasked i \<and> destination = 0) \<or>
           (source2_overlap \<and> \<not> wide_source \<and>
            (lmul < 0 \<or> destination + destination_group \<noteq> source2 + source_group)) \<or>
           (form = 2 \<and> source1_overlap \<and>
            (lmul < 0 \<or> destination + destination_group \<noteq> source1 + group))
        then mret False
        else
          let registers = vregs_of s; scalar = gpr s source1
          in mseq (mfor (vbody s) (\<lambda>index. vactive (v_unmasked i) index
               (mbind (vsnap registers source2 index source_bytes) (\<lambda>source.
                 mbind (if form = 2 then vsnap registers source1 index bytes else mret scalar) (\<lambda>operand.
                   mbind (if multiply \<and> accumulate then vsnap registers destination index result_bytes
                          else mret 0) (\<lambda>old.
                     let left = (if left_signed then vector_signed_value source (source_bytes * 8)
                                 else uint source);
                         right = (if right_signed then vector_signed_value operand (bytes * 8)
                                  else uint (operand AND (push_bit (bytes * 8) 1 - 1)));
                         result = (if multiply then left * right + uint old
                                   else if bit func 1 then left - right else left + right)
                     in vector_element_write destination index result_bytes (word_of_int result)))))))
               (vector_finish False))"

text \<open>Multiply-accumulate.\<close>

definition vx_macc :: "uint32_t \<Rightarrow> nemu \<Rightarrow> bool mem" where
  "vx_macc i s =
     (let func = v_func i; form = v_form i; destination = v_dest i; source1 = v_src1 i;
          source2 = v_src2 i; bytes = v_bytes s; group = v_group s in
      if \<not> vector_group_valid destination group \<or> \<not> vector_group_valid source2 group \<or>
         (form = 2 \<and> \<not> vector_group_valid source1 group) \<or> (\<not> v_unmasked i \<and> destination = 0)
      then mret False
      else
        let registers = vregs_of s; scalar = gpr s source1
        in mseq (mfor (vbody s) (\<lambda>index. vactive (v_unmasked i) index
             (mbind (vsnap registers destination index bytes) (\<lambda>old.
               mbind (vsnap registers source2 index bytes) (\<lambda>source.
                 mbind (if form = 2 then vsnap registers source1 index bytes else mret scalar) (\<lambda>operand.
                   let product = (if bit func 2 then source else old) * operand;
                       addend = (if bit func 2 then old else source)
                   in vector_element_write destination index bytes
                        (if bit func 1 then addend - product else addend + product)))))))
             (vector_finish False))"

section \<open>The remaining element-wise instructions\<close>

text \<open>The classes of the last part of the function, as the code's flags.\<close>

definition vc_integer :: "nat \<Rightarrow> nat \<Rightarrow> bool" where
  "vc_integer func form \<longleftrightarrow>
     func \<in> {0, 0x02, 0x03, 0x04, 0x05, 0x06, 0x07, 0x09, 0x0a, 0x0b, 0x25, 0x28, 0x29} \<and>
     form \<in> {0, 3, 4} \<and> (func = 0x02 \<or> (func \<ge> 0x04 \<and> func \<le> 0x07) \<longrightarrow> form \<noteq> 3) \<and>
     (func = 0x03 \<longrightarrow> form \<noteq> 0)"

definition vc_compare :: "nat \<Rightarrow> nat \<Rightarrow> bool" where
  "vc_compare func form \<longleftrightarrow>
     func \<ge> 0x18 \<and> func \<le> 0x1f \<and> form \<in> {0, 3, 4} \<and>
     (func = 0x1a \<or> func = 0x1b \<longrightarrow> form \<noteq> 3) \<and> (func = 0x1e \<or> func = 0x1f \<longrightarrow> form \<noteq> 0)"

definition vc_carry :: "nat \<Rightarrow> nat \<Rightarrow> bool \<Rightarrow> bool" where
  "vc_carry func form unmasked \<longleftrightarrow>
     func \<ge> 0x10 \<and> func \<le> 0x13 \<and> form \<in> {0, 3, 4} \<and> (\<not> bit func 1 \<or> form \<noteq> 3) \<and>
     (bit func 0 \<or> \<not> unmasked)"

definition vc_mask_logic :: "nat \<Rightarrow> nat \<Rightarrow> bool \<Rightarrow> bool" where
  "vc_mask_logic func form unmasked \<longleftrightarrow> func \<ge> 0x18 \<and> func \<le> 0x1f \<and> form = 2 \<and> unmasked"

definition vc_muldiv :: "nat \<Rightarrow> nat \<Rightarrow> bool" where
  "vc_muldiv func form \<longleftrightarrow> func \<ge> 0x20 \<and> func \<le> 0x27 \<and> (form = 2 \<or> form = 6)"

definition vc_saturating :: "nat \<Rightarrow> nat \<Rightarrow> bool" where
  "vc_saturating func form \<longleftrightarrow>
     func \<ge> 0x20 \<and> func \<le> 0x23 \<and> (form = 0 \<or> form = 4 \<or> (form = 3 \<and> func < 0x22))"

definition vc_averaging :: "nat \<Rightarrow> nat \<Rightarrow> bool" where
  "vc_averaging func form \<longleftrightarrow> func \<ge> 0x08 \<and> func \<le> 0x0b \<and> (form = 2 \<or> form = 6)"

definition vc_scaling_shift :: "nat \<Rightarrow> nat \<Rightarrow> bool" where
  "vc_scaling_shift func form \<longleftrightarrow> (func = 0x2a \<or> func = 0x2b) \<and> form \<in> {0, 3, 4}"

definition vc_fractional_multiply :: "nat \<Rightarrow> nat \<Rightarrow> bool" where
  "vc_fractional_multiply func form \<longleftrightarrow> func = 0x27 \<and> (form = 0 \<or> form = 4)"

definition vc_move :: "uint32_t \<Rightarrow> bool" where
  "vc_move i \<longleftrightarrow> v_unmasked i \<and> v_func i = 0x17 \<and> v_src2 i = 0 \<and> v_form i \<in> {0, 3, 4}"

definition vc_merge :: "uint32_t \<Rightarrow> bool" where
  "vc_merge i \<longleftrightarrow> \<not> v_unmasked i \<and> v_func i = 0x17 \<and> v_form i \<in> {0, 3, 4}"

definition vc_extract :: "uint32_t \<Rightarrow> bool" where
  "vc_extract i \<longleftrightarrow> v_unmasked i \<and> v_func i = 0x10 \<and> v_form i = 2 \<and> v_src1 i = 0"

text \<open>The classes that read \<open>source2\<close> as a vector.\<close>

definition vc_reads_vector :: "uint32_t \<Rightarrow> bool" where
  "vc_reads_vector i \<longleftrightarrow>
     vc_integer (v_func i) (v_form i) \<or> vc_compare (v_func i) (v_form i) \<or>
     vc_carry (v_func i) (v_form i) (v_unmasked i) \<or> vc_muldiv (v_func i) (v_form i) \<or>
     vc_saturating (v_func i) (v_form i) \<or> vc_averaging (v_func i) (v_form i) \<or>
     vc_scaling_shift (v_func i) (v_form i) \<or> vc_fractional_multiply (v_func i) (v_form i) \<or> vc_merge i"

definition vc_known :: "uint32_t \<Rightarrow> bool" where
  "vc_known i \<longleftrightarrow>
     vc_reads_vector i \<or> vc_mask_logic (v_func i) (v_form i) (v_unmasked i) \<or> vc_move i \<or> vc_extract i"

text \<open>The result of one element that is not mask logic.\<close>

definition vc_element :: "uint32_t \<Rightarrow> nat \<Rightarrow> nat \<Rightarrow> bool \<Rightarrow> word_t \<Rightarrow> word_t \<Rightarrow> word_t \<times> bool" where
  "vc_element i bits vxrm mask_bit v operand =
     (let func = v_func i; form = v_form i; carry = vc_carry func form (v_unmasked i) in
      if vc_muldiv func form then (vector_muldiv_result func v operand bits, False)
      else if vc_saturating func form then vector_saturating_result func v operand bits
      else if vc_averaging func form \<or> vc_scaling_shift func form \<or> vc_fractional_multiply func form
      then vector_rounded_fixed_result func v operand bits vxrm
      else if vc_integer func form \<or> vc_compare func form \<or> carry
      then (vector_integer_result func v operand bits (carry \<and> \<not> v_unmasked i \<and> mask_bit), False)
      else (if vc_merge i \<and> \<not> mask_bit then v else operand, False))"

text \<open>\<open>vmv.x.s\<close>.\<close>

definition vx_scalar_extract :: "uint32_t \<Rightarrow> nemu \<Rightarrow> bool mem" where
  "vx_scalar_extract i s =
     mbind (vector_element_read (v_src2 i) 0 (v_bytes s)) (\<lambda>v.
       let sign = push_bit (v_bytes s * 8 - 1) 1;
           r = (if v_bytes s < 8 then (v XOR sign) - sign else v)
       in mseq (mwhen (v_dest i \<noteq> 0) (mmodify (set_gpr (v_dest i) r))) (vector_finish False))"

text \<open>The encodings with a register group the code rejects.\<close>

definition vc_rejected :: "uint32_t \<Rightarrow> nat \<Rightarrow> bool" where
  "vc_rejected i regs \<longleftrightarrow>
     (let func = v_func i; form = v_form i; destination = v_dest i; source1 = v_src1 i; source2 = v_src2 i;
          mask_logic = vc_mask_logic func form (v_unmasked i);
          mask_result = (vc_compare func form \<or> mask_logic \<or>
                         (vc_carry func form (v_unmasked i) \<and> bit func 0))
      in \<not> vector_group_valid destination (if mask_result then 1 else regs) \<or>
         (\<not> v_unmasked i \<and> \<not> mask_result \<and> destination = 0) \<or>
         (mask_result \<and> \<not> mask_logic \<and> destination > source2 \<and> destination < source2 + regs) \<or>
         (mask_result \<and> form = 0 \<and> destination > source1 \<and> destination < source1 + regs) \<or>
         (vc_reads_vector i \<and> \<not> vector_group_valid source2 regs) \<or>
         (mask_logic \<and> \<not> vector_group_valid source2 1) \<or>
         ((form = 0 \<or> (form = 2 \<and> (vc_muldiv func form \<or> vc_averaging func form))) \<and>
          \<not> vector_group_valid source1 regs) \<or>
         (mask_logic \<and> \<not> vector_group_valid source1 1))"

definition vc_scalar :: "uint32_t \<Rightarrow> nemu \<Rightarrow> word_t" where
  "vc_scalar i s =
     (let func = v_func i in
      if v_form i = 3
      then (if func = 0x25 \<or> func = 0x28 \<or> func = 0x29 \<or> vc_scaling_shift func 3
            then of_nat (v_src1 i) else SEXT (of_nat (v_src1 i)) 5)
      else gpr s (v_src1 i))"

definition vc_body :: "uint32_t \<Rightarrow> nemu \<Rightarrow> nat \<Rightarrow> unit mem" where
  "vc_body i s index =
     (let func = v_func i; form = v_form i; bytes = v_bytes s;
          carry = vc_carry func form (v_unmasked i);
          mask_logic = vc_mask_logic func form (v_unmasked i);
          mask_result = (vc_compare func form \<or> mask_logic \<or> (carry \<and> bit func 0)) in
      mbind (vector_mask_bit 0 index) (\<lambda>mask_bit.
        if \<not> v_unmasked i \<and> \<not> vc_merge i \<and> \<not> carry \<and> \<not> mask_bit then mret ()
        else
          mbind (if vc_reads_vector i then vector_element_read (v_src2 i) index bytes else mret 0) (\<lambda>v.
            mbind (if form = 0 \<or> (form = 2 \<and> (vc_muldiv func form \<or> vc_averaging func form))
                   then vector_element_read (v_src1 i) index bytes else mret (vc_scalar i s)) (\<lambda>operand.
              if mask_logic
              then mbind (vector_mask_bit (v_src2 i) index) (\<lambda>l.
                mbind (vector_mask_bit (v_src1 i) index) (\<lambda>r.
                  vector_mask_write (v_dest i) index (vector_mask_logic_result func l r)))
              else
                case vc_element i (bytes * 8) (unat (sr s CSR_VXRM AND 3)) mask_bit v operand of
                  (result, saturated) \<Rightarrow>
                    mseq (if mask_result then vector_mask_write (v_dest i) index (result \<noteq> 0)
                          else vector_element_write (v_dest i) index bytes result)
                      (vector_set_vxsat saturated)))))"

definition vx_elementwise :: "uint32_t \<Rightarrow> nemu \<Rightarrow> bool mem" where
  "vx_elementwise i s =
     (if \<not> vc_known i then mret False
      else if vc_extract i then vx_scalar_extract i s
      else if vc_rejected i (v_group s) then mret False
      else mseq (mfor (vbody s) (vc_body i s)) (vector_finish False))"

end
