(* ===== verification/Vec_Float.thy ===== *)
theory Vec_Float
  imports Vec_Regs Fp
begin

text \<open>
  The floating-point instructions of \<open>riscv_vector_execute\<close> (\<^verbatim>\<open>vector-control.c\<close>): element-wise
  operations, conversions between widths, widening arithmetic and reductions. SoftFloat is the
  parameter \<open>sf\<close>.
\<close>

unbundle bit_operations_syntax

section \<open>Element-wise operations\<close>

definition vf_extract :: "uint32_t \<Rightarrow> bool" where
  "vf_extract i \<longleftrightarrow> v_func i = 0x10 \<and> v_form i = 1 \<and> v_unmasked i \<and> v_src1 i = 0"

definition vf_insert :: "uint32_t \<Rightarrow> bool" where
  "vf_insert i \<longleftrightarrow> v_func i = 0x10 \<and> v_form i = 5 \<and> v_unmasked i \<and> v_src2 i = 0"

definition vf_broadcast :: "uint32_t \<Rightarrow> bool" where
  "vf_broadcast i \<longleftrightarrow> v_func i = 0x17 \<and> v_form i = 5 \<and> v_unmasked i \<and> v_src2 i = 0"

definition vf_merge :: "uint32_t \<Rightarrow> bool" where
  "vf_merge i \<longleftrightarrow> v_func i = 0x17 \<and> v_form i = 5 \<and> \<not> v_unmasked i"

definition vf_slide :: "uint32_t \<Rightarrow> bool" where
  "vf_slide i \<longleftrightarrow> (v_func i = 0x0e \<or> v_func i = 0x0f) \<and> v_form i = 5"

definition vf_arithmetic :: "uint32_t \<Rightarrow> bool" where
  "vf_arithmetic i \<longleftrightarrow>
     (let func = v_func i; form = v_form i in
      (form = 1 \<or> form = 5) \<and>
      (func = 0x00 \<or> func = 0x02 \<or> func = 0x04 \<or> func = 0x06 \<or> (func \<ge> 0x08 \<and> func \<le> 0x0a) \<or>
       func = 0x20 \<or> func = 0x24 \<or> (func \<ge> 0x28 \<and> func \<le> 0x2f) \<or>
       (form = 5 \<and> (func = 0x21 \<or> func = 0x27))))"

definition vf_unary :: "uint32_t \<Rightarrow> bool" where
  "vf_unary i \<longleftrightarrow> v_func i = 0x13 \<and> v_form i = 1 \<and> (v_src1 i = 0 \<or> v_src1 i = 16)"

definition vf_estimate :: "uint32_t \<Rightarrow> bool" where
  "vf_estimate i \<longleftrightarrow> v_func i = 0x13 \<and> v_form i = 1 \<and> (v_src1 i = 4 \<or> v_src1 i = 5)"

definition vf_convert :: "uint32_t \<Rightarrow> bool" where
  "vf_convert i \<longleftrightarrow> v_func i = 0x12 \<and> v_form i = 1 \<and> (v_src1 i \<le> 3 \<or> v_src1 i = 6 \<or> v_src1 i = 7)"

definition vf_compare :: "uint32_t \<Rightarrow> bool" where
  "vf_compare i \<longleftrightarrow>
     (let func = v_func i; form = v_form i in
      (form = 1 \<or> form = 5) \<and>
      (func = 0x18 \<or> func = 0x19 \<or> func = 0x1b \<or> func = 0x1c \<or>
       (form = 5 \<and> (func = 0x1d \<or> func = 0x1f))))"

text \<open>The classes whose elements are computed from \<open>source2\<close> under the mask.\<close>

definition vf_computed :: "uint32_t \<Rightarrow> bool" where
  "vf_computed i \<longleftrightarrow> vf_arithmetic i \<or> vf_unary i \<or> vf_estimate i \<or> vf_convert i \<or> vf_compare i"

definition vf_known :: "uint32_t \<Rightarrow> bool" where
  "vf_known i \<longleftrightarrow>
     vf_extract i \<or> vf_insert i \<or> vf_broadcast i \<or> vf_merge i \<or> vf_slide i \<or> vf_computed i"

text \<open>Pairs of the single- and double-precision operation, on 64-bit elements.\<close>

definition vf_pick :: "nat \<Rightarrow> uint32_t \<times> uint32_t \<Rightarrow> word_t \<times> uint32_t \<Rightarrow> word_t \<times> uint32_t" where
  "vf_pick bytes s d = (if bytes = 4 then map_prod ucast id s else d)"

definition vf_convert_result ::
    "softfloat \<Rightarrow> nat \<Rightarrow> nat \<Rightarrow> nat \<Rightarrow> word_t \<Rightarrow> word_t \<times> uint32_t" where
  "vf_convert_result sf source1 bytes rm left =
     (let unsigned_integer = (\<not> bit source1 0); rm' = (if source1 \<ge> 6 then 1 else rm) in
      if source1 = 2 \<or> source1 = 3
      then vf_pick bytes (riscv_int_to_fp_s sf left rm unsigned_integer False)
             (riscv_int_to_fp_d sf left rm unsigned_integer True)
      else if bytes = 4 then riscv_fp_to_int_s sf (ucast left) rm' unsigned_integer False
      else riscv_fp_to_int_d sf left rm' unsigned_integer True)"

definition vf_compare_result :: "softfloat \<Rightarrow> nat \<Rightarrow> nat \<Rightarrow> word_t \<Rightarrow> word_t \<Rightarrow> bool \<times> uint32_t" where
  "vf_compare_result sf func bytes left right =
     (let (r, flags) =
        (if bytes = 4 then
           if func = 0x18 \<or> func = 0x1c then riscv_fp_eq_s sf (ucast left) (ucast right)
           else if func = 0x19 \<or> func = 0x1f then riscv_fp_le_s sf (ucast left) (ucast right)
           else riscv_fp_lt_s sf (ucast left) (ucast right)
         else
           if func = 0x18 \<or> func = 0x1c then riscv_fp_eq_d sf left right
           else if func = 0x19 \<or> func = 0x1f then riscv_fp_le_d sf left right
           else riscv_fp_lt_d sf left right)
      in (if func = 0x1c then r = 0 else r \<noteq> 0, flags))"

definition vf_sign_result :: "nat \<Rightarrow> nat \<Rightarrow> word_t \<Rightarrow> word_t \<Rightarrow> word_t" where
  "vf_sign_result func bytes left right =
     (let sign = (if bytes = 4 then push_bit 31 1 else push_bit 63 1);
          source_sign = (if func = 0x08 then right AND sign
                         else if func = 0x09 then NOT right AND sign else (left XOR right) AND sign)
      in (left AND NOT sign) OR source_sign)"

definition vf_binary_result :: "softfloat \<Rightarrow> nat \<Rightarrow> nat \<Rightarrow> nat \<Rightarrow> word_t \<Rightarrow> word_t \<Rightarrow> word_t \<times> uint32_t" where
  "vf_binary_result sf func bytes rm left right =
     (let l = ucast left; r = ucast right in
      if func = 0x00 then vf_pick bytes (riscv_fp_add_s sf l r rm) (riscv_fp_add_d sf left right rm)
      else if func = 0x02 \<or> func = 0x27
      then vf_pick bytes (riscv_fp_sub_s sf l r rm) (riscv_fp_sub_d sf left right rm)
      else if func = 0x04 then vf_pick bytes (riscv_fp_min_s l r) (riscv_fp_min_d left right)
      else if func = 0x06 then vf_pick bytes (riscv_fp_max_s l r) (riscv_fp_max_d left right)
      else if func = 0x24 then vf_pick bytes (riscv_fp_mul_s sf l r rm) (riscv_fp_mul_d sf left right rm)
      else vf_pick bytes (riscv_fp_div_s sf l r rm) (riscv_fp_div_d sf left right rm))"

definition vf_fma_result ::
    "softfloat \<Rightarrow> nat \<Rightarrow> nat \<Rightarrow> nat \<Rightarrow> word_t \<Rightarrow> word_t \<Rightarrow> word_t \<Rightarrow> word_t \<times> uint32_t" where
  "vf_fma_result sf func bytes rm left right old =
     (let factor = (if bit func 2 then left else old); addend = (if bit func 2 then old else left);
          negate_product = bit func 0; negate_addend = (bit func 0 \<noteq> bit func 1)
      in vf_pick bytes
           (riscv_fp_fma_s sf (ucast right) (ucast factor) (ucast addend) rm negate_product negate_addend)
           (riscv_fp_fma_d sf right factor addend rm negate_product negate_addend))"

definition vf_element :: "softfloat \<Rightarrow> uint32_t \<Rightarrow> nat \<Rightarrow> nat \<Rightarrow> word_t \<Rightarrow> word_t \<Rightarrow> word_t \<Rightarrow> word_t \<times> uint32_t" where
  "vf_element sf i bytes rm left right old =
     (let func = v_func i; source1 = v_src1 i in
      if vf_estimate i then vector_fp_estimate left bytes (source1 = 4) rm
      else if vf_convert i then vf_convert_result sf source1 bytes rm left
      else if vf_unary i
      then (if source1 = 16
            then (if bytes = 4 then ucast (riscv_fp_class_s (ucast left)) else ucast (riscv_fp_class_d left), 0)
            else vf_pick bytes (riscv_fp_sqrt_s sf (ucast left) rm) (riscv_fp_sqrt_d sf left rm))
      else if func \<ge> 0x28 \<and> func \<le> 0x2f then vf_fma_result sf func bytes rm left right old
      else if func \<ge> 0x08 \<and> func \<le> 0x0a then (vf_sign_result func bytes left right, 0)
      else vf_binary_result sf func bytes rm left right)"

text \<open>The fused operations read the old destination element.\<close>

definition vf_fused :: "uint32_t \<Rightarrow> bool" where
  "vf_fused i \<longleftrightarrow> \<not> vf_estimate i \<and> \<not> vf_convert i \<and> \<not> vf_unary i \<and> v_func i \<ge> 0x28 \<and> v_func i \<le> 0x2f"

definition vf_scalar :: "uint32_t \<Rightarrow> nemu \<Rightarrow> word_t" where
  "vf_scalar i s =
     (let scalar = (if v_form i = 5 then cpu_fpr (cpu s) (v_src1 i) else 0)
      in if v_bytes s = 4 \<and> v_form i = 5 then ucast (riscv_fp_read_s scalar) else scalar)"

definition vf_body :: "softfloat \<Rightarrow> uint32_t \<Rightarrow> nemu \<Rightarrow> nat \<Rightarrow> uint32_t \<Rightarrow> uint32_t mem" where
  "vf_body sf i s index fp_flags =
     (let func = v_func i; form = v_form i; bytes = v_bytes s; destination = v_dest i;
          source1 = v_src1 i; source2 = v_src2 i; scalar = vf_scalar i s;
          maximum = vector_vlmax (sr s CSR_VTYPE) in
      mbind (if v_unmasked i then mret True else vector_mask_bit 0 index) (\<lambda>active.
        if vf_computed i then
          if \<not> active then mret fp_flags
          else
            mbind (vector_element_read source2 index bytes) (\<lambda>l.
              mbind (if form = 1 then vector_element_read source1 index bytes else mret scalar) (\<lambda>r.
                let swap = func \<in> {0x21, 0x27, 0x1d, 0x1f};
                    left = (if swap then r else l); right = (if swap then l else r) in
                if vf_compare i
                then
                  case vf_compare_result sf func bytes left right of (result, flags) \<Rightarrow>
                    mseq (vector_mask_write destination index result) (mret (fp_flags OR flags))
                else
                  mbind (if vf_fused i then vector_element_read destination index bytes else mret 0) (\<lambda>old.
                    case vf_element sf i bytes (v_frm s) left right old of (result, flags) \<Rightarrow>
                      mseq (vector_element_write destination index bytes result)
                        (mret (fp_flags OR flags)))))
        else if vf_slide i then
          if \<not> active then mret fp_flags
          else
            let upward = (func = 0x0e) in
            mseq (if (upward \<and> index = 0) \<or> (\<not> upward \<and> index + 1 = vl_of s)
                  then vector_element_write destination index bytes scalar
                  else if upward
                  then mbind (vector_element_read source2 (index - 1) bytes)
                         (vector_element_write destination index bytes)
                  else mbind (if index + 1 < maximum then vector_element_read source2 (index + 1) bytes
                              else mret 0)
                         (vector_element_write destination index bytes))
              (mret fp_flags)
        else
          mbind (if vf_merge i \<and> \<not> active then vector_element_read source2 index bytes else mret scalar) (\<lambda>v.
            mseq (vector_element_write destination index bytes v) (mret fp_flags))))"

definition vf_rejected :: "uint32_t \<Rightarrow> nemu \<Rightarrow> bool" where
  "vf_rejected i s \<longleftrightarrow>
     (let bytes = v_bytes s; group = v_group s; destination = v_dest i; source1 = v_src1 i;
          source2 = v_src2 i; form = v_form i in
      (bytes \<noteq> 4 \<and> bytes \<noteq> 8) \<or> \<not> vector_fp_ready True (bytes = 8) s \<or>
      (\<not> vf_extract i \<and> \<not> vf_insert i \<and>
       (\<not> vector_group_valid destination (if vf_compare i then 1 else group) \<or>
        ((vf_merge i \<or> vf_slide i \<or> vf_computed i) \<and> \<not> vector_group_valid source2 group) \<or>
        ((vf_arithmetic i \<or> vf_compare i) \<and> form = 1 \<and> \<not> vector_group_valid source1 group) \<or>
        (\<not> v_unmasked i \<and> \<not> vf_compare i \<and> destination = 0) \<or>
        (vf_compare i \<and> destination \<ge> source2 \<and> destination < source2 + group \<and> destination \<noteq> source2) \<or>
        (vf_compare i \<and> form = 1 \<and> destination \<ge> source1 \<and> destination < source1 + group \<and>
         destination \<noteq> source1) \<or>
        (vf_slide i \<and> v_func i = 0x0e \<and> voverlap destination group source2 group))))"

definition vx_float :: "softfloat \<Rightarrow> uint32_t \<Rightarrow> nemu \<Rightarrow> bool mem" where
  "vx_float sf i s =
     (let bytes = v_bytes s; destination = v_dest i in
      if vf_rejected i s then mret False
      else
        mbind
          (if vf_extract i
           then mbind (vector_element_read (v_src2 i) 0 bytes) (\<lambda>v.
             mseq (mmodify (\<lambda>t. t\<lparr>cpu := (cpu t)\<lparr>cpu_fpr := (cpu_fpr (cpu t))
                     (destination := if bytes = 4 then riscv_fp_box_s (ucast v) else v)\<rparr>\<rparr>))
               (mret 0))
           else if vf_insert i
           then mseq (mwhen (sr s CSR_VSTART < sr s CSR_VL)
                  (vector_element_write destination 0 bytes (vf_scalar i s))) (mret 0)
           else mfold (vbody s) (vf_body sf i s) 0)
          (\<lambda>fp_flags. mseq (vector_accrue fp_flags) (vector_finish True)))"

section \<open>Conversions between widths\<close>

text \<open>\<open>vfwcvt.f.f.v\<close>, \<open>vfncvt.f.f.w\<close> and \<open>vfncvt.rod.f.f.w\<close>.\<close>

definition vf_resize_result :: "softfloat \<Rightarrow> bool \<Rightarrow> nat \<Rightarrow> bool \<Rightarrow> nat \<Rightarrow> word_t \<Rightarrow> word_t \<times> uint32_t" where
  "vf_resize_result sf widen bytes to_odd rm operand =
     (let (r, flags) =
        (if bytes = 2
         then (if widen then map_prod ucast id (riscv_fp_convert_h_to_s sf (ucast operand))
               else map_prod ucast id (riscv_fp_convert_s_to_h sf (ucast operand) rm))
         else (if widen then riscv_fp_convert_s_to_d sf (ucast operand) 0
               else map_prod ucast id (riscv_fp_convert_d_to_s sf operand (if to_odd then 1 else rm))))
      in (if to_odd \<and> flags AND 1 \<noteq> 0 then r OR 1 else r, flags))"

definition vx_float_resize :: "config \<Rightarrow> softfloat \<Rightarrow> uint32_t \<Rightarrow> nemu \<Rightarrow> bool mem" where
  "vx_float_resize c sf i s =
     (let source1 = v_src1 i; source2 = v_src2 i; destination = v_dest i; bytes = v_bytes s;
          widen = (source1 = 12); lmul = v_lmul s;
          source_exponent = lmul + (if widen then 0 else 1);
          destination_exponent = lmul + (if widen then 1 else 0);
          source_group = vgroup_regs source_exponent;
          destination_group = vgroup_regs destination_exponent;
          overlap = voverlap destination destination_group source2 source_group in
      if (bytes \<noteq> 4 \<and> (bytes \<noteq> 2 \<or> \<not> riscv_zvfhmin_enabled c \<or> source1 = 21)) \<or>
         source_exponent > 3 \<or> destination_exponent > 3 \<or> \<not> vector_fp_ready True (bytes = 4) s \<or>
         \<not> vector_group_valid destination destination_group \<or>
         \<not> vector_group_valid source2 source_group \<or>
         (\<not> v_unmasked i \<and> destination = 0) \<or>
         (overlap \<and>
          (if widen then source_exponent < 0 \<or> destination + destination_group \<noteq> source2 + source_group
           else destination \<noteq> source2))
      then mret False
      else
        let registers = vregs_of s
        in mbind (mfold (vbody s) (\<lambda>index fp_flags. vactive_acc (v_unmasked i) index fp_flags
               (mbind (vsnap registers source2 index (if widen then bytes else bytes * 2)) (\<lambda>operand.
                 case vf_resize_result sf widen bytes (source1 = 21) (v_frm s) operand of (result, flags) \<Rightarrow>
                   mseq (vector_element_write destination index (if widen then bytes * 2 else bytes) result)
                     (mret (fp_flags OR flags))))) 0)
             (\<lambda>fp_flags. mseq (vector_accrue fp_flags) (vector_finish True)))"

text \<open>Conversions between integers and floats of different widths.\<close>

definition vf_integer_widen :: "uint32_t \<Rightarrow> bool" where
  "vf_integer_widen i \<longleftrightarrow> v_func i = 0x12 \<and> v_form i = 1 \<and>
     ((v_src1 i \<ge> 8 \<and> v_src1 i \<le> 11) \<or> v_src1 i = 14 \<or> v_src1 i = 15)"

definition vf_integer_narrow :: "uint32_t \<Rightarrow> bool" where
  "vf_integer_narrow i \<longleftrightarrow> v_func i = 0x12 \<and> v_form i = 1 \<and>
     ((v_src1 i \<ge> 16 \<and> v_src1 i \<le> 19) \<or> v_src1 i = 22 \<or> v_src1 i = 23)"

text \<open>The 16-bit results saturate, with the invalid flag.\<close>

definition vf_saturate16 :: "bool \<Rightarrow> word_t \<times> uint32_t \<Rightarrow> word_t \<times> uint32_t" where
  "vf_saturate16 unsigned_integer r =
     (let signed_result = sint (ucast (fst r) :: uint32_t) in
      if unsigned_integer \<and> fst r > 0xffff then (0xffff, push_bit 4 1)
      else if \<not> unsigned_integer \<and> signed_result > 0x7fff then (0x7fff, push_bit 4 1)
      else if \<not> unsigned_integer \<and> signed_result < - 0x8000 then (0x8000, push_bit 4 1)
      else r)"

definition vf_integer_result ::
    "softfloat \<Rightarrow> bool \<Rightarrow> bool \<Rightarrow> nat \<Rightarrow> nat \<Rightarrow> nat \<Rightarrow> word_t \<Rightarrow> word_t \<times> uint32_t" where
  "vf_integer_result sf to_float unsigned_integer fp_bytes integer_bytes rm operand0 =
     (if to_float then
        let operand = (if integer_bytes = 2 \<and> \<not> unsigned_integer then scast (ucast operand0 :: uint16_t)
                       else operand0)
        in vf_pick fp_bytes (riscv_int_to_fp_s sf operand rm unsigned_integer (integer_bytes = 8))
             (riscv_int_to_fp_d sf operand rm unsigned_integer (integer_bytes = 8))
      else
        let r = (if fp_bytes = 4
                 then riscv_fp_to_int_s sf (ucast operand0) rm unsigned_integer (integer_bytes = 8)
                 else riscv_fp_to_int_d sf operand0 rm unsigned_integer (integer_bytes = 8))
        in if integer_bytes = 2 then vf_saturate16 unsigned_integer r else r)"

definition vx_float_integer :: "softfloat \<Rightarrow> uint32_t \<Rightarrow> nemu \<Rightarrow> bool mem" where
  "vx_float_integer sf i s =
     (let source1 = v_src1 i; source2 = v_src2 i; destination = v_dest i; bytes = v_bytes s;
          widen = vf_integer_widen i; narrow = vf_integer_narrow i; lmul = v_lmul s;
          to_float = (source1 = 10 \<or> source1 = 11 \<or> source1 = 18 \<or> source1 = 19);
          unsigned_integer = (\<not> bit source1 0);
          source_bytes = bytes * (if narrow then 2 else 1);
          destination_bytes = bytes * (if widen then 2 else 1);
          fp_bytes = (if to_float then destination_bytes else source_bytes);
          integer_bytes = (if to_float then source_bytes else destination_bytes);
          source_exponent = lmul + of_bool narrow; destination_exponent = lmul + of_bool widen;
          source_group = vgroup_regs source_exponent;
          destination_group = vgroup_regs destination_exponent;
          overlap = voverlap destination destination_group source2 source_group in
      if (fp_bytes \<noteq> 4 \<and> fp_bytes \<noteq> 8) \<or> integer_bytes \<notin> {2, 4, 8} \<or>
         source_bytes > 8 \<or> destination_bytes > 8 \<or> source_exponent > 3 \<or> destination_exponent > 3 \<or>
         \<not> vector_fp_ready True (fp_bytes = 8) s \<or>
         \<not> vector_group_valid destination destination_group \<or>
         \<not> vector_group_valid source2 source_group \<or>
         (\<not> v_unmasked i \<and> destination = 0) \<or>
         (overlap \<and>
          (if widen then lmul < 0 \<or> destination + destination_group \<noteq> source2 + source_group
           else destination \<noteq> source2))
      then mret False
      else
        let registers = vregs_of s; rm = (if bit source1 2 then 1 else v_frm s)
        in mbind (mfold (vbody s) (\<lambda>index fp_flags. vactive_acc (v_unmasked i) index fp_flags
               (mbind (vsnap registers source2 index source_bytes) (\<lambda>operand.
                 case vf_integer_result sf to_float unsigned_integer fp_bytes integer_bytes rm operand of
                   (result, flags) \<Rightarrow>
                     mseq (vector_element_write destination index destination_bytes result)
                       (mret (fp_flags OR flags))))) 0)
             (\<lambda>fp_flags. mseq (vector_accrue fp_flags) (vector_finish True)))"

section \<open>Widening arithmetic\<close>

definition vf_widening :: "uint32_t \<Rightarrow> bool" where
  "vf_widening i \<longleftrightarrow>
     (let func = v_func i in
      (v_form i = 1 \<or> v_form i = 5) \<and>
      (func \<in> {0x30, 0x32, 0x34, 0x36, 0x38} \<or> (func \<ge> 0x3c \<and> func \<le> 0x3f)))"

definition vf_wide_result ::
    "softfloat \<Rightarrow> nat \<Rightarrow> nat \<Rightarrow> word_t \<Rightarrow> word_t \<Rightarrow> word_t \<Rightarrow> word_t \<times> uint32_t" where
  "vf_wide_result sf func rm left right old =
     (if func \<ge> 0x3c
      then riscv_fp_fma_d sf right left old rm (bit func 0) (bit func 0 \<noteq> bit func 1)
      else if func = 0x38 then riscv_fp_mul_d sf left right rm
      else if func = 0x30 \<or> func = 0x34 then riscv_fp_add_d sf left right rm
      else riscv_fp_sub_d sf left right rm)"

definition vx_float_widen :: "softfloat \<Rightarrow> uint32_t \<Rightarrow> nemu \<Rightarrow> bool mem" where
  "vx_float_widen sf i s =
     (let func = v_func i; form = v_form i; source1 = v_src1 i; source2 = v_src2 i;
          destination = v_dest i; bytes = v_bytes s; group = v_group s; lmul = v_lmul s;
          wide_source = (func = 0x34 \<or> func = 0x36); fused = (func \<ge> 0x3c);
          destination_exponent = lmul + 1; source_exponent = lmul + of_bool wide_source;
          destination_group = vgroup_regs destination_exponent;
          source_group = vgroup_regs source_exponent;
          source2_overlap = voverlap destination destination_group source2 source_group;
          source1_overlap = voverlap destination destination_group source1 group in
      if bytes \<noteq> 4 \<or> destination_exponent > 3 \<or> source_exponent > 3 \<or>
         \<not> vector_fp_ready True True s \<or>
         \<not> vector_group_valid destination destination_group \<or>
         \<not> vector_group_valid source2 source_group \<or>
         (form = 1 \<and> \<not> vector_group_valid source1 group) \<or>
         (wide_source \<and> form = 1 \<and> voverlap source2 source_group source1 group) \<or>
         (\<not> v_unmasked i \<and> destination = 0) \<or>
         (source2_overlap \<and> \<not> wide_source \<and>
          (lmul < 0 \<or> destination + destination_group \<noteq> source2 + source_group)) \<or>
         (form = 1 \<and> source1_overlap \<and>
          (lmul < 0 \<or> destination + destination_group \<noteq> source1 + group))
      then mret False
      else
        let registers = vregs_of s;
            scalar = (if form = 5 then ucast (riscv_fp_read_s (cpu_fpr (cpu s) source1)) else 0)
        in mbind (mfold (vbody s) (\<lambda>index fp_flags. vactive_acc (v_unmasked i) index fp_flags
               (mbind (vsnap registers source2 index (if wide_source then 8 else 4)) (\<lambda>l.
                 mbind (if form = 1 then vsnap registers source1 index 4 else mret scalar) (\<lambda>r.
                   mbind (if fused then vsnap registers destination index 8 else mret 0) (\<lambda>old.
                     let (left, flags1) =
                           (if wide_source then (l, 0) else riscv_fp_convert_s_to_d sf (ucast l) 0);
                         (right, flags2) = riscv_fp_convert_s_to_d sf (ucast r) 0;
                         (result, flags) = vf_wide_result sf func (v_frm s) left right old
                     in mseq (vector_element_write destination index 8 result)
                          (mret (fp_flags OR flags1 OR flags2 OR flags))))))) 0)
             (\<lambda>fp_flags. mseq (vector_accrue fp_flags) (vector_finish True)))"

section \<open>Reductions\<close>

definition vf_reduction :: "uint32_t \<Rightarrow> bool" where
  "vf_reduction i \<longleftrightarrow> v_form i = 1 \<and> v_func i \<in> {0x01, 0x03, 0x05, 0x07, 0x31, 0x33}"

definition vf_reduce_result ::
    "softfloat \<Rightarrow> nat \<Rightarrow> nat \<Rightarrow> nat \<Rightarrow> nat \<Rightarrow> word_t \<Rightarrow> word_t \<Rightarrow> word_t \<times> uint32_t" where
  "vf_reduce_result sf func bytes result_bytes rm result element =
     (if func = 0x05
      then vf_pick bytes (riscv_fp_min_s (ucast result) (ucast element)) (riscv_fp_min_d result element)
      else if func = 0x07
      then vf_pick bytes (riscv_fp_max_s (ucast result) (ucast element)) (riscv_fp_max_d result element)
      else vf_pick result_bytes (riscv_fp_add_s sf (ucast result) (ucast element) rm)
             (riscv_fp_add_d sf result element rm))"

definition vx_float_reduction :: "softfloat \<Rightarrow> uint32_t \<Rightarrow> nemu \<Rightarrow> bool mem" where
  "vx_float_reduction sf i s =
     (let func = v_func i; source1 = v_src1 i; source2 = v_src2 i; bytes = v_bytes s; group = v_group s;
          widen = (func = 0x31 \<or> func = 0x33); result_bytes = (if widen then 8 else bytes) in
      if (bytes \<noteq> 4 \<and> bytes \<noteq> 8) \<or> (widen \<and> bytes \<noteq> 4) \<or>
         \<not> vector_fp_ready True (result_bytes = 8) s \<or> \<not> vector_group_valid source2 group \<or>
         (widen \<and> source1 \<ge> source2 \<and> source1 < source2 + group) \<or> sr s CSR_VSTART \<noteq> 0
      then mret False
      else
        let registers = vregs_of s
        in mseq (mwhen (vl_of s \<noteq> 0)
             (mbind (vsnap registers source1 0 result_bytes) (\<lambda>initial.
               mbind (mfold [0..<vl_of s] (\<lambda>index (result, fp_flags).
                   vactive_acc (v_unmasked i) index (result, fp_flags)
                     (mbind (vsnap registers source2 index bytes) (\<lambda>e.
                       let (element, flags1) =
                             (if widen then riscv_fp_convert_s_to_d sf (ucast e) 0 else (e, 0));
                           (result', flags) =
                             vf_reduce_result sf func bytes result_bytes (v_frm s) result element
                       in mret (result', fp_flags OR flags1 OR flags)))) (initial, 0))
                 (\<lambda>(result, fp_flags).
                   mseq (vector_element_write (v_dest i) 0 result_bytes result) (vector_accrue fp_flags)))))
             (vector_finish True))"

end
