(* ===== verification/Vec_Exec.thy ===== *)
theory Vec_Exec
  imports Vec_Int Vec_Float
begin

text \<open>
  \<open>riscv_vector_execute\<close> of \<^verbatim>\<open>vector-control.c\<close>: the context test, the vector length test and the choice
  of the class of an instruction, in the order of the code.
\<close>

unbundle bit_operations_syntax

text \<open>The dispatch after the length test.\<close>

definition vector_class :: "config \<Rightarrow> softfloat \<Rightarrow> uint32_t \<Rightarrow> nemu \<Rightarrow> bool mem" where
  "vector_class c sf i s =
     (let func = v_func i; form = v_form i; source1 = v_src1 i in
      if func = 0x10 \<and> form = 6 then vx_scalar_insert i s
      else if zvbb_unary i \<or> zvbb_binary i then vx_zvbb c i s
      else if vf_known i then vx_float sf i s
      else if func = 0x12 \<and> form = 1 \<and> (source1 = 12 \<or> source1 = 20 \<or> source1 = 21)
      then vx_float_resize c sf i s
      else if vf_integer_widen i \<or> vf_integer_narrow i then vx_float_integer sf i s
      else if vf_widening i then vx_float_widen sf i s
      else if vf_reduction i then vx_float_reduction sf i s
      else if func = 0x10 \<and> form = 2 \<and> (source1 = 16 \<or> source1 = 17) then vx_mask_scan i s
      else if (func = 0x0e \<or> func = 0x0f) \<and> (form = 3 \<or> form = 4 \<or> form = 6) then vx_slide i s
      else if (func = 0x0c \<and> (form = 0 \<or> form = 3 \<or> form = 4)) \<or> (func = 0x0e \<and> form = 0)
      then vx_gather i s
      else if func = 0x14 \<and> form = 2 \<and>
              ((source1 \<ge> 1 \<and> source1 \<le> 3) \<or> source1 = 16 \<or> (source1 = 17 \<and> v_src2 i = 0))
      then vx_mask_prefix i s
      else if func = 0x17 \<and> form = 2 then vx_compress i s
      else if (form = 2 \<and> func \<le> 7) \<or> (form = 0 \<and> (func = 0x30 \<or> func = 0x31)) then vx_reduction i s
      else if func = 0x12 \<and> form = 2 \<and> source1 \<ge> 2 \<and> source1 \<le> 7 then vx_extend i s
      else if func \<ge> 0x2c \<and> func \<le> 0x2f \<and> (form = 0 \<or> form = 3 \<or> form = 4) then vx_narrow i s
      else if func \<ge> 0x30 \<and> func \<le> 0x3f \<and> (form = 2 \<or> form = 6) then vx_widen i s
      else if func \<in> {0x29, 0x2b, 0x2d, 0x2f} \<and> (form = 2 \<or> form = 6) then vx_macc i s
      else vx_elementwise i s)"

definition riscv_vector_execute :: "config \<Rightarrow> softfloat \<Rightarrow> uint32_t \<Rightarrow> bool mem" where
  "riscv_vector_execute c sf i =
     mbind (mgets (\<lambda>s. s)) (\<lambda>s.
       if \<not> riscv_vector_context_enabled c s \<or> v_form i = 7 then mret False
       else if v_func i = 0x27 \<and> v_form i = 3 then vx_whole_move i s
       else if vector_vlmax (sr s CSR_VTYPE) = 0 \<or> vl_of s > vector_vlmax (sr s CSR_VTYPE) then mret False
       else vector_class c sf i s)"

end
