(* ===== verification/Paddr.thy ===== *)
theory Paddr
  imports Mem_Monad
begin

text \<open>
  Physical memory: \<^verbatim>\<open>include/memory/paddr.h\<close>, \<^verbatim>\<open>include/memory/host.h\<close> and
  \<^verbatim>\<open>src/memory/paddr.c\<close>, in the builds without \<open>CONFIG_DEVICE\<close> and without the replay hooks.
  The backing arrays \<open>pmem\<close>, \<open>rom\<close>, \<open>sdram\<close>, \<open>sram\<close>, \<open>mrom\<close> and \<open>flash\<close> are one map from guest
  physical addresses to bytes, which is \<open>guest_to_host\<close> read backwards: the regions are disjoint
  (\<open>memory_map_ok\<close>). The host is little-endian.
\<close>

unbundle bit_operations_syntax

section \<open>Regions\<close>

definition PMEM_LEFT :: "config \<Rightarrow> paddr_t" where
  "PMEM_LEFT c = mbase c"

definition PMEM_RIGHT :: "config \<Rightarrow> paddr_t" where
  "PMEM_RIGHT c = mbase c + msize c - 1"

abbreviation (input) CONFIG_ROM_BASE :: paddr_t where "CONFIG_ROM_BASE \<equiv> 0x1000"

abbreviation (input) CONFIG_ROM_SIZE :: paddr_t where "CONFIG_ROM_SIZE \<equiv> 0xf000"

abbreviation (input) CONFIG_SDRAM_BASE :: paddr_t where "CONFIG_SDRAM_BASE \<equiv> 0xa0000000"

definition CONFIG_SDRAM_SIZE :: "config \<Rightarrow> paddr_t" where
  "CONFIG_SDRAM_SIZE c =
     (if pmem_2g c then 0 else if raptor_memory_map c then 0x02000000 else 0x20000000)"

abbreviation (input) CONFIG_SRAM_BASE :: paddr_t where "CONFIG_SRAM_BASE \<equiv> 0x0f000000"

abbreviation (input) CONFIG_SRAM_SIZE :: paddr_t where "CONFIG_SRAM_SIZE \<equiv> 0x2000"

abbreviation (input) CONFIG_MROM_BASE :: paddr_t where "CONFIG_MROM_BASE \<equiv> 0x20000000"

abbreviation (input) CONFIG_MROM_SIZE :: paddr_t where "CONFIG_MROM_SIZE \<equiv> 0x10000"

abbreviation (input) CONFIG_FLASH_BASE :: paddr_t where "CONFIG_FLASH_BASE \<equiv> 0x30000000"

definition CONFIG_FLASH_SIZE :: "config \<Rightarrow> paddr_t" where
  "CONFIG_FLASH_SIZE c = (if raptor_memory_map c then 0x10000000 else 0x40000000)"

definition in_rom :: "config \<Rightarrow> paddr_t \<Rightarrow> bool" where
  "in_rom c addr \<longleftrightarrow>
     \<not> raptor_memory_map c \<and> CONFIG_ROM_BASE \<le> addr \<and> addr < CONFIG_ROM_BASE + CONFIG_ROM_SIZE"

definition in_pmem :: "config \<Rightarrow> paddr_t \<Rightarrow> bool" where
  "in_pmem c addr \<longleftrightarrow> PMEM_LEFT c \<le> addr \<and> addr \<le> PMEM_RIGHT c"

definition in_sdram :: "config \<Rightarrow> paddr_t \<Rightarrow> bool" where
  "in_sdram c addr \<longleftrightarrow>
     \<not> pmem_2g c \<and> CONFIG_SDRAM_BASE \<le> addr \<and> addr < CONFIG_SDRAM_BASE + CONFIG_SDRAM_SIZE c"

definition in_sram :: "paddr_t \<Rightarrow> bool" where
  "in_sram addr \<longleftrightarrow> CONFIG_SRAM_BASE \<le> addr \<and> addr < CONFIG_SRAM_BASE + CONFIG_SRAM_SIZE"

definition in_mrom :: "paddr_t \<Rightarrow> bool" where
  "in_mrom addr \<longleftrightarrow> CONFIG_MROM_BASE \<le> addr \<and> addr < CONFIG_MROM_BASE + CONFIG_MROM_SIZE"

definition in_flash :: "config \<Rightarrow> paddr_t \<Rightarrow> bool" where
  "in_flash c addr \<longleftrightarrow> CONFIG_FLASH_BASE \<le> addr \<and> addr < CONFIG_FLASH_BASE + CONFIG_FLASH_SIZE c"

text \<open>The last byte of a span; a span that wraps around is no span.\<close>

definition paddr_is_ram_span :: "config \<Rightarrow> paddr_t \<Rightarrow> nat \<Rightarrow> bool" where
  "paddr_is_ram_span c addr len \<longleftrightarrow>
     (if len = 0 then False
      else let last' = addr + of_nat len - 1 in
        if last' < addr then False
        else in_pmem c addr \<and> in_pmem c last' \<or> in_sram addr \<and> in_sram last' \<or>
          in_sdram c addr \<and> in_sdram c last')"

definition paddr_is_memory_span :: "config \<Rightarrow> paddr_t \<Rightarrow> nat \<Rightarrow> bool" where
  "paddr_is_memory_span c addr len \<longleftrightarrow>
     (if len = 0 then False
      else let last' = addr + of_nat len - 1 in
        if last' < addr then False
        else in_pmem c addr \<and> in_pmem c last' \<or> in_rom c addr \<and> in_rom c last' \<or>
          in_sram addr \<and> in_sram last' \<or> in_mrom addr \<and> in_mrom last' \<or>
          in_flash c addr \<and> in_flash c last' \<or> in_sdram c addr \<and> in_sdram c last')"

definition ref_paddr_is_io :: "paddr_t \<Rightarrow> bool" where
  "ref_paddr_is_io addr \<longleftrightarrow>
     0x02000000 \<le> addr \<and> addr < 0x020c0000 \<or> 0x0c000000 \<le> addr \<and> addr < 0x0d000000 \<or>
     0x10000000 \<le> addr \<and> addr < 0x10000100 \<or> 0x11001800 \<le> addr \<and> addr < 0x11001900 \<or>
     0x11008000 \<le> addr \<and> addr < 0x11008100"

definition paddr_is_mapped :: "config \<Rightarrow> paddr_t \<Rightarrow> bool" where
  "paddr_is_mapped c addr \<longleftrightarrow>
     paddr_is_memory_span c addr 1 \<or> (target_share c \<and> ref_paddr_is_io addr)"

definition paddr_is_readonly :: "config \<Rightarrow> paddr_t \<Rightarrow> bool" where
  "paddr_is_readonly c addr \<longleftrightarrow> in_rom c addr \<or> in_mrom addr \<or> in_flash c addr"

definition paddr_supports_atomic :: "config \<Rightarrow> paddr_t \<Rightarrow> nat \<Rightarrow> bool" where
  "paddr_supports_atomic c addr len \<longleftrightarrow>
     (len = 4 \<or> len = 8) \<and> addr AND (of_nat len - 1) = 0 \<and> paddr_is_ram_span c addr len"

definition paddr_supports_zero :: "config \<Rightarrow> paddr_t \<Rightarrow> bool" where
  "paddr_supports_zero c addr \<longleftrightarrow> paddr_is_ram_span c (addr AND NOT 63) 64"

section \<open>Bytes of the backing memory (host.h)\<close>

primrec load_bytes :: "(paddr_t \<Rightarrow> uint8_t) \<Rightarrow> paddr_t \<Rightarrow> nat \<Rightarrow> word_t" where
  "load_bytes m a 0 = 0"
| "load_bytes m a (Suc n) = ucast (m a) OR push_bit 8 (load_bytes m (a + 1) n)"

primrec store_bytes :: "(paddr_t \<Rightarrow> uint8_t) \<Rightarrow> paddr_t \<Rightarrow> nat \<Rightarrow> word_t \<Rightarrow> paddr_t \<Rightarrow> uint8_t" where
  "store_bytes m a 0 d = m"
| "store_bytes m a (Suc n) d = store_bytes (m(a := ucast d)) (a + 1) n (drop_bit 8 d)"

definition host_len :: "nat \<Rightarrow> bool" where
  "host_len len \<longleftrightarrow> len = 1 \<or> len = 2 \<or> len = 4 \<or> len = 8"

text \<open>\<open>guest_to_host\<close> asserts that some region holds the address.\<close>

definition guest_backed :: "config \<Rightarrow> paddr_t \<Rightarrow> bool" where
  "guest_backed c addr \<longleftrightarrow>
     in_pmem c addr \<or> in_rom c addr \<or> in_sdram c addr \<or> in_sram addr \<or> in_mrom addr \<or> in_flash c addr"

definition host_read :: "paddr_t \<Rightarrow> nat \<Rightarrow> word_t mem" where
  "host_read addr len =
     (if host_len len then mgets (\<lambda>s. load_bytes (phys s) addr len) else mthrow Mem_panic)"

definition host_write :: "paddr_t \<Rightarrow> nat \<Rightarrow> word_t \<Rightarrow> unit mem" where
  "host_write addr len data =
     (if host_len len then mmodify (\<lambda>s. s\<lparr>phys := store_bytes (phys s) addr len data\<rparr>)
      else mthrow Mem_panic)"

definition pmem_read :: "config \<Rightarrow> paddr_t \<Rightarrow> nat \<Rightarrow> word_t mem" where
  "pmem_read c addr len = (if guest_backed c addr then host_read addr len else mthrow Mem_panic)"

definition pmem_write :: "config \<Rightarrow> paddr_t \<Rightarrow> nat \<Rightarrow> word_t \<Rightarrow> unit mem" where
  "pmem_write c addr len data =
     (if guest_backed c addr then host_write addr len data else mthrow Mem_panic)"

text \<open>An access no region backs: an M-mode load fault once a trap vector is set, a panic before.\<close>

definition out_of_bound :: "'a mem" where
  "out_of_bound =
     mbind (mgets (\<lambda>s. sr s CSR_MTVEC \<noteq> 0 \<and> priv s = PRV_M))
       (\<lambda>b. mthrow (if b then Mem_fault MCA_LOA_ACC_FAU else Mem_panic))"

definition paddr_read :: "config \<Rightarrow> paddr_t \<Rightarrow> nat \<Rightarrow> word_t mem" where
  "paddr_read c addr len =
     (if paddr_is_memory_span c addr len \<and> (in_pmem c addr \<or> in_sdram c addr \<or> in_sram addr)
      then pmem_read c addr len
      else if paddr_is_memory_span c addr len \<and> (in_rom c addr \<or> in_mrom addr \<or> in_flash c addr)
      then pmem_read c addr len
      else if target_share c \<and> ref_paddr_is_io addr then mret 0
      else out_of_bound)"

definition paddr_write :: "config \<Rightarrow> paddr_t \<Rightarrow> nat \<Rightarrow> word_t \<Rightarrow> unit mem" where
  "paddr_write c addr len data =
     (if paddr_is_memory_span c addr len \<and> (in_pmem c addr \<or> in_sdram c addr \<or> in_sram addr)
      then pmem_write c addr len data
      else if target_share c \<and> ref_paddr_is_io addr then mret ()
      else out_of_bound)"

section \<open>Device access to memory\<close>

definition INT32_MAX :: nat where
  "INT32_MAX = 2147483647"

text \<open>\<open>memcpy\<close> between a buffer of bytes and guest memory.\<close>

definition copy_out :: "(paddr_t \<Rightarrow> uint8_t) \<Rightarrow> paddr_t \<Rightarrow> nat \<Rightarrow> uint8_t list" where
  "copy_out m addr len = map (\<lambda>i. m (addr + of_nat i)) [0..<len]"

primrec copy_in :: "(paddr_t \<Rightarrow> uint8_t) \<Rightarrow> paddr_t \<Rightarrow> uint8_t list \<Rightarrow> paddr_t \<Rightarrow> uint8_t" where
  "copy_in m addr [] = m"
| "copy_in m addr (b # bs) = copy_in (m(addr := b)) (addr + 1) bs"

text \<open>The result and, when it is true, the bytes put into the buffer.\<close>

definition paddr_dma_read :: "config \<Rightarrow> nemu \<Rightarrow> paddr_t \<Rightarrow> nat \<Rightarrow> uint8_t list option" where
  "paddr_dma_read c s addr len =
     (if len = 0 then Some []
      else if len \<le> INT32_MAX \<and> paddr_is_memory_span c addr len
      then Some (copy_out (phys s) addr len) else None)"

definition paddr_dma_write :: "config \<Rightarrow> paddr_t \<Rightarrow> uint8_t list \<Rightarrow> nemu \<Rightarrow> bool \<times> nemu" where
  "paddr_dma_write c addr buffer s =
     (if buffer = [] then (True, s)
      else if length buffer \<le> INT32_MAX \<and> paddr_is_ram_span c addr (length buffer)
      then (True, s\<lparr>phys := copy_in (phys s) addr buffer\<rparr>) else (False, s))"

end
