(* ===== verification/Mmu.thy ===== *)
theory Mmu
  imports Paddr
begin

text \<open>
  Address translation, \<^verbatim>\<open>system/mmu.c\<close>: Sv39 and Sv32 for the host, and the two stages of the
  hypervisor preview. Each page-table walk is a recursion over the levels; one level is a definition
  of its own.
\<close>

unbundle bit_operations_syntax

section \<open>Access types and modes\<close>

datatype mem_type = MEM_TYPE_IFETCH | MEM_TYPE_READ | MEM_TYPE_WRITE | MEM_TYPE_CMO

datatype mmu_mode = MMU_DIRECT | MMU_TRANSLATE

abbreviation (input) SV32_MODE :: word_t where "SV32_MODE \<equiv> 1"

abbreviation (input) SV39_MODE :: word_t where "SV39_MODE \<equiv> 8"

text \<open>The fields \<open>mode\<close> and \<open>ppn\<close> of \<open>satp\<close>, \<open>sum\<close> and \<open>mxr\<close> of \<open>mstatus\<close> (\<open>csr_t\<close>).\<close>

abbreviation (input) satp_mode :: "word_t \<Rightarrow> word_t" where "satp_mode \<equiv> get_field 60 4"

abbreviation (input) satp_ppn :: "word_t \<Rightarrow> word_t" where "satp_ppn \<equiv> get_field 0 44"

abbreviation (input) sum_of :: "word_t \<Rightarrow> word_t" where "sum_of \<equiv> get_field 18 1"

abbreviation (input) mxr_of :: "word_t \<Rightarrow> word_t" where "mxr_of \<equiv> get_field 19 1"

definition ptw_memory_readable :: "config \<Rightarrow> paddr_t \<Rightarrow> nat \<Rightarrow> bool" where
  "ptw_memory_readable c addr n \<longleftrightarrow> addr AND (of_nat n - 1) = 0 \<and> paddr_is_memory_span c addr n"

definition mmu_eff_priv :: "mem_type \<Rightarrow> nemu \<Rightarrow> nat" where
  "mmu_eff_priv ty s = (if ty = MEM_TYPE_IFETCH then priv s else pmp_effective_priv_ls s)"

definition mmu_guest :: "config \<Rightarrow> mem_type \<Rightarrow> nemu \<Rightarrow> bool" where
  "mmu_guest c ty s \<longleftrightarrow> (if ty = MEM_TYPE_IFETCH then virt s else riscv_data_virtual_mode c s)"

definition isa_mmu_check :: "config \<Rightarrow> mem_type \<Rightarrow> nemu \<Rightarrow> mmu_mode" where
  "isa_mmu_check c ty s =
     (if mmu_guest c ty s then MMU_TRANSLATE
      else let mode = satp_mode (sr s CSR_SATP) in
        if mode = 0 then MMU_DIRECT
        else if mmu_eff_priv ty s = PRV_M then MMU_DIRECT
        else if mode = SV39_MODE then MMU_TRANSLATE
        else if mode = SV32_MODE then MMU_TRANSLATE else MMU_DIRECT)"

text \<open>The guard of an implicit read: \<open>True\<close> is an access fault.\<close>

definition ptw_read_denied :: "config \<Rightarrow> paddr_t \<Rightarrow> nat \<Rightarrow> bool mem" where
  "ptw_read_denied c pte_addr n =
     (if \<not> ptw_memory_readable c pte_addr n then mret True
      else mlift (pmp_check c pte_addr n PRV_S True False False))"

abbreviation (input) MASK44 :: word_t where "MASK44 \<equiv> 0xfffffffffff"

text \<open>The field \<open>(pte >> 10) & ((1 << 44) - 1)\<close>, and a NAPOT leaf's page number.\<close>

definition pte_ppn :: "word_t \<Rightarrow> word_t" where
  "pte_ppn pte = drop_bit 10 pte AND MASK44"

definition napot_ppn :: "word_t \<Rightarrow> word_t \<Rightarrow> word_t" where
  "napot_ppn pte vpn0 =
     (if bit pte 63 then (pte_ppn pte AND NOT 15) OR (vpn0 AND 15) else pte_ppn pte)"

definition pte_pbmt :: "word_t \<Rightarrow> word_t" where
  "pte_pbmt pte = drop_bit 61 pte AND 3"

text \<open>The test for reserved encodings shared by the two guest stages.\<close>

definition guest_pte_invalid :: "config \<Rightarrow> nat \<Rightarrow> bool \<Rightarrow> word_t \<Rightarrow> bool" where
  "guest_pte_invalid c level pbmte pte \<longleftrightarrow>
     \<not> bit pte 0 \<or> (bit pte 2 \<and> \<not> bit pte 1) \<or> pte AND push_bit 54 0x7f \<noteq> 0 \<or>
     pte_pbmt pte = 3 \<or> (pte_pbmt pte \<noteq> 0 \<and> \<not> pbmte) \<or>
     (bit pte 63 \<and> (riscv_isa_extensions c AND NEMU_ISA_EXT_SVNAPOT = 0 \<or> level \<noteq> 0 \<or>
        \<not> (bit pte 1 \<or> bit pte 3) \<or> pte_ppn pte AND 15 \<noteq> 8))"

text \<open>A reserved pointer: the last level, PBMT, N, D, A or U set.\<close>

definition guest_ptr_invalid :: "nat \<Rightarrow> word_t \<Rightarrow> bool" where
  "guest_ptr_invalid level pte \<longleftrightarrow>
     level = 0 \<or> pte_pbmt pte \<noteq> 0 \<or> bit pte 63 \<or> pte AND 0xd0 \<noteq> 0"

section \<open>G-stage translation\<close>

datatype gstage_fault = RISCV_GSTAGE_PAGE_FAULT | RISCV_GSTAGE_ACCESS_FAULT

text \<open>\<open>Inl\<close> the status other than \<open>RISCV_GSTAGE_OK\<close>, \<open>Inr\<close> the address and the memory type.\<close>

type_synonym gstage_result = "gstage_fault + paddr_t \<times> uint8_t"

text \<open>What the access is: \<open>store\<close>, \<open>execute_access\<close>, \<open>cmo\<close>, \<open>implicit\<close>.\<close>

record guest_access =
  ga_store :: bool
  ga_execute :: bool
  ga_cmo :: bool
  ga_implicit :: bool

definition gstage_vpn :: "paddr_t \<Rightarrow> nat \<Rightarrow> word_t" where
  "gstage_vpn ga level =
     (if level = 0 then drop_bit 12 ga AND 0x1ff
      else if level = 1 then drop_bit 21 ga AND 0x1ff else drop_bit 30 ga AND 0x7ff)"

definition gstage_permitted :: "guest_access \<Rightarrow> word_t \<Rightarrow> word_t \<Rightarrow> bool" where
  "gstage_permitted a mstatus pte \<longleftrightarrow>
     (let read = bit pte 1; write = bit pte 2; execute = bit pte 3; mxr = bit mstatus 19 in
      if ga_cmo a then write \<or> read \<or> (execute \<and> mxr)
      else if ga_store a then write
      else if ga_execute a then execute
      else read \<or> (execute \<and> \<not> ga_implicit a \<and> mxr))"

text \<open>A PTE whose A or D bit has to be set for this access, and the PTE written back.\<close>

definition pte_needs_ad :: "bool \<Rightarrow> word_t \<Rightarrow> bool" where
  "pte_needs_ad store pte \<longleftrightarrow> \<not> bit pte 6 \<or> (store \<and> \<not> bit pte 7)"

definition pte_with_ad :: "bool \<Rightarrow> word_t \<Rightarrow> word_t" where
  "pte_with_ad store pte = pte OR 64 OR (if store then 128 else 0)"

definition gstage_low_mask :: "nat \<Rightarrow> word_t" where
  "gstage_low_mask level = push_bit (9 * level) 1 - 1"

text \<open>The tail of a walk at a leaf: superpage alignment, A/D, and the address it forms.\<close>

definition gstage_leaf ::
    "config \<Rightarrow> guest_access \<Rightarrow> paddr_t \<Rightarrow> nat \<Rightarrow> paddr_t \<Rightarrow> word_t \<Rightarrow> gstage_result mem" where
  "gstage_leaf c a ga level pte_address pte =
     (let ppn = napot_ppn pte (gstage_vpn ga 0); low_mask = gstage_low_mask level;
          done = Inr (push_bit 12 ((ppn AND NOT low_mask) OR (drop_bit 12 ga AND low_mask)) OR
                      (ga AND 0xfff), ucast (pte_pbmt pte))
      in if ppn AND low_mask \<noteq> 0 then mret (Inl RISCV_GSTAGE_PAGE_FAULT)
      else if pte_needs_ad (ga_store a) pte then
        if rv_svade c then mret (Inl RISCV_GSTAGE_PAGE_FAULT)
        else mbind (mlift (pmp_check c pte_address 8 PRV_S False True False)) (\<lambda>denied.
          if denied then mret (Inl RISCV_GSTAGE_ACCESS_FAULT)
          else mseq (paddr_write c pte_address 8 (pte_with_ad (ga_store a) pte)) (mret done))
      else mret done)"

text \<open>One level: \<open>Inl\<close> the next table, \<open>Inr\<close> the result.\<close>

definition gstage_level ::
    "config \<Rightarrow> guest_access \<Rightarrow> paddr_t \<Rightarrow> nat \<Rightarrow> paddr_t \<Rightarrow> (paddr_t + gstage_result) mem" where
  "gstage_level c a ga level table =
     (let pte_address = table + gstage_vpn ga level * 8 in
      mbind (ptw_read_denied c pte_address 8) (\<lambda>denied.
        if denied then mret (Inr (Inl RISCV_GSTAGE_ACCESS_FAULT))
        else mbind (paddr_read c pte_address 8) (\<lambda>pte.
          mbind (mgets (\<lambda>s. (bit (sr s CSR_MENVCFG) 62, sr s CSR_MSTATUS))) (\<lambda>(pbmte, mstatus).
            if guest_pte_invalid c level pbmte pte then mret (Inr (Inl RISCV_GSTAGE_PAGE_FAULT))
            else if \<not> bit pte 1 \<and> \<not> bit pte 3 then
              if guest_ptr_invalid level pte then mret (Inr (Inl RISCV_GSTAGE_PAGE_FAULT))
              else mret (Inl (push_bit 12 (pte_ppn pte)))
            else if \<not> bit pte 4 \<or> \<not> gstage_permitted a mstatus pte
            then mret (Inr (Inl RISCV_GSTAGE_PAGE_FAULT))
            else mbind (gstage_leaf c a ga level pte_address pte) (\<lambda>r. mret (Inr r))))))"

text \<open>\<open>n\<close> levels left; the loop runs from level \<open>n - 1\<close> down.\<close>

primrec gstage_walk ::
    "config \<Rightarrow> guest_access \<Rightarrow> paddr_t \<Rightarrow> nat \<Rightarrow> paddr_t \<Rightarrow> gstage_result mem" where
  "gstage_walk c a ga 0 table = mret (Inl RISCV_GSTAGE_PAGE_FAULT)"
| "gstage_walk c a ga (Suc level) table =
     mbind (gstage_level c a ga level table) (\<lambda>r.
       case r of Inl table' \<Rightarrow> gstage_walk c a ga level table' | Inr res \<Rightarrow> mret res)"

definition riscv_gstage_translate :: "config \<Rightarrow> guest_access \<Rightarrow> paddr_t \<Rightarrow> gstage_result mem" where
  "riscv_gstage_translate c a guest_address =
     mbind (mgets (\<lambda>s. sr s CSR_HGATP)) (\<lambda>hgatp.
       let mode = drop_bit 60 hgatp in
       if mode = 0 then mret (Inr (guest_address, 0))
       else if mode \<noteq> SV39_MODE \<or> drop_bit 41 guest_address \<noteq> 0
       then mret (Inl RISCV_GSTAGE_PAGE_FAULT)
       else gstage_walk c a guest_address 3 (push_bit 12 (hgatp AND MASK44)))"

section \<open>VS-stage translation\<close>

datatype vstage_fault =
  RISCV_VSTAGE_PAGE_FAULT | RISCV_VSTAGE_GUEST_PAGE_FAULT | RISCV_VSTAGE_ACCESS_FAULT

text \<open>
  A fault carries what the C function stored through \<open>fault_address\<close> and \<open>page_table_write\<close>, if it
  stored anything.
\<close>

type_synonym vstage_result = "vstage_fault \<times> (paddr_t \<times> bool) option + paddr_t \<times> uint8_t"

definition sv39_vpn :: "vaddr_t \<Rightarrow> nat \<Rightarrow> word_t" where
  "sv39_vpn va level = drop_bit (12 + 9 * level) va AND 0x1ff"

definition sv39_canonical :: "vaddr_t \<Rightarrow> bool" where
  "sv39_canonical va \<longleftrightarrow> drop_bit 38 va = 0 \<or> drop_bit 38 va = drop_bit 38 (- 1)"

definition vstage_of_gstage :: "gstage_fault \<Rightarrow> vstage_fault" where
  "vstage_of_gstage f =
     (if f = RISCV_GSTAGE_PAGE_FAULT then RISCV_VSTAGE_GUEST_PAGE_FAULT else RISCV_VSTAGE_ACCESS_FAULT)"

definition vstage_permitted ::
    "guest_access \<Rightarrow> bool \<Rightarrow> word_t \<Rightarrow> word_t \<Rightarrow> word_t \<Rightarrow> bool" where
  "vstage_permitted a virtual_supervisor vsstatus mstatus pte \<longleftrightarrow>
     (let read = bit pte 1; write = bit pte 2; execute = bit pte 3; user = bit pte 4;
          sum = bit vsstatus 18; mxr = bit (vsstatus OR mstatus) 19;
          permitted = (if ga_cmo a then write \<or> read \<or> (execute \<and> mxr)
                       else if ga_store a then write
                       else if ga_execute a then execute else read \<or> (execute \<and> mxr))
      in permitted \<and>
         \<not> (if virtual_supervisor then user \<and> (\<not> sum \<or> ga_execute a) else \<not> user))"

text \<open>The hardware A/D update of a VS-stage leaf: the PTE's own address is translated for writing.\<close>

definition vstage_update_ad ::
    "config \<Rightarrow> guest_access \<Rightarrow> paddr_t \<Rightarrow> word_t \<Rightarrow> (vstage_fault \<times> (paddr_t \<times> bool) option + unit) mem" where
  "vstage_update_ad c a guest_pte_address pte =
     mbind (riscv_gstage_translate c \<lparr>ga_store = True, ga_execute = False, ga_cmo = False,
              ga_implicit = True\<rparr> guest_pte_address) (\<lambda>r.
       case r of
         Inl f \<Rightarrow> mret (Inl (vstage_of_gstage f, Some (guest_pte_address, True)))
       | Inr (pte_write_address, _) \<Rightarrow>
           mbind (if \<not> ptw_memory_readable c pte_write_address 8 then mret True
                  else mlift (pmp_check c pte_write_address 8 PRV_S False True False)) (\<lambda>denied.
             if denied then mret (Inl (RISCV_VSTAGE_ACCESS_FAULT, None))
             else mseq (paddr_write c pte_write_address 8 (pte_with_ad (ga_store a) pte))
                    (mret (Inr ()))))"

definition vstage_leaf ::
    "config \<Rightarrow> guest_access \<Rightarrow> vaddr_t \<Rightarrow> nat \<Rightarrow> paddr_t \<Rightarrow> word_t \<Rightarrow> vstage_result mem" where
  "vstage_leaf c a va level guest_pte_address pte =
     (let ppn = napot_ppn pte (sv39_vpn va 0); low_mask = gstage_low_mask level;
          done = Inr (push_bit 12 ((ppn AND NOT low_mask) OR (drop_bit 12 va AND low_mask)) OR
                      (va AND 0xfff), ucast (pte_pbmt pte))
      in if ppn AND low_mask \<noteq> 0 then mret (Inl (RISCV_VSTAGE_PAGE_FAULT, None))
      else if pte_needs_ad (ga_store a) pte then
        if rv_svade c then mret (Inl (RISCV_VSTAGE_PAGE_FAULT, None))
        else mbind (vstage_update_ad c a guest_pte_address pte) (\<lambda>r.
          case r of Inl f \<Rightarrow> mret (Inl f) | Inr _ \<Rightarrow> mret done)
      else mret done)"

definition vstage_level ::
    "config \<Rightarrow> guest_access \<Rightarrow> bool \<Rightarrow> vaddr_t \<Rightarrow> nat \<Rightarrow> paddr_t \<Rightarrow> (paddr_t + vstage_result) mem" where
  "vstage_level c a virtual_supervisor va level table =
     (let guest_pte_address = table + sv39_vpn va level * 8 in
      mbind (riscv_gstage_translate c \<lparr>ga_store = False, ga_execute = False, ga_cmo = False,
               ga_implicit = True\<rparr> guest_pte_address) (\<lambda>g.
        case g of
          Inl f \<Rightarrow> mret (Inr (Inl (vstage_of_gstage f, Some (guest_pte_address, False))))
        | Inr (pte_address, _) \<Rightarrow>
            mbind (ptw_read_denied c pte_address 8) (\<lambda>denied.
              if denied then mret (Inr (Inl (RISCV_VSTAGE_ACCESS_FAULT, None)))
              else mbind (paddr_read c pte_address 8) (\<lambda>pte.
                mbind (mgets (\<lambda>s. (bit (sr s CSR_HENVCFG) 62 \<and> bit (sr s CSR_MENVCFG) 62,
                         sr s CSR_VSSTATUS, sr s CSR_MSTATUS))) (\<lambda>(pbmte, vsstatus, mstatus).
                  if guest_pte_invalid c level pbmte pte
                  then mret (Inr (Inl (RISCV_VSTAGE_PAGE_FAULT, None)))
                  else if \<not> bit pte 1 \<and> \<not> bit pte 3 then
                    if guest_ptr_invalid level pte
                    then mret (Inr (Inl (RISCV_VSTAGE_PAGE_FAULT, None)))
                    else mret (Inl (push_bit 12 (pte_ppn pte)))
                  else if \<not> vstage_permitted a virtual_supervisor vsstatus mstatus pte
                  then mret (Inr (Inl (RISCV_VSTAGE_PAGE_FAULT, None)))
                  else mbind (vstage_leaf c a va level guest_pte_address pte)
                         (\<lambda>r. mret (Inr r)))))))"

primrec vstage_walk ::
    "config \<Rightarrow> guest_access \<Rightarrow> bool \<Rightarrow> vaddr_t \<Rightarrow> nat \<Rightarrow> paddr_t \<Rightarrow> vstage_result mem" where
  "vstage_walk c a vsup va 0 table = mret (Inl (RISCV_VSTAGE_PAGE_FAULT, None))"
| "vstage_walk c a vsup va (Suc level) table =
     mbind (vstage_level c a vsup va level table) (\<lambda>r.
       case r of Inl table' \<Rightarrow> vstage_walk c a vsup va level table' | Inr res \<Rightarrow> mret res)"

definition riscv_vstage_translate ::
    "config \<Rightarrow> guest_access \<Rightarrow> bool \<Rightarrow> vaddr_t \<Rightarrow> vstage_result mem" where
  "riscv_vstage_translate c a virtual_supervisor guest_address =
     mbind (mgets (\<lambda>s. sr s CSR_VSATP)) (\<lambda>vsatp.
       let mode = drop_bit 60 vsatp in
       if mode = 0 then mret (Inr (guest_address, 0))
       else if mode \<noteq> SV39_MODE \<or> \<not> sv39_canonical guest_address
       then mret (Inl (RISCV_VSTAGE_PAGE_FAULT, None))
       else vstage_walk c a virtual_supervisor guest_address 3 (push_bit 12 (vsatp AND MASK44)))"

section \<open>Sv39\<close>

definition pf_cause :: "mem_type \<Rightarrow> word_t" where
  "pf_cause ty = (if ty = MEM_TYPE_IFETCH then MCA_INS_PAG_FAU
     else if ty = MEM_TYPE_READ then MCA_LOA_PAG_FAU else MCA_STO_PAG_FAU)"

definition af_cause :: "mem_type \<Rightarrow> word_t" where
  "af_cause ty = (if ty = MEM_TYPE_IFETCH then MCA_INS_ACC_FAU
     else if ty = MEM_TYPE_READ then MCA_LOA_ACC_FAU else MCA_STO_ACC_FAU)"

definition sv39_pte_invalid :: "config \<Rightarrow> nat \<Rightarrow> bool \<Rightarrow> word_t \<Rightarrow> bool" where
  "sv39_pte_invalid c level pbmte pte \<longleftrightarrow>
     (let r = bit pte 1; w = bit pte 2; x = bit pte 3; napot = bit pte 63; pbmt = pte_pbmt pte;
          reserved = pte AND push_bit 54 0x7f \<noteq> 0 \<or>
            (napot \<and> (riscv_isa_extensions c AND NEMU_ISA_EXT_SVNAPOT = 0 \<or> level \<noteq> 0 \<or>
               \<not> (r \<or> x) \<or> drop_bit 10 pte AND 15 \<noteq> 8)) \<or>
            pbmt = 3 \<or> (pbmt \<noteq> 0 \<and> (\<not> pbmte \<or> \<not> (r \<or> x)))
      in \<not> bit pte 0 \<or> (w \<and> \<not> r) \<or> reserved)"

text \<open>One level: \<open>Inl\<close> the next table, \<open>Inr\<close> the leaf with its address.\<close>

definition sv39_level ::
    "config \<Rightarrow> mem_type \<Rightarrow> vaddr_t \<Rightarrow> nat \<Rightarrow> word_t \<Rightarrow> (word_t + word_t \<times> word_t) mem" where
  "sv39_level c ty va level a =
     (let pte_addr = a + sv39_vpn va level * 8 in
      mbind (ptw_read_denied c pte_addr 8) (\<lambda>denied.
        if denied then mthrow (Mem_fault (af_cause ty))
        else mbind (paddr_read c pte_addr 8) (\<lambda>pte.
          mbind (mgets (\<lambda>s. bit (sr s CSR_MENVCFG) 62)) (\<lambda>pbmte.
            if sv39_pte_invalid c level pbmte pte then mthrow (Mem_fault (pf_cause ty))
            else if bit pte 1 \<or> bit pte 3 then mret (Inr (pte_addr, pte))
            else if pte AND 0xd0 \<noteq> 0 then mthrow (Mem_fault (pf_cause ty))
            else if level = 0 then mthrow (Mem_fault (pf_cause ty))
            else mret (Inl (push_bit 12 (pte_ppn pte)))))))"

text \<open>The leaf, its address and its level; a pointer at level 0 has thrown already.\<close>

primrec sv39_walk ::
    "config \<Rightarrow> mem_type \<Rightarrow> vaddr_t \<Rightarrow> nat \<Rightarrow> word_t \<Rightarrow> (word_t \<times> word_t \<times> nat) mem" where
  "sv39_walk c ty va 0 a = mthrow (Mem_fault (pf_cause ty))"
| "sv39_walk c ty va (Suc level) a =
     mbind (sv39_level c ty va level a) (\<lambda>r.
       case r of Inl a' \<Rightarrow> sv39_walk c ty va level a'
       | Inr (pte_addr, pte) \<Rightarrow> mret (pte_addr, pte, level))"

text \<open>The privilege and permission tests of a leaf, the same for Sv39 and Sv32.\<close>

definition leaf_denied :: "mem_type \<Rightarrow> nat \<Rightarrow> word_t \<Rightarrow> word_t \<Rightarrow> bool" where
  "leaf_denied ty eff_priv mstatus pte \<longleftrightarrow>
     (let r = bit pte 1; w = bit pte 2; x = bit pte 3; u = bit pte 4;
          readable = r \<or> (mxr_of mstatus \<noteq> 0 \<and> x)
      in (eff_priv = PRV_S \<and> u \<and> (ty = MEM_TYPE_IFETCH \<or> sum_of mstatus = 0)) \<or>
         (eff_priv = PRV_U \<and> \<not> u) \<or>
         (ty = MEM_TYPE_IFETCH \<and> \<not> x) \<or>
         (ty = MEM_TYPE_READ \<and> \<not> readable) \<or>
         (ty = MEM_TYPE_CMO \<and> \<not> readable \<and> \<not> w) \<or>
         (ty = MEM_TYPE_WRITE \<and> \<not> w))"

definition sv39_paddr :: "vaddr_t \<Rightarrow> nat \<Rightarrow> word_t \<Rightarrow> paddr_t" where
  "sv39_paddr va level ppn =
     (let offset = va AND 0xfff in
      if level = 0 then push_bit 12 ppn OR offset
      else if level = 1 then push_bit 12 (ppn AND NOT 0x1ff) OR push_bit 12 (sv39_vpn va 0) OR offset
      else push_bit 12 (ppn AND NOT 0x3ffff) OR push_bit 21 (sv39_vpn va 1) OR
           push_bit 12 (sv39_vpn va 0) OR offset)"

definition sv39_translate :: "config \<Rightarrow> vaddr_t \<Rightarrow> mem_type \<Rightarrow> (paddr_t \<times> uint8_t) mem" where
  "sv39_translate c va ty =
     mbind (mgets (\<lambda>s. (sr s CSR_SATP, mmu_eff_priv ty s, sr s CSR_MSTATUS)))
       (\<lambda>(satp, eff_priv, mstatus).
       if \<not> sv39_canonical va then mthrow (Mem_fault (pf_cause ty))
       else mbind (sv39_walk c ty va 3 (push_bit 12 (satp_ppn satp)))
         (\<lambda>(pte_addr, pte, level).
           let ppn = napot_ppn pte (sv39_vpn va 0); wr = (ty = MEM_TYPE_WRITE);
               done = mret (sv39_paddr va level ppn, ucast (pte_pbmt pte))
           in if 0 < level \<and> ppn AND gstage_low_mask level \<noteq> 0
              then mthrow (Mem_fault (pf_cause ty))
              else if leaf_denied ty eff_priv mstatus pte
              then mthrow (Mem_fault (pf_cause ty))
              else if pte_needs_ad wr pte then
                if rv_svade c then mthrow (Mem_fault (pf_cause ty))
                else mseq (paddr_write c pte_addr 8
                       ((if bit pte 6 then pte else pte OR 64) OR
                        (if wr \<and> \<not> bit pte 7 then 128 else 0))) done
              else done))"

section \<open>Sv32\<close>

text \<open>The fields of \<open>addr_t\<close>: \<open>pte.ppn0\<close> and \<open>pte_ppn.ppn\<close>.\<close>

definition sv32_vpn :: "vaddr_t \<Rightarrow> nat \<Rightarrow> word_t" where
  "sv32_vpn va i = (if i = 0 then get_field 12 10 va else get_field 22 10 va)"

definition sv32_level ::
    "config \<Rightarrow> mem_type \<Rightarrow> vaddr_t \<Rightarrow> nat \<Rightarrow> paddr_t \<Rightarrow> (paddr_t + paddr_t \<times> word_t) mem" where
  "sv32_level c ty va i a =
     (let pte_addr = a + sv32_vpn va i * 4 in
      mbind (ptw_read_denied c pte_addr 4) (\<lambda>denied.
        if denied then mthrow (Mem_fault (af_cause ty))
        else mbind (paddr_read c pte_addr 4) (\<lambda>pte.
          if \<not> bit pte 0 \<or> (bit pte 2 \<and> \<not> bit pte 1) then mthrow (Mem_fault (pf_cause ty))
          else if bit pte 1 \<or> bit pte 3 then
            if 0 < i \<and> get_field 10 10 pte \<noteq> 0 then mthrow (Mem_fault (pf_cause ty))
            else mret (Inr (pte_addr, if 0 < i then set_field 10 10 (sv32_vpn va 0) pte else pte))
          else if bit pte 4 \<or> bit pte 6 \<or> bit pte 7 then mthrow (Mem_fault (pf_cause ty))
          else if i = 0 then mthrow (Mem_fault (pf_cause ty))
          else mret (Inl (push_bit 12 (get_field 10 22 pte))))))"

primrec sv32_walk ::
    "config \<Rightarrow> mem_type \<Rightarrow> vaddr_t \<Rightarrow> nat \<Rightarrow> paddr_t \<Rightarrow> (paddr_t \<times> word_t) mem" where
  "sv32_walk c ty va 0 a = mthrow (Mem_fault (pf_cause ty))"
| "sv32_walk c ty va (Suc i) a =
     mbind (sv32_level c ty va i a) (\<lambda>r.
       case r of Inl a' \<Rightarrow> sv32_walk c ty va i a' | Inr leaf \<Rightarrow> mret leaf)"

definition sv32_translate :: "config \<Rightarrow> vaddr_t \<Rightarrow> mem_type \<Rightarrow> (paddr_t \<times> uint8_t) mem" where
  "sv32_translate c va ty =
     mbind (mgets (\<lambda>s. (sr s CSR_SATP, mmu_eff_priv ty s, sr s CSR_MSTATUS)))
       (\<lambda>(satp, eff_priv, mstatus).
       mbind (sv32_walk c ty va 2 (push_bit 12 (satp_ppn satp))) (\<lambda>(pte_addr, pte).
         let wr = (ty = MEM_TYPE_WRITE);
             pte1 = (if bit pte 6 then pte else set_field 6 1 1 pte);
             pte2 = (if wr \<and> \<not> bit pte 7 then set_field 7 1 1 pte1 else pte1);
             done = mret (push_bit 12 (get_field 10 22 pte2) OR get_field 0 12 va, 0)
         in if leaf_denied ty eff_priv mstatus pte
            then mthrow (Mem_fault (pf_cause ty))
            else if pte_needs_ad wr pte then
              if rv_svade c then mthrow (Mem_fault (pf_cause ty))
              else if pte_addr \<noteq> 0 then mseq (paddr_write c pte_addr 4 pte2) done
              else done
            else done))"

section \<open>The translation of an access\<close>

definition set_h_fault_gpa :: "paddr_t \<Rightarrow> nemu \<Rightarrow> nemu" where
  "set_h_fault_gpa a s = s\<lparr>riscv_h_fault_gpa := a\<rparr>"

definition set_h_fault_ptw :: "bool \<Rightarrow> nemu \<Rightarrow> nemu" where
  "set_h_fault_ptw b s = s\<lparr>riscv_h_fault_ptw := b\<rparr>"

definition set_h_fault_write :: "bool \<Rightarrow> nemu \<Rightarrow> nemu" where
  "set_h_fault_write b s = s\<lparr>riscv_h_fault_write := b\<rparr>"

text \<open>The stores of \<open>riscv_vstage_translate\<close> through its last pointers, as its callers pass them.\<close>

definition h_fault_out :: "(paddr_t \<times> bool) option \<Rightarrow> nemu \<Rightarrow> nemu" where
  "h_fault_out f s =
     (case f of None \<Rightarrow> s | Some (a, w) \<Rightarrow> set_h_fault_write w (set_h_fault_gpa a s))"

definition guest_fault_cause :: "mem_type \<Rightarrow> word_t" where
  "guest_fault_cause ty = (if ty = MEM_TYPE_IFETCH then MCA_INS_GUEST_PAG_FAU
     else if ty = MEM_TYPE_READ then MCA_LOA_GUEST_PAG_FAU else MCA_STO_GUEST_PAG_FAU)"

definition two_stage_translate :: "config \<Rightarrow> vaddr_t \<Rightarrow> mem_type \<Rightarrow> (paddr_t \<times> uint8_t) mem" where
  "two_stage_translate c va ty =
     (let a = \<lparr>ga_store = (ty = MEM_TYPE_WRITE), ga_execute = (ty = MEM_TYPE_IFETCH),
               ga_cmo = (ty = MEM_TYPE_CMO), ga_implicit = False\<rparr> in
      mseq (mmodify (\<lambda>s. set_h_fault_write False (set_h_fault_ptw False (set_h_fault_gpa 0 s))))
        (mbind (mgets (\<lambda>s. pmp_effective_priv_ls s = PRV_S)) (\<lambda>vsup.
          mbind (riscv_vstage_translate c a vsup va) (\<lambda>v.
            case v of
              Inl (status, out) \<Rightarrow>
                mseq (mmodify (\<lambda>s. set_h_fault_ptw (status = RISCV_VSTAGE_GUEST_PAGE_FAULT)
                                      (h_fault_out out s)))
                  (mthrow (Mem_fault (if status = RISCV_VSTAGE_PAGE_FAULT then pf_cause ty
                                      else if status = RISCV_VSTAGE_GUEST_PAGE_FAULT
                                      then guest_fault_cause ty else af_cause ty)))
            | Inr (guest_address, vs_pbmt) \<Rightarrow>
                mseq (mmodify (set_h_fault_gpa guest_address))
                  (mbind (riscv_gstage_translate c a guest_address) (\<lambda>g.
                    case g of
                      Inl f \<Rightarrow> mthrow (Mem_fault (if f = RISCV_GSTAGE_PAGE_FAULT
                                 then guest_fault_cause ty else af_cause ty))
                    | Inr (pa, g_pbmt) \<Rightarrow>
                        mret (pa, if vs_pbmt \<noteq> 0 then vs_pbmt else g_pbmt)))))))"

definition isa_mmu_translate_attrs :: "config \<Rightarrow> vaddr_t \<Rightarrow> mem_type \<Rightarrow> (paddr_t \<times> uint8_t) mem" where
  "isa_mmu_translate_attrs c va ty =
     mbind (mgets (\<lambda>s. (satp_mode (sr s CSR_SATP), mmu_guest c ty s))) (\<lambda>(mode, guest).
       if guest then two_stage_translate c va ty
       else if mode = SV39_MODE then sv39_translate c va ty
       else if mode = 0 \<or> mode \<noteq> SV32_MODE then mret (va, 0)
       else sv32_translate c va ty)"

definition isa_mmu_translate :: "config \<Rightarrow> vaddr_t \<Rightarrow> mem_type \<Rightarrow> paddr_t mem" where
  "isa_mmu_translate c va ty = mbind (isa_mmu_translate_attrs c va ty) (\<lambda>(pa, _). mret pa)"

end
