(* ===== verification/Vaddr.thy ===== *)
theory Vaddr
  imports Mmu
begin

text \<open>
  Virtual-memory accesses, \<^verbatim>\<open>src/memory/vaddr.c\<close>: pointer masking, software-TLB hit or page-table
  walk, the memory-type and PMA checks, the PMP check and the access. The trace files and the
  last-access record of DiffTest are left out.
\<close>

unbundle bit_operations_syntax

section \<open>Updates of scalar state\<close>

definition set_g_vaddr :: "word_t \<Rightarrow> nemu \<Rightarrow> nemu" where
  "set_g_vaddr v s = s\<lparr>g_vaddr := v\<rparr>"

definition set_reservation :: "paddr_t \<Rightarrow> nat \<Rightarrow> nemu \<Rightarrow> nemu" where
  "set_reservation a n s = s\<lparr>cpu := (cpu s)\<lparr>cpu_reservation := a, cpu_reservation_bytes := n\<rparr>\<rparr>"

definition refill_tlb :: "tlb_table \<Rightarrow> vaddr_t \<Rightarrow> paddr_t \<Rightarrow> uint8_t \<Rightarrow> nemu \<Rightarrow> nemu" where
  "refill_tlb k va pa pbmt s = s\<lparr>tlbs := tlb_refill k va pa pbmt (tlbs s)\<rparr>"

definition bare_paddr :: "config \<Rightarrow> vaddr_t \<Rightarrow> paddr_t" where
  "bare_paddr c addr =
     (if raptor_memory_map c \<and> drop_bit 32 addr = 0xffffffff then take_bit 32 addr else addr)"

definition misaligned :: "vaddr_t \<Rightarrow> nat \<Rightarrow> bool" where
  "misaligned addr len \<longleftrightarrow> addr AND (of_nat len - 1) \<noteq> 0"

text \<open>The bytes from an address to the end of its page: \<open>4096 - (addr & 4095)\<close>.\<close>

definition page_rest :: "vaddr_t \<Rightarrow> nat" where
  "page_rest addr = 4096 - unat (addr AND 0xfff)"

definition data_access_fault :: "bool \<Rightarrow> word_t" where
  "data_access_fault store = (if store then MCA_STO_ACC_FAU else MCA_LOA_ACC_FAU)"

definition data_type :: "bool \<Rightarrow> mem_type" where
  "data_type store = (if store then MEM_TYPE_WRITE else MEM_TYPE_READ)"

text \<open>The PMP check of a data access; a denial in Bare mode moves \<open>g_vaddr\<close> to the faulting byte.\<close>

definition data_pmp_check ::
    "config \<Rightarrow> bool \<Rightarrow> vaddr_t \<Rightarrow> paddr_t \<Rightarrow> nat \<Rightarrow> bool \<Rightarrow> unit mem" where
  "data_pmp_check c translated addr pa len store =
     mbind (mgets pmp_effective_priv_ls) (\<lambda>prv.
       mbind (mlift (pmp_check c pa len prv (\<not> store) store False)) (\<lambda>denied.
         mwhen denied
           (mseq (mwhen (\<not> translated)
                   (mmodify (\<lambda>s. set_g_vaddr (addr + (pmp_last_fault_addr (pmpu s) - pa)) s)))
             (mthrow (Mem_fault (data_access_fault store))))))"

section \<open>Physical memory attributes\<close>

definition pma_byte_ok :: "config \<Rightarrow> paddr_t \<Rightarrow> bool \<Rightarrow> nat \<Rightarrow> bool" where
  "pma_byte_ok c pa store i \<longleftrightarrow>
     pa \<le> pa + of_nat i \<and> paddr_is_mapped c (pa + of_nat i) \<and>
     (\<not> store \<or> \<not> paddr_is_readonly c (pa + of_nat i))"

text \<open>The loop: the offset of the first byte that is not allowed.\<close>

definition pma_fault_offset :: "config \<Rightarrow> paddr_t \<Rightarrow> nat \<Rightarrow> bool \<Rightarrow> nat option" where
  "pma_fault_offset c pa len store =
     (if len = 0 then Some 0 else find (\<lambda>i. \<not> pma_byte_ok c pa store i) [0..<len])"

definition check_data_pma :: "config \<Rightarrow> paddr_t \<Rightarrow> nat \<Rightarrow> bool \<Rightarrow> unit mem" where
  "check_data_pma c pa len store =
     (if paddr_is_ram_span c pa len then mret ()
      else case pma_fault_offset c pa len store of
             None \<Rightarrow> mret ()
           | Some off \<Rightarrow>
               mseq (mmodify (\<lambda>s. set_g_vaddr (g_vaddr s + of_nat off) s))
                 (mthrow (Mem_fault (data_access_fault store))))"

definition plic_width_fault :: "config \<Rightarrow> paddr_t \<Rightarrow> nat \<Rightarrow> bool" where
  "plic_width_fault c pa original_len \<longleftrightarrow>
     raptor_memory_map c \<and> 0x0c000000 \<le> pa \<and> pa < 0x0d000000 \<and>
     (original_len \<noteq> 4 \<or> pa AND 3 \<noteq> 0)"

definition check_data_type ::
    "config \<Rightarrow> paddr_t \<Rightarrow> uint8_t \<Rightarrow> bool \<Rightarrow> bool \<Rightarrow> nat \<Rightarrow> unit mem" where
  "check_data_type c pa pbmt misal store original_len =
     (let device = raptor_memory_map c \<and> paddr_is_mapped c pa \<and> \<not> paddr_is_memory_span c pa 1
      in mwhen (plic_width_fault c pa original_len \<or> ((pbmt = 2 \<or> device) \<and> misal))
           (mthrow (Mem_fault (data_access_fault store))))"

section \<open>Checked pieces\<close>

definition checked_data_piece_attrs ::
    "config \<Rightarrow> vaddr_t \<Rightarrow> nat \<Rightarrow> bool \<Rightarrow> bool \<Rightarrow> nat \<Rightarrow> (paddr_t \<times> uint8_t) mem" where
  "checked_data_piece_attrs c addr0 len store misal original_len =
     mbind (mgets (\<lambda>s. riscv_pointer_mask c s addr0)) (\<lambda>addr.
       mseq (mmodify (set_g_vaddr addr))
         (mbind (mgets (\<lambda>s. isa_mmu_check c (data_type store) s \<noteq> MMU_DIRECT)) (\<lambda>translated.
           mbind (if translated then isa_mmu_translate_attrs c addr (data_type store)
                  else mret (bare_paddr c addr, 0)) (\<lambda>(pa, pbmt).
             mseq (check_data_type c pa pbmt misal store original_len)
               (mseq (check_data_pma c pa len store)
                 (mseq (data_pmp_check c translated addr pa len store) (mret (pa, pbmt))))))))"

definition checked_data_piece ::
    "config \<Rightarrow> vaddr_t \<Rightarrow> nat \<Rightarrow> bool \<Rightarrow> bool \<Rightarrow> nat \<Rightarrow> paddr_t mem" where
  "checked_data_piece c addr len store misal original_len =
     mbind (checked_data_piece_attrs c addr len store misal original_len) (\<lambda>(pa, _). mret pa)"

definition checked_data_address :: "config \<Rightarrow> vaddr_t \<Rightarrow> nat \<Rightarrow> bool \<Rightarrow> paddr_t mem" where
  "checked_data_address c addr len store =
     checked_data_piece c addr len store (misaligned addr len) len"

text \<open>The loop of \<open>vaddr_probe_vector\<close>: one piece, or two at a page boundary.\<close>

definition probe_piece ::
    "config \<Rightarrow> vaddr_t \<Rightarrow> nat \<Rightarrow> bool \<Rightarrow> nat \<Rightarrow> nat \<Rightarrow> bool mem" where
  "probe_piece c addr len store offset piece =
     mbind (checked_data_piece_attrs c (addr + of_nat offset) piece store (misaligned addr len) len)
       (\<lambda>(pa, pbmt). mret (pbmt = 2 \<or> \<not> paddr_is_memory_span c pa piece))"

definition vaddr_probe_vector :: "config \<Rightarrow> vaddr_t \<Rightarrow> nat \<Rightarrow> bool \<Rightarrow> bool mem" where
  "vaddr_probe_vector c addr0 len store =
     mbind (mgets (\<lambda>s. riscv_pointer_mask c s addr0)) (\<lambda>addr.
       mbind (mgets (isa_mmu_check c (data_type store))) (\<lambda>mode.
         let rest = page_rest addr; first = (if len \<le> rest \<or> mode = MMU_DIRECT then len else rest)
         in if len = 0 then mret False
            else mbind (probe_piece c addr len store 0 first) (\<lambda>r1.
              if first < len
              then mbind (probe_piece c addr len store first (len - first)) (\<lambda>r2. mret (r1 \<or> r2))
              else mret r1)))"

section \<open>Checks without an access\<close>

definition vaddr_check_reservation :: "config \<Rightarrow> vaddr_t \<Rightarrow> nat \<Rightarrow> bool \<Rightarrow> paddr_t mem" where
  "vaddr_check_reservation c addr0 len store =
     mbind (mgets (\<lambda>s. riscv_pointer_mask c s addr0)) (\<lambda>addr.
       mbind (checked_data_address c addr len store) (\<lambda>pa.
         if \<not> paddr_supports_atomic c pa len
         then mseq (mmodify (set_g_vaddr addr)) (mthrow (Mem_fault (data_access_fault store)))
         else mret pa))"

definition vaddr_check_amo :: "config \<Rightarrow> vaddr_t \<Rightarrow> nat \<Rightarrow> unit mem" where
  "vaddr_check_amo c addr0 len =
     mbind (mgets (\<lambda>s. riscv_pointer_mask c s addr0)) (\<lambda>addr.
       mbind (vaddr_check_reservation c addr len True) (\<lambda>pa.
         mbind (mgets pmp_effective_priv_ls) (\<lambda>prv.
           mbind (mlift (pmp_check c pa len prv True True False)) (\<lambda>denied.
             mwhen denied
               (mseq (mmodify (set_g_vaddr addr)) (mthrow (Mem_fault MCA_STO_ACC_FAU)))))))"

definition vaddr_check_zero :: "config \<Rightarrow> vaddr_t \<Rightarrow> unit mem" where
  "vaddr_check_zero c addr0 =
     mbind (mgets (\<lambda>s. riscv_pointer_mask c s addr0)) (\<lambda>addr.
       mbind (checked_data_address c addr 1 True) (\<lambda>pa.
         mwhen (\<not> paddr_supports_zero c pa)
           (mseq (mmodify (set_g_vaddr addr)) (mthrow (Mem_fault MCA_STO_ACC_FAU)))))"

definition vaddr_check_store :: "config \<Rightarrow> vaddr_t \<Rightarrow> nat \<Rightarrow> unit mem" where
  "vaddr_check_store c addr0 len =
     mbind (mgets (\<lambda>s. riscv_pointer_mask c s addr0)) (\<lambda>addr.
       mbind (mgets (isa_mmu_check c MEM_TYPE_WRITE)) (\<lambda>mode.
         let first = page_rest addr in
         if first < len \<and> mode \<noteq> MMU_DIRECT
         then mbind (checked_data_piece c addr first True True len) (\<lambda>_.
                mbind (checked_data_piece c (addr + of_nat first) (len - first) True True len)
                  (\<lambda>_. mret ()))
         else mbind (checked_data_address c addr len True) (\<lambda>_. mret ())))"

definition vaddr_check_cmo :: "config \<Rightarrow> vaddr_t \<Rightarrow> unit mem" where
  "vaddr_check_cmo c addr0 =
     mbind (mgets (\<lambda>s. riscv_pointer_mask c s addr0)) (\<lambda>addr.
       mseq (mmodify (set_g_vaddr addr))
         (mbind (mgets (\<lambda>s. isa_mmu_check c MEM_TYPE_CMO s \<noteq> MMU_DIRECT)) (\<lambda>translated.
           mbind (if translated
                  then mbind (isa_mmu_translate_attrs c addr MEM_TYPE_CMO) (\<lambda>(pa, _). mret pa)
                  else mret (bare_paddr c addr)) (\<lambda>pa.
             if \<not> paddr_is_mapped c pa then mthrow (Mem_fault MCA_STO_ACC_FAU)
             else mbind (mgets pmp_effective_priv_ls) (\<lambda>prv.
               mbind (mlift (pmp_check c pa 1 prv True False False)) (\<lambda>read_fault.
                 mbind (mlift (pmp_check c pa 1 prv False True False)) (\<lambda>write_fault.
                   mwhen (read_fault \<and> write_fault)
                     (mseq (mwhen (\<not> translated)
                             (mmodify (\<lambda>s. set_g_vaddr
                                (addr + (pmp_last_fault_addr (pmpu s) - pa)) s)))
                       (mthrow (Mem_fault MCA_STO_ACC_FAU))))))))))"

definition get_paddr :: "config \<Rightarrow> vaddr_t \<Rightarrow> paddr_t mem" where
  "get_paddr c addr0 =
     mbind (mgets (\<lambda>s. riscv_pointer_mask c s addr0)) (\<lambda>addr.
       if addr = 0 then mthrow (Mem_fault MCA_INS_ACC_FAU)
       else mbind (mgets (isa_mmu_check c MEM_TYPE_READ)) (\<lambda>mode.
         if mode = MMU_DIRECT then mret (bare_paddr c addr)
         else isa_mmu_translate c addr MEM_TYPE_READ))"

section \<open>Translation through a software TLB\<close>

text \<open>
  The translation step of the access paths: direct, a hit, or a walk with a refill. The result is
  the address and the memory type.
\<close>

definition tlb_translate ::
    "config \<Rightarrow> tlb_table \<Rightarrow> mem_type \<Rightarrow> vaddr_t \<Rightarrow> (paddr_t \<times> uint8_t) mem" where
  "tlb_translate c k ty addr =
     mbind (mgets (\<lambda>s. (isa_mmu_check c ty s, tlb_lookup k (tlbs s) addr))) (\<lambda>(mode, hit).
       if mode = MMU_DIRECT then mret (bare_paddr c addr, 0)
       else case hit of
              Some (pa, pbmt) \<Rightarrow> mret (pa, pbmt)
            | None \<Rightarrow> mbind (isa_mmu_translate_attrs c addr ty) (\<lambda>(pa, pbmt).
                mseq (mmodify (refill_tlb k addr pa pbmt)) (mret (pa, pbmt))))"

section \<open>Instruction fetch\<close>

text \<open>A fetch that stays within one piece.\<close>

definition vaddr_ifetch_piece :: "config \<Rightarrow> vaddr_t \<Rightarrow> nat \<Rightarrow> word_t mem" where
  "vaddr_ifetch_piece c addr len =
     mseq (mmodify (set_g_vaddr addr))
       (mbind (mgets (\<lambda>s. isa_mmu_check c MEM_TYPE_IFETCH s \<noteq> MMU_DIRECT)) (\<lambda>mmu_on.
         mbind (tlb_translate c Tlb_ifetch MEM_TYPE_IFETCH addr) (\<lambda>(pa, _).
           if \<not> paddr_is_memory_span c pa len then mthrow (Mem_fault MCA_INS_ACC_FAU)
           else mbind (mgets (\<lambda>s. priv s)) (\<lambda>prv.
             mbind (mlift (pmp_check c pa len prv False False True)) (\<lambda>denied.
               if denied
               then mseq (mwhen (\<not> mmu_on)
                      (mmodify (\<lambda>s. set_g_vaddr (addr + (pmp_last_fault_addr (pmpu s) - pa)) s)))
                    (mthrow (Mem_fault MCA_INS_ACC_FAU))
               else paddr_read c pa len)))))"

text \<open>A 32-bit fetch at an odd halfword reads its halves one after the other.\<close>

definition vaddr_ifetch :: "config \<Rightarrow> vaddr_t \<Rightarrow> nat \<Rightarrow> word_t mem" where
  "vaddr_ifetch c addr len =
     (if len = 4 \<and> bit addr 1
      then mbind (vaddr_ifetch_piece c addr 2) (\<lambda>first.
        if first AND 3 \<noteq> 3 then mret first
        else mbind (vaddr_ifetch_piece c (addr + 2) 2) (\<lambda>second.
          mseq (mmodify (set_g_vaddr addr)) (mret (first OR push_bit 16 second))))
      else vaddr_ifetch_piece c addr len)"

section \<open>Loads\<close>

text \<open>The address of byte \<open>i\<close> of an access split after \<open>first\<close> bytes.\<close>

definition split_addr :: "paddr_t \<Rightarrow> paddr_t \<Rightarrow> nat \<Rightarrow> nat \<Rightarrow> paddr_t" where
  "split_addr lo hi first i = (if i < first then lo + of_nat i else hi + of_nat (i - first))"

primrec read_split :: "config \<Rightarrow> (nat \<Rightarrow> paddr_t) \<Rightarrow> nat list \<Rightarrow> word_t \<Rightarrow> word_t mem" where
  "read_split c pa_of [] v = mret v"
| "read_split c pa_of (i # js) v =
     mbind (paddr_read c (pa_of i) 1) (\<lambda>b. read_split c pa_of js (v OR push_bit (8 * i) b))"

definition vaddr_read_piece :: "config \<Rightarrow> vaddr_t \<Rightarrow> nat \<Rightarrow> nat \<Rightarrow> bool \<Rightarrow> word_t mem" where
  "vaddr_read_piece c addr0 len original_len original_misaligned =
     mbind (mgets (\<lambda>s. riscv_pointer_mask c s addr0)) (\<lambda>addr.
       mseq (mmodify (set_g_vaddr addr))
         (mbind (mgets (\<lambda>s. isa_mmu_check c MEM_TYPE_READ s \<noteq> MMU_DIRECT)) (\<lambda>mmu_on.
           let first = page_rest addr in
           if first < len \<and> mmu_on
           then mbind (checked_data_piece c addr first False original_misaligned original_len) (\<lambda>lo.
                  mbind (checked_data_piece c (addr + of_nat first) (len - first) False
                           original_misaligned original_len) (\<lambda>hi.
                    mbind (read_split c (split_addr lo hi first) [0..<len] 0) (\<lambda>v.
                      mseq (mmodify (set_g_vaddr addr)) (mret v))))
           else mbind (tlb_translate c Tlb_load MEM_TYPE_READ addr) (\<lambda>(pa, pbmt).
                  mseq (check_data_type c pa pbmt original_misaligned False original_len)
                    (mseq (check_data_pma c pa len False)
                      (mseq (data_pmp_check c mmu_on addr pa len False)
                        (paddr_read c pa len)))))))"

definition vaddr_read :: "config \<Rightarrow> vaddr_t \<Rightarrow> nat \<Rightarrow> word_t mem" where
  "vaddr_read c addr len = vaddr_read_piece c addr len len (misaligned addr len)"

section \<open>Stores\<close>

text \<open>A store to the word of the reservation drops it.\<close>

definition drop_reservation :: "paddr_t \<Rightarrow> nemu \<Rightarrow> nemu" where
  "drop_reservation pa s =
     (if cpu_reservation (cpu s) AND NOT 3 = pa AND NOT 3 then set_reservation 0 0 s else s)"

primrec write_split :: "config \<Rightarrow> (nat \<Rightarrow> paddr_t) \<Rightarrow> nat list \<Rightarrow> word_t \<Rightarrow> unit mem" where
  "write_split c pa_of [] data = mret ()"
| "write_split c pa_of (i # js) data =
     mseq (paddr_write c (pa_of i) 1 (drop_bit (8 * i) data AND 0xff))
       (mseq (mmodify (drop_reservation (pa_of i))) (write_split c pa_of js data))"

definition vaddr_write :: "config \<Rightarrow> vaddr_t \<Rightarrow> nat \<Rightarrow> word_t \<Rightarrow> unit mem" where
  "vaddr_write c addr0 len data =
     mbind (mgets (\<lambda>s. riscv_pointer_mask c s addr0)) (\<lambda>addr.
       mseq (mmodify (set_g_vaddr addr))
         (mbind (mgets (\<lambda>s. isa_mmu_check c MEM_TYPE_WRITE s \<noteq> MMU_DIRECT)) (\<lambda>mmu_on.
           let first = page_rest addr in
           if first < len \<and> mmu_on
           then mbind (checked_data_piece c addr first True True len) (\<lambda>lo.
                  mbind (checked_data_piece c (addr + of_nat first) (len - first) True True len) (\<lambda>hi.
                    mseq (write_split c (split_addr lo hi first) [0..<len] data)
                      (mmodify (set_g_vaddr addr))))
           else mbind (tlb_translate c Tlb_store MEM_TYPE_WRITE addr) (\<lambda>(pa, pbmt).
                  mseq (check_data_type c pa pbmt (misaligned addr len) True len)
                    (mseq (check_data_pma c pa len True)
                      (mseq (data_pmp_check c mmu_on addr pa len True)
                        (mseq (paddr_write c pa len data)
                          (mmodify (drop_reservation pa)))))))))"

end
