(* ===== verification/Commit.thy ===== *)
theory Commit
  imports Trap
begin

text \<open>
  CSR access checks and the tail of \<open>decode_exec\<close> (\<^verbatim>\<open>inst.c\<close>): \<open>csr_valid\<close> with the order of its
  tests, the normalisation that keeps \<open>mstatus\<close> and its views coherent after an instruction
  (\<open>csr_commit\<close>), the counters, and the program counter. Timer updates of \<^verbatim>\<open>device/timer.c\<close> for one
  hart with the cycle clock (\<open>CONFIG_TIMER_CYCLE\<close>) come first.
\<close>

unbundle bit_operations_syntax

section \<open>Core-local timer (device/timer.c)\<close>

definition clint_get_ticks :: "nemu \<Rightarrow> word_t" where
  "clint_get_ticks s = g_nr_guest_inst s div 100"

definition set_stip :: "bool \<Rightarrow> nemu \<Rightarrow> nemu" where
  "set_stip b s = s\<lparr>cpu := (cpu s)\<lparr>cpu_stip := b\<rparr>\<rparr>"

lemma set_stip_frame [simp]:
  "sr (set_stip b s) = sr s" "cpu_stip (cpu (set_stip b s)) = b"
  "cpu_seip (cpu (set_stip b s)) = cpu_seip (cpu s)" "cpu_gpr (cpu (set_stip b s)) = cpu_gpr (cpu s)"
  "priv (set_stip b s) = priv s" "virt (set_stip b s) = virt s" "pmpu (set_stip b s) = pmpu s"
  "tlbs (set_stip b s) = tlbs s" "icaches (set_stip b s) = icaches s" "phys (set_stip b s) = phys s"
  "clint_msip (set_stip b s) = clint_msip s" "g_nr_guest_inst (set_stip b s) = g_nr_guest_inst s"
  by (simp_all add: fun_eq_iff sr_def set_stip_def)

text \<open>One hart, no lockstep journal; without \<open>CONFIG_TARGET_SHARE\<close>.\<close>

definition clint_update_mip :: "config \<Rightarrow> nemu \<Rightarrow> nemu" where
  "clint_update_mip c s =
     (if target_share c then s
      else
        let ticks = clint_get_ticks s;
            m = sr s CSR_MIP;
            s1 = set_sr CSR_MIP (if cpu_mtimecmp (cpu s) \<le> ticks then m OR 0x80 else m AND NOT 0x80) s;
            s2 = set_stip (sr s1 CSR_STIMECMP \<le> ticks) s1;
            m2 = sr s2 CSR_MIP;
            s3 = set_sr CSR_MIP (if clint_msip s AND 1 \<noteq> 0 then m2 OR 8 else m2 AND NOT 8) s2;
            s4 = set_sr CSR_SIP (riscv_hart_mip_value c s3 AND sr s3 CSR_MIDELEG AND
                   riscv_supervisor_irq_mask c) s3
        in set_sr CSR_TIME ticks s4)"

text \<open>\<open>clint_wfi_advance\<close>: the smallest compare value that is still ahead.\<close>

definition wfi_min :: "word_t \<Rightarrow> word_t \<Rightarrow> bool \<Rightarrow> word_t \<Rightarrow> word_t" where
  "wfi_min ticks cmp enabled next = (if enabled \<and> ticks < cmp \<and> cmp < next then cmp else next)"

definition wfi_next_cmp :: "config \<Rightarrow> nemu \<Rightarrow> word_t" where
  "wfi_next_cmp c s =
     (let ticks = clint_get_ticks s;
          n1 = wfi_min ticks (cpu_mtimecmp (cpu s)) True (- 1);
          n2 = wfi_min ticks (sr s CSR_STIMECMP) (sstc_enabled s) n1
      in wfi_min ticks (sr s CSR_VSTIMECMP - sr s CSR_HTIMEDELTA)
           (riscv_h_gstage_preview_enabled c \<and> sstc_enabled s \<and>
            sr s CSR_HENVCFG AND 0x8000000000000000 \<noteq> 0) n2)"

definition clint_wfi_advance :: "config \<Rightarrow> nemu \<Rightarrow> nemu" where
  "clint_wfi_advance c s =
     (if target_share c then s
      else
        let next = wfi_next_cmp c s in
        if clint_get_ticks s < next \<and> next \<le> (- 1) div 100
        then clint_update_mip c (s\<lparr>g_nr_guest_inst := next * 100\<rparr>)
        else s)"

section \<open>CSR access checks\<close>

text \<open>The exception \<open>csr_valid\<close> raises, \<open>None\<close> when the access is allowed.\<close>

definition csr_guest_denied :: "config \<Rightarrow> nemu \<Rightarrow> nat \<Rightarrow> bool" where
  "csr_guest_denied c s csr \<longleftrightarrow>
     (let csr_priv = csr div 256 mod 4 in
      virt s \<and> (csr_priv = 2 \<or>
        (priv s = PRV_S \<and> csr_priv = 1 \<and> guest_csr_alias s csr = csr \<and>
         \<not> guest_shared_supervisor_csr csr) \<or>
        (priv s = PRV_U \<and> csr_priv = 1 \<and> check_csr_exist c csr \<noteq> CSR_NOT_EXIST)))"

definition csr_counter_denied :: "config \<Rightarrow> nemu \<Rightarrow> nat \<Rightarrow> word_t option" where
  "csr_counter_denied c s csr =
     (let cb = counteren_bit csr in
      if cb = 0 \<or> priv s = PRV_M then None
      else if sr s CSR_MCOUNTEREN AND cb = 0 then Some MCA_ILLEGAL_INS
      else if virt s \<and> riscv_h_gstage_preview_enabled c \<and> sr s CSR_HCOUNTEREN AND cb = 0
      then Some MCA_VIRT_INS
      else if priv s = PRV_U \<and> sr s CSR_SCOUNTEREN AND cb = 0
      then if virt s \<and> riscv_h_gstage_preview_enabled c then Some MCA_VIRT_INS
           else Some MCA_ILLEGAL_INS
      else None)"

definition csr_check :: "config \<Rightarrow> nemu \<Rightarrow> nat \<Rightarrow> bool \<Rightarrow> word_t option" where
  "csr_check c s csr0 is_write =
     (let csr = csr0 mod 4096; csr_priv = csr div 256 mod 4; read_only = (csr div 1024 mod 4 = 3);
          h = riscv_h_gstage_preview_enabled c in
      if csr_guest_denied c s csr then
        Some (if check_csr_exist c csr \<noteq> CSR_NOT_EXIST \<and> \<not> (is_write \<and> read_only) \<and>
                 stateen_machine_allows_supervisor c s csr
              then MCA_VIRT_INS else MCA_ILLEGAL_INS)
      else if priv s < csr_priv \<and> \<not> (csr_priv = 2 \<and> priv s = PRV_S \<and> h) then Some MCA_ILLEGAL_INS
      else if is_write \<and> read_only then Some MCA_ILLEGAL_INS
      else if priv s = PRV_S \<and> \<not> stateen_machine_allows_supervisor c s csr then Some MCA_ILLEGAL_INS
      else if \<not> stateen_guest_access c s csr then Some MCA_VIRT_INS
      else if (csr = CSR_SATP \<or> csr = CSR_HGATP) \<and> priv s = PRV_S \<and> \<not> virt s \<and>
              tvm_of (sr s CSR_MSTATUS) \<noteq> 0 then Some MCA_ILLEGAL_INS
      else if csr = CSR_SATP \<and> virt s \<and> priv s = PRV_S \<and> h \<and> sr s CSR_HSTATUS AND 0x100000 \<noteq> 0
      then Some MCA_VIRT_INS
      else if is_fp_csr csr \<and>
              (sr s CSR_MISA AND 0x20 = 0 \<or> drop_bit 13 (sr s CSR_MSTATUS AND 0x6000) = 0 \<or>
               (virt s \<and> sr s CSR_VSSTATUS AND 0x6000 = 0)) then Some MCA_ILLEGAL_INS
      else if is_vector_csr csr \<and> \<not> riscv_vector_context_enabled c s then Some MCA_ILLEGAL_INS
      else if (csr = CSR_STIMECMP \<or> csr = 0x15d) \<and> priv s \<noteq> PRV_M \<and>
              (\<not> sstc_enabled s \<or> sr s CSR_MCOUNTEREN AND 2 = 0) then Some MCA_ILLEGAL_INS
      else if csr = CSR_STIMECMP \<and> virt s \<and> h \<and>
              (sr s CSR_HENVCFG AND 0x8000000000000000 = 0 \<or> sr s CSR_HCOUNTEREN AND 2 = 0)
      then Some MCA_VIRT_INS
      else case csr_counter_denied c s csr of Some e \<Rightarrow> Some e | None \<Rightarrow>
      if 0xc03 \<le> csr \<and> csr \<le> 0xc1f \<and> priv s \<noteq> PRV_M then Some MCA_ILLEGAL_INS
      else if check_csr_exist c csr = CSR_NOT_EXIST then Some MCA_ILLEGAL_INS
      else None)"

section \<open>The commit tail\<close>

definition CSR_MISA_VALUE :: "config \<Rightarrow> word_t" where
  "CSR_MISA_VALUE c = 0x8000000000141107 OR (if rv_f c then 0x20 else 0) OR (if rv_d c then 8 else 0) OR
     (if riscv_v128_preview_enabled c then 0x200000 else 0) OR
     (if riscv_h_gstage_preview_enabled c then 0x80 else 0)"

definition MSTATUS_WMASK :: "config \<Rightarrow> word_t" where
  "MSTATUS_WMASK c = 0x7E79AA OR (if riscv_v128_preview_enabled c then 0x600 else 0) OR
     (if riscv_h_gstage_preview_enabled c then 0xC000000000 else 0)"

definition SSTATUS_RMASK :: "config \<Rightarrow> word_t" where
  "SSTATUS_RMASK c = 0x80000003000C6122 OR (if riscv_v128_preview_enabled c then 0x600 else 0)"

definition SIP_WMASK :: "config \<Rightarrow> word_t" where
  "SIP_WMASK c = 2 OR (if riscv_sscofpmf_enabled c then 0x2000 else 0)"

text \<open>The masking of the four machine registers, and the write-through of the supervisor views.\<close>

definition commit_mask :: "config \<Rightarrow> nemu \<Rightarrow> nemu" where
  "commit_mask c s =
     (let s1 = set_sr CSR_MSTATUS (sr s CSR_MSTATUS AND MSTATUS_WMASK c) s;
          s2 = set_sr CSR_MISA (CSR_MISA_VALUE c) s1;
          s3 = set_sr CSR_MEDELEG (sr s2 CSR_MEDELEG AND
                 (0x8b3fe OR (if riscv_h_gstage_preview_enabled c then 0xf00400 else 0))) s2
      in set_sr CSR_MIDELEG ((sr s3 CSR_MIDELEG AND riscv_supervisor_irq_mask c) OR
           riscv_virtual_irq_mask c) s3)"

definition commit_views :: "config \<Rightarrow> nat \<Rightarrow> nemu \<Rightarrow> nemu" where
  "commit_views c lw s =
     (let s1 = (if lw = CSR_SSTATUS then
                  set_sr CSR_MSTATUS (((sr s CSR_MSTATUS AND NOT (SSTATUS_RMASK c)) OR
                    (sr s CSR_SSTATUS AND SSTATUS_RMASK c)) AND MSTATUS_WMASK c) s else s);
          s2 = (if lw = CSR_SIE then
                  let m = sr s1 CSR_MIDELEG AND riscv_supervisor_irq_mask c
                  in set_sr CSR_MIE ((sr s1 CSR_MIE AND NOT m) OR (sr s1 CSR_SIE AND m)) s1
                else s1)
      in if lw = CSR_SIP then
           let m = sr s2 CSR_MIDELEG AND SIP_WMASK c
           in set_sr CSR_MIP ((sr s2 CSR_MIP AND NOT m) OR (sr s2 CSR_SIP AND m)) s2
         else s2)"

text \<open>MPP, SXL/UXL and SD of \<open>mstatus\<close>.\<close>

definition mstatus_legalize :: "word_t \<Rightarrow> word_t" where
  "mstatus_legalize v =
     (let v1 = (if drop_bit 11 v AND 3 = 2 then v AND NOT (push_bit 11 3) else v);
          v2 = (v1 AND NOT 0xF00000000) OR 0xA00000000
      in if drop_bit 13 v2 AND 3 = 3 \<or> drop_bit 9 v2 AND 3 = 3 \<or> drop_bit 15 v2 AND 3 = 3
         then v2 OR push_bit 63 1 else v2)"

definition csr_commit :: "config \<Rightarrow> nat \<Rightarrow> nemu \<Rightarrow> nemu" where
  "csr_commit c lw s =
     (let s1 = commit_views c lw (commit_mask c s);
          s2 = (if (lw = CSR_STIMECMP \<or> lw = 0x15d \<or> lw = CSR_MENVCFG \<or> lw = CSR_MENVCFGH) \<and>
                   has_device c then clint_update_mip c s1 else s1);
          s3 = set_sr CSR_MSTATUS (mstatus_legalize (sr s2 CSR_MSTATUS)) s2;
          s4 = set_sr CSR_SSTATUS (sr s3 CSR_MSTATUS AND SSTATUS_RMASK c) s3;
          s5 = set_sr CSR_SIE (sr s4 CSR_MIE AND sr s4 CSR_MIDELEG AND riscv_supervisor_irq_mask c) s4
      in set_sr CSR_SIP (riscv_hart_mip_value c s5 AND sr s5 CSR_MIDELEG AND
           riscv_supervisor_irq_mask c) s5)"

text \<open>Counters: an explicit write replaces the increment, a trapped instruction does not retire.\<close>

definition commit_counters :: "nat \<Rightarrow> nemu \<Rightarrow> nemu" where
  "commit_counters lw s =
     (let s1 = (if lw \<noteq> CSR_MCYCLE then set_sr CSR_MCYCLE (sr s CSR_MCYCLE + 1) s else s)
      in if lw \<noteq> CSR_MINSTRET \<and> \<not> cpu_instruction_trapped (cpu s1)
         then set_sr CSR_MINSTRET (sr s1 CSR_MINSTRET + 1) s1 else s1)"

definition commit_time :: "config \<Rightarrow> nemu \<Rightarrow> nemu" where
  "commit_time c s =
     (if g_nr_guest_inst s AND 1023 = 0
      then clint_update_mip c (set_sr CSR_TIME ((g_nr_guest_inst s + 1) div 100) s) else s)"

text \<open>Everything after the instruction's own body: the new \<open>pc\<close> and the state.\<close>

definition commit_tail :: "config \<Rightarrow> vaddr_t \<Rightarrow> nemu \<Rightarrow> vaddr_t \<times> nemu" where
  "commit_tail c dnpc s =
     (let commit = (target_share c \<or> cpu_last_csr_wr (cpu s) \<noteq> 0 \<or> cpu_csr_dirty (cpu s));
          lw = cpu_last_csr_wr (cpu s);
          s1 = set_csr_dirty False (set_last_csr_wr 0 s);
          s2 = (if commit then csr_commit c lw s1 else s1);
          s3 = commit_time c (commit_counters lw s2)
      in (riscv_legalize_pc c dnpc, set_gpr 0 0 s3))"

end
