(* ===== verification/Hypervisor.thy ===== *)
theory Hypervisor
  imports Vaddr Commit
begin

text \<open>
  The parts of \<^verbatim>\<open>inst.c\<close> that guard and perform the hypervisor loads and stores, the fences of
  the guest address spaces, and the access rules of the cache-block operations.
\<close>

unbundle bit_operations_syntax

section \<open>Traps raised by an instruction\<close>

text \<open>\<open>s->dnpc = isa_raise_intr(NO, s->pc)\<close>: the value is the new \<open>dnpc\<close>.\<close>

definition raise_at :: "config \<Rightarrow> word_t \<Rightarrow> vaddr_t \<Rightarrow> vaddr_t mem" where
  "raise_at c NO pc = mlift (isa_raise_intr c NO pc)"

section \<open>Cache-block operations\<close>

datatype cbo_kind = CBO_INVAL | CBO_CLEAN_FLUSH | CBO_ZERO

text \<open>\<open>None\<close> when the access is allowed (the C value 0).\<close>

definition cbo_access_exception :: "nemu \<Rightarrow> cbo_kind \<Rightarrow> word_t option" where
  "cbo_access_exception s kind =
     (if priv s = PRV_M then None
      else
        let menvcfg = sr s CSR_MENVCFG; senvcfg = sr s CSR_SENVCFG; henvcfg = sr s CSR_HENVCFG;
            m = (case kind of CBO_INVAL \<Rightarrow> 0x30 | CBO_CLEAN_FLUSH \<Rightarrow> 0x40 | CBO_ZERO \<Rightarrow> 0x80)
        in if menvcfg AND m = 0 \<or> (priv s = PRV_U \<and> \<not> virt s \<and> senvcfg AND m = 0)
           then Some MCA_ILLEGAL_INS
           else if virt s \<and> (henvcfg AND m = 0 \<or> (priv s = PRV_U \<and> senvcfg AND m = 0))
           then Some MCA_VIRT_INS else None)"

text \<open>\<open>cbo_prepare\<close> followed by the guarded body.\<close>

definition with_cbo ::
    "config \<Rightarrow> cbo_kind \<Rightarrow> vaddr_t \<Rightarrow> vaddr_t \<Rightarrow> unit mem \<Rightarrow> vaddr_t mem" where
  "with_cbo c kind pc snpc body =
     mbind (mgets (\<lambda>s. cbo_access_exception s kind)) (\<lambda>e.
       case e of Some NO \<Rightarrow> raise_at c NO pc | None \<Rightarrow> mseq body (mret snpc))"

section \<open>Hypervisor loads and stores\<close>

definition hypervisor_pointer_mask :: "config \<Rightarrow> nemu \<Rightarrow> word_t \<Rightarrow> bool \<Rightarrow> word_t" where
  "hypervisor_pointer_mask c s address execute_access =
     (if execute_access \<or> riscv_isa_extensions c AND NEMU_ISA_EXT_SSNPM = 0 \<or>
         bit (sr s CSR_MSTATUS OR sr s CSR_VSSTATUS) 19
      then address
      else
        let pmm = (if bit (sr s CSR_HSTATUS) 8 then drop_bit 32 (sr s CSR_HENVCFG) AND 3
                   else if priv s = PRV_U then drop_bit 48 (sr s CSR_HSTATUS) AND 3
                   else drop_bit 32 (sr s CSR_SENVCFG) AND 3)
        in riscv_pointer_mask_value address (unat pmm) (drop_bit 60 (sr s CSR_VSATP) \<noteq> 0))"

definition set_h_explicit_trap :: "bool \<Rightarrow> nemu \<Rightarrow> nemu" where
  "set_h_explicit_trap b s = s\<lparr>riscv_h_explicit_trap := b\<rparr>"

definition hypervisor_memory_trap :: "config \<Rightarrow> word_t \<Rightarrow> vaddr_t \<Rightarrow> vaddr_t mem" where
  "hypervisor_memory_trap c NO pc =
     mseq (mmodify (set_h_explicit_trap True))
       (mbind (raise_at c NO pc) (\<lambda>dnpc.
         mseq (mmodify (set_h_explicit_trap False)) (mret dnpc)))"

text \<open>The exception of a failed VS-stage, and of a failed G-stage.\<close>

definition hyp_vs_cause :: "bool \<Rightarrow> vstage_fault \<Rightarrow> word_t" where
  "hyp_vs_cause store status =
     (if status = RISCV_VSTAGE_PAGE_FAULT then if store then MCA_STO_PAG_FAU else MCA_LOA_PAG_FAU
      else if status = RISCV_VSTAGE_GUEST_PAGE_FAULT
      then if store then MCA_STO_GUEST_PAG_FAU else MCA_LOA_GUEST_PAG_FAU
      else data_access_fault store)"

definition hyp_g_cause :: "bool \<Rightarrow> gstage_fault \<Rightarrow> word_t" where
  "hyp_g_cause store status =
     (if status = RISCV_GSTAGE_PAGE_FAULT
      then if store then MCA_STO_GUEST_PAG_FAU else MCA_LOA_GUEST_PAG_FAU
      else data_access_fault store)"

text \<open>The checks on the physical address: \<open>Some\<close> the exception to raise.\<close>

definition hypervisor_piece_check ::
    "config \<Rightarrow> bool \<Rightarrow> bool \<Rightarrow> nat \<Rightarrow> bool \<Rightarrow> nat \<Rightarrow> paddr_t \<Rightarrow> uint8_t \<Rightarrow> word_t option mem" where
  "hypervisor_piece_check c store execute_access len misal original_len pa pbmt =
     (let memory = paddr_is_memory_span c pa len;
          device = (\<not> memory \<and> paddr_is_mapped c pa \<and> paddr_is_mapped c (pa + of_nat len - 1));
          bad = ((\<not> memory \<and> \<not> device) \<or> (execute_access \<and> device) \<or>
                 plic_width_fault c pa original_len \<or>
                 (store \<and> \<not> device \<and> paddr_is_readonly c pa))
      in mbind (if bad then mret True
                else mlift (pmp_check c pa len PRV_S (\<not> store) store execute_access)) (\<lambda>denied.
           mret (if denied then Some (data_access_fault store)
                 else if misal \<and> (pbmt = 2 \<or> device) then Some (data_access_fault store)
                 else if misal \<and> pbmt = 1
                 then Some (if store then MCA_STO_ADD_MIS else MCA_LOA_ADD_MIS)
                 else None)))"

text \<open>\<open>Inl\<close> the \<open>dnpc\<close> of the trap taken, \<open>Inr\<close> the physical address of the piece.\<close>

definition hypervisor_memory_piece ::
    "config \<Rightarrow> vaddr_t \<Rightarrow> bool \<Rightarrow> bool \<Rightarrow> nat \<Rightarrow> bool \<Rightarrow> nat \<Rightarrow> vaddr_t \<Rightarrow> (vaddr_t + paddr_t) mem" where
  "hypervisor_memory_piece c pc store execute_access len misal original_len address =
     (let a = \<lparr>ga_store = store, ga_execute = execute_access, ga_cmo = False, ga_implicit = False\<rparr>;
          trap = (\<lambda>NO. mbind (hypervisor_memory_trap c NO pc) (\<lambda>d. mret (Inl d)))
      in mseq (mmodify (\<lambda>s. set_h_fault_write False (set_h_fault_ptw False
                (set_h_fault_gpa address (set_g_vaddr address s)))))
           (mbind (mgets (\<lambda>s. bit (sr s CSR_HSTATUS) 8)) (\<lambda>vsup.
             mbind (riscv_vstage_translate c a vsup address) (\<lambda>v.
               case v of
                 Inl (status, out) \<Rightarrow>
                   mseq (mmodify (\<lambda>s. set_h_fault_ptw (status = RISCV_VSTAGE_GUEST_PAGE_FAULT)
                                         (h_fault_out out s)))
                     (trap (hyp_vs_cause store status))
               | Inr (guest_address, vs_pbmt) \<Rightarrow>
                   mseq (mmodify (set_h_fault_gpa guest_address))
                     (mbind (riscv_gstage_translate c a guest_address) (\<lambda>g.
                       case g of
                         Inl f \<Rightarrow> trap (hyp_g_cause store f)
                       | Inr (pa, g_pbmt) \<Rightarrow>
                           mbind (hypervisor_piece_check c store execute_access len misal original_len
                                    pa (if vs_pbmt \<noteq> 0 then vs_pbmt else g_pbmt)) (\<lambda>e.
                             case e of Some NO \<Rightarrow> trap NO | None \<Rightarrow> mret (Inr pa))))))))"

text \<open>The loop of a split store: bytes only, no reservation is dropped.\<close>

primrec write_bytes_at :: "config \<Rightarrow> (nat \<Rightarrow> paddr_t) \<Rightarrow> nat list \<Rightarrow> word_t \<Rightarrow> unit mem" where
  "write_bytes_at c pa_of [] data = mret ()"
| "write_bytes_at c pa_of (i # js) data =
     mseq (paddr_write c (pa_of i) 1 (drop_bit (8 * i) data AND 0xff)) (write_bytes_at c pa_of js data)"

text \<open>The second piece, if there is one; a piece of length 0 has the address 0.\<close>

definition hypervisor_second_piece ::
    "config \<Rightarrow> vaddr_t \<Rightarrow> bool \<Rightarrow> bool \<Rightarrow> nat \<Rightarrow> bool \<Rightarrow> nat \<Rightarrow> vaddr_t \<Rightarrow> (vaddr_t + paddr_t) mem" where
  "hypervisor_second_piece c pc store execute_access len misal original_len address =
     (if len = 0 then mret (Inr 0)
      else hypervisor_memory_piece c pc store execute_access len misal original_len address)"

text \<open>Both pieces: \<open>Inl\<close> the \<open>dnpc\<close> of the trap taken, \<open>Inr\<close> the two addresses.\<close>

definition hypervisor_pieces ::
    "config \<Rightarrow> vaddr_t \<Rightarrow> bool \<Rightarrow> bool \<Rightarrow> nat \<Rightarrow> bool \<Rightarrow> nat \<Rightarrow> vaddr_t \<Rightarrow> (vaddr_t + paddr_t \<times> paddr_t) mem" where
  "hypervisor_pieces c pc store execute_access first misal len address =
     mbind (hypervisor_memory_piece c pc store execute_access first misal len address) (\<lambda>r1.
       case r1 of Inl d \<Rightarrow> mret (Inl d) | Inr lo \<Rightarrow>
         mbind (hypervisor_second_piece c pc store execute_access (len - first) misal len
                  (address + of_nat first)) (\<lambda>r2.
           case r2 of Inl d \<Rightarrow> mret (Inl d) | Inr hi \<Rightarrow> mret (Inr (lo, hi))))"

text \<open>The access itself: the value read, 0 for a store.\<close>

definition hypervisor_transfer ::
    "config \<Rightarrow> bool \<Rightarrow> paddr_t \<Rightarrow> paddr_t \<Rightarrow> nat \<Rightarrow> nat \<Rightarrow> word_t \<Rightarrow> word_t mem" where
  "hypervisor_transfer c store lo hi first len data =
     (if store then
        mseq (if len - first \<noteq> 0 then write_bytes_at c (split_addr lo hi first) [0..<len] data
              else paddr_write c lo len data) (mret 0)
      else if len - first \<noteq> 0 then read_split c (split_addr lo hi first) [0..<len] 0
      else paddr_read c lo len)"

text \<open>\<open>Inl\<close> the \<open>dnpc\<close> of the trap taken, \<open>Inr\<close> the value read (0 for a store).\<close>

definition hypervisor_memory_access ::
    "config \<Rightarrow> vaddr_t \<Rightarrow> bool \<Rightarrow> bool \<Rightarrow> nat \<Rightarrow> vaddr_t \<Rightarrow> word_t \<Rightarrow> (vaddr_t + word_t) mem" where
  "hypervisor_memory_access c pc store execute_access len address0 data =
     mbind (mgets (\<lambda>s. s)) (\<lambda>s.
       if virt s then mbind (raise_at c MCA_VIRT_INS pc) (\<lambda>d. mret (Inl d))
       else if \<not> riscv_h_gstage_preview_enabled c \<or>
               (priv s = PRV_U \<and> \<not> bit (sr s CSR_HSTATUS) 9)
       then mbind (raise_at c MCA_ILLEGAL_INS pc) (\<lambda>d. mret (Inl d))
       else
         let address = hypervisor_pointer_mask c s address0 execute_access;
             first = min (page_rest address) len
         in mbind (hypervisor_pieces c pc store execute_access first (misaligned address len) len address)
              (\<lambda>r. case r of Inl d \<Rightarrow> mret (Inl d) | Inr (lo, hi) \<Rightarrow>
                mbind (hypervisor_transfer c store lo hi first len data) (\<lambda>v. mret (Inr v))))"

section \<open>Hypervisor fences\<close>

definition hypervisor_fence :: "config \<Rightarrow> vaddr_t \<Rightarrow> vaddr_t \<Rightarrow> bool \<Rightarrow> vaddr_t mem" where
  "hypervisor_fence c pc snpc guest_stage =
     mbind (mgets (\<lambda>s. s)) (\<lambda>s.
       if virt s then raise_at c MCA_VIRT_INS pc
       else if \<not> riscv_h_gstage_preview_enabled c \<or> priv s = PRV_U \<or>
               (guest_stage \<and> priv s = PRV_S \<and> tvm_of (sr s CSR_MSTATUS) \<noteq> 0)
       then raise_at c MCA_ILLEGAL_INS pc
       else mseq (mmodify soft_tlb_flush) (mret snpc))"

end
