(* ===== verification/Vec_Mem.thy ===== *)
theory Vec_Mem
  imports Vec_Regs Hypervisor
begin

text \<open>
  Vector loads and stores: \<open>riscv_vector_memory\<close> of \<^verbatim>\<open>vector-control.c\<close> in the RV64 build. The result is
  0 or the cause the caller raises; a fault of the memory path is the exit \<open>Mem_fault\<close> of the
  computation, which a fault-only-first load catches where the code installs its own \<open>setjmp\<close> target.
\<close>

unbundle bit_operations_syntax

text \<open>What the decoding of the instruction leaves for the element loop.\<close>

record vmem_plan =
  vm_group :: nat
  vm_limit :: nat
  vm_fields :: nat
  vm_data_bytes :: nat

section \<open>Decoding\<close>

definition vm_mop :: "uint32_t \<Rightarrow> nat" where
  "vm_mop i = unat (drop_bit 26 i AND 3)"

definition vm_whole :: "uint32_t \<Rightarrow> bool" where
  "vm_whole i \<longleftrightarrow> vm_mop i = 0 \<and> v_src2 i = 8"

definition vm_mask_transfer :: "uint32_t \<Rightarrow> bool" where
  "vm_mask_transfer i \<longleftrightarrow> vm_mop i = 0 \<and> v_src2 i = 11"

definition vm_fof :: "uint32_t \<Rightarrow> bool \<Rightarrow> bool" where
  "vm_fof i store \<longleftrightarrow> \<not> store \<and> vm_mop i = 0 \<and> v_src2 i = 16"

text \<open>The element width of the encoding.\<close>

definition vm_bytes :: "uint32_t \<Rightarrow> nat" where
  "vm_bytes i = (let width = v_form i in if width \<noteq> 0 then 2 ^ (width - 4) else 1)"

text \<open>LMUL in eighths.\<close>

definition lmul_eighths :: "nemu \<Rightarrow> nat" where
  "lmul_eighths s = (let e = unat (sr s CSR_VTYPE AND 7) in if e < 4 then 8 * 2 ^ e else 8 div 2 ^ (8 - e))"

definition vm_whole_plan :: "uint32_t \<Rightarrow> bool \<Rightarrow> nemu \<Rightarrow> vmem_plan option" where
  "vm_whole_plan i store s =
     (let regs = unat (drop_bit 29 i AND 7) + 1; limit = regs * 16 div vm_bytes i in
      if \<not> v_unmasked i \<or> regs \<notin> {1, 2, 4, 8} \<or> (store \<and> v_form i \<noteq> 0) \<or>
         unat (sr s CSR_VSTART) \<ge> limit
      then None
      else Some \<lparr>vm_group = regs, vm_limit = limit, vm_fields = 1, vm_data_bytes = vm_bytes i\<rparr>)"

text \<open>The index register group of an indexed access and its overlap with the data.\<close>

definition vm_index_rejected :: "uint32_t \<Rightarrow> bool \<Rightarrow> nemu \<Rightarrow> nat \<Rightarrow> nat \<Rightarrow> nat \<Rightarrow> bool" where
  "vm_index_rejected i store s regs nf data_bytes =
     (let mode = v_src2 i; vector_reg = v_dest i; bytes = vm_bytes i;
          index_eighths = lmul_eighths s * bytes div v_bytes s;
          index_group = (if index_eighths < 8 then 1 else index_eighths div 8);
          overlap = (vector_reg < mode + index_group \<and> mode < vector_reg + regs * nf)
      in index_eighths = 0 \<or> index_eighths > 64 \<or> \<not> vector_group_valid mode index_group \<or>
         (store \<and> data_bytes \<noteq> bytes \<and> overlap) \<or>
         (\<not> store \<and> overlap \<and>
          (nf \<noteq> 1 \<or> (data_bytes < bytes \<and> vector_reg \<noteq> mode) \<or>
           (data_bytes > bytes \<and> (index_eighths < 8 \<or> vector_reg + regs \<noteq> mode + index_group)))))"

definition vm_typed_plan :: "uint32_t \<Rightarrow> bool \<Rightarrow> nemu \<Rightarrow> vmem_plan option" where
  "vm_typed_plan i store s =
     (let indexed = odd (vm_mop i); fields = unat (drop_bit 29 i AND 7) + 1;
          maximum = vector_vlmax (sr s CSR_VTYPE); vector_reg = v_dest i in
      if maximum = 0 \<or> vl_of s > maximum then None
      else if vm_mask_transfer i
      then if fields \<noteq> 1 \<or> \<not> v_unmasked i \<or> v_form i \<noteq> 0 then None
           else Some \<lparr>vm_group = 1, vm_limit = (vl_of s + 7) div 8, vm_fields = fields,
                      vm_data_bytes = vm_bytes i\<rparr>
      else
        let sew_bytes = v_bytes s;
            data_bytes = (if indexed then sew_bytes else vm_bytes i);
            emul_eighths = lmul_eighths s * data_bytes div sew_bytes;
            regs = (if emul_eighths < 8 then 1 else emul_eighths div 8) in
        if emul_eighths = 0 \<or> emul_eighths > 64 then None
        else if regs * fields > 8 \<or> vector_reg + regs * fields > 32 then None
        else if indexed \<and> vm_index_rejected i store s regs fields data_bytes then None
        else Some \<lparr>vm_group = regs, vm_limit = vl_of s, vm_fields = fields, vm_data_bytes = data_bytes\<rparr>)"

text \<open>\<open>None\<close> is \<open>MCA_ILLEGAL_INS\<close>.\<close>

definition vmem_decode :: "config \<Rightarrow> uint32_t \<Rightarrow> bool \<Rightarrow> nemu \<Rightarrow> vmem_plan option" where
  "vmem_decode c i store s =
     (let mode = v_src2 i; width = v_form i in
      if \<not> riscv_vector_context_enabled c s \<or> i AND 0x10000000 \<noteq> 0 then None
      else if vm_mop i = 0 \<and> \<not> vm_whole i \<and> \<not> vm_mask_transfer i \<and> \<not> vm_fof i store \<and> mode \<noteq> 0 then None
      else if width \<noteq> 0 \<and> width < 5 then None
      else
        case (if vm_whole i then vm_whole_plan i store s else vm_typed_plan i store s) of
          None \<Rightarrow> None
        | Some p \<Rightarrow>
            if \<not> vector_group_valid (v_dest i) (vm_group p) \<or>
               (\<not> v_unmasked i \<and> \<not> store \<and> v_dest i = 0)
            then None else Some p)"

section \<open>The element loop\<close>

text \<open>One field of one segment: 0 to go on, or the cause with which the function returns.\<close>

definition vm_access :: "config \<Rightarrow> uint32_t \<Rightarrow> bool \<Rightarrow> vmem_plan \<Rightarrow> bool \<Rightarrow> nat \<Rightarrow> vaddr_t \<Rightarrow> nat \<Rightarrow> word_t mem" where
  "vm_access c i store p probe index segment_base field =
     (let address = segment_base + of_nat (field * vm_data_bytes p); n = vm_data_bytes p;
          reg = v_dest i + field * vm_group p in
      if vm_whole i \<and> address AND of_nat (n - 1) \<noteq> 0
      then mseq (mmodify (set_g_vaddr address))
             (mret (if store then MCA_STO_ADD_MIS else MCA_LOA_ADD_MIS))
      else if probe
      then mbind (vaddr_probe_vector c address n store) (\<lambda>restricted.
             if restricted
             then mseq (mmodify (set_g_vaddr address))
                    (mthrow (Mem_fault (if store then MCA_STO_ACC_FAU else MCA_LOA_ACC_FAU)))
             else mret 0)
      else if store
      then mbind (vector_element_read reg index n) (\<lambda>v. mseq (vaddr_write c address n v) (mret 0))
      else mbind (vaddr_read c address n) (\<lambda>v. mseq (vector_element_write reg index n v) (mret 0)))"

definition vm_fields_loop ::
    "config \<Rightarrow> uint32_t \<Rightarrow> bool \<Rightarrow> vmem_plan \<Rightarrow> bool \<Rightarrow> nat \<Rightarrow> vaddr_t \<Rightarrow> word_t mem" where
  "vm_fields_loop c i store p probe index segment_base =
     mfold [0..<vm_fields p] (\<lambda>field r.
       if r \<noteq> 0 then mret r else vm_access c i store p probe index segment_base field) 0"

text \<open>A segment with several fields is probed as a whole before its first access.\<close>

definition vm_segment :: "config \<Rightarrow> uint32_t \<Rightarrow> bool \<Rightarrow> vmem_plan \<Rightarrow> nat \<Rightarrow> vaddr_t \<Rightarrow> word_t mem" where
  "vm_segment c i store p index segment_base =
     mbind (if vm_fields p > 1 then vm_fields_loop c i store p True index segment_base else mret 0) (\<lambda>r.
       if r \<noteq> 0 then mret r else vm_fields_loop c i store p False index segment_base)"

definition vm_element :: "config \<Rightarrow> uint32_t \<Rightarrow> bool \<Rightarrow> nemu \<Rightarrow> vmem_plan \<Rightarrow> nat \<Rightarrow> word_t \<Rightarrow> word_t mem" where
  "vm_element c i store s p index r =
     (if r \<noteq> 0 then mret r
      else
        let indexed = odd (vm_mop i); strided = (vm_mop i = 2); mode = v_src2 i;
            base = gpr s (v_src1 i);
            stride = (if strided then gpr s mode else of_nat (vm_fields p * vm_data_bytes p))
        in mseq (mmodify (set_sr CSR_VSTART (of_nat index)))
             (vactive_acc (v_unmasked i) index 0
               (mbind (if indexed then vector_element_read mode index (vm_bytes i)
                       else mret (of_nat index * stride)) (\<lambda>offset.
                 vm_segment c i store p index (base + offset)))))"

definition vm_loop :: "config \<Rightarrow> uint32_t \<Rightarrow> bool \<Rightarrow> nemu \<Rightarrow> vmem_plan \<Rightarrow> word_t mem" where
  "vm_loop c i store s p =
     mbind (mfold [vstart_of s..<vm_limit p] (vm_element c i store s p) 0) (\<lambda>r.
       if r \<noteq> 0 then mret r else mseq (mmodify (set_sr CSR_VSTART 0)) (mret 0))"

section \<open>Fault-only-first\<close>

text \<open>A fault past the first element shortens \<open>vl\<close>; any other goes on to the outer target.\<close>

definition fof_catch :: "word_t mem \<Rightarrow> word_t mem" where
  "fof_catch m = (\<lambda>s.
     case m s of
       (Inl (Mem_fault cause), t) \<Rightarrow>
         if vstart_of t \<noteq> 0 \<and>
            cause \<in> {MCA_LOA_ADD_MIS, MCA_LOA_ACC_FAU, MCA_LOA_PAG_FAU, MCA_LOA_GUEST_PAG_FAU}
         then (Inr 0, set_sr CSR_VSTART 0 (set_sr CSR_VL (of_nat (vstart_of t)) t))
         else (Inl (Mem_fault cause), t)
     | r \<Rightarrow> r)"

definition riscv_vector_memory :: "config \<Rightarrow> uint32_t \<Rightarrow> bool \<Rightarrow> word_t mem" where
  "riscv_vector_memory c i store =
     mbind (mgets (\<lambda>s. s)) (\<lambda>s.
       case vmem_decode c i store s of
         None \<Rightarrow> mret MCA_ILLEGAL_INS
       | Some p \<Rightarrow>
           mseq (mmodify (\<lambda>s. set_csr_dirty True (vector_mark_dirty False s)))
             (if vm_fof i store then fof_catch (vm_loop c i store s p) else vm_loop c i store s p))"

end
