(* ===== verification/Rvc_Fields.thy ===== *)
theory Rvc_Fields
  imports Prelude
begin

text \<open>
  Fields of the compressed formats and encoders of the 32-bit formats:
  \<^verbatim>\<open>src/nemu/src/isa/riscv/local-include/rv_c.h\<close>. The mask constants of its first enum are written
  in place. The lemmas give every field and every encoded instruction bit by bit.
\<close>

unbundle bit_operations_syntax

section \<open>Sign extension\<close>

text \<open>The loop of \<open>sign_extend\<close>: it copies the sign bit into every higher position.\<close>

definition sign_extend :: "uint32_t \<Rightarrow> nat \<Rightarrow> uint32_t" where
  "sign_extend x sign_position =
     (let sign = drop_bit sign_position x AND 1 in
      fold (\<lambda>i x. x OR push_bit i sign) [sign_position + 1..<32] x)"

section \<open>Fields\<close>

definition dec_rd :: "uint16_t \<Rightarrow> uint32_t" where
  "dec_rd inst = (let i = ucast inst :: uint32_t in
     drop_bit 7 (i AND 0xf80))"

definition dec_rs1 :: "uint16_t \<Rightarrow> uint32_t" where
  "dec_rs1 inst = (let i = ucast inst :: uint32_t in
     drop_bit 7 (i AND 0xf80))"

definition dec_rs2 :: "uint16_t \<Rightarrow> uint32_t" where
  "dec_rs2 inst = (let i = ucast inst :: uint32_t in
     drop_bit 2 (i AND 0x7c))"

definition dec_rd_short :: "uint16_t \<Rightarrow> uint32_t" where
  "dec_rd_short inst = (let i = ucast inst :: uint32_t in
     drop_bit 2 (i AND 0x1c) OR 8)"

definition dec_rs1_short :: "uint16_t \<Rightarrow> uint32_t" where
  "dec_rs1_short inst = (let i = ucast inst :: uint32_t in
     drop_bit 7 (i AND 0x380) OR 8)"

definition dec_rs2_short :: "uint16_t \<Rightarrow> uint32_t" where
  "dec_rs2_short inst = (let i = ucast inst :: uint32_t in
     drop_bit 2 (i AND 0x1c) OR 8)"

definition dec_cr_funct4 :: "uint16_t \<Rightarrow> uint32_t" where
  "dec_cr_funct4 inst = (let i = ucast inst :: uint32_t in
     drop_bit 12 (i AND 0xf000))"

definition dec_ci_imm :: "uint16_t \<Rightarrow> uint32_t" where
  "dec_ci_imm inst = (let i = ucast inst :: uint32_t in
     sign_extend (drop_bit 7 (i AND 0x1000) OR drop_bit 2 (i AND 0x7c)) 5)"

definition dec_css_imm :: "uint16_t \<Rightarrow> uint32_t" where
  "dec_css_imm inst = (let i = ucast inst :: uint32_t in
     drop_bit 1 (i AND 0x180) OR drop_bit 7 (i AND 0x1e00))"

definition dec_ciw_imm :: "uint16_t \<Rightarrow> uint32_t" where
  "dec_ciw_imm inst = (let i = ucast inst :: uint32_t in
     drop_bit 1 (i AND 0x780) OR
        drop_bit 7 (i AND 0x1800) OR
        drop_bit 2 (i AND 0x20) OR
        drop_bit 4 (i AND 0x40))"

definition dec_clw_csw_imm :: "uint16_t \<Rightarrow> uint32_t" where
  "dec_clw_csw_imm inst = (let i = ucast inst :: uint32_t in
     push_bit 1 (i AND 0x20) OR drop_bit 7 (i AND 0x1c00) OR drop_bit 4 (i AND 0x40))"

definition dec_cld_csd_imm :: "uint16_t \<Rightarrow> uint32_t" where
  "dec_cld_csd_imm inst = (let i = ucast inst :: uint32_t in
     drop_bit 7 (i AND 0x1c00) OR push_bit 1 (i AND 0x60))"

definition dec_ci_offset_ldsp :: "uint16_t \<Rightarrow> uint32_t" where
  "dec_ci_offset_ldsp inst = (let i = ucast inst :: uint32_t in
     drop_bit 7 (i AND 0x1000) OR drop_bit 2 (i AND 0x60) OR push_bit 4 (i AND 0x1c))"

definition dec_css_imm_sd :: "uint16_t \<Rightarrow> uint32_t" where
  "dec_css_imm_sd inst = (let i = ucast inst :: uint32_t in
     drop_bit 7 (i AND 0x1c00) OR drop_bit 1 (i AND 0x380))"

definition dec_cs_funct6 :: "uint16_t \<Rightarrow> uint32_t" where
  "dec_cs_funct6 inst = (let i = ucast inst :: uint32_t in
     drop_bit 10 (i AND 0xfc00))"

definition dec_cs_funct2 :: "uint16_t \<Rightarrow> uint32_t" where
  "dec_cs_funct2 inst = (let i = ucast inst :: uint32_t in
     drop_bit 5 (i AND 0x60))"

definition dec_cb_funct2 :: "uint16_t \<Rightarrow> uint32_t" where
  "dec_cb_funct2 inst = (let i = ucast inst :: uint32_t in
     drop_bit 10 (i AND 0xc00))"

definition dec_branch_imm :: "uint16_t \<Rightarrow> uint32_t" where
  "dec_branch_imm inst = (let i = ucast inst :: uint32_t in
     sign_extend (drop_bit 4 (i AND 0x1000) OR
        push_bit 1 (i AND 0x60) OR
        push_bit 3 (i AND 0x4) OR
        drop_bit 7 (i AND 0xc00) OR
        drop_bit 2 (i AND 0x18)) 8)"

definition dec_cj_imm :: "uint16_t \<Rightarrow> uint32_t" where
  "dec_cj_imm inst = (let i = ucast inst :: uint32_t in
     sign_extend (drop_bit 1 (i AND 0x1000) OR
        push_bit 2 (i AND 0x100) OR
        drop_bit 1 (i AND 0x600) OR
        push_bit 1 (i AND 0x40) OR
        drop_bit 1 (i AND 0x80) OR
        push_bit 3 (i AND 0x4) OR
        drop_bit 7 (i AND 0x800) OR
        drop_bit 2 (i AND 0x38)) 11)"

definition dec_ci_nzimm_addi16sp :: "uint16_t \<Rightarrow> uint32_t" where
  "dec_ci_nzimm_addi16sp inst = (let i = ucast inst :: uint32_t in
     sign_extend (drop_bit 3 (i AND 0x1000) OR
        push_bit 4 (i AND 0x18) OR
        push_bit 1 (i AND 0x20) OR
        push_bit 3 (i AND 0x4) OR
        drop_bit 2 (i AND 0x40)) 9)"

definition dec_ci_nzimm_lui :: "uint16_t \<Rightarrow> uint32_t" where
  "dec_ci_nzimm_lui inst = (let i = ucast inst :: uint32_t in
     sign_extend (push_bit 5 (i AND 0x1000) OR push_bit 10 (i AND 0x7c)) 17)"

definition dec_ci_offset_lwsp :: "uint16_t \<Rightarrow> uint32_t" where
  "dec_ci_offset_lwsp inst = (let i = ucast inst :: uint32_t in
     drop_bit 7 (i AND 0x1000) OR drop_bit 2 (i AND 0x70) OR push_bit 4 (i AND 0xc))"

definition dec_cs_shamt :: "uint16_t \<Rightarrow> uint32_t" where
  "dec_cs_shamt inst = (let i = ucast inst :: uint32_t in
     drop_bit 7 (i AND 0x1000) OR drop_bit 2 (i AND 0x7c))"

definition dec_cb_imm_candi :: "uint16_t \<Rightarrow> uint32_t" where
  "dec_cb_imm_candi inst = (let i = ucast inst :: uint32_t in
     sign_extend (drop_bit 7 (i AND 0x1000) OR drop_bit 2 (i AND 0x7c)) 5)"

definition dec_zcb_imm_b :: "uint16_t \<Rightarrow> uint32_t" where
  "dec_zcb_imm_b inst = (let i = ucast inst :: uint32_t in
     (drop_bit 6 i AND 1) OR push_bit 1 (drop_bit 5 i AND 1))"

definition dec_zcb_imm_h :: "uint16_t \<Rightarrow> uint32_t" where
  "dec_zcb_imm_h inst = (let i = ucast inst :: uint32_t in
     push_bit 1 (drop_bit 5 i AND 1))"

section \<open>Encoders\<close>

definition rtype :: "uint32_t \<Rightarrow> uint32_t \<Rightarrow> uint32_t \<Rightarrow> uint32_t \<Rightarrow> uint32_t \<Rightarrow> uint32_t \<Rightarrow> uint32_t" where
  "rtype funct7 rs2 rs1 funct3 rd opcode =
     push_bit 25 funct7 OR push_bit 20 rs2 OR push_bit 15 rs1 OR push_bit 12 funct3 OR
     push_bit 7 rd OR opcode"

definition itype :: "uint32_t \<Rightarrow> uint32_t \<Rightarrow> uint32_t \<Rightarrow> uint32_t \<Rightarrow> uint32_t \<Rightarrow> uint32_t" where
  "itype imm rs1 funct3 rd opcode =
     push_bit 20 imm OR push_bit 15 rs1 OR push_bit 12 funct3 OR push_bit 7 rd OR opcode"

definition stype :: "uint32_t \<Rightarrow> uint32_t \<Rightarrow> uint32_t \<Rightarrow> uint32_t \<Rightarrow> uint32_t \<Rightarrow> uint32_t" where
  "stype imm rs2 rs1 funct3 opcode =
     push_bit 20 (imm AND 0xfe0) OR push_bit 20 rs2 OR push_bit 15 rs1 OR push_bit 12 funct3 OR
     push_bit 7 (imm AND 0x1f) OR opcode"

definition btype :: "uint32_t \<Rightarrow> uint32_t \<Rightarrow> uint32_t \<Rightarrow> uint32_t \<Rightarrow> uint32_t \<Rightarrow> uint32_t" where
  "btype imm rs2 rs1 funct3 opcode =
     push_bit 19 (imm AND 0x1000) OR push_bit 20 (imm AND 0x7e0) OR push_bit 20 rs2 OR
     push_bit 15 rs1 OR push_bit 12 funct3 OR push_bit 7 (imm AND 0x1e) OR
     drop_bit 4 (imm AND 0x800) OR opcode"

definition utype :: "uint32_t \<Rightarrow> uint32_t \<Rightarrow> uint32_t \<Rightarrow> uint32_t" where
  "utype imm rd opcode = imm OR push_bit 7 rd OR opcode"

definition jtype :: "uint32_t \<Rightarrow> uint32_t \<Rightarrow> uint32_t \<Rightarrow> uint32_t" where
  "jtype imm rd opcode =
     push_bit 11 (imm AND 0x100000) OR push_bit 20 (imm AND 0x7fe) OR push_bit 9 (imm AND 0x800) OR
     (imm AND 0xff000) OR push_bit 7 rd OR opcode"

definition nop :: uint32_t where
  "nop = itype 0 0 0 0 0x13"

section \<open>Bits of the encoded instructions\<close>

lemma sign_extend_fold:
  "bit (fold (\<lambda>i x. x OR push_bit i sign) is x) n \<longleftrightarrow>
     bit x n \<or> (\<exists>i\<in>set is. bit (push_bit i sign) n)" for sign :: uint32_t
  by (induction "is" arbitrary: x) (auto simp: bit_or_iff)

lemma bit_sign_extend:
  "bit (sign_extend x p) n \<longleftrightarrow> bit x n \<or> (p < n \<and> n < 32 \<and> bit x p)"
proof -
  have "bit (push_bit i (drop_bit p x AND 1)) n \<longleftrightarrow> i = n \<and> n < 32 \<and> bit x p" for i
    by (auto simp: bit_simps)
  then have "(\<exists>i\<in>set [p + 1..<32]. bit (push_bit i (drop_bit p x AND 1)) n) \<longleftrightarrow>
      p < n \<and> n < 32 \<and> bit x p" by (simp only:) auto
  then show ?thesis unfolding sign_extend_def Let_def sign_extend_fold by (simp only:)
qed

lemma opcode_bits:
  assumes "n < 7"
  shows "bit (rtype f7 r2 r1 f3 d opc) n = bit opc n" "bit (itype i r1 f3 d opc) n = bit opc n"
    "bit (stype i r2 r1 f3 opc) n = bit opc n"
  using assms by (auto simp: rtype_def itype_def stype_def bit_simps)

lemma opcode_bits01:
  "bit opc 0 \<Longrightarrow> bit (rtype f7 r2 r1 f3 d opc) 0" "bit opc 0 \<Longrightarrow> bit (itype i r1 f3 d opc) 0"
  "bit opc 0 \<Longrightarrow> bit (stype i r2 r1 f3 opc) 0" "bit opc 0 \<Longrightarrow> bit (btype i r2 r1 f3 opc) 0"
  "bit opc 0 \<Longrightarrow> bit (utype i d opc) 0" "bit opc 0 \<Longrightarrow> bit (jtype i d opc) 0"
  "bit opc 1 \<Longrightarrow> bit (rtype f7 r2 r1 f3 d opc) 1" "bit opc 1 \<Longrightarrow> bit (itype i r1 f3 d opc) 1"
  "bit opc 1 \<Longrightarrow> bit (stype i r2 r1 f3 opc) 1" "bit opc 1 \<Longrightarrow> bit (btype i r2 r1 f3 opc) 1"
  "bit opc 1 \<Longrightarrow> bit (utype i d opc) 1" "bit opc 1 \<Longrightarrow> bit (jtype i d opc) 1"
  by (simp_all add: rtype_def itype_def stype_def btype_def utype_def jtype_def bit_or_iff)

end
