(* ===== verification/Rvc_Decompress.thy ===== *)
theory Rvc_Decompress
  imports Rvc_Fields Decode
begin

text \<open>
  The decompressor of the C and Zcb extensions, \<^verbatim>\<open>src/nemu/src/isa/riscv/inst_c.c\<close>: a list of
  patterns scanned in order, each with its operand format and the 32-bit instruction it expands to.
  \<open>rv64\<close> selects between the \<open>CONFIG_RV64\<close> branches; two entries of the same pattern under
  \<open>#ifdef\<close>/\<open>#else\<close> are one entry here.
\<close>

unbundle bit_operations_syntax

section \<open>Operands\<close>

datatype c_format = CR | CI | CSS | CIW | CL | CS | CA | CB | CJ | CN

text \<open>The four outputs \<open>imm\<close>, \<open>rs1\<close>, \<open>rs2\<close>, \<open>rd\<close>, zero before the call.\<close>

type_synonym c_operands = "uint32_t \<times> uint32_t \<times> uint32_t \<times> uint32_t"

definition decode_operand_c :: "uint32_t \<Rightarrow> c_format \<Rightarrow> c_operands" where
  "decode_operand_c inst format =
     (let i = ucast inst :: uint16_t in
      case format of
        CR \<Rightarrow> (0, dec_rs1 i, dec_rs2 i, dec_rd i)
      | CI \<Rightarrow> (dec_ci_imm i, 0, dec_rs2 i, dec_rd i)
      | CSS \<Rightarrow> (dec_css_imm i, 0, dec_rs2 i, 0)
      | CIW \<Rightarrow> (dec_ciw_imm i, 0, 0, dec_rd_short i)
      | CL \<Rightarrow> (dec_clw_csw_imm i, dec_rs1_short i, 0, dec_rd_short i)
      | CS \<Rightarrow> (dec_clw_csw_imm i, dec_rs1_short i, dec_rs2_short i, 0)
      | CA \<Rightarrow> (0, dec_rs1_short i, dec_rs2_short i, 0)
      | CB \<Rightarrow> (dec_branch_imm i, dec_rs1_short i, 0, 0)
      | CJ \<Rightarrow> (dec_cj_imm i, 0, 0, 0)
      | CN \<Rightarrow> (0, 0, 0, 0))"

section \<open>The instruction listing\<close>

text \<open>An entry of the listing: pattern, format, and the word \<open>di\<close> its body computes.\<close>

type_synonym instpat =
  "string \<times> c_format \<times> (uint32_t \<Rightarrow> uint32_t \<Rightarrow> uint32_t \<Rightarrow> uint32_t \<Rightarrow> uint32_t)"

definition rvc_quadrant0 :: "bool \<Rightarrow> uint32_t \<Rightarrow> instpat list" where
  "rvc_quadrant0 rv64 s =
    (let imm_ld = dec_cld_csd_imm (ucast s) in
     [\<comment> \<open>c.inv\<close> (''000 00000000 000 00'', CN, \<lambda>_ _ _ _. 0),
      \<comment> \<open>c.addi4spn\<close>
       (''000 ???????? ??? 00'', CIW, \<lambda>imm _ _ rd.
          if imm = 0 then 0 else itype imm 2 0 rd 0x13),
      \<comment> \<open>c.fld\<close>
       (''001 ???????? ??? 00'', CL, \<lambda>_ rs1 _ rd. itype imm_ld rs1 3 rd 7),
      \<comment> \<open>c.lq\<close> (''001 ???????? ??? 00'', CL, \<lambda>_ _ _ _. 0),
      \<comment> \<open>c.lw\<close>
       (''010 ???????? ??? 00'', CL, \<lambda>imm rs1 _ rd. itype imm rs1 2 rd 3),
      \<comment> \<open>c.ld / c.flw\<close>
       (''011 ???????? ??? 00'', CL, \<lambda>imm rs1 _ rd.
          if rv64 then itype imm_ld rs1 3 rd 3 else itype imm rs1 2 rd 7),
      \<comment> \<open>c.ld\<close> (''011 ???????? ??? 00'', CL, \<lambda>_ _ _ _. 0),
      \<comment> \<open>c.lbu\<close>
       (''100 000 ??? ?? ??? 00'', CL, \<lambda>_ rs1 _ rd.
          itype (dec_zcb_imm_b (ucast s)) rs1 4 rd 3),
      \<comment> \<open>c.lhu\<close>
       (''100 001 ??? 0? ??? 00'', CL, \<lambda>_ rs1 _ rd.
          itype (dec_zcb_imm_h (ucast s)) rs1 5 rd 3),
      \<comment> \<open>c.lh\<close>
       (''100 001 ??? 1? ??? 00'', CL, \<lambda>_ rs1 _ rd.
          itype (dec_zcb_imm_h (ucast s)) rs1 1 rd 3),
      \<comment> \<open>c.sb\<close>
       (''100 010 ??? ?? ??? 00'', CS, \<lambda>_ rs1 rs2 _.
          stype (dec_zcb_imm_b (ucast s)) rs2 rs1 0 0x23),
      \<comment> \<open>c.sh\<close>
       (''100 011 ??? 0? ??? 00'', CS, \<lambda>_ rs1 rs2 _.
          stype (dec_zcb_imm_h (ucast s)) rs2 rs1 1 0x23),
      \<comment> \<open>c.rev\<close> (''100 ???????? ??? 00'', CN, \<lambda>_ _ _ _. 0),
      \<comment> \<open>c.fsd\<close>
       (''101 ???????? ??? 00'', CS, \<lambda>_ rs1 rs2 _. stype imm_ld rs2 rs1 3 0x27),
      \<comment> \<open>c.sq\<close> (''101 ???????? ??? 00'', CS, \<lambda>_ _ _ _. 0),
      \<comment> \<open>c.sw\<close>
       (''110 ???????? ??? 00'', CS, \<lambda>imm rs1 rs2 _. stype imm rs2 rs1 2 0x23),
      \<comment> \<open>c.sd / c.fsw\<close>
       (''111 ???????? ??? 00'', CS, \<lambda>imm rs1 rs2 _.
          if rv64 then stype imm_ld rs2 rs1 3 0x23 else stype imm rs2 rs1 2 0x27),
      \<comment> \<open>c.sd\<close> (''111 ???????? ??? 00'', CS, \<lambda>_ _ _ _. 0)])"

definition rvc_quadrant1 :: "bool \<Rightarrow> uint32_t \<Rightarrow> instpat list" where
  "rvc_quadrant1 rv64 s =
    (let nzimm_addi16sp = dec_ci_nzimm_addi16sp (ucast s);
         nzimm_lui = dec_ci_nzimm_lui (ucast s);
         shamt = dec_cs_shamt (ucast s);
         imm_candi = dec_cb_imm_candi (ucast s) in
     [\<comment> \<open>c.nop\<close>
       (''000 ?00000?? ??? 01'', CI, \<lambda>imm _ _ _. itype imm 0 0 0 0x13),
      \<comment> \<open>c.addi\<close>
       (''000 ???????? ??? 01'', CI, \<lambda>imm _ _ rd.
          if rd = 0 \<or> imm = 0 then nop else itype imm rd 0 rd 0x13),
      \<comment> \<open>c.addiw / c.jal\<close>
       (''001 ???????? ??? 01'', (if rv64 then CI else CJ), \<lambda>imm _ _ rd.
          if rv64 then if rd = 0 then 0 else itype imm rd 0 rd 0x1b else jtype imm 1 0x6f),
      \<comment> \<open>c.addiw\<close>
       (''001 ???????? ??? 01'', CI, \<lambda>imm _ _ rd.
          if rd = 0 \<or> imm = 0 then nop else itype imm rd 0 rd 0x13),
      \<comment> \<open>c.li\<close>
       (''010 ???????? ??? 01'', CI, \<lambda>imm _ _ rd.
          if rd = 0 then nop else itype imm 0 0 rd 0x13),
      \<comment> \<open>c.addi16sp\<close>
       (''011 ?00010?? ??? 01'', CI, \<lambda>_ _ _ _.
          if nzimm_addi16sp = 0 then 0 else itype nzimm_addi16sp 2 0 2 0x13),
      \<comment> \<open>c.lui\<close>
       (''011 ???????? ??? 01'', CI, \<lambda>_ _ _ rd.
          if nzimm_lui = 0 then if rd < 16 \<and> rd AND 1 \<noteq> 0 then nop else 0
        else if rd = 0 then nop else utype nzimm_lui rd 0x37),
      \<comment> \<open>c.srli\<close>
       (''100 ?00????? ??? 01'', CB, \<lambda>_ rs1 _ _. rtype 0 shamt rs1 5 rs1 0x13),
      \<comment> \<open>c.srli64\<close> (''100 000???00 000 01'', CB, \<lambda>_ _ _ _. 0),
      \<comment> \<open>c.srai\<close>
       (''100 ?01????? ??? 01'', CB, \<lambda>_ rs1 _ _. rtype 0x20 shamt rs1 5 rs1 0x13),
      \<comment> \<open>c.srai64\<close> (''100 001???00 000 01'', CB, \<lambda>_ _ _ _. 0),
      \<comment> \<open>c.andi\<close>
       (''100 ?10????? ??? 01'', CB, \<lambda>_ rs1 _ _. itype imm_candi rs1 7 rs1 0x13),
      \<comment> \<open>c.sub\<close>
       (''100 011???00 ??? 01'', CA, \<lambda>_ rs1 rs2 _. rtype 0x20 rs2 rs1 0 rs1 0x33),
      \<comment> \<open>c.xor\<close>
       (''100 011???01 ??? 01'', CA, \<lambda>_ rs1 rs2 _. rtype 0 rs2 rs1 4 rs1 0x33),
      \<comment> \<open>c.or\<close>
       (''100 011???10 ??? 01'', CA, \<lambda>_ rs1 rs2 _. rtype 0 rs2 rs1 6 rs1 0x33),
      \<comment> \<open>c.and\<close>
       (''100 011???11 ??? 01'', CA, \<lambda>_ rs1 rs2 _. rtype 0 rs2 rs1 7 rs1 0x33),
      \<comment> \<open>c.subw\<close>
       (''100 111???00 ??? 01'', CA, \<lambda>_ rs1 rs2 _.
          if rv64 then rtype 0x20 rs2 rs1 0 rs1 0x3b else 0),
      \<comment> \<open>c.addw\<close>
       (''100 111???01 ??? 01'', CA, \<lambda>_ rs1 rs2 _.
          if rv64 then rtype 0 rs2 rs1 0 rs1 0x3b else 0),
      \<comment> \<open>c.mul\<close>
       (''100 111???10 ??? 01'', CA, \<lambda>_ rs1 rs2 _. rtype 1 rs2 rs1 0 rs1 0x33),
      \<comment> \<open>c.zext.b\<close>
       (''100 111???11 000 01'', CA, \<lambda>_ rs1 _ _. itype 0xff rs1 7 rs1 0x13),
      \<comment> \<open>c.sext.b\<close>
       (''100 111???11 001 01'', CA, \<lambda>_ rs1 _ _. rtype 0x30 4 rs1 1 rs1 0x13),
      \<comment> \<open>c.zext.h\<close>
       (''100 111???11 010 01'', CA, \<lambda>_ rs1 _ _.
          if rv64 then rtype 4 0 rs1 4 rs1 0x3b else rtype 4 0 rs1 4 rs1 0x33),
      \<comment> \<open>c.sext.h\<close>
       (''100 111???11 011 01'', CA, \<lambda>_ rs1 _ _. rtype 0x30 5 rs1 1 rs1 0x13),
      \<comment> \<open>c.zext.w / c.rev\<close>
       (''100 111???11 100 01'', CA, \<lambda>_ rs1 _ _.
          if rv64 then rtype 4 0 rs1 0 rs1 0x3b else 0),
      \<comment> \<open>c.not\<close>
       (''100 111???11 101 01'', CA, \<lambda>_ rs1 _ _. itype 0xfff rs1 4 rs1 0x13),
      \<comment> \<open>c.rev\<close> (''100 111???11 110 01'', CN, \<lambda>_ _ _ _. 0),
      \<comment> \<open>c.rev\<close> (''100 111???11 111 01'', CN, \<lambda>_ _ _ _. 0),
      \<comment> \<open>c.j\<close>
       (''101 ???????? ??? 01'', CJ, \<lambda>imm _ _ _. jtype imm 0 0x6f),
      \<comment> \<open>c.beqz\<close>
       (''110 ???????? ??? 01'', CB, \<lambda>imm rs1 _ _. btype imm 0 rs1 0 0x63),
      \<comment> \<open>c.bnez\<close>
       (''111 ???????? ??? 01'', CB, \<lambda>imm rs1 _ _. btype imm 0 rs1 1 0x63)])"

definition rvc_quadrant2 :: "bool \<Rightarrow> uint32_t \<Rightarrow> instpat list" where
  "rvc_quadrant2 rv64 s =
    (let offset_lwsp = dec_ci_offset_lwsp (ucast s);
         offset_ldsp = dec_ci_offset_ldsp (ucast s);
         imm_sd_sp = dec_css_imm_sd (ucast s);
         shamt = dec_cs_shamt (ucast s) in
     [\<comment> \<open>c.slli\<close>
       (''000 ???????? ??? 10'', CI, \<lambda>_ _ _ rd.
          if rd = 0 \<and> shamt < (if rv64 then 64 else 32) then nop else itype shamt rd 1 rd 0x13),
      \<comment> \<open>c.slli64\<close> (''000 0??????? 000 10'', CI, \<lambda>_ _ _ _. 0),
      \<comment> \<open>c.fldsp\<close>
       (''001 ???????? ??? 10'', CI, \<lambda>_ _ _ rd. itype offset_ldsp 2 3 rd 7),
      \<comment> \<open>c.lqsp\<close> (''001 ???????? ??? 10'', CI, \<lambda>_ _ _ _. 0),
      \<comment> \<open>c.lwsp\<close>
       (''010 ???????? ??? 10'', CI, \<lambda>_ _ _ rd.
          if rd = 0 then 0 else itype offset_lwsp 2 2 rd 3),
      \<comment> \<open>c.ldsp / c.flwsp\<close>
       (''011 ???????? ??? 10'', CI, \<lambda>_ _ _ rd.
          if rv64 then if rd = 0 then 0 else itype offset_ldsp 2 3 rd 3 else itype offset_lwsp 2 2 rd 7),
      \<comment> \<open>c.ldsp\<close> (''011 ???????? ??? 10'', CI, \<lambda>_ _ _ _. 0),
      \<comment> \<open>c.jr\<close>
       (''100 0?????00 000 10'', CR, \<lambda>_ rs1 _ _.
          if rs1 = 0 then 0 else rtype 0 0 rs1 0 0 0x67),
      \<comment> \<open>c.mv\<close>
       (''100 0??????? ??? 10'', CR, \<lambda>_ _ rs2 rd.
          if rd = 0 \<or> rs2 = 0 then nop else rtype 0 rs2 0 0 rd 0x33),
      \<comment> \<open>c.ebreak\<close>
       (''100 10000000 000 10'', CR, \<lambda>_ _ _ _. rtype 0 1 0 0 0 0x73),
      \<comment> \<open>c.jalr\<close>
       (''100 1?????00 000 10'', CR, \<lambda>_ rs1 _ _. rtype 0 0 rs1 0 1 0x67),
      \<comment> \<open>c.add\<close>
       (''100 1??????? ??? 10'', CR, \<lambda>_ _ rs2 rd.
          if rd = 0 then nop else rtype 0 rs2 rd 0 rd 0x33),
      \<comment> \<open>c.fsdsp\<close>
       (''101 ???????? ??? 10'', CSS, \<lambda>_ _ rs2 _. stype imm_sd_sp rs2 2 3 0x27),
      \<comment> \<open>c.sqsp\<close>
       (''101 ???????? ??? 10'', CSS, \<lambda>imm _ rs2 _. stype imm rs2 2 2 0x23),
      \<comment> \<open>c.swsp\<close>
       (''110 ???????? ??? 10'', CSS, \<lambda>imm _ rs2 _. stype imm rs2 2 2 0x23),
      \<comment> \<open>c.sdsp / c.fswsp\<close>
       (''111 ???????? ??? 10'', CSS, \<lambda>imm _ rs2 _.
          if rv64 then stype imm_sd_sp rs2 2 3 0x23 else stype imm rs2 2 2 0x27),
      \<comment> \<open>c.sdsp\<close>
       (''111 ???????? ??? 10'', CSS, \<lambda>imm _ rs2 _. stype imm rs2 2 2 0x23)])"

text \<open>The scan: the first entry whose pattern hits; \<open>di\<close> is 0 when none does.\<close>

fun instpat_scan :: "instpat list \<Rightarrow> uint32_t \<Rightarrow> uint32_t" where
  "instpat_scan [] s = 0"
| "instpat_scan ((pat, format, body) # ps) s =
     (if INSTPAT_hit pat s
      then (case decode_operand_c s format of (imm, rs1, rs2, rd) \<Rightarrow> body imm rs1 rs2 rd)
      else instpat_scan ps s)"

definition decompress_c :: "bool \<Rightarrow> uint32_t \<Rightarrow> uint32_t" where
  "decompress_c rv64 inst =
     (let s = inst AND 0xffff in
      instpat_scan (rvc_quadrant0 rv64 s @ rvc_quadrant1 rv64 s @ rvc_quadrant2 rv64 s @
        [(''??? ???????? ??? ??'', CN, \<lambda>_ _ _ _. 0)]) s)"

end
