(* ===== verification/Exec.thy ===== *)
theory Exec
  imports Hypervisor Alu Rvc_Decompress
begin

text \<open>
  Instruction execution, \<^verbatim>\<open>inst.c\<close>: operand decoding, the integer, memory, atomic, fence, CSR and
  privileged groups of \<open>decode_exec\<close>, the commit tail and \<open>isa_exec_once\<close> with its fault path. The
  floating-point and vector groups (\<^verbatim>\<open>fp-exec.c\<close>, \<^verbatim>\<open>vector-control.c\<close>) are one parameter,
  \<open>ext\<close>: from the instruction, \<open>pc\<close> and \<open>snpc\<close>, the computation that executes it. Its value in the
  emulator is \<open>fp_vector_exec\<close> of \<open>Fp_Exec\<close>.
\<close>

unbundle bit_operations_syntax

section \<open>Operands (isa-def.h)\<close>

definition immI :: "uint32_t \<Rightarrow> word_t" where
  "immI i = SEXT (BITS (ucast i) 31 20) 12"

definition immU :: "uint32_t \<Rightarrow> word_t" where
  "immU i = push_bit 12 (SEXT (BITS (ucast i) 31 12) 20)"

definition immS :: "uint32_t \<Rightarrow> word_t" where
  "immS i = push_bit 5 (SEXT (BITS (ucast i) 31 25) 7) OR BITS (ucast i) 11 7"

definition immB :: "uint32_t \<Rightarrow> word_t" where
  "immB i = (push_bit 12 (SEXT (BITS (ucast i) 31 31) 1) OR push_bit 11 (BITS (ucast i) 7 7) OR
     push_bit 5 (BITS (ucast i) 30 25) OR push_bit 1 (BITS (ucast i) 11 8)) AND NOT 1"

definition immJ :: "uint32_t \<Rightarrow> word_t" where
  "immJ i = (push_bit 20 (SEXT (BITS (ucast i) 31 31) 1) OR push_bit 12 (BITS (ucast i) 19 12) OR
     push_bit 11 (BITS (ucast i) 20 20) OR push_bit 5 (BITS (ucast i) 30 25) OR
     push_bit 1 (BITS (ucast i) 24 21)) AND NOT 1"

definition inst_rd :: "uint32_t \<Rightarrow> nat" where
  "inst_rd i = unat (BITS (ucast i) 11 7)"

definition inst_rs1 :: "uint32_t \<Rightarrow> nat" where
  "inst_rs1 i = unat (BITS (ucast i) 19 15)"

definition inst_rs2 :: "uint32_t \<Rightarrow> nat" where
  "inst_rs2 i = unat (BITS (ucast i) 24 20)"

text \<open>\<open>src1\<close>, \<open>src2\<close> and \<open>imm\<close>, zero where the format does not set them.\<close>

definition decode_operand :: "uint32_t \<Rightarrow> inst_type \<Rightarrow> nemu \<Rightarrow> word_t \<times> word_t \<times> word_t" where
  "decode_operand i ty s =
     (let r1 = gpr s (inst_rs1 i); r2 = gpr s (inst_rs2 i) in
      case ty of
        TYPE_R \<Rightarrow> (r1, r2, 0)
      | TYPE_I \<Rightarrow> (r1, 0, immI i)
      | TYPE_I_I \<Rightarrow> (of_nat (inst_rs1 i), 0, immI i)
      | TYPE_S \<Rightarrow> (r1, r2, immS i)
      | TYPE_B \<Rightarrow> (r1, r2, immB i)
      | TYPE_U \<Rightarrow> (0, 0, immU i)
      | TYPE_J \<Rightarrow> (0, 0, immJ i)
      | TYPE_N \<Rightarrow> (0, 0, 0))"

section \<open>Entries of the listing\<close>

text \<open>What the body of an entry sees: \<open>rd\<close>, \<open>rs1\<close>, \<open>src1\<close>, \<open>src2\<close>, \<open>imm\<close>; it returns \<open>dnpc\<close>.\<close>

type_synonym exec_body = "nat \<Rightarrow> nat \<Rightarrow> word_t \<Rightarrow> word_t \<Rightarrow> word_t \<Rightarrow> vaddr_t mem"

type_synonym exec_entry = "string \<times> inst_type \<times> exec_body"

text \<open>\<open>R(rd) = v\<close>, with \<open>dnpc\<close> the next instruction.\<close>

definition wr_reg :: "nat \<Rightarrow> word_t \<Rightarrow> unit mem" where
  "wr_reg rd v = mmodify (set_gpr rd v)"

definition ret_reg :: "vaddr_t \<Rightarrow> nat \<Rightarrow> word_t \<Rightarrow> vaddr_t mem" where
  "ret_reg dnpc rd v = mseq (wr_reg rd v) (mret dnpc)"

definition alu_exec :: "vaddr_t \<Rightarrow> alu_entry \<Rightarrow> exec_entry" where
  "alu_exec snpc e = (case e of (pat, ty, f) \<Rightarrow>
     (pat, ty, \<lambda>rd _ src1 src2 imm. ret_reg snpc rd (f src1 src2 imm)))"

section \<open>Control transfer\<close>

definition grp_lui :: "vaddr_t \<Rightarrow> exec_entry list" where
  "grp_lui snpc =
    [(''??????? ????? ????? ??? ????? 01101 11'', TYPE_U, \<lambda>rd _ _ _ imm. ret_reg snpc rd imm)]"

definition grp_auipc :: "vaddr_t \<Rightarrow> vaddr_t \<Rightarrow> exec_entry list" where
  "grp_auipc pc snpc =
    [(''??????? ????? ????? ??? ????? 00101 11'', TYPE_U, \<lambda>rd _ _ _ imm.
       ret_reg snpc rd (pc + imm))]"

definition grp_jal :: "vaddr_t \<Rightarrow> vaddr_t \<Rightarrow> exec_entry list" where
  "grp_jal pc snpc =
    [(''??????? ????? ????? ??? ????? 11011 11'', TYPE_J, \<lambda>rd _ _ _ imm.
       ret_reg ((pc + imm) AND NOT 1) rd snpc)]"

definition grp_jalr :: "vaddr_t \<Rightarrow> exec_entry list" where
  "grp_jalr snpc =
    [(''??????? ????? ????? 000 ????? 11001 11'', TYPE_I, \<lambda>rd _ src1 _ imm.
       ret_reg ((src1 + imm) AND NOT 1) rd snpc)]"

definition branch_if :: "vaddr_t \<Rightarrow> vaddr_t \<Rightarrow> (word_t \<Rightarrow> word_t \<Rightarrow> bool) \<Rightarrow> exec_body" where
  "branch_if pc snpc f = (\<lambda>_ _ src1 src2 imm. mret (if f src1 src2 then pc + imm else snpc))"

definition grp_branch :: "vaddr_t \<Rightarrow> vaddr_t \<Rightarrow> exec_entry list" where
  "grp_branch pc snpc =
    [\<comment> \<open>beq\<close> (''??????? ????? ????? 000 ????? 11000 11'', TYPE_B, branch_if pc snpc (=)),
     \<comment> \<open>bne\<close> (''??????? ????? ????? 001 ????? 11000 11'', TYPE_B, branch_if pc snpc (\<noteq>)),
     \<comment> \<open>blt\<close> (''??????? ????? ????? 100 ????? 11000 11'', TYPE_B,
       branch_if pc snpc (\<lambda>a b. sint a < sint b)),
     \<comment> \<open>bge\<close> (''??????? ????? ????? 101 ????? 11000 11'', TYPE_B,
       branch_if pc snpc (\<lambda>a b. sint b \<le> sint a)),
     \<comment> \<open>bltu\<close> (''??????? ????? ????? 110 ????? 11000 11'', TYPE_B, branch_if pc snpc (<)),
     \<comment> \<open>bgeu\<close> (''??????? ????? ????? 111 ????? 11000 11'', TYPE_B,
       branch_if pc snpc (\<lambda>a b. b \<le> a))]"

section \<open>Loads and stores\<close>

definition load_reg :: "config \<Rightarrow> vaddr_t \<Rightarrow> nat \<Rightarrow> (word_t \<Rightarrow> word_t) \<Rightarrow> exec_body" where
  "load_reg c snpc len ext =
     (\<lambda>rd _ src1 _ imm. mbind (vaddr_read c (src1 + imm) len) (\<lambda>v. ret_reg snpc rd (ext v)))"

definition store_reg :: "config \<Rightarrow> vaddr_t \<Rightarrow> nat \<Rightarrow> exec_body" where
  "store_reg c snpc len =
     (\<lambda>_ _ src1 src2 imm. mseq (vaddr_write c (src1 + imm) len src2) (mret snpc))"

definition grp_load :: "config \<Rightarrow> vaddr_t \<Rightarrow> exec_entry list" where
  "grp_load c snpc =
    [\<comment> \<open>lb\<close> (''??????? ????? ????? 000 ????? 00000 11'', TYPE_I, load_reg c snpc 1 (\<lambda>v. SEXT v 8)),
     \<comment> \<open>lh\<close> (''??????? ????? ????? 001 ????? 00000 11'', TYPE_I, load_reg c snpc 2 (\<lambda>v. SEXT v 16)),
     \<comment> \<open>lw\<close> (''??????? ????? ????? 010 ????? 00000 11'', TYPE_I, load_reg c snpc 4 (\<lambda>v. SEXT v 32)),
     \<comment> \<open>lbu\<close> (''??????? ????? ????? 100 ????? 00000 11'', TYPE_I, load_reg c snpc 1 (\<lambda>v. v)),
     \<comment> \<open>lhu\<close> (''??????? ????? ????? 101 ????? 00000 11'', TYPE_I, load_reg c snpc 2 (\<lambda>v. v)),
     \<comment> \<open>lwu\<close> (''??????? ????? ????? 110 ????? 00000 11'', TYPE_I, load_reg c snpc 4 (\<lambda>v. v)),
     \<comment> \<open>ld\<close> (''??????? ????? ????? 011 ????? 00000 11'', TYPE_I, load_reg c snpc 8 (\<lambda>v. v))]"

definition grp_store :: "config \<Rightarrow> vaddr_t \<Rightarrow> exec_entry list" where
  "grp_store c snpc =
    [\<comment> \<open>sb\<close> (''??????? ????? ????? 000 ????? 01000 11'', TYPE_S, store_reg c snpc 1),
     \<comment> \<open>sh\<close> (''??????? ????? ????? 001 ????? 01000 11'', TYPE_S, store_reg c snpc 2),
     \<comment> \<open>sw\<close> (''??????? ????? ????? 010 ????? 01000 11'', TYPE_S, store_reg c snpc 4),
     \<comment> \<open>sd\<close> (''??????? ????? ????? 011 ????? 01000 11'', TYPE_S, store_reg c snpc 8)]"

section \<open>Atomics\<close>

definition load_reserved :: "config \<Rightarrow> vaddr_t \<Rightarrow> nat \<Rightarrow> (word_t \<Rightarrow> word_t) \<Rightarrow> exec_body" where
  "load_reserved c snpc len ext =
     (\<lambda>rd _ src1 _ _. mbind (vaddr_check_reservation c src1 len False) (\<lambda>pa.
        mbind (vaddr_read c src1 len) (\<lambda>v.
          mseq (wr_reg rd (ext v)) (mseq (mmodify (set_reservation pa len)) (mret snpc)))))"

text \<open>The reservation covers the conditional store.\<close>

definition reservation_covers :: "nemu \<Rightarrow> paddr_t \<Rightarrow> nat \<Rightarrow> bool" where
  "reservation_covers s pa len \<longleftrightarrow>
     len \<le> cpu_reservation_bytes (cpu s) \<and> cpu_reservation (cpu s) \<le> pa \<and>
     pa - cpu_reservation (cpu s) \<le> of_nat (cpu_reservation_bytes (cpu s) - len)"

definition store_conditional :: "config \<Rightarrow> vaddr_t \<Rightarrow> nat \<Rightarrow> exec_body" where
  "store_conditional c snpc len =
     (\<lambda>rd _ src1 src2 _. mbind (vaddr_check_reservation c src1 len True) (\<lambda>pa.
        mbind (mgets (\<lambda>s. reservation_covers s pa len)) (\<lambda>ok.
          mseq (if ok then mseq (wr_reg rd 0) (vaddr_write c src1 len src2) else wr_reg rd 1)
            (mseq (mmodify (set_reservation 0 0)) (mret snpc)))))"

text \<open>An AMO: \<open>f tmp src2\<close> is stored, \<open>ext tmp\<close> goes to \<open>rd\<close>.\<close>

definition amo :: "config \<Rightarrow> vaddr_t \<Rightarrow> nat \<Rightarrow> (word_t \<Rightarrow> word_t) \<Rightarrow> (word_t \<Rightarrow> word_t \<Rightarrow> word_t) \<Rightarrow> exec_body" where
  "amo c snpc len ext f =
     (\<lambda>rd _ src1 src2 _. mseq (vaddr_check_amo c src1 len)
        (mbind (vaddr_read c src1 len) (\<lambda>tmp.
          mseq (vaddr_write c src1 len (f tmp src2)) (ret_reg snpc rd (ext tmp)))))"

definition grp_amo_w :: "config \<Rightarrow> vaddr_t \<Rightarrow> exec_entry list" where
  "grp_amo_w c snpc =
    (let am = amo c snpc 4 (\<lambda>tmp. SEXT tmp 32) in
    [\<comment> \<open>lr.w\<close> (''00010?? 00000 ????? 010 ????? 01011 11'', TYPE_R,
       load_reserved c snpc 4 (\<lambda>v. SEXT v 32)),
     \<comment> \<open>sc.w\<close> (''00011?? ????? ????? 010 ????? 01011 11'', TYPE_R, store_conditional c snpc 4),
     \<comment> \<open>amoswap.w\<close> (''00001?? ????? ????? 010 ????? 01011 11'', TYPE_R, am (\<lambda>tmp b. b)),
     \<comment> \<open>amoadd.w\<close> (''00000?? ????? ????? 010 ????? 01011 11'', TYPE_R, am (\<lambda>tmp b. b + tmp)),
     \<comment> \<open>amoxor.w\<close> (''00100?? ????? ????? 010 ????? 01011 11'', TYPE_R, am (\<lambda>tmp b. b XOR tmp)),
     \<comment> \<open>amoand.w\<close> (''01100?? ????? ????? 010 ????? 01011 11'', TYPE_R, am (\<lambda>tmp b. b AND tmp)),
     \<comment> \<open>amoor.w\<close> (''01000?? ????? ????? 010 ????? 01011 11'', TYPE_R, am (\<lambda>tmp b. b OR tmp)),
     \<comment> \<open>amomin.w\<close> (''10000?? ????? ????? 010 ????? 01011 11'', TYPE_R,
       am (\<lambda>tmp b. if sint (lo32 tmp) < sint (lo32 b) then sext32 (lo32 tmp) else b)),
     \<comment> \<open>amomax.w\<close> (''10100?? ????? ????? 010 ????? 01011 11'', TYPE_R,
       am (\<lambda>tmp b. if sint (lo32 b) < sint (lo32 tmp) then sext32 (lo32 tmp) else b)),
     \<comment> \<open>amominu.w\<close> (''11000?? ????? ????? 010 ????? 01011 11'', TYPE_R,
       am (\<lambda>tmp b. if tmp < ucast (lo32 b) then tmp else b)),
     \<comment> \<open>amomaxu.w\<close> (''11100?? ????? ????? 010 ????? 01011 11'', TYPE_R,
       am (\<lambda>tmp b. if ucast (lo32 b) < tmp then tmp else b))])"

definition grp_amo_d :: "config \<Rightarrow> vaddr_t \<Rightarrow> exec_entry list" where
  "grp_amo_d c snpc =
    (let am = amo c snpc 8 (\<lambda>tmp. tmp) in
    [\<comment> \<open>lr.d\<close> (''00010?? 00000 ????? 011 ????? 01011 11'', TYPE_R, load_reserved c snpc 8 (\<lambda>v. v)),
     \<comment> \<open>sc.d\<close> (''00011?? ????? ????? 011 ????? 01011 11'', TYPE_R, store_conditional c snpc 8),
     \<comment> \<open>amoswap.d\<close> (''00001?? ????? ????? 011 ????? 01011 11'', TYPE_R, am (\<lambda>tmp b. b)),
     \<comment> \<open>amoadd.d\<close> (''00000?? ????? ????? 011 ????? 01011 11'', TYPE_R, am (\<lambda>tmp b. b + tmp)),
     \<comment> \<open>amoxor.d\<close> (''00100?? ????? ????? 011 ????? 01011 11'', TYPE_R, am (\<lambda>tmp b. b XOR tmp)),
     \<comment> \<open>amoand.d\<close> (''01100?? ????? ????? 011 ????? 01011 11'', TYPE_R, am (\<lambda>tmp b. b AND tmp)),
     \<comment> \<open>amoor.d\<close> (''01000?? ????? ????? 011 ????? 01011 11'', TYPE_R, am (\<lambda>tmp b. b OR tmp)),
     \<comment> \<open>amomin.d\<close> (''10000?? ????? ????? 011 ????? 01011 11'', TYPE_R,
       am (\<lambda>tmp b. if sint tmp < sint b then tmp else b)),
     \<comment> \<open>amomax.d\<close> (''10100?? ????? ????? 011 ????? 01011 11'', TYPE_R,
       am (\<lambda>tmp b. if sint b < sint tmp then tmp else b)),
     \<comment> \<open>amominu.d\<close> (''11000?? ????? ????? 011 ????? 01011 11'', TYPE_R,
       am (\<lambda>tmp b. if tmp < b then tmp else b)),
     \<comment> \<open>amomaxu.d\<close> (''11100?? ????? ????? 011 ????? 01011 11'', TYPE_R,
       am (\<lambda>tmp b. if b < tmp then tmp else b))])"

section \<open>Fences and cache-block operations\<close>

text \<open>The eight stores of \<open>cbo.zero\<close>.\<close>

primrec zero_block :: "config \<Rightarrow> vaddr_t \<Rightarrow> nat list \<Rightarrow> unit mem" where
  "zero_block c block [] = mret ()"
| "zero_block c block (i # js) =
     mseq (vaddr_write c (block + of_nat (8 * i)) 8 0) (zero_block c block js)"

definition do_icache_flush :: "nemu \<Rightarrow> nemu" where
  "do_icache_flush s = s\<lparr>icaches := icache_flush (icaches s)\<rparr>"

definition grp_miscmem :: "config \<Rightarrow> vaddr_t \<Rightarrow> vaddr_t \<Rightarrow> exec_entry list" where
  "grp_miscmem c pc snpc =
    [\<comment> \<open>pause\<close> (''0000000 10000 00000 000 00000 00011 11'', TYPE_N, \<lambda>_ _ _ _ _. mret snpc),
     \<comment> \<open>fence_tso\<close> (''1000001 10011 00000 000 00000 00011 11'', TYPE_N, \<lambda>_ _ _ _ _. mret snpc),
     \<comment> \<open>fence\<close> (''??????? ????? ????? 000 ????? 00011 11'', TYPE_N, \<lambda>_ _ _ _ _. mret snpc),
     \<comment> \<open>fence_i\<close> (''??????? ????? ????? 001 ????? 00011 11'', TYPE_I, \<lambda>_ _ _ _ _.
       mseq (mmodify do_icache_flush) (mret snpc)),
     \<comment> \<open>cbo.inval\<close> (''0000000 00000 ????? 010 00000 00011 11'', TYPE_I, \<lambda>_ _ src1 _ _.
       with_cbo c CBO_INVAL pc snpc (vaddr_check_cmo c src1)),
     \<comment> \<open>cbo.clean\<close> (''0000000 00001 ????? 010 00000 00011 11'', TYPE_I, \<lambda>_ _ src1 _ _.
       with_cbo c CBO_CLEAN_FLUSH pc snpc (vaddr_check_cmo c src1)),
     \<comment> \<open>cbo.flush\<close> (''0000000 00010 ????? 010 00000 00011 11'', TYPE_I, \<lambda>_ _ src1 _ _.
       with_cbo c CBO_CLEAN_FLUSH pc snpc (vaddr_check_cmo c src1)),
     \<comment> \<open>cbo.zero\<close> (''0000000 00100 ????? 010 00000 00011 11'', TYPE_I, \<lambda>_ _ src1 _ _.
       with_cbo c CBO_ZERO pc snpc
         (mseq (vaddr_check_zero c src1) (zero_block c (src1 AND NOT 0x3f) [0..<8])))]"

section \<open>SYSTEM: fences and hypervisor accesses\<close>

text \<open>The guards shared by \<open>sfence.vma\<close> and \<open>sinval.vma\<close>.\<close>

definition sfence_vma :: "config \<Rightarrow> vaddr_t \<Rightarrow> vaddr_t \<Rightarrow> vaddr_t mem" where
  "sfence_vma c pc snpc =
     mbind (mgets (\<lambda>s. s)) (\<lambda>s.
       if virt s \<and> riscv_h_gstage_preview_enabled c \<and>
          (priv s = PRV_U \<or> sr s CSR_HSTATUS AND 0x100000 \<noteq> 0)
       then raise_at c MCA_VIRT_INS pc
       else if priv s = PRV_U \<or>
               (priv s = PRV_S \<and> tvm_of (sr s CSR_MSTATUS) \<noteq> 0 \<and> \<not> virt s)
       then raise_at c MCA_ILLEGAL_INS pc
       else mseq (mmodify soft_tlb_flush) (mret snpc))"

definition sfence_inval :: "config \<Rightarrow> vaddr_t \<Rightarrow> vaddr_t \<Rightarrow> vaddr_t mem" where
  "sfence_inval c pc snpc =
     mbind (mgets (\<lambda>s. s)) (\<lambda>s.
       if priv s = PRV_U \<and> virt s \<and> riscv_h_gstage_preview_enabled c
       then raise_at c MCA_VIRT_INS pc
       else if priv s = PRV_U then raise_at c MCA_ILLEGAL_INS pc else mret snpc)"

definition hlv :: "config \<Rightarrow> vaddr_t \<Rightarrow> vaddr_t \<Rightarrow> bool \<Rightarrow> nat \<Rightarrow> (word_t \<Rightarrow> word_t) \<Rightarrow> exec_body" where
  "hlv c pc snpc execute_access len ext =
     (\<lambda>rd _ src1 _ _. mbind (hypervisor_memory_access c pc False execute_access len src1 0) (\<lambda>r.
        case r of Inl dnpc \<Rightarrow> mret dnpc | Inr v \<Rightarrow> ret_reg snpc rd (ext v)))"

definition hsv :: "config \<Rightarrow> vaddr_t \<Rightarrow> vaddr_t \<Rightarrow> nat \<Rightarrow> exec_body" where
  "hsv c pc snpc len =
     (\<lambda>_ _ src1 src2 _. mbind (hypervisor_memory_access c pc True False len src1 src2) (\<lambda>r.
        case r of Inl dnpc \<Rightarrow> mret dnpc | Inr _ \<Rightarrow> mret snpc))"

definition grp_system_h :: "config \<Rightarrow> vaddr_t \<Rightarrow> vaddr_t \<Rightarrow> exec_entry list" where
  "grp_system_h c pc snpc =
    [\<comment> \<open>sfence.vma\<close> (''0001001 ????? ????? 000 00000 11100 11'', TYPE_N, \<lambda>_ _ _ _ _.
       sfence_vma c pc snpc),
     \<comment> \<open>hfence.vvma\<close> (''0010001 ????? ????? 000 00000 11100 11'', TYPE_N, \<lambda>_ _ _ _ _.
       hypervisor_fence c pc snpc False),
     \<comment> \<open>hinval.vvma\<close> (''0010011 ????? ????? 000 00000 11100 11'', TYPE_N, \<lambda>_ _ _ _ _.
       hypervisor_fence c pc snpc False),
     \<comment> \<open>hfence.gvma\<close> (''0110001 ????? ????? 000 00000 11100 11'', TYPE_N, \<lambda>_ _ _ _ _.
       hypervisor_fence c pc snpc True),
     \<comment> \<open>hinval.gvma\<close> (''0110011 ????? ????? 000 00000 11100 11'', TYPE_N, \<lambda>_ _ _ _ _.
       hypervisor_fence c pc snpc True),
     \<comment> \<open>hlv.b\<close> (''011000000000 ????? 100 ????? 11100 11'', TYPE_R,
       hlv c pc snpc False 1 (\<lambda>v. SEXT v 8)),
     \<comment> \<open>hlv.bu\<close> (''011000000001 ????? 100 ????? 11100 11'', TYPE_R, hlv c pc snpc False 1 (\<lambda>v. v)),
     \<comment> \<open>hlv.h\<close> (''011001000000 ????? 100 ????? 11100 11'', TYPE_R,
       hlv c pc snpc False 2 (\<lambda>v. SEXT v 16)),
     \<comment> \<open>hlv.hu\<close> (''011001000001 ????? 100 ????? 11100 11'', TYPE_R, hlv c pc snpc False 2 (\<lambda>v. v)),
     \<comment> \<open>hlv.w\<close> (''011010000000 ????? 100 ????? 11100 11'', TYPE_R,
       hlv c pc snpc False 4 (\<lambda>v. SEXT v 32)),
     \<comment> \<open>hlv.wu\<close> (''011010000001 ????? 100 ????? 11100 11'', TYPE_R, hlv c pc snpc False 4 (\<lambda>v. v)),
     \<comment> \<open>hlv.d\<close> (''011011000000 ????? 100 ????? 11100 11'', TYPE_R, hlv c pc snpc False 8 (\<lambda>v. v)),
     \<comment> \<open>hlvx.hu\<close> (''011001000011 ????? 100 ????? 11100 11'', TYPE_R, hlv c pc snpc True 2 (\<lambda>v. v)),
     \<comment> \<open>hlvx.wu\<close> (''011010000011 ????? 100 ????? 11100 11'', TYPE_R, hlv c pc snpc True 4 (\<lambda>v. v)),
     \<comment> \<open>hsv.b\<close> (''0110001 ????? ????? 100 00000 11100 11'', TYPE_R, hsv c pc snpc 1),
     \<comment> \<open>hsv.h\<close> (''0110011 ????? ????? 100 00000 11100 11'', TYPE_R, hsv c pc snpc 2),
     \<comment> \<open>hsv.w\<close> (''0110101 ????? ????? 100 00000 11100 11'', TYPE_R, hsv c pc snpc 4),
     \<comment> \<open>hsv.d\<close> (''0110111 ????? ????? 100 00000 11100 11'', TYPE_R, hsv c pc snpc 8),
     \<comment> \<open>sinval.vma\<close> (''0001011 ????? ????? 000 00000 11100 11'', TYPE_N, \<lambda>_ _ _ _ _.
       sfence_vma c pc snpc),
     \<comment> \<open>sfence.inval\<close> (''0001100 0000? 00000 000 00000 11100 11'', TYPE_N, \<lambda>_ _ _ _ _.
       sfence_inval c pc snpc)]"

section \<open>SYSTEM: CSR instructions\<close>

text \<open>The CSR number: the immediate as the C parameter type \<open>uint16_t\<close>.\<close>

definition csr_of_imm :: "word_t \<Rightarrow> nat" where
  "csr_of_imm imm = unat (ucast imm :: uint16_t)"

text \<open>\<open>csrrw\<close>/\<open>csrrwi\<close>: read, then write \<open>src1\<close>.\<close>

definition csr_write_body :: "config \<Rightarrow> vaddr_t \<Rightarrow> vaddr_t \<Rightarrow> exec_body" where
  "csr_write_body c pc snpc =
     (\<lambda>rd _ src1 _ imm. let csr = csr_of_imm imm in
        mbind (mgets (\<lambda>s. csr_check c s csr True)) (\<lambda>e.
          case e of
            Some NO \<Rightarrow> raise_at c NO pc
          | None \<Rightarrow> mbind (mgets (\<lambda>s. csr_read_value c s csr)) (\<lambda>v.
              mseq (wr_reg rd v) (mseq (mmodify (CSRW c csr src1)) (mret snpc)))))"

text \<open>
  \<open>csrrs\<close>/\<open>csrrc\<close> and their immediate forms: read, then write the modified value unless the \<open>rs1\<close>
  field is zero.
\<close>

definition csr_modify_body ::
    "config \<Rightarrow> vaddr_t \<Rightarrow> vaddr_t \<Rightarrow> (word_t \<Rightarrow> word_t \<Rightarrow> word_t) \<Rightarrow> exec_body" where
  "csr_modify_body c pc snpc f =
     (\<lambda>rd rs1 src1 _ imm. let csr = csr_of_imm imm in
        mbind (mgets (\<lambda>s. csr_check c s csr (rs1 \<noteq> 0))) (\<lambda>e.
          case e of
            Some NO \<Rightarrow> raise_at c NO pc
          | None \<Rightarrow> mbind (mgets (\<lambda>s. csr_read_value c s csr)) (\<lambda>v.
              mseq (wr_reg rd v)
                (mseq (mwhen (rs1 \<noteq> 0)
                        (mmodify (\<lambda>s. CSRW c csr (f (csr_rmw_value c s csr) src1) s)))
                  (mret snpc)))))"

definition grp_system_csr :: "config \<Rightarrow> vaddr_t \<Rightarrow> vaddr_t \<Rightarrow> exec_entry list" where
  "grp_system_csr c pc snpc =
    [\<comment> \<open>csrrw\<close> (''??????? ????? ????? 001 ????? 11100 11'', TYPE_I, csr_write_body c pc snpc),
     \<comment> \<open>csrrs\<close> (''??????? ????? ????? 010 ????? 11100 11'', TYPE_I,
       csr_modify_body c pc snpc (\<lambda>v x. v OR x)),
     \<comment> \<open>csrrc\<close> (''??????? ????? ????? 011 ????? 11100 11'', TYPE_I,
       csr_modify_body c pc snpc (\<lambda>v x. v AND NOT x)),
     \<comment> \<open>csrrwi\<close> (''??????? ????? ????? 101 ????? 11100 11'', TYPE_I_I, csr_write_body c pc snpc),
     \<comment> \<open>csrrsi\<close> (''??????? ????? ????? 110 ????? 11100 11'', TYPE_I_I,
       csr_modify_body c pc snpc (\<lambda>v x. v OR x)),
     \<comment> \<open>csrrci\<close> (''??????? ????? ????? 111 ????? 11100 11'', TYPE_I_I,
       csr_modify_body c pc snpc (\<lambda>v x. v AND NOT x))]"

section \<open>SYSTEM: environment calls, trap returns, waiting\<close>

definition ecall_cause :: "nemu \<Rightarrow> word_t" where
  "ecall_cause s =
     (if priv s = PRV_U then MCA_ENV_CAL_UMO
      else if priv s = PRV_S then if virt s then MCA_ENV_CAL_VSMO else MCA_ENV_CAL_SMO
      else MCA_ENV_CAL_MMO)"

definition exec_ecall :: "config \<Rightarrow> vaddr_t \<Rightarrow> vaddr_t mem" where
  "exec_ecall c pc = mbind (mgets ecall_cause) (\<lambda>NO. raise_at c NO pc)"

definition exec_mret :: "config \<Rightarrow> vaddr_t \<Rightarrow> vaddr_t mem" where
  "exec_mret c pc =
     mbind (mgets (mret_body c)) (\<lambda>r.
       case r of None \<Rightarrow> raise_at c MCA_ILLEGAL_INS pc
       | Some (dnpc, s') \<Rightarrow> mseq (mmodify (\<lambda>_. s')) (mret dnpc))"

definition exec_sret :: "config \<Rightarrow> vaddr_t \<Rightarrow> vaddr_t mem" where
  "exec_sret c pc =
     mbind (mgets (sret_body c)) (\<lambda>r.
       case r of Inl NO \<Rightarrow> raise_at c NO pc
       | Inr (dnpc, s') \<Rightarrow> mseq (mmodify (\<lambda>_. s')) (mret dnpc))"

definition exec_wrs_nto :: "config \<Rightarrow> vaddr_t \<Rightarrow> vaddr_t \<Rightarrow> vaddr_t mem" where
  "exec_wrs_nto c pc snpc =
     mbind (mgets (\<lambda>s. s)) (\<lambda>s.
       if riscv_isa_extensions c AND NEMU_ISA_EXT_ZAWRS = 0 \<or>
          (priv s \<noteq> PRV_M \<and> tw_of (sr s CSR_MSTATUS) \<noteq> 0)
       then raise_at c MCA_ILLEGAL_INS pc
       else if virt s \<and> riscv_h_gstage_preview_enabled c \<and> sr s CSR_HSTATUS AND 0x200000 \<noteq> 0
       then raise_at c MCA_VIRT_INS pc else mret snpc)"

definition exec_wrs_sto :: "config \<Rightarrow> vaddr_t \<Rightarrow> vaddr_t \<Rightarrow> vaddr_t mem" where
  "exec_wrs_sto c pc snpc =
     (if riscv_isa_extensions c AND NEMU_ISA_EXT_ZAWRS = 0 then raise_at c MCA_ILLEGAL_INS pc
      else mret snpc)"

definition exec_wfi :: "config \<Rightarrow> vaddr_t \<Rightarrow> vaddr_t \<Rightarrow> vaddr_t mem" where
  "exec_wfi c pc snpc =
     mbind (mgets (\<lambda>s. s)) (\<lambda>s.
       if virt s \<and> riscv_h_gstage_preview_enabled c \<and> tw_of (sr s CSR_MSTATUS) = 0 \<and>
          (priv s = PRV_U \<or> sr s CSR_HSTATUS AND 0x200000 \<noteq> 0)
       then raise_at c MCA_VIRT_INS pc
       else if priv s = PRV_U \<or> (priv s = PRV_S \<and> tw_of (sr s CSR_MSTATUS) \<noteq> 0)
       then raise_at c MCA_ILLEGAL_INS pc
       else mseq (mwhen (\<not> target_share c \<and> riscv_hart_mip_value c s AND sr s CSR_MIE = 0)
                   (mmodify (clint_wfi_advance c)))
              (mret snpc))"

definition grp_system :: "config \<Rightarrow> vaddr_t \<Rightarrow> vaddr_t \<Rightarrow> exec_entry list" where
  "grp_system c pc snpc =
    [\<comment> \<open>ecall\<close> (''0000000 00000 00000 000 00000 11100 11'', TYPE_N, \<lambda>_ _ _ _ _. exec_ecall c pc),
     \<comment> \<open>ebreak\<close> (''0000000 00001 00000 000 00000 11100 11'', TYPE_N, \<lambda>_ _ _ _ _.
       raise_at c MCA_BREAK_POINT pc)] @
    grp_system_h c pc snpc @ grp_system_csr c pc snpc @
    [\<comment> \<open>mret\<close> (''0011000 00010 00000 000 00000 11100 11'', TYPE_N, \<lambda>_ _ _ _ _. exec_mret c pc),
     \<comment> \<open>sret\<close> (''0001000 00010 00000 000 00000 11100 11'', TYPE_N, \<lambda>_ _ _ _ _. exec_sret c pc),
     \<comment> \<open>wrs.nto\<close> (''0000000 01101 00000 000 00000 11100 11'', TYPE_N, \<lambda>_ _ _ _ _.
       exec_wrs_nto c pc snpc),
     \<comment> \<open>wrs.sto\<close> (''0000000 11101 00000 000 00000 11100 11'', TYPE_N, \<lambda>_ _ _ _ _.
       exec_wrs_sto c pc snpc),
     \<comment> \<open>wfi\<close> (''0001000 00101 00000 000 00000 11100 11'', TYPE_N, \<lambda>_ _ _ _ _.
       exec_wfi c pc snpc),
     \<comment> \<open>mop.r\<close> (''1?00??0111?? ????? 100 ????? 11100 11'', TYPE_I, \<lambda>rd _ _ _ _. ret_reg snpc rd 0),
     \<comment> \<open>mop.rr\<close> (''1?00??1 ????? ????? 100 ????? 11100 11'', TYPE_R, \<lambda>rd _ _ _ _. ret_reg snpc rd 0)]"

section \<open>Dispatch\<close>

type_synonym ext_exec = "uint32_t \<Rightarrow> vaddr_t \<Rightarrow> vaddr_t \<Rightarrow> vaddr_t mem"

text \<open>The Zicbop hints precede the immediate instructions they would decode to.\<close>

definition grp_prefetch :: "vaddr_t \<Rightarrow> exec_entry list" where
  "grp_prefetch snpc =
    [\<comment> \<open>prefetch.i\<close> (''??????? 00000 ????? 110 00000 00100 11'', TYPE_N, \<lambda>_ _ _ _ _. mret snpc),
     \<comment> \<open>prefetch.r\<close> (''??????? 00000 ????? 100 00000 00100 11'', TYPE_N, \<lambda>_ _ _ _ _. mret snpc),
     \<comment> \<open>prefetch.w\<close> (''??????? 00011 ????? 110 00000 00100 11'', TYPE_N, \<lambda>_ _ _ _ _. mret snpc)]"

text \<open>The opcodes whose groups are floating-point or vector: the parameter executes them.\<close>

definition ext_opcode :: "word_t \<Rightarrow> bool" where
  "ext_opcode op \<longleftrightarrow> op = 1 \<or> op = 9 \<or> op = 16 \<or> op = 17 \<or> op = 18 \<or> op = 19 \<or> op = 20 \<or> op = 21"

definition exec_group :: "config \<Rightarrow> vaddr_t \<Rightarrow> vaddr_t \<Rightarrow> word_t \<Rightarrow> exec_entry list" where
  "exec_group c pc snpc op =
     (if op = 13 then grp_lui snpc
      else if op = 5 then grp_auipc pc snpc
      else if op = 27 then grp_jal pc snpc
      else if op = 25 then grp_jalr snpc
      else if op = 24 then grp_branch pc snpc
      else if op = 0 then grp_load c snpc
      else if op = 8 then grp_store c snpc
      else if op = 4 then grp_prefetch snpc @ map (alu_exec snpc) grp_opimm
      else if op = 12 then map (alu_exec snpc) grp_op
      else if op = 6 then map (alu_exec snpc) grp_opimm32
      else if op = 14 then map (alu_exec snpc) grp_op32
      else if op = 3 then grp_miscmem c pc snpc
      else if op = 28 then grp_system c pc snpc
      else if op = 11 then grp_amo_w c snpc @ grp_amo_d c snpc
      else [])"

text \<open>\<open>INSTPAT_MATCH\<close>: the first entry whose pattern fits, with its operands.\<close>

definition run_entry :: "uint32_t \<Rightarrow> exec_entry \<Rightarrow> vaddr_t mem" where
  "run_entry i e = (case e of (pat, ty, body) \<Rightarrow>
     mbind (mgets (decode_operand i ty)) (\<lambda>(src1, src2, imm).
       body (inst_rd i) (inst_rs1 i) src1 src2 imm))"

definition exec_inst :: "config \<Rightarrow> ext_exec \<Rightarrow> uint32_t \<Rightarrow> vaddr_t \<Rightarrow> vaddr_t \<Rightarrow> vaddr_t mem" where
  "exec_inst c ext i pc snpc =
     (let op = BITS (ucast i) 6 2 in
      if ext_opcode op then ext i pc snpc
      else case find (\<lambda>(pat, ty, body). INSTPAT_hit pat i) (exec_group c pc snpc op) of
             Some e \<Rightarrow> run_entry i e
           | None \<Rightarrow> raise_at c MCA_ILLEGAL_INS pc)"

section \<open>decode_exec and isa_exec_once\<close>

text \<open>Decompression and the length of the instruction: the 32-bit form and \<open>snpc\<close>.\<close>

definition decode_front :: "uint32_t \<Rightarrow> vaddr_t \<Rightarrow> vaddr_t \<Rightarrow> uint32_t \<times> vaddr_t" where
  "decode_front i pc snpc =
     (if i AND 3 \<noteq> 3 then (decompress_c True (i AND 0xffff), pc + 2)
      else if snpc \<le> pc then (i, pc + 4) else (i, snpc))"

text \<open>The new \<open>pc\<close>, the instruction in 32-bit form and its \<open>snpc\<close>.\<close>

definition decode_exec ::
    "config \<Rightarrow> ext_exec \<Rightarrow> uint32_t \<Rightarrow> vaddr_t \<Rightarrow> vaddr_t \<Rightarrow> (vaddr_t \<times> uint32_t \<times> vaddr_t) mem" where
  "decode_exec c ext i0 pc snpc0 =
     (case decode_front i0 pc snpc0 of (i, snpc) \<Rightarrow>
        mbind (exec_inst c ext i pc snpc) (\<lambda>dnpc.
          mbind (mlift (commit_tail c dnpc)) (\<lambda>pc'. mret (pc', i, snpc))))"

definition set_cpu_inst :: "uint32_t \<Rightarrow> nemu \<Rightarrow> nemu" where
  "set_cpu_inst i s = s\<lparr>cpu := (cpu s)\<lparr>cpu_inst := i\<rparr>\<rparr>"

text \<open>\<open>menvcfg.PBMTE\<close> switches the decoded-instruction cache off.\<close>

definition cache_decode :: "nemu \<Rightarrow> bool" where
  "cache_decode s \<longleftrightarrow> \<not> bit (sr s CSR_MENVCFG) 62"

definition fetch_inst :: "config \<Rightarrow> vaddr_t \<Rightarrow> (uint32_t \<times> vaddr_t) mem" where
  "fetch_inst c pc =
     mbind (mgets (\<lambda>s. s)) (\<lambda>s.
       if cache_decode s \<and> icache_hit (icaches s) pc
       then let e = icache (icaches s) (icache_slot pc) in mret (ie_inst e, pc + ucast (ie_ilen e))
       else mbind (vaddr_ifetch c pc 4) (\<lambda>v. mret (ucast v, pc + 4)))"

definition fill_icache :: "vaddr_t \<Rightarrow> uint32_t \<Rightarrow> uint16_t \<Rightarrow> nemu \<Rightarrow> nemu" where
  "fill_icache pc i ilen s = s\<lparr>icaches := icache_fill (icaches s) pc i ilen\<rparr>"

text \<open>The body under \<open>setjmp\<close>: the new \<open>pc\<close> and the instruction in 32-bit form.\<close>

definition exec_body_once :: "config \<Rightarrow> ext_exec \<Rightarrow> vaddr_t \<Rightarrow> (vaddr_t \<times> uint32_t) mem" where
  "exec_body_once c ext pc =
     mbind (mgets cache_decode) (\<lambda>cached.
       mbind (fetch_inst c pc) (\<lambda>(i0, snpc0).
         mseq (mmodify (set_cpu_inst i0))
           (mbind (mgets (\<lambda>s. icache_epoch (icaches s))) (\<lambda>fetch_epoch.
             mbind (decode_exec c ext i0 pc snpc0) (\<lambda>(pc', i, snpc).
               mbind (mgets (\<lambda>s. cached \<and> fetch_epoch = icache_epoch (icaches s) \<and>
                        \<not> icache_hit (icaches s) pc)) (\<lambda>fill.
                 mseq (mwhen fill (mmodify (fill_icache pc i (ucast (snpc - pc)))))
                   (mret (pc', i))))))))"

text \<open>
  One instruction: \<open>None\<close> is a panic of the emulator, \<open>Some\<close> the new \<open>pc\<close>, the instruction and the
  state. A memory fault raises its cause and leaves the instruction \<open>nop\<close>.
\<close>

definition isa_exec_once ::
    "config \<Rightarrow> ext_exec \<Rightarrow> vaddr_t \<Rightarrow> nemu \<Rightarrow> (vaddr_t \<times> uint32_t \<times> nemu) option" where
  "isa_exec_once c ext pc s =
     (case exec_body_once c ext pc (set_last_csr_wr 0 (set_instruction_trapped False s)) of
        (Inr (pc', i), s') \<Rightarrow> Some (pc', i, s')
      | (Inl (Mem_fault cause), s') \<Rightarrow>
          (case isa_raise_intr c cause pc s' of (pc', s'') \<Rightarrow> Some (pc', 0x13, s''))
      | (Inl Mem_panic, s') \<Rightarrow> None)"

section \<open>The execute loop (cpu-exec.c)\<close>

definition set_pc :: "vaddr_t \<Rightarrow> nemu \<Rightarrow> nemu" where
  "set_pc pc s = s\<lparr>cpu := (cpu s)\<lparr>cpu_pc := pc\<rparr>\<rparr>"

definition set_cpc :: "vaddr_t \<Rightarrow> nemu \<Rightarrow> nemu" where
  "set_cpc pc s = s\<lparr>cpu := (cpu s)\<lparr>cpu_cpc := pc\<rparr>\<rparr>"

definition tick_guest :: "nemu \<Rightarrow> nemu" where
  "tick_guest s = s\<lparr>g_nr_guest_inst := g_nr_guest_inst s + 1\<rparr>"

definition exec_once :: "config \<Rightarrow> ext_exec \<Rightarrow> vaddr_t \<Rightarrow> nemu \<Rightarrow> nemu option" where
  "exec_once c ext pc s =
     map_option (\<lambda>(pc', i, s'). set_cpu_inst i (set_pc pc' s'))
       (isa_exec_once c ext pc (set_cpc pc s))"

definition take_interrupt :: "config \<Rightarrow> nemu \<Rightarrow> nemu" where
  "take_interrupt c s =
     (if riscv_intr_may_pending c s then
        let intr = isa_query_intr c s in
        if intr \<noteq> INTR_EMPTY
        then (case isa_raise_intr c intr (cpu_pc (cpu s)) s of (pc', s') \<Rightarrow> set_pc pc' s')
        else s
      else s)"

text \<open>One iteration of \<open>execute\<close>, and \<open>n\<close> of them; a panic ends the run.\<close>

definition nemu_step :: "config \<Rightarrow> ext_exec \<Rightarrow> nemu \<Rightarrow> nemu option" where
  "nemu_step c ext s =
     (let s1 = take_interrupt c s
      in map_option tick_guest (exec_once c ext (cpu_pc (cpu s1)) s1))"

primrec execute :: "config \<Rightarrow> ext_exec \<Rightarrow> nat \<Rightarrow> nemu \<Rightarrow> nemu option" where
  "execute c ext 0 s = Some s"
| "execute c ext (Suc n) s = Option.bind (nemu_step c ext s) (execute c ext n)"

end
