(* ===== verification/Fp_Exec.thy ===== *)
theory Fp_Exec
  imports Fp Vec_Exec Vec_Mem Exec
begin

text \<open>
  The floating-point instructions (\<^verbatim>\<open>src/nemu/src/isa/riscv/fp-exec.c\<close>) and the instruction groups of
  \<^verbatim>\<open>inst.c\<close> they and the vector instructions form. \<open>fp_vector_exec\<close> is the value of the parameter
  \<open>ext_exec\<close> that the emulator has: the interpreter over it is the whole instruction set.
\<close>

unbundle bit_operations_syntax

section \<open>Access, rounding mode and flags\<close>

definition fp_access :: "bool \<Rightarrow> nemu \<Rightarrow> bool" where
  "fp_access double_precision s \<longleftrightarrow>
     (let misa = sr s CSR_MISA; fs = drop_bit 13 (sr s CSR_MSTATUS AND 0x6000);
          required = 0x20 OR (if double_precision then 0x8 else 0)
      in \<not> (misa AND required \<noteq> required \<or> fs = 0 \<or> (virt s \<and> sr s CSR_VSSTATUS AND 0x6000 = 0)))"

definition fp_frm :: "nemu \<Rightarrow> nat" where
  "fp_frm s = unat (drop_bit 5 (sr s CSR_FCSR) AND 7)"

definition fp_rm_valid :: "nat \<Rightarrow> nemu \<Rightarrow> bool" where
  "fp_rm_valid rm s \<longleftrightarrow> (if rm = 7 then fp_frm s else rm) \<le> 4"

definition fp_rm_resolve :: "nat \<Rightarrow> nemu \<Rightarrow> nat" where
  "fp_rm_resolve rm s = (if rm = 7 then fp_frm s else rm)"

definition fp_mark_dirty :: "nemu \<Rightarrow> nemu" where
  "fp_mark_dirty s =
     (let s1 = set_sr CSR_MSTATUS ((sr s CSR_MSTATUS AND NOT 0x6000) OR push_bit 13 3) s;
          s2 = (if virt s1 then set_sr CSR_VSSTATUS (sr s1 CSR_VSSTATUS OR 0x6000) s1 else s1)
      in set_csr_dirty True s2)"

definition fp_merge_flags :: "uint32_t \<Rightarrow> nemu \<Rightarrow> nemu" where
  "fp_merge_flags flags s =
     fp_mark_dirty
       (set_sr CSR_FCSR ((sr s CSR_FCSR AND NOT 0x1f) OR ((sr s CSR_FCSR OR ucast flags) AND 0x1f)) s)"

definition fpr :: "nemu \<Rightarrow> nat \<Rightarrow> word_t" where
  "fpr s i = cpu_fpr (cpu s) i"

definition wr_fpr :: "nat \<Rightarrow> word_t \<Rightarrow> nemu \<Rightarrow> nemu" where
  "wr_fpr i v s = s\<lparr>cpu := (cpu s)\<lparr>cpu_fpr := (cpu_fpr (cpu s))(i := v)\<rparr>\<rparr>"

definition fp_rm :: "uint32_t \<Rightarrow> nat" where
  "fp_rm i = unat (BITS (ucast i) 14 12)"

definition fp_rs1 :: "uint32_t \<Rightarrow> nat" where "fp_rs1 i = unat (BITS (ucast i) 19 15)"
definition fp_rs2 :: "uint32_t \<Rightarrow> nat" where "fp_rs2 i = unat (BITS (ucast i) 24 20)"
definition fp_rs3 :: "uint32_t \<Rightarrow> nat" where "fp_rs3 i = unat (BITS (ucast i) 31 27)"

text \<open>An instruction body under \<open>fp_access\<close>, and under \<open>fp_prepare\<close> with its rounding mode.\<close>

definition fp_under :: "config \<Rightarrow> vaddr_t \<Rightarrow> vaddr_t \<Rightarrow> bool \<Rightarrow> unit mem \<Rightarrow> vaddr_t mem" where
  "fp_under c pc snpc double_precision body =
     mbind (mgets (fp_access double_precision)) (\<lambda>ok.
       if ok then mseq body (mret snpc) else raise_at c MCA_ILLEGAL_INS pc)"

definition fp_prepare ::
    "config \<Rightarrow> uint32_t \<Rightarrow> vaddr_t \<Rightarrow> vaddr_t \<Rightarrow> bool \<Rightarrow> (nat \<Rightarrow> unit mem) \<Rightarrow> vaddr_t mem" where
  "fp_prepare c i pc snpc double_precision body =
     mbind (mgets (fp_rm_valid (fp_rm i))) (\<lambda>ok.
       if \<not> ok then raise_at c MCA_ILLEGAL_INS pc
       else fp_under c pc snpc double_precision
              (mbind (mgets (fp_rm_resolve (fp_rm i))) body))"

text \<open>\<open>fpr(rd) = v; fp_merge_flags(flags)\<close>, and the form with an integer result.\<close>

definition fp_put :: "nat \<Rightarrow> word_t \<times> uint32_t \<Rightarrow> unit mem" where
  "fp_put rd r = mmodify (\<lambda>s. fp_merge_flags (snd r) (wr_fpr rd (fst r) s))"

definition fp_put_s :: "nat \<Rightarrow> uint32_t \<times> uint32_t \<Rightarrow> unit mem" where
  "fp_put_s rd r = fp_put rd (riscv_fp_box_s (fst r), snd r)"

definition fp_put_int :: "nat \<Rightarrow> word_t \<times> uint32_t \<Rightarrow> unit mem" where
  "fp_put_int rd r =
     mseq (wr_reg rd (fst r)) (mwhen (snd r \<noteq> 0) (mmodify (fp_merge_flags (snd r))))"

text \<open>\<open>fpr(rd) = v; fp_mark_dirty()\<close>.\<close>

definition fp_move :: "nat \<Rightarrow> word_t \<Rightarrow> unit mem" where
  "fp_move rd v = mmodify (\<lambda>s. fp_mark_dirty (wr_fpr rd v s))"

section \<open>Loads, stores and moves\<close>

definition fp_load_s :: "config \<Rightarrow> vaddr_t \<Rightarrow> vaddr_t \<Rightarrow> nat \<Rightarrow> vaddr_t \<Rightarrow> vaddr_t mem" where
  "fp_load_s c pc snpc rd addr =
     fp_under c pc snpc False (mbind (vaddr_read c addr 4) (\<lambda>v. fp_move rd (riscv_fp_box_s (ucast v))))"

definition fp_load_d :: "config \<Rightarrow> vaddr_t \<Rightarrow> vaddr_t \<Rightarrow> nat \<Rightarrow> vaddr_t \<Rightarrow> vaddr_t mem" where
  "fp_load_d c pc snpc rd addr = fp_under c pc snpc True (mbind (vaddr_read c addr 8) (fp_move rd))"

definition fp_load_h :: "config \<Rightarrow> vaddr_t \<Rightarrow> vaddr_t \<Rightarrow> nat \<Rightarrow> vaddr_t \<Rightarrow> vaddr_t mem" where
  "fp_load_h c pc snpc rd addr =
     fp_under c pc snpc False (mbind (vaddr_read c addr 2) (\<lambda>v. fp_move rd (riscv_fp_box_h (ucast v))))"

definition fp_store_s :: "config \<Rightarrow> vaddr_t \<Rightarrow> vaddr_t \<Rightarrow> vaddr_t \<Rightarrow> nat \<Rightarrow> vaddr_t mem" where
  "fp_store_s c pc snpc addr rs2 =
     fp_under c pc snpc False
       (mbind (mgets (\<lambda>s. fpr s rs2)) (\<lambda>v. vaddr_write c addr 4 (ucast (riscv_fp_s_bits v))))"

definition fp_store_d :: "config \<Rightarrow> vaddr_t \<Rightarrow> vaddr_t \<Rightarrow> vaddr_t \<Rightarrow> nat \<Rightarrow> vaddr_t mem" where
  "fp_store_d c pc snpc addr rs2 =
     fp_under c pc snpc True (mbind (mgets (\<lambda>s. fpr s rs2)) (vaddr_write c addr 8))"

definition fp_store_h :: "config \<Rightarrow> vaddr_t \<Rightarrow> vaddr_t \<Rightarrow> vaddr_t \<Rightarrow> nat \<Rightarrow> vaddr_t mem" where
  "fp_store_h c pc snpc addr rs2 =
     fp_under c pc snpc False
       (mbind (mgets (\<lambda>s. fpr s rs2)) (\<lambda>v. vaddr_write c addr 2 (ucast (riscv_fp_h_bits v))))"

definition fp_move_to_s :: "config \<Rightarrow> vaddr_t \<Rightarrow> vaddr_t \<Rightarrow> nat \<Rightarrow> word_t \<Rightarrow> vaddr_t mem" where
  "fp_move_to_s c pc snpc rd v = fp_under c pc snpc False (fp_move rd (riscv_fp_box_s (ucast v)))"

definition fp_move_from_s :: "config \<Rightarrow> vaddr_t \<Rightarrow> vaddr_t \<Rightarrow> nat \<Rightarrow> nat \<Rightarrow> vaddr_t mem" where
  "fp_move_from_s c pc snpc rd rs1 =
     fp_under c pc snpc False
       (mbind (mgets (\<lambda>s. fpr s rs1)) (\<lambda>v. wr_reg rd (SEXT (ucast (riscv_fp_s_bits v)) 32)))"

definition fp_move_to_d :: "config \<Rightarrow> vaddr_t \<Rightarrow> vaddr_t \<Rightarrow> nat \<Rightarrow> word_t \<Rightarrow> vaddr_t mem" where
  "fp_move_to_d c pc snpc rd v = fp_under c pc snpc True (fp_move rd v)"

definition fp_move_from_d :: "config \<Rightarrow> vaddr_t \<Rightarrow> vaddr_t \<Rightarrow> nat \<Rightarrow> nat \<Rightarrow> vaddr_t mem" where
  "fp_move_from_d c pc snpc rd rs1 =
     fp_under c pc snpc True (mbind (mgets (\<lambda>s. fpr s rs1)) (wr_reg rd))"

definition fp_move_to_h :: "config \<Rightarrow> vaddr_t \<Rightarrow> vaddr_t \<Rightarrow> nat \<Rightarrow> word_t \<Rightarrow> vaddr_t mem" where
  "fp_move_to_h c pc snpc rd v = fp_under c pc snpc False (fp_move rd (riscv_fp_box_h (ucast v)))"

definition fp_move_from_h :: "config \<Rightarrow> vaddr_t \<Rightarrow> vaddr_t \<Rightarrow> nat \<Rightarrow> nat \<Rightarrow> vaddr_t mem" where
  "fp_move_from_h c pc snpc rd rs1 =
     fp_under c pc snpc False
       (mbind (mgets (\<lambda>s. fpr s rs1)) (\<lambda>v. wr_reg rd (SEXT (ucast (riscv_fp_h_bits v)) 16)))"

definition fp_sign_inject_s :: "config \<Rightarrow> vaddr_t \<Rightarrow> vaddr_t \<Rightarrow> nat \<Rightarrow> nat \<Rightarrow> nat \<Rightarrow> nat \<Rightarrow> vaddr_t mem" where
  "fp_sign_inject_s c pc snpc rd rs1 rs2 mode =
     fp_under c pc snpc False
       (mbind (mgets (\<lambda>s. riscv_fp_sgnj (fpr s rs1) (fpr s rs2) mode)) (fp_move rd))"

definition fp_sign_d :: "word_t \<Rightarrow> word_t \<Rightarrow> nat \<Rightarrow> word_t" where
  "fp_sign_d lhs rhs mode =
     (let sign = (if mode = 1 then NOT rhs AND 0x8000000000000000
                  else if mode = 2 then (lhs XOR rhs) AND 0x8000000000000000
                  else rhs AND 0x8000000000000000)
      in (lhs AND 0x7fffffffffffffff) OR sign)"

definition fp_sign_inject_d :: "config \<Rightarrow> vaddr_t \<Rightarrow> vaddr_t \<Rightarrow> nat \<Rightarrow> nat \<Rightarrow> nat \<Rightarrow> nat \<Rightarrow> vaddr_t mem" where
  "fp_sign_inject_d c pc snpc rd rs1 rs2 mode =
     fp_under c pc snpc True
       (mbind (mgets (\<lambda>s. fp_sign_d (fpr s rs1) (fpr s rs2) mode)) (fp_move rd))"

section \<open>Arithmetic, comparisons and conversions\<close>

text \<open>The operands as the single-precision operations read them.\<close>

definition fpr_s :: "nemu \<Rightarrow> nat \<Rightarrow> uint32_t" where
  "fpr_s s i = riscv_fp_read_s (fpr s i)"

definition fp_exec_binary_s ::
    "config \<Rightarrow> uint32_t \<Rightarrow> vaddr_t \<Rightarrow> vaddr_t \<Rightarrow> nat \<Rightarrow> nat \<Rightarrow> nat \<Rightarrow>
      (uint32_t \<Rightarrow> uint32_t \<Rightarrow> nat \<Rightarrow> uint32_t \<times> uint32_t) \<Rightarrow> vaddr_t mem" where
  "fp_exec_binary_s c i pc snpc rd rs1 rs2 operation =
     fp_prepare c i pc snpc False (\<lambda>rm.
       mbind (mgets (\<lambda>s. operation (fpr_s s rs1) (fpr_s s rs2) rm)) (fp_put_s rd))"

definition fp_exec_unary_s ::
    "config \<Rightarrow> uint32_t \<Rightarrow> vaddr_t \<Rightarrow> vaddr_t \<Rightarrow> nat \<Rightarrow> nat \<Rightarrow>
      (uint32_t \<Rightarrow> nat \<Rightarrow> uint32_t \<times> uint32_t) \<Rightarrow> vaddr_t mem" where
  "fp_exec_unary_s c i pc snpc rd rs1 operation =
     fp_prepare c i pc snpc False (\<lambda>rm.
       mbind (mgets (\<lambda>s. operation (fpr_s s rs1) rm)) (fp_put_s rd))"

definition fp_exec_fma_s ::
    "softfloat \<Rightarrow> config \<Rightarrow> uint32_t \<Rightarrow> vaddr_t \<Rightarrow> vaddr_t \<Rightarrow> nat \<Rightarrow> nat \<Rightarrow> nat \<Rightarrow> nat \<Rightarrow> bool \<Rightarrow> bool \<Rightarrow> vaddr_t mem" where
  "fp_exec_fma_s sf c i pc snpc rd rs1 rs2 rs3 negate_product negate_addend =
     fp_prepare c i pc snpc False (\<lambda>rm.
       mbind (mgets (\<lambda>s. riscv_fp_fma_s sf (fpr_s s rs1) (fpr_s s rs2) (fpr_s s rs3) rm
                negate_product negate_addend)) (fp_put_s rd))"

definition fp_exec_minmax_s ::
    "config \<Rightarrow> vaddr_t \<Rightarrow> vaddr_t \<Rightarrow> nat \<Rightarrow> nat \<Rightarrow> nat \<Rightarrow>
      (uint32_t \<Rightarrow> uint32_t \<Rightarrow> uint32_t \<times> uint32_t) \<Rightarrow> vaddr_t mem" where
  "fp_exec_minmax_s c pc snpc rd rs1 rs2 operation =
     fp_under c pc snpc False
       (mbind (mgets (\<lambda>s. operation (fpr_s s rs1) (fpr_s s rs2))) (fp_put_s rd))"

definition fp_exec_compare_s ::
    "config \<Rightarrow> vaddr_t \<Rightarrow> vaddr_t \<Rightarrow> nat \<Rightarrow> nat \<Rightarrow> nat \<Rightarrow>
      (uint32_t \<Rightarrow> uint32_t \<Rightarrow> uint32_t \<times> uint32_t) \<Rightarrow> vaddr_t mem" where
  "fp_exec_compare_s c pc snpc rd rs1 rs2 operation =
     fp_under c pc snpc False
       (mbind (mgets (\<lambda>s. operation (fpr_s s rs1) (fpr_s s rs2))) (\<lambda>r. fp_put_int rd (map_prod ucast id r)))"

definition fp_exec_class_s ::
    "config \<Rightarrow> vaddr_t \<Rightarrow> vaddr_t \<Rightarrow> nat \<Rightarrow> nat \<Rightarrow> vaddr_t mem" where
  "fp_exec_class_s c pc snpc rd rs1 =
     fp_under c pc snpc False
       (mbind (mgets (\<lambda>s. riscv_fp_class_s (fpr_s s rs1))) (\<lambda>v. wr_reg rd (ucast v)))"

definition fp_exec_to_int_s ::
    "softfloat \<Rightarrow> config \<Rightarrow> uint32_t \<Rightarrow> vaddr_t \<Rightarrow> vaddr_t \<Rightarrow> nat \<Rightarrow> nat \<Rightarrow> bool \<Rightarrow> bool \<Rightarrow> vaddr_t mem" where
  "fp_exec_to_int_s sf c i pc snpc rd rs1 unsigned_result int64 =
     fp_prepare c i pc snpc False (\<lambda>rm.
       mbind (mgets (\<lambda>s. riscv_fp_to_int_s sf (fpr_s s rs1) rm unsigned_result int64)) (\<lambda>(v, flags).
         fp_put_int rd (if int64 then v else SEXT (ucast (ucast v :: uint32_t)) 32, flags)))"

definition fp_exec_from_int_s ::
    "softfloat \<Rightarrow> config \<Rightarrow> uint32_t \<Rightarrow> vaddr_t \<Rightarrow> vaddr_t \<Rightarrow> nat \<Rightarrow> word_t \<Rightarrow> bool \<Rightarrow> bool \<Rightarrow> vaddr_t mem" where
  "fp_exec_from_int_s sf c i pc snpc rd v unsigned_input int64 =
     fp_prepare c i pc snpc False (\<lambda>rm.
       fp_put_s rd (riscv_int_to_fp_s sf v rm unsigned_input int64))"

definition fp_exec_binary_d ::
    "config \<Rightarrow> uint32_t \<Rightarrow> vaddr_t \<Rightarrow> vaddr_t \<Rightarrow> nat \<Rightarrow> nat \<Rightarrow> nat \<Rightarrow>
      (word_t \<Rightarrow> word_t \<Rightarrow> nat \<Rightarrow> word_t \<times> uint32_t) \<Rightarrow> vaddr_t mem" where
  "fp_exec_binary_d c i pc snpc rd rs1 rs2 operation =
     fp_prepare c i pc snpc True (\<lambda>rm.
       mbind (mgets (\<lambda>s. operation (fpr s rs1) (fpr s rs2) rm)) (fp_put rd))"

definition fp_exec_unary_d ::
    "config \<Rightarrow> uint32_t \<Rightarrow> vaddr_t \<Rightarrow> vaddr_t \<Rightarrow> nat \<Rightarrow> nat \<Rightarrow>
      (word_t \<Rightarrow> nat \<Rightarrow> word_t \<times> uint32_t) \<Rightarrow> vaddr_t mem" where
  "fp_exec_unary_d c i pc snpc rd rs1 operation =
     fp_prepare c i pc snpc True (\<lambda>rm.
       mbind (mgets (\<lambda>s. operation (fpr s rs1) rm)) (fp_put rd))"

definition fp_exec_fma_d ::
    "softfloat \<Rightarrow> config \<Rightarrow> uint32_t \<Rightarrow> vaddr_t \<Rightarrow> vaddr_t \<Rightarrow> nat \<Rightarrow> nat \<Rightarrow> nat \<Rightarrow> nat \<Rightarrow> bool \<Rightarrow> bool \<Rightarrow> vaddr_t mem" where
  "fp_exec_fma_d sf c i pc snpc rd rs1 rs2 rs3 negate_product negate_addend =
     fp_prepare c i pc snpc True (\<lambda>rm.
       mbind (mgets (\<lambda>s. riscv_fp_fma_d sf (fpr s rs1) (fpr s rs2) (fpr s rs3) rm
                negate_product negate_addend)) (fp_put rd))"

definition fp_exec_minmax_d ::
    "config \<Rightarrow> vaddr_t \<Rightarrow> vaddr_t \<Rightarrow> nat \<Rightarrow> nat \<Rightarrow> nat \<Rightarrow>
      (word_t \<Rightarrow> word_t \<Rightarrow> word_t \<times> uint32_t) \<Rightarrow> vaddr_t mem" where
  "fp_exec_minmax_d c pc snpc rd rs1 rs2 operation =
     fp_under c pc snpc True
       (mbind (mgets (\<lambda>s. operation (fpr s rs1) (fpr s rs2))) (fp_put rd))"

definition fp_exec_compare_d ::
    "config \<Rightarrow> vaddr_t \<Rightarrow> vaddr_t \<Rightarrow> nat \<Rightarrow> nat \<Rightarrow> nat \<Rightarrow>
      (word_t \<Rightarrow> word_t \<Rightarrow> uint32_t \<times> uint32_t) \<Rightarrow> vaddr_t mem" where
  "fp_exec_compare_d c pc snpc rd rs1 rs2 operation =
     fp_under c pc snpc True
       (mbind (mgets (\<lambda>s. operation (fpr s rs1) (fpr s rs2))) (\<lambda>r. fp_put_int rd (map_prod ucast id r)))"

definition fp_exec_class_d ::
    "config \<Rightarrow> vaddr_t \<Rightarrow> vaddr_t \<Rightarrow> nat \<Rightarrow> nat \<Rightarrow> vaddr_t mem" where
  "fp_exec_class_d c pc snpc rd rs1 =
     fp_under c pc snpc True
       (mbind (mgets (\<lambda>s. riscv_fp_class_d (fpr s rs1))) (\<lambda>v. wr_reg rd (ucast v)))"

definition fp_exec_to_int_d ::
    "softfloat \<Rightarrow> config \<Rightarrow> uint32_t \<Rightarrow> vaddr_t \<Rightarrow> vaddr_t \<Rightarrow> nat \<Rightarrow> nat \<Rightarrow> bool \<Rightarrow> bool \<Rightarrow> vaddr_t mem" where
  "fp_exec_to_int_d sf c i pc snpc rd rs1 unsigned_result int64 =
     fp_prepare c i pc snpc True (\<lambda>rm.
       mbind (mgets (\<lambda>s. riscv_fp_to_int_d sf (fpr s rs1) rm unsigned_result int64)) (\<lambda>(v, flags).
         fp_put_int rd (if int64 then v else SEXT (ucast (ucast v :: uint32_t)) 32, flags)))"

definition fp_exec_from_int_d ::
    "softfloat \<Rightarrow> config \<Rightarrow> uint32_t \<Rightarrow> vaddr_t \<Rightarrow> vaddr_t \<Rightarrow> nat \<Rightarrow> word_t \<Rightarrow> bool \<Rightarrow> bool \<Rightarrow> vaddr_t mem" where
  "fp_exec_from_int_d sf c i pc snpc rd v unsigned_input int64 =
     fp_prepare c i pc snpc True (\<lambda>rm.
       fp_put rd (riscv_int_to_fp_d sf v rm unsigned_input int64))"

definition fp_exec_convert_d_to_s ::
    "softfloat \<Rightarrow> config \<Rightarrow> uint32_t \<Rightarrow> vaddr_t \<Rightarrow> vaddr_t \<Rightarrow> nat \<Rightarrow> nat \<Rightarrow> vaddr_t mem" where
  "fp_exec_convert_d_to_s sf c i pc snpc rd rs1 =
     fp_prepare c i pc snpc True (\<lambda>rm.
       mbind (mgets (\<lambda>s. riscv_fp_convert_d_to_s sf (fpr s rs1) rm))
         (fp_put_s rd))"

definition fp_exec_convert_s_to_d ::
    "softfloat \<Rightarrow> config \<Rightarrow> uint32_t \<Rightarrow> vaddr_t \<Rightarrow> vaddr_t \<Rightarrow> nat \<Rightarrow> nat \<Rightarrow> vaddr_t mem" where
  "fp_exec_convert_s_to_d sf c i pc snpc rd rs1 =
     fp_prepare c i pc snpc True (\<lambda>rm.
       mbind (mgets (\<lambda>s. riscv_fp_convert_s_to_d sf (fpr_s s rs1) rm))
         (fp_put rd))"

definition fp_exec_convert_h_to_s ::
    "softfloat \<Rightarrow> config \<Rightarrow> uint32_t \<Rightarrow> vaddr_t \<Rightarrow> vaddr_t \<Rightarrow> nat \<Rightarrow> nat \<Rightarrow> vaddr_t mem" where
  "fp_exec_convert_h_to_s sf c i pc snpc rd rs1 =
     fp_prepare c i pc snpc False (\<lambda>rm.
       mbind (mgets (\<lambda>s. riscv_fp_convert_h_to_s sf (riscv_fp_read_h (fpr s rs1))))
         (fp_put_s rd))"

definition fp_exec_convert_h_to_d ::
    "softfloat \<Rightarrow> config \<Rightarrow> uint32_t \<Rightarrow> vaddr_t \<Rightarrow> vaddr_t \<Rightarrow> nat \<Rightarrow> nat \<Rightarrow> vaddr_t mem" where
  "fp_exec_convert_h_to_d sf c i pc snpc rd rs1 =
     fp_prepare c i pc snpc True (\<lambda>rm.
       mbind (mgets (\<lambda>s. riscv_fp_convert_h_to_d sf (riscv_fp_read_h (fpr s rs1))))
         (fp_put rd))"

definition fp_exec_convert_s_to_h ::
    "softfloat \<Rightarrow> config \<Rightarrow> uint32_t \<Rightarrow> vaddr_t \<Rightarrow> vaddr_t \<Rightarrow> nat \<Rightarrow> nat \<Rightarrow> vaddr_t mem" where
  "fp_exec_convert_s_to_h sf c i pc snpc rd rs1 =
     fp_prepare c i pc snpc False (\<lambda>rm.
       mbind (mgets (\<lambda>s. riscv_fp_convert_s_to_h sf (fpr_s s rs1) rm))
         (\<lambda>r. fp_put rd (riscv_fp_box_h (fst r), snd r)))"

definition fp_exec_convert_d_to_h ::
    "softfloat \<Rightarrow> config \<Rightarrow> uint32_t \<Rightarrow> vaddr_t \<Rightarrow> vaddr_t \<Rightarrow> nat \<Rightarrow> nat \<Rightarrow> vaddr_t mem" where
  "fp_exec_convert_d_to_h sf c i pc snpc rd rs1 =
     fp_prepare c i pc snpc True (\<lambda>rm.
       mbind (mgets (\<lambda>s. riscv_fp_convert_d_to_h sf (fpr s rs1) rm))
         (\<lambda>r. fp_put rd (riscv_fp_box_h (fst r), snd r)))"

section \<open>Zfa\<close>

datatype fp_zfa_operation =
  FP_ZFA_LI | FP_ZFA_MINMAX | FP_ZFA_ROUND | FP_ZFA_QUIET | FP_ZFA_MOD | FP_ZFA_MOVE_HIGH | FP_ZFA_MOVE_PAIR

text \<open>The two moves of the last guard exist on RV32 only.\<close>

definition fp_zfa_denied :: "config \<Rightarrow> uint32_t \<Rightarrow> fp_zfa_operation \<Rightarrow> nemu \<Rightarrow> bool" where
  "fp_zfa_denied c i operation s \<longleftrightarrow>
     (let double_precision = (BITS (ucast i) 25 25 \<noteq> 0);
          required = 0x20 OR (if double_precision then 0x8 else 0)
      in riscv_isa_extensions c AND NEMU_ISA_EXT_ZFA = 0 \<or>
         sr s CSR_MISA AND required \<noteq> required \<or> sr s CSR_MSTATUS AND 0x6000 = 0 \<or>
         (virt s \<and> sr s CSR_VSSTATUS AND 0x6000 = 0) \<or>
         (operation = FP_ZFA_ROUND \<and> \<not> fp_rm_valid (fp_rm i) s) \<or>
         operation = FP_ZFA_MOVE_HIGH \<or> operation = FP_ZFA_MOVE_PAIR)"

definition fp_zfa_result :: "softfloat \<Rightarrow> uint32_t \<Rightarrow> fp_zfa_operation \<Rightarrow> nemu \<Rightarrow> word_t \<times> uint32_t" where
  "fp_zfa_result sf i operation s =
     (let double_precision = (BITS (ucast i) 25 25 \<noteq> 0); rm = fp_rm i; rs1 = fp_rs1 i; rs2 = fp_rs2 i;
          lhs = (if double_precision then fpr s rs1 else ucast (fpr_s s rs1));
          rhs = (if double_precision then fpr s rs2 else ucast (fpr_s s rs2)) in
      case operation of
        FP_ZFA_LI \<Rightarrow> (riscv_fp_fli rs1 double_precision, 0)
      | FP_ZFA_MINMAX \<Rightarrow>
          (if double_precision then riscv_fp_minmaxm_d lhs rhs (odd rm)
           else map_prod ucast id (riscv_fp_minmaxm_s (ucast lhs) (ucast rhs) (odd rm)))
      | FP_ZFA_ROUND \<Rightarrow>
          (if double_precision then riscv_fp_round_d sf lhs (fp_rm_resolve rm s) (odd rs2)
           else map_prod ucast id (riscv_fp_round_s sf (ucast lhs) (fp_rm_resolve rm s) (odd rs2)))
      | FP_ZFA_QUIET \<Rightarrow>
          map_prod ucast id
            (if double_precision then riscv_fp_quiet_d sf lhs rhs (odd rm)
             else riscv_fp_quiet_s sf (ucast lhs) (ucast rhs) (odd rm))
      | FP_ZFA_MOD \<Rightarrow> map_prod (\<lambda>v. SEXT (ucast v) 32) id (riscv_fp_mod_w_d sf lhs)
      | FP_ZFA_MOVE_HIGH \<Rightarrow> (drop_bit 32 lhs, 0)
      | FP_ZFA_MOVE_PAIR \<Rightarrow>
          (push_bit 32 (ucast (ucast (gpr s rs2) :: uint32_t)) OR ucast (ucast (gpr s rs1) :: uint32_t), 0))"

definition fp_exec_zfa ::
    "softfloat \<Rightarrow> config \<Rightarrow> uint32_t \<Rightarrow> vaddr_t \<Rightarrow> vaddr_t \<Rightarrow> fp_zfa_operation \<Rightarrow> vaddr_t mem" where
  "fp_exec_zfa sf c i pc snpc operation =
     mbind (mgets (\<lambda>s. s)) (\<lambda>s.
       let double_precision = (BITS (ucast i) 25 25 \<noteq> 0); rd = unat (BITS (ucast i) 11 7);
           integer_result = (operation \<in> {FP_ZFA_QUIET, FP_ZFA_MOD, FP_ZFA_MOVE_HIGH}) in
       if fp_zfa_denied c i operation s then raise_at c MCA_ILLEGAL_INS pc
       else
         case fp_zfa_result sf i operation s of (result, flags) \<Rightarrow>
           mseq (if integer_result then fp_put_int rd (result, flags)
                 else fp_put rd (if double_precision then result else riscv_fp_box_s (ucast result), flags))
             (mret snpc))"

section \<open>The instruction groups (inst.c)\<close>

definition vector_memory_execute :: "config \<Rightarrow> uint32_t \<Rightarrow> vaddr_t \<Rightarrow> vaddr_t \<Rightarrow> bool \<Rightarrow> vaddr_t mem" where
  "vector_memory_execute c i pc snpc store =
     mbind (riscv_vector_memory c i store) (\<lambda>cause.
       if cause \<noteq> 0 then raise_at c cause pc else mret snpc)"

definition vector_body :: "config \<Rightarrow> vaddr_t \<Rightarrow> vaddr_t \<Rightarrow> bool mem \<Rightarrow> vaddr_t mem" where
  "vector_body c pc snpc m = mbind m (\<lambda>ok. if ok then mret snpc else raise_at c MCA_ILLEGAL_INS pc)"

definition grp_fp_load :: "softfloat \<Rightarrow> config \<Rightarrow> uint32_t \<Rightarrow> vaddr_t \<Rightarrow> vaddr_t \<Rightarrow> exec_entry list" where
  "grp_fp_load sf c i pc snpc =
    [\<comment> \<open>flh\<close> (''??????? ????? ????? 001 ????? 00001 11'', TYPE_I, \<lambda>rd _ src1 _ imm.
       fp_load_h c pc snpc rd (src1 + imm)),
     \<comment> \<open>flw\<close> (''??????? ????? ????? 010 ????? 00001 11'', TYPE_I, \<lambda>rd _ src1 _ imm.
       fp_load_s c pc snpc rd (src1 + imm)),
     \<comment> \<open>fld\<close> (''??????? ????? ????? 011 ????? 00001 11'', TYPE_I, \<lambda>rd _ src1 _ imm.
       fp_load_d c pc snpc rd (src1 + imm)),
     \<comment> \<open>vle8\<close> (''??????? ????? ????? 000 ????? 00001 11'', TYPE_N, \<lambda>_ _ _ _ _.
       vector_memory_execute c i pc snpc False),
     \<comment> \<open>vle16\<close> (''??????? ????? ????? 101 ????? 00001 11'', TYPE_N, \<lambda>_ _ _ _ _.
       vector_memory_execute c i pc snpc False),
     \<comment> \<open>vle32\<close> (''??????? ????? ????? 110 ????? 00001 11'', TYPE_N, \<lambda>_ _ _ _ _.
       vector_memory_execute c i pc snpc False),
     \<comment> \<open>vle64\<close> (''??????? ????? ????? 111 ????? 00001 11'', TYPE_N, \<lambda>_ _ _ _ _.
       vector_memory_execute c i pc snpc False)]"

definition grp_fp_store :: "softfloat \<Rightarrow> config \<Rightarrow> uint32_t \<Rightarrow> vaddr_t \<Rightarrow> vaddr_t \<Rightarrow> exec_entry list" where
  "grp_fp_store sf c i pc snpc =
    [\<comment> \<open>fsh\<close> (''??????? ????? ????? 001 ????? 01001 11'', TYPE_S, \<lambda>_ _ src1 _ imm.
       fp_store_h c pc snpc (src1 + imm) (fp_rs2 i)),
     \<comment> \<open>fsw\<close> (''??????? ????? ????? 010 ????? 01001 11'', TYPE_S, \<lambda>_ _ src1 _ imm.
       fp_store_s c pc snpc (src1 + imm) (fp_rs2 i)),
     \<comment> \<open>fsd\<close> (''??????? ????? ????? 011 ????? 01001 11'', TYPE_S, \<lambda>_ _ src1 _ imm.
       fp_store_d c pc snpc (src1 + imm) (fp_rs2 i)),
     \<comment> \<open>vse8\<close> (''??????? ????? ????? 000 ????? 01001 11'', TYPE_N, \<lambda>_ _ _ _ _.
       vector_memory_execute c i pc snpc True),
     \<comment> \<open>vse16\<close> (''??????? ????? ????? 101 ????? 01001 11'', TYPE_N, \<lambda>_ _ _ _ _.
       vector_memory_execute c i pc snpc True),
     \<comment> \<open>vse32\<close> (''??????? ????? ????? 110 ????? 01001 11'', TYPE_N, \<lambda>_ _ _ _ _.
       vector_memory_execute c i pc snpc True),
     \<comment> \<open>vse64\<close> (''??????? ????? ????? 111 ????? 01001 11'', TYPE_N, \<lambda>_ _ _ _ _.
       vector_memory_execute c i pc snpc True)]"

definition grp_fmadd :: "softfloat \<Rightarrow> config \<Rightarrow> uint32_t \<Rightarrow> vaddr_t \<Rightarrow> vaddr_t \<Rightarrow> exec_entry list" where
  "grp_fmadd sf c i pc snpc =
    [\<comment> \<open>fmadd.s\<close> (''????? 00 ????? ????? ??? ????? 10000 11'', TYPE_R, \<lambda>rd _ _ _ _.
       fp_exec_fma_s sf c i pc snpc rd (fp_rs1 i) (fp_rs2 i) (fp_rs3 i) False False),
     \<comment> \<open>fmadd.d\<close> (''????? 01 ????? ????? ??? ????? 10000 11'', TYPE_R, \<lambda>rd _ _ _ _.
       fp_exec_fma_d sf c i pc snpc rd (fp_rs1 i) (fp_rs2 i) (fp_rs3 i) False False)]"

definition grp_fmsub :: "softfloat \<Rightarrow> config \<Rightarrow> uint32_t \<Rightarrow> vaddr_t \<Rightarrow> vaddr_t \<Rightarrow> exec_entry list" where
  "grp_fmsub sf c i pc snpc =
    [\<comment> \<open>fmsub.s\<close> (''????? 00 ????? ????? ??? ????? 10001 11'', TYPE_R, \<lambda>rd _ _ _ _.
       fp_exec_fma_s sf c i pc snpc rd (fp_rs1 i) (fp_rs2 i) (fp_rs3 i) False True),
     \<comment> \<open>fmsub.d\<close> (''????? 01 ????? ????? ??? ????? 10001 11'', TYPE_R, \<lambda>rd _ _ _ _.
       fp_exec_fma_d sf c i pc snpc rd (fp_rs1 i) (fp_rs2 i) (fp_rs3 i) False True)]"

definition grp_fnmsub :: "softfloat \<Rightarrow> config \<Rightarrow> uint32_t \<Rightarrow> vaddr_t \<Rightarrow> vaddr_t \<Rightarrow> exec_entry list" where
  "grp_fnmsub sf c i pc snpc =
    [\<comment> \<open>fnmsub.s\<close> (''????? 00 ????? ????? ??? ????? 10010 11'', TYPE_R, \<lambda>rd _ _ _ _.
       fp_exec_fma_s sf c i pc snpc rd (fp_rs1 i) (fp_rs2 i) (fp_rs3 i) True False),
     \<comment> \<open>fnmsub.d\<close> (''????? 01 ????? ????? ??? ????? 10010 11'', TYPE_R, \<lambda>rd _ _ _ _.
       fp_exec_fma_d sf c i pc snpc rd (fp_rs1 i) (fp_rs2 i) (fp_rs3 i) True False)]"

definition grp_fnmadd :: "softfloat \<Rightarrow> config \<Rightarrow> uint32_t \<Rightarrow> vaddr_t \<Rightarrow> vaddr_t \<Rightarrow> exec_entry list" where
  "grp_fnmadd sf c i pc snpc =
    [\<comment> \<open>fnmadd.s\<close> (''????? 00 ????? ????? ??? ????? 10011 11'', TYPE_R, \<lambda>rd _ _ _ _.
       fp_exec_fma_s sf c i pc snpc rd (fp_rs1 i) (fp_rs2 i) (fp_rs3 i) True True),
     \<comment> \<open>fnmadd.d\<close> (''????? 01 ????? ????? ??? ????? 10011 11'', TYPE_R, \<lambda>rd _ _ _ _.
       fp_exec_fma_d sf c i pc snpc rd (fp_rs1 i) (fp_rs2 i) (fp_rs3 i) True True)]"

definition grp_fp_op :: "softfloat \<Rightarrow> config \<Rightarrow> uint32_t \<Rightarrow> vaddr_t \<Rightarrow> vaddr_t \<Rightarrow> exec_entry list" where
  "grp_fp_op sf c i pc snpc =
    [\<comment> \<open>fli\<close> (''111100? 00001 ????? 000 ????? 10100 11'', TYPE_N, \<lambda>_ _ _ _ _.
       fp_exec_zfa sf c i pc snpc FP_ZFA_LI),
     \<comment> \<open>fminmaxm\<close> (''001010? ????? ????? 01? ????? 10100 11'', TYPE_N, \<lambda>_ _ _ _ _.
       fp_exec_zfa sf c i pc snpc FP_ZFA_MINMAX),
     \<comment> \<open>fround\<close> (''010000? 0010? ????? ??? ????? 10100 11'', TYPE_N, \<lambda>_ _ _ _ _.
       fp_exec_zfa sf c i pc snpc FP_ZFA_ROUND),
     \<comment> \<open>fquiet\<close> (''101000? ????? ????? 10? ????? 10100 11'', TYPE_N, \<lambda>_ _ _ _ _.
       fp_exec_zfa sf c i pc snpc FP_ZFA_QUIET),
     \<comment> \<open>fcvtmod.w.d\<close> (''1100001 01000 ????? 001 ????? 10100 11'', TYPE_N, \<lambda>_ _ _ _ _.
       fp_exec_zfa sf c i pc snpc FP_ZFA_MOD),
     \<comment> \<open>fmvh.x.d\<close> (''1110001 00001 ????? 000 ????? 10100 11'', TYPE_N, \<lambda>_ _ _ _ _.
       fp_exec_zfa sf c i pc snpc FP_ZFA_MOVE_HIGH),
     \<comment> \<open>fmvp.d.x\<close> (''1011001 ????? ????? 000 ????? 10100 11'', TYPE_N, \<lambda>_ _ _ _ _.
       fp_exec_zfa sf c i pc snpc FP_ZFA_MOVE_PAIR),
     \<comment> \<open>fmv.h.x\<close> (''1111010 00000 ????? 000 ????? 10100 11'', TYPE_R, \<lambda>rd _ src1 _ _.
       fp_move_to_h c pc snpc rd src1),
     \<comment> \<open>fmv.x.h\<close> (''1110010 00000 ????? 000 ????? 10100 11'', TYPE_R, \<lambda>rd _ _ _ _.
       fp_move_from_h c pc snpc rd (fp_rs1 i)),
     \<comment> \<open>fmv.w.x\<close> (''1111000 00000 ????? 000 ????? 10100 11'', TYPE_R, \<lambda>rd _ src1 _ _.
       fp_move_to_s c pc snpc rd src1),
     \<comment> \<open>fmv.x.w\<close> (''1110000 00000 ????? 000 ????? 10100 11'', TYPE_R, \<lambda>rd _ _ _ _.
       fp_move_from_s c pc snpc rd (fp_rs1 i)),
     \<comment> \<open>fsgnj.s\<close> (''0010000 ????? ????? 000 ????? 10100 11'', TYPE_R, \<lambda>rd _ _ _ _.
       fp_sign_inject_s c pc snpc rd (fp_rs1 i) (fp_rs2 i) 0),
     \<comment> \<open>fsgnjn.s\<close> (''0010000 ????? ????? 001 ????? 10100 11'', TYPE_R, \<lambda>rd _ _ _ _.
       fp_sign_inject_s c pc snpc rd (fp_rs1 i) (fp_rs2 i) 1),
     \<comment> \<open>fsgnjx.s\<close> (''0010000 ????? ????? 010 ????? 10100 11'', TYPE_R, \<lambda>rd _ _ _ _.
       fp_sign_inject_s c pc snpc rd (fp_rs1 i) (fp_rs2 i) 2),
     \<comment> \<open>fadd.s\<close> (''0000000 ????? ????? ??? ????? 10100 11'', TYPE_R, \<lambda>rd _ _ _ _.
       fp_exec_binary_s c i pc snpc rd (fp_rs1 i) (fp_rs2 i) (riscv_fp_add_s sf)),
     \<comment> \<open>fsub.s\<close> (''0000100 ????? ????? ??? ????? 10100 11'', TYPE_R, \<lambda>rd _ _ _ _.
       fp_exec_binary_s c i pc snpc rd (fp_rs1 i) (fp_rs2 i) (riscv_fp_sub_s sf)),
     \<comment> \<open>fmul.s\<close> (''0001000 ????? ????? ??? ????? 10100 11'', TYPE_R, \<lambda>rd _ _ _ _.
       fp_exec_binary_s c i pc snpc rd (fp_rs1 i) (fp_rs2 i) (riscv_fp_mul_s sf)),
     \<comment> \<open>fdiv.s\<close> (''0001100 ????? ????? ??? ????? 10100 11'', TYPE_R, \<lambda>rd _ _ _ _.
       fp_exec_binary_s c i pc snpc rd (fp_rs1 i) (fp_rs2 i) (riscv_fp_div_s sf)),
     \<comment> \<open>fsqrt.s\<close> (''0101100 00000 ????? ??? ????? 10100 11'', TYPE_R, \<lambda>rd _ _ _ _.
       fp_exec_unary_s c i pc snpc rd (fp_rs1 i) (riscv_fp_sqrt_s sf)),
     \<comment> \<open>fmin.s\<close> (''0010100 ????? ????? 000 ????? 10100 11'', TYPE_R, \<lambda>rd _ _ _ _.
       fp_exec_minmax_s c pc snpc rd (fp_rs1 i) (fp_rs2 i) riscv_fp_min_s),
     \<comment> \<open>fmax.s\<close> (''0010100 ????? ????? 001 ????? 10100 11'', TYPE_R, \<lambda>rd _ _ _ _.
       fp_exec_minmax_s c pc snpc rd (fp_rs1 i) (fp_rs2 i) riscv_fp_max_s),
     \<comment> \<open>fle.s\<close> (''1010000 ????? ????? 000 ????? 10100 11'', TYPE_R, \<lambda>rd _ _ _ _.
       fp_exec_compare_s c pc snpc rd (fp_rs1 i) (fp_rs2 i) (riscv_fp_le_s sf)),
     \<comment> \<open>flt.s\<close> (''1010000 ????? ????? 001 ????? 10100 11'', TYPE_R, \<lambda>rd _ _ _ _.
       fp_exec_compare_s c pc snpc rd (fp_rs1 i) (fp_rs2 i) (riscv_fp_lt_s sf)),
     \<comment> \<open>feq.s\<close> (''1010000 ????? ????? 010 ????? 10100 11'', TYPE_R, \<lambda>rd _ _ _ _.
       fp_exec_compare_s c pc snpc rd (fp_rs1 i) (fp_rs2 i) (riscv_fp_eq_s sf)),
     \<comment> \<open>fclass.s\<close> (''1110000 00000 ????? 001 ????? 10100 11'', TYPE_R, \<lambda>rd _ _ _ _.
       fp_exec_class_s c pc snpc rd (fp_rs1 i)),
     \<comment> \<open>fcvt.w.s\<close> (''1100000 00000 ????? ??? ????? 10100 11'', TYPE_R, \<lambda>rd _ _ _ _.
       fp_exec_to_int_s sf c i pc snpc rd (fp_rs1 i) False False),
     \<comment> \<open>fcvt.wu.s\<close> (''1100000 00001 ????? ??? ????? 10100 11'', TYPE_R, \<lambda>rd _ _ _ _.
       fp_exec_to_int_s sf c i pc snpc rd (fp_rs1 i) True False),
     \<comment> \<open>fcvt.l.s\<close> (''1100000 00010 ????? ??? ????? 10100 11'', TYPE_R, \<lambda>rd _ _ _ _.
       fp_exec_to_int_s sf c i pc snpc rd (fp_rs1 i) False True),
     \<comment> \<open>fcvt.lu.s\<close> (''1100000 00011 ????? ??? ????? 10100 11'', TYPE_R, \<lambda>rd _ _ _ _.
       fp_exec_to_int_s sf c i pc snpc rd (fp_rs1 i) True True),
     \<comment> \<open>fcvt.s.w\<close> (''1101000 00000 ????? ??? ????? 10100 11'', TYPE_R, \<lambda>rd _ src1 _ _.
       fp_exec_from_int_s sf c i pc snpc rd src1 False False),
     \<comment> \<open>fcvt.s.wu\<close> (''1101000 00001 ????? ??? ????? 10100 11'', TYPE_R, \<lambda>rd _ src1 _ _.
       fp_exec_from_int_s sf c i pc snpc rd src1 True False),
     \<comment> \<open>fcvt.s.l\<close> (''1101000 00010 ????? ??? ????? 10100 11'', TYPE_R, \<lambda>rd _ src1 _ _.
       fp_exec_from_int_s sf c i pc snpc rd src1 False True),
     \<comment> \<open>fcvt.s.lu\<close> (''1101000 00011 ????? ??? ????? 10100 11'', TYPE_R, \<lambda>rd _ src1 _ _.
       fp_exec_from_int_s sf c i pc snpc rd src1 True True),
     \<comment> \<open>fmv.d.x\<close> (''1111001 00000 ????? 000 ????? 10100 11'', TYPE_R, \<lambda>rd _ src1 _ _.
       fp_move_to_d c pc snpc rd src1),
     \<comment> \<open>fmv.x.d\<close> (''1110001 00000 ????? 000 ????? 10100 11'', TYPE_R, \<lambda>rd _ _ _ _.
       fp_move_from_d c pc snpc rd (fp_rs1 i)),
     \<comment> \<open>fsgnj.d\<close> (''0010001 ????? ????? 000 ????? 10100 11'', TYPE_R, \<lambda>rd _ _ _ _.
       fp_sign_inject_d c pc snpc rd (fp_rs1 i) (fp_rs2 i) 0),
     \<comment> \<open>fsgnjn.d\<close> (''0010001 ????? ????? 001 ????? 10100 11'', TYPE_R, \<lambda>rd _ _ _ _.
       fp_sign_inject_d c pc snpc rd (fp_rs1 i) (fp_rs2 i) 1),
     \<comment> \<open>fsgnjx.d\<close> (''0010001 ????? ????? 010 ????? 10100 11'', TYPE_R, \<lambda>rd _ _ _ _.
       fp_sign_inject_d c pc snpc rd (fp_rs1 i) (fp_rs2 i) 2),
     \<comment> \<open>fadd.d\<close> (''0000001 ????? ????? ??? ????? 10100 11'', TYPE_R, \<lambda>rd _ _ _ _.
       fp_exec_binary_d c i pc snpc rd (fp_rs1 i) (fp_rs2 i) (riscv_fp_add_d sf)),
     \<comment> \<open>fsub.d\<close> (''0000101 ????? ????? ??? ????? 10100 11'', TYPE_R, \<lambda>rd _ _ _ _.
       fp_exec_binary_d c i pc snpc rd (fp_rs1 i) (fp_rs2 i) (riscv_fp_sub_d sf)),
     \<comment> \<open>fmul.d\<close> (''0001001 ????? ????? ??? ????? 10100 11'', TYPE_R, \<lambda>rd _ _ _ _.
       fp_exec_binary_d c i pc snpc rd (fp_rs1 i) (fp_rs2 i) (riscv_fp_mul_d sf)),
     \<comment> \<open>fdiv.d\<close> (''0001101 ????? ????? ??? ????? 10100 11'', TYPE_R, \<lambda>rd _ _ _ _.
       fp_exec_binary_d c i pc snpc rd (fp_rs1 i) (fp_rs2 i) (riscv_fp_div_d sf)),
     \<comment> \<open>fsqrt.d\<close> (''0101101 00000 ????? ??? ????? 10100 11'', TYPE_R, \<lambda>rd _ _ _ _.
       fp_exec_unary_d c i pc snpc rd (fp_rs1 i) (riscv_fp_sqrt_d sf)),
     \<comment> \<open>fmin.d\<close> (''0010101 ????? ????? 000 ????? 10100 11'', TYPE_R, \<lambda>rd _ _ _ _.
       fp_exec_minmax_d c pc snpc rd (fp_rs1 i) (fp_rs2 i) riscv_fp_min_d),
     \<comment> \<open>fmax.d\<close> (''0010101 ????? ????? 001 ????? 10100 11'', TYPE_R, \<lambda>rd _ _ _ _.
       fp_exec_minmax_d c pc snpc rd (fp_rs1 i) (fp_rs2 i) riscv_fp_max_d),
     \<comment> \<open>fle.d\<close> (''1010001 ????? ????? 000 ????? 10100 11'', TYPE_R, \<lambda>rd _ _ _ _.
       fp_exec_compare_d c pc snpc rd (fp_rs1 i) (fp_rs2 i) (riscv_fp_le_d sf)),
     \<comment> \<open>flt.d\<close> (''1010001 ????? ????? 001 ????? 10100 11'', TYPE_R, \<lambda>rd _ _ _ _.
       fp_exec_compare_d c pc snpc rd (fp_rs1 i) (fp_rs2 i) (riscv_fp_lt_d sf)),
     \<comment> \<open>feq.d\<close> (''1010001 ????? ????? 010 ????? 10100 11'', TYPE_R, \<lambda>rd _ _ _ _.
       fp_exec_compare_d c pc snpc rd (fp_rs1 i) (fp_rs2 i) (riscv_fp_eq_d sf)),
     \<comment> \<open>fclass.d\<close> (''1110001 00000 ????? 001 ????? 10100 11'', TYPE_R, \<lambda>rd _ _ _ _.
       fp_exec_class_d c pc snpc rd (fp_rs1 i)),
     \<comment> \<open>fcvt.w.d\<close> (''1100001 00000 ????? ??? ????? 10100 11'', TYPE_R, \<lambda>rd _ _ _ _.
       fp_exec_to_int_d sf c i pc snpc rd (fp_rs1 i) False False),
     \<comment> \<open>fcvt.wu.d\<close> (''1100001 00001 ????? ??? ????? 10100 11'', TYPE_R, \<lambda>rd _ _ _ _.
       fp_exec_to_int_d sf c i pc snpc rd (fp_rs1 i) True False),
     \<comment> \<open>fcvt.l.d\<close> (''1100001 00010 ????? ??? ????? 10100 11'', TYPE_R, \<lambda>rd _ _ _ _.
       fp_exec_to_int_d sf c i pc snpc rd (fp_rs1 i) False True),
     \<comment> \<open>fcvt.lu.d\<close> (''1100001 00011 ????? ??? ????? 10100 11'', TYPE_R, \<lambda>rd _ _ _ _.
       fp_exec_to_int_d sf c i pc snpc rd (fp_rs1 i) True True),
     \<comment> \<open>fcvt.d.w\<close> (''1101001 00000 ????? ??? ????? 10100 11'', TYPE_R, \<lambda>rd _ src1 _ _.
       fp_exec_from_int_d sf c i pc snpc rd src1 False False),
     \<comment> \<open>fcvt.d.wu\<close> (''1101001 00001 ????? ??? ????? 10100 11'', TYPE_R, \<lambda>rd _ src1 _ _.
       fp_exec_from_int_d sf c i pc snpc rd src1 True False),
     \<comment> \<open>fcvt.d.l\<close> (''1101001 00010 ????? ??? ????? 10100 11'', TYPE_R, \<lambda>rd _ src1 _ _.
       fp_exec_from_int_d sf c i pc snpc rd src1 False True),
     \<comment> \<open>fcvt.d.lu\<close> (''1101001 00011 ????? ??? ????? 10100 11'', TYPE_R, \<lambda>rd _ src1 _ _.
       fp_exec_from_int_d sf c i pc snpc rd src1 True True),
     \<comment> \<open>fcvt.s.d\<close> (''0100000 00001 ????? ??? ????? 10100 11'', TYPE_R, \<lambda>rd _ _ _ _.
       fp_exec_convert_d_to_s sf c i pc snpc rd (fp_rs1 i)),
     \<comment> \<open>fcvt.d.s\<close> (''0100001 00000 ????? ??? ????? 10100 11'', TYPE_R, \<lambda>rd _ _ _ _.
       fp_exec_convert_s_to_d sf c i pc snpc rd (fp_rs1 i)),
     \<comment> \<open>fcvt.s.h\<close> (''0100000 00010 ????? ??? ????? 10100 11'', TYPE_R, \<lambda>rd _ _ _ _.
       fp_exec_convert_h_to_s sf c i pc snpc rd (fp_rs1 i)),
     \<comment> \<open>fcvt.d.h\<close> (''0100001 00010 ????? ??? ????? 10100 11'', TYPE_R, \<lambda>rd _ _ _ _.
       fp_exec_convert_h_to_d sf c i pc snpc rd (fp_rs1 i)),
     \<comment> \<open>fcvt.h.s\<close> (''0100010 00000 ????? ??? ????? 10100 11'', TYPE_R, \<lambda>rd _ _ _ _.
       fp_exec_convert_s_to_h sf c i pc snpc rd (fp_rs1 i)),
     \<comment> \<open>fcvt.h.d\<close> (''0100010 00001 ????? ??? ????? 10100 11'', TYPE_R, \<lambda>rd _ _ _ _.
       fp_exec_convert_d_to_h sf c i pc snpc rd (fp_rs1 i))]"

definition grp_vector :: "softfloat \<Rightarrow> config \<Rightarrow> uint32_t \<Rightarrow> vaddr_t \<Rightarrow> vaddr_t \<Rightarrow> exec_entry list" where
  "grp_vector sf c i pc snpc =
    [\<comment> \<open>vset\<close> (''??????? ????? ????? 111 ????? 10101 11'', TYPE_N, \<lambda>_ _ _ _ _.
       vector_body c pc snpc (mlift (riscv_vector_configure c i))),
     \<comment> \<open>vector\<close> (''??????? ????? ????? ??? ????? 10101 11'', TYPE_N, \<lambda>_ _ _ _ _.
       vector_body c pc snpc (riscv_vector_execute c sf i))]"

definition ext_group :: "softfloat \<Rightarrow> config \<Rightarrow> uint32_t \<Rightarrow> vaddr_t \<Rightarrow> vaddr_t \<Rightarrow> word_t \<Rightarrow> exec_entry list" where
  "ext_group sf c i pc snpc op =
     (if op = 1 then grp_fp_load sf c i pc snpc
      else if op = 9 then grp_fp_store sf c i pc snpc
      else if op = 16 then grp_fmadd sf c i pc snpc
      else if op = 17 then grp_fmsub sf c i pc snpc
      else if op = 18 then grp_fnmsub sf c i pc snpc
      else if op = 19 then grp_fnmadd sf c i pc snpc
      else if op = 20 then grp_fp_op sf c i pc snpc
      else if op = 21 then grp_vector sf c i pc snpc
      else [])"

definition fp_vector_exec :: "softfloat \<Rightarrow> config \<Rightarrow> ext_exec" where
  "fp_vector_exec sf c i pc snpc =
     (case find (\<lambda>(pat, ty, body). INSTPAT_hit pat i) (ext_group sf c i pc snpc (BITS (ucast i) 6 2)) of
        Some e \<Rightarrow> run_entry i e
      | None \<Rightarrow> raise_at c MCA_ILLEGAL_INS pc)"

end
