(* ===== verification/Vec_Safe.thy ===== *)
theory Vec_Safe
  imports Vec_Exec
begin

text \<open>
  Every instruction of \<open>riscv_vector_execute\<close> stays inside the register file: from any state it
  returns, whatever the encoding. The bounds come from one equation on \<open>vector_vlmax\<close>.
\<close>

unbundle bit_operations_syntax

section \<open>Computations that return\<close>

definition returns :: "'a mem \<Rightarrow> bool" where
  "returns m \<longleftrightarrow> (\<forall>s. \<exists>a t. m s = (Inr a, t))"

named_theorems mreturns \<open>rules for computations that return\<close>

lemma returns_basic [mreturns]: "returns (mret a)" "returns (mgets f)" "returns (mmodify h)" "returns (mlift g)"
  by (simp_all add: returns_def)

lemma returns_mbind [mreturns]: "returns m \<Longrightarrow> (\<And>a. returns (f a)) \<Longrightarrow> returns (mbind m f)"
  unfolding returns_def by (metis mbind_Inr)

lemma returns_mseq [mreturns]: "returns m \<Longrightarrow> returns f \<Longrightarrow> returns (mseq m f)"
  unfolding mseq_def by (rule returns_mbind)

lemma returns_mwhen [mreturns]: "(b \<Longrightarrow> returns m) \<Longrightarrow> returns (mwhen b m)"
  by (auto simp: returns_def)

lemma returns_if [mreturns]: "(b \<Longrightarrow> returns m) \<Longrightarrow> (\<not> b \<Longrightarrow> returns n) \<Longrightarrow> returns (if b then m else n)"
  by simp

lemma returns_prod [mreturns]: "(\<And>a b. x = (a, b) \<Longrightarrow> returns (f a b)) \<Longrightarrow> returns (case x of (a, b) \<Rightarrow> f a b)"
  by (cases x) simp

lemma returns_Let [mreturns]: "returns (f e) \<Longrightarrow> returns (Let e f)"
  by simp

lemma returns_mfold [mreturns]:
  "(\<And>i a. i \<in> set is \<Longrightarrow> returns (f i a)) \<Longrightarrow> returns (mfold is f a)"
  by (induction "is" arbitrary: a) (auto intro!: mreturns)

lemma returns_mfor [mreturns]: "(\<And>i. i \<in> set is \<Longrightarrow> returns (f i)) \<Longrightarrow> returns (mfor is f)"
  by (induction "is") (auto intro!: mreturns)

lemma returns_vsnap [mreturns]: "vspan_ok reg index bytes \<Longrightarrow> returns (vsnap r reg index bytes)"
  by (simp add: vsnap_def mreturns)

lemma returns_element [mreturns]:
  "vspan_ok reg index bytes \<Longrightarrow> returns (vector_element_read reg index bytes)"
  "vspan_ok reg index bytes \<Longrightarrow> returns (vector_element_write reg index bytes v)"
  by (auto simp: vector_element_read_def vector_element_write_def intro!: mreturns)

lemma returns_mask [mreturns]:
  "vmask_ok reg index \<Longrightarrow> returns (vector_mask_bit reg index)"
  "vmask_ok reg index \<Longrightarrow> returns (vector_mask_write reg index b)"
  by (auto simp: vector_mask_bit_def vector_mask_write_def intro!: mreturns)

lemma returns_vactive [mreturns]:
  "vmask_ok 0 index \<Longrightarrow> returns m \<Longrightarrow> returns (vactive u index m)"
  "vmask_ok 0 index \<Longrightarrow> returns n \<Longrightarrow> returns (vactive_acc u index a n)"
  by (auto simp: vactive_def vactive_acc_def intro!: mreturns)

lemma returns_ends [mreturns]: "returns (vector_finish f)" "returns (vector_set_vxsat b)" "returns (vector_accrue fl)"
  by (auto simp: vector_finish_def vector_set_vxsat_def vector_accrue_def intro!: mreturns)

section \<open>Bounds\<close>

lemma unat_and_le: "unat (x AND y) \<le> unat (y :: 'a::len word)"
  using word_and_le1 [of x y] by (simp add: word_le_nat_alt)

lemma vreg_field_less [simp]: "vreg_field lo i < 32"
  using unat_and_le [of "drop_bit lo i" 31] by (simp add: vreg_field_def)

text \<open>VLMAX elements fill exactly LMUL registers of 16 bytes (in eighths).\<close>

lemma vlmax_product:
  assumes "vector_vlmax vtype \<noteq> 0"
  shows "vector_vlmax vtype * 2 ^ unat (drop_bit 3 vtype AND 7) * 8 = 16 * 2 ^ nat (vlmul_exp vtype + 3)"
    and "unat (drop_bit 3 vtype AND 7) \<le> 3" and "- 3 \<le> vlmul_exp vtype" and "vlmul_exp vtype \<le> 3"
proof -
  define n e where "n = unat (drop_bit 3 vtype AND 7)" and "e = unat (vtype AND 7)"
  have e7: "e \<le> 7" using unat_and_le [of vtype 7] by (simp add: e_def)
  have e4: "vtype AND 7 = 4 \<longleftrightarrow> e = 4" by (simp add: e_def word_unat_eq_iff)
  have m: "vlmul_exp vtype = (if e < 4 then int e else int e - 8)" by (simp add: vlmul_exp_def e_def Let_def)
  have n3: "n \<le> 3" and ne4: "e \<noteq> 4"
    using assms by (auto simp: vector_vlmax_def n_def [symmetric] e4 Let_def split: if_splits)
  have v: "vector_vlmax vtype =
      (if (8 * 2 ^ n :: nat) > (if vlmul_exp vtype \<ge> 0 then 64 * 2 ^ nat (vlmul_exp vtype)
         else 64 div 2 ^ nat (- vlmul_exp vtype)) then 0
       else if vlmul_exp vtype \<ge> 0 then 128 div (8 * 2 ^ n) * 2 ^ nat (vlmul_exp vtype)
       else 128 div (8 * 2 ^ n) div 2 ^ nat (- vlmul_exp vtype))"
    using assms n3 ne4 by (auto simp: vector_vlmax_def n_def [symmetric] e4 Let_def split: if_splits)
  have "n \<in> {0, 1, 2, 3}" "e \<in> {0, 1, 2, 3, 5, 6, 7}" using n3 e7 ne4 by auto
  then have "vector_vlmax vtype * 2 ^ n * 8 = 16 * 2 ^ nat (vlmul_exp vtype + 3) \<and>
      - 3 \<le> vlmul_exp vtype \<and> vlmul_exp vtype \<le> 3"
    using assms unfolding v m by (elim insertE emptyE; simp split: if_splits)
  then show "vector_vlmax vtype * 2 ^ unat (drop_bit 3 vtype AND 7) * 8 = 16 * 2 ^ nat (vlmul_exp vtype + 3)"
    and "unat (drop_bit 3 vtype AND 7) \<le> 3" and "- 3 \<le> vlmul_exp vtype" and "vlmul_exp vtype \<le> 3"
    using n3 by (simp_all add: n_def)
qed

text \<open>An element inside a register group.\<close>

lemma vspan_okI:
  assumes "bytes \<in> {1, 2, 4, 8}" and "Suc index * bytes \<le> 16 * regs" and "reg + regs \<le> 32"
  shows "vspan_ok reg index bytes"
proof -
  have "index * bytes mod 16 + bytes \<le> 16"
    using assms(1) by (elim insertE emptyE; simp; presburger)
  moreover have "index * bytes div 16 < regs" using assms(1,2) by (auto simp: less_mult_imp_div_less)
  ultimately show ?thesis using assms by (auto simp: vspan_ok_def)
qed


text \<open>The length test of the dispatcher.\<close>

definition vlen_ok :: "nemu \<Rightarrow> bool" where
  "vlen_ok s \<longleftrightarrow> vector_vlmax (sr s CSR_VTYPE) \<noteq> 0 \<and> vl_of s \<le> vector_vlmax (sr s CSR_VTYPE)"

lemma v_bytes_vlmax:
  assumes "vector_vlmax (sr s CSR_VTYPE) \<noteq> 0"
  shows "v_bytes s \<in> {1, 2, 4, 8}"
proof -
  have "unat (drop_bit 3 (sr s CSR_VTYPE) AND 7) \<in> {0, 1, 2, 3}"
    using vlmax_product(2) [OF assms] by fastforce
  then show ?thesis by (auto simp: v_bytes_def)
qed

lemma v_bytes_cases: "vlen_ok s \<Longrightarrow> v_bytes s \<in> {1, 2, 4, 8}"
  by (rule v_bytes_vlmax) (simp add: vlen_ok_def)

lemma v_group_regs: "v_group s = vgroup_regs (v_lmul s)"
proof -
  define e where "e = unat (sr s CSR_VTYPE AND 7)"
  have "e \<le> 7" using unat_and_le [of "sr s CSR_VTYPE" 7] by (simp add: e_def)
  then show ?thesis
    unfolding v_group_def v_lmul_def vlmul_exp_def e_def [symmetric] by (auto simp: vgroup_regs_def Let_def)
qed

text \<open>Elements of width \<open>b\<close> in a group of LMUL \<open>2 ^ e\<close> with the ratio of the current type.\<close>

lemma vspan_emul:
  assumes len: "vlen_ok s" and index: "index < vector_vlmax (sr s CSR_VTYPE)"
    and b: "b \<in> {1, 2, 4, 8}" and e: "- 3 \<le> e"
    and ratio: "b * 2 ^ nat (v_lmul s + 3) = v_bytes s * 2 ^ nat (e + 3)"
    and reg: "reg + vgroup_regs e \<le> 32"
  shows "vspan_ok reg index b"
proof -
  let ?m = "vector_vlmax (sr s CSR_VTYPE)"
  have "?m * v_bytes s * 8 = 16 * 2 ^ nat (v_lmul s + 3)"
    using len vlmax_product(1) [of "sr s CSR_VTYPE"] by (simp add: vlen_ok_def v_bytes_def v_lmul_def)
  moreover have "?m * b * 8 * v_bytes s = b * (?m * v_bytes s * 8)" by simp
  ultimately have "?m * b * 8 * v_bytes s = b * (16 * 2 ^ nat (v_lmul s + 3))" by (simp only:)
  also have "\<dots> = 16 * (v_bytes s * 2 ^ nat (e + 3))" by (simp only: ratio [symmetric] mult.left_commute)
  finally have "?m * b * 8 * v_bytes s = (16 * 2 ^ nat (e + 3)) * v_bytes s" by (simp add: disj_commute)
  moreover have "v_bytes s \<noteq> 0" by (simp add: v_bytes_def)
  ultimately have m: "?m * b * 8 = 16 * 2 ^ nat (e + 3)" by (metis mult_right_cancel)
  have "2 ^ nat (e + 3) \<le> 8 * vgroup_regs e"
  proof (cases "e > 0")
    case True
    then have "nat (e + 3) = nat e + 3" by simp
    with True show ?thesis by (simp add: vgroup_regs_def power_add)
  next
    case False
    then have "(2::nat) ^ nat (e + 3) \<le> 2 ^ 3" by (intro power_increasing) auto
    with False show ?thesis by (simp add: vgroup_regs_def)
  qed
  with m have "?m * b \<le> 16 * vgroup_regs e" by (simp add: mult.commute)
  moreover have "Suc index * b \<le> ?m * b" using index by (intro mult_right_mono) auto
  ultimately show ?thesis using vspan_okI [OF b _ reg] by simp
qed

lemma vbody_less: "vlen_ok s \<Longrightarrow> index \<in> set (vbody s) \<Longrightarrow> index < vector_vlmax (sr s CSR_VTYPE)"
  by (auto simp: vbody_def vlen_ok_def)

lemma vl_less: "vlen_ok s \<Longrightarrow> index \<in> set [0..<vl_of s] \<Longrightarrow> index < vector_vlmax (sr s CSR_VTYPE)"
  by (auto simp: vlen_ok_def)

lemma vspan_same:
  assumes "vlen_ok s" and "index < vector_vlmax (sr s CSR_VTYPE)" and "vector_group_valid reg (v_group s)"
  shows "vspan_ok reg index (v_bytes s)"
  using assms vlmax_product(3) [of "sr s CSR_VTYPE"]
  by (intro vspan_emul [where e = "v_lmul s"] v_bytes_cases)
     (auto simp: vector_group_valid_def v_group_regs vlen_ok_def v_lmul_def)

lemma vspan_wide:
  assumes "vlen_ok s" and "index < vector_vlmax (sr s CSR_VTYPE)"
    and "vector_group_valid reg (vgroup_regs (v_lmul s + 1))" and "v_bytes s \<noteq> 8"
  shows "vspan_ok reg index (v_bytes s * 2)"
proof (rule vspan_emul [where e = "v_lmul s + 1"])
  have l: "- 3 \<le> v_lmul s" using assms(1) vlmax_product(3) by (simp add: vlen_ok_def v_lmul_def)
  then have "nat (v_lmul s + 1 + 3) = Suc (nat (v_lmul s + 3))" by simp
  then show "v_bytes s * 2 * 2 ^ nat (v_lmul s + 3) = v_bytes s * 2 ^ nat (v_lmul s + 1 + 3)" by simp
  show "v_bytes s * 2 \<in> {1, 2, 4, 8}" using v_bytes_cases [OF assms(1)] assms(4) by auto
qed (use assms vlmax_product(3) [of "sr s CSR_VTYPE"] in
      \<open>auto simp: vector_group_valid_def vlen_ok_def v_lmul_def\<close>)

lemma vspan_zero: "vlen_ok s \<Longrightarrow> reg < 32 \<Longrightarrow> vspan_ok reg 0 (v_bytes s)"
  using v_bytes_cases [of s] by (intro vspan_okI [where regs = 1]) auto

lemma vspan_zero_wide: "vlen_ok s \<Longrightarrow> reg < 32 \<Longrightarrow> v_bytes s * 2 \<le> 8 \<Longrightarrow> vspan_ok reg 0 (v_bytes s * 2)"
  using v_bytes_cases [of s] by (intro vspan_okI [where regs = 1]) auto

lemma vspan_extend:
  assumes len: "vlen_ok s" and index: "index < vector_vlmax (sr s CSR_VTYPE)"
    and reg: "vector_group_valid reg (vgroup_regs (v_lmul s - int k))"
    and k: "2 ^ k \<le> v_bytes s" "- 3 \<le> v_lmul s - int k"
  shows "vspan_ok reg index (v_bytes s div 2 ^ k)"
proof (rule vspan_emul [OF len index])
  obtain n where n: "v_bytes s = 2 ^ n" "n \<le> 3"
    using vlmax_product(2) len by (auto simp: v_bytes_def vlen_ok_def)
  from n(1) k(1) have kn: "k \<le> n" by (simp add: power_increasing_iff)
  then have d: "v_bytes s div 2 ^ k = 2 ^ (n - k)" by (simp add: n(1) power_diff)
  have "n - k \<in> {0, 1, 2, 3}" using n(2) by auto
  then show "v_bytes s div 2 ^ k \<in> {1, 2, 4, 8}" unfolding d by auto
  have "nat (v_lmul s + 3) = nat (v_lmul s - int k + 3) + k" using k(2) by simp
  then show "v_bytes s div 2 ^ k * 2 ^ nat (v_lmul s + 3) = v_bytes s * 2 ^ nat (v_lmul s - int k + 3)"
    unfolding d unfolding n(1) using kn by (simp add: power_add [symmetric])
qed (use reg k in \<open>auto simp: vector_group_valid_def\<close>)

lemma vspan_gather16:
  assumes len: "vlen_ok s" and index: "index < vector_vlmax (sr s CSR_VTYPE)"
    and reg: "vector_group_valid reg
      (vgroup_regs (v_lmul s + 1 - int (unat (drop_bit 3 (sr s CSR_VTYPE) AND 7))))"
    and e: "- 3 \<le> v_lmul s + 1 - int (unat (drop_bit 3 (sr s CSR_VTYPE) AND 7))"
  shows "vspan_ok reg index 2"
proof (rule vspan_emul [OF len index])
  define n where "n = unat (drop_bit 3 (sr s CSR_VTYPE) AND 7)"
  have l: "- 3 \<le> v_lmul s" using len vlmax_product(3) by (simp add: vlen_ok_def v_lmul_def)
  have "nat (v_lmul s + 1 - int n + 3) + n = Suc (nat (v_lmul s + 3))"
    using e [folded n_def] l by linarith
  then show "2 * 2 ^ nat (v_lmul s + 3) = v_bytes s *
      2 ^ nat (v_lmul s + 1 - int (unat (drop_bit 3 (sr s CSR_VTYPE) AND 7)) + 3)"
    unfolding v_bytes_def n_def [symmetric] by (metis add.commute power_Suc power_add)
qed (use reg e in \<open>auto simp: vector_group_valid_def\<close>)

lemma vlmax_le:
  assumes "vlen_ok s"
  shows "vector_vlmax (sr s CSR_VTYPE) \<le> 128"
proof -
  let ?m = "vector_vlmax (sr s CSR_VTYPE)" and ?l = "vlmul_exp (sr s CSR_VTYPE)"
  have m: "?m * 2 ^ unat (drop_bit 3 (sr s CSR_VTYPE) AND 7) * 8 = 16 * 2 ^ nat (?l + 3)" and l: "?l \<le> 3"
    using assms vlmax_product(1,4) by (simp_all add: vlen_ok_def)
  have "(2::nat) ^ nat (?l + 3) \<le> 2 ^ 6" using l by (intro power_increasing) auto
  then have "(2::nat) ^ nat (?l + 3) \<le> 64" by simp
  moreover have "?m \<le> ?m * 2 ^ unat (drop_bit 3 (sr s CSR_VTYPE) AND 7)" by simp
  ultimately show ?thesis using m by linarith
qed

lemma vmask_index:
  "vlen_ok s \<Longrightarrow> index < vector_vlmax (sr s CSR_VTYPE) \<Longrightarrow> reg < 32 \<Longrightarrow> vmask_ok reg index"
  using vlmax_le [of s] by (simp add: vmask_ok_def)

section \<open>Integer classes\<close>

text \<open>The rules for the bounds a computation leaves open.\<close>

lemma vspan_if: "(b \<Longrightarrow> vspan_ok reg index x) \<Longrightarrow> (\<not> b \<Longrightarrow> vspan_ok reg index y) \<Longrightarrow> vspan_ok reg index (if b then x else y)"
  by simp

lemmas vx_bounds = vspan_same vspan_wide vspan_zero vspan_zero_wide vspan_if
lemma vbody_diff_less: "vlen_ok s \<Longrightarrow> index \<in> set (vbody s) \<Longrightarrow> index - k < vector_vlmax (sr s CSR_VTYPE)"
  using vbody_less less_imp_diff_less by blast

lemmas vx_sides = vbody_less vl_less vbody_diff_less v_group_regs

text \<open>The guards, one disjunct at a time.\<close>

lemma returns_or: "(\<not> a \<Longrightarrow> returns (if p then mret x else m)) \<Longrightarrow> returns (if a \<or> p then mret x else m)"
  by (auto simp: returns_def)

lemma returns_guard: "(\<not> a \<Longrightarrow> returns m) \<Longrightarrow> returns (if a then mret x else m)"
  by (auto simp: returns_def)


lemma returns_scalar_insert: "vlen_ok s \<Longrightarrow> returns (vx_scalar_insert i s)"
  unfolding vx_scalar_insert_def Let_def
  by (intro mreturns vx_bounds vmask_index [where s = s])
     (simp_all add: vx_sides)

lemma returns_mask_scan: "vlen_ok s \<Longrightarrow> returns (vx_mask_scan i s)"
  unfolding vx_mask_scan_def Let_def
  by (intro mreturns vx_bounds vmask_index [where s = s])
     (auto intro: vl_less)

lemma returns_slide: "vlen_ok s \<Longrightarrow> returns (vx_slide i s)"
  unfolding vx_slide_def Let_def
  by ((rule returns_or)+, rule returns_guard, intro mreturns vx_bounds vmask_index [where s = s])
     (simp_all add: vx_sides)

lemma returns_macc: "vlen_ok s \<Longrightarrow> returns (vx_macc i s)"
  unfolding vx_macc_def Let_def
  by ((rule returns_or)+, rule returns_guard, intro mreturns vx_bounds vmask_index [where s = s])
     (simp_all add: vx_sides)

lemma returns_zvbb: "vlen_ok s \<Longrightarrow> returns (vx_zvbb c i s)"
  unfolding vx_zvbb_def Let_def
  by ((rule returns_or)+, rule returns_guard, intro mreturns vx_bounds vmask_index [where s = s])
     (auto simp: vx_sides zvbb_unary_def)

lemma returns_mask_prefix: "vlen_ok s \<Longrightarrow> returns (vx_mask_prefix i s)"
  unfolding vx_mask_prefix_def Let_def
  by ((rule returns_or)+, rule returns_guard, intro mreturns vx_bounds vmask_index [where s = s])
     (auto simp: vx_sides split: if_splits)

lemma returns_extend: "vlen_ok s \<Longrightarrow> returns (vx_extend i s)"
  unfolding vx_extend_def Let_def
  by (intro mreturns vx_bounds vspan_extend vmask_index [where s = s])
     (simp_all add: vx_sides)

lemma returns_narrow: "vlen_ok s \<Longrightarrow> returns (vx_narrow i s)"
  unfolding vx_narrow_def Let_def
  by (intro mreturns vx_bounds vmask_index [where s = s])
     (simp_all add: vx_sides)

lemma returns_reduction: "vlen_ok s \<Longrightarrow> returns (vx_reduction i s)"
  unfolding vx_reduction_def Let_def
  by ((rule returns_or)+, rule returns_guard, intro mreturns vx_bounds vmask_index [where s = s])
     (auto simp: vx_sides intro: vl_less)

lemma returns_gather: "vlen_ok s \<Longrightarrow> returns (vx_gather i s)"
  unfolding vx_gather_def Let_def
  by (intro mreturns vx_bounds vspan_gather16 vmask_index [where s = s])
     (auto simp: vx_sides)

lemma returns_widen: "vlen_ok s \<Longrightarrow> returns (vx_widen i s)"
  unfolding vx_widen_def Let_def
  by (intro mreturns vx_bounds vmask_index [where s = s])
     (auto simp: vx_sides)

lemma returns_elementwise: "vlen_ok s \<Longrightarrow> returns (vx_elementwise i s)"
  unfolding vx_elementwise_def vx_scalar_extract_def vc_body_def vc_rejected_def Let_def
  by (intro mreturns vx_bounds vmask_index [where s = s])
     (auto simp: vx_sides split: if_splits)

text \<open>The output index of a compression stays behind the input index.\<close>

lemma returns_mfold_upt:
  assumes "\<And>i a. i < n \<Longrightarrow> a \<le> i \<Longrightarrow> returns (f i a)"
    and "\<And>i a s b t. i < n \<Longrightarrow> a \<le> i \<Longrightarrow> f i a s = (Inr b, t) \<Longrightarrow> b \<le> Suc i"
    and "a \<le> k"
  shows "returns (mfold [k..<n] f a)"
  using assms(3)
proof (induction "n - k" arbitrary: k a)
  case (Suc d)
  then have k: "k < n" and l: "[k..<n] = k # [Suc k..<n]" by (simp_all add: upt_conv_Cons)
  have "returns (mbind (f k a) (mfold [Suc k..<n] f))"
    unfolding returns_def
  proof
    fix s
    obtain b t where b: "f k a s = (Inr b, t)" using assms(1) [OF k Suc.prems] unfolding returns_def by meson
    then have "b \<le> Suc k" using assms(2) [OF k Suc.prems] by blast
    then have "returns (mfold [Suc k..<n] f b)" using Suc by simp
    then show "\<exists>c u. mbind (f k a) (mfold [Suc k..<n] f) s = (Inr c, u)"
      using b by (simp add: returns_def)
  qed
  then show ?case by (simp add: l)
qed (simp add: mreturns)

lemma returns_compress: "vlen_ok s \<Longrightarrow> returns (vx_compress i s)"
  unfolding vx_compress_def Let_def
  by ((rule returns_or)+, rule returns_guard, intro mreturns returns_mfold_upt vspan_same
      vmask_index [where s = s])
     (auto simp: vlen_ok_def mbind_eq_Inr mseq_eq_Inr split: if_splits)

lemma returns_whole_move: "returns (vx_whole_move i s)"
  unfolding vx_whole_move_def Let_def
proof ((rule returns_or)+, rule returns_guard, intro mreturns)
  fix k
  assume "vector_vlmax (sr s CSR_VTYPE) \<noteq> 0" and "k \<in> set [vstart_of s..<(v_src1 i + 1) * 16 div v_bytes s]"
  then have b: "v_bytes s \<in> {1, 2, 4, 8}" and "Suc k \<le> (v_src1 i + 1) * 16 div v_bytes s"
    using v_bytes_vlmax by auto
  then have k: "Suc k * v_bytes s \<le> 16 * (v_src1 i + 1)"
    by (subst (asm) less_eq_div_iff_mult_less_eq) auto
  show "vspan_ok (v_src2 i) k (v_bytes s)" if "\<not> \<not> vector_group_valid (v_src2 i) (v_src1 i + 1)"
    using that by (intro vspan_okI [OF b k]) (simp add: vector_group_valid_def)
  show "vspan_ok (v_dest i) k (v_bytes s)" if "\<not> \<not> vector_group_valid (v_dest i) (v_src1 i + 1)"
    using that by (intro vspan_okI [OF b k]) (simp add: vector_group_valid_def)
qed

section \<open>Floating-point classes\<close>

lemma vspan_scaled:
  assumes "vlen_ok s" and "index < vector_vlmax (sr s CSR_VTYPE)"
    and "vector_group_valid reg (vgroup_regs (v_lmul s + of_bool w))" and "v_bytes s * (if w then 2 else 1) \<le> 8"
  shows "vspan_ok reg index (v_bytes s * (if w then 2 else 1))"
  using assms vspan_same [of s index reg] vspan_wide [of s index reg]
  by (cases w) (auto simp: v_group_regs)

lemma vspan_4:
  "vlen_ok s \<Longrightarrow> index < vector_vlmax (sr s CSR_VTYPE) \<Longrightarrow> vector_group_valid reg (v_group s) \<Longrightarrow>
     v_bytes s = 4 \<Longrightarrow> vspan_ok reg index 4"
  using vspan_same [of s index reg] by simp

lemma vspan_double:
  "vlen_ok s \<Longrightarrow> index < vector_vlmax (sr s CSR_VTYPE) \<Longrightarrow>
     vector_group_valid reg (vgroup_regs (v_lmul s + 1)) \<Longrightarrow> v_bytes s = 4 \<Longrightarrow> vspan_ok reg index 8"
  using vspan_wide [of s index reg] by simp

lemma vspan_zero_8: "reg < 32 \<Longrightarrow> vspan_ok reg 0 8"
  by (simp add: vspan_ok_def)

text \<open>The unary operations read an element of the register their encoding names in the place of \<open>source1\<close>.\<close>

lemma vspan_low:
  assumes "vlen_ok s" and "index < vector_vlmax (sr s CSR_VTYPE)" and "reg \<le> 24"
  shows "vspan_ok reg index (v_bytes s)"
proof -
  have l: "v_lmul s \<le> 3" "- 3 \<le> v_lmul s"
    using assms(1) vlmax_product(3,4) by (simp_all add: vlen_ok_def v_lmul_def)
  have "(2::nat) ^ nat (v_lmul s) \<le> 2 ^ 3" using l by (intro power_increasing) auto
  then have "vgroup_regs (v_lmul s) \<le> 8" by (simp add: vgroup_regs_def)
  with assms l v_bytes_cases [OF assms(1)] show ?thesis by (intro vspan_emul [where e = "v_lmul s"]) auto
qed

lemma vf_unary_source: "vf_unary i \<or> vf_estimate i \<or> vf_convert i \<Longrightarrow> v_src1 i \<le> 24"
  by (auto simp: vf_unary_def vf_estimate_def vf_convert_def)

lemma vf_not_rejected:
  assumes "\<not> vf_rejected i s" and "\<not> vf_extract i" and "\<not> vf_insert i"
  shows "\<not> vf_compare i \<Longrightarrow> vector_group_valid (v_dest i) (v_group s)"
    and "vf_merge i \<or> vf_slide i \<or> vf_computed i \<Longrightarrow> vector_group_valid (v_src2 i) (v_group s)"
    and "vf_arithmetic i \<or> vf_compare i \<Longrightarrow> v_form i = 1 \<Longrightarrow> vector_group_valid (v_src1 i) (v_group s)"
  using assms by (auto simp: vf_rejected_def Let_def split: if_splits)

lemma returns_vf_body:
  assumes s: "vlen_ok s" and ok: "\<not> vf_rejected i s" "\<not> vf_extract i" "\<not> vf_insert i"
    and index: "index \<in> set (vbody s)"
  shows "returns (vf_body sf i s index fl)"
proof -
  note m = vbody_less [OF s index] and v = vf_not_rejected [OF ok]
  have src1: "vspan_ok (v_src1 i) index (v_bytes s)" if "vf_computed i" "v_form i = 1"
    using that v(3) vspan_same [OF s m] vspan_low [OF s m] vf_unary_source [of i]
    by (auto simp: vf_computed_def)
  have src2: "vspan_ok (v_src2 i) n (v_bytes s)"
    if "vf_merge i \<or> vf_slide i \<or> vf_computed i" "n < vector_vlmax (sr s CSR_VTYPE)" for n
    using vspan_same [OF s that(2)] v(2) [OF that(1)] by blast
  have dst: "vspan_ok (v_dest i) index (v_bytes s)" if "\<not> vf_compare i"
    using v(1) [OF that] by (rule vspan_same [OF s m])
  have c: "\<not> vf_computed i \<Longrightarrow> \<not> vf_compare i" by (simp add: vf_computed_def)
  note mask = vmask_index [OF s m]
  show ?thesis
    unfolding vf_body_def Let_def
    by (intro mreturns mask src1 src2 dst) (use m c in auto)
qed

lemma returns_float: "vlen_ok s \<Longrightarrow> returns (vx_float sf i s)"
  unfolding vx_float_def Let_def
  by (intro mreturns vspan_zero returns_vf_body) (auto simp: vf_rejected_def)

lemma returns_float_resize: "vlen_ok s \<Longrightarrow> returns (vx_float_resize c sf i s)"
  unfolding vx_float_resize_def Let_def
  by ((rule returns_or)+, rule returns_guard, intro mreturns vx_bounds vmask_index [where s = s])
     (auto simp: vx_sides split: if_splits)

lemma returns_float_integer: "vlen_ok s \<Longrightarrow> returns (vx_float_integer sf i s)"
  unfolding vx_float_integer_def Let_def
  by ((rule returns_or)+, rule returns_guard, intro mreturns vx_bounds vspan_scaled vmask_index [where s = s])
     (simp_all only: vbody_less not_not not_le not_less vreg_field_less zero_less_numeral simp_thms)

lemma returns_float_widen: "vlen_ok s \<Longrightarrow> returns (vx_float_widen sf i s)"
  unfolding vx_float_widen_def Let_def
  by ((rule returns_or)+, rule returns_guard, intro mreturns vx_bounds vspan_double [where s = s] vspan_4 [where s = s] vmask_index [where s = s])
     (simp_all add: vx_sides)

lemma returns_float_reduction: "vlen_ok s \<Longrightarrow> returns (vx_float_reduction sf i s)"
  unfolding vx_float_reduction_def Let_def
  by ((rule returns_or)+, rule returns_guard, intro mreturns vx_bounds vspan_zero_8 vmask_index [where s = s])
     (auto simp: vx_sides intro: vl_less)

section \<open>The instruction\<close>

lemma returns_class: "vlen_ok s \<Longrightarrow> returns (vector_class c sf i s)"
  unfolding vector_class_def Let_def
  by (intro returns_if returns_scalar_insert returns_mask_scan returns_slide returns_macc returns_zvbb
      returns_mask_prefix returns_extend returns_narrow returns_reduction returns_gather returns_widen
      returns_elementwise returns_compress returns_float returns_float_resize returns_float_integer
      returns_float_widen returns_float_reduction)

lemma returns_vector_execute: "returns (riscv_vector_execute c sf i)"
  unfolding riscv_vector_execute_def
  by (intro mreturns returns_whole_move returns_class) (auto simp: vlen_ok_def)

end
