(* ===== verification/Vec_Effect.thy ===== *)
theory Vec_Effect
  imports Vec_Safe
begin

text \<open>
  What a vector instruction of \<open>riscv_vector_execute\<close> can change, and that a rejected encoding changes
  nothing.
\<close>

unbundle bit_operations_syntax

section \<open>Rejection and completion\<close>

text \<open>A computation that ends in \<open>vector_finish\<close>, and one that rejects before any effect or ends so.\<close>

definition vends :: "bool mem \<Rightarrow> bool" where
  "vends m \<longleftrightarrow> (\<forall>s b t. m s = (Inr b, t) \<longrightarrow> b \<and> sr t CSR_VSTART = 0 \<and> cpu_csr_dirty (cpu t))"

definition vdecides :: "bool mem \<Rightarrow> bool" where
  "vdecides m \<longleftrightarrow> (\<forall>s b t. m s = (Inr b, t) \<longrightarrow>
     (if b then sr t CSR_VSTART = 0 \<and> cpu_csr_dirty (cpu t) else t = s))"

named_theorems vdecide_rules \<open>rules for \<open>vends\<close> and \<open>vdecides\<close>\<close>

lemma sr_set_csr_dirty: "sr (set_csr_dirty b s) = sr s"
  by (simp add: fun_eq_iff sr_def set_csr_dirty_def)

lemma vends_finish [vdecide_rules]: "vends (vector_finish f)"
  by (auto simp: vends_def vector_finish_def mseq_app vector_mark_dirty_def Let_def sr_set_csr_dirty)

lemma vends_bind [vdecide_rules]: "(\<And>a. vends (g a)) \<Longrightarrow> vends (mbind m g)"
  unfolding vends_def mbind_eq_Inr by blast

lemma vends_seq [vdecide_rules]: "vends g \<Longrightarrow> vends (mseq m g)"
  unfolding mseq_def by (rule vends_bind)

lemma vends_prod [vdecide_rules]: "(\<And>a b. vends (g a b)) \<Longrightarrow> vends (case x of (a, b) \<Rightarrow> g a b)"
  by (cases x) simp

lemma vends_Let [vdecide_rules]: "vends (f e) \<Longrightarrow> vends (Let e f)"
  by simp

lemma vdecides_ends: "vends m \<Longrightarrow> vdecides m"
  by (auto simp: vends_def vdecides_def)

lemma vdecides_bind [vdecide_rules]: "(\<And>a. vends (g a)) \<Longrightarrow> vdecides (mbind m g)"
  by (rule vdecides_ends [OF vends_bind])

lemma vdecides_seq [vdecide_rules]: "vends g \<Longrightarrow> vdecides (mseq m g)"
  by (rule vdecides_ends [OF vends_seq])

lemma vdecides_reject [vdecide_rules]: "vdecides (mret False)"
  by (simp add: vdecides_def)

lemma vdecides_if [vdecide_rules]: "vdecides m \<Longrightarrow> vdecides n \<Longrightarrow> vdecides (if b then m else n)"
  by simp

lemma vdecides_Let: "(\<And>x. vdecides (f x)) \<Longrightarrow> vdecides (Let e f)"
  by simp

lemma vdecides_entry: "(\<And>s. vdecides (f s)) \<Longrightarrow> vdecides (mbind (mgets (\<lambda>s. s)) f)"
  by (auto simp: vdecides_def mbind_eq_Inr)

lemma vdecides_class:
  "vdecides (vx_whole_move i s)" "vdecides (vx_scalar_insert i s)" "vdecides (vx_zvbb c i s)"
  "vdecides (vx_mask_scan i s)" "vdecides (vx_slide i s)" "vdecides (vx_gather i s)"
  "vdecides (vx_mask_prefix i s)" "vdecides (vx_compress i s)" "vdecides (vx_reduction i s)"
  "vdecides (vx_extend i s)" "vdecides (vx_narrow i s)" "vdecides (vx_widen i s)" "vdecides (vx_macc i s)"
  unfolding vx_whole_move_def vx_scalar_insert_def vx_zvbb_def vx_mask_scan_def vx_slide_def
    vx_gather_def vx_mask_prefix_def vx_compress_def vx_reduction_def vx_extend_def vx_narrow_def
    vx_widen_def vx_macc_def
  by (intro vdecides_Let vdecide_rules)+

lemma vdecides_float:
  "vdecides (vx_elementwise i s)" "vdecides (vx_float sf i s)" "vdecides (vx_float_resize c sf i s)"
  "vdecides (vx_float_integer sf i s)" "vdecides (vx_float_widen sf i s)" "vdecides (vx_float_reduction sf i s)"
  unfolding vx_elementwise_def vx_scalar_extract_def vx_float_def vx_float_resize_def
    vx_float_integer_def vx_float_widen_def vx_float_reduction_def
  by (intro vdecides_Let vdecide_rules)+

lemma vdecides_execute: "vdecides (riscv_vector_execute c sf i)"
  unfolding riscv_vector_execute_def vector_class_def
  by (intro vdecides_entry vdecides_Let vdecides_if vdecides_reject vdecides_class vdecides_float)

section \<open>What is kept\<close>

definition vec_csrs :: "nat set" where
  "vec_csrs = {CSR_VSTART, CSR_VXSAT, CSR_VCSR, CSR_FCSR, CSR_MSTATUS, CSR_VSSTATUS}"

text \<open>A register that only gained bits of a mask, and the rest of the core.\<close>

definition gains :: "word_t \<Rightarrow> word_t \<Rightarrow> word_t \<Rightarrow> bool" where
  "gains m v w \<longleftrightarrow> (\<exists>x. w = v OR (x AND m))"

lemma gains_refl [simp]: "gains m v v"
  unfolding gains_def by (rule exI [of _ 0]) simp

lemma gains_or: "gains m v w \<Longrightarrow> y AND m = y \<Longrightarrow> gains m v (w OR y)"
  unfolding gains_def
proof (elim exE)
  fix x assume "y AND m = y" and "w = v OR (x AND m)"
  then have "w OR y = v OR ((x OR y) AND m)" by (simp add: bit.conj_disj_distrib2 or.assoc)
  then show "\<exists>x. w OR y = v OR (x AND m)" ..
qed

lemma ucast_mask_32: "ucast f AND 0xffffffff = (ucast f :: word_t)" for f :: uint32_t
proof -
  have "ucast f AND mask 32 = (ucast f :: word_t)"
    by (rule bit_word_eqI) (use bit_imp_le_length [of f] in \<open>auto simp: bit_simps bit_mask_iff\<close>)
  then show ?thesis by (simp add: mask_eq_exp_minus_1)
qed

definition vec_core :: "cpu_state \<Rightarrow> cpu_state" where
  "vec_core u = u\<lparr>cpu_sr := (\<lambda>_. 0), cpu_gpr := (\<lambda>_. 0), cpu_fpr := (\<lambda>_. 0), cpu_vreg := (\<lambda>_ _. 0),
     cpu_csr_dirty := False\<rparr>"

lemma vec_core_frame [simp]:
  "vec_core (cpu (set_sr k v s)) = vec_core (cpu s)" "(set_sr k v s)\<lparr>cpu := u\<rparr> = s\<lparr>cpu := u\<rparr>"
  "vec_core (cpu (set_gpr r v s)) = vec_core (cpu s)" "(set_gpr r v s)\<lparr>cpu := u\<rparr> = s\<lparr>cpu := u\<rparr>"
  "vec_core (cpu (set_csr_dirty b s)) = vec_core (cpu s)" "(set_csr_dirty b s)\<lparr>cpu := u\<rparr> = s\<lparr>cpu := u\<rparr>"
  "vec_core (cpu (set_vregs q s)) = vec_core (cpu s)" "(set_vregs q s)\<lparr>cpu := u\<rparr> = s\<lparr>cpu := u\<rparr>"
  by (simp_all add: vec_core_def set_sr_def set_gpr_def set_csr_dirty_def set_vregs_def)

lemma vec_core_virt: "vec_core u = vec_core v \<Longrightarrow> cpu_virt u = cpu_virt v"
proof -
  have "cpu_virt (vec_core x) = cpu_virt x" for x by (simp add: vec_core_def)
  then show "vec_core u = vec_core v \<Longrightarrow> cpu_virt u = cpu_virt v" by metis
qed

definition vec_kept :: "nat \<Rightarrow> nemu \<Rightarrow> nemu \<Rightarrow> bool" where
  "vec_kept d s t \<longleftrightarrow>
     t\<lparr>cpu := cpu s\<rparr> = s \<and> vec_core (cpu t) = vec_core (cpu s) \<and>
     (\<forall>x. x \<noteq> d \<or> x = 0 \<longrightarrow> gpr t x = gpr s x) \<and>
     (\<forall>x. x \<noteq> d \<longrightarrow> cpu_fpr (cpu t) x = cpu_fpr (cpu s) x) \<and>
     (\<forall>r<d. vregs_of t r = vregs_of s r) \<and> (\<forall>k. k \<notin> vec_csrs \<longrightarrow> sr t k = sr s k) \<and>
     gains 0x6600 (sr s CSR_MSTATUS) (sr t CSR_MSTATUS) \<and>
     gains (if virt s then 0x6600 else 0) (sr s CSR_VSSTATUS) (sr t CSR_VSSTATUS) \<and>
     gains 0xffffffff (sr s CSR_FCSR) (sr t CSR_FCSR)"

lemma vec_kept_refl: "vec_kept d s s"
  by (simp add: vec_kept_def)

lemma vec_kept_virt: "vec_kept d s t \<Longrightarrow> virt t = virt s"
  unfolding vec_kept_def by (blast dest: vec_core_virt)

named_theorems vkeeps \<open>updates that keep \<open>vec_kept\<close>\<close>

lemma vec_kept_csr:
  assumes "vec_kept d s t" and "k \<in> vec_csrs" and "k = CSR_MSTATUS \<Longrightarrow> gains 0x6600 (sr s k) v"
    and "k = CSR_VSSTATUS \<Longrightarrow> gains (if virt s then 0x6600 else 0) (sr s k) v"
    and "k = CSR_FCSR \<Longrightarrow> gains 0xffffffff (sr s k) v"
  shows "vec_kept d s (set_sr k v t)"
  unfolding vec_kept_def
proof (intro conjI allI impI)
  show "sr (set_sr k v t) l = sr s l" if "l \<notin> vec_csrs" for l
    using assms(1,2) that by (auto simp: vec_kept_def)
  show "gains 0x6600 (sr s CSR_MSTATUS) (sr (set_sr k v t) CSR_MSTATUS)"
    using assms(1,3) by (cases "k = CSR_MSTATUS") (simp_all add: vec_kept_def)
  show "gains (if virt s then 0x6600 else 0) (sr s CSR_VSSTATUS) (sr (set_sr k v t) CSR_VSSTATUS)"
    using assms(1,4) by (cases "k = CSR_VSSTATUS") (simp_all add: vec_kept_def)
  show "gains 0xffffffff (sr s CSR_FCSR) (sr (set_sr k v t) CSR_FCSR)"
    using assms(1,5) by (cases "k = CSR_FCSR") (simp_all add: vec_kept_def)
qed (use assms(1) in \<open>simp_all add: vec_kept_def vregs_of_def\<close>)

lemma vec_kept_sr [vkeeps]:
  "vec_kept d s t \<Longrightarrow> k \<in> {CSR_VSTART, CSR_VXSAT, CSR_VCSR} \<Longrightarrow> vec_kept d s (set_sr k v t)"
  by (rule vec_kept_csr) (auto simp: vec_csrs_def)

lemma vec_kept_accrue [vkeeps]:
  assumes "vec_kept d s t"
  shows "vec_kept d s (set_sr CSR_FCSR (sr t CSR_FCSR OR ucast (f :: uint32_t)) t)"
proof (rule vec_kept_csr [OF assms])
  have "gains 0xffffffff (sr s CSR_FCSR) (sr t CSR_FCSR)" using assms by (simp add: vec_kept_def)
  from gains_or [OF this ucast_mask_32]
  show "gains 0xffffffff (sr s CSR_FCSR) (sr t CSR_FCSR OR ucast f)" .
qed (simp_all add: vec_csrs_def)

lemma vec_kept_mark [vkeeps]:
  assumes "vec_kept d s t"
  shows "vec_kept d s (vector_mark_dirty f t)"
proof -
  define m :: word_t where "m = 0x600 OR (if f then 0x6000 else 0)"
  have m: "m AND 0x6600 = m" by (simp add: m_def)
  define u where "u = set_sr CSR_MSTATUS (sr t CSR_MSTATUS OR m) t"
  have u: "vec_kept d s u"
    unfolding u_def
  proof (rule vec_kept_csr [OF assms])
    have "gains 0x6600 (sr s CSR_MSTATUS) (sr t CSR_MSTATUS)" using assms by (simp add: vec_kept_def)
    from gains_or [OF this m] show "gains 0x6600 (sr s CSR_MSTATUS) (sr t CSR_MSTATUS OR m)" .
  qed (simp_all add: vec_csrs_def)
  have "vec_kept d s (set_sr CSR_VSSTATUS (sr u CSR_VSSTATUS OR m) u)" if "virt u"
  proof (rule vec_kept_csr [OF u])
    have v: "virt s" using that vec_kept_virt [OF u] by simp
    have "gains 0x6600 (sr s CSR_VSSTATUS) (sr u CSR_VSSTATUS)" using u v by (simp add: vec_kept_def)
    from gains_or [OF this m] v
    show "gains (if virt s then 0x6600 else 0) (sr s CSR_VSSTATUS) (sr u CSR_VSSTATUS OR m)" by simp
  qed (simp_all add: vec_csrs_def)
  moreover have "virt u = virt t" by (simp add: u_def)
  ultimately show ?thesis using u by (simp add: vector_mark_dirty_def Let_def m_def [symmetric] u_def [symmetric])
qed

lemma vec_kept_dirty [vkeeps]: "vec_kept d s t \<Longrightarrow> vec_kept d s (set_csr_dirty b t)"
  by (simp add: vec_kept_def vregs_of_def sr_set_csr_dirty) (simp add: set_csr_dirty_def gpr_def)

lemma vec_kept_gpr [vkeeps]: "vec_kept d s t \<Longrightarrow> d \<noteq> 0 \<Longrightarrow> vec_kept d s (set_gpr d v t)"
  by (auto simp: vec_kept_def vregs_of_def)

lemma sr_set_vregs [simp]:
  "sr (set_vregs r s) = sr s" "gpr (set_vregs r s) = gpr s" "cpu_fpr (cpu (set_vregs r s)) = cpu_fpr (cpu s)"
  "vregs_of (set_vregs r s) = r"
  by (simp_all add: fun_eq_iff sr_def gpr_def set_vregs_def vregs_of_def)

lemma vec_kept_write [vkeeps]: "vec_kept d s t \<Longrightarrow> vec_kept d s (set_vregs (vregs_write d k b v (vregs_of t)) t)"
  by (simp add: vec_kept_def) (simp add: vregs_write_def Let_def)

lemma vec_kept_mask [vkeeps]: "vec_kept d s t \<Longrightarrow> vec_kept d s (set_vregs (vmask_put d k b (vregs_of t)) t)"
  by (simp add: vec_kept_def) (simp add: vmask_put_def Let_def)

text \<open>Invariants through the vector operations, for any invariant of the state.\<close>

named_theorems vinvs \<open>invariants through vector operations\<close>

lemma minv_mfold [vinvs]: "(\<And>k a. minv I (f k a)) \<Longrightarrow> minv I (mfold ks f a)"
  by (induction ks arbitrary: a) (auto intro!: mwp)

lemma minv_mfor [vinvs]: "(\<And>k. minv I (f k)) \<Longrightarrow> minv I (mfor ks f)"
  by (induction ks) (auto intro!: mwp)

lemma minv_vread [vinvs]:
  "minv I (vsnap r reg index bytes)" "minv I (vector_element_read reg index bytes)"
  "minv I (vector_mask_bit reg index)"
  unfolding vsnap_def vector_element_read_def vector_mask_bit_def by (intro mwp)+

lemma minv_vactive [vinvs]:
  "minv I m \<Longrightarrow> minv I (vactive u index m)" "minv I n \<Longrightarrow> minv I (vactive_acc u index a n)"
  unfolding vactive_def vactive_acc_def by (intro mwp vinvs; assumption)+

lemma minv_vwrite:
  assumes "\<And>s. I s \<Longrightarrow> I (set_vregs (vregs_write reg index bytes v (vregs_of s)) s)"
  shows "minv I (vector_element_write reg index bytes v)"
  unfolding vector_element_write_def by (intro mwp assms)

lemma minv_vmask_write:
  assumes "\<And>s. I s \<Longrightarrow> I (set_vregs (vmask_put reg index b (vregs_of s)) s)"
  shows "minv I (vector_mask_write reg index b)"
  unfolding vector_mask_write_def by (intro mwp assms)

section \<open>The classes keep the rest of the state\<close>

lemma kept_ends:
  "minv (vec_kept d s) (vector_finish f)" "minv (vec_kept d s) (vector_set_vxsat b)"
  "minv (vec_kept d s) (vector_accrue fl)"
  unfolding vector_finish_def vector_set_vxsat_def vector_accrue_def
  by (intro mwp vkeeps; simp)+

lemma kept_writes:
  "minv (vec_kept d s) (vector_element_write d index bytes v)"
  "minv (vec_kept d s) (vector_mask_write d index b)"
  by (intro minv_vwrite minv_vmask_write minv_mmodify vkeeps; assumption)+

lemma vec_kept_fpr [vkeeps]:
  "vec_kept d s t \<Longrightarrow> vec_kept d s (t\<lparr>cpu := (cpu t)\<lparr>cpu_fpr := (cpu_fpr (cpu t))(d := v)\<rparr>\<rparr>)"
  by (auto simp: vec_kept_def vec_core_def vregs_of_def gpr_def sr_def)

lemmas kept_rules = kept_ends kept_writes vkeeps

lemma kept_class:
  "minv (vec_kept (v_dest i) u) (vx_whole_move i s)" "minv (vec_kept (v_dest i) u) (vx_scalar_insert i s)"
  "minv (vec_kept (v_dest i) u) (vx_zvbb c i s)" "minv (vec_kept (v_dest i) u) (vx_mask_scan i s)"
  "minv (vec_kept (v_dest i) u) (vx_slide i s)" "minv (vec_kept (v_dest i) u) (vx_gather i s)"
  "minv (vec_kept (v_dest i) u) (vx_mask_prefix i s)" "minv (vec_kept (v_dest i) u) (vx_compress i s)"
  "minv (vec_kept (v_dest i) u) (vx_reduction i s)" "minv (vec_kept (v_dest i) u) (vx_extend i s)"
  "minv (vec_kept (v_dest i) u) (vx_narrow i s)" "minv (vec_kept (v_dest i) u) (vx_widen i s)"
  "minv (vec_kept (v_dest i) u) (vx_macc i s)"
  unfolding vx_whole_move_def vx_scalar_insert_def vx_zvbb_def vx_mask_scan_def vx_slide_def
    vx_gather_def vx_mask_prefix_def vx_compress_def vx_reduction_def vx_extend_def vx_narrow_def
    vx_widen_def vx_macc_def Let_def
  by (intro mwp vinvs kept_rules; assumption)+

lemma kept_elementwise: "minv (vec_kept (v_dest i) u) (vx_elementwise i s)"
  unfolding vx_elementwise_def vx_scalar_extract_def vc_body_def Let_def by (intro mwp vinvs kept_rules; assumption)

lemma kept_float:
  "minv (vec_kept (v_dest i) u) (vx_float sf i s)" "minv (vec_kept (v_dest i) u) (vx_float_resize c sf i s)"
  "minv (vec_kept (v_dest i) u) (vx_float_integer sf i s)"
  "minv (vec_kept (v_dest i) u) (vx_float_widen sf i s)"
  "minv (vec_kept (v_dest i) u) (vx_float_reduction sf i s)"
  unfolding vx_float_def vf_body_def vx_float_resize_def vx_float_integer_def vx_float_widen_def
    vx_float_reduction_def Let_def
  by (intro mwp vinvs kept_rules; assumption)+

lemma kept_execute: "minv (vec_kept (v_dest i) u) (riscv_vector_execute c sf i)"
  unfolding riscv_vector_execute_def vector_class_def Let_def
  by (intro mwp kept_class kept_elementwise kept_float)

section \<open>Safety of vector instructions\<close>

text \<open>
  C35 (vector instructions stay in bounds). From every state and for every 32-bit word, the execution
  of a vector instruction comes to an end without an access outside the vector register file. Either
  it rejects the encoding and leaves the state as it was, or it has reset \<open>vstart\<close> and changed nothing
  but the vector registers from \<open>vd\<close> on, the registers \<open>rd\<close> and \<open>fd\<close> of that number, \<open>vxsat\<close> with its
  copy in \<open>vcsr\<close>, flags added to \<open>fcsr\<close>, and the dirty marks FS and VS added to \<open>mstatus\<close> and, in a guest,
  to \<open>vsstatus\<close>: not memory, no other part of the machine, not \<open>vl\<close> and \<open>vtype\<close>, not \<open>x0\<close>.
\<close>

theorem vector_execute_safe:
  "\<exists>ok t. riscv_vector_execute c sf i s = (Inr ok, t) \<and>
     (if ok then vec_kept (v_dest i) s t \<and> sr t CSR_VSTART = 0 \<and> cpu_csr_dirty (cpu t) else t = s)"
proof -
  obtain ok t where t: "riscv_vector_execute c sf i s = (Inr ok, t)"
    using returns_vector_execute [of c sf i] unfolding returns_def by meson
  have "vec_kept (v_dest i) s t" using minvD [OF kept_execute vec_kept_refl t] .
  moreover have "if ok then sr t CSR_VSTART = 0 \<and> cpu_csr_dirty (cpu t) else t = s"
    using vdecides_execute t unfolding vdecides_def by blast
  ultimately show ?thesis using t by auto
qed

end
