(* ===== verification/Paddr_Correct.thy ===== *)
theory Paddr_Correct
  imports Paddr
begin

text \<open>
  Physical memory: bytes written are bytes read, a read changes nothing, the fast path for RAM spans
  agrees with the per-byte attributes, and in a memory map whose regions keep a gap an access to
  mapped bytes is always backed.
\<close>

unbundle bit_operations_syntax

section \<open>Little-endian bytes\<close>

lemma of_nat_Suc_comm: "a + 1 + of_nat i = a + of_nat (Suc i)" for a :: "64 word"
  by (simp add: ac_simps)

lemma store_bytes_other:
  assumes "\<And>i. i < n \<Longrightarrow> x \<noteq> a + of_nat i"
  shows "store_bytes m a n d x = m x"
  using assms
proof (induction n arbitrary: m a d)
  case (Suc n)
  have "x \<noteq> a" using Suc.prems [of 0] by simp
  moreover have "x \<noteq> a + 1 + of_nat i" if "i < n" for i
    using Suc.prems [of "Suc i"] that by (simp add: ac_simps)
  ultimately show ?case using Suc.IH [of "a + 1"] by simp
qed simp

lemma of_nat_neq_0_64: "0 < i \<Longrightarrow> i < 2 ^ 64 \<Longrightarrow> (of_nat i :: 64 word) \<noteq> 0"
  by (simp add: word_of_nat_eq_0_iff nat_dvd_not_less)

lemma store_bytes_nth:
  assumes "i < n" and "n \<le> 2 ^ 64"
  shows "store_bytes m a n d (a + of_nat i) = ucast (drop_bit (8 * i) d)"
  using assms
proof (induction n arbitrary: m a d i)
  case (Suc n)
  show ?case
  proof (cases i)
    case 0
    have "a \<noteq> a + 1 + of_nat k" if "k < n" for k
      using of_nat_neq_0_64 [of "Suc k"] that Suc.prems by (simp add: ac_simps)
    with 0 show ?thesis by (simp add: store_bytes_other)
  next
    case (Suc k)
    have "a + of_nat i = a + 1 + of_nat k" by (simp add: Suc ac_simps)
    moreover have "store_bytes m' (a + 1) n (drop_bit 8 d) (a + 1 + of_nat k) =
        ucast (drop_bit (8 * k) (drop_bit 8 d))" for m'
      using Suc.IH [of k m' "a + 1" "drop_bit 8 d"] Suc Suc.prems by simp
    ultimately show ?thesis by (simp only: store_bytes.simps) (simp add: Suc add.commute)
  qed
qed simp

lemma bit_load_bytes:
  "bit (load_bytes m a n) k \<longleftrightarrow> k < 64 \<and> k < 8 * n \<and> bit (m (a + of_nat (k div 8))) (k mod 8)"
proof (induction n arbitrary: a k)
  case (Suc n)
  show ?case
  proof (cases "k < 8")
    case True
    then show ?thesis by (simp add: bit_simps)
  next
    case False
    then obtain j where j: "k = j + 8" by (metis add.commute le_Suc_ex not_less)
    have "\<not> bit (m a) k" using False by (auto dest: bit_imp_le_length)
    then have "bit (load_bytes m a (Suc n)) k \<longleftrightarrow> k < 64 \<and> bit (load_bytes m (a + 1) n) j"
      using j by (auto simp: bit_simps)
    also have "\<dots> \<longleftrightarrow> k < 64 \<and> j < 8 * n \<and> bit (m (a + 1 + of_nat (j div 8))) (j mod 8)"
      unfolding Suc.IH by (auto simp: j)
    finally show ?thesis by (simp add: j div_add_self2 ac_simps)
  qed
qed simp

lemma load_bytes_cong:
  assumes "\<And>i. i < n \<Longrightarrow> m' (a + of_nat i) = m (a + of_nat i)"
  shows "load_bytes m' a n = load_bytes m a n"
proof (rule word_bit_eqI)
  fix k assume "k < LENGTH(64)"
  show "bit (load_bytes m' a n) k = bit (load_bytes m a n) k"
    using assms [of "k div 8"] by (auto simp: bit_load_bytes less_mult_imp_div_less mult.commute)
qed

lemma load_store_bytes:
  assumes "n \<le> 2 ^ 64"
  shows "load_bytes (store_bytes m a n d) a n = take_bit (8 * n) d"
proof (rule word_bit_eqI)
  fix k assume "k < LENGTH(64)"
  show "bit (load_bytes (store_bytes m a n d) a n) k = bit (take_bit (8 * n) d) k"
  proof (cases "k < 8 * n")
    case True
    then have "k div 8 < n" by (simp add: less_mult_imp_div_less mult.commute)
    with True assms \<open>k < LENGTH(64)\<close> show ?thesis
      by (simp add: bit_load_bytes store_bytes_nth bit_simps)
  next
    case False
    then show ?thesis by (simp add: bit_load_bytes bit_simps)
  qed
qed

section \<open>The memory map\<close>

text \<open>
  A memory map without overlaps: main memory starts above the flash window and does not wrap around,
  and the 2 GiB profile has its own end.
\<close>

definition memory_map_ok :: "config \<Rightarrow> bool" where
  "memory_map_ok c \<longleftrightarrow>
     0x70000000 \<le> unat (mbase c) \<and> 0 < unat (msize c) \<and>
     unat (mbase c) + unat (msize c) \<le> (if pmem_2g c then 0x100000000 else 0xa0000000)"

text \<open>No access of eight bytes reaches from one region into another, or into an IO window.\<close>

definition memory_map_gap :: "config \<Rightarrow> bool" where
  "memory_map_gap c \<longleftrightarrow> memory_map_ok c \<and> raptor_memory_map c \<and>
     (\<not> pmem_2g c \<longrightarrow> unat (mbase c) + unat (msize c) \<le> 0x9ffffff8)"

lemma kconfig_ref_gap: "memory_map_gap riscv64_ref_config"
  by (simp add: memory_map_gap_def memory_map_ok_def riscv64_ref_config_def)

lemma memory_map_gapD:
  "memory_map_gap c \<Longrightarrow> memory_map_ok c" "memory_map_gap c \<Longrightarrow> raptor_memory_map c"
  by (simp_all add: memory_map_gap_def)

lemma in_pmem_unat:
  assumes "memory_map_ok c"
  shows "in_pmem c a \<longleftrightarrow> unat (mbase c) \<le> unat a \<and> unat a < unat (mbase c) + unat (msize c)"
proof -
  have lt: "unat (mbase c) + unat (msize c) < 2 ^ 64"
    using assms by (auto simp: memory_map_ok_def split: if_splits)
  then have s: "unat (mbase c + msize c) = unat (mbase c) + unat (msize c)"
    by (simp add: unat_word_ariths)
  have pos: "0 < unat (msize c)" using assms by (simp add: memory_map_ok_def)
  then have "mbase c + msize c \<noteq> 0" using s by (metis add_is_0 less_numeral_extra(3) unat_0)
  then have "unat (mbase c + msize c - 1) = unat (mbase c) + unat (msize c) - 1"
    using s by (simp add: unat_minus_one)
  with pos show ?thesis
    by (auto simp: in_pmem_def PMEM_LEFT_def PMEM_RIGHT_def word_le_nat_alt)
qed

lemma region_unat:
  "in_sdram c a \<longleftrightarrow> \<not> pmem_2g c \<and> 0xa0000000 \<le> unat a \<and>
     unat a < (if raptor_memory_map c then 0xa2000000 else 0xc0000000)"
  "in_sram a \<longleftrightarrow> 0x0f000000 \<le> unat a \<and> unat a < 0x0f002000"
  "in_mrom a \<longleftrightarrow> 0x20000000 \<le> unat a \<and> unat a < 0x20010000"
  "in_flash c a \<longleftrightarrow> 0x30000000 \<le> unat a \<and>
     unat a < (if raptor_memory_map c then 0x40000000 else 0x70000000)"
  "in_rom c a \<longleftrightarrow> \<not> raptor_memory_map c \<and> 0x1000 \<le> unat a \<and> unat a < 0x10000"
  by (simp_all add: in_sdram_def in_sram_def in_mrom_def in_flash_def in_rom_def
      CONFIG_SDRAM_SIZE_def CONFIG_FLASH_SIZE_def word_le_nat_alt word_less_nat_alt)

lemma ref_io_unat:
  "ref_paddr_is_io a \<longleftrightarrow>
     0x02000000 \<le> unat a \<and> unat a < 0x020c0000 \<or> 0x0c000000 \<le> unat a \<and> unat a < 0x0d000000 \<or>
     0x10000000 \<le> unat a \<and> unat a < 0x10000100 \<or> 0x11001800 \<le> unat a \<and> unat a < 0x11001900 \<or>
     0x11008000 \<le> unat a \<and> unat a < 0x11008100"
  by (simp add: ref_paddr_is_io_def word_le_nat_alt word_less_nat_alt)

text \<open>The bytes of a span that does not wrap around.\<close>

lemma span_last:
  fixes a :: paddr_t
  assumes "0 < n" and "n \<le> 2 ^ 63" and "\<not> a + of_nat n - 1 < a"
  shows "unat (a + of_nat n - 1) = unat a + n - 1" and "unat a + n \<le> 2 ^ 64"
proof -
  have e: "a + of_nat n - 1 = a + of_nat (n - 1)" for a :: paddr_t
    using assms(1) by (cases n) simp_all
  have k: "unat (of_nat (n - 1) :: paddr_t) = n - 1"
    using assms(2) by (simp add: unat_of_nat)
  have "unat a + (n - 1) < 2 ^ 64"
  proof (rule ccontr)
    assume "\<not> ?thesis"
    then have ge: "2 ^ 64 \<le> unat a + (n - 1)" by simp
    have "unat a < 2 ^ LENGTH(64)" by (rule unsigned_less)
    with assms(2) have "unat a + (n - 1) < 2 * 2 ^ 64" by simp
    then have "unat (a + of_nat (n - 1)) = unat a + (n - 1) - 2 ^ 64"
      using ge k by (simp add: unat_word_ariths mod_nat_eqI)
    also have "\<dots> < unat a" using assms(2) ge by simp
    finally show False using assms(3) by (simp add: word_less_nat_alt e)
  qed
  with k show "unat (a + of_nat n - 1) = unat a + n - 1" "unat a + n \<le> 2 ^ 64"
    using assms(1) by (simp_all add: unat_word_ariths e)
qed

lemma span_byte:
  assumes "unat a + n \<le> 2 ^ 64" and "i < n"
  shows "unat (a + of_nat i :: paddr_t) = unat a + i" and "a \<le> a + of_nat i"
  using assms by (simp_all add: unat_word_ariths unat_of_nat word_le_nat_alt)

lemma ram_span_bytes:
  assumes "memory_map_ok c" and "paddr_is_ram_span c a n" and "n \<le> 2 ^ 63" and "i < n"
  shows "in_pmem c (a + of_nat i) \<or> in_sram (a + of_nat i) \<or> in_sdram c (a + of_nat i)"
    and "unat a + n \<le> 2 ^ 64" and "unat (a + of_nat i) = unat a + i"
proof -
  have n: "0 < n" and w: "\<not> a + of_nat n - 1 < a"
    and r: "in_pmem c a \<and> in_pmem c (a + of_nat n - 1) \<or> in_sram a \<and> in_sram (a + of_nat n - 1) \<or>
      in_sdram c a \<and> in_sdram c (a + of_nat n - 1)"
    using assms(2) by (auto simp: paddr_is_ram_span_def Let_def split: if_splits)
  note l = span_last [OF n assms(3) w]
  show "unat a + n \<le> 2 ^ 64" by (rule l)
  show u: "unat (a + of_nat i) = unat a + i" using span_byte [OF l(2) assms(4)] by blast
  from r show "in_pmem c (a + of_nat i) \<or> in_sram (a + of_nat i) \<or> in_sdram c (a + of_nat i)"
    unfolding in_pmem_unat [OF assms(1)] region_unat u l(1) using assms(4) by linarith
qed

lemma ram_not_readonly:
  assumes "memory_map_ok c" and "in_pmem c a \<or> in_sram a \<or> in_sdram c a"
  shows "\<not> paddr_is_readonly c a"
  using assms(2) assms(1)
  unfolding paddr_is_readonly_def in_pmem_unat [OF assms(1)] region_unat
  by (auto simp: memory_map_ok_def split: if_splits)

lemma span1_iff:
  "paddr_is_memory_span c a 1 \<longleftrightarrow>
     in_pmem c a \<or> in_rom c a \<or> in_sram a \<or> in_mrom a \<or> in_flash c a \<or> in_sdram c a"
  by (auto simp: paddr_is_memory_span_def)

lemma ram_span_imp_memory_span: "paddr_is_ram_span c a n \<Longrightarrow> paddr_is_memory_span c a n"
  by (auto simp: paddr_is_ram_span_def paddr_is_memory_span_def Let_def split: if_splits)

text \<open>Between two mapped ends less than eight bytes apart nothing is missing.\<close>

lemma mapped_ends_span:
  assumes g: "memory_map_gap c" and n: "0 < n" "n \<le> 8" and w: "\<not> a + of_nat n - 1 < a"
    and lo: "paddr_is_mapped c a" and hi: "paddr_is_mapped c (a + of_nat n - 1)"
  shows "paddr_is_memory_span c a n \<or> (target_share c \<and> ref_paddr_is_io a)"
proof (rule ccontr)
  assume no: "\<not> ?thesis"
  note ok = memory_map_gapD(1) [OF g] and rm = memory_map_gapD(2) [OF g]
  let ?b = "a + of_nat n - 1"
  have b: "unat ?b = unat a + n - 1" using span_last [OF n(1) _ w] n(2) by simp
  have ma: "in_pmem c a \<or> in_rom c a \<or> in_sram a \<or> in_mrom a \<or> in_flash c a \<or> in_sdram c a"
    using lo no unfolding paddr_is_mapped_def span1_iff by blast
  have mb: "in_pmem c ?b \<or> in_rom c ?b \<or> in_sram ?b \<or> in_mrom ?b \<or> in_flash c ?b \<or>
      in_sdram c ?b \<or> ref_paddr_is_io ?b"
    using hi unfolding paddr_is_mapped_def span1_iff by blast
  have diff: "\<not> (in_pmem c a \<and> in_pmem c ?b)" "\<not> (in_sram a \<and> in_sram ?b)"
    "\<not> (in_mrom a \<and> in_mrom ?b)" "\<not> (in_flash c a \<and> in_flash c ?b)"
    "\<not> (in_sdram c a \<and> in_sdram c ?b)"
    using no n w by (auto simp: paddr_is_memory_span_def)
  have m: "0x70000000 \<le> unat (mbase c)" "0 < unat (msize c)"
    "\<not> pmem_2g c \<longrightarrow> unat (mbase c) + unat (msize c) \<le> 0x9ffffff8"
    using g by (auto simp: memory_map_gap_def memory_map_ok_def)
  have ab: "unat a \<le> unat ?b" "unat ?b \<le> unat a + 7" using b n by simp_all
  note u = in_pmem_unat [OF ok] region_unat ref_io_unat eqTrueI [OF rm] simp_thms if_True
  consider "in_pmem c a" "\<not> in_pmem c ?b" | "in_sram a" "\<not> in_sram ?b"
    | "in_mrom a" "\<not> in_mrom ?b" | "in_flash c a" "\<not> in_flash c ?b"
    | "in_sdram c a" "\<not> in_sdram c ?b"
    using ma diff rm region_unat(5) [of c a] by blast
  then show False
  proof cases
    case 1
    then have "unat (mbase c) + unat (msize c) \<le> unat ?b" "unat ?b < unat (mbase c) + unat (msize c) + 7"
      using ab unfolding u by linarith+
    with mb m ab show False unfolding u by (elim disjE conjE; simp)
  next
    case 2
    then have "0x0f002000 \<le> unat ?b" "unat ?b < 0x0f002007" using ab unfolding u by linarith+
    with mb m show False unfolding u by (elim disjE conjE; simp)
  next
    case 3
    then have "0x20010000 \<le> unat ?b" "unat ?b < 0x20010007" using ab unfolding u by linarith+
    with mb m show False unfolding u by (elim disjE conjE; simp)
  next
    case 4
    then have "0x40000000 \<le> unat ?b" "unat ?b < 0x40000007" using ab unfolding u by linarith+
    with mb m show False unfolding u by (elim disjE conjE; simp)
  next
    case 5
    then have "0xa2000000 \<le> unat ?b" "unat ?b < 0xa2000007" "\<not> pmem_2g c"
      using ab unfolding u by linarith+
    with mb m show False unfolding u by (elim disjE conjE; simp)
  qed
qed

section \<open>Reads and writes\<close>

lemma pmem_read_ok: "guest_backed c a \<Longrightarrow> host_len n \<Longrightarrow> pmem_read c a n s = (Inr (load_bytes (phys s) a n), s)"
  by (simp add: pmem_read_def host_read_def)

lemma span_backed: "paddr_is_memory_span c a n \<Longrightarrow> guest_backed c a"
  by (auto simp: paddr_is_memory_span_def guest_backed_def Let_def split: if_splits)

lemma paddr_read_span:
  assumes "paddr_is_memory_span c a n" and "host_len n"
  shows "paddr_read c a n s = (Inr (load_bytes (phys s) a n), s)"
  using assms span_backed [OF assms(1)]
  by (auto simp: paddr_read_def pmem_read_ok guest_backed_def)

lemma paddr_read_io:
  assumes "target_share c" and "ref_paddr_is_io a" and "\<not> paddr_is_memory_span c a n"
  shows "paddr_read c a n s = (Inr 0, s)"
  using assms by (simp add: paddr_read_def)

lemma paddr_read_state: "snd (paddr_read c a n s) = s"
  by (simp add: paddr_read_def pmem_read_def host_read_def out_of_bound_def mbind_app)

lemma paddr_write_ram:
  assumes "paddr_is_ram_span c a n" and "host_len n"
  shows "paddr_write c a n d s = (Inr (), s\<lparr>phys := store_bytes (phys s) a n d\<rparr>)"
proof -
  have "in_pmem c a \<or> in_sdram c a \<or> in_sram a"
    using assms(1) by (auto simp: paddr_is_ram_span_def Let_def split: if_splits)
  with assms span_backed [OF ram_span_imp_memory_span [OF assms(1)]] show ?thesis
    by (simp add: paddr_write_def ram_span_imp_memory_span pmem_write_def host_write_def)
qed

text \<open>What a physical write may change.\<close>

lemma paddr_write_frame:
  assumes "paddr_write c a n d s = (r, t)"
  shows "t = s\<lparr>phys := phys t\<rparr>"
    and "\<And>x. phys t x \<noteq> phys s x \<Longrightarrow> \<exists>i<n. x = a + of_nat i \<and> paddr_is_memory_span c a n \<and>
           (in_pmem c a \<or> in_sdram c a \<or> in_sram a)"
proof -
  have *: "t = s \<or> (t = s\<lparr>phys := store_bytes (phys s) a n d\<rparr> \<and> paddr_is_memory_span c a n \<and>
      (in_pmem c a \<or> in_sdram c a \<or> in_sram a))"
    using assms
    by (auto simp: paddr_write_def pmem_write_def host_write_def out_of_bound_def mbind_app
        split: if_splits)
  then show "t = s\<lparr>phys := phys t\<rparr>" by auto
  fix x assume x: "phys t x \<noteq> phys s x"
  with * have "t = s\<lparr>phys := store_bytes (phys s) a n d\<rparr>" "paddr_is_memory_span c a n"
    "in_pmem c a \<or> in_sdram c a \<or> in_sram a" by auto
  with x store_bytes_other [of n x a "phys s" d]
  show "\<exists>i<n. x = a + of_nat i \<and> paddr_is_memory_span c a n \<and>
      (in_pmem c a \<or> in_sdram c a \<or> in_sram a)" by auto
qed

section \<open>Properties\<close>

text \<open>
  C17. A write to a span of main memory is read back: the same bytes, truncated to the width of the
  access, and every read of a span that shares no byte with it is unchanged.
\<close>

theorem paddr_write_read:
  assumes "paddr_is_ram_span c a n" and "host_len n" and "paddr_write c a n d s = (r, t)"
  shows "r = Inr () \<and> paddr_read c a n t = (Inr (take_bit (8 * n) d), t) \<and>
    (\<forall>b m. paddr_is_memory_span c b m \<and> host_len m \<and>
        (\<forall>i<n. \<forall>j<m. a + of_nat i \<noteq> b + of_nat j) \<longrightarrow>
      fst (paddr_read c b m t) = fst (paddr_read c b m s))"
proof -
  have t: "r = Inr ()" "t = s\<lparr>phys := store_bytes (phys s) a n d\<rparr>"
    using assms(3) paddr_write_ram [OF assms(1,2)] by simp_all
  have "n \<le> 2 ^ 64" using assms(2) by (auto simp: host_len_def)
  then have "paddr_read c a n t = (Inr (take_bit (8 * n) d), t)"
    using paddr_read_span [OF ram_span_imp_memory_span [OF assms(1)] assms(2), of t]
    by (simp add: t(2) load_store_bytes)
  moreover have "fst (paddr_read c b m t) = fst (paddr_read c b m s)"
    if "paddr_is_memory_span c b m" "host_len m" "\<forall>i<n. \<forall>j<m. a + of_nat i \<noteq> b + of_nat j" for b m
  proof -
    have "load_bytes (phys t) b m = load_bytes (phys s) b m"
      using that(3) by (intro load_bytes_cong) (auto simp: t(2) intro!: store_bytes_other, metis)
    then show ?thesis using that by (simp add: paddr_read_span)
  qed
  ultimately show ?thesis using t(1) by blast
qed

definition paddr_demo :: nemu where
  "paddr_demo = snd (paddr_write riscv64_ref_config 0x80000001 4 0x1122334455 nemu_static)"

theorem paddr_write_read_witness:
  "fst (paddr_read riscv64_ref_config 0x80000001 4 paddr_demo) = Inr 0x22334455"
proof -
  have span: "paddr_is_ram_span riscv64_ref_config 0x80000001 4"
    by code_simp
  have "paddr_write riscv64_ref_config 0x80000001 4 0x1122334455 nemu_static =
      (fst (paddr_write riscv64_ref_config 0x80000001 4 0x1122334455 nemu_static), paddr_demo)"
    by (simp add: paddr_demo_def)
  from paddr_write_read [OF span _ this] show ?thesis
    by (simp add: host_len_def take_bit_eq_mask mask_numeral)
qed

end
