(* ===== verification/Pmp_Correct.thy ===== *)
theory Pmp_Correct
  imports Pmp
begin

text \<open>
  Correctness of the PMP unit: the decoded entries, the cached lookup and the fast paths of
  \<open>pmp_check\<close> against the rule of the privileged specification stated on byte addresses and the
  architectural registers, the invariant that ties the side state to the registers, lock bits and
  WARL fields.
\<close>

unbundle bit_operations_syntax

section \<open>Specification over byte addresses\<close>

text \<open>Number of trailing ones of an address register.\<close>

definition trailing_ones :: "word_t \<Rightarrow> nat" where
  "trailing_ones w = length (takeWhile (bit w) [0..<64])"

text \<open>
  \<open>pmp_entry_covers c s i b\<close>: entry \<open>i\<close> matches the byte at address \<open>b\<close>. TOR regions are bounded
  by the two address registers without their \<open>G\<close> low bits, a NAPOT register with \<open>t\<close> trailing
  ones denotes the aligned block of \<open>2 ^ (t + 3)\<close> bytes around it.
\<close>

definition pmp_entry_covers :: "config \<Rightarrow> nemu \<Rightarrow> nat \<Rightarrow> nat \<Rightarrow> bool" where
  "pmp_entry_covers c s i b \<longleftrightarrow>
     (let a = cfg_a (pmp_cfg s i); pa = pmp_csr_read c s (CSR_PMPADDR0 + i);
          g = 2 ^ PMP_G c in
      if a = PMP_A_TOR then
        (i = 0 \<or> unat (pmp_addr s (i - 1)) div g * g * 4 \<le> b) \<and> b < unat (pmp_addr s i) div g * g * 4
      else if a = PMP_A_NA4 then unat pa * 4 \<le> b \<and> b < unat pa * 4 + 4
      else if a = PMP_A_NAPOT then
        b div 2 ^ (trailing_ones pa + 3) = unat pa * 4 div 2 ^ (trailing_ones pa + 3)
      else False)"

text \<open>
  The rule of the privileged specification: the lowest-numbered entry that matches any byte decides
  and must match all of them; without a match only M-mode passes; M-mode ignores unlocked entries.
\<close>

definition pmp_spec_faults ::
    "config \<Rightarrow> nemu \<Rightarrow> nat \<Rightarrow> nat \<Rightarrow> nat \<Rightarrow> bool \<Rightarrow> bool \<Rightarrow> bool \<Rightarrow> bool" where
  "pmp_spec_faults c s addr sz prv op_r op_w op_x \<longleftrightarrow>
     (case first_index (\<lambda>i. \<exists>b\<in>{addr..<addr + sz}. pmp_entry_covers c s i b) PMP_N of
        None \<Rightarrow> prv \<noteq> PRV_M
      | Some i \<Rightarrow>
          \<not> (\<forall>b\<in>{addr..<addr + sz}. pmp_entry_covers c s i b) \<or>
          \<not> (prv = PRV_M \<and> \<not> cfg_locked (pmp_cfg s i)) \<and> \<not> perm_ok (pmp_cfg s i) op_r op_w op_x)"

section \<open>The NAPOT mask\<close>

lemma napot_loop_bit:
  assumes "1 \<le> j"
  shows "bit (pmp_napot_loop pa j m) n \<longleftrightarrow>
    bit m n \<or> (n < 64 \<and> j \<le> n \<and> (\<forall>k. j - 1 \<le> k \<and> k < n \<longrightarrow> bit pa k))"
  using assms
proof (induction pa j m rule: pmp_napot_loop.induct)
  case (1 pa j m)
  show ?case
  proof (cases "j < 64 \<and> bit pa (j - 1)")
    case True
    then have "bit (pmp_napot_loop pa (j + 1) (m OR push_bit j 1)) n \<longleftrightarrow>
      bit (m OR push_bit j 1) n \<or> n < 64 \<and> j + 1 \<le> n \<and> (\<forall>k. j \<le> k \<and> k < n \<longrightarrow> bit pa k)"
      using "1.IH" "1.prems" by simp
    with True "1.prems" show ?thesis
      apply (subst pmp_napot_loop.simps)
      apply (simp add: bit_simps)
      by (metis (no_types, lifting) Suc_diff_le Suc_leI Suc_pred diff_is_0_eq le_eq_less_or_eq le_less_Suc_eq less_Suc_eq_le less_eq_Suc_le not_less_eq_eq zero_less_diff)
  next
    case False
    then show ?thesis
      using "1.prems" by (subst pmp_napot_loop.simps) (auto intro!: exI [of _ "j - 1"])
  qed
qed

lemma bit_pmp_napot_mask:
  "bit (pmp_napot_mask pa) n \<longleftrightarrow> n < 64 \<and> (\<forall>k<n. bit pa k)"
  by (auto simp: pmp_napot_mask_def napot_loop_bit bit_1_iff Suc_le_eq)

lemma le_trailing_ones: "n \<le> 64 \<Longrightarrow> n \<le> trailing_ones pa \<longleftrightarrow> (\<forall>k<n. bit pa k)"
  by (simp add: trailing_ones_def le_length_takeWhile_upt)

lemma pmp_napot_mask_eq: "pmp_napot_mask pa = mask (Suc (trailing_ones pa))"
  by (rule word_bit_eqI)
    (auto simp: bit_pmp_napot_mask bit_mask_iff le_trailing_ones [symmetric] less_Suc_eq_le)

section \<open>The decoded entries\<close>

lemma PMP_TOR_MASK_eq: "PMP_TOR_MASK c = mask (PMP_G c)"
  by (simp add: PMP_TOR_MASK_def mask_eq_exp_minus_1)

lemma pmp_csr_read_addr:
  assumes "i < PMP_N" and "cfg_a (pmp_cfg s i) \<noteq> PMP_A_NAPOT"
  shows "pmp_csr_read c s (CSR_PMPADDR0 + i) = pmp_addr s i AND NOT (PMP_TOR_MASK c)"
  using assms by (simp add: pmp_csr_read_def Let_def PMP_TOR_MASK_eq)

text \<open>A decoded entry matches a word address exactly if the registers cover the byte.\<close>

lemma dec_match_covers:
  assumes "i < PMP_N"
  shows "dec_match (pmp_decoded_of c s i d) (drop_bit 2 x) \<longleftrightarrow> pmp_entry_covers c s i (unat x)"
proof -
  let ?a = "cfg_a (pmp_cfg s i)" and ?pa = "pmp_csr_read c s (CSR_PMPADDR0 + i)"
  have "?a < 4" by (simp add: cfg_a_def take_bit_eq_mask [symmetric, where n = 2, simplified mask_numeral, simplified] unat_take_bit_mod)
  then consider "?a = PMP_A_OFF" | "?a = PMP_A_TOR" | "?a = PMP_A_NA4" | "?a = PMP_A_NAPOT"
    by linarith
  then show ?thesis
  proof cases
    case 1
    then show ?thesis by (simp add: dec_match_def pmp_decoded_of_def pmp_entry_covers_def Let_def)
  next
    case 2
    then show ?thesis
      using pmp_csr_read_addr [OF assms, of s c]
      by (simp add: dec_match_def pmp_decoded_of_def pmp_entry_covers_def Let_def word_le_nat_alt
        word_less_nat_alt unat_drop_bit_div PMP_TOR_MASK_eq unat_and_not_mask
        div_less_iff_less_mult less_eq_div_iff_mult_less_eq)
  next
    case 3
    have "unat x div 4 = unat ?pa \<longleftrightarrow> unat ?pa * 4 \<le> unat x \<and> unat x < unat ?pa * 4 + 4" by auto
    with 3 show ?thesis
      by (simp add: dec_match_def pmp_decoded_of_def pmp_entry_covers_def Let_def
        word_unat_eq_iff unat_drop_bit_div)
  next
    case 4
    have *: "(2::nat) ^ (t + 3) = 4 * 2 ^ Suc t" for t by (simp add: power_add)
    from 4 show ?thesis
      by (simp add: dec_match_def pmp_decoded_of_def pmp_entry_covers_def Let_def pmp_napot_mask_eq
        and_not_mask_eq_iff unat_drop_bit_div * div_mult2_eq del: power_Suc)
  qed
qed

section \<open>The invariant of the side state\<close>

interpretation pwc: epoch_cache pmp_gen "\<lambda>p i. w_gen (pmp_wcache p i)" "\<lambda>p i. True" pmp_new_gen
  by unfold_locales (auto simp: pmp_new_gen_def wcache_zero_def Let_def)

lemma pmp_scan_find: "pmp_scan p w i = find (\<lambda>i. dec_match (pmp_dec p i) w) [i..<PMP_N]"
  by (induction p w i rule: pmp_scan.induct) (subst pmp_scan.simps, simp add: upt_conv_Cons)

definition pmp_scan_match :: "pmp_state \<Rightarrow> paddr_t \<Rightarrow> pmp_match" where
  "pmp_scan_match p w =
     (let e = pmp_scan p w 0 in (e, case e of None \<Rightarrow> 0 | Some i \<Rightarrow> d_cfg (pmp_dec p i)))"

text \<open>
  The decoded entries are those of the registers, \<open>pmp_any_active\<close> tells whether one of them is
  on, and every cache slot of the current generation holds the result of a scan.
\<close>

definition pmp_inv :: "config \<Rightarrow> nemu \<Rightarrow> bool" where
  "pmp_inv c s \<longleftrightarrow>
     (\<forall>i<PMP_N. \<exists>d. pmp_dec (pmpu s) i = pmp_decoded_of c s i d) \<and>
     (pmp_any_active (pmpu s) \<longleftrightarrow> (\<exists>i<PMP_N. cfg_a (pmp_cfg s i) \<noteq> PMP_A_OFF)) \<and>
     pwc.epoch_inv (pmpu s) \<and>
     (\<forall>k. let e = pmp_wcache (pmpu s) k in
        w_gen e = pmp_gen (pmpu s) \<longrightarrow> (w_entry e, w_cfg e) = pmp_scan_match (pmpu s) (w_word e))"

text \<open>The match of a byte, from the registers alone.\<close>

definition pmp_find :: "config \<Rightarrow> nemu \<Rightarrow> nat \<Rightarrow> nat option" where
  "pmp_find c s b = first_index (\<lambda>i. pmp_entry_covers c s i b) PMP_N"

definition pmp_match_cfg :: "nemu \<Rightarrow> nat option \<Rightarrow> uint8_t" where
  "pmp_match_cfg s e = (case e of None \<Rightarrow> 0 | Some i \<Rightarrow> pmp_cfg s i)"

lemma d_cfg_decoded_of [simp]: "d_cfg (pmp_decoded_of c s i d) = pmp_cfg s i"
  by (simp add: pmp_decoded_of_def Let_def)

lemma pmp_scan_match_find:
  assumes "pmp_inv c s"
  shows "pmp_scan_match (pmpu s) (drop_bit 2 x) =
    (pmp_find c s (unat x), pmp_match_cfg s (pmp_find c s (unat x)))"
proof -
  have dec: "\<exists>d. pmp_dec (pmpu s) i = pmp_decoded_of c s i d" if "i < PMP_N" for i
    using assms that by (auto simp: pmp_inv_def)
  have "first_index (\<lambda>i. dec_match (pmp_dec (pmpu s) i) (drop_bit 2 x)) PMP_N = pmp_find c s (unat x)"
    unfolding pmp_find_def by (rule first_index_cong) (metis dec dec_match_covers)
  then have "pmp_scan (pmpu s) (drop_bit 2 x) 0 = pmp_find c s (unat x)"
    by (simp add: pmp_scan_find first_index_def)
  moreover have "d_cfg (pmp_dec (pmpu s) i) = pmp_cfg s i" if "pmp_find c s (unat x) = Some i" for i
    using that dec [of i] by (auto simp: pmp_find_def first_index_Some)
  ultimately show ?thesis
    by (auto simp: pmp_scan_match_def pmp_match_cfg_def split: option.split)
qed

text \<open>States that differ in the side state of the PMP unit only.\<close>

definition pmp_same :: "nemu \<Rightarrow> nemu \<Rightarrow> bool" where
  "pmp_same s s' \<longleftrightarrow> s\<lparr>pmpu := pmpu s'\<rparr> = s'"

lemma pmp_regs_cong:
  assumes "sr s' = sr s"
  shows "pmp_cfg s' = pmp_cfg s" "pmp_addr s' = pmp_addr s" "pmp_csr_read c s' = pmp_csr_read c s"
    "pmp_decoded_of c s' = pmp_decoded_of c s" "pmp_entry_covers c s' = pmp_entry_covers c s"
    "pmp_find c s' = pmp_find c s" "pmp_match_cfg s' = pmp_match_cfg s"
proof -
  show 1: "pmp_cfg s' = pmp_cfg s" and 2: "pmp_addr s' = pmp_addr s"
    using assms by (simp_all add: fun_eq_iff pmp_cfg_def pmp_addr_def)
  show 3: "pmp_csr_read c s' = pmp_csr_read c s"
    by (rule ext) (simp only: pmp_csr_read_def 1 2 assms)
  show "pmp_decoded_of c s' = pmp_decoded_of c s"
    by (rule ext, rule ext) (simp only: pmp_decoded_of_def 1 2 3)
  show 4: "pmp_entry_covers c s' = pmp_entry_covers c s"
    by (rule ext, rule ext) (simp only: pmp_entry_covers_def 1 2 3)
  show "pmp_find c s' = pmp_find c s" by (rule ext) (simp only: pmp_find_def 4)
  show "pmp_match_cfg s' = pmp_match_cfg s" by (rule ext) (simp only: pmp_match_cfg_def 1)
qed

lemma pmp_same_refl [simp]: "pmp_same s s"
  by (simp add: pmp_same_def)

lemma pmp_same_trans: "pmp_same s s' \<Longrightarrow> pmp_same s' s'' \<Longrightarrow> pmp_same s s''"
  by (metis (no_types) nemu.unfold_congs(2) nemu.surjective nemu.update_convs(2) pmp_same_def)

lemma pmp_same_sr: "pmp_same s s' \<Longrightarrow> sr s' = sr s"
  by (metis (no_types) ext sr_def nemu.select_convs(1) nemu.surjective nemu.update_convs(2) pmp_same_def)

lemmas pmp_same_regs = pmp_regs_cong [OF pmp_same_sr]

lemma pmp_scan_match_cong:
  "pmp_dec p' = pmp_dec p \<Longrightarrow> pmp_scan_match p' w = pmp_scan_match p w"
  by (simp only: pmp_scan_match_def pmp_scan_find)

lemma pmp_inv_slot:
  assumes "pmp_inv c s" and "w_gen (pmp_wcache (pmpu s) k) = pmp_gen (pmpu s)"
  shows "(w_entry (pmp_wcache (pmpu s) k), w_cfg (pmp_wcache (pmpu s) k)) =
    pmp_scan_match (pmpu s) (w_word (pmp_wcache (pmpu s) k))"
  using assms unfolding pmp_inv_def Let_def by blast

lemma pmp_inv_fill:
  assumes inv: "pmp_inv c s" and "s' = s\<lparr>pmpu := (pmpu s)\<lparr>pmp_wcache := (pmp_wcache (pmpu s))(k := e)\<rparr>\<rparr>"
    and "(w_entry e, w_cfg e) = pmp_scan_match (pmpu s) (w_word e)" and "w_gen e = pmp_gen (pmpu s)"
  shows "pmp_inv c s'" and "pmp_same s s'"
proof -
  show same: "pmp_same s s'" using assms(2) by (simp add: pmp_same_def)
  have m: "pmp_scan_match (pmpu s') w = pmp_scan_match (pmpu s) w" for w
    using assms(2) by (intro pmp_scan_match_cong) simp
  have "pwc.epoch_inv (pmpu s')"
    by (rule pwc.fill_epoch_inv [of "pmpu s" _ k]) (use inv assms(2,4) in \<open>simp_all add: pmp_inv_def\<close>)
  then show "pmp_inv c s'"
    unfolding pmp_inv_def Let_def pmp_same_regs [OF same] m
    using inv assms(2-4) by (simp add: pmp_inv_def Let_def)
qed

text \<open>A lookup answers from the registers and keeps the invariant.\<close>

lemma pmp_byte_lookup_correct:
  assumes inv: "pmp_inv c s"
  obtains s' where "pmp_byte_lookup x s =
      ((pmp_find c s (unat x), pmp_match_cfg s (pmp_find c s (unat x))), s')"
    and "pmp_same s s'" and "pmp_inv c s'"
proof -
  let ?w = "drop_bit 2 x" and ?p = "pmpu s"
  let ?k = "pmp_wcache_index ?w" and ?m = "pmp_scan_match ?p ?w"
  let ?e = "\<lparr>w_word = ?w, w_entry = fst ?m, w_cfg = snd ?m, w_gen = pmp_gen ?p\<rparr>"
  let ?p' = "?p\<lparr>pmp_wcache := (pmp_wcache ?p)(?k := ?e)\<rparr>"
  note m = pmp_scan_match_find [OF inv, of x]
  show ?thesis
  proof (cases "w_gen (pmp_wcache ?p ?k) = pmp_gen ?p \<and> w_word (pmp_wcache ?p ?k) = ?w")
    case True
    then have "(w_entry (pmp_wcache ?p ?k), w_cfg (pmp_wcache ?p ?k)) = ?m"
      using pmp_inv_slot [OF inv, of ?k] by simp
    with True have "pmp_byte_lookup x s = (?m, s)"
      by (simp add: pmp_byte_lookup_def Let_def)
    with m inv that show ?thesis by simp
  next
    case False
    then have "pmp_byte_lookup x s = (?m, s\<lparr>pmpu := ?p'\<rparr>)"
      unfolding pmp_byte_lookup_def pmp_scan_match_def Let_def by (simp only: if_False fst_conv snd_conv)
    with m that pmp_inv_fill [OF inv refl, of ?e ?k] show ?thesis by simp
  qed
qed

section \<open>Grains\<close>

text \<open>What the WARL rules of \<open>pmp_csr_write\<close> guarantee of every configuration byte.\<close>

definition pmp_cfg_legal :: "config \<Rightarrow> uint8_t \<Rightarrow> bool" where
  "pmp_cfg_legal c b \<longleftrightarrow>
     (0 < PMP_G c \<longrightarrow> cfg_a b \<noteq> PMP_A_NA4) \<and> b AND 3 \<noteq> 2 \<and> b AND 0x60 = 0"

definition pmp_legal :: "config \<Rightarrow> nemu \<Rightarrow> bool" where
  "pmp_legal c s \<longleftrightarrow> (\<forall>i<PMP_N. pmp_cfg_legal c (pmp_cfg s i))"

lemma grain_log2: "kconfig_ok c \<Longrightarrow> rv_pmp_granularity_log2 c = PMP_G c + 2 \<and> PMP_G c \<le> 10"
  by (auto simp: kconfig_ok_def PMP_G_def)

lemma div_pow_mono:
  fixes b b' :: nat
  assumes "b div 2 ^ m = b' div 2 ^ m" and "m \<le> n"
  shows "b div 2 ^ n = b' div 2 ^ n"
proof -
  have "x div 2 ^ n = x div 2 ^ m div 2 ^ (n - m)" for x :: nat
    using assms(2) by (simp add: div_mult2_eq [symmetric] power_add [symmetric])
  with assms(1) show ?thesis by simp
qed

lemma napot_trailing_ones:
  assumes "i < PMP_N" and "cfg_a (pmp_cfg s i) = PMP_A_NAPOT" and "PMP_G c \<le> 10"
  shows "PMP_G c + 2 \<le> trailing_ones (pmp_csr_read c s (CSR_PMPADDR0 + i)) + 3"
proof (cases "1 < PMP_G c")
  case True
  with assms have "PMP_G c - 1 \<le> trailing_ones (pmp_csr_read c s (CSR_PMPADDR0 + i))"
    by (subst le_trailing_ones)
      (auto simp: pmp_csr_read_def Let_def bit_simps mask_eq_exp_minus_1 [symmetric])
  with True show ?thesis by simp
qed simp

text \<open>Region boundaries are multiples of the grain: bytes of one grain match the same entries.\<close>

lemma covers_grain:
  assumes "kconfig_ok c" and "pmp_legal c s" and "i < PMP_N"
    and b: "b div 2 ^ rv_pmp_granularity_log2 c = b' div 2 ^ rv_pmp_granularity_log2 c"
  shows "pmp_entry_covers c s i b = pmp_entry_covers c s i b'"
proof -
  let ?a = "cfg_a (pmp_cfg s i)" and ?g = "PMP_G c"
  from grain_log2 [OF assms(1)] have gl: "rv_pmp_granularity_log2 c = ?g + 2" "?g \<le> 10" by auto
  have pow: "(2::nat) ^ (?g + 2) = 2 ^ ?g * 4" by simp
  note b = b [unfolded gl(1)]
  have lo: "k * 2 ^ ?g * 4 \<le> x \<longleftrightarrow> k \<le> x div 2 ^ (?g + 2)" for k x :: nat
    by (simp add: less_eq_div_iff_mult_less_eq pow ac_simps)
  have hi: "x < k * 2 ^ ?g * 4 \<longleftrightarrow> x div 2 ^ (?g + 2) < k" for k x :: nat
    by (simp add: div_less_iff_less_mult pow ac_simps)
  consider "?a = PMP_A_TOR" | "?a = PMP_A_NA4" | "?a = PMP_A_NAPOT" | "?a \<notin> {1, 2, 3}" by auto
  then show ?thesis
  proof cases
    case 1
    then show ?thesis unfolding pmp_entry_covers_def Let_def lo hi b by simp
  next
    case 2
    with assms have "?g = 0" by (auto simp: pmp_legal_def pmp_cfg_legal_def)
    with b have "b div 4 = b' div 4" by simp
    moreover have "k * 4 \<le> x \<and> x < k * 4 + 4 \<longleftrightarrow> x div 4 = k" for k x :: nat by auto
    ultimately show ?thesis using 2 by (simp add: pmp_entry_covers_def Let_def)
  next
    case 3
    from div_pow_mono [OF b napot_trailing_ones [OF assms(3) 3 gl(2)]] 3 show ?thesis
      by (simp add: pmp_entry_covers_def Let_def)
  next
    case 4
    then show ?thesis by (simp add: pmp_entry_covers_def Let_def)
  qed
qed

lemma pmp_find_grain:
  assumes "kconfig_ok c" and "pmp_legal c s"
    and "b div 2 ^ rv_pmp_granularity_log2 c = b' div 2 ^ rv_pmp_granularity_log2 c"
  shows "pmp_find c s b = pmp_find c s b'"
  unfolding pmp_find_def by (rule first_index_cong) (rule covers_grain [OF assms(1,2) _ assms(3)])

section \<open>The check implements the specification\<close>

text \<open>The covering loop visits the first byte of every further grain.\<close>

lemma pmp_cover_loop_correct:
  assumes "pmp_inv c s"
  obtains s' where "pmp_cover_loop gl addr addr_hi sz e0 off s =
      ((\<forall>k. off + k * 2 ^ gl < sz \<longrightarrow>
          drop_bit 2 (addr + of_nat (off + k * 2 ^ gl)) = drop_bit 2 addr_hi \<or>
          pmp_find c s (unat (addr + of_nat (off + k * 2 ^ gl))) = e0), s')"
    and "pmp_same s s'" and "pmp_inv c s'"
  using assms
proof (induction gl addr addr_hi sz e0 off s arbitrary: thesis rule: pmp_cover_loop.induct)
  case (1 gl addr addr_hi sz e0 off s)
  define Q where "Q k \<longleftrightarrow> off + k * 2 ^ gl < sz \<longrightarrow>
          drop_bit 2 (addr + of_nat (off + k * 2 ^ gl)) = drop_bit 2 addr_hi \<or>
          pmp_find c s (unat (addr + of_nat (off + k * 2 ^ gl))) = e0" for k
  have Q_Suc: "Q (Suc k) \<longleftrightarrow> (off + 2 ^ gl + k * 2 ^ gl < sz \<longrightarrow>
          drop_bit 2 (addr + of_nat (off + 2 ^ gl + k * 2 ^ gl)) = drop_bit 2 addr_hi \<or>
          pmp_find c s (unat (addr + of_nat (off + 2 ^ gl + k * 2 ^ gl))) = e0)" for k
    by (simp add: Q_def add.assoc)
  have all_Q: "(\<forall>k. Q k) \<longleftrightarrow> Q 0 \<and> (\<forall>k. Q (Suc k))" by (metis nat.exhaust)
  let ?g = "addr + of_nat off"
  note step = pmp_cover_loop.simps [of gl addr addr_hi sz e0 off s]
  show ?case
  proof (cases "off < sz")
    case False
    then have "\<forall>k. Q k" by (simp add: Q_def)
    with False step "1.prems" show ?thesis by (auto simp: Q_def)
  next
    case True
    show ?thesis
    proof (cases "drop_bit 2 ?g = drop_bit 2 addr_hi")
      case eq: True
      then have "Q 0" by (simp add: Q_def)
      from "1.IH"(1) [OF True refl eq _ "1.prems"(2)] obtain s' where
        "pmp_cover_loop gl addr addr_hi sz e0 (off + 2 ^ gl) s = ((\<forall>k. Q (Suc k)), s')"
        "pmp_same s s'" "pmp_inv c s'"
        unfolding Q_Suc by blast
      with True eq \<open>Q 0\<close> all_Q "1.prems"(1) step show ?thesis
        unfolding Q_def by simp
    next
      case neq: False
      obtain s1 where look: "pmp_byte_lookup ?g s =
          ((pmp_find c s (unat ?g), pmp_match_cfg s (pmp_find c s (unat ?g))), s1)"
        "pmp_same s s1" "pmp_inv c s1"
        using pmp_byte_lookup_correct [OF "1.prems"(2)] by blast
      show ?thesis
      proof (cases "pmp_find c s (unat ?g) = e0")
        case False
        with True neq have "\<not> (\<forall>k. Q k)" by (auto simp: Q_def intro!: exI [of _ 0])
        with False True neq look step "1.prems"(1) show ?thesis
          by (auto simp: Q_def)
      next
        case fnd: True
        then have "Q 0" by (simp add: Q_def)
        note ih = "1.IH"(2) [OF True refl neq look(1) [symmetric] refl _ _ look(3)]
        from ih fnd obtain s' where
          "pmp_cover_loop gl addr addr_hi sz e0 (off + 2 ^ gl) s1 = ((\<forall>k. Q (Suc k)), s')"
          "pmp_same s1 s'" "pmp_inv c s'"
          unfolding Q_Suc pmp_same_regs [OF look(2)] by auto
        with True neq fnd \<open>Q 0\<close> all_Q "1.prems"(1) step look pmp_same_trans show ?thesis
          unfolding Q_def by simp
      qed
    qed
  qed
qed

lemma grain_cover:
  fixes N a b :: nat
  assumes unif: "\<And>b b'. b div N = b' div N \<Longrightarrow> F b = F b'" and "0 < N"
    and "F a = e"
    and loop: "\<And>k. N - a mod N + k * N < sz \<Longrightarrow> F (a + (N - a mod N + k * N)) = e"
    and b: "a \<le> b" "b < a + sz"
  shows "F b = e"
proof (cases "b div N = a div N")
  case True
  with unif \<open>F a = e\<close> show ?thesis by metis
next
  case False
  then have lt: "a div N < b div N" using div_le_mono [OF b(1), of N] by simp
  define k where "k = b div N - a div N - 1"
  have bd: "b div N = a div N + 1 + k" using lt by (simp add: k_def)
  have "a + (N - a mod N) = (a div N + 1) * N"
    using mod_less_divisor [OF \<open>0 < N\<close>, of a] div_mult_mod_eq [of a N]
    unfolding distrib_right by linarith
  then have g: "a + (N - a mod N + k * N) = b div N * N" unfolding bd by (simp add: algebra_simps)
  moreover have "b div N * N \<le> b" by simp
  ultimately have "N - a mod N + k * N < sz" using b by linarith
  with loop have "F (b div N * N) = e" by (metis g)
  moreover have "F (b div N * N) = F b" by (rule unif) (use \<open>0 < N\<close> in simp)
  ultimately show ?thesis by simp
qed

lemma unat_access_byte:
  fixes addr :: paddr_t
  assumes "unat addr + sz \<le> 2 ^ 64" and "n < sz"
  shows "unat (addr + of_nat n) = unat addr + n"
proof -
  have "unat (of_nat n :: paddr_t) = n" using assms by (simp add: unat_of_nat)
  with assms show ?thesis by (simp add: unat_plus_if')
qed

text \<open>If all bytes resolve to one entry, the specification is the permission test of that entry.\<close>

lemma pmp_spec_uniform:
  assumes "\<And>b. b \<in> {a..<a + sz} \<Longrightarrow> pmp_find c s b = e" and "0 < sz"
  shows "pmp_spec_faults c s a sz prv r w x \<longleftrightarrow> pmp_pass (e, pmp_match_cfg s e) prv r w x"
proof -
  note u = first_index_uniform [of "{a..<a + sz}" "pmp_entry_covers c s" PMP_N e,
      folded pmp_find_def, OF assms(1)]
  have "first_index (\<lambda>i. \<exists>b\<in>{a..<a + sz}. pmp_entry_covers c s i b) PMP_N = e"
    using u(1) assms(2) by simp
  moreover have "\<forall>b\<in>{a..<a + sz}. pmp_entry_covers c s i b" if "e = Some i" for i
    using u(2) that assms(2) by simp
  ultimately show ?thesis
    by (auto simp: pmp_spec_faults_def pmp_pass_def pmp_match_cfg_def split: option.split)
qed

lemma pmp_spec_mixed:
  assumes "pmp_find c s b \<noteq> pmp_find c s b'" and "b \<in> {a..<a + sz}" and "b' \<in> {a..<a + sz}"
  shows "pmp_spec_faults c s a sz prv r w x"
  using assms unfolding pmp_find_def
  by (rule first_index_mixed) (auto simp: pmp_spec_faults_def)

lemma pmp_set_fault_inv:
  assumes "pmp_inv c s"
  shows "pmp_inv c (pmp_set_fault a s)" and "pmp_same s (pmp_set_fault a s)"
proof -
  show same: "pmp_same s (pmp_set_fault a s)" by (simp add: pmp_same_def pmp_set_fault_def)
  have m: "pmp_scan_match (pmpu (pmp_set_fault a s)) w = pmp_scan_match (pmpu s) w" for w
    by (rule pmp_scan_match_cong) (simp add: pmp_set_fault_def)
  show "pmp_inv c (pmp_set_fault a s)"
    using assms unfolding pmp_inv_def Let_def pmp_same_regs [OF same] m
    by (simp add: pmp_set_fault_def pwc.epoch_inv_def)
qed

lemma pmp_inactive_find:
  assumes "pmp_inv c s" and "\<not> pmp_any_active (pmpu s)"
  shows "pmp_find c s b = None"
  using assms by (auto simp: pmp_inv_def pmp_find_def first_index_None pmp_entry_covers_def Let_def)

text \<open>The common tail: a fault records its address and changes nothing else.\<close>

lemma pmp_fault_finish:
  assumes "r = (if f then (True, pmp_set_fault a s1) else (False, s1))"
    and "pmp_same s s1" and "pmp_inv c s1"
  obtains s' where "r = (f, s')" and "pmp_same s s'" and "pmp_inv c s'"
proof (cases f)
  case True
  with that [of "pmp_set_fault a s1"] assms pmp_set_fault_inv [OF assms(3), of a] show ?thesis
    by (auto intro: pmp_same_trans)
qed (use assms that in simp)

lemma pmp_check_correct_aux:
  assumes k: "kconfig_ok c" and leg: "pmp_legal c s" and inv: "pmp_inv c s"
    and sz: "0 < sz" "unat addr + sz \<le> 2 ^ 64"
    and op: "op_x \<longrightarrow> drop_bit (rv_pmp_granularity_log2 c) (addr + of_nat (sz - 1)) =
               drop_bit (rv_pmp_granularity_log2 c) addr"
  obtains s' where "pmp_check c addr sz prv op_r op_w op_x s =
      (pmp_spec_faults c s (unat addr) sz prv op_r op_w op_x, s')"
    and "pmp_same s s'" and "pmp_inv c s'"
proof -
  let ?gl = "rv_pmp_granularity_log2 c" and ?a = "unat addr" and ?hi = "addr + of_nat (sz - 1)"
  let ?F = "pmp_find c s" and ?cfg = "pmp_match_cfg s"
  let ?spec = "pmp_spec_faults c s ?a sz prv op_r op_w op_x"
  let ?pass = "\<lambda>e. pmp_pass (e, ?cfg e) prv op_r op_w op_x"
  have hi: "unat ?hi = ?a + sz - 1" using unat_access_byte [OF sz(2), of "sz - 1"] sz(1) by simp
  have unif: "?F b = ?F b'" if "b div 2 ^ ?gl = b' div 2 ^ ?gl" for b b'
    using pmp_find_grain [OF k leg that] .
  have same_grain: "drop_bit n x = drop_bit n y \<longleftrightarrow> unat x div 2 ^ n = unat y div 2 ^ n"
    for x y :: paddr_t and n by (simp add: word_unat_eq_iff unat_drop_bit_div)
  consider (off) "\<not> pmp_any_active (pmpu s)"
    | (one) "pmp_any_active (pmpu s)" "drop_bit ?gl ?hi = drop_bit ?gl addr"
    | (two) "pmp_any_active (pmpu s)" "drop_bit ?gl ?hi \<noteq> drop_bit ?gl addr" by blast
  then show ?thesis
  proof cases
    case off
    with pmp_inactive_find [OF inv] have "?spec \<longleftrightarrow> prv \<noteq> PRV_M"
      using pmp_spec_uniform [of ?a sz c s None] sz(1) by (simp add: pmp_pass_def)
    with off have "pmp_check c addr sz prv op_r op_w op_x s =
        (if ?spec then (True, pmp_set_fault addr s) else (False, s))"
      by (simp add: pmp_check_def)
    from pmp_fault_finish [OF this pmp_same_refl inv] that show ?thesis by blast
  next
    case one
    have "?F b = ?F ?a" if "b \<in> {?a..<?a + sz}" for b
    proof (rule unif)
      have "?a div 2 ^ ?gl \<le> b div 2 ^ ?gl" "b div 2 ^ ?gl \<le> (?a + sz - 1) div 2 ^ ?gl"
        using that by (auto intro!: div_le_mono)
      with one(2) hi show "b div 2 ^ ?gl = ?a div 2 ^ ?gl" by (simp add: same_grain)
    qed
    then have spec: "?spec \<longleftrightarrow> ?pass (?F ?a)" using pmp_spec_uniform sz(1) by blast
    obtain s1 where look: "pmp_byte_lookup addr s = ((?F ?a, ?cfg (?F ?a)), s1)"
      "pmp_same s s1" "pmp_inv c s1" using pmp_byte_lookup_correct [OF inv] by blast
    with one sz(1) have "pmp_check c addr sz prv op_r op_w op_x s =
        (if ?spec then (True, pmp_set_fault addr s1) else (False, s1))"
      by (simp add: pmp_check_def Let_def spec)
    from pmp_fault_finish [OF this look(2,3)] that show ?thesis by blast
  next
    case two
    let ?off = "2 ^ ?gl - ?a mod 2 ^ ?gl"
    have nox: "\<not> op_x" using op two(2) by blast
    obtain s1 where lo: "pmp_byte_lookup addr s = ((?F ?a, ?cfg (?F ?a)), s1)"
      "pmp_same s s1" "pmp_inv c s1" using pmp_byte_lookup_correct [OF inv] by blast
    obtain s2 where hi': "pmp_byte_lookup ?hi s1 = ((?F (unat ?hi), ?cfg (?F (unat ?hi))), s2)"
      "pmp_same s1 s2" "pmp_inv c s2"
      using pmp_byte_lookup_correct [OF lo(3)] unfolding pmp_same_regs [OF lo(2)] by blast
    have s2: "pmp_same s s2" using lo(2) hi'(2) pmp_same_trans by blast
    obtain s3 where loop: "pmp_cover_loop ?gl addr ?hi sz (?F ?a) ?off s2 =
      ((\<forall>k. ?off + k * 2 ^ ?gl < sz \<longrightarrow>
          drop_bit 2 (addr + of_nat (?off + k * 2 ^ ?gl)) = drop_bit 2 ?hi \<or>
          ?F (unat (addr + of_nat (?off + k * 2 ^ ?gl))) = ?F ?a), s3)"
      "pmp_same s2 s3" "pmp_inv c s3"
      using pmp_cover_loop_correct [OF hi'(3)] unfolding pmp_same_regs [OF s2] by blast
    have s3: "pmp_same s s3" using s2 loop(2) pmp_same_trans by blast
    have mask: "unat (addr AND (push_bit ?gl 1 - 1)) = ?a mod 2 ^ ?gl"
      by (simp add: mask_eq_exp_minus_1 [symmetric] take_bit_eq_mask [symmetric] unat_take_bit_mod)
    have gl2: "2 \<le> ?gl" using k by (simp add: kconfig_ok_def)
    define all where "all \<longleftrightarrow> (\<forall>b\<in>{?a..<?a + sz}. ?F b = ?F ?a)"
    have covered: "all \<longleftrightarrow> ?F (unat ?hi) = ?F ?a \<and> fst (pmp_cover_loop ?gl addr ?hi sz (?F ?a) ?off s2)"
      (is "_ \<longleftrightarrow> ?cov")
    proof
      assume a: all
      have eq: "?F (unat (addr + of_nat o')) = ?F ?a" if "o' < sz" for o'
        using a [unfolded all_def, THEN bspec, of "?a + o'"] that unat_access_byte [OF sz(2) that]
        by simp
      have "?F (unat ?hi) = ?F ?a" by (rule eq) (use sz(1) in simp)
      with eq show ?cov unfolding loop(1) fst_conv by blast
    next
      assume cov: ?cov
      have "?F (?a + (?off + k * 2 ^ ?gl)) = ?F ?a" if o: "?off + k * 2 ^ ?gl < sz" for k
      proof (cases "drop_bit 2 (addr + of_nat (?off + k * 2 ^ ?gl)) = drop_bit 2 ?hi")
        case True
        then have "?F (unat (addr + of_nat (?off + k * 2 ^ ?gl))) = ?F (unat ?hi)"
          by (intro unif div_pow_mono [OF _ gl2]) (simp add: same_grain)
        with cov unat_access_byte [OF sz(2) o] show ?thesis by simp
      next
        case False
        with cov o loop(1) have "?F (unat (addr + of_nat (?off + k * 2 ^ ?gl))) = ?F ?a" by auto
        with unat_access_byte [OF sz(2) o] show ?thesis by simp
      qed
      note steps = this
      have "?F b = ?F ?a" if "b \<in> {?a..<?a + sz}" for b
        by (rule grain_cover [of "2 ^ ?gl" ?F, OF unif _ refl steps]) (use that in auto)
      then show all unfolding all_def by blast
    qed
    show ?thesis
    proof (cases all)
      case True
      with covered have h: "?F (unat ?hi) = ?F ?a" by simp
      have cl: "pmp_cover_loop ?gl addr ?hi sz (?F ?a) ?off s2 = (True, s3)"
        using True covered loop(1) by simp
      have "?spec \<longleftrightarrow> ?pass (?F ?a)"
        using True pmp_spec_uniform sz(1) unfolding all_def by blast
      with two nox sz(1) lo(1) hi'(1) h cl mask have
        "pmp_check c addr sz prv op_r op_w op_x s =
          (if ?spec then (True, pmp_set_fault addr s3) else (False, s3))"
        by (simp add: pmp_check_def Let_def)
      from pmp_fault_finish [OF this s3 loop(3)] that show ?thesis by blast
    next
      case False
      then obtain b where b: "b \<in> {?a..<?a + sz}" "?F b \<noteq> ?F ?a" by (auto simp: all_def)
      have spec: ?spec using pmp_spec_mixed [OF b(2) b(1)] sz(1) by simp
      have "\<exists>s'. pmp_check c addr sz prv op_r op_w op_x s =
          (if ?spec then (True, pmp_set_fault addr s') else (False, s')) \<and>
          pmp_same s s' \<and> pmp_inv c s'"
      proof (cases "?F (unat ?hi) = ?F ?a")
        case True
        with False covered loop(1) have
          "pmp_cover_loop ?gl addr ?hi sz (?F ?a) ?off s2 = (False, s3)" by simp
        with True two nox sz(1) lo(1) hi'(1) mask s3 loop(3) spec show ?thesis
          by (intro exI [of _ s3]) (simp add: pmp_check_def Let_def)
      next
        case False
        with two nox sz(1) lo(1) hi'(1,3) s2 spec show ?thesis
          by (intro exI [of _ s2]) (simp add: pmp_check_def Let_def)
      qed
      with that pmp_fault_finish show ?thesis by metis
    qed
  qed
qed

section \<open>Rebuilding and register writes keep the invariant\<close>

lemma pmp_decode_fold:
  "let p' = fold (pmp_decode_entry c s) [0..<n] p in
     (\<forall>i<n. pmp_dec p' i = pmp_decoded_of c s i (pmp_dec p i)) \<and>
     (pmp_any_active p' \<longleftrightarrow> pmp_any_active p \<or> (\<exists>i<n. cfg_a (pmp_cfg s i) \<noteq> PMP_A_OFF)) \<and>
     (\<forall>i\<ge>n. pmp_dec p' i = pmp_dec p i) \<and> pmp_gen p' = pmp_gen p \<and> pmp_wcache p' = pmp_wcache p"
  by (induction n) (auto simp: Let_def pmp_decode_entry_def less_Suc_eq)

lemma pmp_new_gen_frame [simp]:
  "pmp_dec (pmp_new_gen p) = pmp_dec p" "pmp_any_active (pmp_new_gen p) = pmp_any_active p"
  by (simp_all add: pmp_new_gen_def Let_def)

lemma pmp_rebuild_inv:
  assumes "pwc.epoch_inv (pmpu s)"
  shows "pmp_inv c (pmp_rebuild_decoded c s)" and "pmp_same s (pmp_rebuild_decoded c s)"
proof -
  let ?p = "fold (pmp_decode_entry c s) [0..<PMP_N] ((pmpu s)\<lparr>pmp_any_active := False\<rparr>)"
  show same: "pmp_same s (pmp_rebuild_decoded c s)"
    by (simp add: pmp_same_def pmp_rebuild_decoded_def)
  note fold = pmp_decode_fold [where c = c and s = s and n = PMP_N
      and p = "(pmpu s)\<lparr>pmp_any_active := False\<rparr>", unfolded Let_def, simplified]
  have inv: "pwc.epoch_inv ?p" using assms fold by (simp add: pwc.epoch_inv_def)
  have "w_gen (pmp_wcache (pmp_new_gen ?p) k) \<noteq> pmp_gen (pmp_new_gen ?p)" for k
    using pwc.flush_not_valid [OF inv, of k] by (simp add: pwc.valid_def)
  moreover have "pmpu (pmp_rebuild_decoded c s) = pmp_new_gen ?p"
    by (simp add: pmp_rebuild_decoded_def)
  ultimately show "pmp_inv c (pmp_rebuild_decoded c s)"
    using fold pwc.flush_epoch_inv [OF inv]
    unfolding pmp_inv_def pmp_same_regs [OF same] Let_def by auto
qed

text \<open>Flushing the TLBs touches neither the registers nor the PMP unit.\<close>

lemma pmp_inv_cong:
  assumes "sr s' = sr s" and "pmpu s' = pmpu s"
  shows "pmp_inv c s' = pmp_inv c s" and "pmp_legal c s' = pmp_legal c s"
  by (simp_all only: pmp_inv_def pmp_legal_def pmp_regs_cong [OF assms(1)] assms(2))

lemmas pmp_flush_regs = pmp_regs_cong [OF soft_tlb_flush_frame(1)]
lemmas pmp_flush_inv = pmp_inv_cong [OF soft_tlb_flush_frame(1,2)]

lemma byte_mask: "(0xff :: word_t) = mask 8"
  by (simp add: mask_eq_exp_minus_1)

lemma byte_put_same:
  "m \<le> 56 \<Longrightarrow> ucast (drop_bit m ((w AND NOT (push_bit m (mask 8))) OR
     (push_bit m (ucast b) AND push_bit m (mask 8))) :: word_t) = (b :: uint8_t)"
  by (rule word_bit_eqI) (auto simp: bit_simps)

lemma byte_put_other:
  assumes "n \<le> 56" and "n + 8 \<le> m \<or> m + 8 \<le> n"
  shows "ucast (drop_bit n ((w AND NOT (push_bit m (mask 8))) OR
     (push_bit m (ucast (b :: uint8_t)) AND push_bit m (mask 8))) :: word_t) =
     (ucast (drop_bit n w) :: uint8_t)"
proof (rule word_bit_eqI)
  fix k assume "k < LENGTH(8)"
  with assms show "bit (ucast (drop_bit n ((w AND NOT (push_bit m (mask 8))) OR
     (push_bit m (ucast b) AND push_bit m (mask 8))) :: word_t) :: uint8_t) k =
     bit (ucast (drop_bit n w) :: uint8_t) k"
    by (auto simp: bit_simps)
qed

lemma pmp_cfg_set_cfg:
  assumes "i < 16" and "j < 16"
  shows "pmp_cfg (pmp_cfg_set j b s) i = (if i = j then b else pmp_cfg s i)"
proof (cases "i div 8 = j div 8")
  case False
  then show ?thesis by (auto simp: pmp_cfg_def pmp_cfg_set_def Let_def)
next
  case True
  have "i mod 8 * 8 \<le> 56" by presburger
  moreover have "i mod 8 * 8 + 8 \<le> j mod 8 * 8 \<or> j mod 8 * 8 + 8 \<le> i mod 8 * 8" if "i \<noteq> j"
  proof -
    have "i mod 8 \<noteq> j mod 8" using True that by (metis div_mult_mod_eq)
    then show ?thesis by linarith
  qed
  ultimately show ?thesis
    using True byte_put_same byte_put_other by (auto simp: pmp_cfg_def pmp_cfg_set_def Let_def byte_mask)
qed

lemma pmp_cfg_set_addr [simp]: "j < 16 \<Longrightarrow> pmp_addr (pmp_cfg_set j b s) i = pmp_addr s i"
  by (auto simp: pmp_addr_def pmp_cfg_set_def Let_def)

lemma pmp_addr_set_addr [simp]:
  "pmp_addr (pmp_addr_set c j v s) i = (if i = j then v AND mask (rv_pmpaddr_bits c) else pmp_addr s i)"
  by (simp add: pmp_addr_def pmp_addr_set_def mask_eq_exp_minus_1)

lemma pmp_addr_set_cfg [simp]: "i < 16 \<Longrightarrow> pmp_cfg (pmp_addr_set c j v s) i = pmp_cfg s i"
  by (auto simp: pmp_cfg_def pmp_addr_set_def)

lemma pmp_set_frame [simp]:
  "pmpu (pmp_cfg_set j b s) = pmpu s" "pmpu (pmp_addr_set c j v s) = pmpu s"
  by (simp_all add: pmp_cfg_set_def pmp_addr_set_def Let_def)

lemma byte_eq_iff:
  "a = b \<longleftrightarrow> (bit a 0 = bit b 0 \<and> bit a 1 = bit b 1 \<and> bit a 2 = bit b 2 \<and> bit a 3 = bit b 3 \<and>
     bit a 4 = bit b 4 \<and> bit a 5 = bit b 5 \<and> bit a 6 = bit b 6 \<and> bit a 7 = bit b 7)"
  for a b :: uint8_t
proof
  assume *: "bit a 0 = bit b 0 \<and> bit a 1 = bit b 1 \<and> bit a 2 = bit b 2 \<and> bit a 3 = bit b 3 \<and>
     bit a 4 = bit b 4 \<and> bit a 5 = bit b 5 \<and> bit a 6 = bit b 6 \<and> bit a 7 = bit b 7"
  show "a = b"
  proof (rule word_bit_eqI)
    fix n assume "n < LENGTH(8)"
    then have "n \<in> {0, 1, 2, 3, 4, 5, 6, 7}" by auto
    with * show "bit a n = bit b n" by auto
  qed
qed simp

lemma cfg_a_bits: "cfg_a b = (if bit b 3 then 1 else 0) + (if bit b 4 then 2 else 0)"
proof -
  have "drop_bit 3 b AND 3 = (if bit b 3 then 1 else 0) + (if bit b 4 then 2 else 0)"
    by (subst byte_eq_iff) (simp add: bit_simps)
  then show ?thesis by (simp add: cfg_a_def)
qed

lemma pmp_cfg_legal_bits:
  "pmp_cfg_legal c b \<longleftrightarrow> (0 < PMP_G c \<longrightarrow> \<not> (\<not> bit b 3 \<and> bit b 4)) \<and>
     \<not> (\<not> bit b 0 \<and> bit b 1) \<and> \<not> bit b 5 \<and> \<not> bit b 6"
proof -
  have "b AND 3 = 2 \<longleftrightarrow> \<not> bit b 0 \<and> bit b 1" and "b AND 0x60 = 0 \<longleftrightarrow> \<not> bit b 5 \<and> \<not> bit b 6"
    by (subst byte_eq_iff, simp add: bit_simps)+
  then show ?thesis by (auto simp: pmp_cfg_legal_def cfg_a_bits)
qed

lemma pmp_cfg_warl_legal: "pmp_cfg_legal c (pmp_cfg_warl c b)"
proof -
  have "(b AND 0x9f) AND 3 = 2 \<longleftrightarrow> \<not> bit b 0 \<and> bit b 1"
    by (subst byte_eq_iff, simp add: bit_simps)
  then show ?thesis
    by (auto simp: pmp_cfg_warl_def pmp_cfg_legal_bits cfg_a_bits Let_def bit_simps)
qed

text \<open>The bytes of one \<open>pmpcfg\<close> write.\<close>

lemma pmp_cfg_fold:
  assumes "base + n \<le> 16"
  shows "let s' = fold (pmp_cfg_write_byte c base val) [0..<n] s in
     (\<forall>i<PMP_N. pmp_cfg s' i = (if base \<le> i \<and> i < base + n \<and> \<not> cfg_locked (pmp_cfg s i)
        then pmp_cfg_warl c (ucast (drop_bit ((i - base) * 8) val)) else pmp_cfg s i)) \<and>
     (\<forall>i. pmp_addr s' i = pmp_addr s i) \<and> pmpu s' = pmpu s"
  using assms
proof (induction n)
  case (Suc n)
  then show ?case
    by (auto simp: Let_def pmp_cfg_write_byte_def pmp_cfg_set_cfg less_Suc_eq)
qed auto

text \<open>What a successful write leaves: the registers before the rebuild.\<close>

lemma pmp_csr_write_cases:
  assumes "pmp_csr_write c csr val s = Some s'"
  obtains (same) "s' = s"
  | (cfg) base where "base = 0 \<or> base = 8"
      "s' = soft_tlb_flush (pmp_rebuild_decoded c (fold (pmp_cfg_write_byte c base val) [0..<8] s))"
  | (addr) i where "i < PMP_N" "\<not> cfg_locked (pmp_cfg s i)"
      "\<not> (i + 1 < PMP_N \<and> cfg_locked (pmp_cfg s (i + 1)) \<and> cfg_a (pmp_cfg s (i + 1)) = PMP_A_TOR)"
      "s' = soft_tlb_flush (pmp_rebuild_decoded c (pmp_addr_set c i val s))"
proof -
  let ?csr = "csr mod 4096"
  have base: "(?csr - CSR_PMPCFG0) div 2 * 8 = 0 \<or> (?csr - CSR_PMPCFG0) div 2 * 8 = 8"
    if "CSR_PMPCFG0 \<le> ?csr" "?csr \<le> CSR_PMPCFG3"
  proof -
    have "(?csr - CSR_PMPCFG0) div 2 < 2" using that by linarith
    moreover have "n * 8 = 0 \<or> n * 8 = 8" if "n < 2" for n :: nat using that by auto
    ultimately show ?thesis by blast
  qed
  consider (c) "CSR_PMPCFG0 \<le> ?csr \<and> ?csr \<le> CSR_PMPCFG3" "even ?csr"
    | (a) "\<not> (CSR_PMPCFG0 \<le> ?csr \<and> ?csr \<le> CSR_PMPCFG3)"
        "CSR_PMPADDR0 \<le> ?csr \<and> ?csr \<le> CSR_PMPADDR0 + PMP_CSR_N - 1"
    | (o) "CSR_PMPCFG0 \<le> ?csr \<and> ?csr \<le> CSR_PMPCFG3" "odd ?csr"
    | (n) "\<not> (CSR_PMPCFG0 \<le> ?csr \<and> ?csr \<le> CSR_PMPCFG3)"
        "\<not> (CSR_PMPADDR0 \<le> ?csr \<and> ?csr \<le> CSR_PMPADDR0 + PMP_CSR_N - 1)" by blast
  then show ?thesis
  proof cases
    case c
    with assms have "s' = soft_tlb_flush (pmp_rebuild_decoded c
        (fold (pmp_cfg_write_byte c ((?csr - CSR_PMPCFG0) div 2 * 8) val) [0..<8] s))"
      unfolding pmp_csr_write_def Let_def by simp
    with base c cfg show ?thesis by metis
  next
    case a
    define i where "i = ?csr - CSR_PMPADDR0"
    have "(if PMP_N \<le> i then Some s
        else if cfg_locked (pmp_cfg s i) then Some s
        else if i < PMP_N - 1 \<and> cfg_locked (pmp_cfg s (i + 1)) \<and>
                cfg_a (pmp_cfg s (i + 1)) = PMP_A_TOR then Some s
        else Some (soft_tlb_flush (pmp_rebuild_decoded c (pmp_addr_set c i val s)))) = Some s'"
      using assms a by (simp only: pmp_csr_write_def Let_def if_True if_False simp_thms i_def)
    then show ?thesis
      using same addr [of i] by (simp add: not_le split: if_splits)
  next
    case o
    with assms same show ?thesis by (simp add: pmp_csr_write_def Let_def)
  next
    case n
    with assms show ?thesis
      by (simp only: pmp_csr_write_def Let_def if_True if_False simp_thms option.distinct)
  qed
qed

lemma pmp_same_legal: "pmp_same s s' \<Longrightarrow> pmp_legal c s' = pmp_legal c s"
  by (simp only: pmp_legal_def pmp_same_regs)

lemma pmp_csr_write_inv:
  assumes w: "pmp_csr_write c csr val s = Some s'" and inv: "pmp_inv c s" and leg: "pmp_legal c s"
  shows "pmp_inv c s' \<and> pmp_legal c s'"
  using w
proof (cases rule: pmp_csr_write_cases)
  case same
  with inv leg show ?thesis by simp
next
  case (cfg base)
  define t where "t = fold (pmp_cfg_write_byte c base val) [0..<8] s"
  have t: "pmp_cfg t i = (if base \<le> i \<and> i < base + 8 \<and> \<not> cfg_locked (pmp_cfg s i)
        then pmp_cfg_warl c (ucast (drop_bit ((i - base) * 8) val)) else pmp_cfg s i)"
    "pmpu t = pmpu s" if "i < PMP_N" for i
    using pmp_cfg_fold [of base 8 c val s] cfg(1) that by (auto simp: t_def Let_def)
  have "pwc.epoch_inv (pmpu t)" using inv t(2) [of 0] by (simp add: pmp_inv_def)
  note r = pmp_rebuild_inv [OF this, of c]
  have "pmp_legal c t" using leg pmp_cfg_warl_legal t(1) by (auto simp: pmp_legal_def)
  with cfg(2) r show ?thesis
    using pmp_same_legal [OF r(2)] by (simp add: t_def [symmetric] pmp_flush_inv)
next
  case (addr i)
  let ?t = "pmp_addr_set c i val s"
  have "pwc.epoch_inv (pmpu ?t)" using inv by (simp add: pmp_inv_def)
  note r = pmp_rebuild_inv [OF this, of c]
  have "pmp_legal c ?t" using leg by (simp add: pmp_legal_def)
  with addr r show ?thesis
    using pmp_same_legal [OF r(2)] by (simp add: pmp_flush_inv)
qed

section \<open>Runs of the PMP unit\<close>

text \<open>The operations the emulator performs on the unit, in any order.\<close>

datatype pmp_op =
    PmpWrite nat word_t
  | PmpCheck paddr_t nat nat bool bool bool
  | PmpHartSwitch
  | PmpTlbFlush

fun pmp_step :: "config \<Rightarrow> pmp_op \<Rightarrow> nemu \<Rightarrow> nemu" where
  "pmp_step c (PmpWrite csr v) s = (case pmp_csr_write c csr v s of Some s' \<Rightarrow> s' | None \<Rightarrow> s)"
| "pmp_step c (PmpCheck a sz prv r w x) s = snd (pmp_check c a sz prv r w x s)"
| "pmp_step c PmpHartSwitch s = pmp_hart_switch c s"
| "pmp_step c PmpTlbFlush s = soft_tlb_flush s"

text \<open>Any access keeps the invariant, whatever its size or address.\<close>

definition pmp_keeps :: "config \<Rightarrow> nemu \<Rightarrow> nemu \<Rightarrow> bool" where
  "pmp_keeps c s s' \<longleftrightarrow> (pmp_inv c s \<longrightarrow> pmp_inv c s' \<and> pmp_same s s')"

lemma pmp_keeps_refl [simp]: "pmp_keeps c s s"
  by (simp add: pmp_keeps_def)

lemma pmp_keeps_trans: "pmp_keeps c s s' \<Longrightarrow> pmp_keeps c s' s'' \<Longrightarrow> pmp_keeps c s s''"
  by (auto simp: pmp_keeps_def intro: pmp_same_trans)

lemma pmp_keeps_lookup: "pmp_keeps c s (snd (pmp_byte_lookup x s))"
  unfolding pmp_keeps_def
proof
  assume "pmp_inv c s"
  then show "pmp_inv c (snd (pmp_byte_lookup x s)) \<and> pmp_same s (snd (pmp_byte_lookup x s))"
    by (rule pmp_byte_lookup_correct [of c s x]) simp
qed

lemma pmp_keeps_loop: "pmp_keeps c s (snd (pmp_cover_loop gl a hi sz e off s))"
  unfolding pmp_keeps_def
proof
  assume "pmp_inv c s"
  then show "pmp_inv c (snd (pmp_cover_loop gl a hi sz e off s)) \<and>
      pmp_same s (snd (pmp_cover_loop gl a hi sz e off s))"
    by (rule pmp_cover_loop_correct [of c s gl a hi sz e off]) simp
qed

lemma pmp_keeps_fault: "pmp_keeps c s s' \<Longrightarrow> pmp_keeps c s (pmp_set_fault a s')"
  by (rule pmp_keeps_trans) (auto simp: pmp_keeps_def pmp_set_fault_inv)

lemma pmp_keeps_check: "pmp_keeps c s (snd (pmp_check c a len prv r w x s))"
proof -
  let ?s1 = "snd (pmp_byte_lookup a s)"
  have k1: "pmp_keeps c s ?s1" by (rule pmp_keeps_lookup)
  have k2: "pmp_keeps c s (snd (pmp_byte_lookup y ?s1))" for y
    using k1 pmp_keeps_lookup by (rule pmp_keeps_trans)
  have k3: "pmp_keeps c s (snd (pmp_cover_loop gl a y sz e off (snd (pmp_byte_lookup z ?s1))))"
    for gl y z sz e off
    using k2 pmp_keeps_loop by (rule pmp_keeps_trans)
  show ?thesis
    unfolding pmp_check_def Let_def case_prod_unfold
    by (simp add: pmp_keeps_fault k1 k2 k3)
qed

lemma pmp_check_inv:
  assumes "pmp_inv c s"
  shows "pmp_inv c (snd (pmp_check c a len prv r w x s)) \<and>
    pmp_same s (snd (pmp_check c a len prv r w x s))"
  using assms pmp_keeps_check unfolding pmp_keeps_def by blast

lemma pmp_step_inv:
  assumes "pmp_inv c s \<and> pmp_legal c s"
  shows "pmp_inv c (pmp_step c oper s) \<and> pmp_legal c (pmp_step c oper s)"
proof (cases oper)
  case (PmpWrite csr v)
  with assms pmp_csr_write_inv show ?thesis by (auto split: option.split)
next
  case (PmpCheck a sz prv r w x)
  note k = pmp_check_inv [OF conjunct1 [OF assms], of a sz prv r w x]
  from PmpCheck assms k pmp_same_legal [OF conjunct2 [OF k]] show ?thesis by simp
next
  case PmpHartSwitch
  have "pwc.epoch_inv (pmpu s)" using assms by (simp add: pmp_inv_def)
  note r = pmp_rebuild_inv [OF this, of c]
  from PmpHartSwitch assms r pmp_same_legal [OF r(2)] show ?thesis
    by (simp add: pmp_hart_switch_def)
next
  case PmpTlbFlush
  with assms show ?thesis by (simp add: pmp_flush_inv)
qed

lemma pmp_run_inv:
  assumes "pmp_inv c s \<and> pmp_legal c s"
  shows "pmp_inv c (fold (pmp_step c) ops s) \<and> pmp_legal c (fold (pmp_step c) ops s)"
  using assms
proof (induction ops arbitrary: s)
  case (Cons oper ops)
  from Cons.IH [OF pmp_step_inv [OF Cons.prems]] show ?case by simp
qed simp

text \<open>Power-on: the static initialisers and all PMP registers zero.\<close>

definition pmp_boot :: "nemu \<Rightarrow> bool" where
  "pmp_boot s \<longleftrightarrow> pmpu s = pmp_static \<and> (\<forall>i<PMP_N. pmp_cfg s i = 0)"

lemma pmp_boot_inv:
  assumes "pmp_boot s"
  shows "pmp_inv c s \<and> pmp_legal c s"
proof -
  have cfg: "pmp_cfg s i = 0" if "i < PMP_N" for i using assms that by (simp add: pmp_boot_def)
  have "pmp_decoded_of c s i pmp_dec_zero = pmp_dec_zero" if "i < PMP_N" for i
    using cfg [OF that] by (simp add: pmp_decoded_of_def pmp_dec_zero_def cfg_a_def)
  then have "\<forall>i<PMP_N. \<exists>d. pmp_dec (pmpu s) i = pmp_decoded_of c s i d"
    using assms by (metis pmp_boot_def pmp_state.select_convs(2) pmp_static_def)
  moreover have "pwc.epoch_inv (pmpu s)"
    using assms by (simp add: pmp_boot_def pmp_static_def pwc.epoch_inv_def wcache_zero_def)
  ultimately show ?thesis
    using assms cfg
    by (simp add: pmp_inv_def pmp_legal_def pmp_cfg_legal_def pmp_boot_def cfg_a_def Let_def)
      (simp add: pmp_static_def wcache_zero_def)
qed

text \<open>A locked entry, and the address register below a locked TOR entry, survive every operation.\<close>

definition pmp_lock_view :: "nemu \<Rightarrow> nat \<Rightarrow> uint8_t \<times> word_t \<times> word_t option" where
  "pmp_lock_view s i =
     (pmp_cfg s i, pmp_addr s i,
      if cfg_a (pmp_cfg s i) = PMP_A_TOR \<and> 0 < i then Some (pmp_addr s (i - 1)) else None)"

lemma pmp_same_lock: "pmp_same s s' \<Longrightarrow> pmp_lock_view s' i = pmp_lock_view s i"
  by (simp only: pmp_lock_view_def pmp_same_regs)

lemma pmp_write_lock:
  assumes w: "pmp_csr_write c csr val s = Some s'" and inv: "pmp_inv c s"
    and i: "i < PMP_N" "cfg_locked (pmp_cfg s i)"
  shows "pmp_lock_view s' i = pmp_lock_view s i"
  using w
proof (cases rule: pmp_csr_write_cases)
  case (cfg base)
  define t where "t = fold (pmp_cfg_write_byte c base val) [0..<8] s"
  have t: "pmp_cfg t i = pmp_cfg s i" "pmp_addr t = pmp_addr s" "pmpu t = pmpu s"
    using pmp_cfg_fold [of base 8 c val s] cfg(1) i by (auto simp: t_def Let_def)
  have "pwc.epoch_inv (pmpu t)" using inv t(3) by (simp add: pmp_inv_def)
  note r = pmp_rebuild_inv [OF this, of c]
  have "pmp_lock_view s' i = pmp_lock_view t i"
    using cfg(2) pmp_same_lock [OF r(2)]
    by (simp add: t_def [symmetric] pmp_lock_view_def pmp_flush_regs)
  also have "\<dots> = pmp_lock_view s i" by (simp add: pmp_lock_view_def t)
  finally show ?thesis .
next
  case (addr j)
  let ?t = "pmp_addr_set c j val s"
  have "pwc.epoch_inv (pmpu ?t)" using inv by (simp add: pmp_inv_def)
  note r = pmp_rebuild_inv [OF this, of c]
  have "pmp_lock_view s' i = pmp_lock_view ?t i"
    using addr(4) pmp_same_lock [OF r(2)] by (simp add: pmp_lock_view_def pmp_flush_regs)
  moreover have "i \<noteq> j" using addr(2) i by auto
  moreover have "\<not> (cfg_a (pmp_cfg s i) = PMP_A_TOR \<and> 0 < i \<and> i - 1 = j)"
    using addr(3) i by auto
  ultimately show ?thesis using i by (auto simp: pmp_lock_view_def)
qed simp

lemma pmp_step_lock:
  assumes "pmp_inv c s" and i: "i < PMP_N" "cfg_locked (pmp_cfg s i)"
  shows "pmp_lock_view (pmp_step c oper s) i = pmp_lock_view s i"
proof (cases oper)
  case (PmpWrite csr v)
  with assms pmp_write_lock show ?thesis by (auto split: option.split)
next
  case (PmpCheck a sz prv r w x)
  with pmp_same_lock [OF conjunct2 [OF pmp_check_inv [OF assms(1), of a sz prv r w x]]]
  show ?thesis by simp
next
  case PmpHartSwitch
  have "pwc.epoch_inv (pmpu s)" using assms by (simp add: pmp_inv_def)
  from PmpHartSwitch pmp_same_lock [OF pmp_rebuild_inv(2) [OF this, of c]] show ?thesis
    by (simp add: pmp_hart_switch_def)
next
  case PmpTlbFlush
  then show ?thesis by (simp add: pmp_lock_view_def pmp_flush_regs)
qed

lemma pmp_run_lock:
  assumes "pmp_inv c s \<and> pmp_legal c s" and "i < PMP_N" "cfg_locked (pmp_cfg s i)"
  shows "pmp_lock_view (fold (pmp_step c) ops s) i = pmp_lock_view s i"
  using assms
proof (induction ops arbitrary: s)
  case (Cons oper ops)
  note v = pmp_step_lock [OF conjunct1 [OF Cons.prems(1)] Cons.prems(2,3), of oper]
  from v have "cfg_locked (pmp_cfg (pmp_step c oper s) i)"
    using Cons.prems(3) by (simp add: pmp_lock_view_def)
  from Cons.IH [OF pmp_step_inv [OF Cons.prems(1)] Cons.prems(2) this] v show ?case by simp
qed simp

lemma pmp_lock_view_covers:
  assumes "pmp_lock_view s' i = pmp_lock_view s i" and "i < PMP_N"
  shows "pmp_cfg s' i = pmp_cfg s i" and "pmp_entry_covers c s' i b = pmp_entry_covers c s i b"
proof -
  show cfg: "pmp_cfg s' i = pmp_cfg s i" using assms by (simp add: pmp_lock_view_def)
  have addr: "pmp_addr s' i = pmp_addr s i" using assms by (simp add: pmp_lock_view_def)
  have rd: "pmp_csr_read c s' (CSR_PMPADDR0 + i) = pmp_csr_read c s (CSR_PMPADDR0 + i)"
    using assms(2) by (simp add: pmp_csr_read_def Let_def cfg addr)
  have "cfg_a (pmp_cfg s i) = PMP_A_TOR \<Longrightarrow> 0 < i \<Longrightarrow> pmp_addr s' (i - 1) = pmp_addr s (i - 1)"
    using assms(1) cfg by (simp add: pmp_lock_view_def)
  then show "pmp_entry_covers c s' i b = pmp_entry_covers c s i b"
    unfolding pmp_entry_covers_def Let_def cfg addr rd
    by (cases "i = 0"; cases "cfg_a (pmp_cfg s i) = PMP_A_TOR") simp_all
qed

lemma nemu_static_boot: "pmp_boot nemu_static"
  by (simp add: pmp_boot_def nemu_static_def pmp_cfg_def sr_def cpu_static_def)

lemma pmp_cfg0_write:
  assumes "i < PMP_N"
  shows "\<exists>s'. pmp_csr_write c CSR_PMPCFG0 val s = Some s' \<and>
    pmp_cfg s' i = (if cfg_locked (pmp_cfg s i) then pmp_cfg s i
                    else pmp_cfg_warl c (ucast (drop_bit (i * 8) val)))"
proof -
  define t where "t = fold (pmp_cfg_write_byte c 0 val) [0..<8] s"
  have same: "pmp_same t (pmp_rebuild_decoded c t)"
    by (simp add: pmp_same_def pmp_rebuild_decoded_def)
  have "pmp_csr_write c CSR_PMPCFG0 val s = Some (soft_tlb_flush (pmp_rebuild_decoded c t))"
    by (simp add: pmp_csr_write_def t_def)
  moreover have "pmp_cfg t i = (if cfg_locked (pmp_cfg s i) then pmp_cfg s i
      else pmp_cfg_warl c (ucast (drop_bit (i * 8) val)))"
    using pmp_cfg_fold [of 0 8 c val s] assms by (simp add: t_def Let_def)
  ultimately show ?thesis by (simp add: pmp_flush_regs pmp_same_regs [OF same])
qed

lemma bit_pmp_cfg_warl:
  "bit (pmp_cfg_warl c b) 0 = bit b 0" "bit (pmp_cfg_warl c b) 1 = (bit b 1 \<and> bit b 0)"
  "bit (pmp_cfg_warl c b) 2 = (bit b 2 \<and> \<not> (\<not> bit b 0 \<and> bit b 1))"
  "bit (pmp_cfg_warl c b) 3 = bit b 3"
  "bit (pmp_cfg_warl c b) 4 = (bit b 4 \<and> \<not> (0 < PMP_G c \<and> \<not> bit b 3))"
  "\<not> bit (pmp_cfg_warl c b) 5" "\<not> bit (pmp_cfg_warl c b) 6" "bit (pmp_cfg_warl c b) 7 = bit b 7"
proof -
  have "(b AND 0x9f) AND 3 = 2 \<longleftrightarrow> \<not> bit b 0 \<and> bit b 1"
    by (subst byte_eq_iff, simp add: bit_simps)
  then show "bit (pmp_cfg_warl c b) 0 = bit b 0" "bit (pmp_cfg_warl c b) 1 = (bit b 1 \<and> bit b 0)"
    "bit (pmp_cfg_warl c b) 2 = (bit b 2 \<and> \<not> (\<not> bit b 0 \<and> bit b 1))"
    "bit (pmp_cfg_warl c b) 3 = bit b 3"
    "bit (pmp_cfg_warl c b) 4 = (bit b 4 \<and> \<not> (0 < PMP_G c \<and> \<not> bit b 3))"
    "\<not> bit (pmp_cfg_warl c b) 5" "\<not> bit (pmp_cfg_warl c b) 6" "bit (pmp_cfg_warl c b) 7 = bit b 7"
    by (auto simp: pmp_cfg_warl_def cfg_a_bits Let_def bit_simps)
qed

section \<open>Properties\<close>

text \<open>
  C3. After any sequence of PMP CSR writes, checks, hart switches and TLB flushes since power-on,
  \<open>pmp_check\<close> (decoded entries, generation-stamped match cache, single-grain fast path, covering loop)
  answers exactly the rule of the privileged specification on the architectural registers. The access
  does not wrap the address space; a fetch is one parcel inside a grain.
\<close>

theorem pmp_run_check:
  assumes "kconfig_ok c" and "pmp_boot s0" and "0 < sz" and "unat addr + sz \<le> 2 ^ 64"
    and "op_x \<longrightarrow> drop_bit (rv_pmp_granularity_log2 c) (addr + of_nat (sz - 1)) =
           drop_bit (rv_pmp_granularity_log2 c) addr"
  shows "let s = fold (pmp_step c) ops s0 in
    fst (pmp_check c addr sz prv op_r op_w op_x s) =
      pmp_spec_faults c s (unat addr) sz prv op_r op_w op_x"
proof -
  note run = pmp_run_inv [OF pmp_boot_inv [OF assms(2)], of c ops]
  show ?thesis
    unfolding Let_def
    by (rule pmp_check_correct_aux [OF assms(1) conjunct2 [OF run] conjunct1 [OF run] assms(3,4,5),
          of prv op_r op_w]) simp
qed

theorem pmp_run_check_witness:
  "let s = fold (pmp_step riscv64_ref_config)
         [PmpWrite CSR_PMPADDR0 0x200001ff, PmpWrite CSR_PMPCFG0 0x1b,
          PmpCheck 0x80000000 4 PRV_S True False False] nemu_static in
     fst (pmp_check riscv64_ref_config 0x80000ffc 8 PRV_S False True False s) =
       pmp_spec_faults riscv64_ref_config s (unat (0x80000ffc :: paddr_t)) 8 PRV_S False True False"
  by (rule pmp_run_check) (simp_all add: nemu_static_boot kconfig_ok_def riscv64_ref_config_def)

text \<open>
  C4. A locked entry is permanent until reset: no later sequence of operations changes its
  configuration byte or the set of bytes it matches, including the lower bound of a locked TOR
  entry, which is the address register of its predecessor.
\<close>

theorem pmp_lock_permanent:
  assumes "pmp_boot s0" and "s = fold (pmp_step c) ops1 s0" and "i < PMP_N"
    and "cfg_locked (pmp_cfg s i)"
  shows "pmp_cfg (fold (pmp_step c) ops2 s) i = pmp_cfg s i \<and>
    pmp_entry_covers c (fold (pmp_step c) ops2 s) i b = pmp_entry_covers c s i b"
proof -
  have "pmp_inv c s \<and> pmp_legal c s"
    unfolding assms(2) using pmp_boot_inv [OF assms(1)] by (rule pmp_run_inv)
  from pmp_lock_view_covers [OF pmp_run_lock [OF this assms(3,4)] assms(3)] show ?thesis by blast
qed

theorem pmp_lock_permanent_witness:
  "let s = fold (pmp_step riscv64_ref_config) [PmpWrite CSR_PMPCFG0 0x9b] nemu_static;
       s' = fold (pmp_step riscv64_ref_config)
         [PmpWrite CSR_PMPCFG0 0, PmpWrite CSR_PMPADDR0 0xfff, PmpHartSwitch] s
   in cfg_locked (pmp_cfg s 0) \<and> pmp_cfg s' 0 = pmp_cfg s 0 \<and>
     pmp_entry_covers riscv64_ref_config s' 0 0x80000000 =
       pmp_entry_covers riscv64_ref_config s 0 0x80000000"
proof -
  let ?s = "fold (pmp_step riscv64_ref_config) [PmpWrite CSR_PMPCFG0 0x9b] nemu_static"
  have "pmp_cfg nemu_static 0 = 0" using nemu_static_boot by (simp add: pmp_boot_def)
  then have l: "cfg_locked (pmp_cfg ?s 0)"
    using pmp_cfg0_write [of 0 riscv64_ref_config "0x9b" nemu_static]
    by (auto simp: cfg_locked_def bit_pmp_cfg_warl bit_simps)
  note p = pmp_lock_permanent [OF nemu_static_boot refl _ l]
  show ?thesis unfolding Let_def by (intro conjI l conjunct1 [OF p] conjunct2 [OF p]) simp_all
qed

text \<open>
  C5. What a \<open>pmpcfg0\<close> write leaves in the byte of an entry: a locked byte stays; otherwise the
  reserved bits read zero, the reserved combination \<open>W\<close> without \<open>R\<close> clears all permissions, \<open>NA4\<close>
  falls back to \<open>OFF\<close> when the grain is coarser than four bytes, and everything else is kept.
\<close>

theorem pmp_cfg_write_result:
  assumes "pmp_csr_write c CSR_PMPCFG0 val s = Some s'" and "i < PMP_N"
  shows "let old = pmp_cfg s i; new = pmp_cfg s' i; b = (\<lambda>n. bit val (i * 8 + n));
      wr = \<not> b 0 \<and> b 1; na4 = 0 < PMP_G c \<and> \<not> b 3 \<and> b 4 in
    if cfg_locked old then new = old
    else bit new 0 = b 0 \<and> bit new 1 = (b 1 \<and> b 0) \<and> bit new 2 = (b 2 \<and> \<not> wr) \<and>
      bit new 3 = b 3 \<and> bit new 4 = (b 4 \<and> \<not> na4) \<and> \<not> bit new 5 \<and> \<not> bit new 6 \<and>
      bit new 7 = b 7"
proof -
  from pmp_cfg0_write [OF assms(2), of c val s] assms(1)
  have new: "pmp_cfg s' i = (if cfg_locked (pmp_cfg s i) then pmp_cfg s i
      else pmp_cfg_warl c (ucast (drop_bit (i * 8) val)))" by simp
  have b: "bit (ucast (drop_bit (i * 8) val) :: uint8_t) n = bit val (i * 8 + n)" if "n < 8" for n
    using that assms(2) by (simp add: bit_simps)
  show ?thesis
  proof (cases "cfg_locked (pmp_cfg s i)")
    case True
    with new show ?thesis by (simp add: Let_def)
  next
    case False
    with new show ?thesis by (simp only: Let_def if_False bit_pmp_cfg_warl b) auto
  qed
qed

theorem pmp_cfg_write_result_witness:
  "\<exists>s'. pmp_csr_write riscv64_ref_config CSR_PMPCFG0 0x16 nemu_static = Some s' \<and>
     \<not> bit (pmp_cfg s' 0) 1 \<and> \<not> bit (pmp_cfg s' 0) 4"
proof -
  obtain s' where s': "pmp_csr_write riscv64_ref_config CSR_PMPCFG0 0x16 nemu_static = Some s'"
    using pmp_cfg0_write [of 0 riscv64_ref_config "0x16" nemu_static] by auto
  have "pmp_cfg nemu_static 0 = 0" using nemu_static_boot by (simp add: pmp_boot_def)
  with pmp_cfg_write_result [OF s', of 0] have "\<not> bit (pmp_cfg s' 0) 1 \<and> \<not> bit (pmp_cfg s' 0) 4"
    by (simp add: Let_def cfg_locked_def PMP_G_def riscv64_ref_config_def)
  with s' show ?thesis by blast
qed

text \<open>
  C6. \<open>pmpaddr\<close> keeps what was written: after a write to a register that is not locked and any
  following \<open>pmpcfg0\<close> write, the register reads as the written implemented bits with the low
  grain bits replaced according to the current mode (ones below \<open>G-1\<close> in NAPOT, zeros below \<open>G\<close>
  otherwise), so switching modes back and forth loses nothing.
\<close>

theorem pmpaddr_readback:
  assumes "pmp_csr_write c (CSR_PMPADDR0 + i) v s = Some s1" and "i < PMP_N"
    and "\<not> cfg_locked (pmp_cfg s i)"
    and "\<not> (i + 1 < PMP_N \<and> cfg_locked (pmp_cfg s (i + 1)) \<and> cfg_a (pmp_cfg s (i + 1)) = PMP_A_TOR)"
    and "pmp_csr_write c CSR_PMPCFG0 w s1 = Some s2"
  shows "pmp_csr_read c s2 (CSR_PMPADDR0 + i) =
    (let stored = v AND mask (rv_pmpaddr_bits c) in
     if cfg_a (pmp_cfg s2 i) = PMP_A_NAPOT then stored OR mask (PMP_G c - 1)
     else stored AND NOT (mask (PMP_G c)))"
proof -
  have same: "pmp_same t (pmp_rebuild_decoded c t)" for t
    by (simp add: pmp_same_def pmp_rebuild_decoded_def)
  have csr: "(CSR_PMPADDR0 + i) mod 4096 = CSR_PMPADDR0 + i" using assms(2) by simp
  have "s1 = soft_tlb_flush (pmp_rebuild_decoded c (pmp_addr_set c i v s))"
    using assms(1-4) unfolding pmp_csr_write_def Let_def csr by (simp split: if_splits)
  then have "pmp_addr s1 i = v AND mask (rv_pmpaddr_bits c)"
    by (simp add: pmp_flush_regs pmp_same_regs [OF same])
  moreover have "pmp_addr s2 i = pmp_addr s1 i"
    using assms(5) pmp_cfg_fold [of 0 8 c w s1]
    by (auto simp: pmp_csr_write_def Let_def pmp_flush_regs pmp_same_regs [OF same])
  ultimately show ?thesis
    using assms(2)
    by (auto simp: pmp_csr_read_def Let_def csr PMP_TOR_MASK_eq mask_eq_exp_minus_1 [symmetric])
qed

theorem pmpaddr_readback_witness:
  "\<exists>s1 s2. pmp_csr_write riscv64_ref_config CSR_PMPADDR0 0x20000123 nemu_static = Some s1 \<and>
     pmp_csr_write riscv64_ref_config CSR_PMPCFG0 0x18 s1 = Some s2 \<and>
     pmp_csr_read riscv64_ref_config s2 CSR_PMPADDR0 =
       (if cfg_a (pmp_cfg s2 0) = PMP_A_NAPOT then 0x200001ff else 0x20000000)"
proof -
  have cfg: "pmp_cfg nemu_static i = 0" if "i < PMP_N" for i
    using nemu_static_boot that by (simp add: pmp_boot_def)
  obtain s1 where s1: "pmp_csr_write riscv64_ref_config CSR_PMPADDR0 0x20000123 nemu_static = Some s1"
    by (simp add: pmp_csr_write_def Let_def cfg cfg_locked_def)
  obtain s2 where s2: "pmp_csr_write riscv64_ref_config CSR_PMPCFG0 0x18 s1 = Some s2"
    using pmp_cfg0_write [of 0 riscv64_ref_config "0x18" s1] by auto
  from pmpaddr_readback [of riscv64_ref_config 0 "0x20000123" nemu_static s1 "0x18" s2] s1 s2
  have "pmp_csr_read riscv64_ref_config s2 CSR_PMPADDR0 =
       (if cfg_a (pmp_cfg s2 0) = PMP_A_NAPOT then 0x200001ff else 0x20000000)"
    by (simp add: cfg cfg_locked_def Let_def PMP_G_def riscv64_ref_config_def mask_eq_exp_minus_1)
  with s1 s2 show ?thesis by blast
qed

end
