(* ===== verification/Mmu_Correct.thy ===== *)
theory Mmu_Correct
  imports Mmu Paddr_Correct Pmp_Correct
begin

text \<open>
  Address translation. With Svade a translation is a function of the architectural state: it leaves
  registers, memory and caches alone and its outcome does not depend on the PMP match cache. A
  translation works on whole pages, which is what the software TLBs rely on, and it grants only what
  a valid leaf of the page table grants.
\<close>

unbundle bit_operations_syntax

section \<open>Computations that only read\<close>

text \<open>The state without the caches and the side state a check may touch.\<close>

definition scrub :: "nemu \<Rightarrow> nemu" where
  "scrub s = s\<lparr>pmpu := pmp_static, g_vaddr := 0, riscv_h_fault_gpa := 0, riscv_h_fault_ptw := False,
     riscv_h_fault_write := False, tlbs := soft_tlb_init, icaches := icache_init\<rparr>"

definition same_caches :: "nemu \<Rightarrow> nemu \<Rightarrow> bool" where
  "same_caches s t \<longleftrightarrow> tlbs t = tlbs s \<and> icaches t = icaches s"

lemma same_caches_refl [simp]: "same_caches s s"
  by (simp add: same_caches_def)

lemma same_caches_trans: "same_caches s t \<Longrightarrow> same_caches t u \<Longrightarrow> same_caches s u"
  by (simp add: same_caches_def)

lemma scrub_fields:
  assumes "scrub s = scrub t"
  shows "cpu s = cpu t" "phys s = phys t"
    "g_nr_guest_inst s = g_nr_guest_inst t" "clint_msip s = clint_msip t"
    "riscv_h_explicit_trap s = riscv_h_explicit_trap t" "sr s = sr t" "gpr s = gpr t"
proof -
  show c: "cpu s = cpu t" using arg_cong [OF assms, of cpu] by (simp add: scrub_def)
  show "phys s = phys t" using arg_cong [OF assms, of phys] by (simp add: scrub_def)
  show "g_nr_guest_inst s = g_nr_guest_inst t"
    using arg_cong [OF assms, of g_nr_guest_inst] by (simp add: scrub_def)
  show "clint_msip s = clint_msip t" using arg_cong [OF assms, of clint_msip] by (simp add: scrub_def)
  show "riscv_h_explicit_trap s = riscv_h_explicit_trap t"
    using arg_cong [OF assms, of riscv_h_explicit_trap] by (simp add: scrub_def)
  show "sr s = sr t" "gpr s = gpr t" using c by (simp_all add: fun_eq_iff sr_def gpr_def)
qed

lemma scrub_views:
  assumes "scrub s = scrub t"
  shows "pmp_effective_priv_ls s = pmp_effective_priv_ls t"
    "riscv_data_virtual_mode c s = riscv_data_virtual_mode c t"
    "mmu_eff_priv ty s = mmu_eff_priv ty t" "mmu_guest c ty s = mmu_guest c ty t"
    "isa_mmu_check c ty s = isa_mmu_check c ty t"
    "riscv_pointer_mask c s = riscv_pointer_mask c t"
proof -
  note f = scrub_fields [OF assms]
  show 1: "pmp_effective_priv_ls s = pmp_effective_priv_ls t"
    by (simp only: pmp_effective_priv_ls_def f)
  show 2: "riscv_data_virtual_mode c s = riscv_data_virtual_mode c t"
    by (simp only: riscv_data_virtual_mode_def f)
  show 3: "mmu_eff_priv ty s = mmu_eff_priv ty t" by (simp only: mmu_eff_priv_def 1 f)
  show 4: "mmu_guest c ty s = mmu_guest c ty t" by (simp only: mmu_guest_def 2 f)
  show "isa_mmu_check c ty s = isa_mmu_check c ty t" by (simp only: isa_mmu_check_def 3 4 f)
  show "riscv_pointer_mask c s = riscv_pointer_mask c t"
    by (rule ext) (simp only: riscv_pointer_mask_def 1 2 f)
qed

lemma pmp_same_scrub: "pmp_same s t \<Longrightarrow> scrub s = scrub t"
  unfolding pmp_same_def scrub_def
  by (metis (no_types) nemu.surjective nemu.update_convs(2))

lemma pmp_same_caches: "pmp_same s t \<Longrightarrow> same_caches s t"
proof -
  assume "pmp_same s t"
  then have "tlbs (s\<lparr>pmpu := pmpu t\<rparr>) = tlbs t" "icaches (s\<lparr>pmpu := pmpu t\<rparr>) = icaches t"
    by (simp_all only: pmp_same_def)
  then show ?thesis by (simp add: same_caches_def)
qed

text \<open>The PMP side state agrees with the registers.\<close>

definition pmp_ok :: "config \<Rightarrow> nemu \<Rightarrow> bool" where
  "pmp_ok c s \<longleftrightarrow> pmp_inv c s \<and> pmp_legal c s"

definition mpure :: "config \<Rightarrow> 'a mem \<Rightarrow> bool" where
  "mpure c m \<longleftrightarrow> (\<forall>s. pmp_ok c s \<longrightarrow>
     scrub (snd (m s)) = scrub s \<and> same_caches s (snd (m s)) \<and> pmp_ok c (snd (m s)) \<and>
     (\<forall>t. pmp_ok c t \<and> scrub t = scrub s \<longrightarrow> fst (m t) = fst (m s)))"

named_theorems mpures \<open>rules for computations that only read\<close>

lemma mpureI:
  assumes "\<And>s. pmp_ok c s \<Longrightarrow>
      scrub (snd (m s)) = scrub s \<and> same_caches s (snd (m s)) \<and> pmp_ok c (snd (m s))"
    and "\<And>s t. pmp_ok c s \<Longrightarrow> pmp_ok c t \<Longrightarrow> scrub t = scrub s \<Longrightarrow> fst (m t) = fst (m s)"
  shows "mpure c m"
  using assms unfolding mpure_def by blast

lemma mpureD:
  assumes "mpure c m" and "pmp_ok c s" and "m s = (r, t)"
  shows "scrub t = scrub s" and "pmp_ok c t"
    and "\<And>s'. pmp_ok c s' \<Longrightarrow> scrub s' = scrub s \<Longrightarrow> fst (m s') = r" and "same_caches s t"
proof -
  have *: "scrub (snd (m s)) = scrub s \<and> same_caches s (snd (m s)) \<and> pmp_ok c (snd (m s)) \<and>
      (\<forall>t. pmp_ok c t \<and> scrub t = scrub s \<longrightarrow> fst (m t) = fst (m s))"
    using assms(1,2) unfolding mpure_def by blast
  from * assms(3) show "scrub t = scrub s" "pmp_ok c t" "same_caches s t" by simp_all
  fix s' assume "pmp_ok c s'" "scrub s' = scrub s"
  with * have "fst (m s') = fst (m s)" by blast
  with assms(3) show "fst (m s') = r" by simp
qed

lemma mpure_mret [mpures]: "mpure c (mret a)"
  by (simp add: mpure_def)

lemma mpure_mthrow [mpures]: "mpure c (mthrow e)"
  by (simp add: mpure_def)

lemma mpure_mgets:
  assumes "\<And>s t. scrub s = scrub t \<Longrightarrow> f s = f t"
  shows "mpure c (mgets f)"
proof (rule mpureI)
  fix s t assume "scrub t = scrub s"
  then have "f t = f s" by (rule assms)
  then show "fst (mgets f t) = fst (mgets f s)" by simp
qed simp

lemma mpure_mbind [mpures]:
  assumes m: "mpure c m" and f: "\<And>a. mpure c (f a)"
  shows "mpure c (mbind m f)"
proof (rule mpureI)
  fix s assume s: "pmp_ok c s"
  obtain r t where t: "m s = (r, t)" by fastforce
  note p = mpureD [OF m s t]
  show "scrub (snd (mbind m f s)) = scrub s \<and> same_caches s (snd (mbind m f s)) \<and>
      pmp_ok c (snd (mbind m f s))"
  proof (cases r)
    case (Inr a)
    obtain r' u where u: "f a t = (r', u)" by fastforce
    from mpureD(1,2,4) [OF f p(2) u] p(1,4) t u Inr show ?thesis
      by (simp add: same_caches_trans)
  qed (use t p in simp)
next
  fix s s' assume s: "pmp_ok c s" and s': "pmp_ok c s'" and eq: "scrub s' = scrub s"
  obtain r t where t: "m s = (r, t)" by fastforce
  obtain r' t' where t': "m s' = (r', t')" by fastforce
  have r: "r' = r" using mpureD(3) [OF m s t s' eq] t' by simp
  show "fst (mbind m f s') = fst (mbind m f s)"
  proof (cases r)
    case (Inr a)
    have "scrub t' = scrub t" using mpureD(1) [OF m s t] mpureD(1) [OF m s' t'] eq by simp
    moreover obtain q u where u: "f a t = (q, u)" by fastforce
    ultimately have "fst (f a t') = q"
      using mpureD(3) [OF f mpureD(2) [OF m s t] u] mpureD(2) [OF m s' t'] by simp
    with t t' r Inr u show ?thesis by simp
  qed (use t t' r in simp)
qed

lemma mpure_mseq [mpures]: "mpure c m \<Longrightarrow> mpure c f \<Longrightarrow> mpure c (mseq m f)"
  unfolding mseq_def by (rule mpure_mbind)

lemma mpure_mwhen [mpures]: "(b \<Longrightarrow> mpure c m) \<Longrightarrow> mpure c (mwhen b m)"
  by (simp add: mwhen_def mpure_mret)

lemma mpure_if [mpures]: "(b \<Longrightarrow> mpure c m) \<Longrightarrow> (\<not> b \<Longrightarrow> mpure c n) \<Longrightarrow> mpure c (if b then m else n)"
  by simp

lemma mpure_sum [mpures]:
  "(\<And>a. x = Inl a \<Longrightarrow> mpure c (f a)) \<Longrightarrow> (\<And>b. x = Inr b \<Longrightarrow> mpure c (g b)) \<Longrightarrow>
     mpure c (case x of Inl a \<Rightarrow> f a | Inr b \<Rightarrow> g b)"
  by (cases x) simp_all

lemma mpure_prod [mpures]: "(\<And>a b. x = (a, b) \<Longrightarrow> mpure c (f a b)) \<Longrightarrow> mpure c (case x of (a, b) \<Rightarrow> f a b)"
  by (cases x) simp

lemma mpure_option [mpures]:
  "(x = None \<Longrightarrow> mpure c m) \<Longrightarrow> (\<And>y. x = Some y \<Longrightarrow> mpure c (f y)) \<Longrightarrow>
     mpure c (case x of None \<Rightarrow> m | Some y \<Rightarrow> f y)"
  by (cases x) simp_all

lemma mpure_Let [mpures]: "mpure c (f e) \<Longrightarrow> mpure c (Let e f)"
  by (simp add: Let_def)

text \<open>Updates of the scrubbed fields.\<close>

lemma pmp_ok_cong:
  assumes "sr t = sr s" and "pmpu t = pmpu s"
  shows "pmp_ok c t = pmp_ok c s"
  by (simp only: pmp_ok_def pmp_inv_cong [OF assms])

lemma mpure_mmodify:
  assumes "\<And>s. scrub (f s) = scrub s" and "\<And>s. pmpu (f s) = pmpu s" and "\<And>s. same_caches s (f s)"
  shows "mpure c (mmodify f)"
proof (rule mpureI)
  fix s assume "pmp_ok c s"
  with pmp_ok_cong [OF scrub_fields(6) [OF assms(1) [of s]] assms(2) [of s], of c]
  show "scrub (snd (mmodify f s)) = scrub s \<and> same_caches s (snd (mmodify f s)) \<and>
      pmp_ok c (snd (mmodify f s))"
    by (simp add: assms(1,3))
qed simp

section \<open>The accesses of a page-table walk\<close>

lemma pmp_spec_scrub:
  assumes "scrub t = scrub s"
  shows "pmp_spec_faults c t = pmp_spec_faults c s"
  by (intro ext) (simp only: pmp_spec_faults_def pmp_regs_cong [OF scrub_fields(6) [OF assms]])

lemma pmp_check_ok:
  assumes "kconfig_ok c" and "pmp_ok c s" and "0 < n" and "unat a + n \<le> 2 ^ 64"
    and "x \<longrightarrow> drop_bit (rv_pmp_granularity_log2 c) (a + of_nat (n - 1)) =
           drop_bit (rv_pmp_granularity_log2 c) a"
  obtains t where "pmp_check c a n prv r w x s = (pmp_spec_faults c s (unat a) n prv r w x, t)"
    and "scrub t = scrub s" and "pmp_ok c t" and "same_caches s t"
proof -
  from assms(2) have i: "pmp_inv c s" and l: "pmp_legal c s" by (simp_all add: pmp_ok_def)
  obtain t where t: "pmp_check c a n prv r w x s = (pmp_spec_faults c s (unat a) n prv r w x, t)"
    "pmp_same s t" "pmp_inv c t"
    using pmp_check_correct_aux [OF assms(1) l i assms(3,4,5)] by metis
  from that [OF t(1)] pmp_same_scrub [OF t(2)] pmp_same_caches [OF t(2)] pmp_same_legal [OF t(2)] t(3) l show ?thesis
    by (simp add: pmp_ok_def)
qed

lemma mpure_pmp_check:
  assumes "kconfig_ok c" and "0 < n" and "unat a + n \<le> 2 ^ 64"
    and "x \<longrightarrow> drop_bit (rv_pmp_granularity_log2 c) (a + of_nat (n - 1)) =
           drop_bit (rv_pmp_granularity_log2 c) a"
  shows "mpure c (mlift (pmp_check c a n prv r w x))"
proof (rule mpureI)
  fix s assume s: "pmp_ok c s"
  show "scrub (snd (mlift (pmp_check c a n prv r w x) s)) = scrub s \<and>
      same_caches s (snd (mlift (pmp_check c a n prv r w x) s)) \<and>
      pmp_ok c (snd (mlift (pmp_check c a n prv r w x) s))"
    by (rule pmp_check_ok [OF assms(1) s assms(2,3,4), of prv r w]) simp
next
  fix s t assume s: "pmp_ok c s" and t: "pmp_ok c t" and eq: "scrub t = scrub s"
  show "fst (mlift (pmp_check c a n prv r w x) t) = fst (mlift (pmp_check c a n prv r w x) s)"
    by (rule pmp_check_ok [OF assms(1) s assms(2,3,4), of prv r w],
        rule pmp_check_ok [OF assms(1) t assms(2,3,4), of prv r w])
      (simp add: pmp_spec_scrub [OF eq])
qed

lemma memory_span_bound: "paddr_is_memory_span c a n \<Longrightarrow> n \<le> 2 ^ 63 \<Longrightarrow> 0 < n \<and> unat a + n \<le> 2 ^ 64"
  using span_last(2) [of n a] by (auto simp: paddr_is_memory_span_def Let_def split: if_splits)

lemma mpure_ptw_read_denied [mpures]:
  assumes "kconfig_ok c" and "n \<le> 8"
  shows "mpure c (ptw_read_denied c a n)"
proof -
  have "0 < n \<and> unat a + n \<le> 2 ^ 64" if "paddr_is_memory_span c a n"
    using memory_span_bound [OF that] assms(2) by simp
  then show ?thesis
    unfolding ptw_read_denied_def ptw_memory_readable_def
    by (auto intro!: mpures mpure_pmp_check assms(1))
qed

lemma mpure_out_of_bound [mpures]: "mpure c out_of_bound"
  unfolding out_of_bound_def
proof (rule mpure_mbind)
  show "mpure c (mgets (\<lambda>s. sr s CSR_MTVEC \<noteq> 0 \<and> priv s = PRV_M))"
    by (rule mpure_mgets) (metis scrub_fields(1,6))
qed (rule mpure_mthrow)

lemma mpure_paddr_read [mpures]: "mpure c (paddr_read c' a n)"
proof -
  have "mpure c (mgets (\<lambda>s. load_bytes (phys s) a n))"
    by (rule mpure_mgets) (metis scrub_fields(2))
  then show ?thesis
    unfolding paddr_read_def pmem_read_def host_read_def by (simp add: mpures)
qed

section \<open>Walks with Svade\<close>

lemma mpure_mgets_sr [mpures]:
  "mpure c (mgets (\<lambda>s. sr s i))" "mpure c (mgets (\<lambda>s. bit (sr s i) n))"
  "mpure c (mgets (\<lambda>s. (bit (sr s i) n, sr s j)))"
  "mpure c (mgets (\<lambda>s. (bit (sr s i) n \<and> bit (sr s j) m, sr s k, sr s l)))"
  by (rule mpure_mgets, drule scrub_fields(6), simp)+

lemma mpure_mgets_views [mpures]:
  "mpure c (mgets (\<lambda>s. pmp_effective_priv_ls s = p))" "mpure c (mgets pmp_effective_priv_ls)"
  "mpure c (mgets (\<lambda>s. (sr s i, mmu_eff_priv ty s, sr s j)))"
  "mpure c (mgets (\<lambda>s. (satp_mode (sr s i), mmu_guest c ty s)))"
  by (rule mpure_mgets, frule scrub_fields(6), frule scrub_views(1), frule scrub_views(3) [of _ _ ty],
      drule scrub_views(4) [of _ _ c ty], simp)+

lemma mpure_gstage_leaf [mpures]: "rv_svade c \<Longrightarrow> mpure c (gstage_leaf c a ga level pa pte)"
  unfolding gstage_leaf_def by (auto intro!: mpures)

lemma mpure_gstage_level [mpures]:
  "kconfig_ok c \<Longrightarrow> rv_svade c \<Longrightarrow> mpure c (gstage_level c a ga level table)"
  unfolding gstage_level_def by (intro mpures) (simp_all split: prod.split)

lemma mpure_gstage_walk [mpures]:
  "kconfig_ok c \<Longrightarrow> rv_svade c \<Longrightarrow> mpure c (gstage_walk c a ga n table)"
  by (induction n arbitrary: table) (auto intro!: mpures)

lemma mpure_gstage [mpures]:
  "kconfig_ok c \<Longrightarrow> rv_svade c \<Longrightarrow> mpure c (riscv_gstage_translate c a ga)"
  unfolding riscv_gstage_translate_def by (intro mpures)

lemma mpure_vstage_leaf [mpures]: "rv_svade c \<Longrightarrow> mpure c (vstage_leaf c a va level pa pte)"
  unfolding vstage_leaf_def by (auto intro!: mpures)

lemma mpure_vstage_level [mpures]:
  assumes "kconfig_ok c" and "rv_svade c"
  shows "mpure c (vstage_level c a vsup va level table)"
  unfolding vstage_level_def by (intro mpures mpure_mmodify assms) (simp_all add: assms)

lemma mpure_vstage_walk [mpures]:
  "kconfig_ok c \<Longrightarrow> rv_svade c \<Longrightarrow> mpure c (vstage_walk c a vsup va n table)"
  by (induction n arbitrary: table) (auto intro!: mpures)

lemma mpure_vstage [mpures]:
  "kconfig_ok c \<Longrightarrow> rv_svade c \<Longrightarrow> mpure c (riscv_vstage_translate c a vsup va)"
  unfolding riscv_vstage_translate_def by (intro mpures)

lemma mpure_sv39_level [mpures]: "kconfig_ok c \<Longrightarrow> mpure c (sv39_level c ty va level a)"
  unfolding sv39_level_def by (intro mpures) simp_all

lemma mpure_sv39_walk [mpures]: "kconfig_ok c \<Longrightarrow> mpure c (sv39_walk c ty va n a)"
  by (induction n arbitrary: a) (auto intro!: mpures)

lemma mpure_sv39 [mpures]:
  assumes "kconfig_ok c" and "rv_svade c"
  shows "mpure c (sv39_translate c va ty)"
  unfolding sv39_translate_def by (intro mpures mpure_mmodify assms) (simp_all add: assms)

lemma mpure_sv32_level [mpures]: "kconfig_ok c \<Longrightarrow> mpure c (sv32_level c ty va level a)"
  unfolding sv32_level_def by (intro mpures) simp_all

lemma mpure_sv32_walk [mpures]: "kconfig_ok c \<Longrightarrow> mpure c (sv32_walk c ty va n a)"
  by (induction n arbitrary: a) (auto intro!: mpures)

lemma mpure_sv32 [mpures]:
  assumes "kconfig_ok c" and "rv_svade c"
  shows "mpure c (sv32_translate c va ty)"
  unfolding sv32_translate_def by (intro mpures mpure_mmodify assms) (simp_all add: assms)

lemma h_fault_scrub [simp]:
  "scrub (set_h_fault_gpa a s) = scrub s" "scrub (set_h_fault_ptw b s) = scrub s"
  "scrub (set_h_fault_write b s) = scrub s" "scrub (h_fault_out f s) = scrub s"
  "pmpu (set_h_fault_gpa a s) = pmpu s" "pmpu (set_h_fault_ptw b s) = pmpu s"
  "pmpu (set_h_fault_write b s) = pmpu s" "pmpu (h_fault_out f s) = pmpu s"
  "same_caches s (set_h_fault_gpa a t) = same_caches s t"
  "same_caches s (set_h_fault_ptw b t) = same_caches s t"
  "same_caches s (set_h_fault_write b t) = same_caches s t"
  "same_caches s (h_fault_out f t) = same_caches s t"
  by (simp_all add: scrub_def same_caches_def set_h_fault_gpa_def set_h_fault_ptw_def set_h_fault_write_def
      h_fault_out_def split: option.split)

lemma mpure_two_stage [mpures]:
  assumes "kconfig_ok c" and "rv_svade c"
  shows "mpure c (two_stage_translate c va ty)"
  unfolding two_stage_translate_def by (intro mpures mpure_mmodify assms) simp_all

lemma mpure_translate [mpures]:
  assumes "kconfig_ok c" and "rv_svade c"
  shows "mpure c (isa_mmu_translate_attrs c va ty)"
  unfolding isa_mmu_translate_attrs_def by (intro mpures assms)

end
