(* ===== verification/Demo.thy ===== *)
theory Demo
  imports Mmu_Correct
begin

text \<open>
  A small machine for the examples: one PMP entry that opens all of memory, and a supervisor with an
  Sv39 root table at \<open>0x80100000\<close> whose second entry maps a gigapage of main memory at
  \<open>0x40000000\<close>.
\<close>

abbreviation (input) demo_config :: config where
  "demo_config \<equiv> riscv64_ref_config"

definition demo_memory :: "paddr_t \<Rightarrow> uint8_t" where
  "demo_memory = store_bytes (\<lambda>_. 0) 0x80100008 8 0x200000cf"

definition demo_regs :: nemu where
  "demo_regs = nemu_static\<lparr>cpu := cpu_static\<lparr>cpu_priv := PRV_S,
     cpu_sr := (\<lambda>_. 0)(CSR_SATP := 0x8000000000080100, CSR_PMPADDR0 := 0x3fffffffffffff,
       CSR_PMPCFG0 := 0x0f)\<rparr>, phys := demo_memory\<rparr>"

definition demo_machine :: nemu where
  "demo_machine = pmp_hart_switch demo_config demo_regs"

lemma demo_kconfig: "kconfig_ok demo_config" "rv_svade demo_config" "target_share demo_config"
  by (simp_all add: kconfig_ok_def riscv64_ref_config_def)

lemma demo_frame [simp]:
  "cpu demo_machine = cpu demo_regs" "phys demo_machine = demo_memory" "sr demo_machine = sr demo_regs"
  by (simp_all add: demo_machine_def pmp_hart_switch_def pmp_rebuild_decoded_def demo_regs_def
      fun_eq_iff sr_def)

lemma demo_cfg: "i < PMP_N \<Longrightarrow> pmp_cfg demo_machine i = (if i = 0 then 0x0f else 0)"
proof -
  assume "i < PMP_N"
  then have "i \<in> {0, 1, 2, 3, 4, 5, 6, 7}" by auto
  then show ?thesis by (auto simp: pmp_cfg_def sr_def demo_regs_def)
qed

lemma demo_pmp_ok: "pmp_ok demo_config demo_machine"
proof -
  have "pwc.epoch_inv (pmpu demo_regs)"
    by (simp add: demo_regs_def nemu_static_def pmp_static_def pwc.epoch_inv_def wcache_zero_def)
  from pmp_rebuild_inv(1) [OF this] have "pmp_inv demo_config demo_machine"
    by (simp add: demo_machine_def pmp_hart_switch_def)
  moreover have "pmp_legal demo_config demo_machine"
    by (simp add: pmp_legal_def pmp_cfg_legal_def demo_cfg cfg_a_def)
  ultimately show ?thesis by (simp add: pmp_ok_def)
qed

lemma demo_pmp_open:
  assumes "0 < n" and "b + n \<le> 2 ^ 40"
  shows "\<not> pmp_spec_faults demo_config demo_machine b n prv r w x"
proof -
  have c: "pmp_entry_covers demo_config demo_machine 0 i" if "i < 2 ^ 40" for i
  proof -
    have "pmp_addr demo_machine 0 = 0x3fffffffffffff"
      by (simp add: pmp_addr_def sr_def demo_regs_def)
    with that show ?thesis
      by (simp add: pmp_entry_covers_def Let_def demo_cfg cfg_a_def PMP_G_def riscv64_ref_config_def)
  qed
  have "first_index (\<lambda>i. \<exists>y\<in>{b..<b + n}. pmp_entry_covers demo_config demo_machine i y) PMP_N = Some 0"
    unfolding first_index_Some using assms c [of b] by (auto intro!: bexI [of _ b])
  then show ?thesis
    using assms c by (auto simp: pmp_spec_faults_def demo_cfg perm_ok_def)
qed

lemma demo_pte:
  "load_bytes demo_memory 0x80100008 8 = 0x200000cf"
  unfolding demo_memory_def by (subst load_store_bytes) (simp_all add: take_bit_eq_mask mask_numeral)

lemma demo_eff_priv: "mmu_eff_priv ty demo_machine = PRV_S"
  by (simp add: mmu_eff_priv_def pmp_effective_priv_ls_def demo_regs_def sr_def)

end
