(* ===== verification/Page_Correct.thy ===== *)
theory Page_Correct
  imports Demo Vaddr
begin

text \<open>
  Translation works on whole pages, which is what the software TLBs rest on: the walk reads the page
  number only, the page offset is copied to the result, and so a TLB whose hits were refilled by
  walks in the same context answers as the walk does.
\<close>

unbundle bit_operations_syntax

section \<open>Two computations side by side\<close>

definition mrel :: "config \<Rightarrow> ('a \<Rightarrow> 'a \<Rightarrow> bool) \<Rightarrow> 'a mem \<Rightarrow> 'a mem \<Rightarrow> bool" where
  "mrel c R m n \<longleftrightarrow> (\<forall>s t. pmp_ok c s \<and> pmp_ok c t \<and> scrub s = scrub t \<longrightarrow>
     rel_sum (=) R (fst (m s)) (fst (n t)) \<and> pmp_ok c (snd (m s)) \<and> pmp_ok c (snd (n t)) \<and>
     scrub (snd (m s)) = scrub s \<and> scrub (snd (n t)) = scrub t)"

named_theorems mrels \<open>rules for two computations that run side by side\<close>

lemma mrelD:
  assumes "mrel c R m n" and "pmp_ok c s" and "pmp_ok c t" and "scrub s = scrub t"
  shows "rel_sum (=) R (fst (m s)) (fst (n t))" "pmp_ok c (snd (m s))" "pmp_ok c (snd (n t))"
    "scrub (snd (m s)) = scrub s" "scrub (snd (n t)) = scrub t"
  using assms unfolding mrel_def by blast+

lemma mrel_mpure:
  assumes "mpure c m" and "\<And>a. R a a"
  shows "mrel c R m m"
  unfolding mrel_def
proof (intro allI impI)
  fix s t assume *: "pmp_ok c s \<and> pmp_ok c t \<and> scrub s = scrub t"
  with assms(1) have "fst (m t) = fst (m s)" "scrub (snd (m s)) = scrub s" "pmp_ok c (snd (m s))"
    "scrub (snd (m t)) = scrub t" "pmp_ok c (snd (m t))" unfolding mpure_def by metis+
  moreover have "rel_sum (=) R x x" for x :: "mem_exit + 'a" by (cases x) (simp_all add: assms(2))
  ultimately show "rel_sum (=) R (fst (m s)) (fst (m t)) \<and> pmp_ok c (snd (m s)) \<and>
      pmp_ok c (snd (m t)) \<and> scrub (snd (m s)) = scrub s \<and> scrub (snd (m t)) = scrub t"
    by simp
qed

lemma mrel_mret [mrels]: "R a b \<Longrightarrow> mrel c R (mret a) (mret b)"
  by (simp add: mrel_def)

lemma mrel_mthrow [mrels]: "mrel c R (mthrow e) (mthrow e)"
  by (simp add: mrel_def)

lemma mrel_mbind:
  assumes m: "mrel c R m n" and f: "\<And>a b. R a b \<Longrightarrow> mrel c S (f a) (g b)"
  shows "mrel c S (mbind m f) (mbind n g)"
  unfolding mrel_def
proof (intro allI impI)
  fix s t assume *: "pmp_ok c s \<and> pmp_ok c t \<and> scrub s = scrub t"
  obtain r s' where r: "m s = (r, s')" by fastforce
  obtain q t' where q: "n t = (q, t')" by fastforce
  note d = mrelD [OF m, of s t] and d' = mrelD [OF f, of _ _ s' t']
  from d * r q have "rel_sum (=) R r q" "pmp_ok c s'" "pmp_ok c t'" "scrub s' = scrub s"
    "scrub t' = scrub t" by simp_all
  with d' * r q show "rel_sum (=) S (fst (mbind m f s)) (fst (mbind n g t)) \<and>
      pmp_ok c (snd (mbind m f s)) \<and> pmp_ok c (snd (mbind n g t)) \<and>
      scrub (snd (mbind m f s)) = scrub s \<and> scrub (snd (mbind n g t)) = scrub t"
    by (cases r; cases q) (simp_all add: mbind_app)
qed

lemma mrel_bind_same [mrels]:
  assumes "mpure c m" and "\<And>a. mrel c S (f a) (g a)"
  shows "mrel c S (mbind m f) (mbind m g)"
  by (rule mrel_mbind [OF mrel_mpure [OF assms(1)], of "(=)"]) (simp_all add: assms(2))

lemma mrel_seq [mrels]:
  assumes "mrel c (=) m n" and "mrel c S f g"
  shows "mrel c S (mseq m f) (mseq n g)"
  unfolding mseq_def by (rule mrel_mbind [OF assms(1)]) (rule assms(2))

lemma mrel_mmodify [mrels]:
  assumes "\<And>s. scrub (f s) = scrub s" "\<And>s. pmpu (f s) = pmpu s" "\<And>s. same_caches s (f s)"
    and "\<And>s. scrub (g s) = scrub s" "\<And>s. pmpu (g s) = pmpu s" "\<And>s. same_caches s (g s)"
  shows "mrel c (=) (mmodify f) (mmodify g)"
  using mpure_mmodify [of f c] mpure_mmodify [of g c] assms by (simp add: mrel_def mpure_def)

lemma mrel_if [mrels]:
  "(b \<Longrightarrow> mrel c R m m') \<Longrightarrow> (\<not> b \<Longrightarrow> mrel c R n n') \<Longrightarrow>
     mrel c R (if b then m else n) (if b then m' else n')"
  by simp

lemma mrel_prod [mrels]:
  "(\<And>a b. x = (a, b) \<Longrightarrow> mrel c R (f a b) (g a b)) \<Longrightarrow>
     mrel c R (case x of (a, b) \<Rightarrow> f a b) (case x of (a, b) \<Rightarrow> g a b)"
  by (cases x) simp

lemma mrel_sum [mrels]:
  "(\<And>a. x = Inl a \<Longrightarrow> mrel c R (f a) (f' a)) \<Longrightarrow> (\<And>b. x = Inr b \<Longrightarrow> mrel c R (g b) (g' b)) \<Longrightarrow>
     mrel c R (case x of Inl a \<Rightarrow> f a | Inr b \<Rightarrow> g b) (case x of Inl a \<Rightarrow> f' a | Inr b \<Rightarrow> g' b)"
  by (cases x) simp_all

lemma mrel_sum_case:
  assumes "rel_sum (=) P x y" and "\<And>e. mrel c R (f e) (f' e)"
    and "\<And>a b. P a b \<Longrightarrow> mrel c R (g a) (g' b)"
  shows "mrel c R (case x of Inl e \<Rightarrow> f e | Inr a \<Rightarrow> g a) (case y of Inl e \<Rightarrow> f' e | Inr b \<Rightarrow> g' b)"
  using assms by (cases x; cases y) auto

section \<open>One page\<close>

definition same_page :: "vaddr_t \<Rightarrow> vaddr_t \<Rightarrow> bool" where
  "same_page v w \<longleftrightarrow> drop_bit 12 v = drop_bit 12 w"

text \<open>Two results that name the same page, each with the offset of its own address.\<close>

definition page_rel :: "vaddr_t \<Rightarrow> vaddr_t \<Rightarrow> paddr_t \<times> uint8_t \<Rightarrow> paddr_t \<times> uint8_t \<Rightarrow> bool" where
  "page_rel v w x y \<longleftrightarrow> snd x = snd y \<and> same_page (fst x) (fst y) \<and>
     fst x AND 0xfff = v AND 0xfff \<and> fst y AND 0xfff = w AND 0xfff"

lemma page_rel_id: "same_page v w \<Longrightarrow> page_rel v w (v, p) (w, p)"
  by (simp add: page_rel_def)

lemma off_mask: "(0xfff :: 64 word) = mask 12"
  by (simp add: mask_eq_exp_minus_1)

lemma page_rel_join: "page_rel v w (push_bit 12 y OR (v AND 0xfff), p) (push_bit 12 y OR (w AND 0xfff), p)"
proof -
  have 1: "drop_bit 12 (push_bit 12 y OR (x AND 0xfff)) = drop_bit 12 (push_bit 12 y)" for x :: paddr_t
    unfolding off_mask by (rule bit_word_eqI) (auto simp: bit_simps bit_mask_iff)
  have 2: "(push_bit 12 y OR (x AND 0xfff)) AND 0xfff = x AND 0xfff" for x :: paddr_t
    unfolding off_mask by (rule bit_word_eqI) (auto simp: bit_simps bit_mask_iff)
  show ?thesis by (simp add: page_rel_def same_page_def 1 2)
qed

lemma same_page_drop:
  assumes "same_page v w" and "12 \<le> k"
  shows "drop_bit k v = drop_bit k w"
proof -
  have "drop_bit (k - 12) (drop_bit 12 v) = drop_bit (k - 12) (drop_bit 12 w)"
    using assms(1) by (simp only: same_page_def)
  with assms(2) show ?thesis by simp
qed

lemma page_rel_eq:
  assumes "page_rel v w (pa, p) y"
  shows "y = ((pa AND NOT 0xfff) OR (w AND 0xfff), p)"
proof -
  obtain pa' p' where y: "y = (pa', p')" by (cases y)
  have d: "drop_bit 12 pa' = drop_bit 12 pa" and o: "pa' AND 0xfff = w AND 0xfff" and p: "p' = p"
    using assms by (auto simp: page_rel_def same_page_def y)
  have "pa' = push_bit 12 (drop_bit 12 pa') OR (pa' AND 0xfff)"
    unfolding off_mask by (rule bit_word_eqI) (auto simp: bit_simps bit_mask_iff)
  also have "\<dots> = (pa AND NOT 0xfff) OR (w AND 0xfff)"
    unfolding d o unfolding off_mask by (rule bit_word_eqI) (auto simp: bit_simps bit_mask_iff)
  finally show ?thesis by (simp add: y p)
qed


section \<open>Each translation copies the page offset\<close>

lemma gstage_vpn_page: "same_page v w \<Longrightarrow> gstage_vpn v l = gstage_vpn w l"
  using same_page_drop [of v w 12] same_page_drop [of v w 21] same_page_drop [of v w 30]
  by (simp add: gstage_vpn_def)

lemma sv39_vpn_page: "same_page v w \<Longrightarrow> sv39_vpn v l = sv39_vpn w l"
  using same_page_drop [of v w "12 + 9 * l"] by (simp add: sv39_vpn_def)

lemma sv32_vpn_page: "same_page v w \<Longrightarrow> sv32_vpn v l = sv32_vpn w l"
  using same_page_drop [of v w 12] same_page_drop [of v w 22] by (simp add: sv32_vpn_def get_field_def)

lemma sv39_canonical_page: "same_page v w \<Longrightarrow> sv39_canonical v = sv39_canonical w"
  using same_page_drop [of v w 38] by (simp add: sv39_canonical_def)

lemma gstage_leaf_page:
  assumes "same_page v w" and "rv_svade c"
  shows "mrel c (rel_sum (=) (page_rel v w)) (gstage_leaf c a v l pa pte) (gstage_leaf c a w l pa pte)"
  unfolding gstage_leaf_def Let_def gstage_vpn_page [OF assms(1)] same_page_drop [OF assms(1) order_refl]
    eqTrueI [OF assms(2)] if_True
  by (intro mrels rel_sum.intros page_rel_join refl)

lemma gstage_level_page:
  assumes "same_page v w" and "rv_svade c" and "kconfig_ok c"
  shows "mrel c (rel_sum (=) (rel_sum (=) (page_rel v w)))
    (gstage_level c a v l table) (gstage_level c a w l table)"
  unfolding gstage_level_def Let_def gstage_vpn_page [OF assms(1)]
  by (intro mrels mpures assms rel_sum.intros refl order_refl)
    (rule mrel_mbind [OF gstage_leaf_page [OF assms(1,2)]], intro mrels rel_sum.intros)

lemma gstage_walk_page:
  assumes "same_page v w" and "rv_svade c" and "kconfig_ok c"
  shows "mrel c (rel_sum (=) (page_rel v w)) (gstage_walk c a v n table) (gstage_walk c a w n table)"
proof (induction n arbitrary: table)
  case (Suc n)
  show ?case
    unfolding gstage_walk.simps
    by (rule mrel_mbind [OF gstage_level_page [OF assms]], erule mrel_sum_case, rule Suc.IH,
        erule mrel_mret)
qed (simp add: mrel_mret)

lemma gstage_page:
  assumes "same_page v w" and "rv_svade c" and "kconfig_ok c"
  shows "mrel c (rel_sum (=) (page_rel v w)) (riscv_gstage_translate c a v) (riscv_gstage_translate c a w)"
  unfolding riscv_gstage_translate_def Let_def same_page_drop [OF assms(1), of 41, simplified]
  by (intro mrels mpures assms rel_sum.intros refl page_rel_id gstage_walk_page)

lemma vstage_leaf_page:
  assumes "same_page v w" and "rv_svade c"
  shows "mrel c (rel_sum (=) (page_rel v w)) (vstage_leaf c a v l pa pte) (vstage_leaf c a w l pa pte)"
  unfolding vstage_leaf_def Let_def sv39_vpn_page [OF assms(1)] same_page_drop [OF assms(1) order_refl]
    eqTrueI [OF assms(2)] if_True
  by (intro mrels rel_sum.intros page_rel_join refl)

lemma vstage_level_page:
  assumes "same_page v w" and "rv_svade c" and "kconfig_ok c"
  shows "mrel c (rel_sum (=) (rel_sum (=) (page_rel v w)))
    (vstage_level c a vs v l table) (vstage_level c a vs w l table)"
  unfolding vstage_level_def Let_def sv39_vpn_page [OF assms(1)]
  by (intro mrels mpures assms rel_sum.intros refl order_refl)
    (rule mrel_mbind [OF vstage_leaf_page [OF assms(1,2)]], intro mrels rel_sum.intros)

lemma vstage_walk_page:
  assumes "same_page v w" and "rv_svade c" and "kconfig_ok c"
  shows "mrel c (rel_sum (=) (page_rel v w)) (vstage_walk c a vs v n table) (vstage_walk c a vs w n table)"
proof (induction n arbitrary: table)
  case (Suc n)
  show ?case
    unfolding vstage_walk.simps
    by (rule mrel_mbind [OF vstage_level_page [OF assms]], erule mrel_sum_case, rule Suc.IH,
        erule mrel_mret)
qed (simp add: mrel_mret)

lemma vstage_page:
  assumes "same_page v w" and "rv_svade c" and "kconfig_ok c"
  shows "mrel c (rel_sum (=) (page_rel v w))
    (riscv_vstage_translate c a vs v) (riscv_vstage_translate c a vs w)"
  unfolding riscv_vstage_translate_def Let_def sv39_canonical_page [OF assms(1)]
  by (intro mrels mpures assms rel_sum.intros refl page_rel_id vstage_walk_page)

lemma sv39_level_page: "same_page v w \<Longrightarrow> sv39_level c ty v = sv39_level c ty w"
  by (intro ext) (simp only: sv39_level_def sv39_vpn_page)

lemma sv39_walk_page: "same_page v w \<Longrightarrow> sv39_walk c ty v n = sv39_walk c ty w n"
proof (induction n)
  case (Suc n)
  show ?case
    by (rule ext) (simp only: sv39_walk.simps sv39_level_page [OF Suc.prems] Suc.IH [OF Suc.prems])
qed (simp add: fun_eq_iff)

lemma sv39_paddr_page:
  assumes "same_page v w"
  shows "page_rel v w (sv39_paddr v l p, b) (sv39_paddr w l p, b)"
proof -
  have "sv39_paddr x l p = push_bit 12 (if l = 0 then p
      else if l = 1 then (p AND NOT 0x1ff) OR sv39_vpn x 0
      else (p AND NOT 0x3ffff) OR push_bit 9 (sv39_vpn x 1) OR sv39_vpn x 0) OR (x AND 0xfff)" for x
    by (simp add: sv39_paddr_def Let_def push_bit_or or.assoc)
  then show ?thesis using page_rel_join by (simp only: sv39_vpn_page [OF assms])
qed

lemma sv39_page:
  assumes "same_page v w" and "rv_svade c" and "kconfig_ok c"
  shows "mrel c (page_rel v w) (sv39_translate c v ty) (sv39_translate c w ty)"
  unfolding sv39_translate_def Let_def sv39_canonical_page [OF assms(1)] sv39_walk_page [OF assms(1)]
    sv39_vpn_page [OF assms(1)] eqTrueI [OF assms(2)] if_True
  by (intro mrels mpures assms sv39_paddr_page)

lemma sv32_level_page: "same_page v w \<Longrightarrow> sv32_level c ty v = sv32_level c ty w"
  by (intro ext) (simp only: sv32_level_def sv32_vpn_page)

lemma sv32_walk_page: "same_page v w \<Longrightarrow> sv32_walk c ty v n = sv32_walk c ty w n"
proof (induction n)
  case (Suc n)
  show ?case
    by (rule ext) (simp only: sv32_walk.simps sv32_level_page [OF Suc.prems] Suc.IH [OF Suc.prems])
qed (simp add: fun_eq_iff)

lemma offset_field: "get_field 0 12 v = v AND 0xfff"
  by (simp add: get_field_def take_bit_eq_mask off_mask)

lemma sv32_page:
  assumes "same_page v w" and "rv_svade c" and "kconfig_ok c"
  shows "mrel c (page_rel v w) (sv32_translate c v ty) (sv32_translate c w ty)"
  unfolding sv32_translate_def Let_def sv32_walk_page [OF assms(1)] eqTrueI [OF assms(2)] if_True
    offset_field
  by (intro mrels mpures assms page_rel_join)

lemma page_rel_trans:
  "page_rel v w (g, q) (h, q') \<Longrightarrow> page_rel g h (x, p) (y, p') \<Longrightarrow> page_rel v w (x, p) (y, p')"
  by (simp add: page_rel_def)

lemma page_rel_same: "page_rel v w (g, q) (h, q') \<Longrightarrow> same_page g h \<and> q' = q"
  by (simp add: page_rel_def)

lemma guest_page:
  assumes p: "page_rel v w x y" and "rv_svade c" and "kconfig_ok c"
  shows "mrel c (page_rel v w)
    (case x of (ga, q) \<Rightarrow> mseq (mmodify (set_h_fault_gpa ga))
       (mbind (riscv_gstage_translate c a ga) (\<lambda>g. case g of Inl f \<Rightarrow> mthrow (e f)
          | Inr (pa, r) \<Rightarrow> mret (pa, if q \<noteq> 0 then q else r))))
    (case y of (ga, q) \<Rightarrow> mseq (mmodify (set_h_fault_gpa ga))
       (mbind (riscv_gstage_translate c a ga) (\<lambda>g. case g of Inl f \<Rightarrow> mthrow (e f)
          | Inr (pa, r) \<Rightarrow> mret (pa, if q \<noteq> 0 then q else r))))"
proof -
  obtain g q h q' where x: "x = (g, q)" and y: "y = (h, q')" by (cases x; cases y)
  have gh: "same_page g h" and q: "q' = q" using page_rel_same p by (auto simp: x y)
  have "mrel c (page_rel v w)
      (mbind (riscv_gstage_translate c a g) (\<lambda>g. case g of Inl f \<Rightarrow> mthrow (e f)
          | Inr (pa, r) \<Rightarrow> mret (pa, if q \<noteq> 0 then q else r)))
      (mbind (riscv_gstage_translate c a h) (\<lambda>g. case g of Inl f \<Rightarrow> mthrow (e f)
          | Inr (pa, r) \<Rightarrow> mret (pa, if q \<noteq> 0 then q else r)))"
  proof (rule mrel_mbind [OF gstage_page [OF gh assms(2,3)]], erule mrel_sum_case)
    fix s t :: "paddr_t \<times> uint8_t" assume st: "page_rel g h s t"
    then have snd: "snd t = snd s" by (simp add: page_rel_def)
    from p st have "page_rel v w (fst s, r) (fst t, r)" for r by (simp add: x y page_rel_def)
    then show "mrel c (page_rel v w)
        (case s of (pa, r) \<Rightarrow> mret (pa, if q \<noteq> 0 then q else r))
        (case t of (pa, r) \<Rightarrow> mret (pa, if q \<noteq> 0 then q else r))"
      using snd by (cases s; cases t) (simp add: mrel_mret)
  qed (rule mrel_mthrow)
  then show ?thesis by (simp add: x y q mrel_seq mrel_mmodify)
qed

lemma two_stage_page:
  assumes "same_page v w" and "rv_svade c" and "kconfig_ok c"
  shows "mrel c (page_rel v w) (two_stage_translate c v ty) (two_stage_translate c w ty)"
  unfolding two_stage_translate_def Let_def
  by (intro mrels mpures mrel_mbind [OF vstage_page [OF assms]])
    (simp_all, erule mrel_sum_case, intro mrels, simp_all, rule guest_page [OF _ assms(2,3)])

lemma translate_page:
  assumes "same_page v w" and "rv_svade c" and "kconfig_ok c"
  shows "mrel c (page_rel v w) (isa_mmu_translate_attrs c v ty) (isa_mmu_translate_attrs c w ty)"
  unfolding isa_mmu_translate_attrs_def Let_def
  by (intro mrels mpures assms two_stage_page sv39_page sv32_page page_rel_id)


section \<open>Properties\<close>

text \<open>
  C18 (translation only reads). With Svade a translation leaves registers, memory, TLBs and the
  instruction cache alone, keeps the PMP unit in agreement with its registers, and its outcome is a
  function of the rest of the state: neither the PMP match cache nor the TLBs nor the recorded
  faults of earlier accesses influence it.
\<close>

theorem translate_only_reads:
  assumes "kconfig_ok c" and "rv_svade c" and "pmp_ok c s"
    and "isa_mmu_translate_attrs c va ty s = (r, t)"
  shows "cpu t = cpu s \<and> phys t = phys s \<and> tlbs t = tlbs s \<and> icaches t = icaches s \<and> pmp_ok c t \<and>
    (\<forall>s'. pmp_ok c s' \<and> scrub s' = scrub s \<longrightarrow> fst (isa_mmu_translate_attrs c va ty s') = r)"
proof -
  note p = mpureD [OF mpure_translate [OF assms(1,2)] assms(3,4)]
  from p(4) scrub_fields(1,2) [OF p(1)] p(2,3) show ?thesis
    by (simp add: same_caches_def)
qed

theorem translate_only_reads_witness:
  "phys (snd (isa_mmu_translate_attrs demo_config 0x40001234 MEM_TYPE_READ demo_machine)) = demo_memory"
  using translate_only_reads [OF demo_kconfig(1,2) demo_pmp_ok prod.collapse [symmetric]] by simp

text \<open>
  C20 (pages). With Svade a translation depends on the page of the address only: another address of
  the same page has the same fault, or the same frame and memory type with its own page offset. This
  holds for Sv39, Sv32, Bare mode and both guest stages, superpages and NAPOT leaves included, and it
  is what lets a software TLB entry stand for a whole page.
\<close>

theorem translate_page_uniform:
  assumes "kconfig_ok c" and "rv_svade c" and "pmp_ok c s" and "drop_bit PAGE_SHIFT v = drop_bit PAGE_SHIFT w"
  shows "fst (isa_mmu_translate_attrs c w ty s) =
    map_sum id (\<lambda>(pa, pbmt). ((pa AND NOT PAGE_MASK) OR (w AND PAGE_MASK), pbmt))
      (fst (isa_mmu_translate_attrs c v ty s))"
proof -
  have "same_page v w" using assms(4) by (simp add: same_page_def)
  from mrelD(1) [OF translate_page [OF this assms(2,1)] assms(3,3) refl, of ty] show ?thesis
    by (cases "fst (isa_mmu_translate_attrs c v ty s)"; cases "fst (isa_mmu_translate_attrs c w ty s)")
      (auto dest: page_rel_eq)
qed

theorem translate_page_uniform_witness:
  "fst (isa_mmu_translate_attrs demo_config 0x40001fff MEM_TYPE_READ demo_machine) =
    map_sum id (\<lambda>(pa, pbmt). ((pa AND NOT PAGE_MASK) OR (0x40001fff AND PAGE_MASK), pbmt))
      (fst (isa_mmu_translate_attrs demo_config 0x40001234 MEM_TYPE_READ demo_machine))"
  by (rule translate_page_uniform [OF demo_kconfig(1,2) demo_pmp_ok]) simp

section \<open>The software TLBs\<close>

definition tlb_type :: "tlb_table \<Rightarrow> mem_type" where
  "tlb_type k = (case k of Tlb_ifetch \<Rightarrow> MEM_TYPE_IFETCH | Tlb_load \<Rightarrow> MEM_TYPE_READ
     | Tlb_store \<Rightarrow> MEM_TYPE_WRITE)"

text \<open>Every hit is what a walk would find now.\<close>

definition tlb_coherent :: "config \<Rightarrow> nemu \<Rightarrow> bool" where
  "tlb_coherent c s \<longleftrightarrow> (\<forall>k v x. tlb_lookup k (tlbs s) v = Some x \<longrightarrow>
     fst (isa_mmu_translate_attrs c v (tlb_type k) s) = Inr x)"

lemma tlb_lookup_refill:
  assumes "tlb_lookup k' (tlb_refill k v pa pb t) w = Some x"
  shows "k' = k \<and> drop_bit PAGE_SHIFT v = drop_bit PAGE_SHIFT w \<and>
      x = ((pa AND NOT PAGE_MASK) OR (w AND PAGE_MASK), pb) \<or> tlb_lookup k' t w = Some x"
  using assms
  by (auto simp: tlb_lookup_def soft_tlb_lookup_attrs_def tlb_refill_table
      soft_tlb_refill_attrs_def Let_def split: if_splits)

lemma refill_scrub [simp]: "scrub (refill_tlb k v pa pb s) = scrub s"
  by (simp add: scrub_def refill_tlb_def)

lemma refill_pmp_ok [simp]: "pmp_ok c (refill_tlb k v pa pb s) = pmp_ok c s"
  by (rule pmp_ok_cong) (simp_all add: refill_tlb_def sr_def fun_eq_iff)

lemma tlb_coherent_flush: "tlb_inv (tlbs s) \<Longrightarrow> tlb_coherent c (soft_tlb_flush s)"
proof -
  assume i: "tlb_inv (tlbs s)"
  have "tlb_lookup k (tlb_flush (tlbs s)) v = None" for k v
    using tlb_flush_dead [OF i soft_tlb_idx_less] vpn_not_invalid [of v]
    by (auto simp: tlb_lookup_def soft_tlb_lookup_attrs_def Let_def)
  then show ?thesis by (simp add: tlb_coherent_def soft_tlb_flush_def)
qed

lemma tlb_translate_ok:
  assumes "kconfig_ok c" and "rv_svade c" and "pmp_ok c s"
    and run: "tlb_translate c k (tlb_type k) v s = (z, u)"
  shows "scrub u = scrub s" and "pmp_ok c u" and "icaches u = icaches s"
    and "tlbs u = tlbs s \<or> (\<exists>pa pb. tlbs u = tlb_refill k v pa pb (tlbs s))"
    and "tlb_coherent c s \<Longrightarrow> z =
      (if isa_mmu_check c (tlb_type k) s = MMU_DIRECT then Inr (bare_paddr c v, 0)
       else fst (isa_mmu_translate_attrs c v (tlb_type k) s))"
    and "tlb_coherent c s \<Longrightarrow> tlb_coherent c u"
proof -
  let ?ty = "tlb_type k" and ?m = "\<lambda>w ty. isa_mmu_translate_attrs c w ty"
  obtain r t where t: "?m v ?ty s = (r, t)" by fastforce
  note p = mpureD [OF mpure_translate [OF assms(1,2)] assms(3) t]
  have same: "fst (?m w ty u) = fst (?m w ty s)" if "scrub u = scrub s" "pmp_ok c u" for w ty u
    using mpureD(3) [OF mpure_translate [OF assms(1,2)] assms(3) prod.collapse [symmetric] that(2,1)] .
  have page: "fst (?m w ?ty s) = Inr ((pa AND NOT PAGE_MASK) OR (w AND PAGE_MASK), pb)"
    if "drop_bit PAGE_SHIFT v = drop_bit PAGE_SHIFT w" "r = Inr (pa, pb)" for w pa pb
  proof -
    have sp: "same_page v w" using that(1) by (simp add: same_page_def)
    from mrelD(1) [OF translate_page [OF sp assms(2,1)] assms(3,3) refl, of ?ty] that(2) t show ?thesis
      by (cases "fst (?m w ?ty s)") (auto dest: page_rel_eq)
  qed
  have refill: "tlb_coherent c (refill_tlb k v pa pb t)"
    if coh: "tlb_coherent c s" and r: "r = Inr (pa, pb)" for pa pb
    unfolding tlb_coherent_def
  proof (intro allI impI)
    fix k' w x assume "tlb_lookup k' (tlbs (refill_tlb k v pa pb t)) w = Some x"
    then have "tlb_lookup k' (tlb_refill k v pa pb (tlbs s)) w = Some x"
      using p(4) by (simp add: refill_tlb_def same_caches_def)
    then have "fst (?m w (tlb_type k') s) = Inr x"
      using tlb_lookup_refill [of k' k v pa pb "tlbs s" w x] page [OF _ r] coh
      by (cases x) (auto simp: tlb_coherent_def)
    then show "fst (?m w (tlb_type k') (refill_tlb k v pa pb t)) = Inr x"
      using same p(1,2) by simp
  qed
  have coh_t: "tlb_coherent c t" if "tlb_coherent c s"
    using that p(4) same [OF p(1,2)] by (simp add: tlb_coherent_def same_caches_def)
  have caches: "tlbs t = tlbs s" "icaches t = icaches s" using p(4) by (simp_all add: same_caches_def)
  have eq: "(z, u) =
      (if isa_mmu_check c ?ty s = MMU_DIRECT then (Inr (bare_paddr c v, 0), s)
       else case tlb_lookup k (tlbs s) v of
              Some x \<Rightarrow> (Inr x, s)
            | None \<Rightarrow> (case r of Inl e \<Rightarrow> (Inl e, t)
                 | Inr (pa, pb) \<Rightarrow> (Inr (pa, pb), refill_tlb k v pa pb t)))"
    unfolding run [symmetric] by (cases r; cases "tlb_lookup k (tlbs s) v")
      (auto simp: tlb_translate_def t mseq_app mbind_app)
  have hit: "r = Inr x" if "tlb_coherent c s" "tlb_lookup k (tlbs s) v = Some x" for x
    using that(1) [unfolded tlb_coherent_def, rule_format, OF that(2)] t by simp
  consider "isa_mmu_check c ?ty s = MMU_DIRECT" "z = Inr (bare_paddr c v, 0)" "u = s"
    | x where "isa_mmu_check c ?ty s \<noteq> MMU_DIRECT" "tlb_lookup k (tlbs s) v = Some x" "z = Inr x" "u = s"
    | e where "isa_mmu_check c ?ty s \<noteq> MMU_DIRECT" "r = Inl e" "z = Inl e" "u = t"
    | pa pb where "isa_mmu_check c ?ty s \<noteq> MMU_DIRECT" "r = Inr (pa, pb)" "z = Inr (pa, pb)"
        "u = refill_tlb k v pa pb t"
    using eq by (auto split: if_splits option.splits sum.splits)
  note cs = this
  show "scrub u = scrub s" and "pmp_ok c u"
    by (cases rule: cs; simp add: p assms)+
  show "icaches u = icaches s" by (cases rule: cs) (simp_all add: caches refill_tlb_def)
  show "tlbs u = tlbs s \<or> (\<exists>pa pb. tlbs u = tlb_refill k v pa pb (tlbs s))"
    by (cases rule: cs) (auto simp: caches refill_tlb_def)
  show "z = (if isa_mmu_check c ?ty s = MMU_DIRECT then Inr (bare_paddr c v, 0)
       else fst (?m v ?ty s))" if "tlb_coherent c s"
    by (cases rule: cs) (use hit [OF that] t in simp_all)
  show "tlb_coherent c u" if "tlb_coherent c s"
    by (cases rule: cs) (use that coh_t refill in simp_all)
qed

lemma demo_tlb_coherent: "tlb_coherent demo_config demo_machine"
proof -
  have "tlbs demo_machine = soft_tlb_init"
    by (simp add: demo_machine_def pmp_hart_switch_def pmp_rebuild_decoded_def demo_regs_def
        nemu_static_def)
  moreover have "tlb_lookup k soft_tlb_init v = None" for k v
    by (cases k) (simp_all add: tlb_lookup_def soft_tlb_lookup_attrs_def soft_tlb_init_def
        tlb_zero_def Let_def)
  ultimately show ?thesis by (simp add: tlb_coherent_def)
qed

text \<open>
  C21 (the software TLBs are transparent). When every TLB hit agrees with the walk, a translation
  through a TLB gives what the walk gives (or the Bare address), leaves the TLBs in agreement after
  its refill, and touches neither registers nor memory. A flush establishes the agreement from any
  TLB contents.
\<close>

theorem tlb_transparent:
  assumes "kconfig_ok c" and "rv_svade c" and "pmp_ok c s"
  shows "(tlb_coherent c s \<longrightarrow>
      fst (tlb_translate c k (tlb_type k) v s) =
        (if isa_mmu_check c (tlb_type k) s = MMU_DIRECT then Inr (bare_paddr c v, 0)
         else fst (isa_mmu_translate_attrs c v (tlb_type k) s)) \<and>
      tlb_coherent c (snd (tlb_translate c k (tlb_type k) v s))) \<and>
    cpu (snd (tlb_translate c k (tlb_type k) v s)) = cpu s \<and>
    phys (snd (tlb_translate c k (tlb_type k) v s)) = phys s \<and>
    (tlb_inv (tlbs s) \<longrightarrow> tlb_coherent c (soft_tlb_flush s))"
proof -
  note p = tlb_translate_ok [OF assms prod.collapse [symmetric], of k v]
  show ?thesis
    by (intro conjI impI p(5,6) scrub_fields(1,2) [OF p(1)] tlb_coherent_flush)
qed

theorem tlb_transparent_witness:
  "fst (tlb_translate demo_config Tlb_load MEM_TYPE_READ 0x40001234 demo_machine) =
     (if isa_mmu_check demo_config MEM_TYPE_READ demo_machine = MMU_DIRECT
      then Inr (bare_paddr demo_config 0x40001234, 0)
      else fst (isa_mmu_translate_attrs demo_config 0x40001234 MEM_TYPE_READ demo_machine))"
  using tlb_transparent [OF demo_kconfig(1,2) demo_pmp_ok, of Tlb_load "0x40001234"] demo_tlb_coherent
  by (simp add: tlb_type_def)

end
