(* ===== verification/No_Panic.thy ===== *)
theory No_Panic
  imports Vaddr Paddr_Correct
begin

text \<open>
  Panics of the emulator: computations that never end in \<open>Mem_panic\<close>, whatever the state. A physical
  access to mapped memory does not, and the page-table walks read only what \<open>ptw_memory_readable\<close> has
  shown to be backed. Svade is assumed where a walk would write a PTE back.
\<close>

unbundle bit_operations_syntax

section \<open>Rules\<close>

definition no_panic :: "'a mem \<Rightarrow> bool" where
  "no_panic m \<longleftrightarrow> (\<forall>s. fst (m s) \<noteq> Inl Mem_panic)"

named_theorems no_panics \<open>rules for computations without a panic\<close>

lemma no_panicD: "no_panic m \<Longrightarrow> fst (m s) \<noteq> Inl Mem_panic"
  by (simp add: no_panic_def)

lemma no_panic_mret [no_panics]: "no_panic (mret a)"
  by (simp add: no_panic_def)

lemma no_panic_mthrow [no_panics]: "no_panic (mthrow (Mem_fault e))"
  by (simp add: no_panic_def)

lemma no_panic_mgets [no_panics]: "no_panic (mgets f)"
  by (simp add: no_panic_def)

lemma no_panic_mmodify [no_panics]: "no_panic (mmodify f)"
  by (simp add: no_panic_def)

lemma no_panic_mlift [no_panics]: "no_panic (mlift f)"
  by (simp add: no_panic_def)

lemma no_panic_bind_post:
  assumes "no_panic m" and "\<And>s a t. m s = (Inr a, t) \<Longrightarrow> no_panic (f a)"
  shows "no_panic (mbind m f)"
  unfolding no_panic_def
proof
  fix s
  show "fst (mbind m f s) \<noteq> Inl Mem_panic"
  proof (cases "m s")
    case (Pair r t)
    then show ?thesis
      using no_panicD [OF assms(1), of s] assms(2) [of s _ t] by (cases r) (auto simp: no_panic_def)
  qed
qed

lemma no_panic_mbind [no_panics]: "no_panic m \<Longrightarrow> (\<And>a. no_panic (f a)) \<Longrightarrow> no_panic (mbind m f)"
  by (rule no_panic_bind_post)

lemma no_panic_mseq [no_panics]: "no_panic m \<Longrightarrow> no_panic f \<Longrightarrow> no_panic (mseq m f)"
  unfolding mseq_def by (rule no_panic_mbind)

lemma no_panic_mwhen [no_panics]: "(b \<Longrightarrow> no_panic m) \<Longrightarrow> no_panic (mwhen b m)"
  by (simp add: mwhen_def no_panic_mret)

lemma no_panic_if [no_panics]:
  "(b \<Longrightarrow> no_panic m) \<Longrightarrow> (\<not> b \<Longrightarrow> no_panic n) \<Longrightarrow> no_panic (if b then m else n)"
  by simp

lemma no_panic_sum [no_panics]:
  "(\<And>a. x = Inl a \<Longrightarrow> no_panic (f a)) \<Longrightarrow> (\<And>b. x = Inr b \<Longrightarrow> no_panic (g b)) \<Longrightarrow>
     no_panic (case x of Inl a \<Rightarrow> f a | Inr b \<Rightarrow> g b)"
  by (cases x) simp_all

lemma no_panic_prod [no_panics]:
  "(\<And>a b. x = (a, b) \<Longrightarrow> no_panic (f a b)) \<Longrightarrow> no_panic (case x of (a, b) \<Rightarrow> f a b)"
  by (cases x) simp

lemma no_panic_option [no_panics]:
  "(x = None \<Longrightarrow> no_panic m) \<Longrightarrow> (\<And>y. x = Some y \<Longrightarrow> no_panic (f y)) \<Longrightarrow>
     no_panic (case x of None \<Rightarrow> m | Some y \<Rightarrow> f y)"
  by (cases x) simp_all

lemma no_panic_Let [no_panics]: "no_panic (f e) \<Longrightarrow> no_panic (Let e f)"
  by (simp add: Let_def)

section \<open>Physical accesses\<close>

text \<open>A span of memory, or a window of the reference target's devices, never panics.\<close>

definition span_or_io :: "config \<Rightarrow> paddr_t \<Rightarrow> nat \<Rightarrow> bool" where
  "span_or_io c a n \<longleftrightarrow> paddr_is_memory_span c a n \<or> (target_share c \<and> ref_paddr_is_io a)"

lemma paddr_read_cases:
  assumes "host_len n" and "span_or_io c a n"
  shows "paddr_read c a n s =
    (Inr (if paddr_is_memory_span c a n then load_bytes (phys s) a n else 0), s)"
proof (cases "paddr_is_memory_span c a n")
  case True
  with paddr_read_span [OF True assms(1)] show ?thesis by simp
qed (use assms in \<open>simp add: paddr_read_def span_or_io_def\<close>)

lemma no_panic_paddr_read [no_panics]:
  "host_len n \<Longrightarrow> span_or_io c a n \<Longrightarrow> no_panic (paddr_read c a n)"
  by (simp add: no_panic_def paddr_read_cases)

text \<open>A store needs, in memory, a span that is not read-only at its start.\<close>

lemma paddr_write_cases:
  assumes "host_len n" and "span_or_io c a n"
    and "paddr_is_memory_span c a n \<Longrightarrow> \<not> paddr_is_readonly c a"
  shows "paddr_write c a n d s = (Inr (),
    if paddr_is_memory_span c a n then s\<lparr>phys := store_bytes (phys s) a n d\<rparr> else s)"
proof (cases "paddr_is_memory_span c a n")
  case True
  then have "in_pmem c a \<or> in_sdram c a \<or> in_sram a"
    using assms(3) by (auto simp: paddr_is_memory_span_def paddr_is_readonly_def Let_def split: if_splits)
  with True span_backed [OF True] assms(1) show ?thesis
    by (simp add: paddr_write_def pmem_write_def host_write_def)
qed (use assms in \<open>simp add: paddr_write_def span_or_io_def\<close>)

lemma no_panic_paddr_write [no_panics]:
  assumes "host_len n" and "span_or_io c a n"
    and "paddr_is_memory_span c a n \<Longrightarrow> \<not> paddr_is_readonly c a"
  shows "no_panic (paddr_write c a n d)"
  by (simp only: no_panic_def paddr_write_cases [OF assms]) simp

section \<open>Page-table walks\<close>

text \<open>The guarded read of a PTE.\<close>

lemma no_panic_ptw [no_panics]:
  assumes "no_panic e" and "\<And>pte. no_panic (f pte)" and "host_len n"
  shows "no_panic (mbind (ptw_read_denied c a n) (\<lambda>denied. if denied then e else mbind (paddr_read c a n) f))"
proof (rule no_panic_bind_post)
  show "no_panic (ptw_read_denied c a n)"
    unfolding ptw_read_denied_def by (intro no_panics)
  fix s denied t assume run: "ptw_read_denied c a n s = (Inr denied, t)"
  show "no_panic (if denied then e else mbind (paddr_read c a n) f)"
  proof (cases denied)
    case False
    with run have "span_or_io c a n"
      by (auto simp: ptw_read_denied_def ptw_memory_readable_def span_or_io_def split: if_splits)
    with assms False show ?thesis by (simp add: no_panics)
  qed (simp add: assms)
qed

lemma host_len_pte [simp]: "host_len 1" "host_len 2" "host_len 8" "host_len 4" "host_len (Suc 0)"
  by (simp_all add: host_len_def)

lemma no_panic_gstage [no_panics]:
  assumes svade: "rv_svade c"
  shows "no_panic (riscv_gstage_translate c a ga)"
proof -
  have level: "no_panic (gstage_level c a ga level table)" for level table
    unfolding gstage_level_def gstage_leaf_def Let_def eqTrueI [OF svade] if_True
    by (intro no_panics) simp_all
  have "no_panic (gstage_walk c a ga n table)" for n table
    by (induction n arbitrary: table) (auto intro!: no_panics level)
  then show ?thesis unfolding riscv_gstage_translate_def by (intro no_panics)
qed

lemma no_panic_vstage [no_panics]:
  assumes svade: "rv_svade c"
  shows "no_panic (riscv_vstage_translate c a vsup va)"
proof -
  have level: "no_panic (vstage_level c a vsup va level table)" for level table
    unfolding vstage_level_def vstage_leaf_def Let_def eqTrueI [OF svade] if_True
    by (intro no_panics svade) simp_all
  have "no_panic (vstage_walk c a vsup va n table)" for n table
    by (induction n arbitrary: table) (auto intro!: no_panics level)
  then show ?thesis unfolding riscv_vstage_translate_def by (intro no_panics)
qed

lemma no_panic_sv39 [no_panics]:
  assumes svade: "rv_svade c"
  shows "no_panic (sv39_translate c va ty)"
proof -
  have level: "no_panic (sv39_level c ty va level a)" for level a
    unfolding sv39_level_def Let_def by (intro no_panics) simp_all
  have "no_panic (sv39_walk c ty va n a)" for n a
    by (induction n arbitrary: a) (auto intro!: no_panics level)
  then show ?thesis
    unfolding sv39_translate_def Let_def eqTrueI [OF svade] if_True by (intro no_panics)
qed

lemma no_panic_sv32 [no_panics]:
  assumes svade: "rv_svade c"
  shows "no_panic (sv32_translate c va ty)"
proof -
  have level: "no_panic (sv32_level c ty va level a)" for level a
    unfolding sv32_level_def Let_def by (intro no_panics) simp_all
  have "no_panic (sv32_walk c ty va n a)" for n a
    by (induction n arbitrary: a) (auto intro!: no_panics level)
  then show ?thesis
    unfolding sv32_translate_def Let_def eqTrueI [OF svade] if_True by (intro no_panics)
qed

lemma no_panic_translate [no_panics]:
  assumes svade: "rv_svade c"
  shows "no_panic (isa_mmu_translate_attrs c va ty)"
  unfolding isa_mmu_translate_attrs_def two_stage_translate_def Let_def
  by (intro no_panics svade)

end
