(* ===== verification/Vaddr_Correct.thy ===== *)
theory Vaddr_Correct
  imports Page_Correct No_Panic
begin

text \<open>
  Virtual-memory accesses: the physical memory attributes, what a checked piece guarantees, and the
  effect of loads and stores on memory, byte by byte, in terms of the translation of each byte.
\<close>

unbundle bit_operations_syntax

section \<open>Physical memory attributes\<close>

text \<open>Every byte of the access is mapped, and writable for a store.\<close>

definition data_pma_ok :: "config \<Rightarrow> paddr_t \<Rightarrow> nat \<Rightarrow> bool \<Rightarrow> bool" where
  "data_pma_ok c pa n store \<longleftrightarrow> 0 < n \<and> (\<forall>i<n. pma_byte_ok c pa store i)"

lemma ram_span_pma:
  assumes "memory_map_ok c" and "paddr_is_ram_span c pa n" and "n \<le> 2 ^ 63"
  shows "data_pma_ok c pa n store"
proof -
  have "0 < n" using assms(2) by (simp add: paddr_is_ram_span_def split: if_splits)
  moreover have "pma_byte_ok c pa store i" if "i < n" for i
    using ram_span_bytes [OF assms that] ram_not_readonly [OF assms(1)] span_byte(2) that
    unfolding pma_byte_ok_def paddr_is_mapped_def span1_iff by blast
  ultimately show ?thesis by (simp add: data_pma_ok_def)
qed

lemma pma_fault_None: "pma_fault_offset c pa n store = None \<longleftrightarrow> data_pma_ok c pa n store"
  by (auto simp: pma_fault_offset_def data_pma_ok_def find_None_iff)

lemma check_data_pma_ok:
  "data_pma_ok c pa n store \<Longrightarrow> check_data_pma c pa n store = mret ()"
  by (simp add: check_data_pma_def pma_fault_None [symmetric])

lemma check_data_pma_bad:
  assumes "memory_map_ok c" and "n \<le> 2 ^ 63" and "\<not> data_pma_ok c pa n store"
  obtains off where "pma_fault_offset c pa n store = Some off"
    and "check_data_pma c pa n store = mseq (mmodify (\<lambda>s. set_g_vaddr (g_vaddr s + of_nat off) s))
      (mthrow (Mem_fault (data_access_fault store)))"
proof -
  obtain off where o: "pma_fault_offset c pa n store = Some off"
    using assms(3) by (auto simp: pma_fault_None [symmetric])
  moreover have "\<not> paddr_is_ram_span c pa n" using ram_span_pma [OF assms(1) _ assms(2)] assms(3) by blast
  ultimately show ?thesis by (intro that) (simp_all add: check_data_pma_def)
qed

lemma last_byte: "0 < n \<Longrightarrow> a + of_nat (n - 1) = a + of_nat n - (1 :: 'a::len word)"
  by (cases n) simp_all

lemma data_pma_span:
  assumes "data_pma_ok c pa n store" and "n \<le> 2 ^ 63"
  shows "0 < n" and "unat pa + n \<le> 2 ^ 64" and "\<not> pa + of_nat n - 1 < pa"
proof -
  from assms(1) show n: "0 < n" by (simp add: data_pma_ok_def)
  have "pma_byte_ok c pa store (n - 1)" using assms(1) n by (simp add: data_pma_ok_def)
  then show w: "\<not> pa + of_nat n - 1 < pa" by (simp only: pma_byte_ok_def last_byte [OF n] not_less)
  from span_last(2) [OF n assms(2) w] show "unat pa + n \<le> 2 ^ 64" .
qed

text \<open>Up to eight bytes that pass lie in one region.\<close>

lemma data_pma_span_or_io:
  assumes "memory_map_gap c" and "n \<le> 8" and "data_pma_ok c pa n store"
  shows "span_or_io c pa n"
    and "store \<Longrightarrow> paddr_is_memory_span c pa n \<Longrightarrow> \<not> paddr_is_readonly c pa"
    and "i < n \<Longrightarrow> span_or_io c (pa + of_nat i) 1"
    and "i < n \<Longrightarrow> store \<Longrightarrow> \<not> paddr_is_readonly c (pa + of_nat i)"
proof -
  have n: "0 < n" "\<not> pa + of_nat n - 1 < pa" using data_pma_span [OF assms(3)] assms(2) by auto
  have b: "pma_byte_ok c pa store i" if "i < n" for i using assms(3) that by (simp add: data_pma_ok_def)
  have "pma_byte_ok c pa store 0" "pma_byte_ok c pa store (n - 1)" using b n(1) by simp_all
  then have "paddr_is_mapped c pa" "paddr_is_mapped c (pa + of_nat n - 1)"
    by (simp_all only: pma_byte_ok_def last_byte [OF n(1)] semiring_1_class.of_nat_0 add_0_right)
  from mapped_ends_span [OF assms(1) n(1) assms(2) n(2) this] show "span_or_io c pa n"
    by (simp add: span_or_io_def)
  show "store \<Longrightarrow> paddr_is_memory_span c pa n \<Longrightarrow> \<not> paddr_is_readonly c pa"
    using b [of 0] n(1) by (simp add: pma_byte_ok_def)
  show "i < n \<Longrightarrow> span_or_io c (pa + of_nat i) 1" "i < n \<Longrightarrow> store \<Longrightarrow> \<not> paddr_is_readonly c (pa + of_nat i)"
    using b [of i] by (simp_all add: pma_byte_ok_def span_or_io_def paddr_is_mapped_def)
qed

section \<open>No panic\<close>

lemma no_panic_pma [no_panics]:
  assumes "memory_map_ok c" and "n \<le> 2 ^ 63" and "data_pma_ok c pa n store \<Longrightarrow> no_panic m"
  shows "no_panic (mseq (check_data_pma c pa n store) m)"
proof (cases "data_pma_ok c pa n store")
  case True
  with check_data_pma_ok [OF True] assms(3) show ?thesis by (simp add: mseq_def)
next
  case False
  from check_data_pma_bad [OF assms(1,2) this] obtain off where
    "check_data_pma c pa n store = mseq (mmodify (\<lambda>s. set_g_vaddr (g_vaddr s + of_nat off) s))
      (mthrow (Mem_fault (data_access_fault store)))" .
  then show ?thesis by (simp add: no_panic_def mseq_app)
qed

lemma no_panic_data_pmp [no_panics]: "no_panic (data_pmp_check c tr addr pa n store)"
  unfolding data_pmp_check_def by (intro no_panics)

lemma no_panic_data_type [no_panics]: "no_panic (check_data_type c pa pbmt misal store ol)"
  unfolding check_data_type_def by (intro no_panics)

lemma no_panic_piece [no_panics]:
  assumes "rv_svade c" and "memory_map_ok c" and "n \<le> 2 ^ 63"
  shows "no_panic (checked_data_piece_attrs c a n store misal ol)"
  unfolding checked_data_piece_attrs_def by (intro no_panics assms)

section \<open>Checked pieces\<close>

text \<open>Where an address leads: the Bare address, or the translation.\<close>

definition data_target :: "config \<Rightarrow> nemu \<Rightarrow> bool \<Rightarrow> vaddr_t \<Rightarrow> mem_exit + paddr_t \<times> uint8_t" where
  "data_target c s store v =
     (if isa_mmu_check c (data_type store) s = MMU_DIRECT then Inr (bare_paddr c v, 0)
      else fst (isa_mmu_translate_attrs c v (data_type store) s))"

lemma data_target_cong:
  assumes "kconfig_ok c" and "rv_svade c" and "pmp_ok c s" and "pmp_ok c t" and "scrub t = scrub s"
  shows "data_target c t store v = data_target c s store v"
  unfolding data_target_def scrub_views(5) [OF assms(5), of c]
    mpureD(3) [OF mpure_translate [OF assms(1,2)] assms(3) prod.collapse [symmetric] assms(4,5)] ..

text \<open>What an access grants covers each of its bytes.\<close>

lemma pmp_spec_byte:
  assumes "\<not> pmp_spec_faults c s a n prv r w x" and "i < n"
  shows "\<not> pmp_spec_faults c s (a + i) 1 prv r w x"
proof -
  let ?e = "first_index (\<lambda>k. \<exists>b\<in>{a..<a + n}. pmp_entry_covers c s k b) PMP_N"
  let ?f = "first_index (\<lambda>k. \<exists>b\<in>{a + i..<a + i + 1}. pmp_entry_covers c s k b) PMP_N"
  have m: "a + i \<in> {a..<a + n}" using assms(2) by simp
  show ?thesis
  proof (cases ?e)
    case None
    then have "?f = None" using m unfolding first_index_None by fastforce
    with None assms(1) show ?thesis by (simp add: pmp_spec_faults_def)
  next
    case (Some k)
    with assms(1) have cov: "\<forall>b\<in>{a..<a + n}. pmp_entry_covers c s k b"
      by (simp add: pmp_spec_faults_def)
    from Some have "?f = Some k"
      unfolding first_index_Some using m cov by fastforce
    with Some assms(1) m show ?thesis by (simp add: pmp_spec_faults_def)
  qed
qed

lemma mpure_data_pmp:
  assumes "kconfig_ok c" and "0 < n" and "unat pa + n \<le> 2 ^ 64"
  shows "mpure c (data_pmp_check c tr a pa n store)"
  unfolding data_pmp_check_def
  by (intro mpures mpure_pmp_check assms mpure_mmodify)
    (simp_all add: scrub_def set_g_vaddr_def same_caches_def)

lemma data_pmp_pass:
  assumes "kconfig_ok c" and "pmp_ok c s" and "0 < n" and "unat pa + n \<le> 2 ^ 64"
    and "data_pmp_check c tr a pa n store s = (Inr u, t)"
  shows "\<not> pmp_spec_faults c s (unat pa) n (pmp_effective_priv_ls s) (\<not> store) store False"
proof -
  obtain t' where "pmp_check c pa n (pmp_effective_priv_ls s) (\<not> store) store False s =
      (pmp_spec_faults c s (unat pa) n (pmp_effective_priv_ls s) (\<not> store) store False, t')"
    by (rule pmp_check_ok [OF assms(1-4), of False]) auto
  with assms(5) show ?thesis by (auto simp: data_pmp_check_def mseq_app split: if_splits)
qed

lemma set_g_vaddr_same [simp]:
  "scrub (set_g_vaddr v s) = scrub s" "pmpu (set_g_vaddr v s) = pmpu s"
  "same_caches s (set_g_vaddr v s)"
  by (simp_all add: scrub_def set_g_vaddr_def same_caches_def)

lemma mpure_data_check [mpures]:
  assumes "kconfig_ok c" and "memory_map_ok c" and "n \<le> 2 ^ 63" and "mpure c m"
  shows "mpure c (mseq (check_data_pma c pa n store) (mseq (data_pmp_check c tr a pa n store) m))"
proof (cases "data_pma_ok c pa n store")
  case True
  note b = data_pma_span [OF True assms(3)]
  from mpure_data_pmp [OF assms(1) b(1,2)] assms(4) show ?thesis
    unfolding check_data_pma_ok [OF True] by (intro mpures)
next
  case False
  obtain off where e: "check_data_pma c pa n store =
      mseq (mmodify (\<lambda>s. set_g_vaddr (g_vaddr s + of_nat off) s))
        (mthrow (Mem_fault (data_access_fault store)))"
    by (rule check_data_pma_bad [OF assms(2,3) False])
  have "mpure c (mseq (mmodify (\<lambda>s. set_g_vaddr (g_vaddr s + of_nat off) s))
      (mthrow (Mem_fault (data_access_fault store))))"
    by (intro mpures mpure_mmodify) simp_all
  then have "mpure c (check_data_pma c pa n store)" unfolding e .
  moreover have "mseq (check_data_pma c pa n store) (mseq (data_pmp_check c tr a pa n store) m) =
      mseq (check_data_pma c pa n store) (mthrow Mem_panic)"
    unfolding e by (simp add: fun_eq_iff mseq_app)
  ultimately show ?thesis by (simp add: mpures)
qed

definition data_granted :: "config \<Rightarrow> nemu \<Rightarrow> bool \<Rightarrow> paddr_t \<Rightarrow> nat \<Rightarrow> bool" where
  "data_granted c s store pa n \<longleftrightarrow> data_pma_ok c pa n store \<and>
     \<not> pmp_spec_faults c s (unat pa) n (pmp_effective_priv_ls s) (\<not> store) store False"

lemma data_granted_cong: "scrub t = scrub s \<Longrightarrow> data_granted c t = data_granted c s"
  by (simp add: fun_eq_iff data_granted_def pmp_spec_scrub [of t s] scrub_views(1) [of t s])

lemma data_granted_byte:
  assumes "data_granted c s store pa n" and "i < n" and "n \<le> 2 ^ 63"
  shows "data_granted c s store (pa + of_nat i) 1"
proof -
  from assms(1) have d: "data_pma_ok c pa n store" by (simp add: data_granted_def)
  have "unat (pa + of_nat i) = unat pa + i"
    using span_byte(1) [OF data_pma_span(2) [OF d assms(3)] assms(2)] .
  with assms d pmp_spec_byte [of c s "unat pa" n _ _ _ _ i] show ?thesis
    by (simp add: data_granted_def data_pma_ok_def pma_byte_ok_def)
qed

lemma data_check_granted:
  assumes "kconfig_ok c" and "memory_map_ok c" and "n \<le> 2 ^ 63" and "pmp_ok c s"
    and "mseq (check_data_pma c pa n store) (mseq (data_pmp_check c tr a pa n store) m) s = (Inr x, t)"
  obtains s' where "data_granted c s store pa n" and "m s' = (Inr x, t)"
    and "scrub s' = scrub s" and "pmp_ok c s'" and "same_caches s s'"
proof -
  have ok: "data_pma_ok c pa n store"
  proof (rule ccontr)
    assume "\<not> ?thesis"
    then obtain off where "check_data_pma c pa n store =
        mseq (mmodify (\<lambda>s. set_g_vaddr (g_vaddr s + of_nat off) s))
          (mthrow (Mem_fault (data_access_fault store)))"
      by (rule check_data_pma_bad [OF assms(2,3)])
    then have "check_data_pma c pa n store s =
        (Inl (Mem_fault (data_access_fault store)), set_g_vaddr (g_vaddr s + of_nat off) s)"
      by (simp add: mseq_app)
    with assms(5) show False by (simp add: mseq_app)
  qed
  note b = data_pma_span [OF ok assms(3)]
  from assms(5) obtain u s' where run: "data_pmp_check c tr a pa n store s = (Inr u, s')"
    and m: "m s' = (Inr x, t)"
    by (auto simp: check_data_pma_ok [OF ok] mseq_eq_Inr)
  from data_pmp_pass [OF assms(1,4) b(1,2) run] ok have "data_granted c s store pa n"
    by (simp add: data_granted_def)
  with mpureD [OF mpure_data_pmp [OF assms(1) b(1,2)] assms(4) run] m show ?thesis
    by (intro that)
qed

lemma mpure_mgets_data [mpures]:
  "mpure c (mgets (\<lambda>s. riscv_pointer_mask c' s a))"
  "mpure c (mgets (\<lambda>s. isa_mmu_check c' ty s \<noteq> MMU_DIRECT))" "mpure c (mgets (isa_mmu_check c' ty))"
  by (rule mpure_mgets, frule scrub_views(5) [of _ _ c' ty], drule scrub_views(6) [of _ _ c'], simp)+

lemma mpure_g_vaddr [mpures]: "mpure c (mmodify (set_g_vaddr v))"
  by (rule mpure_mmodify) simp_all

lemma mpure_data_type [mpures]: "mpure c (check_data_type c' pa pbmt misal store ol)"
  unfolding check_data_type_def by (intro mpures)

lemma mpure_piece_attrs [mpures]:
  assumes "kconfig_ok c" and "rv_svade c" and "memory_map_ok c" and "n \<le> 2 ^ 63"
  shows "mpure c (checked_data_piece_attrs c a n store misal ol)"
  unfolding checked_data_piece_attrs_def by (intro mpures assms)

lemma checked_piece_granted:
  assumes "kconfig_ok c" and "rv_svade c" and "memory_map_ok c" and "n \<le> 2 ^ 63" and "pmp_ok c s"
    and "checked_data_piece_attrs c a n store misal ol s = (Inr (pa, pb), t)"
  shows "data_target c s store (riscv_pointer_mask c s a) = Inr (pa, pb)"
    and "data_granted c s store pa n"
proof -
  let ?v = "riscv_pointer_mask c s a" and ?ty = "data_type store"
  let ?s = "set_g_vaddr (riscv_pointer_mask c s a) s"
  let ?tr = "isa_mmu_check c ?ty ?s \<noteq> MMU_DIRECT"
  let ?m = "if ?tr then isa_mmu_translate_attrs c ?v ?ty else mret (bare_paddr c ?v, 0)"
  have ok: "pmp_ok c ?s" and sc: "scrub ?s = scrub s"
    using assms(5) pmp_ok_cong [OF scrub_fields(6) set_g_vaddr_same(2), of ?v s c] by simp_all
  from assms(6) obtain pa' pb' s2 where m: "?m ?s = (Inr (pa', pb'), s2)"
    and rest: "mseq (check_data_type c pa' pb' misal store ol)
      (mseq (check_data_pma c pa' n store)
        (mseq (data_pmp_check c ?tr ?v pa' n store) (mret (pa', pb')))) s2 = (Inr (pa, pb), t)"
    unfolding checked_data_piece_attrs_def
    by (auto simp: mbind_eq_Inr mseq_eq_Inr split: prod.splits)
  have "mpure c ?m" by (intro mpures assms)
  note p = mpureD [OF this ok m]
  have "check_data_type c pa' pb' misal store ol s2 = (Inr (), s2)"
    using rest by (auto simp: mseq_eq_Inr check_data_type_def Let_def split: if_splits)
  with rest have "mseq (check_data_pma c pa' n store)
      (mseq (data_pmp_check c ?tr ?v pa' n store) (mret (pa', pb'))) s2 = (Inr (pa, pb), t)"
    by (subst (asm) mseq_app) simp
  then obtain s3 where g: "data_granted c s2 store pa' n" and "mret (pa', pb') s3 = (Inr (pa, pb), t)"
    by (rule data_check_granted [OF assms(1,3,4) p(2)])
  then have e: "pa' = pa" "pb' = pb" by simp_all
  from g show "data_granted c s store pa n" by (simp add: e data_granted_cong [OF trans [OF p(1) sc]])
  have "data_target c ?s store ?v = Inr (pa, pb)"
    using m by (simp add: data_target_def e split: if_splits)
  then show "data_target c s store ?v = Inr (pa, pb)"
    using data_target_cong [OF assms(1,2,5) ok sc, of store ?v] by simp
qed

section \<open>The bytes of an access\<close>

lemma same_page_unat: "same_page x y \<longleftrightarrow> unat x div 4096 = unat y div 4096"
proof -
  have d: "unat (drop_bit 12 x) = unat x div 4096" for x :: paddr_t
    by (simp add: drop_bit_eq_div unat_div)
  have "same_page x y \<longleftrightarrow> unat (drop_bit 12 x) = unat (drop_bit 12 y)"
    by (simp only: same_page_def word_unat_eq_iff)
  then show ?thesis by (simp only: d)
qed

lemma off_unat: "unat (x AND 0xfff) = unat x mod 4096" for x :: paddr_t
proof -
  have "x AND 0xfff = take_bit 12 x" by (simp add: off_mask take_bit_eq_mask)
  then show ?thesis by (simp add: take_bit_eq_mod unat_mod)
qed

lemma page_step:
  assumes "i < page_rest v"
  shows "unat (v + of_nat i) = unat v + i" and "same_page v (v + of_nat i)"
proof -
  have i: "unat v mod 4096 + i < 4096" using assms by (auto simp: page_rest_def off_unat)
  have "unat v < 2 ^ LENGTH(64)" by (rule unsigned_less)
  then have "unat v div 4096 < 2 ^ 52" by auto
  moreover define q r where qr: "q = unat v div 4096" "r = unat v mod 4096"
  ultimately have q: "q < 2 ^ 52" by (simp only: qr)
  have r: "r + i < 4096" using i by (simp only: qr)
  have e: "unat v = q * 4096 + r" unfolding qr by simp
  with q r have "unat v + i < 2 ^ 64" by simp
  moreover have "unat (of_nat i :: 64 word) = i" using r by (simp add: unat_of_nat)
  ultimately show u: "unat (v + of_nat i) = unat v + i" by (simp add: unat_word_ariths)
  have "(q * 4096 + r + i) div 4096 = q" using r by (simp add: add.assoc)
  then show "same_page v (v + of_nat i)" unfolding same_page_unat u e using r by simp
qed

lemma page_step_eq:
  assumes "same_page p q" and "p AND 0xfff = v AND 0xfff" and "q AND 0xfff = (v + of_nat i) AND 0xfff"
    and "i < page_rest v"
  shows "q = p + of_nat i"
proof -
  from assms(2,3) have "unat (p AND 0xfff) = unat (v AND 0xfff)"
    "unat (q AND 0xfff) = unat ((v + of_nat i) AND 0xfff)" by simp_all
  then have e: "unat p mod 4096 = unat v mod 4096" "unat q mod 4096 = (unat v + i) mod 4096"
    by (simp_all only: off_unat page_step(1) [OF assms(4)])
  have "unat v mod 4096 + i < 4096" using assms(4) by (auto simp: page_rest_def off_unat)
  then have "(unat v + i) mod 4096 = unat v mod 4096 + i" by (metis mod_add_left_eq mod_less)
  with e assms(1) have "unat q = unat p + i"
    unfolding same_page_unat by (metis div_mult_mod_eq add.assoc)
  then show ?thesis by (metis of_nat_add of_nat_unat ucast_id)
qed

text \<open>The translations of the other addresses of a page follow from one.\<close>

lemma data_target_page:
  assumes "kconfig_ok c" and "rv_svade c" and "pmp_ok c s"
    and "isa_mmu_check c (data_type store) s \<noteq> MMU_DIRECT"
    and "data_target c s store v = Inr (pa, pb)" and "i < page_rest v"
  shows "data_target c s store (v + of_nat i) = Inr (pa + of_nat i, pb)"
    and "pa AND 0xfff = v AND 0xfff"
proof -
  let ?w = "v + of_nat i"
  note w = page_step [OF assms(6)]
  have t: "fst (isa_mmu_translate_attrs c v (data_type store) s) = Inr (pa, pb)"
    using assms(4,5) by (simp add: data_target_def)
  from mrelD(1) [OF translate_page [OF w(2) assms(2,1)] assms(3,3) refl, of "data_type store"]
  obtain pa' where t': "fst (isa_mmu_translate_attrs c ?w (data_type store) s) = Inr (pa', pb)"
    and r: "page_rel v ?w (pa, pb) (pa', pb)"
    by (cases "fst (isa_mmu_translate_attrs c ?w (data_type store) s)") (auto simp: t page_rel_def)
  from r have "pa' = pa + of_nat i"
    by (intro page_step_eq [OF _ _ _ assms(6)]) (simp_all add: page_rel_def)
  with t' assms(4) show "data_target c s store ?w = Inr (pa + of_nat i, pb)"
    by (simp add: data_target_def)
  from r show "pa AND 0xfff = v AND 0xfff" by (simp add: page_rel_def)
qed

text \<open>Pointer masking only concerns the upper bits.\<close>

lemma pointer_mask_value_bit:
  assumes "n < 64"
  shows "bit (riscv_pointer_mask_value x pmm tr) n =
    (let k = if pmm = 2 then 7 else if pmm = 3 then 16 else 0 in
     if k = 0 \<or> n < 64 - k then bit x n else tr \<and> bit x (63 - k))"
proof -
  have t: "y AND push_bit k 1 \<noteq> 0 \<longleftrightarrow> bit y k" for y :: word_t and k
    by (simp add: push_bit_eq_mult and_exp_eq_0_iff_not_bit)
  show ?thesis
    unfolding riscv_pointer_mask_value_def Let_def t using assms
    by (auto simp: bit_simps)
qed

lemma pointer_mask_if:
  assumes "\<not> b \<Longrightarrow> \<exists>p t. \<forall>x. f x = riscv_pointer_mask_value x p t"
  shows "\<exists>p t. \<forall>x. (if b then x else f x) = riscv_pointer_mask_value x p t"
proof (cases b)
  case True
  have "x = riscv_pointer_mask_value x 0 False" for x by (simp add: riscv_pointer_mask_value_def)
  with True show ?thesis by metis
qed (use assms in simp)

lemma pointer_mask_cases:
  obtains pmm tr where "riscv_pointer_mask c s = (\<lambda>x. riscv_pointer_mask_value x pmm tr)"
proof -
  have "\<exists>pmm tr. \<forall>x. riscv_pointer_mask c s x = riscv_pointer_mask_value x pmm tr"
    unfolding riscv_pointer_mask_def Let_def by (intro pointer_mask_if) (rule exI, rule exI, rule allI, rule refl)
  then show ?thesis using that by (metis ext)
qed

lemma pointer_mask_idem [simp]: "riscv_pointer_mask c s (riscv_pointer_mask c s x) = riscv_pointer_mask c s x"
proof -
  obtain pmm tr where e: "riscv_pointer_mask c s = (\<lambda>x. riscv_pointer_mask_value x pmm tr)"
    by (rule pointer_mask_cases)
  show ?thesis
    unfolding e by (rule bit_word_eqI) (simp add: pointer_mask_value_bit Let_def)
qed

lemma pointer_mask_off: "riscv_pointer_mask c s y AND 0xfff = y AND 0xfff"
proof -
  obtain pmm tr where e: "riscv_pointer_mask c s = (\<lambda>x. riscv_pointer_mask_value x pmm tr)"
    by (rule pointer_mask_cases)
  show ?thesis
    unfolding off_mask e by (rule bit_word_eqI)
      (auto simp: bit_and_iff bit_mask_iff pointer_mask_value_bit Let_def)
qed

lemma pointer_mask_step:
  assumes "i < page_rest x"
  shows "riscv_pointer_mask c s (x + of_nat i) = riscv_pointer_mask c s x + of_nat i"
proof -
  obtain pmm tr where e: "riscv_pointer_mask c s = (\<lambda>x. riscv_pointer_mask_value x pmm tr)"
    by (rule pointer_mask_cases)
  have "drop_bit 12 x = drop_bit 12 (x + of_nat i)"
    using page_step(2) [OF assms] by (simp only: same_page_def)
  then have "bit (drop_bit 12 x) k = bit (drop_bit 12 (x + of_nat i)) k" for k by (rule arg_cong)
  then have "bit x (12 + k) = bit (x + of_nat i) (12 + k)" for k by (simp only: bit_drop_bit_eq o_def)
  then have "bit (x + of_nat i) n = bit x n" if "12 \<le> n" for n
    using that by (metis le_Suc_ex)
  then have "bit (riscv_pointer_mask_value (x + of_nat i) pmm tr) n =
      bit (riscv_pointer_mask_value x pmm tr) n" if "12 \<le> n" "n < 64" for n
    using that by (simp add: pointer_mask_value_bit Let_def)
  then have "bit (drop_bit 12 (riscv_pointer_mask_value x pmm tr)) n =
      bit (drop_bit 12 (riscv_pointer_mask_value (x + of_nat i) pmm tr)) n" for n
    using bit_out64 by (cases "12 + n < 64") (simp_all add: bit_drop_bit_eq o_def)
  then have "same_page (riscv_pointer_mask c s x) (riscv_pointer_mask c s (x + of_nat i))"
    unfolding same_page_def e by (intro bit_word_eqI)
  from page_step_eq [OF this pointer_mask_off pointer_mask_off assms] show ?thesis .
qed

text \<open>The physical address of byte \<open>i\<close> of an access.\<close>

definition data_byte :: "config \<Rightarrow> nemu \<Rightarrow> bool \<Rightarrow> vaddr_t \<Rightarrow> nat \<Rightarrow> mem_exit + paddr_t" where
  "data_byte c s store a i =
     (let v = riscv_pointer_mask c s a in
      if isa_mmu_check c (data_type store) s = MMU_DIRECT then Inr (bare_paddr c v + of_nat i)
      else map_sum id fst (data_target c s store (riscv_pointer_mask c s (v + of_nat i))))"

lemma data_byte_single:
  assumes "kconfig_ok c" and "rv_svade c" and "pmp_ok c s"
    and "data_target c s store (riscv_pointer_mask c s a) = Inr (pa, pb)"
    and "isa_mmu_check c (data_type store) s = MMU_DIRECT \<or> i < page_rest (riscv_pointer_mask c s a)"
  shows "data_byte c s store a i = Inr (pa + of_nat i)"
proof (cases "isa_mmu_check c (data_type store) s = MMU_DIRECT")
  case True
  with assms(4) show ?thesis by (simp add: data_byte_def data_target_def Let_def)
next
  case False
  with assms(5) have i: "i < page_rest (riscv_pointer_mask c s a)" by simp
  from data_target_page(1) [OF assms(1-3) False assms(4) i] False show ?thesis
    by (simp add: data_byte_def Let_def pointer_mask_step [OF i])
qed

lemma page_rest_bounds: "0 < page_rest v" "page_rest v \<le> 4096"
  by (simp_all add: page_rest_def off_unat)

lemma page_rest_next: "page_rest (v + of_nat (page_rest v)) = 4096"
proof -
  let ?n = "page_rest v"
  have n: "?n = 4096 - unat v mod 4096" by (simp add: page_rest_def off_unat)
  have "unat (of_nat ?n :: 64 word) = ?n" using page_rest_bounds(2) [of v] by (simp add: unat_of_nat)
  then have "unat (v + of_nat ?n) mod 4096 = (unat v + ?n) mod 2 ^ 64 mod 4096"
    by (simp add: unat_word_ariths)
  also have "\<dots> = (unat v + ?n) mod 4096" by (rule mod_mod_cancel) simp
  also have "\<dots> = (unat v mod 4096 + ?n) mod 4096" by (simp add: mod_add_left_eq)
  also have "\<dots> = 0" unfolding n by (simp add: less_imp_le)
  finally show ?thesis by (simp add: page_rest_def off_unat)
qed

lemma data_byte_split:
  assumes "kconfig_ok c" and "rv_svade c" and "pmp_ok c s"
    and "isa_mmu_check c (data_type store) s \<noteq> MMU_DIRECT"
    and v: "v = riscv_pointer_mask c s a"
    and lo: "data_target c s store v = Inr (lo, pb)"
    and hi: "data_target c s store (riscv_pointer_mask c s (v + of_nat (page_rest v))) = Inr (hi, pb')"
    and "i < 4096"
  shows "data_byte c s store a i = Inr (split_addr lo hi (page_rest v) i)"
proof (cases "i < page_rest v")
  case True
  with data_byte_single [OF assms(1-3) lo [unfolded v], of i] show ?thesis
    by (simp add: split_addr_def v)
next
  case False
  let ?w = "v + of_nat (page_rest v)" and ?j = "i - page_rest v"
  have j: "?j < page_rest ?w" using assms(8) by (simp add: page_rest_next)
  have "page_rest (riscv_pointer_mask c s ?w) = page_rest ?w"
    by (simp only: page_rest_def pointer_mask_off)
  with j have j': "?j < page_rest (riscv_pointer_mask c s ?w)" by simp
  have "v + of_nat i = ?w + of_nat ?j" using False by (simp add: of_nat_diff)
  then have "riscv_pointer_mask c s (v + of_nat i) = riscv_pointer_mask c s ?w + of_nat ?j"
    by (simp only: pointer_mask_step [OF j])
  with data_target_page(1) [OF assms(1-4) hi j'] False assms(4) show ?thesis
    by (simp add: data_byte_def Let_def v [symmetric] split_addr_def)
qed

lemma mod_add_inj:
  fixes x i j m :: nat
  assumes "(x + i) mod m = (x + j) mod m" and "i < m" and "j < m"
  shows "i = j"
proof -
  have le: "a = b" if "a \<le> b" "b < m" "(x + a) mod m = (x + b) mod m" for a b
  proof -
    have "m dvd (x + b) - (x + a)" using that mod_eq_dvd_iff_nat [of "x + a" "x + b" m] by simp
    then have "m dvd b - a" by simp
    with that show ?thesis using nat_dvd_not_less [of "b - a" m] by fastforce
  qed
  show ?thesis using le [of i j] le [of j i] assms by linarith
qed

lemma data_byte_inj:
  assumes "kconfig_ok c" and "rv_svade c" and "pmp_ok c s" and "n \<le> 4096"
    and f: "\<And>i. i < n \<Longrightarrow> data_byte c s store a i = Inr (f i)"
  shows "inj_on f {..<n}"
proof (rule inj_onI)
  fix i j assume ij: "i \<in> {..<n}" "j \<in> {..<n}" and eq: "f i = f j"
  let ?v = "riscv_pointer_mask c s a"
  show "i = j"
  proof (cases "isa_mmu_check c (data_type store) s = MMU_DIRECT")
    case True
    have "bare_paddr c ?v + of_nat k = f k" if "k < n" for k
      using f [OF that] True by (simp add: data_byte_def Let_def)
    from this [of i] this [of j] have "bare_paddr c ?v + of_nat i = bare_paddr c ?v + of_nat j"
      using ij eq by simp
    then have "(of_nat i :: 64 word) = of_nat j" by (simp only: add_left_cancel)
    then have "unat (of_nat i :: 64 word) = unat (of_nat j :: 64 word)" by simp
    then show ?thesis using ij assms(4) by (simp add: unat_of_nat)
  next
    case False
    have off: "f k AND 0xfff = (?v + of_nat k) AND 0xfff" if k: "k < n" for k
    proof -
      let ?w = "riscv_pointer_mask c s (?v + of_nat k)"
      obtain pb where "data_target c s store ?w = Inr (f k, pb)"
        using f [OF k] False by (cases "data_target c s store ?w") (auto simp: data_byte_def Let_def)
      from data_target_page(2) [OF assms(1-3) False _ page_rest_bounds(1)] this show ?thesis
        by (simp only: pointer_mask_off)
    qed
    have u: "unat ((?v + of_nat k) AND 0xfff) = (unat ?v + k) mod 4096" if "k < n" for k
    proof -
      have "unat (of_nat k :: 64 word) = k" using that assms(4) by (simp add: unat_of_nat)
      then have "unat (?v + of_nat k) mod 4096 = (unat ?v + k) mod 2 ^ 64 mod 4096"
        by (simp add: unat_word_ariths)
      also have "\<dots> = (unat ?v + k) mod 4096" by (rule mod_mod_cancel) simp
      finally show ?thesis by (simp only: off_unat)
    qed
    have "(unat ?v + i) mod 4096 = (unat ?v + j) mod 4096"
      using u [of i] u [of j] off [of i] off [of j] ij eq by simp
    then show ?thesis using ij assms(4) by (intro mod_add_inj [of "unat ?v" i 4096 j]) simp_all
  qed
qed

section \<open>Stores of a span and of bytes\<close>

text \<open>In the memory map with gaps, the bytes of an access are memory together or not at all.\<close>

lemma region_between:
  assumes "memory_map_ok c" and "unat a \<le> unat x" and "unat x \<le> unat b"
  shows "in_pmem c a \<Longrightarrow> in_pmem c b \<Longrightarrow> in_pmem c x" and "in_rom c a \<Longrightarrow> in_rom c b \<Longrightarrow> in_rom c x"
    and "in_sram a \<Longrightarrow> in_sram b \<Longrightarrow> in_sram x" and "in_mrom a \<Longrightarrow> in_mrom b \<Longrightarrow> in_mrom x"
    and "in_flash c a \<Longrightarrow> in_flash c b \<Longrightarrow> in_flash c x" and "in_sdram c a \<Longrightarrow> in_sdram c b \<Longrightarrow> in_sdram c x"
  unfolding in_pmem_unat [OF assms(1)] region_unat using assms(2,3) by (auto split: if_splits)

lemma memory_span_bytes:
  assumes "memory_map_ok c" and "paddr_is_memory_span c a n" and "n \<le> 2 ^ 63" and "i < n"
  shows "paddr_is_memory_span c (a + of_nat i) 1"
proof -
  have n: "0 < n" and w: "\<not> a + of_nat n - 1 < a"
    and r: "in_pmem c a \<and> in_pmem c (a + of_nat n - 1) \<or> in_rom c a \<and> in_rom c (a + of_nat n - 1) \<or>
      in_sram a \<and> in_sram (a + of_nat n - 1) \<or> in_mrom a \<and> in_mrom (a + of_nat n - 1) \<or>
      in_flash c a \<and> in_flash c (a + of_nat n - 1) \<or> in_sdram c a \<and> in_sdram c (a + of_nat n - 1)"
    using assms(2) by (auto simp: paddr_is_memory_span_def Let_def split: if_splits)
  note l = span_last [OF n assms(3) w]
  have u: "unat (a + of_nat i) = unat a + i" using span_byte [OF l(2) assms(4)] by blast
  have m: "unat a \<le> unat (a + of_nat i)" "unat (a + of_nat i) \<le> unat (a + of_nat n - 1)"
    using assms(4) by (simp_all only: u l(1))
  from r region_between [OF assms(1) m] show ?thesis unfolding span1_iff by blast
qed

lemma io_not_memory:
  assumes "memory_map_gap c" and "ref_paddr_is_io a" and "i < 8"
  shows "\<not> paddr_is_memory_span c (a + of_nat i) 1"
proof -
  note ok = memory_map_gapD(1) [OF assms(1)] and rm = memory_map_gapD(2) [OF assms(1)]
  have io: "unat a < 0x11008100" "unat a < 0x0f000000 - 8 \<or> 0x10000000 \<le> unat a"
    using assms(2) by (auto simp: ref_io_unat)
  then have u: "unat (a + of_nat i) = unat a + i"
    using assms(3) by (intro span_byte(1) [of a 8]) simp_all
  have "0x70000000 \<le> unat (mbase c)" using ok by (simp add: memory_map_ok_def)
  with io assms(3) show ?thesis
    unfolding span1_iff in_pmem_unat [OF ok] region_unat u eqTrueI [OF rm] by (elim disjE; simp)
qed

lemma data_pma_uniform:
  assumes "memory_map_gap c" and "n \<le> 8" and "data_pma_ok c pa n store" and "i < n"
  shows "paddr_is_memory_span c (pa + of_nat i) 1 = paddr_is_memory_span c pa n"
proof (cases "paddr_is_memory_span c pa n")
  case True
  have "n \<le> 2 ^ 63" using assms(2) by simp
  from memory_span_bytes [OF memory_map_gapD(1) [OF assms(1)] True this assms(4)] True show ?thesis by simp
next
  case False
  with data_pma_span_or_io(1) [OF assms(1-3)] have "ref_paddr_is_io pa" by (simp add: span_or_io_def)
  with io_not_memory [OF assms(1) this, of i] False assms show ?thesis by simp
qed

text \<open>
  Byte \<open>i\<close> of \<open>d\<close> is at \<open>f i\<close> in the memory \<open>m'\<close> if \<open>f i\<close> is memory at all (a device of the
  reference target takes the byte without effect), and everything else is as in \<open>m\<close>.
\<close>

definition bytes_stored ::
    "config \<Rightarrow> (nat \<Rightarrow> paddr_t) \<Rightarrow> nat set \<Rightarrow> word_t \<Rightarrow> (paddr_t \<Rightarrow> uint8_t) \<Rightarrow> (paddr_t \<Rightarrow> uint8_t) \<Rightarrow> bool" where
  "bytes_stored c f I d m m' \<longleftrightarrow>
     (\<forall>i\<in>I. m' (f i) = (if paddr_is_memory_span c (f i) 1 then ucast (drop_bit (8 * i) d) else m (f i))) \<and>
     (\<forall>x. x \<notin> f ` I \<longrightarrow> m' x = m x)"

text \<open>A store changes memory and may drop the reservation.\<close>

definition store_frame :: "nemu \<Rightarrow> nemu \<Rightarrow> bool" where
  "store_frame s t \<longleftrightarrow> s\<lparr>phys := phys t, cpu := cpu t\<rparr> = t \<and>
     (cpu t = cpu s \<or> cpu t = (cpu s)\<lparr>cpu_reservation := 0, cpu_reservation_bytes := 0\<rparr>)"

lemma store_frame_trans: "store_frame s t \<Longrightarrow> store_frame t u \<Longrightarrow> store_frame s u"
  by (cases s; cases t; cases u) (auto simp: store_frame_def)

lemma drop_reservation_frame: "store_frame s (drop_reservation a (s\<lparr>phys := m\<rparr>))"
  by (cases s) (simp add: store_frame_def drop_reservation_def set_reservation_def)

lemma drop_reservation_phys [simp]: "phys (drop_reservation a s) = phys s"
  by (simp add: drop_reservation_def set_reservation_def)

lemma write_span_stored:
  assumes "memory_map_gap c" and "n \<le> 8" and "host_len n" and "data_pma_ok c pa n True"
  obtains m where "paddr_write c pa n d s = (Inr (), s\<lparr>phys := m\<rparr>)"
    and "bytes_stored c (\<lambda>i. pa + of_nat i) {..<n} d (phys s) m"
proof -
  note b = data_pma_span_or_io [OF assms(1,2,4)]
  note u = data_pma_uniform [OF assms(1,2,4)]
  let ?m = "if paddr_is_memory_span c pa n then store_bytes (phys s) pa n d else phys s"
  have "paddr_write c pa n d s = (Inr (), s\<lparr>phys := ?m\<rparr>)"
    using paddr_write_cases [OF assms(3) b(1) b(2) [OF TrueI]] by simp
  moreover have "bytes_stored c (\<lambda>i. pa + of_nat i) {..<n} d (phys s) ?m"
    unfolding bytes_stored_def
  proof (intro conjI ballI allI impI)
    fix i assume "i \<in> {..<n}"
    with u [of i] assms(2) show "?m (pa + of_nat i) = (if paddr_is_memory_span c (pa + of_nat i) 1
        then ucast (drop_bit (8 * i) d) else phys s (pa + of_nat i))"
      by (simp add: store_bytes_nth)
  next
    fix x assume "x \<notin> (\<lambda>i. pa + of_nat i) ` {..<n}"
    then have "store_bytes (phys s) pa n d x = phys s x" by (intro store_bytes_other) auto
    then show "?m x = phys s x" by simp
  qed
  ultimately show ?thesis by (rule that)
qed

lemma write_byte_cases:
  assumes "span_or_io c a 1" and "\<not> paddr_is_readonly c a"
  shows "paddr_write c a 1 b s = (Inr (),
    s\<lparr>phys := (if paddr_is_memory_span c a 1 then (phys s)(a := ucast b) else phys s)\<rparr>)"
  using paddr_write_cases [OF host_len_pte(1) assms(1,2)] by simp

lemma write_split_stored:
  assumes "\<And>i. i \<in> set js \<Longrightarrow> span_or_io c (f i) 1 \<and> \<not> paddr_is_readonly c (f i)"
    and "distinct js" and "inj_on f (set js)"
  shows "\<exists>t. write_split c f js d s = (Inr (), t) \<and> store_frame s t \<and>
    bytes_stored c f (set js) d (phys s) (phys t)"
  using assms
proof (induction js arbitrary: s)
  case Nil
  show ?case by (rule exI [of _ s]) (cases s; simp add: store_frame_def bytes_stored_def)
next
  case (Cons i js)
  let ?m = "if paddr_is_memory_span c (f i) 1
    then (phys s)(f i := ucast (drop_bit (8 * i) d AND 0xff)) else phys s"
  let ?s1 = "drop_reservation (f i) (s\<lparr>phys := ?m\<rparr>)"
  have w: "paddr_write c (f i) 1 (drop_bit (8 * i) d AND 0xff) s = (Inr (), s\<lparr>phys := ?m\<rparr>)"
    using Cons.prems(1) [of i] by (intro write_byte_cases) simp_all
  obtain t where t: "write_split c f js d ?s1 = (Inr (), t)" "store_frame ?s1 t"
    "bytes_stored c f (set js) d (phys ?s1) (phys t)"
    using Cons.IH [of ?s1] Cons.prems by auto
  have "write_split c f (i # js) d s = (Inr (), t)"
    using t(1) by (simp add: mseq_app w [unfolded One_nat_def])
  moreover have "store_frame s t"
    using store_frame_trans [OF drop_reservation_frame t(2)] .
  moreover have "f i \<notin> f ` set js" using Cons.prems(2,3) by (auto simp: inj_on_def)
  then have "bytes_stored c f (set (i # js)) d (phys s) (phys t)"
    using t(3) Cons.prems(2,3) unfolding bytes_stored_def by (auto simp: ucast_low_byte)
  ultimately show ?case by blast
qed

section \<open>The steps of an access\<close>

text \<open>A step from a state that agrees with \<open>s\<close>: a fault, or a checked piece.\<close>

lemma piece_step:
  assumes "kconfig_ok c" and "rv_svade c" and "memory_map_ok c" and "n \<le> 2 ^ 63"
    and "pmp_ok c s" and "pmp_ok c u" and "scrub u = scrub s"
  obtains cause t where "checked_data_piece c x n store misal ol u = (Inl (Mem_fault cause), t)"
      and "scrub t = scrub s" and "pmp_ok c t"
    | pa pb t where "checked_data_piece c x n store misal ol u = (Inr pa, t)"
      and "scrub t = scrub s" and "pmp_ok c t"
      and "data_target c s store (riscv_pointer_mask c s x) = Inr (pa, pb)"
      and "data_granted c s store pa n"
proof -
  obtain r t where run: "checked_data_piece_attrs c x n store misal ol u = (r, t)" by fastforce
  note p = mpureD [OF mpure_piece_attrs [OF assms(1-4)] assms(6) run]
  have st: "scrub t = scrub s" using p(1) assms(7) by simp
  show ?thesis
  proof (cases r)
    case (Inl e)
    have "e \<noteq> Mem_panic"
      using no_panicD [OF no_panic_piece [OF assms(2-4)], of x store misal ol u] run Inl by simp
    then obtain cause where "e = Mem_fault cause" by (cases e) simp_all
    with run Inl show ?thesis by (intro that(1) [OF _ st p(2)]) (simp add: checked_data_piece_def)
  next
    case (Inr q)
    obtain pa pb where q: "q = (pa, pb)" by (cases q)
    note g = checked_piece_granted [OF assms(1-4,6) run [unfolded Inr q]]
    have "data_target c s store (riscv_pointer_mask c s x) = Inr (pa, pb)"
      using g(1) unfolding scrub_views(6) [OF assms(7)] data_target_cong [OF assms(1,2,5,6,7)] .
    moreover have "data_granted c s store pa n" using g(2) unfolding data_granted_cong [OF assms(7)] .
    ultimately show ?thesis
      using run Inr q by (intro that(2) [OF _ st p(2)]) (simp_all add: checked_data_piece_def)
  qed
qed

text \<open>The path through a TLB: translation and checks up to the access \<open>m\<close>.\<close>

definition data_tlb :: "bool \<Rightarrow> tlb_table" where
  "data_tlb store = (if store then Tlb_store else Tlb_load)"

lemma data_tlb_type: "tlb_type (data_tlb store) = data_type store"
  by (simp add: data_tlb_def tlb_type_def data_type_def)

definition data_access ::
    "config \<Rightarrow> bool \<Rightarrow> vaddr_t \<Rightarrow> bool \<Rightarrow> bool \<Rightarrow> nat \<Rightarrow> nat \<Rightarrow> (paddr_t \<Rightarrow> 'a mem) \<Rightarrow> 'a mem" where
  "data_access c store v mmu_on misal ol n m =
     mbind (tlb_translate c (data_tlb store) (data_type store) v) (\<lambda>(pa, pbmt).
       mseq (check_data_type c pa pbmt misal store ol)
         (mseq (check_data_pma c pa n store) (mseq (data_pmp_check c mmu_on v pa n store) (m pa))))"

lemma access_step:
  assumes "kconfig_ok c" and "rv_svade c" and "memory_map_ok c" and "n \<le> 2 ^ 63"
    and "pmp_ok c s" and "tlb_coherent c s"
  obtains cause t where "data_access c store v mmu_on misal ol n m s = (Inl (Mem_fault cause), t)"
      and "scrub t = scrub s" and "pmp_ok c t"
    | pa pb u where "data_access c store v mmu_on misal ol n m s = m pa u"
      and "scrub u = scrub s" and "pmp_ok c u"
      and "data_target c s store v = Inr (pa, pb)" and "data_granted c s store pa n"
proof -
  obtain r t where tr: "tlb_translate c (data_tlb store) (data_type store) v s = (r, t)" by fastforce
  note k = tlb_translate_ok [OF assms(1,2,5) tr [folded data_tlb_type]]
  have r: "r = data_target c s store v"
    using k(5) [OF assms(6)] by (simp add: data_target_def data_tlb_type)
  show ?thesis
  proof (cases r)
    case (Inl e)
    have "e \<noteq> Mem_panic"
      using no_panicD [OF no_panic_translate [OF assms(2)], of v "data_type store" s] r Inl
      by (auto simp: data_target_def split: if_splits)
    then obtain cause where "e = Mem_fault cause" by (cases e) simp_all
    with tr Inl k(1,2) show ?thesis by (intro that(1)) (simp_all add: data_access_def)
  next
    case (Inr q)
    obtain pa pb where q: "q = (pa, pb)" by (cases q)
    let ?chk = "mseq (check_data_type c pa pb misal store ol) (mseq (check_data_pma c pa n store)
      (mseq (data_pmp_check c mmu_on v pa n store) (mret ())))"
    obtain z u where z: "?chk t = (z, u)" by fastforce
    have pure: "mpure c ?chk" by (intro mpures assms)
    note p = mpureD [OF pure k(2) z]
    have run: "data_access c store v mmu_on misal ol n m s = mseq ?chk (m pa) t"
      by (simp add: data_access_def tr Inr q mseq_def mbind_assoc)
    have su: "scrub u = scrub s" using p(1) k(1) by simp
    show ?thesis
    proof (cases z)
      case (Inl e)
      have "no_panic ?chk" by (intro no_panics assms)
      then have "e \<noteq> Mem_panic" using no_panicD [of ?chk t] z Inl by simp
      then obtain cause where "e = Mem_fault cause" by (cases e) simp_all
      with z Inl run su p(2) show ?thesis by (intro that(1)) (simp_all add: mseq_app)
    next
      case (Inr w)
      have "check_data_type c pa pb misal store ol t = (Inr (), t)"
        using z Inr by (auto simp: mseq_eq_Inr check_data_type_def Let_def split: if_splits)
      with z Inr have "mseq (check_data_pma c pa n store)
          (mseq (data_pmp_check c mmu_on v pa n store) (mret ())) t = (Inr w, u)"
        by (subst (asm) mseq_app) simp
      then have "data_granted c t store pa n" by (rule data_check_granted [OF assms(1,3,4) k(2)])
      then have "data_granted c s store pa n" by (simp add: data_granted_cong [OF k(1)])
      moreover have "data_access c store v mmu_on misal ol n m s = m pa u"
        using z Inr run by (simp add: mseq_app)
      moreover have "data_target c s store v = Inr (pa, pb)" using r \<open>r = Inr q\<close> q by simp
      ultimately show ?thesis using su p(2) by (intro that(2))
    qed
  qed
qed

section \<open>Stores and loads\<close>

lemma tlb_coherent_cong:
  assumes "kconfig_ok c" and "rv_svade c" and "pmp_ok c s" and "pmp_ok c t" and "scrub t = scrub s"
    and "tlbs t = tlbs s" and "tlb_coherent c s"
  shows "tlb_coherent c t"
  using assms(7) mpureD(3) [OF mpure_translate [OF assms(1,2)] assms(3) prod.collapse [symmetric] assms(4,5)]
  by (simp add: tlb_coherent_def assms(6))

lemma set_g_vaddr_ok:
  assumes "pmp_ok c s"
  shows "pmp_ok c (set_g_vaddr v s)" and "tlbs (set_g_vaddr v s) = tlbs s"
  using assms pmp_ok_cong [OF scrub_fields(6) [OF set_g_vaddr_same(1)] set_g_vaddr_same(2), of c v s]
  by simp_all (simp add: set_g_vaddr_def)

lemma store_frame_pmp: "store_frame s t \<Longrightarrow> pmp_ok c t = pmp_ok c s"
proof (rule pmp_ok_cong)
  assume f: "store_frame s t"
  then have c: "cpu_sr (cpu t) = cpu_sr (cpu s)" by (auto simp: store_frame_def)
  then show "sr t = sr s" by (simp add: sr_def fun_eq_iff)
  from f have "pmpu (s\<lparr>phys := phys t, cpu := cpu t\<rparr>) = pmpu t" by (simp only: store_frame_def)
  then show "pmpu t = pmpu s" by simp
qed

lemma bytes_stored_cong:
  assumes "bytes_stored c g I d m m'" and "\<And>i. i \<in> I \<Longrightarrow> f i = g i"
  shows "bytes_stored c f I d m m'"
proof -
  have "f ` I = g ` I" using assms(2) by (rule image_cong [OF refl])
  with assms show ?thesis by (simp add: bytes_stored_def)
qed

text \<open>The bytes of an access: distinct, where the translation puts them, and each one granted.\<close>

definition data_bytes :: "config \<Rightarrow> nemu \<Rightarrow> bool \<Rightarrow> vaddr_t \<Rightarrow> nat \<Rightarrow> (nat \<Rightarrow> paddr_t) \<Rightarrow> bool" where
  "data_bytes c s store a n f \<longleftrightarrow> inj_on f {..<n} \<and>
     (\<forall>i<n. data_byte c s store a i = Inr (f i) \<and> data_granted c s store (f i) 1)"

lemma data_bytesI:
  assumes "kconfig_ok c" and "rv_svade c" and "pmp_ok c s" and "n \<le> 4096"
    and "\<And>i. i < n \<Longrightarrow> data_byte c s store a i = Inr (f i)"
    and "\<And>i. i < n \<Longrightarrow> data_granted c s store (f i) 1"
  shows "data_bytes c s store a n f"
  using data_byte_inj [OF assms(1-5)] assms(5,6) by (simp add: data_bytes_def)

lemma data_bytes_ok:
  assumes "memory_map_gap c" and "data_bytes c s store a n f" and "i < n"
  shows "span_or_io c (f i) 1" and "store \<Longrightarrow> \<not> paddr_is_readonly c (f i)"
proof -
  from assms(2,3) have "data_pma_ok c (f i) 1 store" by (simp add: data_bytes_def data_granted_def)
  from data_pma_span_or_io(1) [OF assms(1) _ this] data_pma_span_or_io(4) [OF assms(1) _ this, of 0]
  show "span_or_io c (f i) 1" and "store \<Longrightarrow> \<not> paddr_is_readonly c (f i)" by simp_all
qed

text \<open>An access that crosses a page boundary under translation.\<close>

lemma split_step:
  assumes kc: "kconfig_ok c" and sv: "rv_svade c" and mo: "memory_map_ok c" and n: "n \<le> 8"
    and s: "pmp_ok c s" and u: "pmp_ok c u" "scrub u = scrub s"
    and v: "v = riscv_pointer_mask c s a" and k: "page_rest v < n"
    and on: "isa_mmu_check c (data_type store) s \<noteq> MMU_DIRECT"
    and run: "run = mbind (checked_data_piece c v (page_rest v) store misal n) (\<lambda>lo.
      mbind (checked_data_piece c (v + of_nat (page_rest v)) (n - page_rest v) store misal n) (m lo)) u"
  obtains cause t where "run = (Inl (Mem_fault cause), t)" and "scrub t = scrub s" and "pmp_ok c t"
    | lo hi t where "run = m lo hi t" and "scrub t = scrub s" and "pmp_ok c t"
      and "data_bytes c s store a n (split_addr lo hi (page_rest v))"
proof -
  let ?k = "page_rest v"
  have b: "?k \<le> 2 ^ 63" "n - ?k \<le> 2 ^ 63" using k n by simp_all
  show ?thesis
  proof (rule piece_step [OF kc sv mo b(1) s u, of v store misal n])
    fix cause t assume "checked_data_piece c v ?k store misal n u = (Inl (Mem_fault cause), t)"
      "scrub t = scrub s" "pmp_ok c t"
    then show ?thesis by (intro that(1)) (simp_all add: run)
  next
    fix lo pb t1
    assume 1: "checked_data_piece c v ?k store misal n u = (Inr lo, t1)" "scrub t1 = scrub s"
      "pmp_ok c t1" "data_target c s store (riscv_pointer_mask c s v) = Inr (lo, pb)"
      "data_granted c s store lo ?k"
    show ?thesis
    proof (rule piece_step [OF kc sv mo b(2) s 1(3,2), of "v + of_nat ?k" store misal n])
      fix cause t assume "checked_data_piece c (v + of_nat ?k) (n - ?k) store misal n t1 =
          (Inl (Mem_fault cause), t)" "scrub t = scrub s" "pmp_ok c t"
      then show ?thesis by (intro that(1)) (simp_all add: run 1)
    next
      fix hi pb' t2
      assume 2: "checked_data_piece c (v + of_nat ?k) (n - ?k) store misal n t1 = (Inr hi, t2)"
        "scrub t2 = scrub s" "pmp_ok c t2"
        "data_target c s store (riscv_pointer_mask c s (v + of_nat ?k)) = Inr (hi, pb')"
        "data_granted c s store hi (n - ?k)"
      have "data_byte c s store a i = Inr (split_addr lo hi ?k i)" if "i < n" for i
        using 1(4) 2(4) that n v by (intro data_byte_split [OF kc sv s on v]) simp_all
      moreover have "data_granted c s store (split_addr lo hi ?k i) 1" if "i < n" for i
      proof (cases "i < ?k")
        case True
        with data_granted_byte [OF 1(5) True b(1)] show ?thesis by (simp add: split_addr_def)
      next
        case False
        with that data_granted_byte [OF 2(5) _ b(2), of "i - ?k"] show ?thesis by (simp add: split_addr_def)
      qed
      ultimately have "data_bytes c s store a n (split_addr lo hi ?k)"
        using n by (intro data_bytesI [OF kc sv s]) simp_all
      with 1 2 show ?thesis by (intro that(2) [of lo hi t2]) (simp_all add: run)
    qed
  qed
qed

text \<open>An access within a page, or in Bare mode.\<close>

lemma single_step:
  assumes kc: "kconfig_ok c" and sv: "rv_svade c" and mo: "memory_map_ok c" and n: "n \<le> 8"
    and s: "pmp_ok c s" and u: "pmp_ok c u" "scrub u = scrub s" "tlb_coherent c u"
    and v: "v = riscv_pointer_mask c s a"
    and single: "n \<le> page_rest v \<or> isa_mmu_check c (data_type store) s = MMU_DIRECT"
    and run: "run = data_access c store v mmu_on misal n n m u"
  obtains cause t where "run = (Inl (Mem_fault cause), t)" and "scrub t = scrub s" and "pmp_ok c t"
    | pa t where "run = m pa t" and "scrub t = scrub s" and "pmp_ok c t"
      and "data_bytes c s store a n (\<lambda>i. pa + of_nat i)" and "data_pma_ok c pa n store"
proof -
  have b: "n \<le> 2 ^ 63" using n by simp
  show ?thesis
  proof (rule access_step [OF kc sv mo b u(1,3), of store v mmu_on misal n m])
    fix cause t assume "data_access c store v mmu_on misal n n m u = (Inl (Mem_fault cause), t)"
      "scrub t = scrub u" "pmp_ok c t"
    then show ?thesis by (intro that(1)) (simp_all add: run u)
  next
    fix pa pb t
    assume 1: "data_access c store v mmu_on misal n n m u = m pa t" "scrub t = scrub u"
      "pmp_ok c t" "data_target c u store v = Inr (pa, pb)" "data_granted c u store pa n"
    have tg: "data_target c s store (riscv_pointer_mask c s a) = Inr (pa, pb)"
      using 1(4) unfolding data_target_cong [OF kc sv s u(1,2)] v .
    have g: "data_granted c s store pa n" using 1(5) unfolding data_granted_cong [OF u(2)] .
    have "data_byte c s store a i = Inr (pa + of_nat i)" if "i < n" for i
      using single that by (intro data_byte_single [OF kc sv s tg]) (auto simp: v)
    then have "data_bytes c s store a n (\<lambda>i. pa + of_nat i)"
      using n data_granted_byte [OF g _ b] by (intro data_bytesI [OF kc sv s]) simp_all
    then show ?thesis
      using 1(1,2,3) g u(2) by (intro that(2) [of pa t]) (simp_all add: run data_granted_def)
  qed
qed

text \<open>The state after the address has been recorded.\<close>

lemma recorded:
  assumes "kconfig_ok c" and "rv_svade c" and "pmp_ok c s" and "tlb_coherent c s"
  shows "pmp_ok c (set_g_vaddr v s)" and "scrub (set_g_vaddr v s) = scrub s"
    and "tlb_coherent c (set_g_vaddr v s)"
    and "isa_mmu_check c ty (set_g_vaddr v s) = isa_mmu_check c ty s"
  using set_g_vaddr_ok [OF assms(3)] tlb_coherent_cong [OF assms(1-3)] assms(4)
    scrub_views(5) [OF set_g_vaddr_same(1), of c ty v s] by simp_all

lemma vaddr_write_run:
  assumes kc: "kconfig_ok c" and sv: "rv_svade c" and gap: "memory_map_gap c" and s: "pmp_ok c s"
    and coh: "tlb_coherent c s" and len: "host_len n"
  obtains cause t where "vaddr_write c a n d s = (Inl (Mem_fault cause), t)"
      and "scrub t = scrub s" and "pmp_ok c t"
    | f u t where "vaddr_write c a n d s = (Inr (), t)" and "scrub u = scrub s" and "pmp_ok c t"
      and "data_bytes c s True a n f" and "bytes_stored c f {..<n} d (phys s) (phys t)"
      and "store_frame u t"
proof -
  define v where v: "v = riscv_pointer_mask c s a"
  let ?s = "set_g_vaddr v s" and ?k = "page_rest v"
  let ?on = "isa_mmu_check c MEM_TYPE_WRITE s \<noteq> MMU_DIRECT"
  note mo = memory_map_gapD(1) [OF gap] and r = recorded [OF kc sv s coh]
  have n: "n \<le> 8" using len by (auto simp: host_len_def)
  show ?thesis
  proof (cases "?k < n \<and> ?on")
    case True
    let ?m = "\<lambda>lo hi. mseq (write_split c (split_addr lo hi ?k) [0..<n] d) (mmodify (set_g_vaddr v))"
    have eq: "vaddr_write c a n d s = mbind (checked_data_piece c v ?k True True n) (\<lambda>lo.
        mbind (checked_data_piece c (v + of_nat ?k) (n - ?k) True True n) (?m lo)) ?s"
      using True by (simp add: vaddr_write_def mseq_app Let_def v [symmetric] r(4))
    show ?thesis
    proof (rule split_step [OF kc sv mo n s r(1,2) v _ _ eq])
      fix lo hi t
      assume 1: "vaddr_write c a n d s = ?m lo hi t" "scrub t = scrub s" "pmp_ok c t"
        "data_bytes c s True a n (split_addr lo hi ?k)"
      obtain w where w: "write_split c (split_addr lo hi ?k) [0..<n] d t = (Inr (), w)"
        "store_frame t w" "bytes_stored c (split_addr lo hi ?k) {..<n} d (phys t) (phys w)"
        using write_split_stored [of "[0..<n]" c "split_addr lo hi ?k" d t]
          data_bytes_ok [OF gap 1(4)] 1(4) by (auto simp: atLeast0LessThan data_bytes_def)
      have fr: "store_frame (set_g_vaddr v t) (set_g_vaddr v w)"
        using w(2) by (cases t; cases w) (auto simp: store_frame_def set_g_vaddr_def)
      show ?thesis
        by (rule that(2) [OF _ _ _ 1(4) _ fr])
          (use 1 w scrub_fields(2) [OF 1(2)] store_frame_pmp [OF fr, of c] set_g_vaddr_ok(1) [OF 1(3)]
            in \<open>simp_all add: mseq_app\<close>, simp add: set_g_vaddr_def)
    qed (use True that(1) in \<open>simp_all add: data_type_def\<close>)
  next
    case False
    let ?m = "\<lambda>pa. mseq (paddr_write c pa n d) (mmodify (drop_reservation pa))"
    have eq: "vaddr_write c a n d s = data_access c True v ?on (misaligned v n) n n ?m ?s"
      using False by (auto simp: vaddr_write_def mseq_app Let_def data_access_def data_tlb_def
          data_type_def v [symmetric] r(4))
    show ?thesis
    proof (rule single_step [OF kc sv mo n s r(1-3) v _ eq])
      fix pa t
      assume 1: "vaddr_write c a n d s = ?m pa t" "scrub t = scrub s" "pmp_ok c t"
        "data_bytes c s True a n (\<lambda>i. pa + of_nat i)" "data_pma_ok c pa n True"
      obtain m where m: "paddr_write c pa n d t = (Inr (), t\<lparr>phys := m\<rparr>)"
        "bytes_stored c (\<lambda>i. pa + of_nat i) {..<n} d (phys t) m"
        by (rule write_span_stored [OF gap n len 1(5)])
      have fr: "store_frame t (drop_reservation pa (t\<lparr>phys := m\<rparr>))" by (rule drop_reservation_frame)
      show ?thesis
        by (rule that(2) [OF _ _ _ 1(4) _ fr])
          (use 1 m scrub_fields(2) [OF 1(2)] store_frame_pmp [OF fr, of c] in \<open>simp_all add: mseq_app\<close>)
    qed (use False that(1) in \<open>auto simp: data_type_def\<close>)
  qed
qed

section \<open>Loads\<close>

text \<open>Byte \<open>i\<close> of the value is the byte at \<open>f i\<close>; a device of the reference target reads as zero.\<close>

definition bytes_loaded :: "config \<Rightarrow> (nat \<Rightarrow> paddr_t) \<Rightarrow> nat \<Rightarrow> (paddr_t \<Rightarrow> uint8_t) \<Rightarrow> word_t \<Rightarrow> bool" where
  "bytes_loaded c f n m v \<longleftrightarrow> take_bit (8 * n) v = v \<and>
     (\<forall>i<n. ucast (drop_bit (8 * i) v) = (if paddr_is_memory_span c (f i) 1 then m (f i) else 0))"

lemma bytes_loadedI:
  assumes "n \<le> 8"
    and "\<And>k. bit v k \<longleftrightarrow> k < 64 \<and> k < 8 * n \<and>
      paddr_is_memory_span c (f (k div 8)) 1 \<and> bit (m (f (k div 8))) (k mod 8)"
  shows "bytes_loaded c f n m v"
  unfolding bytes_loaded_def
proof (intro conjI allI impI)
  show "take_bit (8 * n) v = v"
  proof (rule bit_word_eqI)
    fix k show "bit (take_bit (8 * n) v) k = bit v k" by (auto simp: bit_take_bit_iff assms(2) [of k])
  qed
next
  fix i assume i: "i < n"
  show "ucast (drop_bit (8 * i) v) = (if paddr_is_memory_span c (f i) 1 then m (f i) else 0)"
  proof (rule bit_word_eqI)
    fix k assume "k < LENGTH(8)"
    then have k: "k < 8" by simp
    then have "(8 * i + k) div 8 = i" "(8 * i + k) mod 8 = k" "8 * i + k < 8 * n" "8 * i + k < 64"
      using i assms(1) by simp_all
    then show "bit (ucast (drop_bit (8 * i) v) :: uint8_t) k =
        bit (if paddr_is_memory_span c (f i) 1 then m (f i) else 0) k"
      using k assms(2) [of "8 * i + k"] by (simp add: bit_simps)
  qed
qed

lemma read_span_loaded:
  assumes "memory_map_gap c" and "n \<le> 8" and "host_len n" and "data_pma_ok c pa n store"
  obtains v where "paddr_read c pa n s = (Inr v, s)"
    and "bytes_loaded c (\<lambda>i. pa + of_nat i) n (phys s) v"
proof -
  note u = data_pma_uniform [OF assms(1,2,4)]
  let ?v = "if paddr_is_memory_span c pa n then load_bytes (phys s) pa n else 0"
  have "bytes_loaded c (\<lambda>i. pa + of_nat i) n (phys s) ?v"
  proof (rule bytes_loadedI [OF assms(2)])
    fix k
    show "bit ?v k \<longleftrightarrow> k < 64 \<and> k < 8 * n \<and> paddr_is_memory_span c (pa + of_nat (k div 8)) 1 \<and>
        bit (phys s (pa + of_nat (k div 8))) (k mod 8)"
      using u [of "k div 8"] by (auto simp: bit_load_bytes less_mult_imp_div_less mult.commute)
  qed
  with paddr_read_cases [OF assms(3) data_pma_span_or_io(1) [OF assms(1,2,4)], of s] show ?thesis
    by (intro that)
qed

lemma read_split_value:
  assumes "\<And>i. i \<in> set js \<Longrightarrow> span_or_io c (f i) 1"
  shows "read_split c f js v s = (Inr (fold (\<lambda>i w. w OR push_bit (8 * i)
    (if paddr_is_memory_span c (f i) 1 then ucast (phys s (f i)) else 0)) js v), s)"
  using assms
proof (induction js arbitrary: v)
  case (Cons i js)
  have "paddr_read c (f i) 1 s =
      (Inr (if paddr_is_memory_span c (f i) 1 then ucast (phys s (f i)) else 0), s)"
    using paddr_read_cases [OF host_len_pte(1), of c "f i" s] Cons.prems [of i] by simp
  with Cons show ?case by (simp del: One_nat_def)
qed simp

lemma bit_or_fold:
  fixes v :: "'a::len word"
  shows "bit (fold (\<lambda>i w. w OR g i) js v) k \<longleftrightarrow> bit v k \<or> (\<exists>i\<in>set js. bit (g i) k)"
  by (induction js arbitrary: v) (auto simp: bit_or_iff)

lemma read_split_loaded:
  assumes "n \<le> 8" and "\<And>i. i < n \<Longrightarrow> span_or_io c (f i) 1"
  obtains v where "read_split c f [0..<n] 0 s = (Inr v, s)" and "bytes_loaded c f n (phys s) v"
proof -
  let ?g = "\<lambda>i. push_bit (8 * i)
    (if paddr_is_memory_span c (f i) 1 then ucast (phys s (f i)) else 0) :: word_t"
  have "bytes_loaded c f n (phys s) (fold (\<lambda>i w. w OR ?g i) [0..<n] 0)"
  proof (rule bytes_loadedI [OF assms(1)])
    fix k
    have g: "bit (?g i) k \<longleftrightarrow> i = k div 8 \<and> k < 64 \<and> paddr_is_memory_span c (f i) 1 \<and>
        bit (phys s (f i)) (k mod 8)" for i
    proof (cases "8 * i \<le> k \<and> k < 8 * i + 8")
      case True
      then obtain j where j: "k = 8 * i + j" "j < 8" using le_Suc_ex by auto
      then have "k div 8 = i" "k mod 8 = j" by simp_all
      with j show ?thesis by (auto simp: bit_simps)
    next
      case False
      then have "i \<noteq> k div 8" by auto
      moreover have "\<not> bit (?g i) k"
        using False bit_imp_le_length [of "phys s (f i)" "k - 8 * i"] by (auto simp: bit_simps)
      ultimately show ?thesis by simp
    qed
    show "bit (fold (\<lambda>i w. w OR ?g i) [0..<n] 0) k \<longleftrightarrow> k < 64 \<and> k < 8 * n \<and>
        paddr_is_memory_span c (f (k div 8)) 1 \<and> bit (phys s (f (k div 8))) (k mod 8)"
      unfolding bit_or_fold g by (auto simp: less_mult_imp_div_less mult.commute)
  qed
  moreover have "read_split c f [0..<n] 0 s = (Inr (fold (\<lambda>i w. w OR ?g i) [0..<n] 0), s)"
    using assms(2) by (intro read_split_value) auto
  ultimately show ?thesis by (intro that)
qed

lemma vaddr_read_run:
  assumes kc: "kconfig_ok c" and sv: "rv_svade c" and gap: "memory_map_gap c" and s: "pmp_ok c s"
    and coh: "tlb_coherent c s" and len: "host_len n"
  obtains cause t where "vaddr_read c a n s = (Inl (Mem_fault cause), t)"
      and "scrub t = scrub s" and "pmp_ok c t"
    | f v t where "vaddr_read c a n s = (Inr v, t)" and "scrub t = scrub s" and "pmp_ok c t"
      and "data_bytes c s False a n f" and "bytes_loaded c f n (phys s) v"
proof -
  define x where x: "x = riscv_pointer_mask c s a"
  let ?s = "set_g_vaddr x s" and ?k = "page_rest x" and ?ms = "misaligned a n"
  let ?on = "isa_mmu_check c MEM_TYPE_READ s \<noteq> MMU_DIRECT"
  note mo = memory_map_gapD(1) [OF gap] and r = recorded [OF kc sv s coh]
  have n: "n \<le> 8" using len by (auto simp: host_len_def)
  show ?thesis
  proof (cases "?k < n \<and> ?on")
    case True
    let ?m = "\<lambda>lo hi. mbind (read_split c (split_addr lo hi ?k) [0..<n] 0) (\<lambda>v.
      mseq (mmodify (set_g_vaddr x)) (mret v))"
    have eq: "vaddr_read c a n s = mbind (checked_data_piece c x ?k False ?ms n) (\<lambda>lo.
        mbind (checked_data_piece c (x + of_nat ?k) (n - ?k) False ?ms n) (?m lo)) ?s"
      using True by (simp add: vaddr_read_def vaddr_read_piece_def mseq_app Let_def x [symmetric] r(4))
    show ?thesis
    proof (rule split_step [OF kc sv mo n s r(1,2) x _ _ eq])
      fix lo hi t
      assume 1: "vaddr_read c a n s = ?m lo hi t" "scrub t = scrub s" "pmp_ok c t"
        "data_bytes c s False a n (split_addr lo hi ?k)"
      obtain v where v: "read_split c (split_addr lo hi ?k) [0..<n] 0 t = (Inr v, t)"
        "bytes_loaded c (split_addr lo hi ?k) n (phys t) v"
        by (rule read_split_loaded [OF n, of c "split_addr lo hi ?k" t])
          (use data_bytes_ok(1) [OF gap 1(4)] in blast)+
      show ?thesis
        by (rule that(2) [OF _ _ _ 1(4), of v "set_g_vaddr x t"])
          (use 1 v scrub_fields(2) [OF 1(2)] set_g_vaddr_ok(1) [OF 1(3)] in \<open>simp_all add: mseq_app\<close>)
    qed (use True that(1) in \<open>simp_all add: data_type_def\<close>)
  next
    case False
    let ?m = "\<lambda>pa. paddr_read c pa n"
    have eq: "vaddr_read c a n s = data_access c False x ?on ?ms n n ?m ?s"
      using False by (auto simp: vaddr_read_def vaddr_read_piece_def mseq_app Let_def data_access_def
          data_tlb_def data_type_def x [symmetric] r(4))
    show ?thesis
    proof (rule single_step [OF kc sv mo n s r(1-3) x _ eq])
      fix pa t
      assume 1: "vaddr_read c a n s = ?m pa t" "scrub t = scrub s" "pmp_ok c t"
        "data_bytes c s False a n (\<lambda>i. pa + of_nat i)" "data_pma_ok c pa n False"
      obtain v where v: "paddr_read c pa n t = (Inr v, t)"
        "bytes_loaded c (\<lambda>i. pa + of_nat i) n (phys t) v"
        by (rule read_span_loaded [OF gap n len 1(5)])
      show ?thesis
        by (rule that(2) [OF _ _ _ 1(4), of v t]) (use 1 v scrub_fields(2) [OF 1(2)] in simp_all)
    qed (use False that(1) in \<open>auto simp: data_type_def\<close>)
  qed
qed

section \<open>Properties\<close>

text \<open>
  C22 (the RAM fast path of the attribute check). \<open>check_data_pma\<close> with its shortcut for RAM spans
  gives what the byte loop gives: it passes exactly when every byte is mapped and, for a store,
  writable, and otherwise it faults and moves \<open>g_vaddr\<close> to the first byte that is not.
\<close>

theorem data_pma_exact:
  assumes "memory_map_ok c" and "0 < n" and "n \<le> 2 ^ 63"
  shows "check_data_pma c pa n store s =
    (case first_index (\<lambda>i. \<not> pma_byte_ok c pa store i) n of
       None \<Rightarrow> (Inr (), s)
     | Some i \<Rightarrow> (Inl (Mem_fault (data_access_fault store)), set_g_vaddr (g_vaddr s + of_nat i) s))"
proof (cases "data_pma_ok c pa n store")
  case True
  then have "first_index (\<lambda>i. \<not> pma_byte_ok c pa store i) n = None"
    by (simp add: first_index_None data_pma_ok_def)
  with check_data_pma_ok [OF True] show ?thesis by simp
next
  case False
  then obtain off where o: "pma_fault_offset c pa n store = Some off" and
    e: "check_data_pma c pa n store = mseq (mmodify (\<lambda>s. set_g_vaddr (g_vaddr s + of_nat off) s))
      (mthrow (Mem_fault (data_access_fault store)))"
    by (rule check_data_pma_bad [OF assms(1,3)])
  from o assms(2) have "first_index (\<lambda>i. \<not> pma_byte_ok c pa store i) n = Some off"
    by (simp add: pma_fault_offset_def first_index_def)
  with e show ?thesis by (simp add: mseq_app)
qed

theorem data_pma_exact_witness:
  "check_data_pma demo_config 0x87fffffe 4 True demo_machine =
    (case first_index (\<lambda>i. \<not> pma_byte_ok demo_config 0x87fffffe True i) 4 of
       None \<Rightarrow> (Inr (), demo_machine)
     | Some i \<Rightarrow> (Inl (Mem_fault (data_access_fault True)),
         set_g_vaddr (g_vaddr demo_machine + of_nat i) demo_machine))"
  by (rule data_pma_exact [OF memory_map_gapD(1) [OF kconfig_ref_gap]]) simp_all

text \<open>
  C23 (what a store does). In the reference memory map with Svade, from a state whose PMP unit and
  TLBs are coherent, a store of 1, 2, 4 or 8 bytes either faults, with registers and memory
  untouched, or puts every byte where the translation of that byte's own address leads, to a mapped
  and writable byte that the PMP grants to the effective privilege; no other byte of memory changes
  and of the registers only the reservation may be dropped. It never panics. Stores that cross a page
  are included.
\<close>

theorem vaddr_write_effect:
  assumes "kconfig_ok c" and "rv_svade c" and "memory_map_gap c" and "pmp_ok c s"
    and "tlb_coherent c s" and "host_len n"
  shows "(\<exists>cause t. vaddr_write c a n d s = (Inl (Mem_fault cause), t) \<and>
       phys t = phys s \<and> cpu t = cpu s \<and> pmp_ok c t) \<or>
    (\<exists>f t. vaddr_write c a n d s = (Inr (), t) \<and> data_bytes c s True a n f \<and>
       bytes_stored c f {..<n} d (phys s) (phys t) \<and> pmp_ok c t \<and>
       (cpu t = cpu s \<or> cpu t = (cpu s)\<lparr>cpu_reservation := 0, cpu_reservation_bytes := 0\<rparr>))"
proof (rule vaddr_write_run [OF assms, of a d])
  fix cause t assume "vaddr_write c a n d s = (Inl (Mem_fault cause), t)" "scrub t = scrub s" "pmp_ok c t"
  with scrub_fields(1,2) [of t s] show ?thesis by simp
next
  fix f u t assume r: "vaddr_write c a n d s = (Inr (), t)" "scrub u = scrub s" "pmp_ok c t"
    "data_bytes c s True a n f" "bytes_stored c f {..<n} d (phys s) (phys t)" "store_frame u t"
  then have "cpu t = cpu s \<or> cpu t = (cpu s)\<lparr>cpu_reservation := 0, cpu_reservation_bytes := 0\<rparr>"
    using scrub_fields(1) [of u s] by (simp add: store_frame_def)
  with r show ?thesis by blast
qed

theorem vaddr_write_effect_witness:
  "(\<exists>cause t. vaddr_write demo_config 0x40000ffe 4 0xdeadbeef demo_machine = (Inl (Mem_fault cause), t) \<and>
       phys t = phys demo_machine \<and> cpu t = cpu demo_machine \<and> pmp_ok demo_config t) \<or>
    (\<exists>f t. vaddr_write demo_config 0x40000ffe 4 0xdeadbeef demo_machine = (Inr (), t) \<and>
       data_bytes demo_config demo_machine True 0x40000ffe 4 f \<and>
       bytes_stored demo_config f {..<4} 0xdeadbeef (phys demo_machine) (phys t) \<and>
       pmp_ok demo_config t \<and> (cpu t = cpu demo_machine \<or>
         cpu t = (cpu demo_machine)\<lparr>cpu_reservation := 0, cpu_reservation_bytes := 0\<rparr>))"
  by (rule vaddr_write_effect [OF demo_kconfig(1,2) kconfig_ref_gap demo_pmp_ok demo_tlb_coherent
        host_len_pte(4)])

text \<open>
  C24 (what a load does). Under the same conditions a load either faults or returns the value whose
  bytes are the bytes of memory where the translations of the addresses lead, each one mapped and
  granted by the PMP for reading, zero-extended; registers and memory stay as they are.
\<close>

theorem vaddr_read_effect:
  assumes "kconfig_ok c" and "rv_svade c" and "memory_map_gap c" and "pmp_ok c s"
    and "tlb_coherent c s" and "host_len n"
  shows "phys (snd (vaddr_read c a n s)) = phys s \<and> cpu (snd (vaddr_read c a n s)) = cpu s \<and>
    pmp_ok c (snd (vaddr_read c a n s)) \<and>
    ((\<exists>cause. fst (vaddr_read c a n s) = Inl (Mem_fault cause)) \<or>
     (\<exists>f v. fst (vaddr_read c a n s) = Inr v \<and> data_bytes c s False a n f \<and>
        bytes_loaded c f n (phys s) v))"
proof (rule vaddr_read_run [OF assms, of a])
  fix cause t assume "vaddr_read c a n s = (Inl (Mem_fault cause), t)" "scrub t = scrub s" "pmp_ok c t"
  with scrub_fields(1,2) [of t s] show ?thesis by simp
next
  fix f v t assume r: "vaddr_read c a n s = (Inr v, t)" "scrub t = scrub s" "pmp_ok c t"
    "data_bytes c s False a n f" "bytes_loaded c f n (phys s) v"
  with scrub_fields(1,2) [of t s] show ?thesis by auto
qed

theorem vaddr_read_effect_witness:
  "phys (snd (vaddr_read demo_config 0x40000ffe 4 demo_machine)) = phys demo_machine \<and>
    cpu (snd (vaddr_read demo_config 0x40000ffe 4 demo_machine)) = cpu demo_machine \<and>
    pmp_ok demo_config (snd (vaddr_read demo_config 0x40000ffe 4 demo_machine)) \<and>
    ((\<exists>cause. fst (vaddr_read demo_config 0x40000ffe 4 demo_machine) = Inl (Mem_fault cause)) \<or>
     (\<exists>f v. fst (vaddr_read demo_config 0x40000ffe 4 demo_machine) = Inr v \<and>
        data_bytes demo_config demo_machine False 0x40000ffe 4 f \<and>
        bytes_loaded demo_config f 4 (phys demo_machine) v))"
  by (rule vaddr_read_effect [OF demo_kconfig(1,2) kconfig_ref_gap demo_pmp_ok demo_tlb_coherent
        host_len_pte(4)])

end
