(* ===== verification/Exec_Safe.thy ===== *)
theory Exec_Safe
  imports Exec Vaddr_Correct
begin

text \<open>
  The emulator keeps running: no instruction of the integer, memory, atomic and system groups panics,
  in whatever state, in the reference memory map with Svade; the parameter \<open>ext\<close> has to keep its
  part, and \<open>Machine\<close> shows that the floating-point and vector groups do.
\<close>

unbundle bit_operations_syntax

section \<open>The access paths of vaddr.c\<close>

lemma no_panic_tlb [no_panics]:
  assumes "rv_svade c"
  shows "no_panic (tlb_translate c k ty v)"
  unfolding tlb_translate_def by (intro no_panics assms)

lemma no_panic_checked_piece [no_panics]:
  assumes "rv_svade c" and "memory_map_ok c" and "n \<le> 2 ^ 63"
  shows "no_panic (checked_data_piece c a n store misal ol)"
  unfolding checked_data_piece_def by (intro no_panics assms)

text \<open>After the checks of one piece the access itself cannot panic.\<close>

lemma no_panic_access [no_panics]:
  assumes "memory_map_gap c" and "n \<le> 8" and "data_pma_ok c pa n store \<Longrightarrow> no_panic m"
  shows "no_panic (mseq (check_data_pma c pa n store) (mseq (data_pmp_check c tr a pa n store) m))"
  using assms by (intro no_panics) (auto dest: memory_map_gapD)

lemma checked_piece_pma:
  assumes "memory_map_ok c" and "n \<le> 2 ^ 63"
    and "checked_data_piece c a n store misal ol s = (Inr pa, t)"
  shows "data_pma_ok c pa n store"
proof (rule ccontr)
  assume "\<not> ?thesis"
  then obtain off where e: "check_data_pma c pa n store =
      mseq (mmodify (\<lambda>s. set_g_vaddr (g_vaddr s + of_nat off) s))
        (mthrow (Mem_fault (data_access_fault store)))"
    by (rule check_data_pma_bad [OF assms(1,2)])
  have "check_data_pma c pa n store u \<noteq> (Inr (), t)" for u t
    unfolding e by (simp add: mseq_app)
  with assms(3) show False
    unfolding checked_data_piece_def checked_data_piece_attrs_def
    by (auto simp: mbind_eq_Inr mseq_eq_Inr split: prod.splits)
qed

lemma no_panic_piece_bind [no_panics]:
  assumes "rv_svade c" and "memory_map_ok c" and "n \<le> 2 ^ 63"
    and "\<And>pa. data_pma_ok c pa n store \<Longrightarrow> no_panic (f pa)"
  shows "no_panic (mbind (checked_data_piece c a n store misal ol) f)"
  using no_panic_checked_piece [OF assms(1-3)] assms(4) checked_piece_pma [OF assms(2,3)]
  by (intro no_panic_bind_post) blast+

lemma split_addr_ok:
  assumes "memory_map_gap c" and "k < n" and "n \<le> 8"
    and "data_pma_ok c lo k store" and "data_pma_ok c hi (n - k) store" and "i < n"
  shows "span_or_io c (split_addr lo hi k i) 1"
    and "store \<Longrightarrow> \<not> paddr_is_readonly c (split_addr lo hi k i)"
proof -
  have b: "k \<le> 8" "n - k \<le> 8" using assms(2,3) by simp_all
  note 1 = data_pma_span_or_io(3,4) [OF assms(1) b(1) assms(4), of i]
  note 2 = data_pma_span_or_io(3,4) [OF assms(1) b(2) assms(5), of "i - k"]
  show "span_or_io c (split_addr lo hi k i) 1"
    and "store \<Longrightarrow> \<not> paddr_is_readonly c (split_addr lo hi k i)"
    using 1 2 assms(6) by (cases "i < k"; simp add: split_addr_def del: of_nat_diff)+
qed

lemma no_panic_read_split:
  "(\<And>i. i \<in> set js \<Longrightarrow> span_or_io c (f i) 1) \<Longrightarrow> no_panic (read_split c f js v)"
  by (simp add: no_panic_def read_split_value)

lemma no_panic_write_split:
  assumes "\<And>i. i \<in> set js \<Longrightarrow> span_or_io c (f i) 1 \<and> \<not> paddr_is_readonly c (f i)"
  shows "no_panic (write_split c f js d)"
  using assms
proof (induction js)
  case (Cons i js)
  have "no_panic (paddr_write c (f i) 1 b)" for b
    using Cons.prems [of i] by (intro no_panic_paddr_write) simp_all
  moreover have "no_panic (write_split c f js d)" using Cons by simp
  ultimately show ?case
    unfolding write_split.simps by (intro no_panic_mseq no_panic_mmodify)
qed (simp add: no_panics)

lemma no_panic_vaddr_read [no_panics]:
  assumes "rv_svade c" and gap: "memory_map_gap c" and "host_len n"
  shows "no_panic (vaddr_read c a n)"
proof -
  have n: "n \<le> 8" using assms(3) by (auto simp: host_len_def)
  have k: "page_rest x \<le> 2 ^ 63" for x using page_rest_bounds(2) [of x] by simp
  note mo = memory_map_gapD(1) [OF gap]
  have split: "no_panic (read_split c (split_addr lo hi k) [0..<n] 0)"
    if "k < n" "data_pma_ok c lo k False" "data_pma_ok c hi (n - k) False" for k lo hi
    using split_addr_ok(1) [OF gap that(1) n that(2,3)] by (intro no_panic_read_split) simp
  have single: "no_panic (paddr_read c pa n)" if "data_pma_ok c pa n False" for pa
    by (rule no_panic_paddr_read [OF assms(3) data_pma_span_or_io(1) [OF gap n that]])
  show ?thesis
    unfolding vaddr_read_def vaddr_read_piece_def Let_def
    by (intro no_panics assms mo n k split single) (use n in simp_all)
qed

lemma no_panic_vaddr_write [no_panics]:
  assumes "rv_svade c" and gap: "memory_map_gap c" and "host_len n"
  shows "no_panic (vaddr_write c a n d)"
proof -
  have n: "n \<le> 8" using assms(3) by (auto simp: host_len_def)
  have k: "page_rest x \<le> 2 ^ 63" for x using page_rest_bounds(2) [of x] by simp
  note mo = memory_map_gapD(1) [OF gap]
  have split: "no_panic (write_split c (split_addr lo hi k) [0..<n] d)"
    if "k < n" "data_pma_ok c lo k True" "data_pma_ok c hi (n - k) True" for k lo hi
    using split_addr_ok [OF gap that(1) n that(2,3)] by (intro no_panic_write_split) simp
  have single: "no_panic (paddr_write c pa n d)" if "data_pma_ok c pa n True" for pa
    by (rule no_panic_paddr_write [OF assms(3)]) (use data_pma_span_or_io [OF gap n that] in auto)
  show ?thesis
    unfolding vaddr_write_def Let_def
    by (intro no_panics assms mo n k split single) (use n in simp_all)
qed

lemma no_panic_ifetch [no_panics]:
  assumes "rv_svade c" and "host_len n"
  shows "no_panic (vaddr_ifetch c a n)"
proof -
  have "no_panic (vaddr_ifetch_piece c a n)" if "host_len n" for a n
    unfolding vaddr_ifetch_piece_def
    by (intro no_panics assms that) (simp_all add: span_or_io_def)
  then show ?thesis unfolding vaddr_ifetch_def by (intro no_panics) (simp_all add: assms)
qed

lemma no_panic_checked_address [no_panics]:
  assumes "rv_svade c" and "memory_map_ok c" and "n \<le> 2 ^ 63"
  shows "no_panic (checked_data_address c a n store)"
  unfolding checked_data_address_def by (intro no_panics assms)

lemma no_panic_checks [no_panics]:
  assumes "rv_svade c" and "memory_map_gap c" and "n \<le> 2 ^ 63"
  shows "no_panic (vaddr_check_reservation c a n store)" "no_panic (vaddr_check_amo c a n)"
  unfolding vaddr_check_amo_def vaddr_check_reservation_def
  by (intro no_panics assms memory_map_gapD(1) [OF assms(2)])+

lemma no_panic_block_checks [no_panics]:
  assumes "rv_svade c" and "memory_map_gap c"
  shows "no_panic (vaddr_check_zero c a)" "no_panic (vaddr_check_cmo c a)"
  unfolding vaddr_check_zero_def vaddr_check_cmo_def
  by (intro no_panics assms memory_map_gapD(1) [OF assms(2)]; simp)+

section \<open>Hypervisor accesses\<close>

lemma mapped_bound:
  assumes "memory_map_ok c" and "paddr_is_mapped c a"
  shows "unat a < 2 ^ 33"
  using assms unfolding paddr_is_mapped_def span1_iff in_pmem_unat [OF assms(1)] region_unat ref_io_unat
  by (auto simp: memory_map_ok_def split: if_splits)

lemma mapped_no_wrap:
  assumes "memory_map_ok c" and "paddr_is_mapped c a" and "0 < n" and "n \<le> 8"
  shows "\<not> a + of_nat n - 1 < a" and "i < n \<Longrightarrow> unat (a + of_nat i) = unat a + i"
    and "unat (a + of_nat n - 1) = unat a + n - 1"
proof -
  have b: "unat a + n \<le> 2 ^ 64" using mapped_bound [OF assms(1,2)] assms(4) by simp
  show u: "unat (a + of_nat i) = unat a + i" if "i < n" for i using span_byte(1) [OF b that] .
  from this [of "n - 1"] show e: "unat (a + of_nat n - 1) = unat a + n - 1"
    unfolding last_byte [OF assms(3)] using assms(3) by simp
  with assms(3) show "\<not> a + of_nat n - 1 < a" by (simp add: word_less_nat_alt)
qed

text \<open>What the checks of a hypervisor access leave: memory, writable for a store, or a device.\<close>

definition hyp_span_ok :: "config \<Rightarrow> bool \<Rightarrow> paddr_t \<Rightarrow> nat \<Rightarrow> bool" where
  "hyp_span_ok c store pa n \<longleftrightarrow>
     (if paddr_is_memory_span c pa n then store \<longrightarrow> \<not> paddr_is_readonly c pa
      else paddr_is_mapped c pa \<and> paddr_is_mapped c (pa + of_nat n - 1))"

lemma io_between:
  assumes "ref_paddr_is_io a" and "ref_paddr_is_io b" and "unat a \<le> unat x" and "unat x \<le> unat b"
    and "unat b \<le> unat a + 7"
  shows "ref_paddr_is_io x"
  using assms unfolding ref_io_unat by (elim disjE conjE; simp)

lemma hyp_span_pma:
  assumes gap: "memory_map_gap c" and n: "0 < n" "n \<le> 8" and ok: "hyp_span_ok c store pa n"
  shows "data_pma_ok c pa n store"
proof (cases "paddr_is_memory_span c pa n")
  case True
  note mo = memory_map_gapD(1) [OF gap]
  have n63: "n \<le> 2 ^ 63" using n by simp
  show ?thesis
  proof (cases store)
    case w: True
    with ok True have "\<not> paddr_is_readonly c pa" by (simp add: hyp_span_ok_def)
    with True have "paddr_is_ram_span c pa n"
      by (auto simp: paddr_is_memory_span_def paddr_is_ram_span_def paddr_is_readonly_def Let_def
          split: if_splits)
    from ram_span_pma [OF mo this n63] show ?thesis .
  next
    case False
    have m: "paddr_is_mapped c (pa + of_nat i)" if "i < n" for i
      using memory_span_bytes [OF mo True n63 that] by (simp add: paddr_is_mapped_def)
    have "pa \<le> pa + of_nat i" if "i < n" for i
    proof -
      have "paddr_is_mapped c pa" using m [of 0] n(1) by simp
      from mapped_no_wrap(2) [OF mo this n that] show ?thesis by (simp add: word_le_nat_alt)
    qed
    with m False n(1) show ?thesis by (simp add: data_pma_ok_def pma_byte_ok_def)
  qed
next
  case False
  note mo = memory_map_gapD(1) [OF gap]
  let ?b = "pa + of_nat n - 1"
  from False ok have m: "paddr_is_mapped c pa" "paddr_is_mapped c ?b"
    by (simp_all add: hyp_span_ok_def)
  note w = mapped_no_wrap [OF mo m(1) n]
  from mapped_ends_span [OF gap n w(1) m] False have io: "target_share c" "ref_paddr_is_io pa" by auto
  have "\<not> paddr_is_memory_span c ?b 1"
    using io_not_memory [OF gap io(2), of "n - 1"] n unfolding last_byte [OF n(1)] by simp
  with m(2) have io_b: "ref_paddr_is_io ?b" by (simp add: paddr_is_mapped_def)
  have "pma_byte_ok c pa store i" if "i < n" for i
  proof -
    have "ref_paddr_is_io (pa + of_nat i)"
      by (rule io_between [OF io(2) io_b]) (use that n w(2) [OF that] w(3) in linarith)+
    moreover have "\<not> paddr_is_readonly c (pa + of_nat i)"
      using io_not_memory [OF gap io(2), of i] that n unfolding span1_iff paddr_is_readonly_def by simp
    moreover have "pa \<le> pa + of_nat i" using w(2) [OF that] by (simp add: word_le_nat_alt)
    ultimately show ?thesis using io(1) by (simp add: pma_byte_ok_def paddr_is_mapped_def)
  qed
  then show ?thesis using n by (simp add: data_pma_ok_def)
qed

lemma no_panic_raise_at [no_panics]: "no_panic (raise_at c NO pc)"
  unfolding raise_at_def by (intro no_panics)

lemma no_panic_hyp_trap [no_panics]: "no_panic (hypervisor_memory_trap c NO pc)"
  unfolding hypervisor_memory_trap_def by (intro no_panics)

lemma no_panic_hyp_check [no_panics]: "no_panic (hypervisor_piece_check c store ex n misal ol pa pbmt)"
  unfolding hypervisor_piece_check_def Let_def by (intro no_panics)

lemma no_panic_hyp_piece [no_panics]:
  assumes "rv_svade c"
  shows "no_panic (hypervisor_memory_piece c pc store ex n misal ol a)"
  unfolding hypervisor_memory_piece_def Let_def by (intro no_panics assms)

lemma hyp_piece_ok:
  assumes "hypervisor_memory_piece c pc store ex n misal ol a s = (Inr (Inr pa), t)"
  shows "hyp_span_ok c store pa n"
proof -
  let ?T = "\<lambda>_ _. True"
  have check: "mhoare (\<lambda>_. True) (hypervisor_piece_check c store ex n misal ol pa' pbmt)
      (\<lambda>e _. e = None \<longrightarrow> hyp_span_ok c store pa' n) ?T" for pa' pbmt
    by (rule mhoareI) (auto simp: hypervisor_piece_check_def Let_def mbind_eq_Inr hyp_span_ok_def
        split: if_splits)
  have trap: "mhoare P (mbind m (\<lambda>d. mret (Inl d))) (\<lambda>r _. \<forall>x. r = Inr x \<longrightarrow> hyp_span_ok c store x n) ?T"
    for P and m :: "vaddr_t mem"
    by (rule mhoareI) (auto simp: mbind_eq_Inr)
  have "mhoare (\<lambda>_. True) (hypervisor_memory_piece c pc store ex n misal ol a)
      (\<lambda>r _. \<forall>x. r = Inr x \<longrightarrow> hyp_span_ok c store x n) ?T"
    unfolding hypervisor_memory_piece_def Let_def
    by (intro mhoare_ret_seq mhoare_ret_bind mhoare_sum mhoare_prod mhoare_option trap
        mhoare_mbind [OF check] mhoare_mret) auto
  from mhoare_Inr [OF this TrueI assms] show ?thesis by simp
qed

lemma no_panic_write_bytes:
  assumes "\<And>i. i \<in> set js \<Longrightarrow> span_or_io c (f i) 1 \<and> \<not> paddr_is_readonly c (f i)"
  shows "no_panic (write_bytes_at c f js d)"
  using assms
proof (induction js)
  case (Cons i js)
  have "no_panic (paddr_write c (f i) 1 b)" for b
    using Cons.prems [of i] by (intro no_panic_paddr_write) simp_all
  moreover have "no_panic (write_bytes_at c f js d)" using Cons by simp
  ultimately show ?case unfolding write_bytes_at.simps by (intro no_panic_mseq)
qed (simp add: no_panics)

lemma no_panic_transfer:
  assumes gap: "memory_map_gap c" and len: "host_len n" and k: "0 < k" "k \<le> n"
    and lo: "hyp_span_ok c store lo k" and hi: "0 < n - k \<Longrightarrow> hyp_span_ok c store hi (n - k)"
  shows "no_panic (hypervisor_transfer c store lo hi k n d)"
proof -
  have n: "n \<le> 8" using len by (auto simp: host_len_def)
  have l: "data_pma_ok c lo k store" using hyp_span_pma [OF gap k(1) _ lo] k n by simp
  note s = data_pma_span_or_io [OF gap n, of lo store]
  show ?thesis
  proof (cases "n - k = 0")
    case True
    with k have "k = n" by simp
    then show ?thesis
      unfolding hypervisor_transfer_def using l s True
      by (auto intro!: no_panic_mseq no_panic_mret no_panic_paddr_write [OF len] no_panic_paddr_read [OF len])
  next
    case False
    then have kn: "k < n" by simp
    have h: "data_pma_ok c hi (n - k) store" using hyp_span_pma [OF gap _ _ hi] False n by simp
    note sp = split_addr_ok [OF gap kn n l h]
    show ?thesis
      unfolding hypervisor_transfer_def using sp False
      by (auto intro!: no_panic_mseq no_panic_mret no_panic_write_bytes no_panic_read_split)
  qed
qed

lemma mbind_step_Inr:
  assumes "mbind m (\<lambda>r. case r of Inl d \<Rightarrow> mret (Inl d) | Inr x \<Rightarrow> f x) s = (Inr (Inr y), t)"
  obtains x u where "m s = (Inr (Inr x), u)" and "f x u = (Inr (Inr y), t)"
proof -
  obtain r u where 1: "m s = (Inr r, u)"
    and 2: "(case r of Inl d \<Rightarrow> mret (Inl d) | Inr x \<Rightarrow> f x) u = (Inr (Inr y), t)"
    using assms unfolding mbind_eq_Inr by (elim exE conjE)
  show ?thesis
  proof (cases r)
    case (Inr x)
    with 1 2 show ?thesis by (intro that [of x u]) simp_all
  qed (use 2 in simp)
qed

lemma hyp_pieces_ok:
  assumes "hypervisor_pieces c pc store ex k misal n x s = (Inr (Inr (lo, hi)), t)"
  shows "hyp_span_ok c store lo k" and "0 < n - k \<Longrightarrow> hyp_span_ok c store hi (n - k)"
proof -
  let ?second = "hypervisor_second_piece c pc store ex (n - k) misal n (x + of_nat k)"
  from assms have "mbind (hypervisor_memory_piece c pc store ex k misal n x) (\<lambda>r. case r of
      Inl d \<Rightarrow> mret (Inl d) | Inr lo \<Rightarrow> mbind ?second (\<lambda>r. case r of Inl d \<Rightarrow> mret (Inl d)
        | Inr hi \<Rightarrow> mret (Inr (lo, hi)))) s = (Inr (Inr (lo, hi)), t)"
    by (simp only: hypervisor_pieces_def)
  then obtain lo' u where 1: "hypervisor_memory_piece c pc store ex k misal n x s = (Inr (Inr lo'), u)"
    and "mbind ?second (\<lambda>r. case r of Inl d \<Rightarrow> mret (Inl d) | Inr hi \<Rightarrow> mret (Inr (lo', hi))) u =
      (Inr (Inr (lo, hi)), t)"
    by (rule mbind_step_Inr)
  from this(2) obtain hi' w where 2: "?second u = (Inr (Inr hi'), w)"
    and "lo' = lo" "hi' = hi"
    by (rule mbind_step_Inr) simp
  note e = this(2,3)
  note 1 = 1 [unfolded e] and 2 = 2 [unfolded e]
  from hyp_piece_ok [OF 1] show "hyp_span_ok c store lo k" .
  from 2 show "0 < n - k \<Longrightarrow> hyp_span_ok c store hi (n - k)"
    by (auto simp: hypervisor_second_piece_def intro: hyp_piece_ok)
qed

lemma no_panic_hypervisor [no_panics]:
  assumes sv: "rv_svade c" and gap: "memory_map_gap c" and len: "host_len n"
  shows "no_panic (hypervisor_memory_access c pc store ex n a d)"
proof -
  have pieces: "no_panic (hypervisor_pieces c pc store ex k misal n x)" for k misal x
    unfolding hypervisor_pieces_def hypervisor_second_piece_def by (intro no_panics sv)
  have k: "0 < min (page_rest x) n" "min (page_rest x) n \<le> n" for x
    using page_rest_bounds(1) [of x] len by (auto simp: host_len_def)
  show ?thesis
    unfolding hypervisor_memory_access_def Let_def
    by (intro no_panic_mbind no_panic_mgets no_panic_if no_panic_raise_at no_panic_mret
        no_panic_bind_post [OF pieces] no_panic_sum no_panic_prod no_panic_transfer [OF gap len k])
      (use hyp_pieces_ok in auto)
qed

section \<open>Instructions\<close>

text \<open>Every entry of a group keeps running.\<close>

definition group_ok :: "exec_entry list \<Rightarrow> bool" where
  "group_ok g \<longleftrightarrow> (\<forall>(pat, ty, body)\<in>set g. \<forall>rd rs1 src1 src2 imm. no_panic (body rd rs1 src1 src2 imm))"

lemma group_ok_simps [simp]:
  "group_ok []"
  "group_ok ((pat, ty, body) # g) \<longleftrightarrow>
     (\<forall>rd rs1 src1 src2 imm. no_panic (body rd rs1 src1 src2 imm)) \<and> group_ok g"
  "group_ok (g @ h) \<longleftrightarrow> group_ok g \<and> group_ok h"
  unfolding group_ok_def by (simp, simp, simp only: set_append ball_Un)

lemma no_panic_ret_reg [no_panics]: "no_panic (ret_reg dnpc rd v)" "no_panic (wr_reg rd v)"
  unfolding ret_reg_def wr_reg_def by (intro no_panics)+

lemma group_ok_alu: "group_ok (map (alu_exec snpc) es)"
  by (auto simp: group_ok_def alu_exec_def intro!: no_panics)

lemma group_ok_jumps:
  "group_ok (grp_lui snpc)" "group_ok (grp_auipc pc snpc)" "group_ok (grp_jal pc snpc)"
  "group_ok (grp_jalr snpc)" "group_ok (grp_branch pc snpc)" "group_ok (grp_prefetch snpc)"
  by (simp_all add: grp_lui_def grp_auipc_def grp_jal_def grp_jalr_def grp_branch_def grp_prefetch_def
      branch_if_def no_panics)

lemma no_panic_load [no_panics]:
  "rv_svade c \<Longrightarrow> memory_map_gap c \<Longrightarrow> host_len n \<Longrightarrow> no_panic (load_reg c snpc n e rd rs1 a b imm)"
  "rv_svade c \<Longrightarrow> memory_map_gap c \<Longrightarrow> host_len n \<Longrightarrow> no_panic (store_reg c snpc n rd rs1 a b imm)"
  unfolding load_reg_def store_reg_def by (intro no_panics; assumption)+

lemma no_panic_lr_sc [no_panics]:
  assumes "rv_svade c" and "memory_map_gap c" and "host_len n"
  shows "no_panic (load_reserved c snpc n e rd rs1 a b imm)"
    "no_panic (store_conditional c snpc n rd rs1 a b imm)" "no_panic (amo c snpc n e f rd rs1 a b imm)"
proof -
  have n: "n \<le> 2 ^ 63" using assms(3) by (auto simp: host_len_def)
  show "no_panic (load_reserved c snpc n e rd rs1 a b imm)"
    "no_panic (store_conditional c snpc n rd rs1 a b imm)" "no_panic (amo c snpc n e f rd rs1 a b imm)"
    unfolding load_reserved_def store_conditional_def amo_def by (intro no_panics assms n)+
qed

lemma group_ok_memory:
  assumes "rv_svade c" and "memory_map_gap c"
  shows "group_ok (grp_load c snpc)" "group_ok (grp_store c snpc)" "group_ok (grp_amo_w c snpc)"
    "group_ok (grp_amo_d c snpc)"
  unfolding grp_load_def grp_store_def grp_amo_w_def grp_amo_d_def Let_def group_ok_simps
  by (intro conjI allI no_panics assms group_ok_simps(1) host_len_pte)+

lemma no_panic_zero_block [no_panics]:
  assumes "rv_svade c" and "memory_map_gap c"
  shows "no_panic (zero_block c b js)"
  by (induction js) (simp_all only: zero_block.simps; intro no_panics assms host_len_pte)+

lemma no_panic_with_cbo [no_panics]: "no_panic m \<Longrightarrow> no_panic (with_cbo c kind pc snpc m)"
  unfolding with_cbo_def by (intro no_panics)

lemma group_ok_miscmem:
  assumes "rv_svade c" and "memory_map_gap c"
  shows "group_ok (grp_miscmem c pc snpc)"
  unfolding grp_miscmem_def group_ok_simps
  by (intro conjI allI no_panics assms group_ok_simps(1))

lemma group_ok_system_h:
  assumes "rv_svade c" and "memory_map_gap c"
  shows "group_ok (grp_system_h c pc snpc)"
  unfolding grp_system_h_def group_ok_simps sfence_vma_def sfence_inval_def hypervisor_fence_def
    hlv_def hsv_def
  by (intro conjI allI no_panics assms group_ok_simps(1) host_len_pte)

lemma group_ok_system_csr: "group_ok (grp_system_csr c pc snpc)"
  unfolding grp_system_csr_def group_ok_simps csr_write_body_def csr_modify_body_def Let_def
  by (intro conjI allI no_panics group_ok_simps(1))

lemma group_ok_system:
  assumes "rv_svade c" and "memory_map_gap c"
  shows "group_ok (grp_system c pc snpc)"
  unfolding grp_system_def group_ok_simps exec_ecall_def exec_mret_def exec_sret_def exec_wrs_nto_def
    exec_wrs_sto_def exec_wfi_def
  by (intro conjI allI no_panics group_ok_simps(1) group_ok_system_h group_ok_system_csr assms)

lemma group_ok_exec:
  assumes "rv_svade c" and "memory_map_gap c"
  shows "group_ok (exec_group c pc snpc op)"
  unfolding exec_group_def
  by (simp add: group_ok_jumps group_ok_alu group_ok_memory [OF assms] group_ok_miscmem [OF assms]
      group_ok_system [OF assms])

lemma no_panic_exec_inst [no_panics]:
  assumes "rv_svade c" and "memory_map_gap c" and "no_panic (ext i pc snpc)"
  shows "no_panic (exec_inst c ext i pc snpc)"
proof -
  have "no_panic (run_entry i e)" if "find P (exec_group c pc snpc op) = Some e" for P op e
  proof -
    have "e \<in> set (exec_group c pc snpc op)" using that by (auto simp: find_Some_iff)
    with group_ok_exec [OF assms(1,2), of pc snpc op] show ?thesis
      by (auto simp: run_entry_def group_ok_def intro!: no_panics split: prod.split)
  qed
  then show ?thesis unfolding exec_inst_def Let_def by (intro no_panics assms)
qed

lemma no_panic_exec_body [no_panics]:
  assumes "rv_svade c" and "memory_map_gap c" and "\<And>i pc snpc. no_panic (ext i pc snpc)"
  shows "no_panic (exec_body_once c ext pc)"
  unfolding exec_body_once_def fetch_inst_def decode_exec_def Let_def
  by (intro no_panics assms) simp_all

lemma isa_exec_once_Some:
  assumes "rv_svade c" and "memory_map_gap c" and "\<And>i pc snpc. no_panic (ext i pc snpc)"
  shows "isa_exec_once c ext pc s \<noteq> None"
  using no_panicD [OF no_panic_exec_body [where ext = ext, OF assms], of pc "set_last_csr_wr 0 (set_instruction_trapped False s)"]
  by (auto simp: isa_exec_once_def split: prod.split sum.split mem_exit.split)

lemma nemu_step_Some:
  assumes "rv_svade c" and "memory_map_gap c" and "\<And>i pc snpc. no_panic (ext i pc snpc)"
  shows "nemu_step c ext s \<noteq> None"
  using isa_exec_once_Some [where ext = ext, OF assms] by (simp add: nemu_step_def exec_once_def Let_def)

lemma execute_Some:
  assumes "rv_svade c" and "memory_map_gap c" and "\<And>i pc snpc. no_panic (ext i pc snpc)"
  shows "\<exists>t. execute c ext n s = Some t"
proof (induction n arbitrary: s)
  case (Suc n)
  obtain u where "nemu_step c ext s = Some u" using nemu_step_Some [where ext = ext, OF assms, of s] by auto
  with Suc [of u] show ?case by simp
qed simp

text \<open>
  C25 (the emulator keeps running). In the reference memory map with Svade no instruction of the
  modelled groups reaches \<open>panic\<close> or a failed assertion, from any state and for any contents of
  memory and registers, so the execute loop completes every number of steps; the floating-point and
  vector groups are assumed to keep running themselves.
\<close>

theorem execute_completes:
  assumes "rv_svade c" and "memory_map_gap c" and "\<And>i pc snpc. no_panic (ext i pc snpc)"
  shows "\<exists>t. execute c ext n s = Some t"
  using assms by (rule execute_Some)

text \<open>An extension unit that has no floating-point and no vector instructions.\<close>

definition demo_ext :: "config \<Rightarrow> ext_exec" where
  "demo_ext c i pc snpc = raise_at c MCA_ILLEGAL_INS pc"

theorem execute_completes_witness: "\<exists>t. execute demo_config (demo_ext demo_config) 1000 demo_machine = Some t"
  by (rule execute_completes [OF demo_kconfig(2) kconfig_ref_gap]) (simp add: demo_ext_def no_panics)

end
