(* ===== verification/Init.thy ===== *)
theory Init
  imports Exec
begin

text \<open>
  Power-on: the run-time selection of extensions (\<^verbatim>\<open>extensions.c\<close>), the vector reset of
  \<^verbatim>\<open>vector-control.c\<close>, and \<open>restart\<close> and \<open>init_isa\<close> of \<^verbatim>\<open>init.c\<close>, in the
  system-mode RV64 build with one hart.
\<close>

unbundle bit_operations_syntax

section \<open>Selection of extensions (extensions.c)\<close>

text \<open>The two globals of \<^verbatim>\<open>extensions.c\<close>.\<close>

record isa_selection =
  sel_extensions :: word_t
  sel_locked :: bool

definition riscv_isa_supported :: "config \<Rightarrow> word_t" where
  "riscv_isa_supported c =
     NEMU_ISA_EXT_ZAWRS OR NEMU_ISA_EXT_SSCOFPMF OR NEMU_ISA_EXT_V128_PREVIEW OR NEMU_ISA_EXT_ZVBB OR
     NEMU_ISA_EXT_SMSTATEEN_PREVIEW OR (if rv_f c then NEMU_ISA_EXT_ZVFHMIN else 0) OR
     (NEMU_ISA_EXT_SVNAPOT OR NEMU_ISA_EXT_SSNPM OR NEMU_ISA_EXT_SMNPM) OR
     NEMU_ISA_EXT_H_GSTAGE_PREVIEW OR (if rv_f c then NEMU_ISA_EXT_ZFA else 0)"

text \<open>The result 0 is \<open>True\<close>, \<open>-1\<close> is \<open>False\<close>.\<close>

definition riscv_isa_configure :: "config \<Rightarrow> word_t \<Rightarrow> isa_selection \<Rightarrow> bool \<times> isa_selection" where
  "riscv_isa_configure c extensions g =
     (if sel_locked g \<or> extensions AND NOT (riscv_isa_supported c) \<noteq> 0 \<or>
         (extensions AND (NEMU_ISA_EXT_ZVBB OR NEMU_ISA_EXT_ZVFHMIN) \<noteq> 0 \<and>
          extensions AND NEMU_ISA_EXT_V128_PREVIEW = 0)
      then (False, g) else (True, g\<lparr>sel_extensions := extensions\<rparr>))"

definition riscv_isa_lock :: "isa_selection \<Rightarrow> isa_selection" where
  "riscv_isa_lock g = g\<lparr>sel_locked := True\<rparr>"

text \<open>\<open>cycle_timer\<close> is \<open>CONFIG_TIMER_CYCLE\<close>.\<close>

definition riscv_isa_profile_clock_supported :: "bool \<Rightarrow> bool \<Rightarrow> bool" where
  "riscv_isa_profile_clock_supported cycle_timer threaded \<longleftrightarrow> cycle_timer \<and> \<not> threaded"

definition riscv_isa_configure_names ::
    "config \<Rightarrow> bool \<Rightarrow> string option \<Rightarrow> isa_selection \<Rightarrow> bool \<times> isa_selection" where
  "riscv_isa_configure_names c cycle_timer names g =
     (case names of
        None \<Rightarrow> (False, g)
      | Some nm \<Rightarrow>
          if nm = ''none'' then riscv_isa_configure c 0 g
          else if rv_f c \<and> rv_d c \<and> rv_svade c \<and> nm = ''rva23'' \<and> riscv_isa_supported c \<noteq> 0 \<and>
                  riscv_isa_profile_clock_supported cycle_timer False
          then riscv_isa_configure c (riscv_isa_supported c) g
          else (False, g))"

section \<open>Reset (vector-control.c, init.c)\<close>

definition riscv_vector_reset :: "config \<Rightarrow> nemu \<Rightarrow> nemu" where
  "riscv_vector_reset c s =
     (if \<not> riscv_v128_preview_enabled c then s
      else
        let s1 = s\<lparr>cpu := (cpu s)\<lparr>cpu_vreg := (\<lambda>_ _. 0)\<rparr>\<rparr>;
            s2 = set_sr CSR_VLENB 16 (set_sr CSR_VL 0 (set_sr CSR_VTYPE (push_bit 63 1) s1))
        in set_sr CSR_VCSR 0 (set_sr CSR_VXSAT 0 (set_sr CSR_VXRM 0 (set_sr CSR_VSTART 0 s2))))"

text \<open>The build and command-line choices of the reset address.\<close>

record boot_options =
  boot_from_flash :: bool
  config_rom_dtb :: bool
  pc_reset_offset :: word_t

definition RESET_VECTOR :: "config \<Rightarrow> boot_options \<Rightarrow> paddr_t" where
  "RESET_VECTOR c b = PMEM_LEFT c + pc_reset_offset b"

definition reset_pc :: "config \<Rightarrow> boot_options \<Rightarrow> vaddr_t" where
  "reset_pc c b =
     (if config_rom_dtb b then if raptor_memory_map c then CONFIG_MROM_BASE else CONFIG_ROM_BASE
      else if boot_from_flash b then CONFIG_FLASH_BASE else RESET_VECTOR c b)"

text \<open>The scalar fields \<open>restart\<close> sets.\<close>

definition reset_scalars :: "cpu_state \<Rightarrow> cpu_state" where
  "reset_scalars u =
     u\<lparr>cpu_priv := PRV_M, cpu_virt := False, cpu_raise_intr := INTR_EMPTY, cpu_last_inst_priv := PRV_M,
       cpu_last_csr_wr := 0, cpu_csr_dirty := False, cpu_instruction_trapped := False,
       cpu_reservation := 0, cpu_reservation_bytes := 0, cpu_mtimecmp := - 1\<rparr>"

definition restart :: "config \<Rightarrow> boot_options \<Rightarrow> word_t \<Rightarrow> nemu \<Rightarrow> nemu" where
  "restart c b nemu_hartid s =
     (let s1 = set_gpr 0 0 (set_pc (reset_pc c b) s);
          s2 = set_sr CSR_MISA (CSR_MISA_VALUE c) (set_sr CSR_MARCHID 50 (set_sr CSR_MVENDORID 0 s1));
          s3 = set_sr CSR_MHARTID nemu_hartid (set_sr CSR_MIDELEG (riscv_virtual_irq_mask c) s2);
          s4 = s3\<lparr>cpu := reset_scalars (cpu s3)\<rparr>;
          s5 = riscv_vector_reset c (set_sr 0x15d (- 1) (set_sr 0x14d (- 1) s4));
          s6 = set_sr CSR_MSTATUS (set_field 34 2 2 (set_field 32 2 2 (sr s5 CSR_MSTATUS))) s5;
          s7 = set_sr CSR_SSTATUS (push_bit 32 2) s6;
          s8 = (if riscv_h_gstage_preview_enabled c
                then set_sr CSR_VSTIMECMP (- 1) (set_sr CSR_VSSTATUS (push_bit 32 2) s7) else s7)
      in s8\<lparr>cpu := (cpu s8)\<lparr>cpu_intr := False\<rparr>\<rparr>)"

text \<open>The built-in image: \<open>auipc\<close>, \<open>sb\<close>, \<open>lbu\<close>, \<open>ebreak\<close> and a word of data.\<close>

definition img :: "uint32_t list" where
  "img = [0x00000297, 0x00028823, 0x0102c503, 0x00100073, 0xdeadbeef]"

definition word_bytes :: "uint32_t \<Rightarrow> uint8_t list" where
  "word_bytes w = map (\<lambda>i. ucast (drop_bit (8 * i) w)) [0..<4]"

text \<open>\<open>None\<close> is the failed assertion of \<open>guest_to_host\<close>.\<close>

definition init_isa :: "config \<Rightarrow> boot_options \<Rightarrow> isa_selection \<times> nemu \<Rightarrow> (isa_selection \<times> nemu) option" where
  "init_isa c b = (\<lambda>(g, s).
     if guest_backed c (RESET_VECTOR c b)
     then let s1 = s\<lparr>phys := copy_in (phys s) (RESET_VECTOR c b) (concat (map word_bytes img))\<rparr>
          in Some (riscv_isa_lock g, restart c b 0 s1)
     else None)"

end
