(* ===== verification/Trap_Correct.thy ===== *)
theory Trap_Correct
  imports Trap
begin

text \<open>
  Trap entry and return fit together: the return instruction of the mode a trap went to restores
  the interrupted context. The interrupt selected is the highest-priority one that is pending,
  enabled and not masked by the current mode, and the cheap filter in front of it loses none.
\<close>

unbundle bit_operations_syntax

section \<open>Hart invariant\<close>

text \<open>The privilege levels a hart can be in.\<close>

definition mode_ok :: "config \<Rightarrow> nemu \<Rightarrow> bool" where
  "mode_ok c s \<longleftrightarrow> priv s \<in> {PRV_U, PRV_S, PRV_M} \<and>
     (virt s \<longrightarrow> riscv_h_gstage_preview_enabled c \<and> priv s \<noteq> PRV_M)"

lemma word64_eq_bits: "a = b \<longleftrightarrow> (\<forall>n<64. bit a n = bit b n)" for a b :: "64 word"
  by (auto intro: word_bit_eqI)

lemma bit_m_push:
  "bit (m_push p v) n \<longleftrightarrow>
     (if n = 11 \<or> n = 12 then bit (word_of_nat p :: word_t) (n - 11)
      else if n = 7 then bit v 3 else if n = 3 then False else bit v n)"
  by (auto simp: m_push_def Let_def bit_simps)

lemma bit_s_push:
  "bit (s_push p v) n \<longleftrightarrow>
     (if n = 8 then bit (word_of_nat p :: word_t) 0
      else if n = 5 then bit v 1 else if n = 1 then False else bit v n)"
  by (auto simp: s_push_def Let_def bit_simps)


text \<open>\<open>mpp\<close> holds every privilege level, \<open>spp\<close> the two that trap into S-mode.\<close>

lemma mpp_m_push: "p < 4 \<Longrightarrow> unat (mpp_of (m_push p v)) = p"
proof -
  assume p: "p < 4"
  have "mpp_of (m_push p v) = take_bit 2 (word_of_nat p)"
    by (rule word_bit_eqI) (auto simp: bit_m_push bit_simps)
  then show ?thesis using p by (simp add: unat_take_bit_mod unat_of_nat)
qed

lemma spp_s_push: "p < 2 \<Longrightarrow> unat (spp_of (s_push p v)) = p"
proof -
  assume "p < 2"
  then consider "p = 0" | "p = 1" by linarith
  then show ?thesis
  proof cases
    case 1
    then have "spp_of (s_push p v) = 0" by (auto simp: word64_eq_bits bit_s_push bit_simps)
    with 1 show ?thesis by simp
  next
    case 2
    then have "spp_of (s_push p v) = 1" by (auto simp: word64_eq_bits bit_s_push bit_simps)
    with 2 show ?thesis by simp
  qed
qed

section \<open>A trap into M-mode and its mret\<close>

text \<open>The bits of \<open>mstatus\<close> a trap into M-mode and its return write.\<close>

abbreviation (input) m_bits :: "nat set" where "m_bits \<equiv> {7, 11, 12, 17, 38, 39}"

definition m_regs :: "nat set" where
  "m_regs = {CSR_MSTATUS, CSR_MEPC, CSR_MCAUSE, CSR_MTVAL, CSR_MTVAL2, CSR_MTINST}"

lemma bit_trap_mstatus_h:
  "bit (trap_mstatus_h c NO s v) n \<longleftrightarrow>
     (if n = 39 then virt s else if n = 38 then bit (trap_mstatus_h c NO s v) 38 else bit v n)"
  unfolding trap_mstatus_h_def Let_def
  by (cases "n < 64") (simp_all add: bit_simps bit_lits bit_out64)

lemma trap_to_m_state:
  assumes "trap_to_m c NO epc tval s = (pc, t)"
  shows "priv t = PRV_M" "sr t CSR_MEPC = epc" "sr t CSR_MCAUSE = NO" "sr t CSR_MTVAL = tval"
    "cpu_gpr (cpu t) = cpu_gpr (cpu s)" "i \<notin> m_regs \<Longrightarrow> sr t i = sr s i"
    "n \<noteq> 38 \<Longrightarrow> bit (sr t CSR_MSTATUS) n \<longleftrightarrow>
      (if n = 39 \<and> riscv_h_gstage_preview_enabled c then virt s
       else bit (m_push (priv s) (sr s CSR_MSTATUS)) n)"
  using assms bit_trap_mstatus_h [of c NO _ _ n]
  unfolding trap_to_m_def Let_def m_regs_def by (auto split: if_splits)

lemma isa_raise_intr_m:
  assumes "\<not> trap_delegated c s NO"
  shows "\<exists>s'. isa_raise_intr c NO epc s = trap_to_m c NO epc (trap_tval s NO epc) s' \<and>
    sr s' = sr s \<and> priv s' = priv s \<and> virt s' = virt s \<and> cpu_gpr (cpu s') = cpu_gpr (cpu s)"
proof -
  let ?s = "if is_intr NO then set_csr_dirty True s
    else set_instruction_trapped True (set_csr_dirty True s)"
  have "trap_delegated c ?s NO = trap_delegated c s NO"
    by (simp add: trap_delegated_def)
  moreover have "trap_tval ?s NO epc = trap_tval s NO epc"
    by (simp add: trap_tval_def)
  ultimately have "isa_raise_intr c NO epc s = trap_to_m c NO epc (trap_tval s NO epc) ?s"
    using assms by (simp add: isa_raise_intr_def Let_def)
  then show ?thesis by (intro exI [of _ ?s]) simp
qed

lemma mret_body_state:
  assumes "priv t = PRV_M"
  shows "\<exists>s'. mret_body c t = Some (sr t CSR_MEPC, s') \<and>
    priv s' = unat (mpp_of (sr t CSR_MSTATUS)) \<and>
    virt s' = (riscv_h_gstage_preview_enabled c \<and> priv s' \<noteq> PRV_M \<and> bit (sr t CSR_MSTATUS) 39) \<and>
    cpu_gpr (cpu s') = cpu_gpr (cpu t) \<and> (\<forall>i. i \<noteq> CSR_MSTATUS \<longrightarrow> sr s' i = sr t i) \<and>
    (\<forall>n. bit (sr s' CSR_MSTATUS) n \<longleftrightarrow>
       (if n = 3 then bit (sr t CSR_MSTATUS) 7 else if n = 7 then True
        else if n = 11 \<or> n = 12 \<or> n = 39 then False
        else if n = 17 \<and> priv s' \<noteq> PRV_M then False else bit (sr t CSR_MSTATUS) n))"
  unfolding mret_body_def Let_def using assms
  by (auto simp: bit_simps bit_lits dest: bit_imp_le_length)

text \<open>
  C9. A trap taken into M-mode is undone by \<open>mret\<close>: it resumes at the trapped \<open>pc\<close>, in the
  interrupted privilege and virtualisation mode, with the general registers, every CSR but the trap
  registers, and \<open>mstatus\<close> up to MPIE, MPP, MPRV, GVA and MPV unchanged.
\<close>

theorem mret_after_trap:
  assumes "mode_ok c s" and "\<not> trap_delegated c s NO"
  shows "\<exists>s'. mret_body c (snd (isa_raise_intr c NO epc s)) = Some (epc, s') \<and>
    priv s' = priv s \<and> virt s' = virt s \<and> cpu_gpr (cpu s') = cpu_gpr (cpu s) \<and>
    sr s' CSR_MCAUSE = NO \<and> sr s' CSR_MTVAL = trap_tval s NO epc \<and>
    (\<forall>i. i \<notin> m_regs \<longrightarrow> sr s' i = sr s i) \<and>
    (\<forall>n. n \<notin> m_bits \<longrightarrow> bit (sr s' CSR_MSTATUS) n = bit (sr s CSR_MSTATUS) n)"
proof -
  obtain s0 where s0: "isa_raise_intr c NO epc s = trap_to_m c NO epc (trap_tval s NO epc) s0"
    "sr s0 = sr s" "priv s0 = priv s" "virt s0 = virt s" "cpu_gpr (cpu s0) = cpu_gpr (cpu s)"
    using isa_raise_intr_m [OF assms(2)] by blast
  obtain pc t where t: "trap_to_m c NO epc (trap_tval s NO epc) s0 = (pc, t)" by fastforce
  note t_state = trap_to_m_state [OF t, unfolded s0]
  let ?h = "riscv_h_gstage_preview_enabled c"
  have p: "priv s < 4" and v: "virt s \<Longrightarrow> ?h \<and> priv s \<noteq> PRV_M"
    using assms(1) by (auto simp: mode_ok_def)
  have mpp: "unat (mpp_of (sr t CSR_MSTATUS)) = priv s"
  proof -
    have "mpp_of (sr t CSR_MSTATUS) = mpp_of (m_push (priv s) (sr s CSR_MSTATUS))"
      by (rule word_bit_eqI) (auto simp: bit_get_field t_state(7))
    with mpp_m_push [OF p] show ?thesis by simp
  qed
  have virt: "(?h \<and> priv s \<noteq> PRV_M \<and> bit (sr t CSR_MSTATUS) 39) = virt s"
    using v by (auto simp: t_state(7))
  obtain s' where s': "mret_body c t = Some (sr t CSR_MEPC, s')"
    "priv s' = unat (mpp_of (sr t CSR_MSTATUS))"
    "virt s' = (?h \<and> priv s' \<noteq> PRV_M \<and> bit (sr t CSR_MSTATUS) 39)"
    "cpu_gpr (cpu s') = cpu_gpr (cpu t)" "\<And>i. i \<noteq> CSR_MSTATUS \<Longrightarrow> sr s' i = sr t i"
    "\<And>n. bit (sr s' CSR_MSTATUS) n \<longleftrightarrow>
       (if n = 3 then bit (sr t CSR_MSTATUS) 7 else if n = 7 then True
        else if n = 11 \<or> n = 12 \<or> n = 39 then False
        else if n = 17 \<and> priv s' \<noteq> PRV_M then False else bit (sr t CSR_MSTATUS) n)"
    using mret_body_state [OF t_state(1), of c] by blast
  have "bit (sr s' CSR_MSTATUS) n = bit (sr s CSR_MSTATUS) n" if "n \<notin> m_bits" for n
    using that t_state(7) [of n] t_state(7) [of 7] by (simp add: s'(6) bit_m_push)
  moreover have "sr s' i = sr s i" if "i \<notin> m_regs" for i
    using that t_state(6) [OF that] s'(5) [of i] by (simp add: m_regs_def)
  ultimately show ?thesis
    using mpp virt t_state(2-5) s'(1-5) by (auto simp: s0(1) t m_regs_def)
qed

section \<open>A trap into S-mode or VS-mode and its sret\<close>

definition s_regs :: "nat set" where
  "s_regs = {CSR_SSTATUS, CSR_MSTATUS, CSR_SEPC, CSR_SCAUSE, CSR_STVAL, CSR_HTVAL, CSR_HTINST,
     CSR_HSTATUS, CSR_VSSTATUS, CSR_VSEPC, CSR_VSCAUSE, CSR_VSTVAL}"

lemma trap_hstatus_state:
  "i \<notin> {CSR_HTVAL, CSR_HTINST, CSR_HSTATUS} \<Longrightarrow> sr (trap_hstatus NO s) i = sr s i"
  "bit (sr (trap_hstatus NO s) CSR_HSTATUS) 7 = virt s"
  "bit (sr (trap_hstatus NO s) CSR_HSTATUS) 22 = bit (sr s CSR_HSTATUS) 22"
  "cpu_gpr (cpu (trap_hstatus NO s)) = cpu_gpr (cpu s)" "priv (trap_hstatus NO s) = priv s"
  unfolding trap_hstatus_def Let_def by (auto simp: bit_simps)

lemma trap_to_s_state:
  assumes "trap_to_s c NO epc tval s = (pc, t)"
  shows "priv t = PRV_S" "\<not> virt t" "sr t CSR_SEPC = epc" "sr t CSR_SCAUSE = NO" "sr t CSR_STVAL = tval"
    "cpu_gpr (cpu t) = cpu_gpr (cpu s)" "i \<notin> s_regs \<Longrightarrow> sr t i = sr s i"
    "sr t CSR_MSTATUS = s_push (priv s) (sr s CSR_MSTATUS)"
    "riscv_h_gstage_preview_enabled c \<Longrightarrow> bit (sr t CSR_HSTATUS) 7 = virt s"
    "sr t CSR_VSSTATUS = sr s CSR_VSSTATUS"
  using assms unfolding trap_to_s_def Let_def s_regs_def
  by (auto simp: trap_hstatus_state split: if_splits)

lemma trap_to_vs_state:
  assumes "trap_to_vs c NO epc tval s = (pc, t)"
  shows "priv t = PRV_S" "virt t = virt s" "sr t CSR_VSEPC = epc" "sr t CSR_VSTVAL = tval"
    "cpu_gpr (cpu t) = cpu_gpr (cpu s)" "i \<notin> s_regs \<Longrightarrow> sr t i = sr s i"
    "sr t CSR_VSSTATUS = s_push (priv s) (sr s CSR_VSSTATUS)"
    "sr t CSR_HSTATUS = sr s CSR_HSTATUS" "sr t CSR_MSTATUS = sr s CSR_MSTATUS"
  using assms unfolding trap_to_vs_def Let_def s_regs_def by auto

lemma isa_raise_intr_s:
  assumes "trap_delegated c s NO"
  shows "\<exists>s'. isa_raise_intr c NO epc s =
      (if trap_delegated_vs c s NO then trap_to_vs c NO epc (trap_tval s NO epc) s'
       else trap_to_s c NO epc (trap_tval s NO epc) s') \<and>
    sr s' = sr s \<and> priv s' = priv s \<and> virt s' = virt s \<and> cpu_gpr (cpu s') = cpu_gpr (cpu s)"
proof -
  let ?s = "if is_intr NO then set_csr_dirty True s
    else set_instruction_trapped True (set_csr_dirty True s)"
  have "trap_delegated c ?s NO = trap_delegated c s NO"
    "trap_delegated_vs c ?s NO = trap_delegated_vs c s NO"
    by (simp_all add: trap_delegated_def trap_delegated_vs_def)
  moreover have "trap_tval ?s NO epc = trap_tval s NO epc"
    by (simp add: trap_tval_def)
  ultimately have "isa_raise_intr c NO epc s =
      (if trap_delegated_vs c s NO then trap_to_vs c NO epc (trap_tval s NO epc) ?s
       else trap_to_s c NO epc (trap_tval s NO epc) ?s)"
    using assms by (simp add: isa_raise_intr_def Let_def)
  then show ?thesis by (intro exI [of _ ?s]) simp
qed

text \<open>\<open>sret\<close> from HS-mode and from VS-mode.\<close>

lemma sret_body_hs:
  assumes "priv t = PRV_S" and "\<not> virt t" and "\<not> bit (sr t CSR_MSTATUS) 22"
  shows "\<exists>s'. sret_body c t = Inr (sr t CSR_SEPC, s') \<and>
    priv s' = unat (spp_of (sr t CSR_MSTATUS)) \<and>
    virt s' = (riscv_h_gstage_preview_enabled c \<and> bit (sr t CSR_HSTATUS) 7) \<and>
    cpu_gpr (cpu s') = cpu_gpr (cpu t) \<and>
    (\<forall>i. i \<noteq> CSR_MSTATUS \<and> i \<noteq> CSR_HSTATUS \<longrightarrow> sr s' i = sr t i) \<and>
    (\<forall>n. n \<notin> {5, 8, 17} \<longrightarrow> (bit (sr s' CSR_MSTATUS) n \<longleftrightarrow>
       bit (sr t CSR_MSTATUS) (if n = 1 then 5 else n)))"
proof -
  have "tsr_of (sr t CSR_MSTATUS) = 0"
    using assms(3) by (auto simp: word64_eq_bits bit_simps)
  then show ?thesis
    unfolding sret_body_def Let_def using assms(1,2)
    by (auto simp: bit_set_field bit_get_field)
qed

lemma sret_body_vs:
  assumes "priv t = PRV_S" and "virt t" and "\<not> bit (sr t CSR_HSTATUS) 22"
  shows "\<exists>s'. sret_body c t = Inr (sr t CSR_VSEPC, s') \<and>
    priv s' = unat (spp_of (sr t CSR_VSSTATUS)) \<and> virt s' \<and>
    cpu_gpr (cpu s') = cpu_gpr (cpu t) \<and> (\<forall>i. i \<noteq> CSR_VSSTATUS \<longrightarrow> sr s' i = sr t i) \<and>
    (\<forall>n. n \<notin> {5, 8, 17} \<longrightarrow> (bit (sr s' CSR_VSSTATUS) n \<longleftrightarrow>
       bit (sr t CSR_VSSTATUS) (if n = 1 then 5 else n)))"
proof -
  have "(sr t CSR_HSTATUS AND 0x400000) = 0"
    using assms(3) and_power_eq_0(1) [of "sr t CSR_HSTATUS" 22] by simp
  moreover have "drop_bit 8 v AND 1 = spp_of v" for v
    by (rule word_bit_eqI) (auto simp: bit_simps)
  ultimately show ?thesis
    unfolding sret_body_def Let_def using assms(1,2)
    by (auto simp: bit_simps bit_lits dest: bit_imp_le_length)
qed

text \<open>
  C10. A trap delegated to S- or VS-mode is undone by \<open>sret\<close> there, unless \<open>mstatus.TSR\<close>
  (\<open>hstatus.VTSR\<close> for a guest) forbids \<open>sret\<close>: the trapped \<open>pc\<close>, the privilege, the virtualisation
  mode, the general registers, every CSR but the supervisor trap registers, and the status register
  up to SPIE, SPP and MPRV are restored.
\<close>

theorem sret_after_trap:
  assumes "mode_ok c s" and "trap_delegated c s NO"
    and "\<not> bit (sr s (if trap_delegated_vs c s NO then CSR_HSTATUS else CSR_MSTATUS)) 22"
  shows "\<exists>s'. sret_body c (snd (isa_raise_intr c NO epc s)) = Inr (epc, s') \<and>
    priv s' = priv s \<and> virt s' = virt s \<and> cpu_gpr (cpu s') = cpu_gpr (cpu s) \<and>
    (\<forall>i. i \<notin> s_regs \<longrightarrow> sr s' i = sr s i) \<and>
    (\<forall>n. n \<notin> {5, 8, 17} \<longrightarrow> bit (sr s' CSR_MSTATUS) n = bit (sr s CSR_MSTATUS) n \<and>
       bit (sr s' CSR_VSSTATUS) n = bit (sr s CSR_VSSTATUS) n)"
proof -
  obtain s0 where s0: "isa_raise_intr c NO epc s =
      (if trap_delegated_vs c s NO then trap_to_vs c NO epc (trap_tval s NO epc) s0
       else trap_to_s c NO epc (trap_tval s NO epc) s0)"
    "sr s0 = sr s" "priv s0 = priv s" "virt s0 = virt s" "cpu_gpr (cpu s0) = cpu_gpr (cpu s)"
    using isa_raise_intr_s [OF assms(2)] by blast
  have p: "priv s < 2" using assms(2) by (auto simp: trap_delegated_def Let_def)
  have h: "virt s \<Longrightarrow> riscv_h_gstage_preview_enabled c"
    using assms(1) by (simp add: mode_ok_def)
  show ?thesis
  proof (cases "trap_delegated_vs c s NO")
    case True
    then have "virt s" by (simp add: trap_delegated_vs_def)
    obtain pc t where t: "trap_to_vs c NO epc (trap_tval s NO epc) s0 = (pc, t)" by fastforce
    note st = trap_to_vs_state [OF t, unfolded s0]
    have "virt t" "\<not> bit (sr t CSR_HSTATUS) 22" using st(2,8) True \<open>virt s\<close> assms(3) by auto
    from sret_body_vs [OF st(1) this, of c] obtain s' where
      "sret_body c t = Inr (sr t CSR_VSEPC, s')" "priv s' = unat (spp_of (sr t CSR_VSSTATUS))" "virt s'"
      "cpu_gpr (cpu s') = cpu_gpr (cpu t)" "\<And>i. i \<noteq> CSR_VSSTATUS \<Longrightarrow> sr s' i = sr t i"
      "\<And>n. n \<notin> {5, 8, 17} \<Longrightarrow> bit (sr s' CSR_VSSTATUS) n \<longleftrightarrow>
         bit (sr t CSR_VSSTATUS) (if n = 1 then 5 else n)" by blast
    moreover have "sr s' i = sr s i" if "i \<notin> s_regs" for i
      using that st(6) [OF that] calculation(5) [of i] by (simp add: s_regs_def)
    ultimately show ?thesis
      using st True \<open>virt s\<close> by (auto simp: s0(1) t spp_s_push [OF p, simplified] bit_s_push)
  next
    case False
    obtain pc t where t: "trap_to_s c NO epc (trap_tval s NO epc) s0 = (pc, t)" by fastforce
    note st = trap_to_s_state [OF t, unfolded s0]
    have "\<not> bit (sr t CSR_MSTATUS) 22" using st(8) False assms(3) by (auto simp: bit_s_push)
    from sret_body_hs [OF st(1,2) this, of c] obtain s' where
      "sret_body c t = Inr (sr t CSR_SEPC, s')" "priv s' = unat (spp_of (sr t CSR_MSTATUS))"
      "virt s' = (riscv_h_gstage_preview_enabled c \<and> bit (sr t CSR_HSTATUS) 7)"
      "cpu_gpr (cpu s') = cpu_gpr (cpu t)"
      "\<And>i. i \<noteq> CSR_MSTATUS \<Longrightarrow> i \<noteq> CSR_HSTATUS \<Longrightarrow> sr s' i = sr t i"
      "\<And>n. n \<notin> {5, 8, 17} \<Longrightarrow> bit (sr s' CSR_MSTATUS) n \<longleftrightarrow>
         bit (sr t CSR_MSTATUS) (if n = 1 then 5 else n)" by blast
    moreover have "sr s' i = sr s i" if "i \<notin> s_regs" for i
      using that st(7) [OF that] calculation(5) [of i] by (simp add: s_regs_def)
    moreover have "virt s' = virt s"
      using calculation(3) st(9) h by blast
    ultimately show ?thesis
      using st False by (auto simp: s0(1) t spp_s_push [OF p, simplified] bit_s_push)
  qed
qed

section \<open>Interrupts\<close>

text \<open>
  The privileged manual orders the modes VU < VS < HS < M, with U below HS. An interrupt bound for
  a mode is taken from every lower mode, and from the mode itself if that mode enables interrupts.
  U-mode is placed above VS: an interrupt bound for VS waits for the guest to run.
\<close>

definition mode_level :: "nemu \<Rightarrow> nat" where
  "mode_level s =
     (if priv s = PRV_M then 4
      else if priv s = PRV_S then if virt s then 1 else 3
      else if virt s then 0 else 2)"

definition irq_dest :: "config \<Rightarrow> nemu \<Rightarrow> nat \<Rightarrow> nat" where
  "irq_dest c s n =
     (if bit (riscv_virtual_irq_mask c) n then if bit (sr s CSR_HIDELEG) n then 1 else 3
      else if bit (sr s CSR_MIDELEG) n then 3 else 4)"

definition irq_global_enable :: "nemu \<Rightarrow> nat \<Rightarrow> bool" where
  "irq_global_enable s level =
     (if level = 4 then bit (sr s CSR_MSTATUS) 3
      else if level = 3 then bit (sr s CSR_MSTATUS) 1 else bit (sr s CSR_VSSTATUS) 1)"

definition irq_ready :: "config \<Rightarrow> nemu \<Rightarrow> nat \<Rightarrow> bool" where
  "irq_ready c s n \<longleftrightarrow>
     bit (riscv_hart_mip_value c s) n \<and> bit (sr s CSR_MIE) n \<and>
     (n = 13 \<longrightarrow> riscv_sscofpmf_enabled c) \<and>
     (mode_level s < irq_dest c s n \<or>
      (mode_level s = irq_dest c s n \<and> irq_global_enable s (irq_dest c s n)))"

text \<open>Interrupt numbers by falling priority: MEI, MSI, MTI, SEI, SSI, STI, VSEI, VSSI, VSTI, LCOFI.\<close>

definition irq_priority :: "nat list" where
  "irq_priority = [11, 3, 7, 9, 1, 5, 10, 2, 6, 13]"

declare field1_eq_0 [simp]

lemma and_2_bit: "v AND 2 = 0 \<longleftrightarrow> \<not> bit v 1" for v :: word_t
  using and_power_eq_0(1) [of v 1] by simp

lemma can_take_interrupt_level:
  assumes "mode_ok c s"
  shows "can_take_interrupt c s n \<longleftrightarrow>
    mode_level s < irq_dest c s n \<or>
    (mode_level s = irq_dest c s n \<and> irq_global_enable s (irq_dest c s n))"
  using assms
  unfolding can_take_interrupt_def mode_ok_def mode_level_def irq_dest_def irq_global_enable_def Let_def
  by (auto simp: and_2_bit)

lemma find_map_filter:
  "find (\<lambda>(n, _). Q n) (map (\<lambda>n. (n, f n)) (filter G ns)) =
     map_option (\<lambda>n. (n, f n)) (find (\<lambda>n. Q n \<and> G n) ns)"
  by (induction ns) auto

lemma intr_order_irqs:
  "intr_order c = map (\<lambda>n. (n, MCA_INTR_BIT OR word_of_nat n))
     (filter (\<lambda>n. n = 13 \<longrightarrow> riscv_sscofpmf_enabled c) irq_priority)"
  by (simp add: intr_order_def irq_priority_def)

text \<open>The chain of tests finds the first ready interrupt.\<close>

lemma intr_order_find:
  assumes "mode_ok c s"
  defines "pending \<equiv> riscv_hart_mip_value c s AND sr s CSR_MIE"
  shows "map_option snd (find (\<lambda>(n, _). bit pending n \<and> can_take_interrupt c s n) (intr_order c)) =
    map_option (\<lambda>n. MCA_INTR_BIT OR word_of_nat n) (find (irq_ready c s) irq_priority)"
proof -
  have r: "irq_ready c s n \<longleftrightarrow>
      bit pending n \<and> can_take_interrupt c s n \<and> (n = 13 \<longrightarrow> riscv_sscofpmf_enabled c)" for n
    unfolding irq_ready_def pending_def can_take_interrupt_level [OF assms(1)] bit_and_iff by blast
  then have "irq_ready c s = (\<lambda>n. (bit pending n \<and> can_take_interrupt c s n) \<and>
      (n = 13 \<longrightarrow> riscv_sscofpmf_enabled c))" by (simp add: fun_eq_iff)
  then show ?thesis
    by (simp add: intr_order_irqs find_map_filter option.map_comp comp_def)
qed

lemma isa_query_intr_find:
  assumes "mode_ok c s"
  shows "isa_query_intr c s =
    (if target_share c then INTR_EMPTY
     else case find (irq_ready c s) irq_priority of
       None \<Rightarrow> INTR_EMPTY | Some n \<Rightarrow> MCA_INTR_BIT OR word_of_nat n)"
proof -
  let ?p = "riscv_hart_mip_value c s AND sr s CSR_MIE"
  have none: "find (irq_ready c s) irq_priority = None" if "?p = 0"
  proof -
    have "\<not> irq_ready c s n" for n
      using that bit_and_iff [of "riscv_hart_mip_value c s" "sr s CSR_MIE" n] unfolding irq_ready_def by auto
    then show ?thesis by (simp add: find_None_iff)
  qed
  show ?thesis
    using none intr_order_find [OF assms]
    by (auto simp: isa_query_intr_def Let_def split: option.splits)
qed

text \<open>
  C11. \<open>isa_query_intr\<close> returns the cause of the interrupt of highest priority among those that are
  pending, enabled in \<open>mie\<close> and bound for a mode above the current one, or for the current one with
  its global enable set; it returns \<open>INTR_EMPTY\<close> when there is none, and always when a host decides
  about interrupts.
\<close>

theorem isa_query_intr_priority:
  assumes "mode_ok c s"
  shows "isa_query_intr c s =
    (if target_share c then INTR_EMPTY
     else case find (irq_ready c s) irq_priority of
       None \<Rightarrow> INTR_EMPTY | Some n \<Rightarrow> MCA_INTR_BIT OR word_of_nat n)"
  using assms by (rule isa_query_intr_find)

text \<open>A concrete guest-free state with a machine timer and a supervisor software interrupt.\<close>

definition irq_demo_config :: config where
  "irq_demo_config = riscv64_ref_config\<lparr>target_share := False\<rparr>"

definition irq_demo :: nemu where
  "irq_demo = set_priv PRV_S (set_sr CSR_MIE 0x82 (set_sr CSR_MIP 0x82 nemu_static))"

lemma irq_demo_ok: "mode_ok irq_demo_config irq_demo"
  by (simp add: mode_ok_def irq_demo_def nemu_static_def cpu_static_def)

lemma isa_query_intr_priority_witness:
  "isa_query_intr irq_demo_config irq_demo = MCA_MAC_TIM_INT"
proof -
  have "find (irq_ready irq_demo_config irq_demo) irq_priority = Some 7" by code_simp
  then show ?thesis
    using isa_query_intr_priority [OF irq_demo_ok] by (simp add: irq_demo_config_def)
qed

text \<open>
  C12. The filter the execution loop tests before calling \<open>isa_query_intr\<close> never hides an
  interrupt: skipping the call when \<open>riscv_intr_may_pending\<close> is false changes nothing.
\<close>

theorem intr_filter_sound:
  "(if riscv_intr_may_pending c s then isa_query_intr c s else INTR_EMPTY) = isa_query_intr c s"
proof (cases "riscv_intr_may_pending c s")
  case False
  have "riscv_hart_mip_value c s AND sr s CSR_MIE = 0"
  proof (cases "sr s CSR_MIE = 0")
    case nz: False
    with False have z: "sr s CSR_MIP = 0" "sr s CSR_HVIP AND riscv_virtual_irq_mask c = 0"
      "\<not> cpu_seip (cpu s)" "\<not> cpu_stip (cpu s)" "\<not> riscv_virtual_timer_pending c s"
      "raptor_memory_map c \<Longrightarrow> push_bit 16 (sr s CSR_MBERR_STATUS AND 1) = 0"
      by (auto simp: riscv_intr_may_pending_def Let_def or_eq_0_iff split: if_splits)
    then have "riscv_hart_mip_value c s = 0"
      by (simp add: riscv_hart_mip_value_def)
    then show ?thesis by simp
  qed simp
  then show ?thesis by (simp add: isa_query_intr_def)
qed simp

text \<open>The witnesses of the round trips: an illegal instruction in U-mode, then the same delegated.\<close>

definition ret_demo :: nemu where
  "ret_demo = set_sr CSR_MSTATUS 8 nemu_static"

lemma ret_demo_ok: "mode_ok riscv64_ref_config ret_demo"
  "mode_ok riscv64_ref_config (set_sr CSR_MEDELEG 4 ret_demo)"
  by (simp_all add: mode_ok_def ret_demo_def nemu_static_def cpu_static_def)

lemma mret_after_trap_witness:
  "\<exists>s'. mret_body riscv64_ref_config
      (snd (isa_raise_intr riscv64_ref_config MCA_ILLEGAL_INS 0x80000100 ret_demo)) = Some (0x80000100, s') \<and>
    priv s' = PRV_U \<and> bit (sr s' CSR_MSTATUS) 3"
proof -
  have "\<not> trap_delegated riscv64_ref_config ret_demo MCA_ILLEGAL_INS" by code_simp
  from mret_after_trap [OF ret_demo_ok(1) this, of "0x80000100"] obtain s' where
    "mret_body riscv64_ref_config
      (snd (isa_raise_intr riscv64_ref_config MCA_ILLEGAL_INS 0x80000100 ret_demo)) = Some (0x80000100, s')"
    "priv s' = priv ret_demo" "\<forall>n. n \<notin> m_bits \<longrightarrow> bit (sr s' CSR_MSTATUS) n = bit (sr ret_demo CSR_MSTATUS) n"
    by blast
  then show ?thesis by (auto simp: ret_demo_def nemu_static_def cpu_static_def)
qed

lemma sret_after_trap_witness:
  "\<exists>s'. sret_body riscv64_ref_config (snd (isa_raise_intr riscv64_ref_config MCA_ILLEGAL_INS 0x80000100
      (set_sr CSR_MEDELEG 4 ret_demo))) = Inr (0x80000100, s') \<and> priv s' = PRV_U"
proof -
  let ?s = "set_sr CSR_MEDELEG 4 ret_demo"
  have d: "trap_delegated riscv64_ref_config ?s MCA_ILLEGAL_INS" by code_simp
  have r: "\<not> bit (sr ?s (if trap_delegated_vs riscv64_ref_config ?s MCA_ILLEGAL_INS
      then CSR_HSTATUS else CSR_MSTATUS)) 22" by code_simp
  from sret_after_trap [OF ret_demo_ok(2) d r, of "0x80000100"] obtain s' where
    "sret_body riscv64_ref_config
      (snd (isa_raise_intr riscv64_ref_config MCA_ILLEGAL_INS 0x80000100 ?s)) = Inr (0x80000100, s')"
    "priv s' = priv ?s" by blast
  then show ?thesis by (auto simp: ret_demo_def nemu_static_def cpu_static_def)
qed

section \<open>Where an interrupt goes\<close>

lemma irq_cause_code:
  assumes "n \<in> set irq_priority"
  shows "is_intr (MCA_INTR_BIT OR word_of_nat n)"
    "(MCA_INTR_BIT OR word_of_nat n) AND NOT MCA_INTR_BIT = (word_of_nat n :: word_t)"
    "unat (word_of_nat n :: word_t) = n" "MCA_INTR_BIT OR word_of_nat n \<noteq> (INTR_EMPTY :: word_t)"
  using assms by (auto simp: irq_priority_def is_intr_def)

lemma vs_target_level:
  assumes "trap_to_vs c NO epc tval s = (pc, t)" and "virt s"
  shows "mode_level t = 1" "\<not> irq_global_enable t 1"
  using trap_to_vs_state [OF assms(1)] assms(2)
  by (auto simp: mode_level_def irq_global_enable_def bit_s_push)

lemma s_target_level:
  assumes "trap_to_s c NO epc tval s = (pc, t)"
  shows "mode_level t = 3" "\<not> irq_global_enable t 3"
  using trap_to_s_state [OF assms]
  by (auto simp: mode_level_def irq_global_enable_def bit_s_push)

lemma m_target_level:
  assumes "trap_to_m c NO epc tval s = (pc, t)"
  shows "mode_level t = 4" "\<not> irq_global_enable t 4"
  using trap_to_m_state [OF assms] trap_to_m_state(7) [OF assms, of 3]
  by (auto simp: mode_level_def irq_global_enable_def bit_m_push)

lemma irq_ready_dest:
  assumes "mode_ok c s" and "irq_ready c s n" and "n \<in> set irq_priority"
    and "\<And>k. bit (sr s CSR_HIDELEG) k \<Longrightarrow> bit (riscv_virtual_irq_mask c) k"
  defines "NO \<equiv> MCA_INTR_BIT OR word_of_nat n"
  shows "trap_delegated c s NO \<longleftrightarrow> irq_dest c s n \<noteq> 4"
    and "trap_delegated c s NO \<Longrightarrow> trap_delegated_vs c s NO \<longleftrightarrow> irq_dest c s n = 1"
proof -
  note code = irq_cause_code [OF assms(3), folded NO_def]
  have n: "n < 64" using assms(3) by (auto simp: irq_priority_def)
  have low: "irq_dest c s n \<noteq> 4 \<Longrightarrow> priv s \<le> PRV_S"
    using assms(1,2) by (auto simp: irq_ready_def mode_ok_def mode_level_def irq_dest_def split: if_splits)
  have deleg: "trap_delegated c s NO \<longleftrightarrow>
      priv s \<le> PRV_S \<and> bit (sr s CSR_MIDELEG OR riscv_virtual_irq_mask c) n"
    unfolding trap_delegated_def Let_def code(2,3) using code(1) n by simp
  have vs: "trap_delegated_vs c s NO \<longleftrightarrow>
      virt s \<and> riscv_h_gstage_preview_enabled c \<and> bit (sr s CSR_HIDELEG) n"
    unfolding trap_delegated_vs_def code(2,3) using code(1) by simp
  show "trap_delegated c s NO \<longleftrightarrow> irq_dest c s n \<noteq> 4"
    using low by (auto simp: deleg bit_or_iff irq_dest_def split: if_splits)
  show "trap_delegated c s NO \<Longrightarrow> trap_delegated_vs c s NO \<longleftrightarrow> irq_dest c s n = 1"
    using assms(1,2,4) low
    by (auto simp: vs irq_dest_def irq_ready_def mode_ok_def mode_level_def split: if_splits)
qed

text \<open>
  C13. An interrupt that \<open>isa_query_intr\<close> reports is taken by \<open>isa_raise_intr\<close> into exactly the mode
  it was weighed against (VS if \<open>hideleg\<close> says so, HS if \<open>mideleg\<close> does, else M): never a less
  privileged one than the current mode, and with the interrupts of that mode turned off.
\<close>

theorem interrupt_destination:
  assumes "mode_ok c s" and "isa_query_intr c s \<noteq> INTR_EMPTY"
    and "sr s CSR_HIDELEG AND NOT (riscv_virtual_irq_mask c) = 0"
  shows "\<exists>n\<in>set irq_priority. isa_query_intr c s = MCA_INTR_BIT OR word_of_nat n \<and>
    (let t = snd (isa_raise_intr c (isa_query_intr c s) epc s) in
     mode_level t = irq_dest c s n \<and> mode_level s \<le> mode_level t \<and>
     \<not> irq_global_enable t (mode_level t))"
proof -
  obtain n where n: "find (irq_ready c s) irq_priority = Some n"
    "isa_query_intr c s = MCA_INTR_BIT OR word_of_nat n"
    using assms(2) isa_query_intr_find [OF assms(1)] by (auto split: if_splits option.splits)
  then have ready: "irq_ready c s n" "n \<in> set irq_priority"
    by (auto simp: find_Some_iff)
  have sub: "bit (riscv_virtual_irq_mask c) k" if "bit (sr s CSR_HIDELEG) k" for k
  proof (rule ccontr)
    assume "\<not> bit (riscv_virtual_irq_mask c) k"
    with that have "bit (sr s CSR_HIDELEG AND NOT (riscv_virtual_irq_mask c)) k"
      by (auto simp: bit_simps dest: bit_imp_le_length)
    with assms(3) show False by simp
  qed
  note dest = irq_ready_dest [OF assms(1) ready sub]
  let ?NO = "MCA_INTR_BIT OR word_of_nat n :: word_t"
  let ?t = "snd (isa_raise_intr c ?NO epc s)"
  have le: "mode_level s \<le> irq_dest c s n" using ready(1) by (auto simp: irq_ready_def)
  have "mode_level ?t = irq_dest c s n \<and> \<not> irq_global_enable ?t (irq_dest c s n)"
  proof (cases "trap_delegated c s ?NO")
    case False
    with dest have "irq_dest c s n = 4" by simp
    moreover obtain s' where "isa_raise_intr c ?NO epc s = trap_to_m c ?NO epc (trap_tval s ?NO epc) s'"
      using isa_raise_intr_m [OF False] by blast
    ultimately show ?thesis
      using m_target_level [OF prod.collapse [symmetric]] by metis
  next
    case True
    from isa_raise_intr_s [OF True] obtain s' where s': "isa_raise_intr c ?NO epc s =
        (if trap_delegated_vs c s ?NO then trap_to_vs c ?NO epc (trap_tval s ?NO epc) s'
         else trap_to_s c ?NO epc (trap_tval s ?NO epc) s')" "virt s' = virt s" by blast
    show ?thesis
    proof (cases "trap_delegated_vs c s ?NO")
      case vs: True
      with True dest have "irq_dest c s n = 1" by simp
      moreover have "virt s'" using vs s'(2) by (simp add: trap_delegated_vs_def)
      ultimately show ?thesis
        using vs s'(1) vs_target_level [OF prod.collapse [symmetric]] by metis
    next
      case hs: False
      with True dest have "irq_dest c s n = 3" by (auto simp: irq_dest_def split: if_splits)
      then show ?thesis using hs s'(1) s_target_level [OF prod.collapse [symmetric]] by metis
    qed
  qed
  with n(2) ready(2) le show ?thesis by (auto simp: Let_def)
qed

lemma interrupt_destination_witness:
  "\<exists>n\<in>set irq_priority. isa_query_intr irq_demo_config irq_demo = MCA_INTR_BIT OR word_of_nat n \<and>
    mode_level (snd (isa_raise_intr irq_demo_config (isa_query_intr irq_demo_config irq_demo) 0x80000000 irq_demo)) =
      irq_dest irq_demo_config irq_demo n"
proof -
  have "isa_query_intr irq_demo_config irq_demo \<noteq> INTR_EMPTY" by code_simp
  moreover have "sr irq_demo CSR_HIDELEG AND NOT (riscv_virtual_irq_mask irq_demo_config) = 0"
    by code_simp
  ultimately show ?thesis
    using interrupt_destination [OF irq_demo_ok, of "0x80000000"] by (auto simp: Let_def)
qed

end
