(* ===== verification/Commit_Correct.thy ===== *)
theory Commit_Correct
  imports Commit Trap_Correct
begin

text \<open>
  What the tail of every instruction maintains: \<open>mstatus\<close> and the other WARL registers stay legal,
  the supervisor registers stay views of the machine ones, and on a coherent state the tail's
  normalisation does nothing, the fact behind the gate of standalone builds.
\<close>

unbundle bit_operations_syntax

section \<open>Legal mstatus\<close>

definition mstatus_ok :: "config \<Rightarrow> word_t \<Rightarrow> bool" where
  "mstatus_ok c v \<longleftrightarrow>
     (\<forall>n. bit v n \<longrightarrow> bit (MSTATUS_WMASK c) n \<or> n \<in> {33, 35, 63}) \<and>
     bit v 33 \<and> bit v 35 \<and> \<not> (bit v 12 \<and> \<not> bit v 11) \<and>
     (bit v 63 \<longleftrightarrow> (bit v 13 \<and> bit v 14) \<or> (bit v 9 \<and> bit v 10) \<or> (bit v 15 \<and> bit v 16))"

lemma field2_eq:
  "drop_bit k v AND 3 = 3 \<longleftrightarrow> bit v k \<and> bit v (k + 1)"
  "drop_bit k v AND 3 = 2 \<longleftrightarrow> \<not> bit v k \<and> bit v (k + 1)" for v :: word_t
proof -
  have eq: "w AND 3 = m \<longleftrightarrow> bit w 0 = bit m 0 \<and> bit w 1 = bit m 1" if "\<And>n. 2 \<le> n \<Longrightarrow> \<not> bit m n"
    for w m :: word_t
  proof
    assume *: "bit w 0 = bit m 0 \<and> bit w 1 = bit m 1"
    show "w AND 3 = m"
    proof (rule word_bit_eqI)
      fix n assume "n < LENGTH(64)"
      consider "n = 0" | "n = 1" | "2 \<le> n" by linarith
      then show "bit (w AND 3) n = bit m n"
        using * that by cases (auto simp: bit_and_iff bit_lits)
    qed
  next
    assume "w AND 3 = m"
    then show "bit w 0 = bit m 0 \<and> bit w 1 = bit m 1" by (auto simp: bit_and_iff)
  qed
  show "drop_bit k v AND 3 = 3 \<longleftrightarrow> bit v k \<and> bit v (k + 1)"
    by (subst eq) (auto simp: bit_lits bit_drop_bit_eq)
  show "drop_bit k v AND 3 = 2 \<longleftrightarrow> \<not> bit v k \<and> bit v (k + 1)"
    by (subst eq) (auto simp: bit_lits bit_drop_bit_eq)
qed

lemma bit_mstatus_legalize:
  "bit (mstatus_legalize v) n \<longleftrightarrow>
     (if n = 11 \<or> n = 12 then bit v n \<and> \<not> (bit v 12 \<and> \<not> bit v 11)
      else if n = 33 \<or> n = 35 then True else if n = 32 \<or> n = 34 then False
      else if n = 63 then bit v 63 \<or> (bit v 13 \<and> bit v 14) \<or> (bit v 9 \<and> bit v 10) \<or>
        (bit v 15 \<and> bit v 16)
      else bit v n)"
proof -
  define v1 where "v1 = (if drop_bit 11 v AND 3 = 2 then v AND NOT (push_bit 11 3) else v)"
  have v1: "bit v1 n \<longleftrightarrow> bit v n \<and> \<not> ((n = 11 \<or> n = 12) \<and> bit v 12 \<and> \<not> bit v 11)" for n
    unfolding v1_def field2_eq
    by (auto simp: bit_simps bit_lits dest: bit_imp_le_length)
  define v2 where "v2 = (v1 AND NOT 0xF00000000) OR 0xA00000000"
  have v2: "bit v2 n \<longleftrightarrow> (if n = 33 \<or> n = 35 then True else if n = 32 \<or> n = 34 then False else bit v1 n)" for n
    unfolding v2_def by (cases "n < 64") (auto simp: bit_simps bit_lits bit_out64)
  have "mstatus_legalize v =
      (if drop_bit 13 v2 AND 3 = 3 \<or> drop_bit 9 v2 AND 3 = 3 \<or> drop_bit 15 v2 AND 3 = 3
       then v2 OR push_bit 63 1 else v2)"
    by (simp only: mstatus_legalize_def Let_def v1_def v2_def)
  then show ?thesis
    unfolding field2_eq by (cases "n < 64") (auto simp: bit_simps bit_lits bit_out64 v2 v1)
qed

lemma bit_MSTATUS_WMASK:
  "bit (MSTATUS_WMASK c) n \<longleftrightarrow>
     n \<in> {1, 3, 5, 7, 8, 11, 12, 13, 14, 17, 18, 19, 20, 21, 22} \<or>
     (riscv_v128_preview_enabled c \<and> n \<in> {9, 10}) \<or>
     (riscv_h_gstage_preview_enabled c \<and> n \<in> {38, 39})"
  by (cases "n < 64") (auto simp: MSTATUS_WMASK_def bit_or_iff bit_lits bit_out64)

lemma mstatus_ok_legalize:
  assumes "\<And>n. bit v n \<Longrightarrow> bit (MSTATUS_WMASK c) n"
  shows "mstatus_ok c (mstatus_legalize v)"
proof -
  have "\<not> bit v 63" using assms [of 63] by (auto simp: bit_MSTATUS_WMASK)
  with assms show ?thesis
    unfolding mstatus_ok_def bit_mstatus_legalize by (auto simp: bit_MSTATUS_WMASK split: if_splits)
qed

lemma mstatus_legalize_id:
  assumes "mstatus_ok c v"
  shows "mstatus_legalize (v AND MSTATUS_WMASK c) = v"
proof (rule word_bit_eqI)
  fix n assume "n < LENGTH(64)"
  have ok: "\<And>n. bit v n \<Longrightarrow> bit (MSTATUS_WMASK c) n \<or> n \<in> {33, 35, 63}" "bit v 33" "bit v 35"
    "\<not> (bit v 12 \<and> \<not> bit v 11)"
    "bit v 63 \<longleftrightarrow> (bit v 13 \<and> bit v 14) \<or> (bit v 9 \<and> bit v 10) \<or> (bit v 15 \<and> bit v 16)"
    using assms unfolding mstatus_ok_def by blast+
  have w: "bit (MSTATUS_WMASK c) 11" "bit (MSTATUS_WMASK c) 12" "bit (MSTATUS_WMASK c) 13"
    "bit (MSTATUS_WMASK c) 14" "\<not> bit (MSTATUS_WMASK c) 63" "\<not> bit (MSTATUS_WMASK c) 32"
    "\<not> bit (MSTATUS_WMASK c) 34" "\<not> bit (MSTATUS_WMASK c) 15"
    by (auto simp: bit_MSTATUS_WMASK)
  have "bit v 9 \<Longrightarrow> bit (MSTATUS_WMASK c) 9" "bit v 10 \<Longrightarrow> bit (MSTATUS_WMASK c) 10"
    "\<not> bit v 15" "\<not> bit v 32" "\<not> bit v 34"
    using ok(1) [of 9] ok(1) [of 10] ok(1) [of 15] ok(1) [of 32] ok(1) [of 34] w by auto
  then show "bit (mstatus_legalize (v AND MSTATUS_WMASK c)) n = bit v n"
    using ok(2-5) w ok(1) [of n] unfolding bit_mstatus_legalize bit_and_iff by auto
qed

section \<open>Coherent CSRs\<close>

definition MEDELEG_MASK :: "config \<Rightarrow> word_t" where
  "MEDELEG_MASK c = 0x8b3fe OR (if riscv_h_gstage_preview_enabled c then 0xf00400 else 0)"

definition csr_coherent :: "config \<Rightarrow> nemu \<Rightarrow> bool" where
  "csr_coherent c s \<longleftrightarrow>
     mstatus_ok c (sr s CSR_MSTATUS) \<and> sr s CSR_MISA = CSR_MISA_VALUE c \<and>
     sr s CSR_MEDELEG AND MEDELEG_MASK c = sr s CSR_MEDELEG \<and>
     (sr s CSR_MIDELEG AND riscv_supervisor_irq_mask c) OR riscv_virtual_irq_mask c = sr s CSR_MIDELEG \<and>
     sr s CSR_SSTATUS = sr s CSR_MSTATUS AND SSTATUS_RMASK c \<and>
     sr s CSR_SIE = sr s CSR_MIE AND sr s CSR_MIDELEG AND riscv_supervisor_irq_mask c \<and>
     sr s CSR_SIP = riscv_hart_mip_value c s AND sr s CSR_MIDELEG AND riscv_supervisor_irq_mask c"

definition mip_regs :: "nat set" where
  "mip_regs = {CSR_MIP, CSR_HVIP, CSR_MBERR_STATUS, CSR_MENVCFG, CSR_HENVCFG, CSR_VSTIMECMP, CSR_TIME,
     CSR_HTIMEDELTA}"

lemma mip_value_set_sr:
  "i \<notin> mip_regs \<Longrightarrow> riscv_hart_mip_value c (set_sr i v s) = riscv_hart_mip_value c s"
  by (simp add: riscv_hart_mip_value_def sstc_enabled_def riscv_virtual_timer_pending_def mip_regs_def
      Let_def)

lemma set_sr_absorb: "sr s i = v \<Longrightarrow> set_sr i v s = s"
  by (auto simp: set_sr_def sr_def)

lemmas set_sr_same = set_sr_absorb [OF refl]

text \<open>Registers the timer update leaves alone.\<close>

lemma clint_update_mip_frame:
  "i \<notin> {CSR_MIP, CSR_SIP, CSR_TIME} \<Longrightarrow> sr (clint_update_mip c s) i = sr s i"
  "priv (clint_update_mip c s) = priv s" "virt (clint_update_mip c s) = virt s"
  "cpu_gpr (cpu (clint_update_mip c s)) = cpu_gpr (cpu s)"
  by (auto simp: clint_update_mip_def Let_def)

lemma commit_views_mstatus:
  "bit (sr (commit_views c lw (commit_mask c s)) CSR_MSTATUS) n \<Longrightarrow> bit (MSTATUS_WMASK c) n"
  "sr (commit_views c lw (commit_mask c s)) CSR_MISA = CSR_MISA_VALUE c"
  "sr (commit_views c lw (commit_mask c s)) CSR_MEDELEG = sr s CSR_MEDELEG AND MEDELEG_MASK c"
  "sr (commit_views c lw (commit_mask c s)) CSR_MIDELEG =
     (sr s CSR_MIDELEG AND riscv_supervisor_irq_mask c) OR riscv_virtual_irq_mask c"
  unfolding commit_views_def commit_mask_def Let_def MEDELEG_MASK_def
  by (auto simp: bit_and_iff split: if_splits)

lemma csr_commit_coherent: "csr_coherent c (csr_commit c lw s)"
proof -
  let ?s1 = "commit_views c lw (commit_mask c s)"
  define s2 where "s2 = (if (lw = CSR_STIMECMP \<or> lw = 0x15d \<or> lw = CSR_MENVCFG \<or> lw = CSR_MENVCFGH) \<and>
    has_device c then clint_update_mip c ?s1 else ?s1)"
  have eq: "sr s2 i = sr ?s1 i" if "i \<in> {CSR_MSTATUS, CSR_MISA, CSR_MEDELEG, CSR_MIDELEG}" for i
    using that clint_update_mip_frame(1) [of i c ?s1] unfolding s2_def by auto
  have "mstatus_ok c (mstatus_legalize (sr s2 CSR_MSTATUS))"
    by (rule mstatus_ok_legalize) (simp add: eq commit_views_mstatus(1))
  moreover have "riscv_virtual_irq_mask c AND riscv_supervisor_irq_mask c = 0"
    by (simp add: riscv_supervisor_irq_mask_def riscv_virtual_irq_mask_def)
  ultimately show ?thesis
    unfolding csr_coherent_def csr_commit_def Let_def s2_def [symmetric]
    by (simp add: eq commit_views_mstatus mip_value_set_sr mip_regs_def and.assoc
        bit.conj_disj_distrib2)
qed

lemma csr_commit_id:
  assumes "csr_coherent c s"
  shows "csr_commit c 0 s = s"
proof -
  have m: "mstatus_legalize (sr s CSR_MSTATUS AND MSTATUS_WMASK c) = sr s CSR_MSTATUS"
    using assms by (intro mstatus_legalize_id) (simp add: csr_coherent_def)
  have regs: "sr s CSR_MISA = CSR_MISA_VALUE c" "sr s CSR_MEDELEG AND MEDELEG_MASK c = sr s CSR_MEDELEG"
    "(sr s CSR_MIDELEG AND riscv_supervisor_irq_mask c) OR riscv_virtual_irq_mask c = sr s CSR_MIDELEG"
    "sr s CSR_SSTATUS = sr s CSR_MSTATUS AND SSTATUS_RMASK c"
    "sr s CSR_SIE = sr s CSR_MIE AND sr s CSR_MIDELEG AND riscv_supervisor_irq_mask c"
    "sr s CSR_SIP = riscv_hart_mip_value c s AND sr s CSR_MIDELEG AND riscv_supervisor_irq_mask c"
    using assms by (simp_all add: csr_coherent_def)
  define t where "t = set_sr CSR_MSTATUS (sr s CSR_MSTATUS AND MSTATUS_WMASK c) s"
  have mask: "commit_views c 0 (commit_mask c s) = t"
    unfolding commit_views_def commit_mask_def Let_def t_def MEDELEG_MASK_def [symmetric]
    by (simp add: regs(2,3) regs(1) [symmetric] set_sr_same)
       (simp add: set_sr_def sr_def fun_upd_twist regs(1) [unfolded sr_def, symmetric] fun_upd_idem_iff)
  have "set_sr CSR_MSTATUS (mstatus_legalize (sr t CSR_MSTATUS)) t = s"
    unfolding t_def using m by (simp add: set_sr_def sr_def)
  then show ?thesis
    unfolding csr_commit_def Let_def mask
    by (simp add: set_sr_absorb [OF regs(4)] set_sr_absorb [OF regs(5)] set_sr_absorb [OF regs(6)])
qed

section \<open>The whole tail\<close>

lemma mip_time:
  "riscv_hart_mip_value c (set_sr CSR_TIME v s) AND x AND riscv_supervisor_irq_mask c =
     riscv_hart_mip_value c s AND x AND riscv_supervisor_irq_mask c"
proof -
  have z: "0x40 AND riscv_supervisor_irq_mask c = 0"
    by (simp add: riscv_supervisor_irq_mask_def)
  have drop: "(w OR 0x40) AND (x AND riscv_supervisor_irq_mask c) = w AND (x AND riscv_supervisor_irq_mask c)"
    for w :: word_t
  proof -
    have "0x40 AND (x AND riscv_supervisor_irq_mask c) = x AND (0x40 AND riscv_supervisor_irq_mask c)"
      by (simp add: ac_simps)
    then show ?thesis by (simp only: z bit.conj_disj_distrib2 and_zero_eq bit.disj_zero_right)
  qed
  show ?thesis
    by (simp add: riscv_hart_mip_value_def sstc_enabled_def Let_def and.assoc drop)
qed

lemma csr_coherent_clint: "csr_coherent c s \<Longrightarrow> csr_coherent c (clint_update_mip c s)"
proof (cases "target_share c")
  case True
  then show "csr_coherent c s \<Longrightarrow> csr_coherent c (clint_update_mip c s)"
    by (simp add: clint_update_mip_def)
next
  case False
  assume coh: "csr_coherent c s"
  have "sr (clint_update_mip c s) CSR_SIP =
      riscv_hart_mip_value c (clint_update_mip c s) AND sr s CSR_MIDELEG AND riscv_supervisor_irq_mask c"
    using False by (simp add: clint_update_mip_def Let_def mip_time mip_value_set_sr mip_regs_def)
  then show ?thesis
    using coh by (simp add: csr_coherent_def clint_update_mip_frame)
qed

lemma csr_coherent_set_sr:
  assumes "csr_coherent c s" and "i \<notin> mip_regs"
    and "i \<notin> {CSR_MSTATUS, CSR_MISA, CSR_MEDELEG, CSR_MIDELEG, CSR_SSTATUS, CSR_SIE, CSR_SIP, CSR_MIE}"
  shows "csr_coherent c (set_sr i v s)"
  using assms by (simp add: csr_coherent_def mip_value_set_sr)

lemma csr_coherent_time: "csr_coherent c s \<Longrightarrow> csr_coherent c (set_sr CSR_TIME v s)"
  by (simp add: csr_coherent_def mip_time)

lemma csr_coherent_counters: "csr_coherent c s \<Longrightarrow> csr_coherent c (commit_counters lw s)"
  by (simp add: commit_counters_def Let_def csr_coherent_set_sr mip_regs_def)

lemma csr_coherent_commit_time: "csr_coherent c s \<Longrightarrow> csr_coherent c (commit_time c s)"
  by (simp add: commit_time_def csr_coherent_clint csr_coherent_time)

lemma csr_coherent_cong:
  "sr t = sr s \<Longrightarrow> riscv_hart_mip_value c t = riscv_hart_mip_value c s \<Longrightarrow>
    csr_coherent c t = csr_coherent c s"
  by (simp add: csr_coherent_def)

lemma mip_value_frame:
  "riscv_hart_mip_value c (set_csr_dirty b s) = riscv_hart_mip_value c s"
  "riscv_hart_mip_value c (set_last_csr_wr i s) = riscv_hart_mip_value c s"
  "riscv_hart_mip_value c (set_gpr r v s) = riscv_hart_mip_value c s"
  by (simp_all add: riscv_hart_mip_value_def sstc_enabled_def riscv_virtual_timer_pending_def Let_def)

text \<open>
  C14. After the tail of any instruction that touched a CSR, trapped or returned from a trap, or of
  any instruction that started from a coherent state, the CSRs are coherent: MPP is never the
  reserved level 2, SXL and UXL read 2, SD summarises FS, VS and XS, \<open>medeleg\<close> and \<open>mideleg\<close> hold
  only delegable causes, and \<open>sstatus\<close>, \<open>sie\<close>, \<open>sip\<close> are the views of \<open>mstatus\<close>, \<open>mie\<close>,
  \<open>mip\<close>. Register \<open>x0\<close> reads zero.
\<close>

theorem commit_tail_coherent:
  assumes "target_share c \<or> cpu_last_csr_wr (cpu s) \<noteq> 0 \<or> cpu_csr_dirty (cpu s) \<or> csr_coherent c s"
  shows "csr_coherent c (snd (commit_tail c dnpc s)) \<and> gpr (snd (commit_tail c dnpc s)) 0 = 0"
proof -
  let ?b = "target_share c \<or> cpu_last_csr_wr (cpu s) \<noteq> 0 \<or> cpu_csr_dirty (cpu s)"
  let ?s1 = "set_csr_dirty False (set_last_csr_wr 0 s)"
  let ?s2 = "if ?b then csr_commit c (cpu_last_csr_wr (cpu s)) ?s1 else ?s1"
  have "csr_coherent c ?s1 = csr_coherent c s"
    by (rule csr_coherent_cong) (simp_all add: mip_value_frame)
  then have "csr_coherent c ?s2"
    using assms csr_commit_coherent by auto
  then have "csr_coherent c (set_gpr 0 0 (commit_time c (commit_counters (cpu_last_csr_wr (cpu s)) ?s2)))"
    by (subst csr_coherent_cong [of _ "commit_time c (commit_counters (cpu_last_csr_wr (cpu s)) ?s2)"])
      (simp_all add: fun_eq_iff mip_value_frame csr_coherent_commit_time csr_coherent_counters)
  then show ?thesis by (simp add: commit_tail_def Let_def)
qed

text \<open>The all-zero state of a process start, in a build that commits after every instruction.\<close>

lemma commit_tail_coherent_witness:
  "csr_coherent riscv64_ref_config (snd (commit_tail riscv64_ref_config 0x80000000 nemu_static))"
proof -
  have "target_share riscv64_ref_config" by (simp add: riscv64_ref_config_def)
  then show ?thesis
    using commit_tail_coherent [of riscv64_ref_config nemu_static "0x80000000"] by simp
qed

section \<open>Writes through the supervisor views\<close>

lemma bit_SSTATUS_RMASK:
  "bit (SSTATUS_RMASK c) n \<longleftrightarrow>
     n \<in> {1, 5, 8, 13, 14, 18, 19, 32, 33, 63} \<or> (riscv_v128_preview_enabled c \<and> n \<in> {9, 10})"
  by (cases "n < 64") (auto simp: SSTATUS_RMASK_def bit_or_iff bit_lits bit_out64)

abbreviation (input) s_views :: "nat set" where "s_views \<equiv> {CSR_SSTATUS, CSR_SIE, CSR_SIP}"

lemma csrw_warl_view: "i \<in> s_views \<Longrightarrow> csrw_warl c s i v = v"
  by (elim insertE emptyE; simp add: csrw_warl_def Let_def)

lemma pmp_csr_write_view: "i \<in> s_views \<Longrightarrow> pmp_csr_write c i v s = None"
  by (elim insertE emptyE; simp add: pmp_csr_write_def Let_def)

lemma csrw_dispatch_view: "i \<in> s_views \<Longrightarrow> csrw_dispatch c i v s = set_sr i v s"
  using pmp_csr_write_view [of i c v s]
  by (elim insertE emptyE; simp add: csrw_dispatch_def csrw_store_def is_fp_csr_def is_vector_csr_def
      is_stateen_csr_def is_hpm_zero_csr_def Let_def)

lemma csrw_view:
  assumes "i \<in> s_views" and "\<not> virt s"
  shows "CSRW c i v s = (if i = CSR_SSTATUS
    then soft_tlb_flush (set_last_csr_wr i (set_sr i v s)) else set_last_csr_wr i (set_sr i v s))"
proof -
  have "guest_csr_alias s (i mod 4096) = i" using assms by (auto simp: guest_csr_alias_def)
  then show ?thesis
    unfolding CSRW_def Let_def
    using assms(1) csrw_warl_view [OF assms(1)] csrw_dispatch_view [OF assms(1)]
    by (elim insertE emptyE; simp add: csrw_flushes_def)
qed

text \<open>The registers after a commit that did not write a timer CSR.\<close>

lemma commit_views_sr:
  "sr (commit_views c lw s) i =
     (if i = CSR_MSTATUS \<and> lw = CSR_SSTATUS
      then ((sr s CSR_MSTATUS AND NOT (SSTATUS_RMASK c)) OR (sr s CSR_SSTATUS AND SSTATUS_RMASK c)) AND
        MSTATUS_WMASK c
      else if i = CSR_MIE \<and> lw = CSR_SIE
      then (sr s CSR_MIE AND NOT (sr s CSR_MIDELEG AND riscv_supervisor_irq_mask c)) OR
        (sr s CSR_SIE AND (sr s CSR_MIDELEG AND riscv_supervisor_irq_mask c))
      else if i = CSR_MIP \<and> lw = CSR_SIP
      then (sr s CSR_MIP AND NOT (sr s CSR_MIDELEG AND SIP_WMASK c)) OR
        (sr s CSR_SIP AND (sr s CSR_MIDELEG AND SIP_WMASK c))
      else sr s i)"
  by (auto simp: commit_views_def Let_def)

lemma commit_mask_sr:
  assumes "sr s CSR_MISA = CSR_MISA_VALUE c" "sr s CSR_MEDELEG AND MEDELEG_MASK c = sr s CSR_MEDELEG"
    "(sr s CSR_MIDELEG AND riscv_supervisor_irq_mask c) OR riscv_virtual_irq_mask c = sr s CSR_MIDELEG"
  shows "sr (commit_mask c s) i =
    (if i = CSR_MSTATUS then sr s CSR_MSTATUS AND MSTATUS_WMASK c else sr s i)"
  using assms by (auto simp: commit_mask_def Let_def MEDELEG_MASK_def)

lemma csr_commit_sr:
  assumes "lw \<notin> {CSR_STIMECMP, 0x15d, CSR_MENVCFG, CSR_MENVCFGH}"
    and "i \<notin> {CSR_SSTATUS, CSR_SIE, CSR_SIP}"
  shows "sr (csr_commit c lw s) i =
    (if i = CSR_MSTATUS then mstatus_legalize (sr (commit_views c lw (commit_mask c s)) CSR_MSTATUS)
     else sr (commit_views c lw (commit_mask c s)) i)"
  using assms by (auto simp: csr_commit_def Let_def)

lemma commit_views_frame [simp]:
  "cpu_seip (cpu (commit_views c lw s)) = cpu_seip (cpu s)"
  "cpu_stip (cpu (commit_views c lw s)) = cpu_stip (cpu s)"
  by (simp_all add: commit_views_def Let_def)

lemma commit_mask_frame [simp]:
  "cpu_seip (cpu (commit_mask c s)) = cpu_seip (cpu s)"
  "cpu_stip (cpu (commit_mask c s)) = cpu_stip (cpu s)"
  by (simp_all add: commit_mask_def Let_def)

lemma csr_commit_frame:
  assumes "lw \<notin> {CSR_STIMECMP, 0x15d, CSR_MENVCFG, CSR_MENVCFGH}"
  shows "cpu_seip (cpu (csr_commit c lw s)) = cpu_seip (cpu s)"
    "cpu_stip (cpu (csr_commit c lw s)) = cpu_stip (cpu s)"
  using assms by (simp_all add: csr_commit_def Let_def)

lemma mip_value_cong:
  assumes "\<And>i. i \<in> mip_regs \<Longrightarrow> sr t i = sr s i"
    and "cpu_seip (cpu t) = cpu_seip (cpu s)" and "cpu_stip (cpu t) = cpu_stip (cpu s)"
  shows "riscv_hart_mip_value c t = riscv_hart_mip_value c s"
  using assms(2,3) assms(1) [of CSR_MIP] assms(1) [of CSR_HVIP] assms(1) [of CSR_MBERR_STATUS]
    assms(1) [of CSR_MENVCFG] assms(1) [of CSR_HENVCFG] assms(1) [of CSR_VSTIMECMP]
    assms(1) [of CSR_TIME] assms(1) [of CSR_HTIMEDELTA]
  by (simp add: riscv_hart_mip_value_def sstc_enabled_def riscv_virtual_timer_pending_def Let_def
      mip_regs_def)

text \<open>
  A commit after a write that changed only the view \<open>i\<close>: the machine registers follow
  \<open>commit_views\<close>, and the two other views are unchanged when the registers they show are.
\<close>

lemma csr_commit_view:
  fixes v :: word_t
  assumes "csr_coherent c s" and "i \<in> s_views" and "\<not> virt s" and "i \<noteq> CSR_SIP"
  defines "t \<equiv> csr_commit c i (CSRW c i v s)"
  shows "sr t CSR_MSTATUS = (if i = CSR_SSTATUS
      then mstatus_legalize (((sr s CSR_MSTATUS AND MSTATUS_WMASK c) AND NOT (SSTATUS_RMASK c) OR
        (v AND SSTATUS_RMASK c)) AND MSTATUS_WMASK c) else sr s CSR_MSTATUS)"
    and "sr t CSR_MIE = (if i = CSR_SIE
      then (sr s CSR_MIE AND NOT (sr s CSR_MIDELEG AND riscv_supervisor_irq_mask c)) OR
        (v AND (sr s CSR_MIDELEG AND riscv_supervisor_irq_mask c)) else sr s CSR_MIE)"
    and "k \<notin> {CSR_MSTATUS, CSR_MIE, CSR_SSTATUS, CSR_SIE} \<Longrightarrow> sr t k = sr s k"
    and "i = CSR_SSTATUS \<Longrightarrow> sr t CSR_SIE = sr s CSR_SIE"
    and "i = CSR_SIE \<Longrightarrow> sr t CSR_SSTATUS = sr s CSR_SSTATUS"
proof -
  have coh: "mstatus_ok c (sr s CSR_MSTATUS)" "sr s CSR_MISA = CSR_MISA_VALUE c"
    "sr s CSR_MEDELEG AND MEDELEG_MASK c = sr s CSR_MEDELEG"
    "(sr s CSR_MIDELEG AND riscv_supervisor_irq_mask c) OR riscv_virtual_irq_mask c = sr s CSR_MIDELEG"
    using assms(1) by (simp_all add: csr_coherent_def)
  define w where "w = CSRW c i v s"
  have w: "sr w k = (if k = i then v else sr s k)" for k
    unfolding w_def by (simp add: csrw_view [OF assms(2,3)])
  have nt: "i \<notin> {CSR_STIMECMP, 0x15d, CSR_MENVCFG, CSR_MENVCFGH}" using assms(2) by auto
  have m: "sr (commit_mask c w) k =
      (if k = CSR_MSTATUS then sr w CSR_MSTATUS AND MSTATUS_WMASK c else sr w k)" for k
    by (rule commit_mask_sr) (use coh assms(2) in \<open>auto simp: w\<close>)
  have r: "sr t k = (if k = CSR_MSTATUS
      then mstatus_legalize (sr (commit_views c i (commit_mask c w)) CSR_MSTATUS)
      else sr (commit_views c i (commit_mask c w)) k)" if "k \<notin> s_views" for k
    unfolding t_def w_def [symmetric] by (rule csr_commit_sr [OF nt]) (use that in simp)
  show ms: "sr t CSR_MSTATUS = (if i = CSR_SSTATUS
      then mstatus_legalize (((sr s CSR_MSTATUS AND MSTATUS_WMASK c) AND NOT (SSTATUS_RMASK c) OR
        (v AND SSTATUS_RMASK c)) AND MSTATUS_WMASK c) else sr s CSR_MSTATUS)"
    using assms(2) mstatus_legalize_id [OF coh(1)] by (auto simp: r commit_views_sr m w)
  show mie: "sr t CSR_MIE = (if i = CSR_SIE
      then (sr s CSR_MIE AND NOT (sr s CSR_MIDELEG AND riscv_supervisor_irq_mask c)) OR
        (v AND (sr s CSR_MIDELEG AND riscv_supervisor_irq_mask c)) else sr s CSR_MIE)"
    using assms(2) by (auto simp: r commit_views_sr m w)
  have other: "sr t k = sr s k" if "k \<notin> {CSR_MSTATUS, CSR_MIE} \<union> s_views" for k
    using that assms(2,4) by (auto simp: r commit_views_sr m w)
  have tc: "csr_coherent c t" unfolding t_def by (rule csr_commit_coherent)
  have mip: "riscv_hart_mip_value c t = riscv_hart_mip_value c s"
  proof (rule mip_value_cong)
    show "sr t k = sr s k" if "k \<in> mip_regs" for k
      by (rule other) (use that in \<open>auto simp: mip_regs_def\<close>)
    show "cpu_seip (cpu t) = cpu_seip (cpu s)" "cpu_stip (cpu t) = cpu_stip (cpu s)"
      unfolding t_def by (simp_all add: csr_commit_frame [OF nt] csrw_view [OF assms(2,3)])
  qed
  have sip: "sr t CSR_SIP = sr s CSR_SIP"
    using tc assms(1) mip other [of CSR_MIDELEG] by (simp add: csr_coherent_def)
  then show "k \<notin> {CSR_MSTATUS, CSR_MIE, CSR_SSTATUS, CSR_SIE} \<Longrightarrow> sr t k = sr s k"
    using other [of k] by auto
  show "i = CSR_SSTATUS \<Longrightarrow> sr t CSR_SIE = sr s CSR_SIE"
    using tc assms(1) mie other [of CSR_MIDELEG] by (simp add: csr_coherent_def)
  show "i = CSR_SIE \<Longrightarrow> sr t CSR_SSTATUS = sr s CSR_SSTATUS"
    using tc assms(1) ms by (simp add: csr_coherent_def)
qed

text \<open>The bits of \<open>mstatus\<close> that \<open>sstatus\<close> can write.\<close>

definition sstatus_writable :: "config \<Rightarrow> nat \<Rightarrow> bool" where
  "sstatus_writable c n \<longleftrightarrow>
     n \<in> {1, 5, 8, 13, 14, 18, 19} \<or> (riscv_v128_preview_enabled c \<and> n \<in> {9, 10})"

lemma sstatus_write_mstatus:
  assumes "mstatus_ok c m" and "n \<noteq> 63"
  shows "bit (mstatus_legalize (((m AND MSTATUS_WMASK c) AND NOT (SSTATUS_RMASK c) OR
      (v AND SSTATUS_RMASK c)) AND MSTATUS_WMASK c)) n \<longleftrightarrow>
    (if sstatus_writable c n then bit v n else bit m n)"
proof (cases "n < 64")
  case True
  have ok: "bit m n \<Longrightarrow> bit (MSTATUS_WMASK c) n \<or> n \<in> {33, 35, 63}" "bit m 33" "bit m 35"
    "\<not> (bit m 12 \<and> \<not> bit m 11)" using assms(1) unfolding mstatus_ok_def by blast+
  show ?thesis
    unfolding bit_mstatus_legalize using ok assms(2) True
    by (auto simp: bit_and_iff bit_or_iff bit_not_iff sstatus_writable_def bit_MSTATUS_WMASK
        bit_SSTATUS_RMASK split: if_splits)
qed (simp add: bit_out64 sstatus_writable_def)

text \<open>
  C16. Writing \<open>sstatus\<close> or \<open>sie\<close> from supervisor software reaches the machine registers only
  through their masks: of \<open>mstatus\<close> exactly SIE, SPIE, SPP, FS, SUM and MXR (and VS when vectors are
  on) take the written value, of \<open>mie\<close> exactly the delegated supervisor bits, SD aside every other
  bit and every other CSR but the written view keeps its value.
\<close>

theorem supervisor_write_isolated:
  assumes "csr_coherent c s" and "\<not> virt s"
  shows "let t = csr_commit c CSR_SSTATUS (CSRW c CSR_SSTATUS v s);
             u = csr_commit c CSR_SIE (CSRW c CSR_SIE v s) in
    (\<forall>n. n \<noteq> 63 \<longrightarrow> bit (sr t CSR_MSTATUS) n = (if sstatus_writable c n then bit v n
       else bit (sr s CSR_MSTATUS) n)) \<and>
    (\<forall>i. i \<notin> {CSR_MSTATUS, CSR_SSTATUS} \<longrightarrow> sr t i = sr s i) \<and>
    (\<forall>n. bit (sr u CSR_MIE) n =
       (if bit (sr s CSR_MIDELEG) n \<and> bit (riscv_supervisor_irq_mask c) n then bit v n
        else bit (sr s CSR_MIE) n)) \<and>
    (\<forall>i. i \<notin> {CSR_MIE, CSR_SIE} \<longrightarrow> sr u i = sr s i)"
proof -
  have ok: "mstatus_ok c (sr s CSR_MSTATUS)" using assms(1) by (simp add: csr_coherent_def)
  note t = csr_commit_view [OF assms(1) _ assms(2), where i = CSR_SSTATUS and v = v, simplified]
  note u = csr_commit_view [OF assms(1) _ assms(2), where i = CSR_SIE and v = v, simplified]
  show ?thesis
    unfolding Let_def
  proof (intro conjI allI impI)
    fix n :: nat assume "n \<noteq> 63"
    then show "bit (sr (csr_commit c CSR_SSTATUS (CSRW c CSR_SSTATUS v s)) CSR_MSTATUS) n =
        (if sstatus_writable c n then bit v n else bit (sr s CSR_MSTATUS) n)"
      unfolding t(1) by (rule sstatus_write_mstatus [OF ok])
  next
    fix i :: nat assume "i \<notin> {CSR_MSTATUS, CSR_SSTATUS}"
    then show "sr (csr_commit c CSR_SSTATUS (CSRW c CSR_SSTATUS v s)) i = sr s i"
      using t(2-4) by (cases "i = CSR_MIE \<or> i = CSR_SIE") auto
  next
    fix n :: nat
    show "bit (sr (csr_commit c CSR_SIE (CSRW c CSR_SIE v s)) CSR_MIE) n =
       (if bit (sr s CSR_MIDELEG) n \<and> bit (riscv_supervisor_irq_mask c) n then bit v n
        else bit (sr s CSR_MIE) n)"
      unfolding u(2) by (cases "n < 64") (auto simp: bit_simps bit_out64)
  next
    fix i :: nat assume "i \<notin> {CSR_MIE, CSR_SIE}"
    then show "sr (csr_commit c CSR_SIE (CSRW c CSR_SIE v s)) i = sr s i"
      using u(1,3,5) by (cases "i = CSR_MSTATUS \<or> i = CSR_SSTATUS") auto
  qed
qed

lemma supervisor_write_isolated_witness:
  "sr (csr_commit riscv64_ref_config CSR_SSTATUS (CSRW riscv64_ref_config CSR_SSTATUS (- 1)
      (csr_commit riscv64_ref_config 0 nemu_static))) CSR_MEDELEG =
    sr (csr_commit riscv64_ref_config 0 nemu_static) CSR_MEDELEG"
proof -
  let ?s = "csr_commit riscv64_ref_config 0 nemu_static"
  have "\<not> virt ?s"
    by (simp add: csr_commit_def commit_views_def commit_mask_def Let_def nemu_static_def cpu_static_def)
  from supervisor_write_isolated [OF csr_commit_coherent this, of "- 1"] show ?thesis
    by (simp add: Let_def)
qed

end
