(* ===== verification/Hart_Ok.thy ===== *)
theory Hart_Ok
  imports Init Mmu_Correct Commit_Correct Trap_Correct
begin

text \<open>
  The type invariant of a hart: every instruction, fault and interrupt leads from a well-formed state
  to a well-formed state. Within an instruction a CSR write may leave \<open>mstatus.MPP\<close> illegal and a
  body may write \<open>x0\<close>; the commit tail repairs both, and no fault leaves an instruction in between.
\<close>

unbundle bit_operations_syntax

section \<open>Well-formed harts\<close>

definition mpp_ok :: "word_t \<Rightarrow> bool" where
  "mpp_ok v \<longleftrightarrow> mpp_of v \<noteq> 2"

text \<open>The part no step of an instruction ever breaks.\<close>

definition hart_base :: "config \<Rightarrow> nemu \<Rightarrow> bool" where
  "hart_base c s \<longleftrightarrow> mode_ok c s \<and> pmp_ok c s \<and> cpu_reservation_bytes (cpu s) \<in> {0, 4, 8}"

definition hart_ok :: "config \<Rightarrow> nemu \<Rightarrow> bool" where
  "hart_ok c s \<longleftrightarrow> hart_base c s \<and> mpp_ok (sr s CSR_MSTATUS) \<and> gpr s 0 = 0"

text \<open>Between the body of an instruction and its commit tail.\<close>

definition hart_mid :: "config \<Rightarrow> nemu \<Rightarrow> bool" where
  "hart_mid c s \<longleftrightarrow> hart_base c s \<and> (mpp_ok (sr s CSR_MSTATUS) \<or> cpu_last_csr_wr (cpu s) \<noteq> 0)"

lemma hart_ok_mid: "hart_ok c s \<Longrightarrow> hart_mid c s"
  by (simp add: hart_ok_def hart_mid_def)

section \<open>The PMP side depends on the PMP registers alone\<close>

definition pmp_regs :: "nat set" where
  "pmp_regs = {0x3a0..0x3a3} \<union> {0x3b0..0x3bf}"

definition pmp_agree :: "nemu \<Rightarrow> nemu \<Rightarrow> bool" where
  "pmp_agree s t \<longleftrightarrow> pmpu t = pmpu s \<and> (\<forall>k\<in>pmp_regs. sr t k = sr s k)"

lemma pmp_agree_regs:
  assumes "pmp_agree s t" and "i < PMP_N"
  shows "pmp_cfg t i = pmp_cfg s i" "pmp_addr t i = pmp_addr s i"
    "pmp_decoded_of c t i d = pmp_decoded_of c s i d"
proof -
  have i: "i div 8 * 2 \<le> 2" "i < 8" using assms(2) by simp_all
  then show 1: "pmp_cfg t i = pmp_cfg s i"
    using assms(1) by (simp add: pmp_cfg_def pmp_agree_def pmp_regs_def)
  have a: "pmp_addr t j = pmp_addr s j" if "j < 16" for j
    using assms(1) that by (simp add: pmp_addr_def pmp_agree_def pmp_regs_def)
  then show 2: "pmp_addr t i = pmp_addr s i" using i by simp
  have "pmp_csr_read c t (CSR_PMPADDR0 + i) = pmp_csr_read c s (CSR_PMPADDR0 + i)"
    using i 1 2 by (simp add: pmp_csr_read_def Let_def)
  moreover have "i = 0 \<or> pmp_addr t (i - 1) = pmp_addr s (i - 1)" using a i by simp
  ultimately show "pmp_decoded_of c t i d = pmp_decoded_of c s i d"
    unfolding pmp_decoded_of_def Let_def 1 by auto
qed

lemma pmp_agree_ok: "pmp_agree s t \<Longrightarrow> pmp_ok c t = pmp_ok c s"
proof -
  assume a: "pmp_agree s t"
  note r = pmp_agree_regs [OF a]
  have "(\<exists>i<PMP_N. cfg_a (pmp_cfg t i) \<noteq> PMP_A_OFF) \<longleftrightarrow> (\<exists>i<PMP_N. cfg_a (pmp_cfg s i) \<noteq> PMP_A_OFF)"
    using r(1) by metis
  moreover have "pmpu t = pmpu s" using a by (simp add: pmp_agree_def)
  ultimately show ?thesis unfolding pmp_ok_def pmp_inv_def pmp_legal_def by (simp add: r)
qed

lemma pmp_agree_refl: "pmp_agree s s"
  by (simp add: pmp_agree_def)

lemma pmp_agree_trans: "pmp_agree s t \<Longrightarrow> pmp_agree t u \<Longrightarrow> pmp_agree s u"
  by (simp add: pmp_agree_def)

text \<open>States that look alike to the invariant.\<close>

definition base_agree :: "nemu \<Rightarrow> nemu \<Rightarrow> bool" where
  "base_agree s t \<longleftrightarrow> pmp_agree s t \<and> priv t = priv s \<and> virt t = virt s \<and>
     cpu_reservation_bytes (cpu t) = cpu_reservation_bytes (cpu s)"

definition ok_agree :: "nemu \<Rightarrow> nemu \<Rightarrow> bool" where
  "ok_agree s t \<longleftrightarrow> base_agree s t \<and> sr t CSR_MSTATUS = sr s CSR_MSTATUS \<and> gpr t 0 = gpr s 0"

lemma base_agree_base: "base_agree s t \<Longrightarrow> hart_base c t = hart_base c s"
  by (auto simp: base_agree_def hart_base_def mode_ok_def pmp_agree_ok)

lemma ok_agree_ok: "ok_agree s t \<Longrightarrow> hart_ok c t = hart_ok c s"
  by (auto simp: ok_agree_def hart_ok_def base_agree_base)

lemmas agree_defs = ok_agree_def base_agree_def pmp_agree_def

lemma base_agree_trans: "base_agree s t \<Longrightarrow> base_agree t u \<Longrightarrow> base_agree s u"
  by (simp add: agree_defs)

lemma scrub_agree: "scrub t = scrub s \<Longrightarrow> pmpu t = pmpu s \<Longrightarrow> ok_agree s t"
  using scrub_fields [of t s] by (simp add: agree_defs gpr_def)

section \<open>Computations that keep a hart well-formed\<close>

named_theorems hart_inv \<open>computations that keep \<open>hart_ok\<close>\<close>

lemma minv_agree: "(\<And>s. ok_agree s (f s)) \<Longrightarrow> minv (hart_ok c) (mmodify f)"
  by (rule minv_mmodify) (metis ok_agree_ok)

lemmas [hart_inv] = minv_mret minv_mthrow minv_mgets minv_mbind minv_mseq minv_mwhen minv_if minv_option
  minv_sum minv_prod

lemma minv_side [hart_inv]:
  "minv (hart_ok c) (mmodify (set_g_vaddr v))"
  "minv (hart_ok c) (mmodify (\<lambda>s. set_g_vaddr (h s) s))"
  "minv (hart_ok c) (mmodify (set_h_fault_gpa a))"
  "minv (hart_ok c) (mmodify (\<lambda>s. set_h_fault_write False (set_h_fault_ptw False (set_h_fault_gpa a s))))"
  "minv (hart_ok c) (mmodify (\<lambda>s. set_h_fault_write False (set_h_fault_ptw False
     (set_h_fault_gpa a (set_g_vaddr v s)))))"
  "minv (hart_ok c) (mmodify (\<lambda>s. set_h_fault_ptw b (h_fault_out out s)))"
  "minv (hart_ok c) (mmodify (refill_tlb k va pa pb))"
  "minv (hart_ok c) (mmodify soft_tlb_flush)"
  "minv (hart_ok c) (mmodify do_icache_flush)"
  "minv (hart_ok c) (mmodify (set_cpu_inst i))"
  "minv (hart_ok c) (mmodify (set_h_explicit_trap b))"
  "minv (hart_ok c) (mmodify (fill_icache pc i n))"
  by (intro minv_agree; simp add: agree_defs set_g_vaddr_def set_h_fault_gpa_def set_h_fault_write_def
      set_h_fault_ptw_def h_fault_out_def refill_tlb_def soft_tlb_flush_def do_icache_flush_def
      set_cpu_inst_def set_h_explicit_trap_def fill_icache_def sr_def gpr_def split: option.split)+

lemma minv_phys [hart_inv]: "minv (hart_ok c) (mmodify (\<lambda>s. s\<lparr>phys := h s\<rparr>))"
  by (intro minv_agree) (simp add: agree_defs sr_def gpr_def)

lemma minv_drop_reservation [hart_inv]: "minv (hart_ok c) (mmodify (drop_reservation pa))"
proof (rule minv_mmodify)
  fix s assume s: "hart_ok c s"
  have "pmp_agree s (set_reservation 0 0 s)" by (simp add: agree_defs set_reservation_def sr_def)
  from s pmp_agree_ok [OF this, of c] show "hart_ok c (drop_reservation pa s)"
    by (simp add: drop_reservation_def hart_ok_def hart_base_def mode_ok_def)
      (simp add: set_reservation_def sr_def gpr_def)
qed

lemma minv_pmp_check [hart_inv]: "minv (hart_ok c) (mlift (pmp_check c a n prv r w x))"
proof (rule minv_mlift)
  fix s assume s: "hart_ok c s"
  let ?t = "snd (pmp_check c a n prv r w x s)"
  from s have "pmp_inv c s" by (simp add: hart_ok_def hart_base_def pmp_ok_def)
  from pmp_check_inv [OF this, of a n prv r w x] have i: "pmp_inv c ?t" and same: "pmp_same s ?t" by simp_all
  have "scrub ?t = scrub s" using pmp_same_scrub [OF same] by simp
  note f = scrub_fields [OF this]
  have "pmp_legal c ?t = pmp_legal c s" by (rule pmp_same_legal [OF same])
  with s i f show "hart_ok c ?t" by (simp add: hart_ok_def hart_base_def mode_ok_def pmp_ok_def)
qed

section \<open>Memory accesses\<close>

lemma minv_phys_access [hart_inv]:
  "minv (hart_ok c) (paddr_read c a n)" "minv (hart_ok c) (paddr_write c a n d)"
  unfolding paddr_read_def paddr_write_def pmem_read_def pmem_write_def host_read_def host_write_def
    out_of_bound_def
  by (intro hart_inv)+

lemma minv_ptw_read_denied [hart_inv]: "minv (hart_ok c) (ptw_read_denied c a n)"
  unfolding ptw_read_denied_def by (intro hart_inv)

lemma minv_gstage [hart_inv]: "minv (hart_ok c) (riscv_gstage_translate c a g)"
proof -
  have "minv (hart_ok c) (gstage_walk c a g n t)" for n t
    proof (induction n arbitrary: t)
    case (Suc n)
    then show ?case
      unfolding gstage_walk.simps gstage_level_def gstage_leaf_def Let_def by (intro hart_inv)
  qed (simp add: hart_inv)
  then show ?thesis unfolding riscv_gstage_translate_def Let_def by (intro hart_inv)
qed

lemma minv_vstage [hart_inv]: "minv (hart_ok c) (riscv_vstage_translate c a vs g)"
proof -
  have "minv (hart_ok c) (vstage_walk c a vs g n t)" for n t
    proof (induction n arbitrary: t)
    case (Suc n)
    then show ?case
      unfolding vstage_walk.simps vstage_level_def vstage_leaf_def vstage_update_ad_def Let_def by (intro hart_inv)
  qed (simp add: hart_inv)
  then show ?thesis unfolding riscv_vstage_translate_def Let_def by (intro hart_inv)
qed

lemma minv_sv39 [hart_inv]: "minv (hart_ok c) (sv39_translate c va ty)"
proof -
  have "minv (hart_ok c) (sv39_walk c ty va n t)" for n t
    proof (induction n arbitrary: t)
    case (Suc n)
    then show ?case
      unfolding sv39_walk.simps sv39_level_def Let_def by (intro hart_inv)
  qed (simp add: hart_inv)
  then show ?thesis unfolding sv39_translate_def Let_def by (intro hart_inv)
qed

lemma minv_sv32 [hart_inv]: "minv (hart_ok c) (sv32_translate c va ty)"
proof -
  have "minv (hart_ok c) (sv32_walk c ty va n t)" for n t
    proof (induction n arbitrary: t)
    case (Suc n)
    then show ?case
      unfolding sv32_walk.simps sv32_level_def Let_def by (intro hart_inv)
  qed (simp add: hart_inv)
  then show ?thesis unfolding sv32_translate_def Let_def by (intro hart_inv)
qed

lemma minv_translate [hart_inv]: "minv (hart_ok c) (isa_mmu_translate_attrs c va ty)"
  unfolding isa_mmu_translate_attrs_def two_stage_translate_def Let_def by (intro hart_inv)

lemma minv_tlb_translate [hart_inv]: "minv (hart_ok c) (tlb_translate c k ty a)"
  unfolding tlb_translate_def by (intro hart_inv)

lemma minv_data_checks [hart_inv]:
  "minv (hart_ok c) (data_pmp_check c t a pa n store)" "minv (hart_ok c) (check_data_pma c pa n store)"
  "minv (hart_ok c) (check_data_type c pa pb misal store n)"
  unfolding data_pmp_check_def check_data_pma_def check_data_type_def Let_def by (intro hart_inv)+

lemma minv_checked [hart_inv]:
  "minv (hart_ok c) (checked_data_piece_attrs c a n store misal ol)"
  unfolding checked_data_piece_attrs_def by (intro hart_inv)

lemma minv_checked_piece [hart_inv]: "minv (hart_ok c) (checked_data_piece c a n store misal ol)"
  unfolding checked_data_piece_def by (intro hart_inv)

lemma minv_check_reservation [hart_inv]: "minv (hart_ok c) (vaddr_check_reservation c a n store)"
  unfolding vaddr_check_reservation_def checked_data_address_def by (intro hart_inv)

lemma minv_checks [hart_inv]:
  "minv (hart_ok c) (vaddr_check_amo c a n)" "minv (hart_ok c) (vaddr_check_zero c a)"
  "minv (hart_ok c) (vaddr_check_cmo c a)"
  unfolding vaddr_check_amo_def vaddr_check_zero_def vaddr_check_cmo_def checked_data_address_def
  by (intro hart_inv)+

lemma minv_ifetch_piece [hart_inv]: "minv (hart_ok c) (vaddr_ifetch_piece c a n)"
  unfolding vaddr_ifetch_piece_def by (intro hart_inv)

lemma minv_ifetch [hart_inv]: "minv (hart_ok c) (vaddr_ifetch c a n)"
  unfolding vaddr_ifetch_def by (intro hart_inv)

lemma minv_split [hart_inv]:
  "minv (hart_ok c) (read_split c f js v)" "minv (hart_ok c) (write_split c f js d)"
  "minv (hart_ok c) (write_bytes_at c f js d)"
proof -
  show "minv (hart_ok c) (read_split c f js v)"
    by (induction js arbitrary: v) (simp_all only: read_split.simps; intro hart_inv)+
  show "minv (hart_ok c) (write_split c f js d)"
    by (induction js) (simp_all only: write_split.simps; intro hart_inv)+
  show "minv (hart_ok c) (write_bytes_at c f js d)"
    by (induction js) (simp_all only: write_bytes_at.simps; intro hart_inv)+
qed

lemma minv_vaddr [hart_inv]: "minv (hart_ok c) (vaddr_read c a n)" "minv (hart_ok c) (vaddr_write c a n d)"
  unfolding vaddr_read_def vaddr_read_piece_def vaddr_write_def Let_def by (intro hart_inv)+

section \<open>Traps and trap returns\<close>

lemma mpp_ok_bits: "mpp_ok v \<longleftrightarrow> \<not> bit v 12 \<or> bit v 11"
proof -
  have "mpp_of v = drop_bit 11 v AND 3"
    by (simp add: get_field_def take_bit_eq_mask mask_eq_exp_minus_1)
  with field2_eq [of 11 v] show ?thesis by (auto simp: mpp_ok_def)
qed

text \<open>The three entries change neither the PMP side nor the reservation.\<close>

lemma trap_to_frame:
  "pmp_agree s (snd (trap_to_m c NO epc tval s))" "pmp_agree s (snd (trap_to_s c NO epc tval s))"
  "pmp_agree s (snd (trap_to_vs c NO epc tval s))"
  by (auto simp: pmp_agree_def pmp_regs_def trap_to_m_def trap_to_s_def trap_to_vs_def trap_hstatus_def Let_def)

lemma trap_to_reservation:
  "cpu_reservation_bytes (cpu (snd (trap_to_m c NO epc tval s))) = cpu_reservation_bytes (cpu s)"
  "cpu_reservation_bytes (cpu (snd (trap_to_s c NO epc tval s))) = cpu_reservation_bytes (cpu s)"
  "cpu_reservation_bytes (cpu (snd (trap_to_vs c NO epc tval s))) = cpu_reservation_bytes (cpu s)"
  by (simp_all add: trap_to_m_def trap_to_s_def trap_to_vs_def trap_hstatus_def Let_def)

lemma mode_priv: "mode_ok c s \<Longrightarrow> priv s < 4 \<and> priv s \<noteq> 2"
  by (auto simp: mode_ok_def)

lemma hart_ok_trap_to:
  assumes "hart_ok c s"
  shows "hart_ok c (snd (trap_to_m c NO epc tval s))" "hart_ok c (snd (trap_to_s c NO epc tval s))"
    "virt s \<Longrightarrow> hart_ok c (snd (trap_to_vs c NO epc tval s))"
proof -
  note r = assms [unfolded hart_ok_def hart_base_def]
  from r have p: "priv s < 4" "priv s \<noteq> 2" using mode_priv by blast+
  note fr = trap_to_frame [of s c NO epc tval, THEN pmp_agree_ok] trap_to_reservation
  have g: "gpr (snd (trap_to_m c NO epc tval s)) 0 = 0" "gpr (snd (trap_to_s c NO epc tval s)) 0 = 0"
    "gpr (snd (trap_to_vs c NO epc tval s)) 0 = 0"
    using r trap_to_m_state(5) [OF prod.collapse [symmetric], of c NO epc tval s]
      trap_to_s_state(6) [OF prod.collapse [symmetric], of c NO epc tval s]
      trap_to_vs_state(5) [OF prod.collapse [symmetric], of c NO epc tval s] by (simp_all add: gpr_def)
  have m: "bit (m_push (priv s) v) 12 \<longleftrightarrow> priv s = 2 \<or> priv s = 3"
    "bit (m_push (priv s) v) 11 \<longleftrightarrow> priv s = 1 \<or> priv s = 3" for v
    using p(1) by (auto simp: bit_m_push less_Suc_eq numeral_eq_Suc)
  let ?m = "snd (trap_to_m c NO epc tval s)"
  have "\<not> virt ?m" by (simp add: trap_to_m_def Let_def)
  moreover have "mpp_ok (sr ?m CSR_MSTATUS)"
    using trap_to_m_state(7) [OF prod.collapse [symmetric], of 12 c NO epc tval s]
      trap_to_m_state(7) [OF prod.collapse [symmetric], of 11 c NO epc tval s] m p(2)
    by (simp add: mpp_ok_bits)
  ultimately show "hart_ok c ?m"
    using r fr g trap_to_m_state(1) [OF prod.collapse [symmetric], of c NO epc tval s]
    by (simp add: hart_ok_def hart_base_def mode_ok_def)
  let ?s = "snd (trap_to_s c NO epc tval s)"
  have "mpp_ok (sr ?s CSR_MSTATUS)"
    using r trap_to_s_state(8) [OF prod.collapse [symmetric], of c NO epc tval s]
    by (simp add: mpp_ok_bits bit_s_push)
  then show "hart_ok c ?s"
    using r fr g trap_to_s_state(1,2) [OF prod.collapse [symmetric], of c NO epc tval s]
    by (simp add: hart_ok_def hart_base_def mode_ok_def)
  assume "virt s"
  then show "hart_ok c (snd (trap_to_vs c NO epc tval s))"
    using r fr g trap_to_vs_state(1,2,9) [OF prod.collapse [symmetric], of c NO epc tval s]
    by (simp add: hart_ok_def hart_base_def mode_ok_def)
qed

lemma hart_ok_raise:
  assumes "hart_ok c s"
  shows "hart_ok c (snd (isa_raise_intr c NO epc s))"
proof -
  define u where "u = (if is_intr NO then set_csr_dirty True s
    else set_instruction_trapped True (set_csr_dirty True s))"
  have "ok_agree s u" by (simp add: u_def agree_defs gpr_def)
  then have "hart_ok c u" using assms ok_agree_ok by blast
  note t = hart_ok_trap_to [OF this]
  show ?thesis
    unfolding isa_raise_intr_def Let_def u_def [symmetric]
    using t by (simp add: trap_delegated_vs_def)
qed

lemma minv_raise [hart_inv]: "minv (hart_ok c) (raise_at c NO pc)"
  unfolding raise_at_def by (rule minv_mlift) (rule hart_ok_raise)

lemma unat_get_field: "unat (get_field lo n v) < 2 ^ n"
  by (simp add: get_field_def unsigned_take_bit_eq)

lemma hart_ok_mret:
  assumes "hart_ok c s" and "mret_body c s = Some (pc, t)"
  shows "hart_ok c t"
proof -
  note r = assms(1) [unfolded hart_ok_def hart_base_def]
  let ?p = "unat (mpp_of (sr s CSR_MSTATUS))"
  have "?p < 4" using unat_get_field [of 11 2] by simp
  moreover have "mpp_of v = 2" if "unat (mpp_of v) = 2" for v
    using arg_cong [OF that, of "word_of_nat :: nat \<Rightarrow> word_t"] by simp
  then have "?p \<noteq> 2" using r unfolding mpp_ok_def by blast
  ultimately have p: "?p \<in> {PRV_U, PRV_S, PRV_M}" by auto
  have t: "priv t = ?p" "virt t \<longrightarrow> riscv_h_gstage_preview_enabled c \<and> ?p \<noteq> PRV_M" "pmp_agree s t"
    "cpu_reservation_bytes (cpu t) = cpu_reservation_bytes (cpu s)" "gpr t 0 = gpr s 0"
    "\<not> bit (sr t CSR_MSTATUS) 12"
    using assms(2) by (auto simp: mret_body_def Let_def pmp_agree_def pmp_regs_def gpr_def bit_simps split: if_splits)
  show ?thesis
    using r p t pmp_agree_ok [OF t(3)] by (simp add: hart_ok_def hart_base_def mode_ok_def mpp_ok_bits)
qed

lemma hart_ok_sret:
  assumes "hart_ok c s" and "sret_body c s = Inr (pc, t)"
  shows "hart_ok c t"
proof -
  note r = assms(1) [unfolded hart_ok_def hart_base_def]
  have p: "unat (spp_of v) < 2" for v using unat_get_field [of 8 1] by simp
  have p3: "unat (spp_of v) \<noteq> 3" for v using p [of v] by simp
  have q: "unat (drop_bit 8 v AND 1) < 2" for v :: word_t
    using word_and_le1 [of "drop_bit 8 v" 1] by (simp add: word_le_nat_alt del: and_one_eq)
  have t: "priv t < 2" "virt t \<longrightarrow> virt s \<or> riscv_h_gstage_preview_enabled c" "pmp_agree s t"
    "cpu_reservation_bytes (cpu t) = cpu_reservation_bytes (cpu s)" "gpr t 0 = gpr s 0"
    "bit (sr t CSR_MSTATUS) 12 = bit (sr s CSR_MSTATUS) 12"
    "bit (sr t CSR_MSTATUS) 11 = bit (sr s CSR_MSTATUS) 11"
    using assms(2) p p3 q by (auto simp: sret_body_def Let_def pmp_agree_def pmp_regs_def gpr_def bit_simps split: if_splits)
  show ?thesis
    using r t pmp_agree_ok [OF t(3)]
    by (auto simp: hart_ok_def hart_base_def mode_ok_def mpp_ok_bits)
qed

section \<open>CSR writes and the commit tail\<close>

text \<open>The scalars and registers a PMP write leaves alone.\<close>

definition hart_frame :: "nemu \<Rightarrow> nemu \<Rightarrow> bool" where
  "hart_frame s t \<longleftrightarrow> priv t = priv s \<and> virt t = virt s \<and> cpu_gpr (cpu t) = cpu_gpr (cpu s) \<and>
     cpu_reservation_bytes (cpu t) = cpu_reservation_bytes (cpu s)"

lemma pmp_write_byte_frame: "hart_frame s (fold (pmp_cfg_write_byte c base v) js s)"
proof (induction js arbitrary: s)
  case (Cons j js)
  have "hart_frame s (pmp_cfg_write_byte c base v j s)"
    by (simp add: hart_frame_def pmp_cfg_write_byte_def pmp_cfg_set_def Let_def)
  with Cons [of "pmp_cfg_write_byte c base v j s"] show ?case by (simp add: hart_frame_def)
qed (simp add: hart_frame_def)

lemma pmp_write_frame:
  assumes "pmp_csr_write c csr v s = Some t"
  shows "hart_frame s t"
  using assms
proof (cases rule: pmp_csr_write_cases)
  case (cfg base)
  then show ?thesis
    using pmp_write_byte_frame [of s c base v "[0..<8]"]
    by (simp add: hart_frame_def pmp_rebuild_decoded_def del: upt_Suc upt_rec_numeral)
qed (simp_all add: hart_frame_def pmp_rebuild_decoded_def pmp_addr_set_def)

lemma pmp_write_None:
  assumes "pmp_csr_write c i v s = None" and "i < 4096"
  shows "i \<notin> pmp_regs"
  using assms by (auto simp: pmp_regs_def pmp_csr_write_def Let_def split: if_splits)

lemma csrw_dispatch_frame:
  assumes "i < 4096"
  shows "hart_frame s (csrw_dispatch c i v s)" "pmp_ok c s \<Longrightarrow> pmp_ok c (csrw_dispatch c i v s)"
proof -
  have f: "hart_frame s (csrw_fp i v s)" "hart_frame s (riscv_vector_csr_write i v s)"
    "hart_frame s (stateen_write c i v s)" "hart_frame s (csrw_store c i v s)"
    by (simp_all add: hart_frame_def csrw_fp_def riscv_vector_csr_write_def vector_mark_dirty_def
        stateen_write_def csrw_store_def Let_def)
  with pmp_write_frame show "hart_frame s (csrw_dispatch c i v s)"
    by (auto simp: csrw_dispatch_def hart_frame_def split: option.split)
  have a: "pmp_agree s (csrw_fp i v s)" "pmp_agree s (riscv_vector_csr_write i v s)"
    "pmp_agree s (stateen_write c i v s)"
    by (auto simp: pmp_agree_def pmp_regs_def csrw_fp_def riscv_vector_csr_write_def vector_mark_dirty_def
        stateen_write_def Let_def)
  have b: "pmp_agree s (csrw_store c i v s)" if "pmp_csr_write c i v s = None"
    using pmp_write_None [OF that assms] by (auto simp: csrw_store_def pmp_agree_def pmp_regs_def Let_def)
  assume ok: "pmp_ok c s"
  show "pmp_ok c (csrw_dispatch c i v s)"
    using ok a b pmp_csr_write_inv [of c i v s] pmp_agree_ok [of s _ c]
    by (auto simp: csrw_dispatch_def pmp_ok_def split: option.split)
qed

text \<open>A CSR write may leave \<open>MPP\<close> illegal, but then it has left its mark for the commit tail.\<close>

lemma hart_mid_CSRW:
  assumes "hart_base c s" and "mpp_ok (sr s CSR_MSTATUS)"
  shows "hart_mid c (CSRW c csr v s)"
proof -
  let ?i = "guest_csr_alias s (csr mod 4096)"
  have i: "?i < 4096" by (simp add: guest_csr_alias_def)
  note r = assms(1) [unfolded hart_base_def]
  note fr = csrw_dispatch_frame(1) [OF i, of s c] and ok = csrw_dispatch_frame(2) [OF i, of c s]
  have m: "sr (csrw_dispatch c 0 w s) CSR_MSTATUS = sr s CSR_MSTATUS" for w
    by (simp add: csrw_dispatch_def is_fp_csr_def is_vector_csr_def is_stateen_csr_def is_hpm_zero_csr_def
        csrw_store_def pmp_csr_write_def Let_def)
  define w where "w = csrw_warl c s ?i v"
  have a: "pmp_agree t (set_sr CSR_HENVCFG x t)" "pmp_agree t (set_last_csr_wr ?i t)"
    "pmp_agree t (soft_tlb_flush t)" for t x
    by (auto simp: pmp_agree_def pmp_regs_def)
  note a = a [THEN pmp_agree_ok]
  show ?thesis
    unfolding CSRW_def Let_def w_def [symmetric]
    using r fr [of w] ok [of w] a m [of w] assms(2)
    by (auto simp: hart_mid_def hart_base_def mode_ok_def hart_frame_def)
qed

text \<open>Register updates outside the PMP registers, followed through the lets of the commit tail.\<close>

definition same_hart :: "nemu \<Rightarrow> nemu \<Rightarrow> bool" where
  "same_hart s t \<longleftrightarrow> hart_frame s t \<and> pmp_agree s t"

named_theorems same_harts \<open>rules for \<open>same_hart\<close>\<close>

lemma same_hart_refl [same_harts]: "same_hart s s"
  by (simp add: same_hart_def hart_frame_def pmp_agree_def)

lemma same_hart_trans: "same_hart s t \<Longrightarrow> same_hart t u \<Longrightarrow> same_hart s u"
  by (simp add: same_hart_def hart_frame_def pmp_agree_def)

lemma same_hart_set [same_harts]:
  "same_hart s t \<Longrightarrow> i \<notin> pmp_regs \<Longrightarrow> same_hart s (set_sr i v t)"
  "same_hart s t \<Longrightarrow> same_hart s (set_stip b t)" "same_hart s t \<Longrightarrow> same_hart s (set_csr_dirty b t)"
  "same_hart s t \<Longrightarrow> same_hart s (set_last_csr_wr n t)"
  by (auto simp: same_hart_def hart_frame_def pmp_agree_def set_stip_def set_sr_def set_csr_dirty_def
      set_last_csr_wr_def sr_def)

lemma same_hart_if [same_harts]:
  "same_hart s t \<Longrightarrow> same_hart s u \<Longrightarrow> same_hart s (if b then t else u)"
  by simp

lemma same_hart_Let_state [same_harts]:
  fixes e :: nemu
  shows "same_hart s e \<Longrightarrow> (\<And>t. same_hart s t \<Longrightarrow> same_hart s (f t)) \<Longrightarrow> same_hart s (Let e f)"
  by simp

lemma same_hart_Let_word [same_harts]:
  fixes e :: word_t
  shows "(\<And>x. same_hart s (f x)) \<Longrightarrow> same_hart s (Let e f)"
  by simp

lemma pmp_regs_out [same_harts]:
  "CSR_MSTATUS \<notin> pmp_regs" "CSR_MISA \<notin> pmp_regs" "CSR_MEDELEG \<notin> pmp_regs" "CSR_MIDELEG \<notin> pmp_regs"
  "CSR_MIE \<notin> pmp_regs" "CSR_MIP \<notin> pmp_regs" "CSR_SSTATUS \<notin> pmp_regs" "CSR_SIE \<notin> pmp_regs"
  "CSR_SIP \<notin> pmp_regs" "CSR_TIME \<notin> pmp_regs" "CSR_MCYCLE \<notin> pmp_regs" "CSR_MINSTRET \<notin> pmp_regs"
  by (simp_all add: pmp_regs_def)

lemma same_hart_clint [same_harts]: "same_hart s t \<Longrightarrow> same_hart s (clint_update_mip c t)"
  unfolding clint_update_mip_def by (intro same_harts; assumption)

lemma same_hart_commit:
  "same_hart s t \<Longrightarrow> same_hart s (commit_mask c t)" "same_hart s t \<Longrightarrow> same_hart s (commit_views c lw t)"
  "same_hart s t \<Longrightarrow> same_hart s (commit_counters lw t)" "same_hart s t \<Longrightarrow> same_hart s (commit_time c t)"
  unfolding commit_mask_def commit_views_def commit_counters_def commit_time_def
  by (intro same_harts; assumption)+

lemma same_hart_csr_commit: "same_hart s t \<Longrightarrow> same_hart s (csr_commit c lw t)"
  unfolding csr_commit_def by (intro same_harts same_hart_commit; assumption)

lemma commit_mstatus:
  "sr (commit_counters lw s) CSR_MSTATUS = sr s CSR_MSTATUS"
  "sr (commit_time c s) CSR_MSTATUS = sr s CSR_MSTATUS"
  by (simp_all add: commit_counters_def commit_time_def clint_update_mip_frame Let_def)

lemma mpp_ok_commit: "mpp_ok (sr (csr_commit c lw s) CSR_MSTATUS)"
  using csr_commit_coherent [of c lw s]
  by (auto simp: csr_coherent_def mstatus_ok_def mpp_ok_bits)

lemma hart_ok_commit_tail:
  assumes "hart_mid c s"
  shows "hart_ok c (snd (commit_tail c dnpc s))"
proof -
  let ?lw = "cpu_last_csr_wr (cpu s)"
  let ?s1 = "set_csr_dirty False (set_last_csr_wr 0 s)"
  define s2 where "s2 = (if target_share c \<or> ?lw \<noteq> 0 \<or> cpu_csr_dirty (cpu s)
    then csr_commit c ?lw ?s1 else ?s1)"
  define s3 where "s3 = commit_time c (commit_counters ?lw s2)"
  note r = assms [unfolded hart_mid_def hart_base_def]
  have "same_hart s ?s1" by (intro same_harts)
  then have "same_hart s s3"
    unfolding s3_def s2_def by (intro same_hart_commit same_hart_if same_hart_csr_commit)
  then have p: "pmp_agree s s3" and f: "hart_frame s s3" by (simp_all add: same_hart_def)
  have "mpp_ok (sr s2 CSR_MSTATUS)" using r by (auto simp: s2_def mpp_ok_commit)
  then have "mpp_ok (sr s3 CSR_MSTATUS)" by (simp add: s3_def commit_mstatus)
  moreover have "snd (commit_tail c dnpc s) = set_gpr 0 0 s3"
    by (simp add: commit_tail_def Let_def s3_def s2_def)
  moreover have "pmp_agree s (set_gpr 0 0 s3)" using p by (simp add: pmp_agree_def)
  ultimately show ?thesis
    using r f pmp_agree_ok [of s "set_gpr 0 0 s3" c]
    by (simp add: hart_ok_def hart_base_def mode_ok_def hart_frame_def)
qed

section \<open>Instructions\<close>

text \<open>The body of an instruction: well-formed before, between body and tail after, well-formed at a fault.\<close>

definition inst_ok :: "config \<Rightarrow> 'a mem \<Rightarrow> bool" where
  "inst_ok c m \<longleftrightarrow> mhoare (hart_ok c) m (\<lambda>_. hart_mid c) (\<lambda>_. hart_ok c)"

named_theorems inst_oks \<open>rules for bodies of instructions\<close>

lemma minv_mhoare: "minv I m \<Longrightarrow> mhoare I m (\<lambda>_. I) (\<lambda>_. I)"
  by (auto simp: minv_def mhoare_def split: prod.split sum.split)

lemma inst_ok_minv: "minv (hart_ok c) m \<Longrightarrow> inst_ok c m"
  unfolding inst_ok_def by (rule mhoare_weaken [OF minv_mhoare]) (simp_all add: hart_ok_mid)

lemma inst_ok_bind [inst_oks]: "minv (hart_ok c) m \<Longrightarrow> (\<And>a. inst_ok c (f a)) \<Longrightarrow> inst_ok c (mbind m f)"
  unfolding inst_ok_def by (rule mhoare_mbind [OF minv_mhoare])

lemma inst_ok_seq [inst_oks]: "minv (hart_ok c) m \<Longrightarrow> inst_ok c f \<Longrightarrow> inst_ok c (mseq m f)"
  unfolding mseq_def by (rule inst_ok_bind)

lemma inst_ok_end [inst_oks]: "inst_ok c (mret a)" "inst_ok c (raise_at c NO pc)"
  by (intro inst_ok_minv hart_inv)+

lemma inst_ok_if [inst_oks]: "(b \<Longrightarrow> inst_ok c m) \<Longrightarrow> (\<not> b \<Longrightarrow> inst_ok c n) \<Longrightarrow> inst_ok c (if b then m else n)"
  by simp

lemma inst_ok_option [inst_oks]:
  "(x = None \<Longrightarrow> inst_ok c m) \<Longrightarrow> (\<And>y. x = Some y \<Longrightarrow> inst_ok c (f y)) \<Longrightarrow>
     inst_ok c (case x of None \<Rightarrow> m | Some y \<Rightarrow> f y)"
  by (cases x) simp_all

lemma inst_ok_sum [inst_oks]:
  "(\<And>a. x = Inl a \<Longrightarrow> inst_ok c (f a)) \<Longrightarrow> (\<And>b. x = Inr b \<Longrightarrow> inst_ok c (g b)) \<Longrightarrow>
     inst_ok c (case x of Inl a \<Rightarrow> f a | Inr b \<Rightarrow> g b)"
  by (cases x) simp_all

text \<open>Register writes: the last effect of a body, or the 0 of a successful \<open>sc\<close>.\<close>

lemma hart_base_gpr [simp]: "hart_base c (set_gpr rd v s) = hart_base c s"
  by (intro base_agree_base) (simp add: agree_defs)

lemma hart_base_reservation:
  "hart_base c s \<Longrightarrow> n \<in> {0, 4, 8} \<Longrightarrow> hart_base c (set_reservation a n s)"
  using pmp_agree_ok [of s "set_reservation a n s" c]
  by (simp add: hart_base_def mode_ok_def pmp_agree_def set_reservation_def sr_def)

lemma sr_set_reservation [simp]: "sr (set_reservation a n s) = sr s"
  by (simp add: fun_eq_iff sr_def set_reservation_def)

lemma inst_ok_ret_reg [inst_oks]: "inst_ok c (ret_reg d rd v)"
  unfolding inst_ok_def ret_reg_def wr_reg_def
  by (rule mhoareI) (auto simp: mseq_app hart_ok_def hart_mid_def)

lemma minv_wr_zero [hart_inv]: "minv (hart_ok c) (wr_reg rd 0)"
  unfolding wr_reg_def by (rule minv_mmodify) (simp add: hart_ok_def)

lemma inst_ok_lr:
  assumes "len \<in> {4, 8}"
  shows "inst_ok c (mseq (wr_reg rd v) (mseq (mmodify (set_reservation pa len)) (mret d)))"
  unfolding inst_ok_def wr_reg_def
  by (rule mhoareI) (use assms in \<open>auto simp: mseq_app hart_ok_def hart_mid_def intro!: hart_base_reservation\<close>)

lemma inst_ok_sc:
  "inst_ok c (mseq (if ok then mseq (wr_reg rd 0) (vaddr_write c a n d) else wr_reg rd 1)
     (mseq (mmodify (set_reservation 0 0)) (mret pc)))"
proof -
  let ?R = "\<lambda>s. hart_base c s \<and> mpp_ok (sr s CSR_MSTATUS)"
  have "mhoare (hart_ok c) (mseq (wr_reg rd 0) (vaddr_write c a n d)) (\<lambda>_. ?R) (\<lambda>_. hart_ok c)"
    by (rule mhoare_weaken [OF minv_mhoare]) (intro hart_inv, simp_all add: hart_ok_def)
  moreover have "mhoare (hart_ok c) (wr_reg rd 1) (\<lambda>_. ?R) (\<lambda>_. hart_ok c)"
    unfolding wr_reg_def by (rule mhoare_mmodify) (simp add: hart_ok_def)
  ultimately have 1: "mhoare (hart_ok c) (if ok then mseq (wr_reg rd 0) (vaddr_write c a n d) else wr_reg rd 1)
      (\<lambda>_. ?R) (\<lambda>_. hart_ok c)" by simp
  have 2: "mhoare ?R (mseq (mmodify (set_reservation 0 0)) (mret pc)) (\<lambda>_. hart_mid c) (\<lambda>_. hart_ok c)"
    by (rule mhoareI) (auto simp: mseq_app hart_mid_def intro!: hart_base_reservation)
  show ?thesis unfolding inst_ok_def by (rule mhoare_mseq [OF 1 2])
qed

lemma inst_ok_atomic:
  assumes "n \<in> {4, 8}"
  shows "inst_ok c (load_reserved c snpc n e rd rs1 a b imm)"
    "inst_ok c (store_conditional c snpc n rd rs1 a b imm)" "inst_ok c (amo c snpc n e f rd rs1 a b imm)"
  unfolding load_reserved_def store_conditional_def amo_def
  by (intro inst_oks hart_inv inst_ok_lr inst_ok_sc assms)+

lemma inst_ok_load_store [inst_oks]:
  "inst_ok c (load_reg c snpc n e rd rs1 a b imm)" "inst_ok c (store_reg c snpc n rd rs1 a b imm)"
  unfolding load_reg_def store_reg_def by (intro inst_oks hart_inv)+

section \<open>Hypervisor accesses\<close>

lemma minv_hypervisor [hart_inv]: "minv (hart_ok c) (hypervisor_memory_access c pc store ex n a d)"
  unfolding hypervisor_memory_access_def hypervisor_pieces_def hypervisor_second_piece_def
    hypervisor_memory_piece_def hypervisor_piece_check_def hypervisor_memory_trap_def
    hypervisor_transfer_def Let_def
  by (intro hart_inv)

section \<open>System instructions\<close>

lemma inst_ok_CSRW:
  "inst_ok c (mseq (wr_reg rd v) (mseq (mmodify (\<lambda>s. CSRW c csr (h s) s)) (mret d)))"
  unfolding inst_ok_def wr_reg_def
  by (rule mhoareI) (auto simp: mseq_app hart_ok_def intro!: hart_mid_CSRW)

lemma inst_ok_csr [inst_oks]:
  "inst_ok c (csr_write_body c pc snpc rd rs1 a b imm)" "inst_ok c (csr_modify_body c pc snpc f rd rs1 a b imm)"
proof -
  show "inst_ok c (csr_write_body c pc snpc rd rs1 a b imm)"
    unfolding csr_write_body_def Let_def by (intro inst_oks hart_inv inst_ok_CSRW)
  have w: "inst_ok c (mseq (wr_reg rd v) (mseq (mwhen w (mmodify (\<lambda>s. CSRW c csr (h s) s))) (mret d)))"
    for v w csr h and d :: vaddr_t
  proof (cases w)
    case False
    then have e: "mseq (mwhen w m) (mret d) = mret d" for m by (simp add: fun_eq_iff mseq_app)
    show ?thesis unfolding e using inst_ok_ret_reg [of c d rd v] by (simp add: ret_reg_def)
  qed (use inst_ok_CSRW in \<open>simp add: mwhen_def\<close>)
  show "inst_ok c (csr_modify_body c pc snpc f rd rs1 a b imm)"
    unfolding csr_modify_body_def Let_def by (intro inst_oks hart_inv w)
qed

lemma inst_ok_exec_mret [inst_oks]: "inst_ok c (exec_mret c pc)"
proof -
  have "minv (hart_ok c) (exec_mret c pc)"
    unfolding minv_def
  proof (intro allI impI)
    fix s assume s: "hart_ok c s"
    then show "hart_ok c (snd (exec_mret c pc s))"
      using hart_ok_mret [OF s] hart_ok_raise [OF s]
      by (auto simp: exec_mret_def mbind_app mseq_app raise_at_def split: option.split)
  qed
  then show ?thesis by (rule inst_ok_minv)
qed

lemma inst_ok_exec_sret [inst_oks]: "inst_ok c (exec_sret c pc)"
proof -
  have "minv (hart_ok c) (exec_sret c pc)"
    unfolding minv_def
  proof (intro allI impI)
    fix s assume s: "hart_ok c s"
    then show "hart_ok c (snd (exec_sret c pc s))"
      using hart_ok_sret [OF s] hart_ok_raise [OF s]
      by (auto simp: exec_sret_def mbind_app mseq_app raise_at_def split: sum.split)
  qed
  then show ?thesis by (rule inst_ok_minv)
qed

lemma minv_wfi_advance [hart_inv]: "minv (hart_ok c) (mmodify (clint_wfi_advance c))"
proof (rule minv_agree)
  fix s
  have "same_hart u (clint_update_mip c u)" for u by (intro same_harts)
  then have "ok_agree u (clint_update_mip c u)" for u
    by (simp add: same_hart_def agree_defs hart_frame_def clint_update_mip_frame gpr_def)
  moreover have "ok_agree s (s\<lparr>g_nr_guest_inst := x\<rparr>)" for x by (simp add: agree_defs sr_def gpr_def)
  ultimately show "ok_agree s (clint_wfi_advance c s)"
    unfolding clint_wfi_advance_def Let_def
    by (auto simp: agree_defs)
qed

lemma inst_ok_system [inst_oks]:
  "inst_ok c (sfence_vma c pc snpc)" "inst_ok c (sfence_inval c pc snpc)"
  "inst_ok c (hypervisor_fence c pc snpc g)" "inst_ok c (hlv c pc snpc ex n e rd rs1 a b imm)"
  "inst_ok c (hsv c pc snpc n rd rs1 a b imm)" "inst_ok c (exec_ecall c pc)"
  "inst_ok c (exec_wrs_nto c pc snpc)" "inst_ok c (exec_wrs_sto c pc snpc)" "inst_ok c (exec_wfi c pc snpc)"
  unfolding sfence_vma_def sfence_inval_def hypervisor_fence_def hlv_def hsv_def exec_ecall_def
    exec_wrs_nto_def exec_wrs_sto_def exec_wfi_def
  by (intro inst_oks hart_inv)+

section \<open>The groups of the listing\<close>

definition group_inst_ok :: "config \<Rightarrow> exec_entry list \<Rightarrow> bool" where
  "group_inst_ok c g \<longleftrightarrow>
     (\<forall>(pat, ty, body)\<in>set g. \<forall>rd rs1 src1 src2 imm. inst_ok c (body rd rs1 src1 src2 imm))"

lemma group_inst_ok_simps [simp]:
  "group_inst_ok c []"
  "group_inst_ok c ((pat, ty, body) # g) \<longleftrightarrow>
     (\<forall>rd rs1 src1 src2 imm. inst_ok c (body rd rs1 src1 src2 imm)) \<and> group_inst_ok c g"
  "group_inst_ok c (g @ h) \<longleftrightarrow> group_inst_ok c g \<and> group_inst_ok c h"
  unfolding group_inst_ok_def by (simp, simp, simp only: set_append ball_Un)

lemma group_inst_ok_alu: "group_inst_ok c (map (alu_exec snpc) es)"
  by (auto simp: group_inst_ok_def alu_exec_def inst_oks)

lemma group_inst_ok_jumps:
  "group_inst_ok c (grp_lui snpc)" "group_inst_ok c (grp_auipc pc snpc)"
  "group_inst_ok c (grp_jal pc snpc)" "group_inst_ok c (grp_jalr snpc)"
  "group_inst_ok c (grp_branch pc snpc)" "group_inst_ok c (grp_prefetch snpc)"
  by (simp_all add: grp_lui_def grp_auipc_def grp_jal_def grp_jalr_def grp_branch_def grp_prefetch_def
      branch_if_def inst_oks)

lemma group_inst_ok_memory:
  "group_inst_ok c (grp_load c snpc)" "group_inst_ok c (grp_store c snpc)"
  "group_inst_ok c (grp_amo_w c snpc)" "group_inst_ok c (grp_amo_d c snpc)"
  by (simp_all add: grp_load_def grp_store_def grp_amo_w_def grp_amo_d_def Let_def inst_oks inst_ok_atomic)

lemma minv_zero_block [hart_inv]: "minv (hart_ok c) (zero_block c b js)"
  by (induction js) (simp_all only: zero_block.simps; intro hart_inv)+

lemma inst_ok_with_cbo [inst_oks]: "minv (hart_ok c) m \<Longrightarrow> inst_ok c (with_cbo c kind pc snpc m)"
  unfolding with_cbo_def by (intro inst_oks hart_inv)

lemma group_inst_ok_miscmem: "group_inst_ok c (grp_miscmem c pc snpc)"
  unfolding grp_miscmem_def group_inst_ok_simps
  by (intro conjI allI inst_oks hart_inv group_inst_ok_simps(1))

lemma group_inst_ok_system: "group_inst_ok c (grp_system c pc snpc)"
  by (simp add: grp_system_def grp_system_h_def grp_system_csr_def inst_oks)

lemma group_inst_ok_exec: "group_inst_ok c (exec_group c pc snpc op)"
  unfolding exec_group_def
  by (simp add: group_inst_ok_jumps group_inst_ok_alu group_inst_ok_memory group_inst_ok_miscmem
      group_inst_ok_system)

lemma inst_ok_exec_inst:
  assumes "inst_ok c (ext i pc snpc)"
  shows "inst_ok c (exec_inst c ext i pc snpc)"
proof -
  have "inst_ok c (run_entry i e)" if "find P (exec_group c pc snpc op) = Some e" for P op e
  proof -
    have "e \<in> set (exec_group c pc snpc op)" using that by (auto simp: find_Some_iff)
    with group_inst_ok_exec [of c pc snpc op] show ?thesis
      by (auto simp: run_entry_def group_inst_ok_def intro!: inst_oks hart_inv split: prod.split)
  qed
  then show ?thesis unfolding exec_inst_def Let_def by (intro inst_oks assms)
qed

section \<open>Steps of the emulator\<close>

lemma minv_decode_exec:
  assumes "\<And>i pc snpc. inst_ok c (ext i pc snpc)"
  shows "minv (hart_ok c) (decode_exec c ext i0 pc snpc0)"
proof -
  have "minv (hart_ok c) (mbind (exec_inst c ext i pc snpc)
      (\<lambda>dnpc. mbind (mlift (commit_tail c dnpc)) (\<lambda>pc'. mret (pc', i, snpc))))" for i snpc
    unfolding minv_def
  proof (intro allI impI)
    fix s assume s: "hart_ok c s"
    obtain r t where e: "exec_inst c ext i pc snpc s = (r, t)" by fastforce
    note h = inst_ok_exec_inst [OF assms, unfolded inst_ok_def]
    show "hart_ok c (snd (mbind (exec_inst c ext i pc snpc)
        (\<lambda>dnpc. mbind (mlift (commit_tail c dnpc)) (\<lambda>pc'. mret (pc', i, snpc))) s))"
    proof (cases r)
      case (Inl x)
      with mhoare_Inl [OF h s] e show ?thesis by (simp add: mbind_app)
    next
      case (Inr d)
      with mhoare_Inr [OF h s] e have "hart_mid c t" by simp
      with hart_ok_commit_tail Inr e show ?thesis by (simp add: mbind_app)
    qed
  qed
  then show ?thesis unfolding decode_exec_def by (intro minv_prod)
qed

lemma minv_exec_body_once:
  assumes "\<And>i pc snpc. inst_ok c (ext i pc snpc)"
  shows "minv (hart_ok c) (exec_body_once c ext pc)"
  unfolding exec_body_once_def fetch_inst_def Let_def
  by (intro hart_inv minv_decode_exec assms)

lemma hart_ok_isa_exec_once:
  assumes "\<And>i pc snpc. inst_ok c (ext i pc snpc)" and "hart_ok c s"
    and "isa_exec_once c ext pc s = Some (pc', i, t)"
  shows "hart_ok c t"
proof -
  let ?s = "set_last_csr_wr 0 (set_instruction_trapped False s)"
  obtain r u where e: "exec_body_once c ext pc ?s = (r, u)" by fastforce
  have "ok_agree s ?s" by (simp add: agree_defs gpr_def)
  with assms(2) have "hart_ok c ?s" by (simp add: ok_agree_ok)
  with minv_exec_body_once [of c ext, OF assms(1)] e have u: "hart_ok c u" by (metis minvD)
  show ?thesis
  proof (cases r)
    case (Inl x)
    with assms(3) e show ?thesis
      using hart_ok_raise [OF u] by (cases x) (auto simp: isa_exec_once_def split: prod.splits, metis snd_conv)
  qed (use assms(3) e u in \<open>auto simp: isa_exec_once_def split: prod.splits\<close>)
qed

lemma hart_ok_step:
  assumes "\<And>i pc snpc. inst_ok c (ext i pc snpc)" and "hart_ok c s" and "nemu_step c ext s = Some t"
  shows "hart_ok c t"
proof -
  have pc: "ok_agree s (set_pc x s)" "ok_agree s (set_cpc x s)" "ok_agree s (set_cpu_inst i s)"
    "ok_agree s (tick_guest s)" for x i s
    by (simp_all add: agree_defs set_pc_def set_cpc_def set_cpu_inst_def tick_guest_def sr_def gpr_def)
  note pc = pc [THEN ok_agree_ok]
  let ?s = "take_interrupt c s"
  have 1: "hart_ok c ?s"
    using assms(2) hart_ok_raise [OF assms(2)] pc
    by (auto simp: take_interrupt_def Let_def split: prod.split) (metis snd_conv)
  from assms(3) obtain pc' i u where
    2: "isa_exec_once c ext (cpu_pc (cpu ?s)) (set_cpc (cpu_pc (cpu ?s)) ?s) = Some (pc', i, u)"
    and t: "t = tick_guest (set_cpu_inst i (set_pc pc' u))"
    by (auto simp: nemu_step_def exec_once_def Let_def)
  from 1 pc have "hart_ok c (set_cpc (cpu_pc (cpu ?s)) ?s)" by simp
  from hart_ok_isa_exec_once [of c ext, OF assms(1) this 2] show ?thesis unfolding t by (simp add: pc)
qed

lemma hart_ok_execute:
  assumes "\<And>i pc snpc. inst_ok c (ext i pc snpc)" and "hart_ok c s" and "execute c ext n s = Some t"
  shows "hart_ok c t"
  using assms(2,3)
proof (induction n arbitrary: s)
  case (Suc n)
  then obtain u where u: "nemu_step c ext s = Some u" "execute c ext n u = Some t"
    by (auto simp: bind_eq_Some_conv)
  from Suc.IH [OF hart_ok_step [of c ext, OF assms(1) Suc.prems(1) u(1)] u(2)] show ?case .
qed simp

end
