(* ===== verification/Difftest.thy ===== *)
theory Difftest
  imports Init
begin

text \<open>
  The reference interface the RTL simulator drives, \<^verbatim>\<open>src/cpu/difftest/ref.c\<close>, in the
  \<open>CONFIG_TARGET_SHARE\<close> build without devices, with \<open>cpu_exec\<close> of \<^verbatim>\<open>cpu-exec.c\<close> and
  \<open>init_mem\<close> of \<^verbatim>\<open>paddr.c\<close>. An \<open>NPCState\<close> is read through its pointers: the record holds the
  values behind them, \<open>None\<close> for a null pointer that the code tests. The fields for memory and
  load comparison and \<open>cpu.skip\<close> are bookkeeping of the comparison and are left out.
\<close>

unbundle bit_operations_syntax

section \<open>The run state (utils.h, cpu-exec.c)\<close>

datatype run_state = NEMU_RUNNING | NEMU_STOP | NEMU_END | NEMU_ABORT | NEMU_QUIT

type_synonym ref_world = "run_state \<times> nemu"

text \<open>
  No instruction of the modelled groups changes \<open>nemu_state\<close>, so the loop of \<open>execute\<close> runs its
  \<open>n\<close> steps.
\<close>

definition cpu_exec :: "config \<Rightarrow> ext_exec \<Rightarrow> nat \<Rightarrow> ref_world \<Rightarrow> ref_world option" where
  "cpu_exec c ext n = (\<lambda>(r, s).
     if r = NEMU_END \<or> r = NEMU_ABORT then Some (r, s)
     else map_option (\<lambda>t. (NEMU_STOP, t)) (execute c ext n s))"

section \<open>Memory (init_mem, difftest_memcpy)\<close>

text \<open>The reset code in the boot ROM of builds with \<open>CONFIG_ROM\<close>; \<open>CONFIG_ISA64\<close> is set.\<close>

definition reset_vec :: "uint32_t list" where
  "reset_vec = [0x297, 0x28593 + push_bit 20 (8 * 4), 0xf1402573, 0x0182b283, 0x28067, 0,
     0x80000000, 0]"

definition fill_region :: "paddr_t \<Rightarrow> paddr_t \<Rightarrow> (paddr_t \<Rightarrow> uint8_t) \<Rightarrow> paddr_t \<Rightarrow> uint8_t" where
  "fill_region base n m a = (if base \<le> a \<and> a < base + n then 0 else m a)"

definition init_mem :: "nemu \<Rightarrow> nemu" where
  "init_mem s =
     (let m1 = fill_region CONFIG_SRAM_BASE CONFIG_SRAM_SIZE (phys s);
          m2 = fill_region CONFIG_MROM_BASE CONFIG_MROM_SIZE m1;
          s1 = soft_tlb_flush (s\<lparr>phys := m2\<rparr>)
      in s1\<lparr>phys := copy_in (phys s1) CONFIG_ROM_BASE (concat (map word_bytes reset_vec))\<rparr>)"

text \<open>\<open>None\<close> is a failed assertion.\<close>

definition difftest_span_ok :: "config \<Rightarrow> paddr_t \<Rightarrow> nat \<Rightarrow> bool" where
  "difftest_span_ok c addr n \<longleftrightarrow>
     (let last' = addr + of_nat n - 1 in
      0 < n \<and> addr \<le> last' \<and> last' \<le> 0xffffffff \<and>
      (in_pmem c addr \<and> in_pmem c last' \<or> in_sram addr \<and> in_sram last' \<or>
       in_mrom addr \<and> in_mrom last' \<or> in_flash c addr \<and> in_flash c last'))"

definition difftest_memcpy_to_ref :: "config \<Rightarrow> paddr_t \<Rightarrow> uint8_t list \<Rightarrow> nemu \<Rightarrow> nemu option" where
  "difftest_memcpy_to_ref c addr buf s =
     (if difftest_span_ok c addr (length buf) then Some (s\<lparr>phys := copy_in (phys s) addr buf\<rparr>) else None)"

definition difftest_memcpy_to_dut :: "config \<Rightarrow> paddr_t \<Rightarrow> nat \<Rightarrow> nemu \<Rightarrow> uint8_t list option" where
  "difftest_memcpy_to_dut c addr n s =
     (if difftest_span_ok c addr n then Some (copy_out (phys s) addr n) else None)"

text \<open>\<open>madvise\<close> with \<open>MADV_DONTNEED\<close> on the anonymous mapping makes its pages read as zero.\<close>

definition difftest_reset_pmem :: "config \<Rightarrow> nemu \<Rightarrow> nemu" where
  "difftest_reset_pmem c s = s\<lparr>phys := fill_region (PMEM_LEFT c) (msize c) (phys s)\<rparr>"

section \<open>Registers (difftest_regcpy)\<close>

record dut_state =
  d_pc :: word_t
  d_gpr :: "nat \<Rightarrow> word_t"
  d_fpr :: "(nat \<Rightarrow> word_t) option"
  d_fcsr :: "uint32_t option"
  d_priv :: nat
  d_csr :: "nat \<Rightarrow> word_t"
  d_pmp :: "((nat \<Rightarrow> uint8_t) \<times> (nat \<Rightarrow> word_t)) option"
  d_clint :: "(word_t \<times> word_t \<times> uint8_t) option"

text \<open>The CSRs that go from the DUT to the reference one to one, in the order of the code.\<close>

definition regcpy_csrs :: "nat list" where
  "regcpy_csrs =
     [CSR_SSTATUS, CSR_SIE, CSR_STVEC, CSR_SCOUNTEREN, CSR_MCOUNTEREN, CSR_SSCRATCH, CSR_SEPC,
      CSR_SCAUSE, CSR_STVAL, CSR_SIP, CSR_SATP, CSR_MSTATUS, CSR_MEDELEG, CSR_MIDELEG, CSR_MIE,
      CSR_MTVEC, CSR_MENVCFG, CSR_MSTATUSH, CSR_MSCRATCH, CSR_MEPC, CSR_MCAUSE, CSR_MTVAL]"

definition set_fpr :: "(nat \<Rightarrow> word_t) \<Rightarrow> nemu \<Rightarrow> nemu" where
  "set_fpr f s = s\<lparr>cpu := (cpu s)\<lparr>cpu_fpr := f\<rparr>\<rparr>"

definition regcpy_gprs :: "dut_state \<Rightarrow> nemu \<Rightarrow> nemu" where
  "regcpy_gprs d s = fold (\<lambda>i. set_gpr i (d_gpr d i)) [0..<32] s"

text \<open>The stored \<open>mip\<close> keeps the bits that a separate level provides.\<close>

definition regcpy_mip :: "word_t \<Rightarrow> nemu \<Rightarrow> nemu" where
  "regcpy_mip mip s =
     (let s1 = set_stip (mip AND 0x20 \<noteq> 0) s;
          hidden = (if drop_bit 63 (sr s1 CSR_MENVCFG) \<noteq> 0 then 0x20 else 0) OR
                   (if cpu_seip (cpu s1) then 0x200 else 0)
      in set_sr CSR_MIP ((mip AND NOT hidden) OR (sr s1 CSR_MIP AND hidden)) s1)"

definition difftest_regcpy_to_ref :: "dut_state \<Rightarrow> nemu \<Rightarrow> nemu" where
  "difftest_regcpy_to_ref d s =
     (let s1 = regcpy_gprs d (set_pc (d_pc d) s);
          s2 = (case d_fpr d of None \<Rightarrow> s1 | Some f \<Rightarrow> set_fpr f s1);
          s3 = (case d_fcsr d of None \<Rightarrow> s2 | Some v \<Rightarrow> set_sr CSR_FCSR (ucast v) s2);
          s4 = fold (\<lambda>i. set_sr i (d_csr d i)) regcpy_csrs s3
      in regcpy_mip (d_csr d CSR_MIP) s4)"

text \<open>What the DUT side sees through the pointers it is given; \<open>mip\<close> is the effective value.\<close>

definition difftest_regcpy_to_dut :: "config \<Rightarrow> nemu \<Rightarrow> dut_state \<times> nemu" where
  "difftest_regcpy_to_dut c s =
     (let mip = riscv_hart_mip_value c s;
          s1 = set_sr CSR_SIP (mip AND sr s CSR_MIDELEG AND riscv_supervisor_irq_mask c) s
      in (\<lparr>d_pc = cpu_pc (cpu s1), d_gpr = cpu_gpr (cpu s1), d_fpr = Some (cpu_fpr (cpu s1)),
           d_fcsr = Some (ucast (sr s1 CSR_FCSR)), d_priv = priv s1,
           d_csr = (\<lambda>i. if i = CSR_MIP then mip else sr s1 i), d_pmp = None, d_clint = None\<rparr>, s1))"

section \<open>Checkpoints\<close>

definition set_mtimecmp :: "word_t \<Rightarrow> nemu \<Rightarrow> nemu" where
  "set_mtimecmp v s = s\<lparr>cpu := (cpu s)\<lparr>cpu_mtimecmp := v\<rparr>\<rparr>"

definition difftest_checkpoint_sync :: "config \<Rightarrow> dut_state \<Rightarrow> nemu \<Rightarrow> nemu" where
  "difftest_checkpoint_sync c d s =
     (let s1 = set_priv (d_priv d) (difftest_regcpy_to_ref d s);
          s2 = (case d_pmp d of None \<Rightarrow> s1 | Some (cfg, addr) \<Rightarrow> pmp_restore_checkpoint c cfg addr s1)
      in case d_clint d of None \<Rightarrow> s2 | Some (mtime, mtimecmp, msip) \<Rightarrow> set_mtimecmp mtimecmp s2)"

definition difftest_restore_sstc :: "word_t \<Rightarrow> word_t \<Rightarrow> nemu \<Rightarrow> nemu" where
  "difftest_restore_sstc menvcfgh stimecmp s = set_sr 0x14d stimecmp s"

definition difftest_clear_reservation :: "nemu \<Rightarrow> nemu" where
  "difftest_clear_reservation s = set_reservation 0 0 s"

section \<open>Execution and events\<close>

definition difftest_exec :: "config \<Rightarrow> ext_exec \<Rightarrow> nat \<Rightarrow> ref_world \<Rightarrow> ref_world option" where
  "difftest_exec c ext n w = cpu_exec c ext n w"

definition difftest_raise_intr :: "config \<Rightarrow> word_t \<Rightarrow> nemu \<Rightarrow> nemu" where
  "difftest_raise_intr c NO s = (case isa_raise_intr c NO (cpu_pc (cpu s)) s of (pc, t) \<Rightarrow> set_pc pc t)"

text \<open>
  Lowering a level is \<open>&= ~(1u << n)\<close>, whose 32-bit mask widens with zeros: the upper half of \<open>mip\<close> is
  cleared with the bit.
\<close>

definition set_mip_bit :: "nat \<Rightarrow> bool \<Rightarrow> nemu \<Rightarrow> nemu" where
  "set_mip_bit n val s =
     set_sr CSR_MIP (if val then sr s CSR_MIP OR push_bit n 1
       else sr s CSR_MIP AND ucast (NOT (push_bit n 1) :: uint32_t)) s"

definition difftest_set_meip :: "bool \<Rightarrow> nemu \<Rightarrow> nemu" where
  "difftest_set_meip val s = set_mip_bit 11 val s"

definition difftest_set_msip :: "bool \<Rightarrow> nemu \<Rightarrow> nemu" where
  "difftest_set_msip val s = set_mip_bit 3 val s"

definition difftest_set_mtip :: "bool \<Rightarrow> nemu \<Rightarrow> nemu" where
  "difftest_set_mtip val s = set_mip_bit 7 val s"

definition difftest_set_stip :: "bool \<Rightarrow> nemu \<Rightarrow> nemu" where
  "difftest_set_stip val s = set_stip val s"

definition difftest_set_seip :: "bool \<Rightarrow> nemu \<Rightarrow> nemu" where
  "difftest_set_seip val s = s\<lparr>cpu := (cpu s)\<lparr>cpu_seip := val\<rparr>\<rparr>"

text \<open>Without \<open>CONFIG_DEVICE\<close> there is no PLIC to forward to.\<close>

definition difftest_plic_raise :: "uint32_t \<Rightarrow> nemu \<Rightarrow> nemu" where
  "difftest_plic_raise src s = s"

definition difftest_store_error :: "word_t \<Rightarrow> uint8_t \<Rightarrow> nemu \<Rightarrow> nemu" where
  "difftest_store_error addr strb s =
     (let status = sr s CSR_MBERR_STATUS in
      if status AND 1 = 0
      then set_sr CSR_MBERR_STATUS (((status AND 2) OR push_bit 8 (ucast strb)) OR 1)
             (set_sr CSR_MBERR_ADDR addr s)
      else set_sr CSR_MBERR_STATUS ((status OR 2) OR 1) s)"

definition difftest_restore_store_error :: "word_t \<Rightarrow> word_t \<Rightarrow> nemu \<Rightarrow> nemu" where
  "difftest_restore_store_error status addr s =
     set_sr CSR_MBERR_ADDR addr (set_sr CSR_MBERR_STATUS (status AND 0xff03) s)"

definition difftest_init :: "config \<Rightarrow> boot_options \<Rightarrow> isa_selection \<times> nemu \<Rightarrow> (isa_selection \<times> nemu) option" where
  "difftest_init c b = (\<lambda>(g, s). init_isa c b (g, init_mem s))"

text \<open>The calls the simulator makes, in any order; \<open>None\<close> is an abort of the reference.\<close>

datatype ref_call =
    Exec nat
  | Raise_intr word_t
  | Set_meip bool | Set_msip bool | Set_mtip bool | Set_stip bool | Set_seip bool
  | Plic_irq uint32_t
  | Clear_reservation
  | Memcpy paddr_t "uint8_t list"
  | Reset_pmem
  | Regcpy dut_state
  | Regcpy_out
  | Checkpoint dut_state
  | Restore_sstc word_t word_t
  | Store_error word_t uint8_t
  | Restore_store_error word_t word_t

text \<open>The calls other than execution, which do not look at the run state.\<close>

fun ref_side :: "config \<Rightarrow> ref_call \<Rightarrow> nemu \<Rightarrow> nemu option" where
  "ref_side c (Exec n) s = None"
| "ref_side c (Raise_intr NO) s = Some (difftest_raise_intr c NO s)"
| "ref_side c (Set_meip b) s = Some (difftest_set_meip b s)"
| "ref_side c (Set_msip b) s = Some (difftest_set_msip b s)"
| "ref_side c (Set_mtip b) s = Some (difftest_set_mtip b s)"
| "ref_side c (Set_stip b) s = Some (difftest_set_stip b s)"
| "ref_side c (Set_seip b) s = Some (difftest_set_seip b s)"
| "ref_side c (Plic_irq n) s = Some (difftest_plic_raise n s)"
| "ref_side c Clear_reservation s = Some (difftest_clear_reservation s)"
| "ref_side c (Memcpy a bs) s = difftest_memcpy_to_ref c a bs s"
| "ref_side c Reset_pmem s = Some (difftest_reset_pmem c s)"
| "ref_side c (Regcpy d) s = Some (difftest_regcpy_to_ref d s)"
| "ref_side c Regcpy_out s = Some (snd (difftest_regcpy_to_dut c s))"
| "ref_side c (Checkpoint d) s = Some (difftest_checkpoint_sync c d s)"
| "ref_side c (Restore_sstc h v) s = Some (difftest_restore_sstc h v s)"
| "ref_side c (Store_error a m) s = Some (difftest_store_error a m s)"
| "ref_side c (Restore_store_error v a) s = Some (difftest_restore_store_error v a s)"

fun ref_step :: "config \<Rightarrow> ext_exec \<Rightarrow> ref_call \<Rightarrow> ref_world \<Rightarrow> ref_world option" where
  "ref_step c ext (Exec n) w = difftest_exec c ext n w"
| "ref_step c ext call w = map_option (Pair (fst w)) (ref_side c call (snd w))"

primrec ref_run :: "config \<Rightarrow> ext_exec \<Rightarrow> ref_call list \<Rightarrow> ref_world \<Rightarrow> ref_world option" where
  "ref_run c ext [] w = Some w"
| "ref_run c ext (call # calls) w = Option.bind (ref_step c ext call w) (ref_run c ext calls)"

end
