(* ===== verification/Hart_Run.thy ===== *)
theory Hart_Run
  imports Hart_Ok Difftest Exec_Safe
begin

text \<open>
  The calls of the simulator on the reference machine: each keeps a well-formed hart well-formed, and
  power-on gives one. Executed instructions are added in \<open>Ref_Run\<close>.
\<close>

unbundle bit_operations_syntax

section \<open>The calls keep a hart well-formed\<close>

text \<open>
  What the reference relies on in a state it is given: a zero \<open>x0\<close>, a legal \<open>MPP\<close>, and in a
  checkpoint a legal privilege level and legal PMP configuration bytes. A checkpoint carries no
  virtualisation mode, so one of M-mode must not meet a reference that may be in a guest.
\<close>

definition dut_ok :: "config \<Rightarrow> bool \<Rightarrow> dut_state \<Rightarrow> bool" where
  "dut_ok c checkpoint d \<longleftrightarrow> d_gpr d 0 = 0 \<and> mpp_ok (d_csr d CSR_MSTATUS) \<and>
     (checkpoint \<longrightarrow> d_priv d \<in> {PRV_U, PRV_S, PRV_M} \<and>
        (riscv_h_gstage_preview_enabled c \<longrightarrow> d_priv d \<noteq> PRV_M) \<and>
        (\<forall>cfg addr. d_pmp d = Some (cfg, addr) \<longrightarrow> (\<forall>i<PMP_N. pmp_cfg_legal c (cfg i))))"

fun call_ok :: "config \<Rightarrow> ref_call \<Rightarrow> bool" where
  "call_ok c (Regcpy d) = dut_ok c False d"
| "call_ok c (Checkpoint d) = dut_ok c True d"
| "call_ok c call = True"

lemma ok_agree_set_sr: "i \<notin> insert CSR_MSTATUS pmp_regs \<Longrightarrow> ok_agree s (set_sr i v s)"
  by (auto simp: agree_defs)

lemma hart_ok_set_sr: "i \<notin> insert CSR_MSTATUS pmp_regs \<Longrightarrow> hart_ok c (set_sr i v s) = hart_ok c s"
  by (rule ok_agree_ok) (rule ok_agree_set_sr)

lemma hart_ok_scalars [simp]:
  "hart_ok c (set_pc pc s) = hart_ok c s" "hart_ok c (set_stip b s) = hart_ok c s"
  "hart_ok c (set_fpr f s) = hart_ok c s" "hart_ok c (set_mtimecmp v s) = hart_ok c s"
  "hart_ok c (s\<lparr>phys := m\<rparr>) = hart_ok c s" "hart_ok c (difftest_set_seip b s) = hart_ok c s"
  by (rule ok_agree_ok, simp add: agree_defs set_pc_def set_stip_def set_fpr_def set_mtimecmp_def
      difftest_set_seip_def sr_def gpr_def)+

lemma regcpy_gprs:
  "cpu_sr (cpu (regcpy_gprs d s)) = cpu_sr (cpu s)" "priv (regcpy_gprs d s) = priv s"
  "virt (regcpy_gprs d s) = virt s" "pmpu (regcpy_gprs d s) = pmpu s"
  "cpu_reservation_bytes (cpu (regcpy_gprs d s)) = cpu_reservation_bytes (cpu s)"
  "i < 32 \<Longrightarrow> gpr (regcpy_gprs d s) i = d_gpr d i"
proof -
  have f: "cpu_sr (cpu (fold (\<lambda>i. set_gpr i (d_gpr d i)) js s)) = cpu_sr (cpu s) \<and>
    priv (fold (\<lambda>i. set_gpr i (d_gpr d i)) js s) = priv s \<and>
    virt (fold (\<lambda>i. set_gpr i (d_gpr d i)) js s) = virt s \<and>
    pmpu (fold (\<lambda>i. set_gpr i (d_gpr d i)) js s) = pmpu s \<and>
    cpu_reservation_bytes (cpu (fold (\<lambda>i. set_gpr i (d_gpr d i)) js s)) = cpu_reservation_bytes (cpu s)"
    for js by (induction js arbitrary: s) simp_all
  have g: "gpr (fold (\<lambda>i. set_gpr i (d_gpr d i)) js s) i = (if i \<in> set js then d_gpr d i else gpr s i)"
    for js i by (induction js arbitrary: s) auto
  from f g show "cpu_sr (cpu (regcpy_gprs d s)) = cpu_sr (cpu s)" "priv (regcpy_gprs d s) = priv s"
    "virt (regcpy_gprs d s) = virt s" "pmpu (regcpy_gprs d s) = pmpu s"
    "cpu_reservation_bytes (cpu (regcpy_gprs d s)) = cpu_reservation_bytes (cpu s)"
    "i < 32 \<Longrightarrow> gpr (regcpy_gprs d s) i = d_gpr d i"
    by (simp_all add: regcpy_gprs_def del: upt_Suc upt_rec_numeral)
qed

lemma regcpy_csrs_fold:
  "sr (fold (\<lambda>i. set_sr i (f i)) js s) k = (if k \<in> set js then f k else sr s k)"
  "priv (fold (\<lambda>i. set_sr i (f i)) js s) = priv s" "virt (fold (\<lambda>i. set_sr i (f i)) js s) = virt s"
  "pmpu (fold (\<lambda>i. set_sr i (f i)) js s) = pmpu s" "gpr (fold (\<lambda>i. set_sr i (f i)) js s) r = gpr s r"
  "cpu_reservation_bytes (cpu (fold (\<lambda>i. set_sr i (f i)) js s)) = cpu_reservation_bytes (cpu s)"
  "cpu_seip (cpu (fold (\<lambda>i. set_sr i (f i)) js s)) = cpu_seip (cpu s)"
  by (induction js arbitrary: s) auto

lemma hart_ok_regcpy:
  assumes "hart_ok c s" and "d_gpr d 0 = 0" and "mpp_ok (d_csr d CSR_MSTATUS)"
  shows "hart_ok c (difftest_regcpy_to_ref d s)"
proof -
  define u where "u = (case d_fcsr d of
      None \<Rightarrow> (case d_fpr d of None \<Rightarrow> regcpy_gprs d (set_pc (d_pc d) s)
        | Some f \<Rightarrow> set_fpr f (regcpy_gprs d (set_pc (d_pc d) s)))
    | Some v \<Rightarrow> set_sr CSR_FCSR (ucast v) (case d_fpr d of None \<Rightarrow> regcpy_gprs d (set_pc (d_pc d) s)
        | Some f \<Rightarrow> set_fpr f (regcpy_gprs d (set_pc (d_pc d) s))))"
  have u: "base_agree s u" "gpr u 0 = 0"
    using regcpy_gprs(6) [of 0 d "set_pc (d_pc d) s"] assms(2)
    by (auto simp: u_def agree_defs pmp_regs_def set_fpr_def set_pc_def set_sr_def sr_def gpr_def regcpy_gprs
        split: option.split)
  define w where "w = fold (\<lambda>i. set_sr i (d_csr d i)) regcpy_csrs u"
  have "base_agree u w"
    by (auto simp: w_def agree_defs regcpy_csrs_fold) (auto simp: regcpy_csrs_def pmp_regs_def)
  from base_agree_trans [OF u(1) this] have "hart_base c w"
    using assms(1) base_agree_base by (auto simp: hart_ok_def)
  moreover have "sr w CSR_MSTATUS = d_csr d CSR_MSTATUS" "gpr w 0 = 0"
    using u(2) by (simp_all add: w_def regcpy_csrs_fold) (simp add: regcpy_csrs_def)
  ultimately have "hart_ok c w" using assms(3) by (simp add: hart_ok_def)
  moreover have "difftest_regcpy_to_ref d s = regcpy_mip (d_csr d CSR_MIP) w"
    by (simp add: difftest_regcpy_to_ref_def Let_def w_def u_def split: option.split)
  ultimately show ?thesis by (simp add: regcpy_mip_def Let_def hart_ok_set_sr pmp_regs_def)
qed

lemma pmp_restore_ok:
  assumes "hart_base c s" and "\<forall>i<PMP_N. pmp_cfg_legal c (cfg i)"
  shows "hart_base c (pmp_restore_checkpoint c cfg addr s)"
    "sr (pmp_restore_checkpoint c cfg addr s) CSR_MSTATUS = sr s CSR_MSTATUS"
    "gpr (pmp_restore_checkpoint c cfg addr s) r = gpr s r"
proof -
  define t where "t = fold (pmp_restore_slot c cfg addr) [0..<PMP_CSR_N] s"
  have slot: "hart_frame s (pmp_restore_slot c cfg addr i s)" "pmpu (pmp_restore_slot c cfg addr i s) = pmpu s"
    "sr (pmp_restore_slot c cfg addr i s) CSR_MSTATUS = sr s CSR_MSTATUS" if "i < 16" for i s
    using that by (simp_all add: hart_frame_def pmp_restore_slot_def pmp_cfg_set_def pmp_addr_set_def Let_def)
  have "hart_frame s (fold (pmp_restore_slot c cfg addr) js s) \<and>
      pmpu (fold (pmp_restore_slot c cfg addr) js s) = pmpu s \<and>
      sr (fold (pmp_restore_slot c cfg addr) js s) CSR_MSTATUS = sr s CSR_MSTATUS"
    if "\<forall>i\<in>set js. i < 16" for js
    using that
  proof (induction js arbitrary: s)
    case (Cons i js)
    with slot [of i s] Cons.IH [of "pmp_restore_slot c cfg addr i s"] show ?case
      by (simp add: hart_frame_def)
  qed (simp add: hart_frame_def)
  from this [of "[0..<16]"] have t: "hart_frame s t" "pmpu t = pmpu s" "sr t CSR_MSTATUS = sr s CSR_MSTATUS"
    by (simp_all add: t_def del: upt_Suc upt_rec_numeral)
  have cfg: "pmp_cfg (fold (pmp_restore_slot c cfg addr) [0..<n] s) i = cfg i" if "i < n" "i < 8" "n \<le> 16" for n i
    using that
  proof (induction n)
    case (Suc n)
    have "pmp_cfg (pmp_restore_slot c cfg addr n u) i = (if i = n then cfg i else pmp_cfg u i)" for u
      using Suc.prems by (simp add: pmp_restore_slot_def pmp_cfg_set_cfg)
    with Suc show ?case by (cases "i = n") simp_all
  qed simp
  have "pmp_legal c t" using assms(2) cfg [of _ 16] unfolding pmp_legal_def t_def by simp
  moreover have "pwc.epoch_inv (pmpu t)" using assms(1) t(2) by (simp add: hart_base_def pmp_ok_def pmp_inv_def)
  note r = pmp_rebuild_inv [OF this, of c]
  have "pmp_restore_checkpoint c cfg addr s = soft_tlb_flush (pmp_rebuild_decoded c t)"
    by (simp add: pmp_restore_checkpoint_def t_def)
  moreover have "cpu (pmp_rebuild_decoded c t) = cpu t" by (simp add: pmp_rebuild_decoded_def)
  ultimately show "hart_base c (pmp_restore_checkpoint c cfg addr s)"
    "sr (pmp_restore_checkpoint c cfg addr s) CSR_MSTATUS = sr s CSR_MSTATUS"
    "gpr (pmp_restore_checkpoint c cfg addr s) r = gpr s r"
    using r pmp_same_legal [OF r(2)] t assms(1) pmp_same_sr [OF r(2)]
    by (simp_all add: hart_base_def pmp_ok_def mode_ok_def hart_frame_def pmp_flush_inv gpr_def)
qed

lemma hart_ok_checkpoint:
  assumes "hart_ok c s" and "dut_ok c True d"
  shows "hart_ok c (difftest_checkpoint_sync c d s)"
proof -
  define u where "u = set_priv (d_priv d) (difftest_regcpy_to_ref d s)"
  have 1: "hart_ok c (difftest_regcpy_to_ref d s)"
    using assms hart_ok_regcpy by (simp add: dut_ok_def)
  have "pmp_agree (difftest_regcpy_to_ref d s) u" by (simp add: u_def pmp_agree_def)
  from pmp_agree_ok [OF this, of c] 1 assms(2) have u: "hart_ok c u"
    by (auto simp: u_def hart_ok_def hart_base_def mode_ok_def dut_ok_def gpr_def)
  moreover have "hart_ok c (pmp_restore_checkpoint c cfg addr u)" if "d_pmp d = Some (cfg, addr)" for cfg addr
    using that u assms(2) pmp_restore_ok [of c u cfg addr] by (simp add: hart_ok_def dut_ok_def)
  ultimately show ?thesis
    by (simp add: difftest_checkpoint_sync_def Let_def u_def [symmetric] split: option.split)
qed

lemma hart_ok_side:
  assumes "hart_ok c s" and "call_ok c call" and "ref_side c call s = Some t"
  shows "hart_ok c t"
proof (cases call)
  case Clear_reservation
  with assms show ?thesis
    using hart_base_reservation [of c s 0 0]
    by (auto simp: hart_ok_def difftest_clear_reservation_def) (simp add: gpr_def set_reservation_def)
next
  case (Raise_intr NO)
  with assms show ?thesis
    using hart_ok_raise [OF assms(1)] by (auto simp: difftest_raise_intr_def split: prod.splits) (metis snd_conv)
next
  case (Regcpy d)
  with assms show ?thesis by (auto simp: dut_ok_def intro: hart_ok_regcpy)
next
  case (Checkpoint d)
  with assms show ?thesis by (auto intro: hart_ok_checkpoint)
qed (use assms in \<open>auto simp: hart_ok_set_sr pmp_regs_def difftest_set_meip_def difftest_set_msip_def
      difftest_set_mtip_def difftest_set_stip_def set_mip_bit_def difftest_plic_raise_def
      difftest_memcpy_to_ref_def difftest_reset_pmem_def difftest_regcpy_to_dut_def
      difftest_restore_sstc_def difftest_store_error_def difftest_restore_store_error_def Let_def
      split: if_splits\<close>)

section \<open>Power-on\<close>

text \<open>A process start: the PMP side and registers as the static initialisers leave them.\<close>

definition process_start :: "nemu \<Rightarrow> bool" where
  "process_start s \<longleftrightarrow> pmp_boot s \<and> mpp_ok (sr s CSR_MSTATUS)"

lemma hart_ok_restart:
  assumes "process_start s"
  shows "hart_ok c (restart c b h s)"
proof -
  have "pmp_agree s (restart c b h s)"
    by (auto simp: pmp_agree_def restart_def riscv_vector_reset_def reset_scalars_def Let_def pmp_regs_def
        set_pc_def sr_def set_sr_def set_gpr_def)
  moreover have "pmp_ok c s" using assms pmp_boot_inv by (simp add: process_start_def pmp_ok_def)
  ultimately have p: "pmp_ok c (restart c b h s)" by (simp add: pmp_agree_ok)
  have f: "priv (restart c b h s) = PRV_M" "\<not> virt (restart c b h s)" "gpr (restart c b h s) 0 = 0"
    "cpu_reservation_bytes (cpu (restart c b h s)) = 0"
    by (simp_all add: restart_def riscv_vector_reset_def reset_scalars_def Let_def gpr_def set_gpr_def set_pc_def)
  have "sr (restart c b h s) CSR_MSTATUS = set_field 34 2 2 (set_field 32 2 2 (sr s CSR_MSTATUS))"
    by (simp add: restart_def riscv_vector_reset_def reset_scalars_def Let_def sr_def set_sr_def set_gpr_def set_pc_def)
  with assms have "mpp_ok (sr (restart c b h s) CSR_MSTATUS)"
    by (simp add: process_start_def mpp_ok_bits bit_set_field)
  with p f show ?thesis by (simp add: hart_ok_def hart_base_def mode_ok_def)
qed

lemma hart_ok_init:
  assumes "process_start s0" and "difftest_init c b (g, s0) = Some (g', s)"
  shows "hart_ok c s"
proof -
  from assms(1) have "process_start (init_mem s0\<lparr>phys := m\<rparr>)" for m
    using pmp_regs_cong(1) [of "init_mem s0\<lparr>phys := m\<rparr>" s0]
    by (simp add: process_start_def pmp_boot_def init_mem_def Let_def sr_def fun_eq_iff soft_tlb_flush_def)
  then show ?thesis
    using assms(2) hart_ok_restart by (auto simp: difftest_init_def init_isa_def Let_def split: if_splits)
qed

end
