(* ===== verification/Vec_Mem_Safe.thy ===== *)
theory Vec_Mem_Safe
  imports Fp_Exec Vec_Effect Exec_Safe Hart_Run
begin

text \<open>
  Vector loads and stores keep inside the vector register file and do not panic, and they keep the
  hart well formed.
\<close>

unbundle bit_operations_syntax

section \<open>What the decoding guarantees\<close>

definition plan_ok :: "uint32_t \<Rightarrow> vmem_plan \<Rightarrow> bool" where
  "plan_ok i p \<longleftrightarrow> host_len (vm_data_bytes p) \<and> vm_limit p \<le> 128 \<and>
     (\<forall>k<vm_limit p. Suc k * vm_data_bytes p \<le> 16 * vm_group p \<and>
       (\<forall>f<vm_fields p. vspan_ok (v_dest i + f * vm_group p) k (vm_data_bytes p)) \<and>
       (v_unmasked i \<or> vmask_ok 0 k) \<and> (odd (vm_mop i) \<longrightarrow> vspan_ok (v_src2 i) k (vm_bytes i)))"

lemma host_len_set: "host_len b \<longleftrightarrow> b \<in> {1, 2, 4, 8}"
  by (auto simp: host_len_def)

lemma vm_bytes_set:
  assumes "\<not> (v_form i \<noteq> 0 \<and> v_form i < 5)"
  shows "vm_bytes i \<in> {1, 2, 4, 8}"
proof -
  have "v_form i \<le> 7" using unat_and_le [of "drop_bit 12 i" 7] by (simp add: v_form_def)
  with assms have "v_form i \<in> {0, 5, 6, 7}" by auto
  then show ?thesis by (auto simp: vm_bytes_def Let_def)
qed

lemma whole_plan_ok:
  assumes "vm_whole_plan i store s = Some p" and "vm_whole i" and b: "vm_bytes i \<in> {1, 2, 4, 8}"
    and "vector_group_valid (v_dest i) (vm_group p)"
  shows "plan_ok i p"
proof -
  have p: "vm_fields p = 1" "vm_data_bytes p = vm_bytes i" "vm_limit p = vm_group p * 16 div vm_bytes i" "v_unmasked i"
    using assms(1) by (auto simp: vm_whole_plan_def Let_def split: if_splits)
  have room: "Suc k * vm_bytes i \<le> 16 * vm_group p" if "k < vm_limit p" for k
  proof -
    from that have "Suc k * vm_bytes i \<le> (vm_group p * 16 div vm_bytes i) * vm_bytes i"
      unfolding p by (intro mult_right_mono) auto
    also have "\<dots> \<le> 16 * vm_group p" using div_times_less_eq_dividend by (metis mult.commute)
    finally show ?thesis .
  qed
  have "even (vm_mop i)" using assms(2) by (simp add: vm_whole_def)
  moreover have "vm_limit p \<le> 128"
    using assms(1) b unfolding p
    by (auto simp: vm_whole_plan_def Let_def split: if_splits)
  ultimately show ?thesis
    using assms(3,4) vspan_okI [OF b room] room p by (auto simp: plan_ok_def host_len_set vector_group_valid_def)
qed

lemma lmul_eighths_vlmax:
  assumes "vlen_ok s"
  shows "vector_vlmax (sr s CSR_VTYPE) * v_bytes s * 8 = 16 * lmul_eighths s"
    and "lmul_eighths s \<in> {1, 2, 4, 8, 16, 32, 64}"
proof -
  define e where "e = unat (sr s CSR_VTYPE AND 7)"
  have "e \<le> 7" using unat_and_le [of "sr s CSR_VTYPE" 7] by (simp add: e_def)
  moreover have "- 3 \<le> vlmul_exp (sr s CSR_VTYPE)" using assms vlmax_product(3) by (simp add: vlen_ok_def)
  ultimately have e: "e \<in> {0, 1, 2, 3, 5, 6, 7}"
    unfolding vlmul_exp_def e_def [symmetric] Let_def by (auto split: if_splits)
  then have "lmul_eighths s = 2 ^ nat (vlmul_exp (sr s CSR_VTYPE) + 3)" and "lmul_eighths s \<in> {1, 2, 4, 8, 16, 32, 64}"
    unfolding lmul_eighths_def vlmul_exp_def e_def [symmetric] by (auto simp: Let_def)
  then show "vector_vlmax (sr s CSR_VTYPE) * v_bytes s * 8 = 16 * lmul_eighths s"
    and "lmul_eighths s \<in> {1, 2, 4, 8, 16, 32, 64}"
    using assms vlmax_product(1) [of "sr s CSR_VTYPE"] by (simp_all add: vlen_ok_def v_bytes_def)
qed

text \<open>Elements of \<open>b\<close> bytes in a group whose length has the ratio of the current type.\<close>

lemma emul_room:
  assumes len: "vlen_ok s" and b: "b \<in> {1, 2, 4, 8}" and k: "k < vector_vlmax (sr s CSR_VTYPE)"
    and "lmul_eighths s * b div v_bytes s \<noteq> 0"
  shows "Suc k * b \<le> 16 * (if lmul_eighths s * b div v_bytes s < 8 then 1 else lmul_eighths s * b div v_bytes s div 8)"
proof -
  note L = lmul_eighths_vlmax [OF len]
  have "v_bytes s \<in> {1, 2, 4, 8}" by (rule v_bytes_cases [OF len])
  with b L assms(4) k show ?thesis
    by (elim insertE emptyE; simp)
qed

lemma typed_plan_ok:
  assumes "vm_typed_plan i store s = Some p" and b: "vm_bytes i \<in> {1, 2, 4, 8}"
    and "vector_group_valid (v_dest i) (vm_group p)"
  shows "plan_ok i p"
proof -
  have len: "vlen_ok s" using assms(1) by (auto simp: vm_typed_plan_def vlen_ok_def Let_def split: if_splits)
  note sew = v_bytes_cases [OF len]
  note vl = vlmax_le [OF len]
  have lim: "vl_of s \<le> vector_vlmax (sr s CSR_VTYPE)" using len by (simp add: vlen_ok_def)
  show ?thesis
  proof (cases "vm_mask_transfer i")
    case True
    then have p: "vm_fields p = 1" "vm_data_bytes p = 1" "vm_group p = 1" "vm_limit p = (vl_of s + 7) div 8" "v_unmasked i"
      using assms(1) by (auto simp: vm_typed_plan_def vm_bytes_def Let_def split: if_splits)
    have l16: "vm_limit p \<le> 16" unfolding p using vl lim by simp
    have "v_dest i + 1 \<le> 32" using vreg_field_less [of 7 i] by linarith
    then have "vspan_ok (v_dest i) k 1" if "k < vm_limit p" for k
      using that l16 by (intro vspan_okI [where regs = 1]) auto
    with True p l16 show ?thesis by (auto simp: plan_ok_def host_len_set vm_mask_transfer_def)
  next
    case False
    let ?data = "if odd (vm_mop i) then v_bytes s else vm_bytes i"
    have d: "?data \<in> {1, 2, 4, 8}" using b sew by simp
    have s0: "v_bytes s \<noteq> 0" using sew by auto
    have p: "vm_data_bytes p = ?data" "vm_limit p = vl_of s" "lmul_eighths s * ?data div v_bytes s \<noteq> 0"
      "vm_group p = (if lmul_eighths s * ?data div v_bytes s < 8 then 1 else lmul_eighths s * ?data div v_bytes s div 8)"
      "v_dest i + vm_group p * vm_fields p \<le> 32"
      "odd (vm_mop i) \<Longrightarrow> \<not> vm_index_rejected i store s (vm_group p) (vm_fields p) ?data"
      using assms(1) False s0 by (auto simp: vm_typed_plan_def Let_def split: if_splits)
    have room: "Suc k * ?data \<le> 16 * vm_group p" if "k < vl_of s" for k
      unfolding p(4) using that lim by (intro emul_room [OF len d _ p(3)]) simp
    have data: "vspan_ok (v_dest i + f * vm_group p) k ?data" if "k < vl_of s" "f < vm_fields p" for k f
    proof (rule vspan_okI [OF d room [OF that(1)]])
      have "Suc f * vm_group p \<le> vm_fields p * vm_group p" using that(2) by (intro mult_right_mono) auto
      with p(5) show "v_dest i + f * vm_group p + vm_group p \<le> 32" by (simp add: mult.commute)
    qed
    have idx: "vspan_ok (v_src2 i) k (vm_bytes i)" if "k < vl_of s" "odd (vm_mop i)" for k
    proof -
      let ?e = "lmul_eighths s * vm_bytes i div v_bytes s"
      have e: "?e \<noteq> 0" "vector_group_valid (v_src2 i) (if ?e < 8 then 1 else ?e div 8)"
        using p(6) [OF that(2)] by (auto simp: vm_index_rejected_def Let_def)
      show ?thesis
        using emul_room [OF len b _ e(1), of k] e(2) that(1) lim
        by (intro vspan_okI [OF b]) (auto simp: vector_group_valid_def)
    qed
    have "vmask_ok 0 k" if "k < vl_of s" for k
      using that lim by (intro vmask_index [OF len]) auto
    then show ?thesis
      using data idx d room vl lim unfolding plan_ok_def host_len_set p(1,2) by auto
  qed
qed

lemma vmem_decode_ok:
  assumes "vmem_decode c i store s = Some p"
  shows "plan_ok i p"
proof -
  have w: "\<not> (v_form i \<noteq> 0 \<and> v_form i < 5)" and g: "vector_group_valid (v_dest i) (vm_group p)"
    and p: "(if vm_whole i then vm_whole_plan i store s else vm_typed_plan i store s) = Some p"
    using assms by (auto simp: vmem_decode_def Let_def split: if_splits option.splits)
  note b = vm_bytes_set [OF w]
  show ?thesis
    using p whole_plan_ok [OF _ _ b g] typed_plan_ok [OF _ b g] by (auto split: if_splits)
qed

section \<open>No panic\<close>

lemma no_panic_returns: "returns m \<Longrightarrow> no_panic m"
  unfolding returns_def no_panic_def by (metis fst_conv sum.distinct(1))

lemma no_panic_mfold [no_panics]:
  "(\<And>k a. k \<in> set ks \<Longrightarrow> no_panic (f k a)) \<Longrightarrow> no_panic (mfold ks f a)"
  by (induction ks arbitrary: a) (auto intro!: no_panics)

lemma no_panic_element [no_panics]:
  "vspan_ok reg k b \<Longrightarrow> no_panic (vector_element_read reg k b)"
  "vspan_ok reg k b \<Longrightarrow> no_panic (vector_element_write reg k b v)"
  "b' \<or> vmask_ok 0 k \<Longrightarrow> no_panic m \<Longrightarrow> no_panic (vactive_acc b' k a m)"
  by (intro no_panic_returns mreturns, assumption)+ (auto simp: vactive_acc_def no_panic_returns mreturns intro!: no_panics)

lemma no_panic_probe [no_panics]:
  assumes "rv_svade c" and "memory_map_gap c" and "n \<le> 8"
  shows "no_panic (vaddr_probe_vector c a n store)"
proof -
  have "no_panic (probe_piece c b n store o' k)" if "k \<le> 2 ^ 63" for b o' k
    unfolding probe_piece_def by (intro no_panics assms memory_map_gapD(1) [OF assms(2)] that)
  moreover have "page_rest x \<le> 2 ^ 63" for x using page_rest_bounds(2) [of x] by simp
  ultimately show ?thesis
    unfolding vaddr_probe_vector_def Let_def using assms(3) by (intro no_panics) auto
qed

lemma no_panic_vm_loop:
  assumes "rv_svade c" and "memory_map_gap c" and p: "plan_ok i p"
  shows "no_panic (vm_loop c i store s p)"
proof -
  have h: "host_len (vm_data_bytes p)" "vm_data_bytes p \<le> 8"
    using p by (auto simp: plan_ok_def host_len_def)
  have span: "vspan_ok (v_dest i + f * vm_group p) k (vm_data_bytes p)" if "f < vm_fields p" "k < vm_limit p" for f k
    using p that by (auto simp: plan_ok_def)
  have acc: "no_panic (vm_access c i store p pr k a f)" if "f < vm_fields p" "k < vm_limit p" for pr k a f
    unfolding vm_access_def Let_def
    by (intro no_panics assms h span [OF that])
  have seg: "no_panic (vm_segment c i store p k a)" if "k < vm_limit p" for k a
    unfolding vm_segment_def vm_fields_loop_def by (intro no_panics acc that) simp_all
  have el: "no_panic (vm_element c i store s p k r)" if "k < vm_limit p" for k r
    unfolding vm_element_def Let_def using p that
    by (intro no_panics seg) (auto simp: plan_ok_def)
  show ?thesis unfolding vm_loop_def by (intro no_panics el) simp
qed

lemma no_panic_fof [no_panics]: "no_panic m \<Longrightarrow> no_panic (fof_catch m)"
  unfolding no_panic_def fof_catch_def
  by (auto split: prod.split sum.split mem_exit.split) (metis fst_conv)+

lemma no_panic_vector_memory [no_panics]:
  assumes "rv_svade c" and "memory_map_gap c"
  shows "no_panic (riscv_vector_memory c i store)"
proof (unfold riscv_vector_memory_def, rule no_panic_bind_post [OF no_panic_mgets])
  fix s :: nemu and a t
  show "no_panic (case vmem_decode c i store a of None \<Rightarrow> mret MCA_ILLEGAL_INS
    | Some p \<Rightarrow> mseq (mmodify (\<lambda>s. set_csr_dirty True (vector_mark_dirty False s)))
        (if vm_fof i store then fof_catch (vm_loop c i store a p) else vm_loop c i store a p))"
    by (intro no_panics no_panic_vm_loop assms vmem_decode_ok) assumption
qed

lemma no_panic_vector_execute [no_panics]: "no_panic (riscv_vector_execute c sf i)"
  by (rule no_panic_returns) (rule returns_vector_execute)

section \<open>The hart stays well formed\<close>

text \<open>States that differ in what neither \<open>hart_ok\<close> nor \<open>hart_mid\<close> reads.\<close>

definition mid_agree :: "nemu \<Rightarrow> nemu \<Rightarrow> bool" where
  "mid_agree s t \<longleftrightarrow> base_agree s t \<and> cpu_last_csr_wr (cpu t) = cpu_last_csr_wr (cpu s) \<and>
     bit (sr t CSR_MSTATUS) 11 = bit (sr s CSR_MSTATUS) 11 \<and> bit (sr t CSR_MSTATUS) 12 = bit (sr s CSR_MSTATUS) 12"

lemma mid_agree_mid:
  assumes "mid_agree s t"
  shows "hart_mid c t = hart_mid c s"
proof -
  have "base_agree s t" using assms by (simp add: mid_agree_def)
  then show ?thesis using assms by (simp add: mid_agree_def hart_mid_def mpp_ok_bits base_agree_base [of s t])
qed

lemma mid_agree_ok:
  assumes "mid_agree s t" and "gpr t 0 = gpr s 0"
  shows "hart_ok c t = hart_ok c s"
proof -
  have "base_agree s t" using assms by (simp add: mid_agree_def)
  then show ?thesis using assms by (simp add: mid_agree_def hart_ok_def mpp_ok_bits base_agree_base [of s t])
qed

lemma mid_agree_trans: "mid_agree s t \<Longrightarrow> mid_agree t u \<Longrightarrow> mid_agree s u"
  using base_agree_trans by (auto simp: mid_agree_def)

named_theorems mid_agrees \<open>updates that neither invariant sees\<close>

lemma mid_agree_sr [mid_agrees]: "k \<notin> insert CSR_MSTATUS pmp_regs \<Longrightarrow> mid_agree s (set_sr k v s)"
  by (auto simp: mid_agree_def agree_defs set_sr_def sr_def)

lemma mid_agree_mstatus [mid_agrees]:
  "bit v 11 = bit (sr s CSR_MSTATUS) 11 \<Longrightarrow> bit v 12 = bit (sr s CSR_MSTATUS) 12 \<Longrightarrow>
    mid_agree s (set_sr CSR_MSTATUS v s)"
  by (auto simp: mid_agree_def agree_defs pmp_regs_def set_sr_def sr_def)

lemma mid_agree_misc [mid_agrees]:
  "mid_agree s (set_vregs r s)" "mid_agree s (set_csr_dirty b s)" "mid_agree s (set_gpr d v s)"
  "mid_agree s (s\<lparr>cpu := (cpu s)\<lparr>cpu_fpr := f\<rparr>\<rparr>)" "mid_agree s (set_g_vaddr a s)" "mid_agree s s"
  by (simp_all add: mid_agree_def agree_defs set_vregs_def set_csr_dirty_def set_gpr_def set_g_vaddr_def sr_def)

lemma vec_csr_out: "k \<in> {CSR_VSTART, CSR_VXSAT, CSR_VCSR, CSR_FCSR, CSR_VL, CSR_VTYPE, CSR_VSSTATUS} \<Longrightarrow>
    k \<notin> insert CSR_MSTATUS pmp_regs"
  by (auto simp: pmp_regs_def)

lemma mid_agree_vsstatus: "mid_agree s t \<Longrightarrow> mid_agree s (set_sr CSR_VSSTATUS v t)"
  by (erule mid_agree_trans, rule mid_agree_sr, rule vec_csr_out, simp)

lemma mid_agree_vector_dirty [mid_agrees]: "mid_agree s (vector_mark_dirty f s)"
proof -
  have m: "mid_agree s (set_sr CSR_MSTATUS (sr s CSR_MSTATUS OR (0x600 OR (if f then 0x6000 else 0))) s)"
    by (rule mid_agree_mstatus) (simp_all add: bit_simps)
  then show ?thesis
    unfolding vector_mark_dirty_def Let_def
    by (split if_split) (intro conjI impI mid_agree_vsstatus)
qed

lemma mid_agree_fp_dirty [mid_agrees]: "mid_agree s (fp_mark_dirty s)"
proof -
  have m: "mid_agree s (set_sr CSR_MSTATUS ((sr s CSR_MSTATUS AND NOT 0x6000) OR push_bit 13 3) s)"
    by (rule mid_agree_mstatus) (simp_all add: bit_simps)
  then show ?thesis
    unfolding fp_mark_dirty_def Let_def
    by (intro mid_agree_trans [OF _ mid_agree_misc(2)], split if_split) (intro conjI impI mid_agree_vsstatus)
qed

lemma mid_agree_fp_flags [mid_agrees]: "mid_agree s (fp_merge_flags fl s)"
  unfolding fp_merge_flags_def
  by (rule mid_agree_trans [OF mid_agree_sr mid_agree_fp_dirty]) (rule vec_csr_out, simp)

subsection \<open>Vector instructions\<close>

lemma gpr_vector [simp]:
  "gpr (set_vregs r s) = gpr s" "gpr (set_csr_dirty b s) = gpr s" "gpr (set_sr k v s) = gpr s"
  "gpr (vector_mark_dirty f s) = gpr s" "gpr (fp_mark_dirty s) = gpr s" "gpr (fp_merge_flags fl s) = gpr s"
  "gpr (s\<lparr>cpu := (cpu s)\<lparr>cpu_fpr := g\<rparr>\<rparr>) = gpr s" "gpr (set_g_vaddr a s) = gpr s"
  by (simp_all add: fun_eq_iff gpr_def set_vregs_def set_csr_dirty_def set_sr_def vector_mark_dirty_def
      fp_mark_dirty_def fp_merge_flags_def set_g_vaddr_def Let_def)

lemma minv_mid_agree: "(\<And>s. mid_agree s (f s)) \<Longrightarrow> (\<And>s. gpr (f s) 0 = gpr s 0) \<Longrightarrow> minv (hart_ok c) (mmodify f)"
  using mid_agree_ok by (intro minv_mmodify) blast

lemma minv_vec_ends [hart_inv]:
  "minv (hart_ok c) (vector_finish f)" "minv (hart_ok c) (vector_set_vxsat b)" "minv (hart_ok c) (vector_accrue fl)"
  unfolding vector_finish_def vector_set_vxsat_def vector_accrue_def
  by (intro hart_inv minv_mid_agree mid_agree_trans [OF _ mid_agree_misc(2)]
      mid_agree_trans [OF _ mid_agree_vector_dirty] mid_agree_trans [OF mid_agree_sr mid_agree_sr] mid_agree_sr
      vec_csr_out; simp)+

lemma minv_vec_write [hart_inv]:
  "minv (hart_ok c) (vector_element_write reg k b v)" "minv (hart_ok c) (vector_mask_write reg k x)"
  by (intro minv_vwrite minv_vmask_write; simp add: mid_agree_ok [OF mid_agree_misc(1)])+

lemma minv_vec_gpr: "d \<noteq> 0 \<Longrightarrow> minv (hart_ok c) (mmodify (set_gpr d v))"
  by (intro minv_mid_agree mid_agrees) (simp add: gpr_def set_gpr_def)

lemma minv_vec_fpr: "minv (hart_ok c) (mmodify (\<lambda>t. t\<lparr>cpu := (cpu t)\<lparr>cpu_fpr := (cpu_fpr (cpu t))(d := v)\<rparr>\<rparr>))"
  by (intro minv_mid_agree mid_agrees) simp

lemma minv_hart_class:
  "minv (hart_ok c) (vx_whole_move i s)" "minv (hart_ok c) (vx_scalar_insert i s)"
  "minv (hart_ok c) (vx_zvbb c' i s)" "minv (hart_ok c) (vx_mask_scan i s)"
  "minv (hart_ok c) (vx_slide i s)" "minv (hart_ok c) (vx_gather i s)"
  "minv (hart_ok c) (vx_mask_prefix i s)" "minv (hart_ok c) (vx_compress i s)"
  "minv (hart_ok c) (vx_reduction i s)" "minv (hart_ok c) (vx_extend i s)"
  "minv (hart_ok c) (vx_narrow i s)" "minv (hart_ok c) (vx_widen i s)"
  "minv (hart_ok c) (vx_macc i s)" "minv (hart_ok c) (vx_elementwise i s)"
  unfolding vx_whole_move_def vx_scalar_insert_def vx_zvbb_def vx_mask_scan_def vx_slide_def
    vx_gather_def vx_mask_prefix_def vx_compress_def vx_reduction_def vx_extend_def vx_narrow_def
    vx_widen_def vx_macc_def vx_elementwise_def vx_scalar_extract_def vc_body_def Let_def
  by (intro mwp vinvs minv_vec_ends minv_vec_write minv_vec_gpr; assumption)+

lemma minv_hart_float:
  "minv (hart_ok c) (vx_float sf i s)" "minv (hart_ok c) (vx_float_resize c' sf i s)"
  "minv (hart_ok c) (vx_float_integer sf i s)" "minv (hart_ok c) (vx_float_widen sf i s)"
  "minv (hart_ok c) (vx_float_reduction sf i s)"
  unfolding vx_float_def vf_body_def vx_float_resize_def vx_float_integer_def vx_float_widen_def
    vx_float_reduction_def Let_def
  by (intro mwp vinvs minv_vec_ends minv_vec_write minv_vec_fpr)+

lemma minv_vector_execute [hart_inv]: "minv (hart_ok c) (riscv_vector_execute c sf i)"
  unfolding riscv_vector_execute_def vector_class_def Let_def
  by (intro mwp minv_hart_class minv_hart_float)

lemma minv_probe [hart_inv]: "minv (hart_ok c) (vaddr_probe_vector c a n store)"
  unfolding vaddr_probe_vector_def probe_piece_def Let_def by (intro hart_inv mwp)

lemma minv_g_vaddr: "minv (hart_ok c) (mmodify (set_g_vaddr a))"
  by (intro minv_mid_agree mid_agrees) simp

lemma minv_set_vstart: "minv (hart_ok c) (mmodify (set_sr CSR_VSTART v))"
  by (intro minv_mid_agree mid_agrees vec_csr_out) simp_all

lemma minv_vm_loop: "minv (hart_ok c) (vm_loop c i store s p)"
  unfolding vm_loop_def vm_element_def vm_segment_def vm_fields_loop_def vm_access_def Let_def
  by (intro mwp vinvs minv_vec_write minv_g_vaddr minv_set_vstart minv_probe minv_vaddr)

lemma hart_ok_fof: "hart_ok c (set_sr CSR_VSTART a (set_sr CSR_VL b t)) = hart_ok c t"
  by (intro mid_agree_ok mid_agree_trans [OF mid_agree_sr mid_agree_sr] vec_csr_out) simp_all

lemma minv_fof:
  assumes "minv (hart_ok c) m"
  shows "minv (hart_ok c) (fof_catch m)"
proof -
  have "hart_ok c (snd (fof_catch m s))" if s: "hart_ok c s" for s
  proof -
    obtain r t where m: "m s = (r, t)" by (rule prod.exhaust)
    from minvD [OF assms s m] show ?thesis
      unfolding fof_catch_def m by (simp add: hart_ok_fof split: sum.split mem_exit.split)
  qed
  then show ?thesis by (simp add: minv_def)
qed

lemma minv_vector_memory [hart_inv]: "minv (hart_ok c) (riscv_vector_memory c i store)"
  unfolding riscv_vector_memory_def
  by (intro mwp minv_fof minv_vm_loop minv_mid_agree mid_agree_trans [OF _ mid_agree_misc(2)] mid_agree_vector_dirty) simp

end
