(* ===== verification/Machine.thy ===== *)
theory Machine
  imports Vec_Mem_Safe
begin

text \<open>
  The whole instruction set: the floating-point and vector groups keep a hart well formed and do not
  panic, so the results on the interpreter hold for the emulator with its own groups in place of the
  parameter \<open>ext\<close>.
\<close>

unbundle bit_operations_syntax

section \<open>Bodies of floating-point instructions\<close>

text \<open>A body that computes: it returns and keeps the invariant between body and commit tail.\<close>

definition fp_body :: "config \<Rightarrow> 'a mem \<Rightarrow> bool" where
  "fp_body c m \<longleftrightarrow> returns m \<and> minv (hart_mid c) m"

named_theorems fp_bodies \<open>rules for computing bodies\<close>

lemma fp_body_basic [fp_bodies]: "fp_body c (mret a)" "fp_body c (mgets f)"
  by (simp_all add: fp_body_def mreturns mwp)

lemma fp_body_mbind [fp_bodies]: "fp_body c m \<Longrightarrow> (\<And>a. fp_body c (f a)) \<Longrightarrow> fp_body c (mbind m f)"
  by (simp add: fp_body_def mreturns mwp)

lemma fp_body_mseq [fp_bodies]: "fp_body c m \<Longrightarrow> fp_body c n \<Longrightarrow> fp_body c (mseq m n)"
  by (simp add: fp_body_def mreturns mwp)

lemma fp_body_mwhen [fp_bodies]: "fp_body c m \<Longrightarrow> fp_body c (mwhen b m)"
  by (simp add: fp_body_def mreturns mwp)

lemma fp_body_if [fp_bodies]: "fp_body c m \<Longrightarrow> fp_body c n \<Longrightarrow> fp_body c (if b then m else n)"
  by simp

lemma fp_body_prod [fp_bodies]: "(\<And>a b. fp_body c (f a b)) \<Longrightarrow> fp_body c (case x of (a, b) \<Rightarrow> f a b)"
  by (cases x) simp

lemma fp_body_agree: "(\<And>s. mid_agree s (f s)) \<Longrightarrow> fp_body c (mmodify f)"
  using mid_agree_mid by (auto simp: fp_body_def intro!: mreturns minv_mmodify)

lemma fp_body_put [fp_bodies]:
  "fp_body c (fp_put rd r)" "fp_body c (fp_put_s rd r')" "fp_body c (fp_move rd v)" "fp_body c (wr_reg rd v)"
  unfolding fp_put_s_def fp_put_def fp_move_def wr_fpr_def wr_reg_def
  by (intro fp_body_agree mid_agree_trans [OF mid_agree_misc(4) mid_agree_fp_flags]
      mid_agree_trans [OF mid_agree_misc(4) mid_agree_fp_dirty] mid_agree_misc)+

lemma fp_body_put_int [fp_bodies]: "fp_body c (fp_put_int rd r)"
  unfolding fp_put_int_def by (intro fp_bodies fp_body_agree mid_agree_fp_flags)

lemma fp_body_inst:
  assumes "fp_body c m"
  shows "inst_ok c m"
proof -
  have "\<exists>a t. m s = (Inr a, t) \<and> hart_mid c t" if "hart_ok c s" for s
  proof -
    obtain a t where m: "m s = (Inr a, t)" using assms unfolding fp_body_def returns_def by meson
    moreover have "minv (hart_mid c) m" using assms by (simp add: fp_body_def)
    from minvD [OF this hart_ok_mid [OF that] m] have "hart_mid c t" .
    ultimately show ?thesis by blast
  qed
  then show ?thesis unfolding inst_ok_def by (intro mhoareI) (metis Pair_inject sum.inject(2) sum.distinct(1))+
qed

lemma fp_body_no_panic: "fp_body c m \<Longrightarrow> no_panic m"
  by (simp add: fp_body_def no_panic_returns)

section \<open>Instructions\<close>

text \<open>Both properties of an instruction body.\<close>

definition body_safe :: "config \<Rightarrow> 'a mem \<Rightarrow> bool" where
  "body_safe c m \<longleftrightarrow> inst_ok c m \<and> (rv_svade c \<and> memory_map_gap c \<longrightarrow> no_panic m)"

named_theorems body_safes \<open>rules for instruction bodies\<close>

lemma body_safe_fp: "fp_body c m \<Longrightarrow> body_safe c m"
  by (simp add: body_safe_def fp_body_inst fp_body_no_panic)

lemma body_safe_raise [body_safes]: "body_safe c (raise_at c NO pc)"
  by (simp add: body_safe_def inst_oks no_panics)

lemma body_safe_if [body_safes]: "body_safe c m \<Longrightarrow> body_safe c n \<Longrightarrow> body_safe c (if b then m else n)"
  by simp

lemma body_safe_mgets [body_safes]: "(\<And>a. body_safe c (f a)) \<Longrightarrow> body_safe c (mbind (mgets g) f)"
  by (auto simp: body_safe_def intro!: inst_oks no_panics hart_inv)

lemma body_safe_prod [body_safes]: "(\<And>a b. body_safe c (f a b)) \<Longrightarrow> body_safe c (case x of (a, b) \<Rightarrow> f a b)"
  by (cases x) simp

text \<open>A memory access before a computing body.\<close>

lemma body_safe_read [body_safes]:
  "host_len n \<Longrightarrow> (\<And>v. body_safe c (f v)) \<Longrightarrow> body_safe c (mbind (vaddr_read c a n) f)"
  by (auto simp: body_safe_def intro!: inst_oks no_panics hart_inv)

lemma body_safe_write [body_safes]:
  "host_len n \<Longrightarrow> body_safe c m \<Longrightarrow> body_safe c (mseq (vaddr_write c a n v) m)"
  by (auto simp: body_safe_def intro!: inst_oks no_panics hart_inv)

lemma mseq_assoc: "mseq (mbind m f) n = mbind m (\<lambda>a. mseq (f a) n)"
  by (simp add: mseq_def mbind_assoc)

lemma fp_under_safe: "body_safe c (mseq m (mret snpc)) \<Longrightarrow> body_safe c (fp_under c pc snpc d m)"
  unfolding fp_under_def by (intro body_safes)

lemma body_safe_under [body_safes]: "fp_body c m \<Longrightarrow> body_safe c (fp_under c pc snpc d m)"
  by (intro fp_under_safe body_safe_fp fp_bodies)

lemma body_safe_prepare [body_safes]: "(\<And>rm. fp_body c (m rm)) \<Longrightarrow> body_safe c (fp_prepare c i pc snpc d m)"
  unfolding fp_prepare_def by (intro body_safes fp_bodies)

lemma under_read: "host_len n \<Longrightarrow> (\<And>v. fp_body c (f v)) \<Longrightarrow>
    body_safe c (fp_under c pc snpc d (mbind (vaddr_read c a n) f))"
  by (rule fp_under_safe, unfold mseq_assoc, intro body_safes body_safe_fp fp_bodies)

lemma under_write: "host_len n \<Longrightarrow>
    body_safe c (fp_under c pc snpc d (mbind (mgets g) (\<lambda>v. vaddr_write c a n (h v))))"
  by (rule fp_under_safe, unfold mseq_assoc, intro body_safes body_safe_fp fp_bodies)

lemma body_safe_memory [body_safes]:
  "body_safe c (fp_load_s c pc snpc rd a)" "body_safe c (fp_load_d c pc snpc rd a)"
  "body_safe c (fp_load_h c pc snpc rd a)" "body_safe c (fp_store_s c pc snpc a rs2)"
  "body_safe c (fp_store_d c pc snpc a rs2)" "body_safe c (fp_store_h c pc snpc a rs2)"
  unfolding fp_load_s_def fp_load_d_def fp_load_h_def fp_store_s_def fp_store_d_def fp_store_h_def
  by (intro under_read under_write fp_bodies; simp add: host_len_def)+

lemma mid_agree_vset:
  "mid_agree s (set_csr_dirty True (vector_mark_dirty False (set_sr CSR_VSTART 0 (set_sr CSR_VL x (set_sr CSR_VTYPE y s)))))"
  by (intro mid_agree_trans [OF _ mid_agree_misc(2)] mid_agree_trans [OF _ mid_agree_vector_dirty]
      mid_agree_trans [OF _ mid_agree_sr] mid_agree_sr vec_csr_out; simp)

lemma mid_agree_configure: "mid_agree s (snd (riscv_vector_configure c i s))"
  using mid_agree_trans [OF mid_agree_vset mid_agree_misc(3)]
  by (simp add: riscv_vector_configure_def Let_def mid_agree_vset mid_agree_misc(6) split: option.split)

lemma gpr_configure: "gpr (snd (riscv_vector_configure c i s)) 0 = gpr s 0"
  by (simp add: riscv_vector_configure_def Let_def set_gpr_def gpr_def split: option.split)
    (simp add: gpr_def [symmetric] Let_def)

lemma minv_configure [hart_inv]: "minv (hart_ok c) (mlift (riscv_vector_configure c' i))"
  using mid_agree_ok [OF mid_agree_configure gpr_configure] by (intro minv_mlift) blast

lemma body_safe_vector [body_safes]:
  "body_safe c (vector_memory_execute c i pc snpc store)"
  "body_safe c (vector_body c pc snpc (riscv_vector_execute c sf i))"
  "body_safe c (vector_body c pc snpc (mlift (riscv_vector_configure c i)))"
  unfolding body_safe_def vector_memory_execute_def vector_body_def
  by (auto intro!: inst_oks hart_inv no_panics)

lemma body_safe_exec [body_safes]:
  "body_safe c (fp_move_to_s c pc snpc rd v)" "body_safe c (fp_move_from_s c pc snpc rd rs1)"
  "body_safe c (fp_move_to_d c pc snpc rd v)" "body_safe c (fp_move_from_d c pc snpc rd rs1)"
  "body_safe c (fp_move_to_h c pc snpc rd v)" "body_safe c (fp_move_from_h c pc snpc rd rs1)"
  "body_safe c (fp_sign_inject_s c pc snpc rd rs1 rs2 mode)" "body_safe c (fp_sign_inject_d c pc snpc rd rs1 rs2 mode)"
  "body_safe c (fp_exec_binary_s c i pc snpc rd rs1 rs2 op2)" "body_safe c (fp_exec_unary_s c i pc snpc rd rs1 op1)"
  "body_safe c (fp_exec_fma_s sf c i pc snpc rd rs1 rs2 rs3 np na)" "body_safe c (fp_exec_minmax_s c pc snpc rd rs1 rs2 op3)"
  "body_safe c (fp_exec_compare_s c pc snpc rd rs1 rs2 op3)" "body_safe c (fp_exec_class_s c pc snpc rd rs1)"
  "body_safe c (fp_exec_to_int_s sf c i pc snpc rd rs1 u l)" "body_safe c (fp_exec_from_int_s sf c i pc snpc rd v u l)"
  unfolding fp_move_to_s_def fp_move_from_s_def fp_move_to_d_def fp_move_from_d_def fp_move_to_h_def
    fp_move_from_h_def fp_sign_inject_s_def fp_sign_inject_d_def fp_exec_binary_s_def fp_exec_unary_s_def
    fp_exec_fma_s_def fp_exec_minmax_s_def fp_exec_compare_s_def fp_exec_class_s_def fp_exec_to_int_s_def
    fp_exec_from_int_s_def
  by (intro body_safes fp_bodies)+

lemma body_safe_exec_d [body_safes]:
  "body_safe c (fp_exec_binary_d c i pc snpc rd rs1 rs2 op2)" "body_safe c (fp_exec_unary_d c i pc snpc rd rs1 op1)"
  "body_safe c (fp_exec_fma_d sf c i pc snpc rd rs1 rs2 rs3 np na)" "body_safe c (fp_exec_minmax_d c pc snpc rd rs1 rs2 op3)"
  "body_safe c (fp_exec_compare_d c pc snpc rd rs1 rs2 op4)" "body_safe c (fp_exec_class_d c pc snpc rd rs1)"
  "body_safe c (fp_exec_to_int_d sf c i pc snpc rd rs1 u l)" "body_safe c (fp_exec_from_int_d sf c i pc snpc rd v u l)"
  unfolding fp_exec_binary_d_def fp_exec_unary_d_def
    fp_exec_fma_d_def fp_exec_minmax_d_def fp_exec_compare_d_def fp_exec_class_d_def fp_exec_to_int_d_def
    fp_exec_from_int_d_def
  by (intro body_safes fp_bodies)+

lemma body_safe_convert [body_safes]:
  "body_safe c (fp_exec_convert_d_to_s sf c i pc snpc rd rs1)" "body_safe c (fp_exec_convert_s_to_d sf c i pc snpc rd rs1)"
  "body_safe c (fp_exec_convert_h_to_s sf c i pc snpc rd rs1)" "body_safe c (fp_exec_convert_h_to_d sf c i pc snpc rd rs1)"
  "body_safe c (fp_exec_convert_s_to_h sf c i pc snpc rd rs1)" "body_safe c (fp_exec_convert_d_to_h sf c i pc snpc rd rs1)"
  unfolding fp_exec_convert_d_to_s_def fp_exec_convert_s_to_d_def fp_exec_convert_h_to_s_def
    fp_exec_convert_h_to_d_def fp_exec_convert_s_to_h_def fp_exec_convert_d_to_h_def
  by (intro body_safes fp_bodies)+

lemma body_safe_zfa [body_safes]: "body_safe c (fp_exec_zfa sf c i pc snpc op)"
  unfolding fp_exec_zfa_def Let_def by (intro body_safes body_safe_fp fp_bodies)

section \<open>The groups\<close>

definition group_safe :: "config \<Rightarrow> exec_entry list \<Rightarrow> bool" where
  "group_safe c g \<longleftrightarrow> (\<forall>(pat, ty, body)\<in>set g. \<forall>rd rs1 src1 src2 imm. body_safe c (body rd rs1 src1 src2 imm))"

lemma group_safe_simps:
  "group_safe c []"
  "(\<And>rd rs1 src1 src2 imm. body_safe c (body rd rs1 src1 src2 imm)) \<Longrightarrow> group_safe c g \<Longrightarrow>
     group_safe c ((pat, ty, body) # g)"
  by (simp_all add: group_safe_def)

lemma group_safe_fp:
  "group_safe c (grp_fp_load sf c i pc snpc)" "group_safe c (grp_fp_store sf c i pc snpc)"
  "group_safe c (grp_fmadd sf c i pc snpc)" "group_safe c (grp_fmsub sf c i pc snpc)"
  "group_safe c (grp_fnmsub sf c i pc snpc)" "group_safe c (grp_fnmadd sf c i pc snpc)"
  "group_safe c (grp_fp_op sf c i pc snpc)" "group_safe c (grp_vector sf c i pc snpc)"
  unfolding grp_fp_load_def grp_fp_store_def grp_fmadd_def grp_fmsub_def grp_fnmsub_def grp_fnmadd_def
    grp_fp_op_def grp_vector_def
  by (intro group_safe_simps body_safes)+

lemma body_safe_ext: "body_safe c (fp_vector_exec sf c i pc snpc)"
proof -
  have g: "group_safe c (ext_group sf c i pc snpc op)" for op
    unfolding ext_group_def by (simp add: group_safe_fp group_safe_simps(1))
  have "body_safe c (run_entry i e)" if "find P (ext_group sf c i pc snpc op) = Some e" for P op e
  proof -
    have "e \<in> set (ext_group sf c i pc snpc op)" using that by (auto simp: find_Some_iff)
    with g [of op] show ?thesis
      by (auto simp: run_entry_def group_safe_def intro!: body_safes split: prod.split)
  qed
  then show ?thesis
    unfolding fp_vector_exec_def by (auto split: option.split intro: body_safes)
qed

section \<open>The emulator\<close>

lemma execute_runs:
  assumes "rv_svade c" and "memory_map_gap c" and "hart_ok c s"
  shows "\<exists>t. execute c (fp_vector_exec sf c) n s = Some t \<and> hart_ok c t"
proof -
  have ext: "inst_ok c (fp_vector_exec sf c i pc snpc)" "no_panic (fp_vector_exec sf c i pc snpc)" for i pc snpc
    using body_safe_ext [of c sf i pc snpc] assms(1,2) by (auto simp: body_safe_def)
  obtain t where "execute c (fp_vector_exec sf c) n s = Some t"
    using execute_Some [of c "fp_vector_exec sf c" n s] assms(1,2) ext(2) by blast
  with hart_ok_execute [where ext = "fp_vector_exec sf c", OF ext(1) assms(3)] show ?thesis by blast
qed

text \<open>
  C37 (the whole instruction set). In the reference memory map with Svade, from every well-formed hart
  and for any contents of memory and registers, the emulator with its floating-point and vector groups
  runs any number of steps without a panic or a failed assertion, and leaves a well-formed hart: a
  legal privilege mode, an MPP that names a mode, \<open>x0\<close> zero and decoded PMP entries that are those of
  the PMP registers. Nothing is assumed of the SoftFloat operations.
\<close>

theorem machine_runs:
  assumes "rv_svade c" and "memory_map_gap c" and "hart_ok c s"
  shows "\<exists>t. execute c (fp_vector_exec sf c) n s = Some t \<and> hart_ok c t"
  by (rule execute_runs [OF assms])

lemma demo_hart_ok: "hart_ok demo_config demo_machine"
  using demo_pmp_ok
  by (simp add: hart_ok_def hart_base_def mode_ok_def mpp_ok_bits gpr_def)
    (simp add: demo_regs_def sr_def nemu_static_def cpu_static_def)

theorem machine_runs_witness:
  "\<forall>sf. \<exists>t. execute demo_config (fp_vector_exec sf demo_config) 1000 demo_machine = Some t \<and> hart_ok demo_config t"
  using machine_runs [OF demo_kconfig(2) kconfig_ref_gap demo_hart_ok] by blast

end
