(* ===== verification/Mem_View.thy ===== *)
theory Mem_View
  imports Hypervisor
begin

text \<open>
  One walk of the memory path for every predicate that its caches, its fault record and the
  reservation do not touch. The locale \<open>core_view\<close> takes such a predicate and gives its invariance
  under translations, checks, loads and probes; \<open>store_view\<close> adds the stores, for predicates that do not
  look at memory. With Svade a walk writes no page table, so the predicate of \<open>core_view\<close> may look at
  memory too.
\<close>

unbundle bit_operations_syntax

text \<open>The PMP unit fills its match cache only.\<close>

lemma cpu_pmp_lookup: "cpu (snd (pmp_byte_lookup a s)) = cpu s" "phys (snd (pmp_byte_lookup a s)) = phys s"
  by (simp_all add: pmp_byte_lookup_def Let_def)

lemma cpu_pmp_cover:
  "cpu (snd (pmp_cover_loop gl a h sz e off s)) = cpu s \<and> phys (snd (pmp_cover_loop gl a h sz e off s)) = phys s"
proof (induction gl a h sz e off s rule: pmp_cover_loop.induct)
  case (1 gl a h sz e off s)
  then show ?case
    using cpu_pmp_lookup [of "a + of_nat off" s]
    by (subst (1 2) pmp_cover_loop.simps) (auto simp: Let_def split: prod.split)
qed

lemma cpu_pmp_check:
  "cpu (snd (pmp_check c a n prv r w x s)) = cpu s \<and> phys (snd (pmp_check c a n prv r w x s)) = phys s"
  using cpu_pmp_lookup cpu_pmp_cover
  by (auto simp: pmp_check_def pmp_set_fault_def Let_def split: prod.split) (metis snd_conv)+

locale core_view =
  fixes c :: config and I :: "nemu \<Rightarrow> bool"
  assumes view: "I s \<Longrightarrow> cpu t = cpu s \<Longrightarrow> phys t = phys s \<Longrightarrow> I t"
    and walk_write: "\<not> rv_svade c \<Longrightarrow> I s \<Longrightarrow> I (s\<lparr>phys := m\<rparr>)"
begin

lemmas cv_walk = minv_mret minv_mthrow minv_mgets minv_mbind minv_mseq minv_mwhen minv_if minv_option
  minv_sum minv_prod

lemma cv_side_effect:
  "(\<And>s. cpu (f s) = cpu s) \<Longrightarrow> (\<And>s. phys (f s) = phys s) \<Longrightarrow> minv I (mmodify f)"
  by (rule minv_mmodify) (metis view)

lemma cv_side:
  "minv I (mmodify (set_g_vaddr v))"
  "minv I (mmodify (\<lambda>s. set_g_vaddr (h s) s))"
  "minv I (mmodify (set_h_fault_gpa a))"
  "minv I (mmodify (\<lambda>s. set_h_fault_write False (set_h_fault_ptw False (set_h_fault_gpa a s))))"
  "minv I (mmodify (\<lambda>s. set_h_fault_write False (set_h_fault_ptw False
     (set_h_fault_gpa a (set_g_vaddr v s)))))"
  "minv I (mmodify (\<lambda>s. set_h_fault_ptw b (h_fault_out out s)))"
  "minv I (mmodify (refill_tlb k va pa pb))"
  "minv I (mmodify (set_h_explicit_trap b))"
  by (intro cv_side_effect; simp add: set_g_vaddr_def set_h_fault_gpa_def set_h_fault_write_def
      set_h_fault_ptw_def h_fault_out_def refill_tlb_def set_h_explicit_trap_def split: option.split)+

lemma cv_pmp: "minv I (mlift (pmp_check c a n prv r w x))"
  by (rule minv_mlift) (metis view cpu_pmp_check)

lemmas cv_base = cv_walk cv_side cv_pmp

lemma cv_phys: "minv I (paddr_read c a n)" "minv I (ptw_read_denied c a n)"
  unfolding paddr_read_def pmem_read_def host_read_def out_of_bound_def ptw_read_denied_def
  by (intro cv_base)+

text \<open>A walk that updates A and D bits; with Svade there is none.\<close>

lemma cv_pte_write:
  assumes "\<not> rv_svade c"
  shows "minv I (paddr_write c a n d)"
  unfolding paddr_write_def pmem_write_def host_write_def out_of_bound_def
  by (intro cv_base minv_mmodify walk_write [OF assms])

lemma cv_gstage: "minv I (riscv_gstage_translate c a g)"
proof -
  have "minv I (gstage_walk c a g n t)" for n t
    by (induction n arbitrary: t)
      (simp_all only: gstage_walk.simps gstage_level_def gstage_leaf_def Let_def; intro cv_base cv_phys cv_pte_write; assumption?)+
  then show ?thesis unfolding riscv_gstage_translate_def Let_def by (intro cv_base)
qed

lemma cv_vstage: "minv I (riscv_vstage_translate c a vs g)"
proof -
  have "minv I (vstage_walk c a vs g n t)" for n t
  proof (induction n arbitrary: t)
    case (Suc n)
    then show ?case
      unfolding vstage_walk.simps vstage_level_def vstage_leaf_def vstage_update_ad_def Let_def
      by (intro cv_base cv_phys cv_gstage cv_pte_write) assumption?
  qed (simp add: cv_walk)
  then show ?thesis unfolding riscv_vstage_translate_def Let_def by (intro cv_base)
qed

lemma cv_sv39: "minv I (sv39_translate c va ty)"
proof -
  have "minv I (sv39_walk c ty va n t)" for n t
  proof (induction n arbitrary: t)
    case (Suc n)
    then show ?case unfolding sv39_walk.simps sv39_level_def Let_def by (intro cv_base cv_phys)
  qed (simp add: cv_walk)
  then show ?thesis unfolding sv39_translate_def Let_def by (intro cv_base cv_phys cv_pte_write) assumption?
qed

lemma cv_sv32: "minv I (sv32_translate c va ty)"
proof -
  have "minv I (sv32_walk c ty va n t)" for n t
  proof (induction n arbitrary: t)
    case (Suc n)
    then show ?case unfolding sv32_walk.simps sv32_level_def Let_def by (intro cv_base cv_phys)
  qed (simp add: cv_walk)
  then show ?thesis unfolding sv32_translate_def Let_def by (intro cv_base cv_phys cv_pte_write) assumption?
qed

lemma cv_translate: "minv I (isa_mmu_translate_attrs c va ty)" "minv I (tlb_translate c k ty a)"
  unfolding tlb_translate_def isa_mmu_translate_attrs_def two_stage_translate_def Let_def
  by (intro cv_base cv_gstage cv_vstage cv_sv39 cv_sv32)+

lemma cv_checks:
  "minv I (data_pmp_check c t a pa n store)" "minv I (check_data_pma c pa n store)"
  "minv I (check_data_type c pa pb misal store n)"
  unfolding data_pmp_check_def check_data_pma_def check_data_type_def Let_def
  by (intro cv_base)+

lemma cv_piece_attrs: "minv I (checked_data_piece_attrs c a n store misal ol)"
  unfolding checked_data_piece_attrs_def by (intro cv_base cv_translate cv_checks)

lemma cv_piece: "minv I (checked_data_piece c a n store misal ol)"
  unfolding checked_data_piece_def by (intro cv_base cv_piece_attrs)

lemma cv_read_split: "minv I (read_split c f js v)"
  by (induction js arbitrary: v) (simp_all only: read_split.simps; intro cv_base cv_phys)+

lemma cv_read: "minv I (vaddr_read c a n)" "minv I (vaddr_probe_vector c a n store)"
  unfolding vaddr_read_def vaddr_read_piece_def vaddr_probe_vector_def probe_piece_def Let_def
  by (intro cv_base cv_translate cv_checks cv_piece_attrs cv_piece cv_read_split cv_phys)+

end

text \<open>Stores, for predicates that look neither at memory nor at the reservation.\<close>

locale store_view = core_view +
  assumes memory: "I s \<Longrightarrow> I (s\<lparr>phys := m\<rparr>)"
    and reservation: "I s \<Longrightarrow> I (set_reservation 0 0 s)"
begin

lemma sv_write: "minv I (paddr_write c a n d)"
  unfolding paddr_write_def pmem_write_def host_write_def out_of_bound_def
  by (intro cv_base minv_mmodify memory)

lemma sv_drop: "minv I (mmodify (drop_reservation pa))"
  using reservation by (intro minv_mmodify) (simp add: drop_reservation_def)

lemma sv_write_split: "minv I (write_split c f js d)"
  by (induction js) (simp_all only: write_split.simps; intro cv_base sv_write sv_drop)+

lemma sv_vaddr_write: "minv I (vaddr_write c a n d)"
  unfolding vaddr_write_def Let_def
  by (intro cv_base cv_translate cv_checks cv_piece sv_write_split sv_write sv_drop)

end

end
