(* ===== verification/Gate.thy ===== *)
theory Gate
  imports Machine Mem_View
begin

text \<open>
  The gate of the commit tail (\<^verbatim>\<open>inst.c\<close>): a standalone build normalises the CSRs only after
  an instruction that wrote one or marked them dirty. Every instruction that changes a register the
  normalisation looks at leaves such a mark, so the emulator behaves as one that always normalises.
\<close>

unbundle bit_operations_syntax

section \<open>The emulator without the gate\<close>

definition commit_tail_always :: "config \<Rightarrow> vaddr_t \<Rightarrow> nemu \<Rightarrow> vaddr_t \<times> nemu" where
  "commit_tail_always c dnpc s =
     (let lw = cpu_last_csr_wr (cpu s);
          s1 = csr_commit c lw (set_csr_dirty False (set_last_csr_wr 0 s))
      in (riscv_legalize_pc c dnpc, set_gpr 0 0 (commit_time c (commit_counters lw s1))))"

definition decode_exec_always ::
    "config \<Rightarrow> ext_exec \<Rightarrow> uint32_t \<Rightarrow> vaddr_t \<Rightarrow> vaddr_t \<Rightarrow> (vaddr_t \<times> uint32_t \<times> vaddr_t) mem" where
  "decode_exec_always c ext i0 pc snpc0 =
     (case decode_front i0 pc snpc0 of (i, snpc) \<Rightarrow>
        mbind (exec_inst c ext i pc snpc) (\<lambda>dnpc.
          mbind (mlift (commit_tail_always c dnpc)) (\<lambda>pc'. mret (pc', i, snpc))))"

definition exec_body_always :: "config \<Rightarrow> ext_exec \<Rightarrow> vaddr_t \<Rightarrow> (vaddr_t \<times> uint32_t) mem" where
  "exec_body_always c ext pc =
     mbind (mgets cache_decode) (\<lambda>cached.
       mbind (fetch_inst c pc) (\<lambda>(i0, snpc0).
         mseq (mmodify (set_cpu_inst i0))
           (mbind (mgets (\<lambda>s. icache_epoch (icaches s))) (\<lambda>fetch_epoch.
             mbind (decode_exec_always c ext i0 pc snpc0) (\<lambda>(pc', i, snpc).
               mbind (mgets (\<lambda>s. cached \<and> fetch_epoch = icache_epoch (icaches s) \<and>
                        \<not> icache_hit (icaches s) pc)) (\<lambda>fill.
                 mseq (mwhen fill (mmodify (fill_icache pc i (ucast (snpc - pc)))))
                   (mret (pc', i))))))))"

definition isa_exec_always ::
    "config \<Rightarrow> ext_exec \<Rightarrow> vaddr_t \<Rightarrow> nemu \<Rightarrow> (vaddr_t \<times> uint32_t \<times> nemu) option" where
  "isa_exec_always c ext pc s =
     (case exec_body_always c ext pc (set_last_csr_wr 0 (set_instruction_trapped False s)) of
        (Inr (pc', i), s') \<Rightarrow> Some (pc', i, s')
      | (Inl (Mem_fault cause), s') \<Rightarrow>
          (case isa_raise_intr c cause pc s' of (pc', s'') \<Rightarrow> Some (pc', 0x13, s''))
      | (Inl Mem_panic, s') \<Rightarrow> None)"

definition nemu_step_always :: "config \<Rightarrow> ext_exec \<Rightarrow> nemu \<Rightarrow> nemu option" where
  "nemu_step_always c ext s =
     (let s1 = take_interrupt c s; pc = cpu_pc (cpu s1)
      in map_option (\<lambda>(pc', i, s'). tick_guest (set_cpu_inst i (set_pc pc' s')))
           (isa_exec_always c ext pc (set_cpc pc s1)))"

primrec execute_always :: "config \<Rightarrow> ext_exec \<Rightarrow> nat \<Rightarrow> nemu \<Rightarrow> nemu option" where
  "execute_always c ext 0 s = Some s"
| "execute_always c ext (Suc n) s = Option.bind (nemu_step_always c ext s) (execute_always c ext n)"

section \<open>What an instruction leaves for the gate\<close>

definition gate_open :: "nemu \<Rightarrow> bool" where
  "gate_open s \<longleftrightarrow> cpu_last_csr_wr (cpu s) \<noteq> 0 \<or> cpu_csr_dirty (cpu s)"

definition gate_inv :: "config \<Rightarrow> nemu \<Rightarrow> bool" where
  "gate_inv c s \<longleftrightarrow> gate_open s \<or> csr_coherent c s"

text \<open>A step that keeps the registers, or leaves a mark.\<close>

definition gate_step :: "config \<Rightarrow> nemu \<Rightarrow> nemu \<Rightarrow> bool" where
  "gate_step c s t \<longleftrightarrow> gate_open t \<or> ((gate_open s \<longrightarrow> gate_open t) \<and> (csr_coherent c s \<longrightarrow> csr_coherent c t))"

lemma gate_step_inv: "gate_step c s t \<Longrightarrow> gate_inv c s \<Longrightarrow> gate_inv c t"
  by (auto simp: gate_step_def gate_inv_def)

lemma coherent_regs:
  assumes "sr t = sr s" "cpu_seip (cpu t) = cpu_seip (cpu s)" "cpu_stip (cpu t) = cpu_stip (cpu s)"
  shows "csr_coherent c t = csr_coherent c s"
  using assms mip_value_cong [of t s c] by (intro csr_coherent_cong) simp_all

lemma gate_step_regs:
  assumes "sr t = sr s" "cpu_seip (cpu t) = cpu_seip (cpu s)" "cpu_stip (cpu t) = cpu_stip (cpu s)"
    "cpu_last_csr_wr (cpu t) = cpu_last_csr_wr (cpu s)" "cpu_csr_dirty (cpu t) = cpu_csr_dirty (cpu s)"
  shows "gate_step c s t"
  using coherent_regs [OF assms(1-3)] assms(4,5) by (simp add: gate_step_def gate_open_def)

interpretation gt: store_view c "gate_inv c" for c
proof
  show "gate_inv c t" if "gate_inv c s" "cpu t = cpu s" for s t
    by (rule gate_step_inv [OF gate_step_regs that(1)]) (simp_all add: that(2) sr_def fun_eq_iff)
  then show "gate_inv c (s\<lparr>phys := m\<rparr>)" if "gate_inv c s" for s m using that by simp
  then show "gate_inv c (s\<lparr>phys := m\<rparr>)" if "gate_inv c s" for s m using that .
  show "gate_inv c (set_reservation 0 0 s)" if "gate_inv c s" for s
    by (rule gate_step_inv [OF gate_step_regs that]) (simp_all add: set_reservation_def sr_def fun_eq_iff)
qed

named_theorems gates \<open>computations that keep \<open>gate_inv\<close>\<close>

lemmas [gates] = gt.cv_base gt.cv_phys gt.cv_translate gt.cv_checks gt.cv_piece_attrs gt.cv_piece
  gt.cv_read_split gt.cv_read gt.sv_write gt.sv_drop gt.sv_write_split gt.sv_vaddr_write

lemma minv_gate: "(\<And>s. gate_step c s (f s)) \<Longrightarrow> minv (gate_inv c) (mmodify f)"
  by (rule minv_mmodify) (rule gate_step_inv)

lemma gate_side [gates]:
  "minv (gate_inv c) (mmodify soft_tlb_flush)" "minv (gate_inv c) (mmodify do_icache_flush)"
  "minv (gate_inv c) (mmodify (set_cpu_inst i))" "minv (gate_inv c) (mmodify (fill_icache pc i n))"
  "minv (gate_inv c) (wr_reg rd v)" "minv (gate_inv c) (mmodify (set_reservation pa k))"
  unfolding wr_reg_def
  by (intro minv_gate gate_step_regs; simp add: soft_tlb_flush_def do_icache_flush_def set_cpu_inst_def
      fill_icache_def set_gpr_def set_reservation_def sr_def fun_eq_iff Let_def)+

lemma gate_ret_reg [gates]: "minv (gate_inv c) (ret_reg d rd v)"
  unfolding ret_reg_def by (intro gates)

lemma gate_checks [gates]:
  "minv (gate_inv c) (vaddr_check_reservation c a n store)" "minv (gate_inv c) (vaddr_check_amo c a n)"
  "minv (gate_inv c) (vaddr_check_zero c a)" "minv (gate_inv c) (vaddr_check_cmo c a)"
  "minv (gate_inv c) (vaddr_ifetch c a n)"
  unfolding vaddr_check_reservation_def vaddr_check_amo_def vaddr_check_zero_def vaddr_check_cmo_def
    checked_data_address_def vaddr_ifetch_def vaddr_ifetch_piece_def
  by (intro gates)+

lemma gate_write_bytes [gates]: "minv (gate_inv c) (write_bytes_at c f js d)"
  by (induction js) (simp_all only: write_bytes_at.simps; intro gates)+

section \<open>Traps, returns and CSR writes leave a mark\<close>

lemma gate_raise: "gate_open (snd (isa_raise_intr c NO epc s))"
  by (simp add: gate_open_def isa_raise_intr_def trap_to_m_def trap_to_s_def trap_to_vs_def
      trap_hstatus_def Let_def)

lemma gate_raise_at [gates]: "minv (gate_inv c) (raise_at c NO pc)"
  unfolding raise_at_def by (rule minv_mlift) (simp add: gate_inv_def gate_raise)

lemma gate_returns:
  "mret_body c s = Some (pc, t) \<Longrightarrow> gate_open t" "sret_body c s = Inr (pc, t) \<Longrightarrow> gate_open t"
  by (auto simp: mret_body_def sret_body_def gate_open_def Let_def split: if_splits)

text \<open>Number 0 is no CSR, so an allowed access leaves its mark.\<close>

lemma csr_check_exists: "csr_check c s csr w = None \<Longrightarrow> csr mod 4096 \<noteq> 0"
proof
  assume "csr_check c s csr w = None" and "csr mod 4096 = 0"
  moreover have "check_csr_exist c 0 = CSR_NOT_EXIST" by (simp add: check_csr_exist_def csr_listed_def
      is_vector_csr_def is_stateen_csr_def is_h_csr_def is_hpm_zero_csr_def)
  ultimately show False by (simp add: csr_check_def Let_def split: if_splits option.splits)
qed

lemma gate_CSRW:
  assumes "csr mod 4096 \<noteq> 0"
  shows "gate_open (CSRW c csr v s)"
proof -
  have "guest_csr_alias s (csr mod 4096) \<noteq> 0" using assms by (simp add: guest_csr_alias_def)
  then show ?thesis by (auto simp: gate_open_def CSRW_def Let_def)
qed

lemma gate_csr [gates]:
  "minv (gate_inv c) (csr_write_body c pc snpc rd rs1 a b imm)"
  "minv (gate_inv c) (csr_modify_body c pc snpc f rd rs1 a b imm)"
proof -
  have r: "gate_inv c (snd (raise_at c NO pc s))" for NO s
    by (simp add: raise_at_def gate_inv_def gate_raise)
  have g: "gate_inv c (set_gpr r v s)" if "gate_inv c s" for r v s
    using minvD [OF gate_side(5) that, of r v "Inr ()"] by (simp add: wr_reg_def)
  show "minv (gate_inv c) (csr_write_body c pc snpc rd rs1 a b imm)"
    using gate_CSRW [OF csr_check_exists] r
    by (auto simp: minv_def csr_write_body_def Let_def mbind_app mseq_app wr_reg_def gate_inv_def
        split: option.split)
  show "minv (gate_inv c) (csr_modify_body c pc snpc f rd rs1 a b imm)"
    using gate_CSRW [OF csr_check_exists] r g
    by (auto simp: minv_def csr_modify_body_def Let_def mbind_app mseq_app wr_reg_def gate_inv_def mwhen_def
        split: option.split)
qed

lemma gate_exec_returns [gates]:
  "minv (gate_inv c) (exec_mret c pc)" "minv (gate_inv c) (exec_sret c pc)"
  using gate_returns gate_raise
  by (auto simp: minv_def exec_mret_def exec_sret_def mbind_app mseq_app raise_at_def gate_inv_def
      split: option.split sum.split)

lemma gate_wfi_advance [gates]: "minv (gate_inv c) (mmodify (clint_wfi_advance c))"
proof (rule minv_gate)
  fix s
  have "gate_step c u (clint_update_mip c u)" for u
    using csr_coherent_clint [of c u]
    by (simp add: gate_step_def gate_open_def clint_update_mip_def Let_def set_stip_def)
  moreover have "gate_step c s (s\<lparr>g_nr_guest_inst := x\<rparr>)" for x
    by (rule gate_step_regs) (simp_all add: sr_def fun_eq_iff)
  moreover have "gate_step c s s" by (simp add: gate_step_def)
  ultimately show "gate_step c s (clint_wfi_advance c s)"
    unfolding clint_wfi_advance_def Let_def by (auto simp: gate_step_def)
qed

section \<open>The listing of inst.c\<close>

lemma gate_atomic [gates]:
  "minv (gate_inv c) (load_reserved c snpc n e rd rs1 a b imm)"
  "minv (gate_inv c) (store_conditional c snpc n rd rs1 a b imm)"
  "minv (gate_inv c) (amo c snpc n e f rd rs1 a b imm)"
  "minv (gate_inv c) (load_reg c snpc n e rd rs1 a b imm)"
  "minv (gate_inv c) (store_reg c snpc n rd rs1 a b imm)"
  unfolding load_reserved_def store_conditional_def amo_def load_reg_def store_reg_def
  by (intro gates)+

lemma gate_hypervisor [gates]: "minv (gate_inv c) (hypervisor_memory_access c pc store ex n a d)"
  unfolding hypervisor_memory_access_def hypervisor_pieces_def hypervisor_second_piece_def
    hypervisor_memory_piece_def hypervisor_piece_check_def hypervisor_memory_trap_def
    hypervisor_transfer_def Let_def
  by (intro gates gt.cv_gstage gt.cv_vstage)

lemma gate_system [gates]:
  "minv (gate_inv c) (sfence_vma c pc snpc)" "minv (gate_inv c) (sfence_inval c pc snpc)"
  "minv (gate_inv c) (hypervisor_fence c pc snpc g)" "minv (gate_inv c) (hlv c pc snpc ex n e rd rs1 a b imm)"
  "minv (gate_inv c) (hsv c pc snpc n rd rs1 a b imm)" "minv (gate_inv c) (exec_ecall c pc)"
  "minv (gate_inv c) (exec_wrs_nto c pc snpc)" "minv (gate_inv c) (exec_wrs_sto c pc snpc)"
  "minv (gate_inv c) (exec_wfi c pc snpc)"
  unfolding sfence_vma_def sfence_inval_def hypervisor_fence_def hlv_def hsv_def exec_ecall_def
    exec_wrs_nto_def exec_wrs_sto_def exec_wfi_def
  by (intro gates)+

definition group_gate :: "config \<Rightarrow> exec_entry list \<Rightarrow> bool" where
  "group_gate c g \<longleftrightarrow>
     (\<forall>(pat, ty, body)\<in>set g. \<forall>rd rs1 src1 src2 imm. minv (gate_inv c) (body rd rs1 src1 src2 imm))"

lemma group_gate_simps [simp]:
  "group_gate c []"
  "group_gate c ((pat, ty, body) # g) \<longleftrightarrow>
     (\<forall>rd rs1 src1 src2 imm. minv (gate_inv c) (body rd rs1 src1 src2 imm)) \<and> group_gate c g"
  "group_gate c (g @ h) \<longleftrightarrow> group_gate c g \<and> group_gate c h"
  unfolding group_gate_def by (simp, simp, simp only: set_append ball_Un)

lemma group_gate_alu: "group_gate c (map (alu_exec snpc) es)"
  by (auto simp: group_gate_def alu_exec_def gates)

lemma group_gate_integer:
  "group_gate c (grp_lui snpc)" "group_gate c (grp_auipc pc snpc)"
  "group_gate c (grp_jal pc snpc)" "group_gate c (grp_jalr snpc)"
  "group_gate c (grp_branch pc snpc)" "group_gate c (grp_prefetch snpc)"
  by (simp_all add: grp_lui_def grp_auipc_def grp_jal_def grp_jalr_def
      grp_branch_def grp_prefetch_def branch_if_def gates)

lemma group_gate_memory:
  "group_gate c (grp_load c snpc)" "group_gate c (grp_store c snpc)"
  "group_gate c (grp_amo_w c snpc)" "group_gate c (grp_amo_d c snpc)"
  by (simp_all add: grp_load_def grp_store_def grp_amo_w_def grp_amo_d_def Let_def gates)

lemma gate_zero_block [gates]: "minv (gate_inv c) (zero_block c b js)"
  by (induction js) (simp_all only: zero_block.simps; intro gates)+

lemma gate_with_cbo [gates]: "minv (gate_inv c) m \<Longrightarrow> minv (gate_inv c) (with_cbo c kind pc snpc m)"
  unfolding with_cbo_def by (intro gates)

lemma group_gate_miscmem: "group_gate c (grp_miscmem c pc snpc)"
  unfolding grp_miscmem_def group_gate_simps
  by (intro conjI allI gates group_gate_simps(1))

lemma group_gate_system: "group_gate c (grp_system c pc snpc)"
  by (simp add: grp_system_def grp_system_h_def grp_system_csr_def gates)

lemma group_gate_exec: "group_gate c (exec_group c pc snpc op)"
  unfolding exec_group_def
  by (simp add: group_gate_alu group_gate_integer group_gate_memory group_gate_miscmem group_gate_system)

lemma gate_run_entry:
  assumes "group_gate c g" and "find P g = Some e"
  shows "minv (gate_inv c) (run_entry i e)"
proof -
  have "e \<in> set g" using assms(2) by (auto simp: find_Some_iff)
  with assms(1) show ?thesis
    by (auto simp: run_entry_def group_gate_def intro!: gates split: prod.split)
qed

section \<open>The floating-point groups\<close>

lemma gate_fp_mark [gates]:
  "minv (gate_inv c) (fp_put rd r)" "minv (gate_inv c) (fp_put_s rd r')" "minv (gate_inv c) (fp_move rd v)"
  "minv (gate_inv c) (fp_put_int rd r)"
  unfolding fp_put_s_def fp_put_def fp_move_def fp_put_int_def
  by (intro gates minv_gate; simp add: gate_step_def gate_open_def fp_merge_flags_def fp_mark_dirty_def Let_def)+

lemma gate_fp_under [gates]: "minv (gate_inv c) m \<Longrightarrow> minv (gate_inv c) (fp_under c pc snpc d m)"
  unfolding fp_under_def by (intro gates)

lemma gate_fp_prepare [gates]: "(\<And>rm. minv (gate_inv c) (m rm)) \<Longrightarrow> minv (gate_inv c) (fp_prepare c i pc snpc d m)"
  unfolding fp_prepare_def by (intro gates)

lemma gate_fp_memory [gates]:
  "minv (gate_inv c) (fp_load_s c pc snpc rd a)" "minv (gate_inv c) (fp_load_d c pc snpc rd a)"
  "minv (gate_inv c) (fp_load_h c pc snpc rd a)" "minv (gate_inv c) (fp_store_s c pc snpc a rs2)"
  "minv (gate_inv c) (fp_store_d c pc snpc a rs2)" "minv (gate_inv c) (fp_store_h c pc snpc a rs2)"
  unfolding fp_load_s_def fp_load_d_def fp_load_h_def fp_store_s_def fp_store_d_def fp_store_h_def
  by (intro gates)+

lemma gate_fp_exec [gates]:
  "minv (gate_inv c) (fp_move_to_s c pc snpc rd v)" "minv (gate_inv c) (fp_move_from_s c pc snpc rd rs1)"
  "minv (gate_inv c) (fp_move_to_d c pc snpc rd v)" "minv (gate_inv c) (fp_move_from_d c pc snpc rd rs1)"
  "minv (gate_inv c) (fp_move_to_h c pc snpc rd v)" "minv (gate_inv c) (fp_move_from_h c pc snpc rd rs1)"
  "minv (gate_inv c) (fp_sign_inject_s c pc snpc rd rs1 rs2 mode)"
  "minv (gate_inv c) (fp_sign_inject_d c pc snpc rd rs1 rs2 mode)"
  "minv (gate_inv c) (fp_exec_binary_s c i pc snpc rd rs1 rs2 op2)"
  "minv (gate_inv c) (fp_exec_unary_s c i pc snpc rd rs1 op1)"
  "minv (gate_inv c) (fp_exec_fma_s sf c i pc snpc rd rs1 rs2 rs3 np na)"
  "minv (gate_inv c) (fp_exec_minmax_s c pc snpc rd rs1 rs2 op3)"
  "minv (gate_inv c) (fp_exec_compare_s c pc snpc rd rs1 rs2 op3)"
  "minv (gate_inv c) (fp_exec_class_s c pc snpc rd rs1)"
  "minv (gate_inv c) (fp_exec_to_int_s sf c i pc snpc rd rs1 u l)"
  "minv (gate_inv c) (fp_exec_from_int_s sf c i pc snpc rd v u l)"
  unfolding fp_move_to_s_def fp_move_from_s_def fp_move_to_d_def fp_move_from_d_def fp_move_to_h_def
    fp_move_from_h_def fp_sign_inject_s_def fp_sign_inject_d_def fp_exec_binary_s_def fp_exec_unary_s_def
    fp_exec_fma_s_def fp_exec_minmax_s_def fp_exec_compare_s_def fp_exec_class_s_def fp_exec_to_int_s_def
    fp_exec_from_int_s_def
  by (intro gates)+

lemma gate_fp_exec_d [gates]:
  "minv (gate_inv c) (fp_exec_binary_d c i pc snpc rd rs1 rs2 op2)"
  "minv (gate_inv c) (fp_exec_unary_d c i pc snpc rd rs1 op1)"
  "minv (gate_inv c) (fp_exec_fma_d sf c i pc snpc rd rs1 rs2 rs3 np na)"
  "minv (gate_inv c) (fp_exec_minmax_d c pc snpc rd rs1 rs2 op3)"
  "minv (gate_inv c) (fp_exec_compare_d c pc snpc rd rs1 rs2 op4)"
  "minv (gate_inv c) (fp_exec_class_d c pc snpc rd rs1)"
  "minv (gate_inv c) (fp_exec_to_int_d sf c i pc snpc rd rs1 u l)"
  "minv (gate_inv c) (fp_exec_from_int_d sf c i pc snpc rd v u l)"
  "minv (gate_inv c) (fp_exec_convert_d_to_s sf c i pc snpc rd rs1)"
  "minv (gate_inv c) (fp_exec_convert_s_to_d sf c i pc snpc rd rs1)"
  "minv (gate_inv c) (fp_exec_convert_h_to_s sf c i pc snpc rd rs1)"
  "minv (gate_inv c) (fp_exec_convert_h_to_d sf c i pc snpc rd rs1)"
  "minv (gate_inv c) (fp_exec_convert_s_to_h sf c i pc snpc rd rs1)"
  "minv (gate_inv c) (fp_exec_convert_d_to_h sf c i pc snpc rd rs1)"
  "minv (gate_inv c) (fp_exec_zfa sf c i pc snpc op)"
  unfolding fp_exec_binary_d_def fp_exec_unary_d_def fp_exec_fma_d_def fp_exec_minmax_d_def
    fp_exec_compare_d_def fp_exec_class_d_def fp_exec_to_int_d_def fp_exec_from_int_d_def
    fp_exec_convert_d_to_s_def fp_exec_convert_s_to_d_def fp_exec_convert_h_to_s_def
    fp_exec_convert_h_to_d_def fp_exec_convert_s_to_h_def fp_exec_convert_d_to_h_def fp_exec_zfa_def Let_def
  by (intro gates)+

section \<open>The vector groups\<close>

lemma gate_step_set_sr:
  "i \<notin> mip_regs \<union> {CSR_MSTATUS, CSR_MISA, CSR_MEDELEG, CSR_MIDELEG, CSR_SSTATUS, CSR_SIE, CSR_SIP, CSR_MIE} \<Longrightarrow>
     gate_step c s (set_sr i v s)"
  using csr_coherent_set_sr [of c s i v] by (simp add: gate_step_def gate_open_def)

lemma gate_vector_set [gates]:
  "minv (gate_inv c) (mmodify (set_sr CSR_VSTART v))"
  "minv (gate_inv c) (mmodify (\<lambda>s. set_csr_dirty True (vector_mark_dirty False s)))"
  by (intro minv_gate; simp add: gate_step_set_sr mip_regs_def) (intro minv_gate; simp add: gate_step_def gate_open_def)

lemma gate_vector_elements [gates]:
  "minv (gate_inv c) (vector_element_write reg index bytes v)"
  "minv (gate_inv c) (vector_element_read reg index bytes)" "minv (gate_inv c) (vector_mask_bit reg index)"
proof -
  show "minv (gate_inv c) (vector_element_write reg index bytes v)"
    by (rule minv_vwrite, rule gate_step_inv [OF gate_step_regs]) (simp_all add: set_vregs_def sr_def fun_eq_iff)
qed (intro vinvs)+

lemma gate_vm_access [gates]: "minv (gate_inv c) (vm_access c i store p probe index a field)"
  unfolding vm_access_def Let_def by (intro gates)

lemma gate_vm_loop [gates]: "minv (gate_inv c) (vm_loop c i store s p)"
  unfolding vm_loop_def vm_element_def vm_segment_def vm_fields_loop_def vactive_acc_def Let_def
  by (intro gates minv_mfold)

lemma gate_fof [gates]:
  assumes "minv (gate_inv c) m"
  shows "minv (gate_inv c) (fof_catch m)"
  unfolding minv_def
proof (intro allI impI)
  fix s assume "gate_inv c s"
  obtain r t where m: "m s = (r, t)" by fastforce
  have t: "gate_inv c t" by (rule minvD [OF assms \<open>gate_inv c s\<close> m])
  have "gate_step c u (set_sr k v u)" if "k \<in> {CSR_VL, CSR_VSTART}" for u k v
    using that by (intro gate_step_set_sr) (auto simp: mip_regs_def)
  from gate_step_inv [OF this gate_step_inv [OF this t]] have
    "gate_inv c (set_sr CSR_VSTART v (set_sr CSR_VL w t))" for v w by simp
  with t m show "gate_inv c (snd (fof_catch m s))"
    by (simp add: fof_catch_def split: sum.split mem_exit.split)
qed

lemma gate_configure [gates]: "minv (gate_inv c) (mlift (riscv_vector_configure c' i))"
proof (rule minv_mlift, rule gate_step_inv)
  fix s
  have "gate_step c s (set_gpr r v s)" "gate_step c s s" for r v
    by (intro gate_step_regs; simp add: fun_eq_iff)+
  moreover have "gate_step c s (set_gpr r v (set_csr_dirty True t))" "gate_step c s (set_csr_dirty True t)" for r v t
    by (simp_all add: gate_step_def gate_open_def)
  ultimately show "gate_step c s (snd (riscv_vector_configure c' i s))"
    by (simp add: riscv_vector_configure_def Let_def split: option.split)
qed

lemma gate_vector_execute [gates]: "minv (gate_inv c) (riscv_vector_execute c' sf i)"
  unfolding minv_def
proof (intro allI impI)
  fix s assume s: "gate_inv c s"
  obtain b t where t: "riscv_vector_execute c' sf i s = (Inr b, t)"
    using returns_vector_execute [of c' sf i] unfolding returns_def by meson
  with vdecides_execute [of c' sf i] have "if b then cpu_csr_dirty (cpu t) else t = s"
    unfolding vdecides_def by (metis (full_types))
  with s t show "gate_inv c (snd (riscv_vector_execute c' sf i s))"
    by (auto simp: gate_inv_def gate_open_def split: if_splits)
qed

lemma gate_vector_body [gates]:
  "minv (gate_inv c) (vector_memory_execute c i pc snpc store)"
  "minv (gate_inv c) (vector_body c pc snpc (riscv_vector_execute c sf i))"
  "minv (gate_inv c) (vector_body c pc snpc (mlift (riscv_vector_configure c i)))"
  unfolding vector_memory_execute_def vector_body_def riscv_vector_memory_def by (intro gates)+

lemma group_gate_intro:
  "group_gate c []"
  "(\<And>rd rs1 src1 src2 imm. minv (gate_inv c) (body rd rs1 src1 src2 imm)) \<Longrightarrow> group_gate c g \<Longrightarrow>
     group_gate c ((pat, ty, body) # g)"
  by (simp_all add: group_gate_def)

lemma group_gate_ext:
  "group_gate c (grp_fp_load sf c i pc snpc)" "group_gate c (grp_fp_store sf c i pc snpc)"
  "group_gate c (grp_fmadd sf c i pc snpc)" "group_gate c (grp_fmsub sf c i pc snpc)"
  "group_gate c (grp_fnmsub sf c i pc snpc)" "group_gate c (grp_fnmadd sf c i pc snpc)"
  "group_gate c (grp_fp_op sf c i pc snpc)" "group_gate c (grp_vector sf c i pc snpc)"
  unfolding grp_fp_load_def grp_fp_store_def grp_fmadd_def grp_fmsub_def grp_fnmsub_def grp_fnmadd_def
    grp_fp_op_def grp_vector_def
  by (intro group_gate_intro gates)+

lemma gate_ext: "minv (gate_inv c) (fp_vector_exec sf c i pc snpc)"
proof -
  have g: "group_gate c (ext_group sf c i pc snpc op)" for op
    unfolding ext_group_def by (simp add: group_gate_ext)
  then show ?thesis
    unfolding fp_vector_exec_def by (auto split: option.split intro: gate_run_entry gates)
qed

lemma gate_exec_inst: "minv (gate_inv c) (exec_inst c (fp_vector_exec sf c) i pc snpc)"
  unfolding exec_inst_def Let_def
  by (auto split: option.split intro: gate_run_entry [OF group_gate_exec] gate_ext gates)

section \<open>One step\<close>

lemma coherent_set_last: "csr_coherent c (set_csr_dirty b (set_last_csr_wr n s)) = csr_coherent c s"
  by (rule coherent_regs) simp_all

lemma commit_tail_gate: "gate_inv c s \<Longrightarrow> commit_tail c dnpc s = commit_tail_always c dnpc s"
  using csr_commit_id [of c "set_csr_dirty False (set_last_csr_wr 0 s)"]
  by (auto simp: commit_tail_def commit_tail_always_def Let_def gate_inv_def gate_open_def coherent_set_last)

lemma coherent_set_gpr: "csr_coherent c (set_gpr r v s) = csr_coherent c s"
  by (rule coherent_regs) (simp_all add: fun_eq_iff)

lemma coherent_commit_tail: "gate_inv c s \<Longrightarrow> csr_coherent c (snd (commit_tail c dnpc s))"
  using csr_coherent_commit_time [OF csr_coherent_counters [OF csr_commit_coherent]]
  by (simp add: commit_tail_gate commit_tail_always_def Let_def coherent_set_gpr)

lemma decode_exec_gate:
  assumes "gate_inv c s"
  shows "decode_exec c (fp_vector_exec sf c) i0 pc snpc0 s = decode_exec_always c (fp_vector_exec sf c) i0 pc snpc0 s"
    and "gate_inv c (snd (decode_exec c (fp_vector_exec sf c) i0 pc snpc0 s))"
proof -
  have "gate_inv c t" if "exec_inst c (fp_vector_exec sf c) i pc snpc s = (r, t)" for i snpc r t
    by (rule minvD [OF gate_exec_inst assms that])
  then show "decode_exec c (fp_vector_exec sf c) i0 pc snpc0 s = decode_exec_always c (fp_vector_exec sf c) i0 pc snpc0 s"
    "gate_inv c (snd (decode_exec c (fp_vector_exec sf c) i0 pc snpc0 s))"
    using coherent_commit_tail
    by (auto simp: decode_exec_def decode_exec_always_def mbind_app commit_tail_gate gate_inv_def
        split: prod.split sum.split)
qed

lemma gate_decode_exec [gates]: "minv (gate_inv c) (decode_exec c (fp_vector_exec sf c) i0 pc snpc0)"
  unfolding minv_def using decode_exec_gate(2) by blast

lemma gate_fetch_inst [gates]: "minv (gate_inv c) (fetch_inst c pc)"
  unfolding fetch_inst_def Let_def by (intro gates)

lemma mbind_same:
  assumes "minv I m" and "I s" and "\<And>a t. I t \<Longrightarrow> f a t = g a t"
  shows "mbind m f s = mbind m g s"
proof -
  obtain r t where m: "m s = (r, t)" by fastforce
  have "I t" by (rule minvD [OF assms(1,2) m])
  with assms(3) m show ?thesis by (simp add: mbind_app split: sum.split)
qed

lemma prod_same: "(\<And>x y. f x y s = g x y s) \<Longrightarrow> (case p of (x, y) \<Rightarrow> f x y) s = (case p of (x, y) \<Rightarrow> g x y) s"
  by (cases p) simp

lemma exec_body_gate:
  assumes "gate_inv c s"
  shows "exec_body_once c (fp_vector_exec sf c) pc s = exec_body_always c (fp_vector_exec sf c) pc s"
proof -
  have d: "mbind (decode_exec c (fp_vector_exec sf c) i pc n) f u =
      mbind (decode_exec_always c (fp_vector_exec sf c) i pc n) f u" if "gate_inv c u" for i n u
    and f :: "vaddr_t \<times> uint32_t \<times> vaddr_t \<Rightarrow> (vaddr_t \<times> uint32_t) mem"
    by (simp add: mbind_app decode_exec_gate(1) [OF that])
  note same = mbind_same [where I = "gate_inv c"]
  show ?thesis
    unfolding exec_body_once_def exec_body_always_def mseq_def
    by (rule same [OF minv_mgets assms], rule same [OF gate_fetch_inst], assumption)
      (rule prod_same, rule same [OF gate_side(3)], assumption, rule same [OF minv_mgets], assumption, erule d)
qed

lemma gate_exec_body: "minv (gate_inv c) (exec_body_once c (fp_vector_exec sf c) pc)"
  unfolding exec_body_once_def by (intro gates)

lemma gate_misc: "gate_step c s (set_pc x s)" "gate_step c s (set_cpc x s)" "gate_step c s (set_cpu_inst i s)"
  "gate_step c s (tick_guest s)"
  by (intro gate_step_regs; simp add: set_pc_def set_cpc_def set_cpu_inst_def tick_guest_def sr_def fun_eq_iff)+

lemma coherent_exec_body:
  assumes "gate_inv c s" and "exec_body_once c (fp_vector_exec sf c) pc s = (Inr r, t)"
  shows "csr_coherent c t"
proof -
  have k: "csr_coherent c (fill_icache pc i n u) = csr_coherent c u" for i n u
    by (rule coherent_regs) (simp_all add: fill_icache_def sr_def fun_eq_iff)
  from assms(2) obtain a i0 snpc0 u v w d where f: "fetch_inst c pc s = (Inr (i0, snpc0), u)"
    and e: "decode_exec c (fp_vector_exec sf c) i0 pc snpc0 (set_cpu_inst i0 u) = (Inr d, v)"
    and t: "csr_coherent c t = csr_coherent c v"
    by (auto simp: exec_body_once_def mbind_eq_Inr mseq_def mwhen_def k split: prod.splits if_splits)
  have "gate_inv c u" by (rule minvD [OF gate_fetch_inst assms(1) f])
  then have "gate_inv c (set_cpu_inst i0 u)" by (rule gate_step_inv [OF gate_misc(3)])
  then have "gate_inv c w" if "exec_inst c (fp_vector_exec sf c) i pc n (set_cpu_inst i0 u) = (x, w)" for i n x w
    by (rule minvD [OF gate_exec_inst _ that])
  with e have "csr_coherent c v"
    using coherent_commit_tail
    by (fastforce simp: decode_exec_def mbind_eq_Inr split: prod.splits)
  with t show ?thesis by simp
qed

text \<open>Between instructions.\<close>

definition gate_ready :: "config \<Rightarrow> nemu \<Rightarrow> bool" where
  "gate_ready c s \<longleftrightarrow> cpu_csr_dirty (cpu s) \<or> csr_coherent c s"

lemma gate_ready_inv: "gate_ready c s \<Longrightarrow> gate_inv c s"
  by (auto simp: gate_ready_def gate_inv_def gate_open_def)

lemma gate_ready_regs:
  assumes "sr t = sr s" "cpu_seip (cpu t) = cpu_seip (cpu s)" "cpu_stip (cpu t) = cpu_stip (cpu s)"
    "cpu_csr_dirty (cpu t) = cpu_csr_dirty (cpu s)"
  shows "gate_ready c t = gate_ready c s"
  using coherent_regs [OF assms(1-3)] assms(4) by (simp add: gate_ready_def)

lemma gate_ready_misc [simp]:
  "gate_ready c (set_pc x s) = gate_ready c s" "gate_ready c (set_cpc x s) = gate_ready c s"
  "gate_ready c (set_cpu_inst i s) = gate_ready c s" "gate_ready c (tick_guest s) = gate_ready c s"
  "gate_ready c (set_last_csr_wr 0 (set_instruction_trapped False s)) = gate_ready c s"
  by (intro gate_ready_regs; simp add: set_pc_def set_cpc_def set_cpu_inst_def tick_guest_def sr_def fun_eq_iff)+

lemma gate_ready_raise: "gate_ready c (snd (isa_raise_intr c NO epc s))"
  by (simp add: gate_ready_def isa_raise_intr_def trap_to_m_def trap_to_s_def trap_to_vs_def
      trap_hstatus_def Let_def)

lemma gate_ready_interrupt: "gate_ready c s \<Longrightarrow> gate_ready c (take_interrupt c s)"
  using gate_ready_raise [of c] by (auto simp: take_interrupt_def Let_def split: prod.split) (metis snd_conv)

lemma isa_exec_gate:
  assumes "gate_ready c s"
  shows "isa_exec_once c (fp_vector_exec sf c) pc s = isa_exec_always c (fp_vector_exec sf c) pc s"
    and "isa_exec_once c (fp_vector_exec sf c) pc s = Some (pc', i, t) \<Longrightarrow> gate_ready c t"
proof -
  let ?s = "set_last_csr_wr 0 (set_instruction_trapped False s)"
  have g: "gate_inv c ?s" using assms by (intro gate_ready_inv) simp
  show "isa_exec_once c (fp_vector_exec sf c) pc s = isa_exec_always c (fp_vector_exec sf c) pc s"
    by (simp add: isa_exec_once_def isa_exec_always_def exec_body_gate [OF g])
  assume e: "isa_exec_once c (fp_vector_exec sf c) pc s = Some (pc', i, t)"
  obtain r u where u: "exec_body_once c (fp_vector_exec sf c) pc ?s = (r, u)" by fastforce
  show "gate_ready c t"
  proof (cases r)
    case (Inl x)
    with e u show ?thesis
      using gate_ready_raise [of c] by (cases x) (auto simp: isa_exec_once_def split: prod.splits, metis snd_conv)
  next
    case (Inr a)
    with coherent_exec_body [OF g] u have "csr_coherent c u" by simp
    with Inr e u show ?thesis by (auto simp: isa_exec_once_def gate_ready_def split: prod.splits)
  qed
qed

lemma nemu_step_gate:
  assumes "gate_ready c s"
  shows "nemu_step c (fp_vector_exec sf c) s = nemu_step_always c (fp_vector_exec sf c) s"
    and "nemu_step c (fp_vector_exec sf c) s = Some t \<Longrightarrow> gate_ready c t"
proof -
  let ?s = "take_interrupt c s"
  have g: "gate_ready c (set_cpc (cpu_pc (cpu ?s)) ?s)" using gate_ready_interrupt [OF assms] by simp
  show "nemu_step c (fp_vector_exec sf c) s = nemu_step_always c (fp_vector_exec sf c) s"
    by (simp add: nemu_step_def nemu_step_always_def exec_once_def Let_def isa_exec_gate(1) [OF g]
        option.map_comp comp_def case_prod_unfold)
  assume "nemu_step c (fp_vector_exec sf c) s = Some t"
  then show "gate_ready c t"
    using isa_exec_gate(2) [OF g] by (auto simp: nemu_step_def exec_once_def Let_def)
qed

section \<open>Power-on\<close>

lemma sr_reset:
  "sr (s\<lparr>cpu := reset_scalars (cpu u)\<rparr>) = sr u" "sr (s\<lparr>cpu := (cpu u)\<lparr>cpu_intr := b\<rparr>\<rparr>) = sr u"
  "sr (s\<lparr>cpu := (cpu u)\<lparr>cpu_vreg := w\<rparr>\<rparr>) = sr u" "sr (set_pc pc s) = sr s"
  by (simp_all add: sr_def fun_eq_iff reset_scalars_def set_pc_def)

lemma csr_coherent_restart:
  assumes "sr s = (\<lambda>_. 0)"
  shows "csr_coherent c (restart c b h s)"
proof -
  let ?t = "restart c b h s"
  have z: "sr s i = 0" for i using assms by simp
  have regs: "sr ?t CSR_MSTATUS = 0xA00000000" "sr ?t CSR_MISA = CSR_MISA_VALUE c" "sr ?t CSR_MEDELEG = 0"
    "sr ?t CSR_MIDELEG = riscv_virtual_irq_mask c" "sr ?t CSR_SSTATUS = 0x200000000" "sr ?t CSR_SIE = 0"
    "sr ?t CSR_MIE = 0" "sr ?t CSR_SIP = 0"
    by (simp_all add: restart_def riscv_vector_reset_def Let_def sr_reset z set_field_def take_bit_eq_mask
        mask_eq_exp_minus_1)
  have "riscv_virtual_irq_mask c AND riscv_supervisor_irq_mask c = 0"
    by (simp add: riscv_supervisor_irq_mask_def riscv_virtual_irq_mask_def)
  moreover have "mstatus_ok c 0xA00000000" by (simp add: mstatus_ok_def bit_lits) (auto simp: bit_lits)
  moreover have "0xA00000000 AND SSTATUS_RMASK c = 0x200000000" by (simp add: SSTATUS_RMASK_def)
  ultimately show ?thesis by (simp add: csr_coherent_def regs and.assoc)
qed

text \<open>
  C15. The gate changes nothing. From a state with coherent CSRs, as a power-on leaves them, or one whose
  CSRs are marked dirty, any number of steps of the emulator with its gate gives the same state, or the
  same panic, as the emulator that normalises the CSRs after every instruction: each instruction of every
  group, floating-point and vector ones included, that changes a register the normalisation looks at
  has recorded a CSR write or set \<open>csr_dirty\<close>, and every trap, interrupt and memory fault sets it.
\<close>

theorem commit_gate_sound:
  assumes "csr_coherent c s \<or> cpu_csr_dirty (cpu s)"
  shows "execute c (fp_vector_exec sf c) n s = execute_always c (fp_vector_exec sf c) n s"
proof -
  have "gate_ready c s" using assms by (auto simp: gate_ready_def)
  then show ?thesis
  proof (induction n arbitrary: s)
    case (Suc n)
    note step = nemu_step_gate [OF Suc.prems, of sf]
    show ?case
      using Suc.IH step(2) by (cases "nemu_step c (fp_vector_exec sf c) s") (simp_all add: step(1) [symmetric])
  qed simp
qed

text \<open>A standalone build from power-on.\<close>

lemma commit_gate_sound_witness:
  "\<forall>sf. let c = riscv64_ref_config\<lparr>target_share := False\<rparr>; s = restart c
      \<lparr>boot_from_flash = False, config_rom_dtb = False, pc_reset_offset = 0\<rparr> 0 nemu_static in
    execute c (fp_vector_exec sf c) 1000 s = execute_always c (fp_vector_exec sf c) 1000 s"
proof -
  have "sr nemu_static = (\<lambda>_. 0)" by (simp add: nemu_static_def cpu_static_def sr_def fun_eq_iff)
  then show ?thesis
    unfolding Let_def using commit_gate_sound [OF disjI1 [OF csr_coherent_restart]] by blast
qed

end
