(* ===== verification/Ref_Run.thy ===== *)
theory Ref_Run
  imports Hart_Run Machine
begin

text \<open>
  The reference machine from power-on, with its floating-point and vector groups, under every sequence
  of calls of the simulator: it aborts on a memory copy outside the memory regions and on nothing else,
  and the hart stays well-formed.
\<close>

unbundle bit_operations_syntax

text \<open>A copy the reference can serve: the assertions of \<open>difftest_memcpy\<close> hold.\<close>

fun copy_ok :: "config \<Rightarrow> ref_call \<Rightarrow> bool" where
  "copy_ok c (Memcpy a bs) = difftest_span_ok c a (length bs)"
| "copy_ok c call = True"

lemma ref_side_copy: "\<forall>n. call \<noteq> Exec n \<Longrightarrow> ref_side c call s = None \<longleftrightarrow> \<not> copy_ok c call"
  by (cases call) (simp_all add: difftest_memcpy_to_ref_def)

lemma ref_step_run:
  assumes "rv_svade c" and "memory_map_gap c" and "hart_ok c (snd w)" and "call_ok c call"
  shows "case ref_step c (fp_vector_exec sf c) call w of
      None \<Rightarrow> \<not> copy_ok c call | Some w' \<Rightarrow> copy_ok c call \<and> hart_ok c (snd w')"
proof (cases "\<exists>n. call = Exec n")
  case True
  then obtain n where n: "call = Exec n" by blast
  obtain t where "execute c (fp_vector_exec sf c) n (snd w) = Some t" "hart_ok c t"
    using execute_runs [OF assms(1-3)] by blast
  with assms(3) show ?thesis
    by (cases w) (simp add: n difftest_exec_def cpu_exec_def)
next
  case False
  then have "ref_step c (fp_vector_exec sf c) call w = map_option (Pair (fst w)) (ref_side c call (snd w))"
    by (cases call) simp_all
  then show ?thesis
    using ref_side_copy [of call c "snd w"] hart_ok_side [OF assms(3,4)] False
    by (auto split: option.split)
qed

lemma ref_run_calls:
  assumes "rv_svade c" and "memory_map_gap c" and "hart_ok c (snd w)" and "list_all (call_ok c) calls"
  shows "case ref_run c (fp_vector_exec sf c) calls w of
      None \<Rightarrow> \<not> list_all (copy_ok c) calls | Some w' \<Rightarrow> list_all (copy_ok c) calls \<and> hart_ok c (snd w')"
  using assms(3,4)
proof (induction calls arbitrary: w)
  case (Cons call calls)
  from Cons.prems have ok: "call_ok c call" "list_all (call_ok c) calls" by simp_all
  note step = ref_step_run [OF assms(1,2) Cons.prems(1) ok(1), of sf]
  show ?case
  proof (cases "ref_step c (fp_vector_exec sf c) call w")
    case (Some u)
    with step Cons.IH [OF _ ok(2), of u] show ?thesis by (auto split: option.splits)
  qed (use step in simp)
qed simp

text \<open>
  C34 (the reference under its calls). In the reference memory map with Svade, from power-on, the
  simulator may call the reference in any order: runs of instructions, interrupts, level changes, memory
  copies, store errors, resynchronisations and checkpoints. Of the states it copies or restores it is
  asked what \<open>call_ok\<close> says: \<open>x0\<close> is zero and \<open>mstatus.MPP\<close> names a mode, and a checkpoint has a legal
  privilege level and legal PMP configuration bytes and, in builds with the H preview, is not one of
  M-mode (it carries no virtualisation mode). Then the reference aborts exactly if a memory copy is not
  within one memory region, whatever the programs it runs and the SoftFloat results are. If it does not,
  the hart it ends with is well-formed: a real privilege level, virtual mode only below M-mode and with
  the H extension, a legal \<open>mstatus.MPP\<close>, a zero \<open>x0\<close>, a reservation of 0, 4 or 8 bytes, legal PMP
  configurations, and PMP match data that agree with the PMP registers.
\<close>

theorem reference_well_formed:
  assumes "rv_svade c" and "memory_map_gap c" and "process_start s0"
    and "difftest_init c b (g, s0) = Some (g', s)" and "list_all (call_ok c) calls"
  shows "case ref_run c (fp_vector_exec sf c) calls (NEMU_STOP, s) of
      None \<Rightarrow> \<not> list_all (copy_ok c) calls
    | Some (r, t) \<Rightarrow> list_all (copy_ok c) calls \<and>
        priv t \<in> {PRV_U, PRV_S, PRV_M} \<and>
        (virt t \<longrightarrow> riscv_h_gstage_preview_enabled c \<and> priv t \<noteq> PRV_M) \<and>
        mpp_of (sr t CSR_MSTATUS) \<noteq> 2 \<and> gpr t 0 = 0 \<and> cpu_reservation_bytes (cpu t) \<in> {0, 4, 8} \<and>
        pmp_legal c t \<and> pmp_inv c t"
proof -
  have "hart_ok c (snd (NEMU_STOP, s))" using hart_ok_init [OF assms(3,4)] by simp
  from ref_run_calls [OF assms(1,2) this assms(5), of sf] show ?thesis
    by (auto simp: hart_ok_def hart_base_def mode_ok_def mpp_ok_def pmp_ok_def split: option.splits)
qed

text \<open>
  The reference configuration, started and run for ten instructions with an interrupt level raised, and
  the same with a copy that starts below RAM.
\<close>

definition demo_boot :: boot_options where
  "demo_boot = \<lparr>boot_from_flash = False, config_rom_dtb = False, pc_reset_offset = 0\<rparr>"

definition demo_calls :: "ref_call list" where
  "demo_calls = [Set_mtip True, Memcpy 0x80000000 [0x13, 0, 0, 0], Exec 10, Clear_reservation]"

theorem reference_well_formed_witness:
  "\<forall>sf. \<exists>g s r t. difftest_init riscv64_ref_config demo_boot (\<lparr>sel_extensions = 0, sel_locked = False\<rparr>, nemu_static) =
      Some (g, s) \<and>
    ref_run riscv64_ref_config (fp_vector_exec sf riscv64_ref_config) demo_calls (NEMU_STOP, s) = Some (r, t) \<and>
    mpp_of (sr t CSR_MSTATUS) \<noteq> 2"
proof
  fix sf
  let ?c = riscv64_ref_config
  have start: "process_start nemu_static"
    using nemu_static_boot by (simp add: process_start_def mpp_ok_bits nemu_static_def cpu_static_def sr_def)
  obtain g s where i: "difftest_init ?c demo_boot (\<lparr>sel_extensions = 0, sel_locked = False\<rparr>, nemu_static) =
      Some (g, s)"
    by (simp add: difftest_init_def init_isa_def guest_backed_def in_pmem_def RESET_VECTOR_def PMEM_LEFT_def
        PMEM_RIGHT_def demo_boot_def riscv64_ref_config_def Let_def)
  have "list_all (call_ok ?c) demo_calls" by (simp add: demo_calls_def)
  note ok = reference_well_formed [OF demo_kconfig(2) kconfig_ref_gap start i this, of sf]
  have "list_all (copy_ok ?c) demo_calls"
    by (simp add: demo_calls_def difftest_span_ok_def Let_def in_pmem_def PMEM_LEFT_def PMEM_RIGHT_def
        riscv64_ref_config_def)
  with ok i show "\<exists>g s r t. difftest_init ?c demo_boot (\<lparr>sel_extensions = 0, sel_locked = False\<rparr>, nemu_static) =
      Some (g, s) \<and> ref_run ?c (fp_vector_exec sf ?c) demo_calls (NEMU_STOP, s) = Some (r, t) \<and>
      mpp_of (sr t CSR_MSTATUS) \<noteq> 2"
    by (auto split: option.splits)
qed

end
