(* ===== verification/Vec_Correct.thy ===== *)
theory Vec_Correct
  imports Vec_Effect Vaddr_Correct Demo
begin

text \<open>
  The element-wise vector instructions against their specification: element \<open>k\<close> of the result depends
  on elements \<open>k\<close> of the operands before the instruction.
\<close>

unbundle bit_operations_syntax

section \<open>Elements of the register file\<close>

lemma bit_snapshot_read:
  assumes "b \<le> 8"
  shows "bit (vector_snapshot_read r reg index b) n \<longleftrightarrow>
     n < 8 * b \<and> bit (r (reg + index * b div 16) (index * b mod 16 + n div 8)) (n mod 8)"
proof -
  let ?g = "\<lambda>j. push_bit (8 * j) (ucast (r (reg + index * b div 16) (index * b mod 16 + j))) :: word_t"
  have g: "bit (?g j) n \<longleftrightarrow> n div 8 = j \<and>
      bit (r (reg + index * b div 16) (index * b mod 16 + n div 8)) (n mod 8)" if "j < b" for j
  proof -
    have "bit (?g j) n \<longleftrightarrow> 8 * j \<le> n \<and> n < 64 \<and>
        bit (r (reg + index * b div 16) (index * b mod 16 + j)) (n - 8 * j)"
      using assms that by (auto simp: bit_simps dest: bit_imp_le_length)
    moreover have "8 * j \<le> n \<and> n < 8 * j + 8 \<longleftrightarrow> n div 8 = j" by auto
    moreover have "n - 8 * j < 8 \<Longrightarrow> 8 * j \<le> n \<Longrightarrow> n - 8 * j = n mod 8 \<and> n div 8 = j"
      by presburger
    ultimately show ?thesis
      using assms that bit_imp_le_length [of "r (reg + index * b div 16) (index * b mod 16 + j)" "n - 8 * j"]
      by auto
  qed
  have "bit (vector_snapshot_read r reg index b) n \<longleftrightarrow> (\<exists>j\<in>{0..<b}. bit (?g j) n)"
    by (simp add: vector_snapshot_read_def Let_def bit_or_fold)
  also have "\<dots> \<longleftrightarrow> n div 8 < b \<and> bit (r (reg + index * b div 16) (index * b mod 16 + n div 8)) (n mod 8)"
    using g by auto
  finally show ?thesis by (auto simp: less_mult_imp_div_less mult.commute)
qed

lemma fold_upd_cells:
  "fold (\<lambda>j d. d(c + j := f j)) [0..<b] d x = (if c \<le> x \<and> x < c + b then f (x - c) else d x)"
  by (induction b) auto

lemma vregs_write_cell:
  "vregs_write reg index b v r row x =
     (if row = reg + index * b div 16 \<and> index * b mod 16 \<le> x \<and> x < index * b mod 16 + b
      then ucast (drop_bit (8 * (x - index * b mod 16)) v) else r row x)"
  by (simp add: vregs_write_def Let_def fold_upd_cells)

lemma elem_mask_eq: "n \<le> 64 \<Longrightarrow> elem_mask n = mask n"
  by (auto simp: elem_mask_def mask_eq_exp_minus_1 push_bit_eq_mult)

lemma bit_elem_mask: "n \<le> 64 \<Longrightarrow> bit (elem_mask n) k \<longleftrightarrow> k < 64 \<and> k < n"
  by (simp add: elem_mask_eq bit_mask_iff)

lemma element_write_same:
  assumes "b \<le> 8"
  shows "vector_snapshot_read (vregs_write reg k b v r) reg k b = v AND elem_mask (8 * b)"
proof (rule bit_word_eqI)
  fix n assume "n < LENGTH(64)"
  have "8 * (n div 8) + n mod 8 = n" by simp
  then show "bit (vector_snapshot_read (vregs_write reg k b v r) reg k b) n = bit (v AND elem_mask (8 * b)) n"
    using assms by (auto simp: bit_snapshot_read bit_elem_mask vregs_write_cell bit_simps
        less_mult_imp_div_less mult.commute dest: bit_imp_le_length)
qed

lemma element_write_other:
  assumes b: "b \<in> {1, 2, 4, 8}" and ne: "16 * reg + j * b \<noteq> 16 * reg' + k * b"
  shows "vector_snapshot_read (vregs_write reg j b v r) reg' k b = vector_snapshot_read r reg' k b"
proof -
  have b8: "b \<le> 8" using b by auto
  have d: "b dvd 16" using b by auto
  have cell: "vregs_write reg j b v r (reg' + k * b div 16) (k * b mod 16 + x) =
      r (reg' + k * b div 16) (k * b mod 16 + x)" if x: "x < b" for x
  proof (cases "reg' + k * b div 16 = reg + j * b div 16")
    case True
    obtain y z where y: "j * b mod 16 = b * y" and z: "k * b mod 16 = b * z"
      using d by (metis dvd_def dvd_mod dvd_triv_right)
    have "16 * reg + j * b = 16 * (reg + j * b div 16) + b * y"
      "16 * reg' + k * b = 16 * (reg' + k * b div 16) + b * z"
      unfolding y [symmetric] z [symmetric] by (simp_all add: algebra_simps)
    with ne True have "y \<noteq> z" by auto
    then have "b * Suc y \<le> b * z \<or> b * Suc z \<le> b * y" by (simp del: mult_Suc_right) linarith
    with x show ?thesis unfolding vregs_write_cell y z by auto
  qed (simp add: vregs_write_cell)
  have "n div 8 < b" if "n < 8 * b" for n using that by (simp add: less_mult_imp_div_less mult.commute)
  then show ?thesis
    by (intro bit_word_eqI) (auto simp: bit_snapshot_read [OF b8] cell)
qed


text \<open>Aligned groups: two elements at the same place have the same index.\<close>

lemma group_apart:
  assumes "vector_group_valid d g" and "vector_group_valid e g" and "0 < b"
    and "Suc j * b \<le> 16 * g" and "Suc k * b \<le> 16 * g" and "j \<noteq> k"
  shows "16 * d + j * b \<noteq> 16 * e + k * b"
proof -
  obtain x y where d: "d = g * x" and e: "e = g * y"
    using assms(1,2) unfolding vector_group_valid_def by (meson dvd_def mod_0_imp_dvd)
  have j: "j * b < 16 * g" and k: "k * b < 16 * g" using assms(3-5) by auto
  show ?thesis
  proof (cases "x = y")
    case True
    then show ?thesis using assms(3,6) by (simp add: d e)
  next
    case False
    then have "x + 1 \<le> y \<or> y + 1 \<le> x" by auto
    then have "g * x + g \<le> g * y \<or> g * y + g \<le> g * x"
      by (metis mult_le_mono2 distrib_left mult.right_neutral)
    then show ?thesis unfolding d e using j k by auto
  qed
qed

section \<open>The element-wise classes\<close>

text \<open>The encodings of the last part of the function that write elements, not mask bits.\<close>

definition vc_writes :: "uint32_t \<Rightarrow> bool" where
  "vc_writes i \<longleftrightarrow> vc_known i \<and> \<not> vc_extract i \<and> \<not> vc_compare (v_func i) (v_form i) \<and>
     \<not> vc_mask_logic (v_func i) (v_form i) (v_unmasked i) \<and>
     \<not> (vc_carry (v_func i) (v_form i) (v_unmasked i) \<and> bit (v_func i) 0)"

definition vc_active :: "uint32_t \<Rightarrow> nemu \<Rightarrow> nat \<Rightarrow> bool" where
  "vc_active i s k \<longleftrightarrow> v_unmasked i \<or> vc_merge i \<or> vc_carry (v_func i) (v_form i) (v_unmasked i) \<or>
     vmask_get (vregs_of s) 0 k"

definition vc_operand2 :: "uint32_t \<Rightarrow> nemu \<Rightarrow> nat \<Rightarrow> word_t" where
  "vc_operand2 i s k =
     (if vc_reads_vector i then vector_snapshot_read (vregs_of s) (v_src2 i) k (v_bytes s) else 0)"

definition vc_vector1 :: "uint32_t \<Rightarrow> bool" where
  "vc_vector1 i \<longleftrightarrow> v_form i = 0 \<or>
     (v_form i = 2 \<and> (vc_muldiv (v_func i) (v_form i) \<or> vc_averaging (v_func i) (v_form i)))"

definition vc_operand1 :: "uint32_t \<Rightarrow> nemu \<Rightarrow> nat \<Rightarrow> word_t" where
  "vc_operand1 i s k =
     (if vc_vector1 i then vector_snapshot_read (vregs_of s) (v_src1 i) k (v_bytes s) else vc_scalar i s)"

definition vc_value :: "uint32_t \<Rightarrow> nemu \<Rightarrow> nat \<Rightarrow> word_t \<times> bool" where
  "vc_value i s k =
     vc_element i (v_bytes s * 8) (unat (sr s CSR_VXRM AND 3)) (vmask_get (vregs_of s) 0 k)
       (vc_operand2 i s k) (vc_operand1 i s k)"

text \<open>The registers after the elements \<open>ks\<close>, with every operand from the entry state.\<close>

definition vc_regs :: "uint32_t \<Rightarrow> nemu \<Rightarrow> nat list \<Rightarrow> vregs" where
  "vc_regs i s ks =
     fold (\<lambda>k r. if vc_active i s k then vregs_write (v_dest i) k (v_bytes s) (fst (vc_value i s k)) r else r)
       ks (vregs_of s)"

definition vc_sat :: "uint32_t \<Rightarrow> nemu \<Rightarrow> nat list \<Rightarrow> bool" where
  "vc_sat i s ks \<longleftrightarrow> (\<exists>k\<in>set ks. vc_active i s k \<and> snd (vc_value i s k))"

definition vc_state :: "uint32_t \<Rightarrow> nemu \<Rightarrow> nat list \<Rightarrow> nemu" where
  "vc_state i s ks =
     (let u = set_vregs (vc_regs i s ks) s in
      if vc_sat i s ks then set_sr CSR_VCSR (push_bit 1 (sr s CSR_VXRM) OR 1) (set_sr CSR_VXSAT 1 u) else u)"

lemma vc_element_unmasked:
  "v_unmasked i \<Longrightarrow> vc_element i bits vx m v w = vc_element i bits vx m' v w"
  by (simp add: vc_element_def vc_merge_def Let_def)

lemma vc_regs_read:
  assumes len: "vlen_ok s" and d: "vector_group_valid (v_dest i) (v_group s)"
    and r: "vector_group_valid reg (v_group s)" and k: "Suc k * v_bytes s \<le> 16 * v_group s"
    and ks: "\<And>j. j \<in> set ks \<Longrightarrow> Suc j * v_bytes s \<le> 16 * v_group s \<and> j \<noteq> k"
  shows "vector_snapshot_read (vc_regs i s ks) reg k (v_bytes s) =
    vector_snapshot_read (vregs_of s) reg k (v_bytes s)"
proof -
  note b = v_bytes_cases [OF len]
  have b0: "0 < v_bytes s" using b by auto
  have "vector_snapshot_read (fold (\<lambda>k r. if vc_active i s k
      then vregs_write (v_dest i) k (v_bytes s) (fst (vc_value i s k)) r else r) ks q) reg k (v_bytes s) =
    vector_snapshot_read q reg k (v_bytes s)" for q
    using ks
  proof (induction ks arbitrary: q)
    case (Cons j js)
    have j: "Suc j * v_bytes s \<le> 16 * v_group s" "j \<noteq> k" using Cons.prems [of j] by simp_all
    from Cons show ?case
      using element_write_other [OF b group_apart [OF d r b0 j(1) k j(2)]] by simp
  qed simp
  then show ?thesis by (simp add: vc_regs_def)
qed

lemma vc_regs_row:
  assumes len: "vlen_ok s" and r: "r \<notin> {v_dest i..<v_dest i + v_group s}"
    and ks: "\<And>j. j \<in> set ks \<Longrightarrow> Suc j * v_bytes s \<le> 16 * v_group s"
  shows "vc_regs i s ks r = vregs_of s r"
proof -
  have "0 < v_bytes s" using v_bytes_cases [OF len] by auto
  then have row: "r \<noteq> v_dest i + j * v_bytes s div 16" if "j \<in> set ks" for j
    using r ks [OF that] by (auto simp: less_mult_imp_div_less)
  have "fold (\<lambda>k r. if vc_active i s k
      then vregs_write (v_dest i) k (v_bytes s) (fst (vc_value i s k)) r else r) ks q r = q r" for q
    using row by (induction ks arbitrary: q) (auto simp: vregs_write_def Let_def)
  then show ?thesis by (simp add: vc_regs_def)
qed

lemma vlmax_group:
  assumes len: "vlen_ok s" and k: "k < vector_vlmax (sr s CSR_VTYPE)"
  shows "Suc k * v_bytes s \<le> 16 * v_group s"
proof -
  let ?m = "vector_vlmax (sr s CSR_VTYPE)"
  have "?m * v_bytes s * 8 = 16 * 2 ^ nat (v_lmul s + 3)"
    using len vlmax_product(1) [of "sr s CSR_VTYPE"] by (simp add: vlen_ok_def v_bytes_def v_lmul_def)
  moreover have "2 ^ nat (v_lmul s + 3) \<le> 8 * v_group s"
  proof (cases "v_lmul s > 0")
    case True
    then have "nat (v_lmul s + 3) = nat (v_lmul s) + 3" by simp
    with True show ?thesis by (simp add: v_group_regs vgroup_regs_def power_add)
  next
    case False
    then have "(2::nat) ^ nat (v_lmul s + 3) \<le> 2 ^ 3" by (intro power_increasing) auto
    with False show ?thesis by (simp add: v_group_regs vgroup_regs_def)
  qed
  ultimately have "?m * v_bytes s \<le> 16 * v_group s" by linarith
  moreover have "Suc k * v_bytes s \<le> ?m * v_bytes s" using k by (intro mult_right_mono) auto
  ultimately show ?thesis by simp
qed

lemma vc_state_simps:
  "vregs_of (vc_state i s ks) = vc_regs i s ks" "vl_of (vc_state i s ks) = vl_of s"
  "sr (vc_state i s ks) CSR_VXRM = sr s CSR_VXRM"
  "sr (vc_state i s ks) CSR_VXSAT = (if vc_sat i s ks then 1 else sr s CSR_VXSAT)"
  by (auto simp: vc_state_def vregs_of_def vl_of_def set_vregs_def sr_def set_sr_def Let_def)

lemma vc_regs_snoc:
  "vc_regs i s (ks @ [k]) =
     (if vc_active i s k then vregs_write (v_dest i) k (v_bytes s) (fst (vc_value i s k)) (vc_regs i s ks)
      else vc_regs i s ks)"
  by (simp add: vc_regs_def)

lemma vc_state_snoc:
  "vc_state i s (ks @ [k]) =
     (let t = vc_state i s ks in
      if vc_active i s k
      then let u = set_vregs (vregs_write (v_dest i) k (v_bytes s) (fst (vc_value i s k)) (vregs_of t)) t
           in if snd (vc_value i s k)
              then set_sr CSR_VCSR (push_bit 1 (sr u CSR_VXRM) OR 1) (set_sr CSR_VXSAT 1 u) else u
      else t)"
  by (auto simp: vc_state_simps vc_regs_snoc vc_state_def vc_sat_def set_vregs_def vregs_of_def
      set_sr_def sr_def Let_def fun_upd_twist)

section \<open>One element\<close>

lemma vc_accepted:
  assumes "vc_writes i" and "\<not> vc_rejected i g"
  shows "vector_group_valid (v_dest i) g" and "v_unmasked i \<or> v_dest i \<noteq> 0"
    and "vc_reads_vector i \<Longrightarrow> vector_group_valid (v_src2 i) g"
    and "vc_vector1 i \<Longrightarrow> vector_group_valid (v_src1 i) g"
  using assms by (auto simp: vc_writes_def vc_rejected_def vc_vector1_def Let_def)

lemma vc_mask_kept:
  assumes "vlen_ok s" and "vector_group_valid (v_dest i) (v_group s)" and "v_dest i \<noteq> 0"
    and "\<And>j. j \<in> set ks \<Longrightarrow> Suc j * v_bytes s \<le> 16 * v_group s"
  shows "vmask_get (vc_regs i s ks) 0 k = vmask_get (vregs_of s) 0 k"
  using assms by (simp add: vmask_get_def vc_regs_row)

lemma vread_app [simp]:
  "vspan_ok reg k b \<Longrightarrow> vector_element_read reg k b s = (Inr (vector_snapshot_read (vregs_of s) reg k b), s)"
  by (simp add: vector_element_read_def vsnap_def mem_defs)

lemma vwrite_app [simp]:
  "vspan_ok reg k b \<Longrightarrow>
    vector_element_write reg k b v s = (Inr (), set_vregs (vregs_write reg k b v (vregs_of s)) s)"
  by (simp add: vector_element_write_def)

lemma vmask_bit_app [simp]:
  "vmask_ok reg k \<Longrightarrow> vector_mask_bit reg k s = (Inr (vmask_get (vregs_of s) reg k), s)"
  by (simp add: vector_mask_bit_def)

lemma if_app: "(if b then f else g) x = (if b then f x else g x)"
  by simp

lemma vc_step:
  assumes len: "vlen_ok s" and w: "vc_writes i" and ok: "\<not> vc_rejected i (v_group s)"
    and k: "k < vector_vlmax (sr s CSR_VTYPE)"
    and ks: "\<And>j. j \<in> set ks \<Longrightarrow> j < vector_vlmax (sr s CSR_VTYPE) \<and> j \<noteq> k"
  shows "vc_body i s k (vc_state i s ks) = (Inr (), vc_state i s (ks @ [k]))"
proof -
  note acc = vc_accepted [OF w ok]
  let ?t = "vc_state i s ks"
  have room: "Suc k * v_bytes s \<le> 16 * v_group s" by (rule vlmax_group [OF len k])
  have rooms: "Suc j * v_bytes s \<le> 16 * v_group s \<and> j \<noteq> k" if "j \<in> set ks" for j
    using vlmax_group [OF len] ks [OF that] by blast
  have span: "vspan_ok r k (v_bytes s)" if "vector_group_valid r (v_group s)" for r
    using vspan_okI [OF v_bytes_cases [OF len] room] that by (simp add: vector_group_valid_def)
  have rd: "vector_snapshot_read (vregs_of ?t) r k (v_bytes s) = vector_snapshot_read (vregs_of s) r k (v_bytes s)"
    if "vector_group_valid r (v_group s)" for r
    using vc_regs_read [OF len acc(1) that room rooms] by (simp add: vc_state_simps)
  have m: "vector_mask_bit 0 k ?t = (Inr (vmask_get (vregs_of ?t) 0 k), ?t)"
    by (rule vmask_bit_app, rule vmask_index [OF len k]) simp
  have mk: "vmask_get (vregs_of ?t) 0 k = vmask_get (vregs_of s) 0 k" if "\<not> v_unmasked i"
    using vc_mask_kept [OF len acc(1)] acc(2) that rooms by (simp add: vc_state_simps)
  have el: "vc_element i (v_bytes s * 8) (unat (sr s CSR_VXRM AND 3)) (vmask_get (vregs_of ?t) 0 k)
      (vc_operand2 i s k) (vc_operand1 i s k) = vc_value i s k"
    unfolding vc_value_def using mk vc_element_unmasked by (cases "v_unmasked i") auto
  have r2: "(if vc_reads_vector i then vector_element_read (v_src2 i) k (v_bytes s) else mret 0) ?t =
      (Inr (vc_operand2 i s k), ?t)"
    using acc(3) span rd by (auto simp: vc_operand2_def)
  have r1: "(if v_form i = 0 \<or> (v_form i = 2 \<and> (vc_muldiv (v_func i) (v_form i) \<or> vc_averaging (v_func i) (v_form i)))
      then vector_element_read (v_src1 i) k (v_bytes s) else mret (vc_scalar i s)) ?t = (Inr (vc_operand1 i s k), ?t)"
    using acc(4) span rd unfolding vc_operand1_def vc_vector1_def [symmetric] by auto
  have act: "(\<not> v_unmasked i \<and> \<not> vc_merge i \<and> \<not> vc_carry (v_func i) (v_form i) (v_unmasked i) \<and>
      \<not> vmask_get (vregs_of ?t) 0 k) \<longleftrightarrow> \<not> vc_active i s k"
    using mk by (auto simp: vc_active_def)
  obtain r b where v: "vc_value i s k = (r, b)" by (rule prod.exhaust)
  have "vc_body i s k ?t =
      (if \<not> vc_active i s k then mret ()
       else case vc_value i s k of (r, b) \<Rightarrow>
         mseq (vector_element_write (v_dest i) k (v_bytes s) r) (vector_set_vxsat b)) ?t"
    using w unfolding vc_body_def Let_def vc_writes_def
    by (simp only: mbind_app m prod.case sum.case act if_app r1 [unfolded if_app] r2 [unfolded if_app] el simp_thms if_False refl if_cancel cong: if_cong)
  also have "\<dots> = (Inr (), vc_state i s (ks @ [k]))"
    unfolding vc_state_snoc by (simp add: v mseq_def span [OF acc(1)] vector_set_vxsat_def Let_def)
  finally show ?thesis .
qed

section \<open>The whole instruction\<close>

lemma vc_loop:
  assumes len: "vlen_ok s" and w: "vc_writes i" and ok: "\<not> vc_rejected i (v_group s)"
    and ks: "\<And>j. j \<in> set (js @ ks) \<Longrightarrow> j < vector_vlmax (sr s CSR_VTYPE)" and "distinct (js @ ks)"
  shows "mfor ks (vc_body i s) (vc_state i s js) = (Inr (), vc_state i s (js @ ks))"
  using ks \<open>distinct (js @ ks)\<close>
proof (induction ks arbitrary: js)
  case (Cons k ks)
  have "vc_body i s k (vc_state i s js) = (Inr (), vc_state i s (js @ [k]))"
    using Cons.prems by (intro vc_step len w ok) auto
  with Cons.IH [of "js @ [k]"] Cons.prems show ?case by (simp add: mseq_def)
qed simp

lemma vc_state_Nil [simp]: "vc_state i s [] = s"
  by (simp add: vc_state_def vc_regs_def vc_sat_def set_vregs_def vregs_of_def)

lemma vbody_props:
  "vlen_ok s \<Longrightarrow> j \<in> set (vbody s) \<Longrightarrow> j < vector_vlmax (sr s CSR_VTYPE)" "distinct (vbody s)"
  by (auto simp: vbody_less) (simp add: vbody_def)

lemma elementwise_run:
  assumes "vlen_ok s" and "vc_writes i" and "\<not> vc_rejected i (v_group s)"
  shows "vx_elementwise i s s =
    (Inr True, set_csr_dirty True (vector_mark_dirty False (set_sr CSR_VSTART 0 (vc_state i s (vbody s)))))"
proof -
  have "mfor (vbody s) (vc_body i s) s = (Inr (), vc_state i s (vbody s))"
    using vc_loop [OF assms, of "[]" "vbody s"] vbody_props assms(1) by simp
  then show ?thesis
    using assms(2,3) by (simp add: vx_elementwise_def vc_writes_def mseq_def vector_finish_def)
qed

text \<open>The element \<open>k\<close> of the registers after the body.\<close>

lemma vc_regs_element:
  assumes len: "vlen_ok s" and d: "vector_group_valid (v_dest i) (v_group s)"
    and ks: "\<And>j. j \<in> set ks \<Longrightarrow> Suc j * v_bytes s \<le> 16 * v_group s" and "distinct ks"
    and k: "Suc k * v_bytes s \<le> 16 * v_group s"
  shows "vector_snapshot_read (vc_regs i s ks) (v_dest i) k (v_bytes s) =
    (if k \<in> set ks \<and> vc_active i s k then fst (vc_value i s k) AND elem_mask (8 * v_bytes s)
     else vector_snapshot_read (vregs_of s) (v_dest i) k (v_bytes s))"
  using ks \<open>distinct ks\<close>
proof (induction ks rule: rev_induct)
  case (snoc j ks)
  note b = v_bytes_cases [OF len]
  have b0: "0 < v_bytes s" and b8: "v_bytes s \<le> 8" using b by auto
  have room: "Suc j * v_bytes s \<le> 16 * v_group s" using snoc.prems by simp
  show ?case
  proof (cases "j = k")
    case True
    with snoc show ?thesis by (simp add: vc_regs_snoc element_write_same [OF b8])
  next
    case False
    then have "16 * v_dest i + j * v_bytes s \<noteq> 16 * v_dest i + k * v_bytes s" using b0 by simp
    with False snoc show ?thesis by (simp add: vc_regs_snoc element_write_other [OF b])
  qed
qed (simp add: vc_regs_def)

lemma vc_class:
  assumes "vc_known i"
  shows "vector_class c sf i s = vx_elementwise i s" and "\<not> (v_func i = 0x27 \<and> v_form i = 3)" and "v_form i \<noteq> 7"
proof -
  show "vector_class c sf i s = vx_elementwise i s" and "\<not> (v_func i = 0x27 \<and> v_form i = 3)" and "v_form i \<noteq> 7"
    using assms
    unfolding vc_known_def vc_reads_vector_def vc_integer_def vc_compare_def vc_carry_def vc_muldiv_def
      vc_saturating_def vc_averaging_def vc_scaling_shift_def vc_fractional_multiply_def vc_merge_def
      vc_mask_logic_def vc_move_def vc_extract_def
    by (elim disjE conjE insertE emptyE; simp add: vector_class_def zvbb_unary_def zvbb_binary_def vf_known_def
        vf_extract_def vf_insert_def vf_broadcast_def vf_merge_def vf_slide_def vf_computed_def vf_arithmetic_def
        vf_unary_def vf_estimate_def vf_convert_def vf_compare_def vf_integer_widen_def vf_integer_narrow_def
        vf_widening_def vf_reduction_def)+
qed

text \<open>
  C36 (element-wise vector instructions). An accepted integer, fixed-point, carry, merge or move
  instruction writes, for every element of the body that the mask selects, the operation on the
  operands as they were before the instruction, cut to the element width, even where the destination
  group is a source; it leaves every other element of the destination group and all other vector
  registers as they were, sets \<open>vxsat\<close> exactly when one of the selected elements saturated, keeps
  \<open>vl\<close> and resets \<open>vstart\<close>.
\<close>

theorem vector_elementwise:
  assumes ctx: "riscv_vector_context_enabled c s" and len: "vlen_ok s"
    and w: "vc_writes i" and ok: "\<not> vc_rejected i (v_group s)"
  shows "\<exists>t. riscv_vector_execute c sf i s = (Inr True, t) \<and>
    (\<forall>k. Suc k * v_bytes s \<le> 16 * v_group s \<longrightarrow>
      vector_snapshot_read (vregs_of t) (v_dest i) k (v_bytes s) =
        (if k \<in> set (vbody s) \<and> vc_active i s k then fst (vc_value i s k) AND elem_mask (8 * v_bytes s)
         else vector_snapshot_read (vregs_of s) (v_dest i) k (v_bytes s))) \<and>
    (\<forall>r. r \<notin> {v_dest i..<v_dest i + v_group s} \<longrightarrow> vregs_of t r = vregs_of s r) \<and>
    sr t CSR_VXSAT =
      (if \<exists>k\<in>set (vbody s). vc_active i s k \<and> snd (vc_value i s k) then 1 else sr s CSR_VXSAT) \<and>
    sr t CSR_VSTART = 0 \<and> vl_of t = vl_of s"
proof -
  let ?u = "vc_state i s (vbody s)"
  let ?t = "set_csr_dirty True (vector_mark_dirty False (set_sr CSR_VSTART 0 ?u))"
  have known: "vc_known i" using w by (simp add: vc_writes_def)
  have run: "riscv_vector_execute c sf i s = (Inr True, ?t)"
    using ctx len vc_class [OF known] elementwise_run [OF len w ok]
    by (auto simp: riscv_vector_execute_def vlen_ok_def mbind_app)
  have regs: "vregs_of ?t = vc_regs i s (vbody s)"
    and sat: "sr ?t CSR_VXSAT = (if vc_sat i s (vbody s) then 1 else sr s CSR_VXSAT)"
    and vs: "sr ?t CSR_VSTART = 0" and vl: "vl_of ?t = vl_of s"
    using vc_state_simps [of i s "vbody s"]
    by (simp_all add: vregs_of_def sr_def vl_of_def set_csr_dirty_def vector_mark_dirty_def set_sr_def Let_def)
  note d = vc_accepted(1) [OF w ok]
  have room: "Suc j * v_bytes s \<le> 16 * v_group s" if "j \<in> set (vbody s)" for j
    using vlmax_group [OF len vbody_props(1) [OF len that]] .
  have el: "vector_snapshot_read (vregs_of ?t) (v_dest i) k (v_bytes s) =
        (if k \<in> set (vbody s) \<and> vc_active i s k then fst (vc_value i s k) AND elem_mask (8 * v_bytes s)
         else vector_snapshot_read (vregs_of s) (v_dest i) k (v_bytes s))"
    if "Suc k * v_bytes s \<le> 16 * v_group s" for k
    unfolding regs by (rule vc_regs_element [OF len d room vbody_props(2) that])
  have row: "vregs_of ?t r = vregs_of s r" if "r \<notin> {v_dest i..<v_dest i + v_group s}" for r
    unfolding regs by (rule vc_regs_row [OF len that room])
  show ?thesis
    by (rule exI [of _ ?t], intro conjI allI impI) (use run el row sat vs vl in \<open>simp_all add: vc_sat_def\<close>)
qed

definition demo_vector :: nemu where
  "demo_vector = nemu_static\<lparr>cpu := cpu_static\<lparr>cpu_sr := (\<lambda>_. 0)(CSR_MSTATUS := 0x600, CSR_VTYPE := 0x10, CSR_VL := 2),
     cpu_vreg := (\<lambda>r j. if r = 2 then (if j < 4 then 0xff else if j = 4 then 5 else 0)
       else if r = 3 then (if j = 0 then 2 else if j = 4 then 7 else 0) else 0)\<rparr>\<rparr>"

lemma demo_vector_simps:
  "vl_of demo_vector = 2" "v_bytes demo_vector = 4" "v_group demo_vector = 1" "vbody demo_vector = [0, 1]"
  "vlen_ok demo_vector" "sr demo_vector CSR_VXRM = 0"
  "riscv_vector_context_enabled (demo_config\<lparr>riscv_isa_extensions := NEMU_ISA_EXT_V128_PREVIEW\<rparr>) demo_vector"
  by (simp_all add: demo_vector_def vl_of_def v_bytes_def v_group_def vbody_def vstart_of_def vlen_ok_def sr_def
      vector_vlmax_def vlmul_exp_def riscv_vector_context_enabled_def riscv_v128_preview_enabled_def
      nemu_static_def cpu_static_def Let_def upt_rec)

lemma demo_vsaddu:
  "v_dest 0x822180d7 = 1" "v_src1 0x822180d7 = 3" "v_src2 0x822180d7 = 2" "v_form 0x822180d7 = 0"
  "v_func 0x822180d7 = 0x20" "v_unmasked 0x822180d7"
  by (simp_all add: vreg_field_def v_form_def v_func_def v_unmasked_def)

text \<open>\<open>vsaddu.vv v1, v2, v3\<close> on \<open>[0xffffffff, 5]\<close> and \<open>[2, 7]\<close>.\<close>

theorem vector_elementwise_witness:
  "\<forall>sf. \<exists>t. riscv_vector_execute (demo_config\<lparr>riscv_isa_extensions := NEMU_ISA_EXT_V128_PREVIEW\<rparr>) sf 0x822180d7 demo_vector =
      (Inr True, t) \<and>
    vector_snapshot_read (vregs_of t) 1 0 4 = 0xffffffff \<and> vector_snapshot_read (vregs_of t) 1 1 4 = 12 \<and>
    vector_snapshot_read (vregs_of t) 1 2 4 = 0 \<and> sr t CSR_VXSAT = 1"
proof
  fix sf
  note ins = demo_vsaddu demo_vector_simps
  have w: "vc_writes 0x822180d7" "\<not> vc_rejected 0x822180d7 (v_group demo_vector)"
    by (simp_all add: ins vc_writes_def vc_known_def vc_reads_vector_def vc_saturating_def vc_extract_def
        vc_compare_def vc_mask_logic_def vc_carry_def vc_rejected_def vector_group_valid_def)
  have e: "vc_active 0x822180d7 demo_vector k" for k by (simp add: vc_active_def ins)
  have r: "vector_snapshot_read (vregs_of demo_vector) 2 0 4 = 0xffffffff"
    "vector_snapshot_read (vregs_of demo_vector) 3 0 4 = 2"
    "vector_snapshot_read (vregs_of demo_vector) 2 (Suc 0) 4 = 5"
    "vector_snapshot_read (vregs_of demo_vector) 3 (Suc 0) 4 = 7"
    by (simp_all add: vector_snapshot_read_def demo_vector_def vregs_of_def upt_rec)
  have v: "vc_value 0x822180d7 demo_vector 0 = (0xffffffff, True)" "vc_value 0x822180d7 demo_vector 1 = (12, False)"
    by (simp_all add: vc_value_def vc_element_def vc_operand1_def vc_operand2_def vc_vector1_def ins r vc_muldiv_def
        vc_saturating_def vc_reads_vector_def vector_saturating_result_def Let_def elem_mask_def vector_clamp_def)
  have o: "vector_snapshot_read (vregs_of demo_vector) 1 2 4 = 0"
    by (simp add: vector_snapshot_read_def demo_vector_def vregs_of_def upt_rec)
  obtain t where t: "riscv_vector_execute (demo_config\<lparr>riscv_isa_extensions := NEMU_ISA_EXT_V128_PREVIEW\<rparr>) sf 0x822180d7
        demo_vector = (Inr True, t)"
    and k: "\<And>k. Suc k * 4 \<le> 16 \<Longrightarrow> vector_snapshot_read (vregs_of t) 1 k 4 =
      (if k \<in> {0, 1} then fst (vc_value 0x822180d7 demo_vector k) AND elem_mask 32 else
       vector_snapshot_read (vregs_of demo_vector) 1 k 4)"
    and sat: "sr t CSR_VXSAT = 1"
    using vector_elementwise [OF demo_vector_simps(7,5) w, of sf] e v by (auto simp: ins)
  show "\<exists>t. riscv_vector_execute (demo_config\<lparr>riscv_isa_extensions := NEMU_ISA_EXT_V128_PREVIEW\<rparr>) sf 0x822180d7
        demo_vector = (Inr True, t) \<and>
      vector_snapshot_read (vregs_of t) 1 0 4 = 0xffffffff \<and> vector_snapshot_read (vregs_of t) 1 1 4 = 12 \<and>
      vector_snapshot_read (vregs_of t) 1 2 4 = 0 \<and> sr t CSR_VXSAT = 1"
    using t sat k [of 0] k [of 1] k [of 2] v o by (simp add: elem_mask_def)
qed

end
