(* ===== verification/Vec_Fault.thy ===== *)
theory Vec_Fault
  imports Machine Vec_Correct Mem_View
begin

text \<open>
  The outcomes of a vector load or store: which element a fault belongs to, what of the instruction is
  done by then, where \<open>vstart\<close> and \<open>vl\<close> are left, and what the instruction leaves alone. The memory path
  is walked by the locales of \<open>Mem_View\<close>.
\<close>

unbundle bit_operations_syntax

section \<open>The transfers of the elements\<close>

text \<open>The transfer of element \<open>k\<close>: its address and the accesses of its segment, nothing if it is masked off.\<close>

definition vm_transfer :: "config \<Rightarrow> uint32_t \<Rightarrow> bool \<Rightarrow> nemu \<Rightarrow> vmem_plan \<Rightarrow> nat \<Rightarrow> word_t mem" where
  "vm_transfer c i store s p k =
     vactive_acc (v_unmasked i) k 0
       (mbind (if odd (vm_mop i) then vector_element_read (v_src2 i) k (vm_bytes i)
               else mret (of_nat k * (if vm_mop i = 2 then gpr s (v_src2 i) else of_nat (vm_fields p * vm_data_bytes p))))
         (\<lambda>offset. vm_segment c i store p k (gpr s (v_src1 i) + offset)))"

text \<open>It runs with \<open>vstart\<close> at the element.\<close>

definition vm_visit :: "config \<Rightarrow> uint32_t \<Rightarrow> bool \<Rightarrow> nemu \<Rightarrow> vmem_plan \<Rightarrow> nat \<Rightarrow> word_t mem" where
  "vm_visit c i store s p k u = vm_transfer c i store s p k (set_sr CSR_VSTART (of_nat k) u)"

text \<open>The elements of a list are transferred one after the other, and none of them stops.\<close>

primrec vm_done :: "config \<Rightarrow> uint32_t \<Rightarrow> bool \<Rightarrow> nemu \<Rightarrow> vmem_plan \<Rightarrow> nat list \<Rightarrow> nemu \<Rightarrow> nemu \<Rightarrow> bool" where
  "vm_done c i store s p [] u t \<longleftrightarrow> t = u"
| "vm_done c i store s p (k # ks) u t \<longleftrightarrow>
     (\<exists>w. vm_visit c i store s p k u = (Inr 0, w) \<and> vm_done c i store s p ks w t)"

lemma vm_element_visit: "vm_element c i store s p k 0 = vm_visit c i store s p k"
  by (simp add: fun_eq_iff vm_visit_def vm_transfer_def vm_element_def Let_def mseq_app)

section \<open>What the instruction leaves alone\<close>

definition vm_rows :: "uint32_t \<Rightarrow> vmem_plan \<Rightarrow> bool \<Rightarrow> nat \<Rightarrow> bool" where
  "vm_rows i p store r \<longleftrightarrow> \<not> store \<and> v_dest i \<le> r \<and> r < v_dest i + vm_group p * vm_fields p"

text \<open>The core but the control registers, the vector registers and the reservation, which a store may drop.\<close>

definition vm_core :: "bool \<Rightarrow> cpu_state \<Rightarrow> cpu_state" where
  "vm_core store u =
     (let v = u\<lparr>cpu_sr := (\<lambda>_. 0), cpu_vreg := (\<lambda>_ _. 0)\<rparr>
      in if store then v\<lparr>cpu_reservation := 0, cpu_reservation_bytes := 0\<rparr> else v)"

lemma vm_core_gpr: "vm_core b u = vm_core b v \<Longrightarrow> cpu_gpr u = cpu_gpr v"
proof -
  have g: "cpu_gpr (vm_core b x) = cpu_gpr x" for x by (simp add: vm_core_def Let_def)
  show "vm_core b u = vm_core b v \<Longrightarrow> cpu_gpr u = cpu_gpr v" using g [of u] g [of v] by simp
qed

definition vm_kept :: "config \<Rightarrow> uint32_t \<Rightarrow> vmem_plan \<Rightarrow> bool \<Rightarrow> nemu \<Rightarrow> nemu \<Rightarrow> bool" where
  "vm_kept c i p store s t \<longleftrightarrow>
     vm_core store (cpu t) = vm_core store ((cpu s)\<lparr>cpu_csr_dirty := True\<rparr>) \<and>
     (\<forall>k. k \<notin> {CSR_VSTART, CSR_VL, CSR_MSTATUS, CSR_VSSTATUS} \<longrightarrow> sr t k = sr s k) \<and>
     sr t CSR_MSTATUS = sr s CSR_MSTATUS OR 0x600 \<and>
     sr t CSR_VSSTATUS = (if virt s then sr s CSR_VSSTATUS OR 0x600 else sr s CSR_VSSTATUS) \<and>
     (\<forall>r. \<not> vm_rows i p store r \<longrightarrow> vregs_of t r = vregs_of s r) \<and>
     (\<not> store \<and> rv_svade c \<longrightarrow> phys t = phys s)"

definition vm_frame :: "config \<Rightarrow> uint32_t \<Rightarrow> vmem_plan \<Rightarrow> bool \<Rightarrow> nemu \<Rightarrow> nemu \<Rightarrow> bool" where
  "vm_frame c i p store s t \<longleftrightarrow> vm_kept c i p store s t \<and> sr t CSR_VL = sr s CSR_VL"

text \<open>Inside element \<open>k\<close>.\<close>

definition vm_at :: "config \<Rightarrow> uint32_t \<Rightarrow> vmem_plan \<Rightarrow> bool \<Rightarrow> nemu \<Rightarrow> nat \<Rightarrow> nemu \<Rightarrow> bool" where
  "vm_at c i p store s k t \<longleftrightarrow> vm_frame c i p store s t \<and> sr t CSR_VSTART = of_nat k"

interpretation vl: core_view c "vm_at c i p store s k" for c i p store s k
proof
  fix u t :: nemu assume "vm_at c i p store s k u" and "cpu t = cpu u" and "phys t = phys u"
  then show "vm_at c i p store s k t"
    by (simp add: vm_at_def vm_frame_def vm_kept_def sr_def vregs_of_def)
next
  fix u m assume "\<not> rv_svade c" and "vm_at c i p store s k u"
  then show "vm_at c i p store s k (u\<lparr>phys := m\<rparr>)"
    by (simp add: vm_at_def vm_frame_def vm_kept_def sr_def vregs_of_def)
qed

interpretation vs: store_view c "vm_at c i p True s k" for c i p s k
proof
  fix u m assume "vm_at c i p True s k u"
  then show "vm_at c i p True s k (u\<lparr>phys := m\<rparr>)"
    by (simp add: vm_at_def vm_frame_def vm_kept_def sr_def vregs_of_def)
next
  fix u assume "vm_at c i p True s k u"
  then show "vm_at c i p True s k (set_reservation 0 0 u)"
    by (simp add: vm_at_def vm_frame_def vm_kept_def vm_core_def sr_def vregs_of_def set_reservation_def)
qed

lemma minv_mfold_in: "(\<And>k a. k \<in> set ks \<Longrightarrow> minv I (f k a)) \<Longrightarrow> minv I (mfold ks f a)"
  by (induction ks arbitrary: a) (auto intro!: mwp)

lemma vm_at_write:
  assumes "\<not> store" and "v_dest i \<le> reg" and "reg + j * b div 16 < v_dest i + vm_group p * vm_fields p"
  shows "minv (vm_at c i p store s k) (vector_element_write reg j b v)"
  using assms
  by (intro minv_vwrite)
    (auto simp: vm_at_def vm_frame_def vm_kept_def vm_core_def vm_rows_def sr_def vregs_of_def set_vregs_def
      vregs_write_def Let_def fun_eq_iff)

lemma vm_at_access:
  assumes p: "plan_ok i p" and f: "f < vm_fields p" and k: "k < vm_limit p"
  shows "minv (vm_at c i p store s k') (vm_access c i store p pr k a f)"
proof -
  have "Suc k * vm_data_bytes p \<le> 16 * vm_group p" and "0 < vm_data_bytes p"
    using p k by (auto simp: plan_ok_def host_len_def)
  then have "k * vm_data_bytes p div 16 < vm_group p" by (auto simp: less_mult_imp_div_less)
  moreover have "Suc f * vm_group p \<le> vm_fields p * vm_group p" using f by (intro mult_right_mono) auto
  ultimately have "v_dest i + f * vm_group p + k * vm_data_bytes p div 16 < v_dest i + vm_group p * vm_fields p"
    by (simp add: mult.commute)
  then have w: "minv (vm_at c i p store s k') (vector_element_write (v_dest i + f * vm_group p) k (vm_data_bytes p) v)"
    if "\<not> store" for v
    using that by (intro vm_at_write) auto
  have st: "minv (vm_at c i p store s k') (vaddr_write c x n v)" if store for x n v
    using vs.sv_vaddr_write that by simp
  show ?thesis
    unfolding vm_access_def Let_def
    by (intro mwp vl.cv_read vl.cv_side vinvs w st)
qed

lemma vm_at_segment:
  assumes "plan_ok i p" and "k < vm_limit p"
  shows "minv (vm_at c i p store s k') (vm_segment c i store p k a)"
  unfolding vm_segment_def vm_fields_loop_def
  by (intro mwp minv_mfold_in vm_at_access assms) simp_all

text \<open>One element, from a state between elements.\<close>

lemma vm_visit_outcome:
  assumes "plan_ok i p" and "k < vm_limit p" and "vm_frame c i p store s u"
    and "vm_visit c i store v p k u = (x, t)"
  shows "vm_at c i p store s k t"
proof -
  have "minv (vm_at c i p store s k) (vm_transfer c i store v p k)"
    unfolding vm_transfer_def by (intro mwp vinvs vm_at_segment assms(1,2))
  moreover have "vm_at c i p store s k (set_sr CSR_VSTART (of_nat k) u)"
    using assms(3) by (auto simp: vm_at_def vm_frame_def vm_kept_def vm_core_def vregs_of_def set_sr_def sr_def)
  ultimately show ?thesis using assms(4) unfolding vm_visit_def by (rule minvD)
qed

section \<open>The element loop\<close>

lemma vm_fold_stopped: "r \<noteq> 0 \<Longrightarrow> mfold ks (vm_element c i store v p) r u = (Inr r, u)"
proof (induction ks)
  case (Cons k ks)
  then have "vm_element c i store v p k r u = (Inr r, u)" by (simp add: vm_element_def)
  with Cons show ?case by simp
qed simp

text \<open>The loop completes, or the transfer of one element stops it after those before it completed.\<close>

lemma vm_fold_outcome:
  assumes "plan_ok i p" and "n \<le> vm_limit p" and "vm_frame c i p store s u"
    and "mfold [a..<n] (vm_element c i store v p) 0 u = (x, t)"
  shows "x = Inr 0 \<and> vm_frame c i p store s t \<and> vm_done c i store v p [a..<n] u t \<or>
    x \<noteq> Inr 0 \<and> (\<exists>k w. a \<le> k \<and> k < n \<and> vm_done c i store v p [a..<k] u w \<and>
      vm_visit c i store v p k w = (x, t) \<and> vm_at c i p store s k t)"
  using assms(3,4)
proof (induction "n - a" arbitrary: a u)
  case (Suc m)
  have a: "a < n" using Suc.hyps(2) by simp
  obtain y w where y: "vm_visit c i store v p a u = (y, w)" by (rule prod.exhaust)
  have at: "vm_at c i p store s a w"
    by (rule vm_visit_outcome [OF assms(1) _ Suc.prems(1) y]) (use a assms(2) in simp)
  have f: "mfold [a..<n] (vm_element c i store v p) 0 = mbind (vm_visit c i store v p a) (mfold [Suc a..<n] (vm_element c i store v p))"
    using a by (simp add: upt_conv_Cons vm_element_visit)
  have stop: ?case if "x = y" "t = w" "y \<noteq> Inr 0"
    using that y at a by (intro disjI2 conjI exI [of _ a] exI [of _ u]) simp_all
  show ?case
  proof (cases y)
    case (Inl e)
    with Suc.prems(2) y stop show ?thesis unfolding f by (auto simp: mbind_app)
  next
    case (Inr r)
    have run: "mfold [Suc a..<n] (vm_element c i store v p) r w = (x, t)"
      using Suc.prems(2) y Inr unfolding f by (simp add: mbind_app)
    show ?thesis
    proof (cases "r = 0")
      case True
      have fr: "vm_frame c i p store s w" using at by (simp add: vm_at_def)
      have cons: "vm_done c i store v p [a..<k] u z" if "vm_done c i store v p [Suc a..<k] w z" "a < k" for k z
        using that y Inr True by (auto simp: upt_conv_Cons)
      have "n - Suc a = m" using Suc.hyps(2) by simp
      from Suc.hyps(1) [OF this [symmetric] fr] run True show ?thesis
        using cons a by (metis Suc_le_lessD less_imp_le)
    next
      case False
      with run Inr stop show ?thesis by (auto simp: vm_fold_stopped)
    qed
  qed
qed auto

text \<open>The values a computation can return.\<close>

definition mrets :: "('a \<Rightarrow> bool) \<Rightarrow> 'a mem \<Rightarrow> bool" where
  "mrets R m \<longleftrightarrow> (\<forall>s a t. m s = (Inr a, t) \<longrightarrow> R a)"

lemma mrets_rules:
  "R a \<Longrightarrow> mrets R (mret a)" "mrets R (mthrow e)"
  "(\<And>x. mrets R (f x)) \<Longrightarrow> mrets R (mbind m f)" "mrets R n \<Longrightarrow> mrets R (mseq l n)"
  "(b \<Longrightarrow> mrets R n) \<Longrightarrow> (\<not> b \<Longrightarrow> mrets R n') \<Longrightarrow> mrets R (if b then n else n')"
  by (auto simp: mrets_def mbind_eq_Inr mseq_eq_Inr)

lemma mrets_post: "mrets Q m \<Longrightarrow> (\<And>x. Q x \<Longrightarrow> mrets R (f x)) \<Longrightarrow> mrets R (mbind m f)"
  unfolding mrets_def mbind_eq_Inr by blast

lemma mrets_mfold: "R a \<Longrightarrow> (\<And>k a. R a \<Longrightarrow> mrets R (f k a)) \<Longrightarrow> mrets R (mfold ks f a)"
proof (induction ks arbitrary: a)
  case (Cons k ks)
  then show ?case unfolding mfold.simps by (intro mrets_post [where Q = R]) simp_all
qed (simp add: mrets_rules)

definition vm_cause :: "uint32_t \<Rightarrow> bool \<Rightarrow> word_t \<Rightarrow> bool" where
  "vm_cause i store r \<longleftrightarrow> r = 0 \<or> vm_whole i \<and> r = (if store then MCA_STO_ADD_MIS else MCA_LOA_ADD_MIS)"

lemma vm_fold_cause: "mrets (vm_cause i store) (mfold ks (vm_element c i store v p) 0)"
proof -
  have acc: "mrets (vm_cause i store) (vm_access c i store p pr k a f)" for pr k a f
    unfolding vm_access_def Let_def by (intro mrets_rules) (simp_all add: vm_cause_def)
  have fields: "mrets (vm_cause i store) (vm_fields_loop c i store p pr k a)" for pr k a
    unfolding vm_fields_loop_def by (intro mrets_mfold mrets_rules acc) (simp_all add: vm_cause_def)
  have seg: "mrets (vm_cause i store) (vm_segment c i store p k a)" for k a
    unfolding vm_segment_def by (intro mrets_post [where Q = "vm_cause i store"] mrets_rules fields) (simp_all add: vm_cause_def)
  have "mrets (vm_cause i store) (vm_element c i store v p k r)" if "vm_cause i store r" for k r
    unfolding vm_element_def vactive_acc_def Let_def by (intro mrets_rules seg that) (simp add: vm_cause_def)
  then show ?thesis by (intro mrets_mfold) (simp_all add: vm_cause_def)
qed

lemma vregs_of_set_sr: "vregs_of (set_sr k v s) = vregs_of s"
  by (simp add: vregs_of_def set_sr_def)

lemma vm_core_set_sr: "vm_core store (cpu (set_sr k v s)) = vm_core store (cpu s)"
  by (simp add: vm_core_def set_sr_def)

text \<open>The loop with its reset of \<open>vstart\<close>.\<close>

lemma vm_loop_outcome:
  assumes "plan_ok i p" and "vm_frame c i p store s u" and "vm_loop c i store v p u = (x, t)"
  shows "x = Inr 0 \<and> vm_frame c i p store s t \<and>
      (\<exists>w. vm_done c i store v p [vstart_of v..<vm_limit p] u w \<and> t = set_sr CSR_VSTART 0 w) \<or>
    x \<noteq> Inr 0 \<and> (\<exists>k w. vstart_of v \<le> k \<and> k < vm_limit p \<and> vm_done c i store v p [vstart_of v..<k] u w \<and>
        vm_visit c i store v p k w = (x, t) \<and> vm_at c i p store s k t) \<and>
      (\<forall>r. x = Inr r \<longrightarrow> vm_whole i \<and> r = (if store then MCA_STO_ADD_MIS else MCA_LOA_ADD_MIS))"
proof -
  let ?m = "mfold [vstart_of v..<vm_limit p] (vm_element c i store v p) 0"
  obtain y w where y: "?m u = (y, w)" by (rule prod.exhaust)
  note f = vm_fold_outcome [OF assms(1) order_refl assms(2) y]
  show ?thesis
  proof (cases "y = Inr 0")
    case True
    then have x: "x = Inr 0" and t: "t = set_sr CSR_VSTART 0 w"
      using assms(3) y by (simp_all add: vm_loop_def mseq_app)
    have "vm_frame c i p store s w" using f True by simp
    then have "vm_frame c i p store s t" unfolding t by (simp add: vm_frame_def vm_kept_def vm_core_def vregs_of_set_sr) (simp add: set_sr_def)
    then show ?thesis using x t f True by blast
  next
    case False
    then have x: "x = y" "t = w"
      using assms(3) y by (cases y; simp add: vm_loop_def split: if_splits)+
    have cause: "vm_cause i store r" if "y = Inr r" for r
      using vm_fold_cause [of i store] y that unfolding mrets_def by blast
    have "vm_whole i \<and> r = (if store then MCA_STO_ADD_MIS else MCA_LOA_ADD_MIS)" if "y = Inr r" for r
      using cause [OF that] False that by (simp only: vm_cause_def) simp
    with f False x show ?thesis by blast
  qed
qed

text \<open>The state in which the elements start.\<close>

definition vm_entry :: "nemu \<Rightarrow> nemu" where
  "vm_entry s = set_csr_dirty True (vector_mark_dirty False s)"

lemma vm_entry_frame: "vm_frame c i p store s (vm_entry s)"
  by (auto simp: vm_entry_def vm_frame_def vm_kept_def vm_core_def vregs_of_def vector_mark_dirty_def set_csr_dirty_def
      set_sr_def sr_def Let_def)

section \<open>Stores that stop\<close>

text \<open>A computation that leaves memory alone, and one that does so if it exits.\<close>

definition quiet :: "config \<Rightarrow> 'a mem \<Rightarrow> bool" where
  "quiet c m \<longleftrightarrow> (\<forall>p. minv (\<lambda>s. rv_svade c \<longrightarrow> phys s = p) m)"

definition clean_exit :: "'a mem \<Rightarrow> bool" where
  "clean_exit m \<longleftrightarrow> (\<forall>s e t. m s = (Inl e, t) \<longrightarrow> phys t = phys s)"

interpretation qv: core_view c "\<lambda>s. rv_svade c \<longrightarrow> phys s = p" for c p
  by unfold_locales auto

lemma clean_bind_post:
  assumes "rv_svade c" and "quiet c m" and "\<And>s a t. m s = (Inr a, t) \<Longrightarrow> clean_exit (f a)"
  shows "clean_exit (mbind m f)"
  unfolding clean_exit_def
proof (intro allI impI)
  fix s e t assume m: "mbind m f s = (Inl e, t)"
  have q: "phys u = phys s" if "m s = (r, u)" for r u
    using minvD [of "\<lambda>w. rv_svade c \<longrightarrow> phys w = phys s" m s r u] assms(1,2) that by (simp add: quiet_def)
  from m show "phys t = phys s"
    unfolding mbind_eq_Inl
  proof (elim disjE exE conjE)
    fix a s' assume a: "m s = (Inr a, s')" "f a s' = (Inl e, t)"
    with assms(3) [OF a(1)] q [OF a(1)] show "phys t = phys s" by (simp add: clean_exit_def)
  qed (rule q)
qed

lemma clean_bind: "rv_svade c \<Longrightarrow> quiet c m \<Longrightarrow> (\<And>a. clean_exit (f a)) \<Longrightarrow> clean_exit (mbind m f)"
  by (rule clean_bind_post)

lemma clean_seq: "rv_svade c \<Longrightarrow> quiet c m \<Longrightarrow> clean_exit f \<Longrightarrow> clean_exit (mseq m f)"
  unfolding mseq_def by (rule clean_bind)

lemma clean_returns: "returns m \<Longrightarrow> clean_exit m"
  unfolding returns_def clean_exit_def by (metis Pair_inject sum.distinct(1))

lemma clean_if: "(b \<Longrightarrow> clean_exit m) \<Longrightarrow> (\<not> b \<Longrightarrow> clean_exit n) \<Longrightarrow> clean_exit (if b then m else n)"
  by simp

lemma clean_prod: "(\<And>a b. clean_exit (f a b)) \<Longrightarrow> clean_exit (case x of (a, b) \<Rightarrow> f a b)"
  by (cases x) simp

lemma quiet_walk:
  "quiet c (mgets f)" "quiet c (mmodify (set_g_vaddr v))" "quiet c (tlb_translate c k ty a)"
  "quiet c (checked_data_piece c a n store misal ol)" "quiet c (check_data_type c pa pb misal store n)"
  "quiet c (check_data_pma c pa n store)" "quiet c (data_pmp_check c tr a pa n store)"
  by (simp_all add: quiet_def minv_mgets qv.cv_side qv.cv_translate qv.cv_piece qv.cv_checks)

lemma returns_paddr_write:
  assumes "memory_map_gap c" and "host_len n" and "n \<le> 8" and "data_pma_ok c pa n True"
  shows "returns (paddr_write c pa n d)"
  using paddr_write_cases [OF assms(2) data_pma_span_or_io(1,2) [OF assms(1,3,4)]]
  by (auto simp: returns_def)

lemma returns_write_split:
  assumes "\<And>i. i \<in> set js \<Longrightarrow> span_or_io c (f i) 1 \<and> \<not> paddr_is_readonly c (f i)"
  shows "returns (write_split c f js d)"
  using assms
proof (induction js)
  case (Cons i js)
  have "returns (paddr_write c (f i) 1 b)" for b
    using write_byte_cases [of c "f i"] Cons.prems [of i] by (auto simp: returns_def)
  with Cons show ?case unfolding write_split.simps by (intro mreturns) simp_all
qed (simp add: mreturns)

lemma clean_access:
  assumes "rv_svade c" and "memory_map_gap c" and "n \<le> 8" and "data_pma_ok c pa n store \<Longrightarrow> clean_exit m"
  shows "clean_exit (mseq (check_data_pma c pa n store) (mseq (data_pmp_check c tr a pa n store) m))"
proof (cases "data_pma_ok c pa n store")
  case True
  with assms show ?thesis by (intro clean_seq [OF assms(1)] quiet_walk)
next
  case False
  have n: "n \<le> 2 ^ 63" using assms(3) by simp
  obtain off where e: "check_data_pma c pa n store =
      mseq (mmodify (\<lambda>s. set_g_vaddr (g_vaddr s + of_nat off) s)) (mthrow (Mem_fault (data_access_fault store)))"
    by (rule check_data_pma_bad [OF memory_map_gapD(1) [OF assms(2)] n False])
  show ?thesis unfolding e by (simp add: clean_exit_def mseq_app set_g_vaddr_def)
qed

lemma clean_vaddr_write:
  assumes sv: "rv_svade c" and gap: "memory_map_gap c" and "host_len n"
  shows "clean_exit (vaddr_write c a n d)"
proof -
  have n: "n \<le> 8" using assms(3) by (auto simp: host_len_def)
  have k: "page_rest x \<le> 2 ^ 63" for x using page_rest_bounds(2) [of x] by simp
  note mo = memory_map_gapD(1) [OF gap]
  have piece: "clean_exit (mbind (checked_data_piece c x m True misal ol) f)"
    if "m \<le> 2 ^ 63" "\<And>pa. data_pma_ok c pa m True \<Longrightarrow> clean_exit (f pa)" for x m misal ol and f :: "paddr_t \<Rightarrow> unit mem"
    using checked_piece_pma [OF mo that(1)] that(2) by (intro clean_bind_post [OF sv] quiet_walk) blast
  have split: "clean_exit (mseq (write_split c (split_addr lo hi k) [0..<n] d) (mmodify g))"
    if "k < n" "data_pma_ok c lo k True" "data_pma_ok c hi (n - k) True" for k lo hi g
    using split_addr_ok [OF gap that(1) n that(2,3)]
    by (intro clean_returns mreturns returns_write_split) simp
  have single: "clean_exit (mseq (paddr_write c pa n d) (mmodify g))" if "data_pma_ok c pa n True" for pa g
    by (intro clean_returns mreturns returns_paddr_write [OF gap assms(3) n that])
  show ?thesis
    unfolding vaddr_write_def Let_def
    by (intro clean_bind [OF sv] clean_seq [OF sv] quiet_walk clean_if piece split clean_prod clean_access [OF sv gap n] single)
      (use n k in simp_all)
qed

lemma vm_store_exit:
  assumes "rv_svade c" and "memory_map_gap c" and "plan_ok i p" and "vm_fields p = 1"
    and "vm_visit c i True s p k w = (Inl e, t)"
  shows "phys t = phys w"
proof -
  have q: "quiet c (vector_element_read r j b)" "quiet c (mret x)" "quiet c (vector_mask_bit r j)" for r j b x
    by (simp_all add: quiet_def minv_mret vinvs)
  have "host_len (vm_data_bytes p)" using assms(3) by (simp add: plan_ok_def)
  note w = clean_vaddr_write [OF assms(1,2) this]
  have a: "clean_exit (vm_access c i True p False k b 0)" for b
  proof -
    have "clean_exit (mseq (vaddr_write c x (vm_data_bytes p) v) (mret z))" for x v and z :: word_t
      using w [of x v] by (auto simp: clean_exit_def mseq_def mbind_eq_Inl)
    moreover have "clean_exit (mseq (mmodify g) (mret z))" for g and z :: word_t
      by (intro clean_returns mreturns)
    ultimately show ?thesis
      unfolding vm_access_def Let_def if_True if_False
      by (intro clean_if clean_bind [OF assms(1)] q)
  qed
  have nil: "mfold [] f = mret" for f :: "nat \<Rightarrow> word_t \<Rightarrow> word_t mem" by (simp add: fun_eq_iff)
  have "vm_segment c i True p k b = vm_access c i True p False k b 0" for b
    by (simp add: vm_segment_def vm_fields_loop_def assms(4) nil)
  then have "clean_exit (vm_transfer c i True s p k)"
    unfolding vm_transfer_def vactive_acc_def
    by (auto intro!: clean_if clean_bind [OF assms(1)] q a clean_returns [OF returns_basic(1)])
  then show ?thesis using assms(5) by (auto simp: clean_exit_def vm_visit_def dest!: spec)
qed

lemma vstart_of_at: "sr t CSR_VSTART = of_nat k \<Longrightarrow> k < 128 \<Longrightarrow> vstart_of t = k"
  by (simp add: vstart_of_def unsigned_ucast_eq unsigned_of_nat take_bit_nat_eq_self)

abbreviation (input) fof_causes :: "word_t set" where
  "fof_causes \<equiv> {MCA_LOA_ADD_MIS, MCA_LOA_ACC_FAU, MCA_LOA_PAG_FAU, MCA_LOA_GUEST_PAG_FAU}"

lemma fof_catch_run:
  assumes "m s = (x, t)"
  shows "fof_catch m s =
    (if \<exists>e\<in>fof_causes. x = Inl (Mem_fault e) \<and> vstart_of t \<noteq> 0
     then (Inr 0, set_sr CSR_VSTART 0 (set_sr CSR_VL (of_nat (vstart_of t)) t)) else (x, t))"
  unfolding fof_catch_def assms by (simp split: sum.split mem_exit.split)

section \<open>Outcomes\<close>

text \<open>
  C38 (faults of vector loads and stores). In the reference memory map with Svade a vector load or store
  has one of these outcomes. An encoding that does not decode is an illegal instruction and changes
  nothing. Otherwise the elements from \<open>vstart\<close> on are transferred one after the other. If all complete,
  the instruction ends with \<open>vstart\<close> 0 and \<open>vl\<close> as it was. If the transfer of element \<open>k\<close> is the first
  that faults, the instruction faults there: the elements before \<open>k\<close> are done, \<open>vstart\<close> is \<open>k\<close>, so that
  it restarts at the faulting element, \<open>vl\<close> is as it was, and a store without segments has written
  nothing for element \<open>k\<close>. Only a fault-only-first load that meets a load fault at an element \<open>k\<close> other
  than 0 returns instead, with \<open>vl\<close> cut to \<open>k\<close> and \<open>vstart\<close> 0. A misaligned whole-register transfer
  reports the misaligned cause with \<open>vstart\<close> at its element. In every case \<open>mstatus\<close> (and in a guest
  \<open>vsstatus\<close>) is marked dirty, and the rest of the core, the other CSRs, the vector registers outside the
  destination group and, for a load, all of memory stay as they were; a store may drop the reservation.
\<close>

theorem vector_memory_outcome:
  assumes "rv_svade c" and "memory_map_gap c"
  shows "case vmem_decode c i store s of
      None \<Rightarrow> riscv_vector_memory c i store s = (Inr MCA_ILLEGAL_INS, s)
    | Some p \<Rightarrow> (case riscv_vector_memory c i store s of
        (Inl (Mem_fault e), t) \<Rightarrow> vm_kept c i p store s t \<and> sr t CSR_VL = sr s CSR_VL \<and>
          (\<exists>k u. vstart_of s \<le> k \<and> k < vm_limit p \<and>
             vm_done c i store s p [vstart_of s..<k] (vm_entry s) u \<and>
             vm_visit c i store s p k u = (Inl (Mem_fault e), t) \<and> sr t CSR_VSTART = of_nat k \<and>
             (store \<and> vm_fields p = 1 \<longrightarrow> phys t = phys u) \<and>
             (vm_fof i store \<and>
              e \<in> {MCA_LOA_ADD_MIS, MCA_LOA_ACC_FAU, MCA_LOA_PAG_FAU, MCA_LOA_GUEST_PAG_FAU} \<longrightarrow> k = 0))
      | (Inl Mem_panic, t) \<Rightarrow> False
      | (Inr r, t) \<Rightarrow> vm_kept c i p store s t \<and>
          (if r = 0 then sr t CSR_VSTART = 0 \<and>
             (sr t CSR_VL = sr s CSR_VL \<and>
                (\<exists>u. vm_done c i store s p [vstart_of s..<vm_limit p] (vm_entry s) u \<and>
                     t = set_sr CSR_VSTART 0 u) \<or>
              vm_fof i store \<and>
                (\<exists>k e u v. 0 < k \<and> vstart_of s \<le> k \<and> k < vm_limit p \<and>
                   vm_done c i store s p [vstart_of s..<k] (vm_entry s) u \<and>
                   vm_visit c i store s p k u = (Inl (Mem_fault e), v) \<and>
                   e \<in> {MCA_LOA_ADD_MIS, MCA_LOA_ACC_FAU, MCA_LOA_PAG_FAU, MCA_LOA_GUEST_PAG_FAU} \<and>
                   t = set_sr CSR_VSTART 0 (set_sr CSR_VL (of_nat k) v) \<and> sr t CSR_VL = of_nat k))
           else vm_whole i \<and> r = (if store then MCA_STO_ADD_MIS else MCA_LOA_ADD_MIS) \<and>
             sr t CSR_VL = sr s CSR_VL \<and>
             (\<exists>k u. vstart_of s \<le> k \<and> k < vm_limit p \<and>
                vm_done c i store s p [vstart_of s..<k] (vm_entry s) u \<and>
                vm_visit c i store s p k u = (Inr r, t) \<and> sr t CSR_VSTART = of_nat k)))"
proof (cases "vmem_decode c i store s")
  case None
  then show ?thesis by (simp add: riscv_vector_memory_def)
next
  case (Some p)
  note ok = vmem_decode_ok [OF Some]
  obtain x t where x: "vm_loop c i store s p (vm_entry s) = (x, t)" by (rule prod.exhaust)
  have run: "riscv_vector_memory c i store s =
      (if vm_fof i store then fof_catch (vm_loop c i store s p) (vm_entry s) else (x, t))"
    using Some x by (simp add: riscv_vector_memory_def mseq_app vm_entry_def)
  note out = vm_loop_outcome [OF ok vm_entry_frame x]
  note fof = fof_catch_run [where m = "vm_loop c i store s p" and s = "vm_entry s", OF x]
  have no_panic: "x \<noteq> Inl Mem_panic"
    using no_panicD [OF no_panic_vm_loop [OF assms ok, where store = store and s = s], of "vm_entry s"] x by simp
  have lim: "vm_limit p \<le> 128" using ok by (simp add: plan_ok_def)
  show ?thesis
  proof (cases x)
    case (Inr r)
    then have r: "riscv_vector_memory c i store s = (Inr r, t)" using run fof by auto
    show ?thesis
    proof (cases "r = 0")
      case True
      with out Inr obtain w where "vm_done c i store s p [vstart_of s..<vm_limit p] (vm_entry s) w"
        "t = set_sr CSR_VSTART 0 w" "vm_frame c i p store s t" by auto
      then show ?thesis using Some r True by (auto simp: vm_frame_def)
    next
      case False
      with out Inr obtain k w where "vstart_of s \<le> k" "k < vm_limit p"
        "vm_done c i store s p [vstart_of s..<k] (vm_entry s) w" "vm_visit c i store s p k w = (Inr r, t)"
        "vm_at c i p store s k t" "vm_whole i" "r = (if store then MCA_STO_ADD_MIS else MCA_LOA_ADD_MIS)" by auto
      then show ?thesis
        using Some r False by (auto simp: vm_at_def vm_frame_def intro!: exI [of _ k] exI [of _ w])
    qed
  next
    case (Inl y)
    then obtain e where e: "x = Inl (Mem_fault e)" using no_panic by (cases y) auto
    with out obtain k u where k: "vstart_of s \<le> k" "k < vm_limit p" and at: "vm_at c i p store s k t"
      and u: "vm_done c i store s p [vstart_of s..<k] (vm_entry s) u"
        "vm_visit c i store s p k u = (Inl (Mem_fault e), t)" by auto
    have vs: "vstart_of t = k" using at k lim by (intro vstart_of_at) (auto simp: vm_at_def)
    show ?thesis
    proof (cases "vm_fof i store \<and> e \<in> fof_causes \<and> k \<noteq> 0")
      case True
      define w where w: "w = set_sr CSR_VSTART 0 (set_sr CSR_VL (of_nat k) t)"
      then have r: "riscv_vector_memory c i store s = (Inr 0, w)" using run fof e vs True by auto
      have "vm_kept c i p store s w"
        using at by (simp add: w vm_at_def vm_frame_def vm_kept_def vregs_of_set_sr vm_core_set_sr)
      moreover have vl: "sr w CSR_VSTART = 0" "sr w CSR_VL = of_nat k" by (simp_all add: w)
      moreover have "\<exists>k e u v. 0 < k \<and> vstart_of s \<le> k \<and> k < vm_limit p \<and>
          vm_done c i store s p [vstart_of s..<k] (vm_entry s) u \<and>
          vm_visit c i store s p k u = (Inl (Mem_fault e), v) \<and> e \<in> fof_causes \<and>
          w = set_sr CSR_VSTART 0 (set_sr CSR_VL (of_nat k) v) \<and> sr w CSR_VL = of_nat k"
        using True k u w vl by (intro exI [of _ k] exI [of _ e] exI [of _ u] exI [of _ t]) simp
      ultimately show ?thesis
        unfolding Some r option.case prod.case sum.case using True by simp
    next
      case False
      then have r: "riscv_vector_memory c i store s = (Inl (Mem_fault e), t)"
        using run fof e vs by auto
      have "phys t = phys u" if "store" "vm_fields p = 1"
        using vm_store_exit [OF assms ok that(2)] u(2) that(1) by simp
      then show ?thesis using Some r at k u False by (auto simp: vm_at_def vm_frame_def)
    qed
  qed
qed

text \<open>\<open>vle8ff.v v1, (a1)\<close> with two elements: it faults with \<open>vl\<close> kept, or loads one or two elements.\<close>

theorem vector_memory_outcome_witness:
  "(\<exists>e t. riscv_vector_memory (demo_config\<lparr>riscv_isa_extensions := NEMU_ISA_EXT_V128_PREVIEW\<rparr>) 0x03058087 False
       demo_vector = (Inl (Mem_fault e), t) \<and> sr t CSR_VL = 2 \<and> gpr t = gpr demo_vector) \<or>
   (\<exists>t. riscv_vector_memory (demo_config\<lparr>riscv_isa_extensions := NEMU_ISA_EXT_V128_PREVIEW\<rparr>) 0x03058087 False
       demo_vector = (Inr 0, t) \<and> sr t CSR_VSTART = 0 \<and> sr t CSR_VL \<in> {1, 2} \<and> gpr t = gpr demo_vector)"
proof -
  let ?c = "demo_config\<lparr>riscv_isa_extensions := NEMU_ISA_EXT_V128_PREVIEW\<rparr>"
  let ?p = "\<lparr>vm_group = 1, vm_limit = 2, vm_fields = 1, vm_data_bytes = 1\<rparr>"
  have c: "rv_svade ?c" "memory_map_gap ?c"
    using demo_kconfig(2) kconfig_ref_gap
    by (simp_all add: memory_map_gap_def memory_map_ok_def riscv64_ref_config_def)
  have i: "v_form 0x03058087 = 0" "vm_mop 0x03058087 = 0" "v_src2 0x03058087 = 16" "v_dest 0x03058087 = 1"
    "v_unmasked 0x03058087" "vm_bytes 0x03058087 = 1"
    by (simp_all add: v_form_def vm_mop_def vreg_field_def v_unmasked_def vm_bytes_def)
  have l: "lmul_eighths demo_vector = 8" "vector_vlmax (sr demo_vector CSR_VTYPE) = 4" "sr demo_vector CSR_VL = 2"
    by (simp_all add: lmul_eighths_def demo_vector_def sr_def vector_vlmax_def vlmul_exp_def Let_def)
  have p: "vmem_decode ?c 0x03058087 False demo_vector = Some ?p"
    using demo_vector_simps
    by (simp add: vmem_decode_def vm_typed_plan_def vm_whole_def vm_mask_transfer_def vm_fof_def i l
        vector_group_valid_def Let_def)
  obtain x t where r: "riscv_vector_memory ?c 0x03058087 False demo_vector = (x, t)" by (rule prod.exhaust)
  note o = vector_memory_outcome [OF c, where i = "0x03058087" and store = False and s = demo_vector,
      unfolded p r option.case prod.case]
  have kept: "gpr t = gpr demo_vector" if "vm_kept ?c 0x03058087 ?p False demo_vector t"
    using that by (auto simp: vm_kept_def gpr_def fun_eq_iff dest!: vm_core_gpr)
  show ?thesis
  proof (cases x)
    case (Inl y)
    with o r l kept show ?thesis by (cases y) simp_all
  next
    case (Inr z)
    have 1: "of_nat k = (1 :: word_t)" if "0 < k" "k < 2" for k :: nat using that by (cases k) auto
    have "z = 0" using o by (auto simp: Inr vm_whole_def i split: if_splits)
    with o r l kept Inr show ?thesis by (auto simp: 1)
  qed
qed

end
