(* ===== verification/Vec_Fixed.thy ===== *)
theory Vec_Fixed
  imports Vec_Correct
begin

text \<open>
  The fixed-point operations against the arithmetic of the vector specification: exact integers, the
  rounding function \<open>roundoff\<close> on two's complement bits, and clamping to the range of the element type.
\<close>

unbundle bit_operations_syntax

section \<open>Elements as integers\<close>

definition elem_uint :: "nat \<Rightarrow> word_t \<Rightarrow> int" where
  "elem_uint bits a = take_bit bits (uint a)"

definition elem_sint :: "nat \<Rightarrow> word_t \<Rightarrow> int" where
  "elem_sint bits a = signed_take_bit (bits - 1) (uint a)"

definition elem_int :: "bool \<Rightarrow> nat \<Rightarrow> word_t \<Rightarrow> int" where
  "elem_int sg bits a = (if sg then elem_sint bits a else elem_uint bits a)"

text \<open>The range of an element type.\<close>

definition elem_min :: "bool \<Rightarrow> nat \<Rightarrow> int" where
  "elem_min sg bits = (if sg then - (2 ^ (bits - 1)) else 0)"

definition elem_max :: "bool \<Rightarrow> nat \<Rightarrow> int" where
  "elem_max sg bits = (if sg then 2 ^ (bits - 1) - 1 else 2 ^ bits - 1)"

text \<open>\<open>roundoff\<close> of the vector specification, with the rounding mode of \<open>vxrm\<close>.\<close>

definition roundoff :: "int \<Rightarrow> nat \<Rightarrow> nat \<Rightarrow> int" where
  "roundoff v d mode =
     drop_bit d v + of_bool
       (if mode = 0 then d > 0 \<and> bit v (d - 1)
        else if mode = 1 then d > 0 \<and> bit v (d - 1) \<and> (take_bit (d - 1) v \<noteq> 0 \<or> bit v d)
        else if mode = 2 then False
        else \<not> bit v d \<and> take_bit d v \<noteq> 0)"

lemma uint_elem_mask: "bits \<le> 64 \<Longrightarrow> uint (a AND elem_mask bits) = take_bit bits (uint a)"
  by (simp add: elem_mask_eq flip: take_bit_eq_mask) (simp add: unsigned_take_bit_eq)

lemma signed_trunc: "0 < bits \<Longrightarrow> signed_take_bit (bits - 1) (take_bit bits v) = signed_take_bit (bits - 1) (v :: int)"
  by (cases bits) (simp_all add: signed_take_bit_take_bit)

lemma elem_int_mask: "0 < bits \<Longrightarrow> bits \<le> 64 \<Longrightarrow> elem_int sg bits (a AND elem_mask bits) = elem_int sg bits a"
  by (simp add: elem_int_def elem_uint_def elem_sint_def uint_elem_mask signed_trunc [simplified])

lemma and_bit_test: "n < 64 \<Longrightarrow> (x AND push_bit n 1 \<noteq> 0) = bit (x :: word_t) n"
  by (simp add: push_bit_eq_mult and_exp_eq_0_iff_not_bit)

lemma signed_value: "0 < bits \<Longrightarrow> bits \<le> 64 \<Longrightarrow> vector_signed_value a bits = elem_sint bits a"
proof -
  assume b: "0 < bits" "bits \<le> 64"
  have v: "(if bits < 64 then a AND (push_bit bits 1 - 1) else a) = a AND elem_mask bits"
    using b(2) by (auto simp: elem_mask_def)
  have t: "(a AND elem_mask bits) AND push_bit (bits - 1) 1 \<noteq> 0 \<longleftrightarrow> bit (uint a) (bits - 1)"
    using b by (subst and_bit_test) (auto simp: bit_elem_mask bit_and_iff bit_uint_iff)
  show ?thesis
    unfolding vector_signed_value_def v Let_def t elem_sint_def
    using b by (simp add: signed_take_bit_eq_take_bit_minus uint_elem_mask)
qed

lemma elem_value: "0 < bits \<Longrightarrow> bits \<le> 64 \<Longrightarrow>
    (if sg then vector_signed_value (a AND elem_mask bits) bits else uint (a AND elem_mask bits)) = elem_int sg bits a"
  using elem_int_mask [of bits True a] by (simp add: signed_value uint_elem_mask elem_int_def elem_uint_def)

lemma uint_result: "bits \<le> 64 \<Longrightarrow> uint (word_of_int v AND elem_mask bits) = take_bit bits v"
  by (simp add: uint_elem_mask uint_word_of_int_eq)

lemma elem_int_result:
  assumes "0 < bits" and "bits \<le> 64" and "elem_min sg bits \<le> v" and "v \<le> elem_max sg bits"
  shows "elem_int sg bits (word_of_int v AND elem_mask bits) = v"
proof (cases sg)
  case True
  have "signed_take_bit (bits - 1) (take_bit bits v) = signed_take_bit (bits - 1) v"
    by (rule signed_trunc [OF assms(1)])
  also have "\<dots> = v"
    using assms True by (intro signed_take_bit_int_eq_self) (auto simp: elem_min_def elem_max_def)
  finally show ?thesis using True assms(2) by (simp add: elem_int_def elem_sint_def uint_result)
next
  case False
  then show ?thesis
    using assms by (simp add: elem_int_def elem_uint_def uint_result elem_min_def elem_max_def take_bit_int_eq_self)
qed

lemma clamp_eq: "lo \<le> hi \<Longrightarrow> vector_clamp lo hi v = (max lo (min hi v), v < lo \<or> hi < v)"
  by (auto simp: vector_clamp_def)

lemma elem_range: "0 < bits \<Longrightarrow> elem_min sg bits \<le> elem_max sg bits"
  by (auto simp: elem_min_def elem_max_def)

section \<open>Rounding\<close>

lemma sdiv_floor:
  fixes v s :: int
  assumes "0 < s"
  shows "(if v smod s < 0 then v sdiv s - 1 else v sdiv s) = v div s"
    and "(if v smod s < 0 then v smod s + s else v smod s) = v mod s"
proof -
  let ?q = "if v smod s < 0 then v sdiv s - 1 else v sdiv s"
  let ?r = "if v smod s < 0 then v smod s + s else v smod s"
  have e0: "v = s * (v sdiv s) + v smod s \<and> \<bar>v smod s\<bar> < s"
  proof (cases "0 \<le> v")
    case True
    then have "v sdiv s = v div s" "v smod s = v mod s"
      using assms by (auto simp: signed_divide_int_def signed_modulo_int_def sgn_if)
    then show ?thesis using assms by simp
  next
    case False
    obtain q r where q: "(- v) div s = q" "(- v) mod s = r" by blast
    have "- v = s * q + r" using q by (metis mult_div_mod_eq)
    moreover have "0 \<le> r" "r < s" using q assms by auto
    moreover have "v sdiv s = - q" "v smod s = - r"
      using False assms q by (auto simp: signed_divide_int_def signed_modulo_int_def sgn_if)
    ultimately show ?thesis by simp
  qed
  then have e: "v = s * ?q + ?r" by (auto simp: algebra_simps)
  have "0 \<le> ?r" "?r < s" using e0 by auto
  with e show "?q = v div s" "?r = v mod s"
    by (metis int_div_pos_eq, metis int_mod_pos_eq)
qed

lemma round_result: "mode < 4 \<Longrightarrow> vector_round_result v d mode = roundoff v d mode"
proof -
  assume m: "mode < 4"
  have s: "0 < (2::int) ^ d" by simp
  have q: "v div 2 ^ d = drop_bit d v" and r: "v mod 2 ^ d = take_bit d v"
    by (simp_all add: drop_bit_eq_div take_bit_eq_mod)
  have odd: "drop_bit d v AND 1 \<noteq> 0 \<longleftrightarrow> bit v d"
    by (simp add: and_one_eq odd_iff_mod_2_eq_one [symmetric] even_drop_bit_iff_not_bit)
  have half: "2 * take_bit d v \<ge> 2 ^ d \<longleftrightarrow> d > 0 \<and> bit v (d - 1)"
    "2 * take_bit d v > 2 ^ d \<longleftrightarrow> d > 0 \<and> bit v (d - 1) \<and> take_bit (d - 1) v \<noteq> 0"
    "2 * take_bit d v = 2 ^ d \<longleftrightarrow> d > 0 \<and> bit v (d - 1) \<and> take_bit (d - 1) v = 0"
  proof -
    have "(2 * take_bit d v \<ge> 2 ^ d \<longleftrightarrow> d > 0 \<and> bit v (d - 1)) \<and>
      (2 * take_bit d v > 2 ^ d \<longleftrightarrow> d > 0 \<and> bit v (d - 1) \<and> take_bit (d - 1) v \<noteq> 0) \<and>
      (2 * take_bit d v = 2 ^ d \<longleftrightarrow> d > 0 \<and> bit v (d - 1) \<and> take_bit (d - 1) v = 0)"
    proof (cases d)
      case (Suc e)
      define x where "x = take_bit e v"
      have "0 \<le> x" "x < 2 ^ e" by (simp_all add: x_def)
      then show ?thesis using Suc by (auto simp: take_bit_Suc_from_most x_def [symmetric])
    qed simp
    then show "2 * take_bit d v \<ge> 2 ^ d \<longleftrightarrow> d > 0 \<and> bit v (d - 1)"
      "2 * take_bit d v > 2 ^ d \<longleftrightarrow> d > 0 \<and> bit v (d - 1) \<and> take_bit (d - 1) v \<noteq> 0"
      "2 * take_bit d v = 2 ^ d \<longleftrightarrow> d > 0 \<and> bit v (d - 1) \<and> take_bit (d - 1) v = 0"
      by blast+
  qed
  have "mode \<in> {0, 1, 2, 3}" using m by auto
  then show ?thesis
    unfolding vector_round_result_def roundoff_def Let_def sdiv_floor [OF s] q r odd half
    by auto
qed

section \<open>The operations\<close>

lemma and_mod:
  assumes "bits \<in> {8, 16, 32, 64}"
  shows "unat ((w :: word_t) AND of_nat (bits - 1)) = unat w mod bits"
proof -
  have "bits = 2 ^ 3 \<or> bits = 2 ^ 4 \<or> bits = 2 ^ 5 \<or> bits = 2 ^ 6" using assms by auto
  then obtain n where n: "bits = 2 ^ n" by blast
  have "(of_nat (bits - 1) :: word_t) = mask n"
    unfolding n(1) by (simp add: mask_eq_exp_minus_1 of_nat_diff)
  then show ?thesis
    unfolding n(1) by (simp only: take_bit_eq_mask [symmetric] unsigned_take_bit_eq) (simp only: take_bit_eq_mod)
qed

lemma clamped_result:
  assumes "bits \<in> {8, 16, 32, 64}" and "vector_clamp (elem_min sg bits) (elem_max sg bits) e = (v, sat)"
  shows "elem_int sg bits (word_of_int v AND elem_mask bits) = max (elem_min sg bits) (min (elem_max sg bits) e) \<and>
    (sat \<longleftrightarrow> e < elem_min sg bits \<or> elem_max sg bits < e)"
proof -
  have b: "0 < bits" "bits \<le> 64" using assms(1) by auto
  note r = elem_range [OF b(1), of sg]
  have v: "v = max (elem_min sg bits) (min (elem_max sg bits) e)" "sat \<longleftrightarrow> e < elem_min sg bits \<or> elem_max sg bits < e"
    using assms(2) by (simp_all add: clamp_eq [OF r])
  have "elem_min sg bits \<le> v" "v \<le> elem_max sg bits" using r v(1) by auto
  from elem_int_result [OF b this] v show ?thesis by simp
qed

lemma uint_all_mask: "bits \<le> 64 \<Longrightarrow> uint (elem_mask bits) = 2 ^ bits - 1"
  using uint_result [of bits "- 1"] by (simp add: take_bit_minus_one_eq_mask mask_eq_exp_minus_1)

lemma saturating_spec:
  assumes "bits \<in> {8, 16, 32, 64}" and "vector_saturating_result func a b bits = (r, sat)"
    and "e = (if bit func 1 then elem_int (bit func 0) bits a - elem_int (bit func 0) bits b
              else elem_int (bit func 0) bits a + elem_int (bit func 0) bits b)"
  shows "elem_int (bit func 0) bits r = max (elem_min (bit func 0) bits) (min (elem_max (bit func 0) bits) e) \<and>
       (sat \<longleftrightarrow> e < elem_min (bit func 0) bits \<or> elem_max (bit func 0) bits < e)"
proof -
  have b: "0 < bits" "bits \<le> 64" using assms(1) by auto
  obtain v s where v: "vector_clamp (elem_min (bit func 0) bits) (elem_max (bit func 0) bits) e = (v, s)"
    by (rule prod.exhaust)
  then have "(r, sat) = (word_of_int v AND elem_mask bits, s)"
    using assms(2) unfolding vector_saturating_result_def Let_def elem_value [OF b] uint_all_mask [OF b(2)]
      elem_min_def [symmetric] elem_max_def [symmetric] assms(3) [symmetric] by simp
  with clamped_result [OF assms(1) v] show ?thesis by simp
qed

lemma rounded_spec:
  assumes bits: "bits \<in> {8, 16, 32, 64}" and m: "mode < 4"
    and r: "vector_rounded_fixed_result func a b bits mode = (r, sat)"
  shows "func \<in> {0x08, 0x09, 0x0a, 0x0b} \<Longrightarrow>
      elem_uint bits r = take_bit bits (roundoff
        (if bit func 1 then elem_int (bit func 0) bits a - elem_int (bit func 0) bits b
         else elem_int (bit func 0) bits a + elem_int (bit func 0) bits b) 1 mode) \<and> \<not> sat"
    and "func \<in> {0x2a, 0x2b} \<Longrightarrow>
      elem_uint bits r = take_bit bits (roundoff (elem_int (bit func 0) bits a) (unat b mod bits) mode) \<and> \<not> sat"
    and "func = 0x27 \<Longrightarrow> e = roundoff (elem_sint bits a * elem_sint bits b) (bits - 1) mode \<Longrightarrow>
      elem_sint bits r = max (elem_min True bits) (min (elem_max True bits) e) \<and>
         (sat \<longleftrightarrow> e < elem_min True bits \<or> elem_max True bits < e)"
proof -
  have b: "0 < bits" "bits \<le> 64" using bits by auto
  have t: "elem_uint bits (word_of_int v AND elem_mask bits) = take_bit bits v" for v
    by (simp add: elem_uint_def uint_result [OF b(2)])
  have sh: "unat ((b AND elem_mask bits) AND of_nat (bits - 1)) = unat b mod bits"
  proof -
    have "unat (b AND elem_mask bits) = take_bit bits (unat b)"
      using b(2) by (simp only: elem_mask_eq take_bit_eq_mask [symmetric] unsigned_take_bit_eq)
    moreover have "bits dvd 2 ^ bits" using bits by (elim insertE emptyE) simp_all
    ultimately show ?thesis
      unfolding and_mod [OF bits] by (simp only: take_bit_eq_mod mod_mod_cancel)
  qed
  note r' = r [unfolded vector_rounded_fixed_result_def Let_def elem_value [OF b] sh]
  let ?e = "if bit func 1 then elem_int (bit func 0) bits a - elem_int (bit func 0) bits b
         else elem_int (bit func 0) bits a + elem_int (bit func 0) bits b"
  have avg: "r = word_of_int (roundoff ?e 1 mode) AND elem_mask bits \<and> \<not> sat" if "func \<le> 0x0b" "func \<noteq> 0x27"
  proof -
    define e where "e = ?e"
    show ?thesis using r' that unfolding e_def [symmetric] by (simp add: round_result [OF m])
  qed
  show "func \<in> {0x08, 0x09, 0x0a, 0x0b} \<Longrightarrow> elem_uint bits r = take_bit bits (roundoff ?e 1 mode) \<and> \<not> sat"
    using avg t [of "roundoff ?e 1 mode"] by fastforce
  have shift: "r = word_of_int (roundoff (elem_int (bit func 0) bits a) (unat b mod bits) mode) AND elem_mask bits \<and> \<not> sat"
    if "\<not> func \<le> 0x0b" "func \<noteq> 0x27"
    using r' that by (simp add: round_result [OF m])
  show "func \<in> {0x2a, 0x2b} \<Longrightarrow>
      elem_uint bits r = take_bit bits (roundoff (elem_int (bit func 0) bits a) (unat b mod bits) mode) \<and> \<not> sat"
    using shift t [of "roundoff (elem_int (bit func 0) bits a) (unat b mod bits) mode"] by fastforce
  assume f: "func = 0x27" and e: "e = roundoff (elem_sint bits a * elem_sint bits b) (bits - 1) mode"
  obtain v s where v: "vector_clamp (elem_min True bits) (elem_max True bits) e = (v, s)"
    by (rule prod.exhaust)
  have sv: "vector_signed_value (w AND elem_mask bits) bits = elem_sint bits w" for w
    using elem_value [OF b, of True w] by (simp add: elem_int_def)
  have "(r, sat) = (word_of_int v AND elem_mask bits, s)"
    using r' f v unfolding sv e by (simp add: round_result [OF m] elem_min_def elem_max_def split: prod.splits)
  with clamped_result [OF bits v] show "elem_sint bits r = max (elem_min True bits) (min (elem_max True bits) e) \<and>
         (sat \<longleftrightarrow> e < elem_min True bits \<or> elem_max True bits < e)"
    by (simp add: elem_int_def)
qed

lemma clip_spec:
  assumes bits: "bits \<in> {8, 16, 32}" and m: "mode < 4" and r: "vector_clip_result sg a w bits mode = (r, sat)"
    and e: "e = roundoff (elem_int sg (2 * bits) a) (unat w mod (2 * bits)) mode"
    and a: "sg \<or> uint a < 2 ^ (2 * bits)"
  shows "elem_int sg bits r = max (elem_min sg bits) (min (elem_max sg bits) e) \<and>
       (sat \<longleftrightarrow> e < elem_min sg bits \<or> elem_max sg bits < e)"
proof -
  have b: "bits \<in> {8, 16, 32, 64}" "2 * bits \<in> {8, 16, 32, 64}" using bits by auto
  have b': "0 < 2 * bits" "2 * bits \<le> 64" using bits by auto
  have v0: "(if sg then vector_signed_value a (2 * bits) else uint a) = elem_int sg (2 * bits) a"
    using a signed_value [OF b'] by (auto simp: elem_int_def elem_uint_def take_bit_int_eq_self)
  obtain v s where v: "vector_clamp (elem_min sg bits) (elem_max sg bits) e = (v, s)"
    by (rule prod.exhaust)
  have "(r, sat) = (word_of_int v AND elem_mask bits, s)"
    using r v unfolding vector_clip_result_def Let_def mult.commute [of bits 2] v0 and_mod [OF b(2)]
      round_result [OF m] e elem_min_def [symmetric] elem_max_def [symmetric]
    by simp
  with clamped_result [OF b(1) v] show ?thesis by simp
qed

text \<open>
  C39. The fixed-point arithmetic of the vector unit is that of the vector specification, for every
  element width, rounding mode and pair of operands, the operands and results read as integers of the
  element type. Saturating addition and subtraction (\<open>0x20\<close> to \<open>0x23\<close>, odd numbers signed) clamp
  the exact sum or difference and report saturation exactly when it is out of range. Averaging
  (\<open>0x08\<close> to \<open>0x0b\<close>) rounds the exact sum or difference shifted right by one, scaling shifts (\<open>0x2a\<close>,
  \<open>0x2b\<close>) round the shifted operand, neither saturates; the fractional multiply (\<open>0x27\<close>) and the
  narrowing clips round and then clamp. Rounding adds the increment the specification tabulates for \<open>vxrm\<close>.
\<close>

theorem vector_fixed_point_spec:
  assumes "bits \<in> {8, 16, 32, 64}" and "mode < 4"
  shows "(\<forall>f\<in>{0x20, 0x21, 0x22, 0x23}.
      let (r, sat) = vector_saturating_result f a b bits; A = elem_int (odd f) bits a; B = elem_int (odd f) bits b;
          e = (if f \<in> {0x22, 0x23} then A - B else A + B)
      in elem_int (odd f) bits r = max (elem_min (odd f) bits) (min (elem_max (odd f) bits) e) \<and>
         (sat \<longleftrightarrow> e < elem_min (odd f) bits \<or> elem_max (odd f) bits < e)) \<and>
    (\<forall>f\<in>{0x08, 0x09, 0x0a, 0x0b}.
      let (r, sat) = vector_rounded_fixed_result f a b bits mode; A = elem_int (odd f) bits a;
          B = elem_int (odd f) bits b
      in elem_uint bits r = take_bit bits (roundoff (if f \<in> {0x0a, 0x0b} then A - B else A + B) 1 mode) \<and> \<not> sat) \<and>
    (\<forall>f\<in>{0x2a, 0x2b}.
      let (r, sat) = vector_rounded_fixed_result f a b bits mode
      in elem_uint bits r = take_bit bits (roundoff (elem_int (odd f) bits a) (unat b mod bits) mode) \<and> \<not> sat) \<and>
    (let (r, sat) = vector_rounded_fixed_result 0x27 a b bits mode;
         e = roundoff (elem_sint bits a * elem_sint bits b) (bits - 1) mode
     in elem_sint bits r = max (elem_min True bits) (min (elem_max True bits) e) \<and>
        (sat \<longleftrightarrow> e < elem_min True bits \<or> elem_max True bits < e)) \<and>
    (\<forall>sg. bits \<noteq> 64 \<and> (sg \<or> uint a < 2 ^ (2 * bits)) \<longrightarrow>
      (let (r, sat) = vector_clip_result sg a b bits mode;
           e = roundoff (elem_int sg (2 * bits) a) (unat b mod (2 * bits)) mode
       in elem_int sg bits r = max (elem_min sg bits) (min (elem_max sg bits) e) \<and>
          (sat \<longleftrightarrow> e < elem_min sg bits \<or> elem_max sg bits < e)))"
proof (intro conjI ballI allI impI)
  fix f :: nat assume "f \<in> {0x20, 0x21, 0x22, 0x23}"
  then have b: "bit f 0 = odd f" "bit f 1 = (f \<in> {0x22, 0x23})" by (auto simp: bit_iff_odd)
  note s = saturating_spec [OF assms(1), of f a b, OF prod.collapse [symmetric] refl, unfolded b]
  then show "let (r, sat) = vector_saturating_result f a b bits; A = elem_int (odd f) bits a; B = elem_int (odd f) bits b;
          e = (if f \<in> {0x22, 0x23} then A - B else A + B)
      in elem_int (odd f) bits r = max (elem_min (odd f) bits) (min (elem_max (odd f) bits) e) \<and>
         (sat \<longleftrightarrow> e < elem_min (odd f) bits \<or> elem_max (odd f) bits < e)"
    by (simp add: Let_def case_prod_unfold)
next
  fix f :: nat assume f: "f \<in> {0x08, 0x09, 0x0a, 0x0b}"
  then have b: "bit f 0 = odd f" "bit f 1 = (f \<in> {0x0a, 0x0b})" by (auto simp: bit_iff_odd)
  show "let (r, sat) = vector_rounded_fixed_result f a b bits mode; A = elem_int (odd f) bits a;
          B = elem_int (odd f) bits b
      in elem_uint bits r = take_bit bits (roundoff (if f \<in> {0x0a, 0x0b} then A - B else A + B) 1 mode) \<and> \<not> sat"
    using rounded_spec(1) [OF assms prod.collapse [symmetric] f, of a b, unfolded b]
    by (simp add: Let_def case_prod_unfold)
next
  fix f :: nat assume f: "f \<in> {0x2a, 0x2b}"
  then have b: "bit f 0 = odd f" by (auto simp: bit_iff_odd)
  show "let (r, sat) = vector_rounded_fixed_result f a b bits mode
      in elem_uint bits r = take_bit bits (roundoff (elem_int (odd f) bits a) (unat b mod bits) mode) \<and> \<not> sat"
    using rounded_spec(2) [OF assms prod.collapse [symmetric] f, of a b, unfolded b]
    by (simp add: Let_def case_prod_unfold)
next
  show "let (r, sat) = vector_rounded_fixed_result 0x27 a b bits mode;
         e = roundoff (elem_sint bits a * elem_sint bits b) (bits - 1) mode
     in elem_sint bits r = max (elem_min True bits) (min (elem_max True bits) e) \<and>
        (sat \<longleftrightarrow> e < elem_min True bits \<or> elem_max True bits < e)"
    using rounded_spec(3) [OF assms prod.collapse [symmetric] refl refl, of a b]
    by (simp add: Let_def case_prod_unfold)
next
  fix sg assume "bits \<noteq> 64 \<and> (sg \<or> uint a < 2 ^ (2 * bits))"
  then have b: "bits \<in> {8, 16, 32}" and a: "sg \<or> uint a < 2 ^ (2 * bits)" using assms(1) by auto
  show "let (r, sat) = vector_clip_result sg a b bits mode;
           e = roundoff (elem_int sg (2 * bits) a) (unat b mod (2 * bits)) mode
       in elem_int sg bits r = max (elem_min sg bits) (min (elem_max sg bits) e) \<and>
          (sat \<longleftrightarrow> e < elem_min sg bits \<or> elem_max sg bits < e)"
    using clip_spec [OF b assms(2) prod.collapse [symmetric] refl a, of b]
    by (simp add: Let_def case_prod_unfold)
qed

text \<open>Signed bytes: 100 + 100 clamps to 127 and saturates; 0.5 times 0.5 in fixed point is 0.25.\<close>

lemma vector_fixed_point_spec_witness:
  "elem_int True 8 (fst (vector_saturating_result 0x21 100 100 8)) = 127 \<and>
     snd (vector_saturating_result 0x21 100 100 8) \<and>
     elem_sint 8 (fst (vector_rounded_fixed_result 0x27 64 64 8 0)) = 32"
proof -
  have v: "elem_int True 8 100 = 100" "elem_sint 8 64 = 64" by (simp_all add: elem_int_def elem_sint_def)
  have "roundoff (64 * 64) 7 0 = 32" by (simp add: roundoff_def)
  then show ?thesis
    using vector_fixed_point_spec [of 8 0 100 100] vector_fixed_point_spec [of 8 0 64 64] v
    by (simp add: Let_def case_prod_unfold elem_min_def elem_max_def)
qed

end
