(* ===== verification/Rvc_Ref.thy ===== *)
theory Rvc_Ref
  imports Rvc_Fields
begin

text \<open>
  The second, table-driven RV32C decoder that cross-checks the decompressor:
  \<^verbatim>\<open>src/nemu/src/isa/riscv/inst_c_ref.c\<close>. One definition per C function.
\<close>

unbundle bit_operations_syntax

text \<open>The immediates several functions decode in line, on the 32-bit argument.\<close>

definition ref_imm5 :: "uint32_t \<Rightarrow> uint32_t" where
  "ref_imm5 inst = drop_bit 7 (inst AND 0x1000) OR drop_bit 2 (inst AND 0x7c)"

definition addi4spn :: "uint32_t \<Rightarrow> uint32_t" where
  "addi4spn inst =
     (let nzuimm = dec_ciw_imm (ucast inst);
          rd = dec_rd_short (ucast inst) in
      if nzuimm = 0 then 0 else itype nzuimm 2 0 rd 0x13)"

definition lw_c :: "uint32_t \<Rightarrow> uint32_t" where
  "lw_c inst =
     (let imm = dec_clw_csw_imm (ucast inst);
          rs1 = dec_rs1_short (ucast inst);
          rd = dec_rd_short (ucast inst) in
      itype imm rs1 2 rd 3)"

definition sw_c :: "uint32_t \<Rightarrow> uint32_t" where
  "sw_c inst =
     (let imm = dec_clw_csw_imm (ucast inst);
          rs1 = dec_rs1_short (ucast inst);
          rs2 = dec_rs2_short (ucast inst) in
      stype imm rs2 rs1 2 0x23)"

definition addi_c :: "uint32_t \<Rightarrow> uint32_t" where
  "addi_c inst =
     (let rd = dec_rd (ucast inst);
          nzimm = sign_extend (ref_imm5 inst) 5 in
      if nzimm = 0 then nop else itype nzimm rd 0 rd 0x13)"

definition jalr_c :: "uint32_t \<Rightarrow> uint32_t" where
  "jalr_c inst =
     (let imm = dec_cj_imm (ucast inst) in
      jtype imm 1 0x6f)"

definition li_c :: "uint32_t \<Rightarrow> uint32_t" where
  "li_c inst =
     (let rd = dec_rd (ucast inst);
          imm = sign_extend (ref_imm5 inst) 5 in
      if rd = 0 then nop else itype imm 0 0 rd 0x13)"

definition caddi16sp_to_addi :: "uint32_t \<Rightarrow> uint32_t" where
  "caddi16sp_to_addi inst =
     (let nzimm = sign_extend (drop_bit 3 (inst AND 0x1000) OR push_bit 4 (inst AND 0x18) OR
            push_bit 1 (inst AND 0x20) OR push_bit 3 (inst AND 0x4) OR drop_bit 2 (inst AND 0x40)) 9 in
      if nzimm = 0 then 0 else itype nzimm 2 0 2 0x13)"

definition clui_to_lui :: "uint32_t \<Rightarrow> uint32_t" where
  "clui_to_lui inst =
     (let rd = dec_rd (ucast inst);
          nzimm = sign_extend (push_bit 5 (inst AND 0x1000) OR push_bit 10 (inst AND 0x7c)) 17 in
      if nzimm = 0 then if rd < 16 \<and> rd AND 1 \<noteq> 0 then nop else 0
      else if rd = 0 then nop else utype nzimm rd 0x37)"

definition lui_c :: "uint32_t \<Rightarrow> uint32_t" where
  "lui_c inst =
     (if dec_rd (ucast inst) = 2 then caddi16sp_to_addi inst else clui_to_lui inst)"

definition csrli_to_srli :: "uint32_t \<Rightarrow> uint32_t" where
  "csrli_to_srli inst =
     (let shamt0 = drop_bit 7 (inst AND 0x1000) in
      if shamt0 \<noteq> 0 then 0
      else let shamt = shamt0 OR drop_bit 2 (inst AND 0x7c) in
        if shamt = 0 then 0
        else let rd = dec_rs1_short (ucast inst) in rtype 0 shamt rd 5 rd 0x13)"

definition csrai_to_srai :: "uint32_t \<Rightarrow> uint32_t" where
  "csrai_to_srai inst =
     (let shamt0 = drop_bit 7 (inst AND 0x1000) in
      if shamt0 \<noteq> 0 then 0
      else let shamt = shamt0 OR drop_bit 2 (inst AND 0x7c) in
        if shamt = 0 then 0
        else let rd = dec_rs1_short (ucast inst) in rtype 0x20 shamt rd 5 rd 0x13)"

definition candi_to_andi :: "uint32_t \<Rightarrow> uint32_t" where
  "candi_to_andi inst =
     (let rd = dec_rs1_short (ucast inst);
          imm = sign_extend (ref_imm5 inst) 5 in
      itype imm rd 7 rd 0x13)"

definition csub_to_sub :: "uint32_t \<Rightarrow> uint32_t" where
  "csub_to_sub inst =
     (let rd = dec_rs1_short (ucast inst);
          rs2 = dec_rs2_short (ucast inst) in
      rtype 0x20 rs2 rd 0 rd 0x33)"

definition cxor_to_xor :: "uint32_t \<Rightarrow> uint32_t" where
  "cxor_to_xor inst =
     (let rd = dec_rs1_short (ucast inst);
          rs2 = dec_rs2_short (ucast inst) in
      rtype 0 rs2 rd 4 rd 0x33)"

definition cor_to_or :: "uint32_t \<Rightarrow> uint32_t" where
  "cor_to_or inst =
     (let rd = dec_rs1_short (ucast inst);
          rs2 = dec_rs2_short (ucast inst) in
      rtype 0 rs2 rd 6 rd 0x33)"

definition cand_to_and :: "uint32_t \<Rightarrow> uint32_t" where
  "cand_to_and inst =
     (let rd = dec_rs1_short (ucast inst);
          rs2 = dec_rs2_short (ucast inst) in
      rtype 0 rs2 rd 7 rd 0x33)"

definition alu_c :: "uint32_t \<Rightarrow> uint32_t" where
  "alu_c inst =
     (let cb_funct2 = dec_cb_funct2 (ucast inst);
          cs_funct2 = dec_cs_funct2 (ucast inst) in
      if cb_funct2 = 0 then csrli_to_srli inst
      else if cb_funct2 = 1 then csrai_to_srai inst
      else if cb_funct2 = 2 then candi_to_andi inst
      else if inst AND 0x1000 \<noteq> 0 then 0
      else if cs_funct2 = 0 then csub_to_sub inst
      else if cs_funct2 = 1 then cxor_to_xor inst
      else if cs_funct2 = 2 then cor_to_or inst
      else if cs_funct2 = 3 then cand_to_and inst
      else nop)"

definition jal_c :: "uint32_t \<Rightarrow> uint32_t" where
  "jal_c inst =
     jtype (dec_cj_imm (ucast inst)) 0 0x6f"

definition beqz :: "uint32_t \<Rightarrow> uint32_t" where
  "beqz inst =
     btype (dec_branch_imm (ucast inst)) 0 (dec_rs1_short (ucast inst)) 0 0x63"

definition bnez :: "uint32_t \<Rightarrow> uint32_t" where
  "bnez inst =
     btype (dec_branch_imm (ucast inst)) 0 (dec_rs1_short (ucast inst)) 1 0x63"

definition slli_c :: "uint32_t \<Rightarrow> uint32_t" where
  "slli_c inst =
     (let shamt0 = drop_bit 7 (inst AND 0x1000) in
      if shamt0 \<noteq> 0 then 0
      else let shamt = shamt0 OR drop_bit 2 (inst AND 0x7c) in
        if shamt = 0 then 0
        else let rd = dec_rd (ucast inst) in
          if rd = 0 then nop else rtype 0 shamt rd 1 rd 0x13)"

definition lwsp :: "uint32_t \<Rightarrow> uint32_t" where
  "lwsp inst =
     (let offset = drop_bit 7 (inst AND 0x1000) OR drop_bit 2 (inst AND 0x70) OR
            push_bit 4 (inst AND 0xc);
          rd = dec_rd (ucast inst) in
      if rd = 0 then 0 else itype offset 2 2 rd 3)"

definition cjr_to_jalr :: "uint32_t \<Rightarrow> uint32_t" where
  "cjr_to_jalr inst =
     (let rs1 = dec_rs1 (ucast inst) in
      if rs1 = 0 then 0 else itype 0 rs1 0 0 0x67)"

definition cmv_to_add :: "uint32_t \<Rightarrow> uint32_t" where
  "cmv_to_add inst =
     (let rs2 = dec_rs2 (ucast inst) in
      if rs2 = 0 then 0
      else let rd = dec_rd (ucast inst) in if rd = 0 then nop else rtype 0 rs2 0 0 rd 0x33)"

definition cebreak_to_ebreak :: uint32_t where
  "cebreak_to_ebreak = itype 1 0 0 0 0x73"

definition cjalr_to_jalr :: "uint32_t \<Rightarrow> uint32_t" where
  "cjalr_to_jalr inst =
     (let rs1 = dec_rs1 (ucast inst) in
      if rs1 = 0 then 0 else itype 0 rs1 0 1 0x67)"

definition cadd_to_add :: "uint32_t \<Rightarrow> uint32_t" where
  "cadd_to_add inst =
     (let rs2 = dec_rs2 (ucast inst) in
      if rs2 = 0 then 0
      else let rd = dec_rd (ucast inst) in if rd = 0 then nop else rtype 0 rs2 rd 0 rd 0x33)"

definition jma_c :: "uint32_t \<Rightarrow> uint32_t" where
  "jma_c inst =
     (let cr_funct4 = dec_cr_funct4 (ucast inst);
          rs1 = dec_rs1 (ucast inst);
          rs2 = dec_rs2 (ucast inst) in
      if cr_funct4 = 8 then if rs2 = 0 then cjr_to_jalr inst else cmv_to_add inst
      else if cr_funct4 = 9 then
        if rs1 = 0 \<and> rs2 = 0 then cebreak_to_ebreak
        else if rs2 = 0 then cjalr_to_jalr inst
        else cadd_to_add inst
      else nop)"

definition swsp :: "uint32_t \<Rightarrow> uint32_t" where
  "swsp inst =
     (let offset = dec_css_imm (ucast inst);
          rs2 = dec_rs2 (ucast inst) in
      stype offset rs2 2 2 0x23)"

text \<open>
  The table indexed by quadrant and \<open>funct3\<close>. Quadrant 3 (a 32-bit instruction) would index past
  its 24 entries, which C leaves undefined; the model answers 0 there and the properties exclude it.
\<close>

definition dc_funcs_rv32c :: "(uint32_t \<Rightarrow> uint32_t) option list" where
  "dc_funcs_rv32c =
     [Some addi4spn, None, Some lw_c, None, None, None, Some sw_c, None,
      Some addi_c, Some jalr_c, Some li_c, Some lui_c, Some alu_c, Some jal_c, Some beqz, Some bnez,
      Some slli_c, None, Some lwsp, None, Some jma_c, None, Some swsp, None]"

definition op_func3 :: "uint32_t \<Rightarrow> nat" where
  "op_func3 inst = unat (push_bit 3 (inst AND 3) OR drop_bit 13 (inst AND 0xe000))"

definition decompress_c_ref :: "uint32_t \<Rightarrow> uint32_t" where
  "decompress_c_ref inst0 =
     (let inst = inst0 AND 0xffff; k = op_func3 inst in
      if k < length dc_funcs_rv32c
      then (case dc_funcs_rv32c ! k of None \<Rightarrow> 0 | Some f \<Rightarrow> f inst)
      else 0)"

end
