(* ===== verification/Rvc_Correct.thy ===== *)
theory Rvc_Correct
  imports Rvc_Decompress Rvc_Ref
begin

text \<open>
  Correctness of the decompressor: on every RV32C instruction it agrees with the table-driven
  decoder that cross-checks it, and what it produces is always a 32-bit instruction or the illegal
  word 0. The dispatch of both decoders is reduced to the sixteen instruction bits.
\<close>

unbundle bit_operations_syntax

section \<open>The self-check at the end of decompress_c\<close>

definition rvc_is_zcb :: "uint32_t \<Rightarrow> bool" where
  "rvc_is_zcb s =
     (let op = s AND 3; f3 = drop_bit 13 s AND 7;
          b12_10 = drop_bit 10 s AND 7; b6_5 = drop_bit 5 s AND 3
      in (op = 0 \<and> f3 = 4) \<or> (op = 1 \<and> f3 = 4 \<and> b12_10 = 7 \<and> (b6_5 = 2 \<or> b6_5 = 3)))"

text \<open>The condition under which an RV32 build prints \<open>Decompressed mismatch\<close>.\<close>

definition decompress_mismatch :: "uint32_t \<Rightarrow> bool" where
  "decompress_mismatch inst =
     (let s = inst AND 0xffff; di = decompress_c False inst; di_func = decompress_c_ref s
      in di_func \<noteq> di \<and> di_func \<noteq> 0 \<and> \<not> rvc_is_zcb s)"

section \<open>Patterns and fields as instruction bits\<close>

lemma rvc_hits:
  "INSTPAT_hit ''000 00000000 000 00'' s \<longleftrightarrow>
     \<not> bit s 15 \<and> \<not> bit s 14 \<and> \<not> bit s 13 \<and>
     \<not> bit s 12 \<and> \<not> bit s 11 \<and> \<not> bit s 10 \<and>
     \<not> bit s 9 \<and> \<not> bit s 8 \<and> \<not> bit s 7 \<and> \<not> bit s 6 \<and>
     \<not> bit s 5 \<and> \<not> bit s 4 \<and> \<not> bit s 3 \<and> \<not> bit s 2 \<and>
     \<not> bit s 1 \<and> \<not> bit s 0"
  "INSTPAT_hit ''000 ???????? ??? 00'' s \<longleftrightarrow>
     \<not> bit s 15 \<and> \<not> bit s 14 \<and> \<not> bit s 13 \<and>
     \<not> bit s 1 \<and> \<not> bit s 0"
  "INSTPAT_hit ''001 ???????? ??? 00'' s \<longleftrightarrow>
     \<not> bit s 15 \<and> \<not> bit s 14 \<and> bit s 13 \<and> \<not> bit s 1 \<and>
     \<not> bit s 0"
  "INSTPAT_hit ''010 ???????? ??? 00'' s \<longleftrightarrow>
     \<not> bit s 15 \<and> bit s 14 \<and> \<not> bit s 13 \<and> \<not> bit s 1 \<and>
     \<not> bit s 0"
  "INSTPAT_hit ''011 ???????? ??? 00'' s \<longleftrightarrow>
     \<not> bit s 15 \<and> bit s 14 \<and> bit s 13 \<and> \<not> bit s 1 \<and>
     \<not> bit s 0"
  "INSTPAT_hit ''100 000 ??? ?? ??? 00'' s \<longleftrightarrow>
     bit s 15 \<and> \<not> bit s 14 \<and> \<not> bit s 13 \<and> \<not> bit s 12 \<and>
     \<not> bit s 11 \<and> \<not> bit s 10 \<and> \<not> bit s 1 \<and>
     \<not> bit s 0"
  "INSTPAT_hit ''100 001 ??? 0? ??? 00'' s \<longleftrightarrow>
     bit s 15 \<and> \<not> bit s 14 \<and> \<not> bit s 13 \<and> \<not> bit s 12 \<and>
     \<not> bit s 11 \<and> bit s 10 \<and> \<not> bit s 6 \<and> \<not> bit s 1 \<and>
     \<not> bit s 0"
  "INSTPAT_hit ''100 001 ??? 1? ??? 00'' s \<longleftrightarrow>
     bit s 15 \<and> \<not> bit s 14 \<and> \<not> bit s 13 \<and> \<not> bit s 12 \<and>
     \<not> bit s 11 \<and> bit s 10 \<and> bit s 6 \<and> \<not> bit s 1 \<and>
     \<not> bit s 0"
  "INSTPAT_hit ''100 010 ??? ?? ??? 00'' s \<longleftrightarrow>
     bit s 15 \<and> \<not> bit s 14 \<and> \<not> bit s 13 \<and> \<not> bit s 12 \<and>
     bit s 11 \<and> \<not> bit s 10 \<and> \<not> bit s 1 \<and> \<not> bit s 0"
  "INSTPAT_hit ''100 011 ??? 0? ??? 00'' s \<longleftrightarrow>
     bit s 15 \<and> \<not> bit s 14 \<and> \<not> bit s 13 \<and> \<not> bit s 12 \<and>
     bit s 11 \<and> bit s 10 \<and> \<not> bit s 6 \<and> \<not> bit s 1 \<and>
     \<not> bit s 0"
  "INSTPAT_hit ''100 ???????? ??? 00'' s \<longleftrightarrow>
     bit s 15 \<and> \<not> bit s 14 \<and> \<not> bit s 13 \<and> \<not> bit s 1 \<and>
     \<not> bit s 0"
  "INSTPAT_hit ''101 ???????? ??? 00'' s \<longleftrightarrow>
     bit s 15 \<and> \<not> bit s 14 \<and> bit s 13 \<and> \<not> bit s 1 \<and>
     \<not> bit s 0"
  "INSTPAT_hit ''110 ???????? ??? 00'' s \<longleftrightarrow>
     bit s 15 \<and> bit s 14 \<and> \<not> bit s 13 \<and> \<not> bit s 1 \<and>
     \<not> bit s 0"
  "INSTPAT_hit ''111 ???????? ??? 00'' s \<longleftrightarrow>
     bit s 15 \<and> bit s 14 \<and> bit s 13 \<and> \<not> bit s 1 \<and>
     \<not> bit s 0"
  "INSTPAT_hit ''000 ?00000?? ??? 01'' s \<longleftrightarrow>
     \<not> bit s 15 \<and> \<not> bit s 14 \<and> \<not> bit s 13 \<and>
     \<not> bit s 11 \<and> \<not> bit s 10 \<and> \<not> bit s 9 \<and>
     \<not> bit s 8 \<and> \<not> bit s 7 \<and> \<not> bit s 1 \<and> bit s 0"
  "INSTPAT_hit ''000 ???????? ??? 01'' s \<longleftrightarrow>
     \<not> bit s 15 \<and> \<not> bit s 14 \<and> \<not> bit s 13 \<and>
     \<not> bit s 1 \<and> bit s 0"
  "INSTPAT_hit ''001 ???????? ??? 01'' s \<longleftrightarrow>
     \<not> bit s 15 \<and> \<not> bit s 14 \<and> bit s 13 \<and> \<not> bit s 1 \<and>
     bit s 0"
  "INSTPAT_hit ''010 ???????? ??? 01'' s \<longleftrightarrow>
     \<not> bit s 15 \<and> bit s 14 \<and> \<not> bit s 13 \<and> \<not> bit s 1 \<and>
     bit s 0"
  "INSTPAT_hit ''011 ?00010?? ??? 01'' s \<longleftrightarrow>
     \<not> bit s 15 \<and> bit s 14 \<and> bit s 13 \<and> \<not> bit s 11 \<and>
     \<not> bit s 10 \<and> \<not> bit s 9 \<and> bit s 8 \<and> \<not> bit s 7 \<and>
     \<not> bit s 1 \<and> bit s 0"
  "INSTPAT_hit ''011 ???????? ??? 01'' s \<longleftrightarrow>
     \<not> bit s 15 \<and> bit s 14 \<and> bit s 13 \<and> \<not> bit s 1 \<and>
     bit s 0"
  "INSTPAT_hit ''100 ?00????? ??? 01'' s \<longleftrightarrow>
     bit s 15 \<and> \<not> bit s 14 \<and> \<not> bit s 13 \<and> \<not> bit s 11 \<and>
     \<not> bit s 10 \<and> \<not> bit s 1 \<and> bit s 0"
  "INSTPAT_hit ''100 000???00 000 01'' s \<longleftrightarrow>
     bit s 15 \<and> \<not> bit s 14 \<and> \<not> bit s 13 \<and> \<not> bit s 12 \<and>
     \<not> bit s 11 \<and> \<not> bit s 10 \<and> \<not> bit s 6 \<and>
     \<not> bit s 5 \<and> \<not> bit s 4 \<and> \<not> bit s 3 \<and> \<not> bit s 2 \<and>
     \<not> bit s 1 \<and> bit s 0"
  "INSTPAT_hit ''100 ?01????? ??? 01'' s \<longleftrightarrow>
     bit s 15 \<and> \<not> bit s 14 \<and> \<not> bit s 13 \<and> \<not> bit s 11 \<and>
     bit s 10 \<and> \<not> bit s 1 \<and> bit s 0"
  "INSTPAT_hit ''100 001???00 000 01'' s \<longleftrightarrow>
     bit s 15 \<and> \<not> bit s 14 \<and> \<not> bit s 13 \<and> \<not> bit s 12 \<and>
     \<not> bit s 11 \<and> bit s 10 \<and> \<not> bit s 6 \<and> \<not> bit s 5 \<and>
     \<not> bit s 4 \<and> \<not> bit s 3 \<and> \<not> bit s 2 \<and> \<not> bit s 1 \<and>
     bit s 0"
  "INSTPAT_hit ''100 ?10????? ??? 01'' s \<longleftrightarrow>
     bit s 15 \<and> \<not> bit s 14 \<and> \<not> bit s 13 \<and> bit s 11 \<and>
     \<not> bit s 10 \<and> \<not> bit s 1 \<and> bit s 0"
  "INSTPAT_hit ''100 011???00 ??? 01'' s \<longleftrightarrow>
     bit s 15 \<and> \<not> bit s 14 \<and> \<not> bit s 13 \<and> \<not> bit s 12 \<and>
     bit s 11 \<and> bit s 10 \<and> \<not> bit s 6 \<and> \<not> bit s 5 \<and>
     \<not> bit s 1 \<and> bit s 0"
  "INSTPAT_hit ''100 011???01 ??? 01'' s \<longleftrightarrow>
     bit s 15 \<and> \<not> bit s 14 \<and> \<not> bit s 13 \<and> \<not> bit s 12 \<and>
     bit s 11 \<and> bit s 10 \<and> \<not> bit s 6 \<and> bit s 5 \<and>
     \<not> bit s 1 \<and> bit s 0"
  "INSTPAT_hit ''100 011???10 ??? 01'' s \<longleftrightarrow>
     bit s 15 \<and> \<not> bit s 14 \<and> \<not> bit s 13 \<and> \<not> bit s 12 \<and>
     bit s 11 \<and> bit s 10 \<and> bit s 6 \<and> \<not> bit s 5 \<and>
     \<not> bit s 1 \<and> bit s 0"
  "INSTPAT_hit ''100 011???11 ??? 01'' s \<longleftrightarrow>
     bit s 15 \<and> \<not> bit s 14 \<and> \<not> bit s 13 \<and> \<not> bit s 12 \<and>
     bit s 11 \<and> bit s 10 \<and> bit s 6 \<and> bit s 5 \<and> \<not> bit s 1 \<and>
     bit s 0"
  "INSTPAT_hit ''100 111???00 ??? 01'' s \<longleftrightarrow>
     bit s 15 \<and> \<not> bit s 14 \<and> \<not> bit s 13 \<and> bit s 12 \<and>
     bit s 11 \<and> bit s 10 \<and> \<not> bit s 6 \<and> \<not> bit s 5 \<and>
     \<not> bit s 1 \<and> bit s 0"
  "INSTPAT_hit ''100 111???01 ??? 01'' s \<longleftrightarrow>
     bit s 15 \<and> \<not> bit s 14 \<and> \<not> bit s 13 \<and> bit s 12 \<and>
     bit s 11 \<and> bit s 10 \<and> \<not> bit s 6 \<and> bit s 5 \<and>
     \<not> bit s 1 \<and> bit s 0"
  "INSTPAT_hit ''100 111???10 ??? 01'' s \<longleftrightarrow>
     bit s 15 \<and> \<not> bit s 14 \<and> \<not> bit s 13 \<and> bit s 12 \<and>
     bit s 11 \<and> bit s 10 \<and> bit s 6 \<and> \<not> bit s 5 \<and>
     \<not> bit s 1 \<and> bit s 0"
  "INSTPAT_hit ''100 111???11 000 01'' s \<longleftrightarrow>
     bit s 15 \<and> \<not> bit s 14 \<and> \<not> bit s 13 \<and> bit s 12 \<and>
     bit s 11 \<and> bit s 10 \<and> bit s 6 \<and> bit s 5 \<and> \<not> bit s 4 \<and>
     \<not> bit s 3 \<and> \<not> bit s 2 \<and> \<not> bit s 1 \<and> bit s 0"
  "INSTPAT_hit ''100 111???11 001 01'' s \<longleftrightarrow>
     bit s 15 \<and> \<not> bit s 14 \<and> \<not> bit s 13 \<and> bit s 12 \<and>
     bit s 11 \<and> bit s 10 \<and> bit s 6 \<and> bit s 5 \<and> \<not> bit s 4 \<and>
     \<not> bit s 3 \<and> bit s 2 \<and> \<not> bit s 1 \<and> bit s 0"
  "INSTPAT_hit ''100 111???11 010 01'' s \<longleftrightarrow>
     bit s 15 \<and> \<not> bit s 14 \<and> \<not> bit s 13 \<and> bit s 12 \<and>
     bit s 11 \<and> bit s 10 \<and> bit s 6 \<and> bit s 5 \<and> \<not> bit s 4 \<and>
     bit s 3 \<and> \<not> bit s 2 \<and> \<not> bit s 1 \<and> bit s 0"
  "INSTPAT_hit ''100 111???11 011 01'' s \<longleftrightarrow>
     bit s 15 \<and> \<not> bit s 14 \<and> \<not> bit s 13 \<and> bit s 12 \<and>
     bit s 11 \<and> bit s 10 \<and> bit s 6 \<and> bit s 5 \<and> \<not> bit s 4 \<and>
     bit s 3 \<and> bit s 2 \<and> \<not> bit s 1 \<and> bit s 0"
  "INSTPAT_hit ''100 111???11 100 01'' s \<longleftrightarrow>
     bit s 15 \<and> \<not> bit s 14 \<and> \<not> bit s 13 \<and> bit s 12 \<and>
     bit s 11 \<and> bit s 10 \<and> bit s 6 \<and> bit s 5 \<and> bit s 4 \<and>
     \<not> bit s 3 \<and> \<not> bit s 2 \<and> \<not> bit s 1 \<and> bit s 0"
  "INSTPAT_hit ''100 111???11 101 01'' s \<longleftrightarrow>
     bit s 15 \<and> \<not> bit s 14 \<and> \<not> bit s 13 \<and> bit s 12 \<and>
     bit s 11 \<and> bit s 10 \<and> bit s 6 \<and> bit s 5 \<and> bit s 4 \<and>
     \<not> bit s 3 \<and> bit s 2 \<and> \<not> bit s 1 \<and> bit s 0"
  "INSTPAT_hit ''100 111???11 110 01'' s \<longleftrightarrow>
     bit s 15 \<and> \<not> bit s 14 \<and> \<not> bit s 13 \<and> bit s 12 \<and>
     bit s 11 \<and> bit s 10 \<and> bit s 6 \<and> bit s 5 \<and> bit s 4 \<and>
     bit s 3 \<and> \<not> bit s 2 \<and> \<not> bit s 1 \<and> bit s 0"
  "INSTPAT_hit ''100 111???11 111 01'' s \<longleftrightarrow>
     bit s 15 \<and> \<not> bit s 14 \<and> \<not> bit s 13 \<and> bit s 12 \<and>
     bit s 11 \<and> bit s 10 \<and> bit s 6 \<and> bit s 5 \<and> bit s 4 \<and>
     bit s 3 \<and> bit s 2 \<and> \<not> bit s 1 \<and> bit s 0"
  "INSTPAT_hit ''101 ???????? ??? 01'' s \<longleftrightarrow>
     bit s 15 \<and> \<not> bit s 14 \<and> bit s 13 \<and> \<not> bit s 1 \<and>
     bit s 0"
  "INSTPAT_hit ''110 ???????? ??? 01'' s \<longleftrightarrow>
     bit s 15 \<and> bit s 14 \<and> \<not> bit s 13 \<and> \<not> bit s 1 \<and>
     bit s 0"
  "INSTPAT_hit ''111 ???????? ??? 01'' s \<longleftrightarrow>
     bit s 15 \<and> bit s 14 \<and> bit s 13 \<and> \<not> bit s 1 \<and>
     bit s 0"
  "INSTPAT_hit ''000 ???????? ??? 10'' s \<longleftrightarrow>
     \<not> bit s 15 \<and> \<not> bit s 14 \<and> \<not> bit s 13 \<and>
     bit s 1 \<and> \<not> bit s 0"
  "INSTPAT_hit ''000 0??????? 000 10'' s \<longleftrightarrow>
     \<not> bit s 15 \<and> \<not> bit s 14 \<and> \<not> bit s 13 \<and>
     \<not> bit s 12 \<and> \<not> bit s 4 \<and> \<not> bit s 3 \<and> \<not> bit s 2 \<and>
     bit s 1 \<and> \<not> bit s 0"
  "INSTPAT_hit ''001 ???????? ??? 10'' s \<longleftrightarrow>
     \<not> bit s 15 \<and> \<not> bit s 14 \<and> bit s 13 \<and> bit s 1 \<and>
     \<not> bit s 0"
  "INSTPAT_hit ''010 ???????? ??? 10'' s \<longleftrightarrow>
     \<not> bit s 15 \<and> bit s 14 \<and> \<not> bit s 13 \<and> bit s 1 \<and>
     \<not> bit s 0"
  "INSTPAT_hit ''011 ???????? ??? 10'' s \<longleftrightarrow>
     \<not> bit s 15 \<and> bit s 14 \<and> bit s 13 \<and> bit s 1 \<and>
     \<not> bit s 0"
  "INSTPAT_hit ''100 0?????00 000 10'' s \<longleftrightarrow>
     bit s 15 \<and> \<not> bit s 14 \<and> \<not> bit s 13 \<and> \<not> bit s 12 \<and>
     \<not> bit s 6 \<and> \<not> bit s 5 \<and> \<not> bit s 4 \<and> \<not> bit s 3 \<and>
     \<not> bit s 2 \<and> bit s 1 \<and> \<not> bit s 0"
  "INSTPAT_hit ''100 0??????? ??? 10'' s \<longleftrightarrow>
     bit s 15 \<and> \<not> bit s 14 \<and> \<not> bit s 13 \<and> \<not> bit s 12 \<and>
     bit s 1 \<and> \<not> bit s 0"
  "INSTPAT_hit ''100 10000000 000 10'' s \<longleftrightarrow>
     bit s 15 \<and> \<not> bit s 14 \<and> \<not> bit s 13 \<and> bit s 12 \<and>
     \<not> bit s 11 \<and> \<not> bit s 10 \<and> \<not> bit s 9 \<and>
     \<not> bit s 8 \<and> \<not> bit s 7 \<and> \<not> bit s 6 \<and> \<not> bit s 5 \<and>
     \<not> bit s 4 \<and> \<not> bit s 3 \<and> \<not> bit s 2 \<and> bit s 1 \<and>
     \<not> bit s 0"
  "INSTPAT_hit ''100 1?????00 000 10'' s \<longleftrightarrow>
     bit s 15 \<and> \<not> bit s 14 \<and> \<not> bit s 13 \<and> bit s 12 \<and>
     \<not> bit s 6 \<and> \<not> bit s 5 \<and> \<not> bit s 4 \<and> \<not> bit s 3 \<and>
     \<not> bit s 2 \<and> bit s 1 \<and> \<not> bit s 0"
  "INSTPAT_hit ''100 1??????? ??? 10'' s \<longleftrightarrow>
     bit s 15 \<and> \<not> bit s 14 \<and> \<not> bit s 13 \<and> bit s 12 \<and>
     bit s 1 \<and> \<not> bit s 0"
  "INSTPAT_hit ''101 ???????? ??? 10'' s \<longleftrightarrow>
     bit s 15 \<and> \<not> bit s 14 \<and> bit s 13 \<and> bit s 1 \<and>
     \<not> bit s 0"
  "INSTPAT_hit ''110 ???????? ??? 10'' s \<longleftrightarrow>
     bit s 15 \<and> bit s 14 \<and> \<not> bit s 13 \<and> bit s 1 \<and>
     \<not> bit s 0"
  "INSTPAT_hit ''111 ???????? ??? 10'' s \<longleftrightarrow>
     bit s 15 \<and> bit s 14 \<and> bit s 13 \<and> bit s 1 \<and> \<not> bit s 0"
  "INSTPAT_hit ''??? ???????? ??? ??'' s \<longleftrightarrow> True"
  by (simp_all add: INSTPAT_hit16 pat_strip_def pat_valid_def)

lemma word32_eq_iff:
  "a = b \<longleftrightarrow> bit a 0 = bit b 0 \<and> bit a 1 = bit b 1 \<and>
     bit a 2 = bit b 2 \<and> bit a 3 = bit b 3 \<and> bit a 4 = bit b 4 \<and> bit a 5 = bit b 5 \<and>
     bit a 6 = bit b 6 \<and> bit a 7 = bit b 7 \<and> bit a 8 = bit b 8 \<and> bit a 9 = bit b 9 \<and>
     bit a 10 = bit b 10 \<and> bit a 11 = bit b 11 \<and> bit a 12 = bit b 12 \<and>
     bit a 13 = bit b 13 \<and> bit a 14 = bit b 14 \<and> bit a 15 = bit b 15 \<and>
     bit a 16 = bit b 16 \<and> bit a 17 = bit b 17 \<and> bit a 18 = bit b 18 \<and>
     bit a 19 = bit b 19 \<and> bit a 20 = bit b 20 \<and> bit a 21 = bit b 21 \<and>
     bit a 22 = bit b 22 \<and> bit a 23 = bit b 23 \<and> bit a 24 = bit b 24 \<and>
     bit a 25 = bit b 25 \<and> bit a 26 = bit b 26 \<and> bit a 27 = bit b 27 \<and>
     bit a 28 = bit b 28 \<and> bit a 29 = bit b 29 \<and> bit a 30 = bit b 30 \<and>
     bit a 31 = bit b 31"
  (is "?l \<longleftrightarrow> ?r") for a b :: uint32_t
proof
  assume r: ?r
  have all: "list_all (\<lambda>n. n \<in> set [0, 1, 2, 3, 4, 5, 6, 7, 8, 9, 10, 11, 12, 13, 14, 15,
      16, 17, 18, 19, 20, 21, 22, 23, 24, 25, 26, 27, 28, 29, 30, 31]) [0..<32]"
    by code_simp
  show ?l
  proof (rule word_bit_eqI)
    fix n assume "n < LENGTH(32)"
    then have "n \<in> set [0..<32]" by simp
    with all have "n \<in> set [0, 1, 2, 3, 4, 5, 6, 7, 8, 9, 10, 11, 12, 13, 14, 15,
      16, 17, 18, 19, 20, 21, 22, 23, 24, 25, 26, 27, 28, 29, 30, 31]" unfolding list_all_iff by blast
    with r show "bit a n = bit b n" unfolding set_simps by (elim insertE emptyE) simp_all
  qed
qed simp

lemma instpat_scan_weak_cong: "s = t \<Longrightarrow> instpat_scan ps s = instpat_scan ps t"
  by simp

lemma op_func3_bits:
  "op_func3 s = (if bit s 1 then 16 else 0) + (if bit s 0 then 8 else 0) + (if bit s 15 then 4 else 0) +
     (if bit s 14 then 2 else 0) + (if bit s 13 then 1 else 0)"
proof -
  have "push_bit 3 (s AND 3) OR drop_bit 13 (s AND 0xe000) =
    (if bit s 1 then 16 else 0) + (if bit s 0 then 8 else 0) + (if bit s 15 then 4 else 0) +
     (if bit s 14 then 2 else 0) + (if bit s 13 then 1 else 0)"
    by (cases "bit s 0"; cases "bit s 1"; cases "bit s 13"; cases "bit s 14"; cases "bit s 15")
      (simp_all add: word32_eq_iff bit_simps)
  then show ?thesis by (simp add: op_func3_def)
qed

lemma field_eq:
  fixes s :: uint32_t
  assumes "ucast (ucast s :: uint16_t) = s"
  shows "dec_rd (ucast s) = 0 \<longleftrightarrow> \<not> bit s 7 \<and> \<not> bit s 8 \<and> \<not> bit s 9 \<and> \<not> bit s 10 \<and> \<not> bit s 11"
   "dec_rd (ucast s) = 2 \<longleftrightarrow> \<not> bit s 7 \<and> bit s 8 \<and> \<not> bit s 9 \<and> \<not> bit s 10 \<and> \<not> bit s 11"
   "dec_rs1 (ucast s) = 0 \<longleftrightarrow> \<not> bit s 7 \<and> \<not> bit s 8 \<and> \<not> bit s 9 \<and> \<not> bit s 10 \<and> \<not> bit s 11"
   "dec_rs2 (ucast s) = 0 \<longleftrightarrow> \<not> bit s 2 \<and> \<not> bit s 3 \<and> \<not> bit s 4 \<and> \<not> bit s 5 \<and> \<not> bit s 6"
   "dec_cb_funct2 (ucast s) = 0 \<longleftrightarrow> \<not> bit s 10 \<and> \<not> bit s 11"
   "dec_cb_funct2 (ucast s) = 1 \<longleftrightarrow> bit s 10 \<and> \<not> bit s 11"
   "dec_cb_funct2 (ucast s) = 2 \<longleftrightarrow> \<not> bit s 10 \<and> bit s 11"
   "dec_cs_funct2 (ucast s) = 0 \<longleftrightarrow> \<not> bit s 5 \<and> \<not> bit s 6"
   "dec_cs_funct2 (ucast s) = 1 \<longleftrightarrow> bit s 5 \<and> \<not> bit s 6"
   "dec_cs_funct2 (ucast s) = 2 \<longleftrightarrow> \<not> bit s 5 \<and> bit s 6"
   "dec_cs_funct2 (ucast s) = 3 \<longleftrightarrow> bit s 5 \<and> bit s 6"
   "dec_cr_funct4 (ucast s) = 8 \<longleftrightarrow> bit s 15 \<and> \<not> bit s 14 \<and> \<not> bit s 13 \<and> \<not> bit s 12"
   "dec_cr_funct4 (ucast s) = 9 \<longleftrightarrow> bit s 15 \<and> \<not> bit s 14 \<and> \<not> bit s 13 \<and> bit s 12"
   "drop_bit 7 (s AND 0x1000) = 0 \<longleftrightarrow> \<not> bit s 12"
   "s AND 0x1000 = 0 \<longleftrightarrow> \<not> bit s 12"
  unfolding dec_rd_def dec_rs1_def dec_rs2_def dec_cb_funct2_def dec_cs_funct2_def dec_cr_funct4_def Let_def assms
  by (simp_all add: word32_eq_iff bit_simps conj_ac)

lemma ref_imms:
  fixes s :: uint32_t
  assumes "ucast (ucast s :: uint16_t) = s"
  shows "sign_extend (ref_imm5 s) 5 = dec_ci_imm (ucast s)"
    "dec_cb_imm_candi (ucast s) = dec_ci_imm (ucast s)"
    "sign_extend (drop_bit 3 (s AND 0x1000) OR push_bit 4 (s AND 0x18) OR
            push_bit 1 (s AND 0x20) OR push_bit 3 (s AND 0x4) OR drop_bit 2 (s AND 0x40)) 9 =
      dec_ci_nzimm_addi16sp (ucast s)"
    "sign_extend (push_bit 5 (s AND 0x1000) OR push_bit 10 (s AND 0x7c)) 17 = dec_ci_nzimm_lui (ucast s)"
    "drop_bit 7 (s AND 0x1000) OR drop_bit 2 (s AND 0x7c) = dec_cs_shamt (ucast s)"
    "drop_bit 7 (s AND 0x1000) OR drop_bit 2 (s AND 0x70) OR push_bit 4 (s AND 0xc) =
      dec_ci_offset_lwsp (ucast s)"
    "dec_rs1 (ucast s) = dec_rd (ucast s)"
  unfolding ref_imm5_def dec_ci_imm_def dec_cb_imm_candi_def dec_ci_nzimm_addi16sp_def
    dec_ci_nzimm_lui_def dec_cs_shamt_def dec_ci_offset_lwsp_def dec_rs1_def dec_rd_def Let_def assms
  by (rule refl)+

lemmas ref_defs = addi4spn_def lw_c_def sw_c_def addi_c_def jalr_c_def li_c_def caddi16sp_to_addi_def
  clui_to_lui_def lui_c_def csrli_to_srli_def csrai_to_srai_def candi_to_andi_def csub_to_sub_def
  cxor_to_xor_def cor_to_or_def cand_to_and_def alu_c_def jal_c_def beqz_def bnez_def slli_c_def
  lwsp_def cjr_to_jalr_def cmv_to_add_def cebreak_to_ebreak_def cjalr_to_jalr_def cadd_to_add_def
  jma_c_def swsp_def

lemma shamt_less:
  fixes s :: uint32_t
  assumes "ucast (ucast s :: uint16_t) = s" and "\<not> bit s 12"
  shows "dec_cs_shamt (ucast s) < 32"
proof -
  have "drop_bit 5 (dec_cs_shamt (ucast s)) = 0"
    using assms(2) unfolding dec_cs_shamt_def Let_def assms(1)
    by (simp add: word32_eq_iff bit_simps)
  then show ?thesis
    by (simp add: word_less_nat_alt word_unat_eq_iff unat_drop_bit_div div_eq_0_iff)
qed

lemma ciw_zero:
  fixes s :: uint32_t
  assumes "ucast (ucast s :: uint16_t) = s"
  shows "dec_ciw_imm (ucast s) = 0 \<longleftrightarrow> \<not> bit s 5 \<and> \<not> bit s 6 \<and> \<not> bit s 7 \<and> \<not> bit s 8 \<and> \<not> bit s 9 \<and>
    \<not> bit s 10 \<and> \<not> bit s 11 \<and> \<not> bit s 12"
  unfolding dec_ciw_imm_def Let_def assms by (simp add: word32_eq_iff bit_simps conj_ac)

lemma rtype_itype: "rtype 0 rs2 rs1 funct3 rd opcode = itype rs2 rs1 funct3 rd opcode"
  by (simp add: rtype_def itype_def)

text \<open>Every RV32C encoding the cross-checker knows expands to the same instruction.\<close>

lemma rvc_ref_agrees_masked:
  fixes s :: uint32_t
  assumes "ucast (ucast s :: uint16_t) = s" and "\<not> (bit s 0 \<and> bit s 1)" and "decompress_c_ref s \<noteq> 0" and "s AND 0xffff = s"
  shows "decompress_c False s = decompress_c_ref s"
  using assms(3)
  unfolding decompress_c_def assms(4) rvc_quadrant0_def rvc_quadrant1_def rvc_quadrant2_def Let_def append.simps
   decompress_c_ref_def op_func3_bits
  apply (cases "bit s 0"; cases "bit s 1"; cases "bit s 13"; cases "bit s 14"; cases "bit s 15")
  apply (simp_all only: instpat_scan.simps rvc_hits simp_thms if_True if_False cong: instpat_scan_weak_cong)
  apply (simp_all only: dc_funcs_rv32c_def decode_operand_c_def c_format.case prod.case Let_def)
  apply (simp_all add: assms(2) split del: if_split)
  apply (simp_all only: ref_defs Let_def ref_imms [OF assms(1)] simp_thms)
  apply (simp_all only: field_eq [OF assms(1)] ciw_zero [OF assms(1)] rtype_itype)
  subgoal by (cases "bit s 7"; cases "bit s 8"; cases "bit s 9"; cases "bit s 10"; cases "bit s 11") simp_all
  subgoal by (cases "bit s 5"; cases "bit s 6"; cases "bit s 10"; cases "bit s 11"; cases "bit s 12")
    (simp_all add: field_eq [OF assms(1)] split: if_splits)
  subgoal by (cases "bit s 7 \<or> bit s 8 \<or> bit s 9 \<or> bit s 10 \<or> bit s 11")
    (auto simp: nop_def field_eq(1) [OF assms(1), THEN iffD2] split: if_splits)
  subgoal by (cases "bit s 12"; cases "bit s 2 \<or> bit s 3 \<or> bit s 4 \<or> bit s 5 \<or> bit s 6";
      cases "bit s 7 \<or> bit s 8 \<or> bit s 9 \<or> bit s 10 \<or> bit s 11") (auto split: if_splits)
  subgoal by (cases "bit s 12"; cases "bit s 7 \<or> bit s 8 \<or> bit s 9 \<or> bit s 10 \<or> bit s 11")
    (auto simp: shamt_less [OF assms(1)] split: if_splits)
  subgoal by (auto split: if_splits)
  done

lemma mask16:
  "ucast (ucast (inst AND 0xffff :: uint32_t) :: uint16_t) = inst AND 0xffff"
  "(inst AND 0xffff) AND 0xffff = inst AND 0xffff" for inst :: uint32_t
proof -
  have m: "(0xffff :: uint32_t) = mask 16" by (simp add: mask_eq_exp_minus_1)
  show "ucast (ucast (inst AND 0xffff :: uint32_t) :: uint16_t) = inst AND 0xffff"
    unfolding m by (rule word_bit_eqI) (auto simp: bit_simps)
  show "(inst AND 0xffff) AND 0xffff = inst AND 0xffff" by (simp add: and.assoc)
qed

lemma rvc_ref_agrees:
  assumes "inst AND 3 \<noteq> 3" and "decompress_c_ref inst \<noteq> 0"
  shows "decompress_c False inst = decompress_c_ref inst"
proof -
  let ?s = "inst AND 0xffff"
  have "inst AND 3 = 3 \<longleftrightarrow> bit inst 0 \<and> bit inst 1"
    by (simp add: word32_eq_iff bit_simps)
  then have q: "\<not> (bit ?s 0 \<and> bit ?s 1)"
    using assms(1) by (simp add: bit_simps)
  have ref: "decompress_c_ref ?s = decompress_c_ref inst" and dec: "decompress_c False ?s = decompress_c False inst"
    by (simp_all add: decompress_c_ref_def decompress_c_def mask16(2))
  show ?thesis
    using rvc_ref_agrees_masked [OF mask16(1) q _ mask16(2)] assms(2) by (simp add: ref dec)
qed

section \<open>Reserved encodings\<close>

text \<open>What every expansion is: the illegal word 0, or a word with both low bits set.\<close>

definition word32_or_0 :: "uint32_t \<Rightarrow> bool" where
  "word32_or_0 w \<longleftrightarrow> w = 0 \<or> (bit w 0 \<and> bit w 1)"

lemma instpat_scan_all:
  assumes "\<And>p f b imm rs1 rs2 rd. (p, f, b) \<in> set ps \<Longrightarrow> P (b imm rs1 rs2 rd)" and "P 0"
  shows "P (instpat_scan ps s)"
  using assms(1)
proof (induction ps)
  case (Cons a ps)
  obtain p f b where a: "a = (p, f, b)" by (cases a)
  obtain imm rs1 rs2 rd where d: "decode_operand_c s f = (imm, rs1, rs2, rd)"
    by (metis prod_cases4)
  have "P (b imm rs1 rs2 rd)" by (rule Cons.prems [of p f b]) (simp add: a)
  moreover have "P (instpat_scan ps s)" using Cons.IH Cons.prems by (meson list.set_intros(2))
  ultimately show ?case using a d by simp
qed (simp add: assms(2))

lemma word32_or_0_type [simp]:
  "word32_or_0 0" "bit opc 0 \<Longrightarrow> bit opc 1 \<Longrightarrow> word32_or_0 (rtype f7 r2 r1 f3 d opc)"
  "bit opc 0 \<Longrightarrow> bit opc 1 \<Longrightarrow> word32_or_0 (itype i r1 f3 d opc)"
  "bit opc 0 \<Longrightarrow> bit opc 1 \<Longrightarrow> word32_or_0 (stype i r2 r1 f3 opc)"
  "bit opc 0 \<Longrightarrow> bit opc 1 \<Longrightarrow> word32_or_0 (btype i r2 r1 f3 opc)"
  "bit opc 0 \<Longrightarrow> bit opc 1 \<Longrightarrow> word32_or_0 (utype i d opc)"
  "bit opc 0 \<Longrightarrow> bit opc 1 \<Longrightarrow> word32_or_0 (jtype i d opc)"
  using opcode_bits01 by (simp_all add: word32_or_0_def)

lemma word32_or_0_nop [simp]: "word32_or_0 nop"
  by (simp add: nop_def)

lemma decompress_word32: "word32_or_0 (decompress_c rv64 inst)"
  unfolding decompress_c_def Let_def
  by (rule instpat_scan_all)
    (auto simp: rvc_quadrant0_def rvc_quadrant1_def rvc_quadrant2_def Let_def)

text \<open>The reserved encodings of RV64C with Zcb and Zcmop, as the ISA manual lists them.\<close>

definition zeros :: "uint32_t \<Rightarrow> nat list \<Rightarrow> bool" where
  "zeros s ns \<longleftrightarrow> list_all (\<lambda>n. \<not> bit s n) ns"

definition rvc64_reserved :: "uint32_t \<Rightarrow> bool" where
  "rvc64_reserved s =
     (let op = s AND 3; f3 = drop_bit 13 s AND 7; rd0 = zeros s [7, 8, 9, 10, 11];
          imm0 = zeros s [2, 3, 4, 5, 6, 12] in
      op = 3 \<or>
      (op = 0 \<and> f3 = 0 \<and> zeros s [5, 6, 7, 8, 9, 10, 11, 12]) \<or>
      (op = 0 \<and> f3 = 4 \<and> (bit s 12 \<or> (bit s 11 \<and> bit s 10 \<and> bit s 6))) \<or>
      (op = 1 \<and> f3 = 1 \<and> rd0) \<or>
      (op = 1 \<and> f3 = 3 \<and> imm0 \<and> \<not> (bit s 7 \<and> \<not> bit s 11)) \<or>
      (op = 1 \<and> f3 = 4 \<and> bit s 12 \<and> bit s 11 \<and> bit s 10 \<and> bit s 6 \<and> bit s 5 \<and>
        bit s 4 \<and> bit s 3) \<or>
      (op = 2 \<and> (f3 = 2 \<or> f3 = 3) \<and> rd0) \<or>
      (op = 2 \<and> f3 = 4 \<and> rd0 \<and> imm0))"

lemma quadrant_bits:
  fixes s :: uint32_t
  shows "s AND 3 = 0 \<longleftrightarrow> \<not> bit s 1 \<and> \<not> bit s 0" "s AND 3 = 1 \<longleftrightarrow> \<not> bit s 1 \<and> bit s 0"
    "s AND 3 = 2 \<longleftrightarrow> bit s 1 \<and> \<not> bit s 0" "s AND 3 = 3 \<longleftrightarrow> bit s 1 \<and> bit s 0"
    "drop_bit 13 s AND 7 = 0 \<longleftrightarrow> \<not> bit s 15 \<and> \<not> bit s 14 \<and> \<not> bit s 13"
    "drop_bit 13 s AND 7 = 1 \<longleftrightarrow> \<not> bit s 15 \<and> \<not> bit s 14 \<and> bit s 13"
    "drop_bit 13 s AND 7 = 2 \<longleftrightarrow> \<not> bit s 15 \<and> bit s 14 \<and> \<not> bit s 13"
    "drop_bit 13 s AND 7 = 3 \<longleftrightarrow> \<not> bit s 15 \<and> bit s 14 \<and> bit s 13"
    "drop_bit 13 s AND 7 = 4 \<longleftrightarrow> bit s 15 \<and> \<not> bit s 14 \<and> \<not> bit s 13"
  by (simp_all add: word32_eq_iff bit_simps conj_ac)

lemma nzimm_zero:
  fixes s :: uint32_t
  assumes "ucast (ucast s :: uint16_t) = s"
  shows "dec_ci_nzimm_addi16sp (ucast s) = 0 \<longleftrightarrow> zeros s [2, 3, 4, 5, 6, 12]"
    and "dec_ci_nzimm_lui (ucast s) = 0 \<longleftrightarrow> zeros s [2, 3, 4, 5, 6, 12]"
  unfolding dec_ci_nzimm_addi16sp_def dec_ci_nzimm_lui_def Let_def assms
  by (simp_all add: word32_eq_iff bit_sign_extend bit_simps zeros_def) (auto)

lemma rd_zcmop:
  fixes s :: uint32_t
  assumes "ucast (ucast s :: uint16_t) = s"
  shows "dec_rd (ucast s) < 16 \<and> dec_rd (ucast s) AND 1 \<noteq> 0 \<longleftrightarrow> bit s 7 \<and> \<not> bit s 11"
proof -
  let ?r = "dec_rd (ucast s)"
  have "?r < 16 \<longleftrightarrow> drop_bit 4 ?r = 0"
    by (simp add: word_less_nat_alt word_unat_eq_iff unat_drop_bit_div div_eq_0_iff)
  also have "\<dots> \<longleftrightarrow> \<not> bit s 11"
    unfolding dec_rd_def Let_def assms by (simp add: word32_eq_iff bit_simps)
  finally have 1: "?r < 16 \<longleftrightarrow> \<not> bit s 11" .
  have "?r AND 1 = 0 \<longleftrightarrow> \<not> bit s 7"
    unfolding dec_rd_def Let_def assms by (simp add: word32_eq_iff bit_simps)
  with 1 show ?thesis by auto
qed

lemma nonzero_type [simp]:
  "bit opc 0 \<Longrightarrow> rtype f7 r2 r1 f3 d opc \<noteq> 0" "bit opc 0 \<Longrightarrow> itype i r1 f3 d opc \<noteq> 0"
  "bit opc 0 \<Longrightarrow> stype i r2 r1 f3 opc \<noteq> 0" "bit opc 0 \<Longrightarrow> btype i r2 r1 f3 opc \<noteq> 0"
  "bit opc 0 \<Longrightarrow> utype i d opc \<noteq> 0" "bit opc 0 \<Longrightarrow> jtype i d opc \<noteq> 0" "nop \<noteq> 0"
proof -
  have nz: "bit w 0 \<Longrightarrow> w \<noteq> 0" for w :: uint32_t by auto
  show "bit opc 0 \<Longrightarrow> rtype f7 r2 r1 f3 d opc \<noteq> 0" "bit opc 0 \<Longrightarrow> itype i r1 f3 d opc \<noteq> 0"
    "bit opc 0 \<Longrightarrow> stype i r2 r1 f3 opc \<noteq> 0" "bit opc 0 \<Longrightarrow> btype i r2 r1 f3 opc \<noteq> 0"
    "bit opc 0 \<Longrightarrow> utype i d opc \<noteq> 0" "bit opc 0 \<Longrightarrow> jtype i d opc \<noteq> 0"
    by (erule nz [OF opcode_bits01(1)] nz [OF opcode_bits01(2)] nz [OF opcode_bits01(3)]
      nz [OF opcode_bits01(4)] nz [OF opcode_bits01(5)] nz [OF opcode_bits01(6)])+
  show "nop \<noteq> 0" unfolding nop_def by (rule nz [OF opcode_bits01(2)]) simp
qed

lemma decompress_zero_masked:
  fixes s :: uint32_t
  assumes "ucast (ucast s :: uint16_t) = s" and "s AND 0xffff = s"
  shows "decompress_c True s = 0 \<longleftrightarrow> rvc64_reserved s"
  unfolding decompress_c_def assms(2) rvc_quadrant0_def rvc_quadrant1_def rvc_quadrant2_def Let_def
    append.simps rvc64_reserved_def quadrant_bits
  apply (cases "bit s 0"; cases "bit s 1"; cases "bit s 13"; cases "bit s 14"; cases "bit s 15")
  apply (simp_all only: instpat_scan.simps rvc_hits simp_thms if_True if_False
    cong: instpat_scan_weak_cong)
  apply (simp_all only: decode_operand_c_def c_format.case prod.case Let_def)
  apply (simp_all split del: if_split)
  apply (simp_all only: field_eq [OF assms(1)] nzimm_zero [OF assms(1)] ciw_zero [OF assms(1)]
    rd_zcmop [OF assms(1)] zeros_def list.pred_inject simp_thms)
  apply (auto split: if_splits)
  done

section \<open>Properties\<close>

text \<open>
  C7. The cross-check at the end of \<open>decompress_c\<close> never fires: whenever the table-driven RV32C
  decoder of \<^verbatim>\<open>inst_c_ref.c\<close> knows a 16-bit instruction, the pattern decoder of
  \<^verbatim>\<open>inst_c.c\<close> expands it to the same 32-bit word, the Zcb exemption of the check not needed.
\<close>

theorem rvc_no_mismatch:
  assumes "inst AND 3 \<noteq> 3"
  shows "\<not> decompress_mismatch inst \<and>
    decompress_c_ref (inst AND 0xffff) \<in> {0, decompress_c False inst}"
proof -
  have "decompress_c_ref (inst AND 0xffff) = decompress_c_ref inst"
    by (simp add: decompress_c_ref_def mask16(2))
  moreover have "decompress_c_ref inst = 0 \<or> decompress_c_ref inst = decompress_c False inst"
    using rvc_ref_agrees [OF assms] by metis
  ultimately show ?thesis by (auto simp: decompress_mismatch_def Let_def)
qed

text \<open>\<open>c.addi a0, 1\<close> is known to both decoders.\<close>

lemma rvc_no_mismatch_witness:
  "decompress_c False 0x0505 = decompress_c_ref 0x0505 \<and> decompress_c_ref 0x0505 = 0x00150513"
proof -
  have ref: "decompress_c_ref 0x0505 = 0x00150513" by code_simp
  have "0x0505 AND 3 \<noteq> (3 :: uint32_t)" by simp
  from rvc_no_mismatch [OF this] show ?thesis using ref by simp
qed

text \<open>
  C8. On RV64 the decompressor returns the illegal word 0 on exactly the encodings that the ISA
  manual reserves, and on all others a 32-bit instruction, whose two low bits are set; the upper
  half of the fetched word does not matter.
\<close>

theorem rvc_reserved:
  "decompress_c True inst =
     (if rvc64_reserved (inst AND 0xffff) then 0 else decompress_c True (inst AND 0xffff) OR 3)"
proof -
  let ?s = "inst AND 0xffff"
  have dec: "decompress_c True ?s = decompress_c True inst"
    by (simp add: decompress_c_def mask16(2))
  have or3: "w OR 3 = w" if "bit w 0" "bit w 1" for w :: uint32_t
    using that by (auto simp: word32_eq_iff bit_simps)
  have "decompress_c True inst = 0 \<longleftrightarrow> rvc64_reserved ?s"
    using decompress_zero_masked [OF mask16, of inst] unfolding dec .
  moreover have "decompress_c True inst = 0 \<or> decompress_c True inst OR 3 = decompress_c True inst"
    using decompress_word32 [of True inst] or3 unfolding word32_or_0_def by blast
  ultimately show ?thesis by (auto simp: dec)
qed

end
