(* ===== verification/Sv39_Correct.thy ===== *)
theory Sv39_Correct
  imports Demo
begin

text \<open>
  Sv39 against the privileged specification. The specification is an inductive walk over the page
  table in memory together with the conditions on its leaf, written with the bits the manual names;
  the theorems show that \<^verbatim>\<open>sv39_translate\<close> grants exactly what it grants.
\<close>

unbundle bit_operations_syntax

section \<open>What the manual says\<close>

text \<open>A page-table entry the implementation may read: aligned, backed by memory, granted by the PMP.\<close>

definition pte_readable :: "config \<Rightarrow> nemu \<Rightarrow> paddr_t \<Rightarrow> bool" where
  "pte_readable c s a \<longleftrightarrow> a AND 7 = 0 \<and> paddr_is_memory_span c a 8 \<and>
     \<not> pmp_spec_faults c s (unat a) 8 PRV_S True False False"

definition pte_at :: "nemu \<Rightarrow> paddr_t \<Rightarrow> word_t" where
  "pte_at s a = load_bytes (phys s) a 8"

text \<open>Bits 60 to 54 are reserved; N needs Svnapot at level 0 and a 64 KiB number; PBMT needs PBMTE.\<close>

definition sv39_leaf_ok :: "config \<Rightarrow> nemu \<Rightarrow> nat \<Rightarrow> word_t \<Rightarrow> bool" where
  "sv39_leaf_ok c s level pte \<longleftrightarrow>
     bit pte 0 \<and> (bit pte 1 \<or> bit pte 3) \<and> (bit pte 2 \<longrightarrow> bit pte 1) \<and>
     (\<forall>i\<in>{54..60}. \<not> bit pte i) \<and> \<not> (bit pte 61 \<and> bit pte 62) \<and>
     (bit pte 61 \<or> bit pte 62 \<longrightarrow> bit (sr s CSR_MENVCFG) 62) \<and>
     (bit pte 63 \<longrightarrow> riscv_isa_extensions c AND NEMU_ISA_EXT_SVNAPOT \<noteq> 0 \<and> level = 0 \<and>
        take_bit 4 (drop_bit 10 pte) = 8)"

text \<open>A pointer has R, W, X, D, A, U and every bit above the page number clear.\<close>

definition sv39_pointer_ok :: "word_t \<Rightarrow> bool" where
  "sv39_pointer_ok pte \<longleftrightarrow> bit pte 0 \<and> (\<forall>i\<in>{1, 2, 3, 4, 6, 7}. \<not> bit pte i) \<and>
     (\<forall>i\<in>{54..63}. \<not> bit pte i)"

definition pte_page :: "word_t \<Rightarrow> word_t" where
  "pte_page pte = take_bit 44 (drop_bit 10 pte)"

definition vpn_slot :: "paddr_t \<Rightarrow> vaddr_t \<Rightarrow> nat \<Rightarrow> paddr_t" where
  "vpn_slot table va level = table + 8 * take_bit 9 (drop_bit (12 + 9 * level) va)"

inductive sv39_leads ::
    "config \<Rightarrow> nemu \<Rightarrow> vaddr_t \<Rightarrow> nat \<Rightarrow> paddr_t \<Rightarrow> nat \<Rightarrow> word_t \<Rightarrow> bool" for c s va where
  leaf: "pte_readable c s (vpn_slot table va level) \<Longrightarrow>
     pte = pte_at s (vpn_slot table va level) \<Longrightarrow> sv39_leaf_ok c s level pte \<Longrightarrow>
     sv39_leads c s va level table level pte"
| pointer: "pte_readable c s (vpn_slot table va (Suc level)) \<Longrightarrow>
     sv39_pointer_ok (pte_at s (vpn_slot table va (Suc level))) \<Longrightarrow>
     sv39_leads c s va level (push_bit 12 (pte_page (pte_at s (vpn_slot table va (Suc level))))) l pte \<Longrightarrow>
     sv39_leads c s va (Suc level) table l pte"

text \<open>What the leaf grants: the permission, U against the privilege, A, and D for a store.\<close>

definition sv39_grants :: "mem_type \<Rightarrow> nat \<Rightarrow> word_t \<Rightarrow> word_t \<Rightarrow> bool" where
  "sv39_grants ty prv mstatus pte \<longleftrightarrow>
     (case ty of
        MEM_TYPE_IFETCH \<Rightarrow> bit pte 3
      | MEM_TYPE_READ \<Rightarrow> bit pte 1 \<or> (bit mstatus 19 \<and> bit pte 3)
      | MEM_TYPE_WRITE \<Rightarrow> bit pte 2 \<and> bit pte 7
      | MEM_TYPE_CMO \<Rightarrow> bit pte 1 \<or> bit pte 2 \<or> (bit mstatus 19 \<and> bit pte 3)) \<and>
     (if prv = PRV_U then bit pte 4
      else \<not> bit pte 4 \<or> (bit mstatus 18 \<and> ty \<noteq> MEM_TYPE_IFETCH)) \<and>
     bit pte 6"

text \<open>The page: \<open>2 ^ (12 + 9 * level)\<close> bytes, or 64 KiB for a NAPOT leaf.\<close>

definition leaf_span :: "nat \<Rightarrow> word_t \<Rightarrow> nat" where
  "leaf_span level pte = (if bit pte 63 then 16 else 12 + 9 * level)"

definition leaf_addr :: "nat \<Rightarrow> word_t \<Rightarrow> vaddr_t \<Rightarrow> paddr_t" where
  "leaf_addr level pte va =
     push_bit (leaf_span level pte) (drop_bit (leaf_span level pte) (push_bit 12 (pte_page pte))) OR
     take_bit (leaf_span level pte) va"

definition leaf_aligned :: "nat \<Rightarrow> word_t \<Rightarrow> bool" where
  "leaf_aligned level pte \<longleftrightarrow> take_bit (9 * level) (pte_page pte) = 0"

definition sv39_maps :: "config \<Rightarrow> nemu \<Rightarrow> mem_type \<Rightarrow> vaddr_t \<Rightarrow> paddr_t \<Rightarrow> uint8_t \<Rightarrow> bool" where
  "sv39_maps c s ty va pa pbmt \<longleftrightarrow>
     signed_take_bit 38 va = va \<and>
     (\<exists>level pte. sv39_leads c s va 2 (push_bit 12 (take_bit 44 (sr s CSR_SATP))) level pte \<and>
        leaf_aligned level pte \<and> sv39_grants ty (mmu_eff_priv ty s) (sr s CSR_MSTATUS) pte \<and>
        pa = leaf_addr level pte va \<and> pbmt = ucast (take_bit 2 (drop_bit 61 pte)))"

section \<open>The fields\<close>

lemma and_mask_take: "x AND 0xfff = take_bit 12 x" "x AND 0x1ff = take_bit 9 x"
  "x AND 15 = take_bit 4 x" "x AND 3 = take_bit 2 x" "x AND 0xfffffffffff = take_bit 44 x"
  for x :: "64 word"
  by (simp_all add: take_bit_eq_mask mask_numeral)

lemma pte_ppn_page: "pte_ppn pte = pte_page pte"
  by (simp add: pte_ppn_def pte_page_def and_mask_take)

lemma vpn_slot_eq: "table + sv39_vpn va level * 8 = vpn_slot table va level"
  by (simp add: vpn_slot_def sv39_vpn_def and_mask_take mult.commute)

lemma satp_ppn_take: "satp_ppn v = take_bit 44 v"
  by (simp add: get_field_def)


lemma and_push_mask: "x AND push_bit k (mask n) = 0 \<longleftrightarrow> (\<forall>i\<in>{k..<k + n}. \<not> bit x i)" for x :: "64 word"
proof
  assume *: "x AND push_bit k (mask n) = 0"
  show "\<forall>i\<in>{k..<k + n}. \<not> bit x i"
  proof
    fix i assume i: "i \<in> {k..<k + n}"
    have "bit (x AND push_bit k (mask n)) i \<longleftrightarrow> bit (0 :: 64 word) i" using * by simp
    with i show "\<not> bit x i" by (auto simp: bit_simps dest: bit_imp_le_length)
  qed
next
  assume "\<forall>i\<in>{k..<k + n}. \<not> bit x i"
  then show "x AND push_bit k (mask n) = 0" by (auto intro!: bit_word_eqI simp: bit_simps)
qed

lemma reserved_bits: "pte AND push_bit 54 0x7f = 0 \<longleftrightarrow> (\<forall>i\<in>{54..60}. \<not> bit pte i)"
  for pte :: "64 word"
proof -
  have "pte AND push_bit 54 (mask 7) = 0 \<longleftrightarrow> (\<forall>i\<in>{54..<54 + 7}. \<not> bit pte i)"
    by (rule and_push_mask)
  moreover have "{54..<54 + 7} = {54..60 :: nat}" by auto
  ultimately show ?thesis by (simp add: mask_numeral)
qed

lemma bit_d0 [bit_lits]: "bit (0xd0 :: int) n \<longleftrightarrow> n \<in> {4, 6, 7}"
  by (subst bit_literal [of "[4, 6, 7]"]) auto

lemma dau_bits: "pte AND 0xd0 = 0 \<longleftrightarrow> \<not> bit pte 4 \<and> \<not> bit pte 6 \<and> \<not> bit pte 7"
  for pte :: "64 word"
proof
  assume *: "pte AND 0xd0 = 0"
  have "bit (pte AND 0xd0) i \<longleftrightarrow> bit (0 :: 64 word) i" for i using * by simp
  from this [of 4] this [of 6] this [of 7]
  show "\<not> bit pte 4 \<and> \<not> bit pte 6 \<and> \<not> bit pte 7" by (simp add: bit_simps bit_lits)
next
  assume "\<not> bit pte 4 \<and> \<not> bit pte 6 \<and> \<not> bit pte 7"
  then show "pte AND 0xd0 = 0" by (auto intro!: bit_word_eqI simp: bit_simps bit_lits)
qed

lemma pbmt_bits:
  "take_bit 2 (drop_bit 61 pte) = 3 \<longleftrightarrow> bit pte 61 \<and> bit pte 62"
  "take_bit 2 (drop_bit 61 pte) = 0 \<longleftrightarrow> \<not> bit pte 61 \<and> \<not> bit pte 62" for pte :: "64 word"
proof -
  have *: "take_bit 2 x = (if bit x 0 then 1 else 0) + (if bit x 1 then 2 else 0)" for x :: "64 word"
    by (rule bit_word_eqI) (auto simp: bit_simps bit_1_iff bit_lits less_2_cases_iff numeral_2_eq_2 less_Suc_eq)
  show "take_bit 2 (drop_bit 61 pte) = 3 \<longleftrightarrow> bit pte 61 \<and> bit pte 62"
    "take_bit 2 (drop_bit 61 pte) = 0 \<longleftrightarrow> \<not> bit pte 61 \<and> \<not> bit pte 62"
    by (simp_all add: * bit_drop_bit_eq)
qed

lemma leaf_ok_iff:
  "\<not> sv39_pte_invalid c level (bit (sr s CSR_MENVCFG) 62) pte \<and> (bit pte 1 \<or> bit pte 3) \<longleftrightarrow>
     sv39_leaf_ok c s level pte"
  unfolding sv39_pte_invalid_def sv39_leaf_ok_def Let_def reserved_bits pte_pbmt_def and_mask_take pbmt_bits
  by blast

lemma pointer_ok_iff:
  "\<not> sv39_pte_invalid c level pbmte pte \<and> \<not> (bit pte 1 \<or> bit pte 3) \<and> pte AND 0xd0 = 0 \<longleftrightarrow>
     sv39_pointer_ok pte"
proof -
  have "(\<forall>i\<in>{54..63}. \<not> bit pte i) \<longleftrightarrow>
      (\<forall>i\<in>{54..60}. \<not> bit pte i) \<and> \<not> bit pte 61 \<and> \<not> bit pte 62 \<and> \<not> bit pte 63"
  proof -
    have "{54..63} = {54..60} \<union> {61, 62, 63 :: nat}" by auto
    then show ?thesis by auto
  qed
  then show ?thesis
    unfolding sv39_pte_invalid_def sv39_pointer_ok_def Let_def reserved_bits dau_bits pte_pbmt_def
      and_mask_take pbmt_bits by auto
qed

lemma canonical_iff: "sv39_canonical va \<longleftrightarrow> signed_take_bit 38 va = va"
proof
  assume "sv39_canonical va"
  then have *: "\<forall>n. 38 \<le> n \<and> n < 64 \<longrightarrow> bit va n = bit va 38"
    unfolding sv39_canonical_def
  proof
    assume z: "drop_bit 38 va = 0"
    show ?thesis
    proof (intro allI impI)
      fix n :: nat assume n: "38 \<le> n \<and> n < 64"
      have "bit (drop_bit 38 va) (n - 38) = False" "bit (drop_bit 38 va) 0 = False" by (simp_all add: z)
      with n show "bit va n = bit va 38" by (simp add: bit_drop_bit_eq)
    qed
  next
    assume z: "drop_bit 38 va = drop_bit 38 (- 1)"
    show ?thesis
    proof (intro allI impI)
      fix n :: nat assume n: "38 \<le> n \<and> n < 64"
      have "bit (drop_bit 38 va) (n - 38) = bit (drop_bit 38 (- 1 :: 64 word)) (n - 38)"
        "bit (drop_bit 38 va) 0 = bit (drop_bit 38 (- 1 :: 64 word)) 0" by (simp_all only: z)
      with n show "bit va n = bit va 38" by (auto simp: bit_drop_bit_eq bit_mask_iff)
    qed
  qed
  show "signed_take_bit 38 va = va"
  proof (rule bit_word_eqI)
    fix n assume n: "n < LENGTH(64)"
    then show "bit (signed_take_bit 38 va) n \<longleftrightarrow> bit va n"
      using * [rule_format, of n] by (cases "n \<le> 38") (simp_all add: bit_signed_take_bit_iff)
  qed
next
  assume e: "signed_take_bit 38 va = va"
  have *: "bit va n = bit va 38" if "38 \<le> n" "n < 64" for n
  proof -
    have "bit va n = bit (signed_take_bit 38 va) n" by (simp only: e)
    with that show ?thesis by (simp add: bit_signed_take_bit_iff min_def)
  qed
  show "sv39_canonical va"
  proof (cases "bit va 38")
    case True
    have "bit (drop_bit 38 va) n \<longleftrightarrow> bit (drop_bit 38 (- 1 :: 64 word)) n" for n
      using * [of "38 + n"] True by (auto simp: bit_drop_bit_eq bit_mask_iff dest: bit_imp_le_length)
    then have "drop_bit 38 va = drop_bit 38 (- 1)" by (intro bit_word_eqI) blast
    then show ?thesis by (simp add: sv39_canonical_def)
  next
    case False
    have "bit (drop_bit 38 va) n \<longleftrightarrow> bit (0 :: 64 word) n" for n
      using * [of "38 + n"] False
      by (cases "n < 26") (auto simp: bit_drop_bit_eq dest: bit_imp_le_length)
    then have "drop_bit 38 va = 0" by (intro bit_word_eqI) blast
    then show ?thesis by (simp add: sv39_canonical_def)
  qed
qed

lemma low_mask_eq: "gstage_low_mask level = mask (9 * level)"
  by (simp add: gstage_low_mask_def mask_eq_exp_minus_1 push_bit_eq_mult)

lemma aligned_iff:
  assumes "bit pte 63 \<longrightarrow> level = 0"
  shows "0 < level \<and> napot_ppn pte v AND gstage_low_mask level \<noteq> 0 \<longleftrightarrow> \<not> leaf_aligned level pte"
  using assms
  by (cases level) (auto simp: napot_ppn_def leaf_aligned_def low_mask_eq pte_ppn_page
      simp flip: take_bit_eq_mask)

lemma get_field_flag: "get_field k 1 v = 0 \<longleftrightarrow> \<not> bit v k"
  using field1_eq_0 [of k v] by simp

lemma grants_iff:
  assumes "prv = PRV_U \<or> prv = PRV_S"
  shows "leaf_denied ty prv mstatus pte \<or> pte_needs_ad (ty = MEM_TYPE_WRITE) pte \<longleftrightarrow>
    \<not> sv39_grants ty prv mstatus pte"
  using assms
  unfolding leaf_denied_def pte_needs_ad_def sv39_grants_def Let_def get_field_flag
  by (elim disjE; cases ty; simp; blast)

lemma bit_mask64: "bit (mask k :: 64 word) n \<longleftrightarrow> n < 64 \<and> n < k"
  by (simp add: bit_mask_iff)

lemma mask_nums: "(0xfff :: 64 word) = mask 12" "(0x1ff :: 64 word) = mask 9"
  "(15 :: 64 word) = mask 4" "(0x3ffff :: 64 word) = mask 18"
  by (simp_all add: mask_eq_exp_minus_1)

lemma join_page:
  "push_bit 12 (drop_bit k (p :: 64 word) OR q) = push_bit 12 (drop_bit k p) OR push_bit 12 q"
  by (rule bit_word_eqI) (auto simp: bit_simps)

lemma sv39_paddr_eq:
  assumes "level \<le> 2" and "bit pte 63 \<longrightarrow> level = 0"
  shows "sv39_paddr va level (napot_ppn pte (sv39_vpn va 0)) = leaf_addr level pte va"
proof -
  let ?p = "pte_page pte"
  have 1: "push_bit 12 ((?p AND NOT 15) OR (sv39_vpn va 0 AND 15)) OR (va AND 0xfff) =
      push_bit 16 (drop_bit 16 (push_bit 12 ?p)) OR take_bit 16 va"
    unfolding sv39_vpn_def mask_nums
    by (rule bit_word_eqI) (auto simp: bit_simps bit_mask64)
  have 2: "push_bit 12 ?p OR (va AND 0xfff) = push_bit 12 (drop_bit 12 (push_bit 12 ?p)) OR take_bit 12 va"
    unfolding mask_nums by (rule bit_word_eqI) (auto simp: bit_simps bit_mask64)
  have 3: "push_bit 12 (?p AND NOT 0x1ff) OR push_bit 12 (sv39_vpn va 0) OR (va AND 0xfff) =
      push_bit 21 (drop_bit 21 (push_bit 12 ?p)) OR take_bit 21 va"
    unfolding sv39_vpn_def mask_nums
    by (rule bit_word_eqI) (auto simp: bit_simps bit_mask64)
  have 4: "push_bit 12 (?p AND NOT 0x3ffff) OR push_bit 21 (sv39_vpn va 1) OR
        push_bit 12 (sv39_vpn va 0) OR (va AND 0xfff) =
      push_bit 30 (drop_bit 30 (push_bit 12 ?p)) OR take_bit 30 va"
    unfolding sv39_vpn_def mask_nums
  proof (rule bit_word_eqI)
    fix n assume "n < LENGTH(64)"
    then show "bit (push_bit 12 (?p AND NOT (mask 18)) OR
        push_bit 21 (drop_bit (12 + 9 * 1) va AND mask 9) OR
        push_bit 12 (drop_bit (12 + 9 * 0) va AND mask 9) OR (va AND mask 12)) n =
      bit (push_bit 30 (drop_bit 30 (push_bit 12 ?p)) OR take_bit 30 va) n"
      by (cases "n < 21") (auto simp: bit_simps bit_mask64)
  qed
  consider "level = 0" "bit pte 63" | "level = 0" "\<not> bit pte 63" | "level = 1" "\<not> bit pte 63"
    | "level = 2" "\<not> bit pte 63"
    using assms by fastforce
  then show ?thesis
    by cases (simp_all only: sv39_paddr_def napot_ppn_def leaf_addr_def leaf_span_def pte_ppn_page
        Let_def 1 2 3 4 if_True if_False mult_0_right, simp_all add: 2 3 4)
qed


section \<open>The walk\<close>

lemma fst_mbind:
  assumes "mpure c m" and "pmp_ok c s" and "\<And>a. mpure c (f a)"
  shows "fst (mbind m f s) = (case fst (m s) of Inl e \<Rightarrow> Inl e | Inr a \<Rightarrow> fst (f a s))"
proof -
  obtain r t where t: "m s = (r, t)" by fastforce
  note p = mpureD [OF assms(1,2) t]
  show ?thesis
  proof (cases r)
    case (Inr a)
    obtain q u where u: "f a s = (q, u)" by fastforce
    have "fst (f a t) = q" by (rule mpureD(3) [OF assms(3,2) u p(2,1)])
    with t u Inr show ?thesis by simp
  qed (simp add: t)
qed

lemma fst_mbind_mgets [simp]: "mbind (mgets g) f s = f (g s) s"
  by simp

lemma fst_ptw_read:
  assumes "kconfig_ok c" and "pmp_ok c s"
  shows "fst (ptw_read_denied c a 8 s) = Inr (\<not> pte_readable c s a)"
proof (cases "ptw_memory_readable c a 8")
  case True
  then have m: "a AND 7 = 0" "paddr_is_memory_span c a 8"
    by (simp_all add: ptw_memory_readable_def)
  from memory_span_bound [OF m(2)] have "unat a + 8 \<le> 2 ^ 64" by simp
  from pmp_check_ok [OF assms _ this, of False PRV_S True False]
  obtain t where "pmp_check c a 8 PRV_S True False False s =
      (pmp_spec_faults c s (unat a) 8 PRV_S True False False, t)" by auto
  with True m show ?thesis by (simp add: ptw_read_denied_def pte_readable_def)
next
  case False
  then show ?thesis by (auto simp: ptw_read_denied_def pte_readable_def ptw_memory_readable_def)
qed

lemma fst_pte_read: "pte_readable c s a \<Longrightarrow> fst (paddr_read c a 8 s) = Inr (pte_at s a)"
  by (simp add: pte_readable_def pte_at_def paddr_read_span host_len_def)

text \<open>One level, as the specification sees it.\<close>

lemma fst_sv39_level:
  assumes "kconfig_ok c" and "pmp_ok c s"
  shows "fst (sv39_level c ty va level a s) =
    (let slot = vpn_slot a va level; pte = pte_at s slot in
     if \<not> pte_readable c s slot then Inl (Mem_fault (af_cause ty))
     else if sv39_leaf_ok c s level pte then Inr (Inr (slot, pte))
     else if sv39_pointer_ok pte \<and> 0 < level then Inr (Inl (push_bit 12 (pte_page pte)))
     else Inl (Mem_fault (pf_cause ty)))"
proof -
  let ?slot = "vpn_slot a va level" and ?pte = "pte_at s (vpn_slot a va level)"
  let ?check = "\<lambda>pte pbmte. if sv39_pte_invalid c level pbmte pte then mthrow (Mem_fault (pf_cause ty))
            else if bit pte 1 \<or> bit pte 3 then mret (Inr (?slot, pte))
            else if pte AND 0xd0 \<noteq> 0 then mthrow (Mem_fault (pf_cause ty))
            else if level = 0 then mthrow (Mem_fault (pf_cause ty))
            else mret (Inl (push_bit 12 (pte_ppn pte)))"
  let ?rest = "mbind (paddr_read c ?slot 8) (\<lambda>pte.
          mbind (mgets (\<lambda>s. bit (sr s CSR_MENVCFG) 62)) (\<lambda>pbmte. ?check pte pbmte))"
  have A: "fst (sv39_level c ty va level a s) =
      (if \<not> pte_readable c s ?slot then Inl (Mem_fault (af_cause ty)) else fst (?rest s))"
    unfolding sv39_level_def Let_def vpn_slot_eq
    by (subst fst_mbind [OF _ assms(2)]) (intro mpures assms | simp add: fst_ptw_read [OF assms])+
  have B: "fst (?rest s) = fst (?check ?pte (bit (sr s CSR_MENVCFG) 62) s)" if "pte_readable c s ?slot"
    by (subst fst_mbind [OF _ assms(2)]) (intro mpures assms | simp add: fst_pte_read [OF that])+
  note l = leaf_ok_iff [of c level s ?pte]
    and p = pointer_ok_iff [of c level "bit (sr s CSR_MENVCFG) 62" ?pte]
  show ?thesis
  proof (cases "pte_readable c s ?slot")
    case True
    then have "fst (sv39_level c ty va level a s) = fst (?check ?pte (bit (sr s CSR_MENVCFG) 62) s)"
      using A B by simp
    also consider "sv39_leaf_ok c s level ?pte" | "\<not> sv39_leaf_ok c s level ?pte" "sv39_pointer_ok ?pte"
      | "\<not> sv39_leaf_ok c s level ?pte" "\<not> sv39_pointer_ok ?pte" by blast
    then have "fst (?check ?pte (bit (sr s CSR_MENVCFG) 62) s) =
       (if sv39_leaf_ok c s level ?pte then Inr (Inr (?slot, ?pte))
        else if sv39_pointer_ok ?pte \<and> 0 < level then Inr (Inl (push_bit 12 (pte_page ?pte)))
        else Inl (Mem_fault (pf_cause ty)))"
    proof cases
      case 1
      with l have "\<not> sv39_pte_invalid c level (bit (sr s CSR_MENVCFG) 62) ?pte"
        "bit ?pte 1 \<or> bit ?pte 3" by blast+
      with 1 show ?thesis by simp
    next
      case 2
      with p have "\<not> sv39_pte_invalid c level (bit (sr s CSR_MENVCFG) 62) ?pte"
        "\<not> (bit ?pte 1 \<or> bit ?pte 3)" "?pte AND 0xd0 = 0" by blast+
      with 2 show ?thesis by (simp add: pte_ppn_page)
    next
      case 3
      with l p have "sv39_pte_invalid c level (bit (sr s CSR_MENVCFG) 62) ?pte \<or>
        \<not> (bit ?pte 1 \<or> bit ?pte 3) \<and> ?pte AND 0xd0 \<noteq> 0" by blast
      with 3 show ?thesis by (elim disjE) simp_all
    qed
    finally show ?thesis using True by (simp add: Let_def)
  qed (simp add: A)
qed

lemma fst_sv39_walk_Suc:
  assumes "kconfig_ok c" and "pmp_ok c s"
  shows "fst (sv39_walk c ty va (Suc level) a s) =
    (let slot = vpn_slot a va level; pte = pte_at s slot in
     if \<not> pte_readable c s slot then Inl (Mem_fault (af_cause ty))
     else if sv39_leaf_ok c s level pte then Inr (slot, pte, level)
     else if sv39_pointer_ok pte \<and> 0 < level
     then fst (sv39_walk c ty va level (push_bit 12 (pte_page pte)) s)
     else Inl (Mem_fault (pf_cause ty)))"
  unfolding sv39_walk.simps
  by (subst fst_mbind [OF _ assms(2)])
    ((intro mpures assms)+ | simp add: fst_sv39_level [OF assms] Let_def split: sum.split prod.split)+

inductive_cases sv39_leads_0: "sv39_leads c s va 0 table l pte"
inductive_cases sv39_leads_Suc: "sv39_leads c s va (Suc level) table l pte"

lemma leaf_not_pointer: "sv39_leaf_ok c s level pte \<Longrightarrow> \<not> sv39_pointer_ok pte"
  by (auto simp: sv39_leaf_ok_def sv39_pointer_ok_def)

lemma sv39_walk_leads:
  assumes "kconfig_ok c" and "pmp_ok c s"
  shows "(\<exists>slot. fst (sv39_walk c ty va (Suc n) a s) = Inr (slot, pte, l)) \<longleftrightarrow> sv39_leads c s va n a l pte"
proof (induction n arbitrary: a)
  case 0
  show ?case
    unfolding fst_sv39_walk_Suc [OF assms]
    by (auto simp: Let_def intro: sv39_leads.leaf elim!: sv39_leads_0 split: if_splits)
next
  case (Suc n)
  show ?case
    unfolding fst_sv39_walk_Suc [OF assms, of ty va "Suc n"]
    using Suc.IH [of "push_bit 12 (pte_page (pte_at s (vpn_slot a va (Suc n))))"]
    by (auto simp: Let_def leaf_not_pointer intro: sv39_leads.intros elim!: sv39_leads_Suc
        split: if_splits)
qed

lemma sv39_walk_fault:
  assumes "kconfig_ok c" and "pmp_ok c s" and "fst (sv39_walk c ty va n a s) = Inl e"
  shows "e = Mem_fault (pf_cause ty) \<or> e = Mem_fault (af_cause ty)"
  using assms(3)
proof (induction n arbitrary: a)
  case (Suc n)
  from Suc.prems show ?case
    unfolding fst_sv39_walk_Suc [OF assms(1,2)]
    by (auto simp: Let_def dest: Suc.IH split: if_splits)
qed simp

lemma sv39_leads_level: "sv39_leads c s va n a l pte \<Longrightarrow> l \<le> n \<and> sv39_leaf_ok c s l pte"
  by (induction rule: sv39_leads.induct) auto

lemma leaf_ok_napot: "sv39_leaf_ok c s l pte \<Longrightarrow> bit pte 63 \<longrightarrow> l = 0"
  by (simp add: sv39_leaf_ok_def)


section \<open>The translation\<close>

lemma fst_sv39_translate:
  assumes "kconfig_ok c" and "rv_svade c" and "pmp_ok c s"
    and prv: "mmu_eff_priv ty s = PRV_U \<or> mmu_eff_priv ty s = PRV_S"
  shows "fst (sv39_translate c va ty s) =
    (if signed_take_bit 38 va \<noteq> va then Inl (Mem_fault (pf_cause ty))
     else case fst (sv39_walk c ty va 3 (push_bit 12 (take_bit 44 (sr s CSR_SATP))) s) of
            Inl e \<Rightarrow> Inl e
          | Inr (slot, pte, level) \<Rightarrow>
              if leaf_aligned level pte \<and> sv39_grants ty (mmu_eff_priv ty s) (sr s CSR_MSTATUS) pte
              then Inr (leaf_addr level pte va, ucast (take_bit 2 (drop_bit 61 pte)))
              else Inl (Mem_fault (pf_cause ty)))"
proof (cases "signed_take_bit 38 va = va")
  case True
  let ?root = "push_bit 12 (take_bit 44 (sr s CSR_SATP))"
  have w: "case fst (sv39_walk c ty va 3 ?root s) of Inl e \<Rightarrow> True
      | Inr (slot, pte, level) \<Rightarrow> level \<le> 2 \<and> (bit pte 63 \<longrightarrow> level = 0)"
    using sv39_walk_leads [OF assms(1,3), of ty va 2 ?root] sv39_leads_level [of c s va 2 ?root]
      leaf_ok_napot [of c s]
    by (fastforce simp: numeral_3_eq_3 numeral_2_eq_2 split: sum.split)
  let ?prv = "mmu_eff_priv ty s" and ?ms = "sr s CSR_MSTATUS" and ?wr = "ty = MEM_TYPE_WRITE"
  define k :: "word_t \<times> word_t \<times> nat \<Rightarrow> (paddr_t \<times> uint8_t) mem" where "k = (\<lambda>(slot, pte, level).
     if 0 < level \<and> napot_ppn pte (sv39_vpn va 0) AND gstage_low_mask level \<noteq> 0
     then mthrow (Mem_fault (pf_cause ty))
     else if leaf_denied ty ?prv ?ms pte then mthrow (Mem_fault (pf_cause ty))
     else if pte_needs_ad ?wr pte then mthrow (Mem_fault (pf_cause ty))
     else mret (sv39_paddr va level (napot_ppn pte (sv39_vpn va 0)), ucast (pte_pbmt pte)))"
  have A: "sv39_translate c va ty s = mbind (sv39_walk c ty va 3 ?root) k s"
    unfolding sv39_translate_def eqTrueI [OF assms(2)] if_True k_def
    using True by (simp add: canonical_iff get_field_def Let_def)
  have B: "fst (mbind (sv39_walk c ty va 3 ?root) k s) =
      (case fst (sv39_walk c ty va 3 ?root s) of Inl e \<Rightarrow> Inl e | Inr a \<Rightarrow> fst (k a s))"
    by (rule fst_mbind [OF _ assms(3)]) (unfold k_def, intro mpures assms(1), intro mpures assms(1))
  show ?thesis
  proof (cases "fst (sv39_walk c ty va 3 ?root s)")
    case (Inl e)
    then show ?thesis using A B True by simp
  next
    case (Inr a)
    obtain slot pte level where a: "a = (slot, pte, level)" by (cases a)
    from w Inr a have "level \<le> 2" and n: "bit pte 63 \<longrightarrow> level = 0" by simp_all
    note p = sv39_paddr_eq [OF this] and al = aligned_iff [OF n, of "sv39_vpn va 0"]
      and g = grants_iff [OF prv, of ty ?ms pte]
    have "fst (k a s) =
        (if leaf_aligned level pte \<and> sv39_grants ty ?prv ?ms pte
         then Inr (leaf_addr level pte va, ucast (take_bit 2 (drop_bit 61 pte)))
         else Inl (Mem_fault (pf_cause ty)))"
      using al g by (auto simp: k_def a p pte_pbmt_def and_mask_take)
    then show ?thesis using A B Inr a True by simp
  qed
next
  case False
  then show ?thesis
    by (simp add: sv39_translate_def canonical_iff)
qed


text \<open>
  C19 (Sv39 is the specification). With Svade, for a translation in user or supervisor mode,
  \<^verbatim>\<open>sv39_translate\<close> succeeds exactly on the addresses the page table in memory maps for this access,
  with the address and memory type the manual gives: the address is canonical, a path of readable
  pointers leads to a readable, legal, aligned leaf that grants the access. Every other outcome is
  the page fault or the access fault of the access type, never a panic.
\<close>

theorem sv39_translate_maps:
  assumes "kconfig_ok c" and "rv_svade c" and "pmp_ok c s"
    and "mmu_eff_priv ty s = PRV_U \<or> mmu_eff_priv ty s = PRV_S"
  shows "(fst (sv39_translate c va ty s) = Inr (pa, pbmt) \<longleftrightarrow> sv39_maps c s ty va pa pbmt) \<and>
    (\<forall>e. fst (sv39_translate c va ty s) = Inl e \<longrightarrow>
      e = Mem_fault (pf_cause ty) \<or> e = Mem_fault (af_cause ty))"
proof
  let ?root = "push_bit 12 (take_bit 44 (sr s CSR_SATP))"
  have w: "(\<exists>slot. fst (sv39_walk c ty va 3 ?root s) = Inr (slot, pte, l)) \<longleftrightarrow>
      sv39_leads c s va 2 ?root l pte" for pte l
    using sv39_walk_leads [OF assms(1,3), of ty va 2 ?root]
    by (simp add: numeral_3_eq_3 numeral_2_eq_2)
  show "fst (sv39_translate c va ty s) = Inr (pa, pbmt) \<longleftrightarrow> sv39_maps c s ty va pa pbmt"
    unfolding fst_sv39_translate [OF assms] sv39_maps_def w [symmetric]
    by (auto split: sum.split prod.split)
  show "\<forall>e. fst (sv39_translate c va ty s) = Inl e \<longrightarrow>
      e = Mem_fault (pf_cause ty) \<or> e = Mem_fault (af_cause ty)"
    unfolding fst_sv39_translate [OF assms]
    using sv39_walk_fault [OF assms(1,3)] by (auto split: sum.split prod.split if_splits)
qed

lemma demo_maps: "sv39_maps demo_config demo_machine MEM_TYPE_READ 0x40001234 0x80001234 0"
proof -
  have slot: "vpn_slot 0x80100000 0x40001234 2 = 0x80100008"
    by (simp add: vpn_slot_def take_bit_eq_mask mask_numeral)
  have satp: "push_bit 12 (take_bit 44 (sr demo_machine CSR_SATP)) = 0x80100000"
    by (simp add: demo_regs_def sr_def take_bit_eq_mask mask_numeral)
  have pte: "pte_at demo_machine 0x80100008 = 0x200000cf"
    by (simp add: pte_at_def demo_pte)
  have "paddr_is_memory_span demo_config 0x80100008 8" by code_simp
  then have rd: "pte_readable demo_config demo_machine 0x80100008"
    by (simp add: pte_readable_def demo_pmp_open)
  have "take_bit 54 (0x200000cf :: word_t) = 0x200000cf"
    by (simp add: take_bit_eq_mask mask_numeral)
  then have "\<not> bit (0x200000cf :: word_t) i" if "54 \<le> i" for i
    using that by (metis bit_take_bit_iff not_less)
  then have ok: "sv39_leaf_ok demo_config demo_machine 2 0x200000cf"
    by (simp add: sv39_leaf_ok_def)
  have "sv39_leads demo_config demo_machine 0x40001234 2 0x80100000 2 0x200000cf"
    by (rule sv39_leads.leaf) (simp_all only: slot pte rd ok)
  moreover have "leaf_aligned 2 0x200000cf" "leaf_addr 2 0x200000cf 0x40001234 = 0x80001234"
    "signed_take_bit 38 0x40001234 = (0x40001234 :: word_t)"
    "(0 :: uint8_t) = ucast (take_bit 2 (drop_bit 61 (0x200000cf :: word_t)))"
    by code_simp+
  moreover have "sv39_grants MEM_TYPE_READ (mmu_eff_priv MEM_TYPE_READ demo_machine)
      (sr demo_machine CSR_MSTATUS) 0x200000cf"
    unfolding demo_eff_priv by (simp add: sv39_grants_def)
  ultimately show ?thesis unfolding sv39_maps_def satp by metis
qed

theorem sv39_translate_maps_witness:
  "fst (sv39_translate demo_config 0x40001234 MEM_TYPE_READ demo_machine) = Inr (0x80001234, 0)"
proof -
  have "mmu_eff_priv MEM_TYPE_READ demo_machine = PRV_U \<or> mmu_eff_priv MEM_TYPE_READ demo_machine = PRV_S"
    by (simp add: demo_eff_priv)
  from sv39_translate_maps [OF demo_kconfig(1,2) demo_pmp_ok this, of "0x40001234" "0x80001234" 0]
    demo_maps
  show ?thesis by simp
qed

end
