(* ===== verification/Mmio.thy ===== *)
theory Mmio
  imports Paddr
begin

text \<open>
  The memory-mapped device bus of the builds with \<open>CONFIG_DEVICE\<close>:
  \<^verbatim>\<open>include/device/map.h\<close>, \<^verbatim>\<open>src/device/io/map.c\<close>, \<^verbatim>\<open>src/device/io/mmio.c\<close> and the device branches
  of the DMA entry points of \<^verbatim>\<open>src/memory/paddr.c\<close>. A map is a window of guest addresses with the
  bytes behind it and the handler of its device; \<open>'d\<close> is the state of the devices, with the hart,
  in which the bytes live. The bus lock, the traces and the DiffTest marks are left out.
\<close>

unbundle bit_operations_syntax

section \<open>Maps (map.h)\<close>

text \<open>A handler takes the offset, the length and the direction; \<open>None\<close> is a failed assertion.\<close>

type_synonym 'd io_callback = "nat \<Rightarrow> nat \<Rightarrow> bool \<Rightarrow> 'd \<Rightarrow> 'd option"

record 'd IOMap =
  map_low :: paddr_t
  map_high :: paddr_t
  map_space :: "'d \<Rightarrow> nat \<Rightarrow> uint8_t"
  map_store :: "(nat \<Rightarrow> uint8_t) \<Rightarrow> 'd \<Rightarrow> 'd"
  map_callback :: "'d io_callback option"

definition map_inside :: "'d IOMap \<Rightarrow> paddr_t \<Rightarrow> bool" where
  "map_inside m addr \<longleftrightarrow> map_low m \<le> addr \<and> addr \<le> map_high m"

text \<open>The index of the first map that holds the address; \<open>None\<close> is the C value \<open>-1\<close>.\<close>

fun find_mapid_from :: "nat \<Rightarrow> 'd IOMap list \<Rightarrow> paddr_t \<Rightarrow> nat option" where
  "find_mapid_from i [] addr = None"
| "find_mapid_from i (m # ms) addr = (if map_inside m addr then Some i else find_mapid_from (Suc i) ms addr)"

definition find_mapid_by_addr :: "'d IOMap list \<Rightarrow> paddr_t \<Rightarrow> nat option" where
  "find_mapid_by_addr ms addr = find_mapid_from 0 ms addr"

section \<open>Bytes behind a map\<close>

primrec win_load :: "(nat \<Rightarrow> uint8_t) \<Rightarrow> nat \<Rightarrow> nat \<Rightarrow> word_t" where
  "win_load b off 0 = 0"
| "win_load b off (Suc n) = ucast (b off) OR push_bit 8 (win_load b (off + 1) n)"

primrec win_store :: "(nat \<Rightarrow> uint8_t) \<Rightarrow> nat \<Rightarrow> nat \<Rightarrow> word_t \<Rightarrow> nat \<Rightarrow> uint8_t" where
  "win_store b off 0 v = b"
| "win_store b off (Suc n) v = win_store (b(off := ucast v)) (off + 1) n (drop_bit 8 v)"

definition win_load32 :: "(nat \<Rightarrow> uint8_t) \<Rightarrow> nat \<Rightarrow> uint32_t" where
  "win_load32 b off = ucast (win_load b off 4)"

definition win_store32 :: "(nat \<Rightarrow> uint8_t) \<Rightarrow> nat \<Rightarrow> uint32_t \<Rightarrow> nat \<Rightarrow> uint8_t" where
  "win_store32 b off v = win_store b off 4 (ucast v)"

lemma win_store_before: "i < off \<Longrightarrow> win_store b off n v i = b i"
  by (induction n arbitrary: b off v) auto

lemma win_store_after: "off + n \<le> i \<Longrightarrow> win_store b off n v i = b i"
  by (induction n arbitrary: b off v) auto

lemma win_load_store: "win_load (win_store b off n v) off n = take_bit (8 * n) v"
proof (induction n arbitrary: b off v)
  case (Suc n)
  have "win_load (win_store b off (Suc n) v) off (Suc n) =
      ucast (ucast v :: uint8_t) OR push_bit 8 (take_bit (8 * n) (drop_bit 8 v))"
    using Suc [of "b(off := ucast v)" "off + 1" "drop_bit 8 v"] by (simp add: win_store_before fun_upd_same del: fun_upd_apply)
  also have "\<dots> = take_bit (8 * Suc n) v"
    by (rule bit_word_eqI) (auto simp: bit_simps not_less)
  finally show ?case .
qed simp

lemma win_load32_store32 [simp]: "win_load32 (win_store32 b off v) off = v"
  unfolding win_load32_def win_store32_def win_load_store
  by (rule bit_word_eqI) (auto simp: bit_simps)

lemma win_store32_first: "win_store32 b off v off = ucast v"
  by (simp add: win_store32_def eval_nat_numeral) (rule bit_word_eqI, auto simp: bit_simps)

section \<open>Accesses (map.c)\<close>

text \<open>An access outside every map faults once a trap vector is set.\<close>

definition check_bound :: "nemu \<Rightarrow> 'd IOMap option \<Rightarrow> paddr_t \<Rightarrow> bool \<Rightarrow> mem_exit option" where
  "check_bound s mo addr is_read =
     (case mo of
        None \<Rightarrow> Some (if sr s CSR_MTVEC \<noteq> 0 \<and> (priv s = PRV_M \<or> priv s = PRV_S \<or> priv s = PRV_U)
                    then Mem_fault (if is_read then MCA_LOA_ACC_FAU else MCA_STO_ACC_FAU)
                    else Mem_panic)
      | Some m \<Rightarrow> if addr \<le> map_high m \<and> map_low m \<le> addr then None else Some Mem_panic)"

definition invoke_callback :: "'d IOMap \<Rightarrow> 'd io_callback" where
  "invoke_callback m off len is_write d =
     (case map_callback m of None \<Rightarrow> Some d | Some f \<Rightarrow> f off len is_write d)"

definition map_read :: "('d \<Rightarrow> nemu) \<Rightarrow> paddr_t \<Rightarrow> nat \<Rightarrow> 'd IOMap option \<Rightarrow> 'd \<Rightarrow> mem_exit + word_t \<times> 'd" where
  "map_read hart addr len mo d =
     (if \<not> (1 \<le> len \<and> len \<le> 8) then Inl Mem_panic
      else case check_bound (hart d) mo addr True of
        Some e \<Rightarrow> Inl e
      | None \<Rightarrow>
          let m = the mo; off = unat (addr - map_low m) in
          case invoke_callback m off len False d of
            None \<Rightarrow> Inl Mem_panic
          | Some d' \<Rightarrow>
              if host_len len then Inr (win_load (map_space m d') off len, d') else Inl Mem_panic)"

definition map_write :: "('d \<Rightarrow> nemu) \<Rightarrow> paddr_t \<Rightarrow> nat \<Rightarrow> word_t \<Rightarrow> 'd IOMap option \<Rightarrow> 'd \<Rightarrow> mem_exit + 'd" where
  "map_write hart addr len data mo d =
     (if \<not> (1 \<le> len \<and> len \<le> 8) then Inl Mem_panic
      else case check_bound (hart d) mo addr False of
        Some e \<Rightarrow> Inl e
      | None \<Rightarrow>
          let m = the mo; off = unat (addr - map_low m) in
          if host_len len
          then (case invoke_callback m off len True
                       (map_store m (win_store (map_space m d) off len data) d) of
                  None \<Rightarrow> Inl Mem_panic | Some d' \<Rightarrow> Inr d')
          else Inl Mem_panic)"

section \<open>The bus (mmio.c)\<close>

abbreviation (input) NR_MAP :: nat where "NR_MAP \<equiv> 24"

abbreviation (input) MMIO_MISS_SLOTS :: nat where "MMIO_MISS_SLOTS \<equiv> 64"

record mmio_miss_t =
  miss_page :: paddr_t
  miss_epoch :: uint32_t

text \<open>\<open>last_hit\<close> is the hint of \<open>mmio_map_contains\<close>, \<open>None\<close> before the first hit.\<close>

record 'd mmio_state =
  maps :: "'d IOMap list"
  mmio_miss :: "nat \<Rightarrow> mmio_miss_t"
  mmio_epoch :: uint32_t
  mmio_ram_overlap :: bool
  last_hit :: "nat option"

definition mmio_init :: "'d mmio_state" where
  "mmio_init = \<lparr>maps = [], mmio_miss = (\<lambda>_. \<lparr>miss_page = 0, miss_epoch = 0\<rparr>), mmio_epoch = 1,
     mmio_ram_overlap = False, last_hit = None\<rparr>"

definition range_overlaps_ram :: "config \<Rightarrow> paddr_t \<Rightarrow> paddr_t \<Rightarrow> bool" where
  "range_overlaps_ram c l r \<longleftrightarrow>
     (l \<le> PMEM_RIGHT c \<and> PMEM_LEFT c \<le> r) \<or>
     (CONFIG_SDRAM_SIZE c \<noteq> 0 \<and> l \<le> CONFIG_SDRAM_BASE + CONFIG_SDRAM_SIZE c - 1 \<and> CONFIG_SDRAM_BASE \<le> r) \<or>
     (l \<le> CONFIG_SRAM_BASE + CONFIG_SRAM_SIZE - 1 \<and> CONFIG_SRAM_BASE \<le> r)"

definition fetch_mmio_map :: "'d mmio_state \<Rightarrow> paddr_t \<Rightarrow> 'd IOMap option" where
  "fetch_mmio_map b addr = map_option ((!) (maps b)) (find_mapid_by_addr (maps b) addr)"

definition mmio_miss_idx :: "paddr_t \<Rightarrow> nat" where
  "mmio_miss_idx addr = unat (drop_bit 12 addr AND of_nat (MMIO_MISS_SLOTS - 1))"

definition mmio_map_contains :: "'d mmio_state \<Rightarrow> paddr_t \<Rightarrow> bool \<times> 'd mmio_state" where
  "mmio_map_contains b addr =
     (let i = mmio_miss_idx addr; e = mmio_miss b i in
      if miss_epoch e = mmio_epoch b \<and> miss_page e = drop_bit 12 addr then (False, b)
      else if (case last_hit b of None \<Rightarrow> False
               | Some h \<Rightarrow> h < length (maps b) \<and> map_inside (maps b ! h) addr) then (True, b)
      else case find_mapid_by_addr (maps b) addr of
             Some h \<Rightarrow> (True, b\<lparr>last_hit := Some h\<rparr>)
           | None \<Rightarrow> (False, b\<lparr>mmio_miss := (mmio_miss b)
                 (i := \<lparr>miss_page = drop_bit 12 addr, miss_epoch = mmio_epoch b\<rparr>)\<rparr>))"

definition mmio_map_contains_span :: "'d mmio_state \<Rightarrow> paddr_t \<Rightarrow> nat \<Rightarrow> bool" where
  "mmio_map_contains_span b addr len \<longleftrightarrow>
     (if len = 0 \<or> unat (- 1 - addr) < len - 1 then False
      else let last' = addr + of_nat len - 1 in
        list_ex (\<lambda>m. map_low m \<le> addr \<and> last' \<le> map_high m) (maps b))"

definition mmio_map_overlaps :: "'d mmio_state \<Rightarrow> paddr_t \<Rightarrow> nat \<Rightarrow> bool" where
  "mmio_map_overlaps b addr len \<longleftrightarrow>
     (if len = 0 then False
      else if unat (- 1 - addr) < len - 1 then True
      else let last' = addr + of_nat len - 1 in
        list_ex (\<lambda>m. addr \<le> map_high m \<and> map_low m \<le> last') (maps b))"

text \<open>A map that overlaps main memory or another map stops the emulator.\<close>

definition add_mmio_map ::
    "config \<Rightarrow> paddr_t \<Rightarrow> uint32_t \<Rightarrow> ('d \<Rightarrow> nat \<Rightarrow> uint8_t) \<Rightarrow> ((nat \<Rightarrow> uint8_t) \<Rightarrow> 'd \<Rightarrow> 'd) \<Rightarrow>
     'd io_callback option \<Rightarrow> 'd mmio_state \<Rightarrow> 'd mmio_state option" where
  "add_mmio_map c addr len space st callback b =
     (let left = addr; right = addr + ucast len - 1;
          m = \<lparr>map_low = left, map_high = right, map_space = space, map_store = st, map_callback = callback\<rparr> in
      if \<not> length (maps b) < NR_MAP then None
      else if in_pmem c left \<or> in_pmem c right then None
      else if list_ex (\<lambda>m'. left \<le> map_high m' \<and> map_low m' \<le> right) (maps b) then None
      else Some (b\<lparr>maps := maps b @ [m],
                   mmio_ram_overlap := mmio_ram_overlap b \<or> range_overlaps_ram c left right,
                   mmio_epoch := mmio_epoch b + 1\<rparr>))"

definition mmio_read :: "('d \<Rightarrow> nemu) \<Rightarrow> 'd mmio_state \<Rightarrow> paddr_t \<Rightarrow> nat \<Rightarrow> 'd \<Rightarrow> mem_exit + word_t \<times> 'd" where
  "mmio_read hart b addr len = map_read hart addr len (fetch_mmio_map b addr)"

definition mmio_write :: "('d \<Rightarrow> nemu) \<Rightarrow> 'd mmio_state \<Rightarrow> paddr_t \<Rightarrow> nat \<Rightarrow> word_t \<Rightarrow> 'd \<Rightarrow> mem_exit + 'd" where
  "mmio_write hart b addr len data = map_write hart addr len data (fetch_mmio_map b addr)"

section \<open>Device access to memory with \<open>CONFIG_DEVICE\<close> (paddr.c)\<close>

definition dma_read :: "config \<Rightarrow> 'd mmio_state \<Rightarrow> nemu \<Rightarrow> paddr_t \<Rightarrow> nat \<Rightarrow> uint8_t list option" where
  "dma_read c b s addr len = (if mmio_map_overlaps b addr len then None else paddr_dma_read c s addr len)"

definition dma_write :: "config \<Rightarrow> 'd mmio_state \<Rightarrow> paddr_t \<Rightarrow> uint8_t list \<Rightarrow> nemu \<Rightarrow> bool \<times> nemu" where
  "dma_write c b addr buffer s =
     (if mmio_map_overlaps b addr (length buffer) then (False, s) else paddr_dma_write c addr buffer s)"

end
