(* ===== verification/Mmio_Correct.thy ===== *)
theory Mmio_Correct
  imports Mmio Demo
begin

text \<open>
  The device bus: what any sequence of registrations and probes keeps, and what it makes of the
  lookups. The negative page cache of \<open>mmio_map_contains\<close> is exact for the devices that fill whole
  pages; \<open>mmio_miss_hides_device\<close> is a smaller device that it hides.
\<close>

unbundle bit_operations_syntax

section \<open>Runs of the bus\<close>

datatype 'd bus_op =
    Bus_add paddr_t uint32_t "'d \<Rightarrow> nat \<Rightarrow> uint8_t" "(nat \<Rightarrow> uint8_t) \<Rightarrow> 'd \<Rightarrow> 'd" "'d io_callback option"
  | Bus_probe paddr_t

primrec bus_step :: "config \<Rightarrow> 'd bus_op \<Rightarrow> 'd mmio_state \<Rightarrow> 'd mmio_state option" where
  "bus_step c (Bus_add a n g p f) b = add_mmio_map c a n g p f b"
| "bus_step c (Bus_probe a) b = Some (snd (mmio_map_contains b a))"

primrec bus_run :: "config \<Rightarrow> 'd bus_op list \<Rightarrow> 'd mmio_state \<Rightarrow> 'd mmio_state option" where
  "bus_run c [] b = Some b"
| "bus_run c (a # as) b = Option.bind (bus_step c a b) (bus_run c as)"

definition page_aligned :: "'d IOMap \<Rightarrow> bool" where
  "page_aligned m \<longleftrightarrow> take_bit 12 (map_low m) = 0 \<and> take_bit 12 (map_high m) = mask 12"

definition maps_disjoint :: "'d IOMap list \<Rightarrow> bool" where
  "maps_disjoint ms \<longleftrightarrow>
     (\<forall>i < length ms. \<forall>j < length ms. \<forall>a. map_inside (ms ! i) a \<and> map_inside (ms ! j) a \<longrightarrow> i = j)"

definition bus_inv :: "'d mmio_state \<Rightarrow> bool" where
  "bus_inv b \<longleftrightarrow> length (maps b) \<le> NR_MAP \<and> mmio_epoch b = of_nat (Suc (length (maps b))) \<and>
     (\<forall>i. unat (miss_epoch (mmio_miss b i)) \<le> Suc (length (maps b))) \<and> maps_disjoint (maps b) \<and>
     (\<forall>i. miss_epoch (mmio_miss b i) = mmio_epoch b \<longrightarrow>
        (\<forall>m \<in> set (maps b). page_aligned m \<longrightarrow>
          (\<forall>a. drop_bit 12 a = miss_page (mmio_miss b i) \<longrightarrow> \<not> map_inside m a)))"

lemma bus_inv_init: "bus_inv mmio_init"
  by (simp add: bus_inv_def mmio_init_def maps_disjoint_def)

text \<open>A page-aligned map holds all of a page or none of it.\<close>

lemma drop_bit_le_mono: "(x :: 64 word) \<le> y \<Longrightarrow> drop_bit n x \<le> drop_bit n y"
  by (simp only: word_le_nat_alt unat_drop_bit_eq) (simp add: drop_bit_eq_div div_le_mono)

lemma split_le:
  fixes x y :: "64 word"
  assumes "drop_bit n x \<le> drop_bit n y" and "take_bit n x \<le> take_bit n y"
  shows "x \<le> y"
proof -
  have "unat w = 2 ^ n * unat (drop_bit n w) + unat (take_bit n w)" for w :: "64 word"
    by (simp only: unat_drop_bit_eq unsigned_take_bit_eq) (simp add: drop_bit_eq_div take_bit_eq_mod)
  with assms show ?thesis
    unfolding word_le_nat_alt by (metis add_mono mult_le_mono2)
qed

lemma page_aligned_page:
  assumes "page_aligned m" and "drop_bit 12 a = drop_bit 12 a'" and "map_inside m a"
  shows "map_inside m a'"
proof -
  from assms(1) have lo: "take_bit 12 (map_low m) = 0" and hi: "take_bit 12 (map_high m) = mask 12"
    by (simp_all add: page_aligned_def)
  have "take_bit 12 a' \<le> mask 12" by (simp add: take_bit_eq_mask word_and_le1)
  with assms(2,3) lo hi show ?thesis
    unfolding map_inside_def
    by (metis drop_bit_le_mono split_le word_zero_le)
qed

section \<open>Lookups\<close>

lemma find_mapid_from_Some:
  "find_mapid_from n ms a = Some i \<Longrightarrow> n \<le> i \<and> i < n + length ms \<and> map_inside (ms ! (i - n)) a"
proof (induction ms arbitrary: n)
  case (Cons m ms)
  show ?case
  proof (cases "map_inside m a")
    case False
    then have "find_mapid_from (Suc n) ms a = Some i" using Cons.prems by simp
    from Cons.IH [OF this] show ?thesis by (auto simp: nth_Cons')
  qed (use Cons.prems in simp)
qed simp

lemma find_mapid_Some:
  "find_mapid_by_addr ms a = Some i \<Longrightarrow> i < length ms \<and> map_inside (ms ! i) a"
  using find_mapid_from_Some [of 0 ms a i] by (simp add: find_mapid_by_addr_def)

lemma find_mapid_None: "find_mapid_by_addr ms a = None \<longleftrightarrow> (\<forall>m \<in> set ms. \<not> map_inside m a)"
proof -
  have "find_mapid_from n ms a = None \<longleftrightarrow> (\<forall>m \<in> set ms. \<not> map_inside m a)" for n
    by (induction ms arbitrary: n) auto
  then show ?thesis by (simp add: find_mapid_by_addr_def)
qed

lemma fetch_mmio_map_eq:
  assumes "maps_disjoint (maps b)"
  shows "fetch_mmio_map b a = Some m \<longleftrightarrow> m \<in> set (maps b) \<and> map_inside m a"
proof (cases "find_mapid_by_addr (maps b) a")
  case None
  then show ?thesis using find_mapid_None [of "maps b" a] by (auto simp: fetch_mmio_map_def)
next
  case (Some i)
  then have "i < length (maps b)" "map_inside (maps b ! i) a" using find_mapid_Some by blast+
  with Some assms show ?thesis
    unfolding fetch_mmio_map_def maps_disjoint_def by (auto simp: in_set_conv_nth)
qed

section \<open>The invariant\<close>

lemma maps_disjoint_snoc:
  assumes "maps_disjoint ms" and "\<And>m' a. m' \<in> set ms \<Longrightarrow> map_inside m a \<Longrightarrow> \<not> map_inside m' a"
  shows "maps_disjoint (ms @ [m])"
  using assms unfolding maps_disjoint_def
  by (auto simp: nth_append less_Suc_eq dest: nth_mem split: if_splits)

lemma map_inside_overlap:
  "map_inside m a \<Longrightarrow> map_inside m' a \<Longrightarrow> map_low m \<le> map_high m' \<and> map_low m' \<le> map_high m"
  by (auto simp: map_inside_def intro: order_trans)

lemma unat_of_nat_small: "n < 2 ^ 32 \<Longrightarrow> unat (of_nat n :: 32 word) = n"
  by (simp add: unsigned_of_nat take_bit_nat_eq_self)

lemma add_mmio_map_inv:
  assumes "bus_inv b" and "add_mmio_map c a n g p f b = Some b'"
  shows "bus_inv b'"
proof -
  let ?m = "\<lparr>map_low = a, map_high = a + ucast n - 1, map_space = g, map_store = p, map_callback = f\<rparr>"
  from assms(2) have b': "maps b' = maps b @ [?m]" "mmio_epoch b' = mmio_epoch b + 1"
    "mmio_miss b' = mmio_miss b" and len: "length (maps b) < NR_MAP"
    and sep: "\<forall>m' \<in> set (maps b). \<not> (map_low ?m \<le> map_high m' \<and> map_low m' \<le> map_high ?m)"
    by (auto simp: add_mmio_map_def Let_def list_ex_iff split: if_splits)
  from sep have "maps_disjoint (maps b @ [?m])"
    using assms(1) by (intro maps_disjoint_snoc) (auto simp: bus_inv_def dest: map_inside_overlap)
  moreover have "miss_epoch (mmio_miss b i) \<noteq> mmio_epoch b'" for i
  proof
    assume "miss_epoch (mmio_miss b i) = mmio_epoch b'"
    moreover have "mmio_epoch b' = of_nat (Suc (Suc (length (maps b))))"
      using assms(1) by (simp add: b' bus_inv_def)
    moreover have "unat (of_nat (Suc (Suc (length (maps b)))) :: 32 word) = Suc (Suc (length (maps b)))"
      using len by (intro unat_of_nat_small) simp
    ultimately show False using assms(1) unfolding bus_inv_def by (metis Suc_n_not_le_n)
  qed
  ultimately show ?thesis
    using assms(1) len unfolding bus_inv_def b' by (auto intro: le_SucI)
qed

lemma probe_inv:
  assumes "bus_inv b"
  shows "bus_inv (snd (mmio_map_contains b a))"
proof -
  have "\<not> map_inside m a'" if "find_mapid_by_addr (maps b) a = None" "m \<in> set (maps b)" "page_aligned m"
      "drop_bit 12 a' = drop_bit 12 a" for m a'
    using that page_aligned_page [of m a' a] by (auto simp: find_mapid_None)
  moreover have "unat (mmio_epoch b) \<le> Suc (length (maps b))"
    using assms unat_of_nat_small [of "Suc (length (maps b))"] unfolding bus_inv_def by auto
  ultimately show ?thesis
    using assms unfolding mmio_map_contains_def bus_inv_def Let_def
    by (auto split: option.split)
qed

lemma bus_run_inv: "bus_inv b \<Longrightarrow> bus_run c ops b = Some b' \<Longrightarrow> bus_inv b'"
proof (induction ops arbitrary: b)
  case (Cons op ops)
  from Cons.prems(2) obtain b1 where "bus_step c op b = Some b1" "bus_run c ops b1 = Some b'"
    by (auto split: Option.bind_splits)
  moreover from this(1) have "bus_inv b1"
    using Cons.prems(1) by (cases op) (auto intro: add_mmio_map_inv probe_inv)
  ultimately show ?case using Cons.IH by blast
qed simp

lemma contains_sound:
  assumes "fst (mmio_map_contains b a)"
  shows "\<exists>m \<in> set (maps b). map_inside m a"
  using assms unfolding mmio_map_contains_def Let_def
  by (auto split: if_splits option.splits dest!: find_mapid_Some intro!: bexI [of _ "maps b ! x" for x])

lemma contains_complete:
  assumes "bus_inv b" and "m \<in> set (maps b)" and "map_inside m a" and "page_aligned m"
  shows "fst (mmio_map_contains b a)"
proof -
  let ?e = "mmio_miss b (mmio_miss_idx a)"
  have "\<not> (miss_epoch ?e = mmio_epoch b \<and> miss_page ?e = drop_bit 12 a)"
    using assms unfolding bus_inv_def by metis
  moreover have "find_mapid_by_addr (maps b) a \<noteq> None" using assms(2,3) by (auto simp: find_mapid_None)
  ultimately show ?thesis
    by (auto simp: mmio_map_contains_def Let_def split: option.split)
qed

text \<open>
  C26 (device lookup). After any sequence of map registrations and probes since start-up, the cached
  test \<open>mmio_map_contains\<close> never claims an address of no device, and finds every address of a device
  that fills whole pages, whatever the negative page cache and the last-hit hint hold; the map an
  access goes to is the only registered map that holds the address.
\<close>

theorem mmio_lookup_exact:
  assumes "bus_run c ops mmio_init = Some b"
  shows "(fst (mmio_map_contains b a) \<longrightarrow> fetch_mmio_map b a \<noteq> None) \<and>
    (fetch_mmio_map b a = Some m \<longleftrightarrow> m \<in> set (maps b) \<and> map_inside m a) \<and>
    (m \<in> set (maps b) \<and> map_inside m a \<and> page_aligned m \<longrightarrow> fst (mmio_map_contains b a))"
proof -
  have inv: "bus_inv b" using bus_run_inv [OF bus_inv_init assms] .
  then have d: "maps_disjoint (maps b)" by (simp add: bus_inv_def)
  show ?thesis
    using contains_sound [of b a] contains_complete [OF inv, of m a] fetch_mmio_map_eq [OF d, of a]
    by (metis not_None_eq)
qed

text \<open>The PLIC window registered, a page of no device probed, and the PLIC probed.\<close>

definition demo_bus_ops :: "(nat \<Rightarrow> uint8_t) bus_op list" where
  "demo_bus_ops = [Bus_add 0x0c000000 0x01000000 (\<lambda>d. d) (\<lambda>w d. w) None, Bus_probe 0x10000000,
     Bus_probe 0x0c200004]"

definition demo_bus :: "(nat \<Rightarrow> uint8_t) mmio_state" where
  "demo_bus = the (bus_run demo_config demo_bus_ops mmio_init)"

lemma demo_bus_run: "bus_run demo_config demo_bus_ops mmio_init = Some demo_bus"
proof -
  have "bus_run demo_config demo_bus_ops mmio_init \<noteq> None" by code_simp
  then show ?thesis unfolding demo_bus_def by (metis option.collapse)
qed

theorem mmio_lookup_exact_witness:
  "fst (mmio_map_contains demo_bus 0x0c000000) \<and>
   fetch_mmio_map demo_bus 0x0c000000 = Some (hd (maps demo_bus)) \<and>
   \<not> fst (mmio_map_contains demo_bus 0x0d000000)"
proof -
  let ?m = "hd (maps demo_bus)"
  have "length (maps demo_bus) > 0" "map_inside ?m 0x0c000000" "page_aligned ?m"
    "\<not> fst (mmio_map_contains demo_bus 0x0d000000)" by code_simp+
  then show ?thesis
    using mmio_lookup_exact [OF demo_bus_run, of "0x0c000000" ?m] by simp
qed

text \<open>
  The 8-byte RTC window at \<open>CONFIG_RTC_MMIO\<close> shares its page with the null address: once that has been probed,
  \<open>mmio_map_contains\<close> no longer finds the device, although the registered map holds its address.
\<close>

definition small_bus_ops :: "(nat \<Rightarrow> uint8_t) bus_op list" where
  "small_bus_ops = [Bus_add 0x48 8 (\<lambda>d. d) (\<lambda>w d. w) None, Bus_probe 0]"

lemma mmio_miss_hides_device:
  "case bus_run demo_config small_bus_ops mmio_init of
     Some b \<Rightarrow> \<not> fst (mmio_map_contains b 0x48) \<and> fetch_mmio_map b 0x48 \<noteq> None
   | None \<Rightarrow> False"
  by code_simp

end
