(* ===== verification/Plic.thy ===== *)
theory Plic
  imports Mmio Commit
begin

text \<open>
  The platform-level interrupt controller, \<^verbatim>\<open>src/device/intr.c\<close>, of a device build: two contexts for
  each of the \<open>NEMU_MAX_HARTS = 4\<close> harts it has registers for (\<open>include/common.h\<close> defines
  \<open>NEMU_HAS_SMP\<close> there), of which one runs (\<open>nemu_nr_harts = 1\<close>, the default of \<open>--smp\<close>): context
  0 is its machine mode and context 1 its supervisor mode, and the lines of the other contexts drive
  no hart. The journal hooks of the lockstep runs, the host threads and the bus lock are left out. An
  operation takes the controller and the hart, whose pending bits it drives.
\<close>

unbundle bit_operations_syntax

abbreviation (input) PLIC_NDEV :: nat where "PLIC_NDEV \<equiv> 32"

abbreviation (input) NEMU_MAX_HARTS :: nat where "NEMU_MAX_HARTS \<equiv> 4"

abbreviation (input) PLIC_NCTX :: nat where "PLIC_NCTX \<equiv> 2 * NEMU_MAX_HARTS"

abbreviation (input) PLIC_NWORDS :: nat where "PLIC_NWORDS \<equiv> 2"

abbreviation (input) PLIC_PRIORITY_BASE :: nat where "PLIC_PRIORITY_BASE \<equiv> 0"

abbreviation (input) PLIC_PENDING_BASE :: nat where "PLIC_PENDING_BASE \<equiv> 0x1000"

abbreviation (input) PLIC_ENABLE_BASE :: nat where "PLIC_ENABLE_BASE \<equiv> 0x2000"

abbreviation (input) PLIC_ENABLE_STRIDE :: nat where "PLIC_ENABLE_STRIDE \<equiv> 0x80"

abbreviation (input) PLIC_CONTEXT_BASE :: nat where "PLIC_CONTEXT_BASE \<equiv> 0x200000"

abbreviation (input) PLIC_CONTEXT_STRIDE :: nat where "PLIC_CONTEXT_STRIDE \<equiv> 0x1000"

record plic_state =
  plic_base :: "nat \<Rightarrow> uint8_t"
  plic_priority :: "nat \<Rightarrow> uint32_t"
  plic_pending :: "nat \<Rightarrow> uint32_t"
  plic_enable :: "nat \<Rightarrow> nat \<Rightarrow> uint32_t"
  plic_threshold :: "nat \<Rightarrow> uint32_t"
  plic_claimed :: "nat \<Rightarrow> uint32_t"

definition init_intr :: plic_state where
  "init_intr = \<lparr>plic_base = (\<lambda>_. 0), plic_priority = (\<lambda>_. 0), plic_pending = (\<lambda>_. 0),
     plic_enable = (\<lambda>_ _. 0), plic_threshold = (\<lambda>_. 0), plic_claimed = (\<lambda>_. 0)\<rparr>"

section \<open>Pending lines\<close>

text \<open>The test both loops make of source \<open>i\<close>: pending, enabled, above a priority.\<close>

definition plic_source_active :: "plic_state \<Rightarrow> nat \<Rightarrow> nat \<Rightarrow> uint32_t \<Rightarrow> bool" where
  "plic_source_active p ctx i prio \<longleftrightarrow>
     (let w = i div 32; b = i mod 32 in
      plic_pending p w AND push_bit b 1 \<noteq> 0 \<and> plic_enable p ctx w AND push_bit b 1 \<noteq> 0 \<and>
      prio < plic_priority p i)"

definition plic_has_irq :: "plic_state \<Rightarrow> nat \<Rightarrow> bool" where
  "plic_has_irq p ctx = list_ex (\<lambda>i. plic_source_active p ctx i (plic_threshold p ctx)) [1..<PLIC_NDEV + 1]"

definition set_seip :: "bool \<Rightarrow> nemu \<Rightarrow> nemu" where
  "set_seip b s = s\<lparr>cpu := (cpu s)\<lparr>cpu_seip := b\<rparr>\<rparr>"

lemma set_seip_frame [simp]:
  "sr (set_seip b s) = sr s" "cpu_seip (cpu (set_seip b s)) = b" "priv (set_seip b s) = priv s"
  "virt (set_seip b s) = virt s" "cpu_stip (cpu (set_seip b s)) = cpu_stip (cpu s)"
  by (simp_all add: fun_eq_iff sr_def set_seip_def)

text \<open>
  The machine line is cleared with \<open>&= ~(1u << 11)\<close>: the mask is 32 bits wide and widens with zeros,
  so the upper half of \<open>mip\<close> is cleared with the bit.
\<close>

definition plic_update_mip :: "config \<Rightarrow> plic_state \<Rightarrow> nemu \<Rightarrow> nemu" where
  "plic_update_mip c p s =
     (let s1 = set_sr CSR_MIP (if plic_has_irq p 0 then sr s CSR_MIP OR 0x800
                              else sr s CSR_MIP AND ucast (NOT (push_bit 11 1) :: uint32_t)) s;
          s2 = set_seip (plic_has_irq p 1) s1
      in set_sr CSR_SIP (riscv_hart_mip_value c s2 AND sr s2 CSR_MIDELEG AND
           riscv_supervisor_irq_mask c) s2)"

section \<open>Claims\<close>

definition plic_claim_pass :: "plic_state \<Rightarrow> nat \<Rightarrow> nat \<Rightarrow> nat \<times> uint32_t \<Rightarrow> nat \<times> uint32_t" where
  "plic_claim_pass p ctx i best =
     (if plic_source_active p ctx i (snd best) then (i, plic_priority p i) else best)"

definition plic_claim :: "nat \<Rightarrow> plic_state \<Rightarrow> nat \<times> plic_state" where
  "plic_claim ctx p =
     (let best_id = fst (fold (plic_claim_pass p ctx) [1..<PLIC_NDEV + 1] (0, plic_threshold p ctx)) in
      if 0 < best_id
      then (let w = best_id div 32; b = best_id mod 32 in
            (best_id, p\<lparr>plic_pending := (plic_pending p)(w := plic_pending p w AND NOT (push_bit b 1)),
                        plic_claimed := (plic_claimed p)(ctx := of_nat best_id)\<rparr>))
      else (best_id, p))"

definition plic_raise_source :: "config \<Rightarrow> int \<Rightarrow> plic_state \<times> nemu \<Rightarrow> plic_state \<times> nemu" where
  "plic_raise_source c irq = (\<lambda>(p, s).
     if irq < 1 \<or> int PLIC_NDEV < irq then (p, s)
     else let w = nat irq div 32; b = nat irq mod 32;
              p' = p\<lparr>plic_pending := (plic_pending p)(w := plic_pending p w OR push_bit b 1)\<rparr>
          in (p', plic_update_mip c p' s))"

section \<open>Reset test and checkpoint\<close>

definition nemu_plic_reset_state :: "plic_state \<Rightarrow> bool" where
  "nemu_plic_reset_state p \<longleftrightarrow>
     list_all (\<lambda>i. plic_priority p i = 0) [0..<PLIC_NDEV + 1] \<and>
     list_all (\<lambda>w. plic_pending p w = 0) [0..<PLIC_NWORDS] \<and>
     list_all (\<lambda>ctx. plic_threshold p ctx = 0 \<and> plic_claimed p ctx = 0 \<and>
        list_all (\<lambda>w. plic_enable p ctx w = 0) [0..<PLIC_NWORDS]) [0..<PLIC_NCTX]"

definition plic_restore_checkpoint ::
    "config \<Rightarrow> (nat \<Rightarrow> uint8_t) \<Rightarrow> uint32_t \<Rightarrow> (nat \<Rightarrow> uint32_t) \<Rightarrow> (nat \<Rightarrow> uint8_t) \<Rightarrow> uint32_t \<Rightarrow> uint32_t \<Rightarrow>
     plic_state \<times> nemu \<Rightarrow> plic_state \<times> nemu" where
  "plic_restore_checkpoint c prio pending enable threshold ndev nctx = (\<lambda>(p, s).
     let nd = min (unat ndev) PLIC_NDEV; nc = min (unat nctx) PLIC_NCTX;
         p' = p\<lparr>plic_priority := (\<lambda>i. if i \<le> nd then ucast (prio i) else 0),
                plic_pending := (\<lambda>w. if w = 0 then pending AND NOT 1 else 0),
                plic_enable := (\<lambda>ctx w. if ctx < nc \<and> w = 0 then enable ctx else 0),
                plic_threshold := (\<lambda>ctx. if ctx < nc then ucast (threshold ctx) else 0),
                plic_claimed := (\<lambda>_. 0)\<rparr>
     in (p', plic_update_mip c p' s))"

section \<open>Register window\<close>

definition plic_put :: "nat \<Rightarrow> uint32_t \<Rightarrow> plic_state \<Rightarrow> plic_state" where
  "plic_put offset v p = p\<lparr>plic_base := win_store32 (plic_base p) offset v\<rparr>"

text \<open>The four register blocks; a write refreshes the pending lines.\<close>

definition plic_io_priority :: "nat \<Rightarrow> bool \<Rightarrow> plic_state \<Rightarrow> plic_state \<times> bool" where
  "plic_io_priority offset is_write p =
     (let src = (offset - PLIC_PRIORITY_BASE) div 4 in
      if src \<le> PLIC_NDEV
      then if is_write
           then (p\<lparr>plic_priority := (plic_priority p)(src := win_load32 (plic_base p) offset)\<rparr>, True)
           else (plic_put offset (plic_priority p src) p, False)
      else (p, False))"

definition plic_io_pending :: "nat \<Rightarrow> bool \<Rightarrow> plic_state \<Rightarrow> plic_state \<times> bool" where
  "plic_io_pending offset is_write p =
     (let w = (offset - PLIC_PENDING_BASE) div 4 in
      if is_write
      then (let v = win_load32 (plic_base p) offset;
                v' = (if w = 0 then v AND NOT 1 else v)
            in (p\<lparr>plic_pending := (plic_pending p)(w := plic_pending p w OR v')\<rparr>, True))
      else (plic_put offset (plic_pending p w) p, False))"

definition plic_io_enable :: "nat \<Rightarrow> bool \<Rightarrow> plic_state \<Rightarrow> plic_state \<times> bool" where
  "plic_io_enable offset is_write p =
     (let ctx = (offset - PLIC_ENABLE_BASE) div PLIC_ENABLE_STRIDE;
          w = (offset - PLIC_ENABLE_BASE) mod PLIC_ENABLE_STRIDE div 4 in
      if ctx < PLIC_NCTX \<and> w < PLIC_NWORDS
      then if is_write
           then (p\<lparr>plic_enable := (plic_enable p)(ctx := (plic_enable p ctx)(w := win_load32 (plic_base p) offset))\<rparr>, True)
           else (plic_put offset (plic_enable p ctx w) p, False)
      else (p, False))"

definition plic_io_context :: "nat \<Rightarrow> bool \<Rightarrow> plic_state \<Rightarrow> plic_state \<times> bool" where
  "plic_io_context offset is_write p =
     (let ctx = (offset - PLIC_CONTEXT_BASE) div PLIC_CONTEXT_STRIDE;
          reg = (offset - PLIC_CONTEXT_BASE) mod PLIC_CONTEXT_STRIDE in
      if PLIC_NCTX \<le> ctx then (p, False)
      else if reg = 0
      then if is_write
           then (p\<lparr>plic_threshold := (plic_threshold p)(ctx := win_load32 (plic_base p) offset)\<rparr>, True)
           else (plic_put offset (plic_threshold p ctx) p, False)
      else if reg = 4
      then if is_write
           then (let i = win_load32 (plic_base p) offset in
                 (if 1 \<le> i \<and> i \<le> of_nat PLIC_NDEV
                  then p\<lparr>plic_claimed := (plic_claimed p)(ctx := 0)\<rparr> else p, True))
           else (let (i, p') = plic_claim ctx p in (plic_put offset (of_nat i) p', True))
      else (p, False))"

text \<open>The register block of an offset; offsets of no block do nothing.\<close>

definition plic_io_regs :: "nat \<Rightarrow> bool \<Rightarrow> plic_state \<Rightarrow> plic_state \<times> bool" where
  "plic_io_regs offset is_write p =
     (if offset < PLIC_PRIORITY_BASE + (PLIC_NDEV + 1) * 4 then plic_io_priority offset is_write p
      else if PLIC_PENDING_BASE \<le> offset \<and> offset < PLIC_PENDING_BASE + PLIC_NWORDS * 4
      then plic_io_pending offset is_write p
      else if PLIC_ENABLE_BASE \<le> offset \<and> offset < PLIC_ENABLE_BASE + PLIC_NCTX * PLIC_ENABLE_STRIDE
      then plic_io_enable offset is_write p
      else if PLIC_CONTEXT_BASE \<le> offset \<and> offset < PLIC_CONTEXT_BASE + PLIC_NCTX * PLIC_CONTEXT_STRIDE
      then plic_io_context offset is_write p
      else (p, False))"

definition plic_io_handler :: "config \<Rightarrow> (plic_state \<times> nemu) io_callback" where
  "plic_io_handler c offset len is_write = (\<lambda>(p, s).
     let (p', update) = plic_io_regs offset is_write p
     in Some (p', if update then plic_update_mip c p' s else s))"

text \<open>The window \<open>init_intr\<close> registers, at the Kconfig address.\<close>

definition plic_map :: "config \<Rightarrow> (plic_state \<times> nemu) IOMap" where
  "plic_map c = \<lparr>map_low = 0x0c000000, map_high = 0x0cffffff, map_space = (\<lambda>(p, _). plic_base p),
     map_store = (\<lambda>w (p, s). (p\<lparr>plic_base := w\<rparr>, s)), map_callback = Some (plic_io_handler c)\<rparr>"

end
