(* ===== verification/Plic_Correct.thy ===== *)
theory Plic_Correct
  imports Plic Demo
begin

text \<open>
  The interrupt controller against the PLIC specification: a claim takes the deliverable source of
  highest priority, the two external interrupt lines of the hart show exactly whether a source is
  deliverable, and a raised interrupt stays pending until a claim returns it.
\<close>

unbundle bit_operations_syntax

section \<open>Deliverable sources\<close>

definition plic_is_pending :: "plic_state \<Rightarrow> nat \<Rightarrow> bool" where
  "plic_is_pending p i = bit (plic_pending p (i div 32)) (i mod 32)"

definition plic_deliverable :: "plic_state \<Rightarrow> nat \<Rightarrow> nat set" where
  "plic_deliverable p ctx =
     {i. 1 \<le> i \<and> i \<le> PLIC_NDEV \<and> plic_is_pending p i \<and>
         bit (plic_enable p ctx (i div 32)) (i mod 32) \<and> plic_threshold p ctx < plic_priority p i}"

lemma and_bit_32: "x AND push_bit b 1 \<noteq> 0 \<longleftrightarrow> bit x b" if "b < 32" for x :: uint32_t
proof -
  have "x AND push_bit b 1 = (if bit x b then push_bit b 1 else 0)"
    by (rule bit_word_eqI) (use that in \<open>auto simp: bit_simps\<close>)
  moreover have "push_bit b 1 \<noteq> (0 :: uint32_t)"
    using that by (simp add: push_bit_eq_mult)
  ultimately show ?thesis by simp
qed

lemma plic_source_active_iff:
  "plic_source_active p ctx i prio \<longleftrightarrow>
     plic_is_pending p i \<and> bit (plic_enable p ctx (i div 32)) (i mod 32) \<and> prio < plic_priority p i"
  by (simp add: plic_source_active_def plic_is_pending_def Let_def and_bit_32)

lemma plic_has_irq_iff: "plic_has_irq p ctx \<longleftrightarrow> plic_deliverable p ctx \<noteq> {}"
  by (auto simp: plic_has_irq_def list_ex_iff plic_source_active_iff plic_deliverable_def)

section \<open>Claims\<close>

text \<open>What the scan holds after the first \<open>n\<close> sources.\<close>

definition claim_best :: "plic_state \<Rightarrow> nat \<Rightarrow> nat \<Rightarrow> nat \<times> uint32_t \<Rightarrow> bool" where
  "claim_best p ctx n = (\<lambda>(i, prio).
     let D = {j \<in> plic_deliverable p ctx. j \<le> n} in
     if i = 0 then D = {} \<and> prio = plic_threshold p ctx
     else i \<in> D \<and> prio = plic_priority p i \<and>
       (\<forall>j \<in> D. plic_priority p j < prio \<or> plic_priority p j = prio \<and> i \<le> j))"

lemma claim_best_step:
  assumes "claim_best p ctx n best" and "n < PLIC_NDEV"
  shows "claim_best p ctx (Suc n) (plic_claim_pass p ctx (Suc n) best)"
proof -
  obtain i prio where best: "best = (i, prio)" by fastforce
  have D: "{j \<in> plic_deliverable p ctx. j \<le> Suc n} =
      {j \<in> plic_deliverable p ctx. j \<le> n} \<union> (if Suc n \<in> plic_deliverable p ctx then {Suc n} else {})"
    by (auto simp: le_Suc_eq)
  have mem: "Suc n \<in> plic_deliverable p ctx \<longleftrightarrow> plic_source_active p ctx (Suc n) (plic_threshold p ctx)"
    using assms(2) by (auto simp: plic_deliverable_def plic_source_active_iff)
  have th: "plic_threshold p ctx < plic_priority p j" if "j \<in> plic_deliverable p ctx" for j
    using that by (simp add: plic_deliverable_def)
  show ?thesis
  proof (cases "plic_source_active p ctx (Suc n) prio")
    case True
    then have "Suc n \<in> plic_deliverable p ctx"
      using assms th [of i] by (auto simp: mem best claim_best_def plic_source_active_iff split: if_splits)
    with True assms(1) show ?thesis
      unfolding best plic_claim_pass_def claim_best_def D
      by (auto simp: plic_source_active_iff split: if_splits intro: less_trans)
  next
    case False
    have "plic_priority p (Suc n) \<le> prio" if "Suc n \<in> plic_deliverable p ctx"
      using False that by (auto simp: plic_deliverable_def plic_source_active_iff)
    with False assms(1) mem show ?thesis
      unfolding best plic_claim_pass_def claim_best_def D
      by (auto simp: not_less le_less split: if_splits)
  qed
qed

lemma claim_best_fold:
  "n \<le> PLIC_NDEV \<Longrightarrow> claim_best p ctx n (fold (plic_claim_pass p ctx) [1..<n + 1] (0, plic_threshold p ctx))"
proof (induction n)
  case 0
  then show ?case by (auto simp: claim_best_def plic_deliverable_def)
next
  case (Suc n)
  then show ?case using claim_best_step [of p ctx n] by simp
qed

lemma plic_is_pending_clear:
  assumes "plic_pending p' = (plic_pending p)(i div 32 := plic_pending p (i div 32) AND NOT (push_bit (i mod 32) 1))"
  shows "plic_is_pending p' j \<longleftrightarrow> plic_is_pending p j \<and> j \<noteq> i"
proof -
  have "j = i" if "j div 32 = i div 32" "j mod 32 = i mod 32" using that by (metis div_mult_mod_eq)
  then show ?thesis
    unfolding plic_is_pending_def assms by (auto simp: bit_simps)
qed

text \<open>
  C27 (claim). A claim returns 0 exactly when no source is deliverable to the context; otherwise it
  returns the deliverable source of highest priority, the lowest number among equals, and takes that
  source and no other out of the pending set, without touching priorities, enables or thresholds.
\<close>

theorem plic_claim_highest:
  assumes "plic_claim ctx p = (i, p')"
  shows "(i = 0 \<longleftrightarrow> plic_deliverable p ctx = {}) \<and>
    (i \<noteq> 0 \<longrightarrow> i \<in> plic_deliverable p ctx \<and>
       (\<forall>j \<in> plic_deliverable p ctx. plic_priority p j < plic_priority p i \<or>
          plic_priority p j = plic_priority p i \<and> i \<le> j)) \<and>
    (\<forall>j. j \<noteq> 0 \<longrightarrow> (plic_is_pending p' j \<longleftrightarrow> plic_is_pending p j \<and> j \<noteq> i)) \<and>
    plic_priority p' = plic_priority p \<and> plic_enable p' = plic_enable p \<and>
    plic_threshold p' = plic_threshold p"
proof -
  obtain k prio where k: "fold (plic_claim_pass p ctx) [1..<PLIC_NDEV + 1] (0, plic_threshold p ctx) = (k, prio)"
    by fastforce
  have all: "{j \<in> plic_deliverable p ctx. j \<le> 32} = plic_deliverable p ctx" by (auto simp: plic_deliverable_def)
  have "claim_best p ctx 32 (k, prio)" using claim_best_fold [of 32 p ctx, OF order_refl] unfolding k .
  then have best: "if k = 0 then plic_deliverable p ctx = {}
      else k \<in> plic_deliverable p ctx \<and> (\<forall>j \<in> plic_deliverable p ctx.
        plic_priority p j < plic_priority p k \<or> plic_priority p j = plic_priority p k \<and> k \<le> j)"
    unfolding claim_best_def prod.case all Let_def by (auto split: if_splits)
  have claim: "(i, p') = (if 0 < k
      then (k, p\<lparr>plic_pending := (plic_pending p)(k div 32 := plic_pending p (k div 32) AND NOT (push_bit (k mod 32) 1)),
             plic_claimed := (plic_claimed p)(ctx := of_nat k)\<rparr>)
      else (k, p))"
    using assms unfolding plic_claim_def k fst_conv Let_def by simp
  then have "i = k" by (simp split: if_splits)
  moreover have "plic_is_pending p' j \<longleftrightarrow> plic_is_pending p j \<and> j \<noteq> i" if "j \<noteq> 0" for j
  proof (cases "k = 0")
    case False
    then show ?thesis using claim by (intro plic_is_pending_clear) simp
  qed (use claim that in simp)
  moreover have "plic_priority p' = plic_priority p" "plic_enable p' = plic_enable p"
    "plic_threshold p' = plic_threshold p"
    using claim by (simp_all split: if_splits)
  ultimately show ?thesis using best by (auto split: if_splits)
qed

section \<open>Guest accesses and device interrupts\<close>

datatype plic_event = Plic_raise int | Plic_store paddr_t nat word_t | Plic_load paddr_t nat

text \<open>One event, with the loads of the guest recorded as address and value; \<open>None\<close> is a panic.\<close>

definition plic_step ::
    "config \<Rightarrow> plic_event \<Rightarrow> plic_state \<times> nemu \<Rightarrow> ((plic_state \<times> nemu) \<times> (paddr_t \<times> word_t) list) option" where
  "plic_step c e d =
     (case e of
        Plic_raise irq \<Rightarrow> Some (plic_raise_source c irq d, [])
      | Plic_store a n v \<Rightarrow>
          (case map_write snd a n v (Some (plic_map c)) d of Inl _ \<Rightarrow> None | Inr d' \<Rightarrow> Some (d', []))
      | Plic_load a n \<Rightarrow>
          (case map_read snd a n (Some (plic_map c)) d of Inl _ \<Rightarrow> None | Inr (v, d') \<Rightarrow> Some (d', [(a, v)])))"

primrec plic_run ::
    "config \<Rightarrow> plic_event list \<Rightarrow> plic_state \<times> nemu \<Rightarrow> ((plic_state \<times> nemu) \<times> (paddr_t \<times> word_t) list) option" where
  "plic_run c [] d = Some (d, [])"
| "plic_run c (e # es) d =
     (case plic_step c e d of
        None \<Rightarrow> None
      | Some (d', l) \<Rightarrow> map_option (\<lambda>(d'', l'). (d'', l @ l')) (plic_run c es d'))"

text \<open>The two lines the hart sees: \<open>mip.MEIP\<close>, and \<open>seip\<close>, the external part of \<open>mip.SEIP\<close>.\<close>

definition plic_lines :: "plic_state \<times> nemu \<Rightarrow> bool" where
  "plic_lines = (\<lambda>(p, s). (bit (sr s CSR_MIP) 11 \<longleftrightarrow> plic_deliverable p 0 \<noteq> {}) \<and>
     (cpu_seip (cpu s) \<longleftrightarrow> plic_deliverable p 1 \<noteq> {}))"

lemma plic_lines_update: "plic_lines (p, plic_update_mip c p s)"
  by (simp add: plic_lines_def plic_update_mip_def Let_def plic_has_irq_iff bit_simps)

lemma plic_deliverable_cong:
  "plic_pending p' = plic_pending p \<Longrightarrow> plic_enable p' = plic_enable p \<Longrightarrow>
   plic_priority p' = plic_priority p \<Longrightarrow> plic_threshold p' = plic_threshold p \<Longrightarrow>
   plic_deliverable p' = plic_deliverable p"
  by (simp add: plic_deliverable_def plic_is_pending_def fun_eq_iff)

lemma plic_put_frame [simp]:
  "plic_pending (plic_put off v p) = plic_pending p" "plic_enable (plic_put off v p) = plic_enable p"
  "plic_priority (plic_put off v p) = plic_priority p" "plic_threshold (plic_put off v p) = plic_threshold p"
  "plic_base (plic_put off v p) = win_store32 (plic_base p) off v"
  by (simp_all add: plic_put_def)

lemmas plic_io_defs = plic_io_regs_def plic_io_priority_def plic_io_pending_def plic_io_enable_def
  plic_io_context_def Let_def

text \<open>Only an access that leaves the registers as they are skips the refresh of the lines.\<close>

lemma plic_io_no_update:
  assumes "plic_io_regs off w p = (p', False)"
  shows "plic_deliverable p' = plic_deliverable p"
  using assms
  by (intro plic_deliverable_cong) (auto simp: plic_io_defs split: if_splits prod.splits)

lemma plic_lines_io:
  assumes "plic_io_handler c off n w d = Some d'" and "plic_lines d"
  shows "plic_lines d'"
proof -
  obtain p s where d: "d = (p, s)" by (cases d)
  obtain p' u where r: "plic_io_regs off w p = (p', u)" by fastforce
  with assms(1) have "d' = (p', if u then plic_update_mip c p' s else s)"
    by (simp add: plic_io_handler_def d)
  then show ?thesis
    using assms(2) plic_lines_update plic_io_no_update [of off w p p'] r
    by (cases u) (simp_all add: d plic_lines_def)
qed

lemma plic_lines_base: "plic_lines (p\<lparr>plic_base := w\<rparr>, s) = plic_lines (p, s)"
  by (simp add: plic_lines_def plic_deliverable_def plic_is_pending_def)

lemma plic_map_simps [simp]:
  "map_callback (plic_map c) = Some (plic_io_handler c)" "map_low (plic_map c) = 0x0c000000"
  "map_space (plic_map c) d = plic_base (fst d)"
  "map_store (plic_map c) w d = ((fst d)\<lparr>plic_base := w\<rparr>, snd d)"
  by (simp_all add: plic_map_def split: prod.split)

lemma map_write_plic:
  assumes "map_write h a n v (Some (plic_map c)) d = Inr d'"
  obtains w off where "plic_io_handler c off n True ((fst d)\<lparr>plic_base := w\<rparr>, snd d) = Some d'"
  using assms that
  by (auto simp: map_write_def check_bound_def invoke_callback_def Let_def split: if_splits option.splits)

lemma map_read_plic:
  assumes "map_read h a n (Some (plic_map c)) d = Inr (v, d')"
  shows "plic_io_handler c (unat (a - 0x0c000000)) n False d = Some d'" "n \<noteq> 0"
    "v = win_load (plic_base (fst d')) (unat (a - 0x0c000000)) n"
    "0x0c000000 \<le> a" "a \<le> 0x0cffffff"
  using assms
  by (auto simp: map_read_def check_bound_def invoke_callback_def Let_def plic_map_def case_prod_unfold
      split: if_splits option.splits)

lemma plic_lines_step:
  assumes "plic_step c e d = Some (d', l)" and "plic_lines d"
  shows "plic_lines d'"
proof (cases e)
  case (Plic_raise irq)
  then show ?thesis
    using assms plic_lines_update
    by (cases d) (auto simp: plic_step_def plic_raise_source_def Let_def split: if_splits)
next
  case (Plic_store a n v)
  then obtain w off where "plic_io_handler c off n True ((fst d)\<lparr>plic_base := w\<rparr>, snd d) = Some d'"
    using assms(1) by (auto simp: plic_step_def split: sum.splits elim: map_write_plic)
  then show ?thesis
    by (rule plic_lines_io) (use assms(2) in \<open>simp add: plic_lines_base\<close>)
next
  case (Plic_load a n)
  then obtain v where "map_read snd a n (Some (plic_map c)) d = Inr (v, d')"
    using assms(1) by (auto simp: plic_step_def split: sum.splits)
  from map_read_plic(1) [OF this] show ?thesis
    by (rule plic_lines_io) (rule assms(2))
qed

section \<open>Pending sources\<close>

lemma win_load_low_byte: "n \<noteq> 0 \<Longrightarrow> win_load b off n AND 0xff = ucast (b off)"
  unfolding low_byte_mask using bit_imp_le_length [of "b off"]
  by (cases n) (auto intro!: bit_word_eqI simp: bit_simps bit_mask_iff)

lemma ucast_of_nat_8: "ucast (of_nat n :: uint32_t) = (of_nat n :: uint8_t)"
  by (rule bit_word_eqI) (simp add: bit_simps)

text \<open>The claim register of a context.\<close>

definition claim_reg :: "nat \<Rightarrow> nat" where
  "claim_reg ctx = PLIC_CONTEXT_BASE + ctx * PLIC_CONTEXT_STRIDE + 4"

lemma plic_claim_pending:
  assumes "plic_claim ctx p = (j, p')" and "plic_is_pending p i" and "i \<noteq> 0"
  shows "plic_is_pending p' i \<or> j = i"
  using assms plic_claim_highest [OF assms(1)] by blast

text \<open>A pending source stays pending, or the access reads it from a claim register.\<close>

lemma plic_io_context_pending:
  assumes "plic_io_context off w p = (p', u)" and "plic_is_pending p i" and "i \<noteq> 0"
    and "PLIC_CONTEXT_BASE \<le> off"
  shows "plic_is_pending p' i \<or>
    (\<not> w \<and> (\<exists>ctx < PLIC_NCTX. off = claim_reg ctx) \<and> plic_base p' off = of_nat i)"
proof -
  let ?ctx = "(off - PLIC_CONTEXT_BASE) div PLIC_CONTEXT_STRIDE"
  let ?reg = "(off - PLIC_CONTEXT_BASE) mod PLIC_CONTEXT_STRIDE"
  show ?thesis
  proof (cases "?ctx < PLIC_NCTX \<and> ?reg = 4 \<and> \<not> w")
    case True
    obtain j q where q: "plic_claim ?ctx p = (j, q)" by fastforce
    have p': "p' = plic_put off (of_nat j) q" using assms(1) True by (simp add: plic_io_context_def q Let_def)
    have "off = claim_reg ?ctx"
      using True assms(4) div_mult_mod_eq [of "off - PLIC_CONTEXT_BASE" PLIC_CONTEXT_STRIDE]
      unfolding claim_reg_def by linarith
    then show ?thesis
      using plic_claim_pending [OF q assms(2,3)] True
      by (auto simp: p' win_store32_first ucast_of_nat_8 plic_is_pending_def)
  next
    case False
    then show ?thesis
      using assms(1,2) by (auto simp: plic_io_context_def plic_is_pending_def Let_def split: if_splits)
  qed
qed

lemma plic_io_keeps_pending:
  assumes "plic_io_regs off w p = (p', u)" and "plic_is_pending p i" and "i \<noteq> 0"
  shows "plic_is_pending p' i \<or>
    (\<not> w \<and> (\<exists>ctx < PLIC_NCTX. off = claim_reg ctx) \<and> plic_base p' off = of_nat i)"
proof -
  have "plic_is_pending p' i" if "plic_io_priority off w p = (p', u) \<or> plic_io_pending off w p = (p', u) \<or>
      plic_io_enable off w p = (p', u)"
    using that assms(2)
    by (auto simp: plic_io_priority_def plic_io_pending_def plic_io_enable_def plic_is_pending_def Let_def
        bit_simps split: if_splits)
  then show ?thesis
    using assms plic_io_context_pending [OF _ assms(2,3)]
    by (auto simp: plic_io_regs_def split: if_splits)
qed

text \<open>A guest load of a claim register returned the source.\<close>

definition plic_claimed_in :: "nat \<Rightarrow> (paddr_t \<times> word_t) list \<Rightarrow> bool" where
  "plic_claimed_in i l \<longleftrightarrow>
     (\<exists>ctx < PLIC_NCTX. \<exists>v. (0x0c000000 + of_nat (claim_reg ctx), v) \<in> set l \<and> v AND 0xff = of_nat i)"

lemma plic_run_lines:
  "plic_run c es d = Some (d', l) \<Longrightarrow> plic_lines d \<Longrightarrow> plic_lines d'"
  by (induction es arbitrary: d l) (auto split: option.splits dest: plic_lines_step)

lemma plic_step_keeps_pending:
  assumes "plic_step c e d = Some (d', l)" and "plic_is_pending (fst d) i" and "1 \<le> i" and "i \<le> PLIC_NDEV"
  shows "plic_is_pending (fst d') i \<or>
    plic_claimed_in i l"
proof (cases e)
  case (Plic_raise irq)
  then show ?thesis
    using assms(1,2)
    by (cases d) (auto simp: plic_step_def plic_raise_source_def Let_def plic_is_pending_def bit_simps split: if_splits)
next
  case (Plic_store a n v)
  then obtain w off where "plic_io_handler c off n True ((fst d)\<lparr>plic_base := w\<rparr>, snd d) = Some d'"
    using assms(1) by (auto simp: plic_step_def split: sum.splits elim: map_write_plic)
  then show ?thesis
    using assms(2,3) plic_io_keeps_pending [of off True "(fst d)\<lparr>plic_base := w\<rparr>" _ _ i]
    by (auto simp: plic_io_handler_def plic_is_pending_def split: prod.splits)
next
  case (Plic_load a n)
  then obtain v where v: "map_read snd a n (Some (plic_map c)) d = Inr (v, d')" and l: "l = [(a, v)]"
    using assms(1) by (auto simp: plic_step_def split: sum.splits)
  let ?off = "unat (a - 0x0c000000)"
  note m = map_read_plic [OF v]
  obtain p' u where r: "plic_io_regs ?off False (fst d) = (p', u)" by fastforce
  then have p': "fst d' = p'" using m(1) by (cases d) (auto simp: plic_io_handler_def)
  have "v AND 0xff = of_nat i" if "plic_base p' ?off = of_nat i"
    using that m(2,3) assms(4) win_load_low_byte [of n "plic_base p'" ?off]
    by (simp add: p' unsigned_of_nat take_bit_nat_eq_self)
  moreover have "a = 0x0c000000 + of_nat (claim_reg ctx)" if "?off = claim_reg ctx" for ctx
    using arg_cong [OF that, of "of_nat :: nat \<Rightarrow> word_t"] by (simp add: algebra_simps)
  ultimately show ?thesis
    using plic_io_keeps_pending [OF r assms(2)] assms(3) unfolding p' l plic_claimed_in_def by fastforce
qed

lemma plic_run_keeps:
  assumes "plic_run c es d = Some (d', l)" and "plic_lines d" and "plic_is_pending (fst d) i"
    and "1 \<le> i" and "i \<le> PLIC_NDEV"
  shows "plic_lines d' \<and> (plic_is_pending (fst d') i \<or> plic_claimed_in i l)"
  using assms(1-3)
proof (induction es arbitrary: d l)
  case (Cons e es)
  then obtain d1 l1 l2 where 1: "plic_step c e d = Some (d1, l1)" "plic_run c es d1 = Some (d', l2)"
    and l: "l = l1 @ l2" by (auto split: option.splits)
  from plic_step_keeps_pending [OF 1(1) Cons.prems(3) assms(4,5)] show ?case
  proof
    assume "plic_is_pending (fst d1) i"
    with Cons.IH [OF 1(2) plic_lines_step [OF 1(1) Cons.prems(2)]] show ?thesis
      by (auto simp: l plic_claimed_in_def)
  next
    assume "plic_claimed_in i l1"
    with plic_run_lines [OF 1(2) plic_lines_step [OF 1(1) Cons.prems(2)]] show ?thesis
      by (auto simp: l plic_claimed_in_def)
  qed
qed simp

text \<open>
  C28 (no lost interrupt). From any state of controller and hart, once a device has raised source
  \<open>i\<close>, after any sequence of further interrupts and guest accesses to the register window the hart's
  machine and supervisor external lines are high exactly while a source is deliverable to their
  context, and source \<open>i\<close> is still pending unless a guest load of a claim register returned \<open>i\<close>.
\<close>

theorem plic_no_lost_interrupt:
  assumes "plic_run c (Plic_raise (int i) # es) d = Some ((p, s), l)" and "1 \<le> i" and "i \<le> PLIC_NDEV"
  shows "(bit (sr s CSR_MIP) 11 \<longleftrightarrow> plic_deliverable p 0 \<noteq> {}) \<and>
    (cpu_seip (cpu s) \<longleftrightarrow> plic_deliverable p 1 \<noteq> {}) \<and>
    (plic_is_pending p i \<or>
     (\<exists>ctx < PLIC_NCTX. \<exists>v. (0x0c000000 + of_nat (claim_reg ctx), v) \<in> set l \<and> v AND 0xff = of_nat i))"
proof -
  have keep: "plic_lines d' \<and> (plic_is_pending (fst d') i \<or> plic_claimed_in i l)"
    if "plic_run c es d = Some (d', l)" "plic_lines d" "plic_is_pending (fst d) i" for d d' es l
    by (rule plic_run_keeps [OF that assms(2,3)])
  have "plic_lines (plic_raise_source c (int i) d)"
    using assms(2,3) plic_lines_update by (cases d) (simp add: plic_raise_source_def Let_def)
  moreover have "plic_is_pending (fst (plic_raise_source c (int i) d)) i"
    using assms(2,3) by (cases d) (simp add: plic_raise_source_def Let_def plic_is_pending_def bit_simps)
  moreover have "plic_run c es (plic_raise_source c (int i) d) = Some ((p, s), l)"
    using assms(1) by (auto simp: plic_step_def)
  ultimately have "plic_lines (p, s) \<and> (plic_is_pending (fst (p, s)) i \<or> plic_claimed_in i l)"
    by (intro keep)
  then show ?thesis unfolding plic_lines_def plic_claimed_in_def by simp
qed

text \<open>A controller whose sources are enabled with priority 1: source 10 is raised and claimed.\<close>

definition demo_plic :: plic_state where
  "demo_plic = init_intr\<lparr>plic_enable := (\<lambda>_ _. 0xffffffff), plic_priority := (\<lambda>_. 1)\<rparr>"

definition demo_plic_run :: "((plic_state \<times> nemu) \<times> (paddr_t \<times> word_t) list) option" where
  "demo_plic_run = plic_run demo_config (Plic_raise (int 10) # [Plic_load 0x0c200004 4]) (demo_plic, demo_machine)"

lemma demo_plic_claim:
  "fst (plic_claim 0 (demo_plic\<lparr>plic_pending := (\<lambda>_. 0)(0 := 0x400)\<rparr>)) = 10"
  by code_simp

lemma demo_plic_events: "\<exists>d. demo_plic_run = Some (d, [(0x0c200004, 10)])"
proof -
  let ?p = "demo_plic\<lparr>plic_pending := (\<lambda>_. 0)(0 := 0x400)\<rparr>"
  have "fst (plic_raise_source demo_config (int 10) (demo_plic, demo_machine)) = ?p"
    by (simp add: plic_raise_source_def demo_plic_def init_intr_def Let_def)
  then obtain s where s: "plic_raise_source demo_config (int 10) (demo_plic, demo_machine) = (?p, s)"
    by (metis prod.collapse)
  obtain q where q: "plic_claim 0 ?p = (10, q)" using demo_plic_claim by (metis prod.collapse)
  have "plic_io_regs 0x200004 False ?p = (plic_put 0x200004 10 q, True)"
    by (simp add: plic_io_regs_def plic_io_context_def q)
  moreover have "win_load (win_store32 b off 10) off 4 = 10" for b off
    unfolding win_store32_def win_load_store by simp
  ultimately have "\<exists>d. map_read snd 0x0c200004 4 (Some (plic_map demo_config)) (?p, s) = Inr (10, d)"
    by (simp add: map_read_def check_bound_def invoke_callback_def host_len_def plic_io_handler_def plic_map_def)
  then show ?thesis by (auto simp: demo_plic_run_def plic_step_def s [simplified])
qed

theorem plic_no_lost_interrupt_witness:
  "\<exists>p s l. demo_plic_run = Some ((p, s), l) \<and> l = [(0x0c200004, 10)] \<and>
     (bit (sr s CSR_MIP) 11 \<longleftrightarrow> plic_deliverable p 0 \<noteq> {}) \<and> (plic_is_pending p 10 \<or> plic_claimed_in 10 l)"
proof -
  obtain p s where d: "demo_plic_run = Some ((p, s), [(0x0c200004, 10)])" using demo_plic_events by auto
  from plic_no_lost_interrupt [OF d [unfolded demo_plic_run_def]]
  have "(bit (sr s CSR_MIP) 11 \<longleftrightarrow> plic_deliverable p 0 \<noteq> {}) \<and>
    (plic_is_pending p 10 \<or> plic_claimed_in 10 [(0x0c200004, 10)])"
    unfolding plic_claimed_in_def by simp
  with d show ?thesis by blast
qed

text \<open>Two sources of equal priority and a third of lower priority.\<close>

definition demo_claim :: plic_state where
  "demo_claim = init_intr\<lparr>plic_pending := (\<lambda>_. 0x700), plic_enable := (\<lambda>_ _. 0xffffffff),
     plic_priority := (\<lambda>i. if i = 8 then 2 else 5)\<rparr>"

theorem plic_claim_highest_witness:
  "fst (plic_claim 0 demo_claim) = 9 \<and> 9 \<in> plic_deliverable demo_claim 0"
proof -
  have 9: "fst (plic_claim 0 demo_claim) = 9" by code_simp
  then have "plic_claim 0 demo_claim = (9, snd (plic_claim 0 demo_claim))" by (metis prod.collapse)
  from plic_claim_highest [OF this] 9 show ?thesis by simp
qed

end
