(* ===== verification/Fifo.thy ===== *)
theory Fifo
  imports Prelude
begin

text \<open>
  The bounded queues of the devices: the contract their clients rely on, and the arithmetic of a
  ring buffer of \<open>N\<close> slots that holds at most \<open>N - 1\<close> items, which the code uses for all of them.
\<close>

section \<open>The contract\<close>

text \<open>A full queue drops what is pushed; a pop is only made on a queue that is not empty.\<close>

locale bounded_fifo =
  fixes inv :: "'s \<Rightarrow> bool"
    and items :: "'s \<Rightarrow> 'b list"
    and cap :: nat
    and push :: "'b \<Rightarrow> 's \<Rightarrow> 's"
    and pop :: "'s \<Rightarrow> 'b \<times> 's"
    and vacant :: "'s \<Rightarrow> bool"
  assumes push_inv: "inv s \<Longrightarrow> inv (push x s)"
    and push_items: "inv s \<Longrightarrow> length (items s) < cap \<Longrightarrow> items (push x s) = items s @ [x]"
    and push_full: "inv s \<Longrightarrow> \<not> length (items s) < cap \<Longrightarrow> push x s = s"
    and vacant_items: "inv s \<Longrightarrow> vacant s \<longleftrightarrow> items s = []"
    and pop_inv: "inv s \<Longrightarrow> \<not> vacant s \<Longrightarrow> inv (snd (pop s))"
    and pop_items: "inv s \<Longrightarrow> \<not> vacant s \<Longrightarrow> items s = fst (pop s) # items (snd (pop s))"
begin

lemma fold_push_inv: "inv s \<Longrightarrow> inv (fold push xs s)"
  by (induction xs arbitrary: s) (auto intro: push_inv)

text \<open>What fits is stored, in order.\<close>

lemma fold_push_items:
  "inv s \<Longrightarrow> length (items s) + length xs \<le> cap \<Longrightarrow> items (fold push xs s) = items s @ xs"
proof (induction xs arbitrary: s)
  case (Cons x xs)
  then show ?case by (simp add: push_inv push_items)
qed simp

lemma pop_cases:
  assumes "inv s" and "\<not> vacant s"
  obtains x t where "pop s = (x, t)" "inv t" "items s = x # items t"
  using assms pop_inv pop_items by (metis prod.collapse)

end

section \<open>Ring buffers\<close>

definition ring_items :: "nat \<Rightarrow> (nat \<Rightarrow> 'b) \<Rightarrow> nat \<Rightarrow> nat \<Rightarrow> 'b list" where
  "ring_items N buf h t = map (\<lambda>i. buf ((h + i) mod N)) [0..<(t + N - h) mod N]"

lemma ring_count:
  fixes h t N :: nat
  assumes "h < N" and "t < N"
  shows "(t + N - h) mod N = (if h \<le> t then t - h else t + N - h)"
proof (cases "h \<le> t")
  case True
  then have "t + N - h = t - h + N" by simp
  with True assms show ?thesis by (simp del: Nat.add_diff_assoc2 Nat.diff_add_assoc2)
qed (use assms in simp)

lemma ring_next: "(t :: nat) < N \<Longrightarrow> (t + 1) mod N = (if t + 1 = N then 0 else t + 1)"
  by auto

lemma length_ring_items:
  "h < N \<Longrightarrow> t < N \<Longrightarrow> length (ring_items N buf h t) = (if h \<le> t then t - h else t + N - h)"
  by (simp add: ring_items_def ring_count)

lemma ring_empty: "h < N \<Longrightarrow> t < N \<Longrightarrow> ring_items N buf h t = [] \<longleftrightarrow> h = t"
  using length_ring_items [of h N t buf] by (auto split: if_splits)

lemma ring_full: "h < N \<Longrightarrow> t < N \<Longrightarrow> (t + 1) mod N = h \<longleftrightarrow> \<not> length (ring_items N buf h t) < N - 1"
  using length_ring_items [of h N t buf] ring_next [of t N] by auto

lemma ring_push:
  assumes "h < N" and "t < N" and "(t + 1) mod N \<noteq> h"
  shows "ring_items N (buf(t := x)) h ((t + 1) mod N) = ring_items N buf h t @ [x]"
proof -
  let ?n = "(t + N - h) mod N"
  have t': "(t + 1) mod N < N" using assms(1) by simp
  have n: "((t + 1) mod N + N - h) mod N = Suc ?n"
    unfolding ring_count [OF assms(1,2)] ring_count [OF assms(1) t'] using assms ring_next [OF assms(2)]
    by (auto split: if_splits)
  have wrap: "(h + i) mod N = (if h + i < N then h + i else h + i - N)" if "i < N" for i
    using that assms(1) by (simp add: mod_if)
  have last: "(h + ?n) mod N = t"
    using assms(1,2) wrap [of ?n] unfolding ring_count [OF assms(1,2)] by (simp split: if_splits)
  have "(h + i) mod N \<noteq> t" if "i < ?n" for i
    using that assms(1,2) wrap [of i] unfolding ring_count [OF assms(1,2)]
    by (cases "h \<le> t"; cases "h + i < N") simp_all
  then show ?thesis unfolding ring_items_def n by (simp add: last)
qed

lemma ring_pop:
  assumes "h < N" and "t < N" and "h \<noteq> t"
  shows "ring_items N buf h t = buf h # ring_items N buf ((h + 1) mod N) t"
proof -
  have h': "(h + 1) mod N < N" using assms(1) by simp
  have n: "(t + N - h) mod N = Suc ((t + N - (h + 1) mod N) mod N)"
    unfolding ring_count [OF assms(1,2)] ring_count [OF h' assms(2)] using assms ring_next [OF assms(1)]
    by (auto split: if_splits)
  have "(h + Suc i) mod N = ((h + 1) mod N + i) mod N" for i by (simp add: mod_simps)
  then show ?thesis
    unfolding ring_items_def n upt_conv_Cons [OF zero_less_Suc] map_Suc_upt [symmetric]
    using assms(1) by (simp add: comp_def)
qed

end
