(* ===== verification/Uart.thy ===== *)
theory Uart
  imports Plic Fifo
begin

text \<open>
  The serial ports, \<^verbatim>\<open>src/device/serial.c\<close> in the builds with \<open>CONFIG_SERIAL_INPUT_FIFO\<close>: the
  receive ring filled from the host's standard input, the 16550 and LiteX register windows and the
  plain output port. Terminal set-up and the journal are left out. The host side is explicit:
  \<open>host_stdin\<close> is what the coming \<open>read\<close> calls find, one list per call (an empty one is a call that
  would block), and \<open>serial_out\<close> collects what \<open>serial_putc\<close> writes.
\<close>

unbundle bit_operations_syntax

abbreviation (input) SERIAL_RX_FIFO_SIZE :: nat where "SERIAL_RX_FIFO_SIZE \<equiv> 256"

abbreviation (input) UART_LCR_DLAB :: uint32_t where "UART_LCR_DLAB \<equiv> 0x80"

abbreviation (input) UART_MCR_LOOP :: uint32_t where "UART_MCR_LOOP \<equiv> 0x10"

abbreviation (input) UART_IER_RDI :: uint32_t where "UART_IER_RDI \<equiv> 1"

abbreviation (input) UART_IER_THRI :: uint32_t where "UART_IER_THRI \<equiv> 2"

text \<open>The Kconfig default of \<open>CONFIG_SERIAL_PLIC_IRQ\<close>.\<close>

abbreviation (input) UART_IRQ :: int where "UART_IRQ \<equiv> 10"

record uart_state =
  serial_rx_fifo :: "nat \<Rightarrow> uint8_t"
  serial_rx_head :: nat
  serial_rx_tail :: nat
  serial_lf_to_cr :: bool
  host_stdin :: "uint8_t list list"
  serial_out :: "uint8_t list"
  serial_base :: "nat \<Rightarrow> uint8_t"
  serial_us16550_base :: "nat \<Rightarrow> uint8_t"
  fcr :: uint32_t
  lcr :: uint32_t
  mcr :: uint32_t
  ier :: uint32_t
  scr :: uint32_t
  dll :: uint32_t
  dlm :: uint32_t
  tx_irq_pending :: bool
  litex_uart_space :: "nat \<Rightarrow> uint8_t"
  litex_uart_ev_pending :: uint32_t
  litex_uart_ev_enable :: uint32_t

type_synonym uart_world = "uart_state \<times> plic_state \<times> nemu"

section \<open>The receive ring\<close>

definition serial_rx_count :: "uart_state \<Rightarrow> nat" where
  "serial_rx_count u =
     (serial_rx_tail u + SERIAL_RX_FIFO_SIZE - serial_rx_head u) mod SERIAL_RX_FIFO_SIZE"

definition serial_rx_free :: "uart_state \<Rightarrow> nat" where
  "serial_rx_free u = SERIAL_RX_FIFO_SIZE - 1 - serial_rx_count u"

definition serial_rx_enqueue :: "uint8_t \<Rightarrow> uart_state \<Rightarrow> uart_state" where
  "serial_rx_enqueue ch u =
     (let nxt = (serial_rx_tail u + 1) mod SERIAL_RX_FIFO_SIZE in
      if nxt = serial_rx_head u then u
      else u\<lparr>serial_rx_fifo := (serial_rx_fifo u)(serial_rx_tail u := ch), serial_rx_tail := nxt\<rparr>)"

text \<open>\<open>None\<close> is the C value \<open>-1\<close>.\<close>

definition serial_rx_dequeue :: "uart_state \<Rightarrow> uint8_t option \<times> uart_state" where
  "serial_rx_dequeue u =
     (if serial_rx_head u = serial_rx_tail u then (None, u)
      else (Some (serial_rx_fifo u (serial_rx_head u)),
            u\<lparr>serial_rx_head := (serial_rx_head u + 1) mod SERIAL_RX_FIFO_SIZE\<rparr>))"

section \<open>Interrupts and output\<close>

definition serial_raise_irq :: "config \<Rightarrow> uart_world \<Rightarrow> uart_world" where
  "serial_raise_irq c = (\<lambda>(u, d). (u, plic_raise_source c UART_IRQ d))"

definition serial_update_irq :: "config \<Rightarrow> uart_world \<Rightarrow> uart_world" where
  "serial_update_irq c w =
     (let u = fst w;
          w1 = (if ier u AND UART_IER_RDI \<noteq> 0 \<and> 0 < serial_rx_count u then serial_raise_irq c w else w)
      in if ier u AND UART_IER_THRI \<noteq> 0 \<and> tx_irq_pending u then serial_raise_irq c w1 else w1)"

lemma fst_serial_update_irq [simp]: "fst (serial_update_irq c w) = fst w"
  by (simp add: serial_update_irq_def serial_raise_irq_def Let_def split: prod.split)

definition serial_putc :: "uint8_t \<Rightarrow> uart_state \<Rightarrow> uart_state" where
  "serial_putc ch u = u\<lparr>serial_out := serial_out u @ [ch]\<rparr>"

section \<open>Polling the host\<close>

definition serial_map_byte :: "uart_state \<Rightarrow> uint8_t \<Rightarrow> uint8_t" where
  "serial_map_byte u b = (if serial_lf_to_cr u \<and> b = 0x0a then 0x0d else b)"

text \<open>One \<open>read\<close> of at most \<open>max_read\<close> bytes: what it returns and what is left for later calls.\<close>

definition host_read_stdin :: "nat \<Rightarrow> uint8_t list list \<Rightarrow> uint8_t list \<times> uint8_t list list" where
  "host_read_stdin max_read reads =
     (case reads of
        [] \<Rightarrow> ([], [])
      | r # rs \<Rightarrow> (take max_read r, if drop max_read r = [] then rs else drop max_read r # rs))"

definition stdin_size :: "uint8_t list list \<Rightarrow> nat" where
  "stdin_size reads = length (concat reads) + length reads"

lemma host_read_stdin_size:
  assumes "host_read_stdin n reads = (got, rest)" and "got \<noteq> []"
  shows "stdin_size rest < stdin_size reads"
  using assms by (cases reads; cases n) (auto simp: host_read_stdin_def stdin_size_def split: if_splits)

function serial_poll_stdin :: "config \<Rightarrow> uart_world \<Rightarrow> uart_world" where
  "serial_poll_stdin c (u, d) =
     (if serial_rx_free u = 0 then (u, d)
      else let (got, rest) = host_read_stdin (min (serial_rx_free u) 64) (host_stdin u);
               u1 = u\<lparr>host_stdin := rest\<rparr>
           in if got = [] then (u1, d)
              else serial_poll_stdin c
                     (serial_update_irq c (fold serial_rx_enqueue (map (serial_map_byte u) got) u1, d)))"
  by pat_completeness auto

lemma fold_enqueue_stdin [simp]: "host_stdin (fold serial_rx_enqueue bs u) = host_stdin u"
  by (induction bs arbitrary: u) (simp_all add: serial_rx_enqueue_def Let_def)

termination serial_poll_stdin
proof (relation "measure (\<lambda>(c, w). stdin_size (host_stdin (fst w)))")
  fix c :: config and u :: uart_state and d x got rest u1
  assume "x = host_read_stdin (min (serial_rx_free u) 64) (host_stdin u)" "(got, rest) = x"
    "u1 = u\<lparr>host_stdin := rest\<rparr>" "got \<noteq> []"
  then show "((c, serial_update_irq c (fold serial_rx_enqueue (map (serial_map_byte u) got) u1, d)), c, u, d)
      \<in> measure (\<lambda>(c, w). stdin_size (host_stdin (fst w)))"
    using host_read_stdin_size [of "min (serial_rx_free u) 64" "host_stdin u" got rest] by simp
qed simp

section \<open>The 16550 window\<close>

text \<open>The registers the handler touches; it ends by storing the value back into the window.\<close>

definition uart_tx_write :: "config \<Rightarrow> uint32_t \<Rightarrow> uart_world \<Rightarrow> uart_world" where
  "uart_tx_write c val = (\<lambda>(u, d).
     if lcr u AND UART_LCR_DLAB \<noteq> 0 then (u\<lparr>dll := val\<rparr>, d)
     else if mcr u AND UART_MCR_LOOP \<noteq> 0 then (u, d)
     else serial_update_irq c ((serial_putc (ucast val) u)\<lparr>tx_irq_pending := True\<rparr>, d))"

definition uart_rx_read :: "config \<Rightarrow> uart_world \<Rightarrow> uint32_t \<times> uart_world" where
  "uart_rx_read c w =
     (if lcr (fst w) AND UART_LCR_DLAB \<noteq> 0 then (dll (fst w), w)
      else let (u, d) = serial_poll_stdin c w; (ch, u') = serial_rx_dequeue u
           in (case ch of Some b \<Rightarrow> ucast b | None \<Rightarrow> 0, u', d))"

definition uart_ier_write :: "config \<Rightarrow> uint32_t \<Rightarrow> uart_world \<Rightarrow> uart_world" where
  "uart_ier_write c val = (\<lambda>(u, d).
     if lcr u AND UART_LCR_DLAB = 0 then serial_update_irq c (u\<lparr>ier := val AND 0x0f\<rparr>, d)
     else (u\<lparr>dlm := val\<rparr>, d))"

definition uart_iir_read :: "config \<Rightarrow> uart_world \<Rightarrow> uint32_t \<times> uart_world" where
  "uart_iir_read c w =
     (let iir_type = (if fcr (fst w) AND 1 \<noteq> 0 then 0xc0 else 0); (u, d) = serial_poll_stdin c w in
      if ier u AND UART_IER_RDI \<noteq> 0 \<and> 0 < serial_rx_count u then (0x04 OR iir_type, u, d)
      else if ier u AND UART_IER_THRI \<noteq> 0 \<and> tx_irq_pending u
      then (0x02 OR iir_type, u\<lparr>tx_irq_pending := False\<rparr>, d)
      else (0x01 OR iir_type, u, d))"

definition uart_lsr_read :: "config \<Rightarrow> uart_world \<Rightarrow> uint32_t \<times> uart_world" where
  "uart_lsr_read c w =
     (let (u, d) = serial_poll_stdin c w
      in (if 0 < serial_rx_count u then 0x61 else 0x60, u, d))"

definition uart_reg :: "config \<Rightarrow> nat \<Rightarrow> bool \<Rightarrow> uint32_t \<Rightarrow> uart_world \<Rightarrow> uint32_t \<times> uart_world" where
  "uart_reg c offset is_write val w =
     (let u = fst w; d = snd w in
      if offset = 0 then if is_write then (val, uart_tx_write c val w) else uart_rx_read c w
      else if offset = 1 then
        if is_write then (val, uart_ier_write c val w)
        else (if lcr u AND UART_LCR_DLAB \<noteq> 0 then dlm u else ier u, w)
      else if offset = 2 then if is_write then (val, u\<lparr>fcr := val\<rparr>, d) else uart_iir_read c w
      else if offset = 3 then (val, if is_write then (u\<lparr>lcr := val\<rparr>, d) else w)
      else if offset = 4 then (val, if is_write then (u\<lparr>mcr := val\<rparr>, d) else w)
      else if offset = 5 then if is_write then (val, w) else uart_lsr_read c w
      else if offset = 6 then (if is_write then val else 0xb0, w)
      else if offset = 7 then (val, if is_write then (u\<lparr>scr := val\<rparr>, d) else w)
      else (val, w))"

definition serial_io_handler_ns16550 :: "config \<Rightarrow> uart_world io_callback" where
  "serial_io_handler_ns16550 c offset len is_write w =
     (let (val, (u, d)) = uart_reg c offset is_write (ucast (serial_us16550_base (fst w) offset)) w
      in Some (u\<lparr>serial_us16550_base := (serial_us16550_base u)(offset := ucast val)\<rparr>, d))"

section \<open>The plain output port\<close>

definition serial_io_handler :: "uart_world io_callback" where
  "serial_io_handler offset len is_write = (\<lambda>(u, d).
     if len \<noteq> 1 then None
     else if offset = 0 then if is_write then Some (serial_putc (serial_base u 0) u, d) else None
     else if offset = 1 \<or> offset = 3 \<or> offset = 5
     then Some (if is_write then u else u\<lparr>serial_base := (serial_base u)(5 := 0x20)\<rparr>, d)
     else None)"

section \<open>The LiteX window\<close>

definition litex_uart_write :: "nat \<Rightarrow> uart_state \<Rightarrow> uart_state" where
  "litex_uart_write reg u =
     (let val = win_load32 (litex_uart_space u) reg in
      if reg = 0 then serial_putc (ucast val) u
      else if reg = 0x10 then u\<lparr>litex_uart_ev_pending := litex_uart_ev_pending u AND NOT val\<rparr>
      else if reg = 0x14 then u\<lparr>litex_uart_ev_enable := val\<rparr>
      else u)"

definition litex_uart_read :: "config \<Rightarrow> nat \<Rightarrow> uart_world \<Rightarrow> uint32_t \<times> uart_world" where
  "litex_uart_read c reg w =
     (if reg = 0 then
        (let (u, d) = serial_poll_stdin c w; (ch, u') = serial_rx_dequeue u
         in (case ch of Some b \<Rightarrow> ucast b | None \<Rightarrow> 0, u', d))
      else if reg = 8 then
        (let (u, d) = serial_poll_stdin c w in (if 0 < serial_rx_count u then 0 else 1, u, d))
      else if reg = 0xc then
        (let (u, d) = serial_poll_stdin c w in ((if 0 < serial_rx_count u then 2 else 0) OR 1, u, d))
      else if reg = 0x10 then (litex_uart_ev_pending (fst w), w)
      else if reg = 0x14 then (litex_uart_ev_enable (fst w), w)
      else (0, w))"

definition litex_uart_io_handler :: "config \<Rightarrow> uart_world io_callback" where
  "litex_uart_io_handler c offset len is_write w =
     (let reg = 4 * (offset div 4) in
      if is_write then Some (litex_uart_write reg (fst w), snd w)
      else let (val, (u, d)) = litex_uart_read c reg w
           in Some (u\<lparr>litex_uart_space := win_store32 (litex_uart_space u) reg val\<rparr>, d))"

section \<open>Reset and checkpoint tests\<close>

definition init_serial :: "bool \<Rightarrow> uint8_t list list \<Rightarrow> uart_state" where
  "init_serial lf reads = \<lparr>serial_rx_fifo = (\<lambda>_. 0), serial_rx_head = 0, serial_rx_tail = 0,
     serial_lf_to_cr = lf, host_stdin = reads, serial_out = [], serial_base = (\<lambda>_. 0),
     serial_us16550_base = (\<lambda>_. 0)(2 := 0x01, 5 := 0x60, 6 := 0xb0, 4 := 0x08),
     fcr = 0, lcr = 0, mcr = 0, ier = 0, scr = 0, dll = 0, dlm = 0, tx_irq_pending = False,
     litex_uart_space = (\<lambda>_. 0), litex_uart_ev_pending = 0, litex_uart_ev_enable = 0\<rparr>"

definition nemu_uart_reset_state :: "uart_state \<Rightarrow> bool" where
  "nemu_uart_reset_state u \<longleftrightarrow>
     map (serial_us16550_base u) [0..<8] = [0, 0, 1, 0, 8, 0x60, 0xb0, 0] \<and>
     fcr u = 0 \<and> lcr u = 0 \<and> mcr u = 0 \<and> ier u = 0 \<and> scr u = 0 \<and> dll u = 0 \<and> dlm u = 0 \<and>
     \<not> tx_irq_pending u \<and> serial_rx_count u = 0"

end
