(* ===== verification/Uart_Correct.thy ===== *)
theory Uart_Correct
  imports Uart Demo
begin

text \<open>
  The serial input path: the receive ring meets the contract of a bounded queue, a poll takes from
  the host no more than fits, and so every byte typed reaches the guest once and in order through
  either register window.
\<close>

unbundle bit_operations_syntax

section \<open>The receive ring as a queue\<close>

definition rx_inv :: "uart_state \<Rightarrow> bool" where
  "rx_inv u \<longleftrightarrow> serial_rx_head u < SERIAL_RX_FIFO_SIZE \<and> serial_rx_tail u < SERIAL_RX_FIFO_SIZE"

definition rx_items :: "uart_state \<Rightarrow> uint8_t list" where
  "rx_items u = ring_items SERIAL_RX_FIFO_SIZE (serial_rx_fifo u) (serial_rx_head u) (serial_rx_tail u)"

definition rx_pop :: "uart_state \<Rightarrow> uint8_t \<times> uart_state" where
  "rx_pop u = (the (fst (serial_rx_dequeue u)), snd (serial_rx_dequeue u))"

definition rx_vacant :: "uart_state \<Rightarrow> bool" where
  "rx_vacant u \<longleftrightarrow> fst (serial_rx_dequeue u) = None"

lemma rx_count: "rx_inv u \<Longrightarrow> serial_rx_count u = length (rx_items u)"
  by (simp add: rx_inv_def rx_items_def serial_rx_count_def ring_items_def)

lemma rx_full:
  "rx_inv u \<Longrightarrow> (serial_rx_tail u + 1) mod 256 = serial_rx_head u \<longleftrightarrow> \<not> length (rx_items u) < 255"
  using ring_full [of "serial_rx_head u" 256 "serial_rx_tail u" "serial_rx_fifo u"]
  by (simp add: rx_inv_def rx_items_def)

interpretation rx: bounded_fifo rx_inv rx_items 255 serial_rx_enqueue rx_pop rx_vacant
proof
  fix u x
  assume u: "rx_inv u"
  then show "rx_inv (serial_rx_enqueue x u)"
    by (simp add: rx_inv_def serial_rx_enqueue_def Let_def)
  show "rx_items (serial_rx_enqueue x u) = rx_items u @ [x]" if "length (rx_items u) < 255"
    using that rx_full [OF u] u ring_push [of "serial_rx_head u" 256 "serial_rx_tail u" "serial_rx_fifo u" x]
    by (simp add: rx_inv_def rx_items_def serial_rx_enqueue_def Let_def)
  show "serial_rx_enqueue x u = u" if "\<not> length (rx_items u) < 255"
    using that rx_full [OF u] by (simp add: serial_rx_enqueue_def)
  show "rx_vacant u \<longleftrightarrow> rx_items u = []"
    using u ring_empty [of "serial_rx_head u" 256 "serial_rx_tail u" "serial_rx_fifo u"]
    by (auto simp: rx_inv_def rx_vacant_def rx_items_def serial_rx_dequeue_def)
  assume "\<not> rx_vacant u"
  then show "rx_inv (snd (rx_pop u))" and "rx_items u = fst (rx_pop u) # rx_items (snd (rx_pop u))"
    using u ring_pop [of "serial_rx_head u" 256 "serial_rx_tail u" "serial_rx_fifo u"]
    by (auto simp: rx_inv_def rx_vacant_def rx_items_def rx_pop_def serial_rx_dequeue_def)
qed

section \<open>Polling\<close>

text \<open>The input the guest has still to see: what is queued, then what the host has still to deliver.\<close>

definition uart_stream :: "uart_state \<Rightarrow> uint8_t list" where
  "uart_stream u = rx_items u @ map (serial_map_byte u) (concat (host_stdin u))"

text \<open>Whether a poll leaves a byte in the ring.\<close>

definition uart_ready :: "uart_state \<Rightarrow> bool" where
  "uart_ready u \<longleftrightarrow> rx_items u \<noteq> [] \<or> (\<exists>b r rs. host_stdin u = (b # r) # rs)"

lemma enqueue_frame:
  "serial_lf_to_cr (fold serial_rx_enqueue bs u) = serial_lf_to_cr u"
  "serial_us16550_base (fold serial_rx_enqueue bs u) = serial_us16550_base u"
  "litex_uart_space (fold serial_rx_enqueue bs u) = litex_uart_space u"
  "lcr (fold serial_rx_enqueue bs u) = lcr u"
  by (induction bs arbitrary: u) (simp_all add: serial_rx_enqueue_def Let_def)

lemma host_read_concat:
  "host_read_stdin n reads = (got, rest) \<Longrightarrow> got @ concat rest = concat reads"
  by (auto simp: host_read_stdin_def simp flip: append_assoc split: list.splits if_splits)

lemma rx_inv_stdin [simp]: "rx_inv (u\<lparr>host_stdin := r\<rparr>) = rx_inv u"
  "rx_items (u\<lparr>host_stdin := r\<rparr>) = rx_items u"
  by (simp_all add: rx_inv_def rx_items_def)

definition uart_polled :: "uart_state \<Rightarrow> uart_state \<Rightarrow> bool" where
  "uart_polled u u' \<longleftrightarrow> rx_inv u' \<and> uart_stream u' = uart_stream u \<and> serial_lf_to_cr u' = serial_lf_to_cr u \<and>
     lcr u' = lcr u \<and> serial_us16550_base u' = serial_us16550_base u \<and>
     litex_uart_space u' = litex_uart_space u \<and> (rx_items u' \<noteq> [] \<longleftrightarrow> uart_ready u)"

text \<open>One read: what it takes is queued whole, because the free space bounds it.\<close>

lemma uart_read_polled:
  assumes "rx_inv u" and "host_read_stdin (min (serial_rx_free u) 64) (host_stdin u) = (got, rest)"
    and "serial_rx_free u \<noteq> 0"
  shows "rx_inv (fold serial_rx_enqueue (map (serial_map_byte u) got) (u\<lparr>host_stdin := rest\<rparr>))"
    and "rx_items (fold serial_rx_enqueue (map (serial_map_byte u) got) (u\<lparr>host_stdin := rest\<rparr>)) =
      rx_items u @ map (serial_map_byte u) got"
    and "uart_stream (fold serial_rx_enqueue (map (serial_map_byte u) got) (u\<lparr>host_stdin := rest\<rparr>)) =
      uart_stream u"
    and "got \<noteq> [] \<longleftrightarrow> (\<exists>b r rs. host_stdin u = (b # r) # rs)"
proof -
  have "length got \<le> serial_rx_free u"
    using assms(2) by (auto simp: host_read_stdin_def split: list.splits)
  then have fits: "length (rx_items (u\<lparr>host_stdin := rest\<rparr>)) + length (map (serial_map_byte u) got) \<le> 255"
    using rx_count [OF assms(1)] assms(3) by (simp add: serial_rx_free_def)
  have m: "serial_map_byte (fold serial_rx_enqueue (map (serial_map_byte u) got) (u\<lparr>host_stdin := rest\<rparr>)) =
      serial_map_byte u"
    by (simp add: serial_map_byte_def fun_eq_iff enqueue_frame)
  show "rx_inv (fold serial_rx_enqueue (map (serial_map_byte u) got) (u\<lparr>host_stdin := rest\<rparr>))"
    using assms(1) by (simp add: rx.fold_push_inv)
  show items: "rx_items (fold serial_rx_enqueue (map (serial_map_byte u) got) (u\<lparr>host_stdin := rest\<rparr>)) =
      rx_items u @ map (serial_map_byte u) got"
    using rx.fold_push_items [OF _ fits] assms(1) by simp
  show "uart_stream (fold serial_rx_enqueue (map (serial_map_byte u) got) (u\<lparr>host_stdin := rest\<rparr>)) = uart_stream u"
    unfolding uart_stream_def items by (simp add: enqueue_frame m flip: host_read_concat [OF assms(2)])
  show "got \<noteq> [] \<longleftrightarrow> (\<exists>b r rs. host_stdin u = (b # r) # rs)"
  proof (cases "host_stdin u")
    case (Cons x xs)
    then have "got = [] \<longleftrightarrow> x = []" using assms(2,3) by (auto simp: host_read_stdin_def)
    with Cons show ?thesis by (cases x) simp_all
  qed (use assms(2) in \<open>simp add: host_read_stdin_def\<close>)
qed

lemma serial_poll_polled:
  "rx_inv (fst w) \<Longrightarrow> uart_polled (fst w) (fst (serial_poll_stdin c w))"
proof (induction c w rule: serial_poll_stdin.induct)
  case (1 c u d)
  obtain got rest where r: "host_read_stdin (min (serial_rx_free u) 64) (host_stdin u) = (got, rest)" by fastforce
  let ?u1 = "u\<lparr>host_stdin := rest\<rparr>"
  let ?u2 = "fold serial_rx_enqueue (map (serial_map_byte u) got) ?u1"
  have inv: "rx_inv u" using 1(2) by simp
  show ?case
  proof (cases "serial_rx_free u = 0")
    case True
    then have "rx_items u \<noteq> []" using rx_count [OF inv] by (auto simp: serial_rx_free_def)
    with True inv show ?thesis by (simp add: uart_polled_def uart_ready_def)
  next
    case free: False
    note rd = uart_read_polled [OF inv r free]
    show ?thesis
    proof (cases "got = []")
      case True
      then show ?thesis
        using free inv r rd by (simp add: uart_polled_def uart_ready_def)
    next
      case False
      have "uart_polled ?u2 (fst (serial_poll_stdin c (serial_update_irq c (?u2, d))))"
        using 1(1) [OF free r [symmetric] refl refl False] rd(1) by simp
      moreover have "uart_ready ?u2" "uart_ready u" using rd(2,4) False by (simp_all add: uart_ready_def)
      moreover have "serial_poll_stdin c (u, d) = serial_poll_stdin c (serial_update_irq c (?u2, d))"
        using free False r by simp
      ultimately show ?thesis
        using rd(3) by (simp add: uart_polled_def enqueue_frame del: serial_poll_stdin.simps)
    qed
  qed
qed

section \<open>Accesses\<close>

text \<open>A guest access to one of the two windows; a store carries what it puts into the window.\<close>

datatype uart_access =
    Uart_16550 nat "uint8_t option"
  | Uart_litex nat "uint32_t option"

definition uart_access :: "config \<Rightarrow> uart_access \<Rightarrow> uart_world \<Rightarrow> uart_world option" where
  "uart_access c a w =
     (let (u, d) = w in
      case a of
        Uart_16550 off None \<Rightarrow> serial_io_handler_ns16550 c off 1 False w
      | Uart_16550 off (Some b) \<Rightarrow>
          serial_io_handler_ns16550 c off 1 True
            (u\<lparr>serial_us16550_base := (serial_us16550_base u)(off := b)\<rparr>, d)
      | Uart_litex off None \<Rightarrow> litex_uart_io_handler c off 4 False w
      | Uart_litex off (Some v) \<Rightarrow>
          litex_uart_io_handler c off 4 True
            (u\<lparr>litex_uart_space := win_store32 (litex_uart_space u) off v\<rparr>, d))"

text \<open>A load of received data, and the byte the window then shows.\<close>

definition uart_data_load :: "uart_state \<Rightarrow> uart_access \<Rightarrow> bool" where
  "uart_data_load u a \<longleftrightarrow>
     (case a of Uart_16550 off v \<Rightarrow> off = 0 \<and> v = None \<and> lcr u AND UART_LCR_DLAB = 0
              | Uart_litex off v \<Rightarrow> off div 4 = 0 \<and> v = None)"

definition uart_shown :: "uart_state \<Rightarrow> uart_access \<Rightarrow> uint8_t" where
  "uart_shown u a = (case a of Uart_16550 off _ \<Rightarrow> serial_us16550_base u 0 | Uart_litex off _ \<Rightarrow> litex_uart_space u 0)"

lemma uart_stream_cong:
  assumes "serial_rx_head u' = serial_rx_head u" "serial_rx_tail u' = serial_rx_tail u"
    "serial_rx_fifo u' = serial_rx_fifo u" "host_stdin u' = host_stdin u"
    "serial_lf_to_cr u' = serial_lf_to_cr u"
  shows "uart_stream u' = uart_stream u"
  using assms by (simp add: uart_stream_def rx_items_def serial_map_byte_def cong: map_cong)

text \<open>What an access makes of the input: \<open>bs\<close> is what it hands to the guest.\<close>

definition uart_took :: "uart_state \<Rightarrow> uint8_t list \<Rightarrow> uart_state \<Rightarrow> bool" where
  "uart_took u bs u' \<longleftrightarrow> rx_inv u' \<and> uart_stream u = bs @ uart_stream u' \<and>
     serial_lf_to_cr u' = serial_lf_to_cr u"

lemma uart_took_update:
  assumes "uart_took u bs u1" and "serial_rx_head u' = serial_rx_head u1"
    "serial_rx_tail u' = serial_rx_tail u1" "serial_rx_fifo u' = serial_rx_fifo u1"
    "host_stdin u' = host_stdin u1" "serial_lf_to_cr u' = serial_lf_to_cr u1"
  shows "uart_took u bs u'"
  using assms uart_stream_cong [OF assms(2-6)] by (simp add: uart_took_def rx_inv_def)

lemma uart_took_refl: "rx_inv u \<Longrightarrow> uart_took u [] u"
  by (simp add: uart_took_def)

lemma uart_took_poll: "rx_inv u \<Longrightarrow> serial_poll_stdin c (u, d) = (u', d') \<Longrightarrow> uart_took u [] u'"
  using serial_poll_polled [of "(u, d)" c] by (simp add: uart_polled_def uart_took_def del: serial_poll_stdin.simps)

lemma uart_took_data:
  assumes "rx_inv u" and "serial_poll_stdin c (u, d) = (u1, d')" and "serial_rx_dequeue u1 = (ch, u2)"
  shows "case ch of None \<Rightarrow> \<not> uart_ready u \<and> uart_took u [] u2 | Some b \<Rightarrow> uart_ready u \<and> uart_took u [b] u2"
proof -
  have p: "uart_polled u u1" using serial_poll_polled [of "(u, d)" c] assms(1,2) by (simp del: serial_poll_stdin.simps)
  then have inv: "rx_inv u1" by (simp add: uart_polled_def)
  have lf: "serial_lf_to_cr u2 = serial_lf_to_cr u1" "host_stdin u2 = host_stdin u1"
    using assms(3) by (auto simp: serial_rx_dequeue_def split: if_splits)
  then have m: "serial_map_byte u2 = serial_map_byte u1" by (simp add: serial_map_byte_def fun_eq_iff)
  show ?thesis
  proof (cases "rx_vacant u1")
    case True
    then have "ch = None" "u2 = u1" using assms(3) by (auto simp: rx_vacant_def serial_rx_dequeue_def split: if_splits)
    moreover have "\<not> uart_ready u" using True p rx.vacant_items [OF inv] by (simp add: uart_polled_def)
    ultimately show ?thesis using uart_took_poll [OF assms(1,2)] by simp
  next
    case False
    then obtain b where b: "ch = Some b" using assms(3) by (auto simp: rx_vacant_def)
    then have "rx_pop u1 = (b, u2)" using assms(3) by (simp add: rx_pop_def)
    then have "rx_inv u2" "rx_items u1 = b # rx_items u2"
      using rx.pop_inv [OF inv False] rx.pop_items [OF inv False] by simp_all
    moreover have "uart_ready u" using False p rx.vacant_items [OF inv] by (simp add: uart_polled_def)
    ultimately show ?thesis
      using p lf m by (simp add: b uart_took_def uart_polled_def uart_stream_def)
  qed
qed

lemma ucast_byte: "ucast (ucast b :: uint32_t) = (b :: uint8_t)"
  by (rule bit_word_eqI) (auto simp: bit_simps)

lemma uart_writes_took:
  assumes "rx_inv u"
  shows "uart_took u [] (fst (uart_tx_write c v (u, d)))" "uart_took u [] (fst (uart_ier_write c v (u, d)))"
    "uart_took u [] (litex_uart_write reg u)"
  by (auto simp: uart_tx_write_def uart_ier_write_def litex_uart_write_def serial_putc_def Let_def
      intro: uart_took_update [OF uart_took_refl [OF assms]])

lemma uart_reads_took:
  assumes "rx_inv u"
  shows "uart_took u [] (fst (snd (uart_iir_read c (u, d))))" "uart_took u [] (fst (snd (uart_lsr_read c (u, d))))"
    "reg \<noteq> 0 \<Longrightarrow> uart_took u [] (fst (snd (litex_uart_read c reg (u, d))))"
proof -
  obtain u' d' where p: "serial_poll_stdin c (u, d) = (u', d')" by (metis prod.exhaust)
  note took = uart_took_poll [OF assms p]
  show "uart_took u [] (fst (snd (uart_iir_read c (u, d))))" "uart_took u [] (fst (snd (uart_lsr_read c (u, d))))"
    "reg \<noteq> 0 \<Longrightarrow> uart_took u [] (fst (snd (litex_uart_read c reg (u, d))))"
    using took uart_took_refl [OF assms]
    by (auto simp: uart_iir_read_def uart_lsr_read_def litex_uart_read_def p intro: uart_took_update [OF took]
        simp del: serial_poll_stdin.simps)
qed

lemma uart_rx_took:
  assumes "rx_inv u" and "lcr u AND UART_LCR_DLAB = 0" and "uart_rx_read c (u, d) = (v, (u', d'))"
  shows "uart_took u (if uart_ready u then [ucast v] else []) u'" and "\<not> uart_ready u \<Longrightarrow> v = 0"
proof -
  obtain u1 d1 ch u2 where p: "serial_poll_stdin c (u, d) = (u1, d1)" and q: "serial_rx_dequeue u1 = (ch, u2)"
    by (metis prod.exhaust)
  have v: "v = (case ch of Some b \<Rightarrow> ucast b | None \<Rightarrow> 0)" "u' = u2"
    using assms(2,3) by (auto simp: uart_rx_read_def p q simp del: serial_poll_stdin.simps)
  have "uart_took u (if uart_ready u then [ucast v] else []) u' \<and> (\<not> uart_ready u \<longrightarrow> v = 0)"
    using uart_took_data [OF assms(1) p q] by (cases ch) (simp_all add: v ucast_byte)
  then show "uart_took u (if uart_ready u then [ucast v] else []) u'" and "\<not> uart_ready u \<Longrightarrow> v = 0"
    by simp_all
qed

lemma uart_reg_took:
  assumes "rx_inv u" and "uart_reg c off w val (u, d) = (v, (u', d'))"
  shows "uart_took u (if off = 0 \<and> \<not> w \<and> lcr u AND UART_LCR_DLAB = 0 \<and> uart_ready u then [ucast v] else []) u'"
    and "off = 0 \<Longrightarrow> \<not> w \<Longrightarrow> lcr u AND UART_LCR_DLAB = 0 \<Longrightarrow> \<not> uart_ready u \<Longrightarrow> v = 0"
proof -
  note W = uart_writes_took [OF assms(1)] uart_reads_took [OF assms(1), where c = c and d = d] uart_took_refl [OF assms(1)]
  have fields: "uart_took u [] (u\<lparr>fcr := x\<rparr>)" "uart_took u [] (u\<lparr>lcr := x\<rparr>)"
    "uart_took u [] (u\<lparr>mcr := x\<rparr>)" "uart_took u [] (u\<lparr>scr := x\<rparr>)" for x
    by (simp_all add: uart_took_update [OF uart_took_refl [OF assms(1)]])
  have dlab: "uart_rx_read c (u, d) = (dll u, (u, d))" if "lcr u AND UART_LCR_DLAB \<noteq> 0"
    using that by (simp add: uart_rx_read_def)
  have "uart_took u (if off = 0 \<and> \<not> w \<and> lcr u AND UART_LCR_DLAB = 0 \<and> uart_ready u then [ucast v] else []) u' \<and>
      (off = 0 \<longrightarrow> \<not> w \<longrightarrow> lcr u AND UART_LCR_DLAB = 0 \<longrightarrow> \<not> uart_ready u \<longrightarrow> v = 0)"
  proof (cases "off = 0 \<and> \<not> w \<and> lcr u AND UART_LCR_DLAB = 0")
    case True
    then have "uart_rx_read c (u, d) = (v, (u', d'))" using assms(2) by (simp add: uart_reg_def)
    with True uart_rx_took [OF assms(1)] show ?thesis by simp
  next
    case False
    have "uart_took u [] u'"
    proof (cases "off = 0 \<and> \<not> w")
      case True
      with False dlab assms show ?thesis by (auto simp: uart_reg_def uart_took_def)
    next
      case False
      then have "uart_took u [] (fst (snd (uart_reg c off w val (u, d))))"
        unfolding uart_reg_def Let_def by (cases "off = 0") (simp_all add: W fields)
      with assms(2) show ?thesis by simp
    qed
    with False show ?thesis by auto
  qed
  then show "uart_took u (if off = 0 \<and> \<not> w \<and> lcr u AND UART_LCR_DLAB = 0 \<and> uart_ready u then [ucast v] else []) u'"
    and "off = 0 \<Longrightarrow> \<not> w \<Longrightarrow> lcr u AND UART_LCR_DLAB = 0 \<Longrightarrow> \<not> uart_ready u \<Longrightarrow> v = 0"
    by simp_all
qed

lemma uart_access_took:
  assumes "rx_inv (fst w)" and "uart_access c a w = Some w'"
  shows "uart_took (fst w) (if uart_data_load (fst w) a \<and> uart_ready (fst w) then [uart_shown (fst w') a] else [])
      (fst w')"
    and "uart_data_load (fst w) a \<Longrightarrow> \<not> uart_ready (fst w) \<Longrightarrow> uart_shown (fst w') a = 0"
proof -
  obtain u d where w: "w = (u, d)" by (rule prod.exhaust)
  have inv: "rx_inv u" using assms(1) by (simp add: w)
  have "uart_took u (if uart_data_load u a \<and> uart_ready u then [uart_shown (fst w') a] else []) (fst w') \<and>
      (uart_data_load u a \<longrightarrow> \<not> uart_ready u \<longrightarrow> uart_shown (fst w') a = 0)"
  proof (cases a)
    case (Uart_16550 off x)
    let ?u = "case x of None \<Rightarrow> u | Some b \<Rightarrow> u\<lparr>serial_us16550_base := (serial_us16550_base u)(off := b)\<rparr>"
    have u: "rx_inv ?u" "uart_stream ?u = uart_stream u" "uart_ready ?u = uart_ready u" "lcr ?u = lcr u"
        "serial_lf_to_cr ?u = serial_lf_to_cr u"
      using inv uart_stream_cong [of ?u u]
      by (simp_all add: rx_inv_def uart_ready_def rx_items_def split: option.splits)
    obtain v u' d' where r: "uart_reg c off (x \<noteq> None) (ucast (serial_us16550_base ?u off)) (?u, d) = (v, (u', d'))"
      by (metis prod.exhaust)
    have w': "fst w' = u'\<lparr>serial_us16550_base := (serial_us16550_base u')(off := ucast v)\<rparr>"
      using assms(2) r
      by (auto simp: uart_access_def w Uart_16550 serial_io_handler_ns16550_def Let_def split: option.splits)
    show ?thesis
      using uart_reg_took [OF u(1) r] u
        uart_took_update [of u _ u' "fst w'"]
      by (auto simp: Uart_16550 uart_data_load_def uart_shown_def w' uart_took_def intro: uart_took_update)
  next
    case (Uart_litex off x)
    let ?reg = "4 * (off div 4)"
    show ?thesis
    proof (cases x)
      case (Some v)
      let ?u = "u\<lparr>litex_uart_space := win_store32 (litex_uart_space u) off v\<rparr>"
      have "rx_inv ?u" "uart_stream ?u = uart_stream u" using inv uart_stream_cong [of ?u u] by (simp_all add: rx_inv_def)
      moreover have "fst w' = litex_uart_write ?reg ?u"
        using assms(2) by (auto simp: uart_access_def w Uart_litex Some litex_uart_io_handler_def Let_def)
      ultimately show ?thesis
        using uart_writes_took(3) [of ?u ?reg] by (simp add: Uart_litex Some uart_data_load_def uart_took_def)
    next
      case None
      obtain v u' d' where r: "litex_uart_read c ?reg (u, d) = (v, (u', d'))" by (metis prod.exhaust)
      have w': "fst w' = u'\<lparr>litex_uart_space := win_store32 (litex_uart_space u') ?reg v\<rparr>"
        using assms(2) r
        by (auto simp: uart_access_def w Uart_litex None litex_uart_io_handler_def Let_def)
      show ?thesis
      proof (cases "?reg = 0")
        case True
        obtain u1 d1 ch u2 where p: "serial_poll_stdin c (u, d) = (u1, d1)" and q: "serial_rx_dequeue u1 = (ch, u2)"
          by (metis prod.exhaust)
        have v: "v = (case ch of Some b \<Rightarrow> ucast b | None \<Rightarrow> 0)" "u' = u2"
          using r True by (auto simp: litex_uart_read_def p q simp del: serial_poll_stdin.simps)
        have s: "litex_uart_space (fst w') 0 = ucast v" using True by (simp add: w' win_store32_first)
        have "case ch of None \<Rightarrow> \<not> uart_ready u \<and> uart_took u [] (fst w')
            | Some b \<Rightarrow> uart_ready u \<and> uart_took u [b] (fst w')"
          using uart_took_data [OF inv p q] by (auto simp: w' v(2) split: option.splits intro: uart_took_update)
        with True show ?thesis
          by (cases ch) (simp_all add: Uart_litex None uart_data_load_def uart_shown_def s v(1) ucast_byte)
      next
        case False
        have "uart_took u [] u'" using uart_reads_took(3) [OF inv False, of c d] r by simp
        with False show ?thesis
          by (auto simp: Uart_litex None uart_data_load_def w' intro: uart_took_update)
      qed
    qed
  qed
  then show "uart_took (fst w) (if uart_data_load (fst w) a \<and> uart_ready (fst w) then [uart_shown (fst w') a] else [])
      (fst w')"
    and "uart_data_load (fst w) a \<Longrightarrow> \<not> uart_ready (fst w) \<Longrightarrow> uart_shown (fst w') a = 0"
    by (simp_all add: w)
qed

section \<open>Runs\<close>

text \<open>Accesses in a row, with the bytes they hand to the guest.\<close>

primrec uart_run :: "config \<Rightarrow> uart_access list \<Rightarrow> uart_world \<Rightarrow> (uart_world \<times> uint8_t list) option" where
  "uart_run c [] w = Some (w, [])"
| "uart_run c (a # as) w =
     (case uart_access c a w of
        None \<Rightarrow> None
      | Some w' \<Rightarrow>
          map_option (\<lambda>(w'', bs).
              (w'', (if uart_data_load (fst w) a \<and> uart_ready (fst w) then [uart_shown (fst w') a] else []) @ bs))
            (uart_run c as w'))"

lemma uart_run_took:
  "rx_inv (fst w) \<Longrightarrow> uart_run c as w = Some (w', bs) \<Longrightarrow> uart_took (fst w) bs (fst w')"
proof (induction as arbitrary: w bs)
  case (Cons a as)
  from Cons.prems(2) obtain w1 bs1 where 1: "uart_access c a w = Some w1" "uart_run c as w1 = Some (w', bs1)"
    and bs: "bs = (if uart_data_load (fst w) a \<and> uart_ready (fst w) then [uart_shown (fst w1) a] else []) @ bs1"
    by (auto split: option.splits)
  from uart_access_took(1) [OF Cons.prems(1) 1(1)] Cons.IH [OF _ 1(2)] show ?case
    unfolding bs uart_took_def by auto
qed (simp add: uart_took_refl)

lemma uart_run_Some: "\<exists>w' bs. uart_run c as w = Some (w', bs)"
proof (induction as arbitrary: w)
  case (Cons a as)
  have "uart_access c a w \<noteq> None"
    by (cases a)
      (simp_all add: uart_access_def serial_io_handler_ns16550_def litex_uart_io_handler_def Let_def
        split: option.split prod.split)
  then obtain w' where "uart_access c a w = Some w'" by auto
  with Cons [of w'] show ?case by auto
qed (metis uart_run.simps(1))

text \<open>
  C29 (serial input). Every sequence of guest accesses to the 16550 and LiteX registers completes,
  whatever the host's \<open>read\<close> calls return; and the bytes the data registers have handed to the guest
  (bytes shown by data loads made while one was ready, each load taking one) followed by what is
  still queued and what the host still holds are the host's input, translated byte by byte: no byte
  is lost, duplicated or reordered.
\<close>

theorem uart_input_complete:
  "\<exists>w bs. uart_run c as (init_serial lf reads, d) = Some (w, bs) \<and>
     map (\<lambda>b. if lf \<and> b = 0x0a then 0x0d else b) (concat reads) =
       bs @ rx_items (fst w) @ map (serial_map_byte (fst w)) (concat (host_stdin (fst w)))"
proof -
  let ?u = "init_serial lf reads"
  obtain w bs where r: "uart_run c as (?u, d) = Some (w, bs)" using uart_run_Some by blast
  have "rx_inv ?u" "uart_stream ?u = map (serial_map_byte ?u) (concat reads)"
    by (simp_all add: rx_inv_def uart_stream_def rx_items_def init_serial_def ring_items_def)
  moreover have "serial_map_byte ?u = (\<lambda>b. if lf \<and> b = 0x0a then 0x0d else b)"
    by (simp add: serial_map_byte_def fun_eq_iff init_serial_def)
  ultimately show ?thesis
    using r uart_run_took [OF _ r] by (auto simp: uart_took_def uart_stream_def)
qed

end
