(* ===== verification/Sdcard.thy ===== *)
theory Sdcard
  imports Mmio Fifo
begin

text \<open>
  The SD-card controllers, \<^verbatim>\<open>src/device/sdcard.c\<close>: the SDHCI window with its block DMA, and the
  LiteX SPI window with the card's command decoder and its response queue. Opening and reading the
  image file and the log lines are left out: \<open>sdcard_image\<close> is the loaded image, \<open>None\<close> without one.
\<close>

unbundle bit_operations_syntax

abbreviation (input) SDHCI_BLOCK_SIZE :: nat where "SDHCI_BLOCK_SIZE \<equiv> 512"

abbreviation (input) SD_BLOCK_SIZE :: nat where "SD_BLOCK_SIZE \<equiv> 512"

abbreviation (input) SPI_RXQ_CAP :: nat where "SPI_RXQ_CAP \<equiv> 1024"

section \<open>The SDHCI window\<close>

record sdhci_state =
  sdhci_space :: "nat \<Rightarrow> uint8_t"
  sdhci_int_stat :: uint32_t
  sdcard_image :: "uint8_t list option"

definition sd_put32 :: "nat \<Rightarrow> uint32_t \<Rightarrow> sdhci_state \<Rightarrow> sdhci_state" where
  "sd_put32 offset v h = h\<lparr>sdhci_space := win_store32 (sdhci_space h) offset v\<rparr>"

text \<open>Access \<open>[offset, offset + len)\<close> against register \<open>[reg, reg + size)\<close>.\<close>

definition sdhci_overlaps :: "nat \<Rightarrow> nat \<Rightarrow> nat \<Rightarrow> nat \<Rightarrow> bool" where
  "sdhci_overlaps offset len reg sz \<longleftrightarrow> offset < reg + sz \<and> reg < offset + len"

text \<open>The block at a byte offset of the image, padded with zeroes at the end of the image.\<close>

definition sd_block :: "uint8_t list option \<Rightarrow> nat \<Rightarrow> uint8_t list" where
  "sd_block img offset =
     (case img of
        None \<Rightarrow> replicate SD_BLOCK_SIZE 0
      | Some bs \<Rightarrow>
          if offset < length bs
          then let ncopy = min (length bs - offset) SD_BLOCK_SIZE
               in take ncopy (drop offset bs) @ replicate (SD_BLOCK_SIZE - ncopy) 0
          else replicate SD_BLOCK_SIZE 0)"

definition dma_read_block :: "config \<Rightarrow> 'd mmio_state \<Rightarrow> sdhci_state \<times> nemu \<Rightarrow> sdhci_state \<times> nemu" where
  "dma_read_block c b = (\<lambda>(h, s).
     let block = sd_block (sdcard_image h) (unat (win_load32 (sdhci_space h) 0x08));
         dma_addr = win_load32 (sdhci_space h) 0x00
     in (h, snd (dma_write c b (ucast dma_addr) block s)))"

definition complete_command :: "sdhci_state \<Rightarrow> sdhci_state" where
  "complete_command h =
     (let st = sdhci_int_stat h OR 1 in sd_put32 0x30 st (h\<lparr>sdhci_int_stat := st\<rparr>))"

definition process_command :: "config \<Rightarrow> 'd mmio_state \<Rightarrow> sdhci_state \<times> nemu \<Rightarrow> sdhci_state \<times> nemu" where
  "process_command c b = (\<lambda>(h, s).
     let cmd_idx = drop_bit 24 (win_load32 (sdhci_space h) 0x0c) AND 0x3f;
         (h', s') = (if cmd_idx = 3 then (sd_put32 0x10 0x10000 h, s)
                     else if cmd_idx = 17 then dma_read_block c b (h, s)
                     else (h, s))
     in (complete_command h', s'))"

definition prepare_sdhci_read :: "sdhci_state \<Rightarrow> sdhci_state" where
  "prepare_sdhci_read h =
     (let h1 = sd_put32 0x24 0 (h\<lparr>sdhci_space := (sdhci_space h)(0x2f := 0)\<rparr>)
      in sd_put32 0x30 (sdhci_int_stat h1) h1)"

definition sdhci_io_handler :: "config \<Rightarrow> 'd mmio_state \<Rightarrow> (sdhci_state \<times> nemu) io_callback" where
  "sdhci_io_handler c b offset len is_write = (\<lambda>(h, s).
     if \<not> is_write then Some (prepare_sdhci_read h, s)
     else
       let h1 = (if sdhci_overlaps offset len 0x30 4
                 then let st = sdhci_int_stat h AND NOT (win_load32 (sdhci_space h) 0x30)
                      in sd_put32 0x30 st (h\<lparr>sdhci_int_stat := st\<rparr>)
                 else h);
           h2 = sd_put32 0x24 0 (h1\<lparr>sdhci_space := (sdhci_space h1)(0x2f := 0)\<rparr>)
       in Some (if sdhci_overlaps offset len 0x0c 4 then process_command c b (h2, s) else (h2, s)))"

section \<open>The SPI response queue\<close>

record spi_state =
  spi_space :: "nat \<Rightarrow> uint8_t"
  spi_control :: uint32_t
  spi_status :: uint32_t
  spi_mosi :: uint32_t
  spi_miso :: uint32_t
  spi_cs :: uint32_t
  spi_clkdiv :: uint32_t
  spi_cmd_buf :: "nat \<Rightarrow> uint8_t"
  spi_cmd_len :: nat
  spi_rxq :: "nat \<Rightarrow> uint8_t"
  spi_rxq_head :: nat
  spi_rxq_tail :: nat

definition spi_rxq_empty :: "spi_state \<Rightarrow> bool" where
  "spi_rxq_empty p \<longleftrightarrow> spi_rxq_head p = spi_rxq_tail p"

definition spi_rxq_push :: "uint8_t \<Rightarrow> spi_state \<Rightarrow> spi_state" where
  "spi_rxq_push b p =
     (let nxt = (spi_rxq_tail p + 1) mod SPI_RXQ_CAP in
      if nxt = spi_rxq_head p then p
      else p\<lparr>spi_rxq := (spi_rxq p)(spi_rxq_tail p := b), spi_rxq_tail := nxt\<rparr>)"

definition spi_rxq_pop :: "spi_state \<Rightarrow> uint8_t \<times> spi_state" where
  "spi_rxq_pop p =
     (spi_rxq p (spi_rxq_head p), p\<lparr>spi_rxq_head := (spi_rxq_head p + 1) mod SPI_RXQ_CAP\<rparr>)"

section \<open>The card\<close>

definition spi_enqueue_cmd17_payload :: "uint8_t list option \<Rightarrow> uint32_t \<Rightarrow> spi_state \<Rightarrow> spi_state" where
  "spi_enqueue_cmd17_payload img byte_addr p =
     (let block = sd_block img (unat byte_addr)
      in spi_rxq_push 0xFF (spi_rxq_push 0xFF (fold spi_rxq_push block (spi_rxq_push 0xFE p))))"

definition spi_arg :: "(nat \<Rightarrow> uint8_t) \<Rightarrow> uint32_t" where
  "spi_arg cmd = push_bit 24 (ucast (cmd 1)) OR push_bit 16 (ucast (cmd 2)) OR push_bit 8 (ucast (cmd 3)) OR
     ucast (cmd 4)"

definition spi_handle_sd_command :: "uint8_t list option \<Rightarrow> (nat \<Rightarrow> uint8_t) \<Rightarrow> spi_state \<Rightarrow> spi_state" where
  "spi_handle_sd_command img cmd p =
     (let i = cmd 0 AND 0x3F; arg = spi_arg cmd in
      if i = 0 then spi_rxq_push 0x01 p
      else if i = 8 then fold spi_rxq_push [0x01, 0x00, 0x00, 0x01, 0xAA] p
      else if i = 55 then spi_rxq_push 0x01 p
      else if i = 41 then spi_rxq_push 0x00 p
      else if i = 17 then spi_enqueue_cmd17_payload img (arg * of_nat SD_BLOCK_SIZE) (spi_rxq_push 0x00 p)
      else spi_rxq_push 0x00 p)"

definition spi_transfer :: "uint8_t list option \<Rightarrow> uint8_t \<Rightarrow> spi_state \<Rightarrow> uint8_t \<times> spi_state" where
  "spi_transfer img tx p =
     (if spi_cs p AND 1 = 0 then (0xFF, p\<lparr>spi_cmd_len := 0\<rparr>)
      else if \<not> spi_rxq_empty p then spi_rxq_pop p
      else if spi_cmd_len p = 0 then
        (0xFF, if tx AND 0xC0 = 0x40
               then p\<lparr>spi_cmd_buf := (spi_cmd_buf p)(0 := tx), spi_cmd_len := 1\<rparr> else p)
      else
        let p1 = p\<lparr>spi_cmd_buf := (spi_cmd_buf p)(spi_cmd_len p := tx), spi_cmd_len := spi_cmd_len p + 1\<rparr> in
        (0xFF, if spi_cmd_len p1 = 6
               then (spi_handle_sd_command img (spi_cmd_buf p1) p1)\<lparr>spi_cmd_len := 0\<rparr> else p1))"

section \<open>The SPI window\<close>

definition spi_store_reg :: "nat \<Rightarrow> uint32_t \<Rightarrow> spi_state \<Rightarrow> spi_state" where
  "spi_store_reg off v p = p\<lparr>spi_space := win_store32 (spi_space p) off v\<rparr>"

definition spi_do_control_write :: "uint8_t list option \<Rightarrow> uint32_t \<Rightarrow> spi_state \<Rightarrow> spi_state" where
  "spi_do_control_write img control p =
     (let p1 = p\<lparr>spi_control := control, spi_status := spi_status p AND NOT 1\<rparr> in
      if control AND 1 = 0 then p1
      else
        let (rx, p2) = spi_transfer img (ucast (spi_mosi p1 AND 0xFF)) p1;
            p3 = p2\<lparr>spi_miso := (spi_miso p2 AND NOT 0xFF) OR ucast rx\<rparr>;
            p4 = p3\<lparr>spi_status := spi_status p3 OR 1\<rparr>
        in spi_store_reg 0x0c (spi_miso p4) (spi_store_reg 0x04 (spi_status p4) p4))"

definition spi_latch :: "nat \<Rightarrow> uint32_t \<Rightarrow> spi_state \<Rightarrow> spi_state" where
  "spi_latch reg val p =
     (if reg = 0x00 then p\<lparr>spi_control := val\<rparr>
      else if reg = 0x04 then p\<lparr>spi_status := val\<rparr>
      else if reg = 0x08 then p\<lparr>spi_mosi := val\<rparr>
      else if reg = 0x0c then p\<lparr>spi_miso := val\<rparr>
      else if reg = 0x10 then p\<lparr>spi_cs := val\<rparr>
      else if reg = 0x18 then p\<lparr>spi_clkdiv := val\<rparr>
      else p)"

definition spi_value :: "nat \<Rightarrow> spi_state \<Rightarrow> uint32_t" where
  "spi_value reg p =
     (if reg = 0x00 then spi_control p
      else if reg = 0x04 then spi_status p
      else if reg = 0x08 then spi_mosi p
      else if reg = 0x0c then spi_miso p
      else if reg = 0x10 then spi_cs p
      else if reg = 0x18 then spi_clkdiv p
      else 0)"

text \<open>A store starts a transfer when it covers the first byte of the control register.\<close>

definition litex_spi_io_handler :: "uint8_t list option \<Rightarrow> spi_state io_callback" where
  "litex_spi_io_handler img offset len is_write p =
     (let reg = 4 * (offset div 4) in
      if is_write then
        let ctrl_start_byte = list_ex (\<lambda>i. 4 * ((offset + i) div 4) = 0 \<and> (offset + i) mod 4 = 0) [0..<len];
            p1 = spi_latch reg (win_load32 (spi_space p) reg) p
        in Some (if ctrl_start_byte then spi_do_control_write img (spi_control p1) p1 else p1)
      else Some (spi_store_reg reg (spi_value reg p) p))"

definition init_litex_spi_sd :: spi_state where
  "init_litex_spi_sd = \<lparr>spi_space = (\<lambda>_. 0), spi_control = 0, spi_status = 1, spi_mosi = 0xFF, spi_miso = 0xFF,
     spi_cs = 0, spi_clkdiv = 0, spi_cmd_buf = (\<lambda>_. 0), spi_cmd_len = 0, spi_rxq = (\<lambda>_. 0),
     spi_rxq_head = 0, spi_rxq_tail = 0\<rparr>"

end
