(* ===== verification/Sdcard_Correct.thy ===== *)
theory Sdcard_Correct
  imports Sdcard Demo
begin

text \<open>
  The card behind the SPI window: its response queue meets the contract of a bounded queue, and a
  block-read command sent byte by byte through the registers is answered with the block of the image.
\<close>

unbundle bit_operations_syntax

section \<open>The response queue\<close>

definition rxq_inv :: "spi_state \<Rightarrow> bool" where
  "rxq_inv p \<longleftrightarrow> spi_rxq_head p < SPI_RXQ_CAP \<and> spi_rxq_tail p < SPI_RXQ_CAP"

definition rxq_items :: "spi_state \<Rightarrow> uint8_t list" where
  "rxq_items p = ring_items SPI_RXQ_CAP (spi_rxq p) (spi_rxq_head p) (spi_rxq_tail p)"

lemma rxq_full:
  "rxq_inv p \<Longrightarrow> (spi_rxq_tail p + 1) mod 1024 = spi_rxq_head p \<longleftrightarrow> \<not> length (rxq_items p) < 1023"
  using ring_full [of "spi_rxq_head p" 1024 "spi_rxq_tail p" "spi_rxq p"]
  by (simp add: rxq_inv_def rxq_items_def)

interpretation rxq: bounded_fifo rxq_inv rxq_items 1023 spi_rxq_push spi_rxq_pop spi_rxq_empty
proof
  fix p x
  assume p: "rxq_inv p"
  then show "rxq_inv (spi_rxq_push x p)"
    by (simp add: rxq_inv_def spi_rxq_push_def Let_def)
  show "rxq_items (spi_rxq_push x p) = rxq_items p @ [x]" if "length (rxq_items p) < 1023"
    using that rxq_full [OF p] p ring_push [of "spi_rxq_head p" 1024 "spi_rxq_tail p" "spi_rxq p" x]
    by (simp add: rxq_inv_def rxq_items_def spi_rxq_push_def Let_def)
  show "spi_rxq_push x p = p" if "\<not> length (rxq_items p) < 1023"
    using that rxq_full [OF p] by (simp add: spi_rxq_push_def)
  show "spi_rxq_empty p \<longleftrightarrow> rxq_items p = []"
    using p ring_empty [of "spi_rxq_head p" 1024 "spi_rxq_tail p" "spi_rxq p"]
    by (simp add: rxq_inv_def spi_rxq_empty_def rxq_items_def)
  assume "\<not> spi_rxq_empty p"
  then show "rxq_inv (snd (spi_rxq_pop p))" and "rxq_items p = fst (spi_rxq_pop p) # rxq_items (snd (spi_rxq_pop p))"
    using p ring_pop [of "spi_rxq_head p" 1024 "spi_rxq_tail p" "spi_rxq p"]
    by (auto simp: rxq_inv_def spi_rxq_empty_def rxq_items_def spi_rxq_pop_def)
qed

section \<open>One byte exchanged through the registers\<close>

text \<open>A driver's exchange: store \<open>MOSI\<close>, store 1 to \<open>CONTROL\<close>, load \<open>MISO\<close>.\<close>

definition spi_put :: "uint8_t list option \<Rightarrow> nat \<Rightarrow> uint32_t \<Rightarrow> spi_state \<Rightarrow> spi_state" where
  "spi_put img off v p =
     the (litex_spi_io_handler img off 4 True (p\<lparr>spi_space := win_store32 (spi_space p) off v\<rparr>))"

definition spi_exchange :: "uint8_t list option \<Rightarrow> uint8_t \<Rightarrow> spi_state \<Rightarrow> uint8_t \<times> spi_state" where
  "spi_exchange img tx p =
     (let p' = the (litex_spi_io_handler img 0x0c 4 False (spi_put img 0 1 (spi_put img 0x08 (ucast tx) p)))
      in (ucast (win_load32 (spi_space p') 0x0c), p'))"

text \<open>The part of the state the card looks at.\<close>

definition spi_card :: "spi_state \<Rightarrow> uint8_t list \<Rightarrow> nat \<Rightarrow> (nat \<Rightarrow> uint8_t) \<Rightarrow> bool" where
  "spi_card p q n buf \<longleftrightarrow> rxq_inv p \<and> rxq_items p = q \<and> spi_cmd_len p = n \<and> spi_cmd_buf p = buf \<and>
     spi_cs p AND 1 \<noteq> 0"

lemma spi_card_simps [simp]:
  "spi_card (p\<lparr>spi_space := w\<rparr>) = spi_card p" "spi_card (p\<lparr>spi_control := v\<rparr>) = spi_card p"
  "spi_card (p\<lparr>spi_status := v\<rparr>) = spi_card p" "spi_card (p\<lparr>spi_mosi := v\<rparr>) = spi_card p"
  "spi_card (p\<lparr>spi_miso := v\<rparr>) = spi_card p" "spi_card (spi_store_reg off v p) = spi_card p"
  by (simp_all add: fun_eq_iff spi_card_def rxq_inv_def rxq_items_def spi_store_reg_def)

lemma low_byte_32: "(0xFF :: uint32_t) = mask 8"
  by (simp add: mask_eq_exp_minus_1)

lemma low_byte_merge: "ucast ((x AND NOT 0xFF) OR ucast b :: uint32_t) = (b :: uint8_t)"
  unfolding low_byte_32 by (rule bit_word_eqI) (auto simp: bit_simps bit_mask_iff)

lemma low_byte_ucast: "ucast ((ucast b :: uint32_t) AND 0xFF) = (b :: uint8_t)"
  unfolding low_byte_32 by (rule bit_word_eqI) (auto simp: bit_simps bit_mask_iff)

lemma upt_4: "[0..<4] = [0, 1, 2, 3 :: nat]"
  by (simp add: upt_rec)

lemma spi_put_mosi:
  "spi_put img 8 v p = p\<lparr>spi_space := win_store32 (spi_space p) 8 v, spi_mosi := v\<rparr>"
  by (simp add: spi_put_def litex_spi_io_handler_def spi_latch_def upt_4)

lemma spi_put_control:
  "spi_put img 0 v p = spi_do_control_write img v (p\<lparr>spi_space := win_store32 (spi_space p) 0 v, spi_control := v\<rparr>)"
  by (simp add: spi_put_def litex_spi_io_handler_def spi_latch_def upt_4)

lemma spi_exchange_transfer:
  obtains p1 where "spi_card p1 = spi_card p"
    "fst (spi_exchange img tx p) = fst (spi_transfer img tx p1)"
    "spi_card (snd (spi_exchange img tx p)) = spi_card (snd (spi_transfer img tx p1))"
proof -
  let ?p0 = "(spi_put img 8 (ucast tx) p)"
  let ?p1 = "?p0\<lparr>spi_space := win_store32 (spi_space ?p0) 0 1, spi_control := 1,
    spi_status := spi_status ?p0 AND NOT 1\<rparr>"
  have "spi_mosi ?p0 = ucast tx" by (simp add: spi_put_mosi)
  then have 1: "spi_put img 0 1 ?p0 =
      (let (rx, p2) = spi_transfer img tx ?p1;
           p3 = p2\<lparr>spi_miso := (spi_miso p2 AND NOT 0xFF) OR ucast rx\<rparr>;
           p4 = p3\<lparr>spi_status := spi_status p3 OR 1\<rparr>
       in spi_store_reg 12 (spi_miso p4) (spi_store_reg 4 (spi_status p4) p4))"
    by (simp add: spi_put_control spi_do_control_write_def Let_def low_byte_ucast)
  show thesis
  proof (rule that [of ?p1])
    show "spi_card ?p1 = spi_card p" by (simp add: spi_put_mosi)
    show "fst (spi_exchange img tx p) = fst (spi_transfer img tx ?p1)"
      "spi_card (snd (spi_exchange img tx p)) = spi_card (snd (spi_transfer img tx ?p1))"
      unfolding spi_exchange_def 1
      by (simp_all add: litex_spi_io_handler_def spi_value_def spi_store_reg_def low_byte_merge [simplified]
          split: prod.split)
  qed
qed

section \<open>Transfers\<close>

lemma spi_transfer_pop:
  assumes "spi_card p (b # q) n buf"
  shows "fst (spi_transfer img tx p) = b \<and> spi_card (snd (spi_transfer img tx p)) q n buf"
proof -
  have inv: "rxq_inv p" "rxq_items p = b # q" "\<not> spi_rxq_empty p"
    using assms rxq.vacant_items [of p] by (simp_all add: spi_card_def)
  obtain x t where "spi_rxq_pop p = (x, t)" "rxq_inv t" "rxq_items p = x # rxq_items t"
    using rxq.pop_cases [OF inv(1,3)] by metis
  moreover from this(1) have "spi_cmd_len t = spi_cmd_len p" "spi_cmd_buf t = spi_cmd_buf p" "spi_cs t = spi_cs p"
    by (auto simp: spi_rxq_pop_def)
  ultimately show ?thesis
    using assms inv by (simp add: spi_card_def spi_transfer_def)
qed

lemma spi_transfer_command:
  assumes "spi_card p [] n buf" and "n < 5" and "n = 0 \<longrightarrow> tx AND 0xC0 = 0x40"
  shows "fst (spi_transfer img tx p) = 0xFF \<and>
    spi_card (snd (spi_transfer img tx p)) [] (Suc n) (buf(n := tx))"
  using assms rxq.vacant_items [of p]
  by (auto simp: spi_card_def spi_transfer_def Let_def rxq_inv_def rxq_items_def)

text \<open>The bytes of the image, zero beyond its end and without an image.\<close>

definition sd_byte :: "uint8_t list option \<Rightarrow> nat \<Rightarrow> uint8_t" where
  "sd_byte img i = (case img of Some bs \<Rightarrow> if i < length bs then bs ! i else 0 | None \<Rightarrow> 0)"

lemma sd_block_bytes: "sd_block img off = map (\<lambda>i. sd_byte img (off + i)) [0..<512]"
proof (cases img)
  case None
  then show ?thesis by (simp add: sd_block_def sd_byte_def map_replicate_const)
next
  case (Some bs)
  show ?thesis
  proof (rule nth_equalityI)
    show "length (sd_block img off) = length (map (\<lambda>i. sd_byte img (off + i)) [0..<512])"
      by (auto simp: sd_block_def Some Let_def)
    fix i assume "i < length (sd_block img off)"
    then have "i < 512" by (auto simp: sd_block_def Some Let_def split: if_splits)
    then show "sd_block img off ! i = map (\<lambda>i. sd_byte img (off + i)) [0..<512] ! i"
      by (auto simp: sd_block_def sd_byte_def Some Let_def nth_append)
  qed
qed

lemma length_sd_block [simp]: "length (sd_block img off) = 512"
  by (simp add: sd_block_bytes)

text \<open>The sixth byte of a block read queues the answer.\<close>

lemma spi_transfer_read:
  assumes "spi_card p [] 5 buf" and "buf 0 = 0x51"
  shows "fst (spi_transfer img tx p) = 0xFF \<and>
    spi_card (snd (spi_transfer img tx p))
      (0x00 # 0xFE # sd_block img (unat (spi_arg buf * 512)) @ [0xFF, 0xFF]) 0 (buf(5 := tx))"
proof -
  let ?p1 = "p\<lparr>spi_cmd_buf := (spi_cmd_buf p)(spi_cmd_len p := tx), spi_cmd_len := spi_cmd_len p + 1\<rparr>"
  let ?block = "sd_block img (unat (spi_arg buf * 512))"
  let ?q = "0x00 # 0xFE # ?block @ [0xFF, 0xFF]"
  let ?p2 = "fold spi_rxq_push ?q ?p1"
  have inv: "rxq_inv ?p1" "rxq_items ?p1 = []"
    using assms(1) by (simp_all add: spi_card_def rxq_inv_def rxq_items_def)
  have items: "rxq_inv ?p2" "rxq_items ?p2 = ?q"
    using rxq.fold_push_items [OF inv(1), of ?q] rxq.fold_push_inv [OF inv(1), of ?q] inv(2) by simp_all
  have frame: "spi_cmd_buf (fold spi_rxq_push bs r) = spi_cmd_buf r" "spi_cs (fold spi_rxq_push bs r) = spi_cs r" for bs r
    by (induction bs arbitrary: r) (simp_all add: spi_rxq_push_def Let_def)
  have arg: "spi_arg (spi_cmd_buf ?p1) = spi_arg buf" using assms(1) by (simp add: spi_arg_def spi_card_def)
  have "spi_transfer img tx p = (0xFF, ?p2\<lparr>spi_cmd_len := 0\<rparr>)"
    using assms inv rxq.vacant_items [of p] arg
    by (simp add: spi_card_def spi_transfer_def Let_def spi_handle_sd_command_def
        spi_enqueue_cmd17_payload_def)
  moreover have "spi_card (?p2\<lparr>spi_cmd_len := 0\<rparr>) ?q 0 (buf(5 := tx))"
    using items assms(1) frame [of ?q ?p1]
    by (simp add: spi_card_def rxq_inv_def rxq_items_def)
  ultimately show ?thesis by simp
qed

section \<open>Sessions\<close>

primrec spi_session :: "uint8_t list option \<Rightarrow> uint8_t list \<Rightarrow> spi_state \<Rightarrow> uint8_t list \<times> spi_state" where
  "spi_session img [] p = ([], p)"
| "spi_session img (tx # txs) p =
     (let (rx, p1) = spi_exchange img tx p; (rxs, p2) = spi_session img txs p1 in (rx # rxs, p2))"

lemma spi_session_Cons:
  "fst (spi_session img (tx # txs) p) = fst (spi_exchange img tx p) # fst (spi_session img txs (snd (spi_exchange img tx p)))"
  "snd (spi_session img (tx # txs) p) = snd (spi_session img txs (snd (spi_exchange img tx p)))"
  by (simp_all add: Let_def split: prod.split)

lemma spi_session_append:
  "fst (spi_session img (as @ bs) p) = fst (spi_session img as p) @ fst (spi_session img bs (snd (spi_session img as p)))"
  "snd (spi_session img (as @ bs) p) = snd (spi_session img bs (snd (spi_session img as p)))"
  by (induction as arbitrary: p) (simp_all add: spi_session_Cons del: spi_session.simps(2))

lemma spi_session_pop:
  "spi_card p q n buf \<Longrightarrow> length txs = length q \<Longrightarrow>
   fst (spi_session img txs p) = q \<and> spi_card (snd (spi_session img txs p)) [] n buf"
proof (induction q arbitrary: p txs)
  case (Cons b q)
  then obtain tx txs' where txs: "txs = tx # txs'" by (cases txs) auto
  obtain p1 where p1: "spi_card p1 = spi_card p" "fst (spi_exchange img tx p) = fst (spi_transfer img tx p1)"
    "spi_card (snd (spi_exchange img tx p)) = spi_card (snd (spi_transfer img tx p1))"
    by (rule spi_exchange_transfer)
  have "fst (spi_exchange img tx p) = b" "spi_card (snd (spi_exchange img tx p)) q n buf"
    using spi_transfer_pop [of p1 b q n buf img tx] p1 Cons.prems(1) by simp_all
  with Cons.IH [of "snd (spi_exchange img tx p)" txs'] Cons.prems(2) show ?case
    by (simp add: txs spi_session_Cons del: spi_session.simps(2))
qed simp

lemma spi_exchange_command:
  assumes "spi_card p [] n buf" and "n < 5" and "n = 0 \<longrightarrow> tx AND 0xC0 = 0x40"
  shows "fst (spi_exchange img tx p) = 0xFF \<and> spi_card (snd (spi_exchange img tx p)) [] (Suc n) (buf(n := tx))"
proof -
  obtain p1 where "spi_card p1 = spi_card p" "fst (spi_exchange img tx p) = fst (spi_transfer img tx p1)"
    "spi_card (snd (spi_exchange img tx p)) = spi_card (snd (spi_transfer img tx p1))"
    by (rule spi_exchange_transfer)
  with spi_transfer_command [of p1 n buf tx img] assms show ?thesis by simp
qed

lemma spi_exchange_read:
  assumes "spi_card p [] 5 buf" and "buf 0 = 0x51"
  shows "fst (spi_exchange img tx p) = 0xFF \<and> spi_card (snd (spi_exchange img tx p))
      (0x00 # 0xFE # sd_block img (unat (spi_arg buf * 512)) @ [0xFF, 0xFF]) 0 (buf(5 := tx))"
proof -
  obtain p1 where "spi_card p1 = spi_card p" "fst (spi_exchange img tx p) = fst (spi_transfer img tx p1)"
    "spi_card (snd (spi_exchange img tx p)) = spi_card (snd (spi_transfer img tx p1))"
    by (rule spi_exchange_transfer)
  with spi_transfer_read [of p1 buf img tx] assms show ?thesis by simp
qed

text \<open>The six bytes of a block-read command: \<open>CMD17\<close>, the block number, most significant byte first, the CRC.\<close>

definition cmd17 :: "uint32_t \<Rightarrow> uint8_t \<Rightarrow> uint8_t list" where
  "cmd17 n crc = [0x51, ucast (drop_bit 24 n), ucast (drop_bit 16 n), ucast (drop_bit 8 n), ucast n, crc]"

lemma spi_arg_cmd17:
  assumes "cmd 1 = ucast (drop_bit 24 n)" "cmd 2 = ucast (drop_bit 16 n)" "cmd 3 = ucast (drop_bit 8 n)"
    "cmd 4 = ucast n"
  shows "spi_arg cmd = n"
  unfolding spi_arg_def assms
proof (rule bit_word_eqI)
  fix i assume "i < LENGTH(32)"
  then show "bit (push_bit 24 (ucast (ucast (drop_bit 24 n) :: uint8_t)) OR push_bit 16 (ucast (ucast (drop_bit 16 n) :: uint8_t)) OR
      push_bit 8 (ucast (ucast (drop_bit 8 n) :: uint8_t)) OR ucast (ucast n :: uint8_t) :: uint32_t) i = bit n i"
    by (cases "i < 8"; cases "i < 16"; cases "i < 24") (simp_all add: bit_simps, auto)
qed

lemma spi_session_cmd17:
  assumes "spi_card p [] 0 buf"
  shows "fst (spi_session img (cmd17 n crc) p) = replicate 6 0xFF \<and>
    (\<exists>buf'. spi_card (snd (spi_session img (cmd17 n crc) p))
      (0x00 # 0xFE # sd_block img (unat (n * 512)) @ [0xFF, 0xFF]) 0 buf')"
proof -
  let ?b = "\<lambda>k. ucast (drop_bit k n) :: uint8_t"
  let ?s1 = "snd (spi_exchange img 0x51 p)"
  let ?s2 = "snd (spi_exchange img (?b 24) ?s1)"
  let ?s3 = "snd (spi_exchange img (?b 16) ?s2)"
  let ?s4 = "snd (spi_exchange img (?b 8) ?s3)"
  let ?s5 = "snd (spi_exchange img (ucast n) ?s4)"
  let ?cmd = "buf(0 := 0x51, 1 := ?b 24, 2 := ?b 16, 3 := ?b 8, 4 := ucast n)"
  note step = spi_exchange_command
  have 1: "fst (spi_exchange img 0x51 p) = 0xFF" "spi_card ?s1 [] 1 (buf(0 := 0x51))"
    using step [OF assms, where tx = "0x51" and img = img] by simp_all
  have 2: "fst (spi_exchange img (?b 24) ?s1) = 0xFF" "spi_card ?s2 [] 2 (buf(0 := 0x51, 1 := ?b 24))"
    using step [OF 1(2), where tx = "?b 24" and img = img] by (simp_all add: numeral_2_eq_2)
  have 3: "fst (spi_exchange img (?b 16) ?s2) = 0xFF"
      "spi_card ?s3 [] 3 (buf(0 := 0x51, 1 := ?b 24, 2 := ?b 16))"
    using step [OF 2(2), where tx = "?b 16" and img = img] by simp_all
  have 4: "fst (spi_exchange img (?b 8) ?s3) = 0xFF"
      "spi_card ?s4 [] 4 (buf(0 := 0x51, 1 := ?b 24, 2 := ?b 16, 3 := ?b 8))"
    using step [OF 3(2), where tx = "?b 8" and img = img] by simp_all
  have 5: "fst (spi_exchange img (ucast n) ?s4) = 0xFF" "spi_card ?s5 [] 5 ?cmd"
    using step [OF 4(2), where tx = "ucast n" and img = img] by simp_all
  have "spi_arg ?cmd = n" by (rule spi_arg_cmd17) simp_all
  with spi_exchange_read [OF 5(2), where tx = crc and img = img] 1 2 3 4 5 show ?thesis
    by (auto simp: cmd17_def spi_session_Cons numeral_eq_Suc simp del: spi_session.simps(2))
qed

lemma spi_session_block:
  assumes "rxq_inv p" and "rxq_items p = []" and "spi_cmd_len p = 0" and "spi_cs p AND 1 \<noteq> 0"
    and "length fill = 516"
  shows "fst (spi_session img (cmd17 n crc @ fill) p) =
      replicate 6 0xFF @ [0x00, 0xFE] @ map (\<lambda>i. sd_byte img (unat (n * 512) + i)) [0..<512] @ [0xFF, 0xFF] \<and>
    (\<exists>buf. spi_card (snd (spi_session img (cmd17 n crc @ fill) p)) [] 0 buf)"
proof -
  obtain buf' where "spi_card (snd (spi_session img (cmd17 n crc) p))
      (0x00 # 0xFE # sd_block img (unat (n * 512)) @ [0xFF, 0xFF]) 0 buf'"
    and "fst (spi_session img (cmd17 n crc) p) = replicate 6 0xFF"
    using spi_session_cmd17 [where p = p and buf = "spi_cmd_buf p" and img = img and n = n and crc = crc] assms(1-4)
    by (auto simp: spi_card_def)
  then show ?thesis
    using spi_session_pop [where p = "snd (spi_session img (cmd17 n crc) p)" and n = 0 and buf = buf' and txs = fill and
        q = "0x00 # 0xFE # sd_block img (unat (n * 512)) @ [0xFF, 0xFF]" and img = img] assms(5)
    by (auto simp: spi_session_append sd_block_bytes simp del: upt_Suc)
qed

text \<open>
  C30 (card block read). To a selected card with nothing queued, a block-read command for block \<open>n\<close>
  sent byte by byte through the MOSI, CONTROL and MISO registers and followed by 516 further bytes of
  any value is answered by idle bytes, the ready byte, the start token, the 512 bytes of the image at
  byte \<open>512 n\<close> (zero past its end) and two CRC bytes; the card is then idle again. The block number
  must be below \<open>2 ^ 23\<close>, where the 32-bit byte address does not wrap.
\<close>

theorem spi_block_read:
  assumes "rxq_inv p" and "rxq_items p = []" and "spi_cmd_len p = 0" and "spi_cs p AND 1 \<noteq> 0"
    and "unat n < 2 ^ 23" and "length fill = 516"
  shows "fst (spi_session img (cmd17 n crc @ fill) p) =
      replicate 6 0xFF @ [0x00, 0xFE] @ map (\<lambda>i. sd_byte img (512 * unat n + i)) [0..<512] @ [0xFF, 0xFF] \<and>
    rxq_inv (snd (spi_session img (cmd17 n crc @ fill) p)) \<and>
    rxq_items (snd (spi_session img (cmd17 n crc @ fill) p)) = [] \<and>
    spi_cmd_len (snd (spi_session img (cmd17 n crc @ fill) p)) = 0"
proof -
  have "unat (n * 512) = 512 * unat n" using assms(5) by (simp add: unat_word_ariths)
  with spi_session_block [OF assms(1-4,6), of img n crc] show ?thesis by (auto simp: spi_card_def)
qed

text \<open>Block 1 of a two-block image.\<close>

definition demo_card :: "uint8_t list option" where
  "demo_card = Some (map of_nat [0..<1024])"

theorem spi_block_read_witness:
  "fst (spi_session demo_card (cmd17 1 0x95 @ replicate 516 0xFF) (init_litex_spi_sd\<lparr>spi_cs := 1\<rparr>)) =
     replicate 6 0xFF @ [0x00, 0xFE] @ map (\<lambda>i. sd_byte demo_card (512 + i)) [0..<512] @ [0xFF, 0xFF]"
  using spi_block_read [where p = "init_litex_spi_sd\<lparr>spi_cs := 1\<rparr>" and n = 1 and fill = "replicate 516 0xFF" and img = demo_card and crc = "0x95"]
  by (simp add: rxq_inv_def rxq_items_def ring_items_def init_litex_spi_sd_def)

text \<open>
  From block \<open>2 ^ 23\<close> on the 32-bit byte address wraps: a read of that block is answered with the
  bytes of block 0.
\<close>

lemma spi_block_address_wraps:
  assumes "rxq_inv p" and "rxq_items p = []" and "spi_cmd_len p = 0" and "spi_cs p AND 1 \<noteq> 0"
    and "length fill = 516"
  shows "fst (spi_session img (cmd17 0x800000 crc @ fill) p) =
      replicate 6 0xFF @ [0x00, 0xFE] @ map (sd_byte img) [0..<512] @ [0xFF, 0xFF]"
  using spi_session_block [OF assms, where img = img and n = "0x800000" and crc = crc] by simp

end
