(* ===== verification/Virtio.thy ===== *)
theory Virtio
  imports Plic
begin

text \<open>
  What the virtio MMIO devices share: little-endian fields in guest memory, the descriptors of a
  virtqueue, and the partial writes of 32- and 64-bit registers through the register window
  (\<open>write_reg32\<close>, \<open>write_reg64\<close> of \<^verbatim>\<open>src/device/disk.c\<close>; \<^verbatim>\<open>rng.c\<close> has copies of them).
\<close>

unbundle bit_operations_syntax

section \<open>Little-endian fields\<close>

primrec le_word :: "uint8_t list \<Rightarrow> word_t" where
  "le_word [] = 0"
| "le_word (b # bs) = ucast b OR push_bit 8 (le_word bs)"

primrec le_bytes :: "nat \<Rightarrow> word_t \<Rightarrow> uint8_t list" where
  "le_bytes 0 v = []"
| "le_bytes (Suc n) v = ucast v # le_bytes n (drop_bit 8 v)"

lemma length_le_bytes [simp]: "length (le_bytes n v) = n"
  by (induction n arbitrary: v) simp_all

lemma le_word_bytes: "le_word (le_bytes n v) = take_bit (8 * n) v"
proof (induction n arbitrary: v)
  case (Suc n)
  show ?case
    by (rule bit_word_eqI) (auto simp: Suc bit_simps not_less)
qed simp

definition le_field :: "uint8_t list \<Rightarrow> nat \<Rightarrow> nat \<Rightarrow> word_t" where
  "le_field bs off n = le_word (take n (drop off bs))"

section \<open>Descriptors\<close>

record virtq_desc_t =
  desc_at :: word_t
  desc_len :: uint32_t
  desc_flags :: uint16_t
  desc_next :: uint16_t

definition virtq_desc_of :: "uint8_t list \<Rightarrow> virtq_desc_t" where
  "virtq_desc_of bs = \<lparr>desc_at = le_field bs 0 8, desc_len = ucast (le_field bs 8 4),
     desc_flags = ucast (le_field bs 12 2), desc_next = ucast (le_field bs 14 2)\<rparr>"

definition desc_has_next :: "virtq_desc_t \<Rightarrow> bool" where
  "desc_has_next d \<longleftrightarrow> desc_flags d AND 1 \<noteq> 0"

definition desc_writable :: "virtq_desc_t \<Rightarrow> bool" where
  "desc_writable d \<longleftrightarrow> desc_flags d AND 2 \<noteq> 0"

section \<open>Partial register writes\<close>

text \<open>
  An access of 8 bytes shifts a 64-bit one by 64, which C leaves undefined; \<open>reg_len_ok\<close> excludes it.
\<close>

definition reg_len_ok :: "nat \<Rightarrow> bool" where
  "reg_len_ok len \<longleftrightarrow> 8 * len < 64"

definition reg_mask :: "nat \<Rightarrow> nat \<Rightarrow> word_t" where
  "reg_mask offset len = push_bit (8 * (offset mod 4)) (push_bit (8 * len) 1 - 1)"

definition reg_value :: "(nat \<Rightarrow> uint8_t) \<Rightarrow> nat \<Rightarrow> nat \<Rightarrow> word_t" where
  "reg_value w offset len = push_bit (8 * (offset mod 4)) (win_load w offset len)"

definition write_reg32 :: "(nat \<Rightarrow> uint8_t) \<Rightarrow> nat \<Rightarrow> nat \<Rightarrow> uint32_t \<Rightarrow> uint32_t" where
  "write_reg32 w offset len reg =
     ucast ((ucast reg AND NOT (reg_mask offset len)) OR (reg_value w offset len AND reg_mask offset len) :: word_t)"

definition write_reg64 :: "(nat \<Rightarrow> uint8_t) \<Rightarrow> nat \<Rightarrow> nat \<Rightarrow> bool \<Rightarrow> word_t \<Rightarrow> word_t" where
  "write_reg64 w offset len high reg =
     (let mask = reg_mask offset len;
          part = (if high then drop_bit 32 reg else reg AND 0xffffffff);
          part' = (part AND NOT mask) OR (reg_value w offset len AND mask)
      in if high then (reg AND 0xffffffff) OR push_bit 32 part'
         else (reg AND NOT 0xffffffff) OR (part' AND 0xffffffff))"

end
