(* ===== verification/Block_Image.thy ===== *)
theory Block_Image
  imports Prelude
begin

text \<open>
  Block images, \<^verbatim>\<open>src/device/block-image.c\<close>: the loaded copy of a volatile image, or the host file
  behind a read-only or persistent one, reached by \<open>pread\<close> and \<open>pwrite\<close> calls whose coming results
  \<open>img_io\<close> lists (interrupted, failed, or a number of bytes; none left is a failure). Opening and
  locking the file are left out.
\<close>

datatype NemuBlockMode = NEMU_BLOCK_VOLATILE | NEMU_BLOCK_READONLY | NEMU_BLOCK_PERSISTENT

datatype host_io = Io_eintr | Io_error | Io_count nat

record block_image =
  img_fd :: bool
  img_mode :: NemuBlockMode
  img_size :: nat
  img_data :: "uint8_t list option"
  img_file :: "uint8_t list"
  img_io :: "host_io list"

abbreviation (input) FILE_CHUNK :: nat where "FILE_CHUNK \<equiv> 65536"

text \<open>\<open>memcpy\<close> into a buffer at an offset.\<close>

definition splice :: "'a list \<Rightarrow> nat \<Rightarrow> 'a list \<Rightarrow> 'a list" where
  "splice xs off ys = take off xs @ ys @ drop (off + length ys) xs"

text \<open>The loop of \<open>file_transfer\<close>, reading and writing.\<close>

fun file_read :: "host_io list \<Rightarrow> uint8_t list \<Rightarrow> nat \<Rightarrow> nat \<Rightarrow> uint8_t list option \<times> host_io list" where
  "file_read io f off 0 = (Some [], io)"
| "file_read [] f off (Suc n) = (None, [])"
| "file_read (Io_eintr # io) f off (Suc n) = file_read io f off (Suc n)"
| "file_read (Io_error # io) f off (Suc n) = (None, io)"
| "file_read (Io_count k # io) f off (Suc n) =
     (let r = min k (min (Suc n) FILE_CHUNK) in
      if r = 0 then (None, io)
      else let (rest, io') = file_read io f (off + r) (Suc n - r)
           in (map_option ((@) (take r (drop off f))) rest, io'))"

fun file_write :: "host_io list \<Rightarrow> uint8_t list \<Rightarrow> nat \<Rightarrow> uint8_t list \<Rightarrow> bool \<times> uint8_t list \<times> host_io list" where
  "file_write io f off [] = (True, f, io)"
| "file_write [] f off (b # bs) = (False, f, [])"
| "file_write (Io_eintr # io) f off (b # bs) = file_write io f off (b # bs)"
| "file_write (Io_error # io) f off (b # bs) = (False, f, io)"
| "file_write (Io_count k # io) f off (b # bs) =
     (let r = min k (min (length (b # bs)) FILE_CHUNK) in
      if r = 0 then (False, f, io)
      else file_write io (splice f off (take r (b # bs))) (off + r) (drop r (b # bs)))"

definition valid_range :: "block_image \<Rightarrow> nat \<Rightarrow> nat \<Rightarrow> bool" where
  "valid_range im off n \<longleftrightarrow> img_fd im \<and> \<not> img_size im < off \<and> \<not> img_size im - off < n"

definition nemu_block_read :: "block_image \<Rightarrow> nat \<Rightarrow> nat \<Rightarrow> uint8_t list option \<times> block_image" where
  "nemu_block_read im off n =
     (if \<not> valid_range im off n then (None, im)
      else if n = 0 then (Some [], im)
      else case img_data im of
             Some d \<Rightarrow> (Some (take n (drop off d)), im)
           | None \<Rightarrow> let (r, io) = file_read (img_io im) (img_file im) off n in (r, im\<lparr>img_io := io\<rparr>))"

definition nemu_block_write :: "block_image \<Rightarrow> nat \<Rightarrow> uint8_t list \<Rightarrow> bool \<times> block_image" where
  "nemu_block_write im off bs =
     (if \<not> valid_range im off (length bs) then (False, im)
      else if img_mode im = NEMU_BLOCK_READONLY then (False, im)
      else if bs = [] then (True, im)
      else case img_data im of
             Some d \<Rightarrow> (True, im\<lparr>img_data := Some (splice d off bs)\<rparr>)
           | None \<Rightarrow> let (ok, f, io) = file_write (img_io im) (img_file im) off bs
                     in (ok, im\<lparr>img_file := f, img_io := io\<rparr>))"

text \<open>\<open>fsync\<close>, repeated while it is interrupted.\<close>

fun flush_loop :: "host_io list \<Rightarrow> bool \<times> host_io list" where
  "flush_loop (Io_eintr # io) = flush_loop io"
| "flush_loop (Io_count k # io) = (True, io)"
| "flush_loop (Io_error # io) = (False, io)"
| "flush_loop [] = (False, [])"

definition nemu_block_flush :: "block_image \<Rightarrow> bool \<times> block_image" where
  "nemu_block_flush im =
     (if \<not> img_fd im then (False, im)
      else if img_mode im \<noteq> NEMU_BLOCK_PERSISTENT then (True, im)
      else let (ok, io) = flush_loop (img_io im) in (ok, im\<lparr>img_io := io\<rparr>))"

text \<open>What an opened image satisfies, and the bytes it stands for.\<close>

definition image_ok :: "block_image \<Rightarrow> bool" where
  "image_ok im \<longleftrightarrow> img_fd im \<and> (img_mode im = NEMU_BLOCK_VOLATILE \<longleftrightarrow> img_data im \<noteq> None) \<and>
     (case img_data im of Some d \<Rightarrow> length d = img_size im | None \<Rightarrow> length (img_file im) = img_size im)"

definition image_bytes :: "block_image \<Rightarrow> uint8_t list" where
  "image_bytes im = (case img_data im of Some d \<Rightarrow> d | None \<Rightarrow> img_file im)"

end
