(* ===== verification/Disk.thy ===== *)
theory Disk
  imports Virtio Block_Image
begin

text \<open>
  The virtio block device, \<^verbatim>\<open>src/device/disk.c\<close>: the register window, the virtqueue and the requests.
  A state is the device, the interrupt controller and the hart with the guest memory; \<open>b\<close> is the
  device bus, which guest memory accesses must keep clear of. The journal hooks, the debug output and
  the attachment of the image at start-up are left out.
\<close>

unbundle bit_operations_syntax

abbreviation (input) VIRTIO_BLK_T_IN :: uint32_t where "VIRTIO_BLK_T_IN \<equiv> 0"

abbreviation (input) VIRTIO_BLK_T_OUT :: uint32_t where "VIRTIO_BLK_T_OUT \<equiv> 1"

abbreviation (input) VIRTIO_BLK_T_FLUSH :: uint32_t where "VIRTIO_BLK_T_FLUSH \<equiv> 4"

abbreviation (input) VIRTIO_BLK_T_GET_ID :: uint32_t where "VIRTIO_BLK_T_GET_ID \<equiv> 8"

abbreviation (input) VIRTIO_BLK_MAX_SIZE :: nat where "VIRTIO_BLK_MAX_SIZE \<equiv> 0x100000"

abbreviation (input) VIRTIO_SECTOR_SIZE :: nat where "VIRTIO_SECTOR_SIZE \<equiv> 512"

abbreviation (input) VIRTIO_QUEUE_NUM_MAX :: uint32_t where "VIRTIO_QUEUE_NUM_MAX \<equiv> 256"

record blk_state =
  virtio_blk_base :: "nat \<Rightarrow> uint8_t"
  disk_image :: block_image
  blk_features_sel :: uint32_t
  blk_driver_features_sel :: uint32_t
  blk_driver_features :: "nat \<Rightarrow> uint32_t"
  blk_queue_sel :: uint32_t
  blk_queue_num :: uint32_t
  blk_queue_ready :: uint32_t
  blk_status :: uint32_t
  blk_interrupt_status :: uint32_t
  blk_desc_addr :: word_t
  blk_driver_addr :: word_t
  blk_device_addr :: word_t
  blk_last_avail_idx :: uint16_t

type_synonym blk_world = "blk_state \<times> plic_state \<times> nemu"

section \<open>Guest memory\<close>

definition blk_mem_read :: "config \<Rightarrow> 'd mmio_state \<Rightarrow> blk_world \<Rightarrow> word_t \<Rightarrow> nat \<Rightarrow> uint8_t list option" where
  "blk_mem_read c b w addr n = dma_read c b (snd (snd w)) addr n"

definition blk_mem_write :: "config \<Rightarrow> 'd mmio_state \<Rightarrow> word_t \<Rightarrow> uint8_t list \<Rightarrow> blk_world \<Rightarrow> bool \<times> blk_world" where
  "blk_mem_write c b addr bs = (\<lambda>(k, p, s). let (ok, s') = dma_write c b addr bs s in (ok, k, p, s'))"

definition blk_enabled :: "blk_state \<Rightarrow> bool" where
  "blk_enabled k \<longleftrightarrow> img_size (disk_image k) \<noteq> 0"

definition blk_reset_regs :: "blk_state \<Rightarrow> blk_state" where
  "blk_reset_regs k = k\<lparr>blk_features_sel := 0, blk_driver_features_sel := 0, blk_driver_features := (\<lambda>_. 0),
     blk_queue_sel := 0, blk_queue_num := 0, blk_queue_ready := 0, blk_status := 0,
     blk_interrupt_status := 0, blk_desc_addr := 0, blk_driver_addr := 0, blk_device_addr := 0,
     blk_last_avail_idx := 0\<rparr>"

definition blk_queue_limit :: "blk_state \<Rightarrow> uint32_t" where
  "blk_queue_limit k = (if blk_queue_num k \<noteq> 0 then blk_queue_num k else VIRTIO_QUEUE_NUM_MAX)"

definition blk_read_desc :: "config \<Rightarrow> 'd mmio_state \<Rightarrow> blk_world \<Rightarrow> uint16_t \<Rightarrow> virtq_desc_t option" where
  "blk_read_desc c b w i =
     (if blk_queue_limit (fst w) \<le> ucast i then None
      else map_option virtq_desc_of (blk_mem_read c b w (blk_desc_addr (fst w) + ucast i * 16) 16))"

section \<open>Completion\<close>

definition write_used_elem :: "config \<Rightarrow> 'd mmio_state \<Rightarrow> uint16_t \<Rightarrow> uint32_t \<Rightarrow> blk_world \<Rightarrow> bool \<times> blk_world" where
  "write_used_elem c b i len w =
     (let k = fst w; qnum = (ucast (blk_queue_limit k) :: uint16_t) in
      case blk_mem_read c b w (blk_device_addr k + 2) 2 of
        None \<Rightarrow> (False, w)
      | Some bs \<Rightarrow>
          let used_idx = (ucast (le_word bs) :: uint16_t);
              elem_addr = blk_device_addr k + 4 + ucast (used_idx mod qnum) * 8;
              (ok1, w1) = blk_mem_write c b elem_addr (le_bytes 4 (ucast i)) w in
          if \<not> ok1 then (False, w1)
          else let (ok2, w2) = blk_mem_write c b (elem_addr + 4) (le_bytes 4 (ucast len)) w1 in
               if \<not> ok2 then (False, w2)
               else blk_mem_write c b (blk_device_addr k + 2) (le_bytes 2 (ucast (used_idx + 1))) w2)"

definition finish_request :: "config \<Rightarrow> 'd mmio_state \<Rightarrow> uint16_t \<Rightarrow> uint32_t \<Rightarrow> blk_world \<Rightarrow> blk_world" where
  "finish_request c b head used_len w =
     (let (ok, (k, d)) = write_used_elem c b head used_len w in
      if ok then (k\<lparr>blk_interrupt_status := blk_interrupt_status k OR 1\<rparr>, plic_raise_source c 1 d)
      else (k, d))"

section \<open>Data transfer\<close>

text \<open>The identity string of \<open>GET_ID\<close>, \<open>NEMU-VIRTIO-BLK\<close> in 20 bytes.\<close>

definition blk_identity :: "uint8_t list" where
  "blk_identity = [0x4e, 0x45, 0x4d, 0x55, 0x2d, 0x56, 0x49, 0x52, 0x54, 0x49, 0x4f, 0x2d, 0x42, 0x4c, 0x4b,
     0, 0, 0, 0, 0]"

definition identity_chunk :: "nat \<Rightarrow> nat \<Rightarrow> uint8_t list" where
  "identity_chunk done chunk =
     (let part = (if done < 20 then min (20 - done) chunk else 0)
      in take part (drop done blk_identity) @ replicate (chunk - part) 0)"

text \<open>One chunk; the result carries the new disk offset and used length.\<close>

definition transfer_chunk ::
    "config \<Rightarrow> 'd mmio_state \<Rightarrow> uint32_t \<Rightarrow> word_t \<Rightarrow> nat \<Rightarrow> nat \<Rightarrow> nat \<Rightarrow> uint32_t \<Rightarrow> blk_world \<Rightarrow>
     bool \<times> uint32_t \<times> blk_world" where
  "transfer_chunk c b ty address done chunk offset used w =
     (let k = fst w; d = snd w in
      if ty = VIRTIO_BLK_T_OUT then
        (case blk_mem_read c b w (address + of_nat done) chunk of
           None \<Rightarrow> (False, used, w)
         | Some bs \<Rightarrow>
             let (ok, im) = nemu_block_write (disk_image k) offset bs
             in (ok, used, k\<lparr>disk_image := im\<rparr>, d))
      else
        let (r, im) = (if ty = VIRTIO_BLK_T_IN then nemu_block_read (disk_image k) offset chunk
                       else (Some (identity_chunk done chunk), disk_image k));
            w1 = (k\<lparr>disk_image := im\<rparr>, d) in
        case r of
          None \<Rightarrow> (False, used, w1)
        | Some bs \<Rightarrow>
            let (ok, w2) = blk_mem_write c b (address + of_nat done) bs w1
            in if ok then (True, used + of_nat chunk, w2) else (False, used, w2))"

function transfer_loop ::
    "config \<Rightarrow> 'd mmio_state \<Rightarrow> uint32_t \<Rightarrow> word_t \<Rightarrow> nat \<Rightarrow> nat \<Rightarrow> nat \<Rightarrow> uint32_t \<Rightarrow> blk_world \<Rightarrow>
     bool \<times> nat \<times> uint32_t \<times> blk_world" where
  "transfer_loop c b ty address len done offset used w =
     (if done < len then
        let chunk = min (len - done) 65536;
            (ok, used', w') = transfer_chunk c b ty address done chunk offset used w in
        if \<not> ok then (False, offset, used', w')
        else transfer_loop c b ty address len (done + chunk)
               (if ty = VIRTIO_BLK_T_GET_ID then offset else offset + chunk) used' w'
      else (True, offset, used, w))"
  by pat_completeness auto

termination transfer_loop
  by (relation "measure (\<lambda>(c, b, ty, address, len, done, offset, used, w). len - done)") auto

declare transfer_loop.simps [simp del]

definition transfer_data ::
    "config \<Rightarrow> 'd mmio_state \<Rightarrow> uint32_t \<Rightarrow> word_t \<Rightarrow> uint32_t \<Rightarrow> nat \<Rightarrow> uint32_t \<Rightarrow> blk_world \<Rightarrow>
     bool \<times> nat \<times> uint32_t \<times> blk_world" where
  "transfer_data c b ty address len offset used w =
     (let sz = img_size (disk_image (fst w)) in
      if VIRTIO_BLK_MAX_SIZE < unat len \<or>
         (ty \<noteq> VIRTIO_BLK_T_GET_ID \<and> (sz < offset \<or> sz - offset < unat len))
      then (False, offset, used, w)
      else transfer_loop c b ty address (unat len) 0 offset used w)"

section \<open>Requests\<close>

text \<open>The walk of the descriptor chain: the verdict, the status descriptor, the used length.\<close>

primrec process_chain ::
    "config \<Rightarrow> 'd mmio_state \<Rightarrow> uint32_t \<Rightarrow> nat \<Rightarrow> uint16_t \<Rightarrow> bool \<Rightarrow> nat \<Rightarrow> uint32_t \<Rightarrow> blk_world \<Rightarrow>
     bool \<times> virtq_desc_t option \<times> uint32_t \<times> blk_world" where
  "process_chain c b ty 0 i io_ok offset used w = (io_ok, None, used, w)"
| "process_chain c b ty (Suc n) i io_ok offset used w =
     (case blk_read_desc c b w i of
        None \<Rightarrow> (False, None, used, w)
      | Some desc \<Rightarrow>
          if \<not> desc_has_next desc
          then (io_ok, if 1 \<le> desc_len desc \<and> desc_writable desc then Some desc else None, used, w)
          else
            let supported = (ty = VIRTIO_BLK_T_IN \<or> ty = VIRTIO_BLK_T_OUT \<or> ty = VIRTIO_BLK_T_GET_ID);
                ok1 = (io_ok \<and> supported \<and> desc_writable desc = (ty \<noteq> VIRTIO_BLK_T_OUT)) in
            if ok1 then
              let (ok2, offset', used', w') = transfer_data c b ty (desc_at desc) (desc_len desc) offset used w
              in process_chain c b ty n (desc_next desc) ok2 offset' used' w'
            else process_chain c b ty n (desc_next desc) False offset used w)"

text \<open>The verdict before the chain is walked, and the disk offset.\<close>

definition request_start :: "blk_state \<Rightarrow> uint32_t \<Rightarrow> word_t \<Rightarrow> bool \<times> nat" where
  "request_start k ty sector =
     (let byte_off = sector * of_nat VIRTIO_SECTOR_SIZE;
          inside = (sector \<le> (- 1) div of_nat VIRTIO_SECTOR_SIZE \<and> unat byte_off < img_size (disk_image k));
          ok1 = (inside \<or> ty = VIRTIO_BLK_T_GET_ID);
          ok2 = (ok1 \<and> \<not> (ty = VIRTIO_BLK_T_OUT \<and> img_mode (disk_image k) = NEMU_BLOCK_READONLY));
          ok3 = (if ty = VIRTIO_BLK_T_FLUSH
                 then img_mode (disk_image k) = NEMU_BLOCK_PERSISTENT \<and> sector = 0 else ok2)
      in (ok3, if inside then unat byte_off else 0))"

definition request_needs_flush :: "blk_state \<Rightarrow> uint32_t \<Rightarrow> bool" where
  "request_needs_flush k ty \<longleftrightarrow>
     ty = VIRTIO_BLK_T_FLUSH \<or>
     (ty = VIRTIO_BLK_T_OUT \<and> img_mode (disk_image k) = NEMU_BLOCK_PERSISTENT \<and>
      blk_driver_features k 0 AND 0x200 = 0)"

text \<open>The flush a request asks for, then the status byte and the used element.\<close>

definition request_flush :: "uint32_t \<Rightarrow> bool \<Rightarrow> virtq_desc_t option \<Rightarrow> blk_state \<Rightarrow> bool \<times> blk_state" where
  "request_flush ty io_ok st k =
     (if io_ok \<and> st \<noteq> None \<and> request_needs_flush k ty
      then let (ok, im) = nemu_block_flush (disk_image k) in (ok, k\<lparr>disk_image := im\<rparr>)
      else (io_ok, k))"

definition complete_request ::
    "config \<Rightarrow> 'd mmio_state \<Rightarrow> uint16_t \<Rightarrow> uint32_t \<Rightarrow> bool \<Rightarrow> virtq_desc_t option \<Rightarrow> uint32_t \<Rightarrow>
     blk_world \<Rightarrow> blk_world" where
  "complete_request c b head ty io_ok st used w =
     (let (io_ok', k) = request_flush ty io_ok st (fst w);
          status = (if \<not> io_ok' \<or> (ty \<noteq> VIRTIO_BLK_T_IN \<and> ty \<noteq> VIRTIO_BLK_T_OUT \<and>
                      ty \<noteq> VIRTIO_BLK_T_GET_ID \<and> ty \<noteq> VIRTIO_BLK_T_FLUSH) then 1 else 0);
          (wrote, w') = (case st of None \<Rightarrow> (False, (k, snd w))
                         | Some desc \<Rightarrow> blk_mem_write c b (desc_at desc) [status] (k, snd w))
      in finish_request c b head (if wrote then used + 1 else used) w')"

definition process_one :: "config \<Rightarrow> 'd mmio_state \<Rightarrow> uint16_t \<Rightarrow> blk_world \<Rightarrow> blk_world" where
  "process_one c b head w =
     (case blk_read_desc c b w head of
        None \<Rightarrow> finish_request c b head 0 w
      | Some desc0 \<Rightarrow>
          if desc_len desc0 < 16 \<or> \<not> desc_has_next desc0 \<or> desc_writable desc0
          then finish_request c b head 0 w
          else case blk_mem_read c b w (desc_at desc0) 16 of
            None \<Rightarrow> finish_request c b head 0 w
          | Some req \<Rightarrow>
              let ty = (ucast (le_field req 0 4) :: uint32_t); sector = le_field req 8 8;
                  (io_ok, off) = request_start (fst w) ty sector;
                  (io_ok', st, used, w') =
                    process_chain c b ty (unat (blk_queue_limit (fst w)) - 1) (desc_next desc0) io_ok off 0 w
              in complete_request c b head ty io_ok' st used w')"

section \<open>What a request leaves alone\<close>

definition blk_regs :: "blk_state \<Rightarrow> blk_state" where
  "blk_regs k = k\<lparr>disk_image := undefined, blk_interrupt_status := 0\<rparr>"

lemma blk_regs_same [simp]: "blk_regs (k\<lparr>disk_image := im\<rparr>) = blk_regs k"
  "blk_regs (k\<lparr>blk_interrupt_status := x\<rparr>) = blk_regs k"
  by (simp_all add: blk_regs_def)

lemma blk_regs_fields:
  assumes "blk_regs k = blk_regs k'"
  shows "blk_last_avail_idx k = blk_last_avail_idx k'" "blk_queue_num k = blk_queue_num k'"
    "blk_driver_addr k = blk_driver_addr k'" "blk_device_addr k = blk_device_addr k'"
    "blk_desc_addr k = blk_desc_addr k'" "blk_driver_features k = blk_driver_features k'"
  using arg_cong [OF assms, of blk_last_avail_idx] arg_cong [OF assms, of blk_queue_num]
    arg_cong [OF assms, of blk_driver_addr] arg_cong [OF assms, of blk_device_addr]
    arg_cong [OF assms, of blk_desc_addr] arg_cong [OF assms, of blk_driver_features]
  by (simp_all add: blk_regs_def)

lemma fst_blk_mem_write [simp]: "fst (snd (blk_mem_write c b a bs w)) = fst w"
  by (simp add: blk_mem_write_def split: prod.split)

lemma blk_mem_writeD: "blk_mem_write c b a bs w = (ok, w') \<Longrightarrow> fst w' = fst w"
  using fst_blk_mem_write [of c b a bs w] by simp

lemma fst_write_used_elem: "write_used_elem c b i len w = (ok, w') \<Longrightarrow> fst w' = fst w"
  by (auto simp: write_used_elem_def Let_def split: option.splits prod.splits if_splits dest!: blk_mem_writeD)

lemma finish_request_regs: "blk_regs (fst (finish_request c b head n w)) = blk_regs (fst w)"
  by (auto simp: finish_request_def split: prod.split dest!: fst_write_used_elem)

lemma transfer_chunk_regs:
  "transfer_chunk c b ty a done chunk off used w = (ok, used', w') \<Longrightarrow> blk_regs (fst w') = blk_regs (fst w)"
  by (auto simp: transfer_chunk_def Let_def split: option.splits prod.splits if_splits dest!: blk_mem_writeD)

lemma transfer_loop_regs:
  "transfer_loop c b ty a len done off used w = (ok, off', used', w') \<Longrightarrow> blk_regs (fst w') = blk_regs (fst w)"
proof (induction c b ty a len "done" off used w rule: transfer_loop.induct)
  case (1 c b ty a len "done" off used w)
  obtain ok1 u1 w1 where 2: "transfer_chunk c b ty a done (min (len - done) 65536) off used w = (ok1, u1, w1)"
    by (metis prod.exhaust)
  note step = 1(2) [unfolded transfer_loop.simps [of c b ty a len "done" off used w]]
  show ?case
  proof (cases "done < len \<and> ok1")
    case True
    with 1(1) [OF _ refl 2 [symmetric] refl refl] step 2 have "blk_regs (fst w') = blk_regs (fst w1)"
      by (simp add: Let_def)
    with transfer_chunk_regs [OF 2] show ?thesis by simp
  next
    case False
    with step 2 transfer_chunk_regs [OF 2] show ?thesis by (auto simp: Let_def split: if_splits)
  qed
qed

lemma transfer_data_regs:
  "transfer_data c b ty a len off used w = (ok, off', used', w') \<Longrightarrow> blk_regs (fst w') = blk_regs (fst w)"
  by (auto simp: transfer_data_def Let_def split: if_splits dest: transfer_loop_regs)

lemma process_chain_regs:
  "process_chain c b ty n i io off used w = (ok, st, used', w') \<Longrightarrow> blk_regs (fst w') = blk_regs (fst w)"
proof (induction n arbitrary: i io off used w)
  case (Suc n)
  show ?case
    using Suc.prems
    by (auto simp: Let_def split: option.splits prod.splits if_splits dest!: Suc.IH transfer_data_regs)
qed simp

lemma complete_request_regs: "blk_regs (fst (complete_request c b head ty io st used w)) = blk_regs (fst w)"
  by (auto simp: complete_request_def request_flush_def Let_def finish_request_regs
      split: option.split prod.split if_splits dest!: blk_mem_writeD)

lemma process_one_regs: "blk_regs (fst (process_one c b head w)) = blk_regs (fst w)"
  by (auto simp: process_one_def Let_def finish_request_regs complete_request_regs
      split: option.split prod.split dest!: process_chain_regs)

section \<open>The queue\<close>

text \<open>
  The requests between \<open>last_avail_idx\<close> and the driver's index, which is read once; the loop also
  ends at a ring entry that cannot be read.
\<close>

function service_loop :: "config \<Rightarrow> 'd mmio_state \<Rightarrow> uint16_t \<Rightarrow> uint16_t \<Rightarrow> blk_world \<Rightarrow> blk_world" where
  "service_loop c b qnum avail_idx w =
     (if blk_last_avail_idx (fst w) = avail_idx then w
      else case blk_mem_read c b w (blk_driver_addr (fst w) + 4 + ucast (blk_last_avail_idx (fst w) mod qnum) * 2) 2 of
        None \<Rightarrow> w
      | Some bs \<Rightarrow>
          let head = (ucast (le_word bs) :: uint16_t);
              w1 = (if head < qnum then process_one c b head w else w)
          in service_loop c b qnum avail_idx
               ((fst w1)\<lparr>blk_last_avail_idx := blk_last_avail_idx (fst w1) + 1\<rparr>, snd w1))"
  by pat_completeness auto

lemma blk_distance_step:
  fixes x y :: uint16_t
  assumes "x \<noteq> y"
  shows "unat (y - x) = Suc (unat (y - (x + 1)))"
proof -
  have "unat (y - x - 1) = unat (y - x) - 1" using assms by (intro unat_minus_one) simp
  moreover have "0 < unat (y - x)" using assms by (simp add: unat_gt_0)
  ultimately show ?thesis by (simp add: algebra_simps)
qed

lemma process_one_last: "blk_last_avail_idx (fst (process_one c b head w)) = blk_last_avail_idx (fst w)"
  by (rule blk_regs_fields) (rule process_one_regs)

termination service_loop
  by (relation "measure (\<lambda>(c, b, qnum, avail_idx, w). unat (avail_idx - blk_last_avail_idx (fst w)))")
    (auto simp: process_one_last blk_distance_step)

declare service_loop.simps [simp del]

definition blk_service_queue :: "config \<Rightarrow> 'd mmio_state \<Rightarrow> blk_world \<Rightarrow> blk_world" where
  "blk_service_queue c b w =
     (let k = fst w in
      if \<not> blk_enabled k \<or> blk_queue_sel k \<noteq> 0 \<or> blk_queue_ready k = 0 \<or> blk_status k AND 4 = 0 \<or>
         blk_desc_addr k = 0 \<or> blk_driver_addr k = 0 \<or> blk_device_addr k = 0
      then w
      else
        let q0 = (ucast (blk_queue_limit k) :: uint16_t);
            qnum = (if 256 < q0 then 256 else q0) in
        case blk_mem_read c b w (blk_driver_addr k + 2) 2 of
          None \<Rightarrow> w
        | Some bs \<Rightarrow> service_loop c b qnum (ucast (le_word bs)) w)"

section \<open>The register window\<close>

definition blk_read_reg32 :: "nat \<Rightarrow> blk_state \<Rightarrow> uint32_t" where
  "blk_read_reg32 base k =
     (let im = disk_image k; sectors = of_nat (img_size im div VIRTIO_SECTOR_SIZE) :: word_t in
      if base = 0x000 then 0x74726976
      else if base = 0x004 then 2
      else if base = 0x008 then if blk_enabled k then 2 else 0
      else if base = 0x00c then 0x554d4551
      else if base = 0x010 then
        if blk_features_sel k = 1 then 1
        else 0x6 OR (if img_mode im = NEMU_BLOCK_READONLY then 0x20 else 0) OR
             (if img_mode im = NEMU_BLOCK_PERSISTENT then 0x200 else 0)
      else if base = 0x034 then if blk_enabled k \<and> blk_queue_sel k = 0 then VIRTIO_QUEUE_NUM_MAX else 0
      else if base = 0x044 then blk_queue_ready k
      else if base = 0x060 then blk_interrupt_status k
      else if base = 0x070 then blk_status k
      else if base = 0x100 then ucast sectors
      else if base = 0x104 then ucast (drop_bit 32 sectors)
      else if base = 0x108 then of_nat VIRTIO_BLK_MAX_SIZE
      else if base = 0x10c then 128
      else 0)"

definition blk_set_queue_num :: "uint32_t \<Rightarrow> blk_state \<Rightarrow> blk_state" where
  "blk_set_queue_num v k =
     k\<lparr>blk_queue_num := (if VIRTIO_QUEUE_NUM_MAX < v then VIRTIO_QUEUE_NUM_MAX else v)\<rparr>"

definition blk_write_reg :: "config \<Rightarrow> 'd mmio_state \<Rightarrow> nat \<Rightarrow> nat \<Rightarrow> blk_world \<Rightarrow> blk_world" where
  "blk_write_reg c b offset len = (\<lambda>(k, d).
     let base = 4 * (offset div 4); w = virtio_blk_base k;
         put32 = write_reg32 w offset len; put64 = write_reg64 w offset len in
      if base = 0x014 then (k\<lparr>blk_features_sel := put32 (blk_features_sel k)\<rparr>, d)
      else if base = 0x020 then
        let i = unat (blk_driver_features_sel k AND 1)
        in (k\<lparr>blk_driver_features := (blk_driver_features k)(i := put32 (blk_driver_features k i))\<rparr>, d)
      else if base = 0x024 then (k\<lparr>blk_driver_features_sel := put32 (blk_driver_features_sel k)\<rparr>, d)
      else if base = 0x030 then (k\<lparr>blk_queue_sel := put32 (blk_queue_sel k)\<rparr>, d)
      else if base = 0x038 then (blk_set_queue_num (put32 (blk_queue_num k)) k, d)
      else if base = 0x044 then (k\<lparr>blk_queue_ready := put32 (blk_queue_ready k) AND 1\<rparr>, d)
      else if base = 0x050 then blk_service_queue c b (k, d)
      else if base = 0x064 then
        (k\<lparr>blk_interrupt_status := blk_interrupt_status k AND NOT (ucast (win_load w offset len))\<rparr>, d)
      else if base = 0x070 then
        let k' = k\<lparr>blk_status := put32 (blk_status k)\<rparr>
        in (if blk_status k' = 0 then blk_reset_regs k' else k', d)
      else if base = 0x080 then (k\<lparr>blk_desc_addr := put64 False (blk_desc_addr k)\<rparr>, d)
      else if base = 0x084 then (k\<lparr>blk_desc_addr := put64 True (blk_desc_addr k)\<rparr>, d)
      else if base = 0x090 then (k\<lparr>blk_driver_addr := put64 False (blk_driver_addr k)\<rparr>, d)
      else if base = 0x094 then (k\<lparr>blk_driver_addr := put64 True (blk_driver_addr k)\<rparr>, d)
      else if base = 0x0a0 then (k\<lparr>blk_device_addr := put64 False (blk_device_addr k)\<rparr>, d)
      else if base = 0x0a4 then (k\<lparr>blk_device_addr := put64 True (blk_device_addr k)\<rparr>, d)
      else (k, d))"

text \<open>A store of 8 bytes shifts by 64 in \<open>write_reg32\<close>, which C leaves undefined: \<open>None\<close>.\<close>

definition virtio_blk_io_handler :: "config \<Rightarrow> 'd mmio_state \<Rightarrow> blk_world io_callback" where
  "virtio_blk_io_handler c b offset len is_write = (\<lambda>(k, d).
     if is_write then if reg_len_ok len then Some (blk_write_reg c b offset len (k, d)) else None
     else let base = 4 * (offset div 4)
          in Some (k\<lparr>virtio_blk_base := win_store32 (virtio_blk_base k) base (blk_read_reg32 base k)\<rparr>, d))"

end
