(* ===== verification/Dma.thy ===== *)
theory Dma
  imports Mmio Paddr_Correct
begin

text \<open>
  Facts on the DMA entry points: a transfer in pieces is the transfer of the whole, what it may
  touch, and what is read back.
\<close>

unbundle bit_operations_syntax

lemma copy_in_append: "copy_in m a (xs @ ys) = copy_in (copy_in m a xs) (a + of_nat (length xs)) ys"
  by (induction xs arbitrary: m a) (simp_all add: algebra_simps)

lemma copy_in_other:
  "(\<And>i. i < length bs \<Longrightarrow> x \<noteq> a + of_nat i) \<Longrightarrow> copy_in m a bs x = m x"
proof (induction bs arbitrary: m a)
  case (Cons b bs)
  have "x \<noteq> a" using Cons.prems [of 0] by simp
  moreover have "x \<noteq> a + 1 + of_nat i" if "i < length bs" for i
    using Cons.prems [of "Suc i"] that by (simp add: algebra_simps)
  ultimately show ?case using Cons.IH [of "a + 1" "m(a := b)"] by (metis copy_in.simps(2) fun_upd_other)
qed simp

lemma copy_in_nth:
  "i < length bs \<Longrightarrow> length bs \<le> 2 ^ 63 \<Longrightarrow> copy_in m a bs (a + of_nat i) = bs ! i"
proof (induction bs arbitrary: m a i)
  case (Cons b bs)
  show ?case
  proof (cases i)
    case 0
    have "a \<noteq> a + 1 + of_nat j" if "j < length bs" for j
      using that Cons.prems(2) of_nat_neq_0_64 [of "Suc j"] by (simp add: add.assoc)
    then show ?thesis using 0 by (simp add: copy_in_other)
  next
    case (Suc j)
    then show ?thesis
      using Cons.IH [of j "m(a := b)" "a + 1"] Cons.prems by (simp add: algebra_simps del: fun_upd_apply)
  qed
qed simp

lemma copy_out_in: "length bs \<le> 2 ^ 63 \<Longrightarrow> copy_out (copy_in m a bs) a (length bs) = bs"
  unfolding copy_out_def by (rule nth_equalityI) (simp_all add: copy_in_nth)

lemma copy_out_sub: "i + n \<le> k \<Longrightarrow> copy_out m (a + of_nat i) n = take n (drop i (copy_out m a k))"
  unfolding copy_out_def by (rule nth_equalityI) (simp_all add: algebra_simps)

section \<open>Parts of a span\<close>

lemma part_bounds:
  fixes a :: paddr_t
  assumes "\<not> a + of_nat k - 1 < a" and "i + n \<le> k" and "0 < n" and "k \<le> 2 ^ 63"
  shows "a \<le> a + of_nat i" "a + of_nat i \<le> a + of_nat i + of_nat n - 1"
    "a + of_nat i + of_nat n - 1 \<le> a + of_nat k - 1" "a \<le> a + of_nat i + of_nat n - 1"
    "a + of_nat i \<le> a + of_nat k - 1"
proof -
  have last: "unat (a + of_nat k - 1) = unat a + k - 1" "unat a + k \<le> 2 ^ 64"
    using span_last [of k a] assms by simp_all
  have i: "unat (a + of_nat i) = unat a + i" using span_byte [of a k i] last(2) assms(2,3) by simp
  have "a + of_nat i + of_nat n - 1 = a + of_nat (i + n - 1)"
    using assms(3) by (simp add: of_nat_diff)
  also have "unat \<dots> = unat a + (i + n - 1)"
    using last(2) assms(2,3) by (intro span_byte(1) [of a k]) simp_all
  finally have e: "unat (a + of_nat i + of_nat n - 1) = unat a + (i + n - 1)" .
  show "a \<le> a + of_nat i" "a + of_nat i \<le> a + of_nat i + of_nat n - 1"
    "a + of_nat i + of_nat n - 1 \<le> a + of_nat k - 1" "a \<le> a + of_nat i + of_nat n - 1"
    "a + of_nat i \<le> a + of_nat k - 1"
    unfolding word_le_nat_alt e last(1) i using assms(2,3) by simp_all
qed

lemma region_interval:
  assumes "a \<le> x" and "x \<le> z"
  shows "in_pmem c a \<Longrightarrow> in_pmem c z \<Longrightarrow> in_pmem c x" "in_rom c a \<Longrightarrow> in_rom c z \<Longrightarrow> in_rom c x"
    "in_sram a \<Longrightarrow> in_sram z \<Longrightarrow> in_sram x" "in_mrom a \<Longrightarrow> in_mrom z \<Longrightarrow> in_mrom x"
    "in_flash c a \<Longrightarrow> in_flash c z \<Longrightarrow> in_flash c x" "in_sdram c a \<Longrightarrow> in_sdram c z \<Longrightarrow> in_sdram c x"
  using assms unfolding in_pmem_def in_rom_def in_sram_def in_mrom_def in_flash_def in_sdram_def
  by (blast intro: order_trans le_less_trans)+

lemma ram_span_part:
  assumes "paddr_is_ram_span c a k" and "i + n \<le> k" and "0 < n" and "k \<le> 2 ^ 63"
  shows "paddr_is_ram_span c (a + of_nat i) n"
proof -
  from assms(1) have w: "\<not> a + of_nat k - 1 < a"
    and r: "in_pmem c a \<and> in_pmem c (a + of_nat k - 1) \<or> in_sram a \<and> in_sram (a + of_nat k - 1) \<or>
      in_sdram c a \<and> in_sdram c (a + of_nat k - 1)"
    by (auto simp: paddr_is_ram_span_def Let_def split: if_splits)
  note part = part_bounds [OF w assms(2-4)]
  from r region_interval [OF part(1,5)] region_interval [OF part(4,3)] part(2) assms(3) show ?thesis
    unfolding paddr_is_ram_span_def Let_def by (metis not_less less_not_refl)
qed

lemma memory_span_part:
  assumes "paddr_is_memory_span c a k" and "i + n \<le> k" and "0 < n" and "k \<le> 2 ^ 63"
  shows "paddr_is_memory_span c (a + of_nat i) n"
proof -
  from assms(1) have w: "\<not> a + of_nat k - 1 < a"
    and r: "in_pmem c a \<and> in_pmem c (a + of_nat k - 1) \<or> in_rom c a \<and> in_rom c (a + of_nat k - 1) \<or>
      in_sram a \<and> in_sram (a + of_nat k - 1) \<or> in_mrom a \<and> in_mrom (a + of_nat k - 1) \<or>
      in_flash c a \<and> in_flash c (a + of_nat k - 1) \<or> in_sdram c a \<and> in_sdram c (a + of_nat k - 1)"
    by (auto simp: paddr_is_memory_span_def Let_def split: if_splits)
  note part = part_bounds [OF w assms(2-4)]
  from r region_interval [OF part(1,5)] region_interval [OF part(4,3)] part(2) assms(3) show ?thesis
    unfolding paddr_is_memory_span_def Let_def by (metis not_less less_not_refl)
qed

lemma no_overlap_part:
  assumes "\<not> mmio_map_overlaps b a k" and "i + n \<le> k" and "0 < n" and "k \<le> 2 ^ 63"
    and "\<not> a + of_nat k - 1 < a"
  shows "\<not> mmio_map_overlaps b (a + of_nat i) n"
proof -
  note part = part_bounds [OF assms(5,2-4)]
  have k: "0 < k" using assms(2,3) by simp
  have last: "unat a + k \<le> 2 ^ 64" using span_last [OF k assms(4,5)] by simp
  have "unat (a + of_nat i) = unat a + i" using span_byte [OF last, of i] assms(2,3) by simp
  moreover have "unat (- 1 :: paddr_t) = 2 ^ 64 - 1" by (simp add: unsigned_minus_1_eq_mask mask_eq_exp_minus_1)
  ultimately have "\<not> unat (- 1 - (a + of_nat i)) < n - 1"
    using last assms(2,3) by (subst unat_sub) simp_all
  moreover have "\<not> list_ex (\<lambda>m. a \<le> map_high m \<and> map_low m \<le> a + of_nat k - 1) (maps b)"
    using assms(1) k by (auto simp: mmio_map_overlaps_def Let_def split: if_splits)
  ultimately show ?thesis
    using assms(3) part(1,3) by (auto simp: mmio_map_overlaps_def Let_def list_ex_iff intro: order_trans)
qed

section \<open>Transfers in pieces\<close>

lemma dma_readD:
  assumes "dma_read c b s a n = Some bs" and "n \<noteq> 0"
  shows "\<not> mmio_map_overlaps b a n" "n \<le> INT32_MAX" "paddr_is_memory_span c a n" "bs = copy_out (phys s) a n"
    "\<not> a + of_nat n - 1 < a"
  using assms
  by (auto simp: dma_read_def paddr_dma_read_def paddr_is_memory_span_def Let_def split: if_splits)

lemma dma_read_part:
  assumes "dma_read c b s a k = Some bs" and "i + n \<le> k" and "0 < n"
  shows "dma_read c b s (a + of_nat i) n = Some (take n (drop i bs))"
proof -
  have k: "k \<noteq> 0" using assms(2,3) by simp
  note d = dma_readD [OF assms(1) k]
  have 63: "k \<le> 2 ^ 63" using d(2) by (simp add: INT32_MAX_def)
  show ?thesis
    using no_overlap_part [OF d(1) assms(2,3) 63 d(5)] memory_span_part [OF d(3) assms(2,3) 63]
      copy_out_sub [OF assms(2), of "phys s" a] d(2,4) assms(2,3)
    by (simp add: dma_read_def paddr_dma_read_def)
qed

text \<open>What a write needs, and what it then does.\<close>

definition dma_writable :: "config \<Rightarrow> 'd mmio_state \<Rightarrow> paddr_t \<Rightarrow> nat \<Rightarrow> bool" where
  "dma_writable c b a n \<longleftrightarrow>
     n = 0 \<or> (\<not> mmio_map_overlaps b a n \<and> n \<le> INT32_MAX \<and> paddr_is_ram_span c a n)"

lemma dma_write_eq:
  "dma_write c b a bs s =
     (if dma_writable c b a (length bs) then (True, s\<lparr>phys := copy_in (phys s) a bs\<rparr>) else (False, s))"
  by (auto simp: dma_write_def paddr_dma_write_def dma_writable_def mmio_map_overlaps_def)

lemma dma_writable_part:
  assumes "dma_writable c b a k" and "i + n \<le> k"
  shows "dma_writable c b (a + of_nat i) n"
proof (cases "n = 0")
  case False
  then have d: "\<not> mmio_map_overlaps b a k" "k \<le> INT32_MAX" "paddr_is_ram_span c a k"
    using assms by (auto simp: dma_writable_def)
  then have 63: "k \<le> 2 ^ 63" and w: "\<not> a + of_nat k - 1 < a"
    by (auto simp: INT32_MAX_def paddr_is_ram_span_def Let_def split: if_splits)
  show ?thesis
    using no_overlap_part [OF d(1) assms(2) _ 63 w] ram_span_part [OF d(3) assms(2) _ 63] d(2) False assms(2)
    by (auto simp: dma_writable_def)
qed (simp add: dma_writable_def)

text \<open>A write only changes bytes of RAM.\<close>

lemma dma_write_frame:
  assumes "dma_write c b a bs s = (ok, s')"
  shows "s' = s\<lparr>phys := phys s'\<rparr>" "\<not> paddr_is_ram_span c x 1 \<Longrightarrow> phys s' x = phys s x"
proof -
  show "s' = s\<lparr>phys := phys s'\<rparr>" using assms by (auto simp: dma_write_eq split: if_splits)
  assume x: "\<not> paddr_is_ram_span c x 1"
  show "phys s' x = phys s x"
  proof (cases "dma_writable c b a (length bs)")
    case True
    have "x \<noteq> a + of_nat i" if "i < length bs" for i
      using dma_writable_part [OF True, of i 1] that x by (auto simp: dma_writable_def)
    with True assms copy_in_other [of bs x a] show ?thesis by (auto simp: dma_write_eq)
  qed (use assms in \<open>auto simp: dma_write_eq\<close>)
qed

end
