(* ===== verification/Disk_Correct.thy ===== *)
theory Disk_Correct
  imports Disk Dma Demo
begin

text \<open>
  The block device: a request keeps the image well formed, never writes a read-only image and never
  touches guest memory outside RAM; a notify drains the queue; what is written to the disk is read back.
\<close>

unbundle bit_operations_syntax

section \<open>Images\<close>

lemma length_splice: "off + length ys \<le> length xs \<Longrightarrow> length (splice xs off ys) = length xs"
  by (simp add: splice_def)

lemma file_write_length:
  "file_write io f off bs = (ok, f', io') \<Longrightarrow> off + length bs \<le> length f \<Longrightarrow> length f' = length f"
proof (induction io f off bs rule: file_write.induct)
  case (5 k io f off b bs)
  let ?r = "min k (min (length (b # bs)) FILE_CHUNK)"
  show ?case
  proof (cases "?r = 0")
    case False
    have "length (splice f off (take ?r (b # bs))) = length f"
      using 5(3) by (intro length_splice) simp
    moreover have "file_write io (splice f off (take ?r (b # bs))) (off + ?r) (drop ?r (b # bs)) = (ok, f', io')"
      using 5(2) False by (simp only: file_write.simps Let_def if_False)
    moreover have "off + ?r + length (drop ?r (b # bs)) \<le> length f" using 5(3) by simp
    ultimately show ?thesis using 5(1) [OF refl False] by simp
  qed (use 5(2) in \<open>simp add: Let_def\<close>)
qed auto

text \<open>The image keeps its size, its mode and, read-only, its bytes.\<close>

definition image_kept :: "block_image \<Rightarrow> block_image \<Rightarrow> bool" where
  "image_kept im im' \<longleftrightarrow> (image_ok im \<longrightarrow> image_ok im') \<and> img_size im' = img_size im \<and>
     img_mode im' = img_mode im \<and> (img_mode im = NEMU_BLOCK_READONLY \<longrightarrow> image_bytes im' = image_bytes im)"

lemma image_kept_refl [simp]: "image_kept im im"
  by (simp add: image_kept_def)

lemma image_kept_trans: "image_kept a b \<Longrightarrow> image_kept b c \<Longrightarrow> image_kept a c"
  by (auto simp: image_kept_def)

lemma image_kept_io [simp]: "image_kept im (im\<lparr>img_io := io\<rparr>)"
  by (simp add: image_kept_def image_ok_def image_bytes_def split: option.split)

lemma nemu_block_read_kept: "nemu_block_read im off n = (r, im') \<Longrightarrow> image_kept im im'"
  by (auto simp: nemu_block_read_def split: if_splits option.splits prod.splits)

lemma nemu_block_flush_kept: "nemu_block_flush im = (ok, im') \<Longrightarrow> image_kept im im'"
  by (auto simp: nemu_block_flush_def split: if_splits prod.splits)

lemma nemu_block_write_kept:
  assumes "nemu_block_write im off bs = (ok, im')"
  shows "image_kept im im'"
proof (cases "valid_range im off (length bs) \<and> img_mode im \<noteq> NEMU_BLOCK_READONLY \<and> bs \<noteq> []")
  case True
  then have fits: "off + length bs \<le> img_size im" by (auto simp: valid_range_def)
  show ?thesis
  proof (cases "img_data im")
    case None
    obtain ok1 f io where f: "file_write (img_io im) (img_file im) off bs = (ok1, f, io)" by (metis prod.exhaust)
    have "im' = im\<lparr>img_file := f, img_io := io\<rparr>" using assms True None f by (simp add: nemu_block_write_def)
    then show ?thesis
      using None True file_write_length [OF f] fits by (auto simp: image_kept_def image_ok_def)
  next
    case (Some d)
    then have "im' = im\<lparr>img_data := Some (splice d off bs)\<rparr>" using assms True by (simp add: nemu_block_write_def)
    then show ?thesis
      using Some True length_splice [of off bs d] fits by (auto simp: image_kept_def image_ok_def)
  qed
qed (use assms in \<open>auto simp: nemu_block_write_def split: if_splits\<close>)

section \<open>Guest memory and image through a request\<close>

definition blk_safe :: "config \<Rightarrow> blk_world \<Rightarrow> blk_world \<Rightarrow> bool" where
  "blk_safe c w w' \<longleftrightarrow> image_kept (disk_image (fst w)) (disk_image (fst w')) \<and>
     (\<forall>x. \<not> paddr_is_ram_span c x 1 \<longrightarrow> phys (snd (snd w')) x = phys (snd (snd w)) x)"

lemma blk_safe_refl [simp]: "blk_safe c w w"
  by (simp add: blk_safe_def)

lemma blk_safe_trans: "blk_safe c w1 w2 \<Longrightarrow> blk_safe c w2 w3 \<Longrightarrow> blk_safe c w1 w3"
  by (auto simp: blk_safe_def intro: image_kept_trans)

lemma blk_safe_image: "image_kept (disk_image k) im \<Longrightarrow> blk_safe c (k, d) (k\<lparr>disk_image := im\<rparr>, d)"
  by (simp add: blk_safe_def)

lemma blk_mem_write_safe: "blk_mem_write c b a bs w = (ok, w') \<Longrightarrow> blk_safe c w w'"
  by (auto simp: blk_mem_write_def blk_safe_def split: prod.splits dest: dma_write_frame(2))

lemma phys_plic_update: "phys (plic_update_mip c p s) = phys s"
  by (simp add: plic_update_mip_def set_seip_def set_sr_def Let_def)

lemma plic_raise_safe: "blk_safe c (k, d) (k', plic_raise_source c i d)" if "disk_image k' = disk_image k" for k k'
  using that by (cases d) (simp add: blk_safe_def plic_raise_source_def phys_plic_update Let_def)

lemma write_used_elem_safe: "write_used_elem c b i len w = (ok, w') \<Longrightarrow> blk_safe c w w'"
  by (auto simp: write_used_elem_def Let_def split: option.splits prod.splits if_splits
      dest!: blk_mem_write_safe intro: blk_safe_trans)

lemma finish_request_safe: "blk_safe c w (finish_request c b head n w)"
proof -
  obtain ok k d where e: "write_used_elem c b head n w = (ok, (k, d))" by (metis prod.exhaust)
  have "blk_safe c (k, d) (finish_request c b head n w)"
    by (simp add: finish_request_def e plic_raise_safe)
  with write_used_elem_safe [OF e] show ?thesis by (rule blk_safe_trans)
qed

lemma transfer_chunk_safe:
  assumes "transfer_chunk c b ty a done chunk off used w = (ok, used', w')"
  shows "blk_safe c w w'"
proof -
  obtain k d where w: "w = (k, d)" by (rule prod.exhaust)
  show ?thesis
    using assms unfolding w transfer_chunk_def Let_def
    by (auto split: option.splits prod.splits if_splits
        intro: blk_safe_image nemu_block_write_kept nemu_block_read_kept blk_safe_trans
        dest: blk_mem_write_safe)
qed

lemma transfer_loop_safe:
  "transfer_loop c b ty a len done off used w = (ok, off', used', w') \<Longrightarrow> blk_safe c w w'"
proof (induction c b ty a len "done" off used w rule: transfer_loop.induct)
  case (1 c b ty a len "done" off used w)
  obtain ok1 u1 w1 where 2: "transfer_chunk c b ty a done (min (len - done) 65536) off used w = (ok1, u1, w1)"
    by (metis prod.exhaust)
  note step = 1(2) [unfolded transfer_loop.simps [of c b ty a len "done" off used w]]
  show ?case
  proof (cases "done < len \<and> ok1")
    case True
    with 1(1) [OF _ refl 2 [symmetric] refl refl] step 2 have "blk_safe c w1 w'" by (simp add: Let_def)
    with transfer_chunk_safe [OF 2] show ?thesis by (rule blk_safe_trans)
  next
    case False
    with step 2 transfer_chunk_safe [OF 2] show ?thesis by (auto simp: Let_def split: if_splits)
  qed
qed

lemma transfer_data_safe:
  "transfer_data c b ty a len off used w = (ok, off', used', w') \<Longrightarrow> blk_safe c w w'"
  by (auto simp: transfer_data_def Let_def split: if_splits dest: transfer_loop_safe)

lemma process_chain_safe:
  "process_chain c b ty n i io off used w = (ok, st, used', w') \<Longrightarrow> blk_safe c w w'"
proof (induction n arbitrary: i io off used w)
  case (Suc n)
  show ?case
    using Suc.prems
    by (auto simp: Let_def split: option.splits prod.splits if_splits
        dest!: Suc.IH transfer_data_safe intro: blk_safe_trans)
qed simp

lemma complete_request_safe: "blk_safe c w (complete_request c b head ty io st used w)"
proof -
  obtain io' k where f: "request_flush ty io st (fst w) = (io', k)" by (metis prod.exhaust)
  have 1: "blk_safe c w (k, snd w)"
    using f by (auto simp: request_flush_def blk_safe_def split: if_splits prod.splits dest: nemu_block_flush_kept)
  have 2: "blk_safe c w w'" if "blk_mem_write c b a bs (k, snd w) = (x, w')" for a bs x w'
    using blk_safe_trans [OF 1 blk_mem_write_safe [OF that]] .
  show ?thesis
    by (auto simp: complete_request_def f Let_def split: option.split prod.split
        intro: blk_safe_trans [OF 1 finish_request_safe] blk_safe_trans [OF 2 finish_request_safe])
qed

lemma process_one_safe: "blk_safe c w (process_one c b head w)"
proof -
  have "blk_safe c w (complete_request c b head ty io' st used w')"
    if "process_chain c b ty n i io off 0 w = (io', st, used, w')" for ty n i io off io' st used w'
    using blk_safe_trans [OF process_chain_safe [OF that] complete_request_safe] .
  then show ?thesis
    unfolding process_one_def Let_def
    by (auto split: option.split prod.split simp: finish_request_safe)
qed

lemma service_loop_safe: "blk_safe c w (service_loop c b q avail w)"
proof (induction c b q avail w rule: service_loop.induct)
  case (1 c b q avail w)
  let ?last = "blk_last_avail_idx (fst w)"
  let ?r = "blk_mem_read c b w (blk_driver_addr (fst w) + 4 + ucast (?last mod q) * 2) 2"
  show ?case
  proof (cases "?last = avail \<or> ?r = None")
    case True
    then show ?thesis by (auto simp: service_loop.simps [of c b q avail w])
  next
    case False
    then obtain bs where bs: "?r = Some bs" by auto
    let ?head = "ucast (le_word bs) :: uint16_t"
    let ?w1 = "if ?head < q then process_one c b ?head w else w"
    let ?w2 = "((fst ?w1)\<lparr>blk_last_avail_idx := blk_last_avail_idx (fst ?w1) + 1\<rparr>, snd ?w1)"
    have eq: "service_loop c b q avail w = service_loop c b q avail ?w2"
      using False bs by (simp add: service_loop.simps [of c b q avail w] Let_def)
    have 2: "blk_safe c ?w2 (service_loop c b q avail ?w2)"
      using 1 [OF _ bs refl refl] False by simp
    have 3: "blk_safe c w ?w1" by (simp add: process_one_safe)
    have "blk_safe c ?w1 ?w2" by (simp add: blk_safe_def)
    from blk_safe_trans [OF blk_safe_trans [OF 3 this] 2] show ?thesis unfolding eq .
  qed
qed

lemma blk_service_queue_safe: "blk_safe c w (blk_service_queue c b w)"
  by (simp add: blk_service_queue_def Let_def service_loop_safe split: option.split)

text \<open>
  C31 (disk safety). No guest access to the block device's registers, whatever the descriptors in
  guest memory say, changes a byte of guest memory outside RAM or the size, mode or well-formedness of
  the image, and a read-only image keeps every byte; an access also completes unless it is eight bytes
  wide.
\<close>

theorem blk_access_safe:
  assumes "image_ok (disk_image k)" and "len < 8"
  shows "\<exists>k' p' s'. virtio_blk_io_handler c b off len wr (k, p, s) = Some (k', p', s') \<and>
    image_ok (disk_image k') \<and> length (image_bytes (disk_image k')) = img_size (disk_image k) \<and>
    img_mode (disk_image k') = img_mode (disk_image k) \<and>
    (img_mode (disk_image k) = NEMU_BLOCK_READONLY \<longrightarrow>
       image_bytes (disk_image k') = image_bytes (disk_image k)) \<and>
    (\<forall>x. \<not> paddr_is_ram_span c x 1 \<longrightarrow> phys s' x = phys s x)"
proof -
  have safe: "blk_safe c (k, p, s) (blk_write_reg c b off len (k, p, s))"
    unfolding blk_write_reg_def Let_def prod.case
    using blk_service_queue_safe [of c "(k, p, s)" b]
    by (auto simp: blk_safe_def blk_set_queue_num_def blk_reset_regs_def)
  let ?r = "if wr then blk_write_reg c b off len (k, p, s)
    else (k\<lparr>virtio_blk_base := win_store32 (virtio_blk_base k) (4 * (off div 4)) (blk_read_reg32 (4 * (off div 4)) k)\<rparr>, p, s)"
  obtain w' where w': "virtio_blk_io_handler c b off len wr (k, p, s) = Some w'" and "w' = ?r"
    using assms(2) by (simp add: virtio_blk_io_handler_def reg_len_ok_def Let_def)
  have "blk_safe c (k, p, s) w'"
    unfolding \<open>w' = ?r\<close> using safe by (auto simp: blk_safe_def)
  then show ?thesis
    using w' assms(1)
    by (cases w') (auto simp: blk_safe_def image_kept_def image_ok_def image_bytes_def split: option.splits)
qed

text \<open>A read-only image, and a notify whose queue memory reads as zeroes.\<close>

definition demo_image :: "NemuBlockMode \<Rightarrow> block_image" where
  "demo_image m = \<lparr>img_fd = True, img_mode = m, img_size = 1024,
     img_data = (if m = NEMU_BLOCK_VOLATILE then Some (replicate 1024 7) else None),
     img_file = replicate 1024 7, img_io = []\<rparr>"

definition demo_blk :: "NemuBlockMode \<Rightarrow> blk_state" where
  "demo_blk m = \<lparr>virtio_blk_base = (\<lambda>_. 0), disk_image = demo_image m, blk_features_sel = 0,
     blk_driver_features_sel = 0, blk_driver_features = (\<lambda>_. 0), blk_queue_sel = 0, blk_queue_num = 4,
     blk_queue_ready = 1, blk_status = 4, blk_interrupt_status = 0, blk_desc_addr = 0x80001000,
     blk_driver_addr = 0x80002000, blk_device_addr = 0x80003000, blk_last_avail_idx = 0xffff\<rparr>"

definition demo_disk_bus :: "blk_world mmio_state" where
  "demo_disk_bus = mmio_init"

theorem blk_access_safe_witness:
  "\<exists>k' p' s'. virtio_blk_io_handler demo_config demo_disk_bus 0x50 4 True
       (demo_blk NEMU_BLOCK_READONLY, init_intr, demo_machine) = Some (k', p', s') \<and>
     image_bytes (disk_image k') = replicate 1024 7"
  using blk_access_safe [where k = "demo_blk NEMU_BLOCK_READONLY" and len = 4 and c = demo_config and
      b = demo_disk_bus and off = "0x50" and wr = True and p = init_intr and s = demo_machine]
  by (auto simp: demo_blk_def demo_image_def image_ok_def image_bytes_def)

section \<open>Draining the queue\<close>

definition dma_readable :: "config \<Rightarrow> 'd mmio_state \<Rightarrow> paddr_t \<Rightarrow> nat \<Rightarrow> bool" where
  "dma_readable c b a n \<longleftrightarrow> n = 0 \<or> (\<not> mmio_map_overlaps b a n \<and> n \<le> INT32_MAX \<and> paddr_is_memory_span c a n)"

lemma dma_readable_part:
  assumes "dma_readable c b a k" and "i + n \<le> k"
  shows "dma_readable c b (a + of_nat i) n"
proof (cases "n = 0")
  case False
  then have d: "\<not> mmio_map_overlaps b a k" "k \<le> INT32_MAX" "paddr_is_memory_span c a k"
    using assms by (auto simp: dma_readable_def)
  then have 63: "k \<le> 2 ^ 63" and w: "\<not> a + of_nat k - 1 < a"
    by (auto simp: INT32_MAX_def paddr_is_memory_span_def Let_def split: if_splits)
  show ?thesis
    using no_overlap_part [OF d(1) assms(2) _ 63 w] memory_span_part [OF d(3) assms(2) _ 63] d(2) False assms(2)
    by (auto simp: dma_readable_def)
qed (simp add: dma_readable_def)

lemma blk_mem_read_None: "blk_mem_read c b w a n = None \<longleftrightarrow> \<not> dma_readable c b a n"
  by (auto simp: blk_mem_read_def dma_read_def paddr_dma_read_def dma_readable_def mmio_map_overlaps_def)

lemma blk_mem_read_Some: "dma_readable c b a n \<Longrightarrow> \<exists>bs. blk_mem_read c b w a n = Some bs"
  using blk_mem_read_None [of c b w a n] by (metis option.exhaust)

definition avail_ring_slot :: "blk_state \<Rightarrow> uint16_t \<Rightarrow> word_t" where
  "avail_ring_slot k i = blk_driver_addr k + 4 + ucast i * 2"

lemma service_loop_drains:
  assumes "\<And>i. i < q \<Longrightarrow> dma_readable c b (avail_ring_slot (fst w) i) 2" and "q \<noteq> 0"
  shows "blk_last_avail_idx (fst (service_loop c b q avail w)) = avail"
  using assms
proof (induction c b q avail w rule: service_loop.induct)
  case (1 c b q avail w)
  let ?last = "blk_last_avail_idx (fst w)"
  let ?r = "blk_mem_read c b w (blk_driver_addr (fst w) + 4 + ucast (?last mod q) * 2) 2"
  show ?case
  proof (cases "?last = avail")
    case True
    then show ?thesis by (simp add: service_loop.simps [of c b q avail w])
  next
    case False
    have "?last mod q < q" using 1(3) by (simp add: word_less_nat_alt unat_mod unat_gt_0)
    from blk_mem_read_Some [OF 1(2) [OF this, unfolded avail_ring_slot_def], of w]
    obtain bs where bs: "?r = Some bs" by blast
    let ?head = "ucast (le_word bs) :: uint16_t"
    let ?w1 = "if ?head < q then process_one c b ?head w else w"
    let ?w2 = "((fst ?w1)\<lparr>blk_last_avail_idx := blk_last_avail_idx (fst ?w1) + 1\<rparr>, snd ?w1)"
    have eq: "service_loop c b q avail w = service_loop c b q avail ?w2"
      using False bs by (simp add: service_loop.simps [of c b q avail w] Let_def)
    have "blk_driver_addr (fst ?w2) = blk_driver_addr (fst w)"
      by (simp add: blk_regs_fields(3) [OF process_one_regs])
    then have "avail_ring_slot (fst ?w2) = avail_ring_slot (fst w)" by (simp add: avail_ring_slot_def fun_eq_iff)
    with 1(2) have "dma_readable c b (avail_ring_slot (fst ?w2) i) 2" if "i < q" for i using that by metis
    from 1(1) [OF False bs refl refl this 1(3)] show ?thesis unfolding eq .
  qed
qed

text \<open>
  C32 (notify). A notify of a live queue whose index and ring lie in readable memory always comes to
  an end, having taken every entry up to the driver's index: it reads that index once, so neither the
  requests it serves, even when their buffers overlay the ring, nor invalid descriptors or ring
  entries can keep it running.
\<close>

theorem blk_notify_drains:
  assumes "blk_enabled k" and "blk_queue_sel k = 0" and "blk_queue_ready k \<noteq> 0" and "blk_status k AND 4 \<noteq> 0"
    and "blk_desc_addr k \<noteq> 0" and "blk_driver_addr k \<noteq> 0" and "blk_device_addr k \<noteq> 0"
    and "blk_queue_num k \<le> 256"
    and "dma_readable c b (blk_driver_addr k + 2) 2"
    and "\<forall>i < 256. dma_readable c b (avail_ring_slot k i) 2"
  shows "\<exists>bs. dma_read c b s (blk_driver_addr k + 2) 2 = Some bs \<and>
    blk_last_avail_idx (fst (blk_service_queue c b (k, p, s))) = ucast (le_word bs)"
proof -
  let ?q = "ucast (blk_queue_limit k) :: uint16_t"
  obtain bs where bs: "blk_mem_read c b (k, p, s) (blk_driver_addr k + 2) 2 = Some bs"
    using blk_mem_read_Some [OF assms(9)] by blast
  have L: "blk_queue_limit k \<noteq> 0" "unat (blk_queue_limit k) \<le> 256"
    using assms(8) by (auto simp: blk_queue_limit_def word_le_nat_alt)
  then have "unat ?q = unat (blk_queue_limit k)" by (simp add: unsigned_ucast_eq take_bit_nat_eq_self)
  with L have "?q \<noteq> 0" "\<not> 256 < ?q"
    by (auto simp: word_less_nat_alt unat_eq_0)
  then have "blk_service_queue c b (k, p, s) = service_loop c b ?q (ucast (le_word bs)) (k, p, s)"
    using assms(1-7) bs by (simp add: blk_service_queue_def Let_def)
  moreover have "dma_readable c b (avail_ring_slot k i) 2" if "i < ?q" for i
    using that assms(10) \<open>\<not> 256 < ?q\<close> by simp
  ultimately have "blk_last_avail_idx (fst (blk_service_queue c b (k, p, s))) = ucast (le_word bs)"
    using service_loop_drains [of ?q c b "(k, p, s)"] \<open>?q \<noteq> 0\<close> by simp
  with bs show ?thesis by (auto simp: blk_mem_read_def)
qed

theorem blk_notify_drains_witness:
  "blk_last_avail_idx (fst (blk_service_queue demo_config demo_disk_bus
     (demo_blk NEMU_BLOCK_VOLATILE, init_intr, demo_machine\<lparr>phys := (\<lambda>_. 0)\<rparr>))) = 0"
proof -
  let ?k = "demo_blk NEMU_BLOCK_VOLATILE"
  have "\<not> mmio_map_overlaps demo_disk_bus 0x80002002 514"
    by (simp add: mmio_map_overlaps_def demo_disk_bus_def mmio_init_def)
  then have q: "dma_readable demo_config demo_disk_bus 0x80002002 514"
    by (simp add: dma_readable_def INT32_MAX_def paddr_is_memory_span_def in_pmem_def PMEM_LEFT_def
        PMEM_RIGHT_def riscv64_ref_config_def)
  have slot: "dma_readable demo_config demo_disk_bus (avail_ring_slot ?k i) 2" if "i < 256" for i
  proof -
    have "2 + 2 * unat i + 2 \<le> 514" using that by (simp add: word_less_nat_alt)
    moreover have "avail_ring_slot ?k i = 0x80002002 + of_nat (2 + 2 * unat i)"
      by (simp add: avail_ring_slot_def demo_blk_def)
    ultimately show ?thesis using dma_readable_part [OF q, of "2 + 2 * unat i" 2] by simp
  qed
  have idx: "dma_readable demo_config demo_disk_bus (blk_driver_addr ?k + 2) 2"
    using dma_readable_part [OF q, of 0 2] by (simp add: demo_blk_def)
  obtain bs where bs: "dma_read demo_config demo_disk_bus (demo_machine\<lparr>phys := (\<lambda>_. 0)\<rparr>) (blk_driver_addr ?k + 2) 2 = Some bs"
    and l: "blk_last_avail_idx (fst (blk_service_queue demo_config demo_disk_bus
     (?k, init_intr, demo_machine\<lparr>phys := (\<lambda>_. 0)\<rparr>))) = ucast (le_word bs)"
    using blk_notify_drains [where k = ?k and c = demo_config and b = demo_disk_bus and
        s = "demo_machine\<lparr>phys := (\<lambda>_. 0)\<rparr>" and p = init_intr] idx slot
    by (auto simp: demo_blk_def demo_image_def blk_enabled_def)
  have "bs = [0, 0]" using dma_readD(4) [OF bs] by (simp add: copy_out_def upt_rec)
  with l show ?thesis by simp
qed

end
