(* ===== verification/Disk_Data.thy ===== *)
theory Disk_Data
  imports Disk_Correct
begin

text \<open>
  The data path of the block device: the 64 KiB pieces of a transfer add up to one copy between the
  image and guest memory, so that what a write request stores a read request delivers.
\<close>

unbundle bit_operations_syntax

lemma splice_splice:
  "off + length xs + length ys \<le> length d \<Longrightarrow>
   splice (splice d off xs) (off + length xs) ys = splice d off (xs @ ys)"
  by (cases xs) (auto simp: splice_def min_def ac_simps)

lemma splice_Nil: "splice d off [] = d"
  by (simp add: splice_def)

lemma disk_image_same: "k\<lparr>disk_image := disk_image k\<rparr> = k"
  by (cases k) simp

definition volatile_image :: "block_image \<Rightarrow> uint8_t list \<Rightarrow> bool" where
  "volatile_image im d \<longleftrightarrow> img_fd im \<and> img_mode im = NEMU_BLOCK_VOLATILE \<and> img_data im = Some d \<and>
     length d = img_size im"

definition set_image_data :: "uint8_t list \<Rightarrow> blk_state \<Rightarrow> blk_state" where
  "set_image_data d k = k\<lparr>disk_image := (disk_image k)\<lparr>img_data := Some d\<rparr>\<rparr>"

lemma volatile_set_image: "volatile_image (disk_image k) d \<Longrightarrow> length d' = length d \<Longrightarrow>
    volatile_image (disk_image (set_image_data d' k)) d'"
  by (simp add: volatile_image_def set_image_data_def)

lemma set_image_data_same: "volatile_image (disk_image k) d \<Longrightarrow> set_image_data d k = k"
proof -
  assume "volatile_image (disk_image k) d"
  then have "(disk_image k)\<lparr>img_data := Some d\<rparr> = disk_image k"
    by (cases "disk_image k") (simp add: volatile_image_def)
  then show ?thesis by (simp add: set_image_data_def disk_image_same)
qed

lemma set_image_data_twice: "set_image_data d' (set_image_data d k) = set_image_data d' k"
  by (simp add: set_image_data_def)

lemma transfer_out_chunk:
  assumes "volatile_image (disk_image k) d" and "off + n \<le> length d" and "0 < n"
    and "dma_read c b s (a + of_nat done) n = Some bs"
  shows "transfer_chunk c b 1 a done n off u (k, p, s) =
    (True, u, (set_image_data (splice d off bs) k, p, s))"
proof -
  have "length bs = n" using dma_readD(4) [OF assms(4)] assms(3) by (simp add: copy_out_def)
  moreover from this assms(3) have "bs \<noteq> []" by auto
  moreover have "valid_range (disk_image k) off n"
    using assms(1,2) by (auto simp: valid_range_def volatile_image_def)
  ultimately show ?thesis
    using assms(1,4)
    by (simp add: transfer_chunk_def blk_mem_read_def nemu_block_write_def volatile_image_def set_image_data_def)
qed

lemma transfer_loop_out:
  assumes "volatile_image (disk_image k) d" and "off + (len - done) \<le> length d"
    and "dma_read c b s (a + of_nat done) (len - done) = Some bs" and "done \<le> len"
  shows "transfer_loop c b 1 a len done off u (k, p, s) =
    (True, off + (len - done), u, (set_image_data (splice d off bs) k, p, s))"
  using assms
proof (induction "len - done" arbitrary: "done" off d k bs rule: less_induct)
  case less
  show ?case
  proof (cases "done = len")
    case True
    then have "bs = []" using less(4) by (simp add: dma_read_def paddr_dma_read_def mmio_map_overlaps_def)
    with True less(2) show ?thesis
      by (simp add: transfer_loop.simps splice_Nil set_image_data_same)
  next
    case False
    define m where "m = min (len - done) 65536"
    let ?k = "set_image_data (splice d off (take m bs)) k"
    have n: "0 < m" "m \<le> len - done" "len - (done + m) < len - done" "done + m \<le> len"
      using False less(5) by (auto simp: m_def)
    have bs: "length bs = len - done" using dma_readD(4) [OF less(4)] False less(5) by (simp add: copy_out_def)
    have first: "dma_read c b s (a + of_nat done) m = Some (take m bs)"
      using dma_read_part [OF less(4), of 0 m] n by simp
    have rest: "dma_read c b s (a + of_nat (done + m)) (len - (done + m)) = Some (drop m bs)"
    proof (cases "len - (done + m) = 0")
      case True
      then show ?thesis using bs by (simp add: dma_read_def paddr_dma_read_def mmio_map_overlaps_def)
    next
      case False
      then show ?thesis
        using dma_read_part [OF less(4), of m "len - (done + m)"] n bs by (simp add: algebra_simps)
    qed
    have fits: "off + m \<le> length d" using less(3,5) n(2) by linarith
    have len: "length (splice d off (take m bs)) = length d"
      using fits bs by (intro length_splice) simp
    note chunk = transfer_out_chunk [OF less(2) fits n(1) first, of u p]
    have pre: "off + m + (len - (done + m)) \<le> length (splice d off (take m bs))"
      unfolding len using less(3) n(2,4) by linarith
    have "transfer_loop c b 1 a len (done + m) (off + m) u (?k, p, s) =
        (True, off + m + (len - (done + m)), u,
         (set_image_data (splice (splice d off (take m bs)) (off + m) (drop m bs)) ?k, p, s))"
      by (rule less(1) [OF n(3) volatile_set_image [OF less(2) len] pre rest n(4)])
    moreover have "splice (splice d off (take m bs)) (off + m) (drop m bs) = splice d off bs"
      using splice_splice [of off "take m bs" "drop m bs" d] less(3) bs n by simp
    moreover have "off + m + (len - (done + m)) = off + (len - done)" using n(2) by simp
    ultimately show ?thesis
      using chunk less(5) False
      by (simp add: transfer_loop.simps [of c b 1 a len "done"] Let_def set_image_data_twice flip: m_def)
  qed
qed

lemma transfer_in_chunk:
  assumes "volatile_image (disk_image k) d" and "off + n \<le> length d" and "0 < n"
    and "dma_writable c b (a + of_nat done) n"
  shows "transfer_chunk c b 0 a done n off u (k, p, s) =
    (True, u + of_nat n, (k, p, s\<lparr>phys := copy_in (phys s) (a + of_nat done) (take n (drop off d))\<rparr>))"
proof -
  have "valid_range (disk_image k) off n"
    using assms(1,2) by (auto simp: valid_range_def volatile_image_def)
  moreover have "length (take n (drop off d)) = n" using assms(2) by simp
  ultimately show ?thesis
    using assms(1,3,4)
    by (simp add: transfer_chunk_def blk_mem_write_def dma_write_eq nemu_block_read_def volatile_image_def
        disk_image_same)
qed

lemma transfer_loop_in:
  assumes "volatile_image (disk_image k) d" and "off + (len - done) \<le> length d"
    and "dma_writable c b (a + of_nat done) (len - done)" and "done \<le> len"
  shows "transfer_loop c b 0 a len done off u (k, p, s) =
    (True, off + (len - done), u + of_nat (len - done),
     (k, p, s\<lparr>phys := copy_in (phys s) (a + of_nat done) (take (len - done) (drop off d))\<rparr>))"
  using assms
proof (induction "len - done" arbitrary: "done" off u s rule: less_induct)
  case less
  show ?case
  proof (cases "done = len")
    case True
    then show ?thesis by (simp add: transfer_loop.simps)
  next
    case False
    define m where "m = min (len - done) 65536"
    have n: "0 < m" "m \<le> len - done" "len - (done + m) < len - done" "done + m \<le> len"
      using False less(5) by (auto simp: m_def)
    have fits: "off + m \<le> length d" using less(3,5) n(2) by linarith
    let ?bs = "take m (drop off d)" and ?cs = "take (len - (done + m)) (drop (off + m) d)"
    let ?s = "s\<lparr>phys := copy_in (phys s) (a + of_nat done) ?bs\<rparr>"
    have first: "dma_writable c b (a + of_nat done) m"
      using dma_writable_part [OF less(4), of 0 m] n by simp
    have rest: "dma_writable c b (a + of_nat (done + m)) (len - (done + m))"
      using dma_writable_part [OF less(4), of m "len - (done + m)"] n by (simp add: algebra_simps)
    note chunk = transfer_in_chunk [OF less(2) fits n(1) first, of u p s]
    have pre: "off + m + (len - (done + m)) \<le> length d" using less(3) n(2,4) by linarith
    have "transfer_loop c b 0 a len (done + m) (off + m) (u + of_nat m) (k, p, ?s) =
        (True, off + m + (len - (done + m)), u + of_nat m + of_nat (len - (done + m)),
         (k, p, ?s\<lparr>phys := copy_in (phys ?s) (a + of_nat (done + m)) ?cs\<rparr>))"
      by (rule less(1) [OF n(3) less(2) pre rest n(4)])
    moreover have "copy_in (copy_in (phys s) (a + of_nat done) ?bs) (a + of_nat (done + m)) ?cs =
        copy_in (phys s) (a + of_nat done) (take (len - done) (drop off d))"
    proof -
      have "take (len - done) (drop off d) = ?bs @ ?cs"
        using n(2,4) take_add [of m "len - (done + m)" "drop off d"] by (simp add: add.commute)
      moreover have "length ?bs = m" using fits by simp
      ultimately show ?thesis by (simp add: copy_in_append algebra_simps)
    qed
    moreover have "off + m + (len - (done + m)) = off + (len - done)"
      "u + of_nat m + of_nat (len - (done + m)) = u + of_nat (len - done)"
      using n(2,4) by (simp_all add: of_nat_diff)
    ultimately show ?thesis
      using chunk less(5) False
      by (simp add: transfer_loop.simps [of c b 0 a len "done"] Let_def flip: m_def)
  qed
qed

text \<open>
  C33 (disk data). A write transfer to a volatile image, of up to a megabyte from readable guest
  memory to a range of the disk, stores exactly the guest's bytes at that range and nothing else; a
  read transfer of the same range into writable memory then succeeds, counts its bytes and delivers
  those bytes, whatever the number of pieces either was split into.
\<close>

theorem disk_write_read:
  assumes "volatile_image (disk_image k) d" and "unat len \<le> 0x100000" and "off + unat len \<le> length d"
    and "dma_read c b s src (unat len) = Some bs" and "dma_writable c b dst (unat len)"
  shows "\<exists>k' s'. transfer_data c b 1 src len off u (k, p, s) = (True, off + unat len, u, (k', p, s)) \<and>
    image_bytes (disk_image k') = take off d @ bs @ drop (off + unat len) d \<and>
    transfer_data c b 0 dst len off v (k', p, s) = (True, off + unat len, v + len, (k', p, s')) \<and>
    copy_out (phys s') dst (unat len) = bs"
proof -
  let ?k = "set_image_data (splice d off bs) k"
  let ?s = "s\<lparr>phys := copy_in (phys s) dst bs\<rparr>"
  have bs: "length bs = unat len"
    using assms(4) dma_readD(4) [OF assms(4)] by (cases "unat len = 0") (auto simp: copy_out_def dma_read_def paddr_dma_read_def mmio_map_overlaps_def)
  have len: "length (splice d off bs) = length d" using assms(3) bs by (intro length_splice) simp
  have 1: "transfer_data c b 1 src len off u (k, p, s) = (True, off + unat len, u, (?k, p, s))"
    using transfer_loop_out [OF assms(1), of off "unat len" 0 c b s src bs u p] assms
    by (auto simp: transfer_data_def volatile_image_def)
  have "take (unat len) (drop off (splice d off bs)) = bs" using assms(3) bs by (simp add: splice_def)
  then have 2: "transfer_data c b 0 dst len off v (?k, p, s) = (True, off + unat len, v + len, (?k, p, ?s))"
    using transfer_loop_in [OF volatile_set_image [OF assms(1) len], of off "unat len" 0 c b dst v p s] assms len
    by (auto simp: transfer_data_def volatile_image_def set_image_data_def)
  have "copy_out (phys ?s) dst (unat len) = bs"
    using copy_out_in [of bs "phys s" dst] bs assms(2) by simp
  moreover have "image_bytes (disk_image ?k) = take off d @ bs @ drop (off + unat len) d"
    by (simp add: image_bytes_def set_image_data_def splice_def bs)
  ultimately show ?thesis using 1 2 by blast
qed

text \<open>A sector of the demonstration image written from the start of memory and read to another place.\<close>

theorem disk_write_read_witness:
  "\<exists>k' s'. transfer_data demo_config demo_disk_bus 1 0x80000000 512 512 0
       (demo_blk NEMU_BLOCK_VOLATILE, init_intr, demo_machine) = (True, 1024, 0, (k', init_intr, demo_machine)) \<and>
     transfer_data demo_config demo_disk_bus 0 0x80010000 512 512 0 (k', init_intr, demo_machine) =
       (True, 1024, 512, (k', init_intr, s')) \<and>
     copy_out (phys s') 0x80010000 512 = copy_out (phys demo_machine) 0x80000000 512"
proof -
  let ?k = "demo_blk NEMU_BLOCK_VOLATILE"
  have bus: "\<not> mmio_map_overlaps demo_disk_bus 0x80000000 512" "\<not> mmio_map_overlaps demo_disk_bus 0x80010000 512"
    by (simp_all add: mmio_map_overlaps_def demo_disk_bus_def mmio_init_def)
  have span: "paddr_is_memory_span demo_config 0x80000000 512" "paddr_is_ram_span demo_config 0x80010000 512"
    by (simp_all add: paddr_is_memory_span_def paddr_is_ram_span_def in_pmem_def PMEM_LEFT_def PMEM_RIGHT_def
        riscv64_ref_config_def)
  have "volatile_image (disk_image ?k) (replicate 1024 7)"
    by (simp add: volatile_image_def demo_blk_def demo_image_def)
  moreover have "dma_read demo_config demo_disk_bus demo_machine 0x80000000 512 =
      Some (copy_out (phys demo_machine) 0x80000000 512)"
    using bus(1) span(1) by (simp add: dma_read_def paddr_dma_read_def INT32_MAX_def)
  moreover have "dma_writable demo_config demo_disk_bus 0x80010000 512"
    using bus(2) span(2) by (simp add: dma_writable_def INT32_MAX_def)
  ultimately show ?thesis
    using disk_write_read [of ?k "replicate 1024 7" 512 512 demo_config demo_disk_bus demo_machine "0x80000000" _
        "0x80010000" 0 init_intr 0] by auto
qed

end
