(* ===== verification/Spec2Isabelle.thy ===== *)
theory Spec2Isabelle
  imports Gate Ref_Run Vec_Fault Vec_Correct Vec_Fixed Vec_Effect Pmp_Correct Soft_Cache Rvc_Correct
    Commit_Correct Paddr_Correct Sv39_Correct Vaddr_Correct Exec_Safe
    Mmio_Correct Plic_Correct Uart_Correct Sdcard_Correct Disk_Data
begin

text \<open>
  A verification library for NEMU, the RISC-V emulator of the Raptor repository
  (\<^verbatim>\<open>src/nemu\<close>), which runs standalone with device models and as the reference an RTL simulation is
  compared with. The model is the RV64 system-mode build with one running hart. Kconfig choices and the
  run-time extension mask are the fields of the record \<open>config\<close>, an argument of every definition that
  depends on them; \<open>riscv64_ref_config\<close> is the reference configuration. Paths below are relative to
  \<^verbatim>\<open>src/nemu/src\<close>.

  \<^bold>\<open>The program.\<close> \<^verbatim>\<open>cpu/cpu-exec.c\<close> runs a loop: take an interrupt if one is due, fetch and
  execute one instruction, commit. \<^verbatim>\<open>isa/riscv/inst.c\<close> fetches through the decoded-instruction
  cache, decompresses, finds the first matching pattern and runs its body. A body reads and writes registers,
  CSRs and, through \<^verbatim>\<open>memory/vaddr.c\<close>, memory: software TLB or page walk
  (\<^verbatim>\<open>isa/riscv/system/mmu.c\<close>), memory type and attribute checks, PMP
  (\<^verbatim>\<open>isa/riscv/system/pmp.c\<close>), physical access (\<^verbatim>\<open>memory/paddr.c\<close>). A failing access
  leaves the instruction by \<open>longjmp\<close> and is turned into a trap (\<^verbatim>\<open>isa/riscv/system/intr.c\<close>). The
  commit tail makes the CSRs coherent again and counts. Devices hang on a bus of windows
  (\<^verbatim>\<open>device/io\<close>) and drive the interrupt pending bits of the hart through the interrupt controller.

  \<^bold>\<open>State.\<close> The record \<open>nemu\<close> (\<open>State\<close>) holds the hart \<open>cpu\<close> (\<open>riscv_CPU_state\<close>: CSRs \<open>sr\<close>, registers,
  \<open>priv\<close>, \<open>virt\<close>, the marks \<open>last_csr_wr\<close> and \<open>csr_dirty\<close>), the side structures \<open>pmpu\<close>, \<open>tlbs\<close> and
  \<open>icaches\<close>, the globals of the fault path, the instruction count, and \<open>phys\<close>, the bytes of all backing
  arrays under their guest addresses. C integers are words of their width. A computation that may leave the
  instruction is an \<open>'a mem\<close> (\<open>Mem_Monad\<close>): from a state, either a value or an exit \<open>Mem_fault cause\<close>
  (\<open>longjmp\<close>) or \<open>Mem_panic\<close> (\<open>panic\<close>, a failed \<open>assert\<close>, and an access outside a C array), with the
  state reached.

  \<^bold>\<open>Theories and what they model.\<close>
  \<^item> \<open>Prelude\<close>, \<open>State\<close>: macros, integer types, state, configuration, CSR numbers
    (\<^verbatim>\<open>include/macro.h\<close>, \<^verbatim>\<open>isa-def.h\<close>, \<^verbatim>\<open>riscv-state.h\<close>,
    \<^verbatim>\<open>isa-extensions.h\<close>).
  \<^item> \<open>Epoch_Cache\<close>, \<open>Soft_Cache\<close>: the three software TLBs and the decoded-instruction cache
    (\<^verbatim>\<open>tlb.h\<close>, \<^verbatim>\<open>icache.h\<close>, \<^verbatim>\<open>cpu/icache.c\<close>). The locale \<open>epoch_cache\<close> is
    interpreted on both, and on the PMP match cache.
  \<^item> \<open>Pmp\<close> (\<^verbatim>\<open>pmp.c\<close>); \<open>Csr\<close>, \<open>Trap\<close>, \<open>Commit\<close> (\<^verbatim>\<open>reg.h\<close>, \<^verbatim>\<open>intr.c\<close>,
    the CSR part, trap returns and commit tail of \<^verbatim>\<open>inst.c\<close>, the interrupt bits of
    \<^verbatim>\<open>device/timer.c\<close>).
  \<^item> \<open>Paddr\<close>, \<open>Mmu\<close>, \<open>Vaddr\<close>, \<open>Hypervisor\<close>: physical memory, translation, checked accesses, guest
    accesses and cache-block operations.
  \<^item> \<open>Decode\<close>, \<open>Rvc_Fields\<close>, \<open>Rvc_Decompress\<close>, \<open>Rvc_Ref\<close>: pattern matcher and the two decoders of
    compressed instructions (\<^verbatim>\<open>rv_c.h\<close>, \<^verbatim>\<open>inst_c.c\<close>, \<^verbatim>\<open>inst_c_ref.c\<close>).
  \<^item> \<open>Alu\<close>, \<open>Exec\<close>: the instruction listing of \<^verbatim>\<open>inst.c\<close> as lists of pattern, format and body,
    \<open>isa_exec_once\<close> and the loop \<open>execute\<close>; \<open>Init\<close>: reset.
  \<^item> \<open>Fp\<close>, \<open>Fp_Exec\<close> (\<^verbatim>\<open>fp.c\<close>, \<^verbatim>\<open>fp-exec.c\<close>); \<open>Vec_Alu\<close>, \<open>Vec_Regs\<close>, \<open>Vec_Int\<close>,
    \<open>Vec_Float\<close>, \<open>Vec_Exec\<close>, \<open>Vec_Mem\<close> (\<^verbatim>\<open>vector-control.c\<close>). Berkeley SoftFloat is not in the
    repository: its functions are the record \<open>softfloat\<close>, of which nothing is assumed.
  \<^item> \<open>Difftest\<close>: the reference interface (\<^verbatim>\<open>cpu/difftest/ref.c\<close>).
  \<^item> \<open>Mmio\<close>, \<open>Plic\<close>, \<open>Uart\<close>, \<open>Sdcard\<close>, \<open>Virtio\<close>, \<open>Disk\<close>, \<open>Block_Image\<close>, with the queue contract of
    \<open>Fifo\<close>: the device bus and the devices (\<^verbatim>\<open>device/io\<close>, \<^verbatim>\<open>device/intr.c\<close>,
    \<^verbatim>\<open>serial.c\<close>, \<^verbatim>\<open>sdcard.c\<close>, \<^verbatim>\<open>disk.c\<close>, \<^verbatim>\<open>block-image.c\<close>). What the
    host delivers (input, results of \<open>pread\<close> and \<open>pwrite\<close>) is explicit in their states.

  \<^bold>\<open>What is proved.\<close> The theorems with a claim number stand in the theories of their components.
  \<^item> Caches: the epoch-stamped tables answer as direct-mapped tables without epochs (\<open>Soft_Cache\<close>), and
    translation through a TLB gives the address of a fresh walk (\<open>Page_Correct\<close>).
  \<^item> Protection: \<open>pmp_check\<close> with its caches and fast paths is the rule of the privileged
    specification, locked entries stay, registers read back as the WARL rules say (\<open>Pmp_Correct\<close>).
  \<^item> Translation: Sv39 against an inductive mapping relation (\<open>Sv39_Correct\<close>); walks only read and work on
    whole pages (\<open>Page_Correct\<close>); loads and stores byte by byte (\<open>Vaddr_Correct\<close>, \<open>Paddr_Correct\<close>).
  \<^item> Traps and CSRs: return after entry restores the context, interrupt priority, filter and destination
    (\<open>Trap_Correct\<close>); legal and coherent CSRs after every commit (\<open>Commit_Correct\<close>); the gate that skips
    the normalisation for the whole instruction set (\<open>Gate\<close>).
  \<^item> Decoding: both decompressors agree, reserved encodings are the illegal word (\<open>Rvc_Correct\<close>).
  \<^item> The whole emulator: no panic, for the listing with any extension (\<open>Exec_Safe\<close>) and with its own
    floating-point and vector groups (\<open>Machine\<close>), and a well-formed hart (\<open>Hart_Ok\<close>, \<open>Machine\<close>), also
    under the calls of the simulator (\<open>Hart_Run\<close>, \<open>Ref_Run\<close>).
  \<^item> Vectors: no access outside the register file and the frame of every instruction (\<open>Vec_Safe\<close>,
    \<open>Vec_Effect\<close>, \<open>Vec_Mem_Safe\<close>), the element-wise classes against the operands at entry
    (\<open>Vec_Correct\<close>), the fixed-point arithmetic against the specification (\<open>Vec_Fixed\<close>), the outcomes of
    loads and stores (\<open>Vec_Fault\<close>).
  \<^item> Devices: lookup on the bus, interrupt controller, input queue, SD block read, block device
    (\<open>Mmio_Correct\<close>, \<open>Plic_Correct\<close>, \<open>Uart_Correct\<close>, \<open>Sdcard_Correct\<close>, \<open>Disk_Correct\<close>, \<open>Disk_Data\<close>).

  \<^bold>\<open>How the proofs are carried.\<close> Facts on computations are collected in \<open>named_theorems\<close> and applied
  by \<open>intro\<close> along the code: \<open>mwp\<close> (invariants), \<open>hart_inv\<close>, \<open>inst_oks\<close>, \<open>no_panics\<close>, \<open>mreturns\<close>,
  \<open>vinvs\<close>, \<open>gates\<close>. The locales \<open>core_view\<close> and \<open>store_view\<close> (\<open>Mem_View\<close>) walk the memory path once
  for every predicate it does not disturb; \<open>Vec_Fault\<close> and \<open>Gate\<close> interpret them.

  \<^bold>\<open>Bounds and fuel.\<close> Page walks recurse over the levels of the table, element loops over the elements
  of a register group, transfers over their 64 KiB pieces: all are structural and need no fuel. \<open>execute\<close>
  takes the number of steps as the code does. A loop of the block device over the ring runs to the driver
  index read once; that it ends is a theorem. Pattern lists are finite and scanned in order.

  \<^bold>\<open>Not modelled.\<close> RV32 variants; several running harts, host threads and the bus lock; record and
  replay, traces and sampling, which only observe or belong to other builds; the network, entropy, audio,
  display and keyboard devices and the opening of image files, which are host I/O; the monitor and
  debugger; loading of images and device trees. Each component of the repository is listed with its status
  in the manifest.
\<close>

end
